(* ===== verification/Prelude.thy ===== *)
theory Prelude
  imports Main "HOL-Library.Multiset"
begin

section \<open>Shared vocabulary: ordered guards, stable sorting, prefix codes\<close>

text \<open>
  What every other theory of the development builds on:
  \<^item> the fact collections of the development (\<open>js_eval\<close> evaluates the string constants,
    \<open>guard_simps\<close> opens a chain of early returns);
  \<^item> \<open>js_sort\<close>, the stable \<open>Array.prototype.sort\<close>, and the interface
    \<open>consistent_comparator\<close> a comparison function has to meet for its result to be
    determined by the multiset of its input;
  \<^item> \<open>prefix_code\<close>, the interface of a self-delimiting encoding: two encodings that are
    followed by arbitrary text agree only if the encoded values agree.
\<close>

named_theorems js_eval \<open>definitions that evaluate string constants\<close>
named_theorems guard_simps \<open>equations that open a chain of early returns\<close>

subsection \<open>First failure of a list of checks\<close>

text \<open>
  A loop that returns at its first failing element: \<open>first_error f xs\<close> is the first
  \<open>Some\<close> among \<open>f x\<close>, in the order of the list, and \<open>None\<close> when the loop runs to its
  end. \<open>or_else\<close> is the same for two statements in sequence.
\<close>

fun first_error :: "('a \<Rightarrow> 'e option) \<Rightarrow> 'a list \<Rightarrow> 'e option" where
  "first_error f [] = None"
| "first_error f (x # xs) = (case f x of Some e \<Rightarrow> Some e | None \<Rightarrow> first_error f xs)"

definition or_else :: "'e option \<Rightarrow> 'e option \<Rightarrow> 'e option" where
  "or_else a b = (case a of Some e \<Rightarrow> Some e | None \<Rightarrow> b)"

lemma or_else_simps [simp, guard_simps]:
  "or_else (Some e) b = Some e" "or_else None b = b" "or_else a None = a"
  by (auto simp: or_else_def split: option.splits)

lemma or_else_None [simp, guard_simps]: "or_else a b = None \<longleftrightarrow> a = None \<and> b = None"
  by (auto simp: or_else_def split: option.splits)

lemma first_error_None [simp, guard_simps]:
  "first_error f xs = None \<longleftrightarrow> (\<forall>x \<in> set xs. f x = None)"
  by (induction xs) (auto split: option.splits)

lemma first_error_append: "first_error f (xs @ ys) = or_else (first_error f xs) (first_error f ys)"
  by (induction xs) (auto split: option.splits)

text \<open>
  A chain of guards \<open>if c then Inl e else \<dots>\<close> that ends in \<open>Inr y\<close> passed every guard; the same
  for the results of fallible calls that are propagated, and for absent values.
\<close>

lemma guard_Inr [guard_simps]:
  "(if c then Inl e else m) = Inr y \<longleftrightarrow> \<not> c \<and> m = Inr y"
  "(if c then m else Inl e) = Inr y \<longleftrightarrow> c \<and> m = Inr y"
  by auto

lemma bind_Inr [guard_simps]:
  "(case m of Inl e \<Rightarrow> Inl (h e) | Inr x \<Rightarrow> g x) = Inr y \<longleftrightarrow> (\<exists>x. m = Inr x \<and> g x = Inr y)"
  by (auto split: sum.splits)

lemma bind_Inr_same [guard_simps]:
  "case_sum Inl g m = Inr y \<longleftrightarrow> (\<exists>x. m = Inr x \<and> g x = Inr y)"
  by (auto split: sum.splits)

lemma opt_Inr [guard_simps]:
  "(case o1 of None \<Rightarrow> Inl e | Some x \<Rightarrow> g x) = Inr y \<longleftrightarrow> (\<exists>x. o1 = Some x \<and> g x = Inr y)"
  "(case o1 of None \<Rightarrow> m | Some x \<Rightarrow> Inl (h x)) = Inr y \<longleftrightarrow> o1 = None \<and> m = Inr y"
  by (auto split: option.splits)

lemma opt_Some [guard_simps]:
  "(case o1 of None \<Rightarrow> None | Some x \<Rightarrow> g x) = Some y \<longleftrightarrow> (\<exists>x. o1 = Some x \<and> g x = Some y)"
  by (auto split: option.splits)

lemma guard_None [guard_simps]:
  "(if c then Some e else m) = None \<longleftrightarrow> \<not> c \<and> m = None"
  "(if c then m else Some e) = None \<longleftrightarrow> c \<and> m = None"
  "(if c then None else m') = Some y \<longleftrightarrow> \<not> c \<and> m' = Some y"
  by auto

text \<open>The index of an element, for the loops that report it.\<close>

definition indexed :: "'a list \<Rightarrow> (nat \<times> 'a) list" where
  "indexed xs = zip [0..<length xs] xs"

lemma indexed_Nil [simp]: "indexed [] = []"
  by (simp add: indexed_def)

lemma map_snd_indexed [simp]: "map snd (indexed xs) = xs"
  by (simp add: indexed_def)

lemma length_indexed [simp]: "length (indexed xs) = length xs"
  by (simp add: indexed_def)

lemma in_set_indexed: "(i, x) \<in> set (indexed xs) \<longleftrightarrow> i < length xs \<and> xs ! i = x"
  by (auto simp: indexed_def set_zip intro!: exI [of _ i])

lemma ball_indexed: "(\<forall>p \<in> set (indexed xs). P p) \<longleftrightarrow> (\<forall>i < length xs. P (i, xs ! i))"
  by (auto simp: in_set_indexed)

text \<open>Reading an array out of range gives \<open>undefined\<close>.\<close>

definition nth_opt :: "'a list \<Rightarrow> nat \<Rightarrow> 'a option" where
  "nth_opt xs i = (if i < length xs then Some (xs ! i) else None)"

subsection \<open>Stable sorting\<close>

text \<open>
  \<open>Array.prototype.sort\<close> with a comparison function is required to be stable. For a
  comparison function that is consistent on the elements (below) the result is then
  determined, whichever algorithm the engine runs; insertion from the right is one.
\<close>

fun js_insert :: "('a \<Rightarrow> 'a \<Rightarrow> int) \<Rightarrow> 'a \<Rightarrow> 'a list \<Rightarrow> 'a list" where
  "js_insert cmp x [] = [x]"
| "js_insert cmp x (y # ys) = (if cmp x y \<le> 0 then x # y # ys else y # js_insert cmp x ys)"

fun js_sort :: "('a \<Rightarrow> 'a \<Rightarrow> int) \<Rightarrow> 'a list \<Rightarrow> 'a list" where
  "js_sort cmp [] = []"
| "js_sort cmp (x # xs) = js_insert cmp x (js_sort cmp xs)"

lemma mset_js_insert [simp]: "mset (js_insert cmp x xs) = add_mset x (mset xs)"
  by (induction xs) auto

lemma mset_js_sort [simp]: "mset (js_sort cmp xs) = mset xs"
  by (induction xs) auto

lemma set_js_sort [simp]: "set (js_sort cmp xs) = set xs"
  by (metis mset_js_sort set_mset_mset)

lemma length_js_sort [simp]: "length (js_sort cmp xs) = length xs"
  by (metis mset_js_sort size_mset)

lemma js_insert_ne_Nil [simp]: "js_insert cmp x xs \<noteq> []"
  by (cases xs) auto

lemma js_sort_eq_Nil [simp]: "js_sort cmp xs = [] \<longleftrightarrow> xs = []"
  by (metis length_0_conv length_js_sort)

lemma distinct_map_js_sort: "distinct (map f (js_sort cmp xs)) \<longleftrightarrow> distinct (map f xs)"
  by (rule mset_eq_imp_distinct_iff) simp

text \<open>
  The contract of a comparison function on the values it is called with: sign symmetry and
  transitivity. \<open>D\<close> is the set of the values for which the code establishes it (after the
  range checks, for instance).
\<close>

locale consistent_comparator =
  fixes cmp :: "'a \<Rightarrow> 'a \<Rightarrow> int" and D :: "'a set"
  assumes cmp_refl: "x \<in> D \<Longrightarrow> cmp x x = 0"
    and cmp_flip: "x \<in> D \<Longrightarrow> y \<in> D \<Longrightarrow> cmp x y \<le> 0 \<longleftrightarrow> 0 \<le> cmp y x"
    and cmp_trans: "x \<in> D \<Longrightarrow> y \<in> D \<Longrightarrow> z \<in> D \<Longrightarrow>
       cmp x y \<le> 0 \<Longrightarrow> cmp y z \<le> 0 \<Longrightarrow> cmp x z \<le> 0"
begin

lemma cmp_total: "x \<in> D \<Longrightarrow> y \<in> D \<Longrightarrow> cmp x y \<le> 0 \<or> cmp y x \<le> 0"
  using cmp_flip [of x y] by linarith

lemma sorted_js_insert:
  assumes "x \<in> D" "set ys \<subseteq> D" "sorted_wrt (\<lambda>a b. cmp a b \<le> 0) ys"
  shows "sorted_wrt (\<lambda>a b. cmp a b \<le> 0) (js_insert cmp x ys)"
  using assms
proof (induction ys)
  case Nil
  then show ?case by simp
next
  case (Cons y ys)
  show ?case
  proof (cases "cmp x y \<le> 0")
    case True
    with Cons.prems show ?thesis by (auto intro: cmp_trans)
  next
    case False
    with Cons.prems have "cmp y x \<le> 0" using cmp_total [of x y] by auto
    moreover have "set (js_insert cmp x ys) = insert x (set ys)"
      by (metis mset_js_insert set_mset_add_mset_insert set_mset_mset)
    ultimately show ?thesis using Cons False by auto
  qed
qed

lemma sorted_js_sort:
  "set xs \<subseteq> D \<Longrightarrow> sorted_wrt (\<lambda>a b. cmp a b \<le> 0) (js_sort cmp xs)"
  by (induction xs) (auto intro!: sorted_js_insert)

lemma sorted_unique:
  assumes "set xs \<subseteq> D" "mset xs = mset ys"
    and "sorted_wrt (\<lambda>a b. cmp a b \<le> 0) xs" "sorted_wrt (\<lambda>a b. cmp a b \<le> 0) ys"
    and "\<And>a b. a \<in> set xs \<Longrightarrow> b \<in> set xs \<Longrightarrow> cmp a b \<le> 0 \<Longrightarrow> cmp b a \<le> 0 \<Longrightarrow> a = b"
  shows "xs = ys"
  using assms
proof (induction xs arbitrary: ys)
  case Nil
  then show ?case by simp
next
  case (Cons x xs)
  from Cons.prems(2) obtain y ys' where ys: "ys = y # ys'"
    by (cases ys) auto
  have sets: "set (x # xs) = set (y # ys')"
    using Cons.prems(2) unfolding ys by (metis set_mset_mset)
  have "cmp x y \<le> 0"
  proof (cases "x = y")
    case True
    with Cons.prems(1) show ?thesis using cmp_refl by simp
  next
    case False
    with sets have "y \<in> set xs" by auto
    with Cons.prems(3) show ?thesis by simp
  qed
  moreover have "cmp y x \<le> 0"
  proof (cases "x = y")
    case True
    with Cons.prems(1) show ?thesis using cmp_refl by simp
  next
    case False
    with sets have "x \<in> set ys'" by auto
    with Cons.prems(4) show ?thesis by (simp add: ys)
  qed
  ultimately have xy: "x = y"
    using Cons.prems(5) [of x y] sets by auto
  have "xs = ys'"
  proof (rule Cons.IH)
    show "set xs \<subseteq> D" using Cons.prems(1) by simp
    show "mset xs = mset ys'" using Cons.prems(2) xy by (simp add: ys)
    show "sorted_wrt (\<lambda>a b. cmp a b \<le> 0) xs" using Cons.prems(3) by simp
    show "sorted_wrt (\<lambda>a b. cmp a b \<le> 0) ys'" using Cons.prems(4) by (simp add: ys)
    show "\<And>a b. a \<in> set xs \<Longrightarrow> b \<in> set xs \<Longrightarrow> cmp a b \<le> 0 \<Longrightarrow> cmp b a \<le> 0 \<Longrightarrow> a = b"
      using Cons.prems(5) by simp
  qed
  with xy ys show ?case by simp
qed

lemma js_sort_perm:
  assumes "set xs \<subseteq> D" "mset xs = mset ys"
    and "\<And>a b. a \<in> set xs \<Longrightarrow> b \<in> set xs \<Longrightarrow> cmp a b \<le> 0 \<Longrightarrow> cmp b a \<le> 0 \<Longrightarrow> a = b"
  shows "js_sort cmp xs = js_sort cmp ys"
proof (rule sorted_unique)
  have "set ys \<subseteq> D" using assms(1,2) by (metis set_mset_mset)
  then show "sorted_wrt (\<lambda>a b. cmp a b \<le> 0) (js_sort cmp ys)" by (rule sorted_js_sort)
qed (use assms sorted_js_sort in auto)

lemma js_sort_sorted_id:
  assumes "set xs \<subseteq> D" "sorted_wrt (\<lambda>a b. cmp a b \<le> 0) xs"
  shows "js_sort cmp xs = xs"
  using assms
proof (induction xs)
  case (Cons x xs)
  then have "js_sort cmp xs = xs" by simp
  with Cons.prems show ?case by (cases xs) auto
qed simp

end

subsection \<open>Self-delimiting encodings\<close>

locale prefix_code =
  fixes enc :: "'a \<Rightarrow> 'b list" and D :: "'a set"
  assumes enc_prefix: "x \<in> D \<Longrightarrow> y \<in> D \<Longrightarrow> enc x @ r = enc y @ r' \<Longrightarrow> x = y \<and> r = r'"
begin

lemma enc_inj: "x \<in> D \<Longrightarrow> y \<in> D \<Longrightarrow> enc x = enc y \<Longrightarrow> x = y"
  using enc_prefix [of x y "[]" "[]"] by simp

lemma enc_tail: "x \<in> D \<Longrightarrow> enc x @ r = enc x @ r' \<Longrightarrow> r = r'"
  by simp

text \<open>A sequence of encodings of known length is again determined by its text.\<close>

lemma concat_enc:
  assumes "set xs \<subseteq> D" "set ys \<subseteq> D" "length xs = length ys"
    and "concat (map enc xs) @ r = concat (map enc ys) @ r'"
  shows "xs = ys \<and> r = r'"
  using assms
proof (induction xs arbitrary: ys)
  case Nil
  then show ?case by simp
next
  case (Cons x xs)
  then obtain y ys' where ys: "ys = y # ys'" by (cases ys) auto
  from Cons.prems have "enc x @ (concat (map enc xs) @ r) = enc y @ (concat (map enc ys') @ r')"
    by (simp add: ys)
  then have "x = y \<and> concat (map enc xs) @ r = concat (map enc ys') @ r'"
    using Cons.prems by (intro enc_prefix) (auto simp: ys)
  then show ?case using Cons.IH [of ys'] Cons.prems by (simp add: ys)
qed

end

subsection \<open>Small facts on lists and sums\<close>

lemma distinct_map_of_rev:
  "distinct (map f xs) \<Longrightarrow> x \<in> set xs \<Longrightarrow> map_of (rev (map (\<lambda>b. (f b, b)) xs)) (f x) = Some x"
proof -
  assume d: "distinct (map f xs)" and x: "x \<in> set xs"
  have "map fst (rev (map (\<lambda>b. (f b, b)) xs)) = rev (map f xs)"
    by (simp add: rev_map [symmetric] comp_def)
  with d have "distinct (map fst (rev (map (\<lambda>b. (f b, b)) xs)))" by simp
  moreover from x have "(f x, x) \<in> set (rev (map (\<lambda>b. (f b, b)) xs))" by auto
  ultimately show ?thesis by simp
qed

lemma map_of_rev_SomeD:
  "map_of (rev (map (\<lambda>b. (f b, b)) xs)) k = Some x \<Longrightarrow> x \<in> set xs \<and> f x = k"
  by (drule map_of_SomeD) auto

lemma sum_list_nonneg_int: "(\<And>x. x \<in> set xs \<Longrightarrow> 0 \<le> (x :: int)) \<Longrightarrow> 0 \<le> sum_list xs"
  by (induction xs) auto

end
