(* ===== verification/JsText.thy ===== *)
theory JsText
  imports Prelude
begin

section \<open>Strings of the runtime: code units, code points, UTF-8, decimal digits\<close>

text \<open>
  A string of the language is a sequence of 16-bit code units, here a list of numbers
  (\<open>wf_jstr\<close> says they are below 65536; no function of the code builds others). This theory
  holds what the code uses of the language's string library: \<open>trim\<close>, iteration by code
  points, \<open>Buffer.from(s, 'utf8')\<close>, decimal formatting of integers, and the character
  classes of the regular expressions. Unicode normalisation and SHA-256 are not here: the
  definitions that need them take them as arguments (\<open>nfc\<close>, \<open>sha\<close>).
\<close>

type_synonym jstr = "nat list"
type_synonym bytes = "nat list"

definition js :: "string \<Rightarrow> jstr" where
  "js s = map of_char s"

lemma js_simps [js_eval]: "js [] = []" "js (c # cs) = of_char c # js cs"
  by (simp_all add: js_def)

lemma js_inj [simp]: "js s = js t \<longleftrightarrow> s = t"
  by (auto simp: js_def inj_map_eq_map inj_on_def of_char_eq_iff)

lemma length_js [simp]: "length (js s) = length s"
  by (simp add: js_def)

lemma js_eq_Nil [simp]: "js s = [] \<longleftrightarrow> s = []" "[] = js s \<longleftrightarrow> s = []"
  by (auto simp: js_def)

lemma js_append: "js (s @ t) = js s @ js t"
  by (simp add: js_def)

definition wf_jstr :: "jstr \<Rightarrow> bool" where
  "wf_jstr s \<longleftrightarrow> list_all (\<lambda>u. u < 65536) s"

lemma wf_jstr_simps [simp]:
  "wf_jstr []" "wf_jstr (u # s) \<longleftrightarrow> u < 65536 \<and> wf_jstr s"
  "wf_jstr (s @ t) \<longleftrightarrow> wf_jstr s \<and> wf_jstr t"
  by (auto simp: wf_jstr_def)

lemma wf_jstr_replicate [simp]: "u < 65536 \<Longrightarrow> wf_jstr (replicate n u)"
  by (simp add: wf_jstr_def list_all_iff)

lemma of_char_less [simp]: "of_char c < (256::nat)"
proof -
  have "of_char c \<in> range (of_char :: char \<Rightarrow> nat)" by simp
  then show ?thesis unfolding range_nat_of_char by simp
qed

lemma wf_js [simp]: "wf_jstr (js s)"
  by (auto simp: wf_jstr_def js_def list_all_iff intro: less_trans [OF of_char_less])

subsection \<open>White space and trim\<close>

text \<open>WhiteSpace and LineTerminator of ECMAScript.\<close>

definition js_whitespace :: "nat \<Rightarrow> bool" where
  "js_whitespace u \<longleftrightarrow>
     (9 \<le> u \<and> u \<le> 13) \<or> u = 32 \<or> u = 160 \<or> u = 5760 \<or> (8192 \<le> u \<and> u \<le> 8202) \<or>
     u = 8232 \<or> u = 8233 \<or> u = 8239 \<or> u = 8287 \<or> u = 12288 \<or> u = 65279"

definition js_trim :: "jstr \<Rightarrow> jstr" where
  "js_trim s = rev (dropWhile js_whitespace (rev (dropWhile js_whitespace s)))"

lemma dropWhile_id_iff: "dropWhile P xs = xs \<longleftrightarrow> xs = [] \<or> \<not> P (hd xs)"
proof (cases xs)
  case (Cons x ys)
  have "length (dropWhile P ys) \<le> length ys" by (rule length_dropWhile_le)
  then have "dropWhile P ys \<noteq> x # ys" by auto
  then show ?thesis by (simp add: Cons)
qed simp

lemma js_trim_eq_iff:
  "js_trim s = s \<longleftrightarrow> s = [] \<or> (\<not> js_whitespace (hd s) \<and> \<not> js_whitespace (last s))"
proof (cases "s = []")
  case True
  then show ?thesis by (simp add: js_trim_def)
next
  case False
  let ?d = "dropWhile js_whitespace s"
  have "length (js_trim s) \<le> length ?d" "length ?d \<le> length s"
    using length_dropWhile_le [of js_whitespace "rev ?d"] length_dropWhile_le [of js_whitespace s]
    by (simp_all add: js_trim_def)
  moreover have "?d = s" if "length ?d = length s"
    using that by (metis append_eq_conv_conj dropWhile_eq_drop length_drop diff_is_0_eq'
        drop0 length_takeWhile_le cancel_comm_monoid_add_class.diff_cancel diff_diff_cancel)
  ultimately have "js_trim s = s \<longleftrightarrow> ?d = s \<and> js_trim s = s" by (metis le_antisym)
  also have "\<dots> \<longleftrightarrow> ?d = s \<and> dropWhile js_whitespace (rev s) = rev s"
    by (metis js_trim_def rev_rev_ident)
  also have "\<dots> \<longleftrightarrow> \<not> js_whitespace (hd s) \<and> \<not> js_whitespace (last s)"
    using False by (simp add: dropWhile_id_iff hd_rev)
  finally show ?thesis using False by simp
qed

text \<open>The order of the relational operators on strings: by code units.\<close>

fun js_str_less :: "jstr \<Rightarrow> jstr \<Rightarrow> bool" where
  "js_str_less s [] = False"
| "js_str_less [] (v # t) = True"
| "js_str_less (u # s) (v # t) = (u < v \<or> (u = v \<and> js_str_less s t))"

lemma js_str_less_irrefl [simp]: "\<not> js_str_less s s"
  by (induction s) auto

lemma js_str_less_append_same [simp]: "js_str_less (p @ s) (p @ t) = js_str_less s t"
  by (induction p) auto

lemma js_str_less_trans: "js_str_less s t \<Longrightarrow> js_str_less t u \<Longrightarrow> js_str_less s u"
proof (induction s t arbitrary: u rule: js_str_less.induct)
  case (2 v t)
  then show ?case by (cases u) auto
next
  case (3 a s b t)
  then show ?case by (cases u) auto
qed simp

lemma js_str_less_linear: "js_str_less s t \<or> s = t \<or> js_str_less t s"
proof (induction s t rule: js_str_less.induct)
  case (1 s)
  then show ?case by (cases s) auto
qed auto

lemma js_str_less_asym: "js_str_less s t \<Longrightarrow> \<not> js_str_less t s"
  using js_str_less_trans js_str_less_irrefl by blast

subsection \<open>Code points\<close>

definition high_surrogate :: "nat \<Rightarrow> bool" where
  "high_surrogate u \<longleftrightarrow> 55296 \<le> u \<and> u \<le> 56319"

definition low_surrogate :: "nat \<Rightarrow> bool" where
  "low_surrogate u \<longleftrightarrow> 56320 \<le> u \<and> u \<le> 57343"

definition surrogate :: "nat \<Rightarrow> bool" where
  "surrogate u \<longleftrightarrow> 55296 \<le> u \<and> u \<le> 57343"

fun code_points :: "jstr \<Rightarrow> nat list" where
  "code_points [] = []"
| "code_points [u] = [u]"
| "code_points (u # v # s) =
     (if high_surrogate u \<and> low_surrogate v
      then (65536 + (u - 55296) * 1024 + (v - 56320)) # code_points s
      else u # code_points (v # s))"

text \<open>The class \<open>[\u0000-\u001f\u007f-\u009f\ud800-\udfff]\<close> of the flag-u patterns.\<close>

definition control_or_unpaired_surrogate :: "jstr \<Rightarrow> bool" where
  "control_or_unpaired_surrogate s \<longleftrightarrow>
     list_ex (\<lambda>c. c \<le> 31 \<or> (127 \<le> c \<and> c \<le> 159) \<or> surrogate c) (code_points s)"

lemma code_points_ascii: "list_all (\<lambda>u. u < 128) s \<Longrightarrow> code_points s = s"
  by (induction s rule: code_points.induct) (auto simp: high_surrogate_def)

subsection \<open>UTF-8\<close>

definition utf8_code_point :: "nat \<Rightarrow> bytes" where
  "utf8_code_point c =
     (if c < 128 then [c]
      else if c < 2048 then [192 + c div 64, 128 + c mod 64]
      else if c < 65536 then [224 + c div 4096, 128 + c div 64 mod 64, 128 + c mod 64]
      else [240 + c div 262144, 128 + c div 4096 mod 64, 128 + c div 64 mod 64, 128 + c mod 64])"

text \<open>\<open>Buffer.from(s, 'utf8')\<close>: an unpaired surrogate is written as U+FFFD.\<close>

definition utf8 :: "jstr \<Rightarrow> bytes" where
  "utf8 s = concat (map (\<lambda>c. utf8_code_point (if surrogate c then 65533 else c)) (code_points s))"

lemma utf8_ascii: "list_all (\<lambda>u. u < 128) s \<Longrightarrow> utf8 s = s"
proof -
  assume s: "list_all (\<lambda>u. u < 128) s"
  have "concat (map (\<lambda>c. utf8_code_point (if surrogate c then 65533 else c)) s) = s"
    using s by (induction s) (auto simp: utf8_code_point_def surrogate_def)
  with s show ?thesis by (simp add: utf8_def code_points_ascii)
qed

lemma utf8_bytes: "b \<in> set (utf8 s) \<Longrightarrow> wf_jstr s \<Longrightarrow> b < 256"
proof -
  assume b: "b \<in> set (utf8 s)" and wf: "wf_jstr s"
  have cps: "\<forall>c \<in> set (code_points s). c < 1114112"
    using wf
    by (induction s rule: code_points.induct)
       (auto simp: high_surrogate_def low_surrogate_def)
  have "\<forall>x \<in> set (utf8_code_point c). x < 256" if "c < 1114112" for c
    using that by (auto simp: utf8_code_point_def)
  then have step: "\<forall>x \<in> set (utf8_code_point (if surrogate c then 65533 else c)). x < 256"
    if "c < 1114112" for c
    using that \<open>\<And>c. c < 1114112 \<Longrightarrow> \<forall>x \<in> set (utf8_code_point c). x < 256\<close> [of 65533] by simp
  from b obtain c where "c \<in> set (code_points s)"
    "b \<in> set (utf8_code_point (if surrogate c then 65533 else c))"
    by (auto simp: utf8_def)
  with cps step show ?thesis by blast
qed

text \<open>
  Injectivity. The first byte of a code point determines how many follow, so the encoding of
  one code point is self-delimiting; and a string without unpaired surrogates is determined
  by its code points.
\<close>

lemma base64_eq: "(a::nat) div 64 = b div 64 \<Longrightarrow> a mod 64 = b mod 64 \<Longrightarrow> a = b"
  by (metis div_mult_mod_eq)

lemma div_64_64: "(c::nat) div 4096 = c div 64 div 64" "(c::nat) div 262144 = c div 64 div 64 div 64"
  by (simp_all add: div_mult2_eq [symmetric])

definition utf8_len :: "nat \<Rightarrow> nat" where
  "utf8_len b = (if b < 128 then 1 else if b < 224 then 2 else if b < 240 then 3 else 4)"

lemma utf8_code_point_len: "length (utf8_code_point c) = utf8_len (hd (utf8_code_point c))"
proof -
  consider "c < 128" | "128 \<le> c" "c < 2048" | "2048 \<le> c" "c < 65536" | "65536 \<le> c" by linarith
  then show ?thesis
  proof cases
    case 2
    then have "c div 64 < 32" by simp
    with 2 show ?thesis by (simp add: utf8_code_point_def utf8_len_def)
  next
    case 3
    then have "c div 4096 < 16" by simp
    with 3 show ?thesis by (simp add: utf8_code_point_def utf8_len_def)
  qed (simp_all add: utf8_code_point_def utf8_len_def)
qed

lemma base64_eq3:
  assumes "(a::nat) div 4096 = b div 4096" "a div 64 mod 64 = b div 64 mod 64" "a mod 64 = b mod 64"
  shows "a = b"
proof -
  from assms(1,2) have "a div 64 = b div 64" unfolding div_64_64 by (rule base64_eq)
  then show ?thesis using assms(3) by (rule base64_eq)
qed

lemma base64_eq4:
  assumes "(a::nat) div 262144 = b div 262144" "a div 4096 mod 64 = b div 4096 mod 64"
    "a div 64 mod 64 = b div 64 mod 64" "a mod 64 = b mod 64"
  shows "a = b"
proof -
  from assms(1) have "a div 4096 div 64 = b div 4096 div 64"
    by (simp only: div_64_64)
  then have "a div 4096 = b div 4096" using assms(2) by (rule base64_eq)
  then show ?thesis using assms(3,4) by (rule base64_eq3)
qed

lemma utf8_code_point_inj: "utf8_code_point c = utf8_code_point d \<Longrightarrow> c = d"
proof -
  assume eq: "utf8_code_point c = utf8_code_point d"
  have size: "length (utf8_code_point x) =
      (if x < 128 then 1 else if x < 2048 then 2 else if x < 65536 then 3 else 4)" for x
    by (simp add: utf8_code_point_def)
  from eq have len: "length (utf8_code_point c) = length (utf8_code_point d)" by simp
  consider "c < 128" | "128 \<le> c" "c < 2048" | "2048 \<le> c" "c < 65536" | "65536 \<le> c" by linarith
  then show ?thesis
  proof cases
    case 1
    with len have "d < 128" by (simp add: size split: if_split_asm)
    with eq 1 show ?thesis by (simp add: utf8_code_point_def)
  next
    case 2
    with len have "128 \<le> d" "d < 2048" by (simp_all add: size split: if_split_asm)
    with eq 2 have "c div 64 = d div 64" "c mod 64 = d mod 64" by (simp_all add: utf8_code_point_def)
    then show ?thesis by (rule base64_eq)
  next
    case 3
    with len have "2048 \<le> d" "d < 65536" by (simp_all add: size split: if_split_asm)
    with eq 3 have "c div 4096 = d div 4096" "c div 64 mod 64 = d div 64 mod 64"
      "c mod 64 = d mod 64" by (simp_all add: utf8_code_point_def)
    then show ?thesis by (rule base64_eq3)
  next
    case 4
    with len have "65536 \<le> d" by (simp add: size split: if_split_asm)
    with eq 4 have "c div 262144 = d div 262144" "c div 4096 mod 64 = d div 4096 mod 64"
      "c div 64 mod 64 = d div 64 mod 64" "c mod 64 = d mod 64" by (simp_all add: utf8_code_point_def)
    then show ?thesis by (rule base64_eq4)
  qed
qed

lemma utf8_code_point_ne_Nil [simp]: "utf8_code_point c \<noteq> []"
  by (simp add: utf8_code_point_def)

lemma utf8_code_point_prefix:
  assumes "utf8_code_point c @ r = utf8_code_point d @ r'"
  shows "c = d \<and> r = r'"
proof -
  from assms have "hd (utf8_code_point c) = hd (utf8_code_point d)"
    by (metis hd_append2 utf8_code_point_ne_Nil)
  then have "length (utf8_code_point c) = length (utf8_code_point d)"
    by (simp add: utf8_code_point_len)
  with assms have "utf8_code_point c = utf8_code_point d \<and> r = r'" by simp
  then show ?thesis by (auto dest: utf8_code_point_inj)
qed

interpretation utf8_cp: prefix_code utf8_code_point UNIV
  by unfold_locales (rule utf8_code_point_prefix)

lemma utf8_code_points_inj:
  "concat (map utf8_code_point cs) = concat (map utf8_code_point ds) \<Longrightarrow> cs = ds"
proof (induction cs arbitrary: ds)
  case Nil
  then show ?case by (cases ds) auto
next
  case (Cons c cs)
  then obtain d ds' where ds: "ds = d # ds'" by (cases ds) auto
  from Cons.prems have "c = d \<and> concat (map utf8_code_point cs) = concat (map utf8_code_point ds')"
    by (intro utf8_cp.enc_prefix) (auto simp: ds)
  with Cons show ?case by (auto simp: ds)
qed

text \<open>No unpaired surrogate: what \<open>isWellFormed\<close> of the language says.\<close>

definition well_formed_utf16 :: "jstr \<Rightarrow> bool" where
  "well_formed_utf16 s \<longleftrightarrow> wf_jstr s \<and> list_all (\<lambda>c. \<not> surrogate c) (code_points s)"

definition code_units :: "nat \<Rightarrow> jstr" where
  "code_units c =
     (if c < 65536 then [c] else [55296 + (c - 65536) div 1024, 56320 + (c - 65536) mod 1024])"

lemma code_units_code_points: "wf_jstr s \<Longrightarrow> concat (map code_units (code_points s)) = s"
proof (induction s rule: code_points.induct)
  case (3 u v s)
  show ?case
  proof (cases "high_surrogate u \<and> low_surrogate v")
    case True
    then have u: "u = 55296 + (u - 55296)" and v: "v = 56320 + (v - 56320)" "v - 56320 < 1024"
      by (auto simp: high_surrogate_def low_surrogate_def)
    have "code_units (65536 + a * 1024 + b) = [55296 + a, 56320 + b]" if "b < 1024" for a b
      using that by (simp add: code_units_def)
    from this [OF v(2), of "u - 55296"] u v(1)
    have "code_units (65536 + (u - 55296) * 1024 + (v - 56320)) = [u, v]" by presburger
    with True 3 show ?thesis by simp
  next
    case False
    have "concat (map code_units (code_points (v # s))) = v # s"
      using "3.IH"(2) [OF False] "3.prems" by simp
    moreover have "code_units u = [u]" using "3.prems" by (simp add: code_units_def)
    moreover from False have "code_points (u # v # s) = u # code_points (v # s)" by auto
    ultimately show ?thesis by simp
  qed
qed (simp_all add: code_units_def)

lemma code_points_inj:
  "wf_jstr s \<Longrightarrow> wf_jstr t \<Longrightarrow> code_points s = code_points t \<Longrightarrow> s = t"
  by (metis code_units_code_points)

lemma utf8_inj:
  assumes "well_formed_utf16 s" "well_formed_utf16 t" "utf8 s = utf8 t"
  shows "s = t"
proof -
  have plain: "utf8 x = concat (map utf8_code_point (code_points x))" if "well_formed_utf16 x" for x
    using that unfolding utf8_def well_formed_utf16_def
    by (intro arg_cong [where f = concat] map_cong) (auto simp: list_all_iff)
  from assms have "concat (map utf8_code_point (code_points s))
      = concat (map utf8_code_point (code_points t))" by (simp add: plain)
  then have "code_points s = code_points t"
    by (rule utf8_code_points_inj)
  with assms show ?thesis by (auto simp: well_formed_utf16_def intro: code_points_inj)
qed

end
