(* ===== verification/JsNumber.thy ===== *)
theory JsNumber
  imports JsText Complex_Main "HOL-Library.Log_Nat"
begin

section \<open>Integers as decimal text, doubles, and the values of the runtime\<close>

text \<open>
  \<^item> \<open>BigInt(s)\<close> and \<open>n.toString()\<close> for the unsigned decimal integers the code accepts
    (\<open>digits_val\<close>, \<open>js_of_nat\<close>), with their round trip;
  \<^item> the type \<open>jsnum\<close> of the numbers of the language: a finite double is the rational it
    denotes (the two zeros, which nothing here distinguishes, are one value);
  \<^item> \<open>jsval\<close>, what a variable of type \<open>unknown\<close> may hold.
\<close>

subsection \<open>Decimal integers\<close>

fun js_of_nat :: "nat \<Rightarrow> jstr" where
  "js_of_nat n = (if n < 10 then [48 + n] else js_of_nat (n div 10) @ [48 + n mod 10])"

declare js_of_nat.simps [simp del]

definition js_of_int :: "int \<Rightarrow> jstr" where
  "js_of_int i = (if i < 0 then 45 # js_of_nat (nat (- i)) else js_of_nat (nat i))"

definition js_digit :: "nat \<Rightarrow> bool" where
  "js_digit u \<longleftrightarrow> 48 \<le> u \<and> u \<le> 57"

definition digits_val :: "jstr \<Rightarrow> nat" where
  "digits_val s = foldl (\<lambda>a u. 10 * a + (u - 48)) 0 s"

text \<open>The pattern \<open>/^(0|[1-9][0-9]*)$/\<close>.\<close>

definition unsigned_decimal_integer :: "jstr \<Rightarrow> bool" where
  "unsigned_decimal_integer s \<longleftrightarrow>
     s = [48] \<or> (case s of [] \<Rightarrow> False | u # r \<Rightarrow> 49 \<le> u \<and> u \<le> 57 \<and> list_all js_digit r)"

lemma digits_val_snoc [simp]: "digits_val (s @ [u]) = 10 * digits_val s + (u - 48)"
  by (simp add: digits_val_def)

lemma js_of_nat_ne_Nil [simp]: "js_of_nat n \<noteq> []"
  by (subst js_of_nat.simps) simp

lemma digits_val_js_of_nat [simp]: "digits_val (js_of_nat n) = n"
proof (induction n rule: js_of_nat.induct)
  case (1 n)
  show ?case
  proof (cases "n < 10")
    case True
    then show ?thesis by (simp add: js_of_nat.simps [of n] digits_val_def)
  next
    case False
    with 1 show ?thesis by (simp add: js_of_nat.simps [of n])
  qed
qed

lemma js_of_nat_inj [simp]: "js_of_nat m = js_of_nat n \<longleftrightarrow> m = n"
  by (metis digits_val_js_of_nat)

lemma js_of_nat_digits: "list_all js_digit (js_of_nat n)"
proof (induction n rule: js_of_nat.induct)
  case (1 n)
  then show ?case
    by (cases "n < 10") (auto simp: js_of_nat.simps [of n] js_digit_def)
qed

lemma js_of_nat_hd: "0 < n \<Longrightarrow> 49 \<le> hd (js_of_nat n)"
proof (induction n rule: js_of_nat.induct)
  case (1 n)
  then show ?case
    by (cases "n < 10") (auto simp: js_of_nat.simps [of n])
qed

lemma unsigned_decimal_js_of_nat [simp]: "unsigned_decimal_integer (js_of_nat n)"
proof (cases "n = 0")
  case True
  then show ?thesis by (simp add: js_of_nat.simps unsigned_decimal_integer_def)
next
  case False
  obtain u r where eq: "js_of_nat n = u # r" by (cases "js_of_nat n") auto
  with False js_of_nat_hd [of n] js_of_nat_digits [of n] show ?thesis
    by (simp add: unsigned_decimal_integer_def js_digit_def)
qed

lemma js_of_nat_digits_val_aux:
  "list_all js_digit s \<Longrightarrow> 49 \<le> u \<Longrightarrow> u \<le> 57 \<Longrightarrow>
   0 < digits_val (u # s) \<and> js_of_nat (digits_val (u # s)) = u # s"
proof (induction s rule: rev_induct)
  case Nil
  then show ?case by (simp add: digits_val_def js_of_nat.simps)
next
  case (snoc d s)
  then have IH: "0 < digits_val (u # s)" "js_of_nat (digits_val (u # s)) = u # s" by auto
  from snoc.prems have d: "48 \<le> d" "d - 48 < 10" by (auto simp: js_digit_def)
  have val: "digits_val (u # s @ [d]) = 10 * digits_val (u # s) + (d - 48)"
    using digits_val_snoc [of "u # s" d] by simp
  define e where "e = d - 48"
  with d have e: "e < 10" "48 + e = d" by auto
  from val have val': "digits_val (u # s @ [d]) = 10 * digits_val (u # s) + e" by (simp add: e_def)
  with IH e have "\<not> digits_val (u # s @ [d]) < 10"
    "digits_val (u # s @ [d]) div 10 = digits_val (u # s)"
    "digits_val (u # s @ [d]) mod 10 = e" by simp_all
  then have "js_of_nat (digits_val (u # s @ [d])) = js_of_nat (digits_val (u # s)) @ [48 + e]"
    by (subst js_of_nat.simps) simp
  with IH e val' show ?case by simp
qed

text \<open>The decimal text the pattern accepts is the canonical text of its value.\<close>

lemma js_of_nat_digits_val: "unsigned_decimal_integer s \<Longrightarrow> js_of_nat (digits_val s) = s"
proof -
  assume s: "unsigned_decimal_integer s"
  show ?thesis
  proof (cases "s = [48]")
    case True
    then show ?thesis by (simp add: digits_val_def js_of_nat.simps)
  next
    case False
    with s obtain u r where "s = u # r" "49 \<le> u" "u \<le> 57" "list_all js_digit r"
      by (auto simp: unsigned_decimal_integer_def split: list.splits)
    then show ?thesis using js_of_nat_digits_val_aux [of r u] by simp
  qed
qed

lemma js_of_nat_ascii: "list_all (\<lambda>u. u < 128) (js_of_nat n)"
  using js_of_nat_digits [of n] by (auto simp: list_all_iff js_digit_def)

lemma wf_js_of_nat [simp]: "wf_jstr (js_of_nat n)"
  using js_of_nat_ascii [of n] by (fastforce simp: wf_jstr_def list_all_iff)

lemma js_of_int_nonneg [simp]: "0 \<le> i \<Longrightarrow> js_of_int i = js_of_nat (nat i)"
  by (simp add: js_of_int_def)

text \<open>A number that is followed by something else than a digit ends there.\<close>

lemma digits_split:
  assumes "list_all js_digit s" "list_all js_digit t" "s @ r = t @ r'"
    and "r = [] \<or> \<not> js_digit (hd r)" "r' = [] \<or> \<not> js_digit (hd r')"
  shows "s = t \<and> r = r'"
proof -
  have "takeWhile js_digit (s @ r) = s" using assms(1,4)
    by (cases r) (auto simp: takeWhile_append2 list_all_iff takeWhile_eq_all_conv)
  moreover have "takeWhile js_digit (t @ r') = t" using assms(2,5)
    by (cases r') (auto simp: takeWhile_append2 list_all_iff takeWhile_eq_all_conv)
  ultimately have "s = t" using assms(3) by metis
  with assms(3) show ?thesis by simp
qed

lemma js_of_nat_split:
  assumes "js_of_nat m @ r = js_of_nat n @ r'"
    and "r = [] \<or> \<not> js_digit (hd r)" "r' = [] \<or> \<not> js_digit (hd r')"
  shows "m = n \<and> r = r'"
  using digits_split [OF js_of_nat_digits js_of_nat_digits assms] by simp

subsection \<open>Numbers\<close>

datatype jsnum = NaN | Infinity (negative: bool) | Fin rat

definition is_integer_rat :: "rat \<Rightarrow> bool" where
  "is_integer_rat x \<longleftrightarrow> of_int \<lfloor>x\<rfloor> = x"

lemma is_integer_of_int [simp]: "is_integer_rat (of_int i)"
  by (simp add: is_integer_rat_def)

lemma is_integer_numeral [simp]:
  "is_integer_rat 0" "is_integer_rat 1" "is_integer_rat (numeral k)" "is_integer_rat (- numeral k)"
  using is_integer_of_int [of 0] is_integer_of_int [of 1] is_integer_of_int [of "numeral k"]
    is_integer_of_int [of "- numeral k"] by simp_all

text \<open>\<open>Number.isInteger\<close>, comparison (false as soon as a side is NaN) and strict equality.\<close>

definition js_is_integer :: "jsnum \<Rightarrow> bool" where
  "js_is_integer n = (case n of Fin x \<Rightarrow> is_integer_rat x | _ \<Rightarrow> False)"

definition js_less :: "jsnum \<Rightarrow> jsnum \<Rightarrow> bool" where
  "js_less a b =
     (case (a, b) of
        (Fin x, Fin y) \<Rightarrow> x < y
      | (Infinity True, Infinity False) \<Rightarrow> True
      | (Infinity True, Fin _) \<Rightarrow> True
      | (Fin _, Infinity False) \<Rightarrow> True
      | _ \<Rightarrow> False)"

definition js_num_eq :: "jsnum \<Rightarrow> jsnum \<Rightarrow> bool" where
  "js_num_eq a b \<longleftrightarrow> a = b \<and> a \<noteq> NaN"

definition js_int :: "int \<Rightarrow> jsnum" where
  "js_int i = Fin (of_int i)"

definition int_of_num :: "jsnum \<Rightarrow> int" where
  "int_of_num n = (case n of Fin x \<Rightarrow> \<lfloor>x\<rfloor> | _ \<Rightarrow> 0)"

lemma int_of_num_js_int [simp]: "int_of_num (js_int i) = i"
  by (simp add: int_of_num_def js_int_def)

lemma js_is_integer_js_int [simp]: "js_is_integer (js_int i)"
  by (simp add: js_is_integer_def js_int_def)

lemma js_is_integerD: "js_is_integer n \<Longrightarrow> n = js_int (int_of_num n)"
  by (auto simp: js_is_integer_def js_int_def int_of_num_def is_integer_rat_def split: jsnum.splits)

lemma js_less_js_int [simp]: "js_less (js_int a) (js_int b) \<longleftrightarrow> a < b"
  by (simp add: js_less_def js_int_def)

lemma js_num_eq_js_int [simp]: "js_num_eq (js_int a) (js_int b) \<longleftrightarrow> a = b"
  by (simp add: js_num_eq_def js_int_def)

lemma js_int_inj [simp]: "js_int a = js_int b \<longleftrightarrow> a = b"
  by (simp add: js_int_def)

text \<open>
  The check \<open>Number.isInteger(n) && n >= 0 && n <= max\<close> that guards every number the code
  stores, written with its negation as the code has it.
\<close>

definition js_nat_upto :: "int \<Rightarrow> jsnum \<Rightarrow> bool" where
  "js_nat_upto m n \<longleftrightarrow> js_is_integer n \<and> \<not> js_less n (js_int 0) \<and> \<not> js_less (js_int m) n"

lemma js_nat_upto_iff: "js_nat_upto m n \<longleftrightarrow> (\<exists>i. n = js_int i \<and> 0 \<le> i \<and> i \<le> m)"
proof
  assume "js_nat_upto m n"
  then have "n = js_int (int_of_num n)" "\<not> js_less n (js_int 0)" "\<not> js_less (js_int m) n"
    by (auto simp: js_nat_upto_def dest: js_is_integerD)
  then show "\<exists>i. n = js_int i \<and> 0 \<le> i \<and> i \<le> m"
    by (metis js_less_js_int linorder_not_less)
qed (auto simp: js_nat_upto_def)

subsubsection \<open>Rounding to a double\<close>

definition floor_log2 :: "rat \<Rightarrow> int" where
  "floor_log2 x =
     (let (p, q) = quotient_of x;
          e = int (floorlog 2 (nat p)) - int (floorlog 2 (nat q))
      in if 2 powi e \<le> x then e else e - 1)"

definition round_half_even :: "rat \<Rightarrow> int" where
  "round_half_even x =
     (let f = \<lfloor>x\<rfloor>; r = x - of_int f
      in if r < 1 / 2 then f else if 1 / 2 < r then f + 1 else if even f then f else f + 1)"

text \<open>
  The value of a number literal: the double nearest to the rational, ties to even, with 53 bits
  and the exponent range of binary64. Integers of at most \<open>2 ^ 53\<close> are doubles, the first case.
\<close>

definition round_double :: "rat \<Rightarrow> jsnum" where
  "round_double x =
     (if is_integer_rat x \<and> \<bar>x\<bar> \<le> 2 ^ 53 then Fin x
      else
        let a = \<bar>x\<bar>;
            u = 2 powi (max (floor_log2 a) (-1022) - 52);
            v = of_int (round_half_even (a / u)) * u
        in if 2 ^ 1024 \<le> v then Infinity (x < 0) else Fin (sgn x * v))"

lemma round_double_int [simp]: "\<bar>i\<bar> \<le> 2 ^ 53 \<Longrightarrow> round_double (of_int i) = js_int i"
proof -
  assume "\<bar>i\<bar> \<le> 2 ^ 53"
  then have "of_int \<bar>i\<bar> \<le> (of_int (2 ^ 53) :: rat)" by (simp only: of_int_le_iff)
  then show ?thesis by (simp add: round_double_def js_int_def)
qed

subsubsection \<open>Number::toString\<close>

fun log10_up :: "nat \<Rightarrow> rat \<Rightarrow> int" where
  "log10_up 0 x = 0"
| "log10_up (Suc k) x = (if x < 10 then 0 else 1 + log10_up k (x / 10))"

fun log10_down :: "nat \<Rightarrow> rat \<Rightarrow> int" where
  "log10_down 0 x = 0"
| "log10_down (Suc k) x = (if 1 \<le> x then 0 else log10_down k (x * 10) - 1)"

definition floor_log10 :: "rat \<Rightarrow> int" where
  "floor_log10 x = (if 1 \<le> x then log10_up 400 x else log10_down 400 x)"

text \<open>
  The shortest decimal of \<open>k\<close> digits that denotes the double \<open>x\<close>: \<open>Some (s, n)\<close> stands for
  \<open>s * 10 ^ (n - k)\<close>. The closer of the two neighbours is preferred.
\<close>

definition decimal_candidate :: "rat \<Rightarrow> int \<Rightarrow> nat \<Rightarrow> (nat \<times> int) option" where
  "decimal_candidate x n k =
     (let scale = 10 powi (int k - n); t = x * scale; lo = \<lfloor>t\<rfloor>; hi = lo + 1;
          ok = (\<lambda>s. round_double (of_int s / scale) = Fin x);
          order = (if t - of_int lo \<le> of_int hi - t then [lo, hi] else [hi, lo])
      in case filter ok order of
           [] \<Rightarrow> None
         | s # _ \<Rightarrow> Some (if s = 10 ^ k then (10 ^ (k - 1), n + 1) else (nat s, n)))"

fun shortest_decimal :: "rat \<Rightarrow> int \<Rightarrow> nat list \<Rightarrow> (nat \<times> int \<times> nat) option" where
  "shortest_decimal x n [] = None"
| "shortest_decimal x n (k # ks) =
     (case decimal_candidate x n k of
        Some (s, m) \<Rightarrow> Some (s, m, k)
      | None \<Rightarrow> shortest_decimal x n ks)"

definition format_decimal :: "nat \<Rightarrow> int \<Rightarrow> nat \<Rightarrow> jstr" where
  "format_decimal s n k =
     (let d = js_of_nat s in
      if int k \<le> n \<and> n \<le> 21 then d @ replicate (nat (n - int k)) 48
      else if 0 < n \<and> n \<le> 21 then take (nat n) d @ [46] @ drop (nat n) d
      else if -6 < n \<and> n \<le> 0 then [48, 46] @ replicate (nat (- n)) 48 @ d
      else
        let e = n - 1;
            mant = (if k = 1 then d else [hd d, 46] @ tl d)
        in mant @ [101] @ (if 0 \<le> e then [43] else [45]) @ js_of_nat (nat \<bar>e\<bar>))"

definition number_to_string :: "jsnum \<Rightarrow> jstr" where
  "number_to_string v =
     (case v of
        NaN \<Rightarrow> js ''NaN''
      | Infinity neg \<Rightarrow> js (if neg then ''-Infinity'' else ''Infinity'')
      | Fin x \<Rightarrow>
          if is_integer_rat x \<and> \<bar>x\<bar> \<le> 2 ^ 53 then js_of_int \<lfloor>x\<rfloor>
          else
            (if x < 0 then [45] else []) @
            (case shortest_decimal \<bar>x\<bar> (floor_log10 \<bar>x\<bar> + 1) [1..<18] of
               Some (s, n, k) \<Rightarrow> format_decimal s n k
             | None \<Rightarrow> []))"

lemma number_to_string_int: "\<bar>i\<bar> \<le> 2 ^ 53 \<Longrightarrow> number_to_string (js_int i) = js_of_int i"
proof -
  assume "\<bar>i\<bar> \<le> 2 ^ 53"
  then have "of_int \<bar>i\<bar> \<le> (of_int (2 ^ 53) :: rat)" by (simp only: of_int_le_iff)
  then show ?thesis by (simp add: number_to_string_def js_int_def)
qed

subsection \<open>Values of type unknown\<close>

datatype jsval =
    VUndef
  | VNull
  | VBool bool
  | VNum jsnum
  | VBig int
  | VStr jstr
  | VArr "jsval list"
  | VObj "(jstr \<times> jsval) list"

type_synonym jsobj = "(jstr \<times> jsval) list"

text \<open>
  Reading a property that is absent gives \<open>undefined\<close>; the properties of an object are kept in
  insertion order, which the code never observes (it sorts what \<open>Object.keys\<close> returns).
\<close>

definition obj_get :: "jsobj \<Rightarrow> jstr \<Rightarrow> jsval" where
  "obj_get m k = (case map_of m k of None \<Rightarrow> VUndef | Some v \<Rightarrow> v)"

definition obj_has :: "jsobj \<Rightarrow> jstr \<Rightarrow> bool" where
  "obj_has m k \<longleftrightarrow> map_of m k \<noteq> None"

fun is_string :: "jsval \<Rightarrow> bool" where
  "is_string (VStr _) = True"
| "is_string _ = False"

fun is_number :: "jsval \<Rightarrow> bool" where
  "is_number (VNum _) = True"
| "is_number _ = False"

lemma is_string_iff: "is_string v \<longleftrightarrow> (\<exists>s. v = VStr s)"
  by (cases v) auto

lemma is_number_iff: "is_number v \<longleftrightarrow> (\<exists>n. v = VNum n)"
  by (cases v) auto

text \<open>A branch on \<open>typeof v === 'string'\<close> that fails otherwise.\<close>

lemma str_Inr [guard_simps]:
  "(case v of VStr s \<Rightarrow> g s | _ \<Rightarrow> Inl e) = Inr y \<longleftrightarrow> (\<exists>s. v = VStr s \<and> g s = Inr y)"
  by (auto split: jsval.splits)

end
