(* ===== verification/Primitives.thy ===== *)
theory Primitives
  imports JsNumber
begin

section \<open>Primitive parsers of the legal application plan (primitives.ts)\<close>

text \<open>
  The untrusted boundary of the module: every field of a command or of a snapshot enters
  through one of these parsers. A parser takes a value of type \<open>unknown\<close> (\<open>jsval\<close>) and
  returns \<open>Inl\<close> the error with its field and code, or \<open>Inr\<close> the value. Branded string types
  are plain strings, amounts of type \<open>bigint\<close> are integers.
\<close>

definition POSTGRES_BIGINT_MAX :: int where
  "POSTGRES_BIGINT_MAX = 9223372036854775807"

definition POSTGRES_INTEGER_MAX :: int where
  "POSTGRES_INTEGER_MAX = 2147483647"

definition SNAPSHOT_CONTRACT_VERSION :: jstr where
  "SNAPSHOT_CONTRACT_VERSION = js ''CanonicalReceivableApplicationSnapshotV1''"

definition SNAPSHOT_SERIALIZATION_VERSION :: jstr where
  "SNAPSHOT_SERIALIZATION_VERSION = js ''RCV-CAS/v1''"

definition CANONICAL_CURRENCY_CODES :: "jstr list" where
  "CANONICAL_CURRENCY_CODES = [js ''TRY'', js ''USD'', js ''EUR'', js ''GBP'', js ''CHF'']"

datatype PrimitiveParseErrorCode =
    TYPE_MISMATCH
  | EMPTY
  | NON_CANONICAL_WHITESPACE
  | INVALID_FORMAT
  | OUT_OF_RANGE
  | UNSUPPORTED_VALUE

record PrimitiveParseError =
  perr_code :: PrimitiveParseErrorCode
  perr_field :: jstr

type_synonym 'a parse_result = "PrimitiveParseError + 'a"

definition parse_failure :: "jstr \<Rightarrow> PrimitiveParseErrorCode \<Rightarrow> 'a parse_result" where
  "parse_failure field code = Inl \<lparr>perr_code = code, perr_field = field\<rparr>"

subsection \<open>Non-blank text\<close>

definition parseCanonicalNonBlank :: "jsval \<Rightarrow> jstr \<Rightarrow> jstr parse_result" where
  "parseCanonicalNonBlank input field =
     (case input of
        VStr s \<Rightarrow>
          if length s = 0 then parse_failure field EMPTY
          else if js_trim s \<noteq> s then parse_failure field NON_CANONICAL_WHITESPACE
          else Inr s
      | _ \<Rightarrow> parse_failure field TYPE_MISMATCH)"

definition createNonBlankParser :: "string \<Rightarrow> jsval \<Rightarrow> jstr parse_result" where
  "createNonBlankParser field input = parseCanonicalNonBlank input (js field)"

definition parseTenantId where "parseTenantId = createNonBlankParser ''tenantId''"
definition parseCaseId where "parseCaseId = createNonBlankParser ''caseId''"
definition parseCollectionId where "parseCollectionId = createNonBlankParser ''collectionId''"
definition parseHistoryBoundaryRef where
  "parseHistoryBoundaryRef = createNonBlankParser ''historyBoundaryRef''"
definition parseSourceLineageSetRef where
  "parseSourceLineageSetRef = createNonBlankParser ''sourceLineageSetRef''"
definition parseComponentCode where "parseComponentCode = createNonBlankParser ''componentCode''"
definition parsePolicyVersion where "parsePolicyVersion = createNonBlankParser ''policyVersion''"
definition parseRuleVersion where "parseRuleVersion = createNonBlankParser ''ruleVersion''"
definition parseEngineVersion where "parseEngineVersion = createNonBlankParser ''engineVersion''"
definition parseRateVersion where "parseRateVersion = createNonBlankParser ''rateVersion''"
definition parseInterpretationVersion where
  "parseInterpretationVersion = createNonBlankParser ''interpretationVersion''"
definition parseBucketIdentityVersion where
  "parseBucketIdentityVersion = createNonBlankParser ''bucketIdentityVersion''"
definition parseCommandHash where "parseCommandHash = createNonBlankParser ''commandHash''"
definition parsePlanFingerprint where
  "parsePlanFingerprint = createNonBlankParser ''planFingerprint''"
definition parseIdempotencyKey where "parseIdempotencyKey = createNonBlankParser ''idempotencyKey''"
definition parseSourceReference where
  "parseSourceReference = createNonBlankParser ''sourceReference''"
definition parseSourceVersion where "parseSourceVersion = createNonBlankParser ''sourceVersion''"

lemmas nonblank_parser_defs =
  parseTenantId_def parseCaseId_def parseCollectionId_def parseHistoryBoundaryRef_def
  parseSourceLineageSetRef_def parseComponentCode_def parsePolicyVersion_def parseRuleVersion_def
  parseEngineVersion_def parseRateVersion_def parseInterpretationVersion_def
  parseBucketIdentityVersion_def parseCommandHash_def parsePlanFingerprint_def
  parseIdempotencyKey_def parseSourceReference_def parseSourceVersion_def

definition nonblank :: "jstr \<Rightarrow> bool" where
  "nonblank s \<longleftrightarrow> s \<noteq> [] \<and> js_trim s = s"

lemma createNonBlankParser_Inr [simp]:
  "createNonBlankParser field v = Inr s \<longleftrightarrow> v = VStr s \<and> nonblank s"
  by (auto simp: createNonBlankParser_def parseCanonicalNonBlank_def parse_failure_def nonblank_def
      split: jsval.splits)

subsection \<open>Hash references\<close>

definition hex_digit :: "nat \<Rightarrow> bool" where
  "hex_digit u \<longleftrightarrow> (48 \<le> u \<and> u \<le> 57) \<or> (97 \<le> u \<and> u \<le> 102)"

definition SHA256_LOWERCASE_HEX :: "jstr \<Rightarrow> bool" where
  "SHA256_LOWERCASE_HEX s \<longleftrightarrow> length s = 64 \<and> list_all hex_digit s"

definition prefixed_pattern :: "string \<Rightarrow> jstr \<Rightarrow> bool" where
  "prefixed_pattern p s \<longleftrightarrow>
     take (length p) s = js p \<and> SHA256_LOWERCASE_HEX (drop (length p) s)"

definition SNAPSHOT_REF :: "jstr \<Rightarrow> bool" where
  "SNAPSHOT_REF = prefixed_pattern ''rcv-app-snapshot:v1:sha256:''"
definition BUCKET_CONTEXT_KEY :: "jstr \<Rightarrow> bool" where
  "BUCKET_CONTEXT_KEY = prefixed_pattern ''bctx:v1:sha256:''"
definition BUCKET_INSTANCE_ID :: "jstr \<Rightarrow> bool" where
  "BUCKET_INSTANCE_ID = prefixed_pattern ''binst:v1:sha256:''"

lemma prefixed_pattern_iff: "prefixed_pattern p s \<longleftrightarrow> (\<exists>h. s = js p @ h \<and> SHA256_LOWERCASE_HEX h)"
  by (auto simp: prefixed_pattern_def) (metis append_take_drop_id)

lemma prefixed_pattern_append [simp]: "prefixed_pattern p (js p @ h) \<longleftrightarrow> SHA256_LOWERCASE_HEX h"
  by (auto simp: prefixed_pattern_def)

definition parseSha256 :: "jsval \<Rightarrow> string \<Rightarrow> jstr parse_result" where
  "parseSha256 input field =
     (case input of
        VStr s \<Rightarrow> if SHA256_LOWERCASE_HEX s then Inr s else parse_failure (js field) INVALID_FORMAT
      | _ \<Rightarrow> parse_failure (js field) TYPE_MISMATCH)"

definition parsePrefixedSha256 :: "jsval \<Rightarrow> string \<Rightarrow> (jstr \<Rightarrow> bool) \<Rightarrow> jstr parse_result" where
  "parsePrefixedSha256 input field pattern =
     (case input of
        VStr s \<Rightarrow> if pattern s then Inr s else parse_failure (js field) INVALID_FORMAT
      | _ \<Rightarrow> parse_failure (js field) TYPE_MISMATCH)"

definition parseSnapshotHash :: "jsval \<Rightarrow> jstr parse_result" where
  "parseSnapshotHash input = parseSha256 input ''snapshotHash''"

definition parseSourceVersionSetHash :: "jsval \<Rightarrow> jstr parse_result" where
  "parseSourceVersionSetHash input = parseSha256 input ''sourceVersionSetHash''"

definition parseSnapshotRef :: "jsval \<Rightarrow> jstr parse_result" where
  "parseSnapshotRef input = parsePrefixedSha256 input ''snapshotRef'' SNAPSHOT_REF"

definition parseBucketContextKey :: "jsval \<Rightarrow> jstr parse_result" where
  "parseBucketContextKey input = parsePrefixedSha256 input ''bucketContextKey'' BUCKET_CONTEXT_KEY"

definition parseBucketInstanceId :: "jsval \<Rightarrow> jstr parse_result" where
  "parseBucketInstanceId input = parsePrefixedSha256 input ''bucketInstanceId'' BUCKET_INSTANCE_ID"

lemma hash_parser_Inr [simp]:
  "parseSnapshotHash v = Inr s \<longleftrightarrow> v = VStr s \<and> SHA256_LOWERCASE_HEX s"
  "parseSourceVersionSetHash v = Inr s \<longleftrightarrow> v = VStr s \<and> SHA256_LOWERCASE_HEX s"
  "parseSnapshotRef v = Inr s \<longleftrightarrow> v = VStr s \<and> SNAPSHOT_REF s"
  "parseBucketContextKey v = Inr s \<longleftrightarrow> v = VStr s \<and> BUCKET_CONTEXT_KEY s"
  "parseBucketInstanceId v = Inr s \<longleftrightarrow> v = VStr s \<and> BUCKET_INSTANCE_ID s"
  by (auto simp: parseSnapshotHash_def parseSourceVersionSetHash_def parseSnapshotRef_def
      parseBucketContextKey_def parseBucketInstanceId_def parseSha256_def parsePrefixedSha256_def
      parse_failure_def split: jsval.splits)

definition parseSnapshotContractVersion :: "jsval \<Rightarrow> jstr parse_result" where
  "parseSnapshotContractVersion input =
     (if input = VStr SNAPSHOT_CONTRACT_VERSION then Inr SNAPSHOT_CONTRACT_VERSION
      else parse_failure (js ''snapshotContractVersion'') UNSUPPORTED_VALUE)"

definition parseSerializationVersion :: "jsval \<Rightarrow> jstr parse_result" where
  "parseSerializationVersion input =
     (if input = VStr SNAPSHOT_SERIALIZATION_VERSION then Inr SNAPSHOT_SERIALIZATION_VERSION
      else parse_failure (js ''serializationVersion'') UNSUPPORTED_VALUE)"

lemma version_parser_Inr [simp]:
  "parseSnapshotContractVersion v = Inr s \<longleftrightarrow>
     s = SNAPSHOT_CONTRACT_VERSION \<and> v = VStr SNAPSHOT_CONTRACT_VERSION"
  "parseSerializationVersion v = Inr s \<longleftrightarrow>
     s = SNAPSHOT_SERIALIZATION_VERSION \<and> v = VStr SNAPSHOT_SERIALIZATION_VERSION"
  by (auto simp: parseSnapshotContractVersion_def parseSerializationVersion_def parse_failure_def)

subsection \<open>Amounts in minor units\<close>

definition parseMinorAmountAs :: "jsval \<Rightarrow> string \<Rightarrow> int parse_result" where
  "parseMinorAmountAs input field =
     (case input of
        VStr s \<Rightarrow>
          if \<not> unsigned_decimal_integer s then parse_failure (js field) INVALID_FORMAT
          else let value = int (digits_val s)
            in if POSTGRES_BIGINT_MAX < value then parse_failure (js field) OUT_OF_RANGE
               else Inr value
      | _ \<Rightarrow> parse_failure (js field) TYPE_MISMATCH)"

definition parseMinorAmount where
  "parseMinorAmount input = parseMinorAmountAs input ''minorAmount''"
definition parseReceiptAmountMinor where
  "parseReceiptAmountMinor input = parseMinorAmountAs input ''receiptAmountMinor''"
definition parseBucketBalanceMinor where
  "parseBucketBalanceMinor input = parseMinorAmountAs input ''bucketBalanceMinor''"
definition parseAppliedAmountMinor where
  "parseAppliedAmountMinor input = parseMinorAmountAs input ''appliedAmountMinor''"
definition parseHeldRemainderMinor where
  "parseHeldRemainderMinor input = parseMinorAmountAs input ''heldRemainderMinor''"

lemmas amount_parser_defs =
  parseMinorAmount_def parseReceiptAmountMinor_def parseBucketBalanceMinor_def
  parseAppliedAmountMinor_def parseHeldRemainderMinor_def

definition formatMinorAmount :: "int \<Rightarrow> jstr" where
  "formatMinorAmount value = js_of_int value"

lemma parseMinorAmountAs_Inr [simp]:
  "parseMinorAmountAs v field = Inr n \<longleftrightarrow>
     0 \<le> n \<and> n \<le> POSTGRES_BIGINT_MAX \<and> v = VStr (formatMinorAmount n)"
proof
  assume "parseMinorAmountAs v field = Inr n"
  then obtain s where s: "v = VStr s" "unsigned_decimal_integer s" "n = int (digits_val s)"
    "n \<le> POSTGRES_BIGINT_MAX"
    by (auto simp: parseMinorAmountAs_def parse_failure_def Let_def split: jsval.splits if_splits)
  then have "js_of_int n = s" by (simp add: js_of_nat_digits_val)
  with s show "0 \<le> n \<and> n \<le> POSTGRES_BIGINT_MAX \<and> v = VStr (formatMinorAmount n)"
    by (simp add: formatMinorAmount_def)
next
  assume "0 \<le> n \<and> n \<le> POSTGRES_BIGINT_MAX \<and> v = VStr (formatMinorAmount n)"
  then show "parseMinorAmountAs v field = Inr n"
    by (simp add: parseMinorAmountAs_def formatMinorAmount_def)
qed

subsection \<open>Minor unit and currency\<close>

definition parseMinorUnit :: "jsval \<Rightarrow> jsnum parse_result" where
  "parseMinorUnit input =
     (case input of
        VNum n \<Rightarrow>
          if \<not> js_is_integer n then parse_failure (js ''minorUnit'') INVALID_FORMAT
          else if js_less n (js_int 0) \<or> js_less (js_int POSTGRES_INTEGER_MAX) n
            then parse_failure (js ''minorUnit'') OUT_OF_RANGE
          else Inr n
      | _ \<Rightarrow> parse_failure (js ''minorUnit'') TYPE_MISMATCH)"

definition parseCurrencyCode :: "jsval \<Rightarrow> jstr parse_result" where
  "parseCurrencyCode input =
     (case input of
        VStr s \<Rightarrow>
          if s \<in> set CANONICAL_CURRENCY_CODES then Inr s
          else parse_failure (js ''currency'') UNSUPPORTED_VALUE
      | _ \<Rightarrow> parse_failure (js ''currency'') TYPE_MISMATCH)"

lemma parseMinorUnit_Inr [simp]:
  "parseMinorUnit v = Inr n \<longleftrightarrow> v = VNum n \<and> js_nat_upto POSTGRES_INTEGER_MAX n"
  by (auto simp: parseMinorUnit_def parse_failure_def js_nat_upto_def split: jsval.splits)

lemma parseCurrencyCode_Inr [simp]:
  "parseCurrencyCode v = Inr s \<longleftrightarrow> v = VStr s \<and> s \<in> set CANONICAL_CURRENCY_CODES"
  by (auto simp: parseCurrencyCode_def parse_failure_def split: jsval.splits)

subsection \<open>Calendar dates\<close>

text \<open>The pattern \<open>/^(\d{4})-(\d{2})-(\d{2})$/\<close> and its three groups, read with \<open>Number\<close>.\<close>

definition CANONICAL_ISO_DATE :: "jstr \<Rightarrow> (nat \<times> nat \<times> nat) option" where
  "CANONICAL_ISO_DATE s =
     (if length s = 10 \<and> s ! 4 = 45 \<and> s ! 7 = 45 \<and>
         list_all js_digit (take 4 s @ take 2 (drop 5 s) @ drop 8 s)
      then Some (digits_val (take 4 s), digits_val (take 2 (drop 5 s)), digits_val (drop 8 s))
      else None)"

definition isLeapYear :: "nat \<Rightarrow> bool" where
  "isLeapYear year \<longleftrightarrow> year mod 4 = 0 \<and> (year mod 100 \<noteq> 0 \<or> year mod 400 = 0)"

definition daysInMonth :: "nat \<Rightarrow> nat \<Rightarrow> nat" where
  "daysInMonth year month =
     (if month = 2 then if isLeapYear year then 29 else 28
      else if month \<in> set [4, 6, 9, 11] then 30 else 31)"

definition parseIsoDateAs :: "jsval \<Rightarrow> string \<Rightarrow> jstr parse_result" where
  "parseIsoDateAs input field =
     (case input of
        VStr s \<Rightarrow>
          (case CANONICAL_ISO_DATE s of
             None \<Rightarrow> parse_failure (js field) INVALID_FORMAT
           | Some (year, month, day) \<Rightarrow>
               if year = 0 \<or> month < 1 \<or> 12 < month \<or> day < 1 \<or> daysInMonth year month < day
               then parse_failure (js field) INVALID_FORMAT
               else Inr s)
      | _ \<Rightarrow> parse_failure (js field) TYPE_MISMATCH)"

definition parseCanonicalIsoDate where "parseCanonicalIsoDate input = parseIsoDateAs input ''date''"
definition parseSnapshotDate where "parseSnapshotDate input = parseIsoDateAs input ''snapshotDate''"
definition parseEffectiveDate where
  "parseEffectiveDate input = parseIsoDateAs input ''effectiveDate''"

lemmas date_parser_defs = parseCanonicalIsoDate_def parseSnapshotDate_def parseEffectiveDate_def

text \<open>A date of the proleptic Gregorian calendar and its ten-character text.\<close>

definition valid_date :: "nat \<times> nat \<times> nat \<Rightarrow> bool" where
  "valid_date ymd =
     (case ymd of (y, m, d) \<Rightarrow>
        1 \<le> y \<and> y \<le> 9999 \<and> 1 \<le> m \<and> m \<le> 12 \<and> 1 \<le> d \<and> d \<le> daysInMonth y m)"

definition pad_digits :: "nat \<Rightarrow> nat \<Rightarrow> jstr" where
  "pad_digits w n = map (\<lambda>i. 48 + n div 10 ^ (w - Suc i) mod 10) [0..<w]"

definition iso_text :: "nat \<times> nat \<times> nat \<Rightarrow> jstr" where
  "iso_text ymd =
     (case ymd of (y, m, d) \<Rightarrow> pad_digits 4 y @ [45] @ pad_digits 2 m @ [45] @ pad_digits 2 d)"

lemma pad_digits_2: "pad_digits 2 n = [48 + n div 10 mod 10, 48 + n mod 10]"
  by (simp add: pad_digits_def upt_rec)

lemma pad_digits_4: "pad_digits 4 n =
   [48 + n div 1000 mod 10, 48 + n div 100 mod 10, 48 + n div 10 mod 10, 48 + n mod 10]"
  by (simp add: pad_digits_def upt_rec)

lemma digits_val_2: "digits_val [48 + a, 48 + b] = 10 * a + b"
  by (simp add: digits_val_def)

lemma digits_val_4: "digits_val [48 + a, 48 + b, 48 + c, 48 + d] = 1000 * a + 100 * b + 10 * c + d"
  by (simp add: digits_val_def)

lemma pad_digits_val_2: "n < 100 \<Longrightarrow> digits_val (pad_digits 2 n) = n"
  unfolding pad_digits_2 digits_val_2 by simp

lemma nat_div_thousand:
  "n div 1000 = (n::nat) div 100 div 10" "n div 100 = n div 10 div 10"
  by (simp_all add: div_mult2_eq [symmetric])

lemma pad_digits_val_4: "n < 10000 \<Longrightarrow> digits_val (pad_digits 4 n) = n"
proof -
  assume "n < 10000"
  then have "n div 1000 < 10" by auto
  then have "n div 1000 mod 10 = n div 100 div 10" by (simp add: nat_div_thousand(1))
  moreover have "n div 100 = 10 * (n div 100 div 10) + n div 100 mod 10"
    "n div 10 = 10 * (n div 10 div 10) + n div 10 mod 10" "n = 10 * (n div 10) + n mod 10"
    by (simp_all only: mult_div_mod_eq)
  ultimately show ?thesis
    unfolding pad_digits_4 digits_val_4 using nat_div_thousand(2) [of n] by linarith
qed

lemma pad_val_2: "js_digit a \<Longrightarrow> js_digit b \<Longrightarrow> pad_digits 2 (digits_val [a, b]) = [a, b]"
proof -
  assume ab: "js_digit a" "js_digit b"
  define x y where "x = a - 48" and "y = b - 48"
  with ab have "a = 48 + x" "b = 48 + y" "x < 10" "y < 10" by (auto simp: js_digit_def)
  then show ?thesis by (simp add: pad_digits_2 digits_val_2)
qed

lemma pad_val_4: "js_digit a \<Longrightarrow> js_digit b \<Longrightarrow> js_digit c \<Longrightarrow> js_digit d \<Longrightarrow>
   pad_digits 4 (digits_val [a, b, c, d]) = [a, b, c, d]"
proof -
  assume abcd: "js_digit a" "js_digit b" "js_digit c" "js_digit d"
  define x y z w where "x = a - 48" and "y = b - 48" and "z = c - 48" and "w = d - 48"
  with abcd have eq: "a = 48 + x" "b = 48 + y" "c = 48 + z" "d = 48 + w"
    and lt: "x < 10" "y < 10" "z < 10" "w < 10" by (auto simp: js_digit_def)
  define n where "n = 1000 * x + 100 * y + 10 * z + w"
  have "n div 1000 = x" "n div 100 = 10 * x + y" "n div 10 = 100 * x + 10 * y + z"
    by (rule div_nat_eqI; use lt in \<open>simp add: n_def\<close>)+
  moreover have "n mod 10 = w" "(10 * x + y) mod 10 = y" "(100 * x + 10 * y + z) mod 10 = z"
  proof -
    have "n = 10 * (100 * x + 10 * y + z) + w" by (simp add: n_def)
    with lt show "n mod 10 = w" by (metis mod_mult_self4 mod_less)
    show "(10 * x + y) mod 10 = y" using lt by (metis mod_mult_self4 mod_less)
    have "100 * x + 10 * y + z = 10 * (10 * x + y) + z" by simp
    with lt show "(100 * x + 10 * y + z) mod 10 = z" by (metis mod_mult_self4 mod_less)
  qed
  ultimately have "pad_digits 4 n = [48 + x, 48 + y, 48 + z, 48 + w]"
    using lt by (simp add: pad_digits_4)
  then show ?thesis by (simp only: eq digits_val_4 n_def)
qed

lemma CANONICAL_ISO_DATE_iff:
  "CANONICAL_ISO_DATE s = Some (y, m, d) \<longleftrightarrow>
     y < 10000 \<and> m < 100 \<and> d < 100 \<and> s = iso_text (y, m, d)"
proof
  assume "CANONICAL_ISO_DATE s = Some (y, m, d)"
  then have s: "length s = 10" "s ! 4 = 45" "s ! 7 = 45"
    "list_all js_digit (take 4 s @ take 2 (drop 5 s) @ drop 8 s)"
    "y = digits_val (take 4 s)" "m = digits_val (take 2 (drop 5 s))" "d = digits_val (drop 8 s)"
    by (auto simp: CANONICAL_ISO_DATE_def split: if_splits)
  from s(1) obtain a0 a1 a2 a3 a4 a5 a6 a7 a8 a9
    where eq: "s = [a0, a1, a2, a3, a4, a5, a6, a7, a8, a9]"
    by (auto simp: numeral_eq_Suc length_Suc_conv)
  from s have dig: "js_digit a0" "js_digit a1" "js_digit a2" "js_digit a3" "js_digit a5"
    "js_digit a6" "js_digit a8" "js_digit a9" and sep: "a4 = 45" "a7 = 45"
    by (auto simp: eq)
  from s have v: "y = digits_val [a0, a1, a2, a3]" "m = digits_val [a5, a6]" "d = digits_val [a8, a9]"
    by (auto simp: eq)
  have "s = iso_text (y, m, d)"
    using dig sep by (simp add: iso_text_def v pad_val_2 pad_val_4 eq)
  moreover have "y < 10000" "m < 100" "d < 100"
    using dig by (auto simp: v digits_val_def js_digit_def)
  ultimately show "y < 10000 \<and> m < 100 \<and> d < 100 \<and> s = iso_text (y, m, d)" by simp
next
  assume "y < 10000 \<and> m < 100 \<and> d < 100 \<and> s = iso_text (y, m, d)"
  moreover have "list_all js_digit (pad_digits w n)" for w n
    by (auto simp: pad_digits_def list_all_iff js_digit_def)
  moreover have "length (pad_digits w n) = w" for w n by (simp add: pad_digits_def)
  ultimately show "CANONICAL_ISO_DATE s = Some (y, m, d)"
    by (simp add: CANONICAL_ISO_DATE_def iso_text_def nth_append pad_digits_val_2 pad_digits_val_4)
qed

lemma daysInMonth_le: "daysInMonth y m \<le> 31"
  by (simp add: daysInMonth_def)

lemma parseIsoDateAs_Inr:
  "parseIsoDateAs v field = Inr s \<longleftrightarrow> (\<exists>ymd. v = VStr s \<and> s = iso_text ymd \<and> valid_date ymd)"
proof
  assume "parseIsoDateAs v field = Inr s"
  then obtain y m d where "v = VStr s" "CANONICAL_ISO_DATE s = Some (y, m, d)"
    "\<not> (y = 0 \<or> m < 1 \<or> 12 < m \<or> d < 1 \<or> daysInMonth y m < d)"
    by (auto simp: parseIsoDateAs_def parse_failure_def split: jsval.splits option.splits if_splits)
  then have "v = VStr s \<and> s = iso_text (y, m, d) \<and> valid_date (y, m, d)"
    by (simp add: CANONICAL_ISO_DATE_iff valid_date_def)
  then show "\<exists>ymd. v = VStr s \<and> s = iso_text ymd \<and> valid_date ymd" by blast
next
  assume "\<exists>ymd. v = VStr s \<and> s = iso_text ymd \<and> valid_date ymd"
  then obtain y m d where "v = VStr s" "s = iso_text (y, m, d)" "valid_date (y, m, d)" by auto
  moreover from this have "CANONICAL_ISO_DATE s = Some (y, m, d)"
    using daysInMonth_le [of y m] by (auto simp: CANONICAL_ISO_DATE_iff valid_date_def)
  ultimately show "parseIsoDateAs v field = Inr s"
    by (auto simp: parseIsoDateAs_def valid_date_def)
qed

text \<open>On the accepted texts, comparing strings is comparing dates.\<close>

fun date_less :: "nat \<times> nat \<times> nat \<Rightarrow> nat \<times> nat \<times> nat \<Rightarrow> bool" where
  "date_less (y, m, d) (y', m', d') =
     (y < y' \<or> (y = y' \<and> (m < m' \<or> (m = m' \<and> d < d'))))"

lemma js_str_less_append:
  "length s = length t \<Longrightarrow>
   js_str_less (s @ r) (t @ r') \<longleftrightarrow> js_str_less s t \<or> (s = t \<and> js_str_less r r')"
  by (induction s t rule: list_induct2) auto

lemma lex_div_less:
  "(a div k < b div k \<or> (a div k = b div k \<and> a mod k < b mod k)) \<longleftrightarrow> (a::nat) < b"
proof
  assume "a div k < b div k \<or> (a div k = b div k \<and> a mod k < b mod k)"
  then show "a < b"
    by (metis div_le_mono div_mult_mod_eq linorder_not_less nat_add_left_cancel_less)
next
  assume "a < b"
  then have "a div k \<le> b div k" by (simp add: div_le_mono)
  with \<open>a < b\<close> show "a div k < b div k \<or> (a div k = b div k \<and> a mod k < b mod k)"
    by (metis div_mult_mod_eq le_neq_implies_less nat_add_left_cancel_less)
qed

lemma pad_less_2: "a < 100 \<Longrightarrow> b < 100 \<Longrightarrow> js_str_less (pad_digits 2 a) (pad_digits 2 b) \<longleftrightarrow> a < b"
proof -
  assume "a < 100" "b < 100"
  then have "a div 10 < 10" "b div 10 < 10" by auto
  then show ?thesis using lex_div_less [of a 10 b] by (simp add: pad_digits_2)
qed

lemma pad_inj_2: "a < 100 \<Longrightarrow> b < 100 \<Longrightarrow> pad_digits 2 a = pad_digits 2 b \<longleftrightarrow> a = b"
  by (metis pad_digits_val_2)

lemma pad_inj_4: "a < 10000 \<Longrightarrow> b < 10000 \<Longrightarrow> pad_digits 4 a = pad_digits 4 b \<longleftrightarrow> a = b"
  by (metis pad_digits_val_4)

lemma pad_digits_4_split: "n < 10000 \<Longrightarrow> pad_digits 4 n = pad_digits 2 (n div 100) @ pad_digits 2 (n mod 100)"
proof -
  assume "n < 10000"
  have "n mod 100 mod 10 = n mod 10" by (simp add: mod_mod_cancel)
  moreover have "n mod 100 div 10 = n div 10 mod 10"
    using mod_mult2_eq [of n 10 10] by simp
  ultimately show ?thesis by (simp add: pad_digits_4 pad_digits_2 nat_div_thousand(1))
qed

lemma length_pad_digits [simp]: "length (pad_digits w n) = w"
  by (simp add: pad_digits_def)

lemma pad_less_4:
  assumes "a < 10000" "b < 10000"
  shows "js_str_less (pad_digits 4 a) (pad_digits 4 b) \<longleftrightarrow> a < b"
proof -
  have "a div 100 < 100" "b div 100 < 100" using assms by auto
  then have "js_str_less (pad_digits 4 a) (pad_digits 4 b) \<longleftrightarrow>
      a div 100 < b div 100 \<or> (a div 100 = b div 100 \<and> a mod 100 < b mod 100)"
    using assms by (simp add: pad_digits_4_split js_str_less_append pad_less_2 pad_inj_2)
  also have "\<dots> \<longleftrightarrow> a < b" by (rule lex_div_less)
  finally show ?thesis .
qed

lemma iso_text_less:
  assumes "valid_date p" "valid_date q"
  shows "js_str_less (iso_text p) (iso_text q) \<longleftrightarrow> date_less p q"
proof -
  obtain y m d y' m' d' where p: "p = (y, m, d)" "q = (y', m', d')"
    by (cases p, cases q)
  have "y < 10000" "m < 100" "d < 100" "y' < 10000" "m' < 100" "d' < 100"
    using assms daysInMonth_le [of y m] daysInMonth_le [of y' m'] by (auto simp: p valid_date_def)
  then show ?thesis
    by (simp add: p iso_text_def js_str_less_append pad_less_2 pad_less_4 pad_inj_2 pad_inj_4)
qed

lemma iso_text_inj:
  assumes "valid_date p" "valid_date q" "iso_text p = iso_text q"
  shows "p = q"
proof -
  obtain y m d y' m' d' where p: "p = (y, m, d)" "q = (y', m', d')"
    by (cases p, cases q)
  have "y < 10000" "m < 100" "d < 100" "y' < 10000" "m' < 100" "d' < 100"
    using assms daysInMonth_le [of y m] daysInMonth_le [of y' m'] by (auto simp: p valid_date_def)
  then show ?thesis using assms(3) by (simp add: p iso_text_def pad_inj_2 pad_inj_4)
qed

end
