(* ===== verification/AllocationOrder.thy ===== *)
theory AllocationOrder
  imports Primitives
begin

section \<open>The closed component order and byte order of context keys (allocation-order.ts)\<close>

definition COST :: jstr where "COST = js ''COST''"
definition ANCILLARY :: jstr where "ANCILLARY = js ''ANCILLARY''"
definition ACCRUED_INTEREST :: jstr where "ACCRUED_INTEREST = js ''ACCRUED_INTEREST''"
definition PRINCIPAL :: jstr where "PRINCIPAL = js ''PRINCIPAL''"

lemmas component_code_defs = COST_def ANCILLARY_def ACCRUED_INTEREST_def PRINCIPAL_def

definition LEGAL_APPLICATION_COMPONENT_TYPES :: "jstr list" where
  "LEGAL_APPLICATION_COMPONENT_TYPES = [COST, ANCILLARY, ACCRUED_INTEREST, PRINCIPAL]"

text \<open>The closed set as a type, ordered by the legal priority of its members.\<close>

datatype component = Cost | Ancillary | AccruedInterest | Principal

fun component_rank :: "component \<Rightarrow> int" where
  "component_rank Cost = 10"
| "component_rank Ancillary = 20"
| "component_rank AccruedInterest = 30"
| "component_rank Principal = 40"

fun component_code :: "component \<Rightarrow> jstr" where
  "component_code Cost = COST"
| "component_code Ancillary = ANCILLARY"
| "component_code AccruedInterest = ACCRUED_INTEREST"
| "component_code Principal = PRINCIPAL"

instantiation component :: linorder
begin
definition less_eq_component :: "component \<Rightarrow> component \<Rightarrow> bool" where
  "less_eq_component a b \<longleftrightarrow> component_rank a \<le> component_rank b"
definition less_component :: "component \<Rightarrow> component \<Rightarrow> bool" where
  "less_component a b \<longleftrightarrow> component_rank a < component_rank b"
instance
proof
  fix a b c :: component
  show "a < b \<longleftrightarrow> a \<le> b \<and> \<not> b \<le> a" "a \<le> a" "a \<le> b \<or> b \<le> a"
    by (auto simp: less_eq_component_def less_component_def)
  show "a \<le> b \<Longrightarrow> b \<le> c \<Longrightarrow> a \<le> c" by (simp add: less_eq_component_def)
  show "a \<le> b \<Longrightarrow> b \<le> a \<Longrightarrow> a = b"
    by (cases a; cases b) (simp_all add: less_eq_component_def)
qed
end

text \<open>
  The code ranks a string; a string outside the closed set has no rank (\<open>undefined\<close>), which
  the callers treat as a failure.
\<close>

definition legalApplicationComponentRank :: "jstr \<Rightarrow> int option" where
  "legalApplicationComponentRank componentType =
     (if componentType = COST then Some 10
      else if componentType = ANCILLARY then Some 20
      else if componentType = ACCRUED_INTEREST then Some 30
      else if componentType = PRINCIPAL then Some 40
      else None)"

lemma component_codes_distinct [simp]:
  "COST \<noteq> ANCILLARY" "COST \<noteq> ACCRUED_INTEREST" "COST \<noteq> PRINCIPAL" "ANCILLARY \<noteq> ACCRUED_INTEREST"
  "ANCILLARY \<noteq> PRINCIPAL" "ACCRUED_INTEREST \<noteq> PRINCIPAL"
  "ANCILLARY \<noteq> COST" "ACCRUED_INTEREST \<noteq> COST" "PRINCIPAL \<noteq> COST" "ACCRUED_INTEREST \<noteq> ANCILLARY"
  "PRINCIPAL \<noteq> ANCILLARY" "PRINCIPAL \<noteq> ACCRUED_INTEREST"
  by (simp_all add: component_code_defs)

lemma legalApplicationComponentRank_code [simp]:
  "legalApplicationComponentRank (component_code c) = Some (component_rank c)"
  by (cases c) (simp_all add: legalApplicationComponentRank_def)

lemma legalApplicationComponentRank_Some:
  "legalApplicationComponentRank t = Some r \<longleftrightarrow> (\<exists>c. t = component_code c \<and> r = component_rank c)"
proof
  assume "legalApplicationComponentRank t = Some r"
  then consider "t = component_code Cost" "r = component_rank Cost"
    | "t = component_code Ancillary" "r = component_rank Ancillary"
    | "t = component_code AccruedInterest" "r = component_rank AccruedInterest"
    | "t = component_code Principal" "r = component_rank Principal"
    by (auto simp: legalApplicationComponentRank_def split: if_splits)
  then show "\<exists>c. t = component_code c \<and> r = component_rank c" by cases blast+
qed auto

lemma legalApplicationComponentRank_ne_None:
  "legalApplicationComponentRank t \<noteq> None \<longleftrightarrow> t \<in> set LEGAL_APPLICATION_COMPONENT_TYPES"
  by (auto simp: legalApplicationComponentRank_def LEGAL_APPLICATION_COMPONENT_TYPES_def)

lemma component_rank_inj [simp]: "component_rank a = component_rank b \<longleftrightarrow> a = b"
  by (cases a; cases b) simp_all

subsection \<open>Unsigned byte order\<close>

text \<open>The loop over the shared prefix: the verdict at the first difference, if there is one.\<close>

fun first_difference :: "bytes \<Rightarrow> bytes \<Rightarrow> int option" where
  "first_difference (x # xs) (y # ys) =
     (if x \<noteq> y then Some (if x < y then -1 else 1) else first_difference xs ys)"
| "first_difference _ _ = None"

definition compareUnsignedByteSequences :: "bytes \<Rightarrow> bytes \<Rightarrow> int" where
  "compareUnsignedByteSequences left right =
     (case first_difference left right of
        Some c \<Rightarrow> c
      | None \<Rightarrow>
          if length left = length right then 0
          else if length left < length right then -1 else 1)"

definition compareBucketContextKeysUtf8 :: "jstr \<Rightarrow> jstr \<Rightarrow> int" where
  "compareBucketContextKeysUtf8 left right = compareUnsignedByteSequences (utf8 left) (utf8 right)"

text \<open>It is the lexicographic order of the byte lists.\<close>

lemma compareUnsignedByteSequences_less:
  "compareUnsignedByteSequences l r = (if js_str_less l r then -1 else if l = r then 0 else 1)"
proof (induction l arbitrary: r)
  case Nil
  show ?case by (cases r) (auto simp: compareUnsignedByteSequences_def)
next
  case (Cons x xs)
  show ?case
  proof (cases r)
    case Nil
    then show ?thesis by (simp add: compareUnsignedByteSequences_def)
  next
    case (Cons y ys)
    have "compareUnsignedByteSequences (x # xs) (y # ys) =
        (if x \<noteq> y then if x < y then -1 else 1 else compareUnsignedByteSequences xs ys)"
      by (simp add: compareUnsignedByteSequences_def)
    with Cons Cons.IH [of ys] show ?thesis by auto
  qed
qed

lemma compareUnsignedByteSequences_eq_0 [simp]:
  "compareUnsignedByteSequences l r = 0 \<longleftrightarrow> l = r"
  by (simp add: compareUnsignedByteSequences_less)

interpretation byte_order: consistent_comparator compareUnsignedByteSequences UNIV
proof
  fix x y z :: bytes
  show "compareUnsignedByteSequences x x = 0" by simp
  show "compareUnsignedByteSequences x y \<le> 0 \<longleftrightarrow> 0 \<le> compareUnsignedByteSequences y x"
    using js_str_less_asym [of x y] js_str_less_linear [of x y]
    by (auto simp: compareUnsignedByteSequences_less)
  show "compareUnsignedByteSequences x y \<le> 0 \<Longrightarrow> compareUnsignedByteSequences y z \<le> 0 \<Longrightarrow>
      compareUnsignedByteSequences x z \<le> 0"
    using js_str_less_trans [of x y z]
    by (auto simp: compareUnsignedByteSequences_less split: if_splits)
qed

interpretation context_key_order: consistent_comparator compareBucketContextKeysUtf8 UNIV
  unfolding compareBucketContextKeysUtf8_def
proof
  fix x y z :: jstr
  show "compareUnsignedByteSequences (utf8 x) (utf8 x) = 0" by simp
  show "compareUnsignedByteSequences (utf8 x) (utf8 y) \<le> 0
      \<longleftrightarrow> 0 \<le> compareUnsignedByteSequences (utf8 y) (utf8 x)"
    by (rule byte_order.cmp_flip) simp_all
  show "compareUnsignedByteSequences (utf8 x) (utf8 y) \<le> 0 \<Longrightarrow>
      compareUnsignedByteSequences (utf8 y) (utf8 z) \<le> 0 \<Longrightarrow>
      compareUnsignedByteSequences (utf8 x) (utf8 z) \<le> 0"
    by (rule byte_order.cmp_trans [of "utf8 x" "utf8 y"]) simp_all
qed

lemma compareBucketContextKeysUtf8_eq_0:
  "compareBucketContextKeysUtf8 a b = 0 \<longleftrightarrow> utf8 a = utf8 b"
  by (simp add: compareBucketContextKeysUtf8_def)

lemma compareBucketContextKeysUtf8_antisym:
  "compareBucketContextKeysUtf8 a b \<le> 0 \<Longrightarrow> compareBucketContextKeysUtf8 b a \<le> 0 \<Longrightarrow> utf8 a = utf8 b"
  using context_key_order.cmp_flip [of b a] compareBucketContextKeysUtf8_eq_0 [of a b] by simp

text \<open>Hash references are ASCII, so their bytes determine them.\<close>

lemma hex_ascii: "SHA256_LOWERCASE_HEX s \<Longrightarrow> list_all (\<lambda>u. u < 128) s"
  by (auto simp: SHA256_LOWERCASE_HEX_def list_all_iff hex_digit_def)

lemma BUCKET_CONTEXT_KEY_ascii: "BUCKET_CONTEXT_KEY s \<Longrightarrow> list_all (\<lambda>u. u < 128) s"
  using hex_ascii by (auto simp: BUCKET_CONTEXT_KEY_def prefixed_pattern_iff js_eval)

lemma BUCKET_CONTEXT_KEY_utf8_inj:
  "BUCKET_CONTEXT_KEY a \<Longrightarrow> BUCKET_CONTEXT_KEY b \<Longrightarrow> utf8 a = utf8 b \<longleftrightarrow> a = b"
  by (simp add: BUCKET_CONTEXT_KEY_ascii utf8_ascii)

end
