(* ===== verification/Contracts.thy ===== *)
theory Contracts
  imports AllocationOrder
begin

section \<open>Contracts: snapshot, command, plan and error records (contracts.ts)\<close>

text \<open>
  One record per interface, in the order of the source. Branded strings are \<open>jstr\<close>, amounts
  of type \<open>bigint\<close> are \<open>int\<close>, fields of type \<open>number\<close> are \<open>jsnum\<close>, optional fields are of
  type \<open>option\<close>. A component type is kept as the string the runtime carries, because the code
  checks it against the closed set at run time.
\<close>

datatype LegalApplicationPlanErrorCode =
    SNAPSHOT_UNAVAILABLE
  | SNAPSHOT_CONTRACT_UNSUPPORTED
  | SNAPSHOT_SERIALIZATION_INVALID
  | SNAPSHOT_HASH_MISMATCH
  | SNAPSHOT_REF_MISMATCH
  | SOURCE_VERSION_INCOMPLETE
  | FORMATION_CONTEXT_INCOMPLETE
  | POLICY_VERSION_MISSING
  | FEE_AUTHORITY_UNRESOLVED
  | BUCKET_CONTEXT_UNMAPPED
  | BUCKET_IDENTITY_INVALID
  | DUPLICATE_BUCKET_CONTEXT
  | CURRENCY_OR_MINOR_UNIT_INVALID
  | EFFECTIVE_DATE_MISMATCH
  | HISTORY_BOUNDARY_UNAUTHORIZED
  | SNAPSHOT_STALE
  | SOURCE_CONCURRENCY_UNSAFE
  | RECEIPT_AMOUNT_INVALID
  | AMOUNT_OUT_OF_RANGE
  | CONSERVATION_FAILURE
  | DIRECTION_NOT_AUTHORIZED
  | TENANT_CONTEXT_MISMATCH
  | CASE_CONTEXT_MISMATCH

definition APPLY :: jstr where "APPLY = js ''APPLY''"

datatype LegalApplicationHeldReason =
    NO_ELIGIBLE_OUTSTANDING
  | EXCESS_OVER_ELIGIBLE_OUTSTANDING

record CanonicalSourceVersionV1 =
  sv_sourceReference :: jstr
  sv_sourceVersion :: jstr

record CanonicalLegalBucketV1 =
  bk_componentType :: jstr
  bk_componentCode :: jstr
  bk_bucketContextKey :: jstr
  bk_bucketInstanceId :: jstr
  bk_sourceLineageSetRef :: jstr
  bk_legalBasisRef :: jstr
  bk_effectivePeriodRef :: jstr
  bk_interestRuleRef :: "jstr option"
  bk_currency :: jstr
  bk_minorUnit :: jsnum
  bk_priorityRank :: jsnum
  bk_bucketBalanceMinor :: int

record CanonicalReceivableApplicationSnapshotV1 =
  sn_snapshotContractVersion :: jstr
  sn_snapshotSerializationVersion :: jstr
  sn_tenantId :: jstr
  sn_caseId :: jstr
  sn_targetCollectionId :: jstr
  sn_currency :: jstr
  sn_minorUnit :: jsnum
  sn_receiptAmountMinor :: int
  sn_snapshotAsOfDate :: jstr
  sn_applicationEffectiveDate :: jstr
  sn_historyBoundaryRef :: jstr
  sn_engineVersion :: jstr
  sn_calculationRuleVersion :: jstr
  sn_policyVersion :: jstr
  sn_rateTableVersion :: jstr
  sn_interpretationProfileId :: jstr
  sn_bucketIdentityVersion :: jstr
  sn_sourceVersionSet :: "CanonicalSourceVersionV1 list"
  sn_sourceVersionSetHash :: jstr
  sn_canonicalBuckets :: "CanonicalLegalBucketV1 list"

text \<open>What the validator returns: the snapshot with the evidence it was checked against.\<close>

record ValidatedCanonicalSnapshotV1 =
  vs_snapshotRef :: jstr
  vs_snapshotHash :: jstr
  vs_canonicalPayload :: jstr
  vs_snapshot :: CanonicalReceivableApplicationSnapshotV1

record CanonicalSnapshotEnvelopeV1 =
  en_snapshotRef :: jstr
  en_snapshotHash :: jstr
  en_canonicalPayload :: jstr
  en_snapshot :: CanonicalReceivableApplicationSnapshotV1

record BuildLegalApplicationPlanCommand =
  cm_tenantId :: jstr
  cm_caseId :: jstr
  cm_collectionId :: jstr
  cm_receiptAmountMinor :: int
  cm_currency :: jstr
  cm_minorUnit :: jsnum
  cm_applicationEffectiveDate :: jstr
  cm_expectedSnapshotRef :: jstr
  cm_expectedSnapshotHash :: jstr
  cm_expectedSourceVersionSetHash :: jstr
  cm_expectedHistoryBoundaryRef :: jstr
  cm_idempotencyKey :: jstr
  cm_commandHash :: jstr

record PlannedLegalApplication =
  pa_componentType :: jstr
  pa_componentCode :: jstr
  pa_sourceLineageSetRef :: jstr
  pa_bucketContextKey :: jstr
  pa_bucketInstanceId :: jstr
  pa_priorityRank :: jsnum
  pa_sequence :: nat
  pa_appliedAmountMinor :: int
  pa_bucketBeforeMinor :: int
  pa_bucketAfterMinor :: int

record PlannedApplicationAttribution =
  at_bucketInstanceId :: jstr
  at_sourceLineageSetRef :: jstr
  at_attributedAmountMinor :: "int option"

record LegalApplicationPlan =
  lp_direction :: jstr
  lp_planFingerprint :: jstr
  lp_tenantId :: jstr
  lp_caseId :: jstr
  lp_collectionId :: jstr
  lp_currency :: jstr
  lp_minorUnit :: jsnum
  lp_snapshotRef :: jstr
  lp_snapshotHash :: jstr
  lp_sourceVersionSetHash :: jstr
  lp_historyBoundaryRef :: jstr
  lp_applicationEffectiveDate :: jstr
  lp_receiptAmountMinor :: int
  lp_appliedAmountMinor :: int
  lp_heldRemainderMinor :: int
  lp_heldReason :: "LegalApplicationHeldReason option"
  lp_applications :: "PlannedLegalApplication list"
  lp_attributions :: "PlannedApplicationAttribution list"

subsection \<open>Errors with their allow-listed metadata\<close>

datatype CanonicalSnapshotValidationReason =
    PAYLOAD_LIMIT_EXCEEDED
  | BUCKET_LIMIT_EXCEEDED
  | ATTRIBUTION_LIMIT_EXCEEDED
  | STRING_LIMIT_EXCEEDED
  | MAX_DEPTH_EXCEEDED
  | DUPLICATE_JSON_MEMBER
  | UNKNOWN_FIELD
  | REQUIRED_FIELD_MISSING
  | UNEXPECTED_NULL
  | NON_NFC_STRING
  | INVALID_INTEGER_STRING

record LegalApplicationPlanErrorMetadata =
  md_reason :: "CanonicalSnapshotValidationReason option"
  md_path :: "jstr option"
  md_configuredMaximum :: "nat option"
  md_actual :: "nat option"
  md_snapshotRef :: "jstr option"
  md_expectedSnapshotRef :: "jstr option"
  md_snapshotHash :: "jstr option"
  md_expectedSnapshotHash :: "jstr option"
  md_sourceVersionSetHash :: "jstr option"
  md_expectedSourceVersionSetHash :: "jstr option"
  md_historyBoundaryRef :: "jstr option"
  md_expectedHistoryBoundaryRef :: "jstr option"
  md_bucketContextKey :: "jstr option"
  md_bucketInstanceId :: "jstr option"
  md_componentType :: "jstr option"
  md_currency :: "jstr option"
  md_minorUnit :: "jsnum option"
  md_snapshotDate :: "jstr option"
  md_effectiveDate :: "jstr option"

definition empty_metadata :: LegalApplicationPlanErrorMetadata where
  "empty_metadata =
     \<lparr>md_reason = None, md_path = None, md_configuredMaximum = None, md_actual = None,
      md_snapshotRef = None, md_expectedSnapshotRef = None, md_snapshotHash = None,
      md_expectedSnapshotHash = None, md_sourceVersionSetHash = None,
      md_expectedSourceVersionSetHash = None, md_historyBoundaryRef = None,
      md_expectedHistoryBoundaryRef = None, md_bucketContextKey = None,
      md_bucketInstanceId = None, md_componentType = None, md_currency = None,
      md_minorUnit = None, md_snapshotDate = None, md_effectiveDate = None\<rparr>"

record LegalApplicationPlanError =
  err_code :: LegalApplicationPlanErrorCode
  err_metadata :: "LegalApplicationPlanErrorMetadata option"

definition plain_error :: "LegalApplicationPlanErrorCode \<Rightarrow> LegalApplicationPlanError" where
  "plain_error code = \<lparr>err_code = code, err_metadata = None\<rparr>"

text \<open>The check the modules share: an amount a PostgreSQL bigint column can hold.\<close>

definition isPersistenceSafeMinorAmount :: "int \<Rightarrow> bool" where
  "isPersistenceSafeMinorAmount value \<longleftrightarrow> 0 \<le> value \<and> value \<le> POSTGRES_BIGINT_MAX"

lemma persistence_safe_le:
  "isPersistenceSafeMinorAmount n \<Longrightarrow> 0 \<le> m \<Longrightarrow> m \<le> n \<Longrightarrow> isPersistenceSafeMinorAmount m"
  by (simp add: isPersistenceSafeMinorAmount_def)

end
