(* ===== verification/ApplyAllocation.thy ===== *)
theory ApplyAllocation
  imports Contracts "HOL-Library.Sublist"
begin

section \<open>The pure allocation of a receipt to the legal buckets (apply-allocation-core.ts)\<close>

text \<open>
  \<open>allocateValidatedSnapshotForApply\<close> ranks the buckets of a validated snapshot and pours the
  receipt into them in that order. The model keeps the two passes of the code (validation with
  ranking, then the loop with its run-time conservation checks). The abstract counterpart is
  \<open>pour\<close>, the waterfall without checks; the lemmas show that the checks of the loop never fire,
  that the amounts are conserved, that a bucket is served only when all buckets before it are
  exhausted, and that the order of the buckets in the snapshot is irrelevant.
\<close>

record PureApplyAllocationInput =
  ai_validatedSnapshot :: ValidatedCanonicalSnapshotV1
  ai_direction :: jsval
  ai_receiptAmountMinor :: int

record PureAppliedBucketAllocation =
  al_componentType :: jstr
  al_componentCode :: jstr
  al_priorityRank :: jsnum
  al_bucketContextKey :: jstr
  al_bucketInstanceId :: jstr
  al_sourceLineageSetRef :: jstr
  al_bucketBeforeMinor :: int
  al_appliedAmountMinor :: int
  al_bucketAfterMinor :: int

record PureApplyAllocationSuccess =
  as_allocations :: "PureAppliedBucketAllocation list"
  as_totalAppliedMinor :: int
  as_remainingAmountMinor :: int

type_synonym PureApplyAllocationResult = "LegalApplicationPlanErrorCode + PureApplyAllocationSuccess"

record RankedBucket =
  rk_componentRank :: int
  rk_bucket :: CanonicalLegalBucketV1

subsection \<open>Ranking\<close>

definition compareRankedBuckets :: "RankedBucket \<Rightarrow> RankedBucket \<Rightarrow> int" where
  "compareRankedBuckets left right =
     (if rk_componentRank left \<noteq> rk_componentRank right
      then (if rk_componentRank left < rk_componentRank right then -1 else 1)
      else if \<not> js_num_eq (bk_priorityRank (rk_bucket left)) (bk_priorityRank (rk_bucket right))
      then (if js_less (bk_priorityRank (rk_bucket left)) (bk_priorityRank (rk_bucket right))
            then -1 else 1)
      else compareBucketContextKeysUtf8
             (bk_bucketContextKey (rk_bucket left)) (bk_bucketContextKey (rk_bucket right)))"

definition rank_bucket ::
  "CanonicalReceivableApplicationSnapshotV1 \<Rightarrow> jstr list \<Rightarrow> CanonicalLegalBucketV1 \<Rightarrow>
   LegalApplicationPlanErrorCode + RankedBucket" where
  "rank_bucket snapshot contextKeys bucket =
     (case legalApplicationComponentRank (bk_componentType bucket) of
        None \<Rightarrow> Inl BUCKET_CONTEXT_UNMAPPED
      | Some componentRank \<Rightarrow>
          if \<not> js_is_integer (bk_priorityRank bucket) \<or> js_less (bk_priorityRank bucket) (js_int 0) \<or>
             js_less (js_int POSTGRES_INTEGER_MAX) (bk_priorityRank bucket)
          then Inl BUCKET_CONTEXT_UNMAPPED
          else if length (bk_bucketContextKey bucket) = 0 \<or> length (bk_bucketInstanceId bucket) = 0
          then Inl BUCKET_IDENTITY_INVALID
          else if bk_bucketContextKey bucket \<in> set contextKeys then Inl DUPLICATE_BUCKET_CONTEXT
          else if \<not> isPersistenceSafeMinorAmount (bk_bucketBalanceMinor bucket)
          then Inl AMOUNT_OUT_OF_RANGE
          else if bk_currency bucket \<noteq> sn_currency snapshot \<or>
                  \<not> js_num_eq (bk_minorUnit bucket) (sn_minorUnit snapshot)
          then Inl CURRENCY_OR_MINOR_UNIT_INVALID
          else Inr \<lparr>rk_componentRank = componentRank, rk_bucket = bucket\<rparr>)"

fun rank_buckets ::
  "CanonicalReceivableApplicationSnapshotV1 \<Rightarrow> jstr list \<Rightarrow> CanonicalLegalBucketV1 list \<Rightarrow>
   LegalApplicationPlanErrorCode + RankedBucket list" where
  "rank_buckets snapshot contextKeys [] = Inr []"
| "rank_buckets snapshot contextKeys (bucket # rest) =
     (case rank_bucket snapshot contextKeys bucket of
        Inl e \<Rightarrow> Inl e
      | Inr ranked \<Rightarrow>
          (case rank_buckets snapshot (bk_bucketContextKey bucket # contextKeys) rest of
             Inl e \<Rightarrow> Inl e
           | Inr rankedRest \<Rightarrow> Inr (ranked # rankedRest)))"

definition rankAndValidateBuckets ::
  "ValidatedCanonicalSnapshotV1 \<Rightarrow> LegalApplicationPlanErrorCode + RankedBucket list" where
  "rankAndValidateBuckets validatedSnapshot =
     (case rank_buckets (vs_snapshot validatedSnapshot) []
             (sn_canonicalBuckets (vs_snapshot validatedSnapshot)) of
        Inl e \<Rightarrow> Inl e
      | Inr rankedBuckets \<Rightarrow> Inr (js_sort compareRankedBuckets rankedBuckets))"

subsection \<open>The loop\<close>

definition mk_allocation ::
  "CanonicalLegalBucketV1 \<Rightarrow> int \<Rightarrow> int \<Rightarrow> PureAppliedBucketAllocation" where
  "mk_allocation bucket appliedMinor bucketAfterMinor =
     \<lparr>al_componentType = bk_componentType bucket,
      al_componentCode = bk_componentCode bucket,
      al_priorityRank = bk_priorityRank bucket,
      al_bucketContextKey = bk_bucketContextKey bucket,
      al_bucketInstanceId = bk_bucketInstanceId bucket,
      al_sourceLineageSetRef = bk_sourceLineageSetRef bucket,
      al_bucketBeforeMinor = bk_bucketBalanceMinor bucket,
      al_appliedAmountMinor = appliedMinor,
      al_bucketAfterMinor = bucketAfterMinor\<rparr>"

fun allocate_loop ::
  "RankedBucket list \<Rightarrow> int \<Rightarrow> PureAppliedBucketAllocation list \<Rightarrow>
   LegalApplicationPlanErrorCode + (PureAppliedBucketAllocation list \<times> int)" where
  "allocate_loop [] remainingMinor allocations = Inr (allocations, remainingMinor)"
| "allocate_loop (ranked # rest) remainingMinor allocations =
     (let bucket = rk_bucket ranked in
      if remainingMinor = 0 then Inr (allocations, remainingMinor)
      else if bk_bucketBalanceMinor bucket = 0 then allocate_loop rest remainingMinor allocations
      else
        let appliedMinor =
              (if bk_bucketBalanceMinor bucket < remainingMinor
               then bk_bucketBalanceMinor bucket else remainingMinor);
            bucketAfterMinor = bk_bucketBalanceMinor bucket - appliedMinor;
            remainingAfterMinor = remainingMinor - appliedMinor
        in if appliedMinor \<le> 0 \<or> bucketAfterMinor < 0 \<or> remainingAfterMinor < 0 \<or>
              bk_bucketBalanceMinor bucket < appliedMinor \<or> remainingMinor < appliedMinor \<or>
              \<not> isPersistenceSafeMinorAmount bucketAfterMinor \<or>
              \<not> isPersistenceSafeMinorAmount remainingAfterMinor
           then Inl CONSERVATION_FAILURE
           else allocate_loop rest remainingAfterMinor
                  (allocations @ [mk_allocation bucket appliedMinor bucketAfterMinor]))"

text \<open>The summation loop after it, which stops at an unbalanced allocation.\<close>

fun allocation_sum :: "PureAppliedBucketAllocation list \<Rightarrow> int \<Rightarrow> int option" where
  "allocation_sum [] acc = Some acc"
| "allocation_sum (allocation # rest) acc =
     (if al_bucketBeforeMinor allocation \<noteq>
         al_appliedAmountMinor allocation + al_bucketAfterMinor allocation
      then None
      else allocation_sum rest (acc + al_appliedAmountMinor allocation))"

definition allocateValidatedSnapshotForApply ::
  "PureApplyAllocationInput \<Rightarrow> PureApplyAllocationResult" where
  "allocateValidatedSnapshotForApply input =
     (if ai_direction input \<noteq> VStr APPLY then Inl DIRECTION_NOT_AUTHORIZED
      else if \<not> isPersistenceSafeMinorAmount (ai_receiptAmountMinor input) \<or>
              ai_receiptAmountMinor input = 0 \<or>
              ai_receiptAmountMinor input \<noteq>
                sn_receiptAmountMinor (vs_snapshot (ai_validatedSnapshot input))
      then Inl RECEIPT_AMOUNT_INVALID
      else
        (case rankAndValidateBuckets (ai_validatedSnapshot input) of
           Inl e \<Rightarrow> Inl e
         | Inr rankedBuckets \<Rightarrow>
             (case allocate_loop rankedBuckets (ai_receiptAmountMinor input) [] of
                Inl e \<Rightarrow> Inl e
              | Inr (allocations, remainingMinor) \<Rightarrow>
                  (let totalAppliedMinor = ai_receiptAmountMinor input - remainingMinor in
                   case allocation_sum allocations 0 of
                     None \<Rightarrow> Inl CONSERVATION_FAILURE
                   | Some allocationSumMinor \<Rightarrow>
                       if \<not> isPersistenceSafeMinorAmount totalAppliedMinor \<or>
                          allocationSumMinor \<noteq> totalAppliedMinor \<or>
                          ai_receiptAmountMinor input \<noteq> totalAppliedMinor + remainingMinor
                       then Inl CONSERVATION_FAILURE
                       else Inr \<lparr>as_allocations = allocations,
                                 as_totalAppliedMinor = totalAppliedMinor,
                                 as_remainingAmountMinor = remainingMinor\<rparr>))))"

subsection \<open>The buckets the first pass accepts\<close>

definition bucket_admissible ::
  "CanonicalReceivableApplicationSnapshotV1 \<Rightarrow> CanonicalLegalBucketV1 \<Rightarrow> bool" where
  "bucket_admissible snapshot b \<longleftrightarrow>
     legalApplicationComponentRank (bk_componentType b) \<noteq> None \<and>
     js_nat_upto POSTGRES_INTEGER_MAX (bk_priorityRank b) \<and>
     bk_bucketContextKey b \<noteq> [] \<and> bk_bucketInstanceId b \<noteq> [] \<and>
     isPersistenceSafeMinorAmount (bk_bucketBalanceMinor b) \<and>
     bk_currency b = sn_currency snapshot \<and> js_num_eq (bk_minorUnit b) (sn_minorUnit snapshot)"

definition buckets_admissible :: "CanonicalReceivableApplicationSnapshotV1 \<Rightarrow> bool" where
  "buckets_admissible snapshot \<longleftrightarrow>
     list_all (bucket_admissible snapshot) (sn_canonicalBuckets snapshot) \<and>
     distinct (map bk_bucketContextKey (sn_canonicalBuckets snapshot))"

definition ranked :: "CanonicalLegalBucketV1 \<Rightarrow> RankedBucket" where
  "ranked b = \<lparr>rk_componentRank = the (legalApplicationComponentRank (bk_componentType b)),
               rk_bucket = b\<rparr>"

lemma rk_bucket_ranked [simp]: "rk_bucket (ranked b) = b"
  by (simp add: ranked_def)

lemma ranked_inj [simp]: "ranked a = ranked b \<longleftrightarrow> a = b"
  by (metis rk_bucket_ranked)

lemma rank_bucket_Inr:
  "rank_bucket sn keys b = Inr r \<longleftrightarrow>
     bucket_admissible sn b \<and> bk_bucketContextKey b \<notin> set keys \<and> r = ranked b"
  by (auto simp: rank_bucket_def bucket_admissible_def ranked_def js_nat_upto_def
      split: option.splits if_splits)

lemma rank_buckets_Inr:
  "rank_buckets sn keys bs = Inr rs \<longleftrightarrow>
     list_all (bucket_admissible sn) bs \<and> distinct (map bk_bucketContextKey bs) \<and>
     set (map bk_bucketContextKey bs) \<inter> set keys = {} \<and> rs = map ranked bs"
proof (induction bs arbitrary: keys rs)
  case Nil
  then show ?case by auto
next
  case (Cons b bs)
  show ?case
    by (auto simp: guard_simps rank_bucket_Inr Cons)
qed

definition ranked_buckets :: "CanonicalReceivableApplicationSnapshotV1 \<Rightarrow> RankedBucket list" where
  "ranked_buckets sn = js_sort compareRankedBuckets (map ranked (sn_canonicalBuckets sn))"

lemma rankAndValidateBuckets_Inr:
  "rankAndValidateBuckets v = Inr rs \<longleftrightarrow>
     buckets_admissible (vs_snapshot v) \<and> rs = ranked_buckets (vs_snapshot v)"
  by (auto simp: rankAndValidateBuckets_def buckets_admissible_def ranked_buckets_def
      rank_buckets_Inr guard_simps)

text \<open>The legal order of the buckets: the sorted list without the ranks.\<close>

definition legal_order :: "CanonicalReceivableApplicationSnapshotV1 \<Rightarrow> CanonicalLegalBucketV1 list" where
  "legal_order sn = map rk_bucket (ranked_buckets sn)"

lemma mset_legal_order [simp]: "mset (legal_order sn) = mset (sn_canonicalBuckets sn)"
  by (simp add: legal_order_def ranked_buckets_def multiset.map_comp comp_def)

lemma set_legal_order [simp]: "set (legal_order sn) = set (sn_canonicalBuckets sn)"
  by (metis mset_legal_order set_mset_mset)

lemma legal_order_admissible:
  "buckets_admissible sn \<Longrightarrow> b \<in> set (legal_order sn) \<Longrightarrow> bucket_admissible sn b"
  by (auto simp: buckets_admissible_def list_all_iff)

lemma distinct_legal_order:
  "buckets_admissible sn \<Longrightarrow> distinct (map bk_bucketContextKey (legal_order sn))"
  unfolding buckets_admissible_def
  by (metis mset_eq_imp_distinct_iff mset_legal_order mset_map)

subsection \<open>The waterfall\<close>

fun pour :: "CanonicalLegalBucketV1 list \<Rightarrow> int \<Rightarrow> PureAppliedBucketAllocation list" where
  "pour [] r = []"
| "pour (b # bs) r =
     (let applied = min (bk_bucketBalanceMinor b) r in
      if applied = 0 then pour bs r
      else mk_allocation b applied (bk_bucketBalanceMinor b - applied) # pour bs (r - applied))"

abbreviation balances :: "CanonicalLegalBucketV1 list \<Rightarrow> int" where
  "balances bs \<equiv> sum_list (map bk_bucketBalanceMinor bs)"

definition nonneg_balances :: "CanonicalLegalBucketV1 list \<Rightarrow> bool" where
  "nonneg_balances bs \<longleftrightarrow> list_all (\<lambda>b. isPersistenceSafeMinorAmount (bk_bucketBalanceMinor b)) bs"

lemma nonneg_balances_simps [simp]:
  "nonneg_balances []"
  "nonneg_balances (b # bs) \<longleftrightarrow>
     isPersistenceSafeMinorAmount (bk_bucketBalanceMinor b) \<and> nonneg_balances bs"
  by (simp_all add: nonneg_balances_def)

lemma nonneg_balances_sum: "nonneg_balances bs \<Longrightarrow> 0 \<le> balances bs"
  by (induction bs) (auto simp: isPersistenceSafeMinorAmount_def)

lemma pour_zero [simp]: "nonneg_balances bs \<Longrightarrow> pour bs 0 = []"
  by (induction bs) (auto simp: isPersistenceSafeMinorAmount_def)

lemma allocate_loop_pour:
  assumes "nonneg_balances (map rk_bucket rs)" "isPersistenceSafeMinorAmount r"
  shows "allocate_loop rs r acc =
     Inr (acc @ pour (map rk_bucket rs) r, r - min r (balances (map rk_bucket rs)))"
  using assms
proof (induction rs r acc rule: allocate_loop.induct)
  case (1 r acc)
  then show ?case by (simp add: isPersistenceSafeMinorAmount_def)
next
  case (2 rb rest r acc)
  let ?b = "rk_bucket rb" and ?bal = "bk_bucketBalanceMinor (rk_bucket rb)"
  from "2.prems" have bal: "0 \<le> ?bal" "?bal \<le> POSTGRES_BIGINT_MAX"
    and rest: "nonneg_balances (map rk_bucket rest)" "0 \<le> balances (map rk_bucket rest)"
    and r: "0 \<le> r" "r \<le> POSTGRES_BIGINT_MAX"
    using nonneg_balances_sum [of "map rk_bucket rest"]
    by (auto simp: isPersistenceSafeMinorAmount_def)
  consider "r = 0" | "r \<noteq> 0" "?bal = 0" | "r \<noteq> 0" "?bal \<noteq> 0" by blast
  then show ?case
  proof cases
    case 1
    with bal rest show ?thesis by (simp add: min_def)
  next
    case 2
    with rest r "2.IH"(1) [OF refl] "2.prems" show ?thesis by (simp add: min_def)
  next
    case 3
    let ?ap = "if ?bal < r then ?bal else r"
    from 3 bal r have "\<not> (?ap \<le> 0 \<or> ?bal - ?ap < 0 \<or> r - ?ap < 0 \<or> ?bal < ?ap \<or> r < ?ap \<or>
        \<not> isPersistenceSafeMinorAmount (?bal - ?ap) \<or> \<not> isPersistenceSafeMinorAmount (r - ?ap))"
      by (auto simp: isPersistenceSafeMinorAmount_def)
    with 3 have "allocate_loop (rb # rest) r acc =
        allocate_loop rest (r - ?ap) (acc @ [mk_allocation ?b ?ap (?bal - ?ap)])"
      by (simp add: Let_def)
    moreover have "allocate_loop rest (r - ?ap) (acc @ [mk_allocation ?b ?ap (?bal - ?ap)]) =
        Inr (acc @ [mk_allocation ?b ?ap (?bal - ?ap)] @ pour (map rk_bucket rest) (r - ?ap),
             (r - ?ap) - min (r - ?ap) (balances (map rk_bucket rest)))"
      using "2.IH"(2) [OF refl 3(1) 3(2) refl refl refl] rest r bal
        \<open>\<not> (?ap \<le> 0 \<or> _)\<close>
      by (simp add: isPersistenceSafeMinorAmount_def)
    moreover have "?ap = min ?bal r" by simp
    moreover have "(r - ?ap) - min (r - ?ap) (balances (map rk_bucket rest))
        = r - min r (?bal + balances (map rk_bucket rest))"
      using r bal rest by (auto simp: min_def)
    ultimately show ?thesis using 3 bal r by (auto simp: Let_def)
  qed
qed

subsection \<open>The comparison function is consistent on the ranked buckets\<close>

definition ranked_domain :: "RankedBucket set" where
  "ranked_domain = {rb. js_is_integer (bk_priorityRank (rk_bucket rb))}"

lemma compareRankedBuckets_int:
  assumes "bk_priorityRank (rk_bucket a) = js_int i" "bk_priorityRank (rk_bucket b) = js_int j"
  shows "compareRankedBuckets a b =
     (if rk_componentRank a \<noteq> rk_componentRank b
      then (if rk_componentRank a < rk_componentRank b then -1 else 1)
      else if i \<noteq> j then (if i < j then -1 else 1)
      else compareBucketContextKeysUtf8
             (bk_bucketContextKey (rk_bucket a)) (bk_bucketContextKey (rk_bucket b)))"
  by (simp add: compareRankedBuckets_def assms)

lemma compareRankedBuckets_le_0:
  assumes "bk_priorityRank (rk_bucket a) = js_int i" "bk_priorityRank (rk_bucket b) = js_int j"
  shows "compareRankedBuckets a b \<le> 0 \<longleftrightarrow>
     rk_componentRank a < rk_componentRank b \<or>
     (rk_componentRank a = rk_componentRank b \<and>
      (i < j \<or>
       (i = j \<and> compareBucketContextKeysUtf8
                   (bk_bucketContextKey (rk_bucket a)) (bk_bucketContextKey (rk_bucket b)) \<le> 0)))"
  using assms by (auto simp: compareRankedBuckets_int)

interpretation ranked_order: consistent_comparator compareRankedBuckets ranked_domain
proof
  fix x y z :: RankedBucket
  assume "x \<in> ranked_domain"
  then obtain i where x: "bk_priorityRank (rk_bucket x) = js_int i"
    by (auto simp: ranked_domain_def dest: js_is_integerD)
  show "compareRankedBuckets x x = 0"
    using context_key_order.cmp_refl by (simp add: compareRankedBuckets_int [OF x x])
  assume "y \<in> ranked_domain"
  then obtain j where y: "bk_priorityRank (rk_bucket y) = js_int j"
    by (auto simp: ranked_domain_def dest: js_is_integerD)
  show "compareRankedBuckets x y \<le> 0 \<longleftrightarrow> 0 \<le> compareRankedBuckets y x"
    using context_key_order.cmp_flip
    by (simp add: compareRankedBuckets_int [OF x y] compareRankedBuckets_int [OF y x])
  assume "z \<in> ranked_domain"
  then obtain k where z: "bk_priorityRank (rk_bucket z) = js_int k"
    by (auto simp: ranked_domain_def dest: js_is_integerD)
  assume "compareRankedBuckets x y \<le> 0" "compareRankedBuckets y z \<le> 0"
  then show "compareRankedBuckets x z \<le> 0"
    using context_key_order.cmp_trans [of "bk_bucketContextKey (rk_bucket x)"
        "bk_bucketContextKey (rk_bucket y)" "bk_bucketContextKey (rk_bucket z)"]
    by (auto simp: compareRankedBuckets_le_0 [OF x y] compareRankedBuckets_le_0 [OF y z]
        compareRankedBuckets_le_0 [OF x z])
qed

lemma admissible_ranked_domain: "bucket_admissible sn b \<Longrightarrow> ranked b \<in> ranked_domain"
  by (auto simp: bucket_admissible_def ranked_domain_def js_nat_upto_def)

lemma compareRankedBuckets_antisym:
  assumes "a \<in> ranked_domain" "b \<in> ranked_domain"
    and "compareRankedBuckets a b \<le> 0" "compareRankedBuckets b a \<le> 0"
  shows "utf8 (bk_bucketContextKey (rk_bucket a)) = utf8 (bk_bucketContextKey (rk_bucket b))"
proof -
  obtain i j where i: "bk_priorityRank (rk_bucket a) = js_int i"
    and j: "bk_priorityRank (rk_bucket b) = js_int j"
    using assms(1,2) by (auto simp: ranked_domain_def dest: js_is_integerD)
  from assms(3,4) show ?thesis
    unfolding compareRankedBuckets_le_0 [OF i j] compareRankedBuckets_le_0 [OF j i]
    by (auto intro: compareBucketContextKeysUtf8_antisym)
qed

lemma sorted_legal_order:
  assumes "buckets_admissible sn"
  shows "sorted_wrt (\<lambda>a b. compareRankedBuckets (ranked a) (ranked b) \<le> 0) (legal_order sn)"
proof -
  have dom: "set (map ranked (sn_canonicalBuckets sn)) \<subseteq> ranked_domain"
    using assms by (auto simp: buckets_admissible_def list_all_iff intro: admissible_ranked_domain)
  have "ranked (rk_bucket r) = r" if "r \<in> set (ranked_buckets sn)" for r
    using that by (auto simp: ranked_buckets_def)
  moreover have "sorted_wrt (\<lambda>a b. compareRankedBuckets a b \<le> 0) (ranked_buckets sn)"
    unfolding ranked_buckets_def by (rule ranked_order.sorted_js_sort [OF dom])
  ultimately show ?thesis
    by (auto simp: legal_order_def sorted_wrt_map elim!: sorted_wrt_mono_rel [rotated])
qed

subsection \<open>Facts on the waterfall\<close>

lemma nonneg_legal_order: "buckets_admissible sn \<Longrightarrow> nonneg_balances (legal_order sn)"
  by (auto simp: nonneg_balances_def list_all_iff buckets_admissible_def bucket_admissible_def)

lemma balances_legal_order [simp]: "balances (legal_order sn) = balances (sn_canonicalBuckets sn)"
  by (metis mset_legal_order mset_map sum_mset_sum_list)

lemma pour_append:
  assumes "nonneg_balances xs" "nonneg_balances ys" "0 \<le> r"
  shows "pour (xs @ ys) r = pour xs r @ pour ys (r - min r (balances xs))"
  using assms
proof (induction xs arbitrary: r)
  case Nil
  then show ?case by simp
next
  case (Cons b xs)
  let ?ap = "min (bk_bucketBalanceMinor b) r"
  from Cons.prems nonneg_balances_sum [of xs] have nn: "0 \<le> r - ?ap" "0 \<le> bk_bucketBalanceMinor b"
    "0 \<le> balances xs" by (auto simp: isPersistenceSafeMinorAmount_def)
  then have rest: "r - ?ap - min (r - ?ap) (balances xs) = r - min r (balances (b # xs))"
    by (auto simp: min_def)
  have IH: "pour (xs @ ys) (r - ?ap) = pour xs (r - ?ap) @ pour ys (r - min r (balances (b # xs)))"
    using Cons.IH [of "r - ?ap"] Cons.prems nn unfolding rest by simp
  show ?case
  proof (cases "?ap = 0")
    case True
    then have "r - ?ap = r" by simp
    with True IH show ?thesis by (simp add: Let_def)
  next
    case False
    with IH show ?thesis by (simp add: Let_def)
  qed
qed

lemma pour_enough:
  assumes "nonneg_balances bs" "balances bs \<le> r"
  shows "pour bs r =
     map (\<lambda>b. mk_allocation b (bk_bucketBalanceMinor b) 0) (filter (\<lambda>b. bk_bucketBalanceMinor b \<noteq> 0) bs)"
  using assms
proof (induction bs arbitrary: r)
  case Nil
  then show ?case by simp
next
  case (Cons b bs)
  with nonneg_balances_sum [of bs] have "bk_bucketBalanceMinor b \<le> r"
    "balances bs \<le> r - bk_bucketBalanceMinor b" "0 \<le> bk_bucketBalanceMinor b"
    by (auto simp: isPersistenceSafeMinorAmount_def)
  with Cons show ?case by (auto simp: Let_def min_def)
qed

lemma pour_mem:
  assumes "a \<in> set (pour bs r)" "nonneg_balances bs" "0 \<le> r"
  shows "\<exists>b ap. b \<in> set bs \<and> a = mk_allocation b ap (bk_bucketBalanceMinor b - ap) \<and>
     0 < ap \<and> ap \<le> bk_bucketBalanceMinor b \<and> ap \<le> r"
  using assms
proof (induction bs arbitrary: r)
  case Nil
  then show ?case by simp
next
  case (Cons b bs)
  let ?ap = "min (bk_bucketBalanceMinor b) r"
  have b: "0 \<le> bk_bucketBalanceMinor b"
    using Cons.prems(2) by (simp add: isPersistenceSafeMinorAmount_def)
  show ?case
  proof (cases "?ap \<noteq> 0 \<and> a = mk_allocation b ?ap (bk_bucketBalanceMinor b - ?ap)")
    case True
    with b Cons.prems(3) show ?thesis by (intro exI [of _ b] exI [of _ ?ap]) auto
  next
    case False
    with Cons.prems have "a \<in> set (pour bs (r - ?ap))" by (auto simp: Let_def split: if_splits)
    with Cons.IH [of "r - ?ap"] Cons.prems(2,3) b show ?thesis by fastforce
  qed
qed

lemma mk_allocation_sel [simp]:
  "al_bucketContextKey (mk_allocation b ap r) = bk_bucketContextKey b"
  "al_bucketInstanceId (mk_allocation b ap r) = bk_bucketInstanceId b"
  "al_bucketBeforeMinor (mk_allocation b ap r) = bk_bucketBalanceMinor b"
  "al_appliedAmountMinor (mk_allocation b ap r) = ap"
  "al_bucketAfterMinor (mk_allocation b ap r) = r"
  "al_componentType (mk_allocation b ap r) = bk_componentType b"
  "al_componentCode (mk_allocation b ap r) = bk_componentCode b"
  "al_priorityRank (mk_allocation b ap r) = bk_priorityRank b"
  "al_sourceLineageSetRef (mk_allocation b ap r) = bk_sourceLineageSetRef b"
  by (simp_all add: mk_allocation_def)

lemma allocation_sum_pour:
  assumes "nonneg_balances bs" "0 \<le> r"
  shows "allocation_sum (pour bs r) acc = Some (acc + min r (balances bs))"
  using assms
proof (induction bs arbitrary: r acc)
  case Nil
  then show ?case by simp
next
  case (Cons b bs)
  let ?ap = "min (bk_bucketBalanceMinor b) r"
  from Cons.prems nonneg_balances_sum [of bs] have "0 \<le> r - ?ap" "0 \<le> bk_bucketBalanceMinor b"
    "0 \<le> balances bs" "nonneg_balances bs" by (auto simp: isPersistenceSafeMinorAmount_def)
  then show ?case using Cons.IH [of "r - ?ap"] by (auto simp: Let_def min_def)
qed

lemma allocation_sum_sum_list:
  "allocation_sum as acc = Some s \<Longrightarrow> s = acc + sum_list (map al_appliedAmountMinor as)"
proof (induction as arbitrary: acc)
  case (Cons a as)
  then have "allocation_sum as (acc + al_appliedAmountMinor a) = Some s" by (simp split: if_splits)
  from Cons.IH [OF this] show ?case by simp
qed simp

lemma pour_sublist_keys:
  "\<exists>bs'. subseq bs' bs \<and> map al_bucketInstanceId (pour bs r) = map bk_bucketInstanceId bs' \<and>
     map al_bucketContextKey (pour bs r) = map bk_bucketContextKey bs'"
proof (induction bs arbitrary: r)
  case Nil
  then show ?case by simp
next
  case (Cons b bs)
  let ?ap = "min (bk_bucketBalanceMinor b) r"
  obtain bs' where IH: "subseq bs' bs"
    "map al_bucketInstanceId (pour bs (r - ?ap)) = map bk_bucketInstanceId bs'"
    "map al_bucketContextKey (pour bs (r - ?ap)) = map bk_bucketContextKey bs'"
    using Cons.IH by blast
  show ?case
  proof (cases "?ap = 0")
    case True
    with IH show ?thesis by (intro exI [of _ bs']) (auto simp: Let_def)
  next
    case False
    with IH show ?thesis by (intro exI [of _ "b # bs'"]) (auto simp: Let_def)
  qed
qed

subsection \<open>The whole function\<close>

definition waterfall_result ::
  "CanonicalReceivableApplicationSnapshotV1 \<Rightarrow> int \<Rightarrow> PureApplyAllocationSuccess" where
  "waterfall_result sn r =
     \<lparr>as_allocations = pour (legal_order sn) r,
      as_totalAppliedMinor = min r (balances (sn_canonicalBuckets sn)),
      as_remainingAmountMinor = r - min r (balances (sn_canonicalBuckets sn))\<rparr>"

definition apply_admissible :: "PureApplyAllocationInput \<Rightarrow> bool" where
  "apply_admissible input \<longleftrightarrow>
     ai_direction input = VStr APPLY \<and>
     0 < ai_receiptAmountMinor input \<and> ai_receiptAmountMinor input \<le> POSTGRES_BIGINT_MAX \<and>
     ai_receiptAmountMinor input = sn_receiptAmountMinor (vs_snapshot (ai_validatedSnapshot input)) \<and>
     buckets_admissible (vs_snapshot (ai_validatedSnapshot input))"

lemma map_rk_bucket_ranked_buckets: "map rk_bucket (ranked_buckets sn) = legal_order sn"
  by (simp add: legal_order_def)

text \<open>Once the buckets are accepted, no run-time check of the loop or of the totals can fire.\<close>

lemma allocate_after_ranking:
  assumes adm: "buckets_admissible (vs_snapshot v)" and r: "isPersistenceSafeMinorAmount r"
  shows "allocate_loop (ranked_buckets (vs_snapshot v)) r [] =
           Inr (pour (legal_order (vs_snapshot v)) r,
                r - min r (balances (sn_canonicalBuckets (vs_snapshot v))))"
    and "allocation_sum (pour (legal_order (vs_snapshot v)) r) 0 =
           Some (min r (balances (sn_canonicalBuckets (vs_snapshot v))))"
    and "isPersistenceSafeMinorAmount (min r (balances (sn_canonicalBuckets (vs_snapshot v))))"
proof -
  let ?sn = "vs_snapshot v"
  have nn: "nonneg_balances (legal_order ?sn)" using adm by (rule nonneg_legal_order)
  have r0: "0 \<le> r" using r by (simp add: isPersistenceSafeMinorAmount_def)
  show "allocate_loop (ranked_buckets ?sn) r [] =
      Inr (pour (legal_order ?sn) r, r - min r (balances (sn_canonicalBuckets ?sn)))"
    using allocate_loop_pour [of "ranked_buckets ?sn" r "[]"] nn r
    by (simp add: map_rk_bucket_ranked_buckets)
  show "allocation_sum (pour (legal_order ?sn) r) 0 =
      Some (min r (balances (sn_canonicalBuckets ?sn)))"
    using allocation_sum_pour [OF nn r0, of 0] by simp
  have "0 \<le> balances (sn_canonicalBuckets ?sn)" using nonneg_balances_sum [OF nn] by simp
  with r show "isPersistenceSafeMinorAmount (min r (balances (sn_canonicalBuckets ?sn)))"
    by (simp add: isPersistenceSafeMinorAmount_def min_def)
qed

lemma allocate_eq:
  "allocateValidatedSnapshotForApply input =
     (if ai_direction input \<noteq> VStr APPLY then Inl DIRECTION_NOT_AUTHORIZED
      else if \<not> isPersistenceSafeMinorAmount (ai_receiptAmountMinor input) \<or>
              ai_receiptAmountMinor input = 0 \<or>
              ai_receiptAmountMinor input \<noteq>
                sn_receiptAmountMinor (vs_snapshot (ai_validatedSnapshot input))
      then Inl RECEIPT_AMOUNT_INVALID
      else
        (case rankAndValidateBuckets (ai_validatedSnapshot input) of
           Inl e \<Rightarrow> Inl e
         | Inr _ \<Rightarrow> Inr (waterfall_result (vs_snapshot (ai_validatedSnapshot input))
                              (ai_receiptAmountMinor input))))"
proof (cases "rankAndValidateBuckets (ai_validatedSnapshot input)")
  case (Inl e)
  then show ?thesis unfolding allocateValidatedSnapshotForApply_def by auto
next
  case (Inr rs)
  then have adm: "buckets_admissible (vs_snapshot (ai_validatedSnapshot input))"
    and rs: "rs = ranked_buckets (vs_snapshot (ai_validatedSnapshot input))"
    by (simp_all add: rankAndValidateBuckets_Inr)
  define r where "r = ai_receiptAmountMinor input"
  show ?thesis
  proof (cases "isPersistenceSafeMinorAmount r")
    case True
    show ?thesis
      unfolding allocateValidatedSnapshotForApply_def r_def [symmetric] Inr sum.case rs
        allocate_after_ranking [OF adm True] prod.case option.case waterfall_result_def Let_def
      using allocate_after_ranking(3) [OF adm True] by auto
  next
    case False
    then show ?thesis
      unfolding allocateValidatedSnapshotForApply_def r_def [symmetric] by simp
  qed
qed

lemma allocate_Inr:
  "allocateValidatedSnapshotForApply input = Inr res \<longleftrightarrow>
     apply_admissible input \<and>
     res = waterfall_result (vs_snapshot (ai_validatedSnapshot input)) (ai_receiptAmountMinor input)"
  unfolding allocate_eq apply_admissible_def
  by (auto simp: guard_simps rankAndValidateBuckets_Inr isPersistenceSafeMinorAmount_def)

lemma allocate_InrD:
  assumes "allocateValidatedSnapshotForApply input = Inr res"
  shows "apply_admissible input"
    and "nonneg_balances (legal_order (vs_snapshot (ai_validatedSnapshot input)))"
    and "0 < ai_receiptAmountMinor input"
    and "as_allocations res =
           pour (legal_order (vs_snapshot (ai_validatedSnapshot input))) (ai_receiptAmountMinor input)"
  using assms nonneg_legal_order
  by (auto simp: allocate_Inr apply_admissible_def waterfall_result_def)

lemma rank_bucket_Inl: "rank_bucket sn keys b = Inl e \<Longrightarrow>
   e \<in> {BUCKET_CONTEXT_UNMAPPED, BUCKET_IDENTITY_INVALID, DUPLICATE_BUCKET_CONTEXT,
        AMOUNT_OUT_OF_RANGE, CURRENCY_OR_MINOR_UNIT_INVALID}"
  by (auto simp: rank_bucket_def split: option.splits if_splits)

lemma rank_buckets_Inl: "rank_buckets sn keys bs = Inl e \<Longrightarrow>
   e \<in> {BUCKET_CONTEXT_UNMAPPED, BUCKET_IDENTITY_INVALID, DUPLICATE_BUCKET_CONTEXT,
        AMOUNT_OUT_OF_RANGE, CURRENCY_OR_MINOR_UNIT_INVALID}"
proof (induction bs arbitrary: keys)
  case (Cons b bs)
  from Cons.prems consider "rank_bucket sn keys b = Inl e"
    | "rank_buckets sn (bk_bucketContextKey b # keys) bs = Inl e"
    by (auto split: sum.splits)
  then show ?case
  proof cases
    case 1
    then show ?thesis by (rule rank_bucket_Inl)
  next
    case 2
    then show ?thesis by (rule Cons.IH)
  qed
qed simp

lemma rankAndValidateBuckets_Inl: "rankAndValidateBuckets v = Inl e \<Longrightarrow>
   e \<in> {BUCKET_CONTEXT_UNMAPPED, BUCKET_IDENTITY_INVALID, DUPLICATE_BUCKET_CONTEXT,
        AMOUNT_OUT_OF_RANGE, CURRENCY_OR_MINOR_UNIT_INVALID}"
  using rank_buckets_Inl by (force simp: rankAndValidateBuckets_def split: sum.splits)

subsection \<open>Priority\<close>

lemma pour_keys: "a \<in> set (pour bs r) \<Longrightarrow> al_bucketContextKey a \<in> bk_bucketContextKey ` set bs"
  by (induction bs arbitrary: r) (fastforce simp: Let_def split: if_splits)+

lemma pour_served:
  assumes "nonneg_balances (xs @ c # ys)" "0 \<le> r"
    and "distinct (map bk_bucketContextKey (xs @ c # ys))"
    and "a \<in> set (pour (xs @ c # ys) r)" "al_bucketContextKey a = bk_bucketContextKey c"
  shows "balances xs < r"
proof (rule ccontr)
  assume "\<not> balances xs < r"
  then have "r - min r (balances xs) = 0" by simp
  moreover have nn: "nonneg_balances xs" "nonneg_balances (c # ys)"
    using assms(1) by (simp_all add: nonneg_balances_def)
  ultimately have "pour (xs @ c # ys) r = pour xs r"
    using pour_append [OF nn assms(2)] by (metis append_Nil2 pour_zero)
  with assms(4) have "al_bucketContextKey a \<in> bk_bucketContextKey ` set xs"
    by (simp add: pour_keys)
  with assms(3,5) show False by auto
qed

lemma legal_order_before:
  assumes "buckets_admissible sn" "b \<in> set (sn_canonicalBuckets sn)" "c \<in> set (sn_canonicalBuckets sn)"
    and "compareRankedBuckets (ranked b) (ranked c) < 0"
  shows "\<exists>xs ys. legal_order sn = xs @ c # ys \<and> b \<in> set xs"
proof -
  have dom: "ranked b \<in> ranked_domain" "ranked c \<in> ranked_domain"
    using assms(1-3) by (auto simp: buckets_admissible_def list_all_iff intro: admissible_ranked_domain)
  obtain xs ys where split: "legal_order sn = xs @ c # ys"
    using assms(3) by (metis set_legal_order split_list)
  have "b \<noteq> c" using assms(4) ranked_order.cmp_refl [OF dom(1)] by auto
  moreover have "b \<notin> set ys"
  proof
    assume "b \<in> set ys"
    with sorted_legal_order [OF assms(1)] have "compareRankedBuckets (ranked c) (ranked b) \<le> 0"
      by (simp add: split sorted_wrt_append)
    with ranked_order.cmp_flip [OF dom(2,1)] assms(4) show False by simp
  qed
  moreover have "b \<in> set (legal_order sn)" using assms(2) by simp
  ultimately show ?thesis using split by auto
qed

lemma ranked_buckets_perm:
  assumes "mset (sn_canonicalBuckets sn') = mset (sn_canonicalBuckets sn)" "buckets_admissible sn"
    and "\<forall>b \<in> set (sn_canonicalBuckets sn). BUCKET_CONTEXT_KEY (bk_bucketContextKey b)"
  shows "ranked_buckets sn' = ranked_buckets sn"
  unfolding ranked_buckets_def
proof (rule ranked_order.js_sort_perm)
  have sets: "set (sn_canonicalBuckets sn') = set (sn_canonicalBuckets sn)"
    using assms(1) by (metis set_mset_mset)
  show "mset (map ranked (sn_canonicalBuckets sn')) = mset (map ranked (sn_canonicalBuckets sn))"
    using assms(1) by (simp add: mset_map)
  show dom: "set (map ranked (sn_canonicalBuckets sn')) \<subseteq> ranked_domain"
    using assms(2) sets
    by (auto simp: buckets_admissible_def list_all_iff intro: admissible_ranked_domain)
  fix a b
  assume ab: "a \<in> set (map ranked (sn_canonicalBuckets sn'))"
    "b \<in> set (map ranked (sn_canonicalBuckets sn'))"
    and le: "compareRankedBuckets a b \<le> 0" "compareRankedBuckets b a \<le> 0"
  from ab obtain x y where xy: "a = ranked x" "b = ranked y"
    "x \<in> set (sn_canonicalBuckets sn)" "y \<in> set (sn_canonicalBuckets sn)"
    using sets by auto
  have "utf8 (bk_bucketContextKey x) = utf8 (bk_bucketContextKey y)"
    using compareRankedBuckets_antisym [of a b] dom ab le xy by auto
  then have "bk_bucketContextKey x = bk_bucketContextKey y"
    using assms(3) xy by (simp add: BUCKET_CONTEXT_KEY_utf8_inj)
  moreover have "inj_on bk_bucketContextKey (set (sn_canonicalBuckets sn))"
    using assms(2) by (simp add: buckets_admissible_def distinct_map)
  ultimately show "a = b" using xy by (simp add: inj_on_eq_iff)
qed

lemma buckets_admissible_perm:
  assumes "mset bs = mset (sn_canonicalBuckets sn)"
  shows "buckets_admissible (sn\<lparr>sn_canonicalBuckets := bs\<rparr>) \<longleftrightarrow> buckets_admissible sn"
proof -
  have "set bs = set (sn_canonicalBuckets sn)" using assms by (metis set_mset_mset)
  moreover have "distinct (map bk_bucketContextKey bs)
      \<longleftrightarrow> distinct (map bk_bucketContextKey (sn_canonicalBuckets sn))"
    using assms by (metis mset_eq_imp_distinct_iff mset_map)
  moreover have "bucket_admissible (sn\<lparr>sn_canonicalBuckets := bs\<rparr>) b = bucket_admissible sn b" for b
    by (simp add: bucket_admissible_def)
  ultimately show ?thesis by (simp add: buckets_admissible_def list_all_iff)
qed

subsection \<open>A concrete snapshot\<close>

definition sample_hash :: "nat \<Rightarrow> jstr" where
  "sample_hash d = replicate 63 48 @ [48 + d]"

definition sample_bucket :: "jstr \<Rightarrow> nat \<Rightarrow> int \<Rightarrow> int \<Rightarrow> CanonicalLegalBucketV1" where
  "sample_bucket t d rank bal =
     \<lparr>bk_componentType = t, bk_componentCode = js ''C'',
      bk_bucketContextKey = js ''bctx:v1:sha256:'' @ sample_hash d,
      bk_bucketInstanceId = js ''binst:v1:sha256:'' @ sample_hash d,
      bk_sourceLineageSetRef = js ''lineage'', bk_legalBasisRef = js ''basis'',
      bk_effectivePeriodRef = js ''period'', bk_interestRuleRef = None,
      bk_currency = js ''TRY'', bk_minorUnit = js_int 2,
      bk_priorityRank = js_int rank, bk_bucketBalanceMinor = bal\<rparr>"

definition sample_snapshot :: CanonicalReceivableApplicationSnapshotV1 where
  "sample_snapshot =
     \<lparr>sn_snapshotContractVersion = SNAPSHOT_CONTRACT_VERSION,
      sn_snapshotSerializationVersion = SNAPSHOT_SERIALIZATION_VERSION,
      sn_tenantId = js ''t'', sn_caseId = js ''c'', sn_targetCollectionId = js ''col'',
      sn_currency = js ''TRY'', sn_minorUnit = js_int 2, sn_receiptAmountMinor = 700,
      sn_snapshotAsOfDate = js ''2024-03-01'', sn_applicationEffectiveDate = js ''2024-03-01'',
      sn_historyBoundaryRef = js ''h'', sn_engineVersion = js ''e'',
      sn_calculationRuleVersion = js ''r'', sn_policyVersion = js ''p'',
      sn_rateTableVersion = js ''rt'', sn_interpretationProfileId = js ''i'',
      sn_bucketIdentityVersion = js ''RCV-BINST/v1'',
      sn_sourceVersionSet = [\<lparr>sv_sourceReference = js ''s'', sv_sourceVersion = js ''1''\<rparr>],
      sn_sourceVersionSetHash = sample_hash 7,
      sn_canonicalBuckets =
        [sample_bucket PRINCIPAL 1 10 1000, sample_bucket COST 2 5 300, sample_bucket COST 3 1 250]\<rparr>"

definition sample_input :: PureApplyAllocationInput where
  "sample_input =
     \<lparr>ai_validatedSnapshot =
        \<lparr>vs_snapshotRef = [], vs_snapshotHash = [], vs_canonicalPayload = [],
         vs_snapshot = sample_snapshot\<rparr>,
      ai_direction = VStr APPLY, ai_receiptAmountMinor = 700\<rparr>"

lemma sample_hash_hex: "d < 10 \<Longrightarrow> SHA256_LOWERCASE_HEX (sample_hash d)"
  by (auto simp: SHA256_LOWERCASE_HEX_def sample_hash_def hex_digit_def list_all_iff)

lemma sample_snapshot_admissible: "buckets_admissible sample_snapshot"
  by (simp add: buckets_admissible_def bucket_admissible_def sample_snapshot_def sample_bucket_def
      legalApplicationComponentRank_def sample_hash_def js_nat_upto_iff
      isPersistenceSafeMinorAmount_def POSTGRES_BIGINT_MAX_def POSTGRES_INTEGER_MAX_def)

lemma sample_input_admissible: "apply_admissible sample_input"
  using sample_snapshot_admissible
  by (simp add: apply_admissible_def sample_input_def POSTGRES_BIGINT_MAX_def)
     (simp add: sample_snapshot_def)

lemma sample_input_Inr:
  "allocateValidatedSnapshotForApply sample_input = Inr (waterfall_result sample_snapshot 700)"
  using sample_input_admissible allocate_Inr [of sample_input] by (simp add: sample_input_def)

subsection \<open>Properties\<close>

text \<open>C1: an allocation succeeds exactly on an APPLY of the positive, storable receipt of the
  snapshot over buckets that are all mapped, well-ranked, storable, in the snapshot's currency
  and of distinct contexts; and then it is the waterfall over the legal order of the buckets.\<close>

theorem allocate_spec:
  "allocateValidatedSnapshotForApply input = Inr res \<longleftrightarrow>
     ai_direction input = VStr APPLY \<and>
     0 < ai_receiptAmountMinor input \<and> ai_receiptAmountMinor input \<le> POSTGRES_BIGINT_MAX \<and>
     ai_receiptAmountMinor input = sn_receiptAmountMinor (vs_snapshot (ai_validatedSnapshot input)) \<and>
     buckets_admissible (vs_snapshot (ai_validatedSnapshot input)) \<and>
     as_allocations res =
       pour (legal_order (vs_snapshot (ai_validatedSnapshot input))) (ai_receiptAmountMinor input) \<and>
     as_totalAppliedMinor res = min (ai_receiptAmountMinor input)
       (balances (sn_canonicalBuckets (vs_snapshot (ai_validatedSnapshot input)))) \<and>
     as_remainingAmountMinor res = ai_receiptAmountMinor input - as_totalAppliedMinor res"
  unfolding allocate_Inr apply_admissible_def waterfall_result_def by (cases res) auto

text \<open>The run-time conservation checks of the loop and of the totals never fire, whatever the
  input: every rejection is a rejection of the direction, of the receipt or of a bucket.\<close>

theorem allocate_no_conservation_failure:
  "allocateValidatedSnapshotForApply input \<noteq> Inl CONSERVATION_FAILURE"
  unfolding allocate_eq by (auto split: sum.splits dest: rankAndValidateBuckets_Inl)

text \<open>on success nothing is lost or invented: the applied amounts sum up to the total, total
  and remainder to the receipt, the remainder is positive only when every bucket is exhausted, and
  each allocation takes a positive amount of its bucket that is at most the balance.\<close>

theorem allocate_conserves:
  assumes "allocateValidatedSnapshotForApply input = Inr res"
  shows "sum_list (map al_appliedAmountMinor (as_allocations res)) = as_totalAppliedMinor res \<and>
    as_totalAppliedMinor res + as_remainingAmountMinor res = ai_receiptAmountMinor input \<and>
    0 \<le> as_remainingAmountMinor res \<and>
    (0 < as_remainingAmountMinor res \<longrightarrow> as_totalAppliedMinor res =
       balances (sn_canonicalBuckets (vs_snapshot (ai_validatedSnapshot input)))) \<and>
    (\<forall>a \<in> set (as_allocations res). 0 < al_appliedAmountMinor a \<and> 0 \<le> al_bucketAfterMinor a \<and>
       al_bucketBeforeMinor a = al_appliedAmountMinor a + al_bucketAfterMinor a)"
proof -
  let ?sn = "vs_snapshot (ai_validatedSnapshot input)" and ?r = "ai_receiptAmountMinor input"
  note facts = allocate_InrD [OF assms]
  have res: "res = waterfall_result ?sn ?r" using assms by (simp add: allocate_Inr)
  have "sum_list (map al_appliedAmountMinor (as_allocations res)) = as_totalAppliedMinor res"
    using allocation_sum_pour [OF facts(2), of ?r 0] facts(3)
    by (auto simp: res waterfall_result_def dest!: allocation_sum_sum_list)
  moreover have "0 < al_appliedAmountMinor a \<and> 0 \<le> al_bucketAfterMinor a \<and>
      al_bucketBeforeMinor a = al_appliedAmountMinor a + al_bucketAfterMinor a"
    if "a \<in> set (as_allocations res)" for a
    using pour_mem [OF _ facts(2)] facts(3) that by (fastforce simp: res waterfall_result_def)
  ultimately show ?thesis by (auto simp: res waterfall_result_def min_def)
qed

theorem allocate_conserves_witness:
  "sum_list (map al_appliedAmountMinor (as_allocations (waterfall_result sample_snapshot 700))) =
     as_totalAppliedMinor (waterfall_result sample_snapshot 700)"
  using allocate_conserves [OF sample_input_Inr] by blast

text \<open>C2: the legal priority is strict: when any money reaches a bucket, every bucket that ranks
  before it (component, then priority rank, then key bytes) is either empty or paid in full.\<close>

theorem allocate_priority:
  assumes "allocateValidatedSnapshotForApply input = Inr res"
    and "b \<in> set (sn_canonicalBuckets (vs_snapshot (ai_validatedSnapshot input)))"
    and "c \<in> set (sn_canonicalBuckets (vs_snapshot (ai_validatedSnapshot input)))"
    and "compareRankedBuckets (ranked b) (ranked c) < 0"
    and "a \<in> set (as_allocations res)" "al_bucketContextKey a = bk_bucketContextKey c"
  shows "bk_bucketBalanceMinor b = 0 \<or>
     mk_allocation b (bk_bucketBalanceMinor b) 0 \<in> set (as_allocations res)"
proof -
  let ?sn = "vs_snapshot (ai_validatedSnapshot input)" and ?r = "ai_receiptAmountMinor input"
  note facts = allocate_InrD [OF assms(1)]
  have adm: "buckets_admissible ?sn" using facts(1) by (simp add: apply_admissible_def)
  obtain xs ys where split: "legal_order ?sn = xs @ c # ys" and b: "b \<in> set xs"
    using legal_order_before [OF adm assms(2-4)] by blast
  have "balances xs < ?r"
    using pour_served [of xs c ys ?r a] facts distinct_legal_order [OF adm] assms(5,6)
    by (simp add: split)
  moreover have nn: "nonneg_balances xs" "nonneg_balances (c # ys)"
    using facts(2) by (simp_all add: split nonneg_balances_def)
  ultimately have "set (pour xs ?r) \<subseteq> set (as_allocations res)"
    using pour_append [OF nn, of ?r] facts(3,4) by (simp add: split)
  with b \<open>balances xs < ?r\<close> show ?thesis by (auto simp: pour_enough [OF nn(1)])
qed

theorem allocate_priority_witness:
  "mk_allocation (sample_bucket COST 2 5 300) 300 0 \<in>
     set (as_allocations (waterfall_result sample_snapshot 700))"
proof -
  let ?b = "sample_bucket COST 2 5 300" and ?c = "sample_bucket PRINCIPAL 1 10 1000"
  have lt: "compareRankedBuckets (ranked ?b) (ranked ?c) < 0"
    by (simp add: compareRankedBuckets_def ranked_def sample_bucket_def legalApplicationComponentRank_def)
  have mem: "mk_allocation ?c 150 850 \<in> set (as_allocations (waterfall_result sample_snapshot 700))"
    by (simp add: waterfall_result_def legal_order_def ranked_buckets_def sample_snapshot_def
        compareRankedBuckets_def ranked_def sample_bucket_def legalApplicationComponentRank_def
        Let_def min_def)
  show ?thesis
    using allocate_priority [OF sample_input_Inr _ _ lt mem]
    by (simp add: sample_input_def sample_snapshot_def) (simp add: sample_bucket_def)
qed

text \<open>the outcome does not depend on the order in which the snapshot lists its buckets.\<close>

theorem allocate_order_independent:
  assumes "allocateValidatedSnapshotForApply input = Inr res"
    and "ai_validatedSnapshot input = v" "vs_snapshot v = sn"
    and "\<forall>b \<in> set (sn_canonicalBuckets sn). BUCKET_CONTEXT_KEY (bk_bucketContextKey b)"
    and "mset bs = mset (sn_canonicalBuckets sn)"
  shows "allocateValidatedSnapshotForApply
     (input\<lparr>ai_validatedSnapshot := v\<lparr>vs_snapshot := sn\<lparr>sn_canonicalBuckets := bs\<rparr>\<rparr>\<rparr>) = Inr res"
proof -
  let ?sn = "sn\<lparr>sn_canonicalBuckets := bs\<rparr>"
  have adm: "buckets_admissible sn"
    using assms(1-3) by (simp add: allocate_Inr apply_admissible_def)
  then have "legal_order ?sn = legal_order sn"
    unfolding legal_order_def using ranked_buckets_perm [of ?sn sn] assms(4,5) by simp
  moreover have "balances bs = balances (sn_canonicalBuckets sn)"
    using assms(5) by (metis mset_map sum_mset_sum_list)
  moreover have "buckets_admissible ?sn" using adm buckets_admissible_perm [OF assms(5)] by simp
  ultimately show ?thesis
    using assms(1-3) by (auto simp: allocate_Inr apply_admissible_def waterfall_result_def)
qed

theorem allocate_order_independent_witness:
  "\<exists>input bs. bs \<noteq> sn_canonicalBuckets sample_snapshot \<and>
     allocateValidatedSnapshotForApply
       (sample_input\<lparr>ai_validatedSnapshot := input\<lparr>vs_snapshot :=
          sample_snapshot\<lparr>sn_canonicalBuckets := bs\<rparr>\<rparr>\<rparr>) = Inr (waterfall_result sample_snapshot 700)"
proof (intro exI conjI)
  let ?bs = "rev (sn_canonicalBuckets sample_snapshot)"
  show "?bs \<noteq> sn_canonicalBuckets sample_snapshot"
    by (simp add: sample_snapshot_def sample_bucket_def)
  show "allocateValidatedSnapshotForApply
      (sample_input\<lparr>ai_validatedSnapshot := ai_validatedSnapshot sample_input\<lparr>vs_snapshot :=
         sample_snapshot\<lparr>sn_canonicalBuckets := ?bs\<rparr>\<rparr>\<rparr>) = Inr (waterfall_result sample_snapshot 700)"
    by (rule allocate_order_independent [OF sample_input_Inr refl])
       (auto simp: sample_input_def sample_snapshot_def sample_bucket_def BUCKET_CONTEXT_KEY_def
         sample_hash_hex)
qed

end
