(* ===== verification/CanonicalIdentity.thy ===== *)
theory CanonicalIdentity
  imports ApplyAllocation
begin

section \<open>Ambiguity-safe identity encoding (canonical-snapshot-identity.ts)\<close>

text \<open>
  The byte encoding behind the source-set hash and the bucket context key: tagged fields in
  contract order, each tag and value preceded by its uint32 byte length, over the UTF-8 bytes of
  the NFC form. Unicode normalisation (\<open>nfc\<close>) and SHA-256 (\<open>sha\<close>, to lower-case hex) are
  library functions and enter as arguments. A thrown \<open>Error\<close> is \<open>Inl\<close> of the datatype below.
\<close>

datatype IdentityError =
    CANONICAL_IDENTITY_LENGTH_OUT_OF_RANGE
  | CANONICAL_IDENTITY_NONBLANK_REQUIRED jstr
  | CANONICAL_IDENTITY_UNSAFE_TEXT jstr
  | CANONICAL_IDENTITY_DUPLICATE_TAG jstr
  | CANONICAL_IDENTITY_INTEGER_REQUIRED jstr
  | SOURCE_VERSION_SET_EMPTY
  | SOURCE_VERSION_REFERENCE_DUPLICATE

definition SOURCE_VERSION_SET_IDENTITY_VERSION :: jstr where
  "SOURCE_VERSION_SET_IDENTITY_VERSION = js ''RCV-SOURCE-SET/v1''"

definition BUCKET_CONTEXT_IDENTITY_VERSION :: jstr where
  "BUCKET_CONTEXT_IDENTITY_VERSION = js ''RCV-BCTX/v1''"

record CanonicalIdentityField =
  fd_tag :: jstr
  fd_value :: jstr

definition identity_field :: "string \<Rightarrow> jstr \<Rightarrow> CanonicalIdentityField" where
  "identity_field tag v = \<lparr>fd_tag = js tag, fd_value = v\<rparr>"

record BucketContextIdentityInput =
  bi_componentType :: jstr
  bi_componentCode :: jstr
  bi_currency :: jstr
  bi_minorUnit :: jsnum
  bi_legalBasisRef :: jstr
  bi_effectiveContextRef :: jstr
  bi_interestRuleRef :: "jstr option"
  bi_priorityPolicyRef :: jstr
  bi_priorityPolicyVersion :: jstr
  bi_priorityRank :: jsnum
  bi_liabilityContextRef :: jstr

subsection \<open>Lengths and text\<close>

definition write_uint32_be :: "nat \<Rightarrow> bytes" where
  "write_uint32_be n = [n div 16777216 mod 256, n div 65536 mod 256, n div 256 mod 256, n mod 256]"

definition uint32 :: "nat \<Rightarrow> IdentityError + bytes" where
  "uint32 value =
     (if 4294967295 < value then Inl CANONICAL_IDENTITY_LENGTH_OUT_OF_RANGE
      else Inr (write_uint32_be value))"

definition canonicalUtf8 :: "(jstr \<Rightarrow> jstr) \<Rightarrow> jstr \<Rightarrow> jstr \<Rightarrow> IdentityError + bytes" where
  "canonicalUtf8 nfc value field =
     (if length value = 0 \<or> js_trim value \<noteq> value
      then Inl (CANONICAL_IDENTITY_NONBLANK_REQUIRED field)
      else if control_or_unpaired_surrogate value then Inl (CANONICAL_IDENTITY_UNSAFE_TEXT field)
      else Inr (utf8 (nfc value)))"

subsection \<open>Tagged fields\<close>

definition encode_field ::
  "(jstr \<Rightarrow> jstr) \<Rightarrow> CanonicalIdentityField \<Rightarrow> IdentityError + bytes" where
  "encode_field nfc field =
     (case canonicalUtf8 nfc (fd_tag field) (js ''tag'') of Inl e \<Rightarrow> Inl e
      | Inr tag \<Rightarrow>
     (case canonicalUtf8 nfc (fd_value field) (fd_tag field) of Inl e \<Rightarrow> Inl e
      | Inr value \<Rightarrow>
     (case uint32 (length tag) of Inl e \<Rightarrow> Inl e
      | Inr tagLength \<Rightarrow>
     (case uint32 (length value) of Inl e \<Rightarrow> Inl e
      | Inr valueLength \<Rightarrow> Inr (tagLength @ tag @ valueLength @ value)))))"

fun encode_fields ::
  "(jstr \<Rightarrow> jstr) \<Rightarrow> jstr list \<Rightarrow> CanonicalIdentityField list \<Rightarrow> IdentityError + bytes" where
  "encode_fields nfc seen [] = Inr []"
| "encode_fields nfc seen (field # rest) =
     (if fd_tag field \<in> set seen then Inl (CANONICAL_IDENTITY_DUPLICATE_TAG (fd_tag field))
      else
        (case encode_field nfc field of Inl e \<Rightarrow> Inl e
         | Inr encoded \<Rightarrow>
        (case encode_fields nfc (fd_tag field # seen) rest of Inl e \<Rightarrow> Inl e
         | Inr encodedRest \<Rightarrow> Inr (encoded @ encodedRest))))"

definition encodeCanonicalIdentityFields ::
  "(jstr \<Rightarrow> jstr) \<Rightarrow> CanonicalIdentityField list \<Rightarrow> IdentityError + bytes" where
  "encodeCanonicalIdentityFields nfc fds =
     (case uint32 (length fds) of Inl e \<Rightarrow> Inl e
      | Inr countBytes \<Rightarrow>
     (case encode_fields nfc [] fds of Inl e \<Rightarrow> Inl e
      | Inr encoded \<Rightarrow> Inr (countBytes @ encoded)))"

definition domainSeparatedHash ::
  "(jstr \<Rightarrow> jstr) \<Rightarrow> (bytes \<Rightarrow> jstr) \<Rightarrow> jstr \<Rightarrow> bytes \<Rightarrow> IdentityError + jstr" where
  "domainSeparatedHash nfc sha domain payload =
     (case canonicalUtf8 nfc domain (js ''domain'') of Inl e \<Rightarrow> Inl e
      | Inr domainBytes \<Rightarrow> Inr (sha (domainBytes @ [0] @ payload)))"

definition js_is_safe_integer :: "jsnum \<Rightarrow> bool" where
  "js_is_safe_integer n \<longleftrightarrow>
     js_is_integer n \<and> \<not> js_less n (js_int (- 9007199254740991)) \<and>
     \<not> js_less (js_int 9007199254740991) n"

definition canonicalInteger :: "jsnum \<Rightarrow> string \<Rightarrow> IdentityError + jstr" where
  "canonicalInteger value field =
     (if \<not> js_is_safe_integer value \<or> js_less value (js_int 0)
      then Inl (CANONICAL_IDENTITY_INTEGER_REQUIRED (js field))
      else Inr (number_to_string value))"

subsection \<open>The source-version set\<close>

text \<open>\<open>Buffer.compare\<close>: the lexicographic order of the bytes.\<close>

definition buffer_compare :: "bytes \<Rightarrow> bytes \<Rightarrow> int" where
  "buffer_compare l r = (if js_str_less l r then -1 else if l = r then 0 else 1)"

definition compareUtf8 :: "(jstr \<Rightarrow> jstr) \<Rightarrow> jstr \<Rightarrow> jstr \<Rightarrow> int" where
  "compareUtf8 nfc left right = buffer_compare (utf8 (nfc left)) (utf8 (nfc right))"

definition compareSources ::
  "(jstr \<Rightarrow> jstr) \<Rightarrow> CanonicalSourceVersionV1 \<Rightarrow> CanonicalSourceVersionV1 \<Rightarrow> int" where
  "compareSources nfc left right =
     (let c = compareUtf8 nfc (sv_sourceReference left) (sv_sourceReference right)
      in if c \<noteq> 0 then c else compareUtf8 nfc (sv_sourceVersion left) (sv_sourceVersion right))"

definition sortSourceVersionSet ::
  "(jstr \<Rightarrow> jstr) \<Rightarrow> CanonicalSourceVersionV1 list \<Rightarrow> CanonicalSourceVersionV1 list" where
  "sortSourceVersionSet nfc sources = js_sort (compareSources nfc) sources"

definition source_fields :: "CanonicalSourceVersionV1 \<Rightarrow> CanonicalIdentityField list" where
  "source_fields source =
     [identity_field ''sourceReference'' (sv_sourceReference source),
      identity_field ''sourceVersion'' (sv_sourceVersion source)]"

fun encode_sources ::
  "(jstr \<Rightarrow> jstr) \<Rightarrow> jstr list \<Rightarrow> CanonicalSourceVersionV1 list \<Rightarrow> IdentityError + bytes" where
  "encode_sources nfc seenReferences [] = Inr []"
| "encode_sources nfc seenReferences (source # rest) =
     (let normalizedReference = nfc (sv_sourceReference source) in
      if normalizedReference \<in> set seenReferences then Inl SOURCE_VERSION_REFERENCE_DUPLICATE
      else
        (case encodeCanonicalIdentityFields nfc (source_fields source) of Inl e \<Rightarrow> Inl e
         | Inr encoded \<Rightarrow>
        (case uint32 (length encoded) of Inl e \<Rightarrow> Inl e
         | Inr encodedLength \<Rightarrow>
        (case encode_sources nfc (normalizedReference # seenReferences) rest of Inl e \<Rightarrow> Inl e
         | Inr encodedRest \<Rightarrow> Inr (encodedLength @ encoded @ encodedRest)))))"

text \<open>The bytes that are hashed, then the hash.\<close>

definition source_set_payload ::
  "(jstr \<Rightarrow> jstr) \<Rightarrow> CanonicalSourceVersionV1 list \<Rightarrow> IdentityError + bytes" where
  "source_set_payload nfc sources =
     (let sorted = sortSourceVersionSet nfc sources in
      case uint32 (length sorted) of Inl e \<Rightarrow> Inl e
      | Inr countBytes \<Rightarrow>
     (case encode_sources nfc [] sorted of Inl e \<Rightarrow> Inl e
      | Inr encodedEntries \<Rightarrow> Inr (countBytes @ encodedEntries)))"

definition computeSourceVersionSetHash ::
  "(jstr \<Rightarrow> jstr) \<Rightarrow> (bytes \<Rightarrow> jstr) \<Rightarrow> CanonicalSourceVersionV1 list \<Rightarrow> IdentityError + jstr" where
  "computeSourceVersionSetHash nfc sha sources =
     (if length sources = 0 then Inl SOURCE_VERSION_SET_EMPTY
      else
        (case source_set_payload nfc sources of Inl e \<Rightarrow> Inl e
         | Inr payload \<Rightarrow> domainSeparatedHash nfc sha SOURCE_VERSION_SET_IDENTITY_VERSION payload))"

subsection \<open>The bucket context key\<close>

definition ABSENT :: jstr where "ABSENT = js ''ABSENT''"

definition bucket_context_fields ::
  "BucketContextIdentityInput \<Rightarrow> IdentityError + CanonicalIdentityField list" where
  "bucket_context_fields input =
     (case canonicalInteger (bi_minorUnit input) ''minorUnit'' of Inl e \<Rightarrow> Inl e
      | Inr minorUnit \<Rightarrow>
     (case canonicalInteger (bi_priorityRank input) ''priorityRank'' of Inl e \<Rightarrow> Inl e
      | Inr priorityRank \<Rightarrow> Inr
         [identity_field ''componentType'' (bi_componentType input),
          identity_field ''componentCode'' (bi_componentCode input),
          identity_field ''currency'' (bi_currency input),
          identity_field ''minorUnit'' minorUnit,
          identity_field ''legalBasisRef'' (bi_legalBasisRef input),
          identity_field ''effectiveContextRef'' (bi_effectiveContextRef input),
          identity_field ''interestRuleRef''
            (case bi_interestRuleRef input of Some ref \<Rightarrow> ref | None \<Rightarrow> ABSENT),
          identity_field ''priorityPolicyRef'' (bi_priorityPolicyRef input),
          identity_field ''priorityPolicyVersion'' (bi_priorityPolicyVersion input),
          identity_field ''priorityRank'' priorityRank,
          identity_field ''liabilityContextRef'' (bi_liabilityContextRef input)]))"

definition bucket_context_payload ::
  "(jstr \<Rightarrow> jstr) \<Rightarrow> BucketContextIdentityInput \<Rightarrow> IdentityError + bytes" where
  "bucket_context_payload nfc input =
     (case bucket_context_fields input of Inl e \<Rightarrow> Inl e
      | Inr fds \<Rightarrow> encodeCanonicalIdentityFields nfc fds)"

definition computeBucketContextKey ::
  "(jstr \<Rightarrow> jstr) \<Rightarrow> (bytes \<Rightarrow> jstr) \<Rightarrow> BucketContextIdentityInput \<Rightarrow> IdentityError + jstr" where
  "computeBucketContextKey nfc sha input =
     (case bucket_context_payload nfc input of Inl e \<Rightarrow> Inl e
      | Inr payload \<Rightarrow>
     (case domainSeparatedHash nfc sha BUCKET_CONTEXT_IDENTITY_VERSION payload of Inl e \<Rightarrow> Inl e
      | Inr digest \<Rightarrow> Inr (js ''bctx:v1:sha256:'' @ digest)))"

subsection \<open>The encoders are prefix codes\<close>

text \<open>
  What the code relies on of the library: normalising a string without unpaired surrogates
  gives a string without unpaired surrogates.
\<close>

definition nfc_well_formed :: "(jstr \<Rightarrow> jstr) \<Rightarrow> bool" where
  "nfc_well_formed nfc \<longleftrightarrow> (\<forall>s. well_formed_utf16 s \<longrightarrow> well_formed_utf16 (nfc s))"

definition text_ok :: "jstr \<Rightarrow> bool" where
  "text_ok s \<longleftrightarrow> nonblank s \<and> \<not> control_or_unpaired_surrogate s"

lemma text_ok_well_formed: "text_ok s \<Longrightarrow> wf_jstr s \<Longrightarrow> well_formed_utf16 s"
  by (auto simp: text_ok_def control_or_unpaired_surrogate_def well_formed_utf16_def
      list_all_iff list_ex_iff)

lemma canonicalUtf8_Inr [guard_simps]:
  "canonicalUtf8 nfc s field = Inr b \<longleftrightarrow> text_ok s \<and> b = utf8 (nfc s)"
  by (auto simp: canonicalUtf8_def text_ok_def nonblank_def)

lemma uint32_Inr [guard_simps]:
  "uint32 n = Inr b \<longleftrightarrow> n \<le> 4294967295 \<and> b = write_uint32_be n"
  by (auto simp: uint32_def)

lemma base256_eq: "(a::nat) div 256 = b div 256 \<Longrightarrow> a mod 256 = b mod 256 \<Longrightarrow> a = b"
  by (metis div_mult_mod_eq)

lemma write_uint32_be_inj:
  assumes "m \<le> 4294967295" "n \<le> 4294967295" "write_uint32_be m = write_uint32_be n"
  shows "m = n"
proof -
  have split: "x div 65536 = x div 256 div 256" "x div 16777216 = x div 256 div 256 div 256" for x :: nat
    using div_mult2_eq [of x 256 256] div_mult2_eq [of x 65536 256] by simp_all
  have "m div 16777216 < 256" "n div 16777216 < 256" using assms(1,2) by auto
  with assms(3) have eqs: "m div 16777216 = n div 16777216"
    "m div 65536 mod 256 = n div 65536 mod 256" "m div 256 mod 256 = n div 256 mod 256"
    "m mod 256 = n mod 256" by (auto simp: write_uint32_be_def)
  from eqs(1,2) have "m div 65536 = n div 65536"
    using base256_eq [of "m div 65536" "n div 65536"] by (simp add: split)
  with eqs(3) have "m div 256 = n div 256"
    using base256_eq [of "m div 256" "n div 256"] by (simp add: split)
  with eqs(4) show ?thesis by (rule base256_eq [rotated -1])
qed

lemma length_write_uint32_be [simp]: "length (write_uint32_be n) = 4"
  by (simp add: write_uint32_be_def)

interpretation be32: prefix_code write_uint32_be "{n. n \<le> 4294967295}"
proof
  fix m n :: nat and r r'
  assume "m \<in> {n. n \<le> 4294967295}" "n \<in> {n. n \<le> 4294967295}"
    and "write_uint32_be m @ r = write_uint32_be n @ r'"
  then show "m = n \<and> r = r'" using write_uint32_be_inj [of m n] by (simp add: append_eq_append_conv)
qed

definition length_prefixed :: "bytes \<Rightarrow> bytes" where
  "length_prefixed b = write_uint32_be (length b) @ b"

definition short :: "bytes set" where
  "short = {b. length b \<le> 4294967295}"

interpretation lp: prefix_code length_prefixed short
proof
  fix a b r r' :: bytes
  assume "a \<in> short" "b \<in> short" "length_prefixed a @ r = length_prefixed b @ r'"
  then have "length a = length b \<and> a @ r = b @ r'"
    by (intro be32.enc_prefix) (auto simp: length_prefixed_def short_def)
  then show "a = b \<and> r = r'" by (metis append_eq_append_conv)
qed

definition pair_code :: "bytes \<times> bytes \<Rightarrow> bytes" where
  "pair_code p = length_prefixed (fst p) @ length_prefixed (snd p)"

interpretation pair: prefix_code pair_code "short \<times> short"
proof
  fix p q :: "bytes \<times> bytes" and r r'
  assume p: "p \<in> short \<times> short" "q \<in> short \<times> short" "pair_code p @ r = pair_code q @ r'"
  then have "fst p = fst q \<and> length_prefixed (snd p) @ r = length_prefixed (snd q) @ r'"
    by (intro lp.enc_prefix) (auto simp: pair_code_def)
  moreover from this have "snd p = snd q \<and> r = r'"
    using p by (intro lp.enc_prefix) auto
  ultimately show "p = q \<and> r = r'" by (simp add: prod_eq_iff)
qed

definition fields_code :: "(bytes \<times> bytes) list \<Rightarrow> bytes" where
  "fields_code ps = write_uint32_be (length ps) @ concat (map pair_code ps)"

definition fields_domain :: "(bytes \<times> bytes) list set" where
  "fields_domain = {ps. length ps \<le> 4294967295 \<and> set ps \<subseteq> short \<times> short}"

interpretation fields_enc: prefix_code fields_code fields_domain
proof
  fix ps qs r r'
  assume p: "ps \<in> fields_domain" "qs \<in> fields_domain" "fields_code ps @ r = fields_code qs @ r'"
  then have "length ps = length qs \<and>
      concat (map pair_code ps) @ r = concat (map pair_code qs) @ r'"
    by (intro be32.enc_prefix) (auto simp: fields_code_def fields_domain_def)
  then show "ps = qs \<and> r = r'" using p by (intro pair.concat_enc) (auto simp: fields_domain_def)
qed

definition field_pair :: "(jstr \<Rightarrow> jstr) \<Rightarrow> CanonicalIdentityField \<Rightarrow> bytes \<times> bytes" where
  "field_pair nfc f = (utf8 (nfc (fd_tag f)), utf8 (nfc (fd_value f)))"

definition field_ok :: "(jstr \<Rightarrow> jstr) \<Rightarrow> CanonicalIdentityField \<Rightarrow> bool" where
  "field_ok nfc f \<longleftrightarrow>
     text_ok (fd_tag f) \<and> text_ok (fd_value f) \<and> field_pair nfc f \<in> short \<times> short"

lemma encode_field_Inr [guard_simps]:
  "encode_field nfc f = Inr b \<longleftrightarrow> field_ok nfc f \<and> b = pair_code (field_pair nfc f)"
  by (auto simp: encode_field_def guard_simps field_ok_def field_pair_def pair_code_def
      length_prefixed_def short_def)

lemma encode_fields_Inr:
  "encode_fields nfc seen fs = Inr b \<longleftrightarrow>
     distinct (map fd_tag fs) \<and> set (map fd_tag fs) \<inter> set seen = {} \<and>
     (\<forall>f \<in> set fs. field_ok nfc f) \<and> b = concat (map pair_code (map (field_pair nfc) fs))"
proof (induction fs arbitrary: seen b)
  case Nil
  then show ?case by auto
next
  case (Cons f fs)
  show ?case by (auto simp: guard_simps Cons)
qed

definition fields_ok :: "(jstr \<Rightarrow> jstr) \<Rightarrow> CanonicalIdentityField list \<Rightarrow> bool" where
  "fields_ok nfc fs \<longleftrightarrow>
     length fs \<le> 4294967295 \<and> distinct (map fd_tag fs) \<and> (\<forall>f \<in> set fs. field_ok nfc f)"

lemma encodeCanonicalIdentityFields_Inr [guard_simps]:
  "encodeCanonicalIdentityFields nfc fs = Inr b \<longleftrightarrow>
     fields_ok nfc fs \<and> b = fields_code (map (field_pair nfc) fs)"
  by (auto simp: encodeCanonicalIdentityFields_def guard_simps encode_fields_Inr fields_ok_def
      fields_code_def)

lemma fields_ok_domain: "fields_ok nfc fs \<Longrightarrow> map (field_pair nfc) fs \<in> fields_domain"
  by (auto simp: fields_ok_def fields_domain_def field_ok_def)

lemma nfc_utf8_inj:
  assumes "nfc_well_formed nfc" "text_ok s" "text_ok t" "wf_jstr s" "wf_jstr t"
    and "utf8 (nfc s) = utf8 (nfc t)"
  shows "nfc s = nfc t"
  using assms by (auto simp: nfc_well_formed_def intro: utf8_inj text_ok_well_formed)

definition wf_field :: "CanonicalIdentityField \<Rightarrow> bool" where
  "wf_field f \<longleftrightarrow> wf_jstr (fd_tag f) \<and> wf_jstr (fd_value f)"

definition nfc_field :: "(jstr \<Rightarrow> jstr) \<Rightarrow> CanonicalIdentityField \<Rightarrow> jstr \<times> jstr" where
  "nfc_field nfc f = (nfc (fd_tag f), nfc (fd_value f))"

lemma field_pair_inj:
  assumes "nfc_well_formed nfc" "field_ok nfc f" "field_ok nfc g" "wf_field f" "wf_field g"
    and "field_pair nfc f = field_pair nfc g"
  shows "nfc_field nfc f = nfc_field nfc g"
  using assms by (auto simp: nfc_field_def field_ok_def field_pair_def wf_field_def
      intro: nfc_utf8_inj)

lemma encode_fields_inj:
  assumes nfc: "nfc_well_formed nfc" and "\<forall>f \<in> set fs. wf_field f" "\<forall>g \<in> set gs. wf_field g"
    and "fields_ok nfc fs" "fields_ok nfc gs"
    and "fields_code (map (field_pair nfc) fs) = fields_code (map (field_pair nfc) gs)"
  shows "map (nfc_field nfc) fs = map (nfc_field nfc) gs"
proof -
  have pairs: "map (field_pair nfc) fs = map (field_pair nfc) gs"
    using assms(6) by (rule fields_enc.enc_inj [OF fields_ok_domain fields_ok_domain, rotated 2])
      (use assms in auto)
  then have len: "length fs = length gs" by (metis length_map)
  show ?thesis
  proof (rule nth_equalityI)
    show "length (map (nfc_field nfc) fs) = length (map (nfc_field nfc) gs)" using len by simp
    fix i assume "i < length (map (nfc_field nfc) fs)"
    then have i: "i < length fs" "i < length gs" using len by simp_all
    from pairs i have "field_pair nfc (fs ! i) = field_pair nfc (gs ! i)" by (metis nth_map)
    with assms i have "nfc_field nfc (fs ! i) = nfc_field nfc (gs ! i)"
      by (intro field_pair_inj) (auto simp: fields_ok_def)
    with i show "map (nfc_field nfc) fs ! i = map (nfc_field nfc) gs ! i" by simp
  qed
qed

subsection \<open>The source set\<close>

lemma fields_identity_tags [simp]:
  "fd_tag (identity_field t v) = js t" "fd_value (identity_field t v) = v"
  by (simp_all add: identity_field_def)

definition source_pair :: "(jstr \<Rightarrow> jstr) \<Rightarrow> CanonicalSourceVersionV1 \<Rightarrow> jstr \<times> jstr" where
  "source_pair nfc s = (nfc (sv_sourceReference s), nfc (sv_sourceVersion s))"

definition source_entry :: "(jstr \<Rightarrow> jstr) \<Rightarrow> CanonicalSourceVersionV1 \<Rightarrow> bytes" where
  "source_entry nfc s = fields_code (map (field_pair nfc) (source_fields s))"

definition source_ok :: "(jstr \<Rightarrow> jstr) \<Rightarrow> CanonicalSourceVersionV1 \<Rightarrow> bool" where
  "source_ok nfc s \<longleftrightarrow> fields_ok nfc (source_fields s) \<and> source_entry nfc s \<in> short"

lemma encode_sources_Inr:
  "encode_sources nfc seen ss = Inr b \<longleftrightarrow>
     distinct (map (\<lambda>s. nfc (sv_sourceReference s)) ss) \<and>
     set (map (\<lambda>s. nfc (sv_sourceReference s)) ss) \<inter> set seen = {} \<and>
     (\<forall>s \<in> set ss. source_ok nfc s) \<and>
     b = concat (map length_prefixed (map (source_entry nfc) ss))"
proof (induction ss arbitrary: seen b)
  case Nil
  then show ?case by auto
next
  case (Cons s ss)
  show ?case
    by (auto simp: guard_simps Cons Let_def source_ok_def source_entry_def length_prefixed_def
        short_def)
qed

definition source_set_ok :: "(jstr \<Rightarrow> jstr) \<Rightarrow> CanonicalSourceVersionV1 list \<Rightarrow> bool" where
  "source_set_ok nfc ss \<longleftrightarrow>
     length ss \<le> 4294967295 \<and> distinct (map (\<lambda>s. nfc (sv_sourceReference s)) ss) \<and>
     (\<forall>s \<in> set ss. source_ok nfc s)"

lemma mset_sortSourceVersionSet [simp]: "mset (sortSourceVersionSet nfc ss) = mset ss"
  by (simp add: sortSourceVersionSet_def)

lemma set_sortSourceVersionSet [simp]: "set (sortSourceVersionSet nfc ss) = set ss"
  by (simp add: sortSourceVersionSet_def)

lemma length_sortSourceVersionSet [simp]: "length (sortSourceVersionSet nfc ss) = length ss"
  by (simp add: sortSourceVersionSet_def)

lemma source_set_ok_sort [simp]: "source_set_ok nfc (sortSourceVersionSet nfc ss) = source_set_ok nfc ss"
  by (simp add: source_set_ok_def sortSourceVersionSet_def distinct_map_js_sort)

lemma source_set_ok_perm: "mset ss = mset ts \<Longrightarrow> source_set_ok nfc ss = source_set_ok nfc ts"
proof -
  assume eq: "mset ss = mset ts"
  have "length ss = length ts" "set ss = set ts" using eq by (metis size_mset, metis set_mset_mset)
  have "mset (map (\<lambda>s. nfc (sv_sourceReference s)) ss)
      = mset (map (\<lambda>s. nfc (sv_sourceReference s)) ts)" using eq by (simp only: mset_map)
  from mset_eq_imp_distinct_iff [OF this] show ?thesis
    using \<open>length ss = length ts\<close> \<open>set ss = set ts\<close> by (simp add: source_set_ok_def)
qed

lemma source_set_payload_Inr:
  "source_set_payload nfc ss = Inr b \<longleftrightarrow>
     source_set_ok nfc ss \<and>
     b = write_uint32_be (length ss) @
         concat (map length_prefixed (map (source_entry nfc) (sortSourceVersionSet nfc ss)))"
proof -
  let ?ts = "sortSourceVersionSet nfc ss"
  have "source_set_payload nfc ss = Inr b \<longleftrightarrow> length ?ts \<le> 4294967295 \<and>
      (\<exists>c. encode_sources nfc [] ?ts = Inr c \<and> b = write_uint32_be (length ?ts) @ c)"
    unfolding source_set_payload_def Let_def guard_simps by blast
  also have "\<dots> \<longleftrightarrow> source_set_ok nfc ?ts \<and>
      b = write_uint32_be (length ?ts) @ concat (map length_prefixed (map (source_entry nfc) ?ts))"
    unfolding encode_sources_Inr source_set_ok_def list.set(1) inf_bot_right by blast
  finally show ?thesis unfolding source_set_ok_sort length_sortSourceVersionSet .
qed

lemma buffer_compare_eq: "buffer_compare = compareUnsignedByteSequences"
  by (intro ext) (simp add: buffer_compare_def compareUnsignedByteSequences_less)

lemma buffer_compare_eq_0 [simp]: "buffer_compare a b = 0 \<longleftrightarrow> a = b"
  by (simp add: buffer_compare_eq)

interpretation source_order: consistent_comparator "compareSources nfc" UNIV for nfc
proof
  fix x y z :: CanonicalSourceVersionV1
  let ?r = "\<lambda>s. utf8 (nfc (sv_sourceReference s))" and ?v = "\<lambda>s. utf8 (nfc (sv_sourceVersion s))"
  note defs = compareSources_def compareUtf8_def buffer_compare_def Let_def
  show "compareSources nfc x x = 0" by (simp add: defs)
  show "compareSources nfc x y \<le> 0 \<longleftrightarrow> 0 \<le> compareSources nfc y x"
    using js_str_less_asym [of "?r x" "?r y"] js_str_less_linear [of "?r x" "?r y"]
      js_str_less_asym [of "?v x" "?v y"] js_str_less_linear [of "?v x" "?v y"]
    by (auto simp: defs)
  show "compareSources nfc x y \<le> 0 \<Longrightarrow> compareSources nfc y z \<le> 0 \<Longrightarrow> compareSources nfc x z \<le> 0"
    using js_str_less_trans [of "?r x" "?r y" "?r z"] js_str_less_trans [of "?v x" "?v y" "?v z"]
    by (auto simp: defs split: if_splits)
qed

lemma compareSources_antisym:
  assumes "compareSources nfc a b \<le> 0" "compareSources nfc b a \<le> 0"
  shows "utf8 (nfc (sv_sourceReference a)) = utf8 (nfc (sv_sourceReference b))"
  using assms js_str_less_asym [of "utf8 (nfc (sv_sourceReference a))" "utf8 (nfc (sv_sourceReference b))"]
  by (auto simp: compareSources_def compareUtf8_def buffer_compare_def Let_def split: if_splits)

definition wf_source :: "CanonicalSourceVersionV1 \<Rightarrow> bool" where
  "wf_source s \<longleftrightarrow> wf_jstr (sv_sourceReference s) \<and> wf_jstr (sv_sourceVersion s)"

lemma wf_field_source: "wf_source s \<Longrightarrow> f \<in> set (source_fields s) \<Longrightarrow> wf_field f"
  by (auto simp: wf_source_def source_fields_def wf_field_def)

lemma source_ok_text: "source_ok nfc s \<Longrightarrow> text_ok (sv_sourceReference s) \<and> text_ok (sv_sourceVersion s)"
  by (simp add: source_ok_def fields_ok_def source_fields_def field_ok_def)

lemma sort_sources_perm:
  assumes "nfc_well_formed nfc" "source_set_ok nfc ss" "\<forall>s \<in> set ss. wf_source s" "mset ss = mset ts"
  shows "sortSourceVersionSet nfc ss = sortSourceVersionSet nfc ts"
  unfolding sortSourceVersionSet_def
proof (rule source_order.js_sort_perm)
  fix a b assume ab: "a \<in> set ss" "b \<in> set ss"
    and le: "compareSources nfc a b \<le> 0" "compareSources nfc b a \<le> 0"
  have "source_ok nfc a" "source_ok nfc b" using assms(2) ab by (auto simp: source_set_ok_def)
  then have "nfc (sv_sourceReference a) = nfc (sv_sourceReference b)"
    using nfc_utf8_inj [OF assms(1)] compareSources_antisym [OF le] assms(3) ab source_ok_text
    by (metis wf_source_def)
  moreover have "inj_on (\<lambda>s. nfc (sv_sourceReference s)) (set ss)"
    using assms(2) by (simp add: source_set_ok_def distinct_map)
  ultimately show "a = b" using ab by (blast dest: inj_onD)
qed (use assms in auto)

lemma source_entry_inj:
  assumes "nfc_well_formed nfc" "source_ok nfc s" "source_ok nfc t" "wf_source s" "wf_source t"
    and "source_entry nfc s = source_entry nfc t"
  shows "source_pair nfc s = source_pair nfc t"
proof -
  have "map (nfc_field nfc) (source_fields s) = map (nfc_field nfc) (source_fields t)"
  proof (rule encode_fields_inj [OF assms(1)])
    show "fields_ok nfc (source_fields s)" "fields_ok nfc (source_fields t)"
      using assms(2,3) by (simp_all add: source_ok_def)
    show "\<forall>f \<in> set (source_fields s). wf_field f" "\<forall>f \<in> set (source_fields t). wf_field f"
      using assms(4,5) wf_field_source by blast+
  qed (use assms(6) in \<open>simp only: source_entry_def\<close>)
  then show ?thesis by (simp add: source_fields_def nfc_field_def source_pair_def)
qed

subsection \<open>The bucket context\<close>

lemma js_is_safe_integer_iff:
  "js_is_safe_integer n \<longleftrightarrow> (\<exists>i. n = js_int i \<and> \<bar>i\<bar> \<le> 9007199254740991)"
proof
  assume "js_is_safe_integer n"
  then have "n = js_int (int_of_num n)" "\<not> js_less n (js_int (- 9007199254740991))"
    "\<not> js_less (js_int 9007199254740991) n"
    by (auto simp: js_is_safe_integer_def dest: js_is_integerD)
  then have "- 9007199254740991 \<le> int_of_num n" "int_of_num n \<le> 9007199254740991"
    by (metis js_less_js_int linorder_not_less)+
  then show "\<exists>i. n = js_int i \<and> \<bar>i\<bar> \<le> 9007199254740991"
    using \<open>n = js_int (int_of_num n)\<close> by (metis abs_le_iff minus_le_iff)
qed (auto simp: js_is_safe_integer_def)

lemma canonicalInteger_Inr [guard_simps]:
  "canonicalInteger v f = Inr s \<longleftrightarrow>
     (\<exists>i. v = js_int (int i) \<and> int i \<le> 9007199254740991 \<and> s = js_of_nat i)"
proof
  assume "canonicalInteger v f = Inr s"
  then obtain i where i: "v = js_int i" "\<bar>i\<bar> \<le> 9007199254740991" "0 \<le> i" "s = number_to_string v"
    by (auto simp: canonicalInteger_def js_is_safe_integer_iff split: if_splits)
  then have "s = js_of_nat (nat i)" by (simp add: number_to_string_int)
  with i show "\<exists>i. v = js_int (int i) \<and> int i \<le> 9007199254740991 \<and> s = js_of_nat i"
    by (intro exI [of _ "nat i"]) auto
next
  assume "\<exists>i. v = js_int (int i) \<and> int i \<le> 9007199254740991 \<and> s = js_of_nat i"
  then show "canonicalInteger v f = Inr s"
    by (auto simp: canonicalInteger_def js_is_safe_integer_iff number_to_string_int)
qed

text \<open>Normalisation leaves ASCII text unchanged.\<close>

definition nfc_ascii :: "(jstr \<Rightarrow> jstr) \<Rightarrow> bool" where
  "nfc_ascii nfc \<longleftrightarrow> (\<forall>s. list_all (\<lambda>u. u < 128) s \<longrightarrow> nfc s = s)"

lemma nfc_number [simp]: "nfc_ascii nfc \<Longrightarrow> nfc (js_of_nat n) = js_of_nat n"
  by (simp add: nfc_ascii_def js_of_nat_ascii)

definition wf_bucket_context :: "BucketContextIdentityInput \<Rightarrow> bool" where
  "wf_bucket_context b \<longleftrightarrow>
     list_all wf_jstr [bi_componentType b, bi_componentCode b, bi_currency b, bi_legalBasisRef b,
       bi_effectiveContextRef b, bi_priorityPolicyRef b, bi_priorityPolicyVersion b,
       bi_liabilityContextRef b] \<and> (\<forall>r. bi_interestRuleRef b = Some r \<longrightarrow> wf_jstr r)"

lemma wf_bucket_context_fields:
  assumes "bucket_context_fields b = Inr fs" "wf_bucket_context b" "f \<in> set fs"
  shows "wf_field f"
  using assms
  by (auto simp: bucket_context_fields_def guard_simps wf_bucket_context_def wf_field_def
      ABSENT_def split: option.splits)

text \<open>The texts of a bucket context, normalised, with the default for an absent interest rule.\<close>

definition context_texts :: "(jstr \<Rightarrow> jstr) \<Rightarrow> BucketContextIdentityInput \<Rightarrow> jstr list" where
  "context_texts nfc b = map nfc
     [bi_componentType b, bi_componentCode b, bi_currency b, bi_legalBasisRef b,
      bi_effectiveContextRef b, case bi_interestRuleRef b of Some r \<Rightarrow> r | None \<Rightarrow> ABSENT,
      bi_priorityPolicyRef b, bi_priorityPolicyVersion b, bi_liabilityContextRef b]"

lemma identity_field_simps [simp]:
  "nfc_field nfc (identity_field t v) = (nfc (js t), nfc v)"
  by (simp add: nfc_field_def)

subsection \<open>Properties\<close>

text \<open>The encoding of a field list is unambiguous: two lists with the same bytes have the same
  length and, up to Unicode normalisation, the same tags and values in the same order.\<close>

theorem encodeCanonicalIdentityFields_unambiguous:
  assumes "nfc_well_formed nfc" "\<forall>f \<in> set fs. wf_field f" "\<forall>g \<in> set gs. wf_field g"
    and "encodeCanonicalIdentityFields nfc fs = Inr b" "encodeCanonicalIdentityFields nfc gs = Inr b"
  shows "map (\<lambda>f. (nfc (fd_tag f), nfc (fd_value f))) fs = map (\<lambda>f. (nfc (fd_tag f), nfc (fd_value f))) gs"
  using encode_fields_inj [OF assms(1-3)] assms(4,5)
  unfolding encodeCanonicalIdentityFields_Inr nfc_field_def by metis

lemma sample_fields_encode:
  "encodeCanonicalIdentityFields (\<lambda>s. s) [identity_field ''a'' (js ''bc''), identity_field ''ab'' (js ''c'')] =
     Inr ([0,0,0,2, 0,0,0,1, 97, 0,0,0,2, 98,99, 0,0,0,2, 97,98, 0,0,0,1, 99])"
  by (simp add: encodeCanonicalIdentityFields_def encode_field_def canonicalUtf8_def uint32_def
      write_uint32_be_def js_eval js_trim_def js_whitespace_def control_or_unpaired_surrogate_def
      surrogate_def utf8_ascii high_surrogate_def low_surrogate_def)

theorem encodeCanonicalIdentityFields_unambiguous_witness:
  "\<exists>b. encodeCanonicalIdentityFields (\<lambda>s. s)
         [identity_field ''a'' (js ''bc''), identity_field ''ab'' (js ''c'')] = Inr b \<and>
     (\<forall>v w. wf_jstr v \<longrightarrow> wf_jstr w \<longrightarrow> encodeCanonicalIdentityFields (\<lambda>s. s)
         [identity_field ''a'' v, identity_field ''ab'' w] = Inr b \<longrightarrow> v = js ''bc'' \<and> w = js ''c'')"
proof (intro exI conjI allI impI)
  show enc: "encodeCanonicalIdentityFields (\<lambda>s. s)
      [identity_field ''a'' (js ''bc''), identity_field ''ab'' (js ''c'')] =
      Inr [0,0,0,2, 0,0,0,1, 97, 0,0,0,2, 98,99, 0,0,0,2, 97,98, 0,0,0,1, 99]"
    by (rule sample_fields_encode)
  fix v w assume wf: "wf_jstr v" "wf_jstr w" and vw: "encodeCanonicalIdentityFields (\<lambda>s. s)
      [identity_field ''a'' v, identity_field ''ab'' w] =
      Inr [0,0,0,2, 0,0,0,1, 97, 0,0,0,2, 98,99, 0,0,0,2, 97,98, 0,0,0,1, 99]"
  have "map (\<lambda>f. (fd_tag f, fd_value f)) [identity_field ''a'' v, identity_field ''ab'' w] =
      map (\<lambda>f. (fd_tag f, fd_value f))
        [identity_field ''a'' (js ''bc''), identity_field ''ab'' (js ''c'')]"
    by (rule encodeCanonicalIdentityFields_unambiguous [OF _ _ _ vw enc])
       (use wf in \<open>simp_all add: nfc_well_formed_def wf_field_def\<close>)
  then show "v = js ''bc''" "w = js ''c''" by simp_all
qed

text \<open>the hash of a source-version set depends on the set only: any order of the same sources
  gives the same hash.\<close>

theorem source_set_hash_order_independent:
  assumes "nfc_well_formed nfc" "\<forall>s \<in> set ss. wf_source s"
    and "computeSourceVersionSetHash nfc sha ss = Inr h" "mset ts = mset ss"
  shows "computeSourceVersionSetHash nfc sha ts = Inr h"
proof -
  obtain p where p: "source_set_payload nfc ss = Inr p" "ss \<noteq> []"
    using assms(3) by (auto simp: computeSourceVersionSetHash_def guard_simps)
  then have "sortSourceVersionSet nfc ss = sortSourceVersionSet nfc ts"
    using assms by (intro sort_sources_perm) (auto simp: source_set_payload_Inr)
  moreover have "length ss = length ts" using assms(4) by (metis size_mset)
  ultimately have "source_set_payload nfc ts = source_set_payload nfc ss"
    by (simp add: source_set_payload_def)
  then show ?thesis using assms(3) \<open>length ss = length ts\<close>
    unfolding computeSourceVersionSetHash_def by (simp split: if_split_asm)
qed

definition sample_sources :: "CanonicalSourceVersionV1 list" where
  "sample_sources = [\<lparr>sv_sourceReference = js ''s2'', sv_sourceVersion = js ''1''\<rparr>,
                     \<lparr>sv_sourceReference = js ''s1'', sv_sourceVersion = js ''7''\<rparr>]"

lemmas identity_eval = encodeCanonicalIdentityFields_def encode_field_def canonicalUtf8_def uint32_def
  write_uint32_be_def js_eval js_trim_def js_whitespace_def control_or_unpaired_surrogate_def
  surrogate_def utf8_ascii high_surrogate_def low_surrogate_def identity_field_def source_fields_def
  compareSources_def compareUtf8_def buffer_compare_def sortSourceVersionSet_def
  source_set_payload_def Let_def

lemma sample_sources_payload: "\<exists>p. source_set_payload (\<lambda>s. s) sample_sources = Inr p"
  by (simp add: sample_sources_def identity_eval)

lemma sample_sources_hash:
  "\<exists>h. computeSourceVersionSetHash (\<lambda>s. s) sha sample_sources = Inr h"
  using sample_sources_payload
  by (auto simp: computeSourceVersionSetHash_def domainSeparatedHash_def
      SOURCE_VERSION_SET_IDENTITY_VERSION_def identity_eval) (simp_all add: sample_sources_def)

theorem source_set_hash_order_independent_witness:
  "\<exists>h. computeSourceVersionSetHash (\<lambda>s. s) (\<lambda>b. b) sample_sources = Inr h \<and>
       computeSourceVersionSetHash (\<lambda>s. s) (\<lambda>b. b) (rev sample_sources) = Inr h"
proof -
  obtain h where h: "computeSourceVersionSetHash (\<lambda>s. s) (\<lambda>b. b) sample_sources = Inr h"
    using sample_sources_hash by blast
  have "computeSourceVersionSetHash (\<lambda>s. s) (\<lambda>b. b) (rev sample_sources) = Inr h"
    by (rule source_set_hash_order_independent [OF _ _ h])
       (simp_all add: nfc_well_formed_def sample_sources_def wf_source_def)
  with h show ?thesis by blast
qed

text \<open>The bytes hashed for a source set determine the set: two accepted sets with the same
  payload have, up to normalisation, the same references with the same versions.\<close>

theorem source_set_payload_injective:
  assumes "nfc_well_formed nfc" "\<forall>s \<in> set ss. wf_source s" "\<forall>t \<in> set ts. wf_source t"
    and "source_set_payload nfc ss = Inr p" "source_set_payload nfc ts = Inr p"
  shows "mset (map (source_pair nfc) ss) = mset (map (source_pair nfc) ts)"
proof -
  let ?s = "sortSourceVersionSet nfc ss" and ?t = "sortSourceVersionSet nfc ts"
  let ?enc = "\<lambda>xs. concat (map length_prefixed (map (source_entry nfc) xs))"
  have ok: "source_set_ok nfc ss" "source_set_ok nfc ts"
    using assms(4,5) by (simp_all add: source_set_payload_Inr)
  have "write_uint32_be (length ss) @ ?enc ?s = write_uint32_be (length ts) @ ?enc ?t"
    using assms(4,5) by (auto simp: source_set_payload_Inr)
  then have "length ss = length ts \<and> ?enc ?s = ?enc ?t"
    by (rule be32.enc_prefix [rotated 2]) (use ok in \<open>auto simp: source_set_ok_def\<close>)
  then have len: "length ?s = length ?t" and enc: "?enc ?s @ [] = ?enc ?t @ []" by simp_all
  have "map (source_entry nfc) ?s = map (source_entry nfc) ?t \<and> [] = ([] :: bytes)"
    by (rule lp.concat_enc [OF _ _ _ enc])
       (use ok len in \<open>auto simp: source_set_ok_def source_ok_def\<close>)
  then have entries: "map (source_entry nfc) ?s = map (source_entry nfc) ?t" by simp
  have "map (source_pair nfc) ?s = map (source_pair nfc) ?t"
  proof (rule nth_equalityI)
    fix i assume "i < length (map (source_pair nfc) ?s)"
    then have i: "i < length ?s" "i < length ?t" using len by simp_all
    then have mem: "?s ! i \<in> set ss" "?t ! i \<in> set ts"
      by (metis nth_mem set_sortSourceVersionSet)+
    from entries i have "source_entry nfc (?s ! i) = source_entry nfc (?t ! i)" by (metis nth_map)
    then have "source_pair nfc (?s ! i) = source_pair nfc (?t ! i)"
      using mem assms(1-3) ok by (intro source_entry_inj) (auto simp: source_set_ok_def)
    with i show "map (source_pair nfc) ?s ! i = map (source_pair nfc) ?t ! i" by simp
  qed (use len in simp)
  then have "mset (map (source_pair nfc) ?s) = mset (map (source_pair nfc) ?t)" by simp
  then show ?thesis by (simp add: mset_map)
qed

theorem source_set_payload_injective_witness:
  "\<exists>p. source_set_payload (\<lambda>s. s) sample_sources = Inr p \<and>
     (\<forall>ts. (\<forall>t \<in> set ts. wf_source t) \<longrightarrow> source_set_payload (\<lambda>s. s) ts = Inr p \<longrightarrow>
        mset (map (source_pair (\<lambda>s. s)) ts) = {#(js ''s2'', js ''1''), (js ''s1'', js ''7'')#})"
proof -
  obtain p where p: "source_set_payload (\<lambda>s. s) sample_sources = Inr p"
    using sample_sources_payload by blast
  have wf: "\<forall>s \<in> set sample_sources. wf_source s" by (simp add: sample_sources_def wf_source_def)
  have "mset (map (source_pair (\<lambda>s. s)) ts) = mset (map (source_pair (\<lambda>s. s)) sample_sources)"
    if "\<forall>t \<in> set ts. wf_source t" "source_set_payload (\<lambda>s. s) ts = Inr p" for ts
    by (rule source_set_payload_injective [OF _ that(1) wf that(2) p]) (simp add: nfc_well_formed_def)
  with p show ?thesis by (auto simp: sample_sources_def source_pair_def)
qed

text \<open>The bytes hashed for a bucket context key determine every part of the context up to
  normalisation; an absent interest rule is encoded as the text ABSENT.\<close>

theorem bucket_context_payload_injective:
  assumes "nfc_well_formed nfc" "nfc_ascii nfc" "wf_bucket_context b" "wf_bucket_context c"
    and "bucket_context_payload nfc b = Inr p" "bucket_context_payload nfc c = Inr p"
  shows "context_texts nfc b = context_texts nfc c \<and> bi_minorUnit b = bi_minorUnit c \<and>
    bi_priorityRank b = bi_priorityRank c"
proof -
  obtain fs gs where fs: "bucket_context_fields b = Inr fs" "bucket_context_fields c = Inr gs"
    and enc: "encodeCanonicalIdentityFields nfc fs = Inr p" "encodeCanonicalIdentityFields nfc gs = Inr p"
    using assms(5,6) by (auto simp: bucket_context_payload_def guard_simps)
  have "map (nfc_field nfc) fs = map (nfc_field nfc) gs"
    using enc wf_bucket_context_fields [OF fs(1) assms(3)] wf_bucket_context_fields [OF fs(2) assms(4)]
    by (intro encode_fields_inj [OF assms(1)]) (auto simp: encodeCanonicalIdentityFields_Inr)
  with fs assms(2) show ?thesis
    by (auto simp: bucket_context_fields_def guard_simps context_texts_def)
qed

definition sample_context :: BucketContextIdentityInput where
  "sample_context =
     \<lparr>bi_componentType = PRINCIPAL, bi_componentCode = js ''C'', bi_currency = js ''TRY'',
      bi_minorUnit = js_int 2, bi_legalBasisRef = js ''b'', bi_effectiveContextRef = js ''e'',
      bi_interestRuleRef = None, bi_priorityPolicyRef = js ''p'', bi_priorityPolicyVersion = js ''1'',
      bi_priorityRank = js_int 10, bi_liabilityContextRef = js ''l''\<rparr>"

lemma sample_context_payload: "\<exists>p. bucket_context_payload (\<lambda>s. s) sample_context = Inr p"
  by (simp add: sample_context_def bucket_context_payload_def bucket_context_fields_def
      canonicalInteger_def js_is_safe_integer_iff number_to_string_int js_of_nat.simps
      identity_eval ABSENT_def PRINCIPAL_def)

theorem bucket_context_payload_injective_witness:
  "\<exists>p. bucket_context_payload (\<lambda>s. s) sample_context = Inr p \<and>
     (\<forall>c. wf_bucket_context c \<longrightarrow> bucket_context_payload (\<lambda>s. s) c = Inr p \<longrightarrow>
        bi_priorityRank c = js_int 10)"
proof -
  obtain p where p: "bucket_context_payload (\<lambda>s. s) sample_context = Inr p"
    using sample_context_payload by blast
  have wf: "wf_bucket_context sample_context"
    by (simp add: wf_bucket_context_def sample_context_def PRINCIPAL_def)
  have "bi_priorityRank sample_context = bi_priorityRank c"
    if "wf_bucket_context c" "bucket_context_payload (\<lambda>s. s) c = Inr p" for c
    using bucket_context_payload_injective [OF _ _ wf that(1) p that(2)]
    by (simp add: nfc_well_formed_def nfc_ascii_def)
  with p show ?thesis by (auto simp: sample_context_def)
qed

text \<open>A bucket without an interest rule has the key of the same bucket with a rule named ABSENT.\<close>

lemma absent_rule_collides:
  "computeBucketContextKey nfc sha (input\<lparr>bi_interestRuleRef := None\<rparr>) =
   computeBucketContextKey nfc sha (input\<lparr>bi_interestRuleRef := Some (js ''ABSENT'')\<rparr>)"
proof -
  have "bucket_context_fields (input\<lparr>bi_interestRuleRef := None\<rparr>) =
      bucket_context_fields (input\<lparr>bi_interestRuleRef := Some (js ''ABSENT'')\<rparr>)"
    by (simp add: bucket_context_fields_def ABSENT_def split: sum.split)
  then show ?thesis by (simp add: computeBucketContextKey_def bucket_context_payload_def)
qed

end
