(* ===== verification/StrictJson.thy ===== *)
theory StrictJson
  imports CanonicalIdentity "HOL-Library.AList"
begin

section \<open>Strict JSON (strict-json-parser.ts, validation-constants.ts)\<close>

text \<open>
  \<open>JSON_parse\<close> is \<open>JSON.parse\<close> of the language on code units (ECMA-404 grammar, nearest double,
  last member wins). Its recursion is bounded by a fuel of twice the length of the text plus one;
  the lemmas show that more fuel never changes the result, so \<open>None\<close> is a syntax error.
  \<open>parseStrictJson\<close> is the code's wrapper, with its second pass over the raw text that finds
  duplicate members and the nesting depth.
\<close>

definition MAX_CANONICAL_ENVELOPE_BYTES :: nat where "MAX_CANONICAL_ENVELOPE_BYTES = 1048576"
definition MAX_BUCKET_COUNT :: nat where "MAX_BUCKET_COUNT = 10000"
definition MAX_ATTRIBUTION_COUNT :: nat where "MAX_ATTRIBUTION_COUNT = 50000"
definition MAX_CANONICAL_JSON_DEPTH :: nat where "MAX_CANONICAL_JSON_DEPTH = 32"
definition MAX_COMPONENT_CODE_CODE_POINTS :: nat where "MAX_COMPONENT_CODE_CODE_POINTS = 128"
definition MAX_SOURCE_LINEAGE_SET_REF_CODE_POINTS :: nat where
  "MAX_SOURCE_LINEAGE_SET_REF_CODE_POINTS = 512"
definition MAX_HISTORY_BOUNDARY_REF_CODE_POINTS :: nat where
  "MAX_HISTORY_BOUNDARY_REF_CODE_POINTS = 512"
definition MAX_LEGAL_BASIS_REF_CODE_POINTS :: nat where "MAX_LEGAL_BASIS_REF_CODE_POINTS = 512"
definition MAX_EFFECTIVE_PERIOD_REF_CODE_POINTS :: nat where
  "MAX_EFFECTIVE_PERIOD_REF_CODE_POINTS = 256"
definition MAX_INTEREST_RULE_REF_CODE_POINTS :: nat where "MAX_INTEREST_RULE_REF_CODE_POINTS = 256"
definition MAX_VERSION_IDENTIFIER_CODE_POINTS :: nat where "MAX_VERSION_IDENTIFIER_CODE_POINTS = 128"
definition MAX_CONTEXT_IDENTIFIER_CODE_POINTS :: nat where "MAX_CONTEXT_IDENTIFIER_CODE_POINTS = 256"

subsection \<open>JSON.parse\<close>

definition json_ws :: "nat \<Rightarrow> bool" where
  "json_ws u \<longleftrightarrow> u = 32 \<or> u = 10 \<or> u = 13 \<or> u = 9"

definition skip_ws :: "jstr \<Rightarrow> jstr" where
  "skip_ws s = dropWhile json_ws s"

definition hex_val :: "nat \<Rightarrow> nat option" where
  "hex_val u =
     (if 48 \<le> u \<and> u \<le> 57 then Some (u - 48)
      else if 97 \<le> u \<and> u \<le> 102 then Some (u - 87)
      else if 65 \<le> u \<and> u \<le> 70 then Some (u - 55) else None)"

definition simple_escape :: "nat \<Rightarrow> nat option" where
  "simple_escape u =
     (if u = 34 \<or> u = 92 \<or> u = 47 then Some u
      else if u = 98 then Some 8 else if u = 102 then Some 12 else if u = 110 then Some 10
      else if u = 114 then Some 13 else if u = 116 then Some 9 else None)"

definition hex4 :: "nat \<Rightarrow> nat \<Rightarrow> nat \<Rightarrow> nat \<Rightarrow> nat option" where
  "hex4 a b c d =
     (case (hex_val a, hex_val b, hex_val c, hex_val d) of
        (Some w, Some x, Some y, Some z) \<Rightarrow> Some (((w * 16 + x) * 16 + y) * 16 + z)
      | _ \<Rightarrow> None)"

text \<open>The rest of a string literal after its opening quote: the decoded text and what follows.\<close>

fun json_string :: "jstr \<Rightarrow> (jstr \<times> jstr) option" where
  "json_string [] = None"
| "json_string (c # s) =
     (if c = 34 then Some ([], s)
      else if c < 32 then None
      else if c = 92 then
        (case s of
           [] \<Rightarrow> None
         | e # t \<Rightarrow>
             if e = 117 then
               (case t of
                  x1 # x2 # x3 # x4 # u \<Rightarrow>
                    (case (hex4 x1 x2 x3 x4, json_string u) of
                       (Some k, Some (ks, r)) \<Rightarrow> Some (k # ks, r)
                     | _ \<Rightarrow> None)
                | _ \<Rightarrow> None)
             else
               (case (simple_escape e, json_string t) of
                  (Some k, Some (ks, r)) \<Rightarrow> Some (k # ks, r)
                | _ \<Rightarrow> None))
      else (case json_string s of Some (ks, r) \<Rightarrow> Some (c # ks, r) | None \<Rightarrow> None))"

definition json_int_part :: "jstr \<Rightarrow> (jstr \<times> jstr) option" where
  "json_int_part s =
     (case s of
        [] \<Rightarrow> None
      | c # t \<Rightarrow>
          if c = 48 then Some ([48], t)
          else if 49 \<le> c \<and> c \<le> 57 then Some (takeWhile js_digit s, dropWhile js_digit s)
          else None)"

definition json_frac_part :: "jstr \<Rightarrow> (jstr \<times> jstr) option" where
  "json_frac_part s =
     (case s of
        [] \<Rightarrow> Some ([], [])
      | c # t \<Rightarrow>
          if c = 46 then
            if takeWhile js_digit t = [] then None
            else Some (takeWhile js_digit t, dropWhile js_digit t)
          else Some ([], s))"

definition json_exp_sign :: "jstr \<Rightarrow> int \<times> jstr" where
  "json_exp_sign t =
     (case t of
        [] \<Rightarrow> (1, t)
      | d # u \<Rightarrow> if d = 43 then (1, u) else if d = 45 then (- 1, u) else (1, t))"

definition json_exp_part :: "jstr \<Rightarrow> (int \<times> jstr) option" where
  "json_exp_part s =
     (case s of
        [] \<Rightarrow> Some (0, [])
      | c # t \<Rightarrow>
          if c = 101 \<or> c = 69 then
            (let (sg, u) = json_exp_sign t in
             if takeWhile js_digit u = [] then None
             else Some (sg * int (digits_val (takeWhile js_digit u)), dropWhile js_digit u))
          else Some (0, s))"

definition json_unsigned :: "jstr \<Rightarrow> (rat \<times> jstr) option" where
  "json_unsigned s =
     (case json_int_part s of None \<Rightarrow> None
      | Some (ip, s1) \<Rightarrow>
     (case json_frac_part s1 of None \<Rightarrow> None
      | Some (fp, s2) \<Rightarrow>
     (case json_exp_part s2 of None \<Rightarrow> None
      | Some (e, s3) \<Rightarrow>
          Some (of_nat (digits_val (ip @ fp)) * 10 powi (e - int (length fp)), s3))))"

definition json_number :: "jstr \<Rightarrow> (jsnum \<times> jstr) option" where
  "json_number s =
     (case s of
        [] \<Rightarrow> None
      | c # t \<Rightarrow>
          if c = 45
          then (case json_unsigned t of None \<Rightarrow> None | Some (x, r) \<Rightarrow> Some (round_double (- x), r))
          else (case json_unsigned s of None \<Rightarrow> None | Some (x, r) \<Rightarrow> Some (round_double x, r)))"

definition json_literal :: "string \<Rightarrow> jsval \<Rightarrow> jstr \<Rightarrow> (jsval \<times> jstr) option" where
  "json_literal w v s =
     (if take (length w) s = js w then Some (v, drop (length w) s) else None)"

text \<open>The members of an object, the last one of a name winning.\<close>

definition js_object :: "(jstr \<times> jsval) list \<Rightarrow> jsval" where
  "js_object ms = VObj (foldl (\<lambda>m (k, v). AList.update k v m) [] ms)"

fun json_value :: "nat \<Rightarrow> jstr \<Rightarrow> (jsval \<times> jstr) option"
  and json_members :: "nat \<Rightarrow> jstr \<Rightarrow> ((jstr \<times> jsval) list \<times> jstr) option"
  and json_elements :: "nat \<Rightarrow> jstr \<Rightarrow> (jsval list \<times> jstr) option"
where
  "json_value 0 s = None"
| "json_value (Suc n) s =
     (case skip_ws s of
        [] \<Rightarrow> None
      | c # t \<Rightarrow>
          if c = 34 then (case json_string t of None \<Rightarrow> None | Some (k, r) \<Rightarrow> Some (VStr k, r))
          else if c = 123 then
            (case skip_ws t of
               [] \<Rightarrow> None
             | d # u \<Rightarrow>
                 if d = 125 then Some (VObj [], u)
                 else (case json_members n (d # u) of None \<Rightarrow> None
                       | Some (ms, r) \<Rightarrow> Some (js_object ms, r)))
          else if c = 91 then
            (case skip_ws t of
               [] \<Rightarrow> None
             | d # u \<Rightarrow>
                 if d = 93 then Some (VArr [], u)
                 else (case json_elements n (d # u) of None \<Rightarrow> None
                       | Some (vs, r) \<Rightarrow> Some (VArr vs, r)))
          else if c = 116 then json_literal ''true'' (VBool True) (c # t)
          else if c = 102 then json_literal ''false'' (VBool False) (c # t)
          else if c = 110 then json_literal ''null'' VNull (c # t)
          else (case json_number (c # t) of None \<Rightarrow> None | Some (x, r) \<Rightarrow> Some (VNum x, r)))"
| "json_members 0 s = None"
| "json_members (Suc n) s =
     (case skip_ws s of
        [] \<Rightarrow> None
      | c # t \<Rightarrow>
          if c \<noteq> 34 then None
          else
            (case json_string t of None \<Rightarrow> None
             | Some (k, r) \<Rightarrow>
            (case skip_ws r of [] \<Rightarrow> None
             | d # r1 \<Rightarrow>
                 if d \<noteq> 58 then None
                 else
                   (case json_value n r1 of None \<Rightarrow> None
                    | Some (v, r2) \<Rightarrow>
                   (case skip_ws r2 of [] \<Rightarrow> None
                    | e # r3 \<Rightarrow>
                        if e = 44 then
                          (case json_members n r3 of None \<Rightarrow> None
                           | Some (ms, r4) \<Rightarrow> Some ((k, v) # ms, r4))
                        else if e = 125 then Some ([(k, v)], r3)
                        else None)))))"
| "json_elements 0 s = None"
| "json_elements (Suc n) s =
     (case json_value n s of None \<Rightarrow> None
      | Some (v, r) \<Rightarrow>
     (case skip_ws r of [] \<Rightarrow> None
      | e # r1 \<Rightarrow>
          if e = 44 then
            (case json_elements n r1 of None \<Rightarrow> None
             | Some (vs, r2) \<Rightarrow> Some (v # vs, r2))
          else if e = 93 then Some ([v], r1)
          else None))"

definition JSON_parse :: "jstr \<Rightarrow> jsval option" where
  "JSON_parse text =
     (case json_value (2 * length text + 1) text of
        None \<Rightarrow> None
      | Some (v, r) \<Rightarrow> if skip_ws r = [] then Some v else None)"

subsection \<open>The second pass over the raw text\<close>

datatype StrictJsonParseFailure =
    SYNTAX
  | DUPLICATE_MEMBER
  | MAX_DEPTH nat

datatype JsonContainerFrame = ObjectFrame "jstr list" | ArrayFrame

text \<open>How many code units follow the opening quote up to the end of the string.\<close>

fun skip_chars :: "bool \<Rightarrow> jstr \<Rightarrow> nat" where
  "skip_chars escaped [] = 0"
| "skip_chars escaped (character # rest) =
     Suc (if escaped then skip_chars False rest
          else if character = 92 then skip_chars True rest
          else if character = 34 then 0
          else skip_chars False rest)"

definition skipJsonString :: "jstr \<Rightarrow> nat" where
  "skipJsonString raw = Suc (skip_chars False (tl raw))"

definition nextNonWhitespace :: "jstr \<Rightarrow> nat option" where
  "nextNonWhitespace raw = (case skip_ws raw of [] \<Rightarrow> None | c # _ \<Rightarrow> Some c)"

definition decodeJsonString :: "jstr \<Rightarrow> jstr option" where
  "decodeJsonString rawToken = (case JSON_parse rawToken of Some (VStr s) \<Rightarrow> Some s | _ \<Rightarrow> None)"

text \<open>
  The loop over the index is a recursion on the text from the index on; \<open>None\<close> is the early
  return of \<open>undefined\<close>, the result the pair of \<open>duplicateMember\<close> and \<open>maximumDepth\<close>.
\<close>

function inspect ::
  "JsonContainerFrame list \<Rightarrow> nat \<Rightarrow> bool \<Rightarrow> jstr \<Rightarrow> (bool \<times> nat) option" where
  "inspect stack maximumDepth duplicateMember [] = Some (duplicateMember, maximumDepth)"
| "inspect stack maximumDepth duplicateMember (c # s) =
     (if c = 34 then
        (let n = skip_chars False s; rest = drop n s in
         case (nextNonWhitespace rest, stack) of
           (Some d, ObjectFrame keys # frames) \<Rightarrow>
             if d = 58 then
               (case decodeJsonString (c # take n s) of
                  None \<Rightarrow> None
                | Some key \<Rightarrow>
                    if key \<in> set keys then inspect stack maximumDepth True rest
                    else inspect (ObjectFrame (key # keys) # frames) maximumDepth duplicateMember rest)
             else inspect stack maximumDepth duplicateMember rest
         | _ \<Rightarrow> inspect stack maximumDepth duplicateMember rest)
      else if c = 123 then
        inspect (ObjectFrame [] # stack) (max maximumDepth (Suc (length stack))) duplicateMember s
      else if c = 91 then
        inspect (ArrayFrame # stack) (max maximumDepth (Suc (length stack))) duplicateMember s
      else if c = 125 \<or> c = 93 then inspect (tl stack) maximumDepth duplicateMember s
      else inspect stack maximumDepth duplicateMember s)"
  by pat_completeness auto
termination by (relation "measure (\<lambda>(_, _, _, s). length s)") auto

definition inspectJsonStructure :: "jstr \<Rightarrow> (bool \<times> nat) option" where
  "inspectJsonStructure raw = inspect [] 0 False raw"

definition parseStrictJson :: "jstr \<Rightarrow> StrictJsonParseFailure + jsval" where
  "parseStrictJson raw =
     (case JSON_parse raw of
        None \<Rightarrow> Inl SYNTAX
      | Some parsed \<Rightarrow>
          (case inspectJsonStructure raw of
             None \<Rightarrow> Inl SYNTAX
           | Some (duplicateMember, maximumDepth) \<Rightarrow>
               if duplicateMember then Inl DUPLICATE_MEMBER
               else if MAX_CANONICAL_JSON_DEPTH < maximumDepth then Inl (MAX_DEPTH maximumDepth)
               else Inr parsed))"

subsection \<open>The fuel suffices\<close>

lemma length_skip_ws: "length (skip_ws s) \<le> length s"
  by (simp add: skip_ws_def length_dropWhile_le)

lemma skip_ws_Cons_length: "skip_ws s = c # t \<Longrightarrow> length t < length s"
  using length_skip_ws [of s] by simp

lemma json_string_length: "json_string s = Some (k, r) \<Longrightarrow> length r < length s"
proof (induction s arbitrary: k r rule: json_string.induct)
  case (2 c s)
  then show ?case
    by (fastforce split: if_splits option.splits list.splits prod.splits)
qed simp

lemma json_int_part_length: "json_int_part s = Some (ip, r) \<Longrightarrow> length r < length s"
  using length_dropWhile_le [of js_digit "tl s"]
  by (auto simp: json_int_part_def js_digit_def split: list.splits if_splits)

lemma json_frac_part_length: "json_frac_part s = Some (fp, r) \<Longrightarrow> length r \<le> length s"
  using length_dropWhile_le [of js_digit "tl s"]
  by (auto simp: json_frac_part_def split: list.splits if_splits)

lemma json_exp_sign_length: "json_exp_sign t = (sg, u) \<Longrightarrow> length u \<le> length t"
  by (auto simp: json_exp_sign_def split: list.splits if_splits)

lemma json_exp_part_length: "json_exp_part s = Some (e, r) \<Longrightarrow> length r \<le> length s"
proof -
  assume e: "json_exp_part s = Some (e, r)"
  show ?thesis
  proof (cases s)
    case Nil
    with e show ?thesis by (simp add: json_exp_part_def)
  next
    case (Cons c t)
    obtain sg u where u: "json_exp_sign t = (sg, u)" by fastforce
    have "length (dropWhile js_digit u) \<le> length t"
      using length_dropWhile_le [of js_digit u] json_exp_sign_length [OF u] by simp
    with e Cons u show ?thesis by (auto simp: json_exp_part_def split: if_splits)
  qed
qed

lemma json_unsigned_length: "json_unsigned s = Some (x, r) \<Longrightarrow> length r < length s"
  by (auto simp: json_unsigned_def split: option.splits
      dest!: json_int_part_length json_frac_part_length json_exp_part_length)

lemma json_number_length: "json_number s = Some (x, r) \<Longrightarrow> length r < length s"
  by (auto simp: json_number_def split: option.splits list.splits if_splits
      dest!: json_unsigned_length)

lemma json_literal_length:
  "json_literal w v s = Some (x, r) \<Longrightarrow> w \<noteq> [] \<Longrightarrow> length r < length s"
proof -
  assume lit: "json_literal w v s = Some (x, r)" "w \<noteq> []"
  then have "take (length w) s \<noteq> []" "r = drop (length w) s"
    by (auto simp: json_literal_def split: if_splits)
  then have "s \<noteq> []" by auto
  with lit(2) \<open>r = _\<close> show ?thesis by simp
qed

lemma json_length:
  "json_value n s = Some (v, r) \<Longrightarrow> length r < length s"
  "json_members n s = Some (ms, r) \<Longrightarrow> length r < length s"
  "json_elements n s = Some (vs, r) \<Longrightarrow> length r < length s"
proof (induction n s and n s and n s arbitrary: v r and ms r and vs r
    rule: json_value_json_members_json_elements.induct)
  case (2 n s)
  then obtain c t where ct: "skip_ws s = c # t" by (auto split: list.splits)
  note len = skip_ws_Cons_length [OF ct] length_skip_ws [of s]
  consider "c = 34" | "c = 123" | "c = 91" | "c \<notin> {34, 123, 91}" by blast
  then show ?case
  proof cases
    case 1
    with 2 ct len show ?thesis by (fastforce split: option.splits dest: json_string_length)
  next
    case 2
    with "2.prems" ct obtain d u where du: "skip_ws t = d # u" by (auto split: list.splits)
    show ?thesis
    proof (cases "d = 125")
      case True
      with 2 "2.prems" ct du len skip_ws_Cons_length [OF du] show ?thesis by simp
    next
      case False
      with 2 "2.prems" ct du obtain ms where "json_members n (d # u) = Some (ms, r)"
        by (auto split: option.splits)
      from "2.IH"(1) [OF ct _ _ du False this] 2 len skip_ws_Cons_length [OF du] show ?thesis
        by simp
    qed
  next
    case 3
    with "2.prems" ct obtain d u where du: "skip_ws t = d # u" by (auto split: list.splits)
    show ?thesis
    proof (cases "d = 93")
      case True
      with 3 "2.prems" ct du len skip_ws_Cons_length [OF du] show ?thesis by simp
    next
      case False
      with 3 "2.prems" ct du obtain vs where "json_elements n (d # u) = Some (vs, r)"
        by (auto split: option.splits)
      from "2.IH"(2) [OF ct _ _ _ du False this] 3 len skip_ws_Cons_length [OF du] show ?thesis
        by simp
    qed
  next
    case 4
    with "2.prems" ct have "length r < length (c # t)"
      by (auto split: option.splits if_splits dest: json_number_length json_literal_length)
    with ct len show ?thesis by simp
  qed
next
  case (4 n s)
  then obtain t k r0 r1 v r2 e r3 where *:
    "skip_ws s = 34 # t" "json_string t = Some (k, r0)" "skip_ws r0 = 58 # r1"
    "json_value n r1 = Some (v, r2)" "skip_ws r2 = e # r3"
    by (auto split: option.splits list.splits if_splits)
  note len = skip_ws_Cons_length [OF *(1)] json_string_length [OF *(2)]
    skip_ws_Cons_length [OF *(3)] "4.IH"(1) [OF *(1) _ *(2) refl *(3) _ *(4)]
    skip_ws_Cons_length [OF *(5)]
  show ?case
  proof (cases "e = 44")
    case True
    with "4.prems" * obtain ms' where "json_members n r3 = Some (ms', r)"
      by (auto split: option.splits)
    from "4.IH"(2) [OF *(1) _ *(2) refl *(3) _ *(4) refl *(5) True this] len show ?thesis by simp
  next
    case False
    with "4.prems" * len show ?thesis by (simp split: if_splits)
  qed
next
  case (6 n s)
  then obtain v r0 e r1 where *: "json_value n s = Some (v, r0)" "skip_ws r0 = e # r1"
    by (auto split: option.splits list.splits)
  note len = "6.IH"(1) [OF *(1)] skip_ws_Cons_length [OF *(2)]
  show ?case
  proof (cases "e = 44")
    case True
    with "6.prems" * obtain vs' where "json_elements n r1 = Some (vs', r)"
      by (auto split: option.splits)
    from "6.IH"(2) [OF *(1) refl *(2) True this] len show ?thesis by simp
  next
    case False
    with "6.prems" * len show ?thesis by (simp split: if_splits)
  qed
qed simp_all

text \<open>One more unit of fuel changes nothing once there are two units per remaining code unit.\<close>

lemma json_fuel_step:
  "2 * length s + 1 \<le> n \<Longrightarrow> json_value (Suc n) s = json_value n s"
  "2 * length s + 1 \<le> n \<Longrightarrow> json_members (Suc n) s = json_members n s"
  "2 * length s + 2 \<le> n \<Longrightarrow> json_elements (Suc n) s = json_elements n s"
proof (induction n arbitrary: s)
  case 0
  { case 1 then show ?case by simp }
  { case 2 then show ?case by simp }
  { case 3 then show ?case by simp }
next
  case (Suc n)
  { case 1
    show ?case
    proof (cases "skip_ws s")
      case (Cons c t)
      note len = skip_ws_Cons_length [OF Cons]
      show ?thesis
      proof (cases "skip_ws t")
        case Nil
        with Cons show ?thesis by simp
      next
        case du: (Cons d u)
        have "2 * length (d # u) + 2 \<le> n" using skip_ws_Cons_length [OF du] len 1 by simp
        then have "json_members (Suc n) (d # u) = json_members n (d # u)"
          "json_elements (Suc n) (d # u) = json_elements n (d # u)"
          by (intro Suc.IH(2,3); linarith)+
        then show ?thesis
          by (simp only: json_value.simps Cons list.case du)
      qed
    qed simp }
  { case 2
    show ?case
    proof (cases "skip_ws s")
      case (Cons c t)
      note len = skip_ws_Cons_length [OF Cons]
      have val: "json_value (Suc n) r1 = json_value n r1" if "length r1 < length s" for r1
        using that 2 by (intro Suc.IH(1)) simp
      have mem: "json_members (Suc n) r1 = json_members n r1" if "length r1 < length s" for r1
        using that 2 by (intro Suc.IH(2)) simp
      show ?thesis
      proof (cases "json_string t")
        case None
        with Cons show ?thesis by (simp only: json_members.simps list.case option.case)
      next
        case (Some kr)
        obtain k r0 where kr: "kr = (k, r0)" by fastforce
        with Some json_string_length have r0: "length r0 < length t" by blast
        show ?thesis
        proof (cases "skip_ws r0")
          case Nil
          then show ?thesis
            by (simp only: json_members.simps Cons Some kr list.case option.case prod.case)
        next
          case dr: (Cons d r1)
          have lr1: "length r1 < length s" using skip_ws_Cons_length [OF dr] r0 len by simp
          show ?thesis
          proof (cases "json_value n r1")
            case None
            then show ?thesis
              by (simp only: json_members.simps Cons Some kr list.case option.case prod.case dr
                  val [OF lr1])
          next
            case vr: (Some p)
            obtain v r2 where p: "p = (v, r2)" by fastforce
            with vr have r2: "length r2 < length r1" by (auto dest: json_length(1))
            show ?thesis
            proof (cases "skip_ws r2")
              case Nil
              then show ?thesis
                by (simp only: json_members.simps Cons Some kr list.case option.case prod.case dr
                    val [OF lr1] vr p)
            next
              case er: (Cons e r3)
              have "length r3 < length s" using skip_ws_Cons_length [OF er] r2 lr1 by simp
              from mem [OF this] show ?thesis
                by (simp only: json_members.simps Cons Some kr list.case option.case prod.case dr
                    val [OF lr1] vr p er)
            qed
          qed
        qed
      qed
    qed simp }
  { case 3
    have val: "json_value (Suc n) s = json_value n s" using 3 by (intro Suc.IH(1)) simp
    show ?case
    proof (cases "json_value n s")
      case None
      then show ?thesis by (simp only: json_elements.simps val option.case)
    next
      case (Some p)
      obtain v r where p: "p = (v, r)" by fastforce
      with Some have r: "length r < length s" by (auto dest: json_length(1))
      show ?thesis
      proof (cases "skip_ws r")
        case Nil
        then show ?thesis
          by (simp only: json_elements.simps val Some p option.case prod.case list.case)
      next
        case er: (Cons e r1)
        have "json_elements (Suc n) r1 = json_elements n r1"
          using skip_ws_Cons_length [OF er] r 3 by (intro Suc.IH(3)) simp
        then show ?thesis
          by (simp only: json_elements.simps val Some p option.case prod.case list.case er)
      qed
    qed }
qed

lemma json_value_fuel:
  "2 * length s + 1 \<le> n \<Longrightarrow> json_value n s = json_value (2 * length s + 1) s"
  by (induction rule: dec_induct) (simp_all add: json_fuel_step(1) del: json_value.simps)

end
