(* ===== verification/SnapshotSerializer.thy ===== *)
theory SnapshotSerializer
  imports StrictJson
begin

section \<open>The canonical serializer (canonical-snapshot-serializer.ts)\<close>

text \<open>
  \<open>json_quote\<close> and \<open>number_to_string\<close> are \<open>JSON.stringify\<close> on strings and numbers (with the
  well-formed escaping of unpaired surrogates); \<open>serializeCanonicalJson\<close> is the code's
  serializer with sorted members. The lemmas prove that strict parsing inverts it on canonical
  values and that it does not depend on the order of members. \<open>undefined\<close> and \<open>bigint\<close> are not
  of the type \<open>StrictJsonValue\<close> and no call passes them; the model gives them the empty text.
\<close>

definition compareCanonicalKeys :: "jstr \<Rightarrow> jstr \<Rightarrow> int" where
  "compareCanonicalKeys left right =
     (if js_str_less left right then -1 else if js_str_less right left then 1 else 0)"

subsection \<open>JSON.stringify on strings and numbers\<close>

definition hex_char :: "nat \<Rightarrow> nat" where
  "hex_char n = (if n < 10 then 48 + n else 87 + n)"

definition quote_unit :: "nat \<Rightarrow> jstr" where
  "quote_unit u =
     (if u = 34 \<or> u = 92 then [92, u]
      else if u = 8 then [92, 98] else if u = 9 then [92, 116] else if u = 10 then [92, 110]
      else if u = 12 then [92, 102] else if u = 13 then [92, 114]
      else if u < 32 \<or> surrogate u then
        [92, 117, hex_char (u div 4096 mod 16), hex_char (u div 256 mod 16),
         hex_char (u div 16 mod 16), hex_char (u mod 16)]
      else [u])"

fun quote_body :: "jstr \<Rightarrow> jstr" where
  "quote_body [] = []"
| "quote_body [u] = quote_unit u"
| "quote_body (u # v # s) =
     (if high_surrogate u \<and> low_surrogate v then u # v # quote_body s
      else quote_unit u @ quote_body (v # s))"

definition json_quote :: "jstr \<Rightarrow> jstr" where
  "json_quote s = [34] @ quote_body s @ [34]"

definition json_number_text :: "jsnum \<Rightarrow> jstr" where
  "json_number_text n = (case n of Fin _ \<Rightarrow> number_to_string n | _ \<Rightarrow> js ''null'')"

fun json_join :: "jstr list \<Rightarrow> jstr" where
  "json_join [] = []"
| "json_join [x] = x"
| "json_join (x # y # zs) = x @ [44] @ json_join (y # zs)"

subsection \<open>The serializer\<close>

fun serializeCanonicalJson :: "jsval \<Rightarrow> jstr" where
  "serializeCanonicalJson VNull = js ''null''"
| "serializeCanonicalJson (VBool b) = (if b then js ''true'' else js ''false'')"
| "serializeCanonicalJson (VNum n) = json_number_text n"
| "serializeCanonicalJson (VStr s) = json_quote s"
| "serializeCanonicalJson (VArr vs) = [91] @ json_join (map serializeCanonicalJson vs) @ [93]"
| "serializeCanonicalJson (VObj ms) =
     (let texts = map (\<lambda>(k, v). (k, serializeCanonicalJson v)) ms;
          members = map (\<lambda>key. json_quote key @ [58] @
                           (case map_of texts key of Some t \<Rightarrow> t | None \<Rightarrow> []))
                      (js_sort compareCanonicalKeys (map fst ms))
      in [123] @ json_join members @ [125])"
| "serializeCanonicalJson VUndef = []"
| "serializeCanonicalJson (VBig i) = []"

definition snapshot_domain_separator :: bytes where
  "snapshot_domain_separator = utf8 SNAPSHOT_SERIALIZATION_VERSION @ [0]"

definition computeCanonicalSnapshotHash :: "(bytes \<Rightarrow> jstr) \<Rightarrow> bytes \<Rightarrow> jstr" where
  "computeCanonicalSnapshotHash sha canonicalEnvelopeBytes =
     sha (snapshot_domain_separator @ canonicalEnvelopeBytes)"

definition canonicalSnapshotRefForHash :: "jstr \<Rightarrow> jstr" where
  "canonicalSnapshotRefForHash snapshotHash = js ''rcv-app-snapshot:v1:sha256:'' @ snapshotHash"

subsection \<open>Member order\<close>

interpretation key_order: consistent_comparator compareCanonicalKeys UNIV
proof
  fix x y z :: jstr
  show "compareCanonicalKeys x x = 0" by (simp add: compareCanonicalKeys_def)
  show "compareCanonicalKeys x y \<le> 0 \<longleftrightarrow> 0 \<le> compareCanonicalKeys y x"
    using js_str_less_asym [of x y] by (auto simp: compareCanonicalKeys_def)
  show "compareCanonicalKeys x y \<le> 0 \<Longrightarrow> compareCanonicalKeys y z \<le> 0 \<Longrightarrow>
      compareCanonicalKeys x z \<le> 0"
    using js_str_less_trans [of z x y] js_str_less_trans [of y z x] js_str_less_asym [of x y]
      js_str_less_asym [of y z] js_str_less_asym [of x z] js_str_less_linear [of x y]
      js_str_less_linear [of y z]
    by (auto simp: compareCanonicalKeys_def split: if_splits dest: js_str_less_trans)
qed

lemma compareCanonicalKeys_le_0: "compareCanonicalKeys a b \<le> 0 \<longleftrightarrow> a = b \<or> js_str_less a b"
  using js_str_less_linear [of a b] js_str_less_asym [of a b]
  by (auto simp: compareCanonicalKeys_def)

lemma js_sort_keys_perm:
  "mset ks = mset ks' \<Longrightarrow> js_sort compareCanonicalKeys ks = js_sort compareCanonicalKeys ks'"
  by (rule key_order.js_sort_perm) (auto simp: compareCanonicalKeys_le_0 dest: js_str_less_asym)

lemma map_of_texts_perm:
  assumes "mset ms = mset ms'" "distinct (map fst ms)"
  shows "map_of (map (\<lambda>(k, v). (k, f v)) ms) = map_of (map (\<lambda>(k, v). (k, f v)) ms')"
proof -
  let ?g = "\<lambda>(k, v). (k, f v)"
  have fst: "map fst (map ?g xs) = map fst xs" for xs by (induction xs) auto
  have m: "mset (map fst ms) = mset (map fst ms')" using assms(1) by (simp add: mset_map)
  have d: "distinct (map fst ms')" using assms(2) mset_eq_imp_distinct_iff [OF m] by simp
  have "set ms = set ms'" using assms(1) by (metis set_mset_mset)
  then have "set (map ?g ms) = set (map ?g ms')" by simp
  moreover have "distinct (map fst (map ?g ms))" "distinct (map fst (map ?g ms'))"
    using assms(2) d by (simp_all only: fst)
  ultimately show ?thesis by (simp only: map_of_inject_set)
qed

lemma serialize_member_order:
  assumes "mset ms = mset ms'" "distinct (map fst ms)"
  shows "serializeCanonicalJson (VObj ms) = serializeCanonicalJson (VObj ms')"
proof -
  have m: "mset (map fst ms) = mset (map fst ms')" using assms(1) by (simp add: mset_map)
  show ?thesis
    by (simp only: serializeCanonicalJson.simps Let_def
        map_of_texts_perm [OF assms, of serializeCanonicalJson] js_sort_keys_perm [OF m])
qed

subsection \<open>Strings\<close>

lemma hex_char_plain [simp]: "hex_char n \<noteq> 34" "hex_char n \<noteq> 92"
  by (auto simp: hex_char_def)

lemma hex_val_hex_char [simp]: "n < 16 \<Longrightarrow> hex_val (hex_char n) = Some n"
  by (auto simp: hex_val_def hex_char_def)

lemma hex4_unit: "u < 65536 \<Longrightarrow>
   hex4 (hex_char (u div 4096 mod 16)) (hex_char (u div 256 mod 16)) (hex_char (u div 16 mod 16))
     (hex_char (u mod 16)) = Some u"
proof -
  assume "u < 65536"
  then have "u div 4096 < 16" by simp
  moreover have "u div 256 = u div 16 div 16" "u div 4096 = u div 16 div 16 div 16"
    using div_mult2_eq [of u 16 16] div_mult2_eq [of u 256 16] by simp_all
  moreover have "x div 16 * 16 + x mod 16 = x" for x :: nat by simp
  ultimately show ?thesis by (simp add: hex4_def)
qed

lemma json_string_unit:
  assumes "u < 65536" "json_string t = Some (s, r)"
  shows "json_string (quote_unit u @ t) = Some (u # s, r)"
proof (cases "u \<in> {34, 92, 8, 9, 10, 12, 13} \<or> 32 \<le> u \<and> \<not> surrogate u")
  case True
  with assms show ?thesis by (auto simp: quote_unit_def simple_escape_def surrogate_def)
next
  case False
  then have "quote_unit u = [92, 117, hex_char (u div 4096 mod 16), hex_char (u div 256 mod 16),
      hex_char (u div 16 mod 16), hex_char (u mod 16)]"
    by (auto simp: quote_unit_def)
  with assms hex4_unit [OF assms(1)] show ?thesis by simp
qed

lemma json_string_quote_body:
  "wf_jstr s \<Longrightarrow> json_string (quote_body s @ 34 # r) = Some (s, r)"
proof (induction s rule: quote_body.induct)
  case (2 u)
  then show ?case using json_string_unit [of u "34 # r" "[]" r] by simp
next
  case (3 u v s)
  show ?case
  proof (cases "high_surrogate u \<and> low_surrogate v")
    case True
    with "3.IH"(1) [OF True] "3.prems" show ?thesis
      by (auto simp: high_surrogate_def low_surrogate_def)
  next
    case False
    then have "quote_body (u # v # s) = quote_unit u @ quote_body (v # s)" by auto
    with "3.IH"(2) [OF False] "3.prems" show ?thesis by (simp add: json_string_unit)
  qed
qed simp

interpretation quote: prefix_code json_quote "{s. wf_jstr s}"
proof
  fix a b r r' assume "a \<in> {s. wf_jstr s}" "b \<in> {s. wf_jstr s}" "json_quote a @ r = json_quote b @ r'"
  then have "json_string (quote_body a @ 34 # r) = json_string (quote_body b @ 34 # r')"
    "wf_jstr a" "wf_jstr b" by (auto simp: json_quote_def)
  then show "a = b \<and> r = r'" by (simp add: json_string_quote_body)
qed

lemma skip_chars_unit: "skip_chars False (quote_unit u @ t) = length (quote_unit u) + skip_chars False t"
  by (simp add: quote_unit_def)

lemma skip_chars_quote_body:
  "wf_jstr s \<Longrightarrow> skip_chars False (quote_body s @ 34 # r) = Suc (length (quote_body s))"
proof (induction s rule: quote_body.induct)
  case (2 u)
  then show ?case by (simp add: skip_chars_unit)
next
  case (3 u v s)
  show ?case
  proof (cases "high_surrogate u \<and> low_surrogate v")
    case True
    with "3.IH"(1) [OF True] "3.prems" show ?thesis
      by (auto simp: high_surrogate_def low_surrogate_def)
  next
    case False
    then have "quote_body (u # v # s) = quote_unit u @ quote_body (v # s)" by auto
    with "3.IH"(2) [OF False] "3.prems" show ?thesis by (simp add: skip_chars_unit)
  qed
qed simp

lemma skip_ws_id: "s = [] \<or> \<not> json_ws (hd s) \<Longrightarrow> skip_ws s = s"
  by (cases s) (auto simp: skip_ws_def)

lemma json_value_quote:
  "wf_jstr s \<Longrightarrow> json_value (Suc n) (json_quote s @ r) = Some (VStr s, r)"
  by (simp add: json_quote_def skip_ws_id json_ws_def json_string_quote_body)

lemma decodeJsonString_quote [simp]: "wf_jstr s \<Longrightarrow> decodeJsonString (json_quote s) = Some s"
  using json_value_quote [of s _ "[]"]
  by (simp add: decodeJsonString_def JSON_parse_def skip_ws_def del: json_value.simps)

subsection \<open>Canonical values\<close>

text \<open>
  The values the module writes: strings of code units, integers below \<open>2 ^ 53\<close>, arrays, and
  objects whose members are in the order of their names (so without duplicates).
\<close>

fun canonical_json :: "jsval \<Rightarrow> bool" where
  "canonical_json VNull = True"
| "canonical_json (VBool b) = True"
| "canonical_json (VNum n) = (n = js_int (int_of_num n) \<and> \<bar>int_of_num n\<bar> \<le> 9007199254740991)"
| "canonical_json (VStr s) = wf_jstr s"
| "canonical_json (VArr vs) = list_all canonical_json vs"
| "canonical_json (VObj ms) =
     (sorted_wrt js_str_less (map fst ms) \<and> list_all wf_jstr (map fst ms) \<and>
      list_all (\<lambda>(k, v). canonical_json v) ms)"
| "canonical_json VUndef = False"
| "canonical_json (VBig i) = False"

fun json_depth :: "jsval \<Rightarrow> nat" where
  "json_depth (VArr vs) = Suc (foldr max (map json_depth vs) 0)"
| "json_depth (VObj ms) = Suc (foldr max (map (\<lambda>(k, v). json_depth v) ms) 0)"
| "json_depth _ = 0"

definition member_text :: "jstr \<times> jsval \<Rightarrow> jstr" where
  "member_text m = json_quote (fst m) @ [58] @ serializeCanonicalJson (snd m)"

lemma sorted_keys_distinct: "sorted_wrt js_str_less ks \<Longrightarrow> distinct ks"
  by (induction ks) auto

lemma serialize_object:
  assumes "sorted_wrt js_str_less (map fst ms)"
  shows "serializeCanonicalJson (VObj ms) = 123 # json_join (map member_text ms) @ [125]"
proof -
  let ?texts = "map (\<lambda>(k, v). (k, serializeCanonicalJson v)) ms"
  have "sorted_wrt (\<lambda>a b. compareCanonicalKeys a b \<le> 0) (map fst ms)"
    using assms by (rule sorted_wrt_mono_rel [rotated]) (simp add: compareCanonicalKeys_le_0)
  then have sorted: "js_sort compareCanonicalKeys (map fst ms) = map fst ms"
    by (intro key_order.js_sort_sorted_id) auto
  have keys: "map fst ?texts = map fst ms" by (induction ms) auto
  have "map_of ?texts k = Some (serializeCanonicalJson v)" if "(k, v) \<in> set ms" for k v
    using that sorted_keys_distinct [OF assms]
    by (intro map_of_is_SomeI) (simp only: keys, force)
  then have "map (\<lambda>key. json_quote key @ [58] @
      (case map_of ?texts key of Some t \<Rightarrow> t | None \<Rightarrow> [])) (map fst ms) = map member_text ms"
    by (auto simp: member_text_def)
  then show ?thesis by (simp only: serializeCanonicalJson.simps Let_def sorted append_Cons append_Nil)
qed

text \<open>What may follow a value inside a document: nothing, or one of \<open>,\<close> \<open>}\<close> \<open>]\<close>.\<close>

definition stop :: "jstr \<Rightarrow> bool" where
  "stop r \<longleftrightarrow> r = [] \<or> hd r \<in> {44, 125, 93}"

lemma stop_simps [simp]: "stop []" "stop (44 # r)" "stop (125 # r)" "stop (93 # r)"
  by (simp_all add: stop_def)

lemma stop_skip_ws: "stop r \<Longrightarrow> skip_ws r = r"
  by (rule skip_ws_id) (auto simp: stop_def json_ws_def)

lemma skip_ws_Cons [simp]: "\<not> json_ws c \<Longrightarrow> skip_ws (c # s) = c # s"
  by (simp add: skip_ws_def)

subsection \<open>Numbers\<close>

lemma takeWhile_digits_stop:
  assumes "list_all js_digit s" "r = [] \<or> \<not> js_digit (hd r)"
  shows "takeWhile js_digit (s @ r) = s" "dropWhile js_digit (s @ r) = r"
  using assms by (cases r; auto simp: takeWhile_append2 dropWhile_append2 list_all_iff
      takeWhile_eq_all_conv dropWhile_eq_Nil_conv)+

lemma json_int_part_nat:
  assumes "stop r"
  shows "json_int_part (js_of_nat n @ r) = Some (js_of_nat n, r)"
proof (cases "js_of_nat n = [48]")
  case True
  then show ?thesis by (simp add: json_int_part_def)
next
  case False
  have "unsigned_decimal_integer (js_of_nat n)" by simp
  then obtain u t where ut: "js_of_nat n = u # t" "49 \<le> u" "u \<le> 57" "list_all js_digit t"
    using False by (auto simp: unsigned_decimal_integer_def split: list.splits)
  have r: "r = [] \<or> \<not> js_digit (hd r)" using assms by (auto simp: stop_def js_digit_def)
  from ut have "list_all js_digit (u # t)" by (simp add: js_digit_def)
  from takeWhile_digits_stop [OF this r] ut show ?thesis by (simp add: json_int_part_def)
qed

lemma json_unsigned_nat:
  "stop r \<Longrightarrow> json_unsigned (js_of_nat n @ r) = Some (of_nat n, r)"
proof -
  assume r: "stop r"
  then have "json_frac_part r = Some ([], r)" "json_exp_part r = Some (0, r)"
    by (auto simp: json_frac_part_def json_exp_part_def stop_def split: list.splits)
  then show ?thesis by (simp add: json_unsigned_def json_int_part_nat [OF r])
qed

lemma js_of_nat_hd_digit: "js_of_nat n = c # t \<Longrightarrow> js_digit c"
  using js_of_nat_digits [of n] by simp

lemma json_number_int:
  assumes "stop r" "\<bar>i\<bar> \<le> 9007199254740991"
  shows "json_number (js_of_int i @ r) = Some (js_int i, r)"
proof (cases "i < 0")
  case True
  then have "(of_nat (nat (- i)) :: rat) = - of_int i" by simp
  moreover have "round_double (of_int i) = js_int i" using assms(2) by (intro round_double_int) simp
  ultimately show ?thesis using True json_unsigned_nat [OF assms(1)]
    by (simp add: json_number_def js_of_int_def)
next
  case False
  obtain c t where ct: "js_of_nat (nat i) = c # t" by (cases "js_of_nat (nat i)") auto
  then have "c \<noteq> 45" using js_of_nat_hd_digit [of "nat i" c t] by (auto simp: js_digit_def)
  moreover have "(of_nat (nat i) :: rat) = of_int i" using False by simp
  moreover have "round_double (of_int i) = js_int i" using assms(2) by (intro round_double_int) simp
  ultimately show ?thesis using False json_unsigned_nat [OF assms(1), of "nat i"] ct
    by (simp add: json_number_def js_of_int_def)
qed

lemma json_number_text_int:
  "\<bar>i\<bar> \<le> 9007199254740991 \<Longrightarrow> json_number_text (js_int i) = js_of_int i"
  using number_to_string_int [of i] by (simp add: json_number_text_def js_int_def)

lemma js_of_int_hd: "js_of_int i = c # t \<Longrightarrow> js_digit c \<or> c = 45"
  by (auto simp: js_of_int_def dest: js_of_nat_hd_digit split: if_splits)

lemma js_of_int_ne_Nil [simp]: "js_of_int i \<noteq> []"
  by (simp add: js_of_int_def)

lemma json_value_int:
  assumes "stop r" "\<bar>i\<bar> \<le> 9007199254740991"
  shows "json_value (Suc n) (js_of_int i @ r) = Some (VNum (js_int i), r)"
proof -
  obtain c t where ct: "js_of_int i = c # t" by (cases "js_of_int i") auto
  then have "js_digit c \<or> c = 45" by (rule js_of_int_hd)
  then have "c \<notin> {34, 123, 91, 116, 102, 110}" "\<not> json_ws c"
    by (auto simp: js_digit_def json_ws_def)
  with json_number_int [OF assms] ct show ?thesis by simp
qed

subsection \<open>Parsing inverts serializing\<close>

text \<open>The first code unit of a serialized value.\<close>

lemma serialize_hd:
  assumes "canonical_json v"
  shows "\<exists>c t. serializeCanonicalJson v = c # t \<and> \<not> json_ws c \<and> c \<notin> {44, 58, 93, 125}"
proof (cases v)
  case (VNum n)
  with assms have "serializeCanonicalJson v = js_of_int (int_of_num n)"
    by (metis canonical_json.simps(3) json_number_text_int serializeCanonicalJson.simps(3))
  moreover obtain c t where "js_of_int (int_of_num n) = c # t"
    by (cases "js_of_int (int_of_num n)") auto
  moreover from this have "js_digit c \<or> c = 45" by (rule js_of_int_hd)
  ultimately show ?thesis by (auto simp: js_digit_def json_ws_def)
qed (use assms in \<open>auto simp: js_eval json_quote_def json_ws_def Let_def\<close>)

definition parses :: "jsval \<Rightarrow> bool" where
  "parses v \<longleftrightarrow>
     (\<forall>n r. stop r \<longrightarrow> 2 * length (serializeCanonicalJson v @ r) + 1 \<le> n \<longrightarrow>
        json_value n (serializeCanonicalJson v @ r) = Some (v, r))"

lemma parsesD:
  "parses v \<Longrightarrow> stop r \<Longrightarrow> 2 * length (serializeCanonicalJson v @ r) + 1 \<le> n \<Longrightarrow>
   json_value n (serializeCanonicalJson v @ r) = Some (v, r)"
  by (simp add: parses_def)

lemma json_join_Cons: "xs \<noteq> [] \<Longrightarrow> json_join (x # xs) = x @ 44 # json_join xs"
  by (cases xs) auto

lemma json_elements_join:
  assumes "vs \<noteq> []" "\<forall>v \<in> set vs. parses v"
    and "2 * length (json_join (map serializeCanonicalJson vs) @ 93 # r) + 2 \<le> n"
  shows "json_elements n (json_join (map serializeCanonicalJson vs) @ 93 # r) = Some (vs, r)"
  using assms
proof (induction vs arbitrary: n)
  case (Cons v vs)
  obtain m where n: "n = Suc m" using Cons.prems(3) by (cases n) auto
  show ?case
  proof (cases "vs = []")
    case True
    with Cons.prems n parsesD [of v "93 # r" m] show ?thesis
      by (simp add: json_ws_def del: json_value.simps)
  next
    case False
    let ?rest = "json_join (map serializeCanonicalJson vs) @ 93 # r"
    have doc: "json_join (map serializeCanonicalJson (v # vs)) @ 93 # r =
        serializeCanonicalJson v @ 44 # ?rest"
      using False by (simp add: json_join_Cons)
    have len: "2 * length (serializeCanonicalJson v @ 44 # ?rest) + 2 \<le> Suc m"
      using Cons.prems(3) n unfolding doc by simp
    then have "json_value m (serializeCanonicalJson v @ 44 # ?rest) = Some (v, 44 # ?rest)"
      using Cons.prems(2) by (intro parsesD) simp_all
    moreover have "json_elements m ?rest = Some (vs, r)"
      using Cons.prems(2) False len by (intro Cons.IH) simp_all
    ultimately show ?thesis unfolding n doc by (simp add: json_ws_def)
  qed
qed simp

lemma json_members_join:
  assumes "ms \<noteq> []" "\<forall>(k, v) \<in> set ms. wf_jstr k \<and> parses v"
    and "2 * length (json_join (map member_text ms) @ 125 # r) + 1 \<le> n"
  shows "json_members n (json_join (map member_text ms) @ 125 # r) = Some (ms, r)"
  using assms
proof (induction ms arbitrary: n)
  case (Cons m ms)
  obtain k v where m: "m = (k, v)" by fastforce
  obtain n' where n: "n = Suc n'" using Cons.prems(3) by (cases n) auto
  have kv: "wf_jstr k" "parses v" using Cons.prems(2) m by auto
  have key: "json_string (quote_body k @ 34 # r') = Some (k, r')" for r'
    using kv(1) by (rule json_string_quote_body)
  show ?case
  proof (cases "ms = []")
    case True
    have doc: "json_join (map member_text (m # ms)) @ 125 # r =
        34 # quote_body k @ 34 # 58 # serializeCanonicalJson v @ 125 # r"
      using True m by (simp add: member_text_def json_quote_def)
    have "json_value n' (serializeCanonicalJson v @ 125 # r) = Some (v, 125 # r)"
      using kv Cons.prems(3) n unfolding doc by (intro parsesD) simp_all
    then show ?thesis unfolding n doc using True m key by (simp add: json_ws_def)
  next
    case False
    let ?rest = "json_join (map member_text ms) @ 125 # r"
    have doc: "json_join (map member_text (m # ms)) @ 125 # r =
        34 # quote_body k @ 34 # 58 # serializeCanonicalJson v @ 44 # ?rest"
      using False m by (simp add: member_text_def json_quote_def json_join_Cons)
    have len: "2 * length (serializeCanonicalJson v @ 44 # ?rest) + 3 \<le> n'"
      using Cons.prems(3) n unfolding doc by simp
    then have "json_value n' (serializeCanonicalJson v @ 44 # ?rest) = Some (v, 44 # ?rest)"
      using kv by (intro parsesD) simp_all
    moreover have "json_members n' ?rest = Some (ms, r)"
      using Cons.prems(2) False len by (intro Cons.IH) auto
    ultimately show ?thesis unfolding n doc using m key by (simp add: json_ws_def)
  qed
qed simp

lemma update_new: "k \<notin> fst ` set m \<Longrightarrow> AList.update k v m = m @ [(k, v)]"
  by (induction m) auto

lemma js_object_distinct: "distinct (map fst ms) \<Longrightarrow> js_object ms = VObj ms"
proof -
  have "foldl (\<lambda>m (k, v). AList.update k v m) acc ms = acc @ ms"
    if "distinct (map fst (acc @ ms))" for acc
    using that
  proof (induction ms arbitrary: acc)
    case (Cons m ms)
    then show ?case by (cases m) (simp add: update_new)
  qed simp
  from this [of "[]"] show "distinct (map fst ms) \<Longrightarrow> js_object ms = VObj ms"
    by (simp add: js_object_def)
qed

lemma parsesI:
  assumes "\<And>n r. stop r \<Longrightarrow> json_value (Suc n) (serializeCanonicalJson v @ r) = Some (v, r)"
  shows "parses v"
  unfolding parses_def
proof (intro allI impI)
  fix n r assume "stop r" "2 * length (serializeCanonicalJson v @ r) + 1 \<le> n"
  then show "json_value n (serializeCanonicalJson v @ r) = Some (v, r)"
    by (cases n) (auto intro: assms simp del: json_value.simps)
qed

lemma parses_canonical: "canonical_json v \<Longrightarrow> parses v"
proof (induction v)
  case (VArr vs)
  have kids: "\<forall>v \<in> set vs. canonical_json v \<and> parses v"
    using VArr by (auto simp: list_all_iff)
  show ?case unfolding parses_def
  proof (intro allI impI)
    fix n r assume r: "stop r" and n: "2 * length (serializeCanonicalJson (VArr vs) @ r) + 1 \<le> n"
    then obtain m where m: "n = Suc m" by (cases n) auto
    show "json_value n (serializeCanonicalJson (VArr vs) @ r) = Some (VArr vs, r)"
    proof (cases vs)
      case Nil
      then show ?thesis by (simp add: m json_ws_def)
    next
      case (Cons v ws)
      let ?body = "json_join (map serializeCanonicalJson vs) @ 93 # r"
      obtain c t where ct: "serializeCanonicalJson v = c # t" "\<not> json_ws c" "c \<noteq> 93"
        using serialize_hd kids Cons by fastforce
      then have hd: "\<exists>u. ?body = c # u" using Cons by (cases ws) auto
      have "json_elements m ?body = Some (vs, r)"
        using Cons kids n m by (intro json_elements_join) auto
      with hd ct(2,3) show ?thesis by (auto simp: m json_ws_def)
    qed
  qed
next
  case (VObj ms)
  have sorted: "sorted_wrt js_str_less (map fst ms)" using VObj.prems by simp
  have kids: "\<forall>(k, v) \<in> set ms. wf_jstr k \<and> parses v"
    using VObj by (fastforce simp: list_all_iff)
  show ?case unfolding parses_def serialize_object [OF sorted]
  proof (intro allI impI)
    fix n r
    assume r: "stop r" and n: "2 * length ((123 # json_join (map member_text ms) @ [125]) @ r) + 1 \<le> n"
    then obtain m where m: "n = Suc m" by (cases n) auto
    show "json_value n ((123 # json_join (map member_text ms) @ [125]) @ r) = Some (VObj ms, r)"
    proof (cases ms)
      case Nil
      then show ?thesis by (simp add: m json_ws_def)
    next
      case (Cons p ps)
      let ?body = "json_join (map member_text ms) @ 125 # r"
      have hd: "\<exists>u. ?body = 34 # u"
        using Cons by (cases ps) (auto simp: member_text_def json_quote_def)
      have "json_members m ?body = Some (ms, r)"
        using Cons kids n m by (intro json_members_join) auto
      with hd js_object_distinct [OF sorted_keys_distinct [OF sorted]] show ?thesis
        by (auto simp: m json_ws_def)
    qed
  qed
next
  case (VNum x)
  then have "serializeCanonicalJson (VNum x) = js_of_int (int_of_num x)"
    by (metis canonical_json.simps(3) json_number_text_int serializeCanonicalJson.simps(3))
  moreover have "json_value (Suc n) (js_of_int (int_of_num x) @ r) = Some (VNum x, r)"
    if "stop r" for n r
    using json_value_int [OF that, of "int_of_num x"] VNum by simp
  ultimately show ?case by (intro parsesI) (simp only:)
next
  case (VStr s)
  then have "json_value (Suc n) (json_quote s @ r) = Some (VStr s, r)" for n r
    by (intro json_value_quote) simp
  then show ?case by (intro parsesI) (simp only: serializeCanonicalJson.simps)
next
  case VNull
  have "json_value (Suc n) (js ''null'' @ r) = Some (VNull, r)" for n r
    by (simp add: json_literal_def js_eval json_ws_def)
  then show ?case by (intro parsesI) (simp only: serializeCanonicalJson.simps)
next
  case (VBool b)
  have "json_value (Suc n) (serializeCanonicalJson (VBool b) @ r) = Some (VBool b, r)" for n r
    by (simp add: json_literal_def js_eval json_ws_def)
  then show ?case by (rule parsesI)
qed auto

lemma JSON_parse_serialize: "canonical_json v \<Longrightarrow> JSON_parse (serializeCanonicalJson v) = Some v"
  using parsesD [OF parses_canonical, of v "[]"]
  by (simp add: JSON_parse_def skip_ws_def del: json_value.simps)

subsection \<open>The structure pass on serialized values\<close>

lemma inspect_plain:
  "\<forall>c \<in> set s. c \<notin> {34, 123, 91, 125, 93} \<Longrightarrow> inspect st m d (s @ r) = inspect st m d r"
  by (induction s) auto

lemma inspect_string:
  assumes "wf_jstr s" "nextNonWhitespace r \<noteq> Some 58"
  shows "inspect st m d (json_quote s @ r) = inspect st m d r"
proof -
  have "inspect st m d (34 # quote_body s @ 34 # r) = inspect st m d r"
    using assms by (auto simp: skip_chars_quote_body Let_def split: option.splits list.splits
        JsonContainerFrame.splits)
  then show ?thesis by (simp add: json_quote_def)
qed

lemma inspect_key:
  assumes "wf_jstr k"
  shows "inspect (ObjectFrame keys # st) m d (json_quote k @ 58 # r) =
    (if k \<in> set keys then inspect (ObjectFrame keys # st) m True r
     else inspect (ObjectFrame (k # keys) # st) m d r)"
proof -
  have "decodeJsonString (34 # quote_body k @ [34]) = Some k"
    using decodeJsonString_quote [OF assms] by (simp add: json_quote_def)
  then have "inspect (ObjectFrame keys # st) m d (34 # quote_body k @ 34 # 58 # r) =
    (if k \<in> set keys then inspect (ObjectFrame keys # st) m True r
     else inspect (ObjectFrame (k # keys) # st) m d r)"
    using assms by (simp add: skip_chars_quote_body Let_def nextNonWhitespace_def json_ws_def)
  then show ?thesis by (simp add: json_quote_def)
qed

definition inspects :: "jsval \<Rightarrow> bool" where
  "inspects v \<longleftrightarrow>
     (\<forall>st m d r. stop r \<longrightarrow>
        inspect st m d (serializeCanonicalJson v @ r) =
        inspect st (if json_depth v = 0 then m else max m (length st + json_depth v)) d r)"

lemma inspectsD:
  "inspects v \<Longrightarrow> stop r \<Longrightarrow> inspect st m d (serializeCanonicalJson v @ r) =
     inspect st (if json_depth v = 0 then m else max m (length st + json_depth v)) d r"
  by (simp add: inspects_def)

lemma inspect_elements:
  assumes "vs \<noteq> []" "\<forall>v \<in> set vs. inspects v" "Suc (length st) \<le> m"
  shows "inspect (ArrayFrame # st) m d (json_join (map serializeCanonicalJson vs) @ 93 # r) =
     inspect st (max m (Suc (length st) + foldr max (map json_depth vs) 0)) d r"
  using assms
proof (induction vs arbitrary: m)
  case (Cons v vs)
  have v: "inspect (ArrayFrame # st) m d (serializeCanonicalJson v @ r') =
      inspect (ArrayFrame # st) (max m (Suc (length st) + json_depth v)) d r'" if "stop r'" for r'
    using Cons.prems that by (simp add: inspects_def max_def)
  show ?case
  proof (cases "vs = []")
    case True
    then show ?thesis using v [of "93 # r"] by simp
  next
    case False
    let ?rest = "json_join (map serializeCanonicalJson vs) @ 93 # r"
    have "inspect (ArrayFrame # st) m d (serializeCanonicalJson v @ 44 # ?rest) =
        inspect (ArrayFrame # st) (max m (Suc (length st) + json_depth v)) d ?rest"
      using v [of "44 # ?rest"] by simp
    also have "\<dots> = inspect st (max (max m (Suc (length st) + json_depth v))
        (Suc (length st) + foldr max (map json_depth vs) 0)) d r"
      using Cons.prems False by (intro Cons.IH) auto
    also have "max (max m (Suc (length st) + json_depth v))
        (Suc (length st) + foldr max (map json_depth vs) 0) =
        max m (Suc (length st) + foldr max (map json_depth (v # vs)) 0)" by simp
    finally show ?thesis using False by (simp add: json_join_Cons)
  qed
qed simp

lemma inspect_members:
  assumes "ms \<noteq> []" "\<forall>(k, v) \<in> set ms. wf_jstr k \<and> inspects v" "Suc (length st) \<le> m"
  shows "inspect (ObjectFrame keys # st) m d (json_join (map member_text ms) @ 125 # r) =
     inspect st (max m (Suc (length st) + foldr max (map (\<lambda>(k, v). json_depth v) ms) 0))
       (d \<or> \<not> distinct (map fst ms) \<or> fst ` set ms \<inter> set keys \<noteq> {}) r"
  using assms
proof (induction ms arbitrary: m keys d)
  case (Cons p ms)
  obtain k v where p: "p = (k, v)" by fastforce
  have kv: "wf_jstr k" "inspects v" using Cons.prems p by auto
  define keys' d' where "keys' = (if k \<in> set keys then keys else k # keys)"
    and "d' = (d \<or> k \<in> set keys)"
  have step: "inspect (ObjectFrame keys # st) m d (member_text p @ r') =
      inspect (ObjectFrame keys' # st) (max m (Suc (length st) + json_depth v)) d' r'"
    if "stop r'" for r'
    using kv that Cons.prems(3) inspect_key [OF kv(1)]
    by (simp add: member_text_def p inspects_def max_def keys'_def d'_def)
  show ?case
  proof (cases "ms = []")
    case True
    then show ?thesis using step [of "125 # r"] p by (simp add: d'_def)
  next
    case False
    let ?rest = "json_join (map member_text ms) @ 125 # r"
    have "inspect (ObjectFrame keys # st) m d (member_text p @ 44 # ?rest) =
        inspect (ObjectFrame keys' # st) (max m (Suc (length st) + json_depth v)) d' ?rest"
      using step [of "44 # ?rest"] by simp
    also have "\<dots> = inspect st (max (max m (Suc (length st) + json_depth v))
        (Suc (length st) + foldr max (map (\<lambda>(k, v). json_depth v) ms) 0))
        (d' \<or> \<not> distinct (map fst ms) \<or> fst ` set ms \<inter> set keys' \<noteq> {}) r"
      using Cons.prems False p by (intro Cons.IH) auto
    also have "max (max m (Suc (length st) + json_depth v))
        (Suc (length st) + foldr max (map (\<lambda>(k, v). json_depth v) ms) 0) =
        max m (Suc (length st) + foldr max (map (\<lambda>(k, v). json_depth v) (p # ms)) 0)"
      by (simp add: p)
    also have "(d' \<or> \<not> distinct (map fst ms) \<or> fst ` set ms \<inter> set keys' \<noteq> {}) =
        (d \<or> \<not> distinct (map fst (p # ms)) \<or> fst ` set (p # ms) \<inter> set keys \<noteq> {})"
      by (auto simp: d'_def keys'_def p)
    finally show ?thesis using False by (simp add: json_join_Cons)
  qed
qed simp

lemma max_Suc_absorb [simp]: "max (max m (Suc a)) (Suc (a + b)) = max m (Suc (a + b))" for m a b :: nat
  by simp

lemma inspect_object:
  assumes "\<forall>(k, v) \<in> set ms. wf_jstr k \<and> inspects v"
  shows "inspect st m d ((123 # json_join (map member_text ms) @ [125]) @ r) =
     inspect st (max m (length st + Suc (foldr max (map (\<lambda>(k, v). json_depth v) ms) 0)))
       (d \<or> \<not> distinct (map fst ms)) r"
proof (cases "ms = []")
  case True
  then show ?thesis by simp
next
  case False
  then show ?thesis using inspect_members [OF False assms, of st "max m (Suc (length st))" "[]" d r]
    by simp
qed

lemma inspects_canonical: "canonical_json v \<Longrightarrow> inspects v"
proof (induction v)
  case (VArr vs)
  then have kids: "\<forall>v \<in> set vs. inspects v" by (auto simp: list_all_iff)
  show ?case unfolding inspects_def
  proof (intro allI impI)
    fix st m d r
    show "inspect st m d (serializeCanonicalJson (VArr vs) @ r) =
        inspect st (if json_depth (VArr vs) = 0 then m else max m (length st + json_depth (VArr vs))) d r"
      using inspect_elements [OF _ kids, of st "max m (Suc (length st))" d r]
      by (cases "vs = []") simp_all
  qed
next
  case (VObj ms)
  then have "\<forall>(k, v) \<in> set ms. wf_jstr k \<and> inspects v" by (fastforce simp: list_all_iff)
  moreover have sorted: "sorted_wrt js_str_less (map fst ms)" using VObj.prems by simp
  ultimately show ?case
    using sorted_keys_distinct [OF sorted] inspect_object [of ms]
    unfolding inspects_def serialize_object [OF sorted] by simp
next
  case (VNum x)
  then have doc: "serializeCanonicalJson (VNum x) = js_of_int (int_of_num x)"
    by (metis canonical_json.simps(3) json_number_text_int serializeCanonicalJson.simps(3))
  have "\<forall>c \<in> set (js_of_int i). c \<notin> {34, 123, 91, 125, 93}" for i
  proof
    fix c assume "c \<in> set (js_of_int i)"
    moreover have "js_digit c" if "c \<in> set (js_of_nat n)" for n
      using that js_of_nat_digits [of n] by (simp add: list_all_iff)
    ultimately have "js_digit c \<or> c = 45" by (auto simp: js_of_int_def split: if_splits)
    then show "c \<notin> {34, 123, 91, 125, 93}" by (auto simp: js_digit_def)
  qed
  from inspect_plain [OF this] show ?case by (simp add: inspects_def doc del: serializeCanonicalJson.simps)
next
  case (VStr s)
  then have "nextNonWhitespace r \<noteq> Some 58" if "stop r" for r
    using that by (auto simp: nextNonWhitespace_def stop_skip_ws stop_def split: list.splits)
  with VStr inspect_string show ?case by (simp add: inspects_def)
next
  case (VBool b)
  have "\<forall>c \<in> set (serializeCanonicalJson (VBool b)). c \<notin> {34, 123, 91, 125, 93}"
    by (simp add: js_eval)
  then show ?case by (simp only: inspects_def inspect_plain json_depth.simps simp_thms if_True)
next
  case VNull
  have "\<forall>c \<in> set (serializeCanonicalJson VNull). c \<notin> {34, 123, 91, 125, 93}"
    by (simp add: js_eval)
  then show ?case by (simp only: inspects_def inspect_plain json_depth.simps simp_thms if_True)
qed simp_all

lemma inspect_serialize:
  "canonical_json v \<Longrightarrow> inspectJsonStructure (serializeCanonicalJson v) = Some (False, json_depth v)"
proof -
  assume "canonical_json v"
  then have "inspects v" by (rule inspects_canonical)
  from inspectsD [OF this stop_simps(1), of "[]" 0 False] show ?thesis
    by (simp add: inspectJsonStructure_def)
qed

lemma parseStrictJson_canonical:
  "canonical_json v \<Longrightarrow> json_depth v \<le> MAX_CANONICAL_JSON_DEPTH \<Longrightarrow>
   parseStrictJson (serializeCanonicalJson v) = Inr v"
  by (simp add: parseStrictJson_def JSON_parse_serialize inspect_serialize)

subsection \<open>Properties\<close>

text \<open>C3: parsing and serializing are inverse on canonical values: the strict parser reads back
  exactly the value that was written, as long as the nesting stays within the limit of 32.\<close>

theorem strict_json_roundtrip:
  assumes "canonical_json v" "json_depth v \<le> MAX_CANONICAL_JSON_DEPTH"
  shows "parseStrictJson (serializeCanonicalJson v) = Inr v"
  using assms by (rule parseStrictJson_canonical)

definition sample_json :: jsval where
  "sample_json = VObj [(js ''a'', VArr [VNum (js_int (- 5)), VNull, VObj []]), (js ''b'', VStr [34, 55357, 10])]"

lemma sample_json_canonical: "canonical_json sample_json"
  by (simp add: sample_json_def js_eval)

theorem strict_json_roundtrip_witness:
  "parseStrictJson (serializeCanonicalJson sample_json) = Inr sample_json"
  by (rule strict_json_roundtrip [OF sample_json_canonical])
     (simp add: sample_json_def MAX_CANONICAL_JSON_DEPTH_def)

text \<open>the canonical text determines the value: two canonical values of any depth with the same
  text are equal.\<close>

theorem serialize_injective:
  assumes "canonical_json v" "canonical_json w"
    and "serializeCanonicalJson v = serializeCanonicalJson w"
  shows "v = w"
  using JSON_parse_serialize [OF assms(1)] JSON_parse_serialize [OF assms(2)] unfolding assms(3)
  by (simp only: option.inject)

theorem serialize_injective_witness:
  "{w. canonical_json w \<and> serializeCanonicalJson w = serializeCanonicalJson sample_json} = {sample_json}"
  using serialize_injective [OF _ sample_json_canonical] sample_json_canonical by blast

text \<open>The order in which an object was built is not observable in its canonical text.\<close>

theorem serialize_ignores_member_order:
  assumes "mset ms = mset ms'" "distinct (map fst ms)"
  shows "serializeCanonicalJson (VObj ms) = serializeCanonicalJson (VObj ms')"
  using assms by (rule serialize_member_order)

theorem serialize_ignores_member_order_witness:
  "serializeCanonicalJson (VObj [(js ''b'', VNull), (js ''a'', VStr [])]) =
   serializeCanonicalJson (VObj [(js ''a'', VStr []), (js ''b'', VNull)])"
  by (rule serialize_ignores_member_order) simp_all

text \<open>a repeated member name never crosses the trust boundary: an object text whose members are
  well-formed canonical values but not of distinct names is syntactically accepted by the JSON
  parser (the last member would win) and rejected as a duplicate by the strict parser.\<close>

theorem duplicate_members_rejected:
  assumes "\<forall>(k, v) \<in> set ms. wf_jstr k \<and> canonical_json v" "\<not> distinct (map fst ms)"
  shows "parseStrictJson (123 # json_join (map member_text ms) @ [125]) = Inl DUPLICATE_MEMBER"
proof -
  let ?text = "123 # json_join (map member_text ms) @ [125]"
  have kids: "\<forall>(k, v) \<in> set ms. wf_jstr k \<and> parses v" "\<forall>(k, v) \<in> set ms. wf_jstr k \<and> inspects v"
    using assms(1) parses_canonical inspects_canonical by auto
  have ne: "ms \<noteq> []" using assms(2) by auto
  then obtain p ps where ms: "ms = p # ps" by (cases ms) auto
  have hd: "\<exists>u. json_join (map member_text ms) @ [125] = 34 # u"
    unfolding ms by (cases ps) (auto simp: member_text_def json_quote_def)
  have "json_members (2 * length ?text) (json_join (map member_text ms) @ 125 # []) = Some (ms, [])"
    by (rule json_members_join [OF ne kids(1)]) simp
  with hd have "JSON_parse ?text = Some (js_object ms)"
    by (auto simp: JSON_parse_def json_ws_def skip_ws_def)
  moreover have "inspectJsonStructure ?text =
      Some (True, max 0 (Suc (foldr max (map (\<lambda>(k, v). json_depth v) ms) 0)))"
    using inspect_object [OF kids(2), of "[]" 0 False "[]"] assms(2)
    by (simp add: inspectJsonStructure_def)
  ultimately show ?thesis by (simp add: parseStrictJson_def)
qed

theorem duplicate_members_rejected_witness:
  "parseStrictJson (123 # json_join (map member_text
     [(js ''amount'', VStr (js ''1'')), (js ''amount'', VStr (js ''2''))]) @ [125]) =
   Inl DUPLICATE_MEMBER"
  by (rule duplicate_members_rejected) simp_all

text \<open>the JSON parser model always terminates with a verdict: with any fuel from the bound on, the
  result is the same, so a rejection is a rejection of the text and never of the fuel.\<close>

theorem json_parser_fuel_independent:
  assumes "2 * length raw + 1 \<le> n"
  shows "(case json_value n raw of None \<Rightarrow> None | Some (v, r) \<Rightarrow> if skip_ws r = [] then Some v else None) =
     JSON_parse raw"
  unfolding JSON_parse_def json_value_fuel [OF assms] ..

theorem json_parser_fuel_independent_witness:
  "(case json_value 1000 (js ''[1]'') of None \<Rightarrow> None
    | Some (v, r) \<Rightarrow> if skip_ws r = [] then Some v else None) = JSON_parse (js ''[1]'')"
  by (rule json_parser_fuel_independent) simp

end
