(* ===== verification/BucketIdentity.thy ===== *)
theory BucketIdentity
  imports SnapshotSerializer
begin

section \<open>Bucket instance identity (bucket-instance-identity.ts)\<close>

text \<open>
  The non-circular identity of a bucket: the hash of a canonical array of nine parsed facts.
  The model keeps the shape check, the order of the field parsers with the error each gives, the
  preimage text and the comparison with an observed identity. The lemmas show that an identity is
  produced exactly for well-formed facts, that validation is recomputation, and that the hashed
  text determines the facts.
\<close>

definition BUCKET_INSTANCE_IDENTITY_CONTRACT_VERSION :: jstr where
  "BUCKET_INSTANCE_IDENTITY_CONTRACT_VERSION = js ''RCV-BINST/v1''"

definition BUCKET_INSTANCE_IDENTITY_PREIMAGE_FIELDS :: "jstr list" where
  "BUCKET_INSTANCE_IDENTITY_PREIMAGE_FIELDS =
     [js ''identityContractVersion'', js ''tenantId'', js ''caseId'', js ''sourceVersionSetHash'',
      js ''historyBoundaryRef'', js ''snapshotAsOfDate'', js ''applicationEffectiveDate'',
      js ''calculationRuleVersion'', js ''bucketContextKey'']"

definition binst_domain_separator :: bytes where
  "binst_domain_separator = utf8 BUCKET_INSTANCE_IDENTITY_CONTRACT_VERSION @ [0]"

record CanonicalBucketInstanceIdentityPreimage =
  pi_identityContractVersion :: jstr
  pi_tenantId :: jstr
  pi_caseId :: jstr
  pi_sourceVersionSetHash :: jstr
  pi_historyBoundaryRef :: jstr
  pi_snapshotAsOfDate :: jstr
  pi_applicationEffectiveDate :: jstr
  pi_calculationRuleVersion :: jstr
  pi_bucketContextKey :: jstr

datatype BucketInstanceIdentityErrorCode =
    PREIMAGE_SHAPE_INVALID
  | IDENTITY_CONTRACT_UNSUPPORTED
  | PREIMAGE_FIELD_INVALID
  | BUCKET_INSTANCE_ID_FORMAT_INVALID
  | BUCKET_INSTANCE_ID_MISMATCH

record BucketInstanceIdentityError =
  bie_code :: BucketInstanceIdentityErrorCode
  bie_field :: "jstr option"

record BucketInstanceIdentityProduced =
  bip_value :: jstr
  bip_canonicalPreimage :: jstr

fun as_record :: "jsval \<Rightarrow> jsobj option" where
  "as_record (VObj m) = Some m"
| "as_record _ = None"

definition hasExactPreimageShape :: "jsobj \<Rightarrow> bool" where
  "hasExactPreimageShape value =
     (let actualKeys = js_sort compareCanonicalKeys (map fst value);
          requiredKeys = js_sort compareCanonicalKeys BUCKET_INSTANCE_IDENTITY_PREIMAGE_FIELDS
      in length actualKeys = length requiredKeys \<and>
         list_all (\<lambda>(index, key). key = requiredKeys ! index) (indexed actualKeys))"

definition parsedCanonicalValue ::
  "(jstr \<Rightarrow> jstr) \<Rightarrow> jsobj \<Rightarrow> string \<Rightarrow> (jsval \<Rightarrow> jstr parse_result) \<Rightarrow>
   BucketInstanceIdentityError + jstr" where
  "parsedCanonicalValue nfc m field parser =
     (let input = obj_get m (js field);
          bad = Inl \<lparr>bie_code = PREIMAGE_FIELD_INVALID, bie_field = Some (js field)\<rparr>
      in case parser input of
           Inl _ \<Rightarrow> bad
         | Inr v \<Rightarrow> (case input of VStr s \<Rightarrow> if nfc s \<noteq> s then bad else Inr v | _ \<Rightarrow> bad))"

definition parsePreimage ::
  "(jstr \<Rightarrow> jstr) \<Rightarrow> jsval \<Rightarrow> BucketInstanceIdentityError + CanonicalBucketInstanceIdentityPreimage" where
  "parsePreimage nfc input =
     (case as_record input of
        None \<Rightarrow> Inl \<lparr>bie_code = PREIMAGE_SHAPE_INVALID, bie_field = None\<rparr>
      | Some m \<Rightarrow>
     (if \<not> hasExactPreimageShape m then Inl \<lparr>bie_code = PREIMAGE_SHAPE_INVALID, bie_field = None\<rparr>
      else if obj_get m (js ''identityContractVersion'')
                \<noteq> VStr BUCKET_INSTANCE_IDENTITY_CONTRACT_VERSION
      then Inl \<lparr>bie_code = IDENTITY_CONTRACT_UNSUPPORTED,
                bie_field = Some (js ''identityContractVersion'')\<rparr>
      else case parsedCanonicalValue nfc m ''tenantId'' parseTenantId of Inl e \<Rightarrow> Inl e
      | Inr tenantId \<Rightarrow>
     (case parsedCanonicalValue nfc m ''caseId'' parseCaseId of Inl e \<Rightarrow> Inl e
      | Inr caseId \<Rightarrow>
     (case parsedCanonicalValue nfc m ''sourceVersionSetHash'' parseSourceVersionSetHash of
        Inl e \<Rightarrow> Inl e
      | Inr sourceVersionSetHash \<Rightarrow>
     (case parsedCanonicalValue nfc m ''historyBoundaryRef'' parseHistoryBoundaryRef of
        Inl e \<Rightarrow> Inl e
      | Inr historyBoundaryRef \<Rightarrow>
     (case parsedCanonicalValue nfc m ''snapshotAsOfDate'' parseSnapshotDate of Inl e \<Rightarrow> Inl e
      | Inr snapshotAsOfDate \<Rightarrow>
     (case parsedCanonicalValue nfc m ''applicationEffectiveDate'' parseEffectiveDate of
        Inl e \<Rightarrow> Inl e
      | Inr applicationEffectiveDate \<Rightarrow>
     (case parsedCanonicalValue nfc m ''calculationRuleVersion'' parseRuleVersion of Inl e \<Rightarrow> Inl e
      | Inr calculationRuleVersion \<Rightarrow>
     (case parsedCanonicalValue nfc m ''bucketContextKey'' parseBucketContextKey of Inl e \<Rightarrow> Inl e
      | Inr bucketContextKey \<Rightarrow> Inr
          \<lparr>pi_identityContractVersion = BUCKET_INSTANCE_IDENTITY_CONTRACT_VERSION,
           pi_tenantId = tenantId, pi_caseId = caseId,
           pi_sourceVersionSetHash = sourceVersionSetHash,
           pi_historyBoundaryRef = historyBoundaryRef,
           pi_snapshotAsOfDate = snapshotAsOfDate,
           pi_applicationEffectiveDate = applicationEffectiveDate,
           pi_calculationRuleVersion = calculationRuleVersion,
           pi_bucketContextKey = bucketContextKey\<rparr>)))))))))"

definition preimage_values :: "CanonicalBucketInstanceIdentityPreimage \<Rightarrow> jstr list" where
  "preimage_values p =
     [pi_identityContractVersion p, pi_tenantId p, pi_caseId p, pi_sourceVersionSetHash p,
      pi_historyBoundaryRef p, pi_snapshotAsOfDate p, pi_applicationEffectiveDate p,
      pi_calculationRuleVersion p, pi_bucketContextKey p]"

definition serializePreimage :: "CanonicalBucketInstanceIdentityPreimage \<Rightarrow> jstr" where
  "serializePreimage preimage = serializeCanonicalJson (VArr (map VStr (preimage_values preimage)))"

definition produceBucketInstanceId ::
  "(jstr \<Rightarrow> jstr) \<Rightarrow> (bytes \<Rightarrow> jstr) \<Rightarrow> jsval \<Rightarrow>
   BucketInstanceIdentityError + BucketInstanceIdentityProduced" where
  "produceBucketInstanceId nfc sha input =
     (case parsePreimage nfc input of
        Inl e \<Rightarrow> Inl e
      | Inr preimage \<Rightarrow>
          (let canonicalPreimage = serializePreimage preimage;
               digest = sha (binst_domain_separator @ utf8 canonicalPreimage)
           in case parseBucketInstanceId (VStr (js ''binst:v1:sha256:'' @ digest)) of
                Inl _ \<Rightarrow> Inl \<lparr>bie_code = BUCKET_INSTANCE_ID_FORMAT_INVALID,
                             bie_field = Some (js ''bucketInstanceId'')\<rparr>
              | Inr v \<Rightarrow> Inr \<lparr>bip_value = v, bip_canonicalPreimage = canonicalPreimage\<rparr>))"

definition validateBucketInstanceId ::
  "(jstr \<Rightarrow> jstr) \<Rightarrow> (bytes \<Rightarrow> jstr) \<Rightarrow> jsval \<Rightarrow> jsval \<Rightarrow>
   BucketInstanceIdentityError + BucketInstanceIdentityProduced" where
  "validateBucketInstanceId nfc sha input observedBucketInstanceId =
     (case produceBucketInstanceId nfc sha input of
        Inl e \<Rightarrow> Inl e
      | Inr produced \<Rightarrow>
          (case parseBucketInstanceId observedBucketInstanceId of
             Inl _ \<Rightarrow> Inl \<lparr>bie_code = BUCKET_INSTANCE_ID_FORMAT_INVALID,
                          bie_field = Some (js ''bucketInstanceId'')\<rparr>
           | Inr observed \<Rightarrow>
               if observed \<noteq> bip_value produced
               then Inl \<lparr>bie_code = BUCKET_INSTANCE_ID_MISMATCH,
                         bie_field = Some (js ''bucketInstanceId'')\<rparr>
               else Inr produced))"

subsection \<open>The accepted facts\<close>

text \<open>The input object the callers build, in the order of the interface.\<close>

definition preimage_object :: "CanonicalBucketInstanceIdentityPreimage \<Rightarrow> jsval" where
  "preimage_object p =
     VObj (zip BUCKET_INSTANCE_IDENTITY_PREIMAGE_FIELDS (map VStr (preimage_values p)))"

definition date_text :: "jstr \<Rightarrow> bool" where
  "date_text s \<longleftrightarrow> (\<exists>d. s = iso_text d \<and> valid_date d)"

definition preimage_ok :: "(jstr \<Rightarrow> jstr) \<Rightarrow> CanonicalBucketInstanceIdentityPreimage \<Rightarrow> bool" where
  "preimage_ok nfc p \<longleftrightarrow>
     pi_identityContractVersion p = BUCKET_INSTANCE_IDENTITY_CONTRACT_VERSION \<and>
     nonblank (pi_tenantId p) \<and> nonblank (pi_caseId p) \<and>
     SHA256_LOWERCASE_HEX (pi_sourceVersionSetHash p) \<and> nonblank (pi_historyBoundaryRef p) \<and>
     date_text (pi_snapshotAsOfDate p) \<and> date_text (pi_applicationEffectiveDate p) \<and>
     nonblank (pi_calculationRuleVersion p) \<and> BUCKET_CONTEXT_KEY (pi_bucketContextKey p) \<and>
     list_all (\<lambda>s. nfc s = s) (tl (preimage_values p))"

text \<open>A digest is 64 lower-case hexadecimal digits.\<close>

definition sha_hex :: "(bytes \<Rightarrow> jstr) \<Rightarrow> bool" where
  "sha_hex sha \<longleftrightarrow> (\<forall>b. SHA256_LOWERCASE_HEX (sha b))"

lemma sha_hexD [simp]: "sha_hex sha \<Longrightarrow> SHA256_LOWERCASE_HEX (sha b)"
  by (simp add: sha_hex_def)

lemma parsedCanonicalValue_Inr [guard_simps]:
  "parsedCanonicalValue nfc m field parser = Inr v \<longleftrightarrow>
     parser (obj_get m (js field)) = Inr v \<and> (\<exists>s. obj_get m (js field) = VStr s \<and> nfc s = s)"
  by (auto simp: parsedCanonicalValue_def Let_def split: sum.splits jsval.splits)

lemma createNonBlankParser_eta [simp]:
  "parseTenantId v = Inr s \<longleftrightarrow> v = VStr s \<and> nonblank s"
  "parseCaseId v = Inr s \<longleftrightarrow> v = VStr s \<and> nonblank s"
  "parseCollectionId v = Inr s \<longleftrightarrow> v = VStr s \<and> nonblank s"
  "parseHistoryBoundaryRef v = Inr s \<longleftrightarrow> v = VStr s \<and> nonblank s"
  "parseSourceLineageSetRef v = Inr s \<longleftrightarrow> v = VStr s \<and> nonblank s"
  "parseComponentCode v = Inr s \<longleftrightarrow> v = VStr s \<and> nonblank s"
  "parsePolicyVersion v = Inr s \<longleftrightarrow> v = VStr s \<and> nonblank s"
  "parseRuleVersion v = Inr s \<longleftrightarrow> v = VStr s \<and> nonblank s"
  "parseEngineVersion v = Inr s \<longleftrightarrow> v = VStr s \<and> nonblank s"
  "parseRateVersion v = Inr s \<longleftrightarrow> v = VStr s \<and> nonblank s"
  "parseInterpretationVersion v = Inr s \<longleftrightarrow> v = VStr s \<and> nonblank s"
  "parseBucketIdentityVersion v = Inr s \<longleftrightarrow> v = VStr s \<and> nonblank s"
  "parseCommandHash v = Inr s \<longleftrightarrow> v = VStr s \<and> nonblank s"
  "parsePlanFingerprint v = Inr s \<longleftrightarrow> v = VStr s \<and> nonblank s"
  "parseIdempotencyKey v = Inr s \<longleftrightarrow> v = VStr s \<and> nonblank s"
  "parseSourceReference v = Inr s \<longleftrightarrow> v = VStr s \<and> nonblank s"
  "parseSourceVersion v = Inr s \<longleftrightarrow> v = VStr s \<and> nonblank s"
  by (simp_all add: nonblank_parser_defs)

lemma date_parser_Inr [simp]:
  "parseSnapshotDate v = Inr s \<longleftrightarrow> v = VStr s \<and> date_text s"
  "parseEffectiveDate v = Inr s \<longleftrightarrow> v = VStr s \<and> date_text s"
  by (auto simp: date_parser_defs parseIsoDateAs_Inr date_text_def)

lemma amount_parser_Inr [simp]:
  "parseReceiptAmountMinor v = Inr n \<longleftrightarrow>
     0 \<le> n \<and> n \<le> POSTGRES_BIGINT_MAX \<and> v = VStr (formatMinorAmount n)"
  "parseBucketBalanceMinor v = Inr n \<longleftrightarrow>
     0 \<le> n \<and> n \<le> POSTGRES_BIGINT_MAX \<and> v = VStr (formatMinorAmount n)"
  by (simp_all add: amount_parser_defs)

lemma as_record_Some [simp]: "as_record v = Some m \<longleftrightarrow> v = VObj m"
  by (cases v) auto

lemma hasExactPreimageShape_iff:
  "hasExactPreimageShape m \<longleftrightarrow>
     js_sort compareCanonicalKeys (map fst m) =
     js_sort compareCanonicalKeys BUCKET_INSTANCE_IDENTITY_PREIMAGE_FIELDS"
proof -
  have "length xs = length ys \<and> list_all (\<lambda>(i, x). x = ys ! i) (indexed xs) \<longleftrightarrow> xs = ys"
    for xs ys :: "jstr list"
    by (auto simp: list_all_iff ball_indexed list_eq_iff_nth_eq [of xs ys])
  then show ?thesis by (simp only: hasExactPreimageShape_def Let_def)
qed

definition holds_fields :: "jsobj \<Rightarrow> CanonicalBucketInstanceIdentityPreimage \<Rightarrow> bool" where
  "holds_fields m p \<longleftrightarrow>
     list_all2 (\<lambda>k v. obj_get m k = VStr v) BUCKET_INSTANCE_IDENTITY_PREIMAGE_FIELDS (preimage_values p)"

lemma parsePreimage_Inr:
  "parsePreimage nfc input = Inr p \<longleftrightarrow>
     (\<exists>m. input = VObj m \<and> hasExactPreimageShape m \<and> preimage_ok nfc p \<and> holds_fields m p)"
proof
  assume parse: "parsePreimage nfc input = Inr p"
  then obtain m where m: "as_record input = Some m"
    by (auto simp: parsePreimage_def split: option.splits)
  with parse show "\<exists>m. input = VObj m \<and> hasExactPreimageShape m \<and> preimage_ok nfc p \<and> holds_fields m p"
    by (auto simp: parsePreimage_def guard_simps preimage_ok_def preimage_values_def
        holds_fields_def BUCKET_INSTANCE_IDENTITY_PREIMAGE_FIELDS_def)
next
  assume "\<exists>m. input = VObj m \<and> hasExactPreimageShape m \<and> preimage_ok nfc p \<and> holds_fields m p"
  then obtain m where m: "input = VObj m" "hasExactPreimageShape m" "preimage_ok nfc p" "holds_fields m p"
    by blast
  have get: "obj_get m (js ''identityContractVersion'') = VStr BUCKET_INSTANCE_IDENTITY_CONTRACT_VERSION"
    using m(3,4) by (simp add: preimage_ok_def holds_fields_def preimage_values_def
        BUCKET_INSTANCE_IDENTITY_PREIMAGE_FIELDS_def)
  have fields: "parsedCanonicalValue nfc m ''tenantId'' parseTenantId = Inr (pi_tenantId p)"
    "parsedCanonicalValue nfc m ''caseId'' parseCaseId = Inr (pi_caseId p)"
    "parsedCanonicalValue nfc m ''sourceVersionSetHash'' parseSourceVersionSetHash =
       Inr (pi_sourceVersionSetHash p)"
    "parsedCanonicalValue nfc m ''historyBoundaryRef'' parseHistoryBoundaryRef =
       Inr (pi_historyBoundaryRef p)"
    "parsedCanonicalValue nfc m ''snapshotAsOfDate'' parseSnapshotDate = Inr (pi_snapshotAsOfDate p)"
    "parsedCanonicalValue nfc m ''applicationEffectiveDate'' parseEffectiveDate =
       Inr (pi_applicationEffectiveDate p)"
    "parsedCanonicalValue nfc m ''calculationRuleVersion'' parseRuleVersion =
       Inr (pi_calculationRuleVersion p)"
    "parsedCanonicalValue nfc m ''bucketContextKey'' parseBucketContextKey =
       Inr (pi_bucketContextKey p)"
    using m(3,4) by (simp_all add: parsedCanonicalValue_Inr preimage_ok_def holds_fields_def
        preimage_values_def BUCKET_INSTANCE_IDENTITY_PREIMAGE_FIELDS_def)
  have "pi_identityContractVersion p = BUCKET_INSTANCE_IDENTITY_CONTRACT_VERSION"
    using m(3) by (simp add: preimage_ok_def)
  then have eta: "\<lparr>pi_identityContractVersion = BUCKET_INSTANCE_IDENTITY_CONTRACT_VERSION,
      pi_tenantId = pi_tenantId p, pi_caseId = pi_caseId p,
      pi_sourceVersionSetHash = pi_sourceVersionSetHash p,
      pi_historyBoundaryRef = pi_historyBoundaryRef p, pi_snapshotAsOfDate = pi_snapshotAsOfDate p,
      pi_applicationEffectiveDate = pi_applicationEffectiveDate p,
      pi_calculationRuleVersion = pi_calculationRuleVersion p,
      pi_bucketContextKey = pi_bucketContextKey p\<rparr> = p"
    by (cases p) simp
  have "parsePreimage nfc (VObj m) = Inr p"
    unfolding parsePreimage_def as_record.simps option.case fields sum.case get eta
    by (simp only: m(2) simp_thms if_False not_True_eq_False)
  then show "parsePreimage nfc input = Inr p" by (simp add: m(1))
qed

lemma preimage_object_holds:
  "preimage_object p = VObj m \<Longrightarrow> hasExactPreimageShape m \<and> holds_fields m p"
proof -
  assume "preimage_object p = VObj m"
  then have m: "m = zip BUCKET_INSTANCE_IDENTITY_PREIMAGE_FIELDS (map VStr (preimage_values p))"
    by (simp add: preimage_object_def)
  then have "map fst m = BUCKET_INSTANCE_IDENTITY_PREIMAGE_FIELDS"
    by (simp add: BUCKET_INSTANCE_IDENTITY_PREIMAGE_FIELDS_def preimage_values_def)
  moreover have "holds_fields m p"
    by (simp add: m holds_fields_def preimage_values_def BUCKET_INSTANCE_IDENTITY_PREIMAGE_FIELDS_def
        obj_get_def)
  ultimately show ?thesis by (simp only: hasExactPreimageShape_iff)
qed

lemma parsePreimage_object:
  "parsePreimage nfc (preimage_object p) = Inr q \<longleftrightarrow> preimage_ok nfc p \<and> q = p"
proof -
  obtain m where m: "preimage_object p = VObj m" by (simp add: preimage_object_def)
  have "holds_fields m q \<Longrightarrow> q = p"
    using preimage_object_holds [OF m]
    by (cases p; cases q) (auto simp: holds_fields_def preimage_values_def
        BUCKET_INSTANCE_IDENTITY_PREIMAGE_FIELDS_def)
  then show ?thesis using preimage_object_holds [OF m] by (auto simp: parsePreimage_Inr m)
qed

definition binst_digest :: "(bytes \<Rightarrow> jstr) \<Rightarrow> CanonicalBucketInstanceIdentityPreimage \<Rightarrow> jstr" where
  "binst_digest sha p = sha (binst_domain_separator @ utf8 (serializePreimage p))"

lemma produceBucketInstanceId_Inr:
  assumes "sha_hex sha"
  shows "produceBucketInstanceId nfc sha input = Inr r \<longleftrightarrow>
     (\<exists>p. parsePreimage nfc input = Inr p \<and>
        r = \<lparr>bip_value = js ''binst:v1:sha256:'' @ binst_digest sha p,
             bip_canonicalPreimage = serializePreimage p\<rparr>)"
proof (cases "parsePreimage nfc input")
  case (Inl e)
  then show ?thesis by (simp add: produceBucketInstanceId_def)
next
  case (Inr p)
  have "BUCKET_INSTANCE_ID (js ''binst:v1:sha256:'' @ binst_digest sha p)"
    using assms by (simp add: BUCKET_INSTANCE_ID_def binst_digest_def)
  then show ?thesis
    by (auto simp: produceBucketInstanceId_def Let_def Inr binst_digest_def [symmetric] guard_simps)
qed

lemma produce_value_format:
  "produceBucketInstanceId nfc sha input = Inr r \<Longrightarrow> BUCKET_INSTANCE_ID (bip_value r)"
  by (auto simp: produceBucketInstanceId_def Let_def split: sum.splits)

lemma validateBucketInstanceId_Inr:
  "validateBucketInstanceId nfc sha input observed = Inr r \<longleftrightarrow>
     produceBucketInstanceId nfc sha input = Inr r \<and> observed = VStr (bip_value r)"
  by (auto simp: validateBucketInstanceId_def guard_simps dest: produce_value_format)

lemma serializePreimage_inj:
  assumes "list_all wf_jstr (preimage_values p)" "list_all wf_jstr (preimage_values q)"
    and "serializePreimage p = serializePreimage q"
  shows "p = q"
proof -
  have canon: "canonical_json (VArr (map VStr (preimage_values x)))"
    if "list_all wf_jstr (preimage_values x)" for x
    using that by (simp add: list_all_iff)
  have "VArr (map VStr (preimage_values p)) = VArr (map VStr (preimage_values q))"
    using JSON_parse_serialize [OF canon [OF assms(1)]] JSON_parse_serialize [OF canon [OF assms(2)]]
      assms(3) unfolding serializePreimage_def by (metis option.inject)
  then show ?thesis by (cases p; cases q) (simp add: preimage_values_def)
qed

subsection \<open>Properties\<close>

text \<open>an instance identity is produced exactly for an object of the nine members whose values the
  field parsers accept and which are in NFC; it is then the prefixed digest of their canonical array.\<close>

theorem produce_instance_id_spec:
  assumes "sha_hex sha"
  shows "produceBucketInstanceId nfc sha (VObj m) = Inr r \<longleftrightarrow>
     (\<exists>p. mset (map fst m) = mset BUCKET_INSTANCE_IDENTITY_PREIMAGE_FIELDS \<and> preimage_ok nfc p \<and>
        holds_fields m p \<and> bip_value r = js ''binst:v1:sha256:'' @ binst_digest sha p \<and>
        bip_canonicalPreimage r = serializePreimage p)"
proof -
  have "hasExactPreimageShape m \<longleftrightarrow>
      mset (map fst m) = mset BUCKET_INSTANCE_IDENTITY_PREIMAGE_FIELDS"
    unfolding hasExactPreimageShape_iff by (metis js_sort_keys_perm mset_js_sort)
  then show ?thesis
    by (cases r) (auto simp: produceBucketInstanceId_Inr [OF assms] parsePreimage_Inr)
qed

definition sample_preimage :: CanonicalBucketInstanceIdentityPreimage where
  "sample_preimage =
     \<lparr>pi_identityContractVersion = BUCKET_INSTANCE_IDENTITY_CONTRACT_VERSION,
      pi_tenantId = js ''t'', pi_caseId = js ''c'', pi_sourceVersionSetHash = sample_hash 7,
      pi_historyBoundaryRef = js ''h'', pi_snapshotAsOfDate = iso_text (2024, 3, 1),
      pi_applicationEffectiveDate = iso_text (2024, 3, 1), pi_calculationRuleVersion = js ''r'',
      pi_bucketContextKey = js ''bctx:v1:sha256:'' @ sample_hash 1\<rparr>"

lemma nonblank_simple: "s \<noteq> [] \<Longrightarrow> list_all (\<lambda>u. \<not> js_whitespace u) s \<Longrightarrow> nonblank s"
  by (simp add: nonblank_def js_trim_eq_iff list_all_iff)

lemma sample_preimage_ok: "preimage_ok (\<lambda>s. s) sample_preimage"
proof -
  have "valid_date (2024, 3, 1)" by (simp add: valid_date_def daysInMonth_def)
  then show ?thesis
    by (auto simp: preimage_ok_def sample_preimage_def sample_hash_hex BUCKET_CONTEXT_KEY_def
        date_text_def preimage_values_def intro!: nonblank_simple)
       (simp_all add: js_eval js_whitespace_def)
qed

theorem produce_instance_id_spec_witness:
  "\<exists>m r. preimage_object sample_preimage = VObj m \<and>
     produceBucketInstanceId (\<lambda>s. s) (\<lambda>b. sample_hash 3) (VObj m) = Inr r \<and>
     bip_value r = js ''binst:v1:sha256:'' @ sample_hash 3"
proof -
  obtain m where m: "preimage_object sample_preimage = VObj m" by (simp add: preimage_object_def)
  have hex: "sha_hex (\<lambda>b. sample_hash 3)" by (simp add: sha_hex_def sample_hash_hex)
  have "mset (map fst m) = mset BUCKET_INSTANCE_IDENTITY_PREIMAGE_FIELDS"
    using preimage_object_holds [OF m] by (metis hasExactPreimageShape_iff mset_js_sort)
  then have "produceBucketInstanceId (\<lambda>s. s) (\<lambda>b. sample_hash 3) (VObj m) =
      Inr \<lparr>bip_value = js ''binst:v1:sha256:'' @ sample_hash 3,
           bip_canonicalPreimage = serializePreimage sample_preimage\<rparr>"
    using produce_instance_id_spec [OF hex, of "\<lambda>s. s" m] sample_preimage_ok preimage_object_holds [OF m]
    by (auto simp: binst_digest_def)
  with m show ?thesis by auto
qed

text \<open>Validating an identity is recomputing it: an observed value is accepted exactly when it is
  the text of the identity produced from the same facts.\<close>

theorem validate_instance_id_recomputes:
  "validateBucketInstanceId nfc sha input observed = Inr r \<longleftrightarrow>
     produceBucketInstanceId nfc sha input = Inr r \<and> observed = VStr (bip_value r)"
  by (rule validateBucketInstanceId_Inr)

text \<open>Two inputs with the same hashed text have the same nine facts, so distinct buckets can share
  an identity only through a collision of the digest.\<close>

theorem instance_preimage_determines_facts:
  assumes "produceBucketInstanceId nfc sha (preimage_object p) = Inr r"
    and "produceBucketInstanceId nfc sha (preimage_object q) = Inr r'"
    and "bip_canonicalPreimage r = bip_canonicalPreimage r'"
    and "list_all wf_jstr (preimage_values p)" "list_all wf_jstr (preimage_values q)"
  shows "p = q"
proof -
  have pre: "bip_canonicalPreimage y = serializePreimage x"
    if "produceBucketInstanceId nfc sha (preimage_object x) = Inr y" for x y
    using that by (auto simp: produceBucketInstanceId_def Let_def parsePreimage_object split: sum.splits)
  show ?thesis
    using assms(3-5) unfolding pre [OF assms(1)] pre [OF assms(2)]
    by (intro serializePreimage_inj)
qed

theorem instance_preimage_determines_facts_witness:
  "\<exists>r. produceBucketInstanceId (\<lambda>s. s) (\<lambda>b. sample_hash 3) (preimage_object sample_preimage) = Inr r \<and>
     (\<forall>q. list_all wf_jstr (preimage_values q) \<longrightarrow>
        produceBucketInstanceId (\<lambda>s. s) (\<lambda>b. sample_hash 3) (preimage_object q) = Inr r \<longrightarrow>
        q = sample_preimage)"
proof -
  have hex: "sha_hex (\<lambda>b. sample_hash 3)" by (simp add: sha_hex_def sample_hash_hex)
  obtain r where r: "produceBucketInstanceId (\<lambda>s. s) (\<lambda>b. sample_hash 3)
      (preimage_object sample_preimage) = Inr r"
    using sample_preimage_ok by (simp add: produceBucketInstanceId_Inr [OF hex] parsePreimage_object)
  have wf: "list_all wf_jstr (preimage_values sample_preimage)"
    by (simp add: sample_preimage_def preimage_values_def sample_hash_def iso_text_def pad_digits_2
        pad_digits_4 BUCKET_INSTANCE_IDENTITY_CONTRACT_VERSION_def)
  from r show ?thesis using instance_preimage_determines_facts [OF _ r refl _ wf] by blast
qed

end
