(* ===== verification/SnapshotValidator.thy ===== *)
theory SnapshotValidator
  imports BucketIdentity
begin

section \<open>The trust boundary of snapshots (canonical-snapshot-validator.ts)\<close>

text \<open>
  \<open>validateCanonicalSnapshot\<close> is modelled guard by guard, in the order of its numbered steps, on
  an untyped input. Each step of the source is a definition; \<open>None\<close> means that the step passed,
  \<open>Some\<close> is the error it returns with its metadata. Lemmas: what an accepted snapshot is known to
  satisfy (bindings to the command, recomputed hashes, canonical text, bucket invariants) and that
  validation accepts every canonically produced envelope.
\<close>

abbreviation fld :: "jsobj \<Rightarrow> string \<Rightarrow> jsval" where
  "fld m f \<equiv> obj_get m (js f)"

definition SNAPSHOT_REQUIRED_FIELDS :: "string list" where
  "SNAPSHOT_REQUIRED_FIELDS =
     [''snapshotContractVersion'', ''snapshotSerializationVersion'', ''tenantId'', ''caseId'',
      ''targetCollectionId'', ''currency'', ''minorUnit'', ''receiptAmountMinor'',
      ''snapshotAsOfDate'', ''applicationEffectiveDate'', ''historyBoundaryRef'', ''engineVersion'',
      ''calculationRuleVersion'', ''policyVersion'', ''rateTableVersion'',
      ''interpretationProfileId'', ''bucketIdentityVersion'', ''sourceVersionSet'',
      ''sourceVersionSetHash'', ''canonicalBuckets'']"

definition SOURCE_VERSION_REQUIRED_FIELDS :: "string list" where
  "SOURCE_VERSION_REQUIRED_FIELDS = [''sourceReference'', ''sourceVersion'']"

definition BUCKET_REQUIRED_FIELDS :: "string list" where
  "BUCKET_REQUIRED_FIELDS =
     [''componentType'', ''componentCode'', ''bucketContextKey'', ''bucketInstanceId'',
      ''sourceLineageSetRef'', ''legalBasisRef'', ''effectivePeriodRef'', ''currency'',
      ''minorUnit'', ''priorityRank'', ''bucketBalanceMinor'']"

definition BUCKET_OPTIONAL_FIELDS :: "string list" where
  "BUCKET_OPTIONAL_FIELDS = [''interestRuleRef'']"

record ParsedEnvelopeEvidence =
  ev_snapshotRef :: jstr
  ev_snapshotHash :: jstr

record SnapshotPrimitiveFacts =
  pf_snapshotContractVersion :: jstr
  pf_snapshotSerializationVersion :: jstr
  pf_tenantId :: jstr
  pf_caseId :: jstr
  pf_targetCollectionId :: jstr
  pf_currency :: jstr
  pf_minorUnit :: jsnum
  pf_receiptAmountMinor :: int
  pf_snapshotAsOfDate :: jstr
  pf_applicationEffectiveDate :: jstr
  pf_historyBoundaryRef :: jstr
  pf_sourceVersionSetHash :: jstr

record ParsedVersionEvidence =
  pv_engineVersion :: jstr
  pv_calculationRuleVersion :: jstr
  pv_policyVersion :: jstr
  pv_rateTableVersion :: jstr
  pv_interpretationProfileId :: jstr
  pv_bucketIdentityVersion :: jstr

subsection \<open>Helpers\<close>

fun as_array :: "jsval \<Rightarrow> jsval list option" where
  "as_array (VArr vs) = Some vs"
| "as_array _ = None"

definition parsedValue :: "'a parse_result \<Rightarrow> 'a option" where
  "parsedValue result = (case result of Inl _ \<Rightarrow> None | Inr v \<Rightarrow> Some v)"

definition failure ::
  "LegalApplicationPlanErrorCode \<Rightarrow> LegalApplicationPlanErrorMetadata \<Rightarrow> LegalApplicationPlanError" where
  "failure code metadata = \<lparr>err_code = code, err_metadata = Some metadata\<rparr>"

text \<open>Without a reason the other arguments are dropped, as in the code.\<close>

definition serializationFailure ::
  "CanonicalSnapshotValidationReason option \<Rightarrow> jstr option \<Rightarrow> nat option \<Rightarrow> nat option \<Rightarrow>
   LegalApplicationPlanError" where
  "serializationFailure reason path configuredMaximum actual =
     (case reason of
        None \<Rightarrow> plain_error SNAPSHOT_SERIALIZATION_INVALID
      | Some _ \<Rightarrow> failure SNAPSHOT_SERIALIZATION_INVALID
          (empty_metadata\<lparr>md_reason := reason, md_path := path,
                          md_configuredMaximum := configuredMaximum, md_actual := actual\<rparr>))"

abbreviation reasonAt :: "CanonicalSnapshotValidationReason \<Rightarrow> jstr \<Rightarrow> LegalApplicationPlanError" where
  "reasonAt reason path \<equiv> serializationFailure (Some reason) (Some path) None None"

abbreviation invalidAt :: "jstr \<Rightarrow> LegalApplicationPlanError" where
  "invalidAt path \<equiv> serializationFailure None (Some path) None None"

definition at_index :: "string \<Rightarrow> nat \<Rightarrow> jstr" where
  "at_index base index = js base @ js ''['' @ js_of_nat index @ js '']''"

definition dot :: "jstr \<Rightarrow> string \<Rightarrow> jstr" where
  "dot path field = path @ js ''.'' @ js field"

definition isNonBlankCanonicalString :: "jsval \<Rightarrow> bool" where
  "isNonBlankCanonicalString v =
     (case v of VStr s \<Rightarrow> 0 < length s \<and> js_trim s = s | _ \<Rightarrow> False)"

definition isLegalApplicationComponentType :: "jsval \<Rightarrow> bool" where
  "isLegalApplicationComponentType v =
     (case v of VStr s \<Rightarrow> s \<in> set LEGAL_APPLICATION_COMPONENT_TYPES | _ \<Rightarrow> False)"

definition isCanonicalUnsignedDecimal :: "jsval \<Rightarrow> bool" where
  "isCanonicalUnsignedDecimal v =
     (case v of VStr s \<Rightarrow> unsigned_decimal_integer s | _ \<Rightarrow> False)"

definition isNfc :: "(jstr \<Rightarrow> jstr) \<Rightarrow> jstr \<Rightarrow> bool" where
  "isNfc nfc value \<longleftrightarrow> nfc value = value"

definition codePointCount :: "jstr \<Rightarrow> nat" where
  "codePointCount value = length (code_points value)"

subsection \<open>Step 18: exact schema\<close>

definition validateObjectShape ::
  "jsobj \<Rightarrow> string list \<Rightarrow> string list \<Rightarrow> jstr \<Rightarrow> (CanonicalSnapshotValidationReason \<times> jstr) option" where
  "validateObjectShape value requiredFields optionalFields path =
     (let allowed = set (map js (requiredFields @ optionalFields));
          unknown = filter (\<lambda>key. key \<notin> allowed) (map fst value)
      in if 0 < length unknown then Some (UNKNOWN_FIELD, path @ js ''.<unknown>'')
         else or_else
           (first_error (\<lambda>field. if \<not> obj_has value (js field)
                                 then Some (REQUIRED_FIELD_MISSING, dot path field) else None)
              requiredFields)
           (first_error (\<lambda>field. if obj_has value (js field) \<and> fld value field = VNull
                                 then Some (UNEXPECTED_NULL, dot path field) else None)
              (requiredFields @ optionalFields)))"

definition shape_error ::
  "(CanonicalSnapshotValidationReason \<times> jstr) option \<Rightarrow> LegalApplicationPlanError option" where
  "shape_error r = map_option (\<lambda>(reason, path). reasonAt reason path) r"

definition validateSourceShape :: "nat \<times> jsval \<Rightarrow> LegalApplicationPlanError option" where
  "validateSourceShape iv =
     (case iv of (index, v) \<Rightarrow>
       (case as_record v of
          None \<Rightarrow> Some (invalidAt (at_index ''$.sourceVersionSet'' index))
        | Some value \<Rightarrow>
            or_else
              (shape_error (validateObjectShape value SOURCE_VERSION_REQUIRED_FIELDS []
                 (at_index ''$.sourceVersionSet'' index)))
              (if \<not> is_string (fld value ''sourceReference'') \<or> \<not> is_string (fld value ''sourceVersion'')
               then Some (invalidAt (at_index ''$.sourceVersionSet'' index)) else None)))"

definition validateSnapshotSchema :: "jsobj \<Rightarrow> LegalApplicationPlanError option" where
  "validateSnapshotSchema snapshot =
     or_else (shape_error (validateObjectShape snapshot SNAPSHOT_REQUIRED_FIELDS [] (js ''$'')))
     (or_else
       (first_error (\<lambda>field. if \<not> is_string (fld snapshot field)
                             then Some (invalidAt (dot (js ''$'') field)) else None)
          (filter (\<lambda>field. field \<noteq> ''minorUnit'' \<and> field \<noteq> ''sourceVersionSet'' \<and>
                           field \<noteq> ''canonicalBuckets'') SNAPSHOT_REQUIRED_FIELDS))
     (if \<not> is_number (fld snapshot ''minorUnit'') then Some (invalidAt (js ''$.minorUnit''))
      else
        (case as_array (fld snapshot ''sourceVersionSet'') of
           None \<Rightarrow> Some (invalidAt (js ''$.sourceVersionSet''))
         | Some sources \<Rightarrow>
             if as_array (fld snapshot ''canonicalBuckets'') = None
             then Some (invalidAt (js ''$.canonicalBuckets''))
             else first_error validateSourceShape (indexed sources))))"

subsection \<open>Step 19: Unicode form and lengths\<close>

definition validateNfcValue ::
  "(jstr \<Rightarrow> jstr) \<Rightarrow> jsval \<Rightarrow> jstr \<Rightarrow> LegalApplicationPlanError option" where
  "validateNfcValue nfc v path =
     (case v of
        VStr s \<Rightarrow>
          if \<not> isNfc nfc s then Some (reasonAt NON_NFC_STRING path)
          else if control_or_unpaired_surrogate s then Some (invalidAt path)
          else None
      | _ \<Rightarrow> None)"

definition nfc_fields ::
  "(jstr \<Rightarrow> jstr) \<Rightarrow> jsobj \<Rightarrow> jstr \<Rightarrow> string list \<Rightarrow> LegalApplicationPlanError option" where
  "nfc_fields nfc m path names =
     first_error (\<lambda>field. validateNfcValue nfc (fld m field) (dot path field)) names"

text \<open>A loop over an array that skips elements that are not objects.\<close>

definition each_record ::
  "(nat \<Rightarrow> jsobj \<Rightarrow> LegalApplicationPlanError option) \<Rightarrow> jsval \<Rightarrow> LegalApplicationPlanError option" where
  "each_record f v =
     (case as_array v of
        None \<Rightarrow> None
      | Some vs \<Rightarrow>
          first_error (\<lambda>(i, e). case as_record e of None \<Rightarrow> None | Some m \<Rightarrow> f i m) (indexed vs))"

definition validateKnownNfcStrings ::
  "(jstr \<Rightarrow> jstr) \<Rightarrow> jsobj \<Rightarrow> jsobj \<Rightarrow> LegalApplicationPlanError option" where
  "validateKnownNfcStrings nfc command snapshot =
     or_else
       (nfc_fields nfc command (js ''$.command'')
          [''tenantId'', ''caseId'', ''collectionId'', ''receiptAmountMinor'', ''currency'',
           ''applicationEffectiveDate'', ''expectedSnapshotRef'', ''expectedSnapshotHash'',
           ''expectedSourceVersionSetHash'', ''expectedHistoryBoundaryRef'', ''idempotencyKey'',
           ''commandHash''])
     (or_else (nfc_fields nfc snapshot (js ''$'') SNAPSHOT_REQUIRED_FIELDS)
     (or_else
       (each_record (\<lambda>i m. nfc_fields nfc m (at_index ''$.sourceVersionSet'' i)
          SOURCE_VERSION_REQUIRED_FIELDS) (fld snapshot ''sourceVersionSet''))
       (each_record (\<lambda>i m. nfc_fields nfc m (at_index ''$.canonicalBuckets'' i)
          (BUCKET_REQUIRED_FIELDS @ BUCKET_OPTIONAL_FIELDS)) (fld snapshot ''canonicalBuckets''))))"

definition validateLength :: "jsval \<Rightarrow> jstr \<Rightarrow> nat \<Rightarrow> LegalApplicationPlanError option" where
  "validateLength v path maximum =
     (case v of
        VStr s \<Rightarrow>
          (let actual = codePointCount s in
           if maximum < actual
           then Some (serializationFailure (Some STRING_LIMIT_EXCEEDED) (Some path) (Some maximum)
                        (Some actual))
           else None)
      | _ \<Rightarrow> None)"

definition limit_fields ::
  "jsobj \<Rightarrow> jstr \<Rightarrow> (string \<times> nat) list \<Rightarrow> LegalApplicationPlanError option" where
  "limit_fields m path limits =
     first_error (\<lambda>(field, maximum). validateLength (fld m field) (dot path field) maximum) limits"

definition validateStringLimits :: "jsobj \<Rightarrow> jsobj \<Rightarrow> LegalApplicationPlanError option" where
  "validateStringLimits command snapshot =
     or_else
       (limit_fields command (js ''$.command'')
          [(''tenantId'', MAX_CONTEXT_IDENTIFIER_CODE_POINTS),
           (''caseId'', MAX_CONTEXT_IDENTIFIER_CODE_POINTS),
           (''collectionId'', MAX_CONTEXT_IDENTIFIER_CODE_POINTS),
           (''idempotencyKey'', MAX_CONTEXT_IDENTIFIER_CODE_POINTS)])
     (or_else
       (limit_fields snapshot (js ''$'')
          [(''tenantId'', MAX_CONTEXT_IDENTIFIER_CODE_POINTS),
           (''caseId'', MAX_CONTEXT_IDENTIFIER_CODE_POINTS),
           (''targetCollectionId'', MAX_CONTEXT_IDENTIFIER_CODE_POINTS),
           (''historyBoundaryRef'', MAX_HISTORY_BOUNDARY_REF_CODE_POINTS),
           (''engineVersion'', MAX_VERSION_IDENTIFIER_CODE_POINTS),
           (''calculationRuleVersion'', MAX_VERSION_IDENTIFIER_CODE_POINTS),
           (''policyVersion'', MAX_VERSION_IDENTIFIER_CODE_POINTS),
           (''rateTableVersion'', MAX_VERSION_IDENTIFIER_CODE_POINTS),
           (''interpretationProfileId'', MAX_VERSION_IDENTIFIER_CODE_POINTS),
           (''bucketIdentityVersion'', MAX_VERSION_IDENTIFIER_CODE_POINTS)])
     (or_else
       (each_record (\<lambda>i m. validateLength (fld m ''sourceVersion'')
          (dot (at_index ''$.sourceVersionSet'' i) ''sourceVersion'')
          MAX_VERSION_IDENTIFIER_CODE_POINTS) (fld snapshot ''sourceVersionSet''))
       (each_record (\<lambda>i m. limit_fields m (at_index ''$.canonicalBuckets'' i)
          [(''componentCode'', MAX_COMPONENT_CODE_CODE_POINTS),
           (''sourceLineageSetRef'', MAX_SOURCE_LINEAGE_SET_REF_CODE_POINTS),
           (''legalBasisRef'', MAX_LEGAL_BASIS_REF_CODE_POINTS),
           (''effectivePeriodRef'', MAX_EFFECTIVE_PERIOD_REF_CODE_POINTS),
           (''interestRuleRef'', MAX_INTEREST_RULE_REF_CODE_POINTS)])
          (fld snapshot ''canonicalBuckets''))))"

subsection \<open>Step 20: canonical integer strings\<close>

definition validateIntegerStrings :: "jsobj \<Rightarrow> LegalApplicationPlanError option" where
  "validateIntegerStrings snapshot =
     (if \<not> isCanonicalUnsignedDecimal (fld snapshot ''receiptAmountMinor'')
      then Some (reasonAt INVALID_INTEGER_STRING (js ''$.receiptAmountMinor''))
      else
        each_record (\<lambda>i m.
          if \<not> isCanonicalUnsignedDecimal (fld m ''bucketBalanceMinor'')
          then Some (reasonAt INVALID_INTEGER_STRING
                       (dot (at_index ''$.canonicalBuckets'' i) ''bucketBalanceMinor''))
          else None) (fld snapshot ''canonicalBuckets''))"

subsection \<open>Steps 09 and 10: primitive formats\<close>

definition parseCommand :: "jsobj \<Rightarrow> BuildLegalApplicationPlanCommand option" where
  "parseCommand command =
     (case parsedValue (parseTenantId (fld command ''tenantId'')) of None \<Rightarrow> None
      | Some tenantId \<Rightarrow>
     (case parsedValue (parseCaseId (fld command ''caseId'')) of None \<Rightarrow> None
      | Some caseId \<Rightarrow>
     (case parsedValue (parseCollectionId (fld command ''collectionId'')) of None \<Rightarrow> None
      | Some collectionId \<Rightarrow>
     (case parsedValue (parseReceiptAmountMinor (fld command ''receiptAmountMinor'')) of None \<Rightarrow> None
      | Some receiptAmountMinor \<Rightarrow>
     (case parsedValue (parseCurrencyCode (fld command ''currency'')) of None \<Rightarrow> None
      | Some currency \<Rightarrow>
     (case parsedValue (parseMinorUnit (fld command ''minorUnit'')) of None \<Rightarrow> None
      | Some minorUnit \<Rightarrow>
     (case parsedValue (parseEffectiveDate (fld command ''applicationEffectiveDate'')) of None \<Rightarrow> None
      | Some applicationEffectiveDate \<Rightarrow>
     (case parsedValue (parseSnapshotRef (fld command ''expectedSnapshotRef'')) of None \<Rightarrow> None
      | Some expectedSnapshotRef \<Rightarrow>
     (case parsedValue (parseSnapshotHash (fld command ''expectedSnapshotHash'')) of None \<Rightarrow> None
      | Some expectedSnapshotHash \<Rightarrow>
     (case parsedValue (parseSourceVersionSetHash (fld command ''expectedSourceVersionSetHash'')) of
        None \<Rightarrow> None
      | Some expectedSourceVersionSetHash \<Rightarrow>
     (case parsedValue (parseHistoryBoundaryRef (fld command ''expectedHistoryBoundaryRef'')) of
        None \<Rightarrow> None
      | Some expectedHistoryBoundaryRef \<Rightarrow>
     (case parsedValue (parseIdempotencyKey (fld command ''idempotencyKey'')) of None \<Rightarrow> None
      | Some idempotencyKey \<Rightarrow>
     (case parsedValue (parseCommandHash (fld command ''commandHash'')) of None \<Rightarrow> None
      | Some commandHash \<Rightarrow> Some
          \<lparr>cm_tenantId = tenantId, cm_caseId = caseId, cm_collectionId = collectionId,
           cm_receiptAmountMinor = receiptAmountMinor, cm_currency = currency,
           cm_minorUnit = minorUnit, cm_applicationEffectiveDate = applicationEffectiveDate,
           cm_expectedSnapshotRef = expectedSnapshotRef,
           cm_expectedSnapshotHash = expectedSnapshotHash,
           cm_expectedSourceVersionSetHash = expectedSourceVersionSetHash,
           cm_expectedHistoryBoundaryRef = expectedHistoryBoundaryRef,
           cm_idempotencyKey = idempotencyKey, cm_commandHash = commandHash\<rparr>)))))))))))))"

text \<open>Which error step 09 gives when a field of the command does not parse.\<close>

definition commandFormatError :: "jsobj \<Rightarrow> LegalApplicationPlanErrorCode" where
  "commandFormatError commandRecord =
     (if parsedValue (parseReceiptAmountMinor (fld commandRecord ''receiptAmountMinor'')) = None
      then RECEIPT_AMOUNT_INVALID
      else if parsedValue (parseCurrencyCode (fld commandRecord ''currency'')) = None \<or>
              parsedValue (parseMinorUnit (fld commandRecord ''minorUnit'')) = None
      then CURRENCY_OR_MINOR_UNIT_INVALID
      else if parsedValue (parseEffectiveDate (fld commandRecord ''applicationEffectiveDate'')) = None
      then EFFECTIVE_DATE_MISMATCH
      else FORMATION_CONTEXT_INCOMPLETE)"

definition parseEnvelopeEvidence :: "jsobj \<Rightarrow> ParsedEnvelopeEvidence option" where
  "parseEnvelopeEvidence envelope =
     (case parsedValue (parseSnapshotRef (fld envelope ''snapshotRef'')) of None \<Rightarrow> None
      | Some snapshotRef \<Rightarrow>
     (case parsedValue (parseSnapshotHash (fld envelope ''snapshotHash'')) of None \<Rightarrow> None
      | Some snapshotHash \<Rightarrow> Some \<lparr>ev_snapshotRef = snapshotRef, ev_snapshotHash = snapshotHash\<rparr>))"

definition parseSnapshotPrimitiveFacts :: "jsobj \<Rightarrow> SnapshotPrimitiveFacts option" where
  "parseSnapshotPrimitiveFacts snapshot =
     (case parsedValue (parseSnapshotContractVersion (fld snapshot ''snapshotContractVersion'')) of
        None \<Rightarrow> None
      | Some snapshotContractVersion \<Rightarrow>
     (case parsedValue (parseSerializationVersion (fld snapshot ''snapshotSerializationVersion'')) of
        None \<Rightarrow> None
      | Some snapshotSerializationVersion \<Rightarrow>
     (case parsedValue (parseTenantId (fld snapshot ''tenantId'')) of None \<Rightarrow> None
      | Some tenantId \<Rightarrow>
     (case parsedValue (parseCaseId (fld snapshot ''caseId'')) of None \<Rightarrow> None
      | Some caseId \<Rightarrow>
     (case parsedValue (parseCollectionId (fld snapshot ''targetCollectionId'')) of None \<Rightarrow> None
      | Some targetCollectionId \<Rightarrow>
     (case parsedValue (parseCurrencyCode (fld snapshot ''currency'')) of None \<Rightarrow> None
      | Some currency \<Rightarrow>
     (case parsedValue (parseMinorUnit (fld snapshot ''minorUnit'')) of None \<Rightarrow> None
      | Some minorUnit \<Rightarrow>
     (case parsedValue (parseReceiptAmountMinor (fld snapshot ''receiptAmountMinor'')) of None \<Rightarrow> None
      | Some receiptAmountMinor \<Rightarrow>
     (case parsedValue (parseSnapshotDate (fld snapshot ''snapshotAsOfDate'')) of None \<Rightarrow> None
      | Some snapshotAsOfDate \<Rightarrow>
     (case parsedValue (parseEffectiveDate (fld snapshot ''applicationEffectiveDate'')) of
        None \<Rightarrow> None
      | Some applicationEffectiveDate \<Rightarrow>
     (case parsedValue (parseHistoryBoundaryRef (fld snapshot ''historyBoundaryRef'')) of None \<Rightarrow> None
      | Some historyBoundaryRef \<Rightarrow>
     (case parsedValue (parseSourceVersionSetHash (fld snapshot ''sourceVersionSetHash'')) of
        None \<Rightarrow> None
      | Some sourceVersionSetHash \<Rightarrow> Some
          \<lparr>pf_snapshotContractVersion = snapshotContractVersion,
           pf_snapshotSerializationVersion = snapshotSerializationVersion,
           pf_tenantId = tenantId, pf_caseId = caseId,
           pf_targetCollectionId = targetCollectionId, pf_currency = currency,
           pf_minorUnit = minorUnit, pf_receiptAmountMinor = receiptAmountMinor,
           pf_snapshotAsOfDate = snapshotAsOfDate,
           pf_applicationEffectiveDate = applicationEffectiveDate,
           pf_historyBoundaryRef = historyBoundaryRef,
           pf_sourceVersionSetHash = sourceVersionSetHash\<rparr>))))))))))))"

definition snapshotFormatError :: "jsobj \<Rightarrow> LegalApplicationPlanErrorCode" where
  "snapshotFormatError rawSnapshot =
     (if parsedValue (parseCurrencyCode (fld rawSnapshot ''currency'')) = None \<or>
         parsedValue (parseMinorUnit (fld rawSnapshot ''minorUnit'')) = None
      then CURRENCY_OR_MINOR_UNIT_INVALID
      else if parsedValue (parseEffectiveDate (fld rawSnapshot ''applicationEffectiveDate'')) = None
      then EFFECTIVE_DATE_MISMATCH
      else if parsedValue (parseReceiptAmountMinor (fld rawSnapshot ''receiptAmountMinor'')) = None
      then RECEIPT_AMOUNT_INVALID
      else FORMATION_CONTEXT_INCOMPLETE)"

subsection \<open>Steps 11 to 17: binding to the command\<close>

definition bindingError ::
  "BuildLegalApplicationPlanCommand \<Rightarrow> SnapshotPrimitiveFacts \<Rightarrow> ParsedEnvelopeEvidence \<Rightarrow>
   LegalApplicationPlanError option" where
  "bindingError command facts evidence =
     (if cm_tenantId command \<noteq> pf_tenantId facts then Some (plain_error TENANT_CONTEXT_MISMATCH)
      else if cm_caseId command \<noteq> pf_caseId facts then Some (plain_error CASE_CONTEXT_MISMATCH)
      else if cm_collectionId command \<noteq> pf_targetCollectionId facts
      then Some (plain_error FORMATION_CONTEXT_INCOMPLETE)
      else if cm_receiptAmountMinor command \<noteq> pf_receiptAmountMinor facts
      then Some (plain_error RECEIPT_AMOUNT_INVALID)
      else if cm_currency command \<noteq> pf_currency facts \<or>
              \<not> js_num_eq (cm_minorUnit command) (pf_minorUnit facts)
      then Some (failure CURRENCY_OR_MINOR_UNIT_INVALID
             (empty_metadata\<lparr>md_currency := Some (pf_currency facts),
                             md_minorUnit := Some (pf_minorUnit facts)\<rparr>))
      else if cm_applicationEffectiveDate command \<noteq> pf_applicationEffectiveDate facts
      then Some (failure EFFECTIVE_DATE_MISMATCH
             (empty_metadata\<lparr>md_effectiveDate := Some (pf_applicationEffectiveDate facts)\<rparr>))
      else if cm_expectedHistoryBoundaryRef command \<noteq> pf_historyBoundaryRef facts
      then Some (failure HISTORY_BOUNDARY_UNAUTHORIZED
             (empty_metadata\<lparr>md_historyBoundaryRef := Some (pf_historyBoundaryRef facts),
                md_expectedHistoryBoundaryRef := Some (cm_expectedHistoryBoundaryRef command)\<rparr>))
      else if cm_expectedSourceVersionSetHash command \<noteq> pf_sourceVersionSetHash facts
      then Some (failure SOURCE_VERSION_INCOMPLETE
             (empty_metadata\<lparr>md_sourceVersionSetHash := Some (pf_sourceVersionSetHash facts),
                md_expectedSourceVersionSetHash := Some (cm_expectedSourceVersionSetHash command)\<rparr>))
      else if cm_expectedSnapshotHash command \<noteq> ev_snapshotHash evidence
      then Some (failure SNAPSHOT_HASH_MISMATCH
             (empty_metadata\<lparr>md_snapshotHash := Some (ev_snapshotHash evidence),
                md_expectedSnapshotHash := Some (cm_expectedSnapshotHash command)\<rparr>))
      else if cm_expectedSnapshotRef command \<noteq> ev_snapshotRef evidence
      then Some (failure SNAPSHOT_REF_MISMATCH
             (empty_metadata\<lparr>md_snapshotRef := Some (ev_snapshotRef evidence),
                md_expectedSnapshotRef := Some (cm_expectedSnapshotRef command)\<rparr>))
      else None)"

subsection \<open>Steps 22 to 26: buckets\<close>

definition validateBucketShape :: "nat \<times> jsval \<Rightarrow> LegalApplicationPlanError option" where
  "validateBucketShape ib =
     (case ib of (index, b) \<Rightarrow>
       (let path = at_index ''$.canonicalBuckets'' index in
        case as_record b of
          None \<Rightarrow> Some (invalidAt path)
        | Some bucket \<Rightarrow>
            or_else (shape_error (validateObjectShape bucket BUCKET_REQUIRED_FIELDS
                       BUCKET_OPTIONAL_FIELDS path))
            (or_else
              (first_error (\<lambda>field. if \<not> is_string (fld bucket field)
                                    then Some (invalidAt (dot path field)) else None)
                 [''componentType'', ''componentCode'', ''bucketContextKey'', ''bucketInstanceId'',
                  ''sourceLineageSetRef'', ''legalBasisRef'', ''effectivePeriodRef'', ''currency'',
                  ''bucketBalanceMinor''])
            (if fld bucket ''interestRuleRef'' \<noteq> VUndef \<and> \<not> is_string (fld bucket ''interestRuleRef'')
             then Some (invalidAt (dot path ''interestRuleRef''))
             else if \<not> is_number (fld bucket ''minorUnit'') \<or>
                     (case fld bucket ''priorityRank'' of
                        VNum r \<Rightarrow> \<not> js_is_integer r \<or> js_less r (js_int 0) \<or>
                                  js_less (js_int POSTGRES_INTEGER_MAX) r
                      | _ \<Rightarrow> True)
             then Some (plain_error BUCKET_CONTEXT_UNMAPPED)
             else if \<not> isNonBlankCanonicalString (fld bucket ''componentCode'') \<or>
                     \<not> isNonBlankCanonicalString (fld bucket ''sourceLineageSetRef'') \<or>
                     \<not> isNonBlankCanonicalString (fld bucket ''legalBasisRef'') \<or>
                     \<not> isNonBlankCanonicalString (fld bucket ''effectivePeriodRef'') \<or>
                     (fld bucket ''interestRuleRef'' \<noteq> VUndef \<and>
                      \<not> isNonBlankCanonicalString (fld bucket ''interestRuleRef''))
             then Some (plain_error FORMATION_CONTEXT_INCOMPLETE)
             else None))))"

definition closedComponentError :: "jsval \<Rightarrow> LegalApplicationPlanError option" where
  "closedComponentError b =
     (case as_record b of
        None \<Rightarrow> Some (plain_error BUCKET_CONTEXT_UNMAPPED)
      | Some bucket \<Rightarrow>
          if \<not> isLegalApplicationComponentType (fld bucket ''componentType'')
          then Some (plain_error BUCKET_CONTEXT_UNMAPPED) else None)"

definition validateBucketCurrencyAndMinorUnit ::
  "SnapshotPrimitiveFacts \<Rightarrow> jsobj \<Rightarrow> LegalApplicationPlanError option" where
  "validateBucketCurrencyAndMinorUnit snapshot bucket =
     (case (parsedValue (parseCurrencyCode (fld bucket ''currency'')),
            parsedValue (parseMinorUnit (fld bucket ''minorUnit''))) of
        (Some currency, Some minorUnit) \<Rightarrow>
          if currency \<noteq> pf_currency snapshot \<or> \<not> js_num_eq minorUnit (pf_minorUnit snapshot)
          then Some (failure CURRENCY_OR_MINOR_UNIT_INVALID
                 (empty_metadata\<lparr>md_currency := Some currency, md_minorUnit := Some minorUnit\<rparr>))
          else None
      | _ \<Rightarrow> Some (plain_error CURRENCY_OR_MINOR_UNIT_INVALID))"

definition bucket_preimage ::
  "SnapshotPrimitiveFacts \<Rightarrow> jstr \<Rightarrow> jstr \<Rightarrow> CanonicalBucketInstanceIdentityPreimage" where
  "bucket_preimage facts ruleVersion contextKey =
     \<lparr>pi_identityContractVersion = BUCKET_INSTANCE_IDENTITY_CONTRACT_VERSION,
      pi_tenantId = pf_tenantId facts, pi_caseId = pf_caseId facts,
      pi_sourceVersionSetHash = pf_sourceVersionSetHash facts,
      pi_historyBoundaryRef = pf_historyBoundaryRef facts,
      pi_snapshotAsOfDate = pf_snapshotAsOfDate facts,
      pi_applicationEffectiveDate = pf_applicationEffectiveDate facts,
      pi_calculationRuleVersion = ruleVersion, pi_bucketContextKey = contextKey\<rparr>"

text \<open>
  Step 24 for one bucket; \<open>ruleVersion\<close> is \<open>Some\<close> exactly when the identity contract is enforced.
\<close>

definition bucketIdentityError ::
  "(jstr \<Rightarrow> jstr) \<Rightarrow> (bytes \<Rightarrow> jstr) \<Rightarrow> SnapshotPrimitiveFacts \<Rightarrow> jstr option \<Rightarrow> jsval \<Rightarrow>
   LegalApplicationPlanError option" where
  "bucketIdentityError nfc sha facts ruleVersion b =
     (case as_record b of
        None \<Rightarrow> Some (plain_error BUCKET_IDENTITY_INVALID)
      | Some bucket \<Rightarrow>
     (case (parsedValue (parseBucketContextKey (fld bucket ''bucketContextKey'')),
            parsedValue (parseBucketInstanceId (fld bucket ''bucketInstanceId''))) of
        (Some bucketContextKey, Some bucketInstanceId) \<Rightarrow>
          or_else
            (case ruleVersion of
               None \<Rightarrow> None
             | Some rule \<Rightarrow>
                 (case validateBucketInstanceId nfc sha
                         (preimage_object (bucket_preimage facts rule bucketContextKey))
                         (VStr bucketInstanceId) of
                    Inr _ \<Rightarrow> None
                  | Inl _ \<Rightarrow> Some (failure BUCKET_IDENTITY_INVALID
                      (empty_metadata\<lparr>md_bucketInstanceId := Some bucketInstanceId,
                                      md_bucketContextKey := Some bucketContextKey\<rparr>))))
            (validateBucketCurrencyAndMinorUnit facts bucket)
      | _ \<Rightarrow> Some (plain_error BUCKET_IDENTITY_INVALID)))"

definition step24 ::
  "(jstr \<Rightarrow> jstr) \<Rightarrow> (bytes \<Rightarrow> jstr) \<Rightarrow> SnapshotPrimitiveFacts \<Rightarrow> jsobj \<Rightarrow> jsval list \<Rightarrow>
   LegalApplicationPlanError option" where
  "step24 nfc sha facts rawSnapshot rawBuckets =
     (let enforces = (fld rawSnapshot ''bucketIdentityVersion'' =
                        VStr BUCKET_INSTANCE_IDENTITY_CONTRACT_VERSION);
          rule = (if enforces
                  then parsedValue (parseRuleVersion (fld rawSnapshot ''calculationRuleVersion''))
                  else None)
      in if enforces \<and> rule = None then Some (plain_error BUCKET_IDENTITY_INVALID)
         else first_error (bucketIdentityError nfc sha facts rule) rawBuckets)"

text \<open>Steps 25 and 26: the two sets of seen identities.\<close>

fun duplicateIdentityError ::
  "jstr list \<Rightarrow> jstr list \<Rightarrow> jsval list \<Rightarrow> LegalApplicationPlanError option" where
  "duplicateIdentityError contextKeys instanceIds [] = None"
| "duplicateIdentityError contextKeys instanceIds (b # rest) =
     (case as_record b of
        None \<Rightarrow> Some (plain_error BUCKET_IDENTITY_INVALID)
      | Some bucket \<Rightarrow>
     (case fld bucket ''bucketContextKey'' of
        VStr key \<Rightarrow>
          if key \<in> set contextKeys
          then Some (failure DUPLICATE_BUCKET_CONTEXT
                 (empty_metadata\<lparr>md_bucketContextKey := parsedValue (parseBucketContextKey (VStr key))\<rparr>))
          else
            (case fld bucket ''bucketInstanceId'' of
               VStr iid \<Rightarrow>
                 if iid \<in> set instanceIds
                 then Some (failure BUCKET_IDENTITY_INVALID
                   (empty_metadata\<lparr>md_bucketInstanceId := parsedValue (parseBucketInstanceId (VStr iid))\<rparr>))
                 else duplicateIdentityError (key # contextKeys) (iid # instanceIds) rest
             | _ \<Rightarrow> Some (plain_error BUCKET_IDENTITY_INVALID))
      | _ \<Rightarrow> Some (plain_error BUCKET_IDENTITY_INVALID)))"

subsection \<open>Step 27: amount bounds\<close>

definition exceeds_bigint :: "jsval \<Rightarrow> bool" where
  "exceeds_bigint v = (case v of VStr s \<Rightarrow> POSTGRES_BIGINT_MAX < int (digits_val s) | _ \<Rightarrow> True)"

definition amountRangeError :: "jsobj \<Rightarrow> jsval list \<Rightarrow> LegalApplicationPlanError option" where
  "amountRangeError rawSnapshot rawBuckets =
     (if exceeds_bigint (fld rawSnapshot ''receiptAmountMinor'')
      then Some (plain_error AMOUNT_OUT_OF_RANGE)
      else first_error (\<lambda>b. case as_record b of
                              None \<Rightarrow> Some (plain_error AMOUNT_OUT_OF_RANGE)
                            | Some bucket \<Rightarrow>
                                if exceeds_bigint (fld bucket ''bucketBalanceMinor'')
                                then Some (plain_error AMOUNT_OUT_OF_RANGE) else None)
             rawBuckets)"

subsection \<open>Step 28: evidence\<close>

definition parseVersionEvidence :: "jsobj \<Rightarrow> ParsedVersionEvidence option" where
  "parseVersionEvidence snapshot =
     (case parsedValue (parseEngineVersion (fld snapshot ''engineVersion'')) of None \<Rightarrow> None
      | Some engineVersion \<Rightarrow>
     (case parsedValue (parseRuleVersion (fld snapshot ''calculationRuleVersion'')) of None \<Rightarrow> None
      | Some calculationRuleVersion \<Rightarrow>
     (case parsedValue (parsePolicyVersion (fld snapshot ''policyVersion'')) of None \<Rightarrow> None
      | Some policyVersion \<Rightarrow>
     (case parsedValue (parseRateVersion (fld snapshot ''rateTableVersion'')) of None \<Rightarrow> None
      | Some rateTableVersion \<Rightarrow>
     (case parsedValue (parseInterpretationVersion (fld snapshot ''interpretationProfileId'')) of
        None \<Rightarrow> None
      | Some interpretationProfileId \<Rightarrow>
     (case parsedValue (parseBucketIdentityVersion (fld snapshot ''bucketIdentityVersion'')) of
        None \<Rightarrow> None
      | Some bucketIdentityVersion \<Rightarrow> Some
          \<lparr>pv_engineVersion = engineVersion, pv_calculationRuleVersion = calculationRuleVersion,
           pv_policyVersion = policyVersion, pv_rateTableVersion = rateTableVersion,
           pv_interpretationProfileId = interpretationProfileId,
           pv_bucketIdentityVersion = bucketIdentityVersion\<rparr>))))))"

fun parse_sources :: "jstr list \<Rightarrow> jsval list \<Rightarrow> CanonicalSourceVersionV1 list option" where
  "parse_sources identities [] = Some []"
| "parse_sources identities (rawSource # rest) =
     (case as_record rawSource of None \<Rightarrow> None
      | Some m \<Rightarrow>
     (case parsedValue (parseSourceReference (fld m ''sourceReference'')) of None \<Rightarrow> None
      | Some sourceReference \<Rightarrow>
     (case parsedValue (parseSourceVersion (fld m ''sourceVersion'')) of None \<Rightarrow> None
      | Some sourceVersion \<Rightarrow>
          (let identity = sourceReference @ [0] @ sourceVersion in
           if identity \<in> set identities then None
           else map_option (\<lambda>sources. \<lparr>sv_sourceReference = sourceReference,
                                       sv_sourceVersion = sourceVersion\<rparr> # sources)
                  (parse_sources (identity # identities) rest)))))"

definition parseSourceVersionSet :: "jsobj \<Rightarrow> CanonicalSourceVersionV1 list option" where
  "parseSourceVersionSet snapshot =
     (case as_array (fld snapshot ''sourceVersionSet'') of
        None \<Rightarrow> None
      | Some rawSources \<Rightarrow> if length rawSources = 0 then None else parse_sources [] rawSources)"

definition parse_bucket :: "jsval \<Rightarrow> CanonicalLegalBucketV1 option" where
  "parse_bucket raw =
     (case as_record raw of None \<Rightarrow> None
      | Some m \<Rightarrow>
     (case fld m ''componentType'' of
        VStr componentType \<Rightarrow>
     (if componentType \<notin> set LEGAL_APPLICATION_COMPONENT_TYPES then None
      else case parsedValue (parseComponentCode (fld m ''componentCode'')) of None \<Rightarrow> None
      | Some componentCode \<Rightarrow>
     (case parsedValue (parseBucketContextKey (fld m ''bucketContextKey'')) of None \<Rightarrow> None
      | Some bucketContextKey \<Rightarrow>
     (case parsedValue (parseBucketInstanceId (fld m ''bucketInstanceId'')) of None \<Rightarrow> None
      | Some bucketInstanceId \<Rightarrow>
     (case parsedValue (parseSourceLineageSetRef (fld m ''sourceLineageSetRef'')) of None \<Rightarrow> None
      | Some sourceLineageSetRef \<Rightarrow>
     (case parsedValue (parseCurrencyCode (fld m ''currency'')) of None \<Rightarrow> None
      | Some currency \<Rightarrow>
     (case parsedValue (parseMinorUnit (fld m ''minorUnit'')) of None \<Rightarrow> None
      | Some minorUnit \<Rightarrow>
     (case parsedValue (parseBucketBalanceMinor (fld m ''bucketBalanceMinor'')) of None \<Rightarrow> None
      | Some bucketBalanceMinor \<Rightarrow>
     (case (fld m ''priorityRank'', fld m ''legalBasisRef'', fld m ''effectivePeriodRef'') of
        (VNum priorityRank, VStr legalBasisRef, VStr effectivePeriodRef) \<Rightarrow> Some
          \<lparr>bk_componentType = componentType, bk_componentCode = componentCode,
           bk_bucketContextKey = bucketContextKey, bk_bucketInstanceId = bucketInstanceId,
           bk_sourceLineageSetRef = sourceLineageSetRef, bk_legalBasisRef = legalBasisRef,
           bk_effectivePeriodRef = effectivePeriodRef,
           bk_interestRuleRef =
             (case fld m ''interestRuleRef'' of VStr s \<Rightarrow> Some s | _ \<Rightarrow> None),
           bk_currency = currency, bk_minorUnit = minorUnit, bk_priorityRank = priorityRank,
           bk_bucketBalanceMinor = bucketBalanceMinor\<rparr>
      | _ \<Rightarrow> None))))))))
      | _ \<Rightarrow> None))"

fun parse_all :: "('a \<Rightarrow> 'b option) \<Rightarrow> 'a list \<Rightarrow> 'b list option" where
  "parse_all f [] = Some []"
| "parse_all f (x # xs) =
     (case f x of None \<Rightarrow> None | Some y \<Rightarrow> map_option (\<lambda>ys. y # ys) (parse_all f xs))"

definition parseValidatedBuckets :: "jsobj \<Rightarrow> CanonicalLegalBucketV1 list option" where
  "parseValidatedBuckets snapshot =
     (case as_array (fld snapshot ''canonicalBuckets'') of
        None \<Rightarrow> None
      | Some rawBuckets \<Rightarrow> parse_all parse_bucket rawBuckets)"

text \<open>The declared source set of an official snapshot: sorted, and with the declared hash.\<close>

definition officialSourceError ::
  "(jstr \<Rightarrow> jstr) \<Rightarrow> (bytes \<Rightarrow> jstr) \<Rightarrow> ParsedVersionEvidence \<Rightarrow> SnapshotPrimitiveFacts \<Rightarrow>
   CanonicalSourceVersionV1 list \<Rightarrow> LegalApplicationPlanError option" where
  "officialSourceError nfc sha versions facts sourceVersionSet =
     (if pv_bucketIdentityVersion versions \<noteq> BUCKET_INSTANCE_IDENTITY_CONTRACT_VERSION then None
      else
        (let canonicalSources = sortSourceVersionSet nfc sourceVersionSet in
         case computeSourceVersionSetHash nfc sha canonicalSources of
           Inl _ \<Rightarrow> Some (plain_error SOURCE_VERSION_INCOMPLETE)
         | Inr computed \<Rightarrow>
             if computed \<noteq> pf_sourceVersionSetHash facts \<or>
                list_ex (\<lambda>(index, source).
                  (case nth_opt sourceVersionSet index of
                     None \<Rightarrow> True
                   | Some t \<Rightarrow> sv_sourceReference source \<noteq> sv_sourceReference t \<or>
                              sv_sourceVersion source \<noteq> sv_sourceVersion t))
                  (indexed canonicalSources)
             then Some (plain_error SOURCE_VERSION_INCOMPLETE) else None))"

definition materializeValidatedSnapshot ::
  "SnapshotPrimitiveFacts \<Rightarrow> ParsedVersionEvidence \<Rightarrow> CanonicalSourceVersionV1 list \<Rightarrow>
   CanonicalLegalBucketV1 list \<Rightarrow> CanonicalReceivableApplicationSnapshotV1" where
  "materializeValidatedSnapshot primitives versions sourceVersionSet canonicalBuckets =
     \<lparr>sn_snapshotContractVersion = pf_snapshotContractVersion primitives,
      sn_snapshotSerializationVersion = pf_snapshotSerializationVersion primitives,
      sn_tenantId = pf_tenantId primitives, sn_caseId = pf_caseId primitives,
      sn_targetCollectionId = pf_targetCollectionId primitives,
      sn_currency = pf_currency primitives, sn_minorUnit = pf_minorUnit primitives,
      sn_receiptAmountMinor = pf_receiptAmountMinor primitives,
      sn_snapshotAsOfDate = pf_snapshotAsOfDate primitives,
      sn_applicationEffectiveDate = pf_applicationEffectiveDate primitives,
      sn_historyBoundaryRef = pf_historyBoundaryRef primitives,
      sn_engineVersion = pv_engineVersion versions,
      sn_calculationRuleVersion = pv_calculationRuleVersion versions,
      sn_policyVersion = pv_policyVersion versions,
      sn_rateTableVersion = pv_rateTableVersion versions,
      sn_interpretationProfileId = pv_interpretationProfileId versions,
      sn_bucketIdentityVersion = pv_bucketIdentityVersion versions,
      sn_sourceVersionSet = sourceVersionSet,
      sn_sourceVersionSetHash = pf_sourceVersionSetHash primitives,
      sn_canonicalBuckets = canonicalBuckets\<rparr>"

subsection \<open>Steps 29 to 33: canonical bytes and hash\<close>

definition canonicalBytesError ::
  "(bytes \<Rightarrow> jstr) \<Rightarrow> jsval \<Rightarrow> jstr \<Rightarrow> BuildLegalApplicationPlanCommand \<Rightarrow> ParsedEnvelopeEvidence \<Rightarrow>
   LegalApplicationPlanError option" where
  "canonicalBytesError sha parsed canonicalPayload command evidence =
     (if serializeCanonicalJson parsed \<noteq> canonicalPayload
      then Some (serializationFailure None None None None)
      else
        (let computedHash = computeCanonicalSnapshotHash sha (utf8 canonicalPayload) in
         if computedHash \<noteq> ev_snapshotHash evidence
         then Some (failure SNAPSHOT_HASH_MISMATCH
                (empty_metadata\<lparr>md_snapshotHash := Some (ev_snapshotHash evidence),
                   md_expectedSnapshotHash := Some (cm_expectedSnapshotHash command)\<rparr>))
         else if canonicalSnapshotRefForHash computedHash \<noteq> ev_snapshotRef evidence
         then Some (failure SNAPSHOT_REF_MISMATCH
                (empty_metadata\<lparr>md_snapshotRef := Some (ev_snapshotRef evidence),
                   md_expectedSnapshotRef := Some (cm_expectedSnapshotRef command)\<rparr>))
         else None))"

subsection \<open>The validator\<close>

text \<open>Steps 01 to 05: from the untyped input to the parsed payload.\<close>

definition openEnvelope ::
  "jsval \<Rightarrow> LegalApplicationPlanError + (jsobj \<times> jsobj \<times> jsobj \<times> jstr \<times> jsobj)" where
  "openEnvelope input =
     (case as_record input of None \<Rightarrow> Inl (plain_error SNAPSHOT_UNAVAILABLE)
      | Some m \<Rightarrow>
     (case as_record (fld m ''command'') of None \<Rightarrow> Inl (plain_error SNAPSHOT_UNAVAILABLE)
      | Some commandRecord \<Rightarrow>
     (case as_record (fld m ''snapshotEnvelope'') of None \<Rightarrow> Inl (plain_error SNAPSHOT_UNAVAILABLE)
      | Some envelopeRecord \<Rightarrow>
     (case fld envelopeRecord ''canonicalPayload'' of
        VStr canonicalPayload \<Rightarrow>
          (let payloadBytes = length (utf8 canonicalPayload) in
           if payloadBytes = 0 then Inl (serializationFailure None None None None)
           else if MAX_CANONICAL_ENVELOPE_BYTES < payloadBytes
           then Inl (serializationFailure (Some PAYLOAD_LIMIT_EXCEEDED)
                  (Some (js ''$.snapshotEnvelope.canonicalPayload''))
                  (Some MAX_CANONICAL_ENVELOPE_BYTES) (Some payloadBytes))
           else
             (case parseStrictJson canonicalPayload of
                Inl DUPLICATE_MEMBER \<Rightarrow>
                  Inl (serializationFailure (Some DUPLICATE_JSON_MEMBER) (Some (js ''$'')) None None)
              | Inl (MAX_DEPTH actual) \<Rightarrow>
                  Inl (serializationFailure (Some MAX_DEPTH_EXCEEDED) (Some (js ''$''))
                         (Some MAX_CANONICAL_JSON_DEPTH) (Some actual))
              | Inl SYNTAX \<Rightarrow> Inl (serializationFailure None None None None)
              | Inr parsed \<Rightarrow>
                  (case as_record parsed of
                     None \<Rightarrow> Inl (serializationFailure None None None None)
                   | Some rawSnapshot \<Rightarrow>
                       Inr (m, commandRecord, envelopeRecord, canonicalPayload, rawSnapshot))))
      | _ \<Rightarrow> Inl (plain_error SNAPSHOT_UNAVAILABLE)))))"

text \<open>Steps 18 to 28 on the parsed payload, as one list of guards.\<close>

definition structureError ::
  "(jstr \<Rightarrow> jstr) \<Rightarrow> (bytes \<Rightarrow> jstr) \<Rightarrow> jsobj \<Rightarrow> jsobj \<Rightarrow> SnapshotPrimitiveFacts \<Rightarrow>
   LegalApplicationPlanError option" where
  "structureError nfc sha commandRecord rawSnapshot facts =
     or_else (validateSnapshotSchema rawSnapshot)
     (or_else (validateKnownNfcStrings nfc commandRecord rawSnapshot)
     (or_else (validateStringLimits commandRecord rawSnapshot)
     (or_else (validateIntegerStrings rawSnapshot)
     (case as_array (fld rawSnapshot ''canonicalBuckets'') of
        None \<Rightarrow> Some (serializationFailure None None None None)
      | Some rawBuckets \<Rightarrow>
          if MAX_BUCKET_COUNT < length rawBuckets
          then Some (serializationFailure (Some BUCKET_LIMIT_EXCEEDED) (Some (js ''$.canonicalBuckets''))
                 (Some MAX_BUCKET_COUNT) (Some (length rawBuckets)))
          else
            or_else (first_error validateBucketShape (indexed rawBuckets))
            (or_else (first_error closedComponentError rawBuckets)
            (or_else (step24 nfc sha facts rawSnapshot rawBuckets)
            (or_else (duplicateIdentityError [] [] rawBuckets)
                     (amountRangeError rawSnapshot rawBuckets))))))))"

definition validateCanonicalSnapshot ::
  "(jstr \<Rightarrow> jstr) \<Rightarrow> (bytes \<Rightarrow> jstr) \<Rightarrow> jsval \<Rightarrow>
   LegalApplicationPlanError + ValidatedCanonicalSnapshotV1" where
  "validateCanonicalSnapshot nfc sha input =
     (case openEnvelope input of Inl e \<Rightarrow> Inl e
      | Inr (m, commandRecord, envelopeRecord, canonicalPayload, rawSnapshot) \<Rightarrow>
     (if fld rawSnapshot ''snapshotContractVersion'' \<noteq> VStr SNAPSHOT_CONTRACT_VERSION
      then Inl (plain_error SNAPSHOT_CONTRACT_UNSUPPORTED)
      else if fld rawSnapshot ''snapshotSerializationVersion'' \<noteq> VStr SNAPSHOT_SERIALIZATION_VERSION
      then Inl (serializationFailure None None None None)
      else if fld m ''direction'' \<noteq> VStr APPLY then Inl (plain_error DIRECTION_NOT_AUTHORIZED)
      else case parseCommand commandRecord of
        None \<Rightarrow> Inl (plain_error (commandFormatError commandRecord))
      | Some command \<Rightarrow>
     (case parseEnvelopeEvidence envelopeRecord of
        None \<Rightarrow> Inl (plain_error
          (if parsedValue (parseSnapshotHash (fld envelopeRecord ''snapshotHash'')) = None
           then SNAPSHOT_HASH_MISMATCH else SNAPSHOT_REF_MISMATCH))
      | Some evidence \<Rightarrow>
     (case parseSnapshotPrimitiveFacts rawSnapshot of
        None \<Rightarrow> Inl (plain_error (snapshotFormatError rawSnapshot))
      | Some facts \<Rightarrow>
     (case bindingError command facts evidence of Some e \<Rightarrow> Inl e
      | None \<Rightarrow>
     (case structureError nfc sha commandRecord rawSnapshot facts of Some e \<Rightarrow> Inl e
      | None \<Rightarrow>
     (case parseVersionEvidence rawSnapshot of
        None \<Rightarrow> Inl (plain_error
          (if parsedValue (parsePolicyVersion (fld rawSnapshot ''policyVersion'')) = None
           then POLICY_VERSION_MISSING else FORMATION_CONTEXT_INCOMPLETE))
      | Some versions \<Rightarrow>
     (case parseSourceVersionSet rawSnapshot of
        None \<Rightarrow> Inl (plain_error SOURCE_VERSION_INCOMPLETE)
      | Some sources \<Rightarrow>
     (case parseValidatedBuckets rawSnapshot of
        None \<Rightarrow> Inl (plain_error FORMATION_CONTEXT_INCOMPLETE)
      | Some buckets \<Rightarrow>
     (case officialSourceError nfc sha versions facts sources of Some e \<Rightarrow> Inl e
      | None \<Rightarrow>
     (case canonicalBytesError sha (VObj rawSnapshot) canonicalPayload command evidence of
        Some e \<Rightarrow> Inl e
      | None \<Rightarrow> Inr
          \<lparr>vs_snapshotRef = ev_snapshotRef evidence, vs_snapshotHash = ev_snapshotHash evidence,
           vs_canonicalPayload = canonicalPayload,
           vs_snapshot = materializeValidatedSnapshot facts versions sources buckets\<rparr>)))))))))))"

subsection \<open>What the parsers of the steps accept\<close>

lemma parsedValue_Some [simp]: "parsedValue r = Some v \<longleftrightarrow> r = Inr v"
  by (auto simp: parsedValue_def split: sum.splits)

lemma as_array_Some [simp]: "as_array v = Some vs \<longleftrightarrow> v = VArr vs"
  by (cases v) auto

lemma parseCommand_Some:
  "parseCommand c = Some cmd \<longleftrightarrow>
     parseTenantId (fld c ''tenantId'') = Inr (cm_tenantId cmd) \<and>
     parseCaseId (fld c ''caseId'') = Inr (cm_caseId cmd) \<and>
     parseCollectionId (fld c ''collectionId'') = Inr (cm_collectionId cmd) \<and>
     parseReceiptAmountMinor (fld c ''receiptAmountMinor'') = Inr (cm_receiptAmountMinor cmd) \<and>
     parseCurrencyCode (fld c ''currency'') = Inr (cm_currency cmd) \<and>
     parseMinorUnit (fld c ''minorUnit'') = Inr (cm_minorUnit cmd) \<and>
     parseEffectiveDate (fld c ''applicationEffectiveDate'') = Inr (cm_applicationEffectiveDate cmd) \<and>
     parseSnapshotRef (fld c ''expectedSnapshotRef'') = Inr (cm_expectedSnapshotRef cmd) \<and>
     parseSnapshotHash (fld c ''expectedSnapshotHash'') = Inr (cm_expectedSnapshotHash cmd) \<and>
     parseSourceVersionSetHash (fld c ''expectedSourceVersionSetHash'') =
       Inr (cm_expectedSourceVersionSetHash cmd) \<and>
     parseHistoryBoundaryRef (fld c ''expectedHistoryBoundaryRef'') =
       Inr (cm_expectedHistoryBoundaryRef cmd) \<and>
     parseIdempotencyKey (fld c ''idempotencyKey'') = Inr (cm_idempotencyKey cmd) \<and>
     parseCommandHash (fld c ''commandHash'') = Inr (cm_commandHash cmd)"
  unfolding parseCommand_def guard_simps parsedValue_Some by (cases cmd) auto

lemma parseSnapshotPrimitiveFacts_Some:
  "parseSnapshotPrimitiveFacts s = Some f \<longleftrightarrow>
     parseSnapshotContractVersion (fld s ''snapshotContractVersion'') =
       Inr (pf_snapshotContractVersion f) \<and>
     parseSerializationVersion (fld s ''snapshotSerializationVersion'') =
       Inr (pf_snapshotSerializationVersion f) \<and>
     parseTenantId (fld s ''tenantId'') = Inr (pf_tenantId f) \<and>
     parseCaseId (fld s ''caseId'') = Inr (pf_caseId f) \<and>
     parseCollectionId (fld s ''targetCollectionId'') = Inr (pf_targetCollectionId f) \<and>
     parseCurrencyCode (fld s ''currency'') = Inr (pf_currency f) \<and>
     parseMinorUnit (fld s ''minorUnit'') = Inr (pf_minorUnit f) \<and>
     parseReceiptAmountMinor (fld s ''receiptAmountMinor'') = Inr (pf_receiptAmountMinor f) \<and>
     parseSnapshotDate (fld s ''snapshotAsOfDate'') = Inr (pf_snapshotAsOfDate f) \<and>
     parseEffectiveDate (fld s ''applicationEffectiveDate'') = Inr (pf_applicationEffectiveDate f) \<and>
     parseHistoryBoundaryRef (fld s ''historyBoundaryRef'') = Inr (pf_historyBoundaryRef f) \<and>
     parseSourceVersionSetHash (fld s ''sourceVersionSetHash'') = Inr (pf_sourceVersionSetHash f)"
  unfolding parseSnapshotPrimitiveFacts_def guard_simps parsedValue_Some by (cases f) auto

lemma parseVersionEvidence_Some:
  "parseVersionEvidence s = Some e \<longleftrightarrow>
     parseEngineVersion (fld s ''engineVersion'') = Inr (pv_engineVersion e) \<and>
     parseRuleVersion (fld s ''calculationRuleVersion'') = Inr (pv_calculationRuleVersion e) \<and>
     parsePolicyVersion (fld s ''policyVersion'') = Inr (pv_policyVersion e) \<and>
     parseRateVersion (fld s ''rateTableVersion'') = Inr (pv_rateTableVersion e) \<and>
     parseInterpretationVersion (fld s ''interpretationProfileId'') =
       Inr (pv_interpretationProfileId e) \<and>
     parseBucketIdentityVersion (fld s ''bucketIdentityVersion'') = Inr (pv_bucketIdentityVersion e)"
  unfolding parseVersionEvidence_def guard_simps parsedValue_Some by (cases e) auto

lemma parseEnvelopeEvidence_Some:
  "parseEnvelopeEvidence m = Some e \<longleftrightarrow>
     parseSnapshotRef (fld m ''snapshotRef'') = Inr (ev_snapshotRef e) \<and>
     parseSnapshotHash (fld m ''snapshotHash'') = Inr (ev_snapshotHash e)"
  unfolding parseEnvelopeEvidence_def guard_simps parsedValue_Some by (cases e) auto

lemma bindingError_None:
  "bindingError c f e = None \<longleftrightarrow>
     cm_tenantId c = pf_tenantId f \<and> cm_caseId c = pf_caseId f \<and>
     cm_collectionId c = pf_targetCollectionId f \<and>
     cm_receiptAmountMinor c = pf_receiptAmountMinor f \<and> cm_currency c = pf_currency f \<and>
     js_num_eq (cm_minorUnit c) (pf_minorUnit f) \<and>
     cm_applicationEffectiveDate c = pf_applicationEffectiveDate f \<and>
     cm_expectedHistoryBoundaryRef c = pf_historyBoundaryRef f \<and>
     cm_expectedSourceVersionSetHash c = pf_sourceVersionSetHash f \<and>
     cm_expectedSnapshotHash c = ev_snapshotHash e \<and> cm_expectedSnapshotRef c = ev_snapshotRef e"
  unfolding bindingError_def guard_simps by auto

lemma parse_all_Some: "parse_all f xs = Some ys \<longleftrightarrow> list_all2 (\<lambda>x y. f x = Some y) xs ys"
  by (induction xs arbitrary: ys) (auto simp: guard_simps list_all2_Cons1)

lemma parse_bucket_Some:
  "parse_bucket raw = Some b \<Longrightarrow> \<exists>m. raw = VObj m \<and>
     fld m ''componentType'' = VStr (bk_componentType b) \<and>
     bk_componentType b \<in> set LEGAL_APPLICATION_COMPONENT_TYPES \<and>
     parseComponentCode (fld m ''componentCode'') = Inr (bk_componentCode b) \<and>
     parseBucketContextKey (fld m ''bucketContextKey'') = Inr (bk_bucketContextKey b) \<and>
     parseBucketInstanceId (fld m ''bucketInstanceId'') = Inr (bk_bucketInstanceId b) \<and>
     parseSourceLineageSetRef (fld m ''sourceLineageSetRef'') = Inr (bk_sourceLineageSetRef b) \<and>
     parseCurrencyCode (fld m ''currency'') = Inr (bk_currency b) \<and>
     parseMinorUnit (fld m ''minorUnit'') = Inr (bk_minorUnit b) \<and>
     parseBucketBalanceMinor (fld m ''bucketBalanceMinor'') = Inr (bk_bucketBalanceMinor b) \<and>
     fld m ''priorityRank'' = VNum (bk_priorityRank b) \<and>
     fld m ''legalBasisRef'' = VStr (bk_legalBasisRef b) \<and>
     fld m ''effectivePeriodRef'' = VStr (bk_effectivePeriodRef b) \<and>
     bk_interestRuleRef b = (case fld m ''interestRuleRef'' of VStr s \<Rightarrow> Some s | _ \<Rightarrow> None)"
proof -
  assume p: "parse_bucket raw = Some b"
  then obtain m where m: "as_record raw = Some m"
    by (auto simp: parse_bucket_def split: option.splits)
  from p m obtain t where t: "fld m ''componentType'' = VStr t"
    by (auto simp: parse_bucket_def split: jsval.splits)
  have rest: "(case (fld m ''priorityRank'', fld m ''legalBasisRef'', fld m ''effectivePeriodRef'') of
      (VNum r, VStr l, VStr e) \<Rightarrow> Some (h r l e) | _ \<Rightarrow> None) = Some y \<longleftrightarrow>
      (\<exists>r l e. fld m ''priorityRank'' = VNum r \<and> fld m ''legalBasisRef'' = VStr l \<and>
         fld m ''effectivePeriodRef'' = VStr e \<and> y = h r l e)" for h :: "jsnum \<Rightarrow> jstr \<Rightarrow> jstr \<Rightarrow> CanonicalLegalBucketV1" and y
    by (auto split: jsval.splits)
  show ?thesis
    using p unfolding parse_bucket_def m option.case t jsval.case guard_simps parsedValue_Some rest
    using m t by auto
qed

subsection \<open>What an accepted snapshot satisfies\<close>

definition accepts ::
  "(jstr \<Rightarrow> jstr) \<Rightarrow> (bytes \<Rightarrow> jstr) \<Rightarrow> jsobj \<Rightarrow> jsobj \<Rightarrow> jsobj \<Rightarrow> jstr \<Rightarrow> jsobj \<Rightarrow>
   BuildLegalApplicationPlanCommand \<Rightarrow> ParsedEnvelopeEvidence \<Rightarrow> SnapshotPrimitiveFacts \<Rightarrow>
   ParsedVersionEvidence \<Rightarrow> CanonicalSourceVersionV1 list \<Rightarrow> CanonicalLegalBucketV1 list \<Rightarrow> bool" where
  "accepts nfc sha m c e payload raw cmd ev facts vers srcs bks \<longleftrightarrow>
     fld raw ''snapshotContractVersion'' = VStr SNAPSHOT_CONTRACT_VERSION \<and>
     fld raw ''snapshotSerializationVersion'' = VStr SNAPSHOT_SERIALIZATION_VERSION \<and>
     fld m ''direction'' = VStr APPLY \<and>
     parseCommand c = Some cmd \<and> parseEnvelopeEvidence e = Some ev \<and>
     parseSnapshotPrimitiveFacts raw = Some facts \<and> bindingError cmd facts ev = None \<and>
     structureError nfc sha c raw facts = None \<and> parseVersionEvidence raw = Some vers \<and>
     parseSourceVersionSet raw = Some srcs \<and> parseValidatedBuckets raw = Some bks \<and>
     officialSourceError nfc sha vers facts srcs = None \<and>
     canonicalBytesError sha (VObj raw) payload cmd ev = None"

definition validated ::
  "jstr \<Rightarrow> ParsedEnvelopeEvidence \<Rightarrow> SnapshotPrimitiveFacts \<Rightarrow> ParsedVersionEvidence \<Rightarrow>
   CanonicalSourceVersionV1 list \<Rightarrow> CanonicalLegalBucketV1 list \<Rightarrow> ValidatedCanonicalSnapshotV1" where
  "validated payload ev facts vers srcs bks =
     \<lparr>vs_snapshotRef = ev_snapshotRef ev, vs_snapshotHash = ev_snapshotHash ev,
      vs_canonicalPayload = payload,
      vs_snapshot = materializeValidatedSnapshot facts vers srcs bks\<rparr>"

lemma validate_opened:
  assumes "openEnvelope input = Inr (m, c, e, payload, raw)"
  shows "validateCanonicalSnapshot nfc sha input = Inr v \<longleftrightarrow>
     (\<exists>cmd ev facts vers srcs bks.
        accepts nfc sha m c e payload raw cmd ev facts vers srcs bks \<and>
        v = validated payload ev facts vers srcs bks)"
  unfolding validateCanonicalSnapshot_def assms sum.case prod.case guard_simps accepts_def
    validated_def sum.inject by blast

lemma validateCanonicalSnapshot_Inr:
  "validateCanonicalSnapshot nfc sha input = Inr v \<longleftrightarrow>
     (\<exists>m c e payload raw cmd ev facts vers srcs bks.
        openEnvelope input = Inr (m, c, e, payload, raw) \<and>
        accepts nfc sha m c e payload raw cmd ev facts vers srcs bks \<and>
        v = validated payload ev facts vers srcs bks)"
proof (cases "openEnvelope input")
  case (Inl err)
  then show ?thesis by (simp add: validateCanonicalSnapshot_def)
next
  case (Inr t)
  then obtain m c e payload raw where "openEnvelope input = Inr (m, c, e, payload, raw)"
    by (cases t) auto
  from validate_opened [OF this] this show ?thesis by simp
qed

lemma canonicalBytesError_None:
  "canonicalBytesError sha parsed payload cmd ev = None \<longleftrightarrow>
     serializeCanonicalJson parsed = payload \<and>
     ev_snapshotHash ev = computeCanonicalSnapshotHash sha (utf8 payload) \<and>
     ev_snapshotRef ev = canonicalSnapshotRefForHash (ev_snapshotHash ev)"
  by (auto simp: canonicalBytesError_def Let_def)

lemma openEnvelope_Inr:
  "openEnvelope input = Inr (m, c, e, payload, raw) \<longleftrightarrow>
     input = VObj m \<and> fld m ''command'' = VObj c \<and> fld m ''snapshotEnvelope'' = VObj e \<and>
     fld e ''canonicalPayload'' = VStr payload \<and> utf8 payload \<noteq> [] \<and>
     length (utf8 payload) \<le> MAX_CANONICAL_ENVELOPE_BYTES \<and>
     parseStrictJson payload = Inr (VObj raw)"
proof
  assume l: "openEnvelope input = Inr (m, c, e, payload, raw)"
  have strict: "(case r of Inl DUPLICATE_MEMBER \<Rightarrow> Inl x | Inl (MAX_DEPTH a) \<Rightarrow> Inl (y a)
      | Inl SYNTAX \<Rightarrow> Inl z | Inr q \<Rightarrow> h q) = Inr t \<longleftrightarrow> (\<exists>q. r = Inr q \<and> h q = Inr t)"
    for r :: "StrictJsonParseFailure + jsval" and x y z h and t :: "jsobj \<times> jsobj \<times> jsobj \<times> jstr \<times> jsobj"
    by (auto split: sum.splits StrictJsonParseFailure.splits)
  show "input = VObj m \<and> fld m ''command'' = VObj c \<and> fld m ''snapshotEnvelope'' = VObj e \<and>
      fld e ''canonicalPayload'' = VStr payload \<and> utf8 payload \<noteq> [] \<and>
      length (utf8 payload) \<le> MAX_CANONICAL_ENVELOPE_BYTES \<and>
      parseStrictJson payload = Inr (VObj raw)"
    using l unfolding openEnvelope_def Let_def guard_simps strict
    by auto
qed (simp add: openEnvelope_def Let_def)

lemma structureError_None:
  assumes "structureError nfc sha c raw facts = None"
  shows "\<exists>rbs. fld raw ''canonicalBuckets'' = VArr rbs \<and> length rbs \<le> MAX_BUCKET_COUNT \<and>
     validateSnapshotSchema raw = None \<and> validateKnownNfcStrings nfc c raw = None \<and>
     validateStringLimits c raw = None \<and> validateIntegerStrings raw = None \<and>
     (\<forall>ib \<in> set (indexed rbs). validateBucketShape ib = None) \<and>
     (\<forall>b \<in> set rbs. closedComponentError b = None) \<and> step24 nfc sha facts raw rbs = None \<and>
     duplicateIdentityError [] [] rbs = None \<and> amountRangeError raw rbs = None"
  using assms by (auto simp: structureError_def guard_simps split: option.splits)

lemma validateBucketShape_rank:
  assumes "validateBucketShape (i, VObj b) = None"
  shows "\<exists>r. fld b ''priorityRank'' = VNum r \<and> js_nat_upto POSTGRES_INTEGER_MAX r"
  using assms by (auto simp: validateBucketShape_def Let_def guard_simps js_nat_upto_def
      split: jsval.splits)

lemma currency_check_None:
  "validateBucketCurrencyAndMinorUnit f b = None \<longleftrightarrow>
     (\<exists>n. parseCurrencyCode (fld b ''currency'') = Inr (pf_currency f) \<and>
        parseMinorUnit (fld b ''minorUnit'') = Inr n \<and> js_num_eq n (pf_minorUnit f))"
proof -
  have both: "(case (a, b) of (Some x, Some y) \<Rightarrow> g x y | _ \<Rightarrow> Some e) = None \<longleftrightarrow>
      (\<exists>x y. a = Some x \<and> b = Some y \<and> g x y = None)"
    for a :: "'a option" and b :: "'b option" and g and e :: 'c
    by (auto split: option.splits)
  show ?thesis
    unfolding validateBucketCurrencyAndMinorUnit_def both guard_simps parsedValue_Some by auto
qed

lemma bucketIdentityError_None:
  assumes "bucketIdentityError nfc sha f rule (VObj b) = None"
  shows "\<exists>k i. parseBucketContextKey (fld b ''bucketContextKey'') = Inr k \<and>
     parseBucketInstanceId (fld b ''bucketInstanceId'') = Inr i \<and>
     validateBucketCurrencyAndMinorUnit f b = None \<and>
     (\<forall>r. rule = Some r \<longrightarrow>
        (\<exists>y. validateBucketInstanceId nfc sha (preimage_object (bucket_preimage f r k)) (VStr i) = Inr y))"
  using assms by (auto simp: bucketIdentityError_def split: option.splits sum.splits)

lemma duplicateIdentityError_None:
  assumes "duplicateIdentityError ks is rbs = None" "list_all2 (\<lambda>x y. parse_bucket x = Some y) rbs bks"
  shows "distinct (map bk_bucketContextKey bks) \<and> distinct (map bk_bucketInstanceId bks) \<and>
     set (map bk_bucketContextKey bks) \<inter> set ks = {} \<and> set (map bk_bucketInstanceId bks) \<inter> set is = {}"
  using assms(2,1)
proof (induction rbs bks arbitrary: ks "is" rule: list_all2_induct)
  case (Cons x xs y ys)
  obtain m where m: "x = VObj m" "fld m ''bucketContextKey'' = VStr (bk_bucketContextKey y)"
    "fld m ''bucketInstanceId'' = VStr (bk_bucketInstanceId y)"
    using parse_bucket_Some [OF Cons.hyps(1)] by auto
  then have "duplicateIdentityError (bk_bucketContextKey y # ks) (bk_bucketInstanceId y # is) xs = None"
    "bk_bucketContextKey y \<notin> set ks" "bk_bucketInstanceId y \<notin> set is"
    using Cons.prems by (auto split: if_splits)
  with Cons.IH [of "bk_bucketContextKey y # ks" "bk_bucketInstanceId y # is"] show ?case by auto
qed simp

text \<open>The parsed buckets inherit every check of steps 22 to 26.\<close>

lemma accepts_raw_buckets:
  assumes "structureError nfc sha c raw facts = None" "parseValidatedBuckets raw = Some bks"
  obtains rbs where "fld raw ''canonicalBuckets'' = VArr rbs" "list_all2 (\<lambda>x y. parse_bucket x = Some y) rbs bks"
    "\<forall>ib \<in> set (indexed rbs). validateBucketShape ib = None"
    "step24 nfc sha facts raw rbs = None" "duplicateIdentityError [] [] rbs = None"
    "length rbs \<le> MAX_BUCKET_COUNT"
proof -
  obtain rbs where rbs: "fld raw ''canonicalBuckets'' = VArr rbs" "length rbs \<le> MAX_BUCKET_COUNT"
    "\<forall>ib \<in> set (indexed rbs). validateBucketShape ib = None"
    "step24 nfc sha facts raw rbs = None" "duplicateIdentityError [] [] rbs = None"
    using structureError_None [OF assms(1)] by blast
  then have "list_all2 (\<lambda>x y. parse_bucket x = Some y) rbs bks"
    using assms(2) by (simp add: parseValidatedBuckets_def parse_all_Some)
  with rbs that show ?thesis by blast
qed

lemma step24_bucket:
  assumes "step24 nfc sha facts raw rbs = None" "x \<in> set rbs"
  shows "bucketIdentityError nfc sha facts
     (if fld raw ''bucketIdentityVersion'' = VStr BUCKET_INSTANCE_IDENTITY_CONTRACT_VERSION
      then parsedValue (parseRuleVersion (fld raw ''calculationRuleVersion'')) else None) x = None"
  using assms by (auto simp: step24_def Let_def split: if_splits)

lemma validated_bucket:
  assumes "structureError nfc sha c raw facts = None" "parseValidatedBuckets raw = Some bks"
    and b: "b \<in> set bks"
  shows "legalApplicationComponentRank (bk_componentType b) \<noteq> None"
    and "js_nat_upto POSTGRES_INTEGER_MAX (bk_priorityRank b)"
    and "BUCKET_CONTEXT_KEY (bk_bucketContextKey b)" "BUCKET_INSTANCE_ID (bk_bucketInstanceId b)"
    and "isPersistenceSafeMinorAmount (bk_bucketBalanceMinor b)"
    and "bk_currency b = pf_currency facts" "js_num_eq (bk_minorUnit b) (pf_minorUnit facts)"
    and "\<And>rule. fld raw ''bucketIdentityVersion'' = VStr BUCKET_INSTANCE_IDENTITY_CONTRACT_VERSION \<Longrightarrow>
       parseRuleVersion (fld raw ''calculationRuleVersion'') = Inr rule \<Longrightarrow>
       \<exists>r. produceBucketInstanceId nfc sha
              (preimage_object (bucket_preimage facts rule (bk_bucketContextKey b))) = Inr r \<and>
           bip_value r = bk_bucketInstanceId b"
proof -
  obtain rbs where rbs: "list_all2 (\<lambda>x y. parse_bucket x = Some y) rbs bks"
    "\<forall>ib \<in> set (indexed rbs). validateBucketShape ib = None" "step24 nfc sha facts raw rbs = None"
    using accepts_raw_buckets [OF assms(1,2)] by metis
  obtain i where i: "i < length bks" "bks ! i = b" using b by (metis in_set_conv_nth)
  then have len: "i < length rbs" and pb: "parse_bucket (rbs ! i) = Some b"
    using rbs(1) by (auto simp: list_all2_conv_all_nth)
  obtain m where m: "rbs ! i = VObj m" "fld m ''componentType'' = VStr (bk_componentType b)"
    "bk_componentType b \<in> set LEGAL_APPLICATION_COMPONENT_TYPES"
    "parseBucketContextKey (fld m ''bucketContextKey'') = Inr (bk_bucketContextKey b)"
    "parseBucketInstanceId (fld m ''bucketInstanceId'') = Inr (bk_bucketInstanceId b)"
    "parseCurrencyCode (fld m ''currency'') = Inr (bk_currency b)"
    "parseMinorUnit (fld m ''minorUnit'') = Inr (bk_minorUnit b)"
    "parseBucketBalanceMinor (fld m ''bucketBalanceMinor'') = Inr (bk_bucketBalanceMinor b)"
    "fld m ''priorityRank'' = VNum (bk_priorityRank b)"
    using parse_bucket_Some [OF pb] by blast
  show "legalApplicationComponentRank (bk_componentType b) \<noteq> None"
    using m(3) by (simp only: legalApplicationComponentRank_ne_None)
  have "validateBucketShape (i, VObj m) = None"
    using rbs(2) len m(1) by (auto simp: in_set_indexed)
  from validateBucketShape_rank [OF this] m(9) show "js_nat_upto POSTGRES_INTEGER_MAX (bk_priorityRank b)"
    by simp
  show "BUCKET_CONTEXT_KEY (bk_bucketContextKey b)" "BUCKET_INSTANCE_ID (bk_bucketInstanceId b)"
    using m(4,5) by simp_all
  show "isPersistenceSafeMinorAmount (bk_bucketBalanceMinor b)"
    using m(8) by (simp add: isPersistenceSafeMinorAmount_def)
  have id: "bucketIdentityError nfc sha facts
      (if fld raw ''bucketIdentityVersion'' = VStr BUCKET_INSTANCE_IDENTITY_CONTRACT_VERSION
       then parsedValue (parseRuleVersion (fld raw ''calculationRuleVersion'')) else None) (VObj m) = None"
    using step24_bucket [OF rbs(3)] len m(1) by (metis nth_mem)
  note facts = bucketIdentityError_None [OF id]
  show "bk_currency b = pf_currency facts" "js_num_eq (bk_minorUnit b) (pf_minorUnit facts)"
    using facts m(6,7) by (auto simp: currency_check_None)
  fix rule
  assume "fld raw ''bucketIdentityVersion'' = VStr BUCKET_INSTANCE_IDENTITY_CONTRACT_VERSION"
    "parseRuleVersion (fld raw ''calculationRuleVersion'') = Inr rule"
  then have "(if fld raw ''bucketIdentityVersion'' = VStr BUCKET_INSTANCE_IDENTITY_CONTRACT_VERSION
      then parsedValue (parseRuleVersion (fld raw ''calculationRuleVersion'')) else None) = Some rule"
    by (simp only: if_True simp_thms parsedValue_Some)
  with facts m(4,5) show "\<exists>r. produceBucketInstanceId nfc sha
      (preimage_object (bucket_preimage facts rule (bk_bucketContextKey b))) = Inr r \<and>
      bip_value r = bk_bucketInstanceId b"
    by (auto simp: validateBucketInstanceId_Inr)
qed

lemma validated_distinct:
  assumes "structureError nfc sha c raw facts = None" "parseValidatedBuckets raw = Some bks"
  shows "distinct (map bk_bucketContextKey bks)" "distinct (map bk_bucketInstanceId bks)"
  using accepts_raw_buckets [OF assms] duplicateIdentityError_None by metis+

lemma BUCKET_CONTEXT_KEY_ne_Nil [simp]: "BUCKET_CONTEXT_KEY s \<Longrightarrow> s \<noteq> []"
  by (auto simp: BUCKET_CONTEXT_KEY_def prefixed_pattern_iff)

lemma BUCKET_INSTANCE_ID_ne_Nil [simp]: "BUCKET_INSTANCE_ID s \<Longrightarrow> s \<noteq> []"
  by (auto simp: BUCKET_INSTANCE_ID_def prefixed_pattern_iff)

lemma materialize_sel [simp]:
  "sn_canonicalBuckets (materializeValidatedSnapshot f v s b) = b"
  "sn_currency (materializeValidatedSnapshot f v s b) = pf_currency f"
  "sn_minorUnit (materializeValidatedSnapshot f v s b) = pf_minorUnit f"
  "sn_receiptAmountMinor (materializeValidatedSnapshot f v s b) = pf_receiptAmountMinor f"
  "sn_tenantId (materializeValidatedSnapshot f v s b) = pf_tenantId f"
  "sn_caseId (materializeValidatedSnapshot f v s b) = pf_caseId f"
  "sn_targetCollectionId (materializeValidatedSnapshot f v s b) = pf_targetCollectionId f"
  "sn_applicationEffectiveDate (materializeValidatedSnapshot f v s b) = pf_applicationEffectiveDate f"
  "sn_snapshotAsOfDate (materializeValidatedSnapshot f v s b) = pf_snapshotAsOfDate f"
  "sn_historyBoundaryRef (materializeValidatedSnapshot f v s b) = pf_historyBoundaryRef f"
  "sn_sourceVersionSet (materializeValidatedSnapshot f v s b) = s"
  "sn_sourceVersionSetHash (materializeValidatedSnapshot f v s b) = pf_sourceVersionSetHash f"
  "sn_bucketIdentityVersion (materializeValidatedSnapshot f v s b) = pv_bucketIdentityVersion v"
  "sn_calculationRuleVersion (materializeValidatedSnapshot f v s b) = pv_calculationRuleVersion v"
  by (simp_all add: materializeValidatedSnapshot_def)

lemma validated_sel [simp]:
  "vs_snapshot (validated p ev f v s b) = materializeValidatedSnapshot f v s b"
  "vs_snapshotRef (validated p ev f v s b) = ev_snapshotRef ev"
  "vs_snapshotHash (validated p ev f v s b) = ev_snapshotHash ev"
  "vs_canonicalPayload (validated p ev f v s b) = p"
  by (simp_all add: validated_def)

lemma validated_admissible:
  assumes "structureError nfc sha c raw facts = None" "parseValidatedBuckets raw = Some bks"
  shows "buckets_admissible (materializeValidatedSnapshot facts vers srcs bks)"
proof -
  have "bucket_admissible (materializeValidatedSnapshot facts vers srcs bks) b" if "b \<in> set bks" for b
    using validated_bucket [OF assms that] by (simp add: bucket_admissible_def)
  then show ?thesis
    using validated_distinct(1) [OF assms] by (simp add: buckets_admissible_def list_all_iff)
qed

lemma officialSourceError_None:
  assumes "officialSourceError nfc sha vers facts srcs = None"
    and "pv_bucketIdentityVersion vers = BUCKET_INSTANCE_IDENTITY_CONTRACT_VERSION"
  shows "sortSourceVersionSet nfc srcs = srcs"
    and "computeSourceVersionSetHash nfc sha srcs = Inr (pf_sourceVersionSetHash facts)"
proof -
  let ?cs = "sortSourceVersionSet nfc srcs"
  from assms have hash: "computeSourceVersionSetHash nfc sha ?cs = Inr (pf_sourceVersionSetHash facts)"
    and pos: "\<not> list_ex (\<lambda>(index, source). (case nth_opt srcs index of None \<Rightarrow> True
        | Some t \<Rightarrow> sv_sourceReference source \<noteq> sv_sourceReference t \<or>
                   sv_sourceVersion source \<noteq> sv_sourceVersion t)) (indexed ?cs)"
    by (auto simp: officialSourceError_def Let_def guard_simps split: sum.splits if_splits)
  have "?cs ! i = srcs ! i" if "i < length srcs" for i
  proof -
    have "sv_sourceReference (?cs ! i) = sv_sourceReference (srcs ! i) \<and>
        sv_sourceVersion (?cs ! i) = sv_sourceVersion (srcs ! i)"
      using pos that by (auto simp: list_ex_iff ball_indexed nth_opt_def Ball_def [symmetric]
          in_set_indexed split: option.splits if_splits)
    then show ?thesis by (cases "?cs ! i"; cases "srcs ! i") simp
  qed
  then show sorted: "?cs = srcs" by (intro nth_equalityI) simp_all
  with hash show "computeSourceVersionSetHash nfc sha srcs = Inr (pf_sourceVersionSetHash facts)"
    by simp
qed

subsection \<open>A concrete accepted envelope\<close>

definition sample_digest :: jstr where "sample_digest = sample_hash 3"

definition sample_raw_bucket :: jsobj where
  "sample_raw_bucket =
     [(js ''bucketBalanceMinor'', VStr (js ''1000'')),
      (js ''bucketContextKey'', VStr (js ''bctx:v1:sha256:'' @ sample_digest)),
      (js ''bucketInstanceId'', VStr (js ''binst:v1:sha256:'' @ sample_digest)),
      (js ''componentCode'', VStr (js ''C'')), (js ''componentType'', VStr PRINCIPAL),
      (js ''currency'', VStr (js ''TRY'')), (js ''effectivePeriodRef'', VStr (js ''e'')),
      (js ''legalBasisRef'', VStr (js ''b'')), (js ''minorUnit'', VNum (js_int 2)),
      (js ''priorityRank'', VNum (js_int 10)), (js ''sourceLineageSetRef'', VStr (js ''l''))]"

definition sample_raw_source :: jsobj where
  "sample_raw_source =
     [(js ''sourceReference'', VStr (js ''s'')), (js ''sourceVersion'', VStr (js ''1''))]"

definition sample_raw_receivable :: jsobj where
  "sample_raw_receivable =
     [(js ''sourceReference'', VStr (js ''v'')), (js ''sourceVersion'', VStr (js ''1''))]"

definition sample_raw :: jsobj where
  "sample_raw =
     [(js ''applicationEffectiveDate'', VStr (js ''2024-03-01'')),
      (js ''bucketIdentityVersion'', VStr (js ''RCV-BINST/v1'')),
      (js ''calculationRuleVersion'', VStr (js ''r'')),
      (js ''canonicalBuckets'', VArr [VObj sample_raw_bucket]),
      (js ''caseId'', VStr (js ''c'')), (js ''currency'', VStr (js ''TRY'')),
      (js ''engineVersion'', VStr (js ''e'')), (js ''historyBoundaryRef'', VStr (js ''h'')),
      (js ''interpretationProfileId'', VStr (js ''i'')), (js ''minorUnit'', VNum (js_int 2)),
      (js ''policyVersion'', VStr (js ''p'')), (js ''rateTableVersion'', VStr (js ''rt'')),
      (js ''receiptAmountMinor'', VStr (js ''700'')),
      (js ''snapshotAsOfDate'', VStr (js ''2024-03-01'')),
      (js ''snapshotContractVersion'', VStr SNAPSHOT_CONTRACT_VERSION),
      (js ''snapshotSerializationVersion'', VStr SNAPSHOT_SERIALIZATION_VERSION),
      (js ''sourceVersionSet'', VArr [VObj sample_raw_source, VObj sample_raw_receivable]),
      (js ''sourceVersionSetHash'', VStr sample_digest),
      (js ''targetCollectionId'', VStr (js ''col'')), (js ''tenantId'', VStr (js ''t''))]"

definition sample_payload :: jstr where
  "sample_payload = serializeCanonicalJson (VObj sample_raw)"

definition sample_command :: jsobj where
  "sample_command =
     [(js ''tenantId'', VStr (js ''t'')), (js ''caseId'', VStr (js ''c'')),
      (js ''collectionId'', VStr (js ''col'')), (js ''receiptAmountMinor'', VStr (js ''700'')),
      (js ''currency'', VStr (js ''TRY'')), (js ''minorUnit'', VNum (js_int 2)),
      (js ''applicationEffectiveDate'', VStr (js ''2024-03-01'')),
      (js ''expectedSnapshotRef'', VStr (canonicalSnapshotRefForHash sample_digest)),
      (js ''expectedSnapshotHash'', VStr sample_digest),
      (js ''expectedSourceVersionSetHash'', VStr sample_digest),
      (js ''expectedHistoryBoundaryRef'', VStr (js ''h'')),
      (js ''idempotencyKey'', VStr (js ''k'')), (js ''commandHash'', VStr (js ''ch''))]"

definition sample_validator_input :: jsval where
  "sample_validator_input =
     VObj [(js ''direction'', VStr APPLY), (js ''command'', VObj sample_command),
           (js ''snapshotEnvelope'', VObj
             [(js ''snapshotRef'', VStr (canonicalSnapshotRefForHash sample_digest)),
              (js ''snapshotHash'', VStr sample_digest),
              (js ''canonicalPayload'', VStr sample_payload)])]"

lemma sample_raw_canonical: "canonical_json (VObj sample_raw)"
  by (simp add: sample_raw_def sample_raw_bucket_def sample_raw_source_def sample_raw_receivable_def js_eval PRINCIPAL_def
      SNAPSHOT_CONTRACT_VERSION_def SNAPSHOT_SERIALIZATION_VERSION_def sample_digest_def
      sample_hash_def)

lemma sample_raw_parses: "parseStrictJson sample_payload = Inr (VObj sample_raw)"
  unfolding sample_payload_def
  by (rule parseStrictJson_canonical [OF sample_raw_canonical])
     (simp add: sample_raw_def sample_raw_bucket_def sample_raw_source_def sample_raw_receivable_def MAX_CANONICAL_JSON_DEPTH_def)

end
