(* ===== verification/PlanFingerprint.thy ===== *)
theory PlanFingerprint
  imports SnapshotValidator
begin

section \<open>The identity text of a plan and its fingerprint (plan-fingerprint.ts)\<close>

text \<open>
  A plan is identified by the digest of a text with its members in a fixed order. The text is
  produced only for facts that pass \<open>identityError\<close>: ranges, NFC, the reason for a held
  remainder and the conservation of the receipt. Shown here: what \<open>identityError\<close> lets
  through, and that the hashed bytes determine every fact they are made of, so that two plans
  share a fingerprint only through a collision of the digest. The Unicode normalisation and the
  digest are parameters.
\<close>

definition LEGAL_APPLICATION_PLAN_FINGERPRINT_CONTRACT_VERSION :: jstr where
  "LEGAL_APPLICATION_PLAN_FINGERPRINT_CONTRACT_VERSION = js ''RCV-LAP/v1''"

definition LEGAL_APPLICATION_PLAN_HELD_NONE :: jstr where
  "LEGAL_APPLICATION_PLAN_HELD_NONE = js ''NONE''"

text \<open>The text of a reason, as the union type of the source has it.\<close>

fun held_reason_text :: "LegalApplicationHeldReason \<Rightarrow> jstr" where
  "held_reason_text NO_ELIGIBLE_OUTSTANDING = js ''NO_ELIGIBLE_OUTSTANDING''"
| "held_reason_text EXCESS_OVER_ELIGIBLE_OUTSTANDING = js ''EXCESS_OVER_ELIGIBLE_OUTSTANDING''"

record LegalApplicationPlanIdentityFacts =
  fp_direction :: jstr
  fp_tenantId :: jstr
  fp_caseId :: jstr
  fp_collectionId :: jstr
  fp_currency :: jstr
  fp_minorUnit :: jsnum
  fp_effectiveDate :: jstr
  fp_snapshotRef :: jstr
  fp_snapshotHash :: jstr
  fp_sourceVersionSetHash :: jstr
  fp_historyBoundaryRef :: jstr
  fp_receiptAmountMinor :: int
  fp_appliedAmountMinor :: int
  fp_heldRemainderMinor :: int
  fp_heldReason :: jstr
  fp_applications :: "PlannedLegalApplication list"

definition plan_domain_separator :: bytes where
  "plan_domain_separator = utf8 LEGAL_APPLICATION_PLAN_FINGERPRINT_CONTRACT_VERSION @ [0]"

definition isCanonicalIdentityString :: "(jstr \<Rightarrow> jstr) \<Rightarrow> jstr \<Rightarrow> bool" where
  "isCanonicalIdentityString nfc value \<longleftrightarrow> 0 < length value \<and> nfc value = value"

subsection \<open>The checks\<close>

definition application_identity_error ::
  "(jstr \<Rightarrow> jstr) \<Rightarrow> PlannedLegalApplication \<Rightarrow> LegalApplicationPlanErrorCode option" where
  "application_identity_error nfc application =
     (if pa_componentType application \<notin> set LEGAL_APPLICATION_COMPONENT_TYPES
      then Some FORMATION_CONTEXT_INCOMPLETE
      else if \<not> js_is_integer (pa_priorityRank application) \<or>
              js_less (pa_priorityRank application) (js_int 0) \<or>
              js_less (js_int POSTGRES_INTEGER_MAX) (pa_priorityRank application) \<or>
              \<not> isPersistenceSafeMinorAmount (pa_bucketBeforeMinor application) \<or>
              \<not> isPersistenceSafeMinorAmount (pa_appliedAmountMinor application) \<or>
              \<not> isPersistenceSafeMinorAmount (pa_bucketAfterMinor application)
      then Some AMOUNT_OUT_OF_RANGE
      else if \<not> list_all (isCanonicalIdentityString nfc)
                [pa_componentType application, pa_componentCode application,
                 pa_bucketContextKey application, pa_bucketInstanceId application,
                 pa_sourceLineageSetRef application]
      then Some FORMATION_CONTEXT_INCOMPLETE
      else if pa_appliedAmountMinor application = 0 \<or>
              pa_bucketBeforeMinor application \<noteq>
                pa_appliedAmountMinor application + pa_bucketAfterMinor application
      then Some CONSERVATION_FAILURE
      else None)"

text \<open>The loop over the applications, with its running sum.\<close>

fun applications_identity_sum ::
  "(jstr \<Rightarrow> jstr) \<Rightarrow> PlannedLegalApplication list \<Rightarrow> int \<Rightarrow>
   LegalApplicationPlanErrorCode + int" where
  "applications_identity_sum nfc [] applicationSum = Inr applicationSum"
| "applications_identity_sum nfc (application # rest) applicationSum =
     (case application_identity_error nfc application of
        Some code \<Rightarrow> Inl code
      | None \<Rightarrow>
          if POSTGRES_BIGINT_MAX < applicationSum + pa_appliedAmountMinor application
          then Inl AMOUNT_OUT_OF_RANGE
          else applications_identity_sum nfc rest
                 (applicationSum + pa_appliedAmountMinor application))"

definition expectedHeldReason :: "int \<Rightarrow> int \<Rightarrow> jstr" where
  "expectedHeldReason appliedAmountMinor heldRemainderMinor =
     (if heldRemainderMinor = 0 then LEGAL_APPLICATION_PLAN_HELD_NONE
      else if appliedAmountMinor = 0 then held_reason_text NO_ELIGIBLE_OUTSTANDING
      else held_reason_text EXCESS_OVER_ELIGIBLE_OUTSTANDING)"

definition identity_strings :: "LegalApplicationPlanIdentityFacts \<Rightarrow> jstr list" where
  "identity_strings facts =
     [fp_tenantId facts, fp_caseId facts, fp_collectionId facts, fp_currency facts,
      fp_effectiveDate facts, fp_snapshotRef facts, fp_snapshotHash facts,
      fp_sourceVersionSetHash facts, fp_historyBoundaryRef facts]"

definition identityError ::
  "(jstr \<Rightarrow> jstr) \<Rightarrow> LegalApplicationPlanIdentityFacts \<Rightarrow> LegalApplicationPlanErrorCode option" where
  "identityError nfc facts =
     (if fp_direction facts \<noteq> APPLY then Some DIRECTION_NOT_AUTHORIZED
      else if \<not> js_is_integer (fp_minorUnit facts) \<or> js_less (fp_minorUnit facts) (js_int 0) \<or>
              js_less (js_int POSTGRES_INTEGER_MAX) (fp_minorUnit facts)
      then Some AMOUNT_OUT_OF_RANGE
      else if \<not> isPersistenceSafeMinorAmount (fp_receiptAmountMinor facts) \<or>
              \<not> isPersistenceSafeMinorAmount (fp_appliedAmountMinor facts) \<or>
              \<not> isPersistenceSafeMinorAmount (fp_heldRemainderMinor facts)
      then Some AMOUNT_OUT_OF_RANGE
      else if \<not> list_all (isCanonicalIdentityString nfc) (identity_strings facts)
      then Some FORMATION_CONTEXT_INCOMPLETE
      else if fp_heldReason facts \<noteq> LEGAL_APPLICATION_PLAN_HELD_NONE \<and>
              fp_heldReason facts \<noteq> held_reason_text NO_ELIGIBLE_OUTSTANDING \<and>
              fp_heldReason facts \<noteq> held_reason_text EXCESS_OVER_ELIGIBLE_OUTSTANDING
      then Some FORMATION_CONTEXT_INCOMPLETE
      else if fp_heldReason facts \<noteq>
                expectedHeldReason (fp_appliedAmountMinor facts) (fp_heldRemainderMinor facts)
      then Some CONSERVATION_FAILURE
      else
        case applications_identity_sum nfc (fp_applications facts) 0 of
          Inl code \<Rightarrow> Some code
        | Inr applicationSum \<Rightarrow>
            if applicationSum \<noteq> fp_appliedAmountMinor facts \<or>
               fp_receiptAmountMinor facts \<noteq>
                 fp_appliedAmountMinor facts + fp_heldRemainderMinor facts
            then Some CONSERVATION_FAILURE
            else None)"

subsection \<open>The text\<close>

text \<open>
  \<open>quoteCanonicalString\<close> is \<open>JSON.stringify\<close> on a string. The template literals of the
  source spell a member as the quoted name, a colon and the text of the value; the names are
  ASCII, so that \<open>json_quote\<close> spells them the same way.
\<close>

definition quoteCanonicalString :: "jstr \<Rightarrow> jstr" where
  "quoteCanonicalString value = json_quote value"

definition plan_member :: "string \<Rightarrow> jstr \<Rightarrow> jstr" where
  "plan_member name value = json_quote (js name) @ [58] @ value"

definition serializeApplication :: "PlannedLegalApplication \<Rightarrow> jstr" where
  "serializeApplication application =
     [123] @ plan_member ''component'' (quoteCanonicalString (pa_componentType application)) @
     [44] @ plan_member ''componentCode'' (quoteCanonicalString (pa_componentCode application)) @
     [44] @ plan_member ''priorityRank'' (number_to_string (pa_priorityRank application)) @
     [44] @ plan_member ''bucketContextKey''
              (quoteCanonicalString (pa_bucketContextKey application)) @
     [44] @ plan_member ''bucketInstanceId''
              (quoteCanonicalString (pa_bucketInstanceId application)) @
     [44] @ plan_member ''sourceLineageSetRef''
              (quoteCanonicalString (pa_sourceLineageSetRef application)) @
     [44] @ plan_member ''bucketBeforeMinor''
              (quoteCanonicalString (js_of_int (pa_bucketBeforeMinor application))) @
     [44] @ plan_member ''appliedAmountMinor''
              (quoteCanonicalString (js_of_int (pa_appliedAmountMinor application))) @
     [44] @ plan_member ''bucketAfterMinor''
              (quoteCanonicalString (js_of_int (pa_bucketAfterMinor application))) @ [125]"

definition canonical_plan_text :: "LegalApplicationPlanIdentityFacts \<Rightarrow> jstr" where
  "canonical_plan_text facts =
     [123] @ plan_member ''contractVersion''
               (quoteCanonicalString LEGAL_APPLICATION_PLAN_FINGERPRINT_CONTRACT_VERSION) @
     [44] @ plan_member ''direction'' (quoteCanonicalString (fp_direction facts)) @
     [44] @ plan_member ''tenantId'' (quoteCanonicalString (fp_tenantId facts)) @
     [44] @ plan_member ''caseId'' (quoteCanonicalString (fp_caseId facts)) @
     [44] @ plan_member ''collectionId'' (quoteCanonicalString (fp_collectionId facts)) @
     [44] @ plan_member ''currency'' (quoteCanonicalString (fp_currency facts)) @
     [44] @ plan_member ''minorUnit'' (number_to_string (fp_minorUnit facts)) @
     [44] @ plan_member ''effectiveDate'' (quoteCanonicalString (fp_effectiveDate facts)) @
     [44] @ plan_member ''snapshotRef'' (quoteCanonicalString (fp_snapshotRef facts)) @
     [44] @ plan_member ''snapshotHash'' (quoteCanonicalString (fp_snapshotHash facts)) @
     [44] @ plan_member ''sourceVersionSetHash''
              (quoteCanonicalString (fp_sourceVersionSetHash facts)) @
     [44] @ plan_member ''historyBoundaryRef''
              (quoteCanonicalString (fp_historyBoundaryRef facts)) @
     [44] @ plan_member ''receiptAmountMinor''
              (quoteCanonicalString (js_of_int (fp_receiptAmountMinor facts))) @
     [44] @ plan_member ''appliedAmountMinor''
              (quoteCanonicalString (js_of_int (fp_appliedAmountMinor facts))) @
     [44] @ plan_member ''heldRemainderMinor''
              (quoteCanonicalString (js_of_int (fp_heldRemainderMinor facts))) @
     [44] @ plan_member ''heldReason'' (quoteCanonicalString (fp_heldReason facts)) @
     [44] @ plan_member ''applications''
              ([91] @ json_join (map serializeApplication (fp_applications facts)) @ [93]) @ [125]"

definition serializeCanonicalLegalApplicationPlanIdentity ::
  "(jstr \<Rightarrow> jstr) \<Rightarrow> LegalApplicationPlanIdentityFacts \<Rightarrow>
   LegalApplicationPlanErrorCode + bytes" where
  "serializeCanonicalLegalApplicationPlanIdentity nfc facts =
     (case identityError nfc facts of
        Some errorCode \<Rightarrow> Inl errorCode
      | None \<Rightarrow> Inr (utf8 (canonical_plan_text facts)))"

definition fingerprintLegalApplicationPlan ::
  "(jstr \<Rightarrow> jstr) \<Rightarrow> (bytes \<Rightarrow> jstr) \<Rightarrow> LegalApplicationPlanIdentityFacts \<Rightarrow>
   LegalApplicationPlanErrorCode + jstr" where
  "fingerprintLegalApplicationPlan nfc sha facts =
     (case serializeCanonicalLegalApplicationPlanIdentity nfc facts of
        Inl code \<Rightarrow> Inl code
      | Inr identityBytes \<Rightarrow>
          let digest = sha (plan_domain_separator @ identityBytes) in
          case parsePlanFingerprint (VStr (js ''rcv-legal-application-plan:v1:sha256:'' @ digest)) of
            Inl _ \<Rightarrow> Inl FORMATION_CONTEXT_INCOMPLETE
          | Inr planFingerprint \<Rightarrow> Inr planFingerprint)"

subsection \<open>What the checks let through\<close>

definition planned_ok :: "(jstr \<Rightarrow> jstr) \<Rightarrow> PlannedLegalApplication \<Rightarrow> bool" where
  "planned_ok nfc a \<longleftrightarrow>
     pa_componentType a \<in> set LEGAL_APPLICATION_COMPONENT_TYPES \<and>
     js_nat_upto POSTGRES_INTEGER_MAX (pa_priorityRank a) \<and>
     isPersistenceSafeMinorAmount (pa_bucketBeforeMinor a) \<and>
     isPersistenceSafeMinorAmount (pa_appliedAmountMinor a) \<and>
     isPersistenceSafeMinorAmount (pa_bucketAfterMinor a) \<and>
     list_all (isCanonicalIdentityString nfc)
       [pa_componentType a, pa_componentCode a, pa_bucketContextKey a, pa_bucketInstanceId a,
        pa_sourceLineageSetRef a] \<and>
     pa_appliedAmountMinor a \<noteq> 0 \<and>
     pa_bucketBeforeMinor a = pa_appliedAmountMinor a + pa_bucketAfterMinor a"

lemma application_identity_error_None [simp]:
  "application_identity_error nfc a = None \<longleftrightarrow> planned_ok nfc a"
  unfolding application_identity_error_def planned_ok_def js_nat_upto_def guard_None by blast

lemma applications_identity_sum_Inr:
  assumes "0 \<le> acc" "acc \<le> POSTGRES_BIGINT_MAX"
  shows "applications_identity_sum nfc as acc = Inr s \<longleftrightarrow>
     list_all (planned_ok nfc) as \<and> s = acc + sum_list (map pa_appliedAmountMinor as) \<and>
     s \<le> POSTGRES_BIGINT_MAX"
  using assms
proof (induction as arbitrary: acc)
  case Nil
  then show ?case by auto
next
  case (Cons a as)
  let ?acc = "acc + pa_appliedAmountMinor a" and ?rest = "sum_list (map pa_appliedAmountMinor as)"
  have rest: "0 \<le> ?rest" if "list_all (planned_ok nfc) as"
    using that by (intro sum_list_nonneg_int)
      (auto simp: list_all_iff planned_ok_def isPersistenceSafeMinorAmount_def)
  have acc: "0 \<le> ?acc" if "planned_ok nfc a"
    using that Cons.prems by (simp add: planned_ok_def isPersistenceSafeMinorAmount_def)
  have "applications_identity_sum nfc (a # as) acc = Inr s \<longleftrightarrow>
      planned_ok nfc a \<and> ?acc \<le> POSTGRES_BIGINT_MAX \<and> applications_identity_sum nfc as ?acc = Inr s"
    unfolding applications_identity_sum.simps opt_Inr guard_Inr application_identity_error_None
    by (simp add: linorder_not_less)
  also have "\<dots> \<longleftrightarrow> planned_ok nfc a \<and> list_all (planned_ok nfc) as \<and>
      s = ?acc + ?rest \<and> s \<le> POSTGRES_BIGINT_MAX"
    using Cons.IH [of ?acc] acc rest by auto
  finally show ?case by (simp add: add.assoc)
qed

text \<open>
  The facts of a plan, without reference to the order of the checks: the receipt is the sum of
  what was applied and what is held, what was applied is the sum of the applications, and the
  reason says why something is held.
\<close>

definition plan_facts_ok :: "(jstr \<Rightarrow> jstr) \<Rightarrow> LegalApplicationPlanIdentityFacts \<Rightarrow> bool" where
  "plan_facts_ok nfc f \<longleftrightarrow>
     fp_direction f = APPLY \<and> js_nat_upto POSTGRES_INTEGER_MAX (fp_minorUnit f) \<and>
     isPersistenceSafeMinorAmount (fp_receiptAmountMinor f) \<and>
     isPersistenceSafeMinorAmount (fp_appliedAmountMinor f) \<and>
     isPersistenceSafeMinorAmount (fp_heldRemainderMinor f) \<and>
     list_all (isCanonicalIdentityString nfc) (identity_strings f) \<and>
     fp_heldReason f = expectedHeldReason (fp_appliedAmountMinor f) (fp_heldRemainderMinor f) \<and>
     list_all (planned_ok nfc) (fp_applications f) \<and>
     fp_appliedAmountMinor f = sum_list (map pa_appliedAmountMinor (fp_applications f)) \<and>
     fp_receiptAmountMinor f = fp_appliedAmountMinor f + fp_heldRemainderMinor f"

lemma case_code_None:
  "(case m of Inl code \<Rightarrow> Some code | Inr s \<Rightarrow> g s) = None \<longleftrightarrow> (\<exists>s. m = Inr s \<and> g s = None)"
  by (auto split: sum.splits)

lemma expectedHeldReason_known:
  "expectedHeldReason a h = LEGAL_APPLICATION_PLAN_HELD_NONE \<or>
   expectedHeldReason a h = held_reason_text NO_ELIGIBLE_OUTSTANDING \<or>
   expectedHeldReason a h = held_reason_text EXCESS_OVER_ELIGIBLE_OUTSTANDING"
  by (simp add: expectedHeldReason_def)

lemma identityError_None: "identityError nfc f = None \<longleftrightarrow> plan_facts_ok nfc f"
proof -
  have bound: "0 \<le> (0 :: int)" "0 \<le> POSTGRES_BIGINT_MAX" by (simp_all add: POSTGRES_BIGINT_MAX_def)
  show ?thesis
    unfolding identityError_def guard_None case_code_None plan_facts_ok_def js_nat_upto_def
      applications_identity_sum_Inr [OF bound]
    using expectedHeldReason_known [of "fp_appliedAmountMinor f" "fp_heldRemainderMinor f"]
    by (auto simp: isPersistenceSafeMinorAmount_def simp del: held_reason_text.simps)
qed

lemma nonblank_prefixed_hex:
  assumes "SHA256_LOWERCASE_HEX h" "p \<noteq> []" "\<not> js_whitespace (hd p)"
  shows "nonblank (p @ h)"
proof -
  from assms(1) have h: "h \<noteq> []" "list_all hex_digit h" by (auto simp: SHA256_LOWERCASE_HEX_def)
  then have "hex_digit (last h)" by (simp add: list_all_iff)
  then have "\<not> js_whitespace (last h)" by (auto simp: hex_digit_def js_whitespace_def)
  with h assms(2,3) show ?thesis by (simp add: nonblank_def js_trim_eq_iff)
qed

lemma fingerprint_Inr:
  assumes "sha_hex sha"
  shows "fingerprintLegalApplicationPlan nfc sha f = Inr p \<longleftrightarrow>
     plan_facts_ok nfc f \<and>
     p = js ''rcv-legal-application-plan:v1:sha256:'' @
         sha (plan_domain_separator @ utf8 (canonical_plan_text f))"
proof -
  have "nonblank (js ''rcv-legal-application-plan:v1:sha256:'' @ sha b)" for b
    using assms by (intro nonblank_prefixed_hex) (simp_all add: sha_hex_def js_eval js_whitespace_def)
  then show ?thesis
    by (auto simp: fingerprintLegalApplicationPlan_def guard_simps Let_def parsePlanFingerprint_def
        serializeCanonicalLegalApplicationPlanIdentity_def identityError_None
        split: sum.splits option.splits)
qed

subsection \<open>The text is Unicode text\<close>

text \<open>
  \<open>JSON.stringify\<close> escapes unpaired surrogates, so that no character of the text is lost in
  UTF-8: \<open>scalars s\<close> says that every code point of \<open>s\<close> is a Unicode scalar value.
\<close>

definition scalars :: "jstr \<Rightarrow> bool" where
  "scalars s \<longleftrightarrow> list_all (\<lambda>c. \<not> surrogate c) (code_points s)"

lemma scalars_Nil [simp]: "scalars []"
  by (simp add: scalars_def)

lemma scalars_Cons [simp]: "\<not> surrogate u \<Longrightarrow> scalars (u # s) = scalars s"
  by (cases s) (auto simp: scalars_def surrogate_def high_surrogate_def)

lemma scalars_append: "list_all (\<lambda>u. \<not> surrogate u) p \<Longrightarrow> scalars (p @ s) = scalars s"
  by (induction p) auto

lemma scalars_pair: "high_surrogate u \<Longrightarrow> low_surrogate v \<Longrightarrow> scalars (u # v # s) = scalars s"
  by (auto simp: scalars_def surrogate_def)

lemma hex_char_small: "n < 16 \<Longrightarrow> hex_char n < 128"
  by (simp add: hex_char_def)

lemma quote_unit_cases:
  "list_all (\<lambda>v. v < 128) (quote_unit u) \<or> (quote_unit u = [u] \<and> \<not> surrogate u)"
proof -
  have "hex_char (n mod 16) < 128" for n by (rule hex_char_small) simp
  then show ?thesis by (simp add: quote_unit_def)
qed

lemma quote_unit_plain:
  "list_all (\<lambda>u. \<not> surrogate u) (quote_unit u)" "u < 65536 \<Longrightarrow> wf_jstr (quote_unit u)"
  using quote_unit_cases [of u] by (auto simp: list_all_iff surrogate_def wf_jstr_def)

lemma scalars_quote_body: "scalars (quote_body s @ r) = scalars r"
proof (induction s rule: quote_body.induct)
  case (2 u)
  then show ?case by (simp add: scalars_append [OF quote_unit_plain(1)])
next
  case (3 u v s)
  show ?case
  proof (cases "high_surrogate u \<and> low_surrogate v")
    case True
    with "3.IH"(1) [OF True] show ?thesis by (simp add: scalars_pair)
  next
    case False
    then have "quote_body (u # v # s) = quote_unit u @ quote_body (v # s)" by auto
    with "3.IH"(2) [OF False] show ?thesis by (simp add: scalars_append [OF quote_unit_plain(1)])
  qed
qed simp

lemma wf_quote_body: "wf_jstr s \<Longrightarrow> wf_jstr (quote_body s)"
  by (induction s rule: quote_body.induct) (auto simp: quote_unit_plain(2))

lemma quoted_text [simp]:
  "scalars (quoteCanonicalString s @ r) = scalars r"
  "wf_jstr s \<Longrightarrow> wf_jstr (quoteCanonicalString s)"
  by (simp_all add: quoteCanonicalString_def json_quote_def scalars_quote_body wf_quote_body surrogate_def)

lemma scalars_member [simp]: "scalars (plan_member n v @ r) = scalars (v @ r)"
  using quoted_text(1) [of "js n" "58 # v @ r"]
  by (simp add: plan_member_def quoteCanonicalString_def surrogate_def)

lemma wf_member [simp]: "wf_jstr (plan_member n v) = wf_jstr v"
  using quoted_text(2) [of "js n"] by (simp add: plan_member_def quoteCanonicalString_def)

lemma scalars_nat [simp]: "scalars (js_of_nat n @ r) = scalars r"
  using js_of_nat_ascii [of n] by (intro scalars_append) (auto simp: list_all_iff surrogate_def)

lemma wf_js_of_int [simp]: "wf_jstr (js_of_int i)"
  by (simp add: js_of_int_def)

text \<open>A number in range is written as the decimal text of an integer.\<close>

lemma number_text_upto:
  assumes "js_nat_upto POSTGRES_INTEGER_MAX n"
  obtains k where "n = js_int (int k)" "number_to_string n = js_of_nat k"
proof -
  from assms obtain i where i: "n = js_int i" "0 \<le> i" "i \<le> POSTGRES_INTEGER_MAX"
    by (auto simp: js_nat_upto_iff)
  then have "number_to_string n = js_of_int i"
    by (simp add: number_to_string_int POSTGRES_INTEGER_MAX_def)
  with i that [of "nat i"] show ?thesis by simp
qed

definition wf_planned :: "PlannedLegalApplication \<Rightarrow> bool" where
  "wf_planned a \<longleftrightarrow> wf_jstr (pa_componentType a) \<and> wf_jstr (pa_componentCode a) \<and>
     wf_jstr (pa_bucketContextKey a) \<and> wf_jstr (pa_bucketInstanceId a) \<and>
     wf_jstr (pa_sourceLineageSetRef a)"

definition wf_plan_facts :: "LegalApplicationPlanIdentityFacts \<Rightarrow> bool" where
  "wf_plan_facts f \<longleftrightarrow> list_all wf_jstr (fp_direction f # fp_heldReason f # identity_strings f) \<and>
     list_all wf_planned (fp_applications f)"

lemma application_text:
  assumes "planned_ok nfc a"
  shows "scalars (serializeApplication a @ r) = scalars r"
    and "wf_planned a \<Longrightarrow> wf_jstr (serializeApplication a)"
proof -
  from assms obtain k where k: "number_to_string (pa_priorityRank a) = js_of_nat k"
    by (auto simp: planned_ok_def elim: number_text_upto)
  show "scalars (serializeApplication a @ r) = scalars r"
    "wf_planned a \<Longrightarrow> wf_jstr (serializeApplication a)"
    by (simp_all add: serializeApplication_def k wf_planned_def surrogate_def)
qed

lemma applications_text:
  assumes "list_all (planned_ok nfc) as"
  shows "scalars (json_join (map serializeApplication as) @ r) = scalars r"
    and "list_all wf_planned as \<Longrightarrow> wf_jstr (json_join (map serializeApplication as))"
proof -
  show "scalars (json_join (map serializeApplication as) @ r) = scalars r" using assms
    by (induction as rule: induct_list012) (simp_all add: application_text(1) [where nfc = nfc] surrogate_def)
  show "list_all wf_planned as \<Longrightarrow> wf_jstr (json_join (map serializeApplication as))" using assms
    by (induction as rule: induct_list012) (simp_all add: application_text(2) [where nfc = nfc])
qed

lemma plan_text_unicode:
  assumes "plan_facts_ok nfc f" "wf_plan_facts f"
  shows "well_formed_utf16 (canonical_plan_text f)"
proof -
  from assms(1) obtain k where k: "number_to_string (fp_minorUnit f) = js_of_nat k"
    by (auto simp: plan_facts_ok_def elim: number_text_upto)
  from assms(1) have apps: "list_all (planned_ok nfc) (fp_applications f)" by (simp add: plan_facts_ok_def)
  have "scalars (canonical_plan_text f)"
    by (simp add: canonical_plan_text_def k surrogate_def applications_text(1) [OF apps])
  moreover have "wf_jstr (canonical_plan_text f)"
    using assms(2) applications_text(2) [OF apps]
    by (simp add: canonical_plan_text_def k wf_plan_facts_def identity_strings_def
        LEGAL_APPLICATION_PLAN_FINGERPRINT_CONTRACT_VERSION_def)
  ultimately show ?thesis by (simp add: well_formed_utf16_def scalars_def)
qed

subsection \<open>The text determines the facts\<close>

lemma quoted_split [simp]:
  "wf_jstr a \<Longrightarrow> wf_jstr b \<Longrightarrow>
   quoteCanonicalString a @ r = quoteCanonicalString b @ r' \<longleftrightarrow> a = b \<and> r = r'"
  unfolding quoteCanonicalString_def using quote.enc_prefix [of a b r r'] by auto

lemma js_of_int_inj [simp]: "0 \<le> i \<Longrightarrow> 0 \<le> k \<Longrightarrow> js_of_int i = js_of_int k \<longleftrightarrow> i = k"
  by (simp add: eq_nat_nat_iff)

lemma number_comma_split:
  assumes "js_nat_upto POSTGRES_INTEGER_MAX m" "js_nat_upto POSTGRES_INTEGER_MAX n"
  shows "number_to_string m @ 44 # r = number_to_string n @ 44 # r' \<longleftrightarrow> m = n \<and> r = r'"
proof -
  obtain i where i: "m = js_int (int i)" "number_to_string m = js_of_nat i"
    using assms(1) by (rule number_text_upto)
  obtain k where k: "n = js_int (int k)" "number_to_string n = js_of_nat k"
    using assms(2) by (rule number_text_upto)
  show ?thesis unfolding i(2) k(2) unfolding i(1) k(1)
    using js_of_nat_split [of i "44 # r" k "44 # r'"] by (auto simp: js_digit_def)
qed

text \<open>Everything of an application but its sequence number, which is its place in the list.\<close>

definition unsequenced :: "PlannedLegalApplication \<Rightarrow> PlannedLegalApplication" where
  "unsequenced a = a\<lparr>pa_sequence := 0\<rparr>"

interpretation application_enc: prefix_code serializeApplication
  "{a. planned_ok nfc a \<and> wf_planned a \<and> pa_sequence a = 0}" for nfc
proof
  fix a b r r'
  assume "a \<in> {a. planned_ok nfc a \<and> wf_planned a \<and> pa_sequence a = 0}"
    "b \<in> {a. planned_ok nfc a \<and> wf_planned a \<and> pa_sequence a = 0}"
    and "serializeApplication a @ r = serializeApplication b @ r'"
  then show "a = b \<and> r = r'"
    by (cases a; cases b)
      (auto simp: serializeApplication_def plan_member_def planned_ok_def wf_planned_def
        number_comma_split isPersistenceSafeMinorAmount_def simp del: js_of_int_nonneg)
qed

lemma serialize_unsequenced [simp]: "serializeApplication (unsequenced a) = serializeApplication a"
  by (simp add: serializeApplication_def unsequenced_def)

lemma unsequenced_ok [simp]:
  "planned_ok nfc (unsequenced a) = planned_ok nfc a" "wf_planned (unsequenced a) = wf_planned a"
  "pa_sequence (unsequenced a) = 0"
  by (simp_all add: planned_ok_def wf_planned_def unsequenced_def)

lemma application_split:
  assumes "planned_ok nfc a" "wf_planned a" "planned_ok nfc b" "wf_planned b"
    and "serializeApplication a @ r = serializeApplication b @ r'"
  shows "unsequenced a = unsequenced b \<and> r = r'"
  by (rule application_enc.enc_prefix [of _ nfc]) (use assms in simp_all)

lemma applications_join:
  "json_join (map serializeApplication (x # xs)) @ 93 # t =
   serializeApplication x @
   (if xs = [] then 93 # t else 44 # json_join (map serializeApplication xs) @ 93 # t)"
  by (cases xs) auto

lemma application_not_close:
  "json_join (map serializeApplication (x # xs)) @ 93 # t \<noteq> 93 # u"
  unfolding applications_join by (simp add: serializeApplication_def)

lemma applications_split:
  assumes "list_all (planned_ok nfc) as" "list_all wf_planned as"
    and "list_all (planned_ok nfc) bs" "list_all wf_planned bs"
    and "json_join (map serializeApplication as) @ 93 # r =
         json_join (map serializeApplication bs) @ 93 # r'"
  shows "map unsequenced as = map unsequenced bs \<and> r = r'"
  using assms
proof (induction as arbitrary: bs)
  case Nil
  then show ?case using application_not_close [of _ _ r' r] by (cases bs) fastforce+
next
  case (Cons a as)
  have "bs \<noteq> []" using Cons.prems(5) application_not_close [of a as r r'] by auto
  then obtain b bs' where bs: "bs = b # bs'" by (cases bs) auto
  have "serializeApplication a @
      (if as = [] then 93 # r else 44 # json_join (map serializeApplication as) @ 93 # r) =
      serializeApplication b @
      (if bs' = [] then 93 # r' else 44 # json_join (map serializeApplication bs') @ 93 # r')"
    using Cons.prems(5) unfolding bs applications_join .
  moreover have "planned_ok nfc a" "wf_planned a" "planned_ok nfc b" "wf_planned b"
    using Cons.prems(1-4) by (simp_all add: bs)
  ultimately have hd: "unsequenced a = unsequenced b" and
    tl: "(if as = [] then 93 # r else 44 # json_join (map serializeApplication as) @ 93 # r) =
         (if bs' = [] then 93 # r' else 44 # json_join (map serializeApplication bs') @ 93 # r')"
    using application_split [of nfc a b] by blast+
  show ?case
  proof (cases "as = []")
    case True
    with tl hd bs show ?thesis by (auto split: if_splits)
  next
    case False
    with tl have "bs' \<noteq> []" "json_join (map serializeApplication as) @ 93 # r =
        json_join (map serializeApplication bs') @ 93 # r'" by (auto split: if_splits)
    with Cons.IH [of bs'] Cons.prems hd show ?thesis by (simp add: bs)
  qed
qed

definition unsequenced_facts :: "LegalApplicationPlanIdentityFacts \<Rightarrow> LegalApplicationPlanIdentityFacts" where
  "unsequenced_facts f = f\<lparr>fp_applications := map unsequenced (fp_applications f)\<rparr>"

lemma plan_text_inj:
  assumes "plan_facts_ok nfc f" "wf_plan_facts f" "plan_facts_ok nfc g" "wf_plan_facts g"
    and "canonical_plan_text f = canonical_plan_text g"
  shows "unsequenced_facts f = unsequenced_facts g"
proof -
  have apps: "json_join (map serializeApplication (fp_applications f)) @ 93 # r =
      json_join (map serializeApplication (fp_applications g)) @ 93 # r' \<longleftrightarrow>
      map unsequenced (fp_applications f) = map unsequenced (fp_applications g) \<and>
      json_join (map serializeApplication (fp_applications f)) @ 93 # r =
      json_join (map serializeApplication (fp_applications g)) @ 93 # r'" for r r'
    using applications_split [of nfc "fp_applications f" "fp_applications g" r r'] assms(1-4)
    by (auto simp: plan_facts_ok_def wf_plan_facts_def)
  note assms(5) [unfolded canonical_plan_text_def plan_member_def]
  then show ?thesis using assms(1-4) apps [of "[125]" "[125]"]
    by (cases f; cases g)
      (auto simp: plan_facts_ok_def wf_plan_facts_def identity_strings_def number_comma_split
        isPersistenceSafeMinorAmount_def unsequenced_facts_def simp del: js_of_int_nonneg)
qed

subsection \<open>Properties\<close>

text \<open>a fingerprint is issued exactly for facts in which the receipt is applied plus held, the
  applied amount is the sum of the applications, each application balances its bucket, the reason
  explains the held remainder, and every number and string is in range and in NFC. It is then the
  prefixed digest of the domain separator and the canonical text.\<close>

theorem plan_fingerprint_spec:
  assumes "sha_hex sha"
  shows "fingerprintLegalApplicationPlan nfc sha f = Inr p \<longleftrightarrow>
     plan_facts_ok nfc f \<and>
     p = js ''rcv-legal-application-plan:v1:sha256:'' @
         sha (plan_domain_separator @ utf8 (canonical_plan_text f))"
  using assms by (rule fingerprint_Inr)

definition sample_application :: PlannedLegalApplication where
  "sample_application =
     \<lparr>pa_componentType = PRINCIPAL, pa_componentCode = js ''ASIL'', pa_sourceLineageSetRef = js ''l'',
      pa_bucketContextKey = js ''bctx:v1:sha256:'' @ sample_hash 1,
      pa_bucketInstanceId = js ''binst:v1:sha256:'' @ sample_hash 3,
      pa_priorityRank = js_int 10, pa_sequence = 1, pa_appliedAmountMinor = 600,
      pa_bucketBeforeMinor = 600, pa_bucketAfterMinor = 0\<rparr>"

definition sample_facts :: LegalApplicationPlanIdentityFacts where
  "sample_facts =
     \<lparr>fp_direction = APPLY, fp_tenantId = js ''t'', fp_caseId = js ''c'', fp_collectionId = js ''k'',
      fp_currency = js ''TRY'', fp_minorUnit = js_int 2, fp_effectiveDate = js ''2024-03-01'',
      fp_snapshotRef = js ''rcv-app-snapshot:v1:sha256:'' @ sample_hash 3,
      fp_snapshotHash = sample_hash 3, fp_sourceVersionSetHash = sample_hash 7,
      fp_historyBoundaryRef = js ''h'', fp_receiptAmountMinor = 700, fp_appliedAmountMinor = 600,
      fp_heldRemainderMinor = 100, fp_heldReason = js ''EXCESS_OVER_ELIGIBLE_OUTSTANDING'',
      fp_applications = [sample_application]\<rparr>"

lemma sample_facts_ok: "plan_facts_ok (\<lambda>s. s) sample_facts" "wf_plan_facts sample_facts"
  by (simp_all add: plan_facts_ok_def wf_plan_facts_def sample_facts_def sample_application_def
      planned_ok_def wf_planned_def identity_strings_def isCanonicalIdentityString_def sample_hash_def
      expectedHeldReason_def js_nat_upto_iff isPersistenceSafeMinorAmount_def js_eval
      LEGAL_APPLICATION_COMPONENT_TYPES_def POSTGRES_BIGINT_MAX_def POSTGRES_INTEGER_MAX_def APPLY_def
      PRINCIPAL_def)

theorem plan_fingerprint_spec_witness:
  "fingerprintLegalApplicationPlan (\<lambda>s. s) (\<lambda>b. sample_hash 5) sample_facts =
   Inr (js ''rcv-legal-application-plan:v1:sha256:'' @ sample_hash 5)"
proof -
  have "sha_hex (\<lambda>b. sample_hash 5)" by (simp add: sha_hex_def sample_hash_hex)
  then show ?thesis using plan_fingerprint_spec sample_facts_ok(1) by blast
qed

text \<open>The hashed bytes of a plan determine its facts: two plans with the same bytes agree in every
  fact of the plan and of its applications (the sequence number is the place in the list).\<close>

theorem plan_bytes_determine_facts:
  assumes "serializeCanonicalLegalApplicationPlanIdentity nfc f = Inr b"
    and "serializeCanonicalLegalApplicationPlanIdentity nfc g = Inr b"
    and "wf_plan_facts f" "wf_plan_facts g"
  shows "unsequenced_facts f = unsequenced_facts g"
proof -
  have ok: "plan_facts_ok nfc f" "plan_facts_ok nfc g"
    and bytes: "utf8 (canonical_plan_text f) = utf8 (canonical_plan_text g)"
    using assms(1,2)
    by (auto simp: serializeCanonicalLegalApplicationPlanIdentity_def identityError_None [symmetric]
        split: option.splits)
  have "canonical_plan_text f = canonical_plan_text g"
    using plan_text_unicode [OF ok(1) assms(3)] plan_text_unicode [OF ok(2) assms(4)] bytes
    by (rule utf8_inj)
  then show ?thesis by (rule plan_text_inj [OF ok(1) assms(3) ok(2) assms(4)])
qed

theorem plan_bytes_determine_facts_witness:
  "{g. wf_plan_facts g \<and> serializeCanonicalLegalApplicationPlanIdentity (\<lambda>s. s) g =
         serializeCanonicalLegalApplicationPlanIdentity (\<lambda>s. s) sample_facts} \<subseteq>
   {g. unsequenced_facts g = unsequenced_facts sample_facts}"
proof -
  have "serializeCanonicalLegalApplicationPlanIdentity (\<lambda>s. s) sample_facts =
      Inr (utf8 (canonical_plan_text sample_facts))"
    using sample_facts_ok(1)
    by (simp add: serializeCanonicalLegalApplicationPlanIdentity_def identityError_None [symmetric])
  then show ?thesis
    using plan_bytes_determine_facts [OF _ _ _ sample_facts_ok(2)] by auto
qed

end
