(* ===== verification/PlanBuilder.thy ===== *)
theory PlanBuilder
  imports PlanFingerprint
begin

section \<open>Assembly of the plan (legal-application-plan-builder.ts)\<close>

text \<open>
  The builder takes the command, the validated snapshot and the result of the allocation, checks
  that they belong together, derives what is held and why, fingerprints the whole and projects
  the attributions. It repeats the checks of the layers below; the lemmas show that none of them
  can fire on what the allocation returns for a validated snapshot, so that the builder refuses
  only a command that does not belong to the snapshot.
\<close>

record AssembleLegalApplicationPlanInput =
  ab_direction :: jsval
  ab_command :: BuildLegalApplicationPlanCommand
  ab_validatedSnapshot :: ValidatedCanonicalSnapshotV1
  ab_allocationResult :: PureApplyAllocationResult
  ab_attributions :: "PlannedApplicationAttribution list option"

definition command_identity_strings ::
  "BuildLegalApplicationPlanCommand \<Rightarrow> ValidatedCanonicalSnapshotV1 \<Rightarrow> jstr list" where
  "command_identity_strings command validatedSnapshot =
     [cm_tenantId command, cm_caseId command, cm_collectionId command, cm_currency command,
      cm_applicationEffectiveDate command, vs_snapshotRef validatedSnapshot,
      vs_snapshotHash validatedSnapshot, sn_sourceVersionSetHash (vs_snapshot validatedSnapshot),
      sn_historyBoundaryRef (vs_snapshot validatedSnapshot)]"

definition commandContextError ::
  "(jstr \<Rightarrow> jstr) \<Rightarrow> AssembleLegalApplicationPlanInput \<Rightarrow> LegalApplicationPlanErrorCode option" where
  "commandContextError nfc input =
     (let command = ab_command input; validatedSnapshot = ab_validatedSnapshot input;
          snapshot = vs_snapshot validatedSnapshot in
      if ab_direction input \<noteq> VStr APPLY then Some DIRECTION_NOT_AUTHORIZED
      else if cm_tenantId command \<noteq> sn_tenantId snapshot then Some TENANT_CONTEXT_MISMATCH
      else if cm_caseId command \<noteq> sn_caseId snapshot then Some CASE_CONTEXT_MISMATCH
      else if cm_collectionId command \<noteq> sn_targetCollectionId snapshot
      then Some FORMATION_CONTEXT_INCOMPLETE
      else if cm_currency command \<noteq> sn_currency snapshot \<or>
              \<not> js_num_eq (cm_minorUnit command) (sn_minorUnit snapshot)
      then Some CURRENCY_OR_MINOR_UNIT_INVALID
      else if cm_applicationEffectiveDate command \<noteq> sn_applicationEffectiveDate snapshot
      then Some EFFECTIVE_DATE_MISMATCH
      else if cm_receiptAmountMinor command \<noteq> sn_receiptAmountMinor snapshot
      then Some CONSERVATION_FAILURE
      else if cm_expectedSnapshotRef command \<noteq> vs_snapshotRef validatedSnapshot \<or>
              cm_expectedSnapshotHash command \<noteq> vs_snapshotHash validatedSnapshot
      then Some FORMATION_CONTEXT_INCOMPLETE
      else if cm_expectedSourceVersionSetHash command \<noteq> sn_sourceVersionSetHash snapshot
      then Some SOURCE_VERSION_INCOMPLETE
      else if cm_expectedHistoryBoundaryRef command \<noteq> sn_historyBoundaryRef snapshot
      then Some FORMATION_CONTEXT_INCOMPLETE
      else if \<not> list_all (isCanonicalIdentityString nfc)
                (command_identity_strings command validatedSnapshot)
      then Some FORMATION_CONTEXT_INCOMPLETE
      else None)"

definition compareAllocationSequence ::
  "PureAppliedBucketAllocation \<Rightarrow> PureAppliedBucketAllocation \<Rightarrow> int option" where
  "compareAllocationSequence left right =
     (case (legalApplicationComponentRank (al_componentType left),
            legalApplicationComponentRank (al_componentType right)) of
        (Some leftRank, Some rightRank) \<Rightarrow>
          Some (if leftRank \<noteq> rightRank then (if leftRank < rightRank then -1 else 1)
                else if \<not> js_num_eq (al_priorityRank left) (al_priorityRank right)
                then (if js_less (al_priorityRank left) (al_priorityRank right) then -1 else 1)
                else compareBucketContextKeysUtf8
                       (al_bucketContextKey left) (al_bucketContextKey right))
      | _ \<Rightarrow> None)"

definition allocationMatchesBucket ::
  "PureAppliedBucketAllocation \<Rightarrow> CanonicalLegalBucketV1 \<Rightarrow> bool" where
  "allocationMatchesBucket allocation bucket \<longleftrightarrow>
     al_componentType allocation = bk_componentType bucket \<and>
     al_componentCode allocation = bk_componentCode bucket \<and>
     js_num_eq (al_priorityRank allocation) (bk_priorityRank bucket) \<and>
     al_bucketContextKey allocation = bk_bucketContextKey bucket \<and>
     al_bucketInstanceId allocation = bk_bucketInstanceId bucket \<and>
     al_sourceLineageSetRef allocation = bk_sourceLineageSetRef bucket \<and>
     al_bucketBeforeMinor allocation = bk_bucketBalanceMinor bucket"

text \<open>
  The checks of one allocation against the instances seen before it and the allocation just
  before it; \<open>new Map(list)\<close> keeps the last bucket of an instance.
\<close>

definition bucketsByInstance ::
  "CanonicalLegalBucketV1 list \<Rightarrow> (jstr \<rightharpoonup> CanonicalLegalBucketV1)" where
  "bucketsByInstance buckets = map_of (rev (map (\<lambda>b. (bk_bucketInstanceId b, b)) buckets))"

definition allocation_step_error ::
  "(jstr \<rightharpoonup> CanonicalLegalBucketV1) \<Rightarrow> jstr list \<Rightarrow> PureAppliedBucketAllocation option \<Rightarrow>
   PureAppliedBucketAllocation \<Rightarrow> LegalApplicationPlanErrorCode option" where
  "allocation_step_error bucketsOf seenInstances previous allocation =
     (if \<not> js_is_integer (al_priorityRank allocation) \<or>
         js_less (al_priorityRank allocation) (js_int 0) \<or>
         js_less (js_int POSTGRES_INTEGER_MAX) (al_priorityRank allocation) \<or>
         \<not> isPersistenceSafeMinorAmount (al_bucketBeforeMinor allocation) \<or>
         \<not> isPersistenceSafeMinorAmount (al_appliedAmountMinor allocation) \<or>
         \<not> isPersistenceSafeMinorAmount (al_bucketAfterMinor allocation)
      then Some AMOUNT_OUT_OF_RANGE
      else if al_appliedAmountMinor allocation = 0 then Some CONSERVATION_FAILURE
      else if al_bucketBeforeMinor allocation \<noteq>
                al_appliedAmountMinor allocation + al_bucketAfterMinor allocation
      then Some CONSERVATION_FAILURE
      else if al_bucketInstanceId allocation \<in> set seenInstances
      then Some FORMATION_CONTEXT_INCOMPLETE
      else
        case bucketsOf (al_bucketInstanceId allocation) of
          None \<Rightarrow> Some FORMATION_CONTEXT_INCOMPLETE
        | Some bucket \<Rightarrow>
            if \<not> allocationMatchesBucket allocation bucket then Some FORMATION_CONTEXT_INCOMPLETE
            else
              case previous of
                None \<Rightarrow> None
              | Some prev \<Rightarrow>
                  (case compareAllocationSequence prev allocation of
                     None \<Rightarrow> Some FORMATION_CONTEXT_INCOMPLETE
                   | Some comparison \<Rightarrow>
                       if 0 \<le> comparison then Some FORMATION_CONTEXT_INCOMPLETE else None))"

fun allocations_sum ::
  "(jstr \<rightharpoonup> CanonicalLegalBucketV1) \<Rightarrow> jstr list \<Rightarrow> PureAppliedBucketAllocation option \<Rightarrow> int \<Rightarrow>
   PureAppliedBucketAllocation list \<Rightarrow> LegalApplicationPlanErrorCode + int" where
  "allocations_sum bucketsOf seenInstances previous acc [] = Inr acc"
| "allocations_sum bucketsOf seenInstances previous acc (allocation # rest) =
     (case allocation_step_error bucketsOf seenInstances previous allocation of
        Some code \<Rightarrow> Inl code
      | None \<Rightarrow>
          if POSTGRES_BIGINT_MAX < acc + al_appliedAmountMinor allocation
          then Inl AMOUNT_OUT_OF_RANGE
          else allocations_sum bucketsOf (al_bucketInstanceId allocation # seenInstances)
                 (Some allocation) (acc + al_appliedAmountMinor allocation) rest)"

definition allocationError ::
  "AssembleLegalApplicationPlanInput \<Rightarrow> LegalApplicationPlanErrorCode option" where
  "allocationError input =
     (case ab_allocationResult input of
        Inl code \<Rightarrow> Some code
      | Inr result \<Rightarrow>
          if \<not> isPersistenceSafeMinorAmount (as_totalAppliedMinor result) \<or>
             \<not> isPersistenceSafeMinorAmount (as_remainingAmountMinor result)
          then Some AMOUNT_OUT_OF_RANGE
          else
            case allocations_sum
                   (bucketsByInstance
                     (sn_canonicalBuckets (vs_snapshot (ab_validatedSnapshot input))))
                   [] None 0 (as_allocations result) of
              Inl code \<Rightarrow> Some code
            | Inr allocationSum \<Rightarrow>
                if allocationSum \<noteq> as_totalAppliedMinor result \<or>
                   cm_receiptAmountMinor (ab_command input) \<noteq>
                     as_totalAppliedMinor result + as_remainingAmountMinor result
                then Some CONSERVATION_FAILURE
                else None)"

definition planned_application ::
  "nat \<Rightarrow> PureAppliedBucketAllocation \<Rightarrow> PlannedLegalApplication" where
  "planned_application index allocation =
     \<lparr>pa_componentType = al_componentType allocation,
      pa_componentCode = al_componentCode allocation,
      pa_sourceLineageSetRef = al_sourceLineageSetRef allocation,
      pa_bucketContextKey = al_bucketContextKey allocation,
      pa_bucketInstanceId = al_bucketInstanceId allocation,
      pa_priorityRank = al_priorityRank allocation,
      pa_sequence = index + 1,
      pa_appliedAmountMinor = al_appliedAmountMinor allocation,
      pa_bucketBeforeMinor = al_bucketBeforeMinor allocation,
      pa_bucketAfterMinor = al_bucketAfterMinor allocation\<rparr>"

definition plannedApplications ::
  "PureAppliedBucketAllocation list \<Rightarrow> PlannedLegalApplication list" where
  "plannedApplications allocations = map (\<lambda>(i, a). planned_application i a) (indexed allocations)"

record HeldFacts =
  hf_heldRemainderMinor :: int
  hf_runtimeReason :: "LegalApplicationHeldReason option"
  hf_identityReason :: jstr

definition heldFacts :: "int \<Rightarrow> int \<Rightarrow> HeldFacts" where
  "heldFacts totalAppliedMinor remainingAmountMinor =
     (if remainingAmountMinor = 0
      then \<lparr>hf_heldRemainderMinor = remainingAmountMinor, hf_runtimeReason = None,
            hf_identityReason = LEGAL_APPLICATION_PLAN_HELD_NONE\<rparr>
      else
        let runtimeReason = (if totalAppliedMinor = 0 then NO_ELIGIBLE_OUTSTANDING
                             else EXCESS_OVER_ELIGIBLE_OUTSTANDING)
        in \<lparr>hf_heldRemainderMinor = remainingAmountMinor, hf_runtimeReason = Some runtimeReason,
            hf_identityReason = held_reason_text runtimeReason\<rparr>)"

text \<open>An attribution that does not fit its application is left out.\<close>

definition attribution_fits ::
  "(jstr \<Rightarrow> jstr) \<Rightarrow> (jstr \<rightharpoonup> PlannedLegalApplication) \<Rightarrow> PlannedApplicationAttribution \<Rightarrow> bool" where
  "attribution_fits nfc applicationsByInstance attribution =
     (case applicationsByInstance (at_bucketInstanceId attribution) of
        None \<Rightarrow> False
      | Some application \<Rightarrow>
          at_sourceLineageSetRef attribution = pa_sourceLineageSetRef application \<and>
          isCanonicalIdentityString nfc (at_bucketInstanceId attribution) \<and>
          isCanonicalIdentityString nfc (at_sourceLineageSetRef attribution) \<and>
          (case at_attributedAmountMinor attribution of
             None \<Rightarrow> True
           | Some n \<Rightarrow> isPersistenceSafeMinorAmount n \<and> n \<le> pa_appliedAmountMinor application))"

definition projectAttributions ::
  "(jstr \<Rightarrow> jstr) \<Rightarrow> PlannedApplicationAttribution list option \<Rightarrow> PlannedLegalApplication list \<Rightarrow>
   PlannedApplicationAttribution list" where
  "projectAttributions nfc source applications =
     (case source of
        None \<Rightarrow> []
      | Some attributions \<Rightarrow>
          if length attributions = 0 \<or> MAX_ATTRIBUTION_COUNT < length attributions then []
          else filter
                 (attribution_fits nfc
                   (map_of (rev (map (\<lambda>a. (pa_bucketInstanceId a, a)) applications))))
                 attributions)"

definition fingerprint_facts ::
  "AssembleLegalApplicationPlanInput \<Rightarrow> PureApplyAllocationSuccess \<Rightarrow>
   LegalApplicationPlanIdentityFacts" where
  "fingerprint_facts input result =
     (let command = ab_command input; validatedSnapshot = ab_validatedSnapshot input;
          snapshot = vs_snapshot validatedSnapshot;
          held = heldFacts (as_totalAppliedMinor result) (as_remainingAmountMinor result) in
      \<lparr>fp_direction = APPLY, fp_tenantId = cm_tenantId command, fp_caseId = cm_caseId command,
       fp_collectionId = cm_collectionId command, fp_currency = cm_currency command,
       fp_minorUnit = cm_minorUnit command,
       fp_effectiveDate = cm_applicationEffectiveDate command,
       fp_snapshotRef = vs_snapshotRef validatedSnapshot,
       fp_snapshotHash = vs_snapshotHash validatedSnapshot,
       fp_sourceVersionSetHash = sn_sourceVersionSetHash snapshot,
       fp_historyBoundaryRef = sn_historyBoundaryRef snapshot,
       fp_receiptAmountMinor = cm_receiptAmountMinor command,
       fp_appliedAmountMinor = as_totalAppliedMinor result,
       fp_heldRemainderMinor = hf_heldRemainderMinor held,
       fp_heldReason = hf_identityReason held,
       fp_applications = plannedApplications (as_allocations result)\<rparr>)"

definition assembleLegalApplicationPlan ::
  "(jstr \<Rightarrow> jstr) \<Rightarrow> (bytes \<Rightarrow> jstr) \<Rightarrow> AssembleLegalApplicationPlanInput \<Rightarrow>
   LegalApplicationPlanErrorCode + LegalApplicationPlan" where
  "assembleLegalApplicationPlan nfc sha input =
     (case commandContextError nfc input of
        Some contextError \<Rightarrow> Inl contextError
      | None \<Rightarrow>
     (case allocationError input of
        Some resultError \<Rightarrow> Inl resultError
      | None \<Rightarrow>
     (case ab_allocationResult input of
        Inl code \<Rightarrow> Inl code
      | Inr result \<Rightarrow>
     (case fingerprintLegalApplicationPlan nfc sha (fingerprint_facts input result) of
        Inl code \<Rightarrow> Inl code
      | Inr planFingerprint \<Rightarrow>
          let command = ab_command input; validatedSnapshot = ab_validatedSnapshot input;
              snapshot = vs_snapshot validatedSnapshot;
              applications = plannedApplications (as_allocations result);
              held = heldFacts (as_totalAppliedMinor result) (as_remainingAmountMinor result) in
          Inr \<lparr>lp_direction = APPLY, lp_planFingerprint = planFingerprint,
               lp_tenantId = cm_tenantId command, lp_caseId = cm_caseId command,
               lp_collectionId = cm_collectionId command, lp_currency = cm_currency command,
               lp_minorUnit = cm_minorUnit command,
               lp_snapshotRef = vs_snapshotRef validatedSnapshot,
               lp_snapshotHash = vs_snapshotHash validatedSnapshot,
               lp_sourceVersionSetHash = sn_sourceVersionSetHash snapshot,
               lp_historyBoundaryRef = sn_historyBoundaryRef snapshot,
               lp_applicationEffectiveDate = cm_applicationEffectiveDate command,
               lp_receiptAmountMinor = cm_receiptAmountMinor command,
               lp_appliedAmountMinor = as_totalAppliedMinor result,
               lp_heldRemainderMinor = hf_heldRemainderMinor held,
               lp_heldReason = hf_runtimeReason held,
               lp_applications = applications,
               lp_attributions = projectAttributions nfc (ab_attributions input) applications\<rparr>))))"

subsection \<open>What the context check lets through\<close>

definition command_bound ::
  "BuildLegalApplicationPlanCommand \<Rightarrow> ValidatedCanonicalSnapshotV1 \<Rightarrow> bool" where
  "command_bound c v \<longleftrightarrow>
     cm_tenantId c = sn_tenantId (vs_snapshot v) \<and> cm_caseId c = sn_caseId (vs_snapshot v) \<and>
     cm_collectionId c = sn_targetCollectionId (vs_snapshot v) \<and>
     cm_currency c = sn_currency (vs_snapshot v) \<and>
     js_num_eq (cm_minorUnit c) (sn_minorUnit (vs_snapshot v)) \<and>
     cm_applicationEffectiveDate c = sn_applicationEffectiveDate (vs_snapshot v) \<and>
     cm_receiptAmountMinor c = sn_receiptAmountMinor (vs_snapshot v) \<and>
     cm_expectedSnapshotRef c = vs_snapshotRef v \<and> cm_expectedSnapshotHash c = vs_snapshotHash v \<and>
     cm_expectedSourceVersionSetHash c = sn_sourceVersionSetHash (vs_snapshot v) \<and>
     cm_expectedHistoryBoundaryRef c = sn_historyBoundaryRef (vs_snapshot v)"

lemma commandContextError_None:
  "commandContextError nfc input = None \<longleftrightarrow>
     ab_direction input = VStr APPLY \<and> command_bound (ab_command input) (ab_validatedSnapshot input) \<and>
     list_all (isCanonicalIdentityString nfc)
       (command_identity_strings (ab_command input) (ab_validatedSnapshot input))"
  unfolding commandContextError_def Let_def guard_None command_bound_def by blast

subsection \<open>No check fires on the result of an allocation\<close>

text \<open>What the checks of the allocation and of the fingerprint rely on in a validated snapshot.\<close>

definition bucket_canonical :: "(jstr \<Rightarrow> jstr) \<Rightarrow> CanonicalLegalBucketV1 \<Rightarrow> bool" where
  "bucket_canonical nfc b \<longleftrightarrow>
     bk_componentType b \<in> set LEGAL_APPLICATION_COMPONENT_TYPES \<and>
     BUCKET_CONTEXT_KEY (bk_bucketContextKey b) \<and>
     list_all (isCanonicalIdentityString nfc)
       [bk_componentType b, bk_componentCode b, bk_bucketContextKey b, bk_bucketInstanceId b,
        bk_sourceLineageSetRef b]"

definition snapshot_canonical :: "(jstr \<Rightarrow> jstr) \<Rightarrow> CanonicalReceivableApplicationSnapshotV1 \<Rightarrow> bool" where
  "snapshot_canonical nfc sn \<longleftrightarrow>
     buckets_admissible sn \<and> list_all (bucket_canonical nfc) (sn_canonicalBuckets sn) \<and>
     distinct (map bk_bucketInstanceId (sn_canonicalBuckets sn)) \<and>
     js_nat_upto POSTGRES_INTEGER_MAX (sn_minorUnit sn)"

lemma strict_legal_order:
  assumes "snapshot_canonical nfc sn"
  shows "sorted_wrt (\<lambda>a b. compareRankedBuckets (ranked a) (ranked b) < 0) (legal_order sn)"
proof -
  from assms have adm: "buckets_admissible sn" by (simp add: snapshot_canonical_def)
  have "compareRankedBuckets (ranked a) (ranked b) \<noteq> 0"
    if "a \<in> set (legal_order sn)" "b \<in> set (legal_order sn)"
      "bk_bucketContextKey a \<noteq> bk_bucketContextKey b" for a b
  proof
    assume z: "compareRankedBuckets (ranked a) (ranked b) = 0"
    have dom: "ranked a \<in> ranked_domain" "ranked b \<in> ranked_domain"
      using that(1,2) legal_order_admissible [OF adm] by (auto intro: admissible_ranked_domain)
    from z have "compareRankedBuckets (ranked b) (ranked a) \<le> 0"
      using ranked_order.cmp_flip [OF dom(2,1)] by simp
    with z have "utf8 (bk_bucketContextKey a) = utf8 (bk_bucketContextKey b)"
      using compareRankedBuckets_antisym [OF dom] by simp
    moreover have "BUCKET_CONTEXT_KEY (bk_bucketContextKey a)" "BUCKET_CONTEXT_KEY (bk_bucketContextKey b)"
      using assms that(1,2) by (auto simp: snapshot_canonical_def bucket_canonical_def list_all_iff)
    ultimately show False using that(3) by (simp add: BUCKET_CONTEXT_KEY_utf8_inj)
  qed
  note strict = this
  show ?thesis
    unfolding sorted_wrt_iff_nth_less
  proof (intro allI impI)
    fix i j assume ij: "i < j" "j < length (legal_order sn)"
    then have "compareRankedBuckets (ranked (legal_order sn ! i)) (ranked (legal_order sn ! j)) \<le> 0"
      using sorted_legal_order [OF adm] unfolding sorted_wrt_iff_nth_less by blast
    moreover have "bk_bucketContextKey (legal_order sn ! i) \<noteq> bk_bucketContextKey (legal_order sn ! j)"
      using nth_eq_iff_index_eq [OF distinct_legal_order [OF adm], of i j] ij by simp
    then have "compareRankedBuckets (ranked (legal_order sn ! i)) (ranked (legal_order sn ! j)) \<noteq> 0"
      using ij by (intro strict) (simp_all del: set_legal_order)
    ultimately show "compareRankedBuckets (ranked (legal_order sn ! i)) (ranked (legal_order sn ! j)) < 0"
      by simp
  qed
qed

lemma sequence_of_allocations:
  assumes "legalApplicationComponentRank (bk_componentType b) \<noteq> None"
    and "legalApplicationComponentRank (bk_componentType c) \<noteq> None"
  shows "compareAllocationSequence (mk_allocation b x y) (mk_allocation c z w) =
     Some (compareRankedBuckets (ranked b) (ranked c))"
  using assms by (auto simp: compareAllocationSequence_def compareRankedBuckets_def ranked_def)

text \<open>The allocation before, when there is one, stems from a bucket that ranks before all others.\<close>

definition precedes ::
  "CanonicalReceivableApplicationSnapshotV1 \<Rightarrow> PureAppliedBucketAllocation option \<Rightarrow>
   CanonicalLegalBucketV1 list \<Rightarrow> bool" where
  "precedes sn previous bs \<longleftrightarrow>
     previous = None \<or>
     (\<exists>a x y. previous = Some (mk_allocation a x y) \<and> bucket_admissible sn a \<and>
        list_all (\<lambda>b. compareRankedBuckets (ranked a) (ranked b) < 0) bs)"

lemma precedes_Cons: "precedes sn p (b # bs) \<Longrightarrow> precedes sn p bs"
  by (auto simp: precedes_def)

lemma allocation_step_ok:
  assumes "bucket_admissible sn b" "precedes sn previous (b # bs)" "M (bk_bucketInstanceId b) = Some b"
    and "bk_bucketInstanceId b \<notin> set seen" "0 < ap" "ap \<le> bk_bucketBalanceMinor b"
  shows "allocation_step_error M seen previous (mk_allocation b ap (bk_bucketBalanceMinor b - ap)) = None"
proof -
  let ?a = "mk_allocation b ap (bk_bucketBalanceMinor b - ap)"
  have "compareAllocationSequence p ?a = Some (compareRankedBuckets (ranked a) (ranked b)) \<and>
      compareRankedBuckets (ranked a) (ranked b) < 0"
    if "bucket_admissible sn a" "p = mk_allocation a x y" "compareRankedBuckets (ranked a) (ranked b) < 0"
    for p a x y
    using that assms(1) by (simp add: sequence_of_allocations bucket_admissible_def)
  then have prev: "previous = None \<or>
      (\<exists>p q. previous = Some p \<and> compareAllocationSequence p ?a = Some q \<and> q < 0)"
    using assms(2) unfolding precedes_def by fastforce
  have "allocationMatchesBucket ?a b" and rank: "js_nat_upto POSTGRES_INTEGER_MAX (bk_priorityRank b)"
    and amounts: "isPersistenceSafeMinorAmount (bk_bucketBalanceMinor b)"
    using assms(1) by (auto simp: allocationMatchesBucket_def bucket_admissible_def js_nat_upto_iff)
  with prev assms(3-6) show ?thesis
    unfolding allocation_step_error_def
    by (auto simp: js_nat_upto_def isPersistenceSafeMinorAmount_def)
qed

lemma allocations_sum_pour:
  assumes "list_all (bucket_admissible sn) bs"
    and "sorted_wrt (\<lambda>a b. compareRankedBuckets (ranked a) (ranked b) < 0) bs"
    and "distinct (map bk_bucketInstanceId bs)" "set (map bk_bucketInstanceId bs) \<inter> set seen = {}"
    and "\<forall>b \<in> set bs. M (bk_bucketInstanceId b) = Some b"
    and "0 \<le> r" "0 \<le> acc" "acc + r \<le> POSTGRES_BIGINT_MAX" "precedes sn previous bs"
  shows "allocations_sum M seen previous acc (pour bs r) = Inr (acc + min r (balances bs))"
  using assms
proof (induction bs arbitrary: seen previous acc r)
  case Nil
  then show ?case by simp
next
  case (Cons b bs)
  let ?bal = "bk_bucketBalanceMinor b"
  let ?ap = "min ?bal r"
  have b: "bucket_admissible sn b" "0 \<le> ?bal"
    using Cons.prems(1) by (auto simp: bucket_admissible_def isPersistenceSafeMinorAmount_def)
  have nn: "0 \<le> balances bs"
    using Cons.prems(1) by (intro nonneg_balances_sum)
      (auto simp: nonneg_balances_def list_all_iff bucket_admissible_def)
  show ?case
  proof (cases "?ap = 0")
    case True
    have "allocations_sum M seen previous acc (pour bs r) = Inr (acc + min r (balances bs))"
      using Cons.prems precedes_Cons by (intro Cons.IH) auto
    moreover from True b nn Cons.prems(6) have "min r (balances bs) = min r (balances (b # bs))"
      by (auto simp: min_def split: if_splits)
    ultimately show ?thesis using True by (simp only: pour.simps Let_def if_True simp_thms)
  next
    case False
    let ?a = "mk_allocation b ?ap (?bal - ?ap)"
    have "allocation_step_error M seen previous ?a = None"
      using False b Cons.prems by (intro allocation_step_ok [where sn = sn and bs = bs]) auto
    moreover have "precedes sn (Some ?a) bs"
      using b(1) Cons.prems(2) by (auto simp: precedes_def list_all_iff)
    then have "allocations_sum M (bk_bucketInstanceId b # seen) (Some ?a) (acc + ?ap) (pour bs (r - ?ap)) =
        Inr (acc + ?ap + min (r - ?ap) (balances bs))"
      using Cons.prems b by (intro Cons.IH) auto
    moreover have "acc + ?ap + min (r - ?ap) (balances bs) = acc + min r (balances (b # bs))"
      using nn b by (simp add: min_def)
    moreover have "\<not> POSTGRES_BIGINT_MAX < acc + ?ap" using Cons.prems(8) by simp
    ultimately show ?thesis using False
      by (simp only: pour.simps Let_def if_False allocations_sum.simps option.case mk_allocation_sel)
  qed
qed


lemma safe_split:
  assumes "0 < r" "r \<le> POSTGRES_BIGINT_MAX" "0 \<le> t"
  shows "isPersistenceSafeMinorAmount (min r t)" "isPersistenceSafeMinorAmount (r - min r t)"
    "isPersistenceSafeMinorAmount r"
  using assms by (auto simp: isPersistenceSafeMinorAmount_def)

lemma allocationError_waterfall:
  assumes can: "snapshot_canonical nfc (vs_snapshot (ab_validatedSnapshot input))"
    and r: "0 < r" "r \<le> POSTGRES_BIGINT_MAX" "cm_receiptAmountMinor (ab_command input) = r"
    and res: "ab_allocationResult input = Inr (waterfall_result (vs_snapshot (ab_validatedSnapshot input)) r)"
  shows "allocationError input = None"
proof -
  let ?sn = "vs_snapshot (ab_validatedSnapshot input)"
  let ?M = "bucketsByInstance (sn_canonicalBuckets ?sn)"
  have adm: "buckets_admissible ?sn" using can by (simp add: snapshot_canonical_def)
  have ids: "distinct (map bk_bucketInstanceId (sn_canonicalBuckets ?sn))"
    using can by (simp add: snapshot_canonical_def)
  have "allocations_sum ?M [] None 0 (pour (legal_order ?sn) r) = Inr (0 + min r (balances (legal_order ?sn)))"
  proof (rule allocations_sum_pour)
    show "list_all (bucket_admissible ?sn) (legal_order ?sn)"
      using legal_order_admissible [OF adm] by (auto simp: list_all_iff)
    show "sorted_wrt (\<lambda>a b. compareRankedBuckets (ranked a) (ranked b) < 0) (legal_order ?sn)"
      using can by (rule strict_legal_order)
    show "distinct (map bk_bucketInstanceId (legal_order ?sn))"
      using ids by (metis mset_eq_imp_distinct_iff mset_legal_order mset_map)
    show "\<forall>b \<in> set (legal_order ?sn). ?M (bk_bucketInstanceId b) = Some b"
      using distinct_map_of_rev [OF ids] by (simp add: bucketsByInstance_def)
  qed (use r in \<open>simp_all add: precedes_def\<close>)
  moreover have "0 \<le> balances (sn_canonicalBuckets ?sn)"
    using nonneg_balances_sum [OF nonneg_legal_order [OF adm]] by simp
  ultimately show ?thesis
    using safe_split [OF r(1,2)] r res by (simp add: allocationError_def waterfall_result_def)
qed

lemma held_facts_expected:
  "hf_identityReason (heldFacts a h) = expectedHeldReason a h"
  "hf_heldRemainderMinor (heldFacts a h) = h"
  "hf_runtimeReason (heldFacts a h) =
     (if h = 0 then None else if a = 0 then Some NO_ELIGIBLE_OUTSTANDING
      else Some EXCESS_OVER_ELIGIBLE_OUTSTANDING)"
  by (auto simp: heldFacts_def expectedHeldReason_def Let_def)

lemma planned_application_sel [simp]:
  "pa_componentType (planned_application i a) = al_componentType a"
  "pa_componentCode (planned_application i a) = al_componentCode a"
  "pa_sourceLineageSetRef (planned_application i a) = al_sourceLineageSetRef a"
  "pa_bucketContextKey (planned_application i a) = al_bucketContextKey a"
  "pa_bucketInstanceId (planned_application i a) = al_bucketInstanceId a"
  "pa_priorityRank (planned_application i a) = al_priorityRank a"
  "pa_sequence (planned_application i a) = Suc i"
  "pa_appliedAmountMinor (planned_application i a) = al_appliedAmountMinor a"
  "pa_bucketBeforeMinor (planned_application i a) = al_bucketBeforeMinor a"
  "pa_bucketAfterMinor (planned_application i a) = al_bucketAfterMinor a"
  by (simp_all add: planned_application_def)

lemma plannedApplications_map:
  assumes "\<And>i a. f (planned_application i a) = g a"
  shows "map f (plannedApplications as) = map g as"
proof -
  have "map f (plannedApplications as) = map (g \<circ> snd) (indexed as)"
    by (auto simp: plannedApplications_def assms)
  then show ?thesis by (simp add: list.map_comp [symmetric])
qed

lemma plannedApplications_nth:
  "i < length as \<Longrightarrow> plannedApplications as ! i = planned_application i (as ! i)"
  "length (plannedApplications as) = length as"
  by (simp_all add: plannedApplications_def indexed_def)

lemma plannedApplications_set:
  "p \<in> set (plannedApplications as) \<longleftrightarrow> (\<exists>i < length as. p = planned_application i (as ! i))"
  by (force simp: plannedApplications_def in_set_indexed)

lemma fingerprint_facts_ok:
  assumes can: "snapshot_canonical nfc (vs_snapshot (ab_validatedSnapshot input))"
    and ctx: "commandContextError nfc input = None"
    and r: "0 < r" "r \<le> POSTGRES_BIGINT_MAX" "cm_receiptAmountMinor (ab_command input) = r"
  shows "plan_facts_ok nfc
    (fingerprint_facts input (waterfall_result (vs_snapshot (ab_validatedSnapshot input)) r))"
proof -
  let ?sn = "vs_snapshot (ab_validatedSnapshot input)"
  let ?as = "pour (legal_order ?sn) r" and ?t = "min r (balances (sn_canonicalBuckets ?sn))"
  have adm: "buckets_admissible ?sn" using can by (simp add: snapshot_canonical_def)
  have nn: "nonneg_balances (legal_order ?sn)" using adm by (rule nonneg_legal_order)
  have bal: "0 \<le> balances (sn_canonicalBuckets ?sn)" using nonneg_balances_sum [OF nn] by simp
  have "planned_ok nfc (planned_application i a)" if a: "a \<in> set ?as" for i a
  proof -
    obtain b ap where b: "b \<in> set (sn_canonicalBuckets ?sn)"
      "a = mk_allocation b ap (bk_bucketBalanceMinor b - ap)" "0 < ap" "ap \<le> bk_bucketBalanceMinor b"
      using pour_mem [OF a nn] r(1) by auto
    moreover have "bucket_admissible ?sn b" "bucket_canonical nfc b"
      using b(1) adm can by (auto simp: buckets_admissible_def snapshot_canonical_def list_all_iff)
    ultimately show ?thesis
      by (auto simp: planned_ok_def bucket_admissible_def bucket_canonical_def isPersistenceSafeMinorAmount_def)
  qed
  then have apps: "list_all (planned_ok nfc) (plannedApplications ?as)"
    by (auto simp: list_all_iff plannedApplications_set)
  have "allocation_sum ?as 0 = Some ?t"
    using allocation_sum_pour [OF nn] r(1) by simp
  then have total: "sum_list (map pa_appliedAmountMinor (plannedApplications ?as)) = ?t"
    by (auto simp: plannedApplications_map [where g = al_appliedAmountMinor] dest: allocation_sum_sum_list)
  have unit: "js_nat_upto POSTGRES_INTEGER_MAX (cm_minorUnit (ab_command input))"
    and strs: "list_all (isCanonicalIdentityString nfc)
      (command_identity_strings (ab_command input) (ab_validatedSnapshot input))"
    using ctx can by (auto simp: commandContextError_None command_bound_def js_num_eq_def snapshot_canonical_def)
  show ?thesis
    using apps total unit strs r(3) safe_split [OF r(1,2) bal]
    by (simp add: plan_facts_ok_def fingerprint_facts_def Let_def waterfall_result_def held_facts_expected
        identity_strings_def command_identity_strings_def)
qed


subsection \<open>The plan of a command and a validated snapshot\<close>

text \<open>The plan without any check, straight from the waterfall: what the builder should return.\<close>

definition expected_plan ::
  "(jstr \<Rightarrow> jstr) \<Rightarrow> (bytes \<Rightarrow> jstr) \<Rightarrow> AssembleLegalApplicationPlanInput \<Rightarrow> LegalApplicationPlan" where
  "expected_plan nfc sha input =
     (let c = ab_command input; v = ab_validatedSnapshot input; sn = vs_snapshot v;
          res = waterfall_result sn (cm_receiptAmountMinor c);
          applied = as_totalAppliedMinor res; held = as_remainingAmountMinor res;
          apps = plannedApplications (as_allocations res) in
      \<lparr>lp_direction = APPLY,
       lp_planFingerprint = js ''rcv-legal-application-plan:v1:sha256:'' @
         sha (plan_domain_separator @ utf8 (canonical_plan_text (fingerprint_facts input res))),
       lp_tenantId = cm_tenantId c, lp_caseId = cm_caseId c, lp_collectionId = cm_collectionId c,
       lp_currency = cm_currency c, lp_minorUnit = cm_minorUnit c,
       lp_snapshotRef = vs_snapshotRef v, lp_snapshotHash = vs_snapshotHash v,
       lp_sourceVersionSetHash = sn_sourceVersionSetHash sn,
       lp_historyBoundaryRef = sn_historyBoundaryRef sn,
       lp_applicationEffectiveDate = cm_applicationEffectiveDate c,
       lp_receiptAmountMinor = cm_receiptAmountMinor c, lp_appliedAmountMinor = applied,
       lp_heldRemainderMinor = held,
       lp_heldReason = (if held = 0 then None
                        else if applied = 0 then Some NO_ELIGIBLE_OUTSTANDING
                        else Some EXCESS_OVER_ELIGIBLE_OUTSTANDING),
       lp_applications = apps,
       lp_attributions = projectAttributions nfc (ab_attributions input) apps\<rparr>)"

lemma assemble_expected:
  assumes "sha_hex sha" and can: "snapshot_canonical nfc (vs_snapshot (ab_validatedSnapshot input))"
    and alloc: "allocateValidatedSnapshotForApply
        \<lparr>ai_validatedSnapshot = ab_validatedSnapshot input, ai_direction = VStr APPLY,
         ai_receiptAmountMinor = r\<rparr> = ab_allocationResult input"
    and ok: "ab_allocationResult input = Inr res" and ctx: "commandContextError nfc input = None"
  shows "assembleLegalApplicationPlan nfc sha input = Inr (expected_plan nfc sha input)"
proof -
  let ?sn = "vs_snapshot (ab_validatedSnapshot input)"
  have r: "0 < r" "r \<le> POSTGRES_BIGINT_MAX" "r = sn_receiptAmountMinor ?sn" "res = waterfall_result ?sn r"
    using alloc unfolding ok allocate_Inr by (auto simp: apply_admissible_def)
  then have cm: "cm_receiptAmountMinor (ab_command input) = r"
    using ctx by (simp add: commandContextError_None command_bound_def)
  have "allocationError input = None"
    using can r(1,2) cm by (rule allocationError_waterfall) (simp add: ok r(4))
  moreover have "fingerprintLegalApplicationPlan nfc sha (fingerprint_facts input res) =
      Inr (js ''rcv-legal-application-plan:v1:sha256:'' @
        sha (plan_domain_separator @ utf8 (canonical_plan_text (fingerprint_facts input res))))"
    using fingerprint_Inr [OF assms(1)] fingerprint_facts_ok [OF can ctx r(1,2) cm] r(4) by simp
  ultimately show ?thesis
    by (simp add: assembleLegalApplicationPlan_def ctx ok Let_def expected_plan_def cm r(4) [symmetric]
        held_facts_expected)
qed

lemma assemble_Inr:
  "assembleLegalApplicationPlan nfc sha input = Inr plan \<longleftrightarrow>
     (\<exists>res fp. commandContextError nfc input = None \<and> allocationError input = None \<and>
        ab_allocationResult input = Inr res \<and>
        fingerprintLegalApplicationPlan nfc sha (fingerprint_facts input res) = Inr fp \<and>
        lp_direction plan = APPLY \<and> lp_planFingerprint plan = fp \<and>
        lp_tenantId plan = cm_tenantId (ab_command input) \<and>
        lp_caseId plan = cm_caseId (ab_command input) \<and>
        lp_collectionId plan = cm_collectionId (ab_command input) \<and>
        lp_currency plan = cm_currency (ab_command input) \<and>
        lp_minorUnit plan = cm_minorUnit (ab_command input) \<and>
        lp_snapshotRef plan = vs_snapshotRef (ab_validatedSnapshot input) \<and>
        lp_snapshotHash plan = vs_snapshotHash (ab_validatedSnapshot input) \<and>
        lp_sourceVersionSetHash plan =
          sn_sourceVersionSetHash (vs_snapshot (ab_validatedSnapshot input)) \<and>
        lp_historyBoundaryRef plan = sn_historyBoundaryRef (vs_snapshot (ab_validatedSnapshot input)) \<and>
        lp_applicationEffectiveDate plan = cm_applicationEffectiveDate (ab_command input) \<and>
        lp_receiptAmountMinor plan = cm_receiptAmountMinor (ab_command input) \<and>
        lp_appliedAmountMinor plan = as_totalAppliedMinor res \<and>
        lp_heldRemainderMinor plan = as_remainingAmountMinor res \<and>
        lp_heldReason plan =
          hf_runtimeReason (heldFacts (as_totalAppliedMinor res) (as_remainingAmountMinor res)) \<and>
        lp_applications plan = plannedApplications (as_allocations res) \<and>
        lp_attributions plan =
          projectAttributions nfc (ab_attributions input) (plannedApplications (as_allocations res)))"
  unfolding assembleLegalApplicationPlan_def guard_simps Let_def held_facts_expected(2)
  by (cases plan) auto

lemma allocations_sum_InrD:
  assumes "allocations_sum M seen previous acc as = Inr s"
  shows "s = acc + sum_list (map al_appliedAmountMinor as) \<and>
     distinct (map al_bucketInstanceId as) \<and> set (map al_bucketInstanceId as) \<inter> set seen = {} \<and>
     (\<forall>a \<in> set as. 0 < al_appliedAmountMinor a \<and> 0 \<le> al_bucketAfterMinor a \<and>
        al_bucketBeforeMinor a = al_appliedAmountMinor a + al_bucketAfterMinor a \<and>
        (\<exists>b. M (al_bucketInstanceId a) = Some b \<and> allocationMatchesBucket a b))"
  using assms
proof (induction as arbitrary: seen previous acc)
  case Nil
  then show ?case by simp
next
  case (Cons a as)
  then have step: "allocation_step_error M seen previous a = None"
    and rest: "allocations_sum M (al_bucketInstanceId a # seen) (Some a) (acc + al_appliedAmountMinor a) as = Inr s"
    by (auto simp: guard_simps)
  from step have "0 < al_appliedAmountMinor a" "0 \<le> al_bucketAfterMinor a"
    "al_bucketBeforeMinor a = al_appliedAmountMinor a + al_bucketAfterMinor a"
    "al_bucketInstanceId a \<notin> set seen"
    "\<exists>b. M (al_bucketInstanceId a) = Some b \<and> allocationMatchesBucket a b"
    by (auto simp: allocation_step_error_def isPersistenceSafeMinorAmount_def split: if_splits option.splits)
  with Cons.IH [OF rest] show ?case by auto
qed

lemma allocationError_NoneD:
  assumes "allocationError input = None"
  obtains res where "ab_allocationResult input = Inr res"
    "allocations_sum
       (bucketsByInstance (sn_canonicalBuckets (vs_snapshot (ab_validatedSnapshot input))))
       [] None 0 (as_allocations res) = Inr (as_totalAppliedMinor res)"
    "cm_receiptAmountMinor (ab_command input) = as_totalAppliedMinor res + as_remainingAmountMinor res"
    "0 \<le> as_remainingAmountMinor res"
  using assms that
  by (auto simp: allocationError_def case_code_None guard_simps isPersistenceSafeMinorAmount_def
      split: sum.split_asm if_split_asm)


subsection \<open>Properties\<close>

text \<open>for a validated snapshot and the allocation computed from it, the builder refuses exactly the
  commands that do not belong to the snapshot; every other command gets the plan of the waterfall:
  none of the builder's own checks of the allocation and of the fingerprint can fire.\<close>

theorem assemble_refuses_only_foreign_commands:
  assumes "sha_hex sha" "snapshot_canonical nfc (vs_snapshot (ab_validatedSnapshot input))"
    and "allocateValidatedSnapshotForApply
        \<lparr>ai_validatedSnapshot = ab_validatedSnapshot input, ai_direction = VStr APPLY,
         ai_receiptAmountMinor = r\<rparr> = ab_allocationResult input"
    and "ab_allocationResult input = Inr res"
  shows "assembleLegalApplicationPlan nfc sha input =
    (case commandContextError nfc input of
       Some e \<Rightarrow> Inl e
     | None \<Rightarrow> Inr (expected_plan nfc sha input))"
proof (cases "commandContextError nfc input")
  case None
  with assemble_expected [OF assms None] show ?thesis by simp
qed (simp add: assembleLegalApplicationPlan_def)

definition sample_validated :: ValidatedCanonicalSnapshotV1 where
  "sample_validated =
     \<lparr>vs_snapshotRef = js ''rcv-app-snapshot:v1:sha256:'' @ sample_hash 3,
      vs_snapshotHash = sample_hash 3, vs_canonicalPayload = [], vs_snapshot = sample_snapshot\<rparr>"

definition sample_plan_command :: BuildLegalApplicationPlanCommand where
  "sample_plan_command =
     \<lparr>cm_tenantId = js ''t'', cm_caseId = js ''c'', cm_collectionId = js ''col'',
      cm_receiptAmountMinor = 700, cm_currency = js ''TRY'', cm_minorUnit = js_int 2,
      cm_applicationEffectiveDate = js ''2024-03-01'',
      cm_expectedSnapshotRef = js ''rcv-app-snapshot:v1:sha256:'' @ sample_hash 3,
      cm_expectedSnapshotHash = sample_hash 3, cm_expectedSourceVersionSetHash = sample_hash 7,
      cm_expectedHistoryBoundaryRef = js ''h'', cm_idempotencyKey = js ''k'',
      cm_commandHash = js ''ch''\<rparr>"

definition sample_assembly :: AssembleLegalApplicationPlanInput where
  "sample_assembly =
     \<lparr>ab_direction = VStr APPLY, ab_command = sample_plan_command,
      ab_validatedSnapshot = sample_validated,
      ab_allocationResult = Inr (waterfall_result sample_snapshot 700), ab_attributions = None\<rparr>"

lemma sample_context: "commandContextError (\<lambda>s. s) sample_assembly = None"
  by (simp add: commandContextError_None sample_assembly_def sample_plan_command_def sample_validated_def
      sample_snapshot_def command_bound_def command_identity_strings_def isCanonicalIdentityString_def
      sample_hash_def js_eval)

lemma sample_snapshot_canonical: "snapshot_canonical (\<lambda>s. s) sample_snapshot"
proof -
  have "js_nat_upto POSTGRES_INTEGER_MAX (js_int 2)"
    by (auto simp: js_nat_upto_iff POSTGRES_INTEGER_MAX_def)
  then show ?thesis
    using sample_snapshot_admissible
    by (simp add: snapshot_canonical_def bucket_canonical_def sample_snapshot_def sample_bucket_def
        LEGAL_APPLICATION_COMPONENT_TYPES_def isCanonicalIdentityString_def BUCKET_CONTEXT_KEY_def
        sample_hash_hex)
       (simp add: sample_hash_def PRINCIPAL_def COST_def js_eval)
qed

lemma sample_allocation:
  "allocateValidatedSnapshotForApply
     \<lparr>ai_validatedSnapshot = ab_validatedSnapshot sample_assembly, ai_direction = VStr APPLY,
      ai_receiptAmountMinor = 700\<rparr> = ab_allocationResult sample_assembly"
proof -
  have "apply_admissible \<lparr>ai_validatedSnapshot = sample_validated, ai_direction = VStr APPLY,
      ai_receiptAmountMinor = 700\<rparr>"
    using sample_snapshot_admissible
    by (simp add: apply_admissible_def sample_validated_def POSTGRES_BIGINT_MAX_def)
       (simp add: sample_snapshot_def)
  then show ?thesis
    using allocate_Inr by (simp add: sample_assembly_def sample_validated_def)
qed

theorem assemble_refuses_only_foreign_commands_witness:
  "assembleLegalApplicationPlan (\<lambda>s. s) (\<lambda>b. sample_hash 5) sample_assembly =
   Inr (expected_plan (\<lambda>s. s) (\<lambda>b. sample_hash 5) sample_assembly)"
proof -
  have hex: "sha_hex (\<lambda>b. sample_hash 5)" by (simp add: sha_hex_def sample_hash_hex)
  have can: "snapshot_canonical (\<lambda>s. s) (vs_snapshot (ab_validatedSnapshot sample_assembly))"
    using sample_snapshot_canonical by (simp add: sample_assembly_def sample_validated_def)
  have res: "ab_allocationResult sample_assembly = Inr (waterfall_result sample_snapshot 700)"
    by (simp add: sample_assembly_def)
  show ?thesis
    using assemble_refuses_only_foreign_commands [OF hex can sample_allocation res] sample_context
    by simp
qed

text \<open>C4: whatever allocation it is given, a plan the builder returns conserves the receipt: receipt is
  applied plus held, applied is the sum of the applications, each application takes a positive amount
  from its bucket and leaves the rest, no bucket instance is served twice, the applications are
  numbered from one, and a reason is given exactly when something is held.\<close>

theorem plan_conserves_receipt:
  assumes "assembleLegalApplicationPlan nfc sha input = Inr plan"
  shows "lp_receiptAmountMinor plan = lp_appliedAmountMinor plan + lp_heldRemainderMinor plan \<and>
    lp_appliedAmountMinor plan = sum_list (map pa_appliedAmountMinor (lp_applications plan)) \<and>
    0 \<le> lp_heldRemainderMinor plan \<and>
    list_all (\<lambda>a. 0 < pa_appliedAmountMinor a \<and> 0 \<le> pa_bucketAfterMinor a \<and>
      pa_bucketBeforeMinor a = pa_appliedAmountMinor a + pa_bucketAfterMinor a) (lp_applications plan) \<and>
    distinct (map pa_bucketInstanceId (lp_applications plan)) \<and>
    map pa_sequence (lp_applications plan) = [1..<Suc (length (lp_applications plan))] \<and>
    (lp_heldReason plan = None \<longleftrightarrow> lp_heldRemainderMinor plan = 0)"
proof -
  obtain res where res: "allocationError input = None" "ab_allocationResult input = Inr res"
    "lp_receiptAmountMinor plan = cm_receiptAmountMinor (ab_command input)"
    "lp_appliedAmountMinor plan = as_totalAppliedMinor res"
    "lp_heldRemainderMinor plan = as_remainingAmountMinor res"
    "lp_heldReason plan =
       hf_runtimeReason (heldFacts (as_totalAppliedMinor res) (as_remainingAmountMinor res))"
    "lp_applications plan = plannedApplications (as_allocations res)"
    using assms unfolding assemble_Inr by blast
  obtain M where sum: "allocations_sum M [] None 0 (as_allocations res) = Inr (as_totalAppliedMinor res)"
    and rec: "cm_receiptAmountMinor (ab_command input) = as_totalAppliedMinor res + as_remainingAmountMinor res"
    "0 \<le> as_remainingAmountMinor res"
    using res(1) by (rule allocationError_NoneD) (simp add: res(2))
  note all = allocations_sum_InrD [OF sum]
  have numbers: "map pa_sequence (plannedApplications as) = [1..<Suc (length as)]" for as
    by (rule nth_equalityI) (simp_all add: plannedApplications_nth del: upt_Suc)
  have "list_all (\<lambda>a. 0 < pa_appliedAmountMinor a \<and> 0 \<le> pa_bucketAfterMinor a \<and>
      pa_bucketBeforeMinor a = pa_appliedAmountMinor a + pa_bucketAfterMinor a)
      (plannedApplications (as_allocations res))"
    using all by (auto simp: list_all_iff plannedApplications_set)
  moreover have "map pa_appliedAmountMinor (plannedApplications (as_allocations res)) =
      map al_appliedAmountMinor (as_allocations res)"
    "map pa_bucketInstanceId (plannedApplications (as_allocations res)) =
      map al_bucketInstanceId (as_allocations res)"
    by (rule plannedApplications_map; simp)+
  ultimately show ?thesis
    unfolding res(3-7) rec held_facts_expected numbers
    using all rec(2) by (simp add: plannedApplications_nth)
qed

theorem plan_conserves_receipt_witness:
  "sum_list (map pa_appliedAmountMinor (plannedApplications (pour (legal_order sample_snapshot) 700))) =
   min 700 (balances (sn_canonicalBuckets sample_snapshot))"
proof -
  have "sha_hex (\<lambda>b. sample_hash 5)" by (simp add: sha_hex_def sample_hash_hex)
  then have "assembleLegalApplicationPlan (\<lambda>s. s) (\<lambda>b. sample_hash 5) sample_assembly =
      Inr (expected_plan (\<lambda>s. s) (\<lambda>b. sample_hash 5) sample_assembly)"
    using sample_snapshot_canonical sample_allocation sample_context
    by (intro assemble_expected) (simp_all add: sample_assembly_def sample_validated_def)
  from plan_conserves_receipt [OF this] show ?thesis
    by (simp add: expected_plan_def Let_def sample_assembly_def sample_validated_def
        sample_plan_command_def waterfall_result_def)
qed

text \<open>an attribution reaches the plan only when it was submitted, its bucket instance is served by
  the plan with the same source lineage, and it claims no more than that application applied.\<close>

theorem attributions_within_applications:
  assumes "assembleLegalApplicationPlan nfc sha input = Inr plan" "t \<in> set (lp_attributions plan)"
  shows "\<exists>a submitted. a \<in> set (lp_applications plan) \<and>
    ab_attributions input = Some submitted \<and> t \<in> set submitted \<and>
    length submitted \<le> MAX_ATTRIBUTION_COUNT \<and>
    pa_bucketInstanceId a = at_bucketInstanceId t \<and>
    pa_sourceLineageSetRef a = at_sourceLineageSetRef t \<and>
    at_attributedAmountMinor t \<in> insert None (Some ` {0..pa_appliedAmountMinor a})"
proof -
  have att: "t \<in> set (projectAttributions nfc (ab_attributions input) (lp_applications plan))"
    using assms unfolding assemble_Inr by metis
  then obtain submitted where some: "ab_attributions input = Some submitted"
    by (cases "ab_attributions input") (auto simp: projectAttributions_def)
  with att have sub: "t \<in> set submitted" "length submitted \<le> MAX_ATTRIBUTION_COUNT" and
    fits: "attribution_fits nfc
      (map_of (rev (map (\<lambda>a. (pa_bucketInstanceId a, a)) (lp_applications plan)))) t"
    by (auto simp: projectAttributions_def split: if_splits)
  from fits obtain a where m:
    "map_of (rev (map (\<lambda>a. (pa_bucketInstanceId a, a)) (lp_applications plan))) (at_bucketInstanceId t) = Some a"
    and lin: "at_sourceLineageSetRef t = pa_sourceLineageSetRef a"
    and amount: "case at_attributedAmountMinor t of None \<Rightarrow> True
       | Some n \<Rightarrow> isPersistenceSafeMinorAmount n \<and> n \<le> pa_appliedAmountMinor a"
    by (auto simp: attribution_fits_def split: option.splits)
  moreover have "a \<in> set (lp_applications plan)" "pa_bucketInstanceId a = at_bucketInstanceId t"
    using map_of_rev_SomeD [OF m] by simp_all
  moreover have "at_attributedAmountMinor t \<in> insert None (Some ` {0..pa_appliedAmountMinor a})"
    using amount by (auto simp: isPersistenceSafeMinorAmount_def split: option.splits)
  ultimately show ?thesis using some sub lin
    by (intro exI [of _ a] exI [of _ submitted]) simp
qed


definition sample_attribution :: PlannedApplicationAttribution where
  "sample_attribution =
     \<lparr>at_bucketInstanceId = js ''binst:v1:sha256:'' @ sample_hash 3,
      at_sourceLineageSetRef = js ''lineage'', at_attributedAmountMinor = Some 100\<rparr>"

lemma sample_planned_applications:
  "plannedApplications (pour (legal_order sample_snapshot) 700) =
     [planned_application 0 (mk_allocation (sample_bucket COST 3 1 250) 250 0),
      planned_application 1 (mk_allocation (sample_bucket COST 2 5 300) 300 0),
      planned_application 2 (mk_allocation (sample_bucket PRINCIPAL 1 10 1000) 150 850)]"
  by (simp add: plannedApplications_def indexed_def legal_order_def ranked_buckets_def sample_snapshot_def
      compareRankedBuckets_def ranked_def sample_bucket_def legalApplicationComponentRank_def Let_def
      min_def upt_rec)

theorem attributions_within_applications_witness:
  "\<exists>a. a \<in> set (plannedApplications (pour (legal_order sample_snapshot) 700)) \<and>
     pa_bucketInstanceId a = at_bucketInstanceId sample_attribution \<and>
     at_attributedAmountMinor sample_attribution \<in> insert None (Some ` {0..pa_appliedAmountMinor a})"
proof -
  let ?in = "sample_assembly\<lparr>ab_attributions := Some [sample_attribution]\<rparr>"
  have "sha_hex (\<lambda>b. sample_hash 5)" by (simp add: sha_hex_def sample_hash_hex)
  moreover have "commandContextError (\<lambda>s. s) ?in = None"
    using sample_context by (simp add: commandContextError_None)
  ultimately have plan: "assembleLegalApplicationPlan (\<lambda>s. s) (\<lambda>b. sample_hash 5) ?in =
      Inr (expected_plan (\<lambda>s. s) (\<lambda>b. sample_hash 5) ?in)"
    using sample_snapshot_canonical sample_allocation
    by (intro assemble_expected) (simp_all add: sample_assembly_def sample_validated_def)
  have apps: "lp_applications (expected_plan (\<lambda>s. s) (\<lambda>b. sample_hash 5) ?in) =
      plannedApplications (pour (legal_order sample_snapshot) 700)"
    by (simp add: expected_plan_def Let_def sample_assembly_def sample_validated_def
        sample_plan_command_def waterfall_result_def)
  have "sample_attribution \<in> set (lp_attributions (expected_plan (\<lambda>s. s) (\<lambda>b. sample_hash 5) ?in))"
    by (simp add: expected_plan_def Let_def sample_assembly_def sample_validated_def
        sample_plan_command_def waterfall_result_def sample_planned_applications projectAttributions_def
        attribution_fits_def sample_attribution_def sample_bucket_def isCanonicalIdentityString_def
        MAX_ATTRIBUTION_COUNT_def isPersistenceSafeMinorAmount_def POSTGRES_BIGINT_MAX_def js_eval)
  from attributions_within_applications [OF plan this] show ?thesis unfolding apps by blast
qed

end
