(* ===== verification/ValidatedEvidence.thy ===== *)
theory ValidatedEvidence
  imports PlanBuilder
begin

section \<open>What an accepted snapshot guarantees (canonical-snapshot-validator.ts)\<close>

text \<open>
  The validator model itself is in \<open>SnapshotValidator\<close>. This theory states what its callers may
  rely on: the evidence is recomputed from the payload, the payload determines the value, the
  snapshot belongs to the command, the buckets satisfy everything the allocation and the plan
  builder check again, and an official snapshot has recomputed identities and a canonical source
  set. A concrete envelope is accepted, which shows that none of the hypotheses is empty.
\<close>

subsection \<open>Unicode form\<close>

lemma validateNfcValue_None:
  "validateNfcValue nfc (VStr s) path = None \<Longrightarrow> nfc s = s \<and> \<not> control_or_unpaired_surrogate s"
  by (simp add: validateNfcValue_def isNfc_def split: if_split_asm)

lemma nfc_fields_None:
  "nfc_fields nfc m path names = None \<Longrightarrow> f \<in> set names \<Longrightarrow> fld m f = VStr s \<Longrightarrow>
   nfc s = s \<and> \<not> control_or_unpaired_surrogate s"
  unfolding nfc_fields_def first_error_None using validateNfcValue_None by metis

lemma each_record_None:
  assumes "each_record f (VArr vs) = None" "i < length vs" "vs ! i = VObj m"
  shows "f i m = None"
proof -
  have "(i, VObj m) \<in> set (indexed vs)" using assms(2,3) by (simp add: in_set_indexed)
  with assms(1) show ?thesis by (fastforce simp: each_record_def)
qed

lemma nonblank_canonical: "nonblank s \<Longrightarrow> nfc s = s \<Longrightarrow> isCanonicalIdentityString nfc s"
  by (simp add: isCanonicalIdentityString_def nonblank_def)

lemma validated_context_strings:
  assumes "accepts nfc sha m c e payload raw cmd ev facts vers srcs bks"
  shows "list_all (isCanonicalIdentityString nfc)
    (command_identity_strings cmd (validated payload ev facts vers srcs bks))"
proof -
  note acc = assms [unfolded accepts_def]
  have nfc: "validateKnownNfcStrings nfc c raw = None"
    using acc structureError_None by blast
  have cf: "nfc s = s" if "fld c f = VStr s" "f \<in> {''tenantId'', ''caseId'', ''collectionId'', ''currency'',
      ''applicationEffectiveDate'', ''expectedSnapshotRef'', ''expectedSnapshotHash'',
      ''expectedSourceVersionSetHash'', ''expectedHistoryBoundaryRef''}" for f s
    using nfc that nfc_fields_None [of nfc c "js ''$.command''" _ f s]
    unfolding validateKnownNfcStrings_def or_else_None by fastforce
  note p = acc [unfolded parseCommand_Some bindingError_None]
  have hex: "SHA256_LOWERCASE_HEX h \<Longrightarrow> h \<noteq> []" for h by (auto simp: SHA256_LOWERCASE_HEX_def)
  have ref: "SNAPSHOT_REF r \<Longrightarrow> r \<noteq> []" for r by (auto simp: SNAPSHOT_REF_def prefixed_pattern_iff)
  have "cm_currency cmd \<noteq> []" using p by (auto simp: CANONICAL_CURRENCY_CODES_def)
  moreover have "cm_applicationEffectiveDate cmd \<noteq> []"
    using p by (auto simp: parseEffectiveDate_def parseIsoDateAs_Inr iso_text_def)
  ultimately show ?thesis
    using p cf [of "''tenantId''"] cf [of "''caseId''"] cf [of "''collectionId''"] cf [of "''currency''"]
      cf [of "''applicationEffectiveDate''"] cf [of "''expectedSnapshotRef''"]
      cf [of "''expectedSnapshotHash''"] cf [of "''expectedSourceVersionSetHash''"]
      cf [of "''expectedHistoryBoundaryRef''"]
    by (auto simp: command_identity_strings_def isCanonicalIdentityString_def nonblank_def
        dest: hex ref)
qed

lemma validated_bucket_canonical:
  assumes "structureError nfc sha c raw facts = None" "parseValidatedBuckets raw = Some bks"
    and "b \<in> set bks"
  shows "bucket_canonical nfc b"
proof -
  obtain rbs where rbs: "fld raw ''canonicalBuckets'' = VArr rbs"
    "list_all2 (\<lambda>x y. parse_bucket x = Some y) rbs bks"
    using accepts_raw_buckets [OF assms(1,2)] by metis
  obtain i where i: "i < length bks" "bks ! i = b" using assms(3) by (metis in_set_conv_nth)
  with rbs(2) have len: "i < length rbs" and "parse_bucket (rbs ! i) = Some b"
    by (auto simp: list_all2_conv_all_nth)
  then obtain m where m: "rbs ! i = VObj m" "fld m ''componentType'' = VStr (bk_componentType b)"
    "bk_componentType b \<in> set LEGAL_APPLICATION_COMPONENT_TYPES"
    "parseComponentCode (fld m ''componentCode'') = Inr (bk_componentCode b)"
    "parseBucketContextKey (fld m ''bucketContextKey'') = Inr (bk_bucketContextKey b)"
    "parseBucketInstanceId (fld m ''bucketInstanceId'') = Inr (bk_bucketInstanceId b)"
    "parseSourceLineageSetRef (fld m ''sourceLineageSetRef'') = Inr (bk_sourceLineageSetRef b)"
    using parse_bucket_Some by blast
  have "validateKnownNfcStrings nfc c raw = None"
    using structureError_None [OF assms(1)] by blast
  then have "each_record (\<lambda>i m. nfc_fields nfc m (at_index ''$.canonicalBuckets'' i)
      (BUCKET_REQUIRED_FIELDS @ BUCKET_OPTIONAL_FIELDS)) (VArr rbs) = None"
    unfolding validateKnownNfcStrings_def or_else_None rbs(1) by blast
  from each_record_None [OF this len m(1)]
  have nfc: "nfc s = s" if "fld m f = VStr s" "f \<in> set (BUCKET_REQUIRED_FIELDS @ BUCKET_OPTIONAL_FIELDS)" for f s
    using nfc_fields_None that by blast
  have "nfc (bk_componentType b) = bk_componentType b" "nfc (bk_componentCode b) = bk_componentCode b"
    "nfc (bk_bucketContextKey b) = bk_bucketContextKey b" "nfc (bk_bucketInstanceId b) = bk_bucketInstanceId b"
    "nfc (bk_sourceLineageSetRef b) = bk_sourceLineageSetRef b"
    using nfc [of "''componentType''"] nfc [of "''componentCode''"] nfc [of "''bucketContextKey''"]
      nfc [of "''bucketInstanceId''"] nfc [of "''sourceLineageSetRef''"] m
    by (simp_all add: BUCKET_REQUIRED_FIELDS_def)
  moreover have "bk_componentType b \<noteq> []"
    using m(3) by (auto simp: LEGAL_APPLICATION_COMPONENT_TYPES_def component_code_defs js_eval)
  ultimately show ?thesis
    using m by (simp add: bucket_canonical_def isCanonicalIdentityString_def nonblank_def)
qed

lemma validated_canonical:
  assumes "accepts nfc sha m c e payload raw cmd ev facts vers srcs bks"
  shows "snapshot_canonical nfc (vs_snapshot (validated payload ev facts vers srcs bks))"
proof -
  note acc = assms [unfolded accepts_def]
  have st: "structureError nfc sha c raw facts = None" "parseValidatedBuckets raw = Some bks"
    using acc by blast+
  have "js_nat_upto POSTGRES_INTEGER_MAX (pf_minorUnit facts)"
    using acc by (simp add: parseSnapshotPrimitiveFacts_Some)
  then show ?thesis
    using validated_admissible [OF st] validated_bucket_canonical [OF st] validated_distinct(2) [OF st]
    by (simp add: snapshot_canonical_def list_all_iff)
qed

lemma validated_bound:
  assumes "accepts nfc sha m c e payload raw cmd ev facts vers srcs bks"
  shows "command_bound cmd (validated payload ev facts vers srcs bks)"
  using assms by (simp add: accepts_def command_bound_def bindingError_None)

text \<open>
  The idempotency key and the hash of a command are checked as texts and otherwise ignored: an accepted
  envelope is accepted with any other pair.
\<close>

definition key_text :: "(jstr \<Rightarrow> jstr) \<Rightarrow> jstr \<Rightarrow> bool" where
  "key_text nfc s \<longleftrightarrow> nonblank s \<and> nfc s = s \<and> \<not> control_or_unpaired_surrogate s"

lemma accepts_other_keys:
  assumes "accepts nfc sha m c e payload raw cmd ev facts vers srcs bks"
    and same: "\<And>f. f \<noteq> ''idempotencyKey'' \<Longrightarrow> f \<noteq> ''commandHash'' \<Longrightarrow> fld c' f = fld c f"
    and keys: "fld c' ''idempotencyKey'' = VStr k" "fld c' ''commandHash'' = VStr h"
    and texts: "key_text nfc k" "key_text nfc h" "codePointCount k \<le> MAX_CONTEXT_IDENTIFIER_CODE_POINTS"
    and cmd': "cmd' = cmd\<lparr>cm_idempotencyKey := k, cm_commandHash := h\<rparr>"
  shows "accepts nfc sha m c' e payload raw cmd' ev facts vers srcs bks"
proof -
  note acc = assms(1) [unfolded accepts_def]
  have parsed: "parseCommand c' = Some cmd'"
    using acc texts unfolding parseCommand_Some by (simp add: same keys cmd' key_text_def)
  have "validateKnownNfcStrings nfc c raw = None" "validateStringLimits c raw = None"
    using acc structureError_None by blast+
  moreover have "validateNfcValue nfc (VStr k) p = None" "validateNfcValue nfc (VStr h) p = None"
    "validateLength (VStr k) p MAX_CONTEXT_IDENTIFIER_CODE_POINTS = None" for p
    using texts by (simp_all add: validateNfcValue_def isNfc_def validateLength_def key_text_def)
  ultimately have nfc: "validateKnownNfcStrings nfc c' raw = None" and lim: "validateStringLimits c' raw = None"
    unfolding validateKnownNfcStrings_def validateStringLimits_def nfc_fields_def limit_fields_def
      or_else_None first_error_None by (simp_all add: same keys)
  have "structureError nfc sha c' raw facts = None"
    using acc nfc lim unfolding structureError_def or_else_None by blast
  moreover have "bindingError cmd' facts ev = None" using acc unfolding bindingError_None by (simp add: cmd')
  moreover have "canonicalBytesError sha (VObj raw) payload cmd' ev = None"
    using acc unfolding canonicalBytesError_None by (simp add: cmd' del: serializeCanonicalJson.simps)
  ultimately show ?thesis using acc parsed unfolding accepts_def by blast
qed

subsection \<open>A concrete accepted envelope\<close>

text \<open>A bound on the length of a canonical text, to see that a payload is within the limit.\<close>

lemma length_quote: "length (json_quote s) \<le> 6 * length s + 2"
proof -
  have unit: "length (quote_unit u) \<le> 6" for u by (simp add: quote_unit_def)
  have "length (quote_body s) \<le> 6 * length s"
  proof (induction s rule: quote_body.induct)
    case (2 u)
    then show ?case using unit [of u] by simp
  next
    case (3 u v s)
    then show ?case using unit [of u] by (cases "high_surrogate u \<and> low_surrogate v") auto
  qed simp
  then show ?thesis by (simp add: json_quote_def)
qed

fun json_bound :: "jsval \<Rightarrow> nat" where
  "json_bound (VStr s) = 6 * length s + 2"
| "json_bound (VNum n) = length (json_number_text n)"
| "json_bound (VArr vs) = 2 + sum_list (map (\<lambda>v. Suc (json_bound v)) vs)"
| "json_bound (VObj ms) = 2 + sum_list (map (\<lambda>(k, v). 6 * length k + 4 + json_bound v) ms)"
| "json_bound _ = 5"

lemma length_json_join: "length (json_join ts) \<le> sum_list (map (\<lambda>t. Suc (length t)) ts)"
  by (induction ts rule: json_join.induct) auto

lemma length_serialize: "canonical_json v \<Longrightarrow> length (serializeCanonicalJson v) \<le> json_bound v"
proof (induction v)
  case (VArr vs)
  have "sum_list (map (\<lambda>t. Suc (length t)) (map serializeCanonicalJson vs)) \<le>
      sum_list (map (\<lambda>v. Suc (json_bound v)) vs)"
    using VArr by (auto simp: comp_def list_all_iff intro!: sum_list_mono)
  then show ?case using length_json_join [of "map serializeCanonicalJson vs"] by simp
next
  case (VObj ms)
  have "Suc (length (member_text m)) \<le> (case m of (k, v) \<Rightarrow> 6 * length k + 4 + json_bound v)"
    if "m \<in> set ms" for m
  proof (cases m)
    case (Pair k v)
    have "canonical_json v" using VObj.prems that Pair by (auto simp: list_all_iff)
    then have "length (serializeCanonicalJson v) \<le> json_bound v"
      using VObj.IH [OF that, of v] Pair by simp
    then show ?thesis using length_quote [of k] by (simp add: Pair member_text_def)
  qed
  then have "sum_list (map (\<lambda>t. Suc (length t)) (map member_text ms)) \<le>
      sum_list (map (\<lambda>(k, v). 6 * length k + 4 + json_bound v) ms)"
    by (auto simp: comp_def intro!: sum_list_mono)
  then show ?case
    using VObj.prems length_json_join [of "map member_text ms"]
    by (simp add: serialize_object del: serializeCanonicalJson.simps)
qed (use length_quote in auto)

lemma length_utf8: "length (utf8 s) \<le> 4 * length s"
proof -
  have cp: "length (utf8_code_point c) \<le> 4" for c by (simp add: utf8_code_point_def)
  have "length (concat (map (\<lambda>c. utf8_code_point (if surrogate c then 65533 else c)) cs)) \<le> 4 * length cs"
    for cs
  proof (induction cs)
    case (Cons c cs)
    then show ?case using cp [of "if surrogate c then 65533 else c"] by simp
  qed simp
  moreover have "length (code_points s) \<le> length s"
    by (induction s rule: code_points.induct) auto
  ultimately show ?thesis by (metis (no_types, lifting) utf8_def le_trans mult_le_mono2)
qed

lemma sample_payload_size: "length (utf8 sample_payload) \<le> MAX_CANONICAL_ENVELOPE_BYTES"
proof -
  have "js_of_nat 2 = [50]" "js_of_nat 10 = [49, 48]" by (simp_all add: js_of_nat.simps)
  then have "json_bound (VObj sample_raw) \<le> 10000"
    by (simp add: sample_raw_def sample_raw_bucket_def sample_raw_source_def sample_raw_receivable_def json_number_text_int
        sample_digest_def sample_hash_def PRINCIPAL_def SNAPSHOT_CONTRACT_VERSION_def
        SNAPSHOT_SERIALIZATION_VERSION_def)
  then show ?thesis
    using length_serialize [OF sample_raw_canonical] length_utf8 [of sample_payload]
    by (simp add: sample_payload_def MAX_CANONICAL_ENVELOPE_BYTES_def)
qed


text \<open>The parsed parts of the sample.\<close>

definition sample_facts_raw :: SnapshotPrimitiveFacts where
  "sample_facts_raw =
     \<lparr>pf_snapshotContractVersion = SNAPSHOT_CONTRACT_VERSION,
      pf_snapshotSerializationVersion = SNAPSHOT_SERIALIZATION_VERSION,
      pf_tenantId = js ''t'', pf_caseId = js ''c'', pf_targetCollectionId = js ''col'',
      pf_currency = js ''TRY'', pf_minorUnit = js_int 2, pf_receiptAmountMinor = 700,
      pf_snapshotAsOfDate = js ''2024-03-01'', pf_applicationEffectiveDate = js ''2024-03-01'',
      pf_historyBoundaryRef = js ''h'', pf_sourceVersionSetHash = sample_digest\<rparr>"

definition sample_versions :: ParsedVersionEvidence where
  "sample_versions =
     \<lparr>pv_engineVersion = js ''e'', pv_calculationRuleVersion = js ''r'', pv_policyVersion = js ''p'',
      pv_rateTableVersion = js ''rt'', pv_interpretationProfileId = js ''i'',
      pv_bucketIdentityVersion = js ''RCV-BINST/v1''\<rparr>"

definition sample_evidence :: ParsedEnvelopeEvidence where
  "sample_evidence =
     \<lparr>ev_snapshotRef = canonicalSnapshotRefForHash sample_digest, ev_snapshotHash = sample_digest\<rparr>"

definition sample_source :: CanonicalSourceVersionV1 where
  "sample_source = \<lparr>sv_sourceReference = js ''s'', sv_sourceVersion = js ''1''\<rparr>"

definition sample_receivable :: CanonicalSourceVersionV1 where
  "sample_receivable = \<lparr>sv_sourceReference = js ''v'', sv_sourceVersion = js ''1''\<rparr>"

definition sample_parsed_bucket :: CanonicalLegalBucketV1 where
  "sample_parsed_bucket =
     \<lparr>bk_componentType = PRINCIPAL, bk_componentCode = js ''C'',
      bk_bucketContextKey = js ''bctx:v1:sha256:'' @ sample_digest,
      bk_bucketInstanceId = js ''binst:v1:sha256:'' @ sample_digest,
      bk_sourceLineageSetRef = js ''l'', bk_legalBasisRef = js ''b'', bk_effectivePeriodRef = js ''e'',
      bk_interestRuleRef = None, bk_currency = js ''TRY'', bk_minorUnit = js_int 2,
      bk_priorityRank = js_int 10, bk_bucketBalanceMinor = 1000\<rparr>"

definition sample_parsed_command :: BuildLegalApplicationPlanCommand where
  "sample_parsed_command =
     \<lparr>cm_tenantId = js ''t'', cm_caseId = js ''c'', cm_collectionId = js ''col'',
      cm_receiptAmountMinor = 700, cm_currency = js ''TRY'', cm_minorUnit = js_int 2,
      cm_applicationEffectiveDate = js ''2024-03-01'',
      cm_expectedSnapshotRef = canonicalSnapshotRefForHash sample_digest,
      cm_expectedSnapshotHash = sample_digest, cm_expectedSourceVersionSetHash = sample_digest,
      cm_expectedHistoryBoundaryRef = js ''h'', cm_idempotencyKey = js ''k'',
      cm_commandHash = js ''ch''\<rparr>"

definition sample_accepted :: ValidatedCanonicalSnapshotV1 where
  "sample_accepted =
     validated sample_payload sample_evidence sample_facts_raw sample_versions [sample_source, sample_receivable]
       [sample_parsed_bucket]"

lemma sample_text_facts [simp]:
  "nonblank (js ''t'')" "nonblank (js ''c'')" "nonblank (js ''col'')" "nonblank (js ''h'')"
  "nonblank (js ''k'')" "nonblank (js ''ch'')" "nonblank (js ''e'')" "nonblank (js ''r'')"
  "nonblank (js ''p'')" "nonblank (js ''rt'')" "nonblank (js ''i'')" "nonblank (js ''RCV-BINST/v1'')"
  "nonblank (js ''s'')" "nonblank (js ''v'')" "nonblank (js ''1'')" "nonblank (js ''C'')" "nonblank (js ''l'')"
  "nonblank (js ''b'')"
  by (simp_all add: nonblank_def js_trim_eq_iff js_eval js_whitespace_def)

lemma sample_hash_facts [simp]:
  "SHA256_LOWERCASE_HEX sample_digest"
  "BUCKET_CONTEXT_KEY (js ''bctx:v1:sha256:'' @ sample_digest)"
  "BUCKET_INSTANCE_ID (js ''binst:v1:sha256:'' @ sample_digest)"
  "SNAPSHOT_REF (canonicalSnapshotRefForHash sample_digest)"
  by (simp_all add: sample_digest_def sample_hash_hex BUCKET_CONTEXT_KEY_def BUCKET_INSTANCE_ID_def
      SNAPSHOT_REF_def canonicalSnapshotRefForHash_def)

lemma sample_number_facts [simp]:
  "formatMinorAmount 700 = js ''700''" "formatMinorAmount 1000 = js ''1000''"
  "js_nat_upto POSTGRES_INTEGER_MAX (js_int 2)" "js_nat_upto POSTGRES_INTEGER_MAX (js_int 10)"
  by (simp_all add: formatMinorAmount_def js_of_int_def js_of_nat.simps js_eval js_nat_upto_iff
      POSTGRES_INTEGER_MAX_def)

lemma sample_date [simp]: "date_text (js ''2024-03-01'')"
proof -
  have "js ''2024-03-01'' = iso_text (2024, 3, 1)"
    by (simp add: iso_text_def pad_digits_2 pad_digits_4 js_eval)
  moreover have "valid_date (2024, 3, 1)" by (simp add: valid_date_def daysInMonth_def)
  ultimately show ?thesis unfolding date_text_def by blast
qed

lemma parsedValue_Inr [simp]: "parsedValue (Inr v) = Some v"
  by simp

lemma sample_parsers [simp]:
  "parseComponentCode (VStr (js ''C'')) = Inr (js ''C'')"
  "parseBucketContextKey (VStr (js ''bctx:v1:sha256:'' @ sample_digest)) =
     Inr (js ''bctx:v1:sha256:'' @ sample_digest)"
  "parseBucketInstanceId (VStr (js ''binst:v1:sha256:'' @ sample_digest)) =
     Inr (js ''binst:v1:sha256:'' @ sample_digest)"
  "parseSourceLineageSetRef (VStr (js ''l'')) = Inr (js ''l'')"
  "parseCurrencyCode (VStr (js ''TRY'')) = Inr (js ''TRY'')"
  "parseMinorUnit (VNum (js_int 2)) = Inr (js_int 2)"
  "parseBucketBalanceMinor (VStr (js ''1000'')) = Inr 1000"
  "parseRuleVersion (VStr (js ''r'')) = Inr (js ''r'')"
  "parseSourceReference (VStr (js ''s'')) = Inr (js ''s'')"
  "parseSourceReference (VStr (js ''v'')) = Inr (js ''v'')"
  "parseSourceVersion (VStr (js ''1'')) = Inr (js ''1'')"
  by (simp_all add: POSTGRES_BIGINT_MAX_def CANONICAL_CURRENCY_CODES_def)

lemma sample_parsed:
  "parseCommand sample_command = Some sample_parsed_command"
  "parseSnapshotPrimitiveFacts sample_raw = Some sample_facts_raw"
  "parseVersionEvidence sample_raw = Some sample_versions"
  unfolding parseCommand_Some parseSnapshotPrimitiveFacts_Some parseVersionEvidence_Some
  by (simp_all add: sample_command_def sample_raw_def sample_parsed_command_def sample_facts_raw_def
      sample_versions_def obj_get_def POSTGRES_BIGINT_MAX_def CANONICAL_CURRENCY_CODES_def)


definition sample_envelope :: jsobj where
  "sample_envelope =
     [(js ''snapshotRef'', VStr (canonicalSnapshotRefForHash sample_digest)),
      (js ''snapshotHash'', VStr sample_digest), (js ''canonicalPayload'', VStr sample_payload)]"

definition sample_input_members :: jsobj where
  "sample_input_members =
     [(js ''direction'', VStr APPLY), (js ''command'', VObj sample_command),
      (js ''snapshotEnvelope'', VObj sample_envelope)]"

lemma code_points_eq_Nil: "code_points s = [] \<longleftrightarrow> s = []"
  by (cases s rule: code_points.cases) auto

lemma sample_opens:
  "openEnvelope sample_validator_input =
     Inr (sample_input_members, sample_command, sample_envelope, sample_payload, sample_raw)"
proof -
  have "sample_payload = 123 # json_join (map member_text sample_raw) @ [125]"
    unfolding sample_payload_def by (rule serialize_object) (simp add: sample_raw_def js_eval)
  then have "code_points sample_payload \<noteq> []" by (metis code_points_eq_Nil list.distinct(1))
  then have "utf8 sample_payload \<noteq> []" by (cases "code_points sample_payload") (auto simp: utf8_def)
  then show ?thesis
    unfolding openEnvelope_Inr using sample_payload_size sample_raw_parses
    by (simp add: sample_validator_input_def sample_input_members_def sample_envelope_def obj_get_def)
qed

lemma sample_envelope_parsed: "parseEnvelopeEvidence sample_envelope = Some sample_evidence"
  by (simp add: parseEnvelopeEvidence_Some sample_envelope_def sample_evidence_def obj_get_def)

lemma sample_binding: "bindingError sample_parsed_command sample_facts_raw sample_evidence = None"
  by (simp add: bindingError_None sample_parsed_command_def sample_facts_raw_def sample_evidence_def)

lemma sample_shapes:
  "validateObjectShape sample_raw SNAPSHOT_REQUIRED_FIELDS [] (js ''$'') = None"
  "validateSourceShape (i, VObj sample_raw_source) = None"
  "validateSourceShape (i, VObj sample_raw_receivable) = None"
  by (simp add: validateObjectShape_def sample_raw_def obj_get_def obj_has_def SNAPSHOT_REQUIRED_FIELDS_def)
     (simp_all add: validateObjectShape_def shape_error_def obj_get_def obj_has_def validateSourceShape_def
      SOURCE_VERSION_REQUIRED_FIELDS_def sample_raw_source_def sample_raw_receivable_def)

lemma sample_schema: "validateSnapshotSchema sample_raw = None"
proof -
  have "fld sample_raw ''sourceVersionSet'' = VArr [VObj sample_raw_source, VObj sample_raw_receivable]"
    "fld sample_raw ''canonicalBuckets'' = VArr [VObj sample_raw_bucket]"
    by (simp_all add: sample_raw_def obj_get_def)
  then show ?thesis
    by (simp add: validateSnapshotSchema_def sample_shapes shape_error_def indexed_def)
       (simp add: sample_raw_def obj_get_def SNAPSHOT_REQUIRED_FIELDS_def)
qed

lemma sample_trims: "js_trim (js ''b'') = js ''b''" "js_trim (js ''l'') = js ''l''" "js_trim (js ''C'') = js ''C''"
  "js_trim (js ''e'') = js ''e''"
  by (simp_all add: js_trim_eq_iff js_eval js_whitespace_def)

lemma sample_bucket_shape: "validateBucketShape (0, VObj sample_raw_bucket) = None"
  by (simp add: validateBucketShape_def validateObjectShape_def shape_error_def sample_raw_bucket_def
      obj_get_def obj_has_def BUCKET_REQUIRED_FIELDS_def BUCKET_OPTIONAL_FIELDS_def
      isNonBlankCanonicalString_def sample_trims POSTGRES_INTEGER_MAX_def)

lemma sample_bucket_parsed: "parse_bucket (VObj sample_raw_bucket) = Some sample_parsed_bucket"
  by (simp add: parse_bucket_def sample_raw_bucket_def obj_get_def sample_parsed_bucket_def
      LEGAL_APPLICATION_COMPONENT_TYPES_def)

lemma sample_sources_parsed: "parseSourceVersionSet sample_raw = Some [sample_source, sample_receivable]"
  by (simp add: parseSourceVersionSet_def sample_raw_def obj_get_def sample_raw_source_def sample_raw_receivable_def sample_source_def sample_receivable_def)


definition printable :: "jstr \<Rightarrow> bool" where
  "printable s \<longleftrightarrow> list_all (\<lambda>u. 32 \<le> u \<and> u < 127) s"

lemma printable_clean: "printable s \<Longrightarrow> \<not> control_or_unpaired_surrogate s"
proof -
  assume p: "printable s"
  then have "code_points s = s" by (intro code_points_ascii) (auto simp: printable_def list_all_iff)
  with p show ?thesis
    by (auto simp: control_or_unpaired_surrogate_def list_ex_iff printable_def list_all_iff surrogate_def)
qed

lemma printable_append [simp]: "printable (p @ s) \<longleftrightarrow> printable p \<and> printable s"
  by (simp add: printable_def)

lemma sample_printable [simp]:
  "printable (js ''t'')" "printable (js ''c'')" "printable (js ''col'')" "printable (js ''700'')"
  "printable (js ''TRY'')" "printable (js ''2024-03-01'')" "printable (js ''h'')" "printable (js ''k'')"
  "printable (js ''ch'')" "printable (js ''e'')" "printable (js ''r'')" "printable (js ''p'')"
  "printable (js ''rt'')" "printable (js ''i'')" "printable (js ''RCV-BINST/v1'')" "printable (js ''s'')" "printable (js ''v'')"
  "printable (js ''1'')" "printable (js ''C'')" "printable (js ''l'')" "printable (js ''b'')"
  "printable (js ''1000'')" "printable (js ''bctx:v1:sha256:'')" "printable (js ''binst:v1:sha256:'')"
  "printable (js ''rcv-app-snapshot:v1:sha256:'')" "printable SNAPSHOT_CONTRACT_VERSION"
  "printable SNAPSHOT_SERIALIZATION_VERSION" "printable PRINCIPAL" "printable (sample_hash (Suc 0))"
  "printable sample_digest"
  by (simp_all add: printable_def js_eval SNAPSHOT_CONTRACT_VERSION_def SNAPSHOT_SERIALIZATION_VERSION_def
      PRINCIPAL_def sample_hash_def sample_digest_def list_all_iff)

lemma nfc_value_printable:
  "printable s \<Longrightarrow> validateNfcValue (\<lambda>s. s) (VStr s) path = None"
  "validateNfcValue nfc (VNum n) path = None" "validateNfcValue nfc (VArr vs) path = None"
  "validateNfcValue nfc VUndef path = None"
  using printable_clean by (simp_all add: validateNfcValue_def isNfc_def)

lemma sample_nfc: "validateKnownNfcStrings (\<lambda>s. s) sample_command sample_raw = None"
  by (simp add: validateKnownNfcStrings_def nfc_fields_def nfc_value_printable each_record_def
      indexed_def sample_command_def sample_raw_def sample_raw_source_def sample_raw_receivable_def sample_raw_bucket_def obj_get_def
      SNAPSHOT_REQUIRED_FIELDS_def SOURCE_VERSION_REQUIRED_FIELDS_def BUCKET_REQUIRED_FIELDS_def
      BUCKET_OPTIONAL_FIELDS_def canonicalSnapshotRefForHash_def)

lemma code_points_length: "length (code_points s) \<le> length s"
  by (induction s rule: code_points.induct) auto

lemma sample_limits: "validateStringLimits sample_command sample_raw = None"
proof -
  have short: "validateLength (VStr (js s)) path m = None" if "length s \<le> m" for s path m
    using that code_points_length [of "js s"] by (simp add: validateLength_def codePointCount_def)
  show ?thesis
    by (simp add: validateStringLimits_def limit_fields_def each_record_def indexed_def sample_command_def
        sample_raw_def sample_raw_source_def sample_raw_receivable_def sample_raw_bucket_def obj_get_def short validateLength_def [of VUndef]
        MAX_CONTEXT_IDENTIFIER_CODE_POINTS_def MAX_HISTORY_BOUNDARY_REF_CODE_POINTS_def
        MAX_VERSION_IDENTIFIER_CODE_POINTS_def MAX_COMPONENT_CODE_CODE_POINTS_def
        MAX_SOURCE_LINEAGE_SET_REF_CODE_POINTS_def MAX_LEGAL_BASIS_REF_CODE_POINTS_def
        MAX_EFFECTIVE_PERIOD_REF_CODE_POINTS_def MAX_INTEREST_RULE_REF_CODE_POINTS_def)
qed

lemma sample_integers: "validateIntegerStrings sample_raw = None"
  by (simp add: validateIntegerStrings_def each_record_def indexed_def sample_raw_def sample_raw_bucket_def
      obj_get_def isCanonicalUnsignedDecimal_def unsigned_decimal_integer_def js_eval js_digit_def)

lemma sample_amounts: "amountRangeError sample_raw [VObj sample_raw_bucket] = None"
  by (simp add: amountRangeError_def sample_raw_def sample_raw_bucket_def obj_get_def exceeds_bigint_def
      digits_val_def js_eval POSTGRES_BIGINT_MAX_def)


abbreviation sample_sha :: "bytes \<Rightarrow> jstr" where
  "sample_sha \<equiv> \<lambda>b. sample_digest"

lemma sample_sha_hex: "sha_hex sample_sha"
  by (simp add: sha_hex_def)

lemma sample_instance:
  "validateBucketInstanceId (\<lambda>s. s) sample_sha
     (preimage_object (bucket_preimage sample_facts_raw (js ''r'') (js ''bctx:v1:sha256:'' @ sample_digest)))
     (VStr (js ''binst:v1:sha256:'' @ sample_digest)) =
   Inr \<lparr>bip_value = js ''binst:v1:sha256:'' @ sample_digest,
        bip_canonicalPreimage = serializePreimage
          (bucket_preimage sample_facts_raw (js ''r'') (js ''bctx:v1:sha256:'' @ sample_digest))\<rparr>"
proof -
  have "preimage_ok (\<lambda>s. s) (bucket_preimage sample_facts_raw (js ''r'')
      (js ''bctx:v1:sha256:'' @ sample_digest))"
    by (simp add: preimage_ok_def bucket_preimage_def sample_facts_raw_def preimage_values_def)
  then show ?thesis
    by (simp add: validateBucketInstanceId_Inr produceBucketInstanceId_Inr [OF sample_sha_hex]
        parsePreimage_object binst_digest_def)
qed

lemma sample_identity:
  "step24 (\<lambda>s. s) sample_sha sample_facts_raw sample_raw [VObj sample_raw_bucket] = None"
proof -
  have rule: "fld sample_raw ''calculationRuleVersion'' = VStr (js ''r'')"
    "fld sample_raw ''bucketIdentityVersion'' = VStr BUCKET_INSTANCE_IDENTITY_CONTRACT_VERSION"
    by (simp_all add: sample_raw_def obj_get_def BUCKET_INSTANCE_IDENTITY_CONTRACT_VERSION_def)
  have bucket: "fld sample_raw_bucket ''bucketContextKey'' = VStr (js ''bctx:v1:sha256:'' @ sample_digest)"
    "fld sample_raw_bucket ''bucketInstanceId'' = VStr (js ''binst:v1:sha256:'' @ sample_digest)"
    "fld sample_raw_bucket ''currency'' = VStr (js ''TRY'')" "fld sample_raw_bucket ''minorUnit'' = VNum (js_int 2)"
    by (simp_all add: sample_raw_bucket_def obj_get_def)
  have "pf_currency sample_facts_raw = js ''TRY''" "pf_minorUnit sample_facts_raw = js_int 2"
    by (simp_all add: sample_facts_raw_def)
  with bucket have "validateBucketCurrencyAndMinorUnit sample_facts_raw sample_raw_bucket = None"
    by (simp add: validateBucketCurrencyAndMinorUnit_def)
  then show ?thesis
    by (simp add: step24_def rule bucketIdentityError_def bucket sample_instance)
qed

lemma sample_unique: "duplicateIdentityError [] [] [VObj sample_raw_bucket] = None"
  by (simp add: sample_raw_bucket_def obj_get_def)

lemma sample_closed: "closedComponentError (VObj sample_raw_bucket) = None"
  by (simp add: closedComponentError_def isLegalApplicationComponentType_def sample_raw_bucket_def
      obj_get_def LEGAL_APPLICATION_COMPONENT_TYPES_def)

lemma sample_structure:
  "structureError (\<lambda>s. s) sample_sha sample_command sample_raw sample_facts_raw = None"
proof -
  have "fld sample_raw ''canonicalBuckets'' = VArr [VObj sample_raw_bucket]"
    by (simp add: sample_raw_def obj_get_def)
  then show ?thesis
    by (simp add: structureError_def sample_schema sample_nfc sample_limits sample_integers
        sample_bucket_shape sample_closed sample_identity sample_unique sample_amounts
        MAX_BUCKET_COUNT_def indexed_def del: duplicateIdentityError.simps)
qed

lemma sample_buckets_parsed: "parseValidatedBuckets sample_raw = Some [sample_parsed_bucket]"
proof -
  have "fld sample_raw ''canonicalBuckets'' = VArr [VObj sample_raw_bucket]"
    by (simp add: sample_raw_def obj_get_def)
  then show ?thesis by (simp add: parseValidatedBuckets_def sample_bucket_parsed)
qed

lemma sample_source_hash:
  "sortSourceVersionSet (\<lambda>s. s) [sample_source, sample_receivable] = [sample_source, sample_receivable]"
  "computeSourceVersionSetHash (\<lambda>s. s) sample_sha [sample_source, sample_receivable] = Inr sample_digest"
proof -
  have "utf8 (js ''s'') = js ''s''" "utf8 (js ''v'') = js ''v''"
    by (simp_all add: utf8_ascii js_eval)
  then show "sortSourceVersionSet (\<lambda>s. s) [sample_source, sample_receivable] = [sample_source, sample_receivable]"
    by (simp add: sortSourceVersionSet_def compareSources_def compareUtf8_def buffer_compare_def
        sample_source_def sample_receivable_def js_eval)
  have "\<exists>p. source_set_payload (\<lambda>s. s) [sample_source, sample_receivable] = Inr p"
    by (simp add: sample_source_def sample_receivable_def identity_eval)
  then obtain p where p: "source_set_payload (\<lambda>s. s) [sample_source, sample_receivable] = Inr p" by blast
  obtain d where d: "canonicalUtf8 (\<lambda>s. s) SOURCE_VERSION_SET_IDENTITY_VERSION (js ''domain'') = Inr d"
    by (auto simp: SOURCE_VERSION_SET_IDENTITY_VERSION_def identity_eval)
  show "computeSourceVersionSetHash (\<lambda>s. s) sample_sha [sample_source, sample_receivable] = Inr sample_digest"
    by (simp add: computeSourceVersionSetHash_def domainSeparatedHash_def p d)
qed

lemma sample_official:
  "officialSourceError (\<lambda>s. s) sample_sha sample_versions sample_facts_raw [sample_source, sample_receivable] = None"
  by (simp add: officialSourceError_def sample_source_hash sample_facts_raw_def indexed_def nth_opt_def)

lemma sample_bytes:
  "canonicalBytesError sample_sha (VObj sample_raw) sample_payload sample_parsed_command sample_evidence = None"
  by (simp add: canonicalBytesError_None sample_payload_def sample_evidence_def
      computeCanonicalSnapshotHash_def del: serializeCanonicalJson.simps)

lemma sample_accepts:
  "accepts (\<lambda>s. s) sample_sha sample_input_members sample_command sample_envelope sample_payload sample_raw
     sample_parsed_command sample_evidence sample_facts_raw sample_versions [sample_source, sample_receivable]
     [sample_parsed_bucket]"
proof -
  have "fld sample_raw ''snapshotContractVersion'' = VStr SNAPSHOT_CONTRACT_VERSION"
    "fld sample_raw ''snapshotSerializationVersion'' = VStr SNAPSHOT_SERIALIZATION_VERSION"
    by (simp_all add: sample_raw_def obj_get_def)
  moreover have "fld sample_input_members ''direction'' = VStr APPLY"
    by (simp add: sample_input_members_def obj_get_def)
  ultimately show ?thesis
    using sample_parsed sample_envelope_parsed sample_binding sample_structure sample_sources_parsed
      sample_buckets_parsed sample_official sample_bytes
    by (simp add: accepts_def)
qed

lemma sample_validates:
  "validateCanonicalSnapshot (\<lambda>s. s) sample_sha sample_validator_input = Inr sample_accepted"
  unfolding validateCanonicalSnapshot_Inr sample_accepted_def
  using sample_opens sample_accepts by blast


subsection \<open>Properties\<close>

text \<open>C5: the evidence of an accepted envelope is recomputed and not believed: the reference and the hash
  are those of the payload bytes, and the payload is within the size limit and is the one canonical
  text of the value it was parsed to.\<close>

theorem accepted_evidence_recomputed:
  assumes "validateCanonicalSnapshot nfc sha input = Inr v"
  shows "vs_snapshotHash v = computeCanonicalSnapshotHash sha (utf8 (vs_canonicalPayload v)) \<and>
    vs_snapshotRef v = canonicalSnapshotRefForHash (vs_snapshotHash v) \<and>
    length (utf8 (vs_canonicalPayload v)) \<le> MAX_CANONICAL_ENVELOPE_BYTES \<and>
    (\<exists>raw. parseStrictJson (vs_canonicalPayload v) = Inr (VObj raw) \<and>
       serializeCanonicalJson (VObj raw) = vs_canonicalPayload v)"
  using assms unfolding validateCanonicalSnapshot_Inr openEnvelope_Inr accepts_def canonicalBytesError_None
  by (auto simp del: serializeCanonicalJson.simps)

theorem accepted_evidence_recomputed_witness:
  "length (utf8 (vs_canonicalPayload sample_accepted)) \<le> MAX_CANONICAL_ENVELOPE_BYTES \<and>
   vs_snapshotRef sample_accepted = canonicalSnapshotRefForHash sample_digest"
  using accepted_evidence_recomputed [OF sample_validates]
  by (simp add: computeCanonicalSnapshotHash_def)

text \<open>the payload alone determines the validated snapshot: two accepted envelopes with the same payload,
  whatever their commands claim, yield the same snapshot with the same reference and hash.\<close>

theorem payload_determines_snapshot:
  assumes "validateCanonicalSnapshot nfc sha input = Inr v" "validateCanonicalSnapshot nfc sha input' = Inr w"
    and "vs_canonicalPayload v = vs_canonicalPayload w"
  shows "v = w"
proof -
  have det: "\<exists>raw facts vers srcs bks. parseStrictJson (vs_canonicalPayload x) = Inr (VObj raw) \<and>
      parseSnapshotPrimitiveFacts raw = Some facts \<and> parseVersionEvidence raw = Some vers \<and>
      parseSourceVersionSet raw = Some srcs \<and> parseValidatedBuckets raw = Some bks \<and>
      x = \<lparr>vs_snapshotRef = canonicalSnapshotRefForHash
               (computeCanonicalSnapshotHash sha (utf8 (vs_canonicalPayload x))),
           vs_snapshotHash = computeCanonicalSnapshotHash sha (utf8 (vs_canonicalPayload x)),
           vs_canonicalPayload = vs_canonicalPayload x,
           vs_snapshot = materializeValidatedSnapshot facts vers srcs bks\<rparr>"
    if ok: "validateCanonicalSnapshot nfc sha i = Inr x" for i x
  proof -
    obtain m c e payload raw cmd ev facts vers srcs bks where
      o: "openEnvelope i = Inr (m, c, e, payload, raw)" and
      a: "accepts nfc sha m c e payload raw cmd ev facts vers srcs bks" and
      x: "x = validated payload ev facts vers srcs bks"
      using ok unfolding validateCanonicalSnapshot_Inr by blast
    have "parseStrictJson payload = Inr (VObj raw)" using o unfolding openEnvelope_Inr by blast
    with a show ?thesis
      unfolding accepts_def canonicalBytesError_None x validated_def
      by (intro exI [of _ raw] exI [of _ facts] exI [of _ vers] exI [of _ srcs] exI [of _ bks]) simp
  qed
  from det [OF assms(1)] det [OF assms(2)] show ?thesis
    unfolding assms(3) by (elim exE conjE) simp
qed

theorem payload_determines_snapshot_witness:
  "{w. validateCanonicalSnapshot (\<lambda>s. s) sample_sha sample_validator_input = Inr w} = {sample_accepted}"
  using payload_determines_snapshot [OF _ sample_validates] sample_validates by auto

text \<open>an accepted snapshot meets every check that the later layers repeat: keys and identities are
  unique and well-formed, the strings are in NFC, the ranks and amounts are in range. An allocation
  from it therefore fails only for a receipt that is zero or not the receipt of the snapshot.\<close>

theorem accepted_snapshot_allocates:
  assumes "validateCanonicalSnapshot nfc sha input = Inr v"
  shows "snapshot_canonical nfc (vs_snapshot v) \<and>
    allocateValidatedSnapshotForApply
      \<lparr>ai_validatedSnapshot = v, ai_direction = VStr APPLY, ai_receiptAmountMinor = r\<rparr> =
    (if 0 < r \<and> r = sn_receiptAmountMinor (vs_snapshot v)
     then Inr (waterfall_result (vs_snapshot v) r) else Inl RECEIPT_AMOUNT_INVALID)"
proof -
  obtain m c e payload raw cmd ev facts vers srcs bks where
    a: "accepts nfc sha m c e payload raw cmd ev facts vers srcs bks" and
    v: "v = validated payload ev facts vers srcs bks"
    using assms unfolding validateCanonicalSnapshot_Inr by blast
  have can: "snapshot_canonical nfc (vs_snapshot v)" unfolding v using a by (rule validated_canonical)
  have "0 \<le> sn_receiptAmountMinor (vs_snapshot v)" "sn_receiptAmountMinor (vs_snapshot v) \<le> POSTGRES_BIGINT_MAX"
    using a by (auto simp: v accepts_def parseSnapshotPrimitiveFacts_Some)
  then have "(0 < r \<and> r = sn_receiptAmountMinor (vs_snapshot v)) \<longleftrightarrow>
      apply_admissible \<lparr>ai_validatedSnapshot = v, ai_direction = VStr APPLY, ai_receiptAmountMinor = r\<rparr>"
    using can by (auto simp: apply_admissible_def snapshot_canonical_def)
  moreover have "allocateValidatedSnapshotForApply
      \<lparr>ai_validatedSnapshot = v, ai_direction = VStr APPLY, ai_receiptAmountMinor = r\<rparr> =
      Inl RECEIPT_AMOUNT_INVALID" if "\<not> (0 < r \<and> r = sn_receiptAmountMinor (vs_snapshot v))"
    using that by (auto simp: allocateValidatedSnapshotForApply_def isPersistenceSafeMinorAmount_def)
  ultimately show ?thesis using can by (auto simp: allocate_Inr)
qed

theorem accepted_snapshot_allocates_witness:
  "allocateValidatedSnapshotForApply
     \<lparr>ai_validatedSnapshot = sample_accepted, ai_direction = VStr APPLY, ai_receiptAmountMinor = 700\<rparr> =
   Inr (waterfall_result (vs_snapshot sample_accepted) 700)"
  using accepted_snapshot_allocates [OF sample_validates, of 700]
  by (simp add: sample_accepted_def sample_facts_raw_def)

text \<open>An accepted snapshot belongs to the command it came with: the direction is APPLY, and the command
  parses to facts that agree with the snapshot and its evidence one by one.\<close>

theorem accepted_snapshot_bound_to_command:
  assumes "validateCanonicalSnapshot nfc sha input = Inr v"
  shows "\<exists>m c cmd. input = VObj m \<and> fld m ''direction'' = VStr APPLY \<and> fld m ''command'' = VObj c \<and>
    parseCommand c = Some cmd \<and> command_bound cmd v \<and>
    list_all (isCanonicalIdentityString nfc) (command_identity_strings cmd v)"
proof -
  obtain m c e payload raw cmd ev facts vers srcs bks where
    o: "openEnvelope input = Inr (m, c, e, payload, raw)" and
    a: "accepts nfc sha m c e payload raw cmd ev facts vers srcs bks" and
    v: "v = validated payload ev facts vers srcs bks"
    using assms unfolding validateCanonicalSnapshot_Inr by blast
  have "input = VObj m" "fld m ''command'' = VObj c" using o unfolding openEnvelope_Inr by blast+
  moreover have "fld m ''direction'' = VStr APPLY" "parseCommand c = Some cmd" using a by (auto simp: accepts_def)
  ultimately show ?thesis
    using validated_bound [OF a] validated_context_strings [OF a] unfolding v by blast
qed

theorem accepted_snapshot_bound_to_command_witness:
  "\<exists>c cmd. parseCommand c = Some cmd \<and> command_bound cmd sample_accepted"
  using accepted_snapshot_bound_to_command [OF sample_validates] by blast


definition snapshot_preimage ::
  "CanonicalReceivableApplicationSnapshotV1 \<Rightarrow> jstr \<Rightarrow> CanonicalBucketInstanceIdentityPreimage" where
  "snapshot_preimage sn key =
     \<lparr>pi_identityContractVersion = BUCKET_INSTANCE_IDENTITY_CONTRACT_VERSION,
      pi_tenantId = sn_tenantId sn, pi_caseId = sn_caseId sn,
      pi_sourceVersionSetHash = sn_sourceVersionSetHash sn,
      pi_historyBoundaryRef = sn_historyBoundaryRef sn,
      pi_snapshotAsOfDate = sn_snapshotAsOfDate sn,
      pi_applicationEffectiveDate = sn_applicationEffectiveDate sn,
      pi_calculationRuleVersion = sn_calculationRuleVersion sn, pi_bucketContextKey = key\<rparr>"

text \<open>in an accepted official snapshot (bucket identity version RCV-BINST/v1) every bucket instance
  identity is the one produced from the facts of the snapshot and the key of the bucket, and the source
  set is in canonical order and has the declared hash.\<close>

theorem official_snapshot_recomputed:
  assumes "validateCanonicalSnapshot nfc sha input = Inr v"
    and "sn_bucketIdentityVersion (vs_snapshot v) = BUCKET_INSTANCE_IDENTITY_CONTRACT_VERSION"
    and "b \<in> set (sn_canonicalBuckets (vs_snapshot v))"
  shows "(\<exists>r. produceBucketInstanceId nfc sha
        (preimage_object (snapshot_preimage (vs_snapshot v) (bk_bucketContextKey b))) = Inr r \<and>
      bip_value r = bk_bucketInstanceId b) \<and>
    sortSourceVersionSet nfc (sn_sourceVersionSet (vs_snapshot v)) = sn_sourceVersionSet (vs_snapshot v) \<and>
    computeSourceVersionSetHash nfc sha (sn_sourceVersionSet (vs_snapshot v)) =
      Inr (sn_sourceVersionSetHash (vs_snapshot v))"
proof -
  obtain m c e payload raw cmd ev facts vers srcs bks where
    a: "accepts nfc sha m c e payload raw cmd ev facts vers srcs bks" and
    v: "v = validated payload ev facts vers srcs bks"
    using assms(1) unfolding validateCanonicalSnapshot_Inr by blast
  have sn: "vs_snapshot v = materializeValidatedSnapshot facts vers srcs bks" by (simp add: v)
  have ver: "pv_bucketIdentityVersion vers = BUCKET_INSTANCE_IDENTITY_CONTRACT_VERSION"
    using assms(2) by (simp add: sn materializeValidatedSnapshot_def)
  have st: "structureError nfc sha c raw facts = None" "parseValidatedBuckets raw = Some bks"
    and off: "officialSourceError nfc sha vers facts srcs = None"
    and vs: "parseVersionEvidence raw = Some vers"
    using a by (simp_all add: accepts_def)
  have raw: "fld raw ''bucketIdentityVersion'' = VStr BUCKET_INSTANCE_IDENTITY_CONTRACT_VERSION"
    "parseRuleVersion (fld raw ''calculationRuleVersion'') = Inr (pv_calculationRuleVersion vers)"
    using vs ver by (auto simp: parseVersionEvidence_Some)
  have b: "b \<in> set bks" using assms(3) by (simp add: sn)
  have pre: "snapshot_preimage (vs_snapshot v) k = bucket_preimage facts (pv_calculationRuleVersion vers) k" for k
    by (simp add: snapshot_preimage_def bucket_preimage_def sn materializeValidatedSnapshot_def)
  show ?thesis
    using validated_bucket(8) [OF st b raw] officialSourceError_None [OF off ver]
    by (simp add: pre) (simp add: sn materializeValidatedSnapshot_def)
qed

theorem official_snapshot_recomputed_witness:
  "\<exists>r. produceBucketInstanceId (\<lambda>s. s) sample_sha
     (preimage_object (snapshot_preimage (vs_snapshot sample_accepted)
        (bk_bucketContextKey sample_parsed_bucket))) = Inr r \<and>
     bip_value r = bk_bucketInstanceId sample_parsed_bucket"
proof -
  have "sn_bucketIdentityVersion (vs_snapshot sample_accepted) = BUCKET_INSTANCE_IDENTITY_CONTRACT_VERSION"
    "sample_parsed_bucket \<in> set (sn_canonicalBuckets (vs_snapshot sample_accepted))"
    by (simp_all add: sample_accepted_def materializeValidatedSnapshot_def sample_versions_def
        BUCKET_INSTANCE_IDENTITY_CONTRACT_VERSION_def)
  from official_snapshot_recomputed [OF sample_validates this] show ?thesis by blast
qed

end
