(* ===== verification/JsDate.thy ===== *)
theory JsDate
  imports Primitives
begin

section \<open>Dates of the runtime\<close>

text \<open>
  A \<open>Date\<close> is a time value, the milliseconds since 1970-01-01 UTC, or invalid. Two uses of it are
  modelled from the language standard: parsing \<open>YYYY-MM-DDT00:00:00.000Z\<close> and the first ten
  characters of \<open>toISOString\<close>, which the writer uses to store and to compare calendar dates. On
  a text that is not a calendar date the parser of the runtime is free to do what it likes; that
  choice is a parameter. Shown here: the two conversions are inverse on calendar dates.
\<close>

type_synonym jsdate = "int option"

definition ms_per_day :: int where "ms_per_day = 86400000"

definition days_in_year :: "nat \<Rightarrow> nat" where
  "days_in_year y = (if isLeapYear y then 366 else 365)"

text \<open>Days from 0000-01-01 to the first day of a year; \<open>epoch_day\<close> is that of 1970.\<close>

definition days_before_year :: "nat \<Rightarrow> nat" where
  "days_before_year y = 365 * y + (y + 3) div 4 + (y + 399) div 400 - (y + 99) div 100"

fun days_before_month :: "nat \<Rightarrow> nat \<Rightarrow> nat" where
  "days_before_month y 0 = 0"
| "days_before_month y (Suc 0) = 0"
| "days_before_month y (Suc (Suc m)) = days_before_month y (Suc m) + daysInMonth y (Suc m)"

definition epoch_day :: int where "epoch_day = 719528"

definition day_number :: "nat \<times> nat \<times> nat \<Rightarrow> nat" where
  "day_number ymd = (case ymd of (y, m, d) \<Rightarrow> days_before_year y + days_before_month y m + (d - 1))"

definition time_of_date :: "nat \<times> nat \<times> nat \<Rightarrow> int" where
  "time_of_date ymd = ms_per_day * (int (day_number ymd) - epoch_day)"

text \<open>Splitting a day of a cycle of 400 years into year, month and day.\<close>

function year_of_day :: "nat \<Rightarrow> nat \<Rightarrow> nat \<times> nat" where
  "year_of_day y r = (if r < days_in_year y then (y, r) else year_of_day (Suc y) (r - days_in_year y))"
  by auto
termination
  by (relation "measure snd") (auto simp: days_in_year_def split: if_splits)

function month_of_day :: "nat \<Rightarrow> nat \<Rightarrow> nat \<Rightarrow> nat \<times> nat" where
  "month_of_day y m r =
     (if 12 \<le> m \<or> r < daysInMonth y m then (m, r + 1)
      else month_of_day y (Suc m) (r - daysInMonth y m))"
  by auto
termination
  by (relation "measure (\<lambda>(y, m, r). 12 - m)") auto

declare year_of_day.simps [simp del] month_of_day.simps [simp del]

text \<open>The year of \<open>toISOString\<close>: four digits, or a sign and six digits out of range.\<close>

definition iso_year :: "int \<Rightarrow> jstr" where
  "iso_year y =
     (if 0 \<le> y \<and> y \<le> 9999 then pad_digits 4 (nat y)
      else (if y < 0 then [45] else [43]) @ pad_digits 6 (nat \<bar>y\<bar>))"

definition iso_date :: "int \<Rightarrow> jstr" where
  "iso_date t =
     (let day = t div ms_per_day + epoch_day;
          (y, r) = year_of_day 0 (nat (day mod 146097));
          (m, d) = month_of_day y 1 r
      in iso_year (400 * (day div 146097) + int y) @ [45] @ pad_digits 2 m @ [45] @ pad_digits 2 d)"

definition iso_date_of_time :: "int \<Rightarrow> jstr" where
  "iso_date_of_time t = take 10 (iso_date t)"

text \<open>The instant of \<open>toISOString\<close>, and the constructor \<open>Date\<close> on such a text. \<open>other\<close> is what the
  runtime makes of a text of another form.\<close>

definition iso_clock :: "nat \<Rightarrow> jstr" where
  "iso_clock ms =
     [84] @ pad_digits 2 (ms div 3600000) @ [58] @ pad_digits 2 (ms div 60000 mod 60) @ [58] @
     pad_digits 2 (ms div 1000 mod 60) @ [46] @ pad_digits 3 (ms mod 1000) @ [90]"

definition toISOString :: "int \<Rightarrow> jstr" where
  "toISOString t = iso_date t @ iso_clock (nat (t mod ms_per_day))"

definition clock_value :: "jstr \<Rightarrow> nat" where
  "clock_value s =
     3600000 * digits_val (take 2 (drop 1 s)) + 60000 * digits_val (take 2 (drop 4 s)) +
     1000 * digits_val (take 2 (drop 7 s)) + digits_val (take 3 (drop 10 s))"

definition js_Date :: "(jstr \<Rightarrow> jsdate) \<Rightarrow> jstr \<Rightarrow> jsdate" where
  "js_Date other s =
     (let ms = clock_value (drop 10 s) in
      case CANONICAL_ISO_DATE (take 10 s) of
        Some ymd \<Rightarrow>
          if valid_date ymd \<and> drop 10 s = [] then Some (time_of_date ymd)
          else if valid_date ymd \<and> ms < 86400000 \<and> drop 10 s = iso_clock ms
          then Some (time_of_date ymd + int ms)
          else other s
      | None \<Rightarrow> other s)"

subsection \<open>The conversions are inverse\<close>

lemma ceil_div_Suc: "0 < k \<Longrightarrow> (y + k) div k = (y + (k - 1)) div k + (if k dvd y then 1 else 0)"
  for k y :: nat
proof -
  assume k: "0 < k"
  obtain q r where y: "y = k * q + r" "r < k" using k by (metis mod_less_divisor mult_div_mod_eq)
  have "(y + k) div k = q + 1" using y k by (intro div_nat_eqI) auto
  moreover have "(y + (k - 1)) div k = (if r = 0 then q else q + 1)"
    using y k by (intro div_nat_eqI) auto
  moreover have "k dvd y \<longleftrightarrow> r = 0" using y by (auto simp: dvd_add_right_iff dvd_imp_le)
  ultimately show ?thesis by simp
qed

lemma leap_arith:
  "c \<le> a \<Longrightarrow> (p100 \<Longrightarrow> p4) \<Longrightarrow> (p400 \<Longrightarrow> p100) \<Longrightarrow>
   365 * Suc y + (a + (if p4 then 1 else 0)) + (b + (if p400 then 1 else 0)) - (c + (if p100 then 1 else 0)) =
   365 * y + a + b - c + (if p4 \<and> (\<not> p100 \<or> p400) then 366 else 365)" for a b c :: nat
  by (cases p4; cases p100; cases p400) auto

lemma days_before_year_Suc: "days_before_year (Suc y) = days_before_year y + days_in_year y"
proof -
  have c4: "(Suc y + 3) div 4 = (y + 3) div 4 + (if 4 dvd y then 1 else 0)"
    and c100: "(Suc y + 99) div 100 = (y + 99) div 100 + (if 100 dvd y then 1 else 0)"
    and c400: "(Suc y + 399) div 400 = (y + 399) div 400 + (if 400 dvd y then 1 else 0)"
    using ceil_div_Suc [of 4 y] ceil_div_Suc [of 100 y] ceil_div_Suc [of 400 y] by simp_all
  have le: "(y + 99) div 100 \<le> (y + 3) div 4"
  proof -
    have "(25 * (y + 3) + 24) div 25 = y + 3" by (rule div_nat_eqI) simp_all
    then have "(25 * (y + 3) + 24) div 100 = (y + 3) div 4"
      using div_mult2_eq [of "25 * (y + 3) + 24" 25 4] by simp
    moreover have "(y + 99) div 100 \<le> (25 * (y + 3) + 24) div 100" by (intro div_le_mono) simp
    ultimately show ?thesis by simp
  qed
  have dvd: "(100::nat) dvd y \<Longrightarrow> 4 dvd y" "(400::nat) dvd y \<Longrightarrow> 100 dvd y"
    by (auto elim: dvd_trans [rotated])
  have leap: "isLeapYear y \<longleftrightarrow> 4 dvd y \<and> (\<not> 100 dvd y \<or> 400 dvd y)"
    by (simp add: isLeapYear_def dvd_eq_mod_eq_0)
  show ?thesis
    unfolding days_before_year_def c4 c100 c400 days_in_year_def leap
    using le dvd by (rule leap_arith)
qed

lemma days_before_year_0 [simp]: "days_before_year 0 = 0"
  by (simp add: days_before_year_def)

lemma isLeapYear_400: "isLeapYear (400 * q + y) = isLeapYear y"
proof -
  have "(400 * q + y) mod 4 = y mod 4" "(400 * q + y) mod 100 = y mod 100" "(400 * q + y) mod 400 = y mod 400"
    using mod_mult_self2 [of y 4 "100 * q"] mod_mult_self2 [of y 100 "4 * q"] mod_mult_self2 [of y 400 q]
    by (simp_all add: algebra_simps)
  then show ?thesis by (simp add: isLeapYear_def)
qed

lemma days_before_year_400: "days_before_year (400 * q + y) = 146097 * q + days_before_year y"
proof (induction q arbitrary: y)
  case (Suc q)
  have cycle: "days_before_year (y + 400) = 146097 + days_before_year y" for y
  proof (induction y)
    case 0
    then show ?case by (simp add: days_before_year_def)
  next
    case (Suc y)
    have "isLeapYear (y + 400) = isLeapYear y" using isLeapYear_400 [of 1 y] by (simp add: add.commute)
    with Suc show ?case using days_before_year_Suc [of "y + 400"] days_before_year_Suc [of y]
      by (simp add: days_in_year_def)
  qed
  have split: "400 * Suc q + y = 400 * q + (y + 400)" by simp
  show ?case unfolding split using Suc.IH [of "y + 400"] cycle [of y] by simp
qed simp

lemma days_before_year_mono: "y \<le> z \<Longrightarrow> days_before_year y \<le> days_before_year z"
  by (induction z) (auto simp: le_Suc_eq days_before_year_Suc)

lemma year_of_day_eq:
  "k < days_in_year (y0 + n) \<Longrightarrow>
   year_of_day y0 (days_before_year (y0 + n) - days_before_year y0 + k) = (y0 + n, k)"
proof (induction n arbitrary: y0)
  case 0
  then show ?case by (simp add: year_of_day.simps [of y0 k])
next
  case (Suc n)
  let ?r = "days_before_year (y0 + Suc n) - days_before_year y0 + k"
  have "days_before_year (Suc y0) \<le> days_before_year (y0 + Suc n)" by (rule days_before_year_mono) simp
  then have "days_in_year y0 \<le> ?r"
    "?r - days_in_year y0 = days_before_year (Suc y0 + n) - days_before_year (Suc y0) + k"
    by (simp_all add: days_before_year_Suc)
  moreover from this(1) have "year_of_day y0 ?r = year_of_day (Suc y0) (?r - days_in_year y0)"
    by (subst year_of_day.simps) simp
  ultimately show ?case using Suc.IH [of "Suc y0"] Suc.prems by simp
qed

lemma year_of_day_0: "k < days_in_year y \<Longrightarrow> year_of_day 0 (days_before_year y + k) = (y, k)"
  using year_of_day_eq [of k 0 y] by simp

lemma days_before_month_mono: "1 \<le> m \<Longrightarrow> m \<le> n \<Longrightarrow> days_before_month y m \<le> days_before_month y n"
proof (induction n)
  case (Suc n)
  then show ?case by (cases n) (auto simp: le_Suc_eq)
qed simp

lemma month_of_day_eq:
  "1 \<le> m \<Longrightarrow> m + n \<le> 12 \<Longrightarrow> d < daysInMonth y (m + n) \<Longrightarrow>
   month_of_day y m (days_before_month y (m + n) - days_before_month y m + d) = (m + n, d + 1)"
proof (induction n arbitrary: m)
  case 0
  then show ?case by (simp add: month_of_day.simps [of y m d])
next
  case (Suc n)
  let ?r = "days_before_month y (m + Suc n) - days_before_month y m + d"
  have step: "days_before_month y (Suc m) = days_before_month y m + daysInMonth y m"
    using Suc.prems(1) by (cases m) auto
  have "days_before_month y (Suc m) \<le> days_before_month y (m + Suc n)"
    by (rule days_before_month_mono) simp_all
  then have "daysInMonth y m \<le> ?r"
    "?r - daysInMonth y m = days_before_month y (Suc m + n) - days_before_month y (Suc m) + d"
    by (simp_all add: step)
  moreover from this(1) have "month_of_day y m ?r = month_of_day y (Suc m) (?r - daysInMonth y m)"
    using Suc.prems by (subst month_of_day.simps) simp
  ultimately show ?case using Suc.IH [of "Suc m"] Suc.prems by simp
qed

lemma month_of_day_1:
  "1 \<le> m \<Longrightarrow> m \<le> 12 \<Longrightarrow> d < daysInMonth y m \<Longrightarrow>
   month_of_day y 1 (days_before_month y m + d) = (m, d + 1)"
  using month_of_day_eq [of 1 "m - 1" d y] by simp

lemma days_before_month_year:
  assumes "1 \<le> m" "m \<le> 12" "d < daysInMonth y m"
  shows "days_before_month y m + d < days_in_year y"
proof -
  have "days_before_month y m + daysInMonth y m = days_before_month y (Suc m)"
    using assms(1) by (cases m) auto
  also have "\<dots> \<le> days_before_month y 13" using assms(2) by (intro days_before_month_mono) simp_all
  also have "\<dots> = days_in_year y"
    by (simp add: numeral_eq_Suc daysInMonth_def days_in_year_def)
  finally show ?thesis using assms(3) by simp
qed

lemma daysInMonth_400: "daysInMonth (400 * q + y) m = daysInMonth y m"
  by (simp add: daysInMonth_def isLeapYear_400)

lemma days_before_month_400: "days_before_month (400 * q + y) m = days_before_month y m"
  by (induction y m rule: days_before_month.induct) (simp_all add: daysInMonth_400)

lemma iso_date_time_of_date:
  assumes "valid_date ymd" "0 \<le> ms" "ms < ms_per_day"
  shows "iso_date (time_of_date ymd + ms) = iso_text ymd"
proof -
  obtain y m d where ymd: "ymd = (y, m, d)" by (cases ymd) auto
  with assms(1) have v: "y \<le> 9999" "1 \<le> m" "m \<le> 12" "1 \<le> d" "d \<le> daysInMonth y m"
    by (auto simp: valid_date_def)
  define q r where "q = y div 400" and "r = y mod 400"
  then have y: "y = 400 * q + r" and r: "Suc r \<le> 400" by simp_all
  define k where "k = days_before_month r m + (d - 1)"
  have dm: "d - 1 < daysInMonth r m" using v by (simp add: y daysInMonth_400)
  have k: "k < days_in_year r" unfolding k_def by (rule days_before_month_year) (use v dm in simp_all)
  have "days_before_year r + k < days_before_year (Suc r)" using k by (simp add: days_before_year_Suc)
  also have "\<dots> \<le> days_before_year 400" using r by (rule days_before_year_mono)
  finally have lt: "days_before_year r + k < 146097" by (simp add: days_before_year_def)
  have "day_number ymd = 146097 * q + (days_before_year r + k)"
    by (simp add: ymd day_number_def k_def y days_before_year_400 days_before_month_400)
  moreover have "(time_of_date ymd + ms) div ms_per_day = int (day_number ymd) - epoch_day"
    using assms(2,3) by (simp add: time_of_date_def ms_per_day_def)
  ultimately have day: "(time_of_date ymd + ms) div ms_per_day + epoch_day = int (146097 * q + (days_before_year r + k))"
    by simp
  have "(146097 * q + n) div 146097 = q" "(146097 * q + n) mod 146097 = n" if "n < 146097" for n
    using that by simp_all
  from this [OF lt]
  have "int (146097 * q + (days_before_year r + k)) div 146097 = int q"
    "nat (int (146097 * q + (days_before_year r + k)) mod 146097) = days_before_year r + k"
    using zdiv_int [of "146097 * q + (days_before_year r + k)" 146097]
      zmod_int [of "146097 * q + (days_before_year r + k)" 146097] by simp_all
  moreover have "year_of_day 0 (days_before_year r + k) = (r, k)" using k by (rule year_of_day_0)
  moreover have "month_of_day r 1 k = (m, d)"
    unfolding k_def using month_of_day_1 [OF v(2,3) dm] v(4) by simp
  moreover have "iso_year (400 * int q + int r) = pad_digits 4 y"
  proof -
    have "400 * int q + int r = int y" by (simp add: y)
    with v(1) show ?thesis by (simp add: iso_year_def)
  qed
  ultimately show ?thesis
    by (simp only: iso_date_def day Let_def prod.case) (simp add: ymd iso_text_def)
qed

lemma iso_date_of_time_of_date:
  assumes "valid_date ymd"
  shows "iso_date_of_time (time_of_date ymd) = iso_text ymd"
  using iso_date_time_of_date [OF assms, of 0]
  by (cases ymd) (simp add: iso_date_of_time_def ms_per_day_def iso_text_def pad_digits_2 pad_digits_4)

text \<open>A text of \<open>toISOString\<close> names the instant it was made of.\<close>

lemma clock_value_iso: "ms < 86400000 \<Longrightarrow> clock_value (iso_clock ms) = ms"
proof -
  assume ms: "ms < 86400000"
  have p3: "pad_digits 3 n = [48 + n div 100 mod 10, 48 + n div 10 mod 10, 48 + n mod 10]" for n
    by (simp add: pad_digits_def upt_rec)
  have v3: "digits_val (pad_digits 3 n) = n" if "n < 1000" for n
  proof -
    have "n div 100 < 10" using that by linarith
    then have "(n div 100 * 10 + n div 10 mod 10) * 10 + n mod 10 = n"
      using div_mult_mod_eq [of "n div 10" 10] div_mult_mod_eq [of n 10] by (simp add: div_mult2_eq [symmetric])
    then show ?thesis using \<open>n div 100 < 10\<close> by (simp add: p3 digits_val_def)
  qed
  have parts: "take 2 (drop 1 (iso_clock ms)) = pad_digits 2 (ms div 3600000)"
    "take 2 (drop 4 (iso_clock ms)) = pad_digits 2 (ms div 60000 mod 60)"
    "take 2 (drop 7 (iso_clock ms)) = pad_digits 2 (ms div 1000 mod 60)"
    "take 3 (drop 10 (iso_clock ms)) = pad_digits 3 (ms mod 1000)"
    by (simp_all add: iso_clock_def pad_digits_2 p3)
  have "ms div 3600000 < 100" using ms by linarith
  then have "clock_value (iso_clock ms) =
      3600000 * (ms div 3600000) + 60000 * (ms div 60000 mod 60) + 1000 * (ms div 1000 mod 60) + ms mod 1000"
    unfolding clock_value_def parts by (simp add: pad_digits_val_2 v3)
  also have "\<dots> = ms"
  proof -
    have d: "ms div 1000 div 60 = ms div 60000" "ms div 60000 div 60 = ms div 3600000"
      by (simp_all add: div_mult2_eq [symmetric])
    show ?thesis
      using div_mult_mod_eq [of ms 1000] div_mult_mod_eq [of "ms div 1000" 60, unfolded d]
        div_mult_mod_eq [of "ms div 60000" 60, unfolded d] by linarith
  qed
  finally show ?thesis .
qed

lemma js_Date_toISOString:
  assumes "valid_date ymd" "0 \<le> ms" "ms < ms_per_day"
  shows "js_Date other (toISOString (time_of_date ymd + ms)) = Some (time_of_date ymd + ms)"
    "js_Date other (iso_text ymd) = Some (time_of_date ymd)"
proof -
  have len: "length (iso_text ymd) = 10" by (cases ymd) (simp add: iso_text_def pad_digits_2 pad_digits_4)
  have canon: "CANONICAL_ISO_DATE (iso_text ymd) = Some ymd"
  proof -
    obtain y m d where ymd: "ymd = (y, m, d)" by (cases ymd) auto
    then show ?thesis using assms(1) daysInMonth_le [of y m] by (simp add: CANONICAL_ISO_DATE_iff valid_date_def)
  qed
  have "(time_of_date ymd + ms) mod ms_per_day = ms"
    using assms(2,3) by (simp add: time_of_date_def)
  then have iso: "toISOString (time_of_date ymd + ms) = iso_text ymd @ iso_clock (nat ms)"
    by (simp add: toISOString_def iso_date_time_of_date [OF assms])
  have "nat ms < 86400000" using assms(2,3) by (simp add: ms_per_day_def nat_less_iff)
  moreover have "iso_clock (nat ms) \<noteq> []" by (simp add: iso_clock_def)
  ultimately show "js_Date other (toISOString (time_of_date ymd + ms)) = Some (time_of_date ymd + ms)"
    using assms(1,2) by (simp add: iso js_Date_def Let_def len canon clock_value_iso)
  show "js_Date other (iso_text ymd) = Some (time_of_date ymd)"
    using assms(1) by (simp add: js_Date_def Let_def len canon)
qed

end
