(* ===== verification/LegalWriter.thy ===== *)
theory LegalWriter
  imports ValidatedEvidence JsDate
begin

section \<open>The persistence boundary (legal-application-writer.ts)\<close>

text \<open>
  \<open>writeApply\<close> prepares the plan of a command (validation, allocation, assembly), then works on the
  caller's database transaction: it takes the advisory lock of the case, reads the collection, looks
  for a batch with the idempotency key, refuses a second APPLY batch of the collection, and creates
  the batch with its applications. The transaction is Prisma's client and is a parameter: a record of
  the five operations the code calls, each of which may fail. What the writer relies on of them is the
  locale \<open>batch_store\<close> of theory \<open>LegalStore\<close>. Exceptions are values of \<open>writer_exception\<close>.
\<close>

datatype LegalApplicationWriterErrorCode =
    WRITER_INPUT_INVALID
  | WRITER_PLAN_REJECTED
  | COLLECTION_CONTEXT_MISMATCH
  | COLLECTION_NOT_CONFIRMED
  | COLLECTION_CURRENCY_MISMATCH
  | IDEMPOTENCY_KEY_CONFLICT
  | COLLECTION_ALREADY_APPLIED
  | PERSISTED_EVIDENCE_MISMATCH
  | PERSISTENCE_CONFLICT
  | PERSISTENCE_FAILURE

record LegalApplicationWriterError =
  we_code :: LegalApplicationWriterErrorCode
  we_planErrorCode :: "LegalApplicationPlanErrorCode option"

abbreviation writer_error :: "LegalApplicationWriterErrorCode \<Rightarrow> LegalApplicationWriterError" where
  "writer_error code \<equiv> \<lparr>we_code = code, we_planErrorCode = None\<rparr>"

record WriteLegalApplicationPlanInput =
  wi_command :: BuildLegalApplicationPlanCommand
  wi_snapshotEnvelope :: CanonicalSnapshotEnvelopeV1
  wi_createdAt :: jsdate

record WriteLegalApplicationPlanResult =
  wr_batchId :: jstr
  wr_replayed :: bool
  wr_plan :: LegalApplicationPlan

record PersistedApplicationEvidence =
  pe_componentType :: jstr
  pe_componentCode :: jstr
  pe_sourceLineageSetRef :: jstr
  pe_bucketContextKey :: jstr
  pe_bucketInstanceId :: jstr
  pe_sequence :: nat
  pe_appliedAmountMinor :: int
  pe_bucketBeforeMinor :: int
  pe_bucketAfterMinor :: int

text \<open>A date read from a DATE column is a valid time value.\<close>

record PersistedBatchEvidence =
  pb_id :: jstr
  pb_batchType :: jstr
  pb_currency :: jstr
  pb_receiptAmountMinor :: int
  pb_heldRemainderMinor :: int
  pb_snapshotContractVersion :: jstr
  pb_snapshotSerializationVersion :: jstr
  pb_snapshotRef :: jstr
  pb_snapshotHash :: jstr
  pb_snapshotCanonicalPayload :: jstr
  pb_sourceVersionSetHash :: jstr
  pb_snapshotAsOfDate :: int
  pb_applicationEffectiveDate :: int
  pb_historyBoundaryRef :: jstr
  pb_engineVersion :: jstr
  pb_calculationRuleVersion :: jstr
  pb_policyVersion :: jstr
  pb_rateTableVersion :: jstr
  pb_interpretationProfileId :: jstr
  pb_bucketIdentityVersion :: jstr
  pb_minorUnit :: jsnum
  pb_commandHash :: jstr
  pb_reversesBatchId :: "jstr option"
  pb_applications :: "PersistedApplicationEvidence list"

text \<open>The argument of \<open>legalApplicationBatch.create\<close> with its nested applications.\<close>

record ApplicationData = PersistedApplicationEvidence +
  ad_createdAt :: jsdate

record BatchData =
  bd_tenantId :: jstr
  bd_caseId :: jstr
  bd_collectionId :: jstr
  bd_batchType :: jstr
  bd_currency :: jstr
  bd_receiptAmountMinor :: int
  bd_heldRemainderMinor :: int
  bd_snapshotContractVersion :: jstr
  bd_snapshotSerializationVersion :: jstr
  bd_snapshotRef :: jstr
  bd_snapshotHash :: jstr
  bd_snapshotCanonicalPayload :: jstr
  bd_sourceVersionSetHash :: jstr
  bd_snapshotAsOfDate :: jsdate
  bd_applicationEffectiveDate :: jsdate
  bd_historyBoundaryRef :: jstr
  bd_engineVersion :: jstr
  bd_calculationRuleVersion :: jstr
  bd_policyVersion :: jstr
  bd_rateTableVersion :: jstr
  bd_interpretationProfileId :: jstr
  bd_bucketIdentityVersion :: jstr
  bd_minorUnit :: jsnum
  bd_idempotencyKey :: jstr
  bd_commandHash :: jstr
  bd_reversesBatchId :: "jstr option"
  bd_createdAt :: jsdate
  bd_applications :: "ApplicationData list"

record CollectionRow =
  cr_status :: jstr
  cr_confirmedAt :: jsdate
  cr_currency :: jstr

text \<open>
  The transaction client: an error of a known request carries its code. A column \<open>confirmedAt\<close> that
  is null is \<open>None\<close>.
\<close>

datatype db_error = KnownRequestError jstr | OtherError

record 's transaction_client =
  tx_lock :: "jstr \<Rightarrow> 's \<Rightarrow> db_error + 's"
  tx_findCollection :: "jstr \<Rightarrow> jstr \<Rightarrow> jstr \<Rightarrow> 's \<Rightarrow> db_error + CollectionRow option"
  tx_findBatchByKey :: "jstr \<Rightarrow> jstr \<Rightarrow> 's \<Rightarrow> db_error + PersistedBatchEvidence option"
  tx_findApplyBatch :: "jstr \<Rightarrow> jstr \<Rightarrow> 's \<Rightarrow> db_error + jstr option"
  tx_createBatch :: "BatchData \<Rightarrow> 's \<Rightarrow> db_error + (jstr \<times> 's)"

datatype writer_exception =
    WriterException LegalApplicationWriterError
  | DatabaseException db_error

subsection \<open>Dates\<close>

text \<open>\<open>other\<close> is what the runtime makes of a text that is not a calendar date.\<close>

definition dateOnlyUtc :: "(jstr \<Rightarrow> jsdate) \<Rightarrow> jstr \<Rightarrow> jsdate" where
  "dateOnlyUtc other value =
     (case CANONICAL_ISO_DATE value of
        Some ymd \<Rightarrow> if valid_date ymd then Some (time_of_date ymd) else other value
      | None \<Rightarrow> other value)"

definition dateOnly :: "int \<Rightarrow> jstr" where
  "dateOnly value = iso_date_of_time value"

definition validCreatedAt :: "jsdate \<Rightarrow> bool" where
  "validCreatedAt value \<longleftrightarrow> value \<noteq> None"

subsection \<open>Comparison with a persisted batch\<close>

definition sameApplication ::
  "PersistedApplicationEvidence \<Rightarrow> PlannedLegalApplication \<Rightarrow> bool" where
  "sameApplication persisted planned \<longleftrightarrow>
     pe_componentType persisted = pa_componentType planned \<and>
     pe_componentCode persisted = pa_componentCode planned \<and>
     pe_sourceLineageSetRef persisted = pa_sourceLineageSetRef planned \<and>
     pe_bucketContextKey persisted = pa_bucketContextKey planned \<and>
     pe_bucketInstanceId persisted = pa_bucketInstanceId planned \<and>
     pe_sequence persisted = pa_sequence planned \<and>
     pe_appliedAmountMinor persisted = pa_appliedAmountMinor planned \<and>
     pe_bucketBeforeMinor persisted = pa_bucketBeforeMinor planned \<and>
     pe_bucketAfterMinor persisted = pa_bucketAfterMinor planned"

definition persistedEvidenceMatches ::
  "PersistedBatchEvidence \<Rightarrow> WriteLegalApplicationPlanInput \<Rightarrow> LegalApplicationPlan \<Rightarrow> bool" where
  "persistedEvidenceMatches persisted input plan \<longleftrightarrow>
     (let snapshot = en_snapshot (wi_snapshotEnvelope input) in
      pb_batchType persisted = APPLY \<and>
      pb_currency persisted = lp_currency plan \<and>
      pb_receiptAmountMinor persisted = lp_receiptAmountMinor plan \<and>
      pb_heldRemainderMinor persisted = lp_heldRemainderMinor plan \<and>
      pb_snapshotContractVersion persisted = sn_snapshotContractVersion snapshot \<and>
      pb_snapshotSerializationVersion persisted = sn_snapshotSerializationVersion snapshot \<and>
      pb_snapshotRef persisted = lp_snapshotRef plan \<and>
      pb_snapshotHash persisted = lp_snapshotHash plan \<and>
      pb_snapshotCanonicalPayload persisted = en_canonicalPayload (wi_snapshotEnvelope input) \<and>
      pb_sourceVersionSetHash persisted = lp_sourceVersionSetHash plan \<and>
      dateOnly (pb_snapshotAsOfDate persisted) = sn_snapshotAsOfDate snapshot \<and>
      dateOnly (pb_applicationEffectiveDate persisted) = lp_applicationEffectiveDate plan \<and>
      pb_historyBoundaryRef persisted = lp_historyBoundaryRef plan \<and>
      pb_engineVersion persisted = sn_engineVersion snapshot \<and>
      pb_calculationRuleVersion persisted = sn_calculationRuleVersion snapshot \<and>
      pb_policyVersion persisted = sn_policyVersion snapshot \<and>
      pb_rateTableVersion persisted = sn_rateTableVersion snapshot \<and>
      pb_interpretationProfileId persisted = sn_interpretationProfileId snapshot \<and>
      pb_bucketIdentityVersion persisted = sn_bucketIdentityVersion snapshot \<and>
      js_num_eq (pb_minorUnit persisted) (lp_minorUnit plan) \<and>
      pb_commandHash persisted = cm_commandHash (wi_command input) \<and>
      pb_reversesBatchId persisted = None \<and>
      length (pb_applications persisted) = length (lp_applications plan) \<and>
      list_all (\<lambda>(application, planned). sameApplication application planned)
        (zip (pb_applications persisted) (lp_applications plan)))"

subsection \<open>The objects handed to the validator\<close>

definition source_value :: "CanonicalSourceVersionV1 \<Rightarrow> jsval" where
  "source_value s =
     VObj [(js ''sourceReference'', VStr (sv_sourceReference s)),
           (js ''sourceVersion'', VStr (sv_sourceVersion s))]"

definition bucket_value :: "CanonicalLegalBucketV1 \<Rightarrow> jsval" where
  "bucket_value b =
     VObj ([(js ''componentType'', VStr (bk_componentType b)),
            (js ''componentCode'', VStr (bk_componentCode b)),
            (js ''bucketContextKey'', VStr (bk_bucketContextKey b)),
            (js ''bucketInstanceId'', VStr (bk_bucketInstanceId b)),
            (js ''sourceLineageSetRef'', VStr (bk_sourceLineageSetRef b)),
            (js ''legalBasisRef'', VStr (bk_legalBasisRef b)),
            (js ''effectivePeriodRef'', VStr (bk_effectivePeriodRef b))] @
           (case bk_interestRuleRef b of None \<Rightarrow> [] | Some r \<Rightarrow> [(js ''interestRuleRef'', VStr r)]) @
           [(js ''currency'', VStr (bk_currency b)), (js ''minorUnit'', VNum (bk_minorUnit b)),
            (js ''priorityRank'', VNum (bk_priorityRank b)),
            (js ''bucketBalanceMinor'', VBig (bk_bucketBalanceMinor b))])"

definition snapshot_value :: "CanonicalReceivableApplicationSnapshotV1 \<Rightarrow> jsval" where
  "snapshot_value s =
     VObj [(js ''snapshotContractVersion'', VStr (sn_snapshotContractVersion s)),
           (js ''snapshotSerializationVersion'', VStr (sn_snapshotSerializationVersion s)),
           (js ''tenantId'', VStr (sn_tenantId s)), (js ''caseId'', VStr (sn_caseId s)),
           (js ''targetCollectionId'', VStr (sn_targetCollectionId s)),
           (js ''currency'', VStr (sn_currency s)), (js ''minorUnit'', VNum (sn_minorUnit s)),
           (js ''receiptAmountMinor'', VBig (sn_receiptAmountMinor s)),
           (js ''snapshotAsOfDate'', VStr (sn_snapshotAsOfDate s)),
           (js ''applicationEffectiveDate'', VStr (sn_applicationEffectiveDate s)),
           (js ''historyBoundaryRef'', VStr (sn_historyBoundaryRef s)),
           (js ''engineVersion'', VStr (sn_engineVersion s)),
           (js ''calculationRuleVersion'', VStr (sn_calculationRuleVersion s)),
           (js ''policyVersion'', VStr (sn_policyVersion s)),
           (js ''rateTableVersion'', VStr (sn_rateTableVersion s)),
           (js ''interpretationProfileId'', VStr (sn_interpretationProfileId s)),
           (js ''bucketIdentityVersion'', VStr (sn_bucketIdentityVersion s)),
           (js ''sourceVersionSet'', VArr (map source_value (sn_sourceVersionSet s))),
           (js ''sourceVersionSetHash'', VStr (sn_sourceVersionSetHash s)),
           (js ''canonicalBuckets'', VArr (map bucket_value (sn_canonicalBuckets s)))]"

definition envelope_value :: "CanonicalSnapshotEnvelopeV1 \<Rightarrow> jsobj" where
  "envelope_value e =
     [(js ''snapshotRef'', VStr (en_snapshotRef e)), (js ''snapshotHash'', VStr (en_snapshotHash e)),
      (js ''canonicalPayload'', VStr (en_canonicalPayload e)),
      (js ''snapshot'', snapshot_value (en_snapshot e))]"

text \<open>The command with its receipt as text.\<close>

definition command_value :: "BuildLegalApplicationPlanCommand \<Rightarrow> jsobj" where
  "command_value c =
     [(js ''tenantId'', VStr (cm_tenantId c)), (js ''caseId'', VStr (cm_caseId c)),
      (js ''collectionId'', VStr (cm_collectionId c)),
      (js ''receiptAmountMinor'', VStr (js_of_int (cm_receiptAmountMinor c))),
      (js ''currency'', VStr (cm_currency c)), (js ''minorUnit'', VNum (cm_minorUnit c)),
      (js ''applicationEffectiveDate'', VStr (cm_applicationEffectiveDate c)),
      (js ''expectedSnapshotRef'', VStr (cm_expectedSnapshotRef c)),
      (js ''expectedSnapshotHash'', VStr (cm_expectedSnapshotHash c)),
      (js ''expectedSourceVersionSetHash'', VStr (cm_expectedSourceVersionSetHash c)),
      (js ''expectedHistoryBoundaryRef'', VStr (cm_expectedHistoryBoundaryRef c)),
      (js ''idempotencyKey'', VStr (cm_idempotencyKey c)),
      (js ''commandHash'', VStr (cm_commandHash c))]"

definition validator_input :: "WriteLegalApplicationPlanInput \<Rightarrow> jsval" where
  "validator_input input =
     VObj [(js ''direction'', VStr APPLY), (js ''command'', VObj (command_value (wi_command input))),
           (js ''snapshotEnvelope'', VObj (envelope_value (wi_snapshotEnvelope input)))]"

subsection \<open>The plan\<close>

definition preparePlan ::
  "(jstr \<Rightarrow> jstr) \<Rightarrow> (bytes \<Rightarrow> jstr) \<Rightarrow> WriteLegalApplicationPlanInput \<Rightarrow>
   LegalApplicationWriterError + LegalApplicationPlan" where
  "preparePlan nfc sha input =
     (if \<not> validCreatedAt (wi_createdAt input) then Inl (writer_error WRITER_INPUT_INVALID)
      else
        case validateCanonicalSnapshot nfc sha (validator_input input) of
          Inl e \<Rightarrow> Inl \<lparr>we_code = WRITER_PLAN_REJECTED, we_planErrorCode = Some (err_code e)\<rparr>
        | Inr validation \<Rightarrow>
            let allocation = allocateValidatedSnapshotForApply
                  \<lparr>ai_validatedSnapshot = validation, ai_direction = VStr APPLY,
                   ai_receiptAmountMinor = cm_receiptAmountMinor (wi_command input)\<rparr> in
            case allocation of
              Inl code \<Rightarrow> Inl \<lparr>we_code = WRITER_PLAN_REJECTED, we_planErrorCode = Some code\<rparr>
            | Inr _ \<Rightarrow>
                case assembleLegalApplicationPlan nfc sha
                       \<lparr>ab_direction = VStr APPLY, ab_command = wi_command input,
                        ab_validatedSnapshot = validation, ab_allocationResult = allocation,
                        ab_attributions = None\<rparr> of
                  Inl code \<Rightarrow> Inl \<lparr>we_code = WRITER_PLAN_REJECTED, we_planErrorCode = Some code\<rparr>
                | Inr plan \<Rightarrow> Inr plan)"

subsection \<open>The write\<close>

definition mapPersistenceError :: "writer_exception \<Rightarrow> LegalApplicationWriterError" where
  "mapPersistenceError error =
     (case error of
        WriterException e \<Rightarrow> e
      | DatabaseException d \<Rightarrow>
          if d = KnownRequestError (js ''P2002'') then writer_error PERSISTENCE_CONFLICT
          else writer_error PERSISTENCE_FAILURE)"

definition CONFIRMED :: jstr where "CONFIRMED = js ''CONFIRMED''"

definition application_data :: "jsdate \<Rightarrow> PlannedLegalApplication \<Rightarrow> ApplicationData" where
  "application_data createdAt a =
     \<lparr>pe_componentType = pa_componentType a, pe_componentCode = pa_componentCode a,
      pe_sourceLineageSetRef = pa_sourceLineageSetRef a,
      pe_bucketContextKey = pa_bucketContextKey a, pe_bucketInstanceId = pa_bucketInstanceId a,
      pe_sequence = pa_sequence a, pe_appliedAmountMinor = pa_appliedAmountMinor a,
      pe_bucketBeforeMinor = pa_bucketBeforeMinor a, pe_bucketAfterMinor = pa_bucketAfterMinor a,
      ad_createdAt = createdAt\<rparr>"

definition batch_data ::
  "(jstr \<Rightarrow> jsdate) \<Rightarrow> WriteLegalApplicationPlanInput \<Rightarrow> LegalApplicationPlan \<Rightarrow> BatchData" where
  "batch_data other input plan =
     (let snapshot = en_snapshot (wi_snapshotEnvelope input); command = wi_command input in
      \<lparr>bd_tenantId = lp_tenantId plan, bd_caseId = lp_caseId plan,
       bd_collectionId = lp_collectionId plan, bd_batchType = APPLY,
       bd_currency = lp_currency plan, bd_receiptAmountMinor = lp_receiptAmountMinor plan,
       bd_heldRemainderMinor = lp_heldRemainderMinor plan,
       bd_snapshotContractVersion = sn_snapshotContractVersion snapshot,
       bd_snapshotSerializationVersion = sn_snapshotSerializationVersion snapshot,
       bd_snapshotRef = lp_snapshotRef plan, bd_snapshotHash = lp_snapshotHash plan,
       bd_snapshotCanonicalPayload = en_canonicalPayload (wi_snapshotEnvelope input),
       bd_sourceVersionSetHash = lp_sourceVersionSetHash plan,
       bd_snapshotAsOfDate = dateOnlyUtc other (sn_snapshotAsOfDate snapshot),
       bd_applicationEffectiveDate = dateOnlyUtc other (lp_applicationEffectiveDate plan),
       bd_historyBoundaryRef = lp_historyBoundaryRef plan,
       bd_engineVersion = sn_engineVersion snapshot,
       bd_calculationRuleVersion = sn_calculationRuleVersion snapshot,
       bd_policyVersion = sn_policyVersion snapshot,
       bd_rateTableVersion = sn_rateTableVersion snapshot,
       bd_interpretationProfileId = sn_interpretationProfileId snapshot,
       bd_bucketIdentityVersion = sn_bucketIdentityVersion snapshot,
       bd_minorUnit = lp_minorUnit plan, bd_idempotencyKey = cm_idempotencyKey command,
       bd_commandHash = cm_commandHash command, bd_reversesBatchId = None,
       bd_createdAt = wi_createdAt input,
       bd_applications = map (application_data (wi_createdAt input)) (lp_applications plan)\<rparr>)"

text \<open>The body of the \<open>try\<close> block after the lock.\<close>

definition write_locked ::
  "(jstr \<Rightarrow> jsdate) \<Rightarrow> 's transaction_client \<Rightarrow> WriteLegalApplicationPlanInput \<Rightarrow> LegalApplicationPlan \<Rightarrow>
   's \<Rightarrow> writer_exception + (WriteLegalApplicationPlanResult \<times> 's)" where
  "write_locked other tx input plan s =
     (let command = wi_command input in
      case tx_findCollection tx (cm_collectionId command) (cm_tenantId command) (cm_caseId command) s of
        Inl e \<Rightarrow> Inl (DatabaseException e)
      | Inr None \<Rightarrow> Inl (WriterException (writer_error COLLECTION_CONTEXT_MISMATCH))
      | Inr (Some collection) \<Rightarrow>
          if cr_status collection \<noteq> CONFIRMED \<or> cr_confirmedAt collection = None
          then Inl (WriterException (writer_error COLLECTION_NOT_CONFIRMED))
          else if cr_currency collection \<noteq> cm_currency command
          then Inl (WriterException (writer_error COLLECTION_CURRENCY_MISMATCH))
          else
            case tx_findBatchByKey tx (cm_tenantId command) (cm_idempotencyKey command) s of
              Inl e \<Rightarrow> Inl (DatabaseException e)
            | Inr (Some existing) \<Rightarrow>
                if pb_commandHash existing \<noteq> cm_commandHash command
                then Inl (WriterException (writer_error IDEMPOTENCY_KEY_CONFLICT))
                else if \<not> persistedEvidenceMatches existing input plan
                then Inl (WriterException (writer_error PERSISTED_EVIDENCE_MISMATCH))
                else Inr (\<lparr>wr_batchId = pb_id existing, wr_replayed = True, wr_plan = plan\<rparr>, s)
            | Inr None \<Rightarrow>
                (case tx_findApplyBatch tx (cm_tenantId command) (cm_collectionId command) s of
                   Inl e \<Rightarrow> Inl (DatabaseException e)
                 | Inr (Some _) \<Rightarrow> Inl (WriterException (writer_error COLLECTION_ALREADY_APPLIED))
                 | Inr None \<Rightarrow>
                     (case tx_createBatch tx (batch_data other input plan) s of
                        Inl e \<Rightarrow> Inl (DatabaseException e)
                      | Inr (created, s') \<Rightarrow>
                          Inr (\<lparr>wr_batchId = created, wr_replayed = False, wr_plan = plan\<rparr>, s'))))"

definition writeApply ::
  "(jstr \<Rightarrow> jstr) \<Rightarrow> (bytes \<Rightarrow> jstr) \<Rightarrow> (jstr \<Rightarrow> jsdate) \<Rightarrow> 's transaction_client \<Rightarrow>
   WriteLegalApplicationPlanInput \<Rightarrow> 's \<Rightarrow>
   (LegalApplicationWriterError + WriteLegalApplicationPlanResult) \<times> 's" where
  "writeApply nfc sha other tx input s =
     (case preparePlan nfc sha input of
        Inl e \<Rightarrow> (Inl e, s)
      | Inr plan \<Rightarrow>
          (case tx_lock tx (cm_caseId (wi_command input)) s of
             Inl e \<Rightarrow> (Inl (mapPersistenceError (DatabaseException e)), s)
           | Inr s1 \<Rightarrow>
               (case write_locked other tx input plan s1 of
                  Inl e \<Rightarrow> (Inl (mapPersistenceError e), s1)
                | Inr (result, s2) \<Rightarrow> (Inr result, s2))))"


subsection \<open>What the preparation returns\<close>

lemma js_of_int_format: "0 \<le> n \<Longrightarrow> js_of_int i = formatMinorAmount n \<longleftrightarrow> i = n"
proof -
  assume n: "0 \<le> n"
  have "js_of_int i = js_of_nat (nat n) \<longleftrightarrow> i = n"
  proof (cases "0 \<le> i")
    case False
    then have "hd (js_of_int i) = 45" by (simp add: js_of_int_def)
    moreover have "hd (js_of_nat k) \<noteq> 45" for k
      using js_of_nat_digits [of k] by (cases "js_of_nat k") (auto simp: js_digit_def)
    ultimately show ?thesis using False n by metis
  qed (use n in \<open>simp add: eq_nat_nat_iff\<close>)
  with n show ?thesis by (simp add: formatMinorAmount_def)
qed

lemma parseCommand_value:
  assumes "parseCommand (command_value c) = Some d"
  shows "d = c"
proof -
  note p = assms [unfolded parseCommand_Some]
  have fields:
    "fld (command_value c) ''tenantId'' = VStr (cm_tenantId c)"
    "fld (command_value c) ''caseId'' = VStr (cm_caseId c)"
    "fld (command_value c) ''collectionId'' = VStr (cm_collectionId c)"
    "fld (command_value c) ''receiptAmountMinor'' = VStr (js_of_int (cm_receiptAmountMinor c))"
    "fld (command_value c) ''currency'' = VStr (cm_currency c)"
    "fld (command_value c) ''minorUnit'' = VNum (cm_minorUnit c)"
    "fld (command_value c) ''applicationEffectiveDate'' = VStr (cm_applicationEffectiveDate c)"
    "fld (command_value c) ''expectedSnapshotRef'' = VStr (cm_expectedSnapshotRef c)"
    "fld (command_value c) ''expectedSnapshotHash'' = VStr (cm_expectedSnapshotHash c)"
    "fld (command_value c) ''expectedSourceVersionSetHash'' = VStr (cm_expectedSourceVersionSetHash c)"
    "fld (command_value c) ''expectedHistoryBoundaryRef'' = VStr (cm_expectedHistoryBoundaryRef c)"
    "fld (command_value c) ''idempotencyKey'' = VStr (cm_idempotencyKey c)"
    "fld (command_value c) ''commandHash'' = VStr (cm_commandHash c)"
    by (simp_all add: command_value_def obj_get_def)
  show ?thesis
    using p unfolding fields by (cases c; cases d) (auto simp: js_of_int_format)
qed


definition assembly_input ::
  "BuildLegalApplicationPlanCommand \<Rightarrow> ValidatedCanonicalSnapshotV1 \<Rightarrow> AssembleLegalApplicationPlanInput" where
  "assembly_input c v =
     \<lparr>ab_direction = VStr APPLY, ab_command = c, ab_validatedSnapshot = v,
      ab_allocationResult = Inr (waterfall_result (vs_snapshot v) (cm_receiptAmountMinor c)),
      ab_attributions = None\<rparr>"

lemma validated_for_command:
  assumes "validateCanonicalSnapshot nfc sha (validator_input input) = Inr v"
  shows "command_bound (wi_command input) v"
    and "list_all (isCanonicalIdentityString nfc) (command_identity_strings (wi_command input) v)"
    and "snapshot_canonical nfc (vs_snapshot v)"
    and "0 \<le> cm_receiptAmountMinor (wi_command input)"
    and "cm_receiptAmountMinor (wi_command input) \<le> POSTGRES_BIGINT_MAX"
    and "vs_canonicalPayload v = en_canonicalPayload (wi_snapshotEnvelope input)"
    and "date_text (cm_applicationEffectiveDate (wi_command input))"
    and "js_nat_upto POSTGRES_INTEGER_MAX (cm_minorUnit (wi_command input))"
proof -
  obtain m c e payload raw cmd ev facts vers srcs bks where
    o: "openEnvelope (validator_input input) = Inr (m, c, e, payload, raw)" and
    a: "accepts nfc sha m c e payload raw cmd ev facts vers srcs bks" and
    v: "v = validated payload ev facts vers srcs bks"
    using assms unfolding validateCanonicalSnapshot_Inr by blast
  have c: "c = command_value (wi_command input)" and e: "e = envelope_value (wi_snapshotEnvelope input)"
    and payload: "fld e ''canonicalPayload'' = VStr payload"
    using o unfolding openEnvelope_Inr by (auto simp: validator_input_def obj_get_def)
  have parsed: "parseCommand (command_value (wi_command input)) = Some cmd"
    using a by (simp add: accepts_def c)
  then have cmd: "cmd = wi_command input" by (rule parseCommand_value)
  show "command_bound (wi_command input) v" using validated_bound [OF a] by (simp add: v cmd)
  show "list_all (isCanonicalIdentityString nfc) (command_identity_strings (wi_command input) v)"
    using validated_context_strings [OF a] by (simp add: v cmd)
  show "snapshot_canonical nfc (vs_snapshot v)" using validated_canonical [OF a] by (simp add: v)
  show "0 \<le> cm_receiptAmountMinor (wi_command input)"
    "cm_receiptAmountMinor (wi_command input) \<le> POSTGRES_BIGINT_MAX"
    "date_text (cm_applicationEffectiveDate (wi_command input))"
    "js_nat_upto POSTGRES_INTEGER_MAX (cm_minorUnit (wi_command input))"
    using parsed by (simp_all add: parseCommand_Some cmd)
  show "vs_canonicalPayload v = en_canonicalPayload (wi_snapshotEnvelope input)"
    using payload by (simp add: e envelope_value_def obj_get_def v)
qed

text \<open>
  For an accepted snapshot the allocation fails only on a zero receipt and the builder never: the
  preparation is the validation followed by the waterfall.
\<close>

lemma preparePlan_spec:
  assumes "sha_hex sha"
  shows "preparePlan nfc sha input =
    (if wi_createdAt input = None then Inl (writer_error WRITER_INPUT_INVALID)
     else case validateCanonicalSnapshot nfc sha (validator_input input) of
       Inl e \<Rightarrow> Inl \<lparr>we_code = WRITER_PLAN_REJECTED, we_planErrorCode = Some (err_code e)\<rparr>
     | Inr v \<Rightarrow>
         if cm_receiptAmountMinor (wi_command input) = 0
         then Inl \<lparr>we_code = WRITER_PLAN_REJECTED, we_planErrorCode = Some RECEIPT_AMOUNT_INVALID\<rparr>
         else Inr (expected_plan nfc sha (assembly_input (wi_command input) v)))"
proof (cases "validateCanonicalSnapshot nfc sha (validator_input input)")
  case (Inl e)
  then show ?thesis by (simp add: preparePlan_def validCreatedAt_def)
next
  case (Inr v)
  let ?c = "wi_command input"
  let ?r = "cm_receiptAmountMinor ?c"
  let ?alloc = "allocateValidatedSnapshotForApply
    \<lparr>ai_validatedSnapshot = v, ai_direction = VStr APPLY, ai_receiptAmountMinor = ?r\<rparr>"
  note v = validated_for_command [OF Inr]
  have r: "?r = sn_receiptAmountMinor (vs_snapshot v)" using v(1) by (simp add: command_bound_def)
  show ?thesis
  proof (cases "?r = 0")
    case True
    then have "?alloc = Inl RECEIPT_AMOUNT_INVALID" by (simp add: allocateValidatedSnapshotForApply_def)
    with True Inr show ?thesis by (simp add: preparePlan_def validCreatedAt_def)
  next
    case False
    have alloc: "?alloc = Inr (waterfall_result (vs_snapshot v) ?r)"
      using False v(3-5) r by (simp add: allocate_Inr apply_admissible_def snapshot_canonical_def)
    have "assembleLegalApplicationPlan nfc sha (assembly_input ?c v) =
        Inr (expected_plan nfc sha (assembly_input ?c v))"
    proof (rule assemble_expected [OF assms])
      show "snapshot_canonical nfc (vs_snapshot (ab_validatedSnapshot (assembly_input ?c v)))"
        using v(3) by (simp add: assembly_input_def)
      show "allocateValidatedSnapshotForApply
          \<lparr>ai_validatedSnapshot = ab_validatedSnapshot (assembly_input ?c v), ai_direction = VStr APPLY,
           ai_receiptAmountMinor = ?r\<rparr> = ab_allocationResult (assembly_input ?c v)"
        using alloc by (simp add: assembly_input_def)
      show "ab_allocationResult (assembly_input ?c v) = Inr (waterfall_result (vs_snapshot v) ?r)"
        by (simp add: assembly_input_def)
      show "commandContextError nfc (assembly_input ?c v) = None"
        using v(1,2) by (simp add: commandContextError_None assembly_input_def)
    qed
    with False Inr alloc show ?thesis
      by (simp add: preparePlan_def validCreatedAt_def assembly_input_def)
  qed
qed

lemma expected_plan_sel:
  "lp_tenantId (expected_plan nfc sha (assembly_input c v)) = cm_tenantId c"
  "lp_caseId (expected_plan nfc sha (assembly_input c v)) = cm_caseId c"
  "lp_collectionId (expected_plan nfc sha (assembly_input c v)) = cm_collectionId c"
  "lp_currency (expected_plan nfc sha (assembly_input c v)) = cm_currency c"
  "lp_minorUnit (expected_plan nfc sha (assembly_input c v)) = cm_minorUnit c"
  "lp_snapshotRef (expected_plan nfc sha (assembly_input c v)) = vs_snapshotRef v"
  "lp_snapshotHash (expected_plan nfc sha (assembly_input c v)) = vs_snapshotHash v"
  "lp_applicationEffectiveDate (expected_plan nfc sha (assembly_input c v)) = cm_applicationEffectiveDate c"
  "lp_receiptAmountMinor (expected_plan nfc sha (assembly_input c v)) = cm_receiptAmountMinor c"
  "lp_heldRemainderMinor (expected_plan nfc sha (assembly_input c v)) =
     cm_receiptAmountMinor c - min (cm_receiptAmountMinor c) (balances (sn_canonicalBuckets (vs_snapshot v)))"
  "lp_appliedAmountMinor (expected_plan nfc sha (assembly_input c v)) =
     min (cm_receiptAmountMinor c) (balances (sn_canonicalBuckets (vs_snapshot v)))"
  "lp_applications (expected_plan nfc sha (assembly_input c v)) =
     plannedApplications (pour (legal_order (vs_snapshot v)) (cm_receiptAmountMinor c))"
  by (simp_all add: expected_plan_def assembly_input_def Let_def waterfall_result_def)

text \<open>The plan of a command: what the write relies on.\<close>

definition plan_for :: "BuildLegalApplicationPlanCommand \<Rightarrow> LegalApplicationPlan \<Rightarrow> bool" where
  "plan_for c p \<longleftrightarrow>
     lp_tenantId p = cm_tenantId c \<and> lp_caseId p = cm_caseId c \<and> lp_collectionId p = cm_collectionId c \<and>
     lp_currency p = cm_currency c \<and> lp_applicationEffectiveDate p = cm_applicationEffectiveDate c \<and>
     date_text (lp_applicationEffectiveDate p) \<and> js_nat_upto POSTGRES_INTEGER_MAX (lp_minorUnit p)"

lemma preparePlan_for:
  assumes "sha_hex sha" "preparePlan nfc sha input = Inr plan"
  shows "plan_for (wi_command input) plan"
proof -
  obtain v where "validateCanonicalSnapshot nfc sha (validator_input input) = Inr v"
    "plan = expected_plan nfc sha (assembly_input (wi_command input) v)"
    using assms(2) unfolding preparePlan_spec [OF assms(1)] guard_simps by auto
  then show ?thesis
    using validated_for_command(7,8) [of nfc sha input v] by (simp add: plan_for_def expected_plan_sel)
qed

end
