(* ===== verification/StoredEvidence.thy ===== *)
theory StoredEvidence
  imports LegalWriter
begin

section \<open>What of an accepted snapshot can be stored in text columns\<close>

text \<open>
  A TEXT column of PostgreSQL holds every Unicode text without the character U+0000; a string with an
  unpaired surrogate has no encoding. The validator of snapshots refuses control characters and unpaired
  surrogates in every string it reads (\<open>validateKnownNfcStrings\<close>), and the payload is a canonical
  serialisation, which escapes both. So all strings a batch stores of an accepted snapshot fit their
  columns; a batch has at most \<open>MAX_BUCKET_COUNT\<close> applications, so the sequence numbers fit as well.
\<close>

definition text_column :: "jstr \<Rightarrow> bool" where
  "text_column s \<longleftrightarrow> scalars s \<and> 0 \<notin> set s"

lemma zero_code_point: "0 \<in> set s \<Longrightarrow> 0 \<in> set (code_points s)"
  by (induction s rule: code_points.induct) (auto simp: high_surrogate_def low_surrogate_def)

lemma text_column_checked: "\<not> control_or_unpaired_surrogate s \<Longrightarrow> text_column s"
  using zero_code_point [of s]
  by (auto simp: text_column_def scalars_def control_or_unpaired_surrogate_def list_all_iff list_ex_iff)

lemma text_column_ascii: "list_all (\<lambda>u. 0 < u \<and> u < 128) s \<Longrightarrow> text_column s"
  by (auto simp: text_column_def scalars_def code_points_ascii list_all_iff surrogate_def)

subsection \<open>Canonical serialisations\<close>

text \<open>A text that can be put before any other without changing what is an unpaired surrogate there.\<close>

definition closed_text :: "jstr \<Rightarrow> bool" where
  "closed_text t \<longleftrightarrow> (\<forall>r. scalars (t @ r) = scalars r) \<and> 0 \<notin> set t"

lemma closed_text_column: "closed_text t \<Longrightarrow> text_column t"
  unfolding closed_text_def text_column_def by (metis append_Nil2 scalars_Nil)

lemma closed_text_append [simp]: "closed_text s \<Longrightarrow> closed_text t \<Longrightarrow> closed_text (s @ t)"
  by (simp add: closed_text_def)

lemma closed_text_Cons [simp]: "0 < u \<Longrightarrow> u < 128 \<Longrightarrow> closed_text t \<Longrightarrow> closed_text (u # t)"
  by (simp add: closed_text_def surrogate_def)

lemma closed_text_Nil [simp]: "closed_text []"
  by (simp add: closed_text_def)

lemma closed_text_ascii: "list_all (\<lambda>u. 0 < u \<and> u < 128) t \<Longrightarrow> closed_text t"
  by (induction t) auto

lemma closed_text_digits: "list_all js_digit t \<Longrightarrow> closed_text t"
  by (rule closed_text_ascii) (auto simp: js_digit_def elim: list.pred_mono_strong)

lemma closed_text_replicate: "0 < u \<Longrightarrow> u < 128 \<Longrightarrow> closed_text (replicate n u)"
  by (rule closed_text_ascii) (simp add: list_all_iff)

lemma zero_quote_body: "0 \<notin> set (quote_body s)"
proof -
  have "0 < hex_char n" for n by (simp add: hex_char_def)
  then have "0 \<notin> set (quote_unit u)" for u by (auto simp: quote_unit_def)
  then show ?thesis
    by (induction s rule: quote_body.induct) (auto simp: high_surrogate_def low_surrogate_def)
qed

lemma closed_text_quote: "closed_text (json_quote s)"
  using zero_quote_body [of s]
  by (simp add: closed_text_def json_quote_def scalars_quote_body surrogate_def)

lemma closed_text_nat [simp]: "closed_text (js_of_nat n)"
  by (rule closed_text_digits) (rule js_of_nat_digits)

lemma closed_text_format: "closed_text (format_decimal s n k)"
proof -
  have d: "list_all js_digit (take i (js_of_nat s))" "list_all js_digit (drop i (js_of_nat s))"
    "list_all js_digit (tl (js_of_nat s))" "js_digit (hd (js_of_nat s))" for i
  proof -
    note digits = js_of_nat_digits [of s, unfolded list_all_iff]
    show "list_all js_digit (take i (js_of_nat s))" "list_all js_digit (drop i (js_of_nat s))"
      using digits by (auto simp: list_all_iff dest: in_set_takeD in_set_dropD)
    show "list_all js_digit (tl (js_of_nat s))" "js_digit (hd (js_of_nat s))"
      using digits js_of_nat_ne_Nil [of s] by (cases "js_of_nat s", auto simp: list_all_iff)+
  qed
  then have "closed_text [hd (js_of_nat s), 46]"
    by (auto intro!: closed_text_ascii simp: js_digit_def)
  then have "closed_text (hd (js_of_nat s) # 46 # tl (js_of_nat s))"
    using closed_text_append [OF _ closed_text_digits [OF d(3)]] by fastforce
  then show ?thesis
    using closed_text_digits [OF d(1)] closed_text_digits [OF d(2)]
    by (auto simp: format_decimal_def Let_def intro!: closed_text_append closed_text_Cons closed_text_replicate)
qed

lemma closed_text_number: "closed_text (json_number_text n)"
  by (auto simp: json_number_text_def number_to_string_def js_of_int_def closed_text_format js_eval
      split: jsnum.splits option.splits)

lemma closed_text_join: "list_all closed_text ts \<Longrightarrow> closed_text (json_join ts)"
  by (induction ts rule: json_join.induct) auto

lemma closed_text_serialize: "closed_text (serializeCanonicalJson v)"
proof (induction v)
  case (VArr vs)
  then have "closed_text (json_join (map serializeCanonicalJson vs))"
    by (intro closed_text_join) (simp add: list_all_iff)
  then show ?case by simp
next
  case (VObj ms)
  have member: "closed_text (case map_of (map (\<lambda>(k, v). (k, serializeCanonicalJson v)) ms) key of
      Some t \<Rightarrow> t | None \<Rightarrow> [])" for key
    using VObj by (auto split: option.splits dest!: map_of_SomeD)
  then have "closed_text (json_quote key @ [58] @
      (case map_of (map (\<lambda>(k, v). (k, serializeCanonicalJson v)) ms) key of Some t \<Rightarrow> t | None \<Rightarrow> []))" for key
    by (intro closed_text_append closed_text_quote) simp_all
  then have "closed_text (json_join (map (\<lambda>key. json_quote key @ [58] @
      (case map_of (map (\<lambda>(k, v). (k, serializeCanonicalJson v)) ms) key of Some t \<Rightarrow> t | None \<Rightarrow> []))
      (js_sort compareCanonicalKeys (map fst ms))))"
    by (intro closed_text_join) (auto simp only: list_all_iff set_map)
  then show ?case by (simp add: Let_def)
qed (auto simp: js_eval closed_text_number closed_text_quote)

subsection \<open>The strings of an accepted snapshot\<close>

lemma validated_text_columns:
  assumes "validateCanonicalSnapshot nfc sha (validator_input input) = Inr v"
  shows "list_all text_column
      [cm_tenantId (wi_command input), cm_caseId (wi_command input), cm_collectionId (wi_command input),
       cm_currency (wi_command input), cm_idempotencyKey (wi_command input), cm_commandHash (wi_command input)]"
    and "list_all text_column
      [sn_snapshotContractVersion (vs_snapshot v), sn_snapshotSerializationVersion (vs_snapshot v),
       sn_sourceVersionSetHash (vs_snapshot v),
       sn_historyBoundaryRef (vs_snapshot v), sn_engineVersion (vs_snapshot v),
       sn_calculationRuleVersion (vs_snapshot v), sn_policyVersion (vs_snapshot v),
       sn_rateTableVersion (vs_snapshot v), sn_interpretationProfileId (vs_snapshot v),
       sn_bucketIdentityVersion (vs_snapshot v)]"
    and "text_column (en_canonicalPayload (wi_snapshotEnvelope input))"
    and "\<forall>b \<in> set (sn_canonicalBuckets (vs_snapshot v)).
      list_all text_column [bk_componentCode b, bk_sourceLineageSetRef b, bk_bucketContextKey b,
        bk_bucketInstanceId b]"
    and "length (sn_canonicalBuckets (vs_snapshot v)) \<le> MAX_BUCKET_COUNT"
proof -
  obtain m c e payload raw cmd ev facts vers srcs bks where
    o: "openEnvelope (validator_input input) = Inr (m, c, e, payload, raw)" and
    a: "accepts nfc sha m c e payload raw cmd ev facts vers srcs bks" and
    v: "v = validated payload ev facts vers srcs bks"
    using assms unfolding validateCanonicalSnapshot_Inr by blast
  have c: "c = command_value (wi_command input)" and e: "e = envelope_value (wi_snapshotEnvelope input)"
    and payload: "fld e ''canonicalPayload'' = VStr payload"
    using o unfolding openEnvelope_Inr by (auto simp: validator_input_def obj_get_def)
  have parsed: "parseCommand c = Some cmd" and facts: "parseSnapshotPrimitiveFacts raw = Some facts"
    and vers: "parseVersionEvidence raw = Some vers"
    and bytes: "canonicalBytesError sha (VObj raw) payload cmd ev = None"
    and st: "structureError nfc sha c raw facts = None" "parseValidatedBuckets raw = Some bks"
    using a by (simp_all add: accepts_def)
  have cmd: "cmd = wi_command input" using parsed unfolding c by (rule parseCommand_value)
  have sn: "vs_snapshot v = materializeValidatedSnapshot facts vers srcs bks" by (simp add: v)
  have nfc: "validateKnownNfcStrings nfc c raw = None"
    using structureError_None [OF st(1)] by blast
  have cf: "text_column s" if "fld c f = VStr s"
    "f \<in> {''tenantId'', ''caseId'', ''collectionId'', ''currency'', ''idempotencyKey'', ''commandHash''}" for f s
  proof -
    note names = nfc [unfolded validateKnownNfcStrings_def or_else_None, THEN conjunct1]
    have "\<not> control_or_unpaired_surrogate s"
      by (rule conjunct2 [OF nfc_fields_None [OF names _ that(1)]]) (use that(2) in auto)
    then show ?thesis by (rule text_column_checked)
  qed
  have rf: "text_column s" if "fld raw f = VStr s" "f \<in> set SNAPSHOT_REQUIRED_FIELDS" for f s
    using nfc_fields_None [OF _ that(2,1)] nfc
    unfolding validateKnownNfcStrings_def or_else_None by (auto intro: text_column_checked)
  show "list_all text_column
      [cm_tenantId (wi_command input), cm_caseId (wi_command input), cm_collectionId (wi_command input),
       cm_currency (wi_command input), cm_idempotencyKey (wi_command input), cm_commandHash (wi_command input)]"
    using parsed cf [of "''tenantId''"] cf [of "''caseId''"] cf [of "''collectionId''"] cf [of "''currency''"]
      cf [of "''idempotencyKey''"] cf [of "''commandHash''"]
    by (simp add: parseCommand_Some cmd)
  have names: "{''snapshotContractVersion'', ''snapshotSerializationVersion'', ''historyBoundaryRef'',
      ''engineVersion'', ''calculationRuleVersion'', ''policyVersion'', ''rateTableVersion'',
      ''interpretationProfileId'', ''bucketIdentityVersion'', ''sourceVersionSetHash''}
      \<subseteq> set SNAPSHOT_REQUIRED_FIELDS"
    by (simp add: SNAPSHOT_REQUIRED_FIELDS_def)
  show "list_all text_column
      [sn_snapshotContractVersion (vs_snapshot v), sn_snapshotSerializationVersion (vs_snapshot v),
       sn_sourceVersionSetHash (vs_snapshot v),
       sn_historyBoundaryRef (vs_snapshot v), sn_engineVersion (vs_snapshot v),
       sn_calculationRuleVersion (vs_snapshot v), sn_policyVersion (vs_snapshot v),
       sn_rateTableVersion (vs_snapshot v), sn_interpretationProfileId (vs_snapshot v),
       sn_bucketIdentityVersion (vs_snapshot v)]"
    using names facts vers a rf [of "''sourceVersionSetHash''"] rf [of "''historyBoundaryRef''"]
      rf [of "''snapshotContractVersion''"] rf [of "''snapshotSerializationVersion''"]
      rf [of "''engineVersion''"] rf [of "''calculationRuleVersion''"] rf [of "''policyVersion''"]
      rf [of "''rateTableVersion''"] rf [of "''interpretationProfileId''"] rf [of "''bucketIdentityVersion''"]
    by (simp add: parseSnapshotPrimitiveFacts_Some parseVersionEvidence_Some sn accepts_def
        materializeValidatedSnapshot_def parseSnapshotContractVersion_def parseSerializationVersion_def)
  have "en_canonicalPayload (wi_snapshotEnvelope input) = serializeCanonicalJson (VObj raw)"
    using payload bytes by (simp add: e envelope_value_def obj_get_def canonicalBytesError_None)
  then show "text_column (en_canonicalPayload (wi_snapshotEnvelope input))"
    by (metis closed_text_column closed_text_serialize)
  obtain rbs where rbs: "fld raw ''canonicalBuckets'' = VArr rbs"
    "list_all2 (\<lambda>x y. parse_bucket x = Some y) rbs bks" "length rbs \<le> MAX_BUCKET_COUNT"
    using accepts_raw_buckets [OF st] by metis
  then show "length (sn_canonicalBuckets (vs_snapshot v)) \<le> MAX_BUCKET_COUNT"
    by (simp add: sn materializeValidatedSnapshot_def list_all2_lengthD)
  have each: "each_record (\<lambda>i m. nfc_fields nfc m (at_index ''$.canonicalBuckets'' i)
      (BUCKET_REQUIRED_FIELDS @ BUCKET_OPTIONAL_FIELDS)) (VArr rbs) = None"
    using nfc unfolding validateKnownNfcStrings_def or_else_None rbs(1) by blast
  show "\<forall>b \<in> set (sn_canonicalBuckets (vs_snapshot v)).
      list_all text_column [bk_componentCode b, bk_sourceLineageSetRef b, bk_bucketContextKey b,
        bk_bucketInstanceId b]"
  proof
    fix b assume "b \<in> set (sn_canonicalBuckets (vs_snapshot v))"
    then obtain i where i: "i < length bks" "bks ! i = b"
      by (auto simp: sn materializeValidatedSnapshot_def in_set_conv_nth)
    with rbs(2) have len: "i < length rbs" and "parse_bucket (rbs ! i) = Some b"
      by (auto simp: list_all2_conv_all_nth)
    then obtain m where m: "rbs ! i = VObj m"
      "parseComponentCode (fld m ''componentCode'') = Inr (bk_componentCode b)"
      "parseBucketContextKey (fld m ''bucketContextKey'') = Inr (bk_bucketContextKey b)"
      "parseBucketInstanceId (fld m ''bucketInstanceId'') = Inr (bk_bucketInstanceId b)"
      "parseSourceLineageSetRef (fld m ''sourceLineageSetRef'') = Inr (bk_sourceLineageSetRef b)"
      using parse_bucket_Some by blast
    have bf: "text_column s" if "fld m f = VStr s" "f \<in> set (BUCKET_REQUIRED_FIELDS @ BUCKET_OPTIONAL_FIELDS)" for f s
      using nfc_fields_None [OF each_record_None [OF each len m(1)] that(2,1)] by (auto intro: text_column_checked)
    show "list_all text_column [bk_componentCode b, bk_sourceLineageSetRef b, bk_bucketContextKey b,
        bk_bucketInstanceId b]"
      using m(2-) bf [of "''componentCode''"] bf [of "''bucketContextKey''"] bf [of "''bucketInstanceId''"]
        bf [of "''sourceLineageSetRef''"]
      by (simp add: BUCKET_REQUIRED_FIELDS_def)
  qed
qed

end
