(* ===== verification/LegalStore.thy ===== *)
theory LegalStore
  imports StoredEvidence "HOL-Library.Sublist"
begin

section \<open>The contract of the transaction client, and tables that meet it\<close>

text \<open>
  The locale \<open>batch_store\<close> states what the writer relies on of the transaction client: a batch that
  was created is found under its key and blocks a second APPLY batch, and creating a batch does not
  touch the collections. The client lemmas are proved from these laws alone. Below it, tables with the
  constraints of the schema (\<open>schema.prisma\<close> and the SQL migrations) implement the client; the
  interpretation discharges the laws for them, and the properties of the writer are stated on them.
\<close>

definition persisted_row :: "jstr \<Rightarrow> int \<Rightarrow> int \<Rightarrow> BatchData \<Rightarrow> PersistedBatchEvidence" where
  "persisted_row i asOf effective d =
     \<lparr>pb_id = i, pb_batchType = bd_batchType d, pb_currency = bd_currency d,
      pb_receiptAmountMinor = bd_receiptAmountMinor d, pb_heldRemainderMinor = bd_heldRemainderMinor d,
      pb_snapshotContractVersion = bd_snapshotContractVersion d,
      pb_snapshotSerializationVersion = bd_snapshotSerializationVersion d,
      pb_snapshotRef = bd_snapshotRef d, pb_snapshotHash = bd_snapshotHash d,
      pb_snapshotCanonicalPayload = bd_snapshotCanonicalPayload d,
      pb_sourceVersionSetHash = bd_sourceVersionSetHash d, pb_snapshotAsOfDate = asOf,
      pb_applicationEffectiveDate = effective, pb_historyBoundaryRef = bd_historyBoundaryRef d,
      pb_engineVersion = bd_engineVersion d, pb_calculationRuleVersion = bd_calculationRuleVersion d,
      pb_policyVersion = bd_policyVersion d, pb_rateTableVersion = bd_rateTableVersion d,
      pb_interpretationProfileId = bd_interpretationProfileId d,
      pb_bucketIdentityVersion = bd_bucketIdentityVersion d, pb_minorUnit = bd_minorUnit d,
      pb_commandHash = bd_commandHash d, pb_reversesBatchId = bd_reversesBatchId d,
      pb_applications = map PersistedApplicationEvidence.truncate (bd_applications d)\<rparr>"

text \<open>What was just written matches the plan it was written from.\<close>

lemma dateOnlyUtc_date:
  assumes "date_text s"
  obtains ymd where "s = iso_text ymd" "valid_date ymd" "dateOnlyUtc other s = Some (time_of_date ymd)"
proof -
  obtain y m d where s: "s = iso_text (y, m, d)" and v: "valid_date (y, m, d)"
    using assms by (auto simp: date_text_def)
  then have "CANONICAL_ISO_DATE s = Some (y, m, d)"
    using daysInMonth_le [of y m] by (auto simp: CANONICAL_ISO_DATE_iff valid_date_def)
  with that s v show thesis by (simp add: dateOnlyUtc_def)
qed

lemma dateOnly_dateOnlyUtc:
  assumes "date_text s" "dateOnlyUtc other s = Some t"
  shows "dateOnly t = s"
  using dateOnlyUtc_date [OF assms(1), of other] assms(2) iso_date_of_time_of_date
  by (metis dateOnly_def option.inject prod_cases3)

lemma sameApplication_data:
  "sameApplication (PersistedApplicationEvidence.truncate (application_data t a)) a"
  by (simp add: sameApplication_def application_data_def PersistedApplicationEvidence.defs)

lemma persisted_matches:
  assumes "plan_for (wi_command input) plan"
    and "date_text (sn_snapshotAsOfDate (en_snapshot (wi_snapshotEnvelope input)))"
    and "bd_snapshotAsOfDate (batch_data other input plan) = Some a"
    and "bd_applicationEffectiveDate (batch_data other input plan) = Some e"
  shows "persistedEvidenceMatches (persisted_row i a e (batch_data other input plan)) input plan"
proof -
  have "dateOnly a = sn_snapshotAsOfDate (en_snapshot (wi_snapshotEnvelope input))"
    using assms(2,3) by (intro dateOnly_dateOnlyUtc) (simp_all add: batch_data_def Let_def)
  moreover have "dateOnly e = lp_applicationEffectiveDate plan"
    using assms(1,4) by (intro dateOnly_dateOnlyUtc) (auto simp: batch_data_def Let_def plan_for_def)
  moreover have "js_num_eq (lp_minorUnit plan) (lp_minorUnit plan)"
    using assms(1) by (auto simp: plan_for_def js_nat_upto_iff)
  moreover have "list_all (\<lambda>(x, y). sameApplication x y)
      (zip (map (PersistedApplicationEvidence.truncate \<circ> application_data t) as) as)" for t as
    by (induction as) (simp_all add: sameApplication_data)
  ultimately show ?thesis
    by (simp add: persistedEvidenceMatches_def persisted_row_def batch_data_def Let_def)
qed

locale batch_store =
  fixes tx :: "'s transaction_client"
  assumes created_found: "tx_createBatch tx d s = Inr (i, s') \<Longrightarrow>
      \<exists>a e. bd_snapshotAsOfDate d = Some a \<and> bd_applicationEffectiveDate d = Some e \<and>
        tx_findBatchByKey tx (bd_tenantId d) (bd_idempotencyKey d) s' = Inr (Some (persisted_row i a e d))"
    and created_apply: "tx_createBatch tx d s = Inr (i, s') \<Longrightarrow> bd_batchType d = APPLY \<Longrightarrow>
      tx_findApplyBatch tx (bd_tenantId d) (bd_collectionId d) s' \<noteq> Inr None"
    and created_collections: "tx_createBatch tx d s = Inr (i, s') \<Longrightarrow>
      tx_findCollection tx c t k s' = tx_findCollection tx c t k s"
begin


lemma write_locked_created:
  assumes "write_locked other tx input plan s = Inr (res, s')" "\<not> wr_replayed res"
  shows "tx_createBatch tx (batch_data other input plan) s = Inr (wr_batchId res, s')"
    and "wr_plan res = plan"
    and "tx_findApplyBatch tx (cm_tenantId (wi_command input)) (cm_collectionId (wi_command input)) s = Inr None"
    and "tx_findBatchByKey tx (cm_tenantId (wi_command input)) (cm_idempotencyKey (wi_command input)) s = Inr None"
    and "\<exists>row. tx_findCollection tx (cm_collectionId (wi_command input)) (cm_tenantId (wi_command input))
        (cm_caseId (wi_command input)) s = Inr (Some row) \<and> cr_status row = CONFIRMED \<and>
      cr_confirmedAt row \<noteq> None \<and> cr_currency row = cm_currency (wi_command input)"
  using assms
  by (auto simp: write_locked_def Let_def split: sum.split_asm option.split_asm if_split_asm)

text \<open>Writing the same input again returns the batch of the first write and changes nothing.\<close>

lemma replay:
  assumes w: "write_locked other tx input plan s = Inr (res, s')" "\<not> wr_replayed res"
    and "plan_for (wi_command input) plan"
    and "date_text (sn_snapshotAsOfDate (en_snapshot (wi_snapshotEnvelope input)))"
  shows "write_locked other tx input plan s' = Inr (res\<lparr>wr_replayed := True\<rparr>, s')"
proof -
  let ?d = "batch_data other input plan"
  note c = write_locked_created [OF w]
  obtain row where row: "tx_findCollection tx (cm_collectionId (wi_command input))
      (cm_tenantId (wi_command input)) (cm_caseId (wi_command input)) s' = Inr (Some row)"
    "cr_status row = CONFIRMED" "cr_confirmedAt row \<noteq> None" "cr_currency row = cm_currency (wi_command input)"
    using c(5) created_collections [OF c(1)] by auto
  obtain a e where d: "bd_snapshotAsOfDate ?d = Some a" "bd_applicationEffectiveDate ?d = Some e"
    and found: "tx_findBatchByKey tx (bd_tenantId ?d) (bd_idempotencyKey ?d) s' =
      Inr (Some (persisted_row (wr_batchId res) a e ?d))"
    using created_found [OF c(1)] by blast
  have keys: "bd_tenantId ?d = cm_tenantId (wi_command input)"
    "bd_idempotencyKey ?d = cm_idempotencyKey (wi_command input)"
    using assms(3) by (simp_all add: batch_data_def Let_def plan_for_def)
  have "persistedEvidenceMatches (persisted_row (wr_batchId res) a e ?d) input plan"
    using assms(3,4) d by (rule persisted_matches)
  moreover have "pb_commandHash (persisted_row (wr_batchId res) a e ?d) = cm_commandHash (wi_command input)"
    "pb_id (persisted_row (wr_batchId res) a e ?d) = wr_batchId res"
    by (simp_all add: persisted_row_def batch_data_def Let_def)
  ultimately show ?thesis
    using row found c(2) unfolding keys by (cases res) (simp add: write_locked_def Let_def)
qed

text \<open>Once a batch was created, a further success on the collection can only be a replay.\<close>

lemma second_apply_refused:
  assumes w: "write_locked other tx input plan s = Inr (res, s')" "\<not> wr_replayed res"
    and "plan_for (wi_command input) plan"
    and "cm_tenantId (wi_command input') = cm_tenantId (wi_command input)"
    and "cm_collectionId (wi_command input') = cm_collectionId (wi_command input)"
    and w': "write_locked other tx input' plan' s' = Inr (res', s'')"
  shows "wr_replayed res' \<and> s'' = s'"
proof (cases "wr_replayed res'")
  case True
  with w' show ?thesis
    by (auto simp: write_locked_def Let_def split: sum.split_asm option.split_asm if_split_asm)
next
  case False
  have "tx_findApplyBatch tx (bd_tenantId (batch_data other input plan))
      (bd_collectionId (batch_data other input plan)) s' \<noteq> Inr None"
    by (rule created_apply [OF write_locked_created(1) [OF w]]) (simp add: batch_data_def Let_def)
  then show ?thesis
    using write_locked_created(3) [OF w' False] assms(3-5) by (simp add: batch_data_def Let_def plan_for_def)
qed

end


subsection \<open>Tables with the constraints of the schema\<close>

record CollectionRecord =
  cl_tenantId :: jstr
  cl_id :: jstr
  cl_caseId :: jstr
  cl_row :: CollectionRow

record BatchRow =
  br_id :: jstr
  br_data :: BatchData

record Tables =
  tb_tenantIds :: "jstr list"
  tb_caseIds :: "(jstr \<times> jstr) list"
  tb_collections :: "CollectionRecord list"
  tb_batches :: "BatchRow list"

text \<open>
  The tenants are kept by their identifiers and the cases by tenant and identifier, all a foreign key
  of a batch reads of them. An insert meets, in this order: the types of the columns, the CHECK
  constraints, the unique indexes and the foreign keys of the batch; the same for its applications and the
  trigger on their arithmetic; and at the end of the transaction the deferred trigger on the conservation
  of the receipt. The creation time, and the days of the two DATE columns, are taken to be within the
  range of their columns.
\<close>

subsubsection \<open>Types of columns\<close>

definition bigint_column :: "int \<Rightarrow> bool" where
  "bigint_column i \<longleftrightarrow> - POSTGRES_BIGINT_MAX - 1 \<le> i \<and> i \<le> POSTGRES_BIGINT_MAX"

definition integer_column :: "jsnum \<Rightarrow> bool" where
  "integer_column n \<longleftrightarrow> js_is_integer n \<and>
     \<not> js_less n (js_int (- POSTGRES_INTEGER_MAX - 1)) \<and> \<not> js_less (js_int POSTGRES_INTEGER_MAX) n"

definition REVERSAL :: jstr where "REVERSAL = js ''REVERSAL''"

definition batch_columns :: "BatchData \<Rightarrow> bool" where
  "batch_columns d \<longleftrightarrow>
     list_all text_column
       [bd_tenantId d, bd_caseId d, bd_collectionId d, bd_currency d, bd_snapshotContractVersion d,
        bd_snapshotSerializationVersion d, bd_snapshotRef d, bd_snapshotHash d,
        bd_snapshotCanonicalPayload d, bd_sourceVersionSetHash d, bd_historyBoundaryRef d,
        bd_engineVersion d, bd_calculationRuleVersion d, bd_policyVersion d, bd_rateTableVersion d,
        bd_interpretationProfileId d, bd_bucketIdentityVersion d, bd_idempotencyKey d, bd_commandHash d] \<and>
     list_all text_column (case bd_reversesBatchId d of None \<Rightarrow> [] | Some r \<Rightarrow> [r]) \<and>
     bd_batchType d \<in> {APPLY, REVERSAL} \<and>
     list_all bigint_column [bd_receiptAmountMinor d, bd_heldRemainderMinor d] \<and>
     integer_column (bd_minorUnit d) \<and>
     bd_snapshotAsOfDate d \<noteq> None \<and> bd_applicationEffectiveDate d \<noteq> None \<and> bd_createdAt d \<noteq> None"

definition application_columns :: "ApplicationData \<Rightarrow> bool" where
  "application_columns a \<longleftrightarrow>
     list_all text_column
       [pe_componentCode a, pe_sourceLineageSetRef a, pe_bucketContextKey a, pe_bucketInstanceId a] \<and>
     pe_componentType a \<in> set LEGAL_APPLICATION_COMPONENT_TYPES \<and>
     integer_column (js_int (int (pe_sequence a))) \<and>
     list_all bigint_column [pe_appliedAmountMinor a, pe_bucketBeforeMinor a, pe_bucketAfterMinor a]"

subsubsection \<open>CHECK constraints and triggers\<close>

definition btrim_nonempty :: "jstr \<Rightarrow> bool" where
  "btrim_nonempty s \<longleftrightarrow> list_ex (\<lambda>u. u \<noteq> 32) s"

definition batch_checks :: "jstr \<Rightarrow> BatchData \<Rightarrow> bool" where
  "batch_checks i d \<longleftrightarrow>
     0 < bd_receiptAmountMinor d \<and> 0 \<le> bd_heldRemainderMinor d \<and>
     list_all btrim_nonempty
       [i, bd_tenantId d, bd_caseId d, bd_collectionId d, bd_currency d, bd_idempotencyKey d,
        bd_commandHash d, bd_snapshotRef d, bd_historyBoundaryRef d, bd_engineVersion d,
        bd_calculationRuleVersion d, bd_policyVersion d, bd_rateTableVersion d,
        bd_interpretationProfileId d, bd_bucketIdentityVersion d] \<and>
     (case bd_reversesBatchId d of
        None \<Rightarrow> bd_batchType d = APPLY
      | Some r \<Rightarrow> bd_batchType d = REVERSAL \<and> btrim_nonempty r \<and> r \<noteq> i) \<and>
     bd_snapshotContractVersion d = SNAPSHOT_CONTRACT_VERSION \<and>
     bd_snapshotSerializationVersion d = SNAPSHOT_SERIALIZATION_VERSION \<and>
     SHA256_LOWERCASE_HEX (bd_snapshotHash d) \<and> SHA256_LOWERCASE_HEX (bd_sourceVersionSetHash d) \<and>
     bd_snapshotRef d = js ''rcv-app-snapshot:v1:sha256:'' @ bd_snapshotHash d \<and>
     (case parseStrictJson (bd_snapshotCanonicalPayload d) of Inr (VObj _) \<Rightarrow> True | _ \<Rightarrow> False) \<and>
     \<not> js_less (bd_minorUnit d) (js_int 0)"

definition application_checks :: "ApplicationData \<Rightarrow> bool" where
  "application_checks a \<longleftrightarrow>
     0 < pe_appliedAmountMinor a \<and> 0 < pe_sequence a \<and>
     list_all btrim_nonempty [pe_componentCode a, pe_sourceLineageSetRef a] \<and>
     BUCKET_CONTEXT_KEY (pe_bucketContextKey a) \<and> BUCKET_INSTANCE_ID (pe_bucketInstanceId a) \<and>
     0 \<le> pe_bucketBeforeMinor a \<and> 0 \<le> pe_bucketAfterMinor a"

text \<open>\<open>check_legal_application_bucket_arithmetic\<close> and \<open>check_legal_application_batch_conservation\<close>.\<close>

definition bucket_arithmetic :: "jstr \<Rightarrow> ApplicationData \<Rightarrow> bool" where
  "bucket_arithmetic type a \<longleftrightarrow>
     (if type = APPLY then pe_bucketBeforeMinor a - pe_bucketAfterMinor a = pe_appliedAmountMinor a
      else if type = REVERSAL then pe_bucketAfterMinor a - pe_bucketBeforeMinor a = pe_appliedAmountMinor a
      else True)"

definition receipt_conserved :: "BatchData \<Rightarrow> bool" where
  "receipt_conserved d \<longleftrightarrow>
     bd_receiptAmountMinor d =
       sum_list (map pe_appliedAmountMinor (bd_applications d)) + bd_heldRemainderMinor d"

text \<open>What the constraints say of a row alone.\<close>

definition row_checks :: "jstr \<Rightarrow> BatchData \<Rightarrow> bool" where
  "row_checks i d \<longleftrightarrow> batch_columns d \<and> batch_checks i d \<and>
     list_all application_columns (bd_applications d) \<and>
     list_all application_checks (bd_applications d) \<and>
     list_all (bucket_arithmetic (bd_batchType d)) (bd_applications d) \<and> receipt_conserved d"

subsubsection \<open>Unique indexes and foreign keys\<close>

text \<open>Per tenant the key, the batch that is reversed and the collection of an APPLY batch, and inside a
  batch the sequence, the context key and the instance of an application.\<close>

definition key_of :: "BatchData \<Rightarrow> jstr \<times> jstr" where
  "key_of d = (bd_tenantId d, bd_idempotencyKey d)"

definition collection_of :: "BatchData \<Rightarrow> jstr \<times> jstr" where
  "collection_of d = (bd_tenantId d, bd_collectionId d)"

definition batch_unique :: "Tables \<Rightarrow> BatchData \<Rightarrow> bool" where
  "batch_unique t d \<longleftrightarrow>
     key_of d \<notin> set (map (key_of \<circ> br_data) (tb_batches t)) \<and>
     (bd_reversesBatchId d \<noteq> None \<longrightarrow>
        (bd_tenantId d, bd_reversesBatchId d) \<notin>
          set (map (\<lambda>r. (bd_tenantId (br_data r), bd_reversesBatchId (br_data r))) (tb_batches t))) \<and>
     (bd_batchType d = APPLY \<longrightarrow>
        collection_of d \<notin>
          set (map (collection_of \<circ> br_data) (filter (\<lambda>r. bd_batchType (br_data r) = APPLY) (tb_batches t))))"

definition applications_unique :: "BatchData \<Rightarrow> bool" where
  "applications_unique d \<longleftrightarrow>
     distinct (map pe_sequence (bd_applications d)) \<and>
     distinct (map pe_bucketContextKey (bd_applications d)) \<and>
     distinct (map pe_bucketInstanceId (bd_applications d))"

text \<open>The tenant, the case of the tenant, the collection of the tenant, and the batch that is reversed.\<close>

definition references_exist :: "Tables \<Rightarrow> BatchData \<Rightarrow> bool" where
  "references_exist t d \<longleftrightarrow>
     bd_tenantId d \<in> set (tb_tenantIds t) \<and> (bd_tenantId d, bd_caseId d) \<in> set (tb_caseIds t) \<and>
     list_ex (\<lambda>c. cl_tenantId c = bd_tenantId d \<and> cl_id c = bd_collectionId d) (tb_collections t) \<and>
     (case bd_reversesBatchId d of
        None \<Rightarrow> True
      | Some i \<Rightarrow> list_ex (\<lambda>r. bd_tenantId (br_data r) = bd_tenantId d \<and> br_id r = i) (tb_batches t))"

text \<open>The generated identifier of the next batch.\<close>

definition fresh_id :: "Tables \<Rightarrow> jstr" where
  "fresh_id t = js ''b'' @ js_of_nat (length (tb_batches t))"

definition table_create :: "BatchData \<Rightarrow> Tables \<Rightarrow> db_error + (jstr \<times> Tables)" where
  "table_create d t =
     (if \<not> batch_columns d \<or> \<not> batch_checks (fresh_id t) d then Inl OtherError
      else if \<not> batch_unique t d then Inl (KnownRequestError (js ''P2002''))
      else if \<not> references_exist t d then Inl (KnownRequestError (js ''P2003''))
      else if \<not> list_all application_columns (bd_applications d) then Inl OtherError
      else if \<not> list_all application_checks (bd_applications d) then Inl OtherError
      else if \<not> applications_unique d then Inl (KnownRequestError (js ''P2002''))
      else if \<not> list_all (bucket_arithmetic (bd_batchType d)) (bd_applications d) then Inl OtherError
      else if \<not> receipt_conserved d then Inl OtherError
      else Inr (fresh_id t, t\<lparr>tb_batches := tb_batches t @ [\<lparr>br_id = fresh_id t, br_data = d\<rparr>]\<rparr>))"

definition evidence_of :: "BatchRow \<Rightarrow> PersistedBatchEvidence" where
  "evidence_of r = persisted_row (br_id r) (the (bd_snapshotAsOfDate (br_data r)))
     (the (bd_applicationEffectiveDate (br_data r))) (br_data r)"

definition table_client :: "Tables transaction_client" where
  "table_client =
     \<lparr>tx_lock = (\<lambda>caseId t. Inr t),
      tx_findCollection = (\<lambda>i tenant caseId t. Inr (map_option cl_row
        (List.find (\<lambda>c. cl_id c = i \<and> cl_tenantId c = tenant \<and> cl_caseId c = caseId) (tb_collections t)))),
      tx_findBatchByKey = (\<lambda>tenant key t. Inr (map_option evidence_of
        (List.find (\<lambda>r. key_of (br_data r) = (tenant, key)) (tb_batches t)))),
      tx_findApplyBatch = (\<lambda>tenant i t. Inr (map_option br_id
        (List.find (\<lambda>r. collection_of (br_data r) = (tenant, i) \<and> bd_batchType (br_data r) = APPLY)
           (tb_batches t)))),
      tx_createBatch = table_create\<rparr>"

lemma table_client_simps [simp]:
  "tx_lock table_client k t = Inr t" "tx_createBatch table_client = table_create"
  "tx_findCollection table_client i tenant caseId t = Inr (map_option cl_row
     (List.find (\<lambda>c. cl_id c = i \<and> cl_tenantId c = tenant \<and> cl_caseId c = caseId) (tb_collections t)))"
  "tx_findBatchByKey table_client tenant key t = Inr (map_option evidence_of
     (List.find (\<lambda>r. key_of (br_data r) = (tenant, key)) (tb_batches t)))"
  "tx_findApplyBatch table_client tenant i t = Inr (map_option br_id
     (List.find (\<lambda>r. collection_of (br_data r) = (tenant, i) \<and> bd_batchType (br_data r) = APPLY)
        (tb_batches t)))"
  by (simp_all add: table_client_def)

lemma table_create_Inr:
  "table_create d t = Inr (i, t') \<longleftrightarrow>
     row_checks (fresh_id t) d \<and> batch_unique t d \<and> applications_unique d \<and> references_exist t d \<and>
     i = fresh_id t \<and> t' = t\<lparr>tb_batches := tb_batches t @ [\<lparr>br_id = fresh_id t, br_data = d\<rparr>]\<rparr>"
  unfolding table_create_def guard_Inr row_checks_def by auto

lemma table_create_conflict:
  "table_create d t = Inl (KnownRequestError (js ''P2002'')) \<Longrightarrow> batch_unique t d \<Longrightarrow> \<not> applications_unique d"
  by (auto simp: table_create_def js_eval split: if_split_asm)

lemma find_append: "List.find P (xs @ ys) = (case List.find P xs of None \<Rightarrow> List.find P ys | Some x \<Rightarrow> Some x)"
  by (induction xs) auto

lemma find_None: "List.find P xs = None \<longleftrightarrow> (\<forall>x \<in> set xs. \<not> P x)"
  by (induction xs) auto

interpretation tables: batch_store table_client
proof
  fix d and t t' :: Tables and i
  assume c: "tx_createBatch table_client d t = Inr (i, t')"
  then have t': "i = fresh_id t" "t' = t\<lparr>tb_batches := tb_batches t @ [\<lparr>br_id = fresh_id t, br_data = d\<rparr>]\<rparr>"
    and u: "batch_unique t d" and dates: "\<exists>a e. bd_snapshotAsOfDate d = Some a \<and> bd_applicationEffectiveDate d = Some e"
    by (auto simp: table_create_Inr row_checks_def batch_columns_def)
  have "List.find (\<lambda>r. key_of (br_data r) = key_of d) (tb_batches t) = None"
    using u unfolding find_None batch_unique_def by force
  then show "\<exists>a e. bd_snapshotAsOfDate d = Some a \<and> bd_applicationEffectiveDate d = Some e \<and>
      tx_findBatchByKey table_client (bd_tenantId d) (bd_idempotencyKey d) t' =
        Inr (Some (persisted_row i a e d))"
    using dates by (auto simp: t' find_append key_of_def evidence_of_def)
  show "bd_batchType d = APPLY \<Longrightarrow> tx_findApplyBatch table_client (bd_tenantId d) (bd_collectionId d) t' \<noteq> Inr None"
    by (auto simp: t' find_append collection_of_def split: option.splits)
  show "tx_findCollection table_client c t0 k t' = tx_findCollection table_client c t0 k t" for c t0 k
    by (simp add: t')
qed


subsection \<open>The writer on the tables\<close>

text \<open>No two batches of a tenant share a key, no collection has two APPLY batches, every row passes the
  constraints.\<close>

definition apply_rows :: "Tables \<Rightarrow> BatchRow list" where
  "apply_rows t = filter (\<lambda>r. bd_batchType (br_data r) = APPLY) (tb_batches t)"

definition tables_ok :: "Tables \<Rightarrow> bool" where
  "tables_ok t \<longleftrightarrow> distinct (map (key_of \<circ> br_data) (tb_batches t)) \<and>
     distinct (map (collection_of \<circ> br_data) (apply_rows t)) \<and>
     list_all (\<lambda>r. row_checks (br_id r) (br_data r) \<and> applications_unique (br_data r)) (tb_batches t)"

lemma writeApply_Inr:
  "writeApply nfc sha other table_client input t = (Inr res, t') \<longleftrightarrow>
     (\<exists>plan. preparePlan nfc sha input = Inr plan \<and>
        write_locked other table_client input plan t = Inr (res, t'))"
  by (auto simp: writeApply_def split: sum.splits prod.splits)

lemma writeApply_cases:
  obtains (failed) e where "writeApply nfc sha other table_client input t = (Inl e, t)"
  | (replayed) res where "writeApply nfc sha other table_client input t = (Inr res, t)" "wr_replayed res"
  | (created) res plan t' where "writeApply nfc sha other table_client input t = (Inr res, t')"
      "\<not> wr_replayed res" "preparePlan nfc sha input = Inr plan"
      "write_locked other table_client input plan t = Inr (res, t')"
      "table_create (batch_data other input plan) t = Inr (wr_batchId res, t')"
proof (cases "writeApply nfc sha other table_client input t")
  case (Pair r t')
  show ?thesis
  proof (cases r)
    case (Inl e)
    with Pair have "t' = t" by (auto simp: writeApply_def split: sum.split_asm prod.split_asm)
    with Pair Inl failed show ?thesis by simp
  next
    case (Inr res)
    with Pair obtain plan where p: "preparePlan nfc sha input = Inr plan"
      "write_locked other table_client input plan t = Inr (res, t')" by (auto simp: writeApply_Inr)
    show ?thesis
    proof (cases "wr_replayed res")
      case True
      with p(2) have "t' = t"
        by (auto simp: write_locked_def Let_def split: option.split_asm if_split_asm sum.split_asm)
      with Pair Inr True replayed show ?thesis by simp
    next
      case False
      show ?thesis
        by (rule created [OF _ False p]) (use Pair Inr tables.write_locked_created(1) [OF p(2) False] in simp_all)
    qed
  qed
qed

lemma table_create_ok:
  assumes "tables_ok t" "table_create d t = Inr (i, t')"
  shows "tables_ok t'"
  using assms by (auto simp: tables_ok_def table_create_Inr apply_rows_def batch_unique_def)

lemma writeApply_ok: "tables_ok t \<Longrightarrow> tables_ok (snd (writeApply nfc sha other table_client input t))"
  by (rule writeApply_cases [of nfc sha other input t]) (auto intro: table_create_ok)

subsection \<open>A validated plan meets the constraints of the schema\<close>

lemma nonblank_btrim: "nonblank s \<Longrightarrow> btrim_nonempty s"
  by (cases s) (auto simp: nonblank_def js_trim_eq_iff btrim_nonempty_def js_whitespace_def)

lemma validated_bucket_text:
  assumes "structureError nfc sha c raw facts = None" "parseValidatedBuckets raw = Some bks"
    and "b \<in> set bks"
  shows "nonblank (bk_componentCode b)" "nonblank (bk_sourceLineageSetRef b)"
    "BUCKET_INSTANCE_ID (bk_bucketInstanceId b)" "BUCKET_CONTEXT_KEY (bk_bucketContextKey b)"
proof -
  obtain rbs where rbs: "list_all2 (\<lambda>x y. parse_bucket x = Some y) rbs bks"
    using accepts_raw_buckets [OF assms(1,2)] by metis
  obtain i where "i < length bks" "bks ! i = b" using assms(3) by (metis in_set_conv_nth)
  with rbs have "parse_bucket (rbs ! i) = Some b" by (auto simp: list_all2_conv_all_nth)
  then show "nonblank (bk_componentCode b)" "nonblank (bk_sourceLineageSetRef b)"
    "BUCKET_INSTANCE_ID (bk_bucketInstanceId b)" "BUCKET_CONTEXT_KEY (bk_bucketContextKey b)"
    using parse_bucket_Some by auto
qed

text \<open>The strings of a validated snapshot that the batch stores.\<close>

lemma validated_evidence_text:
  assumes "validateCanonicalSnapshot nfc sha (validator_input input) = Inr v"
  shows "list_all nonblank
      [cm_tenantId (wi_command input), cm_caseId (wi_command input), cm_collectionId (wi_command input),
       cm_idempotencyKey (wi_command input), cm_commandHash (wi_command input),
       sn_historyBoundaryRef (vs_snapshot v), sn_engineVersion (vs_snapshot v),
       sn_calculationRuleVersion (vs_snapshot v), sn_policyVersion (vs_snapshot v),
       sn_rateTableVersion (vs_snapshot v), sn_interpretationProfileId (vs_snapshot v),
       sn_bucketIdentityVersion (vs_snapshot v)]"
    and "cm_currency (wi_command input) \<in> set CANONICAL_CURRENCY_CODES"
    and "sn_snapshotContractVersion (vs_snapshot v) = SNAPSHOT_CONTRACT_VERSION"
    and "sn_snapshotSerializationVersion (vs_snapshot v) = SNAPSHOT_SERIALIZATION_VERSION"
    and "SHA256_LOWERCASE_HEX (vs_snapshotHash v)" "SHA256_LOWERCASE_HEX (sn_sourceVersionSetHash (vs_snapshot v))"
    and "vs_snapshotRef v = js ''rcv-app-snapshot:v1:sha256:'' @ vs_snapshotHash v"
    and "date_text (sn_snapshotAsOfDate (vs_snapshot v))"
    and "\<exists>raw. parseStrictJson (en_canonicalPayload (wi_snapshotEnvelope input)) = Inr (VObj raw)"
    and "\<forall>b \<in> set (sn_canonicalBuckets (vs_snapshot v)). nonblank (bk_componentCode b) \<and>
       nonblank (bk_sourceLineageSetRef b) \<and> BUCKET_INSTANCE_ID (bk_bucketInstanceId b) \<and>
       BUCKET_CONTEXT_KEY (bk_bucketContextKey b)"
proof -
  obtain m c e payload raw cmd ev facts vers srcs bks where
    o: "openEnvelope (validator_input input) = Inr (m, c, e, payload, raw)" and
    a: "accepts nfc sha m c e payload raw cmd ev facts vers srcs bks" and
    v: "v = validated payload ev facts vers srcs bks"
    using assms unfolding validateCanonicalSnapshot_Inr by blast
  have c: "c = command_value (wi_command input)" and e: "e = envelope_value (wi_snapshotEnvelope input)"
    and payload: "fld e ''canonicalPayload'' = VStr payload" and raw: "parseStrictJson payload = Inr (VObj raw)"
    using o unfolding openEnvelope_Inr by (auto simp: validator_input_def obj_get_def)
  have parsed: "parseCommand c = Some cmd" and facts: "parseSnapshotPrimitiveFacts raw = Some facts"
    and vers: "parseVersionEvidence raw = Some vers" and ev: "parseEnvelopeEvidence e = Some ev"
    and bytes: "canonicalBytesError sha (VObj raw) payload cmd ev = None"
    and st: "structureError nfc sha c raw facts = None" "parseValidatedBuckets raw = Some bks"
    using a by (simp_all add: accepts_def)
  have cmd: "cmd = wi_command input" using parsed unfolding c by (rule parseCommand_value)
  have sn: "vs_snapshot v = materializeValidatedSnapshot facts vers srcs bks" by (simp add: v)
  show "list_all nonblank
      [cm_tenantId (wi_command input), cm_caseId (wi_command input), cm_collectionId (wi_command input),
       cm_idempotencyKey (wi_command input), cm_commandHash (wi_command input),
       sn_historyBoundaryRef (vs_snapshot v), sn_engineVersion (vs_snapshot v),
       sn_calculationRuleVersion (vs_snapshot v), sn_policyVersion (vs_snapshot v),
       sn_rateTableVersion (vs_snapshot v), sn_interpretationProfileId (vs_snapshot v),
       sn_bucketIdentityVersion (vs_snapshot v)]"
    "cm_currency (wi_command input) \<in> set CANONICAL_CURRENCY_CODES"
    using parsed facts vers
    by (simp_all add: parseCommand_Some parseSnapshotPrimitiveFacts_Some parseVersionEvidence_Some cmd sn
        materializeValidatedSnapshot_def)
  show "sn_snapshotContractVersion (vs_snapshot v) = SNAPSHOT_CONTRACT_VERSION"
    "sn_snapshotSerializationVersion (vs_snapshot v) = SNAPSHOT_SERIALIZATION_VERSION"
    "SHA256_LOWERCASE_HEX (sn_sourceVersionSetHash (vs_snapshot v))"
    "date_text (sn_snapshotAsOfDate (vs_snapshot v))"
    using facts a
    by (auto simp: parseSnapshotPrimitiveFacts_Some sn materializeValidatedSnapshot_def accepts_def
        parseSnapshotContractVersion_def parseSerializationVersion_def parse_failure_def
        split: if_split_asm)
  show "SHA256_LOWERCASE_HEX (vs_snapshotHash v)" using ev by (simp add: parseEnvelopeEvidence_Some v)
  show "vs_snapshotRef v = js ''rcv-app-snapshot:v1:sha256:'' @ vs_snapshotHash v"
    using bytes by (simp add: canonicalBytesError_None v canonicalSnapshotRefForHash_def)
  show "\<exists>raw. parseStrictJson (en_canonicalPayload (wi_snapshotEnvelope input)) = Inr (VObj raw)"
    using payload raw by (auto simp: e envelope_value_def obj_get_def)
  show "\<forall>b \<in> set (sn_canonicalBuckets (vs_snapshot v)). nonblank (bk_componentCode b) \<and>
       nonblank (bk_sourceLineageSetRef b) \<and> BUCKET_INSTANCE_ID (bk_bucketInstanceId b) \<and>
       BUCKET_CONTEXT_KEY (bk_bucketContextKey b)"
    using validated_bucket_text [OF st] by (simp add: sn)
qed


lemma integer_column_upto: "js_nat_upto POSTGRES_INTEGER_MAX n \<Longrightarrow> integer_column n"
  by (auto simp: js_nat_upto_iff integer_column_def POSTGRES_INTEGER_MAX_def)

lemma distinct_map_subseq: "distinct (map f ys) \<Longrightarrow> subseq xs ys \<Longrightarrow> distinct (map f xs)"
  by (metis distinct_nthsI subseq_conv_nths subseq_map)

lemma planned_rows_ok:
  assumes "snapshot_canonical nfc sn" "0 \<le> r"
    and "\<forall>b \<in> set (sn_canonicalBuckets sn). nonblank (bk_componentCode b) \<and>
       nonblank (bk_sourceLineageSetRef b) \<and> BUCKET_INSTANCE_ID (bk_bucketInstanceId b) \<and>
       BUCKET_CONTEXT_KEY (bk_bucketContextKey b)"
    and "\<forall>b \<in> set (sn_canonicalBuckets sn).
      list_all text_column [bk_componentCode b, bk_sourceLineageSetRef b, bk_bucketContextKey b,
        bk_bucketInstanceId b]"
    and "length (sn_canonicalBuckets sn) \<le> MAX_BUCKET_COUNT"
    and as_def: "as = map (application_data t) (plannedApplications (pour (legal_order sn) r))"
  shows "list_all application_checks as" "list_all application_columns as"
    "list_all (bucket_arithmetic APPLY) as" "distinct (map pe_sequence as)"
    "distinct (map pe_bucketContextKey as)" "distinct (map pe_bucketInstanceId as)"
proof -
  let ?ps = "pour (legal_order sn) r"
  have adm: "buckets_admissible sn" using assms(1) by (simp add: snapshot_canonical_def)
  obtain bs where bs: "subseq bs (legal_order sn)"
    "map al_bucketInstanceId ?ps = map bk_bucketInstanceId bs"
    "map al_bucketContextKey ?ps = map bk_bucketContextKey bs"
    using pour_sublist_keys by blast
  have "length ?ps = length bs" using bs(2) by (metis length_map)
  also have "\<dots> \<le> length (sn_canonicalBuckets sn)"
    using list_emb_length [OF bs(1)] by (metis mset_legal_order size_mset)
  finally have len: "length ?ps \<le> MAX_BUCKET_COUNT" using assms(5) by simp
  have row: "application_checks (application_data t p) \<and> application_columns (application_data t p) \<and>
      bucket_arithmetic APPLY (application_data t p)"
    if p: "p \<in> set (plannedApplications ?ps)" for p
  proof -
    obtain i where i: "i < length ?ps" "p = planned_application i (?ps ! i)"
      using p unfolding plannedApplications_set by blast
    obtain b ap where b: "b \<in> set (legal_order sn)" "0 < ap" "ap \<le> bk_bucketBalanceMinor b"
      "?ps ! i = mk_allocation b ap (bk_bucketBalanceMinor b - ap)"
      using pour_mem [OF nth_mem [OF i(1)] nonneg_legal_order [OF adm] assms(2)]
      by (elim exE conjE) (rule that)
    have mem: "b \<in> set (sn_canonicalBuckets sn)" using b(1) by simp
    then have key: "btrim_nonempty (bk_componentCode b)" "btrim_nonempty (bk_sourceLineageSetRef b)"
      "BUCKET_INSTANCE_ID (bk_bucketInstanceId b)" "BUCKET_CONTEXT_KEY (bk_bucketContextKey b)"
      using assms(3) nonblank_btrim by blast+
    have strings: "text_column (bk_componentCode b)" "text_column (bk_sourceLineageSetRef b)"
      "text_column (bk_bucketContextKey b)" "text_column (bk_bucketInstanceId b)"
      using assms(4) mem by auto
    have codes: "bk_componentType b \<in> set LEGAL_APPLICATION_COMPONENT_TYPES"
      "bk_bucketBalanceMinor b \<le> POSTGRES_BIGINT_MAX"
      using assms(1) mem adm
      by (auto simp: snapshot_canonical_def bucket_canonical_def list_all_iff buckets_admissible_def
          bucket_admissible_def isPersistenceSafeMinorAmount_def)
    have "i < 10000" using i(1) len by (simp add: MAX_BUCKET_COUNT_def)
    then have "js_nat_upto POSTGRES_INTEGER_MAX (js_int (int (Suc i)))"
      unfolding js_nat_upto_iff POSTGRES_INTEGER_MAX_def by (intro exI [of _ "int (Suc i)"]) simp
    then have seq: "integer_column (js_int (int (Suc i)))" by (rule integer_column_upto)
    have pa: "p = planned_application i (mk_allocation b ap (bk_bucketBalanceMinor b - ap))"
      unfolding i(2) b(4) by (rule refl)
    have "application_checks (application_data t p)" "bucket_arithmetic APPLY (application_data t p)"
      using key b(2,3) unfolding pa
      by (simp_all add: application_checks_def application_data_def bucket_arithmetic_def)
    moreover have "application_columns (application_data t p)"
      using strings codes seq b(2,3) unfolding pa
      by (simp add: application_columns_def application_data_def bigint_column_def POSTGRES_BIGINT_MAX_def)
    ultimately show ?thesis by blast
  qed
  then show "list_all application_columns as" "list_all (bucket_arithmetic APPLY) as"
    by (auto simp: as_def list_all_iff)
  from row have "\<forall>p \<in> set (plannedApplications ?ps). application_checks (application_data t p)" by blast
  then show "list_all application_checks as" by (auto simp: as_def list_all_iff)
  have "map pe_sequence as = map Suc [0..<length ?ps]"
    by (rule nth_equalityI) (simp_all add: as_def application_data_def plannedApplications_nth)
  then show "distinct (map pe_sequence as)" by (simp add: distinct_map)
  have keys: "map pe_bucketContextKey as = map bk_bucketContextKey bs"
    "map pe_bucketInstanceId as = map bk_bucketInstanceId bs"
    using plannedApplications_map [of pa_bucketContextKey al_bucketContextKey ?ps]
      plannedApplications_map [of pa_bucketInstanceId al_bucketInstanceId ?ps]
    by (simp_all add: as_def application_data_def comp_def bs)
  show "distinct (map pe_bucketContextKey as)"
    unfolding keys by (rule distinct_map_subseq [OF distinct_legal_order [OF adm] bs(1)])
  have "distinct (map bk_bucketInstanceId (legal_order sn))"
    using assms(1) by (metis mset_eq_imp_distinct_iff mset_legal_order mset_map snapshot_canonical_def)
  then show "distinct (map pe_bucketInstanceId as)"
    unfolding keys using bs(1) by (rule distinct_map_subseq)
qed

lemma validated_applied_sum:
  assumes "snapshot_canonical nfc sn" "0 \<le> r"
  shows "sum_list (map pa_appliedAmountMinor (plannedApplications (pour (legal_order sn) r))) =
    min r (balances (sn_canonicalBuckets sn))"
proof -
  have "nonneg_balances (legal_order sn)"
    using assms(1) by (intro nonneg_legal_order) (simp add: snapshot_canonical_def)
  from allocation_sum_sum_list [OF allocation_sum_pour [OF this assms(2), of 0]]
  have "sum_list (map al_appliedAmountMinor (pour (legal_order sn) r)) = min r (balances (sn_canonicalBuckets sn))"
    by simp
  then show ?thesis
    using plannedApplications_map [of pa_appliedAmountMinor al_appliedAmountMinor] by simp
qed

text \<open>A batch built from a validated plan and the snapshot that was validated passes every constraint.\<close>

lemma validated_applications:
  assumes v: "validateCanonicalSnapshot nfc sha (validator_input input) = Inr v"
    and "sha_hex sha" "preparePlan nfc sha input = Inr plan"
  shows "plan = expected_plan nfc sha (assembly_input (wi_command input) v)"
    and "bd_applications (batch_data other input plan) =
      map (application_data (wi_createdAt input))
        (plannedApplications (pour (legal_order (vs_snapshot v)) (cm_receiptAmountMinor (wi_command input))))"
    and "0 < cm_receiptAmountMinor (wi_command input)" "wi_createdAt input \<noteq> None"
    and "applications_unique (batch_data other input plan)"
    and "receipt_conserved (batch_data other input plan)"
proof -
  let ?c = "wi_command input"
  note bound = validated_for_command [OF v] and ev = validated_evidence_text [OF v]
    and tx = validated_text_columns [OF v]
  show plan: "plan = expected_plan nfc sha (assembly_input ?c v)" and "0 < cm_receiptAmountMinor ?c"
    and "wi_createdAt input \<noteq> None"
    using assms(3) bound(4) unfolding preparePlan_spec [OF assms(2)] v by (auto split: if_split_asm)
  show apps: "bd_applications (batch_data other input plan) =
      map (application_data (wi_createdAt input))
        (plannedApplications (pour (legal_order (vs_snapshot v)) (cm_receiptAmountMinor ?c)))"
    by (simp add: batch_data_def Let_def plan expected_plan_sel)
  show "applications_unique (batch_data other input plan)"
    using planned_rows_ok(4-6) [OF bound(3,4) ev(10) tx(4,5) apps] by (simp add: applications_unique_def)
  have "sum_list (map pe_appliedAmountMinor (bd_applications (batch_data other input plan))) =
      min (cm_receiptAmountMinor ?c) (balances (sn_canonicalBuckets (vs_snapshot v)))"
    using validated_applied_sum [OF bound(3,4)] by (simp add: apps application_data_def comp_def)
  then show "receipt_conserved (batch_data other input plan)"
    by (simp add: receipt_conserved_def batch_data_def Let_def plan expected_plan_sel)
qed

lemma validated_row_checks:
  assumes v: "validateCanonicalSnapshot nfc sha (validator_input input) = Inr v"
    and "sha_hex sha" "preparePlan nfc sha input = Inr plan"
    and sn: "en_snapshot (wi_snapshotEnvelope input) = vs_snapshot v" and i: "btrim_nonempty i"
  shows "row_checks i (batch_data other input plan)"
proof -
  let ?c = "wi_command input" and ?d = "batch_data other input plan"
  note bound = validated_for_command [OF v] and ev = validated_evidence_text [OF v]
    and tx = validated_text_columns [OF v]
  note plan = validated_applications(1) [OF assms(1-3)] and apps = validated_applications(2) [OF assms(1-3)]
    and r = validated_applications(3) [OF assms(1-3)] and created = validated_applications(4) [OF assms(1-3)]
  note rows = planned_rows_ok [OF bound(3,4) ev(10) tx(4,5) apps [of other]]
  have dates: "dateOnlyUtc other d \<noteq> None" if "date_text d" for d
    using dateOnlyUtc_date [OF that, of other] by auto
  have "0 \<le> balances (sn_canonicalBuckets (vs_snapshot v))"
    using nonneg_balances_sum [OF nonneg_legal_order, of "vs_snapshot v"] bound(3)
    by (simp add: snapshot_canonical_def)
  then have held: "0 \<le> bd_heldRemainderMinor ?d" "bd_heldRemainderMinor ?d \<le> POSTGRES_BIGINT_MAX"
    "bd_receiptAmountMinor ?d = cm_receiptAmountMinor ?c"
    using bound(4,5) by (auto simp: batch_data_def Let_def plan expected_plan_sel)
  have sel: "lp_historyBoundaryRef plan = sn_historyBoundaryRef (vs_snapshot v)"
    "lp_sourceVersionSetHash plan = sn_sourceVersionSetHash (vs_snapshot v)"
    by (simp_all add: plan expected_plan_def assembly_input_def Let_def)
  have hex: "text_column h" if "SHA256_LOWERCASE_HEX h" for h
    using that by (intro text_column_ascii) (auto simp: SHA256_LOWERCASE_HEX_def list_all_iff hex_digit_def)
  have ref: "text_column (js ''rcv-app-snapshot:v1:sha256:'' @ h)" if "SHA256_LOWERCASE_HEX h" for h
    using that by (intro text_column_ascii) (auto simp: SHA256_LOWERCASE_HEX_def list_all_iff hex_digit_def js_eval)
  have "batch_columns ?d"
    using tx(1-3) hex [OF ev(5)] ref [OF ev(5)] ev(7) bound(4,5) integer_column_upto [OF bound(8)]
      dates [OF ev(8)] dates [OF bound(7)] created held
    unfolding batch_columns_def
    by (simp add: batch_data_def Let_def plan expected_plan_sel sel [unfolded plan] sn bigint_column_def
        POSTGRES_BIGINT_MAX_def)
  moreover have "list_all btrim_nonempty
      [cm_tenantId ?c, cm_caseId ?c, cm_collectionId ?c, cm_idempotencyKey ?c, cm_commandHash ?c,
       sn_historyBoundaryRef (vs_snapshot v), sn_engineVersion (vs_snapshot v),
       sn_calculationRuleVersion (vs_snapshot v), sn_policyVersion (vs_snapshot v),
       sn_rateTableVersion (vs_snapshot v), sn_interpretationProfileId (vs_snapshot v),
       sn_bucketIdentityVersion (vs_snapshot v)]"
    using ev(1) by (rule list.pred_mono_strong) (rule nonblank_btrim)
  moreover have "btrim_nonempty (cm_currency ?c)"
    using ev(2) by (auto simp: CANONICAL_CURRENCY_CODES_def btrim_nonempty_def js_eval)
  moreover have "btrim_nonempty (js ''rcv-app-snapshot:v1:sha256:'' @ h)" for h
    by (simp add: btrim_nonempty_def js_eval)
  moreover have "\<not> js_less (cm_minorUnit ?c) (js_int 0)" using bound(8) by (simp add: js_nat_upto_def)
  ultimately have "batch_columns ?d" "batch_checks i ?d"
    using ev(3-7,9) r held(1) i
    unfolding batch_checks_def batch_data_def Let_def sel
    by (auto simp: plan expected_plan_sel sn)
  moreover have "bd_batchType ?d = APPLY" by (simp add: batch_data_def Let_def)
  ultimately show ?thesis
    using rows(1-3) validated_applications(6) [OF assms(1-3)] by (simp add: row_checks_def)
qed


text \<open>The tenant, the case and the collection a command names, as the client finds it, and the absence of an
  earlier batch.\<close>

definition collection_ready :: "BuildLegalApplicationPlanCommand \<Rightarrow> Tables \<Rightarrow> bool" where
  "collection_ready c t \<longleftrightarrow>
     cm_tenantId c \<in> set (tb_tenantIds t) \<and> (cm_tenantId c, cm_caseId c) \<in> set (tb_caseIds t) \<and>
     (case List.find (\<lambda>k. cl_id k = cm_collectionId c \<and> cl_tenantId k = cm_tenantId c \<and>
              cl_caseId k = cm_caseId c) (tb_collections t) of
        None \<Rightarrow> False
      | Some k \<Rightarrow> cr_status (cl_row k) = CONFIRMED \<and> cr_confirmedAt (cl_row k) \<noteq> None \<and>
          cr_currency (cl_row k) = cm_currency c)"

definition not_yet_applied :: "BuildLegalApplicationPlanCommand \<Rightarrow> Tables \<Rightarrow> bool" where
  "not_yet_applied c t \<longleftrightarrow>
     list_all (\<lambda>r. key_of (br_data r) \<noteq> (cm_tenantId c, cm_idempotencyKey c) \<and>
       \<not> (bd_batchType (br_data r) = APPLY \<and>
          collection_of (br_data r) = (cm_tenantId c, cm_collectionId c))) (tb_batches t)"

definition batch_storable :: "BatchData \<Rightarrow> bool" where
  "batch_storable d \<longleftrightarrow> applications_unique d \<and> row_checks (js ''b'') d"

text \<open>The generated identifier matters to the constraints of an APPLY batch only in that it is not blank.\<close>

lemma row_checks_id: "row_checks i d \<Longrightarrow> bd_reversesBatchId d = None \<Longrightarrow> btrim_nonempty k \<Longrightarrow> row_checks k d"
  by (auto simp: row_checks_def batch_checks_def)

lemma fresh_id_nonempty: "btrim_nonempty (fresh_id t)"
  by (simp add: fresh_id_def btrim_nonempty_def js_eval)

lemma batch_storable_policy:
  "batch_storable d \<Longrightarrow> btrim_nonempty p \<Longrightarrow> text_column p \<Longrightarrow> batch_storable (d\<lparr>bd_policyVersion := p\<rparr>)"
  by (cases "bd_reversesBatchId d")
    (auto simp: batch_storable_def row_checks_def batch_checks_def batch_columns_def receipt_conserved_def
      applications_unique_def)

lemma find_SomeD: "List.find P xs = Some x \<Longrightarrow> x \<in> set xs \<and> P x"
  by (induction xs) (auto split: if_split_asm)

lemma table_create_storable:
  assumes "plan_for c plan" "c = wi_command input" "d = batch_data other input plan"
    and "batch_storable d" "collection_ready c t" "not_yet_applied c t"
  shows "table_create d t =
    Inr (fresh_id t, t\<lparr>tb_batches := tb_batches t @ [\<lparr>br_id = fresh_id t, br_data = d\<rparr>]\<rparr>)"
proof -
  have keys: "key_of d = (cm_tenantId c, cm_idempotencyKey c)"
    "collection_of d = (cm_tenantId c, cm_collectionId c)"
    using assms(1,2) by (simp_all add: assms(3) key_of_def collection_of_def batch_data_def Let_def plan_for_def)
  have none: "bd_reversesBatchId d = None" by (simp add: assms(3) batch_data_def Let_def)
  have "batch_unique t d"
    using assms(6) unfolding batch_unique_def keys not_yet_applied_def
    by (auto simp: none list_all_iff)
  moreover have "bd_tenantId d = cm_tenantId c" "bd_caseId d = cm_caseId c"
    using assms(1,2) by (simp_all add: assms(3) batch_data_def Let_def plan_for_def)
  then have "references_exist t d"
    using assms(5) keys(2)
    by (auto simp: references_exist_def collection_ready_def collection_of_def none list_ex_iff
        dest!: find_SomeD split: option.split_asm)
  ultimately show ?thesis
    using assms(4) row_checks_id [OF _ none fresh_id_nonempty] by (auto simp: table_create_Inr batch_storable_def)
qed

lemma write_creates:
  assumes "sha_hex sha" "preparePlan nfc sha input = Inr plan"
    and "batch_storable (batch_data other input plan)"
    and "collection_ready (wi_command input) t" "not_yet_applied (wi_command input) t"
  shows "writeApply nfc sha other table_client input t =
    (Inr \<lparr>wr_batchId = fresh_id t, wr_replayed = False, wr_plan = plan\<rparr>,
     t\<lparr>tb_batches := tb_batches t @ [\<lparr>br_id = fresh_id t, br_data = batch_data other input plan\<rparr>]\<rparr>)"
proof -
  let ?c = "wi_command input"
  have plan: "plan_for ?c plan" using assms(1,2) by (rule preparePlan_for)
  note create = table_create_storable [OF plan refl refl assms(3-5)]
  obtain k where k: "List.find (\<lambda>k. cl_id k = cm_collectionId ?c \<and> cl_tenantId k = cm_tenantId ?c \<and>
        cl_caseId k = cm_caseId ?c) (tb_collections t) = Some k"
    "cr_status (cl_row k) = CONFIRMED" "cr_confirmedAt (cl_row k) \<noteq> None"
    "cr_currency (cl_row k) = cm_currency ?c"
    using assms(4) by (auto simp: collection_ready_def split: option.split_asm)
  have "List.find (\<lambda>r. key_of (br_data r) = (cm_tenantId ?c, cm_idempotencyKey ?c)) (tb_batches t) = None"
    "List.find (\<lambda>r. collection_of (br_data r) = (cm_tenantId ?c, cm_collectionId ?c) \<and>
       bd_batchType (br_data r) = APPLY) (tb_batches t) = None"
    using assms(5) by (auto simp: find_None not_yet_applied_def list_all_iff)
  then show ?thesis
    using k create assms(2) by (simp add: writeApply_def write_locked_def Let_def)
qed

lemma validated_storable:
  assumes "validateCanonicalSnapshot nfc sha (validator_input input) = Inr v"
    and "sha_hex sha" "preparePlan nfc sha input = Inr plan"
    and "en_snapshot (wi_snapshotEnvelope input) = vs_snapshot v"
  shows "batch_storable (batch_data other input plan)"
  using validated_row_checks [OF assms] validated_applications(5) [OF assms(1-3)]
  by (simp add: batch_storable_def btrim_nonempty_def js_eval)

subsection \<open>What a stored batch rests on\<close>

text \<open>
  A batch is sound when its collection is a confirmed one of the same tenant, case and currency, its hash and
  reference are those of its payload, and its amounts are the waterfall of the buckets of the snapshot the
  payload spells, for the receipt of that snapshot.
\<close>

definition confirmed_collection :: "Tables \<Rightarrow> BatchData \<Rightarrow> bool" where
  "confirmed_collection t d \<longleftrightarrow>
     list_ex (\<lambda>k. cl_tenantId k = bd_tenantId d \<and> cl_id k = bd_collectionId d \<and> cl_caseId k = bd_caseId d \<and>
       cr_status (cl_row k) = CONFIRMED \<and> cr_confirmedAt (cl_row k) \<noteq> None \<and>
       cr_currency (cl_row k) = bd_currency d) (tb_collections t)"

definition poured_from :: "CanonicalReceivableApplicationSnapshotV1 \<Rightarrow> BatchData \<Rightarrow> bool" where
  "poured_from sn d \<longleftrightarrow>
     bd_tenantId d = sn_tenantId sn \<and> bd_caseId d = sn_caseId sn \<and>
     bd_collectionId d = sn_targetCollectionId sn \<and> bd_currency d = sn_currency sn \<and>
     bd_receiptAmountMinor d = sn_receiptAmountMinor sn \<and>
     bd_applications d = map (application_data (bd_createdAt d))
       (plannedApplications (pour (legal_order sn) (bd_receiptAmountMinor d))) \<and>
     bd_heldRemainderMinor d =
       bd_receiptAmountMinor d - min (bd_receiptAmountMinor d) (balances (sn_canonicalBuckets sn))"

definition batch_sound :: "(jstr \<Rightarrow> jstr) \<Rightarrow> (bytes \<Rightarrow> jstr) \<Rightarrow> Tables \<Rightarrow> BatchData \<Rightarrow> bool" where
  "batch_sound nfc sha t d \<longleftrightarrow>
     confirmed_collection t d \<and> receipt_conserved d \<and>
     bd_snapshotHash d = computeCanonicalSnapshotHash sha (utf8 (bd_snapshotCanonicalPayload d)) \<and>
     bd_snapshotRef d = canonicalSnapshotRefForHash (bd_snapshotHash d) \<and>
     (\<exists>input v. validateCanonicalSnapshot nfc sha (validator_input input) = Inr v \<and>
        vs_canonicalPayload v = bd_snapshotCanonicalPayload d \<and> poured_from (vs_snapshot v) d)"

lemma confirmed_collection_batches [simp]:
  "confirmed_collection (t\<lparr>tb_batches := bs\<rparr>) d = confirmed_collection t d"
  by (simp add: confirmed_collection_def)

lemma batch_sound_batches [simp]: "batch_sound nfc sha (t\<lparr>tb_batches := bs\<rparr>) d = batch_sound nfc sha t d"
  by (simp add: batch_sound_def)

lemma created_sound:
  assumes sha: "sha_hex sha" and p: "preparePlan nfc sha input = Inr plan"
    and w: "write_locked other table_client input plan t = Inr (res, t')" "\<not> wr_replayed res"
  shows "batch_sound nfc sha t (batch_data other input plan)"
proof -
  let ?c = "wi_command input" and ?d = "batch_data other input plan"
  obtain v where v: "validateCanonicalSnapshot nfc sha (validator_input input) = Inr v"
    using p unfolding preparePlan_spec [OF sha] by (auto split: if_split_asm sum.split_asm)
  note app = validated_applications [OF v sha p] and bound = validated_for_command [OF v]
  obtain k where "k \<in> set (tb_collections t)" "cl_id k = cm_collectionId ?c" "cl_tenantId k = cm_tenantId ?c"
    "cl_caseId k = cm_caseId ?c" "cr_status (cl_row k) = CONFIRMED" "cr_confirmedAt (cl_row k) \<noteq> None"
    "cr_currency (cl_row k) = cm_currency ?c"
    using tables.write_locked_created(5) [OF w] by (auto dest!: find_SomeD)
  then have "confirmed_collection t ?d"
    by (auto simp: confirmed_collection_def list_ex_iff batch_data_def Let_def app(1) expected_plan_sel)
  moreover have hash: "vs_snapshotHash v = computeCanonicalSnapshotHash sha (utf8 (vs_canonicalPayload v))"
    "vs_snapshotRef v = canonicalSnapshotRefForHash (vs_snapshotHash v)"
    using v unfolding validateCanonicalSnapshot_Inr openEnvelope_Inr accepts_def canonicalBytesError_None
    by (auto simp del: serializeCanonicalJson.simps)
  moreover have "poured_from (vs_snapshot v) ?d"
    using bound(1) unfolding poured_from_def app(2)
    by (simp add: batch_data_def Let_def app(1) expected_plan_sel command_bound_def)
  moreover have "vs_canonicalPayload v = bd_snapshotCanonicalPayload ?d" "bd_snapshotHash ?d = vs_snapshotHash v"
    "bd_snapshotRef ?d = vs_snapshotRef v"
    using bound(6) by (simp_all add: batch_data_def Let_def app(1) expected_plan_sel)
  ultimately show ?thesis using app(6) v unfolding batch_sound_def by metis
qed

text \<open>The unique indexes are never hit: the batch that would violate one was found before.\<close>

lemma write_no_conflict:
  assumes sha: "sha_hex sha"
  shows "fst (writeApply nfc sha other table_client input t) \<noteq> Inl (writer_error PERSISTENCE_CONFLICT)"
proof
  assume c: "fst (writeApply nfc sha other table_client input t) = Inl (writer_error PERSISTENCE_CONFLICT)"
  let ?c = "wi_command input"
  show False
  proof (cases "preparePlan nfc sha input")
    case (Inl e)
    with c show False
      unfolding preparePlan_spec [OF sha]
      by (auto simp: writeApply_def preparePlan_spec [OF sha] split: if_split_asm sum.split_asm)
  next
    case (Inr plan)
    let ?d = "batch_data other input plan"
    obtain v where v: "validateCanonicalSnapshot nfc sha (validator_input input) = Inr v"
      using Inr unfolding preparePlan_spec [OF sha] by (auto split: if_split_asm sum.split_asm)
    have free: "List.find (\<lambda>r. key_of (br_data r) = (cm_tenantId ?c, cm_idempotencyKey ?c)) (tb_batches t) = None"
      "List.find (\<lambda>r. collection_of (br_data r) = (cm_tenantId ?c, cm_collectionId ?c) \<and>
         bd_batchType (br_data r) = APPLY) (tb_batches t) = None"
      and p2002: "table_create ?d t = Inl (KnownRequestError (js ''P2002''))"
      using c Inr
      by (auto simp: writeApply_def write_locked_def Let_def mapPersistenceError_def
          split: option.split_asm if_split_asm sum.split_asm)
    have keys: "key_of ?d = (cm_tenantId ?c, cm_idempotencyKey ?c)" "bd_reversesBatchId ?d = None"
      "collection_of ?d = (cm_tenantId ?c, cm_collectionId ?c)"
      using preparePlan_for [OF sha Inr] by (simp_all add: key_of_def collection_of_def batch_data_def Let_def plan_for_def)
    have "batch_unique t ?d"
      using free unfolding batch_unique_def keys find_None by auto
    then show False
      using table_create_conflict [OF p2002] validated_applications(5) [OF v sha Inr] by blast
  qed
qed

fun write_inputs ::
  "(jstr \<Rightarrow> jstr) \<Rightarrow> (bytes \<Rightarrow> jstr) \<Rightarrow> (jstr \<Rightarrow> jsdate) \<Rightarrow> WriteLegalApplicationPlanInput list \<Rightarrow> Tables \<Rightarrow>
   (LegalApplicationWriterError + WriteLegalApplicationPlanResult) list \<times> Tables" where
  "write_inputs nfc sha other [] t = ([], t)"
| "write_inputs nfc sha other (input # inputs) t =
     (let (r, t1) = writeApply nfc sha other table_client input t;
          (rs, t2) = write_inputs nfc sha other inputs t1
      in (r # rs, t2))"

definition creates :: "LegalApplicationWriterError + WriteLegalApplicationPlanResult \<Rightarrow> bool" where
  "creates r = (case r of Inl _ \<Rightarrow> False | Inr res \<Rightarrow> \<not> wr_replayed res)"

lemma write_keeps_sound:
  assumes sha: "sha_hex sha" and ok: "tables_ok t"
    and sound: "list_all (\<lambda>r. batch_sound nfc sha t (br_data r)) (apply_rows t)"
    and w: "writeApply nfc sha other table_client input t = (r, t')"
  shows "tables_ok t'" "list_all (\<lambda>r. batch_sound nfc sha t' (br_data r)) (apply_rows t')"
    and "prefix (tb_batches t) (tb_batches t')"
    and "length (tb_batches t') = length (tb_batches t) + (if creates r then 1 else 0)"
    and "r \<noteq> Inl (writer_error PERSISTENCE_CONFLICT)"
proof -
  show "r \<noteq> Inl (writer_error PERSISTENCE_CONFLICT)"
    using write_no_conflict [OF sha, of nfc other input t] w by simp
  show "tables_ok t'" using writeApply_ok [OF ok, of nfc sha other input] w by simp
  have "list_all (\<lambda>r. batch_sound nfc sha t' (br_data r)) (apply_rows t') \<and>
      prefix (tb_batches t) (tb_batches t') \<and>
      length (tb_batches t') = length (tb_batches t) + (if creates r then 1 else 0)"
  proof (rule writeApply_cases [of nfc sha other input t])
    fix res plan t0
    assume c: "writeApply nfc sha other table_client input t = (Inr res, t0)" "\<not> wr_replayed res"
      "preparePlan nfc sha input = Inr plan" "write_locked other table_client input plan t = Inr (res, t0)"
      "table_create (batch_data other input plan) t = Inr (wr_batchId res, t0)"
    show ?thesis
      using created_sound [OF sha c(3,4,2)] sound w c(1,2,5)
      by (auto simp: table_create_Inr apply_rows_def creates_def)
  qed (use w sound in \<open>auto simp: creates_def\<close>)
  then show "list_all (\<lambda>r. batch_sound nfc sha t' (br_data r)) (apply_rows t')"
    "prefix (tb_batches t) (tb_batches t')"
    "length (tb_batches t') = length (tb_batches t) + (if creates r then 1 else 0)" by blast+
qed

subsection \<open>A concrete write\<close>

text \<open>The accepted sample with an arbitrary object in the \<open>snapshot\<close> member of the envelope.\<close>

definition sample_write :: "CanonicalReceivableApplicationSnapshotV1 \<Rightarrow> WriteLegalApplicationPlanInput" where
  "sample_write sn =
     \<lparr>wi_command = sample_parsed_command,
      wi_snapshotEnvelope =
        \<lparr>en_snapshotRef = canonicalSnapshotRefForHash sample_digest, en_snapshotHash = sample_digest,
         en_canonicalPayload = sample_payload, en_snapshot = sn\<rparr>,
      wi_createdAt = Some 0\<rparr>"

definition sample_tables :: Tables where
  "sample_tables =
     \<lparr>tb_tenantIds = [js ''t''], tb_caseIds = [(js ''t'', js ''c'')], tb_collections =
        [\<lparr>cl_tenantId = js ''t'', cl_id = js ''col'', cl_caseId = js ''c'',
          cl_row = \<lparr>cr_status = CONFIRMED, cr_confirmedAt = Some 0, cr_currency = js ''TRY''\<rparr>\<rparr>],
      tb_batches = []\<rparr>"

abbreviation sample_plan :: LegalApplicationPlan where
  "sample_plan \<equiv> expected_plan (\<lambda>s. s) sample_sha (assembly_input sample_parsed_command sample_accepted)"

lemma sample_write_validates:
  "validateCanonicalSnapshot (\<lambda>s. s) sample_sha (validator_input (sample_write sn)) = Inr sample_accepted"
proof -
  let ?e = "envelope_value (wi_snapshotEnvelope (sample_write sn))"
  let ?m = "[(js ''direction'', VStr APPLY), (js ''command'', VObj sample_command),
             (js ''snapshotEnvelope'', VObj ?e)]"
  have cmd: "command_value sample_parsed_command = sample_command"
    by (simp add: command_value_def sample_parsed_command_def sample_command_def js_of_int_def
        js_of_nat.simps js_eval)
  have e: "fld ?e ''canonicalPayload'' = VStr sample_payload"
    "fld ?e ''snapshotRef'' = VStr (canonicalSnapshotRefForHash sample_digest)"
    "fld ?e ''snapshotHash'' = VStr sample_digest"
    by (simp_all add: sample_write_def envelope_value_def obj_get_def)
  have "utf8 sample_payload \<noteq> []"
    using sample_opens unfolding openEnvelope_Inr sample_validator_input_def by (auto simp: obj_get_def)
  then have "openEnvelope (validator_input (sample_write sn)) =
      Inr (?m, sample_command, ?e, sample_payload, sample_raw)"
    unfolding openEnvelope_Inr using sample_payload_size sample_raw_parses e(1)
    by (simp add: validator_input_def sample_write_def cmd) (simp add: obj_get_def)
  moreover have "parseEnvelopeEvidence ?e = Some sample_evidence"
    by (simp add: parseEnvelopeEvidence_Some e sample_evidence_def)
  with sample_accepts have "accepts (\<lambda>s. s) sample_sha ?m sample_command ?e sample_payload sample_raw
      sample_parsed_command sample_evidence sample_facts_raw sample_versions [sample_source, sample_receivable] [sample_parsed_bucket]"
    by (simp add: accepts_def) (simp add: obj_get_def)
  ultimately show ?thesis unfolding validateCanonicalSnapshot_Inr sample_accepted_def by blast
qed

lemma sample_write_prepares: "preparePlan (\<lambda>s. s) sample_sha (sample_write sn) = Inr sample_plan"
proof -
  have "cm_receiptAmountMinor sample_parsed_command = 700" by (simp add: sample_parsed_command_def)
  then show ?thesis
    unfolding preparePlan_spec [OF sample_sha_hex] sample_write_validates by (simp add: sample_write_def)
qed

lemma sample_collection_ready:
  "collection_ready (wi_command (sample_write sn)) sample_tables"
  "not_yet_applied (wi_command (sample_write sn)) sample_tables"
  by (simp_all add: collection_ready_def not_yet_applied_def sample_tables_def sample_write_def
      sample_parsed_command_def CONFIRMED_def)

lemma sample_written:
  assumes "sn = vs_snapshot sample_accepted"
  shows "writeApply (\<lambda>s. s) sample_sha other table_client (sample_write sn) sample_tables =
    (Inr \<lparr>wr_batchId = fresh_id sample_tables, wr_replayed = False, wr_plan = sample_plan\<rparr>,
     sample_tables\<lparr>tb_batches := [\<lparr>br_id = fresh_id sample_tables,
       br_data = batch_data other (sample_write sn) sample_plan\<rparr>]\<rparr>)"
proof -
  have "batch_storable (batch_data other (sample_write sn) sample_plan)"
    using sample_write_validates sample_sha_hex sample_write_prepares
    by (rule validated_storable) (simp add: sample_write_def assms)
  from write_creates [OF sample_sha_hex sample_write_prepares this sample_collection_ready]
  show ?thesis by (simp add: sample_tables_def)
qed

subsection \<open>Properties\<close>

text \<open>The preparation of a plan is the validation followed by the waterfall: after an accepted snapshot
  the only rejection left is a receipt of zero.\<close>

theorem prepared_plan_spec:
  assumes "sha_hex sha"
  shows "preparePlan nfc sha input =
    (if wi_createdAt input = None then Inl (writer_error WRITER_INPUT_INVALID)
     else case validateCanonicalSnapshot nfc sha (validator_input input) of
       Inl e \<Rightarrow> Inl \<lparr>we_code = WRITER_PLAN_REJECTED, we_planErrorCode = Some (err_code e)\<rparr>
     | Inr v \<Rightarrow>
         if cm_receiptAmountMinor (wi_command input) = 0
         then Inl \<lparr>we_code = WRITER_PLAN_REJECTED, we_planErrorCode = Some RECEIPT_AMOUNT_INVALID\<rparr>
         else Inr (expected_plan nfc sha (assembly_input (wi_command input) v)))"
  using assms by (rule preparePlan_spec)

theorem prepared_plan_spec_witness:
  "preparePlan (\<lambda>s. s) sample_sha (sample_write (vs_snapshot sample_accepted)) = Inr sample_plan"
proof -
  have "cm_receiptAmountMinor sample_parsed_command = 700" by (simp add: sample_parsed_command_def)
  then show ?thesis
    unfolding prepared_plan_spec [OF sample_sha_hex] sample_write_validates by (simp add: sample_write_def)
qed

text \<open>C6: writing is idempotent: when a write succeeded, the same input written again reports the same batch
  as a replay and leaves the tables as they are (the business date of the snapshot being a date).\<close>

theorem write_replay_idempotent:
  assumes "sha_hex sha" "writeApply nfc sha other table_client input t = (Inr res, t')"
    and "date_text (sn_snapshotAsOfDate (en_snapshot (wi_snapshotEnvelope input)))"
  shows "writeApply nfc sha other table_client input t' = (Inr (res\<lparr>wr_replayed := True\<rparr>), t')"
proof (rule writeApply_cases [of nfc sha other input t])
  fix r plan t0
  assume w: "writeApply nfc sha other table_client input t = (Inr r, t0)" "\<not> wr_replayed r"
    "preparePlan nfc sha input = Inr plan" "write_locked other table_client input plan t = Inr (r, t0)"
  then show ?thesis
    using assms(2) tables.replay [OF w(4,2) preparePlan_for [OF assms(1) w(3)] assms(3)]
    by (simp add: writeApply_Inr)
qed (use assms(2) in auto)

theorem write_replay_idempotent_witness:
  "\<exists>t' res. \<not> wr_replayed res \<and> tb_batches t' \<noteq> [] \<and>
     writeApply (\<lambda>s. s) sample_sha (\<lambda>s. None) table_client (sample_write (vs_snapshot sample_accepted)) t' =
       (Inr (res\<lparr>wr_replayed := True\<rparr>), t')"
proof -
  have "date_text (sn_snapshotAsOfDate (vs_snapshot sample_accepted))"
    by (simp add: sample_accepted_def materializeValidatedSnapshot_def sample_facts_raw_def)
  then have "date_text (sn_snapshotAsOfDate (en_snapshot (wi_snapshotEnvelope
      (sample_write (vs_snapshot sample_accepted)))))"
    by (simp add: sample_write_def)
  note replay = write_replay_idempotent [OF sample_sha_hex sample_written [OF refl, of "\<lambda>s. None"] this]
  let ?t' = "sample_tables\<lparr>tb_batches := [\<lparr>br_id = fresh_id sample_tables,
       br_data = batch_data (\<lambda>s. None) (sample_write (vs_snapshot sample_accepted)) sample_plan\<rparr>]\<rparr>"
  let ?res = "\<lparr>wr_batchId = fresh_id sample_tables, wr_replayed = False, wr_plan = sample_plan\<rparr>"
  have "\<not> wr_replayed ?res" "tb_batches ?t' \<noteq> []" by simp_all
  with replay show ?thesis by (intro exI [of _ ?t'] exI [of _ ?res] conjI)
qed

text \<open>C7: the writer keeps the store sound: after any sequence of writes on a store whose APPLY batches are
  sound (made for a confirmed collection of the same tenant, case and currency, with the hash and reference
  of the stored payload, the payload a valid snapshot of this tenant, case, collection and receipt, the
  applications and the held remainder the waterfall of its buckets, and the receipt conserved) all APPLY
  batches are sound, there is one per collection and one batch per key, the earlier batches stand unchanged
  in front, every success that is not a replay has added exactly one, and no write was refused by a unique
  index: the checks of the writer come before it.\<close>

theorem writes_keep_batches_sound:
  assumes "sha_hex sha" "tables_ok t" "list_all (\<lambda>r. batch_sound nfc sha t (br_data r)) (apply_rows t)"
    and "write_inputs nfc sha other inputs t = (results, t')"
  shows "tables_ok t' \<and> list_all (\<lambda>r. batch_sound nfc sha t' (br_data r)) (apply_rows t') \<and>
    prefix (tb_batches t) (tb_batches t') \<and>
    length (tb_batches t') = length (tb_batches t) + length (filter creates results) \<and>
    Inl (writer_error PERSISTENCE_CONFLICT) \<notin> set results"
  using assms(2-4)
proof (induction inputs arbitrary: t results)
  case (Cons input inputs)
  obtain r t1 rs where step: "writeApply nfc sha other table_client input t = (r, t1)"
    and rest: "write_inputs nfc sha other inputs t1 = (rs, t')" and results: "results = r # rs"
    using Cons.prems(3) by (auto split: prod.split_asm)
  note one = write_keeps_sound [OF assms(1) Cons.prems(1,2) step]
  from Cons.IH [OF one(1,2) rest] one(3-5) show ?case
    by (auto simp: results intro: prefix_order.trans)
qed simp

theorem writes_keep_batches_sound_witness:
  "\<exists>results t'. write_inputs (\<lambda>s. s) sample_sha (\<lambda>s. None)
       [sample_write (vs_snapshot sample_accepted), sample_write (vs_snapshot sample_accepted)] sample_tables =
         (results, t') \<and> length (tb_batches t') = 1 \<and>
     list_all (\<lambda>r. batch_sound (\<lambda>s. s) sample_sha t' (br_data r)) (apply_rows t') \<and> apply_rows t' \<noteq> []"
proof -
  let ?i = "sample_write (vs_snapshot sample_accepted)" and ?w = "write_inputs (\<lambda>s. s) sample_sha (\<lambda>s. None)"
  obtain results t' where all: "?w [?i, ?i] sample_tables = (results, t')" by fastforce
  have start: "tables_ok sample_tables"
    "list_all (\<lambda>r. batch_sound (\<lambda>s. s) sample_sha sample_tables (br_data r)) (apply_rows sample_tables)"
    by (simp_all add: tables_ok_def sample_tables_def apply_rows_def)
  note sound = writes_keep_batches_sound [OF sample_sha_hex start all]
  have date: "date_text (sn_snapshotAsOfDate (en_snapshot (wi_snapshotEnvelope ?i)))"
    by (simp add: sample_write_def sample_accepted_def materializeValidatedSnapshot_def sample_facts_raw_def)
  note first = sample_written [OF refl, of "\<lambda>s. None"]
  obtain plan where p: "preparePlan (\<lambda>s. s) sample_sha ?i = Inr plan"
    "write_locked (\<lambda>s. None) table_client ?i plan sample_tables = Inr (\<lparr>wr_batchId = fresh_id sample_tables,
       wr_replayed = False, wr_plan = sample_plan\<rparr>, sample_tables\<lparr>tb_batches := [\<lparr>br_id = fresh_id sample_tables,
       br_data = batch_data (\<lambda>s. None) ?i sample_plan\<rparr>]\<rparr>)"
    using first unfolding writeApply_Inr by blast
  have "writeApply (\<lambda>s. s) sample_sha (\<lambda>s. None) table_client ?i (sample_tables\<lparr>tb_batches :=
      [\<lparr>br_id = fresh_id sample_tables, br_data = batch_data (\<lambda>s. None) ?i sample_plan\<rparr>]\<rparr>) =
    (Inr \<lparr>wr_batchId = fresh_id sample_tables, wr_replayed = True, wr_plan = sample_plan\<rparr>,
     sample_tables\<lparr>tb_batches := [\<lparr>br_id = fresh_id sample_tables,
       br_data = batch_data (\<lambda>s. None) ?i sample_plan\<rparr>]\<rparr>)"
    using tables.replay [OF p(2) _ preparePlan_for [OF sample_sha_hex p(1)] date] p(1)
    by (simp add: writeApply_Inr)
  then have "t' = sample_tables\<lparr>tb_batches :=
      [\<lparr>br_id = fresh_id sample_tables, br_data = batch_data (\<lambda>s. None) ?i sample_plan\<rparr>]\<rparr>"
    using all first by simp
  then have "length (tb_batches t') = 1" "apply_rows t' \<noteq> []"
    by (simp_all add: apply_rows_def batch_data_def Let_def)
  with sound all show ?thesis by blast
qed

text \<open>a failed write changes nothing.\<close>

theorem failed_write_changes_nothing:
  assumes "writeApply nfc sha other table_client input t = (Inl e, t')"
  shows "t' = t"
  by (rule writeApply_cases [of nfc sha other input t]) (use assms in auto)

theorem failed_write_changes_nothing_witness:
  "writeApply (\<lambda>s. s) sample_sha (\<lambda>s. None) table_client (sample_write (vs_snapshot sample_accepted))
     \<lparr>tb_tenantIds = [], tb_caseIds = [], tb_collections = [], tb_batches = []\<rparr> =
   (Inl (writer_error COLLECTION_CONTEXT_MISMATCH), \<lparr>tb_tenantIds = [], tb_caseIds = [], tb_collections = [], tb_batches = []\<rparr>)"
proof -
  let ?t = "\<lparr>tb_tenantIds = [], tb_caseIds = [], tb_collections = [], tb_batches = []\<rparr> :: Tables"
  obtain t' where "writeApply (\<lambda>s. s) sample_sha (\<lambda>s. None) table_client (sample_write (vs_snapshot sample_accepted)) ?t =
      (Inl (writer_error COLLECTION_CONTEXT_MISMATCH), t')"
    by (simp add: writeApply_def sample_write_prepares write_locked_def Let_def mapPersistenceError_def)
  with failed_write_changes_nothing [OF this] show ?thesis by simp
qed

text \<open>after a write has created a batch, a write for the same collection under any other input can only
  report a replay, and never creates a second batch.\<close>

theorem no_second_apply_batch:
  assumes "sha_hex sha" "writeApply nfc sha other table_client input t = (Inr res, t')"
    and "\<not> wr_replayed res"
    and "cm_tenantId (wi_command input') = cm_tenantId (wi_command input)"
    and "cm_collectionId (wi_command input') = cm_collectionId (wi_command input)"
    and "writeApply nfc sha other table_client input' t' = (Inr res', t'')"
  shows "wr_replayed res' \<and> t'' = t'"
proof -
  obtain plan where p: "preparePlan nfc sha input = Inr plan"
    "write_locked other table_client input plan t = Inr (res, t')"
    using assms(2) unfolding writeApply_Inr by blast
  obtain plan' where p': "write_locked other table_client input' plan' t' = Inr (res', t'')"
    using assms(6) unfolding writeApply_Inr by blast
  show ?thesis
    by (rule tables.second_apply_refused [OF p(2) assms(3) preparePlan_for [OF assms(1) p(1)] assms(4,5) p'])
qed

theorem no_second_apply_batch_witness:
  "\<exists>t'. tb_batches t' \<noteq> [] \<and>
     {r. \<exists>t'' res. writeApply (\<lambda>s. s) sample_sha (\<lambda>s. None) table_client
          (sample_write (vs_snapshot sample_accepted)) t' = (Inr res, t'') \<and> r = (wr_replayed res, t'')} \<subseteq>
     {(True, t')}"
proof -
  let ?i = "sample_write (vs_snapshot sample_accepted)"
  let ?t' = "sample_tables\<lparr>tb_batches := [\<lparr>br_id = fresh_id sample_tables,
       br_data = batch_data (\<lambda>s. None) ?i sample_plan\<rparr>]\<rparr>"
  note first = sample_written [OF refl, of "\<lambda>s. None"]
  have "wr_replayed res \<and> t'' = ?t'"
    if "writeApply (\<lambda>s. s) sample_sha (\<lambda>s. None) table_client ?i ?t' = (Inr res, t'')" for res t''
    by (rule no_second_apply_batch [OF sample_sha_hex first _ refl refl that]) simp
  then have "{r. \<exists>t'' res. writeApply (\<lambda>s. s) sample_sha (\<lambda>s. None) table_client ?i ?t' = (Inr res, t'') \<and>
      r = (wr_replayed res, t'')} \<subseteq> {(True, ?t')}"
    by auto
  then show ?thesis by (intro exI [of _ ?t'] conjI) simp_all
qed

text \<open>C8: a write of a validated snapshot succeeds: with a valid creation time, a receipt that is not zero,
  the validated object as the snapshot of the envelope, a known tenant, a case of this tenant, a confirmed
  collection of the case and the currency, and no earlier batch, the database accepts the batch and exactly
  one is added: no column type, CHECK constraint, unique index, foreign key or trigger of the schema, the
  deferred one on the conservation of the receipt included, refuses it.\<close>

theorem validated_write_creates_batch:
  assumes "sha_hex sha" "validateCanonicalSnapshot nfc sha (validator_input input) = Inr v"
    and "en_snapshot (wi_snapshotEnvelope input) = vs_snapshot v" "wi_createdAt input \<noteq> None"
    and "cm_receiptAmountMinor (wi_command input) \<noteq> 0"
    and "collection_ready (wi_command input) t" "not_yet_applied (wi_command input) t"
  shows "\<exists>plan. plan = expected_plan nfc sha (assembly_input (wi_command input) v) \<and>
    writeApply nfc sha other table_client input t =
      (Inr \<lparr>wr_batchId = fresh_id t, wr_replayed = False, wr_plan = plan\<rparr>,
       t\<lparr>tb_batches := tb_batches t @
          [\<lparr>br_id = fresh_id t, br_data = batch_data other input plan\<rparr>]\<rparr>)"
proof (intro exI conjI)
  have plan: "preparePlan nfc sha input = Inr (expected_plan nfc sha (assembly_input (wi_command input) v))"
    using assms(4,5) unfolding preparePlan_spec [OF assms(1)] assms(2) by simp
  show "writeApply nfc sha other table_client input t =
      (Inr \<lparr>wr_batchId = fresh_id t, wr_replayed = False,
            wr_plan = expected_plan nfc sha (assembly_input (wi_command input) v)\<rparr>,
       t\<lparr>tb_batches := tb_batches t @ [\<lparr>br_id = fresh_id t,
          br_data = batch_data other input (expected_plan nfc sha (assembly_input (wi_command input) v))\<rparr>]\<rparr>)"
    by (rule write_creates [OF assms(1) plan validated_storable [OF assms(2,1) plan assms(3)] assms(6,7)])
qed (rule refl)

theorem validated_write_creates_batch_witness:
  "\<exists>res t'. writeApply (\<lambda>s. s) sample_sha (\<lambda>s. None) table_client
       (sample_write (vs_snapshot sample_accepted)) sample_tables = (Inr res, t') \<and>
     length (tb_batches t') = 1"
proof -
  have "en_snapshot (wi_snapshotEnvelope (sample_write (vs_snapshot sample_accepted))) = vs_snapshot sample_accepted"
    "wi_createdAt (sample_write (vs_snapshot sample_accepted)) \<noteq> None"
    "cm_receiptAmountMinor (wi_command (sample_write (vs_snapshot sample_accepted))) \<noteq> 0"
    by (simp_all add: sample_write_def sample_parsed_command_def)
  from validated_write_creates_batch [OF sample_sha_hex sample_write_validates this sample_collection_ready,
      of "\<lambda>s. None"]
  show ?thesis by (auto simp: sample_tables_def)
qed

text \<open>what a created batch stores is consistent: its amounts add up to the receipt of the command, every
  application conserves its bucket, and the stored reference and hash are those of the stored payload.\<close>

theorem created_batch_evidence:
  assumes "sha_hex sha" "writeApply nfc sha other table_client input t = (Inr res, t')" "\<not> wr_replayed res"
  shows "\<exists>d. tb_batches t' = tb_batches t @ [\<lparr>br_id = wr_batchId res, br_data = d\<rparr>] \<and>
    bd_receiptAmountMinor d = cm_receiptAmountMinor (wi_command input) \<and>
    bd_receiptAmountMinor d =
      sum_list (map pe_appliedAmountMinor (bd_applications d)) + bd_heldRemainderMinor d \<and>
    list_all (\<lambda>a. pe_bucketBeforeMinor a = pe_appliedAmountMinor a + pe_bucketAfterMinor a)
      (bd_applications d) \<and>
    bd_snapshotHash d = computeCanonicalSnapshotHash sha (utf8 (bd_snapshotCanonicalPayload d)) \<and>
    bd_snapshotRef d = canonicalSnapshotRefForHash (bd_snapshotHash d)"
proof (rule writeApply_cases [of nfc sha other input t])
  fix r plan t0
  assume w: "writeApply nfc sha other table_client input t = (Inr r, t0)" "preparePlan nfc sha input = Inr plan"
    "table_create (batch_data other input plan) t = Inr (wr_batchId r, t0)"
  obtain v where v: "validateCanonicalSnapshot nfc sha (validator_input input) = Inr v"
    and plan: "plan = expected_plan nfc sha (assembly_input (wi_command input) v)"
    using w(2) unfolding preparePlan_spec [OF assms(1)] guard_simps by auto
  note sel = expected_plan_sel and bound = validated_for_command [OF v]
  have eqs: "tb_batches t' = tb_batches t @ [\<lparr>br_id = wr_batchId res, br_data = batch_data other input plan\<rparr>]"
    "row_checks (fresh_id t) (batch_data other input plan)"
    using w assms(2) by (auto simp: table_create_Inr)
  have "list_all (\<lambda>a. pe_bucketBeforeMinor a = pe_appliedAmountMinor a + pe_bucketAfterMinor a)
      (bd_applications (batch_data other input plan))"
    using eqs(2) by (auto simp: row_checks_def list_all_iff bucket_arithmetic_def batch_data_def Let_def)
  moreover have "vs_snapshotHash v = computeCanonicalSnapshotHash sha (utf8 (vs_canonicalPayload v))"
    "vs_snapshotRef v = canonicalSnapshotRefForHash (vs_snapshotHash v)"
    using v unfolding validateCanonicalSnapshot_Inr openEnvelope_Inr accepts_def canonicalBytesError_None
    by (auto simp del: serializeCanonicalJson.simps)
  moreover have "receipt_conserved (batch_data other input plan)"
    using validated_applications(6) [OF v assms(1) w(2)] .
  ultimately show ?thesis
    using eqs(1) bound(6) unfolding receipt_conserved_def
    by (intro exI [of _ "batch_data other input plan"] conjI)
      (simp_all add: batch_data_def Let_def plan sel)
qed (use assms in auto)

theorem created_batch_evidence_witness:
  "\<exists>d :: BatchData. bd_receiptAmountMinor d = 700 \<and>
     sum_list (map pe_appliedAmountMinor (bd_applications d)) + bd_heldRemainderMinor d = 700"
proof -
  have "\<not> wr_replayed \<lparr>wr_batchId = fresh_id sample_tables, wr_replayed = False, wr_plan = sample_plan\<rparr>" by simp
  from created_batch_evidence [OF sample_sha_hex sample_written [OF refl, of "\<lambda>s. None"] this]
  obtain d :: BatchData where d: "bd_receiptAmountMinor d =
        cm_receiptAmountMinor (wi_command (sample_write (vs_snapshot sample_accepted)))"
    "bd_receiptAmountMinor d = sum_list (map pe_appliedAmountMinor (bd_applications d)) + bd_heldRemainderMinor d"
    by blast
  moreover have "cm_receiptAmountMinor (wi_command (sample_write (vs_snapshot sample_accepted))) = 700"
    by (simp add: sample_write_def sample_parsed_command_def)
  ultimately show ?thesis by (intro exI [of _ d]) simp
qed

text \<open>C9: the versions stored with a batch are not those of the validated payload but those of the object
  beside it, which the validation does not read: a write can succeed and store a policy version that
  the hashed payload contradicts.\<close>

theorem stored_version_unvalidated:
  "\<exists>nfc sha input t res t' v d. sha_hex sha \<and>
     validateCanonicalSnapshot nfc sha (validator_input input) = Inr v \<and>
     writeApply nfc sha (\<lambda>s. None) table_client input t = (Inr res, t') \<and>
     tb_batches t' = [\<lparr>br_id = wr_batchId res, br_data = d\<rparr>] \<and>
     bd_snapshotCanonicalPayload d = vs_canonicalPayload v \<and>
     bd_policyVersion d \<noteq> sn_policyVersion (vs_snapshot v)"
proof -
  let ?sn = "vs_snapshot sample_accepted"
  let ?i = "sample_write (?sn\<lparr>sn_policyVersion := js ''q''\<rparr>)"
  let ?d = "batch_data (\<lambda>s. None) ?i sample_plan"
  have upd: "?d = (batch_data (\<lambda>s. None) (sample_write ?sn) sample_plan)\<lparr>bd_policyVersion := js ''q''\<rparr>"
    by (simp add: batch_data_def Let_def sample_write_def)
  have "batch_storable (batch_data (\<lambda>s. None) (sample_write ?sn) sample_plan)"
    using sample_write_validates sample_sha_hex sample_write_prepares
    by (rule validated_storable) (simp add: sample_write_def)
  then have "batch_storable ?d"
    unfolding upd by (rule batch_storable_policy) (simp_all add: btrim_nonempty_def text_column_ascii js_eval)
  note stored = write_creates [OF sample_sha_hex sample_write_prepares this sample_collection_ready]
  have "sn_policyVersion ?sn = js ''p''"
    by (simp add: sample_accepted_def materializeValidatedSnapshot_def sample_versions_def)
  then have "bd_policyVersion ?d \<noteq> sn_policyVersion ?sn"
    by (simp add: batch_data_def Let_def sample_write_def js_eval)
  moreover have "bd_snapshotCanonicalPayload ?d = vs_canonicalPayload sample_accepted"
    by (simp add: batch_data_def Let_def sample_write_def sample_accepted_def)
  ultimately show ?thesis
    using stored sample_write_validates sample_sha_hex
    by (intro exI conjI) (assumption | simp add: sample_tables_def)+
qed

end
