(* ===== verification/SnapshotProducer.thy ===== *)
theory SnapshotProducer
  imports ValidatedEvidence
begin

section \<open>The producer of official snapshots (official-receivable-snapshot-producer.ts)\<close>

text \<open>
  The producer turns what a read port returns into a snapshot envelope: it checks the command and the
  read model, computes the source-set hash and the identities of the buckets, sorts the buckets,
  serializes the snapshot, and passes its own output through the validator. The read port is a
  parameter; an exception of it is \<open>Inl ()\<close>. The fields the code compares with string constants
  are kept as strings, so that a value outside the declared union is a value here too. The error codes
  carry the prefix \<open>OSP_\<close>, because the validator has codes of the same name. Freezing an object has
  no effect on its value and is left out.
\<close>

definition OFFICIAL_SNAPSHOT_READ_CONTRACT_VERSION :: jstr where
  "OFFICIAL_SNAPSHOT_READ_CONTRACT_VERSION = js ''RCV-CAS-READ/v1''"

datatype OfficialSnapshotProducerErrorCode =
    OSP_SNAPSHOT_UNAVAILABLE
  | OSP_SNAPSHOT_READ_CONTRACT_UNSUPPORTED
  | OSP_SOURCE_CONCURRENCY_UNSAFE
  | OSP_TENANT_CONTEXT_MISMATCH
  | OSP_CASE_CONTEXT_MISMATCH
  | OSP_TARGET_COLLECTION_INVALID
  | OSP_SOURCE_VERSION_INCOMPLETE
  | OSP_FORMATION_CONTEXT_INCOMPLETE
  | OSP_HISTORY_BOUNDARY_UNAUTHORIZED
  | OSP_CURRENCY_OR_MINOR_UNIT_INVALID
  | OSP_RECEIPT_AMOUNT_INVALID
  | OSP_AMOUNT_OUT_OF_RANGE
  | OSP_BUCKET_CONTEXT_UNMAPPED
  | OSP_BUCKET_IDENTITY_INVALID
  | OSP_DUPLICATE_BUCKET_CONTEXT
  | OSP_LEGACY_AUTHORITY_UNSAFE
  | OSP_SNAPSHOT_SERIALIZATION_INVALID

record ProduceOfficialSnapshotCommandV1 =
  pc_tenantId :: jstr
  pc_caseId :: jstr
  pc_targetCollectionId :: jstr
  pc_receiptAmountMinor :: jstr
  pc_currency :: jstr
  pc_minorUnit :: jsnum
  pc_snapshotAsOfDate :: jstr
  pc_applicationEffectiveDate :: jstr

text \<open>The interfaces that extend \<open>OfficialSnapshotSourceVersionV1\<close> extend the record of a source.\<close>

type_synonym OfficialSnapshotSourceVersionV1 = CanonicalSourceVersionV1

record OfficialSnapshotTargetCollectionV1 = CanonicalSourceVersionV1 +
  tc_collectionId :: jstr
  tc_tenantId :: jstr
  tc_caseId :: jstr
  tc_status :: jstr
  tc_canonicalAdmission :: jstr
  tc_finality :: jstr
  tc_receiptAmountMinor :: jstr
  tc_currency :: jstr
  tc_minorUnit :: jsnum

record OfficialSnapshotCollectionHistoryV1 = CanonicalSourceVersionV1 +
  ch_collectionId :: jstr
  ch_status :: jstr

record OfficialSnapshotApplicationHistoryV1 = CanonicalSourceVersionV1 +
  ah_batchId :: jstr
  ah_batchType :: jstr
  ah_receiptAmountMinor :: jstr
  ah_appliedAmountMinor :: jstr
  ah_heldRemainderMinor :: jstr
  ah_reversesBatchId :: "jstr option"

record OfficialSnapshotBucketInputV1 = BucketContextIdentityInput +
  ob_sourceLineageSetRef :: jstr
  ob_bucketBalanceMinor :: jstr

record OfficialSnapshotLegacyAuthorityV1 =
  la_evidenceCompleteness :: jstr
  la_claimItemCollectedAmount :: jstr
  la_ledgerAllocation :: jstr
  la_collectionAllocation :: jstr

record OfficialReceivableSnapshotReadModelV1 =
  rm_readContractVersion :: jstr
  rm_readConsistency :: jstr
  rm_sourceConcurrencySafe :: bool
  rm_identityInputProvenance :: jstr
  rm_tenantId :: jstr
  rm_caseId :: jstr
  rm_snapshotAsOfDate :: jstr
  rm_applicationEffectiveDate :: jstr
  rm_historyBoundaryRef :: jstr
  rm_engineVersion :: jstr
  rm_calculationRuleVersion :: jstr
  rm_policyVersion :: jstr
  rm_rateTableVersion :: jstr
  rm_interpretationProfileId :: jstr
  rm_formationContextAvailable :: bool
  rm_targetCollection :: OfficialSnapshotTargetCollectionV1
  rm_receivableSources :: "OfficialSnapshotSourceVersionV1 list"
  rm_collectionHistory :: "OfficialSnapshotCollectionHistoryV1 list"
  rm_applicationHistory :: "OfficialSnapshotApplicationHistoryV1 list"
  rm_buckets :: "OfficialSnapshotBucketInputV1 list"
  rm_legacyAuthority :: OfficialSnapshotLegacyAuthorityV1

type_synonym OfficialSnapshotProducerResult =
  "OfficialSnapshotProducerErrorCode + CanonicalSnapshotEnvelopeV1"

subsection \<open>Texts, dates, amounts\<close>

definition isCanonicalText :: "(jstr \<Rightarrow> jstr) \<Rightarrow> jstr \<Rightarrow> bool" where
  "isCanonicalText nfc value \<longleftrightarrow>
     0 < length value \<and> js_trim value = value \<and> nfc value = value \<and>
     \<not> control_or_unpaired_surrogate value"

text \<open>The pattern of the producer, \<open>ISO_DATE\<close>, is the one of the primitive parsers.\<close>

definition isCanonicalDate :: "(jstr \<Rightarrow> jstr) \<Rightarrow> jstr \<Rightarrow> bool" where
  "isCanonicalDate nfc value \<longleftrightarrow>
     (if \<not> isCanonicalText nfc value then False
      else
        case CANONICAL_ISO_DATE value of
          None \<Rightarrow> False
        | Some (year, month, day) \<Rightarrow>
            if year = 0 \<or> month < 1 \<or> 12 < month \<or> day < 1 then False
            else
              (let leapYear = year mod 4 = 0 \<and> (year mod 100 \<noteq> 0 \<or> year mod 400 = 0);
                   days = (if month = 2 then (if leapYear then 29 else 28)
                           else if month \<in> set [4, 6, 9, 11] then 30 else 31)
               in day \<le> days))"

definition parseMinorAmountText :: "jstr \<Rightarrow> bool \<Rightarrow> int option" where
  "parseMinorAmountText value allowZero =
     (if \<not> unsigned_decimal_integer value then None
      else
        (let parsed = int (digits_val value) in
         if POSTGRES_BIGINT_MAX < parsed \<or> (\<not> allowZero \<and> parsed = 0) then None else Some parsed))"

definition isMinorUnit :: "jsnum \<Rightarrow> bool" where
  "isMinorUnit value \<longleftrightarrow>
     js_is_integer value \<and> \<not> js_less value (js_int 0) \<and> \<not> js_less (js_int POSTGRES_INTEGER_MAX) value"

definition isPriorityRank :: "jsnum \<Rightarrow> bool" where
  "isPriorityRank value = isMinorUnit value"

text \<open>The byte order without normalization, unlike the function of the same name in
  \<open>canonical-snapshot-identity.ts\<close>.\<close>

definition compareUtf8Bytes :: "jstr \<Rightarrow> jstr \<Rightarrow> int" where
  "compareUtf8Bytes left right = buffer_compare (utf8 left) (utf8 right)"

subsection \<open>The command and the read model\<close>

definition validateCommand ::
  "(jstr \<Rightarrow> jstr) \<Rightarrow> ProduceOfficialSnapshotCommandV1 \<Rightarrow> OfficialSnapshotProducerErrorCode option" where
  "validateCommand nfc command =
     (if \<not> isCanonicalText nfc (pc_tenantId command) then Some OSP_TENANT_CONTEXT_MISMATCH
      else if \<not> isCanonicalText nfc (pc_caseId command) \<or>
              \<not> isCanonicalText nfc (pc_targetCollectionId command)
      then Some OSP_CASE_CONTEXT_MISMATCH
      else if parseMinorAmountText (pc_receiptAmountMinor command) False = None
      then Some OSP_RECEIPT_AMOUNT_INVALID
      else if pc_currency command \<notin> set CANONICAL_CURRENCY_CODES \<or> \<not> isMinorUnit (pc_minorUnit command)
      then Some OSP_CURRENCY_OR_MINOR_UNIT_INVALID
      else if \<not> isCanonicalDate nfc (pc_snapshotAsOfDate command) \<or>
              \<not> isCanonicalDate nfc (pc_applicationEffectiveDate command)
      then Some OSP_FORMATION_CONTEXT_INCOMPLETE
      else None)"

definition history_entry_error ::
  "(jstr \<Rightarrow> jstr) \<Rightarrow> OfficialSnapshotApplicationHistoryV1 \<Rightarrow> OfficialSnapshotProducerErrorCode option" where
  "history_entry_error nfc entry =
     (if \<not> isCanonicalText nfc (ah_batchId entry) \<or> \<not> isCanonicalText nfc (sv_sourceReference entry) \<or>
         \<not> isCanonicalText nfc (sv_sourceVersion entry) \<or>
         ah_batchType entry \<notin> set [APPLY, js ''REVERSAL'']
      then Some OSP_SOURCE_VERSION_INCOMPLETE
      else
        case (parseMinorAmountText (ah_receiptAmountMinor entry) False,
              parseMinorAmountText (ah_appliedAmountMinor entry) True,
              parseMinorAmountText (ah_heldRemainderMinor entry) True) of
          (Some receipt, Some applied, Some held) \<Rightarrow>
            if receipt \<noteq> applied + held then Some OSP_FORMATION_CONTEXT_INCOMPLETE
            else if (ah_batchType entry = APPLY \<and> ah_reversesBatchId entry \<noteq> None) \<or>
                    (ah_batchType entry = js ''REVERSAL'' \<and>
                     \<not> (case ah_reversesBatchId entry of
                          None \<Rightarrow> False
                        | Some r \<Rightarrow> isCanonicalText nfc r))
            then Some OSP_FORMATION_CONTEXT_INCOMPLETE
            else None
        | _ \<Rightarrow> Some OSP_AMOUNT_OUT_OF_RANGE)"

fun validateApplicationHistory ::
  "(jstr \<Rightarrow> jstr) \<Rightarrow> OfficialSnapshotApplicationHistoryV1 list \<Rightarrow>
   OfficialSnapshotProducerErrorCode option" where
  "validateApplicationHistory nfc [] = None"
| "validateApplicationHistory nfc (entry # rest) =
     (case history_entry_error nfc entry of
        Some e \<Rightarrow> Some e
      | None \<Rightarrow> validateApplicationHistory nfc rest)"

definition collection_statuses :: "jstr list" where
  "collection_statuses = map js [''PENDING'', ''CONFIRMED'', ''CANCELLED'']"

definition NON_AUTHORITATIVE :: jstr where "NON_AUTHORITATIVE = js ''NON_AUTHORITATIVE''"

definition validateReadModel ::
  "(jstr \<Rightarrow> jstr) \<Rightarrow> ProduceOfficialSnapshotCommandV1 \<Rightarrow> OfficialReceivableSnapshotReadModelV1 \<Rightarrow>
   OfficialSnapshotProducerErrorCode option" where
  "validateReadModel nfc command read =
     (let target = rm_targetCollection read; legacy = rm_legacyAuthority read in
      if rm_readContractVersion read \<noteq> OFFICIAL_SNAPSHOT_READ_CONTRACT_VERSION
      then Some OSP_SNAPSHOT_READ_CONTRACT_UNSUPPORTED
      else if rm_readConsistency read \<noteq> js ''SINGLE_TRANSACTION'' \<or> \<not> rm_sourceConcurrencySafe read
      then Some OSP_SOURCE_CONCURRENCY_UNSAFE
      else if rm_identityInputProvenance read \<noteq> js ''FINAL_SNAPSHOT_INDEPENDENT''
      then Some OSP_BUCKET_IDENTITY_INVALID
      else if rm_tenantId read \<noteq> pc_tenantId command \<or> tc_tenantId target \<noteq> pc_tenantId command
      then Some OSP_TENANT_CONTEXT_MISMATCH
      else if rm_caseId read \<noteq> pc_caseId command \<or> tc_caseId target \<noteq> pc_caseId command
      then Some OSP_CASE_CONTEXT_MISMATCH
      else if tc_collectionId target \<noteq> pc_targetCollectionId command \<or>
              tc_status target \<noteq> js ''CONFIRMED'' \<or> tc_canonicalAdmission target \<noteq> js ''PASSED'' \<or>
              tc_finality target \<noteq> js ''FINAL''
      then Some OSP_TARGET_COLLECTION_INVALID
      else if tc_receiptAmountMinor target \<noteq> pc_receiptAmountMinor command
      then Some OSP_RECEIPT_AMOUNT_INVALID
      else if tc_currency target \<noteq> pc_currency command \<or>
              \<not> js_num_eq (tc_minorUnit target) (pc_minorUnit command)
      then Some OSP_CURRENCY_OR_MINOR_UNIT_INVALID
      else if rm_snapshotAsOfDate read \<noteq> pc_snapshotAsOfDate command \<or>
              rm_applicationEffectiveDate read \<noteq> pc_applicationEffectiveDate command \<or>
              \<not> isCanonicalDate nfc (rm_snapshotAsOfDate read) \<or>
              \<not> isCanonicalDate nfc (rm_applicationEffectiveDate read) \<or>
              js_str_less (rm_snapshotAsOfDate read) (rm_applicationEffectiveDate read)
      then Some OSP_FORMATION_CONTEXT_INCOMPLETE
      else if \<not> rm_formationContextAvailable read \<or>
              \<not> isCanonicalText nfc (rm_historyBoundaryRef read) \<or>
              \<not> isCanonicalText nfc (rm_engineVersion read) \<or>
              \<not> isCanonicalText nfc (rm_calculationRuleVersion read) \<or>
              \<not> isCanonicalText nfc (rm_policyVersion read) \<or>
              \<not> isCanonicalText nfc (rm_rateTableVersion read) \<or>
              \<not> isCanonicalText nfc (rm_interpretationProfileId read)
      then Some OSP_FORMATION_CONTEXT_INCOMPLETE
      else if la_evidenceCompleteness legacy \<noteq> js ''PROVEN'' \<or>
              la_claimItemCollectedAmount legacy \<noteq> NON_AUTHORITATIVE \<or>
              la_ledgerAllocation legacy \<noteq> NON_AUTHORITATIVE \<or>
              la_collectionAllocation legacy \<noteq> NON_AUTHORITATIVE
      then Some OSP_LEGACY_AUTHORITY_UNSAFE
      else if list_ex (\<lambda>entry. \<not> isCanonicalText nfc (ch_collectionId entry) \<or>
                ch_status entry \<notin> set collection_statuses) (rm_collectionHistory read)
      then Some OSP_FORMATION_CONTEXT_INCOMPLETE
      else if list_ex (\<lambda>entry. ch_collectionId entry = pc_targetCollectionId command)
                (rm_collectionHistory read)
      then Some OSP_HISTORY_BOUNDARY_UNAUTHORIZED
      else validateApplicationHistory nfc (rm_applicationHistory read))"

subsection \<open>The source set\<close>

definition read_sources :: "OfficialReceivableSnapshotReadModelV1 \<Rightarrow> CanonicalSourceVersionV1 list" where
  "read_sources read =
     (let includedHistory = filter (\<lambda>entry. ch_status entry = js ''CONFIRMED'') (rm_collectionHistory read) in
      CanonicalSourceVersionV1.truncate (rm_targetCollection read) #
      rm_receivableSources read @
      map CanonicalSourceVersionV1.truncate includedHistory @
      map CanonicalSourceVersionV1.truncate (rm_applicationHistory read))"

definition buildSourceVersionSet ::
  "(jstr \<Rightarrow> jstr) \<Rightarrow> (bytes \<Rightarrow> jstr) \<Rightarrow> OfficialReceivableSnapshotReadModelV1 \<Rightarrow>
   (CanonicalSourceVersionV1 list \<times> jstr) option" where
  "buildSourceVersionSet nfc sha read =
     (let sources = read_sources read in
      if length (rm_receivableSources read) = 0 \<or>
         list_ex (\<lambda>source. \<not> isCanonicalText nfc (sv_sourceReference source) \<or>
           \<not> isCanonicalText nfc (sv_sourceVersion source)) sources
      then None
      else
        (let sorted = sortSourceVersionSet nfc sources in
         case computeSourceVersionSetHash nfc sha sorted of
           Inl _ \<Rightarrow> None
         | Inr hash \<Rightarrow> Some (sorted, hash)))"

subsection \<open>The buckets\<close>

text \<open>A bucket as it is pushed to \<open>built\<close>: the identities beside the input.\<close>

record BuiltBucket =
  bb_input :: OfficialSnapshotBucketInputV1
  bb_bucketContextKey :: jstr
  bb_bucketInstanceId :: jstr

definition producer_preimage ::
  "ProduceOfficialSnapshotCommandV1 \<Rightarrow> OfficialReceivableSnapshotReadModelV1 \<Rightarrow> jstr \<Rightarrow> jstr \<Rightarrow>
   CanonicalBucketInstanceIdentityPreimage" where
  "producer_preimage command read sourceVersionSetHash bucketContextKey =
     \<lparr>pi_identityContractVersion = BUCKET_INSTANCE_IDENTITY_CONTRACT_VERSION,
      pi_tenantId = pc_tenantId command, pi_caseId = pc_caseId command,
      pi_sourceVersionSetHash = sourceVersionSetHash,
      pi_historyBoundaryRef = rm_historyBoundaryRef read,
      pi_snapshotAsOfDate = pc_snapshotAsOfDate command,
      pi_applicationEffectiveDate = pc_applicationEffectiveDate command,
      pi_calculationRuleVersion = rm_calculationRuleVersion read,
      pi_bucketContextKey = bucketContextKey\<rparr>"

definition build_bucket ::
  "(jstr \<Rightarrow> jstr) \<Rightarrow> (bytes \<Rightarrow> jstr) \<Rightarrow> ProduceOfficialSnapshotCommandV1 \<Rightarrow>
   OfficialReceivableSnapshotReadModelV1 \<Rightarrow> jstr \<Rightarrow> jstr list \<Rightarrow> jstr list \<Rightarrow>
   OfficialSnapshotBucketInputV1 \<Rightarrow> OfficialSnapshotProducerErrorCode + BuiltBucket" where
  "build_bucket nfc sha command read sourceVersionSetHash contextKeys instanceIds bucket =
     (if bi_componentType bucket \<notin> set LEGAL_APPLICATION_COMPONENT_TYPES
      then Inl OSP_BUCKET_CONTEXT_UNMAPPED
      else if \<not> isCanonicalText nfc (bi_componentCode bucket) \<or>
              \<not> isCanonicalText nfc (ob_sourceLineageSetRef bucket) \<or>
              \<not> isCanonicalText nfc (bi_legalBasisRef bucket) \<or>
              \<not> isCanonicalText nfc (bi_effectiveContextRef bucket) \<or>
              (case bi_interestRuleRef bucket of None \<Rightarrow> False | Some r \<Rightarrow> \<not> isCanonicalText nfc r) \<or>
              \<not> isCanonicalText nfc (bi_priorityPolicyRef bucket) \<or>
              \<not> isCanonicalText nfc (bi_priorityPolicyVersion bucket) \<or>
              \<not> isCanonicalText nfc (bi_liabilityContextRef bucket) \<or>
              \<not> isPriorityRank (bi_priorityRank bucket)
      then Inl OSP_BUCKET_IDENTITY_INVALID
      else if bi_currency bucket \<noteq> pc_currency command \<or>
              \<not> js_num_eq (bi_minorUnit bucket) (pc_minorUnit command)
      then Inl OSP_CURRENCY_OR_MINOR_UNIT_INVALID
      else if parseMinorAmountText (ob_bucketBalanceMinor bucket) True = None
      then Inl OSP_AMOUNT_OUT_OF_RANGE
      else
        case computeBucketContextKey nfc sha (BucketContextIdentityInput.truncate bucket) of
          Inl _ \<Rightarrow> Inl OSP_BUCKET_IDENTITY_INVALID
        | Inr bucketContextKey \<Rightarrow>
            (case produceBucketInstanceId nfc sha
                    (preimage_object (producer_preimage command read sourceVersionSetHash bucketContextKey)) of
               Inl _ \<Rightarrow> Inl OSP_BUCKET_IDENTITY_INVALID
             | Inr produced \<Rightarrow>
                 if bucketContextKey \<in> set contextKeys then Inl OSP_DUPLICATE_BUCKET_CONTEXT
                 else if bip_value produced \<in> set instanceIds then Inl OSP_BUCKET_IDENTITY_INVALID
                 else Inr \<lparr>bb_input = bucket, bb_bucketContextKey = bucketContextKey,
                           bb_bucketInstanceId = bip_value produced\<rparr>))"

fun build_loop ::
  "(jstr \<Rightarrow> jstr) \<Rightarrow> (bytes \<Rightarrow> jstr) \<Rightarrow> ProduceOfficialSnapshotCommandV1 \<Rightarrow>
   OfficialReceivableSnapshotReadModelV1 \<Rightarrow> jstr \<Rightarrow> jstr list \<Rightarrow> jstr list \<Rightarrow>
   OfficialSnapshotBucketInputV1 list \<Rightarrow> OfficialSnapshotProducerErrorCode + BuiltBucket list" where
  "build_loop nfc sha command read hash contextKeys instanceIds [] = Inr []"
| "build_loop nfc sha command read hash contextKeys instanceIds (bucket # rest) =
     (case build_bucket nfc sha command read hash contextKeys instanceIds bucket of
        Inl e \<Rightarrow> Inl e
      | Inr built \<Rightarrow>
          (case build_loop nfc sha command read hash (bb_bucketContextKey built # contextKeys)
                  (bb_bucketInstanceId built # instanceIds) rest of
             Inl e \<Rightarrow> Inl e
           | Inr bs \<Rightarrow> Inr (built # bs)))"

text \<open>Of a comparison only the sign matters; the ranks compared are integers, so that their
  difference is zero exactly for equal ranks.\<close>

definition compareBuiltBuckets :: "BuiltBucket \<Rightarrow> BuiltBucket \<Rightarrow> int" where
  "compareBuiltBuckets left right =
     (let byType = the (legalApplicationComponentRank (bi_componentType (bb_input left))) -
                   the (legalApplicationComponentRank (bi_componentType (bb_input right)));
          leftRank = bi_priorityRank (bb_input left); rightRank = bi_priorityRank (bb_input right) in
      if byType \<noteq> 0 then byType
      else if \<not> js_num_eq leftRank rightRank then (if js_less leftRank rightRank then -1 else 1)
      else compareUtf8Bytes (bb_bucketContextKey left) (bb_bucketContextKey right))"

definition built_value :: "BuiltBucket \<Rightarrow> jsval" where
  "built_value b =
     (let bucket = bb_input b in
      VObj ([(js ''componentType'', VStr (bi_componentType bucket)),
             (js ''componentCode'', VStr (bi_componentCode bucket)),
             (js ''bucketContextKey'', VStr (bb_bucketContextKey b)),
             (js ''bucketInstanceId'', VStr (bb_bucketInstanceId b)),
             (js ''sourceLineageSetRef'', VStr (ob_sourceLineageSetRef bucket)),
             (js ''legalBasisRef'', VStr (bi_legalBasisRef bucket)),
             (js ''effectivePeriodRef'', VStr (bi_effectiveContextRef bucket))] @
            (case bi_interestRuleRef bucket of
               None \<Rightarrow> [] | Some r \<Rightarrow> [(js ''interestRuleRef'', VStr r)]) @
            [(js ''currency'', VStr (bi_currency bucket)), (js ''minorUnit'', VNum (bi_minorUnit bucket)),
             (js ''priorityRank'', VNum (bi_priorityRank bucket)),
             (js ''bucketBalanceMinor'', VStr (ob_bucketBalanceMinor bucket))]))"

definition buildBuckets ::
  "(jstr \<Rightarrow> jstr) \<Rightarrow> (bytes \<Rightarrow> jstr) \<Rightarrow> ProduceOfficialSnapshotCommandV1 \<Rightarrow>
   OfficialReceivableSnapshotReadModelV1 \<Rightarrow> jstr \<Rightarrow>
   OfficialSnapshotProducerErrorCode + BuiltBucket list" where
  "buildBuckets nfc sha command read sourceVersionSetHash =
     (case build_loop nfc sha command read sourceVersionSetHash [] [] (rm_buckets read) of
        Inl e \<Rightarrow> Inl e
      | Inr built \<Rightarrow> Inr (js_sort compareBuiltBuckets built))"

subsection \<open>The snapshot\<close>

definition produced_source :: "CanonicalSourceVersionV1 \<Rightarrow> jsval" where
  "produced_source s =
     VObj [(js ''sourceReference'', VStr (sv_sourceReference s)),
           (js ''sourceVersion'', VStr (sv_sourceVersion s))]"

definition produced_snapshot ::
  "ProduceOfficialSnapshotCommandV1 \<Rightarrow> OfficialReceivableSnapshotReadModelV1 \<Rightarrow>
   CanonicalSourceVersionV1 list \<Rightarrow> jstr \<Rightarrow> BuiltBucket list \<Rightarrow> jsval" where
  "produced_snapshot command read sources hash buckets =
     VObj [(js ''snapshotContractVersion'', VStr SNAPSHOT_CONTRACT_VERSION),
           (js ''snapshotSerializationVersion'', VStr SNAPSHOT_SERIALIZATION_VERSION),
           (js ''tenantId'', VStr (pc_tenantId command)), (js ''caseId'', VStr (pc_caseId command)),
           (js ''targetCollectionId'', VStr (pc_targetCollectionId command)),
           (js ''currency'', VStr (pc_currency command)), (js ''minorUnit'', VNum (pc_minorUnit command)),
           (js ''receiptAmountMinor'', VStr (pc_receiptAmountMinor command)),
           (js ''snapshotAsOfDate'', VStr (pc_snapshotAsOfDate command)),
           (js ''applicationEffectiveDate'', VStr (pc_applicationEffectiveDate command)),
           (js ''historyBoundaryRef'', VStr (rm_historyBoundaryRef read)),
           (js ''engineVersion'', VStr (rm_engineVersion read)),
           (js ''calculationRuleVersion'', VStr (rm_calculationRuleVersion read)),
           (js ''policyVersion'', VStr (rm_policyVersion read)),
           (js ''rateTableVersion'', VStr (rm_rateTableVersion read)),
           (js ''interpretationProfileId'', VStr (rm_interpretationProfileId read)),
           (js ''bucketIdentityVersion'', VStr BUCKET_INSTANCE_IDENTITY_CONTRACT_VERSION),
           (js ''sourceVersionSet'', VArr (map produced_source sources)),
           (js ''sourceVersionSetHash'', VStr hash),
           (js ''canonicalBuckets'', VArr (map built_value buckets))]"

text \<open>The argument of the validator.\<close>

definition PRODUCER_KEY :: jstr where "PRODUCER_KEY = js ''official-snapshot-producer:v1''"

definition producer_validator_input ::
  "ProduceOfficialSnapshotCommandV1 \<Rightarrow> OfficialReceivableSnapshotReadModelV1 \<Rightarrow> jstr \<Rightarrow> jstr \<Rightarrow> jstr \<Rightarrow> jstr \<Rightarrow>
   jsval" where
  "producer_validator_input command read hash snapshotRef snapshotHash canonicalPayload =
     VObj [(js ''direction'', VStr APPLY),
           (js ''command'', VObj
             [(js ''tenantId'', VStr (pc_tenantId command)), (js ''caseId'', VStr (pc_caseId command)),
              (js ''collectionId'', VStr (pc_targetCollectionId command)),
              (js ''receiptAmountMinor'', VStr (pc_receiptAmountMinor command)),
              (js ''currency'', VStr (pc_currency command)), (js ''minorUnit'', VNum (pc_minorUnit command)),
              (js ''applicationEffectiveDate'', VStr (pc_applicationEffectiveDate command)),
              (js ''expectedSnapshotRef'', VStr snapshotRef),
              (js ''expectedSnapshotHash'', VStr snapshotHash),
              (js ''expectedSourceVersionSetHash'', VStr hash),
              (js ''expectedHistoryBoundaryRef'', VStr (rm_historyBoundaryRef read)),
              (js ''idempotencyKey'', VStr PRODUCER_KEY), (js ''commandHash'', VStr PRODUCER_KEY)]),
           (js ''snapshotEnvelope'', VObj
             [(js ''snapshotRef'', VStr snapshotRef), (js ''snapshotHash'', VStr snapshotHash),
              (js ''canonicalPayload'', VStr canonicalPayload)])]"

definition produceOfficialReceivableSnapshotFromReadModel ::
  "(jstr \<Rightarrow> jstr) \<Rightarrow> (bytes \<Rightarrow> jstr) \<Rightarrow> ProduceOfficialSnapshotCommandV1 \<Rightarrow>
   OfficialReceivableSnapshotReadModelV1 \<Rightarrow> OfficialSnapshotProducerResult" where
  "produceOfficialReceivableSnapshotFromReadModel nfc sha command read =
     (case validateCommand nfc command of
        Some e \<Rightarrow> Inl e
      | None \<Rightarrow>
     (case validateReadModel nfc command read of
        Some e \<Rightarrow> Inl e
      | None \<Rightarrow>
     (case buildSourceVersionSet nfc sha read of
        None \<Rightarrow> Inl OSP_SOURCE_VERSION_INCOMPLETE
      | Some (sources, hash) \<Rightarrow>
     (case buildBuckets nfc sha command read hash of
        Inl e \<Rightarrow> Inl e
      | Inr buckets \<Rightarrow>
          (let canonicalPayload = serializeCanonicalJson (produced_snapshot command read sources hash buckets);
               snapshotHash = computeCanonicalSnapshotHash sha (utf8 canonicalPayload);
               snapshotRef = canonicalSnapshotRefForHash snapshotHash in
           case validateCanonicalSnapshot nfc sha
                  (producer_validator_input command read hash snapshotRef snapshotHash canonicalPayload) of
             Inl _ \<Rightarrow> Inl OSP_SNAPSHOT_SERIALIZATION_INVALID
           | Inr v \<Rightarrow>
               Inr \<lparr>en_snapshotRef = vs_snapshotRef v, en_snapshotHash = vs_snapshotHash v,
                    en_canonicalPayload = vs_canonicalPayload v, en_snapshot = vs_snapshot v\<rparr>)))))"

definition produce ::
  "(jstr \<Rightarrow> jstr) \<Rightarrow> (bytes \<Rightarrow> jstr) \<Rightarrow>
   ('t \<Rightarrow> ProduceOfficialSnapshotCommandV1 \<Rightarrow> unit + OfficialReceivableSnapshotReadModelV1) \<Rightarrow>
   't \<Rightarrow> ProduceOfficialSnapshotCommandV1 \<Rightarrow> OfficialSnapshotProducerResult" where
  "produce nfc sha readSnapshot transaction command =
     (case readSnapshot transaction command of
        Inl _ \<Rightarrow> Inl OSP_SNAPSHOT_UNAVAILABLE
      | Inr read \<Rightarrow> produceOfficialReceivableSnapshotFromReadModel nfc sha command read)"

end
