(* ===== verification/ProducedSnapshot.thy ===== *)
theory ProducedSnapshot
  imports SnapshotProducer
begin

section \<open>What the producer puts into a snapshot\<close>

text \<open>
  The payload of a produced envelope is parsed again by the validator, and the snapshot of the envelope is
  what the validator read. The lemmas follow the facts of the read model through the serialization and
  the parser; the sort of the producer turns out to be the legal order of the allocation.
\<close>

subsection \<open>Sorting the members of an object\<close>

fun canonical_form :: "jsval \<Rightarrow> jsval" where
  "canonical_form (VArr vs) = VArr (map canonical_form vs)"
| "canonical_form (VObj ms) =
     (let forms = map (\<lambda>(k, v). (k, canonical_form v)) ms in
      VObj (map (\<lambda>k. (k, case map_of forms k of Some v \<Rightarrow> v | None \<Rightarrow> VUndef))
              (js_sort compareCanonicalKeys (map fst ms))))"
| "canonical_form v = v"

text \<open>A value whose objects have no member twice, with numbers and texts as in \<open>canonical_json\<close>.\<close>

fun plain_json :: "jsval \<Rightarrow> bool" where
  "plain_json (VArr vs) = list_all plain_json vs"
| "plain_json (VObj ms) =
     (distinct (map fst ms) \<and> list_all wf_jstr (map fst ms) \<and> list_all (\<lambda>(k, v). plain_json v) ms)"
| "plain_json v = canonical_json v"

lemma map_of_forms: "map_of (map (\<lambda>(k, v). (k, f v)) ms) k = map_option f (map_of ms k)"
  by (induction ms) auto

lemma map_of_tabulate: "map_of (map (\<lambda>k. (k, f k)) ks) k = (if k \<in> set ks then Some (f k) else None)"
  by (induction ks) auto

lemma fld_canonical_form:
  obtains ms' where "canonical_form (VObj ms) = VObj ms'"
    "\<And>k. obj_get ms' k = (case map_of ms k of None \<Rightarrow> VUndef | Some v \<Rightarrow> canonical_form v)"
    "map fst ms' = js_sort compareCanonicalKeys (map fst ms)"
    "\<And>k. k \<in> fst ` set ms \<Longrightarrow> map_of ms' k = map_option canonical_form (map_of ms k)"
proof -
  let ?g = "\<lambda>k. case map_of ms k of None \<Rightarrow> VUndef | Some v \<Rightarrow> canonical_form v"
  let ?ms = "map (\<lambda>k. (k, ?g k)) (js_sort compareCanonicalKeys (map fst ms))"
  have g: "(case map_of (map (\<lambda>(k, v). (k, canonical_form v)) ms) k of Some v \<Rightarrow> v | None \<Rightarrow> VUndef) = ?g k" for k
    unfolding map_of_forms by (cases "map_of ms k") simp_all
  have at: "map_of ?ms k = (if map_of ms k \<noteq> None then Some (?g k) else None)" for k
    unfolding map_of_tabulate by (simp add: map_of_eq_None_iff)
  show thesis
  proof (rule that [of ?ms])
    show "canonical_form (VObj ms) = VObj ?ms" unfolding canonical_form.simps Let_def g ..
    show "map fst ?ms = js_sort compareCanonicalKeys (map fst ms)" by (simp add: comp_def)
    show "obj_get ?ms k = ?g k" for k
      unfolding obj_get_def at by (cases "map_of ms k") simp_all
    show "k \<in> fst ` set ms \<Longrightarrow> map_of ?ms k = map_option canonical_form (map_of ms k)" for k
      unfolding at by (cases "map_of ms k") (simp_all add: map_of_eq_None_iff)
  qed
qed

lemma sorted_keys_strict:
  "sorted_wrt (\<lambda>a b. compareCanonicalKeys a b \<le> 0) ks \<Longrightarrow> distinct ks \<Longrightarrow> sorted_wrt js_str_less ks"
  by (induction ks) (auto simp: compareCanonicalKeys_le_0)

lemma canonical_form_object:
  assumes sorted: "sorted_wrt js_str_less (map fst ms')" and len: "length ms' = length ms"
    and at: "list_all (\<lambda>(k, v). map_option canonical_form (map_of ms k) = Some v) ms'"
  shows "canonical_form (VObj ms) = VObj ms'"
proof -
  have d: "distinct (map fst ms')" using sorted by (rule sorted_keys_distinct)
  have sub: "set (map fst ms') \<subseteq> set (map fst ms)"
    using at by (force simp: list_all_iff dest: map_of_SomeD)
  have card: "length ms = card (set (map fst ms'))" using d len by (metis distinct_card length_map)
  have keys: "set (map fst ms') = set (map fst ms)"
    using sub card card_length [of "map fst ms"] by (intro card_seteq) simp_all
  then have "distinct (map fst ms)" using card by (intro card_distinct) simp
  then have "mset (map fst ms) = mset (map fst ms')" using d keys set_eq_iff_mset_eq_distinct by blast
  then have "js_sort compareCanonicalKeys (map fst ms) = js_sort compareCanonicalKeys (map fst ms')"
    by (rule js_sort_keys_perm)
  also have "\<dots> = map fst ms'"
    using sorted by (intro key_order.js_sort_sorted_id sorted_wrt_mono_rel [OF _ sorted])
      (simp_all add: compareCanonicalKeys_le_0)
  finally have sort: "js_sort compareCanonicalKeys (map fst ms) = map fst ms'" .
  have "(k, case map_option canonical_form (map_of ms k) of Some v \<Rightarrow> v | None \<Rightarrow> VUndef) = (k, v)"
    if "(k, v) \<in> set ms'" for k v using at that by (auto simp: list_all_iff)
  then have "map (\<lambda>k. (k, case map_option canonical_form (map_of ms k) of Some v \<Rightarrow> v | None \<Rightarrow> VUndef))
      (map fst ms') = ms'" by (auto simp: comp_def intro!: map_idI)
  then show ?thesis by (simp only: canonical_form.simps Let_def map_of_forms sort)
qed

lemma canonical_form_serialize:
  "plain_json v \<Longrightarrow> canonical_json (canonical_form v) \<and>
     serializeCanonicalJson (canonical_form v) = serializeCanonicalJson v"
proof (induction v)
  case (VArr vs)
  then have "map (\<lambda>v. serializeCanonicalJson (canonical_form v)) vs = map serializeCanonicalJson vs"
    by (auto simp: list_all_iff)
  then have "serializeCanonicalJson (canonical_form (VArr vs)) = serializeCanonicalJson (VArr vs)"
    by (simp only: canonical_form.simps serializeCanonicalJson.simps map_map comp_def)
  with VArr show ?case by (auto simp: list_all_iff)
next
  case (VObj ms)
  have kids: "canonical_json (canonical_form v) \<and>
      serializeCanonicalJson (canonical_form v) = serializeCanonicalJson v" if "(k, v) \<in> set ms" for k v
    using VObj.prems VObj.IH [OF that, of v] that by (auto simp: list_all_iff)
  obtain ms' where ms': "canonical_form (VObj ms) = VObj ms'"
    "map fst ms' = js_sort compareCanonicalKeys (map fst ms)"
    "\<And>k. k \<in> fst ` set ms \<Longrightarrow> map_of ms' k = map_option canonical_form (map_of ms k)"
    using fld_canonical_form [of ms] by metis
  have dist: "distinct (map fst ms)" "distinct (map fst ms')"
    using VObj.prems by (simp_all add: ms'(2) distinct_map_js_sort [of "\<lambda>k. k", simplified])
  have keys: "set (map fst ms') = fst ` set ms" by (simp add: ms'(2))
  have val: "\<exists>v. (k, v) \<in> set ms \<and> v' = canonical_form v" if "(k, v') \<in> set ms'" for k v'
  proof -
    have "k \<in> fst ` set ms" using that keys by force
    moreover have "map_of ms' k = Some v'" using that dist(2) by simp
    ultimately show ?thesis using ms'(3) [of k] by (auto dest: map_of_SomeD)
  qed
  have "sorted_wrt (\<lambda>a b. compareCanonicalKeys a b \<le> 0) (map fst ms')"
    unfolding ms'(2) by (rule key_order.sorted_js_sort) simp
  then have "sorted_wrt js_str_less (map fst ms')"
    using dist(2) by (rule sorted_keys_strict)
  moreover have "list_all wf_jstr (map fst ms')"
    using VObj.prems keys by (auto simp: list_all_iff)
  moreover have "list_all (\<lambda>(k, v). canonical_json v) ms'"
    using val kids by (fastforce simp: list_all_iff)
  moreover have "serializeCanonicalJson (VObj ms') = serializeCanonicalJson (VObj ms)"
  proof -
    let ?text = "\<lambda>ms k. json_quote k @ [58] @
      (case map_of (map (\<lambda>(k, v). (k, serializeCanonicalJson v)) ms) k of Some t \<Rightarrow> t | None \<Rightarrow> [])"
    have ks: "js_sort compareCanonicalKeys (map fst ms') = js_sort compareCanonicalKeys (map fst ms)"
      by (rule js_sort_keys_perm) (simp add: ms'(2))
    have same: "map_option serializeCanonicalJson (map_of ms' k) = map_option serializeCanonicalJson (map_of ms k)"
      if "k \<in> fst ` set ms" for k
      using ms'(3) [OF that] kids by (cases "map_of ms k") (auto dest: map_of_SomeD)
    have "map (?text ms') (js_sort compareCanonicalKeys (map fst ms')) =
        map (?text ms) (js_sort compareCanonicalKeys (map fst ms))"
      unfolding ks by (rule map_cong [OF refl]) (simp add: map_of_forms same)
    then show ?thesis unfolding serializeCanonicalJson.simps Let_def by simp
  qed
  ultimately show ?case by (simp add: ms'(1) del: canonical_form.simps serializeCanonicalJson.simps)
qed auto

text \<open>What the validator parses is the canonical form of what was serialized.\<close>

lemma parsed_serialized:
  assumes "parseStrictJson (serializeCanonicalJson v) = Inr w" "plain_json v"
  shows "w = canonical_form v"
proof -
  have "JSON_parse (serializeCanonicalJson (canonical_form v)) = Some (canonical_form v)"
    using canonical_form_serialize [OF assms(2)] by (intro JSON_parse_serialize) simp
  moreover have "JSON_parse (serializeCanonicalJson v) = Some w"
    using assms(1) by (auto simp: parseStrictJson_def split: option.split_asm if_split_asm prod.split_asm)
  ultimately show ?thesis using canonical_form_serialize [OF assms(2)] by simp
qed

subsection \<open>Successful production\<close>

definition envelope_of :: "ValidatedCanonicalSnapshotV1 \<Rightarrow> CanonicalSnapshotEnvelopeV1" where
  "envelope_of v = \<lparr>en_snapshotRef = vs_snapshotRef v, en_snapshotHash = vs_snapshotHash v,
     en_canonicalPayload = vs_canonicalPayload v, en_snapshot = vs_snapshot v\<rparr>"

text \<open>The validator call of the producer, as a function of what was built.\<close>

definition producer_input ::
  "(bytes \<Rightarrow> jstr) \<Rightarrow> ProduceOfficialSnapshotCommandV1 \<Rightarrow> OfficialReceivableSnapshotReadModelV1 \<Rightarrow>
   CanonicalSourceVersionV1 list \<Rightarrow> jstr \<Rightarrow> BuiltBucket list \<Rightarrow> jsval" where
  "producer_input sha command read sources hash built =
     (let payload = serializeCanonicalJson (produced_snapshot command read sources hash built);
          snapshotHash = computeCanonicalSnapshotHash sha (utf8 payload) in
      producer_validator_input command read hash (canonicalSnapshotRefForHash snapshotHash) snapshotHash payload)"

lemma produced_Inr:
  "produceOfficialReceivableSnapshotFromReadModel nfc sha command read = Inr env \<longleftrightarrow>
     (\<exists>sources hash built v. validateCommand nfc command = None \<and> validateReadModel nfc command read = None \<and>
        buildSourceVersionSet nfc sha read = Some (sources, hash) \<and>
        buildBuckets nfc sha command read hash = Inr built \<and>
        validateCanonicalSnapshot nfc sha (producer_input sha command read sources hash built) = Inr v \<and>
        env = envelope_of v)"
  unfolding produceOfficialReceivableSnapshotFromReadModel_def producer_input_def Let_def envelope_of_def
  by (auto simp: guard_simps split: option.splits sum.splits prod.splits)

text \<open>A bucket on its own, and the loop in terms of it.\<close>

definition built_ok ::
  "(jstr \<Rightarrow> jstr) \<Rightarrow> (bytes \<Rightarrow> jstr) \<Rightarrow> ProduceOfficialSnapshotCommandV1 \<Rightarrow>
   OfficialReceivableSnapshotReadModelV1 \<Rightarrow> jstr \<Rightarrow> BuiltBucket \<Rightarrow> bool" where
  "built_ok nfc sha command read hash b \<longleftrightarrow>
     build_bucket nfc sha command read hash [] [] (bb_input b) = Inr b"

lemma build_bucket_Inr:
  "build_bucket nfc sha command read hash ks is bucket = Inr b \<longleftrightarrow>
     built_ok nfc sha command read hash b \<and> bb_input b = bucket \<and>
     bb_bucketContextKey b \<notin> set ks \<and> bb_bucketInstanceId b \<notin> set is"
  unfolding built_ok_def build_bucket_def by (cases b) (auto simp: guard_simps split: sum.splits option.splits)

lemma build_loop_Inr:
  "build_loop nfc sha command read hash ks is bs = Inr built \<longleftrightarrow>
     map bb_input built = bs \<and> list_all (built_ok nfc sha command read hash) built \<and>
     distinct (map bb_bucketContextKey built) \<and> distinct (map bb_bucketInstanceId built) \<and>
     set (map bb_bucketContextKey built) \<inter> set ks = {} \<and> set (map bb_bucketInstanceId built) \<inter> set is = {}"
proof (induction bs arbitrary: ks "is" built)
  case Nil
  then show ?case by auto
next
  case (Cons b bs)
  show ?case
    by (cases built) (auto simp: guard_simps build_bucket_Inr Cons.IH split: sum.splits)
qed

lemma built_okD:
  assumes "built_ok nfc sha command read hash b" "sha_hex sha"
  shows "bi_componentType (bb_input b) \<in> set LEGAL_APPLICATION_COMPONENT_TYPES"
    and "isPriorityRank (bi_priorityRank (bb_input b))"
    and "bi_currency (bb_input b) = pc_currency command"
    and "js_num_eq (bi_minorUnit (bb_input b)) (pc_minorUnit command)"
    and "parseMinorAmountText (ob_bucketBalanceMinor (bb_input b)) True \<noteq> None"
    and "BUCKET_CONTEXT_KEY (bb_bucketContextKey b)" "BUCKET_INSTANCE_ID (bb_bucketInstanceId b)"
proof -
  note b = assms(1) [unfolded built_ok_def build_bucket_def guard_simps]
  show "bi_componentType (bb_input b) \<in> set LEGAL_APPLICATION_COMPONENT_TYPES"
    "isPriorityRank (bi_priorityRank (bb_input b))" "bi_currency (bb_input b) = pc_currency command"
    "js_num_eq (bi_minorUnit (bb_input b)) (pc_minorUnit command)"
    "parseMinorAmountText (ob_bucketBalanceMinor (bb_input b)) True \<noteq> None"
    using b by (auto split: sum.split_asm)
  obtain p where "computeBucketContextKey nfc sha (BucketContextIdentityInput.truncate (bb_input b)) =
      Inr (bb_bucketContextKey b)"
    "produceBucketInstanceId nfc sha
       (preimage_object (producer_preimage command read hash (bb_bucketContextKey b))) = Inr p"
    "bip_value p = bb_bucketInstanceId b"
    using b by (cases b) (auto split: sum.split_asm)
  then have "\<exists>x. js ''bctx:v1:sha256:'' @ sha x = bb_bucketContextKey b"
    "\<exists>y. js ''binst:v1:sha256:'' @ sha y = bb_bucketInstanceId b"
    by (auto simp: computeBucketContextKey_def domainSeparatedHash_def guard_simps
        produceBucketInstanceId_Inr [OF assms(2)] binst_digest_def split: sum.split_asm)
  then obtain x y where "bb_bucketContextKey b = js ''bctx:v1:sha256:'' @ sha x"
    "bb_bucketInstanceId b = js ''binst:v1:sha256:'' @ sha y" by metis
  then show "BUCKET_CONTEXT_KEY (bb_bucketContextKey b)" "BUCKET_INSTANCE_ID (bb_bucketInstanceId b)"
    using assms(2) by (simp_all add: BUCKET_CONTEXT_KEY_def BUCKET_INSTANCE_ID_def sha_hex_def)
qed

subsection \<open>The facts of a produced snapshot\<close>

definition produced_bucket :: "BuiltBucket \<Rightarrow> CanonicalLegalBucketV1" where
  "produced_bucket b =
     (let bucket = bb_input b in
      \<lparr>bk_componentType = bi_componentType bucket, bk_componentCode = bi_componentCode bucket,
       bk_bucketContextKey = bb_bucketContextKey b, bk_bucketInstanceId = bb_bucketInstanceId b,
       bk_sourceLineageSetRef = ob_sourceLineageSetRef bucket, bk_legalBasisRef = bi_legalBasisRef bucket,
       bk_effectivePeriodRef = bi_effectiveContextRef bucket, bk_interestRuleRef = bi_interestRuleRef bucket,
       bk_currency = bi_currency bucket, bk_minorUnit = bi_minorUnit bucket,
       bk_priorityRank = bi_priorityRank bucket,
       bk_bucketBalanceMinor = int (digits_val (ob_bucketBalanceMinor bucket))\<rparr>)"

definition snapshot_of ::
  "ProduceOfficialSnapshotCommandV1 \<Rightarrow> OfficialReceivableSnapshotReadModelV1 \<Rightarrow>
   CanonicalSourceVersionV1 list \<Rightarrow> jstr \<Rightarrow> BuiltBucket list \<Rightarrow> CanonicalReceivableApplicationSnapshotV1" where
  "snapshot_of command read sources hash built =
     \<lparr>sn_snapshotContractVersion = SNAPSHOT_CONTRACT_VERSION,
      sn_snapshotSerializationVersion = SNAPSHOT_SERIALIZATION_VERSION,
      sn_tenantId = pc_tenantId command, sn_caseId = pc_caseId command,
      sn_targetCollectionId = pc_targetCollectionId command,
      sn_currency = pc_currency command, sn_minorUnit = pc_minorUnit command,
      sn_receiptAmountMinor = int (digits_val (pc_receiptAmountMinor command)),
      sn_snapshotAsOfDate = pc_snapshotAsOfDate command,
      sn_applicationEffectiveDate = pc_applicationEffectiveDate command,
      sn_historyBoundaryRef = rm_historyBoundaryRef read,
      sn_engineVersion = rm_engineVersion read, sn_calculationRuleVersion = rm_calculationRuleVersion read,
      sn_policyVersion = rm_policyVersion read, sn_rateTableVersion = rm_rateTableVersion read,
      sn_interpretationProfileId = rm_interpretationProfileId read,
      sn_bucketIdentityVersion = BUCKET_INSTANCE_IDENTITY_CONTRACT_VERSION,
      sn_sourceVersionSet = sources, sn_sourceVersionSetHash = hash,
      sn_canonicalBuckets = map produced_bucket built\<rparr>"

text \<open>The free texts of a command and a read model are sequences of 16-bit units.\<close>

definition wf_input :: "ProduceOfficialSnapshotCommandV1 \<Rightarrow> OfficialReceivableSnapshotReadModelV1 \<Rightarrow> bool" where
  "wf_input command read \<longleftrightarrow>
     list_all wf_jstr
       [pc_tenantId command, pc_caseId command, pc_targetCollectionId command, rm_historyBoundaryRef read,
        rm_engineVersion read, rm_calculationRuleVersion read, rm_policyVersion read,
        rm_rateTableVersion read, rm_interpretationProfileId read] \<and>
     list_all wf_source (read_sources read) \<and>
     list_all (\<lambda>b. list_all wf_jstr
         [bi_componentCode b, ob_sourceLineageSetRef b, bi_legalBasisRef b, bi_effectiveContextRef b] \<and>
       (case bi_interestRuleRef b of None \<Rightarrow> True | Some r \<Rightarrow> wf_jstr r)) (rm_buckets read)"

lemma wf_ascii: "list_all (\<lambda>u. u < 128) s \<Longrightarrow> wf_jstr s"
  by (auto simp: wf_jstr_def list_all_iff)

lemma wf_hex [simp]: "SHA256_LOWERCASE_HEX s \<Longrightarrow> wf_jstr s"
  using hex_ascii wf_ascii by blast

lemma parseMinorAmountText_Some:
  "parseMinorAmountText s z = Some i \<longleftrightarrow>
     parseMinorAmountAs (VStr s) field = Inr i \<and> (z \<or> i \<noteq> 0) \<and> i = int (digits_val s)"
  by (auto simp: parseMinorAmountText_def parseMinorAmountAs_def parse_failure_def Let_def
      simp del: parseMinorAmountAs_Inr)

lemma wf_amount: "parseMinorAmountText s z \<noteq> None \<Longrightarrow> wf_jstr s"
proof -
  assume "parseMinorAmountText s z \<noteq> None"
  then have "s = js_of_nat (digits_val s)"
    by (auto simp: parseMinorAmountText_Some [where field = "''amount''"] formatMinorAmount_def)
  then show ?thesis by (metis wf_js_of_nat)
qed

lemma isMinorUnit_iff: "isMinorUnit n \<longleftrightarrow> js_nat_upto POSTGRES_INTEGER_MAX n"
  by (simp add: isMinorUnit_def js_nat_upto_def)

lemma canonical_minor_unit: "isMinorUnit n \<Longrightarrow> canonical_json (VNum n)"
  by (auto simp: isMinorUnit_iff js_nat_upto_iff POSTGRES_INTEGER_MAX_def)

lemma isCanonicalDate_iff: "isCanonicalDate nfc s \<longleftrightarrow> isCanonicalText nfc s \<and> date_text s"
proof -
  have "isCanonicalDate nfc s \<longleftrightarrow> isCanonicalText nfc s \<and> parseIsoDateAs (VStr s) ''date'' = Inr s"
  proof (cases "CANONICAL_ISO_DATE s")
    case (Some ymd)
    obtain y m d where "ymd = (y, m, d)" by (cases ymd)
    with Some show ?thesis
      by (simp add: isCanonicalDate_def parseIsoDateAs_def parse_failure_def daysInMonth_def isLeapYear_def
          Let_def not_le)
  qed (simp add: isCanonicalDate_def parseIsoDateAs_def parse_failure_def)
  then show ?thesis by (auto simp: parseIsoDateAs_Inr date_text_def)
qed

lemma buildSourceVersionSet_Some:
  assumes "buildSourceVersionSet nfc sha read = Some (sources, hash)"
  shows "sources = sortSourceVersionSet nfc (read_sources read)"
    and "computeSourceVersionSetHash nfc sha sources = Inr hash"
    and "list_all (\<lambda>s. isCanonicalText nfc (sv_sourceReference s) \<and> isCanonicalText nfc (sv_sourceVersion s))
      (read_sources read)"
    and "rm_receivableSources read \<noteq> []"
    and "sha_hex sha \<Longrightarrow> SHA256_LOWERCASE_HEX hash"
proof -
  show s: "sources = sortSourceVersionSet nfc (read_sources read)"
    and h: "computeSourceVersionSetHash nfc sha sources = Inr hash"
    and "rm_receivableSources read \<noteq> []"
    and "list_all (\<lambda>s. isCanonicalText nfc (sv_sourceReference s) \<and> isCanonicalText nfc (sv_sourceVersion s))
      (read_sources read)"
    using assms by (auto simp: buildSourceVersionSet_def Let_def list_all_iff list_ex_iff
        split: if_split_asm sum.split_asm)
  show "sha_hex sha \<Longrightarrow> SHA256_LOWERCASE_HEX hash"
    using h by (auto simp: computeSourceVersionSetHash_def domainSeparatedHash_def guard_simps sha_hex_def
        split: sum.split_asm if_split_asm)
qed

lemma wf_component: "t \<in> set LEGAL_APPLICATION_COMPONENT_TYPES \<Longrightarrow> wf_jstr t"
  by (auto simp: LEGAL_APPLICATION_COMPONENT_TYPES_def component_code_defs)

lemma plain_built:
  assumes "sha_hex sha" "built_ok nfc sha command read hash b"
    and "isMinorUnit (pc_minorUnit command)" "wf_jstr (pc_currency command)"
    and "list_all wf_jstr [bi_componentCode (bb_input b), ob_sourceLineageSetRef (bb_input b),
      bi_legalBasisRef (bb_input b), bi_effectiveContextRef (bb_input b)]"
    and "case bi_interestRuleRef (bb_input b) of None \<Rightarrow> True | Some r \<Rightarrow> wf_jstr r"
  shows "plain_json (built_value b)"
proof -
  note ok = built_okD [OF assms(2,1)]
  have "wf_jstr (bb_bucketContextKey b)" "wf_jstr (bb_bucketInstanceId b)"
    using ok(6,7) by (auto simp: BUCKET_CONTEXT_KEY_def BUCKET_INSTANCE_ID_def prefixed_pattern_iff)
  moreover have "wf_jstr (bi_componentType (bb_input b))" using ok(1) by (rule wf_component)
  moreover have "canonical_json (VNum (bi_priorityRank (bb_input b)))"
    using ok(2) by (simp add: isPriorityRank_def canonical_minor_unit del: canonical_json.simps)
  moreover have "bi_minorUnit (bb_input b) = pc_minorUnit command"
    using ok(4) assms(3) by (auto simp: isMinorUnit_iff js_nat_upto_iff js_num_eq_def)
  moreover have "wf_jstr (ob_bucketBalanceMinor (bb_input b))" using ok(5) by (rule wf_amount)
  moreover have "canonical_json (VNum (pc_minorUnit command))" using assms(3) by (rule canonical_minor_unit)
  ultimately show ?thesis
    using ok(3) assms(4-6)
    by (cases "bi_interestRuleRef (bb_input b)") (simp_all add: built_value_def Let_def del: canonical_json.simps(3))
qed

lemma validateCommand_None:
  assumes "validateCommand nfc command = None"
  shows "isMinorUnit (pc_minorUnit command)" "pc_currency command \<in> set CANONICAL_CURRENCY_CODES"
    "parseMinorAmountText (pc_receiptAmountMinor command) False \<noteq> None"
    "date_text (pc_snapshotAsOfDate command)" "date_text (pc_applicationEffectiveDate command)"
  using assms by (auto simp: validateCommand_def guard_simps isCanonicalDate_iff)

lemma wf_date: "date_text s \<Longrightarrow> wf_jstr s"
  by (auto simp: date_text_def iso_text_def pad_digits_def wf_jstr_def list_all_iff)

lemma plain_produced:
  assumes "sha_hex sha" "validateCommand nfc command = None"
    and src: "buildSourceVersionSet nfc sha read = Some (sources, hash)"
    and built: "list_all (built_ok nfc sha command read hash) built"
      "set (map bb_input built) \<subseteq> set (rm_buckets read)"
    and wf: "wf_input command read"
  shows "plain_json (produced_snapshot command read sources hash built)"
proof -
  note cmd = validateCommand_None [OF assms(2)]
  have cur: "wf_jstr (pc_currency command)" using cmd(2) by (auto simp: CANONICAL_CURRENCY_CODES_def)
  have "list_all plain_json (map built_value built)"
    using built wf plain_built [OF assms(1) _ cmd(1) cur] by (fastforce simp: list_all_iff wf_input_def)
  moreover have "list_all plain_json (map produced_source sources)"
    using wf buildSourceVersionSet_Some(1) [OF src]
    by (auto simp: wf_input_def list_all_iff produced_source_def wf_source_def)
  moreover have "wf_jstr hash" using buildSourceVersionSet_Some(5) [OF src assms(1)] by simp
  moreover have "wf_jstr (pc_receiptAmountMinor command)" using cmd(3) by (rule wf_amount)
  moreover have "canonical_json (VNum (pc_minorUnit command))" using cmd(1) by (rule canonical_minor_unit)
  ultimately show ?thesis
    using wf cur wf_date [OF cmd(4)] wf_date [OF cmd(5)]
    by (simp add: produced_snapshot_def wf_input_def SNAPSHOT_CONTRACT_VERSION_def
        SNAPSHOT_SERIALIZATION_VERSION_def BUCKET_INSTANCE_IDENTITY_CONTRACT_VERSION_def
        del: canonical_json.simps(3))
qed

lemma fld_of_canonical_form:
  assumes "canonical_form (VObj ms) = VObj ms'"
  shows "obj_get ms' k = (case map_of ms k of None \<Rightarrow> VUndef | Some v \<Rightarrow> canonical_form v)"
  by (rule fld_canonical_form [of ms]) (use assms in simp)

lemma parse_produced_source:
  assumes "parse_sources seen (map (canonical_form \<circ> produced_source) sources) = Some srcs"
  shows "srcs = sources"
  using assms
proof (induction sources arbitrary: seen srcs)
  case (Cons s rest)
  obtain m where m: "canonical_form (produced_source s) = VObj m"
    unfolding produced_source_def by (metis fld_canonical_form)
  have "fld m ''sourceReference'' = VStr (sv_sourceReference s)" "fld m ''sourceVersion'' = VStr (sv_sourceVersion s)"
    unfolding fld_of_canonical_form [OF m [unfolded produced_source_def]] by simp_all
  then show ?case
    using Cons.prems Cons.IH
    by (auto simp: m Let_def split: if_split_asm option.split_asm)
qed simp

lemma digits_of_format: "0 \<le> n \<Longrightarrow> int (digits_val (formatMinorAmount n)) = n"
  by (simp add: formatMinorAmount_def)

lemma parse_produced_bucket:
  assumes "parse_bucket (canonical_form (built_value b)) = Some y"
  shows "y = produced_bucket b"
proof -
  let ?i = "bb_input b"
  obtain m where m: "canonical_form (built_value b) = VObj m"
    unfolding built_value_def Let_def by (metis fld_canonical_form)
  have f: "fld m ''componentType'' = VStr (bi_componentType ?i)" "fld m ''componentCode'' = VStr (bi_componentCode ?i)"
    "fld m ''bucketContextKey'' = VStr (bb_bucketContextKey b)"
    "fld m ''bucketInstanceId'' = VStr (bb_bucketInstanceId b)"
    "fld m ''sourceLineageSetRef'' = VStr (ob_sourceLineageSetRef ?i)"
    "fld m ''legalBasisRef'' = VStr (bi_legalBasisRef ?i)"
    "fld m ''effectivePeriodRef'' = VStr (bi_effectiveContextRef ?i)"
    "fld m ''interestRuleRef'' = (case bi_interestRuleRef ?i of None \<Rightarrow> VUndef | Some r \<Rightarrow> VStr r)"
    "fld m ''currency'' = VStr (bi_currency ?i)" "fld m ''minorUnit'' = VNum (bi_minorUnit ?i)"
    "fld m ''priorityRank'' = VNum (bi_priorityRank ?i)"
    "fld m ''bucketBalanceMinor'' = VStr (ob_bucketBalanceMinor ?i)"
    unfolding fld_of_canonical_form [OF m [unfolded built_value_def Let_def]]
    by (cases "bi_interestRuleRef ?i"; simp)+
  from parse_bucket_Some [OF assms] m
  show ?thesis
    by (cases y; cases "bi_interestRuleRef ?i") (auto simp: f produced_bucket_def Let_def digits_of_format)
qed

text \<open>The snapshot of a produced envelope consists of the facts of the command and the read model.\<close>

lemma validated_produced:
  assumes "validateCanonicalSnapshot nfc sha (producer_input sha command read sources hash built) = Inr v"
    and plain: "plain_json (produced_snapshot command read sources hash built)"
  shows "vs_snapshot v = snapshot_of command read sources hash built"
proof -
  let ?sn = "produced_snapshot command read sources hash built"
  obtain m c e payload raw cmd ev facts vers srcs bks where
    o: "openEnvelope (producer_input sha command read sources hash built) = Inr (m, c, e, payload, raw)" and
    a: "accepts nfc sha m c e payload raw cmd ev facts vers srcs bks" and
    v: "v = validated payload ev facts vers srcs bks"
    using assms(1) unfolding validateCanonicalSnapshot_Inr by blast
  have "payload = serializeCanonicalJson ?sn" and parsed: "parseStrictJson payload = Inr (VObj raw)"
    using o unfolding openEnvelope_Inr producer_input_def Let_def producer_validator_input_def
    by (auto simp: obj_get_def simp del: serializeCanonicalJson.simps)
  then have raw: "canonical_form ?sn = VObj raw" using parsed_serialized [OF _ plain] by simp
  note f = fld_of_canonical_form [OF raw [unfolded produced_snapshot_def]]
  have arr: "fld raw ''sourceVersionSet'' = VArr (map (canonical_form \<circ> produced_source) sources)"
    "fld raw ''canonicalBuckets'' = VArr (map (canonical_form \<circ> built_value) built)"
    unfolding f by simp_all
  have "srcs = sources"
    using a arr(1) by (auto simp: accepts_def parseSourceVersionSet_def split: if_split_asm intro: parse_produced_source)
  moreover have "bks = map produced_bucket built"
  proof -
    have "parse_all parse_bucket (map (canonical_form \<circ> built_value) built) = Some bks"
      using a arr(2) by (simp add: accepts_def parseValidatedBuckets_def)
    then have "list_all2 (\<lambda>b y. parse_bucket (canonical_form (built_value b)) = Some y) built bks"
      by (simp add: parse_all_Some list_all2_map1 comp_def)
    then have "list_all2 (\<lambda>b y. y = produced_bucket b) built bks"
      by (rule list_all2_mono) (rule parse_produced_bucket)
    then show ?thesis by (simp add: list_all2_conv_all_nth list_eq_iff_nth_eq)
  qed
  moreover have "parseSnapshotPrimitiveFacts raw = Some facts" "parseVersionEvidence raw = Some vers"
    using a by (simp_all add: accepts_def)
  ultimately show ?thesis
    unfolding v parseSnapshotPrimitiveFacts_Some parseVersionEvidence_Some f
    by (auto simp: materializeValidatedSnapshot_def snapshot_of_def digits_of_format)
qed

lemma buildBuckets_Inr:
  "buildBuckets nfc sha command read hash = Inr built \<longleftrightarrow>
     (\<exists>bs. map bb_input bs = rm_buckets read \<and> list_all (built_ok nfc sha command read hash) bs \<and>
        distinct (map bb_bucketContextKey bs) \<and> distinct (map bb_bucketInstanceId bs) \<and>
        built = js_sort compareBuiltBuckets bs)"
proof -
  have "buildBuckets nfc sha command read hash = Inr built \<longleftrightarrow>
      (\<exists>bs. build_loop nfc sha command read hash [] [] (rm_buckets read) = Inr bs \<and>
         built = js_sort compareBuiltBuckets bs)"
    by (auto simp: buildBuckets_def split: sum.splits)
  then show ?thesis by (simp add: build_loop_Inr)
qed

subsection \<open>The order of the buckets\<close>

lemma js_insert_map:
  assumes "\<And>y. y \<in> set xs \<Longrightarrow> cmp x y \<le> 0 \<longleftrightarrow> cmp' (f x) (f y) \<le> 0"
  shows "map f (js_insert cmp x xs) = js_insert cmp' (f x) (map f xs)"
  using assms by (induction xs) auto

lemma js_sort_map:
  assumes "\<And>x y. x \<in> set xs \<Longrightarrow> y \<in> set xs \<Longrightarrow> cmp x y \<le> 0 \<longleftrightarrow> cmp' (f x) (f y) \<le> 0"
  shows "map f (js_sort cmp xs) = js_sort cmp' (map f xs)"
  using assms
proof (induction xs)
  case (Cons x xs)
  have "map f (js_insert cmp x (js_sort cmp xs)) = js_insert cmp' (f x) (map f (js_sort cmp xs))"
    by (rule js_insert_map) (use Cons.prems in simp)
  with Cons show ?case by simp
qed simp

lemma compareBuiltBuckets_sign:
  assumes "bi_componentType (bb_input a) \<in> set LEGAL_APPLICATION_COMPONENT_TYPES"
    and "bi_componentType (bb_input b) \<in> set LEGAL_APPLICATION_COMPONENT_TYPES"
  shows "compareBuiltBuckets a b \<le> 0 \<longleftrightarrow>
    compareRankedBuckets (ranked (produced_bucket a)) (ranked (produced_bucket b)) \<le> 0"
    and "compareBuiltBuckets a b = 0 \<longleftrightarrow>
    compareRankedBuckets (ranked (produced_bucket a)) (ranked (produced_bucket b)) = 0"
  by (auto simp: compareBuiltBuckets_def compareRankedBuckets_def Let_def ranked_def produced_bucket_def
      compareUtf8Bytes_def buffer_compare_def compareBucketContextKeysUtf8_def
      compareUnsignedByteSequences_less)

lemma built_ranked_domain:
  assumes "built_ok nfc sha command read hash b" "sha_hex sha"
  shows "ranked (produced_bucket b) \<in> ranked_domain"
  using built_okD(2) [OF assms]
  by (simp add: ranked_domain_def ranked_def produced_bucket_def Let_def isPriorityRank_def isMinorUnit_def)

text \<open>The comparison of the producer is the legal order of the allocation.\<close>

lemma produced_legal_order:
  assumes "sha_hex sha" "list_all (built_ok nfc sha command read hash) bs"
    and "built = js_sort compareBuiltBuckets bs"
  shows "legal_order (snapshot_of command read sources hash built) = map produced_bucket built"
proof -
  have types: "bi_componentType (bb_input b) \<in> set LEGAL_APPLICATION_COMPONENT_TYPES"
    and dom: "ranked (produced_bucket b) \<in> ranked_domain" if "b \<in> set bs" for b
    using assms(1,2) that built_okD(1) built_ranked_domain by (auto simp: list_all_iff)
  have sorted: "map (ranked \<circ> produced_bucket) built = js_sort compareRankedBuckets (map (ranked \<circ> produced_bucket) bs)"
    unfolding assms(3) using compareBuiltBuckets_sign(1) types by (intro js_sort_map) simp
  have "ranked_buckets (snapshot_of command read sources hash built) =
      js_sort compareRankedBuckets (map (ranked \<circ> produced_bucket) built)"
    by (simp add: ranked_buckets_def snapshot_of_def)
  also have "\<dots> = map (ranked \<circ> produced_bucket) built"
    unfolding sorted using dom
    by (intro ranked_order.js_sort_sorted_id ranked_order.sorted_js_sort) auto
  finally show ?thesis by (simp add: legal_order_def comp_def)
qed

definition built_domain :: "BuiltBucket set" where
  "built_domain = {b. bi_componentType (bb_input b) \<in> set LEGAL_APPLICATION_COMPONENT_TYPES \<and>
     ranked (produced_bucket b) \<in> ranked_domain}"

interpretation built_order: consistent_comparator compareBuiltBuckets built_domain
proof
  fix x y z :: BuiltBucket
  let ?r = "\<lambda>b. ranked (produced_bucket b)"
  assume "x \<in> built_domain"
  then have x: "bi_componentType (bb_input x) \<in> set LEGAL_APPLICATION_COMPONENT_TYPES" "?r x \<in> ranked_domain"
    by (simp_all add: built_domain_def)
  show "compareBuiltBuckets x x = 0"
    unfolding compareBuiltBuckets_sign(2) [OF x(1) x(1)] using x(2) by (rule ranked_order.cmp_refl)
  assume "y \<in> built_domain"
  then have y: "bi_componentType (bb_input y) \<in> set LEGAL_APPLICATION_COMPONENT_TYPES" "?r y \<in> ranked_domain"
    by (simp_all add: built_domain_def)
  have "0 \<le> compareBuiltBuckets y x \<longleftrightarrow> 0 \<le> compareRankedBuckets (?r y) (?r x)"
    using compareBuiltBuckets_sign [OF y(1) x(1)] by linarith
  then show "compareBuiltBuckets x y \<le> 0 \<longleftrightarrow> 0 \<le> compareBuiltBuckets y x"
    using compareBuiltBuckets_sign(1) [OF x(1) y(1)] ranked_order.cmp_flip [OF x(2) y(2)] by simp
  assume "z \<in> built_domain"
  then have z: "bi_componentType (bb_input z) \<in> set LEGAL_APPLICATION_COMPONENT_TYPES" "?r z \<in> ranked_domain"
    by (simp_all add: built_domain_def)
  assume "compareBuiltBuckets x y \<le> 0" "compareBuiltBuckets y z \<le> 0"
  then show "compareBuiltBuckets x z \<le> 0"
    using compareBuiltBuckets_sign(1) [OF x(1) y(1)] compareBuiltBuckets_sign(1) [OF y(1) z(1)]
      compareBuiltBuckets_sign(1) [OF x(1) z(1)] ranked_order.cmp_trans [OF x(2) y(2) z(2)] by simp
qed

lemma built_in_domain: "built_ok nfc sha command read hash b \<Longrightarrow> sha_hex sha \<Longrightarrow> b \<in> built_domain"
  using built_okD(1) built_ranked_domain by (simp add: built_domain_def)

lemma sort_built_perm:
  assumes "sha_hex sha" "list_all (built_ok nfc sha command read hash) bs"
    and "distinct (map bb_bucketContextKey bs)" "mset bs = mset cs"
  shows "js_sort compareBuiltBuckets bs = js_sort compareBuiltBuckets cs"
proof (rule built_order.js_sort_perm)
  show "set bs \<subseteq> built_domain" using assms(1,2) built_in_domain by (auto simp: list_all_iff)
  show "a = b" if m: "a \<in> set bs" "b \<in> set bs"
    and c: "compareBuiltBuckets a b \<le> 0" "compareBuiltBuckets b a \<le> 0" for a b
  proof -
    have ok: "built_ok nfc sha command read hash a" "built_ok nfc sha command read hash b"
      using assms(2) m by (simp_all add: list_all_iff)
    have "utf8 (bb_bucketContextKey a) = utf8 (bb_bucketContextKey b)"
      using compareRankedBuckets_antisym [OF built_ranked_domain [OF ok(1) assms(1)]
          built_ranked_domain [OF ok(2) assms(1)]] c
        compareBuiltBuckets_sign(1) [OF built_okD(1) [OF ok(1) assms(1)] built_okD(1) [OF ok(2) assms(1)]]
        compareBuiltBuckets_sign(1) [OF built_okD(1) [OF ok(2) assms(1)] built_okD(1) [OF ok(1) assms(1)]]
      by (simp add: ranked_def) (simp add: produced_bucket_def Let_def)
    then have "bb_bucketContextKey a = bb_bucketContextKey b"
      using built_okD(6) [OF ok(1) assms(1)] built_okD(6) [OF ok(2) assms(1)]
      by (simp add: BUCKET_CONTEXT_KEY_utf8_inj)
    with assms(3) m show "a = b" by (auto simp: distinct_map inj_on_def)
  qed
qed (rule assms(4))

lemma permuted_preimage:
  assumes "mset (map f ys) = mset xs"
  shows "\<exists>zs. mset zs = mset ys \<and> map f zs = xs"
  using assms
proof (induction xs arbitrary: ys)
  case (Cons x xs)
  then have "x \<in> set (map f ys)" by (metis list.set_intros(1) set_mset_mset)
  then obtain y where y: "y \<in> set ys" "f y = x" by auto
  then have "mset (map f (remove1 y ys)) = mset xs"
    using Cons.prems by (simp add: image_mset_Diff)
  from Cons.IH [OF this] obtain zs where "mset zs = mset (remove1 y ys)" "map f zs = xs" by blast
  then show ?case using y by (intro exI [of _ "y # zs"]) simp
qed simp

lemma built_ok_read:
  "rm_historyBoundaryRef read' = rm_historyBoundaryRef read \<Longrightarrow>
   rm_calculationRuleVersion read' = rm_calculationRuleVersion read \<Longrightarrow>
   built_ok nfc sha command read' hash b = built_ok nfc sha command read hash b"
proof -
  assume "rm_historyBoundaryRef read' = rm_historyBoundaryRef read"
    "rm_calculationRuleVersion read' = rm_calculationRuleVersion read"
  then have "producer_preimage command read' hash = producer_preimage command read hash"
    by (intro ext) (simp add: producer_preimage_def)
  then show ?thesis by (simp only: built_ok_def build_bucket_def)
qed

lemma buildBuckets_perm:
  assumes "sha_hex sha" "buildBuckets nfc sha command read hash = Inr built"
    and "mset (rm_buckets read') = mset (rm_buckets read)"
    and "rm_historyBoundaryRef read' = rm_historyBoundaryRef read"
    and "rm_calculationRuleVersion read' = rm_calculationRuleVersion read"
  shows "buildBuckets nfc sha command read' hash = Inr built"
proof -
  obtain bs where bs: "map bb_input bs = rm_buckets read" "list_all (built_ok nfc sha command read hash) bs"
    "distinct (map bb_bucketContextKey bs)" "distinct (map bb_bucketInstanceId bs)"
    "built = js_sort compareBuiltBuckets bs"
    using assms(2) unfolding buildBuckets_Inr by blast
  obtain cs where cs: "mset cs = mset bs" "map bb_input cs = rm_buckets read'"
    using permuted_preimage [of bb_input bs "rm_buckets read'"] assms(3) bs(1) by metis
  have "mset (map bb_bucketContextKey cs) = mset (map bb_bucketContextKey bs)"
    "mset (map bb_bucketInstanceId cs) = mset (map bb_bucketInstanceId bs)"
    using cs(1) by (simp_all only: mset_map)
  then have "distinct (map bb_bucketContextKey cs)" "distinct (map bb_bucketInstanceId cs)"
    using bs(3,4) mset_eq_imp_distinct_iff by blast+
  moreover have "list_all (built_ok nfc sha command read' hash) cs"
    using bs(2) mset_eq_setD [OF cs(1)] by (simp add: list_all_iff built_ok_read [OF assms(4,5)])
  moreover have "js_sort compareBuiltBuckets cs = built"
    using sort_built_perm [OF assms(1) bs(2,3) cs(1) [symmetric]] bs(5) by simp
  ultimately show ?thesis unfolding buildBuckets_Inr using cs(2) by blast
qed

subsection \<open>The order of the read model\<close>

lemma validateReadModel_perm:
  "validateReadModel nfc command (read\<lparr>rm_receivableSources := ss, rm_buckets := bs\<rparr>) =
   validateReadModel nfc command read"
  by (cases read) (simp only: validateReadModel_def OfficialReceivableSnapshotReadModelV1.simps)

lemma buildSource_perm:
  assumes "nfc_well_formed nfc" "list_all wf_source (read_sources read)"
    and "buildSourceVersionSet nfc sha read = Some (sources, hash)"
    and "mset ss = mset (rm_receivableSources read)"
  shows "buildSourceVersionSet nfc sha (read\<lparr>rm_receivableSources := ss, rm_buckets := bs\<rparr>) = Some (sources, hash)"
proof -
  let ?r = "read\<lparr>rm_receivableSources := ss, rm_buckets := bs\<rparr>"
  note src = buildSourceVersionSet_Some [OF assms(3)]
  have perm: "mset (read_sources ?r) = mset (read_sources read)"
    using assms(4) by (simp add: read_sources_def Let_def)
  obtain p where "source_set_payload nfc sources = Inr p"
    using src(2) by (auto simp: computeSourceVersionSetHash_def guard_simps split: if_split_asm)
  then have "source_set_ok nfc (read_sources read)" by (simp add: source_set_payload_Inr src(1))
  then have sort: "sortSourceVersionSet nfc (read_sources ?r) = sources"
    unfolding src(1) using assms(1,2) perm
    by (intro sym [OF sort_sources_perm]) (simp_all add: list_all_iff)
  have "ss \<noteq> []" using src(4) assms(4) by auto
  moreover have "\<not> list_ex (\<lambda>s. \<not> isCanonicalText nfc (sv_sourceReference s) \<or>
      \<not> isCanonicalText nfc (sv_sourceVersion s)) (read_sources ?r)"
    using src(3) mset_eq_setD [OF perm] by (auto simp: list_all_iff list_ex_iff)
  ultimately show ?thesis by (simp add: buildSourceVersionSet_def Let_def sort src(2))
qed

lemma producer_input_perm:
  "producer_input sha command (read\<lparr>rm_receivableSources := ss, rm_buckets := bs\<rparr>) = producer_input sha command read"
  by (intro ext) (simp add: producer_input_def producer_validator_input_def produced_snapshot_def)

subsection \<open>A concrete read model\<close>

definition sample_produce_command :: ProduceOfficialSnapshotCommandV1 where
  "sample_produce_command =
     \<lparr>pc_tenantId = js ''t'', pc_caseId = js ''c'', pc_targetCollectionId = js ''col'',
      pc_receiptAmountMinor = js ''700'', pc_currency = js ''TRY'', pc_minorUnit = js_int 2,
      pc_snapshotAsOfDate = js ''2024-03-01'', pc_applicationEffectiveDate = js ''2024-03-01''\<rparr>"

definition sample_bucket_input :: OfficialSnapshotBucketInputV1 where
  "sample_bucket_input =
     \<lparr>bi_componentType = PRINCIPAL, bi_componentCode = js ''C'', bi_currency = js ''TRY'',
      bi_minorUnit = js_int 2, bi_legalBasisRef = js ''b'', bi_effectiveContextRef = js ''e'',
      bi_interestRuleRef = None, bi_priorityPolicyRef = js ''p'', bi_priorityPolicyVersion = js ''1'',
      bi_priorityRank = js_int 10, bi_liabilityContextRef = js ''l'',
      ob_sourceLineageSetRef = js ''l'', ob_bucketBalanceMinor = js ''1000''\<rparr>"

definition sample_read :: OfficialReceivableSnapshotReadModelV1 where
  "sample_read =
     \<lparr>rm_readContractVersion = OFFICIAL_SNAPSHOT_READ_CONTRACT_VERSION,
      rm_readConsistency = js ''SINGLE_TRANSACTION'', rm_sourceConcurrencySafe = True,
      rm_identityInputProvenance = js ''FINAL_SNAPSHOT_INDEPENDENT'',
      rm_tenantId = js ''t'', rm_caseId = js ''c'', rm_snapshotAsOfDate = js ''2024-03-01'',
      rm_applicationEffectiveDate = js ''2024-03-01'', rm_historyBoundaryRef = js ''h'',
      rm_engineVersion = js ''e'', rm_calculationRuleVersion = js ''r'', rm_policyVersion = js ''p'',
      rm_rateTableVersion = js ''rt'', rm_interpretationProfileId = js ''i'',
      rm_formationContextAvailable = True,
      rm_targetCollection =
        \<lparr>sv_sourceReference = js ''s'', sv_sourceVersion = js ''1'', tc_collectionId = js ''col'',
         tc_tenantId = js ''t'', tc_caseId = js ''c'', tc_status = js ''CONFIRMED'',
         tc_canonicalAdmission = js ''PASSED'', tc_finality = js ''FINAL'',
         tc_receiptAmountMinor = js ''700'', tc_currency = js ''TRY'', tc_minorUnit = js_int 2\<rparr>,
      rm_receivableSources = [sample_receivable], rm_collectionHistory = [], rm_applicationHistory = [],
      rm_buckets = [sample_bucket_input],
      rm_legacyAuthority =
        \<lparr>la_evidenceCompleteness = js ''PROVEN'', la_claimItemCollectedAmount = NON_AUTHORITATIVE,
         la_ledgerAllocation = NON_AUTHORITATIVE, la_collectionAllocation = NON_AUTHORITATIVE\<rparr>\<rparr>"

definition sample_built :: BuiltBucket where
  "sample_built =
     \<lparr>bb_input = sample_bucket_input, bb_bucketContextKey = js ''bctx:v1:sha256:'' @ sample_digest,
      bb_bucketInstanceId = js ''binst:v1:sha256:'' @ sample_digest\<rparr>"

lemma sample_canonical_text [simp]:
  "nonblank s \<Longrightarrow> printable s \<Longrightarrow> isCanonicalText (\<lambda>s. s) s"
  by (simp add: isCanonicalText_def nonblank_def printable_clean)

lemma sample_amount_text [simp]:
  "parseMinorAmountText (js ''700'') z = Some 700" "parseMinorAmountText (js ''1000'') z = Some 1000"
  by (simp_all add: parseMinorAmountText_def unsigned_decimal_integer_def digits_val_def js_eval js_digit_def
      POSTGRES_BIGINT_MAX_def)

lemma sample_date_canonical [simp]: "isCanonicalDate (\<lambda>s. s) (js ''2024-03-01'')"
proof -
  have "nonblank (js ''2024-03-01'')" by (simp add: nonblank_def js_trim_eq_iff js_eval js_whitespace_def)
  then show ?thesis by (simp add: isCanonicalDate_iff)
qed

lemma sample_command_valid: "validateCommand (\<lambda>s. s) sample_produce_command = None"
  by (simp add: validateCommand_def sample_produce_command_def isMinorUnit_iff CANONICAL_CURRENCY_CODES_def)

lemma sample_read_valid: "validateReadModel (\<lambda>s. s) sample_produce_command sample_read = None"
proof -
  have "\<not> js_str_less (js ''2024-03-01'') (js ''2024-03-01'')" "js_num_eq (js_int 2) (js_int 2)"
    by (simp_all add: js_num_eq_def js_int_def)
  then show ?thesis
    by (simp add: validateReadModel_def sample_produce_command_def sample_read_def)
qed

lemma sample_read_sources: "read_sources sample_read = [sample_source, sample_receivable]"
  by (simp add: read_sources_def sample_read_def sample_source_def CanonicalSourceVersionV1.defs)

lemma sample_source_set:
  "buildSourceVersionSet (\<lambda>s. s) sample_sha sample_read = Some ([sample_source, sample_receivable], sample_digest)"
proof -
  have "rm_receivableSources sample_read \<noteq> []" by (simp add: sample_read_def)
  then show ?thesis
    by (simp add: buildSourceVersionSet_def sample_read_sources sample_source_hash)
       (simp add: sample_source_def sample_receivable_def)
qed

lemma sample_bucket_context: "BucketContextIdentityInput.truncate sample_bucket_input = sample_context"
  by (simp add: sample_bucket_input_def sample_context_def BucketContextIdentityInput.defs)

lemma sample_bucket_built:
  "build_bucket (\<lambda>s. s) sample_sha sample_produce_command sample_read sample_digest [] [] sample_bucket_input =
   Inr sample_built"
proof -
  obtain p where p: "bucket_context_payload (\<lambda>s. s) sample_context = Inr p"
    using sample_context_payload by blast
  obtain d where d: "canonicalUtf8 (\<lambda>s. s) BUCKET_CONTEXT_IDENTITY_VERSION (js ''domain'') = Inr d"
    by (auto simp: BUCKET_CONTEXT_IDENTITY_VERSION_def identity_eval)
  have key: "computeBucketContextKey (\<lambda>s. s) sample_sha (BucketContextIdentityInput.truncate sample_bucket_input) =
      Inr (js ''bctx:v1:sha256:'' @ sample_digest)"
    by (simp add: sample_bucket_context computeBucketContextKey_def domainSeparatedHash_def p d)
  have pre: "producer_preimage sample_produce_command sample_read sample_digest k =
      bucket_preimage sample_facts_raw (js ''r'') k" for k
    by (simp add: producer_preimage_def bucket_preimage_def sample_produce_command_def sample_read_def
        sample_facts_raw_def)
  obtain r where r: "produceBucketInstanceId (\<lambda>s. s) sample_sha (preimage_object
        (bucket_preimage sample_facts_raw (js ''r'') (js ''bctx:v1:sha256:'' @ sample_digest))) = Inr r"
    "bip_value r = js ''binst:v1:sha256:'' @ sample_digest"
    using sample_instance by (auto simp: validateBucketInstanceId_Inr)
  have rank: "isPriorityRank (Fin 10)"
    unfolding isPriorityRank_def isMinorUnit_iff js_nat_upto_iff
    by (rule exI [of _ 10]) (simp add: js_int_def POSTGRES_INTEGER_MAX_def)
  show ?thesis
    by (simp add: build_bucket_def key pre r)
       (simp add: sample_bucket_input_def sample_built_def sample_produce_command_def js_num_eq_def js_int_def
        LEGAL_APPLICATION_COMPONENT_TYPES_def isMinorUnit_iff rank)
qed

lemma sample_buckets_built:
  "buildBuckets (\<lambda>s. s) sample_sha sample_produce_command sample_read sample_digest = Inr [sample_built]"
proof -
  have "rm_buckets sample_read = [sample_bucket_input]" by (simp add: sample_read_def)
  then show ?thesis by (simp add: buildBuckets_def sample_bucket_built)
qed

lemma sample_wf_input: "wf_input sample_produce_command sample_read"
  by (simp add: wf_input_def sample_read_sources)
     (simp add: sample_produce_command_def sample_read_def sample_source_def sample_receivable_def
      wf_source_def sample_bucket_input_def)

text \<open>The produced payload is the sample payload.\<close>

lemma sample_produced_payload:
  "serializeCanonicalJson (produced_snapshot sample_produce_command sample_read
     [sample_source, sample_receivable] sample_digest [sample_built]) = sample_payload"
proof -
  let ?sn = "produced_snapshot sample_produce_command sample_read [sample_source, sample_receivable] sample_digest
    [sample_built]"
  obtain ms where ms: "?sn = VObj ms" by (simp add: produced_snapshot_def)
  have "list_all (built_ok (\<lambda>s. s) sample_sha sample_produce_command sample_read sample_digest) [sample_built]"
    using sample_bucket_built by (simp add: built_ok_def sample_built_def)
  moreover have "set (map bb_input [sample_built]) \<subseteq> set (rm_buckets sample_read)"
    by (simp add: sample_built_def sample_read_def)
  ultimately have plain: "plain_json ?sn"
    by (rule plain_produced [OF sample_sha_hex sample_command_valid sample_source_set _ _ sample_wf_input])
  have bucket: "canonical_form (built_value sample_built) = VObj sample_raw_bucket"
    unfolding built_value_def Let_def
    by (rule canonical_form_object)
       (simp_all add: sample_raw_bucket_def sample_built_def sample_bucket_input_def js_eval)
  have sources: "canonical_form (produced_source sample_source) = VObj sample_raw_source"
    "canonical_form (produced_source sample_receivable) = VObj sample_raw_receivable"
    unfolding produced_source_def
    by (rule canonical_form_object; simp add: sample_raw_source_def sample_raw_receivable_def sample_source_def
        sample_receivable_def js_eval)+
  have "canonical_form ?sn = VObj sample_raw"
    unfolding produced_snapshot_def
    by (rule canonical_form_object)
       (simp_all add: sample_raw_def js_eval bucket sources sample_produce_command_def sample_read_def
         BUCKET_INSTANCE_IDENTITY_CONTRACT_VERSION_def)
  with canonical_form_serialize [OF plain] show ?thesis by (simp add: sample_payload_def del: serializeCanonicalJson.simps)
qed

lemma sample_produces:
  "produceOfficialReceivableSnapshotFromReadModel (\<lambda>s. s) sample_sha sample_produce_command sample_read =
   Inr (envelope_of sample_accepted)"
proof -
  let ?in = "producer_input sample_sha sample_produce_command sample_read [sample_source, sample_receivable]
    sample_digest [sample_built]"
  have hash: "computeCanonicalSnapshotHash sample_sha b = sample_digest" for b
    by (simp add: computeCanonicalSnapshotHash_def)
  have input: "?in = producer_validator_input sample_produce_command sample_read sample_digest
      (canonicalSnapshotRefForHash sample_digest) sample_digest sample_payload"
    by (simp add: producer_input_def Let_def hash sample_produced_payload del: serializeCanonicalJson.simps)
  obtain m where m: "?in = VObj m" by (simp add: input producer_validator_input_def)
  note m' = m [unfolded input producer_validator_input_def, symmetric]
  have env: "fld m ''snapshotEnvelope'' = VObj sample_envelope" "fld m ''direction'' = VStr APPLY"
    using m' by (simp_all add: obj_get_def js_eval sample_envelope_def del: serializeCanonicalJson.simps)
  obtain c where c: "fld m ''command'' = VObj c"
    using m' by (simp add: obj_get_def js_eval)
  have c': "c = [(js ''tenantId'', VStr (js ''t'')), (js ''caseId'', VStr (js ''c'')),
      (js ''collectionId'', VStr (js ''col'')), (js ''receiptAmountMinor'', VStr (js ''700'')),
      (js ''currency'', VStr (js ''TRY'')), (js ''minorUnit'', VNum (js_int 2)),
      (js ''applicationEffectiveDate'', VStr (js ''2024-03-01'')),
      (js ''expectedSnapshotRef'', VStr (canonicalSnapshotRefForHash sample_digest)),
      (js ''expectedSnapshotHash'', VStr sample_digest),
      (js ''expectedSourceVersionSetHash'', VStr sample_digest),
      (js ''expectedHistoryBoundaryRef'', VStr (js ''h'')),
      (js ''idempotencyKey'', VStr PRODUCER_KEY), (js ''commandHash'', VStr PRODUCER_KEY)]"
    using m' c by (simp add: obj_get_def js_eval sample_produce_command_def sample_read_def)
  have same: "fld c f = fld sample_command f" if "f \<noteq> ''idempotencyKey''" "f \<noteq> ''commandHash''" for f
    using that by (simp add: c' sample_command_def obj_get_def)
  have keys: "fld c ''idempotencyKey'' = VStr PRODUCER_KEY" "fld c ''commandHash'' = VStr PRODUCER_KEY"
    by (simp_all add: c' obj_get_def js_eval)
  have "nonblank PRODUCER_KEY" "printable PRODUCER_KEY"
    by (simp_all add: PRODUCER_KEY_def nonblank_def js_trim_eq_iff js_eval js_whitespace_def printable_def)
  then have key: "key_text (\<lambda>s. s) PRODUCER_KEY" by (simp add: key_text_def printable_clean)
  have short: "codePointCount PRODUCER_KEY \<le> MAX_CONTEXT_IDENTIFIER_CODE_POINTS"
    using code_points_length [of PRODUCER_KEY]
    by (simp add: codePointCount_def PRODUCER_KEY_def MAX_CONTEXT_IDENTIFIER_CODE_POINTS_def)
  have acc: "accepts (\<lambda>s. s) sample_sha m c sample_envelope sample_payload sample_raw
      (sample_parsed_command\<lparr>cm_idempotencyKey := PRODUCER_KEY, cm_commandHash := PRODUCER_KEY\<rparr>)
      sample_evidence sample_facts_raw sample_versions [sample_source, sample_receivable] [sample_parsed_bucket]"
    using accepts_other_keys [OF sample_accepts same keys key key short refl] env(2)
    by (simp add: accepts_def)
  have "openEnvelope ?in = Inr (m, c, sample_envelope, sample_payload, sample_raw)"
    using sample_opens unfolding openEnvelope_Inr by (simp add: m c env)
  with acc have "validateCanonicalSnapshot (\<lambda>s. s) sample_sha ?in = Inr sample_accepted"
    unfolding validateCanonicalSnapshot_Inr sample_accepted_def by blast
  then show ?thesis
    unfolding produced_Inr using sample_command_valid sample_read_valid sample_source_set sample_buckets_built by blast
qed

subsection \<open>Properties\<close>

lemma produced_parts:
  assumes "sha_hex sha" "wf_input command read"
    and "produceOfficialReceivableSnapshotFromReadModel nfc sha command read = Inr env"
  obtains sources hash bs built where "buildSourceVersionSet nfc sha read = Some (sources, hash)"
    "map bb_input bs = rm_buckets read" "list_all (built_ok nfc sha command read hash) bs"
    "built = js_sort compareBuiltBuckets bs" "buildBuckets nfc sha command read hash = Inr built"
    "en_snapshot env = snapshot_of command read sources hash built"
proof -
  obtain sources hash built v where r: "validateCommand nfc command = None"
    "buildSourceVersionSet nfc sha read = Some (sources, hash)" "buildBuckets nfc sha command read hash = Inr built"
    "validateCanonicalSnapshot nfc sha (producer_input sha command read sources hash built) = Inr v"
    "env = envelope_of v"
    using assms(3) unfolding produced_Inr by blast
  obtain bs where bs: "map bb_input bs = rm_buckets read" "list_all (built_ok nfc sha command read hash) bs"
    "built = js_sort compareBuiltBuckets bs"
    using r(3) unfolding buildBuckets_Inr by blast
  have set: "set built = set bs" using mset_js_sort [of compareBuiltBuckets bs] bs(3) by (metis set_mset_mset)
  have "plain_json (produced_snapshot command read sources hash built)"
  proof (rule plain_produced [OF assms(1) r(1,2) _ _ assms(2)])
    show "list_all (built_ok nfc sha command read hash) built" using bs(2) by (simp add: list_all_iff set)
    show "set (map bb_input built) \<subseteq> set (rm_buckets read)" by (simp add: set flip: bs(1))
  qed
  from validated_produced [OF r(4) this] r(5)
  have "en_snapshot env = snapshot_of command read sources hash built" by (simp add: envelope_of_def)
  with r(2,3) bs show thesis by (intro that) auto
qed

text \<open>a produced envelope holds exactly the snapshot that the command, the read model, the sorted
  source versions with their hash and the built buckets describe: writing the payload, parsing it
  again and validating it loses and changes nothing, and the buckets are those of the read model.\<close>

theorem produced_snapshot_contents:
  assumes "sha_hex sha" "wf_input command read"
    and "produceOfficialReceivableSnapshotFromReadModel nfc sha command read = Inr env"
  shows "\<exists>sources hash built. buildSourceVersionSet nfc sha read = Some (sources, hash) \<and>
    buildBuckets nfc sha command read hash = Inr built \<and>
    mset (map bb_input built) = mset (rm_buckets read) \<and>
    en_snapshot env = snapshot_of command read sources hash built"
proof -
  obtain sources hash bs built where r: "buildSourceVersionSet nfc sha read = Some (sources, hash)"
    "map bb_input bs = rm_buckets read" "built = js_sort compareBuiltBuckets bs"
    "buildBuckets nfc sha command read hash = Inr built"
    "en_snapshot env = snapshot_of command read sources hash built"
    by (rule produced_parts [OF assms])
  have "mset (map bb_input built) = mset (rm_buckets read)"
    by (simp add: r(3) mset_js_sort flip: r(2))
  with r(1,4,5) show ?thesis by blast
qed

lemma produced_snapshot_contents_witness:
  "\<exists>sources hash built. buildSourceVersionSet (\<lambda>s. s) sample_sha sample_read = Some (sources, hash) \<and>
    buildBuckets (\<lambda>s. s) sample_sha sample_produce_command sample_read hash = Inr built \<and>
    mset (map bb_input built) = mset (rm_buckets sample_read) \<and>
    en_snapshot (envelope_of sample_accepted) = snapshot_of sample_produce_command sample_read sources hash built"
  by (rule produced_snapshot_contents [OF sample_sha_hex sample_wf_input sample_produces])

text \<open>the buckets of a produced snapshot stand in the legal order of the allocation: the producer's
  comparator, which compares the UTF-8 bytes of the instance ids, and the allocator's comparator, which
  compares the ranks and then the ids, sort the same way, so an allocation over the produced snapshot walks
  the buckets as they are stored.\<close>

theorem produced_in_legal_order:
  assumes "sha_hex sha" "wf_input command read"
    and "produceOfficialReceivableSnapshotFromReadModel nfc sha command read = Inr env"
  shows "legal_order (en_snapshot env) = sn_canonicalBuckets (en_snapshot env)"
proof -
  obtain sources hash bs built where r: "list_all (built_ok nfc sha command read hash) bs"
    "built = js_sort compareBuiltBuckets bs" "en_snapshot env = snapshot_of command read sources hash built"
    by (rule produced_parts [OF assms])
  from produced_legal_order [OF assms(1) r(1,2)] show ?thesis by (simp add: r(3)) (simp add: snapshot_of_def)
qed

lemma produced_in_legal_order_witness:
  "legal_order (en_snapshot (envelope_of sample_accepted)) =
   sn_canonicalBuckets (en_snapshot (envelope_of sample_accepted))"
  by (rule produced_in_legal_order [OF sample_sha_hex sample_wf_input sample_produces])

text \<open>the envelope does not depend on the order in which the read model lists its receivable sources
  and its buckets: every permutation of the two lists gives the same snapshot, the same hash and the same
  reference.\<close>

theorem produced_order_independent:
  assumes "sha_hex sha" "nfc_well_formed nfc" "wf_input command read"
    and "mset ss = mset (rm_receivableSources read)" "mset bs = mset (rm_buckets read)"
    and "produceOfficialReceivableSnapshotFromReadModel nfc sha command read = Inr env"
  shows "produceOfficialReceivableSnapshotFromReadModel nfc sha command
    (read\<lparr>rm_receivableSources := ss, rm_buckets := bs\<rparr>) = Inr env"
proof -
  let ?r = "read\<lparr>rm_receivableSources := ss, rm_buckets := bs\<rparr>"
  obtain sources hash built v where r: "validateCommand nfc command = None" "validateReadModel nfc command read = None"
    "buildSourceVersionSet nfc sha read = Some (sources, hash)" "buildBuckets nfc sha command read hash = Inr built"
    "validateCanonicalSnapshot nfc sha (producer_input sha command read sources hash built) = Inr v"
    "env = envelope_of v"
    using assms(6) unfolding produced_Inr by blast
  have "list_all wf_source (read_sources read)" using assms(3) by (simp add: wf_input_def)
  from buildSource_perm [OF assms(2) this r(3) assms(4)]
  have "buildSourceVersionSet nfc sha ?r = Some (sources, hash)" .
  moreover have "buildBuckets nfc sha command ?r hash = Inr built"
    by (rule buildBuckets_perm [OF assms(1) r(4)]) (simp_all add: assms(5))
  ultimately show ?thesis
    unfolding produced_Inr validateReadModel_perm producer_input_perm using r(1,2,5,6) by blast
qed

lemma produced_order_independent_witness:
  "produceOfficialReceivableSnapshotFromReadModel (\<lambda>s. s) sample_sha sample_produce_command
    (sample_read\<lparr>rm_receivableSources := [sample_receivable], rm_buckets := [sample_bucket_input]\<rparr>) =
   Inr (envelope_of sample_accepted)"
  by (rule produced_order_independent [OF sample_sha_hex _ sample_wf_input _ _ sample_produces])
     (simp_all add: nfc_well_formed_def sample_read_def)

end
