(* ===== verification/JournalTypes.thy ===== *)
theory JournalTypes
  imports StrictJson
begin

section \<open>The data of the accounting journal (accounting-journal.types.ts)\<close>

text \<open>
  A business event (a \<open>JournalSource\<close>) is turned into the draft of a journal entry by the builder,
  the draft is checked by the validators and stored by the writer. The unions of string literals are
  texts, since the code compares them at run time; \<open>string | null\<close> is \<open>jstr option\<close>; a record of
  metadata is an object of \<open>jsval\<close>. In the union \<open>JournalSource\<close> the constructor stands for the
  discriminant \<open>sourceType\<close>, and in the union of the two sources of a journal entry for the
  discriminant \<open>sourceAction\<close>, which the other sources keep as a field.
\<close>

type_synonym JournalMetadata = jsobj
type_synonym MoneyAmount = jstr

subsection \<open>Sources\<close>

record 'p JournalSourceBase =
  so_tenantId :: jstr
  so_sourceId :: jstr
  so_sourceVersion :: jstr
  so_sourceAction :: jstr
  so_occurredAt :: jstr
  so_effectiveDate :: jstr
  so_actorId :: "jstr option"
  so_currency :: jstr
  so_sourceHash :: "jstr option"
  so_metadata :: JournalMetadata
  so_payload :: 'p

record ClientOffsetPayableLeg =
  opl_caseId :: jstr
  opl_caseClientId :: jstr

record ClientOffsetExpenseLeg =
  oel_caseId :: jstr
  oel_expenseRequestId :: "jstr option"

record ClientOffsetJournalSourcePayload =
  cop_kind :: jstr
  cop_amount :: MoneyAmount
  cop_clientId :: jstr
  cop_payableLeg :: ClientOffsetPayableLeg
  cop_expenseLeg :: ClientOffsetExpenseLeg
  cop_reversesOffsetId :: "jstr option"

record CollectionCashJournalSourcePayload =
  ccp_kind :: jstr
  ccp_amount :: MoneyAmount
  ccp_caseId :: jstr
  ccp_collectionId :: jstr
  ccp_collectionStatus :: jstr
  ccp_debtorId :: "jstr option"
  ccp_originalRecordedSourceVersion :: "jstr option"

record CollectionDispositionLinePostedPayload =
  cdp_lineType :: jstr
  cdp_amount :: MoneyAmount
  cdp_caseId :: jstr
  cdp_caseClientId :: "jstr option"
  cdp_clientId :: "jstr option"
  cdp_collectionId :: jstr
  cdp_dispositionLineId :: jstr
  cdp_creditAccountCode :: jstr
  cdp_manualReversalRequiredAt :: "jstr option"

record ClientPayoutRecordedPayload =
  cpp_amount :: MoneyAmount
  cpp_caseId :: jstr
  cpp_caseClientId :: jstr
  cpp_clientId :: "jstr option"
  cpp_payoutId :: jstr

record BalanceLedgerRecordedPayload =
  blp_amount :: MoneyAmount
  blp_caseId :: jstr
  blp_balanceLedgerId :: jstr
  blp_ledgerType :: jstr
  blp_source :: jstr
  blp_sourceId :: "jstr option"
  blp_isIncrease :: bool

record ExpenseRequestCancelGuard =
  cg_hasExpensePayments :: bool
  cg_hasClientOffsets :: bool
  cg_hasReimbursementApplications :: bool

record ExpenseRequestJournalSourcePayload =
  erp_kind :: jstr
  erp_amount :: MoneyAmount
  erp_caseId :: jstr
  erp_clientId :: jstr
  erp_expenseRequestId :: jstr
  erp_cancelGuard :: "ExpenseRequestCancelGuard option"

record ExpensePaymentRecordedPayload =
  epp_amount :: MoneyAmount
  epp_caseId :: jstr
  epp_clientId :: jstr
  epp_expenseRequestId :: jstr
  epp_expensePaymentId :: jstr
  epp_paymentMethod :: "jstr option"
  epp_reference :: "jstr option"

record CollectionDispositionExpenseApplicationPayload =
  eap_kind :: jstr
  eap_amount :: MoneyAmount
  eap_caseId :: jstr
  eap_clientId :: jstr
  eap_expenseRequestId :: jstr
  eap_expenseApplicationId :: jstr
  eap_collectionId :: "jstr option"
  eap_collectionDispositionId :: jstr
  eap_collectionDispositionLineId :: jstr
  eap_reimbursementScope :: jstr
  eap_reversesApplicationId :: "jstr option"

text \<open>The dimensions that the lines of a journal may carry.\<close>

record AccountingJournalReversalLinePayload =
  rl_lineNo :: jsnum
  rl_accountCode :: jstr
  rl_direction :: jstr
  rl_amount :: MoneyAmount
  rl_currency :: jstr
  rl_caseId :: "jstr option"
  rl_clientId :: "jstr option"
  rl_caseClientId :: "jstr option"
  rl_collectionId :: "jstr option"
  rl_dispositionLineId :: "jstr option"
  rl_payoutId :: "jstr option"
  rl_offsetId :: "jstr option"
  rl_expenseRequestId :: "jstr option"
  rl_expensePaymentId :: "jstr option"
  rl_expenseApplicationId :: "jstr option"
  rl_balanceLedgerId :: "jstr option"

record AccountingJournalReversalPayload =
  rp_originalJournalEntryId :: jstr
  rp_originalEntryType :: jstr
  rp_originalCaseId :: "jstr option"
  rp_originalCurrency :: jstr
  rp_originalSourceType :: jstr
  rp_originalSourceId :: jstr
  rp_originalSourceAction :: jstr
  rp_originalSourceVersion :: "jstr option"
  rp_originalLines :: "AccountingJournalReversalLinePayload list"

record ManualAdjustmentJournalLinePayload =
  ml_accountCode :: jstr
  ml_direction :: jstr
  ml_amount :: MoneyAmount
  ml_caseId :: "jstr option"
  ml_clientId :: "jstr option"
  ml_caseClientId :: "jstr option"

record ManualAdjustmentJournalPayload =
  mp_amount :: MoneyAmount
  mp_reason :: jstr
  mp_evidenceRef :: "jstr option"
  mp_lines :: "ManualAdjustmentJournalLinePayload list"

type_synonym ClientOffsetJournalSource = "ClientOffsetJournalSourcePayload JournalSourceBase"
type_synonym CollectionJournalSource = "CollectionCashJournalSourcePayload JournalSourceBase"
type_synonym CollectionDispositionLineJournalSource =
  "CollectionDispositionLinePostedPayload JournalSourceBase"
type_synonym ClientPayoutJournalSource = "ClientPayoutRecordedPayload JournalSourceBase"
type_synonym BalanceLedgerJournalSource = "BalanceLedgerRecordedPayload JournalSourceBase"
type_synonym ExpenseRequestJournalSource = "ExpenseRequestJournalSourcePayload JournalSourceBase"
type_synonym ExpensePaymentJournalSource = "ExpensePaymentRecordedPayload JournalSourceBase"
type_synonym CollectionDispositionExpenseApplicationJournalSource =
  "CollectionDispositionExpenseApplicationPayload JournalSourceBase"
type_synonym AccountingJournalReversalSource = "AccountingJournalReversalPayload JournalSourceBase"
type_synonym ManualAdjustmentJournalSource = "ManualAdjustmentJournalPayload JournalSourceBase"

datatype AccountingJournalEntrySource =
    ReversalSource AccountingJournalReversalSource
  | ManualAdjustmentSource ManualAdjustmentJournalSource

datatype JournalSource =
    CollectionSource CollectionJournalSource
  | ClientOffsetSource ClientOffsetJournalSource
  | CollectionDispositionLineSource CollectionDispositionLineJournalSource
  | ClientPayoutSource ClientPayoutJournalSource
  | BalanceLedgerSource BalanceLedgerJournalSource
  | ExpenseRequestSource ExpenseRequestJournalSource
  | ExpensePaymentSource ExpensePaymentJournalSource
  | ExpenseApplicationSource CollectionDispositionExpenseApplicationJournalSource
  | JournalEntrySource AccountingJournalEntrySource

subsection \<open>Drafts\<close>

record JournalIdempotencyMaterial =
  im_tenantId :: jstr
  im_sourceType :: jstr
  im_sourceId :: jstr
  im_sourceAction :: jstr
  im_sourceVersion :: jstr

record JournalReversalReference =
  rv_sourceType :: jstr
  rv_sourceId :: jstr
  rv_sourceAction :: jstr
  rv_sourceVersion :: "jstr option"
  rv_journalEntryId :: "jstr option"

record JournalLineDraft =
  ln_lineNo :: jsnum
  ln_tenantId :: jstr
  ln_accountCode :: jstr
  ln_direction :: jstr
  ln_amount :: MoneyAmount
  ln_currency :: jstr
  ln_caseId :: "jstr option"
  ln_clientId :: "jstr option"
  ln_caseClientId :: "jstr option"
  ln_collectionId :: "jstr option"
  ln_dispositionLineId :: "jstr option"
  ln_payoutId :: "jstr option"
  ln_offsetId :: "jstr option"
  ln_expenseRequestId :: "jstr option"
  ln_expensePaymentId :: "jstr option"
  ln_expenseApplicationId :: "jstr option"
  ln_balanceLedgerId :: "jstr option"

text \<open>The member \<open>description\<close>, whose only value is \<open>null\<close>, is left out.\<close>

record JournalEntryDraft =
  je_tenantId :: jstr
  je_caseId :: "jstr option"
  je_currency :: jstr
  je_entryType :: jstr
  je_sourceType :: jstr
  je_sourceId :: jstr
  je_sourceAction :: jstr
  je_sourceVersion :: jstr
  je_idempotencyKey :: jstr
  je_idempotencyMaterial :: JournalIdempotencyMaterial
  je_sourceHash :: "jstr option"
  je_sourceOccurredAt :: jstr
  je_effectiveDate :: jstr
  je_postedById :: "jstr option"
  je_metadata :: JournalMetadata
  je_reversalOf :: "JournalReversalReference option"
  je_lines :: "JournalLineDraft list"

subsection \<open>Errors\<close>

datatype JournalBuildErrorCode =
    UNSUPPORTED_SOURCE_TYPE
  | UNSUPPORTED_SOURCE_ACTION
  | INVALID_SOURCE_PAYLOAD
  | INVALID_IDEMPOTENCY_MATERIAL
  | UNMAPPED_SOURCE

record JournalBuildError =
  be_code :: JournalBuildErrorCode
  be_message :: jstr
  be_path :: "jstr option"
  be_details :: JournalMetadata

type_synonym JournalBuildResult = "JournalBuildError list + JournalEntryDraft"

datatype JournalValidationErrorCode =
    MISSING_REQUIRED_FIELD
  | INVALID_AMOUNT
  | INVALID_AMOUNT_PRECISION
  | UNBALANCED_ENTRY
  | CURRENCY_MISMATCH
  | TENANT_MISMATCH
  | DUPLICATE_LINE_NO
  | MISSING_REQUIRED_DIMENSION
  | FORBIDDEN_SYNTHETIC_DIMENSION
  | UNSUPPORTED_BUSINESS_RULE
  | INVALID_SOURCE_ACTION
  | INVALID_ACCOUNT_DIRECTION
  | INVALID_LINE_SHAPE

record JournalValidationError =
  ve_code :: JournalValidationErrorCode
  ve_message :: jstr
  ve_path :: "jstr option"
  ve_details :: JournalMetadata

text \<open>The draft that passed both validations; its member \<open>validation\<close> is constant.\<close>

record ValidatedJournalEntryDraft = JournalEntryDraft +
  jv_structural :: bool
  jv_business :: bool

subsection \<open>Values of the language\<close>

text \<open>Truth of a text or null, text or null as a value, and the spread of an object.\<close>

definition truthy :: "jstr option \<Rightarrow> bool" where
  "truthy o1 \<longleftrightarrow> (case o1 of None \<Rightarrow> False | Some s \<Rightarrow> s \<noteq> [])"

lemma truthy_simps [simp]: "truthy None = False" "truthy (Some s) \<longleftrightarrow> s \<noteq> []"
  by (simp_all add: truthy_def)

definition or_null :: "jstr option \<Rightarrow> jsval" where
  "or_null o1 = (case o1 of None \<Rightarrow> VNull | Some s \<Rightarrow> VStr s)"

lemma or_null_simps [simp]: "or_null None = VNull" "or_null (Some s) = VStr s"
  by (simp_all add: or_null_def)

fun obj_set :: "jsobj \<Rightarrow> jstr \<Rightarrow> jsval \<Rightarrow> jsobj" where
  "obj_set [] k v = [(k, v)]"
| "obj_set ((k', v') # m) k v = (if k' = k then (k, v) # m else (k', v') # obj_set m k v)"

definition obj_spread :: "jsobj \<Rightarrow> (string \<times> jsval) list \<Rightarrow> jsobj" where
  "obj_spread m kvs = foldl (\<lambda>m (k, v). obj_set m (js k) v) m kvs"

lemma obj_get_set: "obj_get (obj_set m k v) k' = (if k' = k then v else obj_get m k')"
  by (induction m k v rule: obj_set.induct) (auto simp: obj_get_def)

lemma obj_get_spread [simp]:
  "obj_get (obj_spread m []) k = obj_get m k"
  "obj_get (obj_spread m (kvs @ [(k', v)])) k = (if k = js k' then v else obj_get (obj_spread m kvs) k)"
  by (simp_all add: obj_spread_def obj_get_set)

lemma obj_get_spread_map: "obj_get (obj_spread m kvs) k =
    (case map_of (map (\<lambda>(k, v). (js k, v)) (rev kvs)) k of Some v \<Rightarrow> v | None \<Rightarrow> obj_get m k)"
  by (induction kvs rule: rev_induct) auto

end
