(* ===== verification/JournalBuilder.thy ===== *)
theory JournalBuilder
  imports JournalTypes
begin

section \<open>Journal drafts from business events (accounting-journal.builder.ts)\<close>

text \<open>
  One function per source type, with its checks in order and the lines it posts. The part all of
  them share (idempotency material, the check on it, the members of the draft that are copied from
  the source) is \<open>finish_draft\<close>.
\<close>

subsection \<open>Idempotency\<close>

definition IDEMPOTENCY_PREFIX :: jstr where "IDEMPOTENCY_PREFIX = js ''acct-journal:v1''"

definition COLON :: nat where "COLON = 58"

fun join_colon :: "jstr list \<Rightarrow> jstr" where
  "join_colon [] = []"
| "join_colon [s] = s"
| "join_colon (s # t # ss) = s @ [COLON] @ join_colon (t # ss)"

definition journalIdempotencyMaterialFromSource ::
  "jstr \<Rightarrow> 'p JournalSourceBase \<Rightarrow> JournalIdempotencyMaterial" where
  "journalIdempotencyMaterialFromSource sourceType source =
     \<lparr>im_tenantId = so_tenantId source, im_sourceType = sourceType, im_sourceId = so_sourceId source,
      im_sourceAction = so_sourceAction source, im_sourceVersion = so_sourceVersion source\<rparr>"

definition buildJournalIdempotencyKey :: "JournalIdempotencyMaterial \<Rightarrow> jstr" where
  "buildJournalIdempotencyKey material =
     join_colon [IDEMPOTENCY_PREFIX, im_tenantId material, im_sourceType material, im_sourceId material,
       im_sourceAction material, im_sourceVersion material]"

subsection \<open>Shared parts\<close>

definition buildError ::
  "JournalBuildErrorCode \<Rightarrow> string \<Rightarrow> string option \<Rightarrow> (string \<times> jsval) list \<Rightarrow> JournalBuildResult" where
  "buildError code message path details =
     Inl [\<lparr>be_code = code, be_message = js message, be_path = map_option js path,
           be_details = obj_spread [] details\<rparr>]"

definition finish_draft ::
  "jstr \<Rightarrow> 'p JournalSourceBase \<Rightarrow> jstr option \<Rightarrow> string \<Rightarrow> (string \<times> jsval) list \<Rightarrow>
   JournalReversalReference option \<Rightarrow> JournalLineDraft list \<Rightarrow> JournalBuildResult" where
  "finish_draft sourceType source caseId entryType metadata reversalOf lines =
     (let idempotencyMaterial = journalIdempotencyMaterialFromSource sourceType source;
          idempotencyKey = buildJournalIdempotencyKey idempotencyMaterial in
      if so_tenantId source = [] \<or> so_sourceId source = [] \<or> so_sourceAction source = [] \<or>
         so_sourceVersion source = []
      then buildError INVALID_IDEMPOTENCY_MATERIAL ''Journal source is missing idempotency material.'' None
             [(''idempotencyKey'', VStr idempotencyKey)]
      else Inr
        \<lparr>je_tenantId = so_tenantId source, je_caseId = caseId, je_currency = so_currency source,
         je_entryType = js entryType, je_sourceType = sourceType, je_sourceId = so_sourceId source,
         je_sourceAction = so_sourceAction source, je_sourceVersion = so_sourceVersion source,
         je_idempotencyKey = idempotencyKey, je_idempotencyMaterial = idempotencyMaterial,
         je_sourceHash = so_sourceHash source, je_sourceOccurredAt = so_occurredAt source,
         je_effectiveDate = so_effectiveDate source, je_postedById = so_actorId source,
         je_metadata = obj_spread (so_metadata source) metadata, je_reversalOf = reversalOf,
         je_lines = lines\<rparr>)"

text \<open>A line without dimensions.\<close>

definition plain_line ::
  "'p JournalSourceBase \<Rightarrow> int \<Rightarrow> jstr \<Rightarrow> jstr \<Rightarrow> MoneyAmount \<Rightarrow> JournalLineDraft" where
  "plain_line source lineNo accountCode direction amount =
     \<lparr>ln_lineNo = js_int lineNo, ln_tenantId = so_tenantId source, ln_accountCode = accountCode,
      ln_direction = direction, ln_amount = amount, ln_currency = so_currency source,
      ln_caseId = None, ln_clientId = None, ln_caseClientId = None, ln_collectionId = None,
      ln_dispositionLineId = None, ln_payoutId = None, ln_offsetId = None, ln_expenseRequestId = None,
      ln_expensePaymentId = None, ln_expenseApplicationId = None, ln_balanceLedgerId = None\<rparr>"

abbreviation "DEBIT \<equiv> js ''DEBIT''"
abbreviation "CREDIT \<equiv> js ''CREDIT''"

subsection \<open>Collections\<close>

definition collectionLine :: "CollectionJournalSource \<Rightarrow> int \<Rightarrow> string \<Rightarrow> jstr \<Rightarrow> JournalLineDraft" where
  "collectionLine source lineNo accountCode direction =
     (let payload = so_payload source in
      (plain_line source lineNo (js accountCode) direction (ccp_amount payload))
        \<lparr>ln_caseId := Some (ccp_caseId payload), ln_collectionId := Some (ccp_collectionId payload)\<rparr>)"

definition buildCollectionJournal :: "CollectionJournalSource \<Rightarrow> JournalBuildResult" where
  "buildCollectionJournal source =
     (let payload = so_payload source;
          isRecorded = ccp_kind payload = js ''RECORDED'';
          expectedAction = (if isRecorded then js ''recorded'' else js ''cancel'');
          expectedStatus = (if isRecorded then js ''CONFIRMED'' else js ''CANCELLED'') in
      if so_sourceAction source \<noteq> expectedAction
      then buildError UNSUPPORTED_SOURCE_ACTION ''Collection sourceAction must match payload kind.''
             (Some ''sourceAction'')
             [(''expectedAction'', VStr expectedAction), (''actualAction'', VStr (so_sourceAction source)),
              (''kind'', VStr (ccp_kind payload))]
      else if ccp_collectionId payload \<noteq> so_sourceId source
      then buildError INVALID_SOURCE_PAYLOAD ''Collection payload collectionId must match sourceId.''
             (Some ''payload.collectionId'')
             [(''sourceId'', VStr (so_sourceId source)), (''collectionId'', VStr (ccp_collectionId payload))]
      else if ccp_collectionStatus payload = js ''REFUNDED''
      then buildError UNMAPPED_SOURCE ''Collection REFUNDED policy is not mapped for cash journal posting.''
             (Some ''payload.collectionStatus'')
             [(''collectionStatus'', VStr (ccp_collectionStatus payload))]
      else if ccp_collectionStatus payload \<noteq> expectedStatus
      then buildError INVALID_SOURCE_PAYLOAD ''Collection cash journal status must match sourceAction.''
             (Some ''payload.collectionStatus'')
             [(''expectedStatus'', VStr expectedStatus),
              (''collectionStatus'', VStr (ccp_collectionStatus payload)),
              (''sourceAction'', VStr (so_sourceAction source))]
      else if isRecorded \<and> truthy (ccp_originalRecordedSourceVersion payload)
      then buildError INVALID_SOURCE_PAYLOAD
             ''Collection recorded source must not carry originalRecordedSourceVersion.''
             (Some ''payload.originalRecordedSourceVersion'')
             [(''originalRecordedSourceVersion'', or_null (ccp_originalRecordedSourceVersion payload))]
      else if \<not> isRecorded \<and> \<not> truthy (ccp_originalRecordedSourceVersion payload)
      then buildError INVALID_SOURCE_PAYLOAD ''Collection cancel source requires originalRecordedSourceVersion.''
             (Some ''payload.originalRecordedSourceVersion'') [(''sourceId'', VStr (so_sourceId source))]
      else
        finish_draft (js ''COLLECTION'') source (Some (ccp_caseId payload))
          (if isRecorded then ''COLLECTION_CASH_RECEIPT_RECORDED'' else ''COLLECTION_CASH_RECEIPT_REVERSED'')
          [(''description'', VStr (js (if isRecorded then ''Collection cash receipt recorded''
                                       else ''Collection cash receipt reversed''))),
           (''collectionId'', VStr (ccp_collectionId payload)),
           (''collectionKind'', VStr (ccp_kind payload)),
           (''collectionStatus'', VStr (ccp_collectionStatus payload)),
           (''debtorId'', or_null (ccp_debtorId payload)),
           (''originalRecordedSourceVersion'', or_null (ccp_originalRecordedSourceVersion payload))]
          (if isRecorded then None
           else Some \<lparr>rv_sourceType = js ''COLLECTION'', rv_sourceId = so_sourceId source,
                      rv_sourceAction = js ''recorded'',
                      rv_sourceVersion = ccp_originalRecordedSourceVersion payload,
                      rv_journalEntryId = None\<rparr>)
          (if isRecorded
           then [collectionLine source 1 ''CASH_CLEARING'' DEBIT,
                 collectionLine source 2 ''CASE_COLLECTION_CLEARING'' CREDIT]
           else [collectionLine source 1 ''CASE_COLLECTION_CLEARING'' DEBIT,
                 collectionLine source 2 ''CASH_CLEARING'' CREDIT]))"

definition collectionDispositionLine ::
  "CollectionDispositionLineJournalSource \<Rightarrow> int \<Rightarrow> jstr \<Rightarrow> jstr \<Rightarrow> JournalLineDraft" where
  "collectionDispositionLine source lineNo accountCode direction =
     (let payload = so_payload source in
      (plain_line source lineNo accountCode direction (cdp_amount payload))
        \<lparr>ln_caseId := Some (cdp_caseId payload), ln_clientId := cdp_clientId payload,
         ln_caseClientId := cdp_caseClientId payload, ln_collectionId := Some (cdp_collectionId payload),
         ln_dispositionLineId := Some (cdp_dispositionLineId payload)\<rparr>)"

definition buildCollectionDispositionLineJournal ::
  "CollectionDispositionLineJournalSource \<Rightarrow> JournalBuildResult" where
  "buildCollectionDispositionLineJournal source =
     (let payload = so_payload source in
      if so_sourceAction source \<noteq> js ''posted''
      then buildError UNSUPPORTED_SOURCE_ACTION ''CollectionDispositionLine sourceAction must be posted.''
             (Some ''sourceAction'') [(''sourceAction'', VStr (so_sourceAction source))]
      else if truthy (cdp_manualReversalRequiredAt payload)
      then buildError INVALID_SOURCE_PAYLOAD
             ''Manual reversal marker on disposition line cannot be a live journal source.''
             (Some ''payload.manualReversalRequiredAt'')
             [(''manualReversalRequiredAt'', or_null (cdp_manualReversalRequiredAt payload))]
      else if cdp_lineType payload = js ''OTHER'' \<or> cdp_lineType payload = js ''HELD_PENDING_DISTRIBUTION''
      then buildError UNMAPPED_SOURCE
             ''OTHER/HELD disposition line is not auto-posted; manual review is required.''
             (Some ''payload.lineType'') [(''lineType'', VStr (cdp_lineType payload))]
      else
        finish_draft (js ''COLLECTION_DISPOSITION_LINE'') source (Some (cdp_caseId payload))
          ''COLLECTION_DISTRIBUTION_POSTED''
          [(''description'', VStr (js ''Collection disposition line posted'')),
           (''lineType'', VStr (cdp_lineType payload)),
           (''manualReversalRequiredAt'', or_null (cdp_manualReversalRequiredAt payload))]
          None
          [collectionDispositionLine source 1 (js ''CASH_CLEARING'') DEBIT,
           collectionDispositionLine source 2 (cdp_creditAccountCode payload) CREDIT])"

subsection \<open>The client's balance\<close>

definition prefix_rest :: "string \<Rightarrow> jstr \<Rightarrow> jstr option" where
  "prefix_rest p value =
     (if take (length p) value = js p then Some (drop (length p) value) else None)"

definition parseDispositionLineSource :: "jstr option \<Rightarrow> jstr option" where
  "parseDispositionLineSource value =
     (if \<not> truthy value then None else Option.bind value (prefix_rest ''disposition_line:''))"

definition isDispositionLineBalanceLedgerSource :: "jstr option \<Rightarrow> jstr option \<Rightarrow> bool" where
  "isDispositionLineBalanceLedgerSource source sourceId \<longleftrightarrow>
     parseDispositionLineSource source \<noteq> None \<or> parseDispositionLineSource sourceId \<noteq> None \<or>
     source = Some (js ''disposition_line'')"

definition parseExpensePaymentSource :: "jstr option \<Rightarrow> jstr option" where
  "parseExpensePaymentSource value =
     (if \<not> truthy value then None else Option.bind value (prefix_rest ''expense_payment:''))"

definition isExpensePaymentBalanceLedgerSource :: "jstr option \<Rightarrow> jstr option \<Rightarrow> bool" where
  "isExpensePaymentBalanceLedgerSource source sourceId \<longleftrightarrow>
     parseExpensePaymentSource source \<noteq> None \<or> parseExpensePaymentSource sourceId \<noteq> None \<or>
     source = Some (js ''expense_payment'')"

definition balanceLedgerLine ::
  "BalanceLedgerJournalSource \<Rightarrow> int \<Rightarrow> string \<Rightarrow> jstr \<Rightarrow> JournalLineDraft" where
  "balanceLedgerLine source lineNo accountCode direction =
     (let payload = so_payload source in
      (plain_line source lineNo (js accountCode) direction (blp_amount payload))
        \<lparr>ln_caseId := Some (blp_caseId payload), ln_balanceLedgerId := Some (blp_balanceLedgerId payload)\<rparr>)"

definition buildBalanceLedgerJournal :: "BalanceLedgerJournalSource \<Rightarrow> JournalBuildResult" where
  "buildBalanceLedgerJournal source =
     (let payload = so_payload source;
          expectedIncrease = blp_ledgerType payload = js ''CREDIT'' in
      if so_sourceAction source \<noteq> js ''posted''
      then buildError UNSUPPORTED_SOURCE_ACTION ''BalanceLedger sourceAction must be posted.''
             (Some ''sourceAction'') [(''sourceAction'', VStr (so_sourceAction source))]
      else if blp_ledgerType payload \<noteq> js ''CREDIT'' \<and> blp_ledgerType payload \<noteq> js ''DEBIT''
      then buildError UNMAPPED_SOURCE ''BalanceLedger ADJUST/REFUND is not approved for journal posting.''
             (Some ''payload.ledgerType'') [(''ledgerType'', VStr (blp_ledgerType payload))]
      else if isDispositionLineBalanceLedgerSource (Some (blp_source payload)) (blp_sourceId payload)
      then buildError UNMAPPED_SOURCE
             ''Correlated disposition_line BalanceLedger is reported-only; CollectionDispositionLine is the canonical journal source.''
             (Some ''payload.source'')
             [(''source'', VStr (blp_source payload)), (''sourceId'', or_null (blp_sourceId payload))]
      else if isExpensePaymentBalanceLedgerSource (Some (blp_source payload)) (blp_sourceId payload)
      then buildError UNMAPPED_SOURCE
             ''Correlated expense_payment BalanceLedger is reported-only; ExpensePayment is the canonical journal source.''
             (Some ''payload.source'')
             [(''source'', VStr (blp_source payload)), (''sourceId'', or_null (blp_sourceId payload))]
      else if blp_isIncrease payload \<noteq> expectedIncrease
      then buildError INVALID_SOURCE_PAYLOAD ''BalanceLedger isIncrease must match ledgerType.''
             (Some ''payload.isIncrease'')
             [(''ledgerType'', VStr (blp_ledgerType payload)), (''isIncrease'', VBool (blp_isIncrease payload))]
      else
        finish_draft (js ''BALANCE_LEDGER'') source (Some (blp_caseId payload)) ''CLIENT_ADVANCE_LEDGER_RECORDED''
          [(''description'', VStr (js ''Balance ledger recorded'')),
           (''ledgerType'', VStr (blp_ledgerType payload)),
           (''balanceLedgerSource'', VStr (blp_source payload)),
           (''balanceLedgerSourceId'', or_null (blp_sourceId payload)),
           (''isIncrease'', VBool (blp_isIncrease payload))]
          None
          [balanceLedgerLine source 1
             (if blp_isIncrease payload then ''CASH_CLEARING'' else ''CLIENT_ADVANCE_BALANCE'') DEBIT,
           balanceLedgerLine source 2
             (if blp_isIncrease payload then ''CLIENT_ADVANCE_BALANCE'' else ''CASH_CLEARING'') CREDIT])"

subsection \<open>Expenses\<close>

definition expenseRequestCancelGuardMetadata :: "ExpenseRequestCancelGuard \<Rightarrow> jsval" where
  "expenseRequestCancelGuardMetadata guard =
     VObj [(js ''hasExpensePayments'', VBool (cg_hasExpensePayments guard)),
           (js ''hasClientOffsets'', VBool (cg_hasClientOffsets guard)),
           (js ''hasReimbursementApplications'', VBool (cg_hasReimbursementApplications guard))]"

definition expenseRequestLine ::
  "ExpenseRequestJournalSource \<Rightarrow> int \<Rightarrow> string \<Rightarrow> jstr \<Rightarrow> JournalLineDraft" where
  "expenseRequestLine source lineNo accountCode direction =
     (let payload = so_payload source in
      (plain_line source lineNo (js accountCode) direction (erp_amount payload))
        \<lparr>ln_caseId := Some (erp_caseId payload), ln_clientId := Some (erp_clientId payload),
         ln_expenseRequestId := Some (erp_expenseRequestId payload)\<rparr>)"

definition retained_activity :: "ExpenseRequestCancelGuard \<Rightarrow> bool" where
  "retained_activity guard \<longleftrightarrow>
     cg_hasExpensePayments guard \<or> cg_hasClientOffsets guard \<or> cg_hasReimbursementApplications guard"

definition cancelGuardError :: "ExpenseRequestJournalSource \<Rightarrow> JournalBuildResult option" where
  "cancelGuardError source =
     (case erp_cancelGuard (so_payload source) of
        None \<Rightarrow>
          Some (buildError INVALID_SOURCE_PAYLOAD ''ExpenseRequest cancel skeleton requires cancelGuard.''
            (Some ''payload.cancelGuard'') [(''sourceId'', VStr (so_sourceId source))])
      | Some guard \<Rightarrow>
          if retained_activity guard
          then Some (buildError UNMAPPED_SOURCE
            ''ExpenseRequest cancel with settled activity is guarded and not mapped for live journal posting.''
            (Some ''payload.cancelGuard'') [(''cancelGuard'', expenseRequestCancelGuardMetadata guard)])
          else None)"

definition buildExpenseRequestJournal :: "ExpenseRequestJournalSource \<Rightarrow> JournalBuildResult" where
  "buildExpenseRequestJournal source =
     (let payload = so_payload source;
          isRecorded = erp_kind payload = js ''RECORDED'';
          expectedAction = (if isRecorded then js ''recorded'' else js ''cancel'');
          guardMetadata = (case erp_cancelGuard payload of
              None \<Rightarrow> VNull | Some guard \<Rightarrow> expenseRequestCancelGuardMetadata guard);
          finish = finish_draft (js ''EXPENSE_REQUEST'') source (Some (erp_caseId payload))
            (if isRecorded then ''EXPENSE_REQUEST_RECORDED'' else ''EXPENSE_REQUEST_CANCELLED'')
            [(''description'', VStr (js (if isRecorded then ''Expense request recorded''
                                         else ''Expense request cancelled''))),
             (''expenseRequestId'', VStr (erp_expenseRequestId payload)),
             (''expenseRequestKind'', VStr (erp_kind payload)), (''cancelGuard'', guardMetadata)]
            (if isRecorded then None
             else Some \<lparr>rv_sourceType = js ''EXPENSE_REQUEST'', rv_sourceId = so_sourceId source,
                        rv_sourceAction = js ''recorded'', rv_sourceVersion = None,
                        rv_journalEntryId = None\<rparr>)
            (if isRecorded
             then [expenseRequestLine source 1 ''CLIENT_EXPENSE_RECEIVABLE'' DEBIT,
                   expenseRequestLine source 2 ''FIRM_EXPENSE_REIMBURSEMENT'' CREDIT]
             else [expenseRequestLine source 1 ''FIRM_EXPENSE_REIMBURSEMENT'' DEBIT,
                   expenseRequestLine source 2 ''CLIENT_EXPENSE_RECEIVABLE'' CREDIT]) in
      if so_sourceAction source \<noteq> expectedAction
      then buildError UNSUPPORTED_SOURCE_ACTION ''ExpenseRequest sourceAction must match payload kind.''
             (Some ''sourceAction'')
             [(''expectedAction'', VStr expectedAction), (''actualAction'', VStr (so_sourceAction source)),
              (''kind'', VStr (erp_kind payload))]
      else if erp_expenseRequestId payload \<noteq> so_sourceId source
      then buildError INVALID_SOURCE_PAYLOAD ''ExpenseRequest payload expenseRequestId must match sourceId.''
             (Some ''payload.expenseRequestId'')
             [(''sourceId'', VStr (so_sourceId source)),
              (''expenseRequestId'', VStr (erp_expenseRequestId payload))]
      else if isRecorded \<and> erp_cancelGuard payload \<noteq> None
      then buildError INVALID_SOURCE_PAYLOAD ''ExpenseRequest recorded source must not carry cancelGuard.''
             (Some ''payload.cancelGuard'') [(''cancelGuard'', guardMetadata)]
      else if \<not> isRecorded
      then (case cancelGuardError source of Some e \<Rightarrow> e | None \<Rightarrow> finish)
      else finish)"

definition expensePaymentLine ::
  "ExpensePaymentJournalSource \<Rightarrow> int \<Rightarrow> string \<Rightarrow> jstr \<Rightarrow> JournalLineDraft" where
  "expensePaymentLine source lineNo accountCode direction =
     (let payload = so_payload source in
      (plain_line source lineNo (js accountCode) direction (epp_amount payload))
        \<lparr>ln_caseId := Some (epp_caseId payload), ln_clientId := Some (epp_clientId payload),
         ln_expenseRequestId := Some (epp_expenseRequestId payload),
         ln_expensePaymentId := Some (epp_expensePaymentId payload)\<rparr>)"

definition buildExpensePaymentJournal :: "ExpensePaymentJournalSource \<Rightarrow> JournalBuildResult" where
  "buildExpensePaymentJournal source =
     (let payload = so_payload source in
      if so_sourceAction source \<noteq> js ''recorded''
      then buildError UNSUPPORTED_SOURCE_ACTION
             ''ExpensePayment sourceAction must be recorded; reversal/refund are not mapped.''
             (Some ''sourceAction'') [(''sourceAction'', VStr (so_sourceAction source))]
      else if epp_expensePaymentId payload \<noteq> so_sourceId source
      then buildError INVALID_SOURCE_PAYLOAD ''ExpensePayment payload expensePaymentId must match sourceId.''
             (Some ''payload.expensePaymentId'')
             [(''sourceId'', VStr (so_sourceId source)),
              (''expensePaymentId'', VStr (epp_expensePaymentId payload))]
      else
        finish_draft (js ''EXPENSE_PAYMENT'') source (Some (epp_caseId payload)) ''EXPENSE_PAYMENT_RECORDED''
          [(''description'', VStr (js ''Expense payment recorded'')),
           (''expenseRequestId'', VStr (epp_expenseRequestId payload)),
           (''expensePaymentId'', VStr (epp_expensePaymentId payload)),
           (''paymentMethod'', or_null (epp_paymentMethod payload)),
           (''reference'', or_null (epp_reference payload))]
          None
          [expensePaymentLine source 1 ''CASH_CLEARING'' DEBIT,
           expensePaymentLine source 2 ''CLIENT_EXPENSE_RECEIVABLE'' CREDIT])"

definition expenseApplicationReimbursementAccount :: "jstr \<Rightarrow> string option" where
  "expenseApplicationReimbursementAccount reimbursementScope =
     (if reimbursementScope = js ''CLIENT_FRONTED'' then Some ''CLIENT_EXPENSE_REIMBURSEMENT_PAYABLE''
      else if reimbursementScope = js ''FIRM_FRONTED'' then Some ''FIRM_EXPENSE_REIMBURSEMENT''
      else None)"

definition expenseApplicationLine ::
  "CollectionDispositionExpenseApplicationJournalSource \<Rightarrow> int \<Rightarrow> string \<Rightarrow> jstr \<Rightarrow> JournalLineDraft" where
  "expenseApplicationLine source lineNo accountCode direction =
     (let payload = so_payload source in
      (plain_line source lineNo (js accountCode) direction (eap_amount payload))
        \<lparr>ln_caseId := Some (eap_caseId payload), ln_clientId := Some (eap_clientId payload),
         ln_collectionId := eap_collectionId payload,
         ln_dispositionLineId := Some (eap_collectionDispositionLineId payload),
         ln_expenseRequestId := Some (eap_expenseRequestId payload),
         ln_expenseApplicationId := Some (eap_expenseApplicationId payload)\<rparr>)"

definition buildCollectionDispositionExpenseApplicationJournal ::
  "CollectionDispositionExpenseApplicationJournalSource \<Rightarrow> JournalBuildResult" where
  "buildCollectionDispositionExpenseApplicationJournal source =
     (let payload = so_payload source;
          isApply = eap_kind payload = js ''APPLY'';
          expectedAction = (if isApply then js ''apply'' else js ''reversal'') in
      if so_sourceAction source \<noteq> expectedAction
      then buildError UNSUPPORTED_SOURCE_ACTION
             ''CollectionDispositionExpenseApplication sourceAction must match payload kind.''
             (Some ''sourceAction'')
             [(''expectedAction'', VStr expectedAction), (''actualAction'', VStr (so_sourceAction source)),
              (''kind'', VStr (eap_kind payload))]
      else if eap_expenseApplicationId payload \<noteq> so_sourceId source
      then buildError INVALID_SOURCE_PAYLOAD
             ''CollectionDispositionExpenseApplication payload expenseApplicationId must match sourceId.''
             (Some ''payload.expenseApplicationId'')
             [(''sourceId'', VStr (so_sourceId source)),
              (''expenseApplicationId'', VStr (eap_expenseApplicationId payload))]
      else if isApply \<and> truthy (eap_reversesApplicationId payload)
      then buildError INVALID_SOURCE_PAYLOAD
             ''Expense application APPLY source must not carry reversesApplicationId.''
             (Some ''payload.reversesApplicationId'')
             [(''reversesApplicationId'', or_null (eap_reversesApplicationId payload))]
      else if \<not> isApply \<and> \<not> truthy (eap_reversesApplicationId payload)
      then buildError INVALID_SOURCE_PAYLOAD
             ''Expense application REVERSAL source requires reversesApplicationId.''
             (Some ''payload.reversesApplicationId'') [(''sourceId'', VStr (so_sourceId source))]
      else if \<not> isApply \<and> eap_reversesApplicationId payload = Some (so_sourceId source)
      then buildError INVALID_SOURCE_PAYLOAD ''Expense application REVERSAL source must not self-reference.''
             (Some ''payload.reversesApplicationId'')
             [(''sourceId'', VStr (so_sourceId source)),
              (''reversesApplicationId'', or_null (eap_reversesApplicationId payload))]
      else case expenseApplicationReimbursementAccount (eap_reimbursementScope payload) of
        None \<Rightarrow>
          buildError INVALID_SOURCE_PAYLOAD ''Expense application reimbursementScope is not mapped.''
            (Some ''payload.reimbursementScope'')
            [(''reimbursementScope'', VStr (eap_reimbursementScope payload))]
      | Some reimbursementAccount \<Rightarrow>
        finish_draft (js ''COLLECTION_DISPOSITION_EXPENSE_APPLICATION'') source (Some (eap_caseId payload))
          (if isApply then ''COLLECTION_DISPOSITION_EXPENSE_APPLICATION_APPLIED''
           else ''COLLECTION_DISPOSITION_EXPENSE_APPLICATION_REVERSED'')
          [(''description'', VStr (js (if isApply then ''Expense reimbursement application applied''
                                       else ''Expense reimbursement application reversed''))),
           (''expenseApplicationKind'', VStr (eap_kind payload)),
           (''expenseRequestId'', VStr (eap_expenseRequestId payload)),
           (''expenseApplicationId'', VStr (eap_expenseApplicationId payload)),
           (''collectionId'', or_null (eap_collectionId payload)),
           (''collectionDispositionId'', VStr (eap_collectionDispositionId payload)),
           (''collectionDispositionLineId'', VStr (eap_collectionDispositionLineId payload)),
           (''reimbursementScope'', VStr (eap_reimbursementScope payload)),
           (''reversesApplicationId'', or_null (eap_reversesApplicationId payload))]
          (if isApply then None
           else Some \<lparr>rv_sourceType = js ''COLLECTION_DISPOSITION_EXPENSE_APPLICATION'',
                      rv_sourceId = (case eap_reversesApplicationId payload of
                          Some r \<Rightarrow> r | None \<Rightarrow> so_sourceId source),
                      rv_sourceAction = js ''apply'', rv_sourceVersion = None, rv_journalEntryId = None\<rparr>)
          (if isApply
           then [expenseApplicationLine source 1 reimbursementAccount DEBIT,
                 expenseApplicationLine source 2 ''CLIENT_EXPENSE_RECEIVABLE'' CREDIT]
           else [expenseApplicationLine source 1 ''CLIENT_EXPENSE_RECEIVABLE'' DEBIT,
                 expenseApplicationLine source 2 reimbursementAccount CREDIT]))"

subsection \<open>Payouts and offsets\<close>

definition clientPayoutLine ::
  "ClientPayoutJournalSource \<Rightarrow> int \<Rightarrow> string \<Rightarrow> jstr \<Rightarrow> JournalLineDraft" where
  "clientPayoutLine source lineNo accountCode direction =
     (let payload = so_payload source in
      (plain_line source lineNo (js accountCode) direction (cpp_amount payload))
        \<lparr>ln_caseId := Some (cpp_caseId payload), ln_clientId := cpp_clientId payload,
         ln_caseClientId := Some (cpp_caseClientId payload), ln_payoutId := Some (cpp_payoutId payload)\<rparr>)"

definition buildClientPayoutJournal :: "ClientPayoutJournalSource \<Rightarrow> JournalBuildResult" where
  "buildClientPayoutJournal source =
     (let payload = so_payload source in
      if so_sourceAction source \<noteq> js ''recorded''
      then buildError UNSUPPORTED_SOURCE_ACTION ''ClientPayout sourceAction must be recorded.''
             (Some ''sourceAction'') [(''sourceAction'', VStr (so_sourceAction source))]
      else
        finish_draft (js ''CLIENT_PAYOUT'') source (Some (cpp_caseId payload)) ''CLIENT_PAYOUT_RECORDED''
          [(''description'', VStr (js ''Client payout recorded''))]
          None
          [clientPayoutLine source 1 ''CLIENT_PAYABLE'' DEBIT,
           clientPayoutLine source 2 ''CASH_CLEARING'' CREDIT])"

definition clientOffsetLine ::
  "ClientOffsetJournalSource \<Rightarrow> int \<Rightarrow> string \<Rightarrow> jstr \<Rightarrow> jstr \<Rightarrow> jstr option \<Rightarrow> jstr option \<Rightarrow>
   JournalLineDraft" where
  "clientOffsetLine source lineNo accountCode direction caseId caseClientId expenseRequestId =
     (let payload = so_payload source in
      (plain_line source lineNo (js accountCode) direction (cop_amount payload))
        \<lparr>ln_caseId := Some caseId, ln_clientId := Some (cop_clientId payload),
         ln_caseClientId := caseClientId, ln_offsetId := Some (so_sourceId source),
         ln_expenseRequestId := expenseRequestId\<rparr>)"

definition buildClientOffsetJournal :: "ClientOffsetJournalSource \<Rightarrow> JournalBuildResult" where
  "buildClientOffsetJournal source =
     (let payload = so_payload source;
          isApply = cop_kind payload = js ''APPLY'';
          expectedAction = (if isApply then js ''apply'' else js ''reversal'') in
      if so_sourceAction source \<noteq> expectedAction
      then buildError UNSUPPORTED_SOURCE_ACTION ''ClientOffset sourceAction must match payload kind.''
             (Some ''sourceAction'')
             [(''expectedAction'', VStr expectedAction), (''actualAction'', VStr (so_sourceAction source)),
              (''kind'', VStr (cop_kind payload))]
      else if cop_kind payload = js ''APPLY'' \<and> truthy (cop_reversesOffsetId payload)
      then buildError INVALID_SOURCE_PAYLOAD ''ClientOffset APPLY source must not carry reversesOffsetId.''
             (Some ''payload.reversesOffsetId'')
             [(''reversesOffsetId'', or_null (cop_reversesOffsetId payload))]
      else if cop_kind payload = js ''REVERSAL'' \<and> \<not> truthy (cop_reversesOffsetId payload)
      then buildError INVALID_SOURCE_PAYLOAD ''ClientOffset REVERSAL source requires reversesOffsetId.''
             (Some ''payload.reversesOffsetId'') [(''sourceId'', VStr (so_sourceId source))]
      else
        finish_draft (js ''CLIENT_OFFSET'') source (Some (opl_caseId (cop_payableLeg payload)))
          (if isApply then ''CLIENT_OFFSET_APPLIED'' else ''CLIENT_OFFSET_REVERSED'')
          [(''description'', VStr (js (if isApply then ''Client offset applied'' else ''Client offset reversed'')))]
          (if isApply then None
           else Some \<lparr>rv_sourceType = js ''CLIENT_OFFSET'',
                      rv_sourceId = (case cop_reversesOffsetId payload of
                          Some r \<Rightarrow> r | None \<Rightarrow> so_sourceId source),
                      rv_sourceAction = js ''apply'', rv_sourceVersion = None, rv_journalEntryId = None\<rparr>)
          [clientOffsetLine source 1 ''CLIENT_PAYABLE'' (if isApply then DEBIT else CREDIT)
             (opl_caseId (cop_payableLeg payload)) (Some (opl_caseClientId (cop_payableLeg payload))) None,
           clientOffsetLine source 2 ''CLIENT_EXPENSE_RECEIVABLE'' (if isApply then CREDIT else DEBIT)
             (oel_caseId (cop_expenseLeg payload)) None (oel_expenseRequestId (cop_expenseLeg payload))])"

subsection \<open>Reversals and manual adjustments\<close>

definition accountingJournalEntryReversalLine ::
  "AccountingJournalReversalSource \<Rightarrow> AccountingJournalReversalLinePayload \<Rightarrow> JournalLineDraft" where
  "accountingJournalEntryReversalLine source originalLine =
     \<lparr>ln_lineNo = rl_lineNo originalLine, ln_tenantId = so_tenantId source,
      ln_accountCode = rl_accountCode originalLine,
      ln_direction = (if rl_direction originalLine = DEBIT then CREDIT else DEBIT),
      ln_amount = rl_amount originalLine, ln_currency = rl_currency originalLine,
      ln_caseId = rl_caseId originalLine, ln_clientId = rl_clientId originalLine,
      ln_caseClientId = rl_caseClientId originalLine, ln_collectionId = rl_collectionId originalLine,
      ln_dispositionLineId = rl_dispositionLineId originalLine, ln_payoutId = rl_payoutId originalLine,
      ln_offsetId = rl_offsetId originalLine, ln_expenseRequestId = rl_expenseRequestId originalLine,
      ln_expensePaymentId = rl_expensePaymentId originalLine,
      ln_expenseApplicationId = rl_expenseApplicationId originalLine,
      ln_balanceLedgerId = rl_balanceLedgerId originalLine\<rparr>"

definition manualAdjustmentLine ::
  "ManualAdjustmentJournalSource \<Rightarrow> int \<Rightarrow> ManualAdjustmentJournalLinePayload \<Rightarrow> JournalLineDraft" where
  "manualAdjustmentLine source lineNo line =
     (plain_line source lineNo (ml_accountCode line) (ml_direction line) (ml_amount line))
       \<lparr>ln_caseId := ml_caseId line, ln_clientId := ml_clientId line,
        ln_caseClientId := ml_caseClientId line\<rparr>"

fun common_case :: "jstr option \<Rightarrow> ManualAdjustmentJournalLinePayload list \<Rightarrow> jstr option" where
  "common_case caseId [] = caseId"
| "common_case caseId (line # lines) =
     (if \<not> truthy (ml_caseId line) then common_case caseId lines
      else if caseId = None then common_case (ml_caseId line) lines
      else if caseId \<noteq> ml_caseId line then None
      else common_case caseId lines)"

definition commonManualAdjustmentCaseId :: "ManualAdjustmentJournalLinePayload list \<Rightarrow> jstr option" where
  "commonManualAdjustmentCaseId lines = common_case None lines"

definition buildManualAdjustmentJournal :: "ManualAdjustmentJournalSource \<Rightarrow> JournalBuildResult" where
  "buildManualAdjustmentJournal source =
     (let payload = so_payload source; reason = js_trim (mp_reason payload) in
      if reason = []
      then buildError INVALID_SOURCE_PAYLOAD ''AccountingJournalEntry manual adjustment requires reason.''
             (Some ''payload.reason'') []
      else if length (mp_lines payload) < 2
      then buildError INVALID_SOURCE_PAYLOAD
             ''AccountingJournalEntry manual adjustment requires at least two lines.''
             (Some ''payload.lines'') [(''lineCount'', VNum (js_int (int (length (mp_lines payload)))))]
      else
        finish_draft (js ''ACCOUNTING_JOURNAL_ENTRY'') source (commonManualAdjustmentCaseId (mp_lines payload))
          ''ACCOUNTING_JOURNAL_MANUAL_ADJUSTMENT''
          [(''description'', VStr (js ''Accounting journal manual adjustment'')),
           (''adjustmentAmount'', VStr (mp_amount payload)), (''reason'', VStr reason),
           (''evidenceRef'', or_null (mp_evidenceRef payload))]
          None
          (map (\<lambda>(index, line). manualAdjustmentLine source (int index + 1) line)
             (indexed (mp_lines payload))))"

definition buildReversalJournal :: "AccountingJournalReversalSource \<Rightarrow> JournalBuildResult" where
  "buildReversalJournal source =
     (let payload = so_payload source in
      if rp_originalJournalEntryId payload \<noteq> so_sourceId source
      then buildError INVALID_SOURCE_PAYLOAD
             ''AccountingJournalEntry reversal sourceId must be the original journal entry id.''
             (Some ''payload.originalJournalEntryId'')
             [(''sourceId'', VStr (so_sourceId source)),
              (''originalJournalEntryId'', VStr (rp_originalJournalEntryId payload))]
      else if rp_originalEntryType payload = js ''ACCOUNTING_JOURNAL_REVERSAL''
      then buildError INVALID_SOURCE_PAYLOAD
             ''AccountingJournalEntry reversal cannot reverse another reversal entry.''
             (Some ''payload.originalEntryType'')
             [(''originalEntryType'', VStr (rp_originalEntryType payload))]
      else if rp_originalCurrency payload \<noteq> so_currency source
      then buildError INVALID_SOURCE_PAYLOAD
             ''AccountingJournalEntry reversal currency must match original journal currency.''
             (Some ''payload.originalCurrency'')
             [(''currency'', VStr (so_currency source)),
              (''originalCurrency'', VStr (rp_originalCurrency payload))]
      else if rp_originalLines payload = []
      then buildError INVALID_SOURCE_PAYLOAD
             ''AccountingJournalEntry reversal requires original journal lines.''
             (Some ''payload.originalLines'')
             [(''originalJournalEntryId'', VStr (rp_originalJournalEntryId payload))]
      else case List.find (\<lambda>line. rl_direction line \<noteq> DEBIT \<and> rl_direction line \<noteq> CREDIT)
                  (rp_originalLines payload) of
        Some invalidDirection \<Rightarrow>
          buildError INVALID_SOURCE_PAYLOAD
            ''AccountingJournalEntry reversal original line direction must be DEBIT or CREDIT.''
            (Some ''payload.originalLines.direction'')
            [(''lineNo'', VNum (rl_lineNo invalidDirection)),
             (''direction'', VStr (rl_direction invalidDirection))]
      | None \<Rightarrow>
        finish_draft (js ''ACCOUNTING_JOURNAL_ENTRY'') source (rp_originalCaseId payload)
          ''ACCOUNTING_JOURNAL_REVERSAL''
          [(''description'', VStr (js ''Accounting journal entry reversed'')),
           (''originalJournalEntryId'', VStr (rp_originalJournalEntryId payload)),
           (''originalEntryType'', VStr (rp_originalEntryType payload)),
           (''originalSourceType'', VStr (rp_originalSourceType payload)),
           (''originalSourceId'', VStr (rp_originalSourceId payload)),
           (''originalSourceAction'', VStr (rp_originalSourceAction payload)),
           (''originalSourceVersion'', or_null (rp_originalSourceVersion payload))]
          (Some \<lparr>rv_sourceType = rp_originalSourceType payload, rv_sourceId = rp_originalSourceId payload,
                 rv_sourceAction = rp_originalSourceAction payload,
                 rv_sourceVersion = rp_originalSourceVersion payload,
                 rv_journalEntryId = Some (rp_originalJournalEntryId payload)\<rparr>)
          (map (accountingJournalEntryReversalLine source) (rp_originalLines payload)))"

definition buildAccountingJournalEntryJournal :: "AccountingJournalEntrySource \<Rightarrow> JournalBuildResult" where
  "buildAccountingJournalEntryJournal source =
     (case source of
        ManualAdjustmentSource s \<Rightarrow> buildManualAdjustmentJournal s
      | ReversalSource s \<Rightarrow> buildReversalJournal s)"

subsection \<open>The dispatch\<close>

fun buildAccountingJournal :: "JournalSource \<Rightarrow> JournalBuildResult" where
  "buildAccountingJournal (CollectionSource s) = buildCollectionJournal s"
| "buildAccountingJournal (ClientOffsetSource s) = buildClientOffsetJournal s"
| "buildAccountingJournal (CollectionDispositionLineSource s) = buildCollectionDispositionLineJournal s"
| "buildAccountingJournal (ClientPayoutSource s) = buildClientPayoutJournal s"
| "buildAccountingJournal (BalanceLedgerSource s) = buildBalanceLedgerJournal s"
| "buildAccountingJournal (ExpenseRequestSource s) = buildExpenseRequestJournal s"
| "buildAccountingJournal (ExpensePaymentSource s) = buildExpensePaymentJournal s"
| "buildAccountingJournal (ExpenseApplicationSource s) =
     buildCollectionDispositionExpenseApplicationJournal s"
| "buildAccountingJournal (JournalEntrySource s) = buildAccountingJournalEntryJournal s"

end
