(* ===== verification/JournalValidator.thy ===== *)
theory JournalValidator
  imports JournalBuilder
begin

section \<open>Validation of journal drafts (accounting-journal.validators.ts)\<close>

text \<open>
  A validator collects the errors it finds, in the order of its checks; a draft without errors is
  accepted. \<open>validateJournalStructure\<close> checks what every entry needs (identification, line numbers,
  one tenant, one currency, amounts, the balance), \<open>validateJournalBusiness\<close> what the source type
  needs. A list of errors that a statement pushes is a list that is appended.
\<close>

subsection \<open>Errors, texts and amounts\<close>

definition validationError ::
  "JournalValidationErrorCode \<Rightarrow> string \<Rightarrow> jstr \<Rightarrow> (string \<times> jsval) list \<Rightarrow> JournalValidationError" where
  "validationError code message path details =
     \<lparr>ve_code = code, ve_message = js message, ve_path = Some path, ve_details = obj_spread [] details\<rparr>"

text \<open>A statement \<open>if (c) errors.push(e)\<close>.\<close>

definition push_if :: "bool \<Rightarrow> JournalValidationError \<Rightarrow> JournalValidationError list" where
  "push_if c e = (if c then [e] else [])"

lemma push_if_Nil [simp]: "push_if c e = [] \<longleftrightarrow> \<not> c"
  by (simp add: push_if_def)

definition requireString :: "jstr \<Rightarrow> jstr \<Rightarrow> JournalValidationError list" where
  "requireString value path =
     push_if (value = []) (validationError MISSING_REQUIRED_FIELD ''Required journal field is missing.'' path [])"

lemma requireString_Nil [simp]: "requireString value path = [] \<longleftrightarrow> value \<noteq> []"
  by (simp add: requireString_def)

text \<open>The paths \<open>lines[i]\<close> with the index or the line number.\<close>

definition line_path :: "jstr \<Rightarrow> string \<Rightarrow> jstr" where
  "line_path i field = js ''lines['' @ i @ js '']'' @ js field"

abbreviation no_path :: "JournalLineDraft \<Rightarrow> string \<Rightarrow> jstr" where
  "no_path line field \<equiv> line_path (number_to_string (ln_lineNo line)) field"

record ParsedMoney =
  pm_cents :: int
  pm_errorCode :: "JournalValidationErrorCode option"

text \<open>The pattern \<open>/^\d+(?:\.\d+)?$/\<close> with the two parts that \<open>split('.')\<close> gives.\<close>

definition money_parts :: "jstr \<Rightarrow> (jstr \<times> jstr) option" where
  "money_parts amount =
     (let whole = takeWhile js_digit amount; rest = dropWhile js_digit amount in
      if whole = [] then None
      else if rest = [] then Some (whole, [])
      else if hd rest = 46 \<and> tl rest \<noteq> [] \<and> list_all js_digit (tl rest) then Some (whole, tl rest)
      else None)"

definition padEnd :: "jstr \<Rightarrow> nat \<Rightarrow> nat \<Rightarrow> jstr" where
  "padEnd s n u = s @ replicate (n - length s) u"

definition parseMoney :: "MoneyAmount \<Rightarrow> ParsedMoney" where
  "parseMoney amount =
     (case money_parts amount of
        None \<Rightarrow> \<lparr>pm_cents = 0, pm_errorCode = Some INVALID_AMOUNT\<rparr>
      | Some (whole, fraction) \<Rightarrow>
          if 2 < length fraction
          then \<lparr>pm_cents = 0, pm_errorCode = Some INVALID_AMOUNT_PRECISION\<rparr>
          else
            (let cents = int (digits_val whole) * 100 +
                   int (digits_val (padEnd (if fraction = [] then [48] else fraction) 2 48)) in
             if 0 < cents then \<lparr>pm_cents = cents, pm_errorCode = None\<rparr>
             else \<lparr>pm_cents = cents, pm_errorCode = Some INVALID_AMOUNT\<rparr>))"

definition findSingleLine ::
  "JournalLineDraft list \<Rightarrow> string \<Rightarrow> string \<Rightarrow> JournalValidationError list \<times> JournalLineDraft option" where
  "findSingleLine lines accountCode label =
     (case filter (\<lambda>line. ln_accountCode line = js accountCode) lines of
        [line] \<Rightarrow> ([], Some line)
      | matches \<Rightarrow>
          ([validationError INVALID_LINE_SHAPE (label @ '' must appear exactly once.'') (js ''lines'')
              [(''accountCode'', VStr (js accountCode)), (''count'', VNum (js_int (int (length matches))))]],
           None))"

subsection \<open>Structure\<close>

record StructureState =
  ss_errors :: "JournalValidationError list"
  ss_lineNos :: "jsnum list"
  ss_currencies :: "jstr list"
  ss_debitTotal :: int
  ss_creditTotal :: int

definition line_number_errors :: "jsnum list \<Rightarrow> jstr \<Rightarrow> JournalLineDraft \<Rightarrow> JournalValidationError list" where
  "line_number_errors lineNos i line =
     (if \<not> js_is_integer (ln_lineNo line) \<or> \<not> js_less (js_int 0) (ln_lineNo line)
      then [validationError MISSING_REQUIRED_FIELD ''Journal lineNo must be a positive integer.''
              (line_path i ''.lineNo'') []]
      else if ln_lineNo line \<in> set lineNos
      then [validationError DUPLICATE_LINE_NO ''Journal lineNo must be unique per draft.''
              (line_path i ''.lineNo'') [(''lineNo'', VNum (ln_lineNo line))]]
      else [])"

definition line_text_errors :: "JournalEntryDraft \<Rightarrow> jstr \<Rightarrow> JournalLineDraft \<Rightarrow> JournalValidationError list" where
  "line_text_errors draft i line =
     requireString (ln_tenantId line) (line_path i ''.tenantId'') @
     requireString (ln_accountCode line) (line_path i ''.accountCode'') @
     requireString (ln_direction line) (line_path i ''.direction'') @
     requireString (ln_amount line) (line_path i ''.amount'') @
     requireString (ln_currency line) (line_path i ''.currency'') @
     push_if (ln_tenantId line \<noteq> [] \<and> ln_tenantId line \<noteq> je_tenantId draft)
       (validationError TENANT_MISMATCH ''Journal line tenantId must match entry tenantId.''
          (line_path i ''.tenantId'')
          [(''entryTenantId'', VStr (je_tenantId draft)), (''lineTenantId'', VStr (ln_tenantId line))]) @
     push_if (ln_currency line \<noteq> [] \<and> ln_currency line \<noteq> je_currency draft)
       (validationError CURRENCY_MISMATCH ''Journal line currency must match entry currency.''
          (line_path i ''.currency'')
          [(''entryCurrency'', VStr (je_currency draft)), (''lineCurrency'', VStr (ln_currency line))])"

definition set_add :: "'a list \<Rightarrow> 'a \<Rightarrow> 'a list" where
  "set_add xs x = (if x \<in> set xs then xs else xs @ [x])"

text \<open>The body of the loop; an unreadable amount ends it.\<close>

definition structure_line ::
  "JournalEntryDraft \<Rightarrow> StructureState \<Rightarrow> nat \<times> JournalLineDraft \<Rightarrow> StructureState" where
  "structure_line draft st p =
     (case p of (index, line) \<Rightarrow>
      let i = js_of_nat index;
          numberErrors = line_number_errors (ss_lineNos st) i line;
          parsedAmount = parseMoney (ln_amount line);
          st = st\<lparr>ss_errors := ss_errors st @ numberErrors @ line_text_errors draft i line,
                 ss_lineNos := (if numberErrors = [] then ln_lineNo line # ss_lineNos st else ss_lineNos st),
                 ss_currencies := (if ln_currency line = [] then ss_currencies st
                                   else set_add (ss_currencies st) (ln_currency line))\<rparr> in
      case pm_errorCode parsedAmount of
        Some code \<Rightarrow>
          st\<lparr>ss_errors := ss_errors st @
               [validationError code ''Journal line amount must be positive with max 2 decimal places.''
                  (line_path i ''.amount'') [(''amount'', VStr (ln_amount line))]]\<rparr>
      | None \<Rightarrow>
          if ln_direction line = DEBIT
          then st\<lparr>ss_debitTotal := ss_debitTotal st + pm_cents parsedAmount\<rparr>
          else if ln_direction line = CREDIT
          then st\<lparr>ss_creditTotal := ss_creditTotal st + pm_cents parsedAmount\<rparr>
          else st\<lparr>ss_errors := ss_errors st @
                 [validationError INVALID_ACCOUNT_DIRECTION ''Journal line direction must be DEBIT or CREDIT.''
                    (line_path i ''.direction'') [(''direction'', VStr (ln_direction line))]]\<rparr>)"

definition entry_text_errors :: "JournalEntryDraft \<Rightarrow> JournalValidationError list" where
  "entry_text_errors draft =
     requireString (je_tenantId draft) (js ''tenantId'') @
     requireString (je_sourceType draft) (js ''sourceType'') @
     requireString (je_sourceId draft) (js ''sourceId'') @
     requireString (je_sourceAction draft) (js ''sourceAction'') @
     requireString (je_sourceVersion draft) (js ''sourceVersion'') @
     requireString (je_idempotencyKey draft) (js ''idempotencyKey'') @
     requireString (je_currency draft) (js ''currency'') @
     requireString (je_sourceOccurredAt draft) (js ''sourceOccurredAt'') @
     requireString (je_effectiveDate draft) (js ''effectiveDate'')"

definition compareTexts :: "jstr \<Rightarrow> jstr \<Rightarrow> int" where
  "compareTexts a b = (if js_str_less a b then -1 else if js_str_less b a then 1 else 0)"

definition structure_errors :: "JournalEntryDraft \<Rightarrow> JournalValidationError list" where
  "structure_errors draft =
     (let start = \<lparr>ss_errors = entry_text_errors draft @
              push_if (je_lines draft = [])
                (validationError MISSING_REQUIRED_FIELD ''Journal draft must contain at least one line.''
                   (js ''lines'') []),
            ss_lineNos = [], ss_currencies = [], ss_debitTotal = 0, ss_creditTotal = 0\<rparr>;
          st = foldl (structure_line draft) start (indexed (je_lines draft)) in
      ss_errors st @
      push_if (1 < length (ss_currencies st))
        (validationError CURRENCY_MISMATCH ''Journal draft must contain a single currency.'' (js ''lines'')
           [(''currencies'', VArr (map VStr (js_sort compareTexts (ss_currencies st))))]) @
      push_if (ss_debitTotal st \<noteq> ss_creditTotal st)
        (validationError UNBALANCED_ENTRY ''Journal draft debit total must equal credit total.'' (js ''lines'')
           [(''debitCents'', VStr (js_of_int (ss_debitTotal st))),
            (''creditCents'', VStr (js_of_int (ss_creditTotal st)))]))"

definition accept :: "JournalValidationError list \<Rightarrow> 'd \<Rightarrow> JournalValidationError list + 'd" where
  "accept errors draft = (if errors = [] then Inr draft else Inl errors)"

lemma accept_Inr [simp]: "accept errors draft = Inr d \<longleftrightarrow> errors = [] \<and> d = draft"
  by (auto simp: accept_def)

definition validateJournalStructure ::
  "JournalEntryDraft \<Rightarrow> JournalValidationError list + JournalEntryDraft" where
  "validateJournalStructure draft = accept (structure_errors draft) draft"

subsection \<open>Checks that the business validators share\<close>

abbreviation meta :: "JournalEntryDraft \<Rightarrow> string \<Rightarrow> jsval" where
  "meta draft f \<equiv> obj_get (je_metadata draft) (js f)"

fun js_truthy :: "jsval \<Rightarrow> bool" where
  "js_truthy VUndef = False"
| "js_truthy VNull = False"
| "js_truthy (VBool b) = b"
| "js_truthy (VNum n) = (n \<noteq> NaN \<and> n \<noteq> js_int 0)"
| "js_truthy (VBig i) = (i \<noteq> 0)"
| "js_truthy (VStr s) = (s \<noteq> [])"
| "js_truthy (VArr vs) = True"
| "js_truthy (VObj m) = True"

text \<open>\<open>typeof v === 'string' ? v : null\<close>.\<close>

fun text_or_null :: "jsval \<Rightarrow> jstr option" where
  "text_or_null (VStr s) = Some s"
| "text_or_null _ = None"

definition reversal_details :: "JournalReversalReference option \<Rightarrow> (string \<times> jsval) list" where
  "reversal_details r =
     [(''reversalSourceType'', or_null (map_option rv_sourceType r)),
      (''reversalSourceId'', or_null (map_option rv_sourceId r)),
      (''reversalSourceAction'', or_null (map_option rv_sourceAction r))]"

text \<open>The checks of a leg that every source type repeats with its own name.\<close>

definition leg_direction_error :: "string \<Rightarrow> JournalLineDraft \<Rightarrow> jstr \<Rightarrow> JournalValidationError list" where
  "leg_direction_error message line expectedDirection =
     push_if (ln_direction line \<noteq> expectedDirection)
       (validationError INVALID_ACCOUNT_DIRECTION message (no_path line ''.direction'')
          [(''expectedDirection'', VStr expectedDirection), (''direction'', VStr (ln_direction line))])"

definition missing_dimension :: "jstr option \<Rightarrow> string \<Rightarrow> JournalLineDraft \<Rightarrow> string \<Rightarrow> JournalValidationError list" where
  "missing_dimension value message line field =
     push_if (\<not> truthy value) (validationError MISSING_REQUIRED_DIMENSION message (no_path line field) [])"

definition case_mismatch :: "string \<Rightarrow> JournalEntryDraft \<Rightarrow> JournalLineDraft \<Rightarrow> JournalValidationError list" where
  "case_mismatch message draft line =
     push_if (truthy (je_caseId draft) \<and> truthy (ln_caseId line) \<and> ln_caseId line \<noteq> je_caseId draft)
       (validationError UNSUPPORTED_BUSINESS_RULE message (no_path line ''.caseId'')
          [(''entryCaseId'', or_null (je_caseId draft)), (''lineCaseId'', or_null (ln_caseId line))])"

definition source_dimension ::
  "jstr option \<Rightarrow> string \<Rightarrow> JournalEntryDraft \<Rightarrow> JournalLineDraft \<Rightarrow> string \<Rightarrow> string \<Rightarrow> string \<Rightarrow>
   JournalValidationError list" where
  "source_dimension value message draft line field expected actual =
     push_if (value \<noteq> Some (je_sourceId draft))
       (validationError MISSING_REQUIRED_DIMENSION message (no_path line field)
          [(expected, VStr (je_sourceId draft)), (actual, or_null value)])"

definition forbidden_dimensions ::
  "string \<Rightarrow> JournalLineDraft \<Rightarrow> (string \<times> jstr option) list \<Rightarrow> JournalValidationError list" where
  "forbidden_dimensions message line dims =
     push_if (list_ex (\<lambda>(name, value). truthy value) dims)
       (validationError FORBIDDEN_SYNTHETIC_DIMENSION message (no_path line [])
          (map (\<lambda>(name, value). (name, or_null value)) dims))"

lemma leg_checks_Nil [simp]:
  "leg_direction_error message line d = [] \<longleftrightarrow> ln_direction line = d"
  "missing_dimension value message line field = [] \<longleftrightarrow> truthy value"
  "case_mismatch message draft line = [] \<longleftrightarrow>
     (truthy (je_caseId draft) \<longrightarrow> truthy (ln_caseId line) \<longrightarrow> ln_caseId line = je_caseId draft)"
  "source_dimension value message draft line field expected actual = [] \<longleftrightarrow> value = Some (je_sourceId draft)"
  "forbidden_dimensions message line dims = [] \<longleftrightarrow> (\<forall>d \<in> set dims. \<not> truthy (snd d))"
  by (auto simp: leg_direction_error_def missing_dimension_def case_mismatch_def source_dimension_def
      forbidden_dimensions_def list_ex_iff)

text \<open>A check of a leg that was found.\<close>

definition check_leg ::
  "JournalLineDraft option \<Rightarrow> (JournalLineDraft \<Rightarrow> JournalValidationError list) \<Rightarrow> JournalValidationError list" where
  "check_leg leg check = (case leg of None \<Rightarrow> [] | Some line \<Rightarrow> check line)"

lemma check_leg_simps [simp]: "check_leg None f = []" "check_leg (Some l) f = f l"
  by (simp_all add: check_leg_def)

definition line_count_error :: "nat \<Rightarrow> string \<Rightarrow> JournalEntryDraft \<Rightarrow> JournalValidationError list" where
  "line_count_error n message draft =
     push_if (length (je_lines draft) \<noteq> n)
       (validationError INVALID_LINE_SHAPE message (js ''lines'')
          [(''lineCount'', VNum (js_int (int (length (je_lines draft)))))])"

lemma line_count_error_Nil [simp]: "line_count_error n message draft = [] \<longleftrightarrow> length (je_lines draft) = n"
  by (simp add: line_count_error_def)

subsection \<open>Collections\<close>

definition validateCollectionLine ::
  "JournalEntryDraft \<Rightarrow> jstr \<Rightarrow> JournalLineDraft \<Rightarrow> JournalValidationError list" where
  "validateCollectionLine draft expectedDirection line =
     leg_direction_error ''Collection cash journal leg has invalid direction.'' line expectedDirection @
     missing_dimension (ln_caseId line) ''Collection cash journal line requires caseId.'' line ''.caseId'' @
     case_mismatch ''Collection cash journal line caseId must match entry caseId.'' draft line @
     source_dimension (ln_collectionId line)
       ''Collection cash journal line must carry collectionId from sourceId.'' draft line ''.collectionId''
       ''expectedCollectionId'' ''collectionId'' @
     forbidden_dimensions
       ''Collection cash journal line must not carry client or unrelated source dimensions.'' line
       [(''clientId'', ln_clientId line), (''caseClientId'', ln_caseClientId line),
        (''dispositionLineId'', ln_dispositionLineId line), (''payoutId'', ln_payoutId line),
        (''offsetId'', ln_offsetId line), (''expenseRequestId'', ln_expenseRequestId line),
        (''expensePaymentId'', ln_expensePaymentId line),
        (''expenseApplicationId'', ln_expenseApplicationId line),
        (''balanceLedgerId'', ln_balanceLedgerId line)]"

definition validateCollectionBusiness ::
  "JournalEntryDraft \<Rightarrow> JournalValidationError list + JournalEntryDraft" where
  "validateCollectionBusiness draft =
     (let isRecorded = je_sourceAction draft = js ''recorded'';
          isCancel = je_sourceAction draft = js ''cancel'';
          expectedEntryType = (if isRecorded then js ''COLLECTION_CASH_RECEIPT_RECORDED''
                               else js ''COLLECTION_CASH_RECEIPT_REVERSED'');
          collectionStatus = meta draft ''collectionStatus'';
          expectedStatus = (if isRecorded then Some (js ''CONFIRMED'')
                            else if isCancel then Some (js ''CANCELLED'') else None);
          invalidReversalReference =
            (case je_reversalOf draft of None \<Rightarrow> True
             | Some r \<Rightarrow> rv_sourceType r \<noteq> js ''COLLECTION'' \<or> rv_sourceId r \<noteq> je_sourceId draft \<or>
                 rv_sourceAction r \<noteq> js ''recorded'');
          (cashErrors, cashLine) = findSingleLine (je_lines draft) ''CASH_CLEARING'' ''Collection cash leg'';
          (clearingErrors, clearingLine) =
            findSingleLine (je_lines draft) ''CASE_COLLECTION_CLEARING'' ''Collection case clearing leg'' in
      accept
        (push_if (\<not> isRecorded \<and> \<not> isCancel)
           (validationError INVALID_SOURCE_ACTION ''Collection journal sourceAction must be recorded or cancel.''
              (js ''sourceAction'') [(''sourceAction'', VStr (je_sourceAction draft))]) @
         push_if ((isRecorded \<or> isCancel) \<and> je_entryType draft \<noteq> expectedEntryType)
           (validationError INVALID_SOURCE_ACTION ''Collection entryType must match sourceAction.''
              (js ''entryType'')
              [(''expectedEntryType'', VStr expectedEntryType), (''entryType'', VStr (je_entryType draft))]) @
         push_if (collectionStatus = VStr (js ''REFUNDED''))
           (validationError UNSUPPORTED_BUSINESS_RULE
              ''Collection REFUNDED policy is not mapped for cash journal posting.''
              (js ''metadata.collectionStatus'') [(''collectionStatus'', collectionStatus)]) @
         push_if (case expectedStatus of None \<Rightarrow> False | Some s \<Rightarrow> collectionStatus \<noteq> VStr s)
           (validationError UNSUPPORTED_BUSINESS_RULE ''Collection journal status must match sourceAction.''
              (js ''metadata.collectionStatus'')
              [(''expectedStatus'', or_null expectedStatus), (''collectionStatus'', collectionStatus),
               (''sourceAction'', VStr (je_sourceAction draft))]) @
         push_if (isRecorded \<and> je_reversalOf draft \<noteq> None)
           (validationError UNSUPPORTED_BUSINESS_RULE
              ''Collection recorded journal must not carry reversal reference.'' (js ''reversalOf'')
              (reversal_details (je_reversalOf draft))) @
         push_if (isCancel \<and> invalidReversalReference)
           (validationError UNSUPPORTED_BUSINESS_RULE
              ''Collection cancel journal must reference the original recorded source.'' (js ''reversalOf'')
              (reversal_details (je_reversalOf draft) @ [(''sourceId'', VStr (je_sourceId draft))])) @
         line_count_error 2
           ''Collection cash journal must contain exactly cash and case collection clearing legs.'' draft @
         cashErrors @ clearingErrors @
         check_leg cashLine (validateCollectionLine draft (if isRecorded then DEBIT else CREDIT)) @
         check_leg clearingLine (validateCollectionLine draft (if isRecorded then CREDIT else DEBIT)))
        draft)"

definition validateCollectionDispositionLineDimensions ::
  "JournalEntryDraft \<Rightarrow> bool \<Rightarrow> JournalLineDraft \<Rightarrow> JournalValidationError list" where
  "validateCollectionDispositionLineDimensions draft requiresCaseClient line =
     missing_dimension (ln_caseId line) ''CollectionDispositionLine journal line requires caseId.'' line
       ''.caseId'' @
     case_mismatch ''CollectionDispositionLine journal line caseId must match entry caseId.'' draft line @
     missing_dimension (ln_collectionId line) ''CollectionDispositionLine journal line requires collectionId.''
       line ''.collectionId'' @
     source_dimension (ln_dispositionLineId line)
       ''CollectionDispositionLine journal line must carry dispositionLineId from sourceId.'' draft line
       ''.dispositionLineId'' ''expectedDispositionLineId'' ''dispositionLineId'' @
     push_if (requiresCaseClient \<and> \<not> truthy (ln_caseClientId line))
       (validationError MISSING_REQUIRED_DIMENSION
          ''Client-attributed disposition journal lines require caseClientId.''
          (no_path line ''.caseClientId'') [])"

definition validateCollectionDispositionLineBusiness ::
  "JournalEntryDraft \<Rightarrow> JournalValidationError list + JournalEntryDraft" where
  "validateCollectionDispositionLineBusiness draft =
     (let (cashErrors, cashLine) =
            findSingleLine (je_lines draft) ''CASH_CLEARING'' ''CollectionDispositionLine cash leg'';
          creditLine = List.find (\<lambda>line. ln_direction line = CREDIT \<and>
              ln_accountCode line \<noteq> js ''CASH_CLEARING'') (je_lines draft);
          requiresCaseClient = (case creditLine of None \<Rightarrow> False
              | Some line \<Rightarrow> ln_accountCode line = js ''CLIENT_PAYABLE'' \<or>
                  ln_accountCode line = js ''CLIENT_EXPENSE_REIMBURSEMENT_PAYABLE'') in
      accept
        (push_if (je_sourceAction draft \<noteq> js ''posted'')
           (validationError INVALID_SOURCE_ACTION ''CollectionDispositionLine sourceAction must be posted.''
              (js ''sourceAction'') [(''sourceAction'', VStr (je_sourceAction draft))]) @
         push_if (je_entryType draft \<noteq> js ''COLLECTION_DISTRIBUTION_POSTED'')
           (validationError INVALID_SOURCE_ACTION
              ''CollectionDispositionLine entryType must be COLLECTION_DISTRIBUTION_POSTED.''
              (js ''entryType'') [(''entryType'', VStr (je_entryType draft))]) @
         push_if (js_truthy (meta draft ''manualReversalRequiredAt''))
           (validationError UNSUPPORTED_BUSINESS_RULE
              ''Manual reversal marker on disposition line is not eligible for journal posting.''
              (js ''metadata.manualReversalRequiredAt'')
              [(''manualReversalRequiredAt'', meta draft ''manualReversalRequiredAt'')]) @
         push_if (meta draft ''lineType'' = VStr (js ''OTHER'') \<or>
             meta draft ''lineType'' = VStr (js ''HELD_PENDING_DISTRIBUTION''))
           (validationError UNSUPPORTED_BUSINESS_RULE ''OTHER/HELD disposition line cannot be auto-posted.''
              (js ''metadata.lineType'') [(''lineType'', meta draft ''lineType'')]) @
         cashErrors @
         line_count_error 2 ''CollectionDispositionLine journal must contain exactly cash and credit legs.'' draft @
         push_if (creditLine = None)
           (validationError INVALID_LINE_SHAPE ''CollectionDispositionLine credit leg must be present.''
              (js ''lines'') []) @
         check_leg cashLine (\<lambda>line. push_if (ln_direction line \<noteq> DEBIT)
           (validationError INVALID_ACCOUNT_DIRECTION ''CollectionDispositionLine cash leg must be DEBIT.''
              (no_path line ''.direction'') [(''direction'', VStr (ln_direction line))])) @
         check_leg creditLine (\<lambda>line. push_if (ln_direction line \<noteq> CREDIT)
           (validationError INVALID_ACCOUNT_DIRECTION
              ''CollectionDispositionLine mapped account leg must be CREDIT.''
              (no_path line ''.direction'') [(''direction'', VStr (ln_direction line))])) @
         concat (map (validateCollectionDispositionLineDimensions draft requiresCaseClient) (je_lines draft)))
        draft)"

subsection \<open>The client's balance\<close>

definition validateBalanceLedgerLine ::
  "JournalEntryDraft \<Rightarrow> jstr \<Rightarrow> JournalLineDraft \<Rightarrow> JournalValidationError list" where
  "validateBalanceLedgerLine draft expectedDirection line =
     leg_direction_error ''BalanceLedger journal leg has invalid direction.'' line expectedDirection @
     missing_dimension (ln_caseId line) ''BalanceLedger journal line requires caseId.'' line ''.caseId'' @
     case_mismatch ''BalanceLedger journal line caseId must match entry caseId.'' draft line @
     source_dimension (ln_balanceLedgerId line)
       ''BalanceLedger journal line must carry balanceLedgerId from sourceId.'' draft line ''.balanceLedgerId''
       ''expectedBalanceLedgerId'' ''balanceLedgerId'' @
     forbidden_dimensions ''BalanceLedger journal line must not carry unrelated source dimensions.'' line
       [(''clientId'', ln_clientId line), (''caseClientId'', ln_caseClientId line),
        (''collectionId'', ln_collectionId line), (''dispositionLineId'', ln_dispositionLineId line),
        (''payoutId'', ln_payoutId line), (''offsetId'', ln_offsetId line),
        (''expenseRequestId'', ln_expenseRequestId line), (''expensePaymentId'', ln_expensePaymentId line),
        (''expenseApplicationId'', ln_expenseApplicationId line)]"

definition parseDispositionLineMetadata :: "jsval \<Rightarrow> jstr option" where
  "parseDispositionLineMetadata value =
     (case value of VStr s \<Rightarrow> prefix_rest ''disposition_line:'' s | _ \<Rightarrow> None)"

definition isDispositionLineBalanceLedgerMetadata :: "jsval \<Rightarrow> jsval \<Rightarrow> bool" where
  "isDispositionLineBalanceLedgerMetadata source sourceId \<longleftrightarrow>
     parseDispositionLineMetadata source \<noteq> None \<or> parseDispositionLineMetadata sourceId \<noteq> None \<or>
     source = VStr (js ''disposition_line'')"

fun is_boolean :: "jsval \<Rightarrow> bool" where
  "is_boolean (VBool b) = True"
| "is_boolean _ = False"

definition validateBalanceLedgerBusiness ::
  "JournalEntryDraft \<Rightarrow> JournalValidationError list + JournalEntryDraft" where
  "validateBalanceLedgerBusiness draft =
     (let (cashErrors, cashLine) =
            findSingleLine (je_lines draft) ''CASH_CLEARING'' ''BalanceLedger cash leg'';
          (advanceErrors, advanceLine) =
            findSingleLine (je_lines draft) ''CLIENT_ADVANCE_BALANCE'' ''BalanceLedger client advance leg'';
          isIncrease = meta draft ''isIncrease'' = VBool True in
      accept
        (push_if (je_sourceAction draft \<noteq> js ''posted'')
           (validationError INVALID_SOURCE_ACTION ''BalanceLedger sourceAction must be posted.''
              (js ''sourceAction'') [(''sourceAction'', VStr (je_sourceAction draft))]) @
         push_if (je_entryType draft \<noteq> js ''CLIENT_ADVANCE_LEDGER_RECORDED'')
           (validationError INVALID_SOURCE_ACTION
              ''BalanceLedger entryType must be CLIENT_ADVANCE_LEDGER_RECORDED.''
              (js ''entryType'') [(''entryType'', VStr (je_entryType draft))]) @
         push_if (meta draft ''ledgerType'' \<noteq> VStr (js ''CREDIT'') \<and> meta draft ''ledgerType'' \<noteq> VStr (js ''DEBIT''))
           (validationError UNSUPPORTED_BUSINESS_RULE
              ''BalanceLedger ADJUST/REFUND is not approved for journal posting.''
              (js ''metadata.ledgerType'') [(''ledgerType'', meta draft ''ledgerType'')]) @
         push_if (isDispositionLineBalanceLedgerMetadata (meta draft ''balanceLedgerSource'')
             (meta draft ''balanceLedgerSourceId''))
           (validationError UNSUPPORTED_BUSINESS_RULE
              ''Correlated disposition_line BalanceLedger must not be a direct journal source.''
              (js ''metadata.balanceLedgerSource'')
              [(''balanceLedgerSource'', meta draft ''balanceLedgerSource''),
               (''balanceLedgerSourceId'', meta draft ''balanceLedgerSourceId'')]) @
         push_if (\<not> is_boolean (meta draft ''isIncrease''))
           (validationError MISSING_REQUIRED_FIELD ''BalanceLedger journal metadata requires isIncrease.''
              (js ''metadata.isIncrease'') []) @
         line_count_error 2 ''BalanceLedger journal must contain exactly cash and client advance legs.'' draft @
         cashErrors @ advanceErrors @
         check_leg cashLine (validateBalanceLedgerLine draft (if isIncrease then DEBIT else CREDIT)) @
         check_leg advanceLine (validateBalanceLedgerLine draft (if isIncrease then CREDIT else DEBIT)))
        draft)"

subsection \<open>Expenses\<close>

definition validateExpenseRequestLine ::
  "JournalEntryDraft \<Rightarrow> jstr \<Rightarrow> JournalLineDraft \<Rightarrow> JournalValidationError list" where
  "validateExpenseRequestLine draft expectedDirection line =
     leg_direction_error ''ExpenseRequest journal leg has invalid direction.'' line expectedDirection @
     missing_dimension (ln_caseId line) ''ExpenseRequest journal line requires caseId.'' line ''.caseId'' @
     case_mismatch ''ExpenseRequest journal line caseId must match entry caseId.'' draft line @
     missing_dimension (ln_clientId line) ''ExpenseRequest journal line requires clientId.'' line ''.clientId'' @
     source_dimension (ln_expenseRequestId line)
       ''ExpenseRequest journal line must carry expenseRequestId from sourceId.'' draft line
       ''.expenseRequestId'' ''expectedExpenseRequestId'' ''expenseRequestId'' @
     forbidden_dimensions ''ExpenseRequest journal line must not carry unrelated source dimensions.'' line
       [(''caseClientId'', ln_caseClientId line), (''collectionId'', ln_collectionId line),
        (''dispositionLineId'', ln_dispositionLineId line), (''payoutId'', ln_payoutId line),
        (''offsetId'', ln_offsetId line), (''expensePaymentId'', ln_expensePaymentId line),
        (''expenseApplicationId'', ln_expenseApplicationId line),
        (''balanceLedgerId'', ln_balanceLedgerId line)]"

definition validateExpenseRequestBusiness ::
  "JournalEntryDraft \<Rightarrow> JournalValidationError list + JournalEntryDraft" where
  "validateExpenseRequestBusiness draft =
     (let isRecorded = je_sourceAction draft = js ''recorded'';
          isCancel = je_sourceAction draft = js ''cancel'';
          expectedEntryType = (if isRecorded then js ''EXPENSE_REQUEST_RECORDED''
                               else js ''EXPENSE_REQUEST_CANCELLED'');
          invalidReversalReference =
            (case je_reversalOf draft of None \<Rightarrow> True
             | Some r \<Rightarrow> rv_sourceType r \<noteq> js ''EXPENSE_REQUEST'' \<or> rv_sourceId r \<noteq> je_sourceId draft \<or>
                 rv_sourceAction r \<noteq> js ''recorded'');
          (receivableErrors, receivableLine) =
            findSingleLine (je_lines draft) ''CLIENT_EXPENSE_RECEIVABLE'' ''ExpenseRequest receivable leg'';
          (reimbursementErrors, reimbursementLine) =
            findSingleLine (je_lines draft) ''FIRM_EXPENSE_REIMBURSEMENT'' ''ExpenseRequest reimbursement leg'' in
      accept
        (push_if (\<not> isRecorded \<and> \<not> isCancel)
           (validationError INVALID_SOURCE_ACTION
              ''ExpenseRequest journal sourceAction must be recorded or cancel.''
              (js ''sourceAction'') [(''sourceAction'', VStr (je_sourceAction draft))]) @
         push_if ((isRecorded \<or> isCancel) \<and> je_entryType draft \<noteq> expectedEntryType)
           (validationError INVALID_SOURCE_ACTION ''ExpenseRequest entryType must match sourceAction.''
              (js ''entryType'')
              [(''expectedEntryType'', VStr expectedEntryType), (''entryType'', VStr (je_entryType draft))]) @
         push_if (isRecorded \<and> je_reversalOf draft \<noteq> None)
           (validationError UNSUPPORTED_BUSINESS_RULE
              ''ExpenseRequest recorded journal must not carry reversal reference.'' (js ''reversalOf'')
              (reversal_details (je_reversalOf draft))) @
         push_if (isCancel \<and> invalidReversalReference)
           (validationError UNSUPPORTED_BUSINESS_RULE
              ''ExpenseRequest cancel journal must reference the original recorded source.'' (js ''reversalOf'')
              (reversal_details (je_reversalOf draft) @ [(''sourceId'', VStr (je_sourceId draft))])) @
         line_count_error 2
           ''ExpenseRequest journal must contain exactly receivable and reimbursement legs.'' draft @
         receivableErrors @ reimbursementErrors @
         check_leg receivableLine (validateExpenseRequestLine draft (if isRecorded then DEBIT else CREDIT)) @
         check_leg reimbursementLine (validateExpenseRequestLine draft (if isRecorded then CREDIT else DEBIT)))
        draft)"

definition validateExpensePaymentLine ::
  "JournalEntryDraft \<Rightarrow> jstr \<Rightarrow> JournalLineDraft \<Rightarrow> JournalValidationError list" where
  "validateExpensePaymentLine draft expectedDirection line =
     leg_direction_error ''ExpensePayment journal leg has invalid direction.'' line expectedDirection @
     missing_dimension (ln_caseId line) ''ExpensePayment journal line requires caseId.'' line ''.caseId'' @
     case_mismatch ''ExpensePayment journal line caseId must match entry caseId.'' draft line @
     missing_dimension (ln_clientId line) ''ExpensePayment journal line requires clientId.'' line ''.clientId'' @
     missing_dimension (ln_expenseRequestId line) ''ExpensePayment journal line requires expenseRequestId.''
       line ''.expenseRequestId'' @
     source_dimension (ln_expensePaymentId line)
       ''ExpensePayment journal line must carry expensePaymentId from sourceId.'' draft line
       ''.expensePaymentId'' ''expectedExpensePaymentId'' ''expensePaymentId'' @
     forbidden_dimensions ''ExpensePayment journal line must not carry unrelated source dimensions.'' line
       [(''caseClientId'', ln_caseClientId line), (''collectionId'', ln_collectionId line),
        (''dispositionLineId'', ln_dispositionLineId line), (''payoutId'', ln_payoutId line),
        (''offsetId'', ln_offsetId line), (''expenseApplicationId'', ln_expenseApplicationId line),
        (''balanceLedgerId'', ln_balanceLedgerId line)]"

definition validateExpensePaymentBusiness ::
  "JournalEntryDraft \<Rightarrow> JournalValidationError list + JournalEntryDraft" where
  "validateExpensePaymentBusiness draft =
     (let (cashErrors, cashLine) =
            findSingleLine (je_lines draft) ''CASH_CLEARING'' ''ExpensePayment cash leg'';
          (receivableErrors, receivableLine) =
            findSingleLine (je_lines draft) ''CLIENT_EXPENSE_RECEIVABLE'' ''ExpensePayment receivable leg'' in
      accept
        (push_if (je_sourceAction draft \<noteq> js ''recorded'')
           (validationError INVALID_SOURCE_ACTION ''ExpensePayment sourceAction must be recorded.''
              (js ''sourceAction'') [(''sourceAction'', VStr (je_sourceAction draft))]) @
         push_if (je_entryType draft \<noteq> js ''EXPENSE_PAYMENT_RECORDED'')
           (validationError INVALID_SOURCE_ACTION ''ExpensePayment entryType must be EXPENSE_PAYMENT_RECORDED.''
              (js ''entryType'') [(''entryType'', VStr (je_entryType draft))]) @
         push_if (je_reversalOf draft \<noteq> None)
           (validationError UNSUPPORTED_BUSINESS_RULE
              ''ExpensePayment recorded journal must not carry reversal reference.'' (js ''reversalOf'')
              (reversal_details (je_reversalOf draft))) @
         line_count_error 2 ''ExpensePayment journal must contain exactly cash and expense receivable legs.'' draft @
         cashErrors @ receivableErrors @
         check_leg cashLine (validateExpensePaymentLine draft DEBIT) @
         check_leg receivableLine (validateExpensePaymentLine draft CREDIT))
        draft)"

definition validateCollectionDispositionExpenseApplicationLine ::
  "JournalEntryDraft \<Rightarrow> jstr \<Rightarrow> JournalLineDraft \<Rightarrow> JournalValidationError list" where
  "validateCollectionDispositionExpenseApplicationLine draft expectedDirection line =
     (let expectedDispositionLineId = text_or_null (meta draft ''collectionDispositionLineId'') in
      leg_direction_error ''Expense application journal leg has invalid direction.'' line expectedDirection @
      missing_dimension (ln_caseId line) ''Expense application journal line requires caseId.'' line ''.caseId'' @
      case_mismatch ''Expense application journal line caseId must match entry caseId.'' draft line @
      missing_dimension (ln_clientId line) ''Expense application journal line requires clientId.'' line
        ''.clientId'' @
      missing_dimension (ln_expenseRequestId line)
        ''Expense application journal line requires expenseRequestId.'' line ''.expenseRequestId'' @
      source_dimension (ln_expenseApplicationId line)
        ''Expense application journal line must carry expenseApplicationId from sourceId.'' draft line
        ''.expenseApplicationId'' ''expectedExpenseApplicationId'' ''expenseApplicationId'' @
      (if \<not> truthy (ln_dispositionLineId line)
       then [validationError MISSING_REQUIRED_DIMENSION
               ''Expense application journal line requires dispositionLineId.''
               (no_path line ''.dispositionLineId'') []]
       else push_if (truthy expectedDispositionLineId \<and> ln_dispositionLineId line \<noteq> expectedDispositionLineId)
         (validationError UNSUPPORTED_BUSINESS_RULE
            ''Expense application journal line dispositionLineId must match metadata collectionDispositionLineId.''
            (no_path line ''.dispositionLineId'')
            [(''expectedDispositionLineId'', or_null expectedDispositionLineId),
             (''dispositionLineId'', or_null (ln_dispositionLineId line))])) @
      forbidden_dimensions ''Expense application journal line must not carry unrelated source dimensions.'' line
        [(''caseClientId'', ln_caseClientId line), (''payoutId'', ln_payoutId line),
         (''offsetId'', ln_offsetId line), (''expensePaymentId'', ln_expensePaymentId line),
         (''balanceLedgerId'', ln_balanceLedgerId line)])"

definition validateCollectionDispositionExpenseApplicationBusiness ::
  "JournalEntryDraft \<Rightarrow> JournalValidationError list + JournalEntryDraft" where
  "validateCollectionDispositionExpenseApplicationBusiness draft =
     (let isApply = je_sourceAction draft = js ''apply'';
          isReversal = je_sourceAction draft = js ''reversal'';
          expectedEntryType = (if isApply then js ''COLLECTION_DISPOSITION_EXPENSE_APPLICATION_APPLIED''
                               else js ''COLLECTION_DISPOSITION_EXPENSE_APPLICATION_REVERSED'');
          expectedOriginalId = text_or_null (meta draft ''reversesApplicationId'');
          invalidReversalReference =
            (case je_reversalOf draft of None \<Rightarrow> True
             | Some r \<Rightarrow> rv_sourceType r \<noteq> js ''COLLECTION_DISPOSITION_EXPENSE_APPLICATION'' \<or>
                 rv_sourceAction r \<noteq> js ''apply'' \<or> rv_sourceId r = [] \<or>
                 rv_sourceId r = je_sourceId draft \<or>
                 (expectedOriginalId \<noteq> None \<and> Some (rv_sourceId r) \<noteq> expectedOriginalId));
          reimbursementScope = meta draft ''reimbursementScope'';
          reimbursementAccount =
            (if reimbursementScope = VStr (js ''CLIENT_FRONTED'') then Some ''CLIENT_EXPENSE_REIMBURSEMENT_PAYABLE''
             else if reimbursementScope = VStr (js ''FIRM_FRONTED'') then Some ''FIRM_EXPENSE_REIMBURSEMENT''
             else None);
          (receivableErrors, receivableLine) =
            findSingleLine (je_lines draft) ''CLIENT_EXPENSE_RECEIVABLE'' ''Expense application receivable leg'';
          (reimbursementErrors, reimbursementLine) =
            (case reimbursementAccount of None \<Rightarrow> ([], None)
             | Some account \<Rightarrow>
                 findSingleLine (je_lines draft) account ''Expense application reimbursement leg'') in
      accept
        (push_if (\<not> isApply \<and> \<not> isReversal)
           (validationError INVALID_SOURCE_ACTION
              ''CollectionDispositionExpenseApplication sourceAction must be apply or reversal.''
              (js ''sourceAction'') [(''sourceAction'', VStr (je_sourceAction draft))]) @
         push_if ((isApply \<or> isReversal) \<and> je_entryType draft \<noteq> expectedEntryType)
           (validationError INVALID_SOURCE_ACTION
              ''CollectionDispositionExpenseApplication entryType must match sourceAction.''
              (js ''entryType'')
              [(''expectedEntryType'', VStr expectedEntryType), (''entryType'', VStr (je_entryType draft))]) @
         push_if (isApply \<and> je_reversalOf draft \<noteq> None)
           (validationError UNSUPPORTED_BUSINESS_RULE
              ''Expense application APPLY journal must not carry reversal reference.'' (js ''reversalOf'')
              (reversal_details (je_reversalOf draft))) @
         push_if (isReversal \<and> invalidReversalReference)
           (validationError UNSUPPORTED_BUSINESS_RULE
              ''Expense application REVERSAL journal must reference the original APPLY source.''
              (js ''reversalOf'')
              (reversal_details (je_reversalOf draft) @
               [(''expectedOriginalId'', or_null expectedOriginalId), (''sourceId'', VStr (je_sourceId draft))])) @
         line_count_error 2
           ''Expense application journal must contain exactly reimbursement and expense receivable legs.'' draft @
         push_if (\<not> truthy (text_or_null (meta draft ''collectionDispositionId'')))
           (validationError MISSING_REQUIRED_DIMENSION
              ''Expense application journal metadata requires collectionDispositionId.''
              (js ''metadata.collectionDispositionId'') []) @
         push_if (\<not> truthy (text_or_null (meta draft ''collectionDispositionLineId'')))
           (validationError MISSING_REQUIRED_DIMENSION
              ''Expense application journal metadata requires collectionDispositionLineId.''
              (js ''metadata.collectionDispositionLineId'') []) @
         push_if (reimbursementAccount = None)
           (validationError UNSUPPORTED_BUSINESS_RULE
              ''Expense application reimbursementScope must map to a reimbursement account.''
              (js ''metadata.reimbursementScope'') [(''reimbursementScope'', reimbursementScope)]) @
         receivableErrors @ reimbursementErrors @
         check_leg receivableLine (validateCollectionDispositionExpenseApplicationLine draft
           (if isApply then CREDIT else DEBIT)) @
         check_leg reimbursementLine (validateCollectionDispositionExpenseApplicationLine draft
           (if isApply then DEBIT else CREDIT)))
        draft)"

subsection \<open>Reversals and manual adjustments\<close>

definition validateAccountingJournalReversalBusiness ::
  "JournalEntryDraft \<Rightarrow> JournalValidationError list + JournalEntryDraft" where
  "validateAccountingJournalReversalBusiness draft =
     accept
       (push_if (je_entryType draft \<noteq> js ''ACCOUNTING_JOURNAL_REVERSAL'')
          (validationError INVALID_SOURCE_ACTION
             ''AccountingJournalEntry reversal entryType must be ACCOUNTING_JOURNAL_REVERSAL.''
             (js ''entryType'') [(''entryType'', VStr (je_entryType draft))]) @
        push_if (case je_reversalOf draft of None \<Rightarrow> True
                 | Some r \<Rightarrow> rv_journalEntryId r \<noteq> Some (je_sourceId draft))
          (validationError UNSUPPORTED_BUSINESS_RULE
             ''AccountingJournalEntry reversal must reference the original journal entry id.''
             (js ''reversalOf'')
             [(''sourceId'', VStr (je_sourceId draft)),
              (''reversalJournalEntryId'', or_null (Option.bind (je_reversalOf draft) rv_journalEntryId))]) @
        push_if (case je_reversalOf draft of None \<Rightarrow> False
                 | Some r \<Rightarrow> rv_sourceType r = js ''ACCOUNTING_JOURNAL_ENTRY'' \<and>
                     rv_sourceAction r = js ''reversal'')
          (validationError UNSUPPORTED_BUSINESS_RULE
             ''AccountingJournalEntry reversal cannot reverse another reversal source.'' (js ''reversalOf'')
             [(''reversalSourceType'', or_null (map_option rv_sourceType (je_reversalOf draft))),
              (''reversalSourceAction'', or_null (map_option rv_sourceAction (je_reversalOf draft)))]) @
        push_if (je_lines draft = [])
          (validationError INVALID_LINE_SHAPE
             ''AccountingJournalEntry reversal must contain inverse lines.'' (js ''lines'') []))
       draft"

definition financial_dimensions :: "JournalLineDraft \<Rightarrow> (string \<times> jstr option) list" where
  "financial_dimensions line =
     [(''collectionId'', ln_collectionId line), (''dispositionLineId'', ln_dispositionLineId line),
      (''payoutId'', ln_payoutId line), (''offsetId'', ln_offsetId line),
      (''expenseRequestId'', ln_expenseRequestId line), (''expensePaymentId'', ln_expensePaymentId line),
      (''expenseApplicationId'', ln_expenseApplicationId line),
      (''balanceLedgerId'', ln_balanceLedgerId line)]"

record AdjustmentState =
  as_errors :: "JournalValidationError list"
  as_debitTotal :: int
  as_creditTotal :: int
  as_hasInvalidLineAmount :: bool

definition adjustment_line :: "AdjustmentState \<Rightarrow> nat \<times> JournalLineDraft \<Rightarrow> AdjustmentState" where
  "adjustment_line st p =
     (case p of (index, line) \<Rightarrow>
      let parsedLineAmount = parseMoney (ln_amount line);
          st = (if pm_errorCode parsedLineAmount \<noteq> None then st\<lparr>as_hasInvalidLineAmount := True\<rparr>
                else if ln_direction line = DEBIT
                then st\<lparr>as_debitTotal := as_debitTotal st + pm_cents parsedLineAmount\<rparr>
                else if ln_direction line = CREDIT
                then st\<lparr>as_creditTotal := as_creditTotal st + pm_cents parsedLineAmount\<rparr>
                else st) in
      st\<lparr>as_errors := as_errors st @
           concat (map (\<lambda>(field, value). push_if (value \<noteq> None)
             (validationError FORBIDDEN_SYNTHETIC_DIMENSION
                ''AccountingJournalEntry manual adjustment lines must not carry source-specific financial dimensions.''
                (line_path (js_of_nat index) (CHR ''.'' # field))
                [(''field'', VStr (js field)), (''value'', or_null value)])) (financial_dimensions line))\<rparr>)"

definition validateAccountingJournalManualAdjustmentBusiness ::
  "JournalEntryDraft \<Rightarrow> JournalValidationError list + JournalEntryDraft" where
  "validateAccountingJournalManualAdjustmentBusiness draft =
     (let reason = meta draft ''reason'';
          adjustmentAmount = meta draft ''adjustmentAmount'';
          parsedAdjustmentAmount = map_option parseMoney (text_or_null adjustmentAmount);
          st = foldl adjustment_line
                 \<lparr>as_errors = [], as_debitTotal = 0, as_creditTotal = 0, as_hasInvalidLineAmount = False\<rparr>
                 (indexed (je_lines draft)) in
      accept
        (push_if (je_entryType draft \<noteq> js ''ACCOUNTING_JOURNAL_MANUAL_ADJUSTMENT'')
           (validationError INVALID_SOURCE_ACTION
              ''AccountingJournalEntry manual adjustment entryType must be ACCOUNTING_JOURNAL_MANUAL_ADJUSTMENT.''
              (js ''entryType'') [(''entryType'', VStr (je_entryType draft))]) @
         push_if (je_reversalOf draft \<noteq> None)
           (validationError UNSUPPORTED_BUSINESS_RULE
              ''AccountingJournalEntry manual adjustment must not carry reversal reference.'' (js ''reversalOf'')
              (reversal_details (je_reversalOf draft))) @
         push_if (length (je_lines draft) < 2)
           (validationError INVALID_LINE_SHAPE
              ''AccountingJournalEntry manual adjustment must contain at least two lines.'' (js ''lines'')
              [(''lineCount'', VNum (js_int (int (length (je_lines draft)))))]) @
         push_if (case text_or_null reason of None \<Rightarrow> True | Some r \<Rightarrow> js_trim r = [])
           (validationError MISSING_REQUIRED_FIELD
              ''AccountingJournalEntry manual adjustment requires reason.'' (js ''metadata.reason'') []) @
         (case parsedAdjustmentAmount of
            None \<Rightarrow> [validationError MISSING_REQUIRED_FIELD
              ''AccountingJournalEntry manual adjustment requires adjustmentAmount.''
              (js ''metadata.adjustmentAmount'') []]
          | Some parsed \<Rightarrow>
              (case pm_errorCode parsed of None \<Rightarrow> []
               | Some code \<Rightarrow> [validationError code
                   ''AccountingJournalEntry manual adjustment amount must be positive with max 2 decimal places.''
                   (js ''metadata.adjustmentAmount'') [(''amount'', adjustmentAmount)]])) @
         as_errors st @
         (case parsedAdjustmentAmount of None \<Rightarrow> []
          | Some parsed \<Rightarrow>
              push_if (pm_errorCode parsed = None \<and> \<not> as_hasInvalidLineAmount st \<and>
                  (as_debitTotal st \<noteq> pm_cents parsed \<or> as_creditTotal st \<noteq> pm_cents parsed))
                (validationError INVALID_AMOUNT
                   ''AccountingJournalEntry manual adjustment amount must equal debit and credit totals.''
                   (js ''metadata.adjustmentAmount'')
                   [(''amountCents'', VStr (js_of_int (pm_cents parsed))),
                    (''debitCents'', VStr (js_of_int (as_debitTotal st))),
                    (''creditCents'', VStr (js_of_int (as_creditTotal st)))])))
        draft)"

definition validateAccountingJournalEntryBusiness ::
  "JournalEntryDraft \<Rightarrow> JournalValidationError list + JournalEntryDraft" where
  "validateAccountingJournalEntryBusiness draft =
     (if je_sourceAction draft = js ''manual-adjustment''
      then validateAccountingJournalManualAdjustmentBusiness draft
      else if je_sourceAction draft \<noteq> js ''reversal''
      then Inl [validationError INVALID_SOURCE_ACTION
        ''AccountingJournalEntry journal sourceAction must be reversal or manual-adjustment.''
        (js ''sourceAction'') [(''sourceAction'', VStr (je_sourceAction draft))]]
      else validateAccountingJournalReversalBusiness draft)"

subsection \<open>Payouts and offsets\<close>

definition validateClientPayoutLine ::
  "JournalEntryDraft \<Rightarrow> jstr \<Rightarrow> JournalLineDraft \<Rightarrow> JournalValidationError list" where
  "validateClientPayoutLine draft expectedDirection line =
     leg_direction_error ''ClientPayout journal leg has invalid direction.'' line expectedDirection @
     missing_dimension (ln_caseId line) ''ClientPayout journal line requires caseId.'' line ''.caseId'' @
     case_mismatch ''ClientPayout journal line caseId must match entry caseId.'' draft line @
     missing_dimension (ln_caseClientId line) ''ClientPayout journal line requires caseClientId.'' line
       ''.caseClientId'' @
     source_dimension (ln_payoutId line) ''ClientPayout journal line must carry payoutId from sourceId.''
       draft line ''.payoutId'' ''expectedPayoutId'' ''payoutId'' @
     forbidden_dimensions ''ClientPayout journal line must not carry unrelated source dimensions.'' line
       [(''collectionId'', ln_collectionId line), (''dispositionLineId'', ln_dispositionLineId line),
        (''offsetId'', ln_offsetId line), (''expenseRequestId'', ln_expenseRequestId line),
        (''expensePaymentId'', ln_expensePaymentId line),
        (''expenseApplicationId'', ln_expenseApplicationId line),
        (''balanceLedgerId'', ln_balanceLedgerId line)]"

definition validateClientPayoutBusiness ::
  "JournalEntryDraft \<Rightarrow> JournalValidationError list + JournalEntryDraft" where
  "validateClientPayoutBusiness draft =
     (let (payableErrors, payableLine) =
            findSingleLine (je_lines draft) ''CLIENT_PAYABLE'' ''ClientPayout payable leg'';
          (cashErrors, cashLine) =
            findSingleLine (je_lines draft) ''CASH_CLEARING'' ''ClientPayout cash leg'' in
      accept
        (push_if (je_sourceAction draft \<noteq> js ''recorded'')
           (validationError INVALID_SOURCE_ACTION ''ClientPayout sourceAction must be recorded.''
              (js ''sourceAction'') [(''sourceAction'', VStr (je_sourceAction draft))]) @
         push_if (je_entryType draft \<noteq> js ''CLIENT_PAYOUT_RECORDED'')
           (validationError INVALID_SOURCE_ACTION ''ClientPayout entryType must be CLIENT_PAYOUT_RECORDED.''
              (js ''entryType'') [(''entryType'', VStr (je_entryType draft))]) @
         line_count_error 2 ''ClientPayout journal must contain exactly payable and cash legs.'' draft @
         payableErrors @ cashErrors @
         check_leg payableLine (validateClientPayoutLine draft DEBIT) @
         check_leg cashLine (validateClientPayoutLine draft CREDIT))
        draft)"

text \<open>\<open>payable\<close> tells the rule of the payable leg from that of the expense leg.\<close>

definition validateClientOffsetLine ::
  "JournalEntryDraft \<Rightarrow> bool \<Rightarrow> jstr \<Rightarrow> JournalLineDraft \<Rightarrow> JournalValidationError list" where
  "validateClientOffsetLine draft payable expectedDirection line =
     (let leg = ''ClientOffset '' @ (if payable then ''payable'' else ''expense'') @ '' leg '' in
      leg_direction_error (leg @ ''has invalid direction.'') line expectedDirection @
      missing_dimension (ln_caseId line) (leg @ ''requires caseId.'') line ''.caseId'' @
      missing_dimension (ln_clientId line) (leg @ ''requires clientId.'') line ''.clientId'' @
      source_dimension (ln_offsetId line) (leg @ ''must carry offsetId from sourceId.'') draft line
        ''.offsetId'' ''expectedOffsetId'' ''offsetId'' @
      push_if (payable \<and> \<not> truthy (ln_caseClientId line))
        (validationError MISSING_REQUIRED_DIMENSION ''ClientOffset payable leg requires payable caseClientId.''
           (no_path line ''.caseClientId'') []) @
      push_if (\<not> payable \<and> ln_caseClientId line \<noteq> None)
        (validationError FORBIDDEN_SYNTHETIC_DIMENSION ''ClientOffset expense leg caseClientId must be null.''
           (no_path line ''.caseClientId'') [(''caseClientId'', or_null (ln_caseClientId line))]))"

definition validateClientOffsetBusiness ::
  "JournalEntryDraft \<Rightarrow> JournalValidationError list + JournalEntryDraft" where
  "validateClientOffsetBusiness draft =
     (let isApply = je_sourceAction draft = js ''apply'';
          isReversal = je_sourceAction draft = js ''reversal'';
          expectedEntryType = (if isApply then js ''CLIENT_OFFSET_APPLIED'' else js ''CLIENT_OFFSET_REVERSED'');
          invalidReversalReference =
            (case je_reversalOf draft of None \<Rightarrow> True
             | Some r \<Rightarrow> rv_sourceType r \<noteq> js ''CLIENT_OFFSET'' \<or> rv_sourceAction r \<noteq> js ''apply'' \<or>
                 rv_sourceId r = [] \<or> rv_sourceId r = je_sourceId draft);
          (payableErrors, payableLine) =
            findSingleLine (je_lines draft) ''CLIENT_PAYABLE'' ''CLIENT_OFFSET payable leg'';
          (expenseErrors, expenseLine) =
            findSingleLine (je_lines draft) ''CLIENT_EXPENSE_RECEIVABLE'' ''CLIENT_OFFSET expense leg'' in
      accept
        (push_if (\<not> isApply \<and> \<not> isReversal)
           (validationError INVALID_SOURCE_ACTION ''ClientOffset journal sourceAction must be apply or reversal.''
              (js ''sourceAction'') [(''sourceAction'', VStr (je_sourceAction draft))]) @
         push_if ((isApply \<or> isReversal) \<and> je_entryType draft \<noteq> expectedEntryType)
           (validationError INVALID_SOURCE_ACTION ''ClientOffset entryType must match sourceAction.''
              (js ''entryType'')
              [(''expectedEntryType'', VStr expectedEntryType), (''entryType'', VStr (je_entryType draft))]) @
         push_if (isApply \<and> je_reversalOf draft \<noteq> None)
           (validationError UNSUPPORTED_BUSINESS_RULE
              ''ClientOffset APPLY journal must not carry reversal reference.'' (js ''reversalOf'')
              (reversal_details (je_reversalOf draft))) @
         push_if (isReversal \<and> invalidReversalReference)
           (validationError UNSUPPORTED_BUSINESS_RULE
              ''ClientOffset REVERSAL journal must reference the original APPLY source.'' (js ''reversalOf'')
              (reversal_details (je_reversalOf draft) @ [(''sourceId'', VStr (je_sourceId draft))])) @
         payableErrors @ expenseErrors @
         line_count_error 2 ''ClientOffset journal must contain exactly payable and expense legs.'' draft @
         check_leg payableLine (validateClientOffsetLine draft True (if isApply then DEBIT else CREDIT)) @
         check_leg expenseLine (validateClientOffsetLine draft False (if isApply then CREDIT else DEBIT)))
        draft)"

subsection \<open>The dispatch\<close>

definition validateJournalBusiness ::
  "JournalEntryDraft \<Rightarrow> JournalValidationError list + JournalEntryDraft" where
  "validateJournalBusiness draft =
     (if je_sourceType draft = js ''COLLECTION'' then validateCollectionBusiness draft
      else if je_sourceType draft = js ''CLIENT_OFFSET'' then validateClientOffsetBusiness draft
      else if je_sourceType draft = js ''COLLECTION_DISPOSITION_LINE''
      then validateCollectionDispositionLineBusiness draft
      else if je_sourceType draft = js ''CLIENT_PAYOUT'' then validateClientPayoutBusiness draft
      else if je_sourceType draft = js ''BALANCE_LEDGER'' then validateBalanceLedgerBusiness draft
      else if je_sourceType draft = js ''EXPENSE_REQUEST'' then validateExpenseRequestBusiness draft
      else if je_sourceType draft = js ''EXPENSE_PAYMENT'' then validateExpensePaymentBusiness draft
      else if je_sourceType draft = js ''COLLECTION_DISPOSITION_EXPENSE_APPLICATION''
      then validateCollectionDispositionExpenseApplicationBusiness draft
      else if je_sourceType draft = js ''ACCOUNTING_JOURNAL_ENTRY''
      then validateAccountingJournalEntryBusiness draft
      else Inr draft)"

definition validated_draft :: "JournalEntryDraft \<Rightarrow> ValidatedJournalEntryDraft" where
  "validated_draft draft = JournalEntryDraft.extend draft \<lparr>jv_structural = True, jv_business = True\<rparr>"

definition validateJournalDraft ::
  "JournalEntryDraft \<Rightarrow> JournalValidationError list + ValidatedJournalEntryDraft" where
  "validateJournalDraft draft =
     (case validateJournalStructure draft of
        Inl errors \<Rightarrow> Inl errors
      | Inr _ \<Rightarrow>
        (case validateJournalBusiness draft of
           Inl errors \<Rightarrow> Inl errors
         | Inr _ \<Rightarrow> Inr (validated_draft draft)))"

end
