(* ===== verification/JournalSound.thy ===== *)
theory JournalSound
  imports JournalValidator
begin

section \<open>What a valid journal draft is\<close>

text \<open>
  The structural validation is described by a predicate: it accepts exactly the drafts with complete
  texts, positive amounts of at most two decimals, distinct positive line numbers, one tenant, one
  currency, and equal totals of debits and credits. The drafts of the builder are then classified:
  which events yield a draft that both validations accept.
\<close>

subsection \<open>Amounts\<close>

definition money_ok :: "MoneyAmount \<Rightarrow> bool" where
  "money_ok a \<longleftrightarrow> pm_errorCode (parseMoney a) = None"

definition cents :: "MoneyAmount \<Rightarrow> int" where
  "cents a = pm_cents (parseMoney a)"

lemma money_ok_pos: "money_ok a \<Longrightarrow> 0 < cents a"
  by (auto simp: money_ok_def cents_def parseMoney_def Let_def split: option.splits if_splits)

lemma money_ok_text: "money_ok a \<Longrightarrow> a \<noteq> []"
  by (auto simp: money_ok_def parseMoney_def money_parts_def)

text \<open>The amount with two decimals, as \<open>toFixed(2)\<close> of a stored decimal writes it.\<close>

definition fixed2 :: "int \<Rightarrow> MoneyAmount" where
  "fixed2 c = js_of_nat (nat (c div 100)) @ 46 # [48 + nat (c mod 100) div 10, 48 + nat (c mod 100) mod 10]"

lemma takeWhile_digits:
  assumes "list_all js_digit w" "\<not> js_digit u"
  shows "takeWhile js_digit (w @ u # r) = w" "dropWhile js_digit (w @ u # r) = u # r"
  using assms by (induction w) auto

lemma parse_fixed2: "0 < c \<Longrightarrow> money_ok (fixed2 c) \<and> cents (fixed2 c) = c"
proof -
  assume c: "0 < c"
  let ?w = "js_of_nat (nat (c div 100))" and ?m = "nat (c mod 100)"
  let ?f = "[48 + ?m div 10, 48 + ?m mod 10]"
  have m: "?m < 100" by (simp add: nat_less_iff)
  then have digits: "js_digit (48 + ?m div 10)" "js_digit (48 + ?m mod 10)" "\<not> js_digit 46"
    by (auto simp: js_digit_def)
  have "money_parts (fixed2 c) = Some (?w, ?f)"
    using takeWhile_digits [OF js_of_nat_digits digits(3), of "nat (c div 100)" ?f] digits
    by (simp add: money_parts_def fixed2_def Let_def)
  moreover have "digits_val ?f = ?m"
    using m by (simp add: digits_val_def)
  then have "int (digits_val ?w) * 100 + int (digits_val (padEnd ?f 2 48)) = c"
    using c by (simp add: padEnd_def pos_imp_zdiv_nonneg_iff)
  ultimately show ?thesis using c by (simp add: money_ok_def cents_def parseMoney_def)
qed

subsection \<open>Structure\<close>

definition debits :: "JournalLineDraft list \<Rightarrow> int" where
  "debits lines = sum_list (map (\<lambda>l. if ln_direction l = DEBIT then cents (ln_amount l) else 0) lines)"

definition credits :: "JournalLineDraft list \<Rightarrow> int" where
  "credits lines = sum_list (map (\<lambda>l. if ln_direction l = CREDIT then cents (ln_amount l) else 0) lines)"

lemma debits_simps [simp]:
  "debits [] = 0" "debits (l # ls) = (if ln_direction l = DEBIT then cents (ln_amount l) else 0) + debits ls"
  by (simp_all add: debits_def)

lemma credits_simps [simp]:
  "credits [] = 0" "credits (l # ls) = (if ln_direction l = CREDIT then cents (ln_amount l) else 0) + credits ls"
  by (simp_all add: credits_def)

definition line_number_ok :: "jsnum \<Rightarrow> bool" where
  "line_number_ok n \<longleftrightarrow> js_is_integer n \<and> js_less (js_int 0) n"

lemma line_number_ok_int [simp]: "line_number_ok (js_int i) \<longleftrightarrow> 0 < i"
  by (simp add: line_number_ok_def)

definition line_ok :: "JournalEntryDraft \<Rightarrow> JournalLineDraft \<Rightarrow> bool" where
  "line_ok draft line \<longleftrightarrow>
     line_number_ok (ln_lineNo line) \<and> ln_tenantId line \<noteq> [] \<and> ln_tenantId line = je_tenantId draft \<and>
     ln_accountCode line \<noteq> [] \<and> ln_direction line \<in> {DEBIT, CREDIT} \<and> money_ok (ln_amount line) \<and>
     ln_currency line \<noteq> [] \<and> ln_currency line = je_currency draft"

definition texts_ok :: "JournalEntryDraft \<Rightarrow> bool" where
  "texts_ok draft \<longleftrightarrow>
     [] \<notin> set [je_tenantId draft, je_sourceType draft, je_sourceId draft, je_sourceAction draft,
       je_sourceVersion draft, je_idempotencyKey draft, je_currency draft, je_sourceOccurredAt draft,
       je_effectiveDate draft]"

definition structure_ok :: "JournalEntryDraft \<Rightarrow> bool" where
  "structure_ok draft \<longleftrightarrow>
     texts_ok draft \<and> je_lines draft \<noteq> [] \<and> list_all (line_ok draft) (je_lines draft) \<and>
     distinct (map ln_lineNo (je_lines draft)) \<and> debits (je_lines draft) = credits (je_lines draft)"

lemma entry_text_errors_Nil: "entry_text_errors draft = [] \<longleftrightarrow> texts_ok draft"
  by (auto simp: entry_text_errors_def texts_ok_def)

lemma line_number_errors_Nil:
  "line_number_errors ns i line = [] \<longleftrightarrow> line_number_ok (ln_lineNo line) \<and> ln_lineNo line \<notin> set ns"
  by (auto simp: line_number_errors_def line_number_ok_def)

lemma line_text_errors_Nil:
  "line_text_errors draft i line = [] \<longleftrightarrow>
     ln_tenantId line \<noteq> [] \<and> ln_tenantId line = je_tenantId draft \<and> ln_accountCode line \<noteq> [] \<and>
     ln_direction line \<noteq> [] \<and> ln_amount line \<noteq> [] \<and> ln_currency line \<noteq> [] \<and>
     ln_currency line = je_currency draft"
  by (auto simp: line_text_errors_def)

lemma structure_line_errors:
  "ss_errors (structure_line draft st (i, line)) = [] \<longleftrightarrow>
     ss_errors st = [] \<and> line_ok draft line \<and> ln_lineNo line \<notin> set (ss_lineNos st)"
  using money_ok_text [of "ln_amount line"]
  by (auto simp: structure_line_def Let_def line_number_errors_Nil line_text_errors_Nil line_ok_def money_ok_def
      split: option.splits)

lemma structure_line_totals:
  assumes "ss_errors (structure_line draft st (i, line)) = []"
  shows "ss_debitTotal (structure_line draft st (i, line)) = ss_debitTotal st + debits [line]"
    and "ss_creditTotal (structure_line draft st (i, line)) = ss_creditTotal st + credits [line]"
    and "ss_lineNos (structure_line draft st (i, line)) = ln_lineNo line # ss_lineNos st"
    and "ss_currencies (structure_line draft st (i, line)) = set_add (ss_currencies st) (je_currency draft)"
  using assms [unfolded structure_line_errors]
  by (auto simp: structure_line_def Let_def line_number_errors_Nil line_ok_def money_ok_def cents_def
      split: option.splits)

lemma structure_loop_errors:
  "ss_errors (foldl (structure_line draft) st ps) = [] \<longleftrightarrow>
     ss_errors st = [] \<and> (\<forall>p \<in> set ps. line_ok draft (snd p)) \<and> distinct (map (ln_lineNo \<circ> snd) ps) \<and>
     (ln_lineNo \<circ> snd) ` set ps \<inter> set (ss_lineNos st) = {}"
proof (induction ps arbitrary: st)
  case (Cons p ps)
  obtain i line where p: "p = (i, line)" by force
  show ?case
  proof (cases "ss_errors (structure_line draft st p) = []")
    case True
    then have "ss_lineNos (structure_line draft st p) = ln_lineNo line # ss_lineNos st"
      by (simp add: p structure_line_totals)
    moreover have "ss_errors st = []" "line_ok draft line" "ln_lineNo line \<notin> set (ss_lineNos st)"
      using True by (simp_all add: p structure_line_errors)
    ultimately show ?thesis using True by (auto simp: Cons.IH p)
  next
    case False
    then show ?thesis by (auto simp: Cons.IH p structure_line_errors)
  qed
qed auto

lemma structure_loop_totals:
  "ss_errors (foldl (structure_line draft) st ps) = [] \<Longrightarrow>
   ss_currencies st = [] \<or> ss_currencies st = [je_currency draft] \<Longrightarrow>
   ss_debitTotal (foldl (structure_line draft) st ps) = ss_debitTotal st + debits (map snd ps) \<and>
   ss_creditTotal (foldl (structure_line draft) st ps) = ss_creditTotal st + credits (map snd ps) \<and>
   length (ss_currencies (foldl (structure_line draft) st ps)) \<le> 1"
proof (induction ps arbitrary: st)
  case (Cons p ps)
  obtain i line where p: "p = (i, line)" by force
  have e: "ss_errors (structure_line draft st p) = []" using Cons.prems(1) by (simp add: structure_loop_errors)
  note t = structure_line_totals [OF e [unfolded p]]
  have "ss_currencies (structure_line draft st p) = [] \<or>
      ss_currencies (structure_line draft st p) = [je_currency draft]"
    using Cons.prems(2) t(4) by (auto simp: p set_add_def)
  then show ?case using Cons.IH [of "structure_line draft st p"] Cons.prems(1) t(1,2) by (simp add: p)
qed auto

lemma structure_errors_Nil: "structure_errors draft = [] \<longleftrightarrow> structure_ok draft"
proof -
  let ?ps = "indexed (je_lines draft)"
  let ?start = "\<lparr>ss_errors = entry_text_errors draft @ push_if (je_lines draft = [])
      (validationError MISSING_REQUIRED_FIELD ''Journal draft must contain at least one line.'' (js ''lines'') []),
      ss_lineNos = [], ss_currencies = [], ss_debitTotal = 0, ss_creditTotal = 0\<rparr>"
  let ?st = "foldl (structure_line draft) ?start ?ps"
  have lines: "map snd ?ps = je_lines draft" by simp
  have "(\<forall>p \<in> set ?ps. line_ok draft (snd p)) \<longleftrightarrow> list_all (line_ok draft) (map snd ?ps)"
    by (simp add: list_all_iff del: map_snd_indexed)
  then have errs: "ss_errors ?st = [] \<longleftrightarrow> texts_ok draft \<and> je_lines draft \<noteq> [] \<and>
      list_all (line_ok draft) (je_lines draft) \<and> distinct (map ln_lineNo (je_lines draft))"
    by (simp add: structure_loop_errors entry_text_errors_Nil flip: map_map)
  show ?thesis
  proof (cases "ss_errors ?st = []")
    case True
    note t = structure_loop_totals [OF this]
    show ?thesis using True errs t by (auto simp: structure_errors_def Let_def structure_ok_def)
  next
    case False
    then show ?thesis using errs by (auto simp: structure_errors_def Let_def structure_ok_def)
  qed
qed

lemma structure_Inr [simp]: "validateJournalStructure draft = Inr d \<longleftrightarrow> d = draft \<and> structure_ok draft"
  by (auto simp: validateJournalStructure_def structure_errors_Nil)

lemma validateJournalDraft_Inr:
  "validateJournalDraft draft = Inr v \<longleftrightarrow>
     structure_ok draft \<and> validateJournalBusiness draft = Inr draft \<and> v = validated_draft draft"
proof -
  have "d = draft" if "validateJournalBusiness draft = Inr d" for d
    using that by (auto simp: validateJournalBusiness_def validateCollectionBusiness_def
        validateClientOffsetBusiness_def validateCollectionDispositionLineBusiness_def
        validateClientPayoutBusiness_def validateBalanceLedgerBusiness_def validateExpenseRequestBusiness_def
        validateExpensePaymentBusiness_def validateCollectionDispositionExpenseApplicationBusiness_def
        validateAccountingJournalEntryBusiness_def validateAccountingJournalReversalBusiness_def
        validateAccountingJournalManualAdjustmentBusiness_def Let_def split: if_split_asm prod.split_asm)
  then show ?thesis
    by (auto simp: validateJournalDraft_def guard_simps split: sum.splits)
qed

end
