(* ===== verification/JournalBuilt.thy ===== *)
theory JournalBuilt
  imports JournalSound
begin

section \<open>The drafts of the builder pass the validators\<close>

text \<open>
  For every source type the drafts of the builder that both validations accept are described by a
  predicate on the source, \<open>source_complete\<close>: the texts, the amount and the dimensions the type
  needs. Nothing else can go wrong between the two components.
\<close>

subsection \<open>Drafts that were built\<close>

lemma buildError_Inr [simp]: "buildError code message path details \<noteq> Inr d"
  by (simp add: buildError_def)

lemma join_colon_eq_Nil [simp]: "join_colon (s # t # ss) \<noteq> []"
  by simp

definition source_named :: "'p JournalSourceBase \<Rightarrow> bool" where
  "source_named s \<longleftrightarrow> so_tenantId s \<noteq> [] \<and> so_sourceId s \<noteq> [] \<and> so_sourceAction s \<noteq> [] \<and> so_sourceVersion s \<noteq> []"

lemma finish_draft_Inr:
  "finish_draft sourceType s caseId entryType metadata reversalOf lines = Inr d \<longleftrightarrow>
     source_named s \<and> d =
        \<lparr>je_tenantId = so_tenantId s, je_caseId = caseId, je_currency = so_currency s,
         je_entryType = js entryType, je_sourceType = sourceType, je_sourceId = so_sourceId s,
         je_sourceAction = so_sourceAction s, je_sourceVersion = so_sourceVersion s,
         je_idempotencyKey = buildJournalIdempotencyKey (journalIdempotencyMaterialFromSource sourceType s),
         je_idempotencyMaterial = journalIdempotencyMaterialFromSource sourceType s,
         je_sourceHash = so_sourceHash s, je_sourceOccurredAt = so_occurredAt s,
         je_effectiveDate = so_effectiveDate s, je_postedById = so_actorId s,
         je_metadata = obj_spread (so_metadata s) metadata, je_reversalOf = reversalOf,
         je_lines = lines\<rparr>"
  by (auto simp: finish_draft_def source_named_def Let_def)

lemma key_ne_Nil [simp]: "buildJournalIdempotencyKey m \<noteq> []" "[] \<noteq> buildJournalIdempotencyKey m"
  by (simp_all add: buildJournalIdempotencyKey_def IDEMPOTENCY_PREFIX_def)

text \<open>What every source needs, and the structure of a draft with two legs.\<close>

definition entry_complete :: "'p JournalSourceBase \<Rightarrow> bool" where
  "entry_complete s \<longleftrightarrow> so_currency s \<noteq> [] \<and> so_occurredAt s \<noteq> [] \<and> so_effectiveDate s \<noteq> []"

text \<open>A chain of guards that ends in a draft, and the members of that draft.\<close>

lemma build_guard:
  "(if c then buildError code message path details else m) = Inr d \<longleftrightarrow> \<not> c \<and> m = Inr d"
  by simp

lemma finished:
  assumes "finish_draft sourceType s caseId entryType metadata reversalOf lines = Inr d"
  shows "je_tenantId d = so_tenantId s" "je_caseId d = caseId" "je_currency d = so_currency s"
    "je_entryType d = js entryType" "je_sourceType d = sourceType" "je_sourceId d = so_sourceId s"
    "je_sourceAction d = so_sourceAction s" "je_sourceVersion d = so_sourceVersion s"
    "je_idempotencyKey d = buildJournalIdempotencyKey (journalIdempotencyMaterialFromSource sourceType s)"
    "je_sourceOccurredAt d = so_occurredAt s" "je_effectiveDate d = so_effectiveDate s"
    "je_metadata d = obj_spread (so_metadata s) metadata" "je_reversalOf d = reversalOf" "je_lines d = lines"
    "source_named s"
  using assms by (simp_all add: finish_draft_Inr)

lemma finished_structure:
  assumes "finish_draft sourceType s caseId entryType metadata reversalOf lines = Inr d" "sourceType \<noteq> []"
  shows "structure_ok d \<longleftrightarrow> entry_complete s \<and> lines \<noteq> [] \<and> distinct (map ln_lineNo lines) \<and>
    debits lines = credits lines \<and>
    list_all (\<lambda>l. line_number_ok (ln_lineNo l) \<and> ln_tenantId l = so_tenantId s \<and> ln_accountCode l \<noteq> [] \<and>
      ln_direction l \<in> {DEBIT, CREDIT} \<and> money_ok (ln_amount l) \<and> ln_currency l = so_currency s) lines"
  using finished [OF assms(1)] assms(2)
  by (auto simp: structure_ok_def texts_ok_def line_ok_def entry_complete_def source_named_def list_all_iff)

lemma plain_line_sel [simp]:
  "ln_lineNo (plain_line s n a d m) = js_int n" "ln_tenantId (plain_line s n a d m) = so_tenantId s"
  "ln_accountCode (plain_line s n a d m) = a" "ln_direction (plain_line s n a d m) = d"
  "ln_amount (plain_line s n a d m) = m" "ln_currency (plain_line s n a d m) = so_currency s"
  "ln_caseId (plain_line s n a d m) = None" "ln_clientId (plain_line s n a d m) = None"
  "ln_caseClientId (plain_line s n a d m) = None" "ln_collectionId (plain_line s n a d m) = None"
  "ln_dispositionLineId (plain_line s n a d m) = None" "ln_payoutId (plain_line s n a d m) = None"
  "ln_offsetId (plain_line s n a d m) = None" "ln_expenseRequestId (plain_line s n a d m) = None"
  "ln_expensePaymentId (plain_line s n a d m) = None" "ln_expenseApplicationId (plain_line s n a d m) = None"
  "ln_balanceLedgerId (plain_line s n a d m) = None"
  by (simp_all add: plain_line_def)

lemma js_int_eq [simp]: "js_int i = js_int j \<longleftrightarrow> i = j"
  by (simp add: js_int_def)

lemma findSingleLine_two:
  "findSingleLine [a, b] code label =
     (if ln_accountCode a = js code \<and> ln_accountCode b \<noteq> js code then ([], Some a)
      else if ln_accountCode b = js code \<and> ln_accountCode a \<noteq> js code then ([], Some b)
      else ([validationError INVALID_LINE_SHAPE (label @ '' must appear exactly once.'') (js ''lines'')
              [(''accountCode'', VStr (js code)),
               (''count'', VNum (js_int (if ln_accountCode a = js code then 2 else 0)))]], None))"
  by (simp add: findSingleLine_def)

text \<open>The members the builder adds to the metadata, as the validators read them.\<close>

lemma obj_get_spread_Cons:
  "obj_get (obj_spread m ((k, v) # kvs)) k' =
     (if k' \<notin> (\<lambda>p. js (fst p)) ` set kvs \<and> k' = js k then v else obj_get (obj_spread m kvs) k')"
proof (induction kvs arbitrary: v rule: rev_induct)
  case Nil
  then show ?case using obj_get_spread(2) [of m "[]" k v k'] by simp
next
  case (snoc p kvs)
  then show ?case using obj_get_spread(2) [of m "(k, v) # kvs" "fst p" "snd p" k'] by (cases p) auto
qed

subsection \<open>Sources\<close>

fun source_complete :: "JournalSource \<Rightarrow> bool" where
  "source_complete (CollectionSource s) \<longleftrightarrow>
     entry_complete s \<and> money_ok (ccp_amount (so_payload s)) \<and> ccp_caseId (so_payload s) \<noteq> []"
| "source_complete (ClientOffsetSource s) \<longleftrightarrow>
     (let p = so_payload s in
      entry_complete s \<and> money_ok (cop_amount p) \<and> cop_clientId p \<noteq> [] \<and>
      opl_caseId (cop_payableLeg p) \<noteq> [] \<and> opl_caseClientId (cop_payableLeg p) \<noteq> [] \<and>
      oel_caseId (cop_expenseLeg p) \<noteq> [] \<and>
      (cop_kind p = js ''APPLY'' \<or>
       truthy (cop_reversesOffsetId p) \<and> cop_reversesOffsetId p \<noteq> Some (so_sourceId s)))"
| "source_complete (CollectionDispositionLineSource s) \<longleftrightarrow>
     (let p = so_payload s in
      entry_complete s \<and> money_ok (cdp_amount p) \<and> cdp_caseId p \<noteq> [] \<and> cdp_collectionId p \<noteq> [] \<and>
      cdp_dispositionLineId p = so_sourceId s \<and>
      cdp_creditAccountCode p \<noteq> [] \<and> cdp_creditAccountCode p \<noteq> js ''CASH_CLEARING'' \<and>
      (cdp_creditAccountCode p \<in> {js ''CLIENT_PAYABLE'', js ''CLIENT_EXPENSE_REIMBURSEMENT_PAYABLE''} \<longrightarrow>
       truthy (cdp_caseClientId p)))"
| "source_complete (ClientPayoutSource s) \<longleftrightarrow>
     (let p = so_payload s in
      entry_complete s \<and> money_ok (cpp_amount p) \<and> cpp_caseId p \<noteq> [] \<and> cpp_caseClientId p \<noteq> [] \<and>
      cpp_payoutId p = so_sourceId s)"
| "source_complete (BalanceLedgerSource s) \<longleftrightarrow>
     (let p = so_payload s in
      entry_complete s \<and> money_ok (blp_amount p) \<and> blp_caseId p \<noteq> [] \<and>
      blp_balanceLedgerId p = so_sourceId s)"
| "source_complete (ExpenseRequestSource s) \<longleftrightarrow>
     (let p = so_payload s in
      entry_complete s \<and> money_ok (erp_amount p) \<and> erp_caseId p \<noteq> [] \<and> erp_clientId p \<noteq> [])"
| "source_complete (ExpensePaymentSource s) \<longleftrightarrow>
     (let p = so_payload s in
      entry_complete s \<and> money_ok (epp_amount p) \<and> epp_caseId p \<noteq> [] \<and> epp_clientId p \<noteq> [] \<and>
      epp_expenseRequestId p \<noteq> [])"
| "source_complete (ExpenseApplicationSource s) \<longleftrightarrow>
     (let p = so_payload s in
      entry_complete s \<and> money_ok (eap_amount p) \<and> eap_caseId p \<noteq> [] \<and> eap_clientId p \<noteq> [] \<and>
      eap_expenseRequestId p \<noteq> [] \<and> eap_collectionDispositionId p \<noteq> [] \<and>
      eap_collectionDispositionLineId p \<noteq> [])"
| "source_complete (JournalEntrySource (ReversalSource s)) \<longleftrightarrow>
     (let p = so_payload s; lines = rp_originalLines p in
      entry_complete s \<and> so_sourceAction s = js ''reversal'' \<and>
      \<not> (rp_originalSourceType p = js ''ACCOUNTING_JOURNAL_ENTRY'' \<and>
         rp_originalSourceAction p = js ''reversal'') \<and>
      distinct (map rl_lineNo lines) \<and>
      list_all (\<lambda>l. line_number_ok (rl_lineNo l) \<and> rl_accountCode l \<noteq> [] \<and> money_ok (rl_amount l) \<and>
        rl_currency l = so_currency s) lines \<and>
      sum_list (map (\<lambda>l. if rl_direction l = DEBIT then cents (rl_amount l) else 0) lines) =
      sum_list (map (\<lambda>l. if rl_direction l = CREDIT then cents (rl_amount l) else 0) lines))"
| "source_complete (JournalEntrySource (ManualAdjustmentSource s)) \<longleftrightarrow>
     (let p = so_payload s; lines = mp_lines p in
      entry_complete s \<and> so_sourceAction s = js ''manual-adjustment'' \<and> money_ok (mp_amount p) \<and>
      list_all (\<lambda>l. ml_accountCode l \<noteq> [] \<and> ml_direction l \<in> {DEBIT, CREDIT} \<and> money_ok (ml_amount l)) lines \<and>
      sum_list (map (\<lambda>l. if ml_direction l = DEBIT then cents (ml_amount l) else 0) lines) = cents (mp_amount p) \<and>
      sum_list (map (\<lambda>l. if ml_direction l = CREDIT then cents (ml_amount l) else 0) lines) = cents (mp_amount p))"

lemma collection_validates:
  assumes "buildCollectionJournal s = Inr d"
  shows "(\<exists>v. validateJournalDraft d = Inr v) \<longleftrightarrow> source_complete (CollectionSource s)"
proof -
  note a = assms [unfolded buildCollectionJournal_def Let_def build_guard]
  note f = a [THEN conjunct2, THEN conjunct2, THEN conjunct2, THEN conjunct2, THEN conjunct2, THEN conjunct2]
  have legs: "ln_accountCode (collectionLine s n c dir) = js c" "ln_direction (collectionLine s n c dir) = dir"
    "ln_lineNo (collectionLine s n c dir) = js_int n" "ln_tenantId (collectionLine s n c dir) = so_tenantId s"
    "ln_amount (collectionLine s n c dir) = ccp_amount (so_payload s)"
    "ln_currency (collectionLine s n c dir) = so_currency s" for n c dir
    by (simp_all add: collectionLine_def Let_def)
  have "structure_ok d \<longleftrightarrow> entry_complete s \<and> money_ok (ccp_amount (so_payload s))"
    unfolding finished_structure [OF f, simplified] by (simp add: legs)
  moreover have leg: "validateCollectionLine d dir (collectionLine s n c dir) = [] \<longleftrightarrow> ccp_caseId (so_payload s) \<noteq> []"
    for n c dir
    using a by (auto simp: validateCollectionLine_def legs finished [OF f] collectionLine_def Let_def)
  have "validateCollectionBusiness d = Inr d \<longleftrightarrow> ccp_caseId (so_payload s) \<noteq> []"
  proof (cases "ccp_kind (so_payload s) = js ''RECORDED''")
    case True
    with a show ?thesis
      by (simp add: validateCollectionBusiness_def Let_def finished [OF f] findSingleLine_two legs leg
          obj_get_spread_Cons)
  next
    case False
    with a show ?thesis
      by (simp add: validateCollectionBusiness_def Let_def finished [OF f] findSingleLine_two legs leg
          obj_get_spread_Cons)
  qed
  ultimately show ?thesis
    by (auto simp: validateJournalDraft_Inr validateJournalBusiness_def finished(5) [OF f])
qed

lemma payout_validates:
  assumes "buildClientPayoutJournal s = Inr d"
  shows "(\<exists>v. validateJournalDraft d = Inr v) \<longleftrightarrow> source_complete (ClientPayoutSource s)"
proof -
  note a = assms [unfolded buildClientPayoutJournal_def Let_def build_guard]
  note f = a [THEN conjunct2]
  have legs: "ln_accountCode (clientPayoutLine s n c dir) = js c" "ln_direction (clientPayoutLine s n c dir) = dir"
    "ln_lineNo (clientPayoutLine s n c dir) = js_int n" "ln_tenantId (clientPayoutLine s n c dir) = so_tenantId s"
    "ln_amount (clientPayoutLine s n c dir) = cpp_amount (so_payload s)"
    "ln_currency (clientPayoutLine s n c dir) = so_currency s" for n c dir
    by (simp_all add: clientPayoutLine_def Let_def)
  have "structure_ok d \<longleftrightarrow> entry_complete s \<and> money_ok (cpp_amount (so_payload s))"
    unfolding finished_structure [OF f, simplified] by (simp add: legs)
  moreover have leg: "validateClientPayoutLine d dir (clientPayoutLine s n c dir) = [] \<longleftrightarrow> cpp_caseId (so_payload s) \<noteq> [] \<and> cpp_caseClientId (so_payload s) \<noteq> [] \<and>
      cpp_payoutId (so_payload s) = so_sourceId s"
    for n c dir
    using a by (auto simp: validateClientPayoutLine_def legs finished [OF f] clientPayoutLine_def Let_def obj_get_spread_Cons)
  have "validateClientPayoutBusiness d = Inr d \<longleftrightarrow> cpp_caseId (so_payload s) \<noteq> [] \<and> cpp_caseClientId (so_payload s) \<noteq> [] \<and>
      cpp_payoutId (so_payload s) = so_sourceId s"
    using a by (simp add: validateClientPayoutBusiness_def Let_def finished [OF f] findSingleLine_two legs leg
        obj_get_spread_Cons)
  ultimately show ?thesis
    by (auto simp: validateJournalDraft_Inr validateJournalBusiness_def finished(5) [OF f] Let_def)
qed

lemma expense_payment_validates:
  assumes "buildExpensePaymentJournal s = Inr d"
  shows "(\<exists>v. validateJournalDraft d = Inr v) \<longleftrightarrow> source_complete (ExpensePaymentSource s)"
proof -
  note a = assms [unfolded buildExpensePaymentJournal_def Let_def build_guard]
  note f = a [THEN conjunct2, THEN conjunct2]
  have legs: "ln_accountCode (expensePaymentLine s n c dir) = js c" "ln_direction (expensePaymentLine s n c dir) = dir"
    "ln_lineNo (expensePaymentLine s n c dir) = js_int n" "ln_tenantId (expensePaymentLine s n c dir) = so_tenantId s"
    "ln_amount (expensePaymentLine s n c dir) = epp_amount (so_payload s)"
    "ln_currency (expensePaymentLine s n c dir) = so_currency s" for n c dir
    by (simp_all add: expensePaymentLine_def Let_def)
  have "structure_ok d \<longleftrightarrow> entry_complete s \<and> money_ok (epp_amount (so_payload s))"
    unfolding finished_structure [OF f, simplified] by (simp add: legs)
  moreover have leg: "validateExpensePaymentLine d dir (expensePaymentLine s n c dir) = [] \<longleftrightarrow> epp_caseId (so_payload s) \<noteq> [] \<and> epp_clientId (so_payload s) \<noteq> [] \<and>
      epp_expenseRequestId (so_payload s) \<noteq> []"
    for n c dir
    using a by (auto simp: validateExpensePaymentLine_def legs finished [OF f] expensePaymentLine_def Let_def obj_get_spread_Cons)
  have "validateExpensePaymentBusiness d = Inr d \<longleftrightarrow> epp_caseId (so_payload s) \<noteq> [] \<and> epp_clientId (so_payload s) \<noteq> [] \<and>
      epp_expenseRequestId (so_payload s) \<noteq> []"
    using a by (simp add: validateExpensePaymentBusiness_def Let_def finished [OF f] findSingleLine_two legs leg
        obj_get_spread_Cons)
  ultimately show ?thesis
    by (auto simp: validateJournalDraft_Inr validateJournalBusiness_def finished(5) [OF f] Let_def)
qed

lemma disposition_metadata:
  "isDispositionLineBalanceLedgerMetadata (VStr s) (or_null t) \<longleftrightarrow> isDispositionLineBalanceLedgerSource (Some s) t"
proof -
  have "parseDispositionLineMetadata (or_null o1) = parseDispositionLineSource o1" for o1
    by (cases o1) (auto simp: parseDispositionLineMetadata_def parseDispositionLineSource_def prefix_rest_def)
  from this [of "Some s"] this [of t] show ?thesis
    by (simp add: isDispositionLineBalanceLedgerMetadata_def isDispositionLineBalanceLedgerSource_def)
qed

lemma balance_ledger_validates:
  assumes "buildBalanceLedgerJournal s = Inr d"
  shows "(\<exists>v. validateJournalDraft d = Inr v) \<longleftrightarrow> source_complete (BalanceLedgerSource s)"
proof -
  note a = assms [unfolded buildBalanceLedgerJournal_def Let_def build_guard]
  note f = a [THEN conjunct2, THEN conjunct2, THEN conjunct2, THEN conjunct2, THEN conjunct2]
  have legs: "ln_accountCode (balanceLedgerLine s n c dir) = js c" "ln_direction (balanceLedgerLine s n c dir) = dir"
    "ln_lineNo (balanceLedgerLine s n c dir) = js_int n" "ln_tenantId (balanceLedgerLine s n c dir) = so_tenantId s"
    "ln_amount (balanceLedgerLine s n c dir) = blp_amount (so_payload s)"
    "ln_currency (balanceLedgerLine s n c dir) = so_currency s" for n c dir
    by (simp_all add: balanceLedgerLine_def Let_def)
  have "structure_ok d \<longleftrightarrow> entry_complete s \<and> money_ok (blp_amount (so_payload s))"
    unfolding finished_structure [OF f, simplified] by (simp add: legs)
  moreover have leg: "validateBalanceLedgerLine d dir (balanceLedgerLine s n c dir) = [] \<longleftrightarrow> blp_caseId (so_payload s) \<noteq> [] \<and> blp_balanceLedgerId (so_payload s) = so_sourceId s"
    for n c dir
    using a by (auto simp: validateBalanceLedgerLine_def legs finished [OF f] balanceLedgerLine_def Let_def obj_get_spread_Cons)
  have "validateBalanceLedgerBusiness d = Inr d \<longleftrightarrow> blp_caseId (so_payload s) \<noteq> [] \<and> blp_balanceLedgerId (so_payload s) = so_sourceId s"
  proof (cases "blp_isIncrease (so_payload s)")
    case True
    with a show ?thesis
      by (simp add: validateBalanceLedgerBusiness_def Let_def finished [OF f] findSingleLine_two legs leg
          obj_get_spread_Cons
          disposition_metadata)
  next
    case False
    with a show ?thesis
      by (simp add: validateBalanceLedgerBusiness_def Let_def finished [OF f] findSingleLine_two legs leg
          obj_get_spread_Cons
          disposition_metadata) blast
  qed
  ultimately show ?thesis
    by (auto simp: validateJournalDraft_Inr validateJournalBusiness_def finished(5) [OF f] Let_def)
qed

lemma cancelGuardError_Some: "cancelGuardError s = Some e \<Longrightarrow> e \<noteq> Inr d"
  by (auto simp: cancelGuardError_def split: option.splits if_splits)

lemma cancel_guard:
  "(if b then (case cancelGuardError s of Some e \<Rightarrow> e | None \<Rightarrow> m) else m) = Inr d \<longleftrightarrow>
     (b \<longrightarrow> cancelGuardError s = None) \<and> m = Inr d"
  by (auto dest: cancelGuardError_Some split: option.splits)

lemma expense_request_validates:
  assumes "buildExpenseRequestJournal s = Inr d"
  shows "(\<exists>v. validateJournalDraft d = Inr v) \<longleftrightarrow> source_complete (ExpenseRequestSource s)"
proof -
  note a = assms [unfolded buildExpenseRequestJournal_def Let_def build_guard cancel_guard]
  note f = a [THEN conjunct2, THEN conjunct2, THEN conjunct2, THEN conjunct2]
  have legs: "ln_accountCode (expenseRequestLine s n c dir) = js c" "ln_direction (expenseRequestLine s n c dir) = dir"
    "ln_lineNo (expenseRequestLine s n c dir) = js_int n" "ln_tenantId (expenseRequestLine s n c dir) = so_tenantId s"
    "ln_amount (expenseRequestLine s n c dir) = erp_amount (so_payload s)"
    "ln_currency (expenseRequestLine s n c dir) = so_currency s" for n c dir
    by (simp_all add: expenseRequestLine_def Let_def)
  have "structure_ok d \<longleftrightarrow> entry_complete s \<and> money_ok (erp_amount (so_payload s))"
    unfolding finished_structure [OF f, simplified] by (simp add: legs)
  moreover have leg: "validateExpenseRequestLine d dir (expenseRequestLine s n c dir) = [] \<longleftrightarrow>
      erp_caseId (so_payload s) \<noteq> [] \<and> erp_clientId (so_payload s) \<noteq> []" for n c dir
    using a by (auto simp: validateExpenseRequestLine_def legs finished [OF f] expenseRequestLine_def Let_def)
  have "validateExpenseRequestBusiness d = Inr d \<longleftrightarrow>
      erp_caseId (so_payload s) \<noteq> [] \<and> erp_clientId (so_payload s) \<noteq> []"
  proof (cases "erp_kind (so_payload s) = js ''RECORDED''")
    case True
    with a show ?thesis
      by (simp add: validateExpenseRequestBusiness_def Let_def finished [OF f] findSingleLine_two legs leg)
  next
    case False
    with a show ?thesis
      by (simp add: validateExpenseRequestBusiness_def Let_def finished [OF f] findSingleLine_two legs leg)
  qed
  ultimately show ?thesis
    by (auto simp: validateJournalDraft_Inr validateJournalBusiness_def finished(5) [OF f] Let_def)
qed

lemma disposition_line_validates:
  assumes "buildCollectionDispositionLineJournal s = Inr d"
  shows "(\<exists>v. validateJournalDraft d = Inr v) \<longleftrightarrow> source_complete (CollectionDispositionLineSource s)"
proof -
  note a = assms [unfolded buildCollectionDispositionLineJournal_def Let_def build_guard]
  note f = a [THEN conjunct2, THEN conjunct2, THEN conjunct2]
  let ?p = "so_payload s"
  let ?needs = "cdp_creditAccountCode ?p \<in> {js ''CLIENT_PAYABLE'', js ''CLIENT_EXPENSE_REIMBURSEMENT_PAYABLE''}"
  have legs: "ln_accountCode (collectionDispositionLine s n c dir) = c" "ln_direction (collectionDispositionLine s n c dir) = dir"
    "ln_lineNo (collectionDispositionLine s n c dir) = js_int n" "ln_tenantId (collectionDispositionLine s n c dir) = so_tenantId s"
    "ln_amount (collectionDispositionLine s n c dir) = cdp_amount (so_payload s)"
    "ln_currency (collectionDispositionLine s n c dir) = so_currency s" for n c dir
    by (simp_all add: collectionDispositionLine_def Let_def)
  have "structure_ok d \<longleftrightarrow>
      entry_complete s \<and> money_ok (cdp_amount ?p) \<and> cdp_creditAccountCode ?p \<noteq> []"
    unfolding finished_structure [OF f, simplified] by (auto simp: legs)
  moreover have leg: "validateCollectionDispositionLineDimensions d r (collectionDispositionLine s n c dir) = [] \<longleftrightarrow>
      cdp_caseId ?p \<noteq> [] \<and> cdp_collectionId ?p \<noteq> [] \<and> cdp_dispositionLineId ?p = so_sourceId s \<and>
      (r \<longrightarrow> truthy (cdp_caseClientId ?p))" for r n c dir
    by (auto simp: validateCollectionDispositionLineDimensions_def legs finished [OF f]
        collectionDispositionLine_def Let_def)
  have "\<not> js_truthy (or_null (cdp_manualReversalRequiredAt ?p))"
    using a by (cases "cdp_manualReversalRequiredAt ?p") auto
  then have "validateCollectionDispositionLineBusiness d = Inr d \<longleftrightarrow>
      cdp_creditAccountCode ?p \<noteq> js ''CASH_CLEARING'' \<and>
      cdp_caseId ?p \<noteq> [] \<and> cdp_collectionId ?p \<noteq> [] \<and> cdp_dispositionLineId ?p = so_sourceId s \<and>
      (?needs \<longrightarrow> truthy (cdp_caseClientId ?p))"
    using a by (cases "cdp_creditAccountCode ?p = js ''CASH_CLEARING''")
      (simp_all add: validateCollectionDispositionLineBusiness_def Let_def finished [OF f] findSingleLine_two
        legs leg obj_get_spread_Cons)
  ultimately show ?thesis
    by (auto simp: validateJournalDraft_Inr validateJournalBusiness_def finished(5) [OF f] Let_def)
qed

lemma offset_validates:
  assumes "buildClientOffsetJournal s = Inr d"
  shows "(\<exists>v. validateJournalDraft d = Inr v) \<longleftrightarrow> source_complete (ClientOffsetSource s)"
proof -
  note a = assms [unfolded buildClientOffsetJournal_def Let_def build_guard]
  note f = a [THEN conjunct2, THEN conjunct2, THEN conjunct2]
  let ?p = "so_payload s"
  have legs: "ln_accountCode (clientOffsetLine s n c dir x y z) = js c" "ln_direction (clientOffsetLine s n c dir x y z) = dir"
    "ln_lineNo (clientOffsetLine s n c dir x y z) = js_int n" "ln_tenantId (clientOffsetLine s n c dir x y z) = so_tenantId s"
    "ln_amount (clientOffsetLine s n c dir x y z) = cop_amount (so_payload s)"
    "ln_currency (clientOffsetLine s n c dir x y z) = so_currency s" for n c dir x y z
    by (simp_all add: clientOffsetLine_def Let_def)
  have "structure_ok d \<longleftrightarrow> entry_complete s \<and> money_ok (cop_amount ?p)"
    unfolding finished_structure [OF f, simplified] by (auto simp: legs)
  moreover have leg: "validateClientOffsetLine d True dir (clientOffsetLine s n c dir x (Some y) z) = [] \<longleftrightarrow>
      x \<noteq> [] \<and> cop_clientId ?p \<noteq> [] \<and> y \<noteq> []"
    "validateClientOffsetLine d False dir (clientOffsetLine s n c dir x None z) = [] \<longleftrightarrow>
      x \<noteq> [] \<and> cop_clientId ?p \<noteq> []" for n c dir x y z
    by (auto simp: validateClientOffsetLine_def legs finished [OF f] clientOffsetLine_def Let_def)
  have "validateClientOffsetBusiness d = Inr d \<longleftrightarrow>
      cop_clientId ?p \<noteq> [] \<and> opl_caseId (cop_payableLeg ?p) \<noteq> [] \<and> opl_caseClientId (cop_payableLeg ?p) \<noteq> [] \<and>
      oel_caseId (cop_expenseLeg ?p) \<noteq> [] \<and>
      (cop_kind ?p = js ''APPLY'' \<or> truthy (cop_reversesOffsetId ?p) \<and> cop_reversesOffsetId ?p \<noteq> Some (so_sourceId s))"
  proof (cases "cop_kind ?p = js ''APPLY''")
    case True
    with a show ?thesis
      by (simp add: validateClientOffsetBusiness_def Let_def finished [OF f] findSingleLine_two legs leg) blast
  next
    case False
    with a show ?thesis
      by (cases "cop_reversesOffsetId ?p")
         (simp_all add: validateClientOffsetBusiness_def Let_def finished [OF f] findSingleLine_two legs leg, blast)
  qed
  ultimately show ?thesis
    by (auto simp: validateJournalDraft_Inr validateJournalBusiness_def finished(5) [OF f] Let_def)
qed

lemma build_option_guard:
  "(case o1 of None \<Rightarrow> buildError code message path details | Some x \<Rightarrow> g x) = Inr d \<longleftrightarrow>
     (\<exists>x. o1 = Some x \<and> g x = Inr d)"
  "(case o1 of None \<Rightarrow> m | Some x \<Rightarrow> buildError code message path' (h x)) = Inr d \<longleftrightarrow> o1 = None \<and> m = Inr d"
  by (auto split: option.splits)

lemma text_or_null_or_null [simp]: "text_or_null (or_null o1) = o1"
  by (cases o1) simp_all

lemma expense_application_validates:
  assumes "buildCollectionDispositionExpenseApplicationJournal s = Inr d"
  shows "(\<exists>v. validateJournalDraft d = Inr v) \<longleftrightarrow> source_complete (ExpenseApplicationSource s)"
proof -
  let ?p = "so_payload s"
  note a = assms [unfolded buildCollectionDispositionExpenseApplicationJournal_def Let_def build_guard
      build_option_guard]
  obtain account where acc: "expenseApplicationReimbursementAccount (eap_reimbursementScope ?p) = Some account"
    using a by blast
  note f = a [THEN conjunct2, THEN conjunct2, THEN conjunct2, THEN conjunct2, THEN conjunct2,
      unfolded acc option.inject ex_simps simp_thms]
  have scope: "eap_reimbursementScope ?p = js ''CLIENT_FRONTED'' \<and> account = ''CLIENT_EXPENSE_REIMBURSEMENT_PAYABLE'' \<or>
      eap_reimbursementScope ?p = js ''FIRM_FRONTED'' \<and> account = ''FIRM_EXPENSE_REIMBURSEMENT''"
    using acc by (auto simp: expenseApplicationReimbursementAccount_def split: if_split_asm)
  then have account: "account \<noteq> ''CLIENT_EXPENSE_RECEIVABLE''" "account \<noteq> []" by auto
  have legs: "ln_accountCode (expenseApplicationLine s n c dir) = js c" "ln_direction (expenseApplicationLine s n c dir) = dir"
    "ln_lineNo (expenseApplicationLine s n c dir) = js_int n" "ln_tenantId (expenseApplicationLine s n c dir) = so_tenantId s"
    "ln_amount (expenseApplicationLine s n c dir) = eap_amount (so_payload s)"
    "ln_currency (expenseApplicationLine s n c dir) = so_currency s" for n c dir
    by (simp_all add: expenseApplicationLine_def Let_def)
  have "structure_ok d \<longleftrightarrow> entry_complete s \<and> money_ok (eap_amount ?p)"
    unfolding finished_structure [OF f, simplified] using account by (auto simp: legs)
  moreover have md: "meta d ''collectionDispositionLineId'' = VStr (eap_collectionDispositionLineId ?p)"
    "meta d ''collectionDispositionId'' = VStr (eap_collectionDispositionId ?p)"
    "meta d ''reimbursementScope'' = VStr (eap_reimbursementScope ?p)"
    "meta d ''reversesApplicationId'' = or_null (eap_reversesApplicationId ?p)"
    by (simp_all add: finished [OF f] obj_get_spread_Cons)
  have applicationId: "eap_expenseApplicationId ?p = so_sourceId s" using a by blast
  have leg: "validateCollectionDispositionExpenseApplicationLine d dir (expenseApplicationLine s n c dir) = [] \<longleftrightarrow>
      eap_caseId ?p \<noteq> [] \<and> eap_clientId ?p \<noteq> [] \<and> eap_expenseRequestId ?p \<noteq> [] \<and>
      eap_collectionDispositionLineId ?p \<noteq> []" for n c dir
    using applicationId by (auto simp: validateCollectionDispositionExpenseApplicationLine_def legs md finished(1-11,13,14) [OF f]
        expenseApplicationLine_def Let_def)
  have "validateCollectionDispositionExpenseApplicationBusiness d = Inr d \<longleftrightarrow>
      eap_caseId ?p \<noteq> [] \<and> eap_clientId ?p \<noteq> [] \<and> eap_expenseRequestId ?p \<noteq> [] \<and>
      eap_collectionDispositionId ?p \<noteq> [] \<and> eap_collectionDispositionLineId ?p \<noteq> []"
  proof (cases "eap_kind ?p = js ''APPLY''")
    case True
    then have "so_sourceAction s = js ''apply''" using a by simp
    with True scope show ?thesis
      by (elim disjE conjE) (simp add: validateCollectionDispositionExpenseApplicationBusiness_def Let_def md
          finished(1-11,13,14) [OF f] findSingleLine_two legs leg, blast)+
  next
    case False
    then have "so_sourceAction s = js ''reversal''" using a by simp
    moreover obtain r where "eap_reversesApplicationId ?p = Some r" "r \<noteq> []" "r \<noteq> so_sourceId s"
      using False a by (cases "eap_reversesApplicationId ?p") auto
    ultimately show ?thesis using False scope
      by (elim disjE conjE) (simp add: validateCollectionDispositionExpenseApplicationBusiness_def Let_def md
          finished(1-11,13,14) [OF f] findSingleLine_two legs leg, blast)+
  qed
  ultimately show ?thesis
    by (auto simp: validateJournalDraft_Inr validateJournalBusiness_def finished(5) [OF f] Let_def)
qed

subsection \<open>Reversals and manual adjustments\<close>

lemma debits_map: "debits (map g xs) =
    sum_list (map (\<lambda>x. if ln_direction (g x) = DEBIT then cents (ln_amount (g x)) else 0) xs)"
  by (simp add: debits_def comp_def)

lemma credits_map: "credits (map g xs) =
    sum_list (map (\<lambda>x. if ln_direction (g x) = CREDIT then cents (ln_amount (g x)) else 0) xs)"
  by (simp add: credits_def comp_def)

lemma find_None_iff: "List.find P xs = None \<longleftrightarrow> (\<forall>x \<in> set xs. \<not> P x)"
  by (induction xs) auto

lemma reversal_validates:
  assumes "buildReversalJournal s = Inr d"
  shows "(\<exists>v. validateJournalDraft d = Inr v) \<longleftrightarrow> source_complete (JournalEntrySource (ReversalSource s))"
proof -
  let ?p = "so_payload s" and ?l = "accountingJournalEntryReversalLine s"
  let ?os = "rp_originalLines ?p"
  note a = assms [unfolded buildReversalJournal_def Let_def build_guard build_option_guard]
  note f = a [THEN conjunct2, THEN conjunct2, THEN conjunct2, THEN conjunct2, THEN conjunct2]
  have dirs: "rl_direction l = DEBIT \<or> rl_direction l = CREDIT" if "l \<in> set ?os" for l
    using a that by (auto simp: find_None_iff)
  have "debits (map ?l ?os) = sum_list (map (\<lambda>l. if rl_direction l = CREDIT then cents (rl_amount l) else 0) ?os)"
    unfolding debits_map
    by (intro arg_cong [where f = sum_list] map_cong refl)
       (auto simp: accountingJournalEntryReversalLine_def dest: dirs)
  moreover have "credits (map ?l ?os) = sum_list (map (\<lambda>l. if rl_direction l = DEBIT then cents (rl_amount l) else 0) ?os)"
    unfolding credits_map
    by (intro arg_cong [where f = sum_list] map_cong refl)
       (auto simp: accountingJournalEntryReversalLine_def dest: dirs)
  moreover have "ln_lineNo \<circ> ?l = rl_lineNo"
    by (rule ext) (simp add: accountingJournalEntryReversalLine_def)
  moreover have "?os \<noteq> []" using a by blast
  ultimately have st: "structure_ok d \<longleftrightarrow> entry_complete s \<and> distinct (map rl_lineNo ?os) \<and>
      list_all (\<lambda>l. line_number_ok (rl_lineNo l) \<and> rl_accountCode l \<noteq> [] \<and> money_ok (rl_amount l) \<and>
        rl_currency l = so_currency s) ?os \<and>
      sum_list (map (\<lambda>l. if rl_direction l = DEBIT then cents (rl_amount l) else 0) ?os) =
      sum_list (map (\<lambda>l. if rl_direction l = CREDIT then cents (rl_amount l) else 0) ?os)"
    unfolding finished_structure [OF f, simplified]
    by (auto simp: list_all_iff accountingJournalEntryReversalLine_def)
  have "validateJournalBusiness d = Inr d \<longleftrightarrow> so_sourceAction s = js ''reversal'' \<and>
      \<not> (rp_originalSourceType ?p = js ''ACCOUNTING_JOURNAL_ENTRY'' \<and>
         rp_originalSourceAction ?p = js ''reversal'')" (is "_ \<longleftrightarrow> ?r")
  proof (cases "so_sourceAction s = js ''manual-adjustment''")
    case True
    have "validateAccountingJournalManualAdjustmentBusiness d \<noteq> Inr d"
      by (simp add: validateAccountingJournalManualAdjustmentBusiness_def Let_def finished(4) [OF f])
    then show ?thesis using True by (simp add: validateJournalBusiness_def finished [OF f]
        validateAccountingJournalEntryBusiness_def)
  next
    case False
    then show ?thesis using a
      by (simp add: validateJournalBusiness_def finished [OF f] validateAccountingJournalEntryBusiness_def
          validateAccountingJournalReversalBusiness_def)
  qed
  with st show ?thesis by (auto simp: validateJournalDraft_Inr Let_def)
qed

text \<open>A manual adjustment numbers its lines from one and gives each the texts of the source.\<close>

definition adjustment_lines :: "ManualAdjustmentJournalSource \<Rightarrow> JournalLineDraft list" where
  "adjustment_lines s =
     map (\<lambda>(index, line). manualAdjustmentLine s (int index + 1) line) (indexed (mp_lines (so_payload s)))"

lemma adjustment_lines_map:
  assumes "\<And>index line. f (manualAdjustmentLine s (int index + 1) line) = g line"
  shows "map f (adjustment_lines s) = map g (mp_lines (so_payload s))"
proof -
  have "map f (adjustment_lines s) = map g (map snd (indexed (mp_lines (so_payload s))))"
    unfolding adjustment_lines_def map_map by (rule map_cong) (auto simp: assms)
  then show ?thesis by simp
qed

lemma adjustment_lines_all:
  assumes "\<And>index line. P (manualAdjustmentLine s (int index + 1) line) \<longleftrightarrow> Q line"
  shows "list_all P (adjustment_lines s) \<longleftrightarrow> list_all Q (mp_lines (so_payload s))"
  using arg_cong [where f = "list_all id", OF adjustment_lines_map [of P s Q, OF assms]]
  by (simp add: list.pred_map)

lemma adjustment_lines_sel [simp]:
  "ln_lineNo (manualAdjustmentLine s n l) = js_int n" "ln_tenantId (manualAdjustmentLine s n l) = so_tenantId s"
  "ln_accountCode (manualAdjustmentLine s n l) = ml_accountCode l"
  "ln_direction (manualAdjustmentLine s n l) = ml_direction l"
  "ln_amount (manualAdjustmentLine s n l) = ml_amount l"
  "ln_currency (manualAdjustmentLine s n l) = so_currency s"
  "list_all (\<lambda>fv. snd fv = None) (financial_dimensions (manualAdjustmentLine s n l))"
  by (simp_all add: manualAdjustmentLine_def financial_dimensions_def)

lemma distinct_adjustment_lines: "distinct (map ln_lineNo (adjustment_lines s))"
proof -
  have "map ln_lineNo (adjustment_lines s) = map (\<lambda>i. js_int (int i + 1)) (map fst (indexed (mp_lines (so_payload s))))"
    unfolding adjustment_lines_def map_map by (rule map_cong) auto
  also have "map fst (indexed (mp_lines (so_payload s))) = [0..<length (mp_lines (so_payload s))]"
    by (simp add: indexed_def)
  finally show ?thesis by (simp add: distinct_map inj_on_def)
qed

lemma no_dimension_errors:
  "list_all (\<lambda>fv. snd fv = None) fvs \<Longrightarrow>
   concat (map (\<lambda>(field, value). push_if (\<exists>y. value = Some y) (e field value)) fvs) = []"
  by (induction fvs) auto

lemma js_trim_trim: "js_trim (js_trim r) = js_trim r"
proof -
  let ?d = "dropWhile js_whitespace r"
  have "\<not> js_whitespace (last (js_trim r))" if "js_trim r \<noteq> []"
    using that hd_dropWhile [of js_whitespace "rev ?d"] by (simp add: js_trim_def last_rev)
  moreover have "\<not> js_whitespace (hd (js_trim r))" if "js_trim r \<noteq> []"
  proof -
    obtain u where "?d = js_trim r @ u"
      using takeWhile_dropWhile_id [of js_whitespace "rev ?d"] by (metis js_trim_def rev_append rev_rev_ident)
    then have "hd (js_trim r) = hd ?d" "?d \<noteq> []" using that by simp_all
    then show ?thesis using hd_dropWhile [of js_whitespace r] by simp
  qed
  ultimately show ?thesis by (auto simp: js_trim_eq_iff)
qed

lemma adjustment_loop:
  "\<forall>p \<in> set ps. money_ok (ln_amount (snd p)) \<and> list_all (\<lambda>fv. snd fv = None) (financial_dimensions (snd p)) \<Longrightarrow>
   foldl adjustment_line st ps =
     st\<lparr>as_debitTotal := as_debitTotal st + debits (map snd ps),
        as_creditTotal := as_creditTotal st + credits (map snd ps)\<rparr>"
proof (induction ps arbitrary: st)
  case (Cons p ps)
  have "adjustment_line st p =
      st\<lparr>as_debitTotal := as_debitTotal st + debits [snd p], as_creditTotal := as_creditTotal st + credits [snd p]\<rparr>"
    using Cons.prems by (cases p) (simp add: adjustment_line_def Let_def money_ok_def cents_def no_dimension_errors)
  then show ?case using Cons by simp
qed simp

lemma manual_adjustment_validates:
  assumes "buildManualAdjustmentJournal s = Inr d"
  shows "(\<exists>v. validateJournalDraft d = Inr v) \<longleftrightarrow> source_complete (JournalEntrySource (ManualAdjustmentSource s))"
proof -
  let ?p = "so_payload s" and ?ls = "mp_lines (so_payload s)"
  note a = assms [unfolded buildManualAdjustmentJournal_def Let_def build_guard, folded adjustment_lines_def]
  note f = a [THEN conjunct2, THEN conjunct2]
  have totals: "debits (adjustment_lines s) = sum_list (map (\<lambda>l. if ml_direction l = DEBIT then cents (ml_amount l) else 0) ?ls)"
    "credits (adjustment_lines s) = sum_list (map (\<lambda>l. if ml_direction l = CREDIT then cents (ml_amount l) else 0) ?ls)"
    unfolding debits_def credits_def by (rule arg_cong [where f = sum_list], rule adjustment_lines_map, simp)+
  have len: "length (adjustment_lines s) = length ?ls" by (simp add: adjustment_lines_def)
  have amounts: "list_all (\<lambda>l. money_ok (ln_amount l)) (adjustment_lines s) \<longleftrightarrow> list_all (\<lambda>l. money_ok (ml_amount l)) ?ls"
    by (rule adjustment_lines_all) simp
  have "list_all (\<lambda>l. line_number_ok (ln_lineNo l) \<and> ln_tenantId l = so_tenantId s \<and> ln_accountCode l \<noteq> [] \<and>
        ln_direction l \<in> {DEBIT, CREDIT} \<and> money_ok (ln_amount l) \<and> ln_currency l = so_currency s) (adjustment_lines s) \<longleftrightarrow>
      list_all (\<lambda>l. ml_accountCode l \<noteq> [] \<and> ml_direction l \<in> {DEBIT, CREDIT} \<and> money_ok (ml_amount l)) ?ls"
    by (rule adjustment_lines_all) simp
  moreover have "adjustment_lines s \<noteq> []" using a len by auto
  ultimately have st: "structure_ok d \<longleftrightarrow> entry_complete s \<and> debits (adjustment_lines s) = credits (adjustment_lines s) \<and>
      list_all (\<lambda>l. ml_accountCode l \<noteq> [] \<and> ml_direction l \<in> {DEBIT, CREDIT} \<and> money_ok (ml_amount l)) ?ls"
    unfolding finished_structure [OF f, simplified] by (simp add: distinct_adjustment_lines)
  have business: "validateJournalBusiness d = Inr d \<longleftrightarrow> so_sourceAction s = js ''manual-adjustment'' \<and>
      money_ok (mp_amount ?p) \<and> debits (adjustment_lines s) = cents (mp_amount ?p) \<and>
      credits (adjustment_lines s) = cents (mp_amount ?p)" if "list_all (\<lambda>l. money_ok (ml_amount l)) ?ls"
  proof (cases "so_sourceAction s = js ''manual-adjustment''")
    case True
    have fin: "foldl adjustment_line st (indexed (adjustment_lines s)) =
        st\<lparr>as_debitTotal := as_debitTotal st + debits (adjustment_lines s),
           as_creditTotal := as_creditTotal st + credits (adjustment_lines s)\<rparr>" for st
    proof -
      have "list_all (\<lambda>l. list_all (\<lambda>fv. snd fv = None) (financial_dimensions l)) (adjustment_lines s)"
        by (subst adjustment_lines_all [where Q = "\<lambda>_. True"]) (simp_all add: list_all_iff [of "\<lambda>_. True"])
      then have "\<forall>p \<in> set (indexed (adjustment_lines s)). money_ok (ln_amount (snd p)) \<and>
          list_all (\<lambda>fv. snd fv = None) (financial_dimensions (snd p))"
        using that unfolding amounts [symmetric] by (auto simp: list_all_iff in_set_indexed)
      from adjustment_loop [OF this] show ?thesis by simp
    qed
    have md: "meta d ''reason'' = VStr (js_trim (mp_reason ?p))" "meta d ''adjustmentAmount'' = VStr (mp_amount ?p)"
      by (simp_all add: finished [OF f] obj_get_spread_Cons)
    have "validateAccountingJournalManualAdjustmentBusiness d = Inr d \<longleftrightarrow> money_ok (mp_amount ?p) \<and>
        debits (adjustment_lines s) = cents (mp_amount ?p) \<and> credits (adjustment_lines s) = cents (mp_amount ?p)"
      using a by (auto simp: validateAccountingJournalManualAdjustmentBusiness_def Let_def md finished(1-11,13,14) [OF f]
          fin len js_trim_trim money_ok_def cents_def split: option.splits)
    then show ?thesis using True by (simp add: validateJournalBusiness_def finished(1-11) [OF f]
        validateAccountingJournalEntryBusiness_def)
  next
    case False
    have "validateAccountingJournalReversalBusiness d \<noteq> Inr d"
      by (simp add: validateAccountingJournalReversalBusiness_def finished(1-11) [OF f])
    then show ?thesis using False by (simp add: validateJournalBusiness_def finished(1-11) [OF f]
        validateAccountingJournalEntryBusiness_def)
  qed
  show ?thesis
    unfolding validateJournalDraft_Inr st using business
    by (auto simp: Let_def totals list_all_iff)
qed

subsection \<open>All sources\<close>

lemma built_draft_complete:
  assumes "buildAccountingJournal s = Inr d"
  shows "(\<exists>v. validateJournalDraft d = Inr v) \<longleftrightarrow> source_complete s"
proof (cases s)
  case (JournalEntrySource e)
  then show ?thesis using assms
    by (cases e) (simp_all only: buildAccountingJournal.simps buildAccountingJournalEntryJournal_def
        AccountingJournalEntrySource.case manual_adjustment_validates reversal_validates)
qed (insert assms, simp_all only: buildAccountingJournal.simps collection_validates offset_validates
    disposition_line_validates payout_validates balance_ledger_validates expense_request_validates
    expense_payment_validates expense_application_validates)

end
