(* ===== verification/JournalWriter.thy ===== *)
theory JournalWriter
  imports JournalBuilt JsDate
begin

section \<open>The writer of journal entries (accounting-journal.writer.ts)\<close>

text \<open>
  The writer stores a validated draft once. It looks for an entry of the same source, replays it or
  refuses another version of it, looks for an entry of the same idempotency key, checks the original
  of a reversal, and creates the entry with its lines. When the unique indexes refuse the entry, the
  writer looks again: another writer may have stored the source in between. The database client is
  Prisma's and a parameter: a record of the five queries the code makes, on a state \<open>'s\<close>. A query
  fails with the code and the message of the error; a create may leave a changed state behind when it
  fails.
\<close>

subsection \<open>Data\<close>

datatype JournalWriterStatus = CREATED | REPLAYED

record JournalWriterOutput =
  wo_status :: JournalWriterStatus
  wo_journalEntryId :: jstr
  wo_idempotencyKey :: jstr
  wo_sourceVersion :: jstr
  wo_lineCount :: nat

datatype JournalWriterErrorCode =
    IDEMPOTENCY_CONFLICT
  | SOURCE_VERSION_STALE
  | SOURCE_HASH_MISMATCH
  | REVERSAL_ALREADY_EXISTS
  | REVERSAL_ORIGINAL_NOT_FOUND
  | REVERSAL_ORIGINAL_NOT_REVERSIBLE
  | REVERSAL_TENANT_MISMATCH
  | DB_WRITE_FAILED

record JournalWriterError =
  jw_code :: JournalWriterErrorCode
  jw_message :: jstr
  jw_idempotencyKey :: "jstr option"
  jw_details :: JournalMetadata

type_synonym JournalWriterResult = "JournalWriterError list + JournalWriterOutput"

text \<open>The rows as the two selections of the writer read them, and the argument of \<open>create\<close>. A line is
  created with the members of its draft; the text of its amount is the argument of \<open>Decimal\<close>.\<close>

record ExistingJournalEntry =
  ex_id :: jstr
  ex_idempotencyKey :: jstr
  ex_sourceHash :: "jstr option"
  ex_sourceType :: jstr
  ex_sourceId :: jstr
  ex_sourceAction :: jstr
  ex_lineCount :: nat

record OriginalReversalJournalEntry =
  og_id :: jstr
  og_tenantId :: jstr
  og_entryType :: jstr
  og_sourceType :: jstr
  og_sourceId :: jstr
  og_sourceAction :: jstr
  og_reversalOfEntryId :: "jstr option"
  og_reversedByEntry :: "jstr option"

record JournalEntryData =
  jd_tenantId :: jstr
  jd_caseId :: "jstr option"
  jd_currency :: jstr
  jd_entryType :: jstr
  jd_sourceType :: jstr
  jd_sourceId :: jstr
  jd_sourceAction :: jstr
  jd_idempotencyKey :: jstr
  jd_sourceHash :: "jstr option"
  jd_metadata :: JournalMetadata
  jd_sourceOccurredAt :: jsdate
  jd_postedAt :: jsdate
  jd_postedById :: "jstr option"
  jd_reversalOfEntryId :: "jstr option"
  jd_lines :: "JournalLineDraft list"

record journal_failure =
  jf_code :: "jstr option"
  jf_message :: jstr

text \<open>The key of a source: tenant, source type, source and action.\<close>

type_synonym source_key = "jstr \<times> jstr \<times> jstr \<times> jstr"

record 's journal_client =
  jc_findBySource :: "source_key \<Rightarrow> 's \<Rightarrow> journal_failure + ExistingJournalEntry option"
  jc_findByIdempotencyKey :: "jstr \<Rightarrow> jstr \<Rightarrow> 's \<Rightarrow> journal_failure + ExistingJournalEntry option"
  jc_findOriginal :: "jstr \<Rightarrow> 's \<Rightarrow> journal_failure + OriginalReversalJournalEntry option"
  jc_findByReversalOf :: "jstr \<Rightarrow> jstr \<Rightarrow> 's \<Rightarrow> journal_failure + ExistingJournalEntry option"
  jc_create :: "JournalEntryData \<Rightarrow> 's \<Rightarrow> (journal_failure + jstr \<times> nat) \<times> 's"

subsection \<open>Parts\<close>

definition writerError ::
  "JournalWriterErrorCode \<Rightarrow> string \<Rightarrow> 'd JournalEntryDraft_scheme \<Rightarrow> (string \<times> jsval) list \<Rightarrow> JournalWriterError" where
  "writerError code message draft details =
     \<lparr>jw_code = code, jw_message = js message, jw_idempotencyKey = Some (je_idempotencyKey draft),
      jw_details = obj_spread []
        ([(''sourceType'', VStr (je_sourceType draft)), (''sourceId'', VStr (je_sourceId draft)),
          (''sourceAction'', VStr (je_sourceAction draft)),
          (''sourceVersion'', VStr (je_sourceVersion draft))] @ details)\<rparr>"

definition isUniqueConflict :: "journal_failure \<Rightarrow> bool" where
  "isUniqueConflict error \<longleftrightarrow> jf_code error = Some (js ''P2002'')"

definition journalMetadataWithContract :: "ValidatedJournalEntryDraft \<Rightarrow> JournalMetadata" where
  "journalMetadataWithContract draft =
     (let material = je_idempotencyMaterial draft in
      obj_spread (je_metadata draft)
        [(''sourceVersion'', VStr (je_sourceVersion draft)), (''effectiveDate'', VStr (je_effectiveDate draft)),
         (''idempotencyMaterial'', VObj
            [(js ''tenantId'', VStr (im_tenantId material)), (js ''sourceType'', VStr (im_sourceType material)),
             (js ''sourceId'', VStr (im_sourceId material)), (js ''sourceAction'', VStr (im_sourceAction material)),
             (js ''sourceVersion'', VStr (im_sourceVersion material))]),
         (''validation'', VObj
            [(js ''structural'', VBool (jv_structural draft)), (js ''business'', VBool (jv_business draft))])])"

definition reversed_entry :: "'d JournalEntryDraft_scheme \<Rightarrow> jstr option" where
  "reversed_entry draft = Option.bind (je_reversalOf draft) rv_journalEntryId"

definition entry_data :: "(jstr \<Rightarrow> jsdate) \<Rightarrow> ValidatedJournalEntryDraft \<Rightarrow> JournalEntryData" where
  "entry_data other draft =
     \<lparr>jd_tenantId = je_tenantId draft, jd_caseId = je_caseId draft, jd_currency = je_currency draft,
      jd_entryType = je_entryType draft, jd_sourceType = je_sourceType draft,
      jd_sourceId = je_sourceId draft, jd_sourceAction = je_sourceAction draft,
      jd_idempotencyKey = je_idempotencyKey draft, jd_sourceHash = je_sourceHash draft,
      jd_metadata = journalMetadataWithContract draft,
      jd_sourceOccurredAt = js_Date other (je_sourceOccurredAt draft),
      jd_postedAt = js_Date other (je_sourceOccurredAt draft),
      jd_postedById = je_postedById draft, jd_reversalOfEntryId = reversed_entry draft,
      jd_lines = je_lines draft\<rparr>"

definition source_key :: "'d JournalEntryDraft_scheme \<Rightarrow> source_key" where
  "source_key draft = (je_tenantId draft, je_sourceType draft, je_sourceId draft, je_sourceAction draft)"

definition findBySource ::
  "'s journal_client \<Rightarrow> ValidatedJournalEntryDraft \<Rightarrow> 's \<Rightarrow> journal_failure + ExistingJournalEntry option" where
  "findBySource db draft s = jc_findBySource db (source_key draft) s"

definition findByReversalOf ::
  "'s journal_client \<Rightarrow> ValidatedJournalEntryDraft \<Rightarrow> 's \<Rightarrow> journal_failure + ExistingJournalEntry option" where
  "findByReversalOf db draft s =
     (case reversed_entry draft of
        None \<Rightarrow> Inr None
      | Some original \<Rightarrow>
          if original = [] then Inr None else jc_findByReversalOf db (je_tenantId draft) original s)"

definition replayOrRejectExisting ::
  "ValidatedJournalEntryDraft \<Rightarrow> ExistingJournalEntry \<Rightarrow> JournalWriterResult" where
  "replayOrRejectExisting draft existing =
     (if ex_idempotencyKey existing \<noteq> je_idempotencyKey draft
      then Inl [writerError SOURCE_VERSION_STALE
             ''Accounting journal source/action already exists with a different sourceVersion.'' draft
             [(''existingIdempotencyKey'', VStr (ex_idempotencyKey existing))]]
      else if truthy (ex_sourceHash existing) \<and> truthy (je_sourceHash draft) \<and>
              ex_sourceHash existing \<noteq> je_sourceHash draft
      then Inl [writerError SOURCE_HASH_MISMATCH ''Accounting journal source hash mismatch on replay.'' draft
             [(''existingSourceHash'', or_null (ex_sourceHash existing)),
              (''sourceHash'', or_null (je_sourceHash draft))]]
      else Inr \<lparr>wo_status = REPLAYED, wo_journalEntryId = ex_id existing,
                wo_idempotencyKey = je_idempotencyKey draft, wo_sourceVersion = je_sourceVersion draft,
                wo_lineCount = ex_lineCount existing\<rparr>)"

subsection \<open>The original of a reversal\<close>

definition reversal_original_error ::
  "ValidatedJournalEntryDraft \<Rightarrow> jstr \<Rightarrow> OriginalReversalJournalEntry option \<Rightarrow> JournalWriterError option" where
  "reversal_original_error draft originalJournalEntryId found =
     (let originalId = (''originalJournalEntryId'', VStr originalJournalEntryId) in
      case found of
        None \<Rightarrow> Some (writerError REVERSAL_ORIGINAL_NOT_FOUND
          ''Accounting journal original entry was not found.'' draft [originalId])
      | Some original \<Rightarrow>
        if og_tenantId original \<noteq> je_tenantId draft
        then Some (writerError REVERSAL_TENANT_MISMATCH
          ''Accounting journal reversal original entry belongs to a different tenant.'' draft
          [originalId, (''originalTenantId'', VStr (og_tenantId original))])
        else if og_entryType original = js ''ACCOUNTING_JOURNAL_REVERSAL'' \<or>
                truthy (og_reversalOfEntryId original)
        then Some (writerError REVERSAL_ORIGINAL_NOT_REVERSIBLE
          ''Accounting journal reversal entries cannot be reversed.'' draft
          [originalId, (''originalEntryType'', VStr (og_entryType original)),
           (''originalReversalOfEntryId'', or_null (og_reversalOfEntryId original))])
        else if og_reversedByEntry original \<noteq> None
        then Some (writerError REVERSAL_ALREADY_EXISTS
          ''Accounting journal original entry already has a reversal.'' draft
          [originalId, (''existingJournalEntryId'', or_null (og_reversedByEntry original))])
        else if (case je_reversalOf draft of
                   None \<Rightarrow> True
                 | Some r \<Rightarrow> rv_sourceType r \<noteq> og_sourceType original \<or> rv_sourceId r \<noteq> og_sourceId original \<or>
                     rv_sourceAction r \<noteq> og_sourceAction original)
        then Some (writerError REVERSAL_ORIGINAL_NOT_FOUND
          ''Accounting journal reversal original source tuple does not match persisted original entry.'' draft
          [originalId, (''expectedSourceType'', VStr (og_sourceType original)),
           (''expectedSourceId'', VStr (og_sourceId original)),
           (''expectedSourceAction'', VStr (og_sourceAction original)),
           (''reversalSourceType'', or_null (map_option rv_sourceType (je_reversalOf draft))),
           (''reversalSourceId'', or_null (map_option rv_sourceId (je_reversalOf draft))),
           (''reversalSourceAction'', or_null (map_option rv_sourceAction (je_reversalOf draft)))])
        else None)"

definition validateReversalOriginal ::
  "'s journal_client \<Rightarrow> ValidatedJournalEntryDraft \<Rightarrow> 's \<Rightarrow> journal_failure + JournalWriterError option" where
  "validateReversalOriginal db draft s =
     (if je_sourceType draft \<noteq> js ''ACCOUNTING_JOURNAL_ENTRY'' \<or> je_sourceAction draft \<noteq> js ''reversal''
      then Inr None
      else if \<not> truthy (reversed_entry draft) \<or> reversed_entry draft \<noteq> Some (je_sourceId draft)
      then Inr (Some (writerError REVERSAL_ORIGINAL_NOT_FOUND
             ''Accounting journal reversal requires the original journal entry id.'' draft
             [(''reversalJournalEntryId'', or_null (reversed_entry draft))]))
      else map_sum id (reversal_original_error draft (je_sourceId draft))
             (jc_findOriginal db (je_sourceId draft) s))"

subsection \<open>Writing\<close>

type_synonym 's journal_write = "(journal_failure + JournalWriterResult) \<times> 's"

definition after_conflict ::
  "'s journal_client \<Rightarrow> ValidatedJournalEntryDraft \<Rightarrow> journal_failure \<Rightarrow> 's \<Rightarrow> 's journal_write" where
  "after_conflict db draft error s =
     (let failed = (Inr (Inl [writerError DB_WRITE_FAILED ''Accounting journal write failed.'' draft
                       [(''errorMessage'', VStr (jf_message error))]]), s) in
      if isUniqueConflict error then
        case findBySource db draft s of
          Inl e \<Rightarrow> (Inl e, s)
        | Inr (Some racedExisting) \<Rightarrow> (Inr (replayOrRejectExisting draft racedExisting), s)
        | Inr None \<Rightarrow>
          (case findByReversalOf db draft s of
             Inl e \<Rightarrow> (Inl e, s)
           | Inr (Some existingReversal) \<Rightarrow>
               (Inr (Inl [writerError REVERSAL_ALREADY_EXISTS
                  ''Accounting journal original entry already has a reversal.'' draft
                  [(''existingJournalEntryId'', VStr (ex_id existingReversal)),
                   (''originalJournalEntryId'', or_null (reversed_entry draft))]]), s)
           | Inr None \<Rightarrow> failed)
      else failed)"

definition create_entry ::
  "(jstr \<Rightarrow> jsdate) \<Rightarrow> 's journal_client \<Rightarrow> ValidatedJournalEntryDraft \<Rightarrow> 's \<Rightarrow> 's journal_write" where
  "create_entry other db draft s =
     (case jc_create db (entry_data other draft) s of
        (Inr (createdId, lineCount), s') \<Rightarrow>
          (Inr (Inr \<lparr>wo_status = CREATED, wo_journalEntryId = createdId,
                     wo_idempotencyKey = je_idempotencyKey draft, wo_sourceVersion = je_sourceVersion draft,
                     wo_lineCount = lineCount\<rparr>), s')
      | (Inl error, s') \<Rightarrow> after_conflict db draft error s')"

definition writeValidatedDraft ::
  "(jstr \<Rightarrow> jsdate) \<Rightarrow> 's journal_client \<Rightarrow> ValidatedJournalEntryDraft \<Rightarrow> 's \<Rightarrow> 's journal_write" where
  "writeValidatedDraft other db draft s =
     (case findBySource db draft s of
        Inl e \<Rightarrow> (Inl e, s)
      | Inr (Some existingBySource) \<Rightarrow> (Inr (replayOrRejectExisting draft existingBySource), s)
      | Inr None \<Rightarrow>
        (case jc_findByIdempotencyKey db (je_tenantId draft) (je_idempotencyKey draft) s of
           Inl e \<Rightarrow> (Inl e, s)
         | Inr (Some existing) \<Rightarrow>
             (Inr (Inl [writerError IDEMPOTENCY_CONFLICT
                ''Accounting journal idempotency key already belongs to a different source.'' draft
                [(''existingSourceType'', VStr (ex_sourceType existing)),
                 (''existingSourceId'', VStr (ex_sourceId existing)),
                 (''existingSourceAction'', VStr (ex_sourceAction existing))]]), s)
         | Inr None \<Rightarrow>
           (case validateReversalOriginal db draft s of
              Inl e \<Rightarrow> (Inl e, s)
            | Inr (Some reversalOriginalError) \<Rightarrow> (Inr (Inl [reversalOriginalError]), s)
            | Inr None \<Rightarrow> create_entry other db draft s)))"

text \<open>\<open>write\<close> of the service.\<close>

definition writeJournal ::
  "(jstr \<Rightarrow> jsdate) \<Rightarrow> 's journal_client \<Rightarrow> ValidatedJournalEntryDraft \<Rightarrow> 's \<Rightarrow> 's journal_write" where
  "writeJournal other db draft s = writeValidatedDraft other db draft s"

end
