(* ===== verification/JournalStore.thy ===== *)
theory JournalStore
  imports JournalWriter
begin

section \<open>The store of journal entries\<close>

text \<open>
  What the writer relies on of its database client is the locale \<open>journal_store\<close>: an entry that was
  created is found by its source, and its original is known to be reversed. The tables of the schema
  (schema.prisma and the migration of the journal) with their unique indexes, foreign key and check
  constraints are an instance. On them the writer keeps the invariant of the ledger: every entry is
  balanced, a source has at most one entry, and only entries that are no reversals are reversed, once.
  The ledger as a function from sources to entries is the abstract specification the writer refines.
\<close>

subsection \<open>The contract\<close>

definition data_source :: "JournalEntryData \<Rightarrow> source_key" where
  "data_source d = (jd_tenantId d, jd_sourceType d, jd_sourceId d, jd_sourceAction d)"

definition existing_entry :: "jstr \<Rightarrow> JournalEntryData \<Rightarrow> ExistingJournalEntry" where
  "existing_entry i d =
     \<lparr>ex_id = i, ex_idempotencyKey = jd_idempotencyKey d, ex_sourceHash = jd_sourceHash d,
      ex_sourceType = jd_sourceType d, ex_sourceId = jd_sourceId d, ex_sourceAction = jd_sourceAction d,
      ex_lineCount = length (jd_lines d)\<rparr>"

lemma data_source_entry [simp]: "data_source (entry_data other draft) = source_key draft"
  by (simp add: data_source_def entry_data_def source_key_def)

locale journal_store =
  fixes db :: "'s journal_client"
  assumes created_found: "jc_create db d s = (Inr (i, n), s') \<Longrightarrow>
      jc_findBySource db (data_source d) s' = Inr (Some (existing_entry i d))"
    and created_count: "jc_create db d s = (Inr (i, n), s') \<Longrightarrow> n = length (jd_lines d)"
begin

lemma write_created:
  assumes "writeJournal other db draft s = (Inr (Inr out), s')" "wo_status out = CREATED"
  shows "jc_create db (entry_data other draft) s = (Inr (wo_journalEntryId out, wo_lineCount out), s')"
    and "findBySource db draft s = Inr None"
    and "out = \<lparr>wo_status = CREATED, wo_journalEntryId = wo_journalEntryId out,
      wo_idempotencyKey = je_idempotencyKey draft, wo_sourceVersion = je_sourceVersion draft,
      wo_lineCount = length (je_lines draft)\<rparr>"
proof -
  have replay: "wo_status o' \<noteq> CREATED" if "replayOrRejectExisting draft e = Inr o'" for e o'
    using that by (auto simp: replayOrRejectExisting_def split: if_split_asm)
  show c: "jc_create db (entry_data other draft) s = (Inr (wo_journalEntryId out, wo_lineCount out), s')"
    and "findBySource db draft s = Inr None"
    using assms
    by (auto simp: writeJournal_def writeValidatedDraft_def create_entry_def after_conflict_def Let_def
        dest: replay split: sum.split_asm option.split_asm prod.split_asm if_split_asm)
  have "wo_idempotencyKey out = je_idempotencyKey draft" "wo_sourceVersion out = je_sourceVersion draft"
    using assms
    by (auto simp: writeJournal_def writeValidatedDraft_def create_entry_def after_conflict_def Let_def
        dest: replay split: sum.split_asm option.split_asm prod.split_asm if_split_asm)
  then show "out = \<lparr>wo_status = CREATED, wo_journalEntryId = wo_journalEntryId out,
      wo_idempotencyKey = je_idempotencyKey draft, wo_sourceVersion = je_sourceVersion draft,
      wo_lineCount = length (je_lines draft)\<rparr>"
    using created_count [OF c] assms(2) by (cases out) (simp add: entry_data_def)
qed

text \<open>After an entry was created, its source is never created again: a write of the source replays the
  entry or names the difference, and changes nothing.\<close>

lemma written_once:
  assumes "writeJournal other db draft s = (Inr (Inr out), s')" "wo_status out = CREATED"
    and "source_key draft' = source_key draft"
  shows "writeJournal other db draft' s' =
    (Inr (replayOrRejectExisting draft' (existing_entry (wo_journalEntryId out) (entry_data other draft))), s')"
  using created_found [OF write_created(1) [OF assms(1,2)]]
  by (simp add: writeJournal_def writeValidatedDraft_def findBySource_def assms(3))

lemma replayed:
  assumes "writeJournal other db draft s = (Inr (Inr out), s')" "wo_status out = CREATED"
  shows "writeJournal other db draft s' = (Inr (Inr (out\<lparr>wo_status := REPLAYED\<rparr>)), s')"
  unfolding written_once [OF assms refl] using write_created(3) [OF assms]
  by (cases out) (simp add: replayOrRejectExisting_def existing_entry_def entry_data_def)

end

text \<open>Another writer that acts between the checks and the create: it changes the state by \<open>env\<close>.\<close>

definition interfering :: "('s \<Rightarrow> 's) \<Rightarrow> 's journal_client \<Rightarrow> 's journal_client" where
  "interfering env db = db\<lparr>jc_create := \<lambda>d s. jc_create db d (env s)\<rparr>"

lemma interfering_simps [simp]:
  "jc_findBySource (interfering env db) = jc_findBySource db"
  "jc_findByIdempotencyKey (interfering env db) = jc_findByIdempotencyKey db"
  "jc_findOriginal (interfering env db) = jc_findOriginal db"
  "jc_findByReversalOf (interfering env db) = jc_findByReversalOf db"
  "jc_create (interfering env db) d s = jc_create db d (env s)"
  "findBySource (interfering env db) draft s = findBySource db draft s"
  "findByReversalOf (interfering env db) draft s = findByReversalOf db draft s"
  "validateReversalOriginal (interfering env db) draft s = validateReversalOriginal db draft s"
  by (auto simp: interfering_def findBySource_def findByReversalOf_def validateReversalOriginal_def
      split: option.split)

lemma interfering_store: "journal_store db \<Longrightarrow> journal_store (interfering env db)"
  by (simp add: journal_store_def)

subsection \<open>The tables\<close>

record JournalRow =
  jr_id :: jstr
  jr_data :: JournalEntryData

record JournalTables =
  jt_entries :: "JournalRow list"

definition ENTRY_TYPES :: "jstr list" where
  "ENTRY_TYPES = map js
     [''COLLECTION_CASH_RECEIPT_RECORDED'', ''COLLECTION_CASH_RECEIPT_REVERSED'',
      ''COLLECTION_DISTRIBUTION_POSTED'', ''CLIENT_PAYOUT_RECORDED'', ''CLIENT_OFFSET_APPLIED'',
      ''CLIENT_OFFSET_REVERSED'', ''CLIENT_ADVANCE_LEDGER_RECORDED'', ''EXPENSE_REQUEST_RECORDED'',
      ''EXPENSE_REQUEST_CANCELLED'', ''EXPENSE_PAYMENT_RECORDED'',
      ''COLLECTION_DISPOSITION_EXPENSE_APPLICATION_APPLIED'',
      ''COLLECTION_DISPOSITION_EXPENSE_APPLICATION_REVERSED'', ''ACCOUNTING_JOURNAL_REVERSAL'',
      ''ACCOUNTING_JOURNAL_MANUAL_ADJUSTMENT'']"

definition SOURCE_TYPES :: "jstr list" where
  "SOURCE_TYPES = map js
     [''COLLECTION'', ''COLLECTION_DISPOSITION_LINE'', ''CLIENT_PAYOUT'', ''CLIENT_OFFSET'',
      ''BALANCE_LEDGER'', ''EXPENSE_REQUEST'', ''EXPENSE_PAYMENT'',
      ''COLLECTION_DISPOSITION_EXPENSE_APPLICATION'', ''ACCOUNTING_JOURNAL_ENTRY'']"

definition ACCOUNT_CODES :: "jstr list" where
  "ACCOUNT_CODES = map js
     [''CASH_CLEARING'', ''CASE_COLLECTION_CLEARING'', ''CLIENT_PAYABLE'',
      ''CLIENT_EXPENSE_REIMBURSEMENT_PAYABLE'', ''CLIENT_EXPENSE_RECEIVABLE'', ''ATTORNEY_FEE_REVENUE'',
      ''FIRM_EXPENSE_REIMBURSEMENT'', ''CLIENT_ADVANCE_BALANCE'']"

text \<open>
  The columns and checks of a line and of an entry: enumerations, a positive 32-bit line number, a
  positive amount of \<open>DECIMAL(15,2)\<close>, valid dates, and texts that are not blank. The tables take the
  amounts that the validators let pass.
\<close>

definition not_blank :: "jstr \<Rightarrow> bool" where
  "not_blank s \<longleftrightarrow> list_ex (\<lambda>u. u \<noteq> 32) s"

definition line_storable :: "JournalLineDraft \<Rightarrow> bool" where
  "line_storable l \<longleftrightarrow>
     line_number_ok (ln_lineNo l) \<and> js_less (ln_lineNo l) (js_int (2 ^ 31)) \<and>
     ln_accountCode l \<in> set ACCOUNT_CODES \<and> ln_direction l \<in> {DEBIT, CREDIT} \<and>
     money_ok (ln_amount l) \<and> cents (ln_amount l) < 10 ^ 15"

definition entry_storable :: "JournalEntryData \<Rightarrow> bool" where
  "entry_storable d \<longleftrightarrow>
     jd_entryType d \<in> set ENTRY_TYPES \<and> jd_sourceType d \<in> set SOURCE_TYPES \<and>
     jd_sourceOccurredAt d \<noteq> None \<and> jd_postedAt d \<noteq> None \<and>
     not_blank (jd_sourceId d) \<and> not_blank (jd_sourceAction d) \<and> not_blank (jd_idempotencyKey d) \<and>
     list_all line_storable (jd_lines d)"

definition data_key :: "JournalEntryData \<Rightarrow> jstr \<times> jstr" where
  "data_key d = (jd_tenantId d, jd_idempotencyKey d)"

definition reversed_ids :: "JournalTables \<Rightarrow> jstr list" where
  "reversed_ids t = List.map_filter (\<lambda>r. jd_reversalOfEntryId (jr_data r)) (jt_entries t)"

definition entry_unique :: "JournalTables \<Rightarrow> JournalEntryData \<Rightarrow> bool" where
  "entry_unique t d \<longleftrightarrow>
     data_key d \<notin> set (map (data_key \<circ> jr_data) (jt_entries t)) \<and>
     data_source d \<notin> set (map (data_source \<circ> jr_data) (jt_entries t)) \<and>
     jd_reversalOfEntryId d \<notin> Some ` set (reversed_ids t) \<and>
     distinct (map ln_lineNo (jd_lines d))"

definition original_stored :: "JournalTables \<Rightarrow> JournalEntryData \<Rightarrow> bool" where
  "original_stored t d \<longleftrightarrow>
     (case jd_reversalOfEntryId d of None \<Rightarrow> True | Some i \<Rightarrow> i \<in> set (map jr_id (jt_entries t)))"

definition next_entry_id :: "JournalTables \<Rightarrow> jstr" where
  "next_entry_id t = js ''e'' @ js_of_nat (length (jt_entries t))"

definition db_refusal :: "string option \<Rightarrow> journal_failure" where
  "db_refusal code = \<lparr>jf_code = map_option js code, jf_message = js ''write refused''\<rparr>"

definition insert_entry :: "JournalEntryData \<Rightarrow> JournalTables \<Rightarrow> (journal_failure + jstr \<times> nat) \<times> JournalTables" where
  "insert_entry d t =
     (if \<not> entry_storable d then (Inl (db_refusal None), t)
      else if \<not> entry_unique t d then (Inl (db_refusal (Some ''P2002'')), t)
      else if \<not> original_stored t d then (Inl (db_refusal (Some ''P2003'')), t)
      else (Inr (next_entry_id t, length (jd_lines d)),
            t\<lparr>jt_entries := jt_entries t @ [\<lparr>jr_id = next_entry_id t, jr_data = d\<rparr>]\<rparr>))"

definition row_entry :: "JournalRow \<Rightarrow> ExistingJournalEntry" where
  "row_entry r = existing_entry (jr_id r) (jr_data r)"

definition find_row :: "(JournalRow \<Rightarrow> bool) \<Rightarrow> JournalTables \<Rightarrow> JournalRow option" where
  "find_row P t = List.find P (jt_entries t)"

definition row_original :: "JournalTables \<Rightarrow> JournalRow \<Rightarrow> OriginalReversalJournalEntry" where
  "row_original t r =
     \<lparr>og_id = jr_id r, og_tenantId = jd_tenantId (jr_data r), og_entryType = jd_entryType (jr_data r),
      og_sourceType = jd_sourceType (jr_data r), og_sourceId = jd_sourceId (jr_data r),
      og_sourceAction = jd_sourceAction (jr_data r),
      og_reversalOfEntryId = jd_reversalOfEntryId (jr_data r),
      og_reversedByEntry =
        map_option jr_id (find_row (\<lambda>q. jd_reversalOfEntryId (jr_data q) = Some (jr_id r)) t)\<rparr>"

definition journal_tables :: "JournalTables journal_client" where
  "journal_tables =
     \<lparr>jc_findBySource = (\<lambda>k t. Inr (map_option row_entry (find_row (\<lambda>r. data_source (jr_data r) = k) t))),
      jc_findByIdempotencyKey = (\<lambda>tenant key t.
        Inr (map_option row_entry (find_row (\<lambda>r. data_key (jr_data r) = (tenant, key)) t))),
      jc_findOriginal = (\<lambda>i t. Inr (map_option (row_original t) (find_row (\<lambda>r. jr_id r = i) t))),
      jc_findByReversalOf = (\<lambda>tenant i t. Inr (map_option row_entry
        (find_row (\<lambda>r. jd_tenantId (jr_data r) = tenant \<and> jd_reversalOfEntryId (jr_data r) = Some i) t))),
      jc_create = insert_entry\<rparr>"

lemma journal_tables_simps [simp]:
  "jc_findBySource journal_tables k t = Inr (map_option row_entry (find_row (\<lambda>r. data_source (jr_data r) = k) t))"
  "jc_findByIdempotencyKey journal_tables tenant key t =
     Inr (map_option row_entry (find_row (\<lambda>r. data_key (jr_data r) = (tenant, key)) t))"
  "jc_findOriginal journal_tables i t = Inr (map_option (row_original t) (find_row (\<lambda>r. jr_id r = i) t))"
  "jc_findByReversalOf journal_tables tenant i t = Inr (map_option row_entry
     (find_row (\<lambda>r. jd_tenantId (jr_data r) = tenant \<and> jd_reversalOfEntryId (jr_data r) = Some i) t))"
  "jc_create journal_tables = insert_entry"
  by (simp_all add: journal_tables_def)

lemma insert_entry_Inr:
  "insert_entry d t = (Inr (i, n), t') \<longleftrightarrow>
     entry_storable d \<and> entry_unique t d \<and> original_stored t d \<and> i = next_entry_id t \<and>
     n = length (jd_lines d) \<and> t' = t\<lparr>jt_entries := jt_entries t @ [\<lparr>jr_id = next_entry_id t, jr_data = d\<rparr>]\<rparr>"
  by (auto simp: insert_entry_def)

lemma insert_entry_Inl: "insert_entry d t = (Inl e, t') \<Longrightarrow> t' = t"
  by (auto simp: insert_entry_def split: if_split_asm)

lemma find_row_append:
  "find_row P (t\<lparr>jt_entries := jt_entries t @ [r]\<rparr>) =
     (case find_row P t of Some q \<Rightarrow> Some q | None \<Rightarrow> if P r then Some r else None)"
proof -
  have "List.find P (xs @ [r]) = (case List.find P xs of Some q \<Rightarrow> Some q | None \<Rightarrow> if P r then Some r else None)" for xs
    by (induction xs) auto
  then show ?thesis by (simp add: find_row_def)
qed

lemma find_row_None: "find_row P t = None \<longleftrightarrow> (\<forall>r \<in> set (jt_entries t). \<not> P r)"
  by (simp add: find_row_def find_None_iff)

lemma find_row_Some: "find_row P t = Some r \<Longrightarrow> r \<in> set (jt_entries t) \<and> P r"
  by (auto simp: find_row_def find_Some_iff)

interpretation ledger: journal_store journal_tables
proof
  fix d and t t' :: JournalTables and i n
  assume "jc_create journal_tables d t = (Inr (i, n), t')"
  then have c: "entry_unique t d" "i = next_entry_id t" "n = length (jd_lines d)"
    "t' = t\<lparr>jt_entries := jt_entries t @ [\<lparr>jr_id = next_entry_id t, jr_data = d\<rparr>]\<rparr>"
    by (simp_all add: insert_entry_Inr)
  have "find_row (\<lambda>r. data_source (jr_data r) = data_source d) t = None"
    using c(1) unfolding find_row_None entry_unique_def by force
  then show "jc_findBySource journal_tables (data_source d) t' = Inr (Some (existing_entry i d))"
    by (simp add: c(2,4) find_row_append row_entry_def)
  show "n = length (jd_lines d)" by (rule c(3))
qed

interpretation contended: journal_store "interfering env journal_tables" for env
  by (rule interfering_store) unfold_locales

subsection \<open>The invariant of the ledger\<close>

definition entry_balanced :: "JournalEntryData \<Rightarrow> bool" where
  "entry_balanced d \<longleftrightarrow>
     jd_tenantId d \<noteq> [] \<and> jd_currency d \<noteq> [] \<and> jd_lines d \<noteq> [] \<and>
     debits (jd_lines d) = credits (jd_lines d) \<and> distinct (map ln_lineNo (jd_lines d)) \<and>
     list_all (\<lambda>l. ln_tenantId l = jd_tenantId d \<and> ln_currency l = jd_currency d \<and>
       ln_direction l \<in> {DEBIT, CREDIT} \<and> money_ok (ln_amount l)) (jd_lines d)"

text \<open>A reversal refers to its source, an entry of its tenant that is no reversal; no other entry refers
  to an entry.\<close>

definition reversal_ok :: "JournalTables \<Rightarrow> JournalEntryData \<Rightarrow> bool" where
  "reversal_ok t d \<longleftrightarrow>
     (case jd_reversalOfEntryId d of
        None \<Rightarrow> \<not> (jd_sourceType d = js ''ACCOUNTING_JOURNAL_ENTRY'' \<and> jd_sourceAction d = js ''reversal'')
      | Some i \<Rightarrow> jd_sourceId d = i \<and> list_ex (\<lambda>r. jr_id r = i \<and> jd_tenantId (jr_data r) = jd_tenantId d \<and>
          jd_reversalOfEntryId (jr_data r) = None) (jt_entries t))"

definition journal_ok :: "JournalTables \<Rightarrow> bool" where
  "journal_ok t \<longleftrightarrow>
     map jr_id (jt_entries t) = map (\<lambda>n. js ''e'' @ js_of_nat n) [0..<length (jt_entries t)] \<and>
     distinct (map (data_key \<circ> jr_data) (jt_entries t)) \<and>
     distinct (map (data_source \<circ> jr_data) (jt_entries t)) \<and>
     distinct (reversed_ids t) \<and>
     list_all (\<lambda>r. entry_storable (jr_data r) \<and> entry_balanced (jr_data r) \<and> reversal_ok t (jr_data r))
       (jt_entries t)"

lemma journal_ok_empty: "journal_ok \<lparr>jt_entries = []\<rparr>"
  by (simp add: journal_ok_def reversed_ids_def List.map_filter_def)

text \<open>The drafts the program builds and validates, as the writer gets them.\<close>

definition journal_draft :: "ValidatedJournalEntryDraft \<Rightarrow> bool" where
  "journal_draft draft \<longleftrightarrow>
     (\<exists>source built. buildAccountingJournal source = Inr built \<and> validateJournalDraft built = Inr draft)"

lemma extend_sel [simp]:
  "je_tenantId (validated_draft d) = je_tenantId d" "je_lines (validated_draft d) = je_lines d"
  "je_currency (validated_draft d) = je_currency d" "je_reversalOf (validated_draft d) = je_reversalOf d"
  "je_sourceType (validated_draft d) = je_sourceType d" "je_sourceId (validated_draft d) = je_sourceId d"
  "je_sourceAction (validated_draft d) = je_sourceAction d" "je_entryType (validated_draft d) = je_entryType d"
  "je_idempotencyKey (validated_draft d) = je_idempotencyKey d" "je_sourceHash (validated_draft d) = je_sourceHash d"
  "je_sourceVersion (validated_draft d) = je_sourceVersion d" "je_metadata (validated_draft d) = je_metadata d"
  "je_sourceOccurredAt (validated_draft d) = je_sourceOccurredAt d"
  by (simp_all add: validated_draft_def JournalEntryDraft.defs)

lemma validated_balanced:
  assumes "validateJournalDraft d = Inr draft"
  shows "entry_balanced (entry_data other draft)"
proof -
  have s: "structure_ok d" and draft: "draft = validated_draft d"
    using assms by (simp_all add: validateJournalDraft_Inr)
  from s have "list_all (\<lambda>l. ln_tenantId l = je_tenantId d \<and> ln_currency l = je_currency d \<and>
      ln_direction l \<in> {DEBIT, CREDIT} \<and> money_ok (ln_amount l)) (je_lines d)"
    by (auto simp: structure_ok_def line_ok_def list_all_iff)
  with s show ?thesis by (auto simp: entry_balanced_def entry_data_def draft structure_ok_def texts_ok_def)
qed

text \<open>Only the reversal of a journal entry carries the identifier of an entry.\<close>

lemma built_reversal:
  assumes "buildAccountingJournal source = Inr d" "validateJournalDraft d = Inr draft"
    and "reversed_entry draft = Some i"
  shows "je_sourceType draft = js ''ACCOUNTING_JOURNAL_ENTRY'' \<and> je_sourceAction draft = js ''reversal''"
proof -
  have draft: "draft = validated_draft d" and b: "validateJournalBusiness d = Inr d"
    using assms(2) by (simp_all add: validateJournalDraft_Inr)
  note r = assms(3) [unfolded draft reversed_entry_def extend_sel]
  have none: "rv_journalEntryId rv = None" if "je_reversalOf d = Some rv" "\<nexists>s. source = JournalEntrySource (ReversalSource s)" for rv
    using assms(1) that
    by (cases source) (auto simp: buildCollectionJournal_def buildClientOffsetJournal_def buildCollectionDispositionLineJournal_def
        buildClientPayoutJournal_def buildBalanceLedgerJournal_def buildExpenseRequestJournal_def
        buildExpensePaymentJournal_def buildCollectionDispositionExpenseApplicationJournal_def
        buildAccountingJournalEntryJournal_def buildManualAdjustmentJournal_def
        cancelGuardError_def Let_def build_guard build_option_guard finish_draft_Inr
        split: if_split_asm option.split_asm AccountingJournalEntrySource.split_asm)
  then obtain s where s: "source = JournalEntrySource (ReversalSource s)"
    using r by (cases "je_reversalOf d") auto
  have f: "je_sourceType d = js ''ACCOUNTING_JOURNAL_ENTRY''" "je_sourceAction d = so_sourceAction s"
    "je_entryType d = js ''ACCOUNTING_JOURNAL_REVERSAL''"
    using assms(1) unfolding s buildAccountingJournal.simps buildAccountingJournalEntryJournal_def
      AccountingJournalEntrySource.case buildReversalJournal_def Let_def build_guard build_option_guard finish_draft_Inr
    by simp_all
  have "validateAccountingJournalManualAdjustmentBusiness d \<noteq> Inr d"
    by (simp add: validateAccountingJournalManualAdjustmentBusiness_def Let_def f)
  then have "so_sourceAction s = js ''reversal''"
    using b by (auto simp: validateJournalBusiness_def f validateAccountingJournalEntryBusiness_def split: if_split_asm)
  then show ?thesis by (simp add: draft f)
qed

lemma validated_reversal:
  assumes "validateJournalDraft d = Inr draft"
    and "je_sourceType draft = js ''ACCOUNTING_JOURNAL_ENTRY''" "je_sourceAction draft = js ''reversal''"
  shows "reversed_entry draft = Some (je_sourceId draft)"
proof -
  have draft: "draft = validated_draft d" and b: "validateJournalBusiness d = Inr d"
    using assms(1) by (simp_all add: validateJournalDraft_Inr)
  have "validateAccountingJournalReversalBusiness d = Inr d"
    using b assms(2,3) by (simp add: draft validateJournalBusiness_def validateAccountingJournalEntryBusiness_def)
  then show ?thesis
    by (auto simp: validateAccountingJournalReversalBusiness_def draft reversed_entry_def
        split: option.split_asm)
qed

text \<open>What a write on the tables can do, with other writers in between.\<close>

lemma write_inserts:
  assumes "writeJournal other (interfering env journal_tables) draft t = (r, t')"
  shows "t' = t \<or> t' = env t \<or>
    (findBySource journal_tables draft t = Inr None \<and>
     jc_findByIdempotencyKey journal_tables (je_tenantId draft) (je_idempotencyKey draft) t = Inr None \<and>
     validateReversalOriginal journal_tables draft t = Inr None \<and>
     (\<exists>i n. insert_entry (entry_data other draft) (env t) = (Inr (i, n), t')))"
proof -
  have conflict: "t' = env t" if "after_conflict (interfering env journal_tables) draft e (env t) = (r, t')" for e
    using that by (auto simp: after_conflict_def Let_def split: if_split_asm sum.split_asm option.split_asm)
  show ?thesis
    using assms
    by (auto simp: writeJournal_def writeValidatedDraft_def create_entry_def
        dest!: insert_entry_Inl conflict split: sum.split_asm option.split_asm prod.split_asm)
qed

lemma reversed_ids_append:
  "reversed_ids (t\<lparr>jt_entries := jt_entries t @ [r]\<rparr>) =
     reversed_ids t @ (case jd_reversalOfEntryId (jr_data r) of None \<Rightarrow> [] | Some i \<Rightarrow> [i])"
  by (simp add: reversed_ids_def List.map_filter_def split: option.split)

lemma reversal_ok_append:
  "reversal_ok t d \<Longrightarrow> set (jt_entries t) \<subseteq> set (jt_entries t') \<Longrightarrow> reversal_ok t' d"
  by (auto simp: reversal_ok_def list_ex_iff split: option.splits)

lemma insert_ok:
  assumes "journal_ok t" "insert_entry d t = (Inr (i, n), t')" "entry_balanced d" "reversal_ok t d"
  shows "journal_ok t'"
proof -
  let ?r = "\<lparr>jr_id = next_entry_id t, jr_data = d\<rparr>"
  have c: "entry_storable d" "entry_unique t d" "t' = t\<lparr>jt_entries := jt_entries t @ [?r]\<rparr>"
    using assms(2) by (simp_all add: insert_entry_Inr)
  have rev: "reversed_ids t' = reversed_ids t @ (case jd_reversalOfEntryId d of None \<Rightarrow> [] | Some i \<Rightarrow> [i])"
    by (simp add: c(3) reversed_ids_append)
  have "distinct (reversed_ids t')"
    using assms(1) c(2) unfolding rev journal_ok_def entry_unique_def by (auto split: option.split)
  moreover have "list_all (\<lambda>r. reversal_ok t' (jr_data r)) (jt_entries t')"
    using assms(1,4) reversal_ok_append [where t = t and t' = t'] by (auto simp: c(3) journal_ok_def list_all_iff)
  moreover have "map jr_id (jt_entries t') = map (\<lambda>n. js ''e'' @ js_of_nat n) [0..<length (jt_entries t')]"
    using assms(1) by (simp add: c(3) journal_ok_def next_entry_id_def)
  ultimately show ?thesis
    using assms(1,3) c(1,2) unfolding journal_ok_def entry_unique_def by (simp add: c(3) list_all_iff)
qed

lemma original_checked:
  assumes "journal_ok t" "journal_draft draft" "validateReversalOriginal journal_tables draft t = Inr None"
  shows "reversal_ok t (entry_data other draft)"
proof (cases "reversed_entry draft")
  case None
  then show ?thesis
    using validated_reversal assms(2) by (auto simp: reversal_ok_def entry_data_def journal_draft_def)
next
  case (Some i)
  obtain source d where "buildAccountingJournal source = Inr d" "validateJournalDraft d = Inr draft"
    using assms(2) by (auto simp: journal_draft_def)
  note reversal = built_reversal [OF this Some] and id = validated_reversal [OF this(2)]
  obtain row where row: "find_row (\<lambda>r. jr_id r = i) t = Some row" "jd_tenantId (jr_data row) = je_tenantId draft"
    "\<not> truthy (jd_reversalOfEntryId (jr_data row))"
    using assms(3) reversal Some
    by (auto simp: validateReversalOriginal_def reversal_original_error_def row_original_def Let_def
        split: if_split_asm option.split_asm)
  have "jd_reversalOfEntryId (jr_data row) = None"
  proof (rule ccontr)
    assume "jd_reversalOfEntryId (jr_data row) \<noteq> None"
    with row(3) have e: "jd_reversalOfEntryId (jr_data row) = Some []" by (auto simp: truthy_def split: option.splits)
    have "reversal_ok t (jr_data row)"
      using find_row_Some [OF row(1)] assms(1) by (simp add: journal_ok_def list_all_iff)
    then have "[] \<in> set (map jr_id (jt_entries t))" by (force simp: reversal_ok_def e list_ex_iff)
    then show False using assms(1) unfolding journal_ok_def by (auto simp: js_eval)
  qed
  then show ?thesis
    using Some row(2) find_row_Some [OF row(1)] reversal id by (auto simp: reversal_ok_def entry_data_def list_ex_iff)
qed

lemma write_keeps:
  assumes "journal_ok t" "journal_ok (env t)" "set (jt_entries t) \<subseteq> set (jt_entries (env t))" "journal_draft draft"
  shows "journal_ok (snd (writeJournal other (interfering env journal_tables) draft t))"
proof -
  obtain r t' where w: "writeJournal other (interfering env journal_tables) draft t = (r, t')" by force
  have "journal_ok t'"
    using write_inserts [OF w]
  proof (elim disjE conjE exE)
    fix i n assume v: "validateReversalOriginal journal_tables draft t = Inr None"
      and ins: "insert_entry (entry_data other draft) (env t) = (Inr (i, n), t')"
    have "entry_balanced (entry_data other draft)"
      using assms(4) validated_balanced by (auto simp: journal_draft_def)
    moreover have "reversal_ok (env t) (entry_data other draft)"
      using original_checked [OF assms(1,4) v] assms(3) by (rule reversal_ok_append)
    ultimately show ?thesis using assms(2) ins by (rule insert_ok [rotated 2])
  qed (use assms in simp_all)
  then show ?thesis by (simp add: w)
qed

lemma interfering_id [simp]: "interfering (\<lambda>t. t) db = db"
  by (simp add: interfering_def)

end
