(* ===== verification/JournalLedger.thy ===== *)
theory JournalLedger
  imports JournalStore
begin

section \<open>The ledger of the journal\<close>

text \<open>
  The properties of the accounting journal as one program: a source is built into a draft, validated
  and written. The ledger is the function from sources to stored entries; the writer refines its
  abstract specification, in which a source is posted once, replayed, or refused for a reason.
\<close>

subsection \<open>The abstract ledger\<close>

type_synonym ledger = "source_key \<rightharpoonup> jstr \<times> JournalEntryData"

datatype ledger_outcome = Posted jstr | Replayed jstr | Refused

text \<open>An entry agrees with a stored entry of its source: the same version, and no other hash.\<close>

definition entries_agree :: "JournalEntryData \<Rightarrow> JournalEntryData \<Rightarrow> bool" where
  "entries_agree d e \<longleftrightarrow>
     jd_idempotencyKey d = jd_idempotencyKey e \<and>
     (truthy (jd_sourceHash d) \<and> truthy (jd_sourceHash e) \<longrightarrow> jd_sourceHash d = jd_sourceHash e)"

inductive ledger_step :: "ledger \<Rightarrow> JournalEntryData \<Rightarrow> ledger_outcome \<Rightarrow> ledger \<Rightarrow> bool" where
  post: "m (data_source d) = None \<Longrightarrow> entry_balanced d \<Longrightarrow> i \<notin> fst ` ran m \<Longrightarrow>
    ledger_step m d (Posted i) (m(data_source d \<mapsto> (i, d)))"
| replay: "m (data_source d) = Some (i, e) \<Longrightarrow> entries_agree d e \<Longrightarrow> ledger_step m d (Replayed i) m"
| refuse: "(\<And>i e. m (data_source d) = Some (i, e) \<Longrightarrow> \<not> entries_agree d e) \<Longrightarrow> ledger_step m d Refused m"

inductive_cases ledger_postE: "ledger_step m d (Posted i) m'"
inductive_cases ledger_replayE: "ledger_step m d (Replayed i) m'"
inductive_cases ledger_refuseE: "ledger_step m d Refused m'"

definition ledger_of :: "JournalTables \<Rightarrow> ledger" where
  "ledger_of t = map_of (map (\<lambda>r. (data_source (jr_data r), jr_id r, jr_data r)) (jt_entries t))"

fun outcome_of :: "journal_failure + JournalWriterResult \<Rightarrow> ledger_outcome" where
  "outcome_of (Inr (Inr out)) =
     (case wo_status out of CREATED \<Rightarrow> Posted (wo_journalEntryId out)
      | REPLAYED \<Rightarrow> Replayed (wo_journalEntryId out))"
| "outcome_of (Inr (Inl errors)) = Refused"
| "outcome_of (Inl failure) = Refused"

lemma ledger_of_find:
  "ledger_of t k = map_option (\<lambda>r. (jr_id r, jr_data r)) (find_row (\<lambda>r. data_source (jr_data r) = k) t)"
proof -
  have "map_of (map (\<lambda>r. (data_source (jr_data r), jr_id r, jr_data r)) rs) k =
      map_option (\<lambda>r. (jr_id r, jr_data r)) (List.find (\<lambda>r. data_source (jr_data r) = k) rs)" for rs
    by (induction rs) auto
  then show ?thesis by (simp add: ledger_of_def find_row_def)
qed

lemma replay_outcome:
  "outcome_of (Inr (replayOrRejectExisting draft (existing_entry i e))) =
     (if entries_agree (entry_data other draft) e then Replayed i else Refused)"
  by (auto simp: replayOrRejectExisting_def existing_entry_def entries_agree_def entry_data_def)

lemma next_entry_id_fresh: "journal_ok t \<Longrightarrow> next_entry_id t \<notin> fst ` ran (ledger_of t)"
proof
  assume t: "journal_ok t" and "next_entry_id t \<in> fst ` ran (ledger_of t)"
  then obtain k e where "ledger_of t k = Some (next_entry_id t, e)" by (auto simp: ran_def)
  then obtain r where "find_row (\<lambda>r. data_source (jr_data r) = k) t = Some r" "jr_id r = next_entry_id t"
    by (auto simp: ledger_of_find)
  then have "next_entry_id t \<in> set (map jr_id (jt_entries t))" by (metis find_row_Some image_eqI set_map)
  then show False using t unfolding journal_ok_def next_entry_id_def by (auto simp: js_of_nat_inj)
qed

lemma ledger_of_insert:
  assumes "entry_unique t d"
  shows "ledger_of (t\<lparr>jt_entries := jt_entries t @ [\<lparr>jr_id = i, jr_data = d\<rparr>]\<rparr>) =
    (ledger_of t)(data_source d \<mapsto> (i, d))"
proof
  fix k
  have "find_row (\<lambda>r. data_source (jr_data r) = data_source d) t = None"
    using assms unfolding find_row_None entry_unique_def by force
  then show "ledger_of (t\<lparr>jt_entries := jt_entries t @ [\<lparr>jr_id = i, jr_data = d\<rparr>]\<rparr>) k =
      ((ledger_of t)(data_source d \<mapsto> (i, d))) k"
    by (auto simp: ledger_of_find find_row_append split: option.splits)
qed

text \<open>A write that is no replay and no insertion leaves the tables, and the source is not stored or the
  stored entry differs.\<close>

lemma write_step:
  assumes t: "journal_ok t" and draft: "journal_draft draft"
    and w: "writeJournal other journal_tables draft t = (r, t')"
  shows "ledger_step (ledger_of t) (entry_data other draft) (outcome_of r) (ledger_of t')"
proof (cases "find_row (\<lambda>q. data_source (jr_data q) = source_key draft) t")
  case (Some row)
  then have r: "r = Inr (replayOrRejectExisting draft (row_entry row))" "t' = t"
    using w by (simp_all add: writeJournal_def writeValidatedDraft_def findBySource_def)
  have m: "ledger_of t (data_source (entry_data other draft)) = Some (jr_id row, jr_data row)"
    by (simp add: ledger_of_find Some)
  show ?thesis
    unfolding r row_entry_def replay_outcome [where other = other]
    using m by (auto intro: ledger_step.intros)
next
  case None
  then have n: "findBySource journal_tables draft t = Inr None" by (simp add: findBySource_def)
  have m: "ledger_of t (data_source (entry_data other draft)) = None" by (simp add: ledger_of_find None)
  show ?thesis
  proof (cases "outcome_of r = Refused \<and> t' = t")
    case True
    then show ?thesis using m by (auto intro: ledger_step.refuse)
  next
    case False
    have a: "after_conflict journal_tables draft e t = (r, t') \<Longrightarrow> outcome_of r = Refused \<and> t' = t" for e
      using n by (auto simp: after_conflict_def Let_def split: if_split_asm sum.split_asm option.split_asm)
    obtain i k where ins: "insert_entry (entry_data other draft) t = (Inr (i, k), t')"
      and out: "outcome_of r = Posted i"
      using False w n
      by (auto simp: writeJournal_def writeValidatedDraft_def create_entry_def
          dest!: a insert_entry_Inl split: sum.split_asm option.split_asm prod.split_asm)
    have balanced: "entry_balanced (entry_data other draft)"
      using draft validated_balanced by (auto simp: journal_draft_def)
    have m': "ledger_of t' = (ledger_of t)(data_source (entry_data other draft) \<mapsto> (i, entry_data other draft))"
      and i: "i = next_entry_id t"
      using ins by (simp_all add: insert_entry_Inr ledger_of_insert del: data_source_entry)
    show ?thesis
      unfolding out m' i by (rule ledger_step.post [OF m balanced next_entry_id_fresh [OF t]])
  qed
qed

subsection \<open>Two writers of one source\<close>

text \<open>The entry that alone would be created, when another writer stored its source first.\<close>

lemma raced_write:
  assumes "writeJournal other journal_tables draft t = (Inr (Inr out), t')" "wo_status out = CREATED"
    and "find_row (\<lambda>r. data_source (jr_data r) = source_key draft) t2 = Some row"
  shows "writeJournal other (interfering (\<lambda>_. t2) journal_tables) draft t =
    (Inr (replayOrRejectExisting draft (row_entry row)), t2)"
proof -
  note c = ledger.write_created [OF assms(1,2)]
  have "length (jt_entries t') = Suc (length (jt_entries t))" using c(1) by (simp add: insert_entry_Inr)
  then have changed: "t' \<noteq> t" by auto
  have keys: "jc_findByIdempotencyKey journal_tables (je_tenantId draft) (je_idempotencyKey draft) t = Inr None"
    and original: "validateReversalOriginal journal_tables draft t = Inr None"
    using write_inserts [of other "\<lambda>t. t" draft t "Inr (Inr out)" t'] changed assms(1)
    by auto
  have "entry_storable (entry_data other draft)" using c(1) by (simp add: insert_entry_Inr)
  moreover have "\<not> entry_unique t2 (entry_data other draft)"
    using find_row_Some [OF assms(3)] by (force simp: entry_unique_def)
  ultimately have "insert_entry (entry_data other draft) t2 = (Inl (db_refusal (Some ''P2002'')), t2)"
    by (simp add: insert_entry_def)
  then show ?thesis
    using c(2) keys original assms(3)
    by (simp add: writeJournal_def writeValidatedDraft_def create_entry_def after_conflict_def Let_def
        isUniqueConflict_def db_refusal_def findBySource_def)
qed

subsection \<open>An entry is stored\<close>

lemma journal_draft_lines: "journal_draft draft \<Longrightarrow> distinct (map ln_lineNo (je_lines draft))"
  by (auto simp: journal_draft_def validateJournalDraft_Inr structure_ok_def)

lemma write_stores:
  assumes "journal_draft draft" "entry_storable (entry_data other draft)"
    and "ledger_of t (source_key draft) = None"
    and "find_row (\<lambda>r. data_key (jr_data r) = (je_tenantId draft, je_idempotencyKey draft)) t = None"
    and "validateReversalOriginal journal_tables draft t = Inr None"
    and "reversed_entry draft \<notin> Some ` set (reversed_ids t)" "original_stored t (entry_data other draft)"
  shows "writeJournal other journal_tables draft t =
    (Inr (Inr \<lparr>wo_status = CREATED, wo_journalEntryId = next_entry_id t,
       wo_idempotencyKey = je_idempotencyKey draft, wo_sourceVersion = je_sourceVersion draft,
       wo_lineCount = length (je_lines draft)\<rparr>),
     t\<lparr>jt_entries := jt_entries t @ [\<lparr>jr_id = next_entry_id t, jr_data = entry_data other draft\<rparr>]\<rparr>)"
proof -
  have n: "find_row (\<lambda>r. data_source (jr_data r) = source_key draft) t = None"
    using assms(3) by (simp add: ledger_of_find)
  have "entry_unique t (entry_data other draft)"
    using n assms(4,6) journal_draft_lines [OF assms(1)]
    by (auto simp: entry_unique_def find_row_None data_key_def entry_data_def source_key_def data_source_def)
  then have "insert_entry (entry_data other draft) t = (Inr (next_entry_id t, length (je_lines draft)),
      t\<lparr>jt_entries := jt_entries t @ [\<lparr>jr_id = next_entry_id t, jr_data = entry_data other draft\<rparr>]\<rparr>)"
    using assms(2,7) by (simp add: insert_entry_def) (simp add: entry_data_def)
  then show ?thesis
    using n assms(4,5)
    by (simp add: writeJournal_def writeValidatedDraft_def create_entry_def findBySource_def)
qed

end
