(* ===== verification/SourceHash.thy ===== *)
theory SourceHash
  imports SnapshotSerializer JournalSound
begin

section \<open>Hashes of sources (accounting-journal-source-hash.ts)\<close>

text \<open>
  The content of a source is hashed over a canonical JSON text: the members of objects are sorted,
  amounts are written with two decimals, members of \<open>metadata\<close> that only describe are left out. Values
  are those of \<open>jsval\<close>; \<open>Date\<close> objects and objects with a \<open>toString\<close> of their own are not among
  them, so the branch on \<open>Date\<close> is not modelled. SHA-256 is the parameter \<open>sha\<close>. An exception is a
  value of \<open>source_hash_error\<close>.
\<close>

datatype source_hash_error =
    AmountNotNormalizable jstr
  | AmountExceedsDecimals jstr
  | NotSerializable

record CanonicalSourceHashOptions =
  ho_amountFieldNames :: "jstr list option"
  ho_nonAuthoritativeMetadataKeys :: "jstr list option"

definition no_options :: CanonicalSourceHashOptions where
  "no_options = \<lparr>ho_amountFieldNames = None, ho_nonAuthoritativeMetadataKeys = None\<rparr>"

definition DEFAULT_AMOUNT_FIELD_NAMES :: "jstr list" where
  "DEFAULT_AMOUNT_FIELD_NAMES = map js [''amount'', ''totalAmount'', ''paidAmount'', ''remainingAmount'']"

definition DEFAULT_NON_AUTHORITATIVE_METADATA_KEYS :: "jstr list" where
  "DEFAULT_NON_AUTHORITATIVE_METADATA_KEYS = map js
     [''authorizationMode'', ''description'', ''displayName'', ''label'', ''note'', ''notes'', ''safeSummary'',
      ''sourceName'']"

subsection \<open>Amounts\<close>

text \<open>\<open>String(value)\<close>.\<close>

fun js_String :: "jsval \<Rightarrow> jstr" where
  "js_String VUndef = js ''undefined''"
| "js_String VNull = js ''null''"
| "js_String (VBool b) = (if b then js ''true'' else js ''false'')"
| "js_String (VNum n) = number_to_string n"
| "js_String (VBig i) = js_of_int i"
| "js_String (VStr s) = s"
| "js_String (VArr vs) = json_join (map (\<lambda>v. if v = VUndef \<or> v = VNull then [] else js_String v) vs)"
| "js_String (VObj ms) = js ''[object Object]''"

text \<open>The pattern \<open>/^([+-])?(\d+)(?:\.(\d+))?$/\<close>: whether the sign is a minus, and the two parts.\<close>

definition signed_parts :: "jstr \<Rightarrow> (bool \<times> jstr \<times> jstr) option" where
  "signed_parts raw =
     (case raw of
        [] \<Rightarrow> None
      | u # r \<Rightarrow> map_option (\<lambda>parts. (u = 45, parts)) (money_parts (if u = 43 \<or> u = 45 then r else raw)))"

fun stripZeros :: "jstr \<Rightarrow> jstr" where
  "stripZeros (u # d # s) = (if u = 48 \<and> js_digit d then stripZeros (d # s) else u # d # s)"
| "stripZeros s = s"

definition stripLeadingZeros :: "jstr \<Rightarrow> jstr" where
  "stripLeadingZeros value = (let stripped = stripZeros value in if stripped = [] then [48] else stripped)"

definition normalizeSourceHashAmount :: "jsval \<Rightarrow> source_hash_error + jstr" where
  "normalizeSourceHashAmount value =
     (let raw = js_trim (js_String value) in
      case signed_parts raw of
        None \<Rightarrow> Inl (AmountNotNormalizable raw)
      | Some (neg, whole, fraction) \<Rightarrow>
          if list_ex (\<lambda>u. 49 \<le> u \<and> u \<le> 57) (drop 2 fraction) then Inl (AmountExceedsDecimals raw)
          else
            (let sign = (if neg then [45] else []);
                 integer = stripLeadingZeros whole;
                 normalizedFraction = take 2 (padEnd fraction 2 48);
                 normalized = sign @ integer @ [46] @ normalizedFraction in
             Inr (if normalized = js ''-0.00'' then js ''0.00'' else normalized)))"

subsection \<open>Canonical values\<close>

definition ends_with :: "jstr \<Rightarrow> jstr \<Rightarrow> bool" where
  "ends_with s t \<longleftrightarrow> drop (length s - length t) s = t \<and> length t \<le> length s"

definition last_key :: "jstr list \<Rightarrow> jstr" where
  "last_key path = (if path = [] then [] else last path)"

definition isAmountField :: "jstr list \<Rightarrow> CanonicalSourceHashOptions \<Rightarrow> bool" where
  "isAmountField path options \<longleftrightarrow>
     (let key = last_key path in
      key \<noteq> [] \<and>
      (key \<in> set (case ho_amountFieldNames options of None \<Rightarrow> DEFAULT_AMOUNT_FIELD_NAMES | Some names \<Rightarrow> names) \<or>
       ends_with key (js ''Amount'')))"

definition isExcludedMetadataKey :: "jstr list \<Rightarrow> jstr \<Rightarrow> CanonicalSourceHashOptions \<Rightarrow> bool" where
  "isExcludedMetadataKey path key options \<longleftrightarrow>
     path \<noteq> [] \<and> last path = js ''metadata'' \<and>
     key \<in> set (case ho_nonAuthoritativeMetadataKeys options of
       None \<Rightarrow> DEFAULT_NON_AUTHORITATIVE_METADATA_KEYS | Some keys \<Rightarrow> keys)"

text \<open>A loop that stops at the first exception.\<close>

fun collect_results :: "('e + 'a) list \<Rightarrow> 'e + 'a list" where
  "collect_results [] = Inr []"
| "collect_results (Inl e # rs) = Inl e"
| "collect_results (Inr x # rs) = map_sum id (Cons x) (collect_results rs)"

text \<open>The assignment of a member named \<open>__proto__\<close> adds no member.\<close>

definition assigned_members :: "(jstr \<times> jsval) list \<Rightarrow> jsobj" where
  "assigned_members ms = filter (\<lambda>(k, v). v \<noteq> VUndef \<and> k \<noteq> js ''__proto__'') ms"

function canonicalizeSourceHashValue ::
  "CanonicalSourceHashOptions \<Rightarrow> jstr list \<Rightarrow> jsval \<Rightarrow> source_hash_error + jsval" where
  "canonicalizeSourceHashValue options path value =
     (case value of
        VNull \<Rightarrow> Inr VNull
      | VUndef \<Rightarrow> Inr VUndef
      | _ \<Rightarrow>
        if isAmountField path options then map_sum id VStr (normalizeSourceHashAmount value)
        else case value of
          VArr vs \<Rightarrow>
            map_sum id (\<lambda>items. VArr (map (\<lambda>canonical. if canonical = VUndef then VNull else canonical) items))
              (collect_results (map (\<lambda>(index, item).
                 canonicalizeSourceHashValue options (path @ [js_of_nat index]) item) (indexed vs)))
        | VObj record \<Rightarrow>
            let results = map (\<lambda>(key, v). (key, canonicalizeSourceHashValue options (path @ [key]) v)) record;
                keys = filter (\<lambda>key. \<not> isExcludedMetadataKey path key options)
                         (js_sort compareCanonicalKeys (map fst record)) in
            map_sum id (\<lambda>values. VObj (assigned_members (zip keys values)))
              (collect_results (map (\<lambda>key. the (map_of results key)) keys))
        | v \<Rightarrow> Inr v)"
  by pat_completeness auto

lemma size_indexed: "(i, v) \<in> set (indexed vs) \<Longrightarrow> size v < size_list size vs + 1"
  by (metis in_set_indexed less_Suc_eq_le nth_mem size_list_estimation' Suc_eq_plus1 order_refl)

lemma size_member: "(k, v) \<in> set (ms :: (jstr \<times> jsval) list) \<Longrightarrow> size v < size (VObj ms)"
  by (induction ms) (auto simp: less_Suc_eq_le)

termination canonicalizeSourceHashValue
  by (relation "measure (\<lambda>(options, path, value). size value)")
     (auto dest: size_indexed size_member)

declare canonicalizeSourceHashValue.simps [simp del]

lemma canonical_simps:
  "canonicalizeSourceHashValue options path VNull = Inr VNull"
  "canonicalizeSourceHashValue options path (VStr s) =
     (if isAmountField path options then map_sum id VStr (normalizeSourceHashAmount (VStr s)) else Inr (VStr s))"
  "canonicalizeSourceHashValue options path (VNum n) =
     (if isAmountField path options then map_sum id VStr (normalizeSourceHashAmount (VNum n)) else Inr (VNum n))"
  "canonicalizeSourceHashValue options path (VArr vs) =
     (if isAmountField path options then map_sum id VStr (normalizeSourceHashAmount (VArr vs))
      else map_sum id (\<lambda>items. VArr (map (\<lambda>canonical. if canonical = VUndef then VNull else canonical) items))
        (collect_results (map (\<lambda>(index, item).
           canonicalizeSourceHashValue options (path @ [js_of_nat index]) item) (indexed vs))))"
  "canonicalizeSourceHashValue options path (VObj ms) =
     (if isAmountField path options then map_sum id VStr (normalizeSourceHashAmount (VObj ms))
      else let results = map (\<lambda>(key, v). (key, canonicalizeSourceHashValue options (path @ [key]) v)) ms;
               keys = filter (\<lambda>key. \<not> isExcludedMetadataKey path key options)
                        (js_sort compareCanonicalKeys (map fst ms)) in
        map_sum id (\<lambda>values. VObj (assigned_members (zip keys values)))
          (collect_results (map (\<lambda>key. the (map_of results key)) keys)))"
  by (subst canonicalizeSourceHashValue.simps, simp only: jsval.case)+

subsection \<open>The text\<close>

text \<open>The members of an object in the order of \<open>JSON.stringify\<close>: array indices by value, then the
  others as they were assigned.\<close>

definition array_index :: "jstr \<Rightarrow> bool" where
  "array_index k \<longleftrightarrow> unsigned_decimal_integer k \<and> digits_val k < 4294967295"

definition own_members :: "(jstr \<times> 'a) list \<Rightarrow> (jstr \<times> 'a) list" where
  "own_members ms =
     js_sort (\<lambda>a b. int (digits_val (fst a)) - int (digits_val (fst b))) (filter (array_index \<circ> fst) ms) @
     filter (\<lambda>m. \<not> array_index (fst m)) ms"

fun json_text :: "jsval \<Rightarrow> source_hash_error + jstr" where
  "json_text VUndef = Inl NotSerializable"
| "json_text VNull = Inr (js ''null'')"
| "json_text (VBool b) = Inr (if b then js ''true'' else js ''false'')"
| "json_text (VNum n) = Inr (json_number_text n)"
| "json_text (VBig i) = Inl NotSerializable"
| "json_text (VStr s) = Inr (json_quote s)"
| "json_text (VArr vs) =
     map_sum id (\<lambda>items. [91] @ json_join items @ [93]) (collect_results (map json_text vs))"
| "json_text (VObj ms) =
     map_sum id (\<lambda>members. [123] @ json_join members @ [125])
       (collect_results (map snd (own_members
          (map (\<lambda>(key, v). (key, map_sum id (\<lambda>t. json_quote key @ [58] @ t) (json_text v))) ms))))"

definition canonicalSourceHashJson :: "CanonicalSourceHashOptions \<Rightarrow> jsval \<Rightarrow> source_hash_error + jstr" where
  "canonicalSourceHashJson options value =
     (case canonicalizeSourceHashValue options [] value of
        Inl e \<Rightarrow> Inl e
      | Inr canonical \<Rightarrow> json_text canonical)"

definition createCanonicalSourceHash ::
  "(bytes \<Rightarrow> jstr) \<Rightarrow> CanonicalSourceHashOptions \<Rightarrow> jsval \<Rightarrow> source_hash_error + jstr" where
  "createCanonicalSourceHash sha options value =
     map_sum id (\<lambda>t. sha (utf8 t)) (canonicalSourceHashJson options value)"

subsection \<open>Amounts are hashed by value\<close>

lemma stripZeros_digits: "list_all js_digit w \<Longrightarrow> w \<noteq> [] \<Longrightarrow> stripLeadingZeros w = js_of_nat (digits_val w)"
proof -
  have "unsigned_decimal_integer (stripZeros w) \<and> digits_val (stripZeros w) = digits_val w \<and> stripZeros w \<noteq> []"
    if "list_all js_digit w" "w \<noteq> []" for w
    using that
  proof (induction w rule: stripZeros.induct)
    case (1 u d s)
    moreover from this have "48 \<le> u" "u \<le> 57" by (simp_all add: js_digit_def)
    ultimately show ?case by (cases "u = 48") (auto simp: unsigned_decimal_integer_def digits_val_def)
  qed (auto simp: unsigned_decimal_integer_def js_digit_def)
  then show "list_all js_digit w \<Longrightarrow> w \<noteq> [] \<Longrightarrow> ?thesis"
    using js_of_nat_digits_val [of "stripZeros w"] by (auto simp: stripLeadingZeros_def)
qed

lemma money_parts_Some:
  assumes "money_parts a = Some (w, f)"
  shows "a = w @ (if f = [] then [] else 46 # f)" "w \<noteq> []" "list_all js_digit w" "list_all js_digit f"
proof -
  have "a = takeWhile js_digit a @ dropWhile js_digit a" by simp
  moreover have "list_all js_digit (takeWhile js_digit a)" by (auto simp: list_all_iff dest: set_takeWhileD)
  ultimately show "a = w @ (if f = [] then [] else 46 # f)" "w \<noteq> []" "list_all js_digit w" "list_all js_digit f"
    using assms by (cases "dropWhile js_digit a"; auto simp: money_parts_def Let_def split: if_split_asm)+
qed

lemma money_trim: "money_parts a = Some p \<Longrightarrow> js_trim a = a"
proof -
  assume "money_parts a = Some p"
  then obtain w f where p: "money_parts a = Some (w, f)" by (cases p) auto
  note a = money_parts_Some [OF p]
  have "last a \<in> set w \<union> set f" "hd a \<in> set w"
    using a(1,2) by (auto split: if_split_asm)
  then have "js_digit (last a)" "js_digit (hd a)" using a(3,4) by (auto simp: list_all_iff)
  then show ?thesis by (auto simp: js_trim_eq_iff js_digit_def js_whitespace_def)
qed

lemma normalize_money:
  assumes "money_ok a"
  shows "normalizeSourceHashAmount (VStr a) = Inr (fixed2 (cents a))"
proof -
  obtain w f where p: "money_parts a = Some (w, f)" and f: "length f \<le> 2"
    and c: "cents a = int (digits_val w) * 100 + int (digits_val (padEnd (if f = [] then [48] else f) 2 48))"
    using assms by (auto simp: money_ok_def cents_def parseMoney_def Let_def split: option.split_asm if_split_asm)
  note a = money_parts_Some [OF p]
  have "hd a \<in> set w" "a \<noteq> []" using a(1,2) by (auto split: if_split_asm)
  then have "js_digit (hd a)" using a(3) by (auto simp: list_all_iff)
  with \<open>a \<noteq> []\<close> have "signed_parts a = Some (False, w, f)"
    using p by (cases a) (auto simp: signed_parts_def js_digit_def)
  moreover have "drop 2 f = []" using f by simp
  moreover have "stripLeadingZeros w = js_of_nat (nat (cents a div 100))"
    and "take 2 (padEnd f 2 48) = [48 + nat (cents a mod 100) div 10, 48 + nat (cents a mod 100) mod 10]"
  proof -
    let ?v = "digits_val (padEnd (if f = [] then [48] else f) 2 48)"
    consider "f = []" | x where "f = [x]" "js_digit x" | x y where "f = [x, y]" "js_digit x" "js_digit y"
      using f a(4) by (cases f; cases "tl f"; cases "tl (tl f)") auto
    then have v: "?v < 100 \<and> take 2 (padEnd f 2 48) = [48 + ?v div 10, 48 + ?v mod 10]"
    proof cases
      case 3
      then obtain i j where "x = 48 + i" "y = 48 + j" "i < 10" "j < 10"
        by (auto simp: js_digit_def nat_le_iff_add)
      then show ?thesis by (simp add: 3 padEnd_def digits_val_def)
    qed (auto simp: padEnd_def digits_val_def js_digit_def numeral_2_eq_2)
    then have "cents a div 100 = int (digits_val w)" "cents a mod 100 = int ?v" by (simp_all add: c)
    then show "stripLeadingZeros w = js_of_nat (nat (cents a div 100))"
      and "take 2 (padEnd f 2 48) = [48 + nat (cents a mod 100) div 10, 48 + nat (cents a mod 100) mod 10]"
      using v stripZeros_digits [OF a(3,2)] by simp_all
  qed
  moreover have "fixed2 (cents a) \<noteq> js ''-0.00''"
  proof -
    have "js_digit (hd (js_of_nat n))" for n
      using js_of_nat_digits [of n] by (cases "js_of_nat n") auto
    from this [of "nat (cents a div 100)"] have "hd (fixed2 (cents a)) \<noteq> 45"
      by (auto simp: fixed2_def js_digit_def)
    then show ?thesis by (auto simp: js_eval)
  qed
  ultimately show ?thesis by (simp add: normalizeSourceHashAmount_def Let_def money_trim [OF p] fixed2_def)
qed

subsection \<open>Objects\<close>

text \<open>The order of the members of an object and the members that only describe are not hashed.\<close>

lemma canonical_member_order:
  assumes "mset ms = mset ms'" "distinct (map fst ms)"
  shows "canonicalizeSourceHashValue options path (VObj ms) = canonicalizeSourceHashValue options path (VObj ms')"
proof (cases "isAmountField path options")
  case True
  then show ?thesis
    by (simp add: canonical_simps normalizeSourceHashAmount_def)
next
  case False
  have m: "mset (map fst ms) = mset (map fst ms')" using assms(1) by (simp add: mset_map)
  let ?c = "map (\<lambda>(key, v). (key, canonicalizeSourceHashValue options (path @ [key]) v))"
  have fst: "map fst (?c xs) = map fst xs" for xs by auto
  have "set ms = set ms'" "distinct (map fst ms')"
    using assms mset_eq_setD [OF assms(1)] mset_eq_imp_distinct_iff [OF m] by simp_all
  then have results: "map_of (?c ms) = map_of (?c ms')"
    using assms(2) by (subst map_of_inject_set) (simp_all add: fst del: map_map)
  show ?thesis by (simp only: canonical_simps False if_False Let_def js_sort_keys_perm [OF m] results)
qed

end
