(* ===== verification/JournalReversal.thy ===== *)
theory JournalReversal
  imports JournalLedger SourceHash
begin

section \<open>Reversing an entry (accounting-journal-reversal.service.ts)\<close>

text \<open>
  An entry is never changed: it is reversed by an entry whose lines are those of the original with the
  directions swapped. The service reads the original, builds the source of the reversal from it, and
  lets builder, validators and writer do the rest. The texts of a request are values of type unknown
  that the service checks and trims. Exceptions are values; a transaction that throws is rolled back.
  \<open>now\<close> is the clock, \<open>sha\<close> the hash, \<open>other\<close> what \<open>Date\<close> makes of texts of another form.
\<close>

subsection \<open>Exceptions and data\<close>

datatype http_status = BadRequest | NotFound | Conflict | Forbidden

datatype reported_errors =
    NoErrors
  | BuildErrors "JournalBuildError list"
  | ValidationErrors "JournalValidationError list"
  | WriterErrors "JournalWriterError list"

record http_exception =
  hx_status :: http_status
  hx_code :: jstr
  hx_message :: jstr
  hx_errors :: reported_errors

datatype reversal_exception =
    HttpException http_exception
  | DbException journal_failure
  | HashException source_hash_error

definition http :: "http_status \<Rightarrow> string \<Rightarrow> string \<Rightarrow> reversal_exception" where
  "http status code message =
     HttpException \<lparr>hx_status = status, hx_code = js code, hx_message = js message, hx_errors = NoErrors\<rparr>"

text \<open>A line and an entry as the service selects them; the amount is the decimal of the column, in cents.\<close>

record OriginalJournalLine =
  ol_lineNo :: jsnum
  ol_accountCode :: jstr
  ol_direction :: jstr
  ol_amount :: int
  ol_currency :: jstr
  ol_caseId :: "jstr option"
  ol_clientId :: "jstr option"
  ol_caseClientId :: "jstr option"
  ol_collectionId :: "jstr option"
  ol_dispositionLineId :: "jstr option"
  ol_payoutId :: "jstr option"
  ol_offsetId :: "jstr option"
  ol_expenseRequestId :: "jstr option"
  ol_expensePaymentId :: "jstr option"
  ol_expenseApplicationId :: "jstr option"
  ol_balanceLedgerId :: "jstr option"

record OriginalJournalEntry =
  oj_id :: jstr
  oj_tenantId :: jstr
  oj_caseId :: "jstr option"
  oj_currency :: jstr
  oj_entryType :: jstr
  oj_sourceType :: jstr
  oj_sourceId :: jstr
  oj_sourceAction :: jstr
  oj_postedAt :: int
  oj_reversalOfEntryId :: "jstr option"
  oj_metadata :: jsval
  oj_lines :: "OriginalJournalLine list"

record NormalizedReverseInput =
  ni_tenantId :: jstr
  ni_actorUserId :: jstr
  ni_originalJournalEntryId :: jstr
  ni_reason :: jstr
  ni_evidenceRef :: "jstr option"

record AccountingJournalReversalResult =
  rr_status :: JournalWriterStatus
  rr_originalJournalEntryId :: jstr
  rr_reversalJournalEntryId :: jstr
  rr_idempotencyKey :: jstr
  rr_sourceVersion :: jstr
  rr_lineCount :: nat

record AccountingJournalReversalInTransactionResult = AccountingJournalReversalResult +
  rr_originalCurrency :: jstr

subsection \<open>The request\<close>

definition REVERSAL_REASON_MIN_LENGTH :: nat where
  "REVERSAL_REASON_MIN_LENGTH = 10"

fun requireTrimmed :: "jsval \<Rightarrow> string \<Rightarrow> reversal_exception + jstr" where
  "requireTrimmed (VStr s) field =
     (if js_trim s = []
      then Inl (http BadRequest ''ACCOUNTING_JOURNAL_REVERSAL_INVALID_INPUT'' (field @ '' is required.''))
      else Inr (js_trim s))"
| "requireTrimmed _ field =
     Inl (http BadRequest ''ACCOUNTING_JOURNAL_REVERSAL_INVALID_INPUT'' (field @ '' is required.''))"

fun normalizeOptionalString :: "jsval \<Rightarrow> jstr option" where
  "normalizeOptionalString (VStr s) = (let trimmed = js_trim s in if trimmed = [] then None else Some trimmed)"
| "normalizeOptionalString _ = None"

definition normalizeInput ::
  "jsval \<Rightarrow> jsval \<Rightarrow> jsval \<Rightarrow> jsval \<Rightarrow> jsval \<Rightarrow> reversal_exception + NormalizedReverseInput" where
  "normalizeInput tenantId actorUserId originalJournalEntryId reason evidenceRef =
     (case requireTrimmed tenantId ''tenantId'' of Inl e \<Rightarrow> Inl e | Inr tenant \<Rightarrow>
      case requireTrimmed actorUserId ''actorUserId'' of Inl e \<Rightarrow> Inl e | Inr actor \<Rightarrow>
      case requireTrimmed originalJournalEntryId ''originalJournalEntryId'' of Inl e \<Rightarrow> Inl e | Inr original \<Rightarrow>
      case requireTrimmed reason ''reason'' of Inl e \<Rightarrow> Inl e | Inr trimmedReason \<Rightarrow>
      if length trimmedReason < REVERSAL_REASON_MIN_LENGTH
      then Inl (http BadRequest ''ACCOUNTING_JOURNAL_REVERSAL_REASON_REQUIRED''
             ''Reversal reason must be at least 10 characters.'')
      else Inr \<lparr>ni_tenantId = tenant, ni_actorUserId = actor, ni_originalJournalEntryId = original,
                ni_reason = trimmedReason, ni_evidenceRef = normalizeOptionalString evidenceRef\<rparr>)"

subsection \<open>The source of the reversal\<close>

definition assertReversibleSnapshot :: "OriginalJournalEntry \<Rightarrow> reversal_exception option" where
  "assertReversibleSnapshot original =
     (if oj_entryType original = js ''ACCOUNTING_JOURNAL_REVERSAL'' \<or> truthy (oj_reversalOfEntryId original)
      then Some (http Conflict ''ACCOUNTING_JOURNAL_REVERSAL_ORIGINAL_NOT_REVERSIBLE''
             ''Accounting journal reversal entries cannot be reversed again.'')
      else if oj_lines original = []
      then Some (http Conflict ''ACCOUNTING_JOURNAL_REVERSAL_ORIGINAL_HAS_NO_LINES''
             ''Accounting journal entries without lines cannot be reversed.'')
      else None)"

definition toReversalLinePayload :: "OriginalJournalLine \<Rightarrow> AccountingJournalReversalLinePayload" where
  "toReversalLinePayload line =
     \<lparr>rl_lineNo = ol_lineNo line, rl_accountCode = ol_accountCode line, rl_direction = ol_direction line,
      rl_amount = fixed2 (ol_amount line), rl_currency = ol_currency line, rl_caseId = ol_caseId line,
      rl_clientId = ol_clientId line, rl_caseClientId = ol_caseClientId line,
      rl_collectionId = ol_collectionId line, rl_dispositionLineId = ol_dispositionLineId line,
      rl_payoutId = ol_payoutId line, rl_offsetId = ol_offsetId line,
      rl_expenseRequestId = ol_expenseRequestId line, rl_expensePaymentId = ol_expensePaymentId line,
      rl_expenseApplicationId = ol_expenseApplicationId line, rl_balanceLedgerId = ol_balanceLedgerId line\<rparr>"

definition readMetadataString :: "jsval \<Rightarrow> string \<Rightarrow> jstr option" where
  "readMetadataString metadata key =
     (case metadata of
        VObj m \<Rightarrow>
          (case obj_get m (js key) of
             VStr s \<Rightarrow> if js_trim s = [] then None else Some s
           | _ \<Rightarrow> None)
      | _ \<Rightarrow> None)"

definition reversal_payload :: "OriginalJournalEntry \<Rightarrow> AccountingJournalReversalPayload" where
  "reversal_payload original =
     \<lparr>rp_originalJournalEntryId = oj_id original, rp_originalEntryType = oj_entryType original,
      rp_originalCaseId = oj_caseId original, rp_originalCurrency = oj_currency original,
      rp_originalSourceType = oj_sourceType original, rp_originalSourceId = oj_sourceId original,
      rp_originalSourceAction = oj_sourceAction original,
      rp_originalSourceVersion = readMetadataString (oj_metadata original) ''sourceVersion'',
      rp_originalLines = map toReversalLinePayload (oj_lines original)\<rparr>"

text \<open>The payload as the value that is hashed.\<close>

definition obj_of :: "(string \<times> jsval) list \<Rightarrow> jsval" where
  "obj_of kvs = VObj (map (\<lambda>(k, v). (js k, v)) kvs)"

definition line_value :: "AccountingJournalReversalLinePayload \<Rightarrow> jsval" where
  "line_value l = obj_of
     [(''lineNo'', VNum (rl_lineNo l)), (''accountCode'', VStr (rl_accountCode l)),
      (''direction'', VStr (rl_direction l)), (''amount'', VStr (rl_amount l)),
      (''currency'', VStr (rl_currency l)), (''caseId'', or_null (rl_caseId l)),
      (''clientId'', or_null (rl_clientId l)), (''caseClientId'', or_null (rl_caseClientId l)),
      (''collectionId'', or_null (rl_collectionId l)), (''dispositionLineId'', or_null (rl_dispositionLineId l)),
      (''payoutId'', or_null (rl_payoutId l)), (''offsetId'', or_null (rl_offsetId l)),
      (''expenseRequestId'', or_null (rl_expenseRequestId l)),
      (''expensePaymentId'', or_null (rl_expensePaymentId l)),
      (''expenseApplicationId'', or_null (rl_expenseApplicationId l)),
      (''balanceLedgerId'', or_null (rl_balanceLedgerId l))]"

definition payload_value :: "AccountingJournalReversalPayload \<Rightarrow> jsval" where
  "payload_value p = obj_of
     [(''originalJournalEntryId'', VStr (rp_originalJournalEntryId p)),
      (''originalEntryType'', VStr (rp_originalEntryType p)),
      (''originalCaseId'', or_null (rp_originalCaseId p)), (''originalCurrency'', VStr (rp_originalCurrency p)),
      (''originalSourceType'', VStr (rp_originalSourceType p)),
      (''originalSourceId'', VStr (rp_originalSourceId p)),
      (''originalSourceAction'', VStr (rp_originalSourceAction p)),
      (''originalSourceVersion'', or_null (rp_originalSourceVersion p)),
      (''originalLines'', VArr (map line_value (rp_originalLines p)))]"

definition reversal_version :: "OriginalJournalEntry \<Rightarrow> jstr" where
  "reversal_version original = toISOString (oj_postedAt original) @ js '':'' @ oj_id original @ js '':reversal''"

definition reversal_hash_value :: "OriginalJournalEntry \<Rightarrow> jstr \<Rightarrow> jstr \<Rightarrow> jstr option \<Rightarrow> jsval" where
  "reversal_hash_value original actorUserId reason evidenceRef = obj_of
     [(''tenantId'', VStr (oj_tenantId original)), (''sourceType'', VStr (js ''ACCOUNTING_JOURNAL_ENTRY'')),
      (''sourceId'', VStr (oj_id original)), (''sourceAction'', VStr (js ''reversal'')),
      (''sourceVersion'', VStr (reversal_version original)), (''actorId'', VStr actorUserId),
      (''currency'', VStr (oj_currency original)), (''payload'', payload_value (reversal_payload original)),
      (''reason'', VStr reason), (''evidenceRef'', or_null evidenceRef)]"

definition buildReversalSource ::
  "(bytes \<Rightarrow> jstr) \<Rightarrow> int \<Rightarrow> OriginalJournalEntry \<Rightarrow> jstr \<Rightarrow> jstr \<Rightarrow> jstr option \<Rightarrow>
   source_hash_error + AccountingJournalReversalSource" where
  "buildReversalSource sha now original actorUserId reason evidenceRef =
     (let occurredAt = toISOString now in
      case createCanonicalSourceHash sha no_options
             (reversal_hash_value original actorUserId reason evidenceRef) of
        Inl e \<Rightarrow> Inl e
      | Inr sourceHash \<Rightarrow> Inr
        \<lparr>so_tenantId = oj_tenantId original, so_sourceId = oj_id original,
         so_sourceVersion = reversal_version original, so_sourceAction = js ''reversal'',
         so_occurredAt = occurredAt, so_effectiveDate = take 10 occurredAt, so_actorId = Some actorUserId,
         so_currency = oj_currency original, so_sourceHash = Some sourceHash,
         so_metadata = obj_spread []
           [(''authorizationMode'', VStr (js ''DIRECT_OFFICE_ADMIN_CAPABILITY'')),
            (''sourceName'', VStr (js ''accounting-journal-generic-reversal'')),
            (''originalJournalEntryId'', VStr (oj_id original)), (''reason'', VStr reason),
            (''evidenceRef'', or_null evidenceRef)],
         so_payload = reversal_payload original\<rparr>)"

subsection \<open>The reversal in a transaction\<close>

definition validateBuiltDraft :: "JournalBuildResult \<Rightarrow> reversal_exception + ValidatedJournalEntryDraft" where
  "validateBuiltDraft draftResult =
     (case draftResult of
        Inl errors \<Rightarrow> Inl (HttpException
          \<lparr>hx_status = Conflict, hx_code = js ''ACCOUNTING_JOURNAL_REVERSAL_DRAFT_INVALID'',
           hx_message = js ''Accounting journal reversal draft could not be built.'',
           hx_errors = BuildErrors errors\<rparr>)
      | Inr draft \<Rightarrow>
        (case validateJournalDraft draft of
           Inl errors \<Rightarrow> Inl (HttpException
             \<lparr>hx_status = Conflict, hx_code = js ''ACCOUNTING_JOURNAL_REVERSAL_DRAFT_INVALID'',
              hx_message = js ''Accounting journal reversal draft could not be validated.'',
              hx_errors = ValidationErrors errors\<rparr>)
         | Inr validated \<Rightarrow> Inr validated))"

fun writer_code_text :: "JournalWriterErrorCode \<Rightarrow> string" where
  "writer_code_text IDEMPOTENCY_CONFLICT = ''IDEMPOTENCY_CONFLICT''"
| "writer_code_text SOURCE_VERSION_STALE = ''SOURCE_VERSION_STALE''"
| "writer_code_text SOURCE_HASH_MISMATCH = ''SOURCE_HASH_MISMATCH''"
| "writer_code_text REVERSAL_ALREADY_EXISTS = ''REVERSAL_ALREADY_EXISTS''"
| "writer_code_text REVERSAL_ORIGINAL_NOT_FOUND = ''REVERSAL_ORIGINAL_NOT_FOUND''"
| "writer_code_text REVERSAL_ORIGINAL_NOT_REVERSIBLE = ''REVERSAL_ORIGINAL_NOT_REVERSIBLE''"
| "writer_code_text REVERSAL_TENANT_MISMATCH = ''TENANT_MISMATCH''"
| "writer_code_text DB_WRITE_FAILED = ''DB_WRITE_FAILED''"

definition writerFailureToException :: "JournalWriterError list \<Rightarrow> reversal_exception" where
  "writerFailureToException errors =
     (let code = (case errors of [] \<Rightarrow> js ''ACCOUNTING_JOURNAL_REVERSAL_WRITE_FAILED''
                  | first # _ \<Rightarrow> js (writer_code_text (jw_code first)));
          message = (case errors of [] \<Rightarrow> js ''Accounting journal reversal could not be written.''
                     | first # _ \<Rightarrow> jw_message first);
          status = (if code = js ''REVERSAL_ORIGINAL_NOT_FOUND'' then NotFound
                    else if code = js ''TENANT_MISMATCH'' then Forbidden else Conflict) in
      HttpException \<lparr>hx_status = status, hx_code = code, hx_message = message,
                     hx_errors = WriterErrors errors\<rparr>)"

text \<open>\<open>findEntry\<close> reads an entry by identifier and tenant, with its lines by number.\<close>

definition reverseAccountingJournalEntryInTransaction ::
  "(jstr \<Rightarrow> jsdate) \<Rightarrow> (bytes \<Rightarrow> jstr) \<Rightarrow> int \<Rightarrow>
   (jstr \<Rightarrow> jstr \<Rightarrow> 's \<Rightarrow> journal_failure + OriginalJournalEntry option) \<Rightarrow> 's journal_client \<Rightarrow>
   jsval \<Rightarrow> jsval \<Rightarrow> jsval \<Rightarrow> jsval \<Rightarrow> jsval \<Rightarrow> 's \<Rightarrow>
   (reversal_exception + AccountingJournalReversalInTransactionResult) \<times> 's" where
  "reverseAccountingJournalEntryInTransaction other sha now findEntry db
     tenantId actorUserId originalJournalEntryId reason evidenceRef s =
     (case normalizeInput tenantId actorUserId originalJournalEntryId reason evidenceRef of
        Inl e \<Rightarrow> (Inl e, s)
      | Inr normalized \<Rightarrow>
      case findEntry (ni_originalJournalEntryId normalized) (ni_tenantId normalized) s of
        Inl failure \<Rightarrow> (Inl (DbException failure), s)
      | Inr None \<Rightarrow> (Inl (http NotFound ''ACCOUNTING_JOURNAL_REVERSAL_ORIGINAL_NOT_FOUND''
                        ''Accounting journal entry not found.''), s)
      | Inr (Some original) \<Rightarrow>
      case assertReversibleSnapshot original of
        Some e \<Rightarrow> (Inl e, s)
      | None \<Rightarrow>
      case buildReversalSource sha now original (ni_actorUserId normalized) (ni_reason normalized)
             (ni_evidenceRef normalized) of
        Inl e \<Rightarrow> (Inl (HashException e), s)
      | Inr source \<Rightarrow>
      case validateBuiltDraft (buildAccountingJournal (JournalEntrySource (ReversalSource source))) of
        Inl e \<Rightarrow> (Inl e, s)
      | Inr draft \<Rightarrow>
      case writeJournal other db draft s of
        (Inl failure, s') \<Rightarrow> (Inl (DbException failure), s')
      | (Inr (Inl errors), s') \<Rightarrow> (Inl (writerFailureToException errors), s')
      | (Inr (Inr out), s') \<Rightarrow>
        (Inr \<lparr>rr_status = wo_status out, rr_originalJournalEntryId = oj_id original,
              rr_reversalJournalEntryId = wo_journalEntryId out, rr_idempotencyKey = wo_idempotencyKey out,
              rr_sourceVersion = wo_sourceVersion out, rr_lineCount = wo_lineCount out,
              rr_originalCurrency = oj_currency original\<rparr>, s'))"

subsection \<open>The service\<close>

text \<open>The capacity of a user (effective-permission-mapping.ts): the rank of the lawyer, the type of the
  staff member, or unknown.\<close>

record CapacityUser =
  cu_lawyer :: "jstr option option"
  cu_staffMember :: "jstr option option"

definition capacityFromUser :: "CapacityUser option \<Rightarrow> jstr" where
  "capacityFromUser user =
     (case Option.bind (Option.bind user cu_lawyer) (\<lambda>rank. rank) of
        Some lawyerRank \<Rightarrow> lawyerRank
      | None \<Rightarrow>
        (case Option.bind (Option.bind user cu_staffMember) (\<lambda>type. type) of
           Some staffType \<Rightarrow> staffType
         | None \<Rightarrow> js ''UNKNOWN''))"

definition isOfficeAdminCapacity :: "jstr \<Rightarrow> bool" where
  "isOfficeAdminCapacity capacity \<longleftrightarrow> capacity = js ''PARTNER'' \<or> capacity = js ''MANAGER''"

record AuditEvent =
  av_tenantId :: jstr
  av_userId :: jstr
  av_action :: jstr
  av_entityType :: jstr
  av_entityId :: jstr
  av_metadata :: jsobj

text \<open>A transaction whose callback throws leaves the state as it was.\<close>

definition transaction :: "('s \<Rightarrow> ('e + 'a) \<times> 's) \<Rightarrow> 's \<Rightarrow> ('e + 'a) \<times> 's" where
  "transaction body s = (case body s of (Inl e, s') \<Rightarrow> (Inl e, s) | (Inr x, s') \<Rightarrow> (Inr x, s'))"

definition toPublicReversalResult ::
  "AccountingJournalReversalInTransactionResult \<Rightarrow> AccountingJournalReversalResult" where
  "toPublicReversalResult result = AccountingJournalReversalResult.truncate result"

definition reversal_audit ::
  "NormalizedReverseInput \<Rightarrow> AccountingJournalReversalInTransactionResult \<Rightarrow> AuditEvent" where
  "reversal_audit normalized txResult =
     \<lparr>av_tenantId = ni_tenantId normalized, av_userId = ni_actorUserId normalized,
      av_action = js ''ACCOUNTING_JOURNAL_ENTRY_REVERSED'', av_entityType = js ''AccountingJournalEntry'',
      av_entityId = rr_reversalJournalEntryId txResult,
      av_metadata = obj_spread []
        [(''authorizationMode'', VStr (js ''DIRECT_OFFICE_ADMIN_CAPABILITY'')),
         (''sourceName'', VStr (js ''accounting-journal-generic-reversal'')),
         (''originalJournalEntryId'', VStr (rr_originalJournalEntryId txResult)),
         (''reversalJournalEntryId'', VStr (rr_reversalJournalEntryId txResult)),
         (''idempotencyKey'', VStr (rr_idempotencyKey txResult)),
         (''sourceVersion'', VStr (rr_sourceVersion txResult)), (''reason'', VStr (ni_reason normalized)),
         (''evidenceRef'', or_null (ni_evidenceRef normalized)),
         (''lineCount'', VNum (js_int (int (rr_lineCount txResult)))),
         (''currency'', VStr (rr_originalCurrency txResult))]\<rparr>"

definition reverseEntry ::
  "(jstr \<Rightarrow> jsdate) \<Rightarrow> (bytes \<Rightarrow> jstr) \<Rightarrow> int \<Rightarrow>
   (jstr \<Rightarrow> jstr \<Rightarrow> 's \<Rightarrow> journal_failure + OriginalJournalEntry option) \<Rightarrow> 's journal_client \<Rightarrow>
   (jstr \<Rightarrow> jstr \<Rightarrow> 's \<Rightarrow> journal_failure + CapacityUser option) \<Rightarrow>
   (AuditEvent \<Rightarrow> 's \<Rightarrow> (journal_failure + unit) \<times> 's) \<Rightarrow>
   jsval \<Rightarrow> jsval \<Rightarrow> jsval \<Rightarrow> jsval \<Rightarrow> jsval \<Rightarrow> 's \<Rightarrow>
   (reversal_exception + AccountingJournalReversalResult) \<times> 's" where
  "reverseEntry other sha now findEntry db findUser audit
     tenantId actorUserId originalJournalEntryId reason evidenceRef s =
     (case normalizeInput tenantId actorUserId originalJournalEntryId reason evidenceRef of
        Inl e \<Rightarrow> (Inl e, s)
      | Inr normalized \<Rightarrow>
      case findUser (ni_actorUserId normalized) (ni_tenantId normalized) s of
        Inl failure \<Rightarrow> (Inl (DbException failure), s)
      | Inr user \<Rightarrow>
      if \<not> isOfficeAdminCapacity (capacityFromUser user)
      then (Inl (http Forbidden ''ACCOUNTING_JOURNAL_REVERSAL_FORBIDDEN''
              ''This accounting journal reversal requires PARTNER or MANAGER office-admin capacity.''), s)
      else transaction (\<lambda>tx.
        case reverseAccountingJournalEntryInTransaction other sha now findEntry db
               (VStr (ni_tenantId normalized)) (VStr (ni_actorUserId normalized))
               (VStr (ni_originalJournalEntryId normalized)) (VStr (ni_reason normalized))
               (or_null (ni_evidenceRef normalized)) tx of
          (Inl e, tx') \<Rightarrow> (Inl e, tx')
        | (Inr txResult, tx') \<Rightarrow>
          if rr_status txResult = CREATED
          then case audit (reversal_audit normalized txResult) tx' of
                 (Inl failure, tx'') \<Rightarrow> (Inl (DbException failure), tx'')
               | (Inr _, tx'') \<Rightarrow> (Inr (toPublicReversalResult txResult), tx'')
          else (Inr (toPublicReversalResult txResult), tx')) s)"

end
