(* ===== verification/JournalReversed.thy ===== *)
theory JournalReversed
  imports JournalReversal
begin

section \<open>A reversal cancels its original\<close>

text \<open>
  On the tables a reversal of an entry that is no reversal and not yet reversed is stored, its lines
  cancel those of the original in every account, and a second request for it returns the first result.
\<close>

subsection \<open>The hash of a source exists\<close>

text \<open>Values whose amounts can be written with two decimals.\<close>

inductive hashable :: "jstr list \<Rightarrow> jsval \<Rightarrow> bool" where
  null: "hashable path VNull"
| string: "(isAmountField path no_options \<Longrightarrow> \<exists>t. normalizeSourceHashAmount (VStr s) = Inr t) \<Longrightarrow>
    hashable path (VStr s)"
| number: "\<not> isAmountField path no_options \<Longrightarrow> hashable path (VNum n)"
| array: "\<not> isAmountField path no_options \<Longrightarrow>
    (\<And>i v. (i, v) \<in> set (indexed vs) \<Longrightarrow> hashable (path @ [js_of_nat i]) v) \<Longrightarrow> hashable path (VArr vs)"
| members: "\<not> isAmountField path no_options \<Longrightarrow> distinct (map fst ms) \<Longrightarrow>
    (\<And>k v. (k, v) \<in> set ms \<Longrightarrow> hashable (path @ [k]) v) \<Longrightarrow> hashable path (VObj ms)"

lemma collect_all: "\<forall>r \<in> set rs. \<exists>x. r = Inr x \<Longrightarrow> \<exists>xs. collect_results rs = Inr xs \<and> rs = map Inr xs"
proof (induction rs)
  case (Cons r rs)
  then obtain x xs where "r = Inr x" "collect_results rs = Inr xs" "rs = map Inr xs" by force
  then show ?case by (intro exI [of _ "x # xs"]) simp
qed simp

lemma json_text_array:
  "(\<And>c. c \<in> set cs \<Longrightarrow> \<exists>t. json_text c = Inr t) \<Longrightarrow> \<exists>t. json_text (VArr cs) = Inr t"
proof -
  assume "\<And>c. c \<in> set cs \<Longrightarrow> \<exists>t. json_text c = Inr t"
  then have "\<forall>r \<in> set (map json_text cs). \<exists>x. r = Inr x" by auto
  from collect_all [OF this] show ?thesis by auto
qed

lemma set_own_members [simp]: "set (own_members ms) = set ms"
  by (auto simp: own_members_def)

lemma json_text_object:
  assumes "\<And>k c. (k, c) \<in> set ms \<Longrightarrow> \<exists>t. json_text c = Inr t"
  shows "\<exists>t. json_text (VObj ms) = Inr t"
proof -
  let ?rs = "map snd (own_members (map (\<lambda>(key, v). (key, map_sum id (\<lambda>t. json_quote key @ [58] @ t) (json_text v))) ms))"
  have "\<forall>r \<in> set ?rs. \<exists>x. r = Inr x" using assms by fastforce
  from collect_all [OF this] show ?thesis by (auto simp del: map_map)
qed

lemma hashable_text:
  "hashable path v \<Longrightarrow> \<exists>c t. canonicalizeSourceHashValue no_options path v = Inr c \<and> json_text c = Inr t"
proof (induction rule: hashable.induct)
  case (string path s)
  then show ?case by (auto simp: canonical_simps)
next
  case (array path vs)
  let ?rs = "map (\<lambda>(index, item). canonicalizeSourceHashValue no_options (path @ [js_of_nat index]) item) (indexed vs)"
  have "\<forall>r \<in> set ?rs. \<exists>c. r = Inr c" using array.IH by fastforce
  from collect_all [OF this] obtain cs where cs: "collect_results ?rs = Inr cs" "?rs = map Inr cs" by blast
  have has_text: "\<exists>t. json_text c = Inr t" if "c \<in> set cs" for c
  proof -
    have "Inr c \<in> set ?rs" using that unfolding cs(2) by simp
    then obtain i x where "(i, x) \<in> set (indexed vs)"
      and "Inr c = canonicalizeSourceHashValue no_options (path @ [js_of_nat i]) x" by auto
    then show ?thesis using array.IH [of i x] by auto
  qed
  have "\<exists>t. json_text (VArr (map (\<lambda>c. if c = VUndef then VNull else c) cs)) = Inr t"
    by (rule json_text_array) (use has_text in auto)
  then show ?case using array.hyps cs(1) by (simp add: canonical_simps)
next
  case (members path ms)
  let ?results = "map (\<lambda>(key, v). (key, canonicalizeSourceHashValue no_options (path @ [key]) v)) ms"
  let ?keys = "filter (\<lambda>key. \<not> isExcludedMetadataKey path key no_options) (js_sort compareCanonicalKeys (map fst ms))"
  let ?rs = "map (\<lambda>key. the (map_of ?results key)) ?keys"
  have member: "\<exists>c t. r = Inr c \<and> json_text c = Inr t" if elem: "r \<in> set ?rs" for r
  proof -
    obtain key where "key \<in> set ?keys" and r: "r = the (map_of ?results key)"
      using elem by auto
    then have "key \<in> set (map fst ms)" by simp
    then obtain x where kx: "(key, x) \<in> set ms" by auto
    have "map fst ?results = map fst ms" by auto
    then have "map_of ?results key = Some (canonicalizeSourceHashValue no_options (path @ [key]) x)"
      using kx members.hyps(2) by (intro map_of_is_SomeI) (auto intro: rev_image_eqI simp del: map_map)
    then show ?thesis using members.IH [OF kx] r by simp
  qed
  then have "\<forall>r \<in> set ?rs. \<exists>c. r = Inr c" by blast
  from collect_all [OF this] obtain cs where cs: "collect_results ?rs = Inr cs" "?rs = map Inr cs" by blast
  have has_text: "\<exists>t. json_text c = Inr t" if "c \<in> set cs" for c
  proof -
    have "Inr c \<in> set ?rs" using that unfolding cs(2) by simp
    from member [OF this] show ?thesis by auto
  qed
  have "\<exists>t. json_text (VObj (assigned_members (zip ?keys cs))) = Inr t"
    by (rule json_text_object) (auto simp: assigned_members_def dest: set_zip_rightD intro: has_text)
  then show ?case using members.hyps(1) cs(1)
    by (simp add: canonical_simps Let_def del: map_map)
qed (simp_all add: canonical_simps)

lemma hashable_hash: "hashable [] v \<Longrightarrow> \<exists>h. createCanonicalSourceHash sha no_options v = Inr h"
  using hashable_text [of "[]" v] by (auto simp: createCanonicalSourceHash_def canonicalSourceHashJson_def)

subsection \<open>The source of a reversal on the tables\<close>

definition line_order :: "JournalLineDraft \<Rightarrow> JournalLineDraft \<Rightarrow> int" where
  "line_order a b =
     (if js_less (ln_lineNo a) (ln_lineNo b) then -1
      else if js_less (ln_lineNo b) (ln_lineNo a) then 1 else 0)"

definition original_line :: "JournalLineDraft \<Rightarrow> OriginalJournalLine" where
  "original_line l =
     \<lparr>ol_lineNo = ln_lineNo l, ol_accountCode = ln_accountCode l, ol_direction = ln_direction l,
      ol_amount = cents (ln_amount l), ol_currency = ln_currency l, ol_caseId = ln_caseId l,
      ol_clientId = ln_clientId l, ol_caseClientId = ln_caseClientId l, ol_collectionId = ln_collectionId l,
      ol_dispositionLineId = ln_dispositionLineId l, ol_payoutId = ln_payoutId l,
      ol_offsetId = ln_offsetId l, ol_expenseRequestId = ln_expenseRequestId l,
      ol_expensePaymentId = ln_expensePaymentId l, ol_expenseApplicationId = ln_expenseApplicationId l,
      ol_balanceLedgerId = ln_balanceLedgerId l\<rparr>"

definition original_entry :: "JournalRow \<Rightarrow> OriginalJournalEntry" where
  "original_entry r =
     (let d = jr_data r in
      \<lparr>oj_id = jr_id r, oj_tenantId = jd_tenantId d, oj_caseId = jd_caseId d, oj_currency = jd_currency d,
       oj_entryType = jd_entryType d, oj_sourceType = jd_sourceType d, oj_sourceId = jd_sourceId d,
       oj_sourceAction = jd_sourceAction d, oj_postedAt = the (jd_postedAt d),
       oj_reversalOfEntryId = jd_reversalOfEntryId d, oj_metadata = VObj (jd_metadata d),
       oj_lines = map original_line (js_sort line_order (jd_lines d))\<rparr>)"

definition tables_findEntry ::
  "jstr \<Rightarrow> jstr \<Rightarrow> JournalTables \<Rightarrow> journal_failure + OriginalJournalEntry option" where
  "tables_findEntry i tenant t =
     Inr (map_option original_entry (find_row (\<lambda>r. jr_id r = i \<and> jd_tenantId (jr_data r) = tenant) t))"

lemma amount_paths [simp]:
  "isAmountField (path @ [js ''amount'']) no_options"
  by (simp add: isAmountField_def last_key_def no_options_def DEFAULT_AMOUNT_FIELD_NAMES_def Let_def js_eval)

lemma path_amount:
  "isAmountField (path @ [js k]) no_options \<longleftrightarrow>
     k \<in> {''amount'', ''totalAmount'', ''paidAmount'', ''remainingAmount''} \<or>
     (6 \<le> length k \<and> drop (length k - 6) k = ''Amount'')"
proof -
  have "drop n (js k) = js (drop n k)" for n by (simp add: js_def drop_map)
  moreover have "length ''Amount'' = 6" by simp
  ultimately show ?thesis
    unfolding isAmountField_def last_key_def no_options_def DEFAULT_AMOUNT_FIELD_NAMES_def Let_def ends_with_def
    by (auto simp del: list.size)
qed

lemma ends_with_last: "ends_with s t \<Longrightarrow> t \<noteq> [] \<Longrightarrow> last s = last t"
  using last_drop [of "length s - length t" s] by (cases "s = []") (auto simp: ends_with_def)

lemma hashable_or_null: "\<not> isAmountField path no_options \<Longrightarrow> hashable path (or_null v)"
  by (cases v) (auto intro: hashable.intros)

lemma hashable_obj_of:
  assumes "\<not> isAmountField path no_options" "distinct (map fst kvs)"
    and "list_all (\<lambda>(k, v). hashable (path @ [js k]) v) kvs"
  shows "hashable path (obj_of kvs)"
  unfolding obj_of_def
proof (rule hashable.members)
  have "map fst (map (\<lambda>(k, v). (js k, v)) kvs) = map js (map fst kvs)" by auto
  then show "distinct (map fst (map (\<lambda>(k, v). (js k, v)) kvs))"
    using assms(2) by (simp add: distinct_map inj_on_def del: map_map)
qed (use assms(1,3) in \<open>auto simp: list_all_iff\<close>)

lemma hashable_line:
  assumes "0 < ol_amount l" "\<not> isAmountField path no_options"
  shows "hashable path (line_value (toReversalLinePayload l))"
proof -
  have "\<exists>t. normalizeSourceHashAmount (VStr (fixed2 (ol_amount l))) = Inr t"
    using normalize_money parse_fixed2 [OF assms(1)] by blast
  then show ?thesis
    unfolding line_value_def toReversalLinePayload_def
    by (intro hashable_obj_of assms(2)) (auto simp: path_amount intro!: hashable_or_null hashable.string hashable.number)
qed

lemma hashable_reversal:
  assumes "list_all (\<lambda>l. 0 < ol_amount l) (oj_lines original)"
  shows "hashable [] (reversal_hash_value original actor reason evidenceRef)"
proof -
  have empty: "\<not> isAmountField [] no_options" by (simp add: isAmountField_def last_key_def)
  have lines: "hashable ([js ''payload''] @ [js ''originalLines''])
      (VArr (map line_value (map toReversalLinePayload (oj_lines original))))"
  proof (rule hashable.array)
    show "\<not> isAmountField ([js ''payload''] @ [js ''originalLines'']) no_options" by (simp only: path_amount) simp
    fix i v assume "(i, v) \<in> set (indexed (map line_value (map toReversalLinePayload (oj_lines original))))"
    then have "v \<in> set (map line_value (map toReversalLinePayload (oj_lines original)))"
      by (auto simp: in_set_indexed)
    then obtain l where "l \<in> set (oj_lines original)" "v = line_value (toReversalLinePayload l)" by auto
    moreover have "\<not> isAmountField (path @ [js_of_nat i]) no_options" for path
    proof -
      have "js_digit (last (js_of_nat i))"
        using js_of_nat_digits [of i] last_in_set [OF js_of_nat_ne_Nil] by (auto simp: list_all_iff)
      then have "last (js_of_nat i) \<noteq> 116" by (auto simp: js_digit_def)
      then show ?thesis
        by (auto simp: isAmountField_def last_key_def no_options_def DEFAULT_AMOUNT_FIELD_NAMES_def Let_def
            js_eval dest: ends_with_last)
    qed
    ultimately show "hashable (([js ''payload''] @ [js ''originalLines'']) @ [js_of_nat i]) v"
      using assms by (simp only: list_all_iff) (rule hashable_line, blast+)
  qed
  have payload: "hashable ([] @ [js ''payload'']) (payload_value (reversal_payload original))"
    unfolding payload_value_def reversal_payload_def
    by (rule hashable_obj_of) (use lines in \<open>auto simp: path_amount [of "[]", simplified] path_amount [of "[js ''payload'']", simplified]
        intro!: hashable_or_null hashable.string\<close>)
  show ?thesis
    unfolding reversal_hash_value_def
    by (rule hashable_obj_of) (use payload empty in \<open>auto simp: path_amount [of "[]", simplified]
        intro!: hashable_or_null hashable.string\<close>)
qed

subsection \<open>The reversal is written\<close>

lemma js_sort_lines [simp]: "mset (js_sort line_order ls) = mset ls"
  by simp

lemma row_lines:
  assumes "entry_storable d" "entry_balanced d" "l \<in> set (jd_lines d)"
  shows "line_number_ok (ln_lineNo l)" "js_less (ln_lineNo l) (js_int (2 ^ 31))"
    "ln_accountCode l \<in> set ACCOUNT_CODES" "ln_direction l = DEBIT \<or> ln_direction l = CREDIT"
    "money_ok (ln_amount l)" "cents (ln_amount l) < 10 ^ 15" "ln_currency l = jd_currency d"
    "0 < cents (ln_amount l)"
proof -
  show "line_number_ok (ln_lineNo l)" "js_less (ln_lineNo l) (js_int (2 ^ 31))"
    "ln_accountCode l \<in> set ACCOUNT_CODES" "ln_direction l = DEBIT \<or> ln_direction l = CREDIT"
    "cents (ln_amount l) < 10 ^ 15" "ln_currency l = jd_currency d" and m: "money_ok (ln_amount l)"
    using assms unfolding entry_storable_def entry_balanced_def line_storable_def list_all_iff by blast+
  show "0 < cents (ln_amount l)" using m by (rule money_ok_pos)
qed

definition reversal_of_row ::
  "(bytes \<Rightarrow> jstr) \<Rightarrow> int \<Rightarrow> JournalRow \<Rightarrow> jstr \<Rightarrow> jstr \<Rightarrow> jstr option \<Rightarrow> AccountingJournalReversalSource" where
  "reversal_of_row sha now row actor reason evidenceRef =
     (case buildReversalSource sha now (original_entry row) actor reason evidenceRef of Inr s \<Rightarrow> s)"

definition reversal_hash ::
  "(bytes \<Rightarrow> jstr) \<Rightarrow> JournalRow \<Rightarrow> jstr \<Rightarrow> jstr \<Rightarrow> jstr option \<Rightarrow> jstr" where
  "reversal_hash sha row actor reason evidenceRef =
     (case createCanonicalSourceHash sha no_options
             (reversal_hash_value (original_entry row) actor reason evidenceRef) of Inr h \<Rightarrow> h)"

lemma reversal_source:
  assumes "entry_storable (jr_data row)" "entry_balanced (jr_data row)"
  shows "buildReversalSource sha now (original_entry row) actor reason evidenceRef =
      Inr (reversal_of_row sha now row actor reason evidenceRef)"
    and "so_payload (reversal_of_row sha now row actor reason evidenceRef) = reversal_payload (original_entry row)"
    and "so_tenantId (reversal_of_row sha now row actor reason evidenceRef) = jd_tenantId (jr_data row)"
    and "so_sourceId (reversal_of_row sha now row actor reason evidenceRef) = jr_id row"
    and "so_sourceAction (reversal_of_row sha now row actor reason evidenceRef) = js ''reversal''"
    and "so_sourceVersion (reversal_of_row sha now row actor reason evidenceRef) = reversal_version (original_entry row)"
    and "so_currency (reversal_of_row sha now row actor reason evidenceRef) = jd_currency (jr_data row)"
    and "so_occurredAt (reversal_of_row sha now row actor reason evidenceRef) = toISOString now"
    and "so_effectiveDate (reversal_of_row sha now row actor reason evidenceRef) = take 10 (toISOString now)"
    and "so_sourceHash (reversal_of_row sha now row actor reason evidenceRef) =
      Some (reversal_hash sha row actor reason evidenceRef)"
proof -
  have "list_all (\<lambda>l. 0 < ol_amount l) (oj_lines (original_entry row))"
    using row_lines(8) [OF assms] by (auto simp: original_entry_def Let_def original_line_def list_all_iff)
  from hashable_hash [OF hashable_reversal [OF this, of actor reason evidenceRef], of sha] obtain h
    where "createCanonicalSourceHash sha no_options
      (reversal_hash_value (original_entry row) actor reason evidenceRef) = Inr h" by blast
  then show "buildReversalSource sha now (original_entry row) actor reason evidenceRef =
      Inr (reversal_of_row sha now row actor reason evidenceRef)"
    "so_payload (reversal_of_row sha now row actor reason evidenceRef) = reversal_payload (original_entry row)"
    "so_tenantId (reversal_of_row sha now row actor reason evidenceRef) = jd_tenantId (jr_data row)"
    "so_sourceId (reversal_of_row sha now row actor reason evidenceRef) = jr_id row"
    "so_sourceAction (reversal_of_row sha now row actor reason evidenceRef) = js ''reversal''"
    "so_sourceVersion (reversal_of_row sha now row actor reason evidenceRef) = reversal_version (original_entry row)"
    "so_currency (reversal_of_row sha now row actor reason evidenceRef) = jd_currency (jr_data row)"
    "so_occurredAt (reversal_of_row sha now row actor reason evidenceRef) = toISOString now"
    "so_effectiveDate (reversal_of_row sha now row actor reason evidenceRef) = take 10 (toISOString now)"
    "so_sourceHash (reversal_of_row sha now row actor reason evidenceRef) =
      Some (reversal_hash sha row actor reason evidenceRef)"
    by (simp_all add: reversal_of_row_def buildReversalSource_def Let_def original_entry_def reversal_hash_def)
qed

text \<open>The lines of the reversal, and what they add up to.\<close>

definition reversal_lines ::
  "(bytes \<Rightarrow> jstr) \<Rightarrow> int \<Rightarrow> JournalRow \<Rightarrow> jstr \<Rightarrow> jstr \<Rightarrow> jstr option \<Rightarrow> JournalLineDraft list" where
  "reversal_lines sha now row actor reason evidenceRef =
     (let s = reversal_of_row sha now row actor reason evidenceRef in
      map (\<lambda>l. accountingJournalEntryReversalLine s (toReversalLinePayload (original_line l)))
        (js_sort line_order (jd_lines (jr_data row))))"

definition account_net :: "jstr \<Rightarrow> JournalLineDraft list \<Rightarrow> int" where
  "account_net a ls =
     debits (filter (\<lambda>l. ln_accountCode l = a) ls) - credits (filter (\<lambda>l. ln_accountCode l = a) ls)"

lemma account_net_simps [simp]:
  "account_net a [] = 0"
  "account_net a (l # ls) =
     (if ln_accountCode l \<noteq> a then 0 else if ln_direction l = DEBIT then cents (ln_amount l)
      else if ln_direction l = CREDIT then - cents (ln_amount l) else 0) + account_net a ls"
  by (auto simp: account_net_def)

lemma account_net_sum: "account_net a ls = sum_list (map (\<lambda>l. account_net a [l]) ls)"
  by (induction ls) simp_all

lemma sum_list_map_perm: "mset xs = mset ys \<Longrightarrow> sum_list (map f xs) = (sum_list (map f ys) :: int)"
  by (metis mset_map sum_mset_sum_list)

lemma account_net_perm: "mset ls = mset ls' \<Longrightarrow> account_net a ls = account_net a ls'"
  by (subst (1 2) account_net_sum) (rule sum_list_map_perm)

lemma reversal_net:
  assumes "entry_storable (jr_data row)" "entry_balanced (jr_data row)"
  shows "account_net a (reversal_lines sha now row actor reason evidenceRef) = - account_net a (jd_lines (jr_data row))"
proof -
  let ?g = "\<lambda>l. accountingJournalEntryReversalLine (reversal_of_row sha now row actor reason evidenceRef)
    (toReversalLinePayload (original_line l))"
  have line: "account_net a [?g l] = - account_net a [l]" if "l \<in> set (jd_lines (jr_data row))" for l
    using row_lines(4,8) [OF assms that] parse_fixed2 [of "cents (ln_amount l)"]
    by (auto simp: accountingJournalEntryReversalLine_def toReversalLinePayload_def original_line_def)
  have "account_net a (map ?g ls) = - account_net a ls" if "set ls \<subseteq> set (jd_lines (jr_data row))" for ls
    using that
  proof (induction ls)
    case (Cons l ls)
    then show ?case using line [of l] by simp
  qed simp
  from this [of "js_sort line_order (jd_lines (jr_data row))"]
  have "account_net a (reversal_lines sha now row actor reason evidenceRef) =
      - account_net a (js_sort line_order (jd_lines (jr_data row)))"
    by (simp add: reversal_lines_def Let_def)
  then show ?thesis using account_net_perm [of "js_sort line_order (jd_lines (jr_data row))"] by simp
qed

text \<open>The draft of the reversal passes the builder and the validators.\<close>

lemma toISOString_ne_Nil: "take 10 (toISOString t) \<noteq> []" "toISOString t \<noteq> []"
  by (simp_all add: toISOString_def iso_clock_def)

lemma reversal_draft:
  fixes sha now row actor reason evidenceRef
  defines "s \<equiv> reversal_of_row sha now row actor reason evidenceRef"
  assumes row: "entry_storable (jr_data row)" "entry_balanced (jr_data row)" "reversal_ok t (jr_data row)"
    and original: "jd_entryType (jr_data row) \<noteq> js ''ACCOUNTING_JOURNAL_REVERSAL''"
      "jd_reversalOfEntryId (jr_data row) = None" "jr_id row \<noteq> []"
  obtains d where "buildAccountingJournal (JournalEntrySource (ReversalSource s)) = Inr d"
    "validateJournalDraft d = Inr (validated_draft d)"
    "je_lines d = reversal_lines sha now row actor reason evidenceRef"
    "je_tenantId d = jd_tenantId (jr_data row)" "je_sourceType d = js ''ACCOUNTING_JOURNAL_ENTRY''"
    "je_sourceId d = jr_id row" "je_sourceAction d = js ''reversal''"
    "je_sourceVersion d = reversal_version (original_entry row)"
    "je_entryType d = js ''ACCOUNTING_JOURNAL_REVERSAL''" "je_sourceOccurredAt d = toISOString now"
    "je_idempotencyKey d = buildJournalIdempotencyKey
       (journalIdempotencyMaterialFromSource (js ''ACCOUNTING_JOURNAL_ENTRY'') s)"
    "je_reversalOf d = Some \<lparr>rv_sourceType = jd_sourceType (jr_data row), rv_sourceId = jd_sourceId (jr_data row),
       rv_sourceAction = jd_sourceAction (jr_data row),
       rv_sourceVersion = readMetadataString (VObj (jd_metadata (jr_data row))) ''sourceVersion'',
       rv_journalEntryId = Some (jr_id row)\<rparr>"
    "je_sourceHash d = Some (reversal_hash sha row actor reason evidenceRef)"
proof -
  let ?ls = "js_sort line_order (jd_lines (jr_data row))"
  let ?os = "map toReversalLinePayload (map original_line ?ls)"
  note src = reversal_source [OF row(1,2), of sha now actor reason evidenceRef, folded s_def]
  note lines = row_lines [OF row(1,2)]
  have payload: "so_payload s = \<lparr>rp_originalJournalEntryId = jr_id row, rp_originalEntryType = jd_entryType (jr_data row),
      rp_originalCaseId = jd_caseId (jr_data row), rp_originalCurrency = jd_currency (jr_data row),
      rp_originalSourceType = jd_sourceType (jr_data row), rp_originalSourceId = jd_sourceId (jr_data row),
      rp_originalSourceAction = jd_sourceAction (jr_data row),
      rp_originalSourceVersion = readMetadataString (VObj (jd_metadata (jr_data row))) ''sourceVersion'',
      rp_originalLines = ?os\<rparr>"
    by (simp add: src(2) reversal_payload_def original_entry_def Let_def)
  have named: "source_named s"
    using row(2) original(3) by (simp add: source_named_def src entry_balanced_def reversal_version_def toISOString_ne_Nil)
  have ne: "?ls \<noteq> []" using row(2) by (simp add: entry_balanced_def)
  have dirs: "List.find (\<lambda>line. rl_direction line \<noteq> DEBIT \<and> rl_direction line \<noteq> CREDIT) ?os = None"
    using lines(4) unfolding find_None_iff by (auto simp: toReversalLinePayload_def original_line_def)
  obtain d where b: "buildReversalJournal s = Inr d"
    using original ne dirs named
    by (simp add: buildReversalJournal_def Let_def payload src finish_draft_Inr split: option.split)
  note f = b [unfolded buildReversalJournal_def Let_def build_guard build_option_guard,
      THEN conjunct2, THEN conjunct2, THEN conjunct2, THEN conjunct2, THEN conjunct2]
  have complete: "source_complete (JournalEntrySource (ReversalSource s))"
  proof -
    have total: "sum_list (map (\<lambda>l. if rl_direction l = dir then cents (rl_amount l) else 0) ?os) =
        sum_list (map (\<lambda>l. if ln_direction l = dir then cents (ln_amount l) else 0) (jd_lines (jr_data row)))" for dir
    proof -
      have "map (\<lambda>l. if rl_direction l = dir then cents (rl_amount l) else 0) ?os =
          map (\<lambda>l. if ln_direction l = dir then cents (ln_amount l) else 0) ?ls"
        using lines(8) parse_fixed2 by (auto simp: toReversalLinePayload_def original_line_def)
      then show ?thesis
        by (simp only: sum_list_map_perm [OF mset_js_sort])
    qed
    have "entry_complete s" using row(2) by (simp add: entry_complete_def src entry_balanced_def toISOString_ne_Nil)
    moreover have "\<not> (jd_sourceType (jr_data row) = js ''ACCOUNTING_JOURNAL_ENTRY'' \<and>
        jd_sourceAction (jr_data row) = js ''reversal'')"
      using row(3) original(2) by (simp add: reversal_ok_def)
    moreover have "distinct (map rl_lineNo ?os)"
    proof -
      have "map rl_lineNo ?os = map ln_lineNo ?ls" by (simp add: toReversalLinePayload_def original_line_def)
      then show ?thesis
        using row(2) by (simp only: entry_balanced_def distinct_map_js_sort)
    qed
    moreover have "list_all (\<lambda>l. line_number_ok (rl_lineNo l) \<and> rl_accountCode l \<noteq> [] \<and> money_ok (rl_amount l) \<and>
        rl_currency l = jd_currency (jr_data row)) ?os"
    proof -
      have "[] \<notin> set ACCOUNT_CODES" by (simp add: ACCOUNT_CODES_def)
      then show ?thesis
        using lines(1,3,7,8) parse_fixed2 by (fastforce simp: list_all_iff toReversalLinePayload_def original_line_def)
    qed
    ultimately show ?thesis
      using row(2) by (simp add: Let_def payload src total entry_balanced_def debits_def credits_def del: map_map)
  qed
  have build: "buildAccountingJournal (JournalEntrySource (ReversalSource s)) = Inr d"
    by (simp add: buildAccountingJournalEntryJournal_def b)
  from built_draft_complete [OF this] complete have "validateJournalDraft d = Inr (validated_draft d)"
    by (auto simp: validateJournalDraft_Inr)
  moreover have "je_sourceHash d = Some (reversal_hash sha row actor reason evidenceRef)"
    using f by (simp add: finish_draft_Inr src(10))
  ultimately show ?thesis
    by (intro that [OF build])
       (simp_all add: finished [OF f] src(1,3-9) payload reversal_lines_def Let_def s_def [symmetric] comp_def)
qed

text \<open>The key of the reversal.\<close>

definition reversal_key :: "JournalRow \<Rightarrow> jstr" where
  "reversal_key row =
     buildJournalIdempotencyKey
       \<lparr>im_tenantId = jd_tenantId (jr_data row), im_sourceType = js ''ACCOUNTING_JOURNAL_ENTRY'',
        im_sourceId = jr_id row, im_sourceAction = js ''reversal'',
        im_sourceVersion = reversal_version (original_entry row)\<rparr>"

definition reversible :: "JournalTables \<Rightarrow> JournalRow \<Rightarrow> bool" where
  "reversible t row \<longleftrightarrow>
     row \<in> set (jt_entries t) \<and> jd_entryType (jr_data row) \<noteq> js ''ACCOUNTING_JOURNAL_REVERSAL'' \<and>
     jd_reversalOfEntryId (jr_data row) = None \<and> jr_id row \<notin> set (reversed_ids t) \<and>
     (jd_tenantId (jr_data row), reversal_key row) \<notin> set (map (data_key \<circ> jr_data) (jt_entries t))"

lemma find_row_unique:
  assumes "row \<in> set (jt_entries t)" "P row" "\<And>r. r \<in> set (jt_entries t) \<Longrightarrow> P r \<Longrightarrow> r = row"
  shows "find_row P t = Some row"
proof (cases "find_row P t")
  case None
  then show ?thesis using assms(1,2) by (simp add: find_row_None)
next
  case (Some r)
  then show ?thesis using find_row_Some [OF Some] assms(3) by simp
qed

lemma row_id:
  assumes "journal_ok t" "row \<in> set (jt_entries t)"
  shows "find_row (\<lambda>r. jr_id r = jr_id row) t = Some row"
    "find_row (\<lambda>r. jr_id r = jr_id row \<and> jd_tenantId (jr_data r) = jd_tenantId (jr_data row)) t = Some row"
    "jr_id row \<noteq> []" "not_blank (jr_id row)"
proof -
  have "distinct (map jr_id (jt_entries t))"
    using assms(1) unfolding journal_ok_def by (simp add: distinct_map inj_on_def)
  then have inj: "r = row" if "r \<in> set (jt_entries t)" "jr_id r = jr_id row" for r
    using that assms(2) by (simp add: distinct_map inj_on_def)
  show "find_row (\<lambda>r. jr_id r = jr_id row) t = Some row"
    "find_row (\<lambda>r. jr_id r = jr_id row \<and> jd_tenantId (jr_data r) = jd_tenantId (jr_data row)) t = Some row"
    by (rule find_row_unique, use assms(2) inj in auto)+
  have "jr_id row \<in> set (map jr_id (jt_entries t))" using assms(2) by simp
  then obtain n where "jr_id row = js ''e'' @ js_of_nat n" using assms(1) unfolding journal_ok_def by auto
  then show "jr_id row \<noteq> []" "not_blank (jr_id row)" by (simp_all add: js_eval not_blank_def)
qed

lemma reversal_entry_storable:
  assumes row: "entry_storable (jr_data row)" "entry_balanced (jr_data row)"
    and "l \<in> set (reversal_lines sha now row actor reason evidenceRef)"
  shows "line_storable l"
proof -
  obtain x where x: "x \<in> set (jd_lines (jr_data row))" and l: "l = accountingJournalEntryReversalLine
      (reversal_of_row sha now row actor reason evidenceRef) (toReversalLinePayload (original_line x))"
    using assms(3) by (auto simp: reversal_lines_def Let_def)
  show ?thesis
    using row_lines [OF row x] parse_fixed2 [of "cents (ln_amount x)"]
    by (simp add: l line_storable_def accountingJournalEntryReversalLine_def toReversalLinePayload_def original_line_def)
qed

text \<open>A request that passes the checks of its texts and finds its original writes the draft of the reversal.\<close>

definition reversal_draft_of ::
  "(bytes \<Rightarrow> jstr) \<Rightarrow> int \<Rightarrow> JournalRow \<Rightarrow> jstr \<Rightarrow> jstr \<Rightarrow> jstr option \<Rightarrow> ValidatedJournalEntryDraft \<Rightarrow> bool" where
  "reversal_draft_of sha now row actor reason evidenceRef v \<longleftrightarrow>
     journal_draft v \<and> je_lines v = reversal_lines sha now row actor reason evidenceRef \<and>
     je_tenantId v = jd_tenantId (jr_data row) \<and> je_sourceType v = js ''ACCOUNTING_JOURNAL_ENTRY'' \<and>
     je_sourceId v = jr_id row \<and> je_sourceAction v = js ''reversal'' \<and>
     je_sourceVersion v = reversal_version (original_entry row) \<and>
     je_entryType v = js ''ACCOUNTING_JOURNAL_REVERSAL'' \<and> je_sourceOccurredAt v = toISOString now \<and>
     je_idempotencyKey v = reversal_key row \<and>
     je_sourceHash v = Some (reversal_hash sha row actor reason evidenceRef) \<and>
     je_reversalOf v = Some \<lparr>rv_sourceType = jd_sourceType (jr_data row), rv_sourceId = jd_sourceId (jr_data row),
       rv_sourceAction = jd_sourceAction (jr_data row),
       rv_sourceVersion = readMetadataString (VObj (jd_metadata (jr_data row))) ''sourceVersion'',
       rv_journalEntryId = Some (jr_id row)\<rparr>"

lemma reversal_request:
  assumes row: "entry_storable (jr_data row)" "entry_balanced (jr_data row)" "reversal_ok t0 (jr_data row)"
    and original: "jd_entryType (jr_data row) \<noteq> js ''ACCOUNTING_JOURNAL_REVERSAL''"
      "jd_reversalOfEntryId (jr_data row) = None" "jr_id row \<noteq> []"
    and found: "tables_findEntry (jr_id row) (jd_tenantId (jr_data row)) t = Inr (Some (original_entry row))"
    and input: "normalizeInput tenantId actorUserId originalId reasonText evidence =
      Inr \<lparr>ni_tenantId = jd_tenantId (jr_data row), ni_actorUserId = actor,
           ni_originalJournalEntryId = jr_id row, ni_reason = reason, ni_evidenceRef = evidenceRef\<rparr>"
  obtains v where "reversal_draft_of sha now row actor reason evidenceRef v"
    "\<And>out t'. writeJournal other journal_tables v t = (Inr (Inr out), t') \<Longrightarrow>
       reverseAccountingJournalEntryInTransaction other sha now tables_findEntry journal_tables
         tenantId actorUserId originalId reasonText evidence t =
       (Inr \<lparr>rr_status = wo_status out, rr_originalJournalEntryId = jr_id row,
             rr_reversalJournalEntryId = wo_journalEntryId out, rr_idempotencyKey = wo_idempotencyKey out,
             rr_sourceVersion = wo_sourceVersion out, rr_lineCount = wo_lineCount out,
             rr_originalCurrency = jd_currency (jr_data row)\<rparr>, t')"
proof -
  let ?s = "reversal_of_row sha now row actor reason evidenceRef"
  obtain d where d: "buildAccountingJournal (JournalEntrySource (ReversalSource ?s)) = Inr d"
    "validateJournalDraft d = Inr (validated_draft d)"
    and f: "je_lines d = reversal_lines sha now row actor reason evidenceRef"
    "je_tenantId d = jd_tenantId (jr_data row)" "je_sourceType d = js ''ACCOUNTING_JOURNAL_ENTRY''"
    "je_sourceId d = jr_id row" "je_sourceAction d = js ''reversal''"
    "je_sourceVersion d = reversal_version (original_entry row)"
    "je_entryType d = js ''ACCOUNTING_JOURNAL_REVERSAL''" "je_sourceOccurredAt d = toISOString now"
    "je_idempotencyKey d = buildJournalIdempotencyKey
       (journalIdempotencyMaterialFromSource (js ''ACCOUNTING_JOURNAL_ENTRY'') ?s)"
    "je_sourceHash d = Some (reversal_hash sha row actor reason evidenceRef)"
    "je_reversalOf d = Some \<lparr>rv_sourceType = jd_sourceType (jr_data row), rv_sourceId = jd_sourceId (jr_data row),
       rv_sourceAction = jd_sourceAction (jr_data row),
       rv_sourceVersion = readMetadataString (VObj (jd_metadata (jr_data row))) ''sourceVersion'',
       rv_journalEntryId = Some (jr_id row)\<rparr>"
    using reversal_draft [OF row original, of sha now actor reason evidenceRef] by metis
  have key: "je_idempotencyKey d = reversal_key row"
    using row(1,2) by (simp add: f(9) reversal_key_def journalIdempotencyMaterialFromSource_def reversal_source)
  have "journal_draft (validated_draft d)" using d unfolding journal_draft_def by blast
  then have "reversal_draft_of sha now row actor reason evidenceRef (validated_draft d)"
    by (simp add: reversal_draft_of_def f(1-8) f(10,11) key)
  moreover have "assertReversibleSnapshot (original_entry row) = None"
    using row(2) original by (simp add: assertReversibleSnapshot_def original_entry_def Let_def entry_balanced_def)
  moreover have "oj_id (original_entry row) = jr_id row" "oj_currency (original_entry row) = jd_currency (jr_data row)"
    by (simp_all add: original_entry_def Let_def)
  ultimately show ?thesis
    using reversal_source(1) [OF row(1,2)] d found
    by (intro that [of "validated_draft d"])
       (simp_all add: reverseAccountingJournalEntryInTransaction_def input validateBuiltDraft_def)
qed

lemma reversal_written:
  assumes t: "journal_ok t" and row: "reversible t row"
    and now: "valid_date ymd" "0 \<le> ms" "ms < ms_per_day" "now = time_of_date ymd + ms"
    and v: "reversal_draft_of sha now row actor reason evidenceRef v"
  shows "writeJournal other journal_tables v t =
    (Inr (Inr \<lparr>wo_status = CREATED, wo_journalEntryId = next_entry_id t,
       wo_idempotencyKey = reversal_key row, wo_sourceVersion = reversal_version (original_entry row),
       wo_lineCount = length (jd_lines (jr_data row))\<rparr>),
     t\<lparr>jt_entries := jt_entries t @ [\<lparr>jr_id = next_entry_id t, jr_data = entry_data other v\<rparr>]\<rparr>)"
proof -
  have elem: "row \<in> set (jt_entries t)" using row by (simp add: reversible_def)
  have ok: "entry_storable (jr_data row)" "entry_balanced (jr_data row)"
    using t elem by (simp_all add: journal_ok_def list_all_iff)
  note id = row_id [OF t elem] and f = v [unfolded reversal_draft_of_def]
  have original: "jd_entryType (jr_data row) \<noteq> js ''ACCOUNTING_JOURNAL_REVERSAL''"
    "jd_reversalOfEntryId (jr_data row) = None" using row by (simp_all add: reversible_def)
  have draft: "journal_draft v" using f by blast
  have rev: "reversed_entry v = Some (jr_id row)" using f by (simp add: reversed_entry_def)
  have len: "length (reversal_lines sha now row actor reason evidenceRef) = length (jd_lines (jr_data row))"
    by (simp add: reversal_lines_def Let_def)
  have storable: "entry_storable (entry_data other v)"
    using reversal_entry_storable [OF ok(1,2)] id(4) js_Date_toISOString(1) [OF now(1-3)]
    by (simp add: entry_storable_def entry_data_def f now(4) ENTRY_TYPES_def SOURCE_TYPES_def list_all_iff
        reversal_key_def buildJournalIdempotencyKey_def IDEMPOTENCY_PREFIX_def)
       (simp add: not_blank_def js_eval)
  have "ledger_of t (source_key v) = None"
  proof (rule ccontr)
    assume "ledger_of t (source_key v) \<noteq> None"
    then obtain q where q: "q \<in> set (jt_entries t)" "data_source (jr_data q) = source_key v"
      by (auto simp: ledger_of_find dest: find_row_Some)
    then have "reversal_ok t (jr_data q)" using t by (simp add: journal_ok_def list_all_iff)
    with q(2) have "jd_reversalOfEntryId (jr_data q) = Some (jr_id row)"
      by (auto simp: reversal_ok_def data_source_def source_key_def f split: option.splits)
    with q(1) have "jr_id row \<in> set (reversed_ids t)"
      by (force simp: reversed_ids_def List.map_filter_def)
    then show False using row by (simp add: reversible_def)
  qed
  moreover have "find_row (\<lambda>r. data_key (jr_data r) = (je_tenantId v, je_idempotencyKey v)) t = None"
    using row by (force simp: find_row_None reversible_def f)
  moreover have "validateReversalOriginal journal_tables v t = Inr None"
  proof -
    have "find_row (\<lambda>q. jd_reversalOfEntryId (jr_data q) = Some (jr_id row)) t = None"
      using row by (force simp: find_row_None reversible_def reversed_ids_def List.map_filter_def)
    then show ?thesis
      using id(1,3) original
      by (simp add: validateReversalOriginal_def f rev reversal_original_error_def row_original_def Let_def)
  qed
  moreover have "reversed_entry v \<notin> Some ` set (reversed_ids t)" using row by (auto simp: rev reversible_def)
  moreover have "original_stored t (entry_data other v)"
    using elem by (simp add: original_stored_def entry_data_def rev)
  ultimately show ?thesis using write_stores [OF draft storable] by (simp add: f len)
qed

text \<open>The hash does not depend on the time: a later request of the same actor and reason is a replay.\<close>

lemma reversal_rewritten:
  assumes w: "writeJournal other journal_tables v t = (Inr (Inr out), t')" "wo_status out = CREATED"
    and v: "reversal_draft_of sha now row actor reason evidenceRef v"
    and v': "reversal_draft_of sha now' row actor reason evidenceRef v'"
  shows "writeJournal other journal_tables v' t' = (Inr (Inr (out\<lparr>wo_status := REPLAYED\<rparr>)), t')"
proof -
  note f = v [unfolded reversal_draft_of_def] and f' = v' [unfolded reversal_draft_of_def]
  have "source_key v' = source_key v" using f f' by (simp add: source_key_def)
  from ledger.written_once [OF w this] show ?thesis
    using ledger.write_created(3) [OF w] f f'
    by (cases out) (simp add: replayOrRejectExisting_def existing_entry_def entry_data_def)
qed

lemma found_row:
  assumes "journal_ok t" "row \<in> set (jt_entries t)"
  shows "tables_findEntry (jr_id row) (jd_tenantId (jr_data row)) t = Inr (Some (original_entry row))"
    "tables_findEntry (jr_id row) (jd_tenantId (jr_data row)) (t\<lparr>jt_entries := jt_entries t @ [r]\<rparr>) =
      Inr (Some (original_entry row))"
  by (simp_all add: tables_findEntry_def row_id [OF assms] find_row_append)

end
