(* ===== verification/TrialBalance.thy ===== *)
theory TrialBalance
  imports JournalWriter SourceHash
begin

section \<open>The trial balance (accounting-journal-trial-balance.service.ts)\<close>

text \<open>
  The report sums the lines of the journal by account, by currency and by source. The sums come from
  the database in two groupings of the lines (by account, currency and direction; by entry, currency
  and direction); the service adds them up and says whether debits and credits agree. Amounts are
  decimals in cents. The queries are parameters, and so is \<open>localeCompare\<close>, whose order depends on the
  runtime. Keys of the maps are texts joined with a bar, as in the code. Maps keep the order of insertion.
\<close>

subsection \<open>Filters\<close>

datatype date_value = DateText jstr | DateObject jsdate

record AccountingJournalTrialBalanceFilters =
  tf_tenantId :: jstr
  tf_currency :: "jstr option"
  tf_caseId :: "jstr option"
  tf_clientId :: "jstr option"
  tf_caseClientId :: "jstr option"
  tf_accountCode :: "jstr option"
  tf_sourceType :: "jstr option"
  tf_sourceAction :: "jstr option"
  tf_entryType :: "jstr option"
  tf_postedFrom :: "date_value option"
  tf_postedTo :: "date_value option"

datatype trial_balance_exception =
    InvalidDateFilter jstr
  | TrialBalanceDbException journal_failure

definition parseDateFilter ::
  "(jstr \<Rightarrow> jsdate) \<Rightarrow> string \<Rightarrow> date_value \<Rightarrow> trial_balance_exception + int" where
  "parseDateFilter other field value =
     (case (case value of DateObject d \<Rightarrow> d | DateText s \<Rightarrow> js_Date other s) of
        None \<Rightarrow> Inl (InvalidDateFilter (js (field @ '' must be a valid ISO date or Date.'')))
      | Some t \<Rightarrow> Inr t)"

definition parseOptionalDate ::
  "(jstr \<Rightarrow> jsdate) \<Rightarrow> string \<Rightarrow> date_value option \<Rightarrow> trial_balance_exception + int option" where
  "parseOptionalDate other field value =
     (case value of None \<Rightarrow> Inr None | Some v \<Rightarrow> map_sum id Some (parseDateFilter other field v))"

definition normalizeFilters ::
  "(jstr \<Rightarrow> jsdate) \<Rightarrow> AccountingJournalTrialBalanceFilters \<Rightarrow>
   trial_balance_exception + AccountingJournalTrialBalanceFilters" where
  "normalizeFilters other filters =
     (case parseOptionalDate other ''postedFrom'' (tf_postedFrom filters) of
        Inl e \<Rightarrow> Inl e
      | Inr postedFrom \<Rightarrow>
        (case parseOptionalDate other ''postedTo'' (tf_postedTo filters) of
           Inl e \<Rightarrow> Inl e
         | Inr postedTo \<Rightarrow>
             Inr (filters\<lparr>tf_postedFrom := map_option (DateText \<circ> toISOString) postedFrom,
                          tf_postedTo := map_option (DateText \<circ> toISOString) postedTo\<rparr>)))"

text \<open>The condition on the lines and on their entries; a filter that is empty is left out.\<close>

record LineWhere =
  lw_tenantId :: jstr
  lw_currency :: "jstr option"
  lw_caseId :: "jstr option"
  lw_clientId :: "jstr option"
  lw_caseClientId :: "jstr option"
  lw_accountCode :: "jstr option"
  lw_sourceType :: "jstr option"
  lw_sourceAction :: "jstr option"
  lw_entryType :: "jstr option"
  lw_postedFrom :: "int option"
  lw_postedTo :: "int option"

definition if_given :: "jstr option \<Rightarrow> jstr option" where
  "if_given value = (if truthy value then value else None)"

definition buildWhere ::
  "(jstr \<Rightarrow> jsdate) \<Rightarrow> AccountingJournalTrialBalanceFilters \<Rightarrow> trial_balance_exception + LineWhere" where
  "buildWhere other filters =
     (case parseOptionalDate other ''postedFrom'' (tf_postedFrom filters) of
        Inl e \<Rightarrow> Inl e
      | Inr postedFrom \<Rightarrow>
        (case parseOptionalDate other ''postedTo'' (tf_postedTo filters) of
           Inl e \<Rightarrow> Inl e
         | Inr postedTo \<Rightarrow> Inr
             \<lparr>lw_tenantId = tf_tenantId filters, lw_currency = if_given (tf_currency filters),
              lw_caseId = if_given (tf_caseId filters), lw_clientId = if_given (tf_clientId filters),
              lw_caseClientId = if_given (tf_caseClientId filters),
              lw_accountCode = if_given (tf_accountCode filters),
              lw_sourceType = if_given (tf_sourceType filters),
              lw_sourceAction = if_given (tf_sourceAction filters),
              lw_entryType = if_given (tf_entryType filters),
              lw_postedFrom = postedFrom, lw_postedTo = postedTo\<rparr>))"

subsection \<open>Sums\<close>

record AggregateAmountGroup =
  gr_direction :: jstr
  gr_currency :: jstr
  gr_sum :: "int option"
  gr_count :: nat

record AccountAggregateGroup = AggregateAmountGroup +
  gr_accountCode :: jstr

record SourceAggregateGroup = AggregateAmountGroup +
  gr_journalEntryId :: jstr

record SourceEntryRow =
  sr_id :: jstr
  sr_sourceType :: jstr
  sr_sourceAction :: jstr

record MutableTotal =
  mt_debit :: int
  mt_credit :: int
  mt_lineCount :: nat

type_synonym 'v ordered_map = "(jstr \<times> 'v) list"

fun map_set :: "'v ordered_map \<Rightarrow> jstr \<Rightarrow> 'v \<Rightarrow> 'v ordered_map" where
  "map_set [] k v = [(k, v)]"
| "map_set ((k', v') # m) k v = (if k' = k then (k, v) # m else (k', v') # map_set m k v)"

definition map_get :: "'v ordered_map \<Rightarrow> jstr \<Rightarrow> 'v \<Rightarrow> 'v" where
  "map_get m k initial = (case map_of m k of Some v \<Rightarrow> v | None \<Rightarrow> initial)"

definition zero_total :: MutableTotal where
  "zero_total = \<lparr>mt_debit = 0, mt_credit = 0, mt_lineCount = 0\<rparr>"

definition aggregateAmount :: "'g AggregateAmountGroup_scheme \<Rightarrow> int" where
  "aggregateAmount grp = (case gr_sum grp of Some amount \<Rightarrow> amount | None \<Rightarrow> 0)"

definition aggregateLineCount :: "'g AggregateAmountGroup_scheme \<Rightarrow> nat" where
  "aggregateLineCount grp = gr_count grp"

text \<open>The sums are exact. \<open>Decimal.plus\<close> of the code keeps twenty significant digits: a sum of more than
  eighteen digits before the point would lose its cents there, which the model leaves out.\<close>

definition add_amount :: "MutableTotal \<Rightarrow> jstr \<Rightarrow> int \<Rightarrow> nat \<Rightarrow> MutableTotal" where
  "add_amount current direction amount lineCount =
     current\<lparr>mt_debit := mt_debit current + (if direction = DEBIT then amount else 0),
             mt_credit := mt_credit current + (if direction = CREDIT then amount else 0),
             mt_lineCount := mt_lineCount current + lineCount\<rparr>"

definition addAggregate ::
  "MutableTotal ordered_map \<Rightarrow> jstr \<Rightarrow> jstr \<Rightarrow> int \<Rightarrow> nat \<Rightarrow> MutableTotal ordered_map" where
  "addAggregate m key direction amount lineCount =
     map_set m key (add_amount (map_get m key zero_total) direction amount lineCount)"

fun split_bar :: "jstr \<Rightarrow> jstr list" where
  "split_bar [] = [[]]"
| "split_bar (u # s) =
     (if u = 124 then [] # split_bar s
      else case split_bar s of [] \<Rightarrow> [[u]] | p # ps \<Rightarrow> (u # p) # ps)"

definition part :: "jstr \<Rightarrow> nat \<Rightarrow> jstr" where
  "part key i = (case nth_opt (split_bar key) i of Some p \<Rightarrow> p | None \<Rightarrow> [])"

definition bar :: "jstr \<Rightarrow> jstr \<Rightarrow> jstr" where
  "bar a b = a @ [124] @ b"

text \<open>\<open>toFixed(2)\<close> of a decimal, and the decimal a text of \<open>toFixed\<close> is.\<close>

definition money :: "int \<Rightarrow> jstr" where
  "money value = (if value < 0 then 45 # fixed2 (- value) else fixed2 value)"

definition decimal_of_text :: "jstr \<Rightarrow> int" where
  "decimal_of_text s =
     (case s of [] \<Rightarrow> 0
      | u # r \<Rightarrow> if u = 45 then - pm_cents (parseMoney r) else pm_cents (parseMoney s))"

text \<open>Comparators joined with \<open>||\<close>.\<close>

definition or_compare :: "int \<Rightarrow> int \<Rightarrow> int" where
  "or_compare a b = (if a \<noteq> 0 then a else b)"

record AccountingJournalTrialBalanceRow =
  tb_accountCode :: jstr
  tb_currency :: jstr
  tb_debit :: jstr
  tb_credit :: jstr
  tb_netDebit :: jstr
  tb_netCredit :: jstr
  tb_lineCount :: nat

record AccountingJournalTrialBalanceCurrencyTotal =
  ct_currency :: jstr
  ct_debit :: jstr
  ct_credit :: jstr
  ct_balanced :: bool
  ct_lineCount :: nat

record AccountingJournalTrialBalanceSourceBreakdown =
  sb_sourceType :: jstr
  sb_sourceAction :: jstr
  sb_currency :: jstr
  sb_debit :: jstr
  sb_credit :: jstr
  sb_balanced :: bool
  sb_lineCount :: nat

definition rowFromTotal :: "jstr \<Rightarrow> jstr \<Rightarrow> MutableTotal \<Rightarrow> AccountingJournalTrialBalanceRow" where
  "rowFromTotal accountCode currency t =
     (let net = mt_debit t - mt_credit t in
      \<lparr>tb_accountCode = accountCode, tb_currency = currency, tb_debit = money (mt_debit t),
       tb_credit = money (mt_credit t), tb_netDebit = money (if 0 < net then net else 0),
       tb_netCredit = money (if net < 0 then \<bar>net\<bar> else 0), tb_lineCount = mt_lineCount t\<rparr>)"

definition currencyTotalFromTotal :: "jstr \<Rightarrow> MutableTotal \<Rightarrow> AccountingJournalTrialBalanceCurrencyTotal" where
  "currencyTotalFromTotal currency t =
     \<lparr>ct_currency = currency, ct_debit = money (mt_debit t), ct_credit = money (mt_credit t),
      ct_balanced = (mt_debit t = mt_credit t), ct_lineCount = mt_lineCount t\<rparr>"

definition sourceBreakdownFromTotal ::
  "jstr \<Rightarrow> jstr \<Rightarrow> jstr \<Rightarrow> MutableTotal \<Rightarrow> AccountingJournalTrialBalanceSourceBreakdown" where
  "sourceBreakdownFromTotal sourceType sourceAction currency t =
     \<lparr>sb_sourceType = sourceType, sb_sourceAction = sourceAction, sb_currency = currency,
      sb_debit = money (mt_debit t), sb_credit = money (mt_credit t),
      sb_balanced = (mt_debit t = mt_credit t), sb_lineCount = mt_lineCount t\<rparr>"

definition account_totals :: "AccountAggregateGroup list \<Rightarrow> MutableTotal ordered_map" where
  "account_totals groups =
     foldl (\<lambda>m g. addAggregate m (bar (gr_accountCode g) (gr_currency g)) (gr_direction g)
       (aggregateAmount g) (aggregateLineCount g)) [] groups"

definition currency_totals :: "'g AggregateAmountGroup_scheme list \<Rightarrow> MutableTotal ordered_map" where
  "currency_totals groups =
     foldl (\<lambda>m g. addAggregate m (gr_currency g) (gr_direction g) (aggregateAmount g) (aggregateLineCount g))
       [] groups"

definition rowsFromAccountGroups ::
  "(jstr \<Rightarrow> jstr \<Rightarrow> int) \<Rightarrow> AccountAggregateGroup list \<Rightarrow> AccountingJournalTrialBalanceRow list" where
  "rowsFromAccountGroups localeCompare groups =
     js_sort (\<lambda>a b. or_compare (localeCompare (tb_accountCode a) (tb_accountCode b))
                (localeCompare (tb_currency a) (tb_currency b)))
       (map (\<lambda>(key, t). rowFromTotal (part key 0) (part key 1) t) (account_totals groups))"

definition totalsFromAccountGroups ::
  "(jstr \<Rightarrow> jstr \<Rightarrow> int) \<Rightarrow> AccountAggregateGroup list \<Rightarrow> AccountingJournalTrialBalanceCurrencyTotal list" where
  "totalsFromAccountGroups localeCompare groups =
     js_sort (\<lambda>a b. localeCompare (ct_currency a) (ct_currency b))
       (map (\<lambda>(currency, t). currencyTotalFromTotal currency t) (currency_totals groups))"

subsection \<open>Evidence by source\<close>

record MutableSourceCoverage =
  mc_entryIds :: "jstr list"
  mc_lineCount :: nat
  mc_currencies :: "jstr list"

record AccountingJournalTrialBalanceSourceCoverage =
  sc_sourceType :: jstr
  sc_sourceAction :: jstr
  sc_entryCount :: nat
  sc_lineCount :: nat
  sc_currencyCount :: nat
  sc_currencies :: "jstr list"
  sc_balanced :: bool

record SourceEvidenceResult =
  se_sourceBreakdown :: "AccountingJournalTrialBalanceSourceBreakdown list"
  se_sourceCoverage :: "AccountingJournalTrialBalanceSourceCoverage list"
  se_missingSourceEntryCount :: nat
  se_missingSourceLineCount :: nat

definition emptySourceEvidence :: SourceEvidenceResult where
  "emptySourceEvidence =
     \<lparr>se_sourceBreakdown = [], se_sourceCoverage = [], se_missingSourceEntryCount = 0,
      se_missingSourceLineCount = 0\<rparr>"

definition sourceBreakdownKey :: "jstr \<Rightarrow> jstr \<Rightarrow> jstr \<Rightarrow> jstr" where
  "sourceBreakdownKey sourceType sourceAction currency = bar sourceType (bar sourceAction currency)"

definition sourceCoverageKey :: "jstr \<Rightarrow> jstr \<Rightarrow> jstr" where
  "sourceCoverageKey sourceType sourceAction = bar sourceType sourceAction"

text \<open>Adding to a set that keeps the order of insertion.\<close>

definition set_insert :: "jstr \<Rightarrow> jstr list \<Rightarrow> jstr list" where
  "set_insert x xs = (if x \<in> set xs then xs else xs @ [x])"

definition addSourceCoverage ::
  "MutableSourceCoverage ordered_map \<Rightarrow> SourceEntryRow \<Rightarrow> jstr \<Rightarrow> nat \<Rightarrow> MutableSourceCoverage ordered_map" where
  "addSourceCoverage m entry currency lineCount =
     (let key = sourceCoverageKey (sr_sourceType entry) (sr_sourceAction entry);
          current = map_get m key \<lparr>mc_entryIds = [], mc_lineCount = 0, mc_currencies = []\<rparr> in
      map_set m key
        \<lparr>mc_entryIds = set_insert (sr_id entry) (mc_entryIds current),
         mc_lineCount = mc_lineCount current + lineCount,
         mc_currencies = set_insert currency (mc_currencies current)\<rparr>)"

definition uniqueEntryIds :: "SourceAggregateGroup list \<Rightarrow> jstr list" where
  "uniqueEntryIds groups =
     js_sort compareCanonicalKeys (foldl (\<lambda>ids g. set_insert (gr_journalEntryId g) ids) [] groups)"

record EvidenceState =
  ev_breakdown :: "MutableTotal ordered_map"
  ev_coverage :: "MutableSourceCoverage ordered_map"
  ev_missingIds :: "jstr list"
  ev_missingLines :: nat

definition evidence_step ::
  "SourceEntryRow ordered_map \<Rightarrow> EvidenceState \<Rightarrow> SourceAggregateGroup \<Rightarrow> EvidenceState" where
  "evidence_step entryById st grp =
     (let lineCount = aggregateLineCount grp in
      case map_of entryById (gr_journalEntryId grp) of
        None \<Rightarrow> st\<lparr>ev_missingIds := set_insert (gr_journalEntryId grp) (ev_missingIds st),
                    ev_missingLines := ev_missingLines st + lineCount\<rparr>
      | Some entry \<Rightarrow>
          st\<lparr>ev_breakdown := addAggregate (ev_breakdown st)
               (sourceBreakdownKey (sr_sourceType entry) (sr_sourceAction entry) (gr_currency grp))
               (gr_direction grp) (aggregateAmount grp) lineCount,
             ev_coverage := addSourceCoverage (ev_coverage st) entry (gr_currency grp) lineCount\<rparr>)"

definition sourceCoverageFromMaps ::
  "(jstr \<Rightarrow> jstr \<Rightarrow> int) \<Rightarrow> MutableSourceCoverage ordered_map \<Rightarrow>
   AccountingJournalTrialBalanceSourceBreakdown list \<Rightarrow> AccountingJournalTrialBalanceSourceCoverage list" where
  "sourceCoverageFromMaps localeCompare coverage sourceBreakdown =
     (let balancedBySource = foldl (\<lambda>m row.
            let key = sourceCoverageKey (sb_sourceType row) (sb_sourceAction row) in
            map_set m key (map_get m key True \<and> sb_balanced row)) [] sourceBreakdown in
      js_sort (\<lambda>a b. or_compare (localeCompare (sc_sourceType a) (sc_sourceType b))
                 (localeCompare (sc_sourceAction a) (sc_sourceAction b)))
        (map (\<lambda>(key, t).
           let currencies = js_sort compareCanonicalKeys (mc_currencies t) in
           \<lparr>sc_sourceType = part key 0, sc_sourceAction = part key 1,
            sc_entryCount = length (mc_entryIds t), sc_lineCount = mc_lineCount t,
            sc_currencyCount = length currencies, sc_currencies = currencies,
            sc_balanced = map_get balancedBySource key True\<rparr>) coverage))"

text \<open>\<open>findEntries\<close> reads the entries of a tenant with the given identifiers.\<close>

definition sourceEvidenceFromGroups ::
  "(jstr \<Rightarrow> jstr \<Rightarrow> int) \<Rightarrow> (jstr \<Rightarrow> jstr list \<Rightarrow> 's \<Rightarrow> journal_failure + SourceEntryRow list) \<Rightarrow>
   jstr \<Rightarrow> SourceAggregateGroup list \<Rightarrow> 's \<Rightarrow> journal_failure + SourceEvidenceResult" where
  "sourceEvidenceFromGroups localeCompare findEntries tenantId groups s =
     (let entryIds = uniqueEntryIds groups in
      if entryIds = [] then Inr emptySourceEvidence
      else case findEntries tenantId entryIds s of
        Inl e \<Rightarrow> Inl e
      | Inr entries \<Rightarrow>
          let entryById = foldl (\<lambda>m e. map_set m (sr_id e) e) [] entries;
              st = foldl (evidence_step entryById)
                     \<lparr>ev_breakdown = [], ev_coverage = [], ev_missingIds = [], ev_missingLines = 0\<rparr> groups;
              sourceBreakdown =
                js_sort (\<lambda>a b. or_compare (localeCompare (sb_sourceType a) (sb_sourceType b))
                  (or_compare (localeCompare (sb_sourceAction a) (sb_sourceAction b))
                    (localeCompare (sb_currency a) (sb_currency b))))
                  (map (\<lambda>(key, t). sourceBreakdownFromTotal (part key 0) (part key 1) (part key 2) t)
                     (ev_breakdown st)) in
          Inr \<lparr>se_sourceBreakdown = sourceBreakdown,
               se_sourceCoverage = sourceCoverageFromMaps localeCompare (ev_coverage st) sourceBreakdown,
               se_missingSourceEntryCount = length (ev_missingIds st),
               se_missingSourceLineCount = ev_missingLines st\<rparr>)"

subsection \<open>Diagnostics\<close>

datatype AccountingJournalTrialBalanceWarningCode =
    DIMENSION_SCOPED_IMBALANCE
  | NO_JOURNAL_LINES
  | TRIAL_BALANCE_IMBALANCE
  | DIMENSION_SCOPED_EVIDENCE
  | MISSING_SOURCE_METADATA
  | SOURCE_BREAKDOWN_IMBALANCE

datatype AccountingJournalTrialBalanceEvidenceStatus = NO_LINES | BALANCED | IMBALANCED | DIMENSION_SCOPED

record AccountingJournalTrialBalanceUnbalancedCurrency =
  uc_currency :: jstr
  uc_debit :: jstr
  uc_credit :: jstr
  uc_difference :: jstr

record AccountingJournalTrialBalanceDiagnostics =
  di_balanced :: bool
  di_dimensionScoped :: bool
  di_partialEntryScope :: bool
  di_dateBasis :: jstr
  di_generatedAt :: jstr
  di_lineCount :: nat
  di_entryCount :: nat
  di_currencyCount :: nat
  di_evidenceStatus :: AccountingJournalTrialBalanceEvidenceStatus
  di_unbalancedCurrencies :: "AccountingJournalTrialBalanceUnbalancedCurrency list"
  di_missingEffectiveDateColumn :: bool
  di_missingSourceVersionColumn :: bool
  di_warningCodes :: "AccountingJournalTrialBalanceWarningCode list"

definition dimension_scoped :: "AccountingJournalTrialBalanceFilters \<Rightarrow> bool" where
  "dimension_scoped filters \<longleftrightarrow>
     truthy (tf_caseId filters) \<or> truthy (tf_clientId filters) \<or> truthy (tf_caseClientId filters) \<or>
     truthy (tf_accountCode filters)"

definition evidenceStatus :: "nat \<Rightarrow> bool \<Rightarrow> bool \<Rightarrow> AccountingJournalTrialBalanceEvidenceStatus" where
  "evidenceStatus lineCount balanced dimensionScoped =
     (if lineCount = 0 then NO_LINES
      else if balanced then BALANCED
      else if dimensionScoped then DIMENSION_SCOPED else IMBALANCED)"

definition unbalancedCurrencies ::
  "AccountingJournalTrialBalanceCurrencyTotal list \<Rightarrow> AccountingJournalTrialBalanceUnbalancedCurrency list" where
  "unbalancedCurrencies totals =
     map (\<lambda>t. \<lparr>uc_currency = ct_currency t, uc_debit = ct_debit t, uc_credit = ct_credit t,
               uc_difference = money (decimal_of_text (ct_debit t) - decimal_of_text (ct_credit t))\<rparr>)
       (filter (\<lambda>t. \<not> ct_balanced t) totals)"

definition diagnostics ::
  "AccountingJournalTrialBalanceFilters \<Rightarrow> AccountingJournalTrialBalanceCurrencyTotal list \<Rightarrow> nat \<Rightarrow> nat \<Rightarrow>
   jstr \<Rightarrow> AccountingJournalTrialBalanceDiagnostics" where
  "diagnostics filters totals lineCount entryCount generatedAt =
     (let dimensionScoped = dimension_scoped filters;
          balanced = list_all ct_balanced totals in
      \<lparr>di_balanced = balanced, di_dimensionScoped = dimensionScoped, di_partialEntryScope = dimensionScoped,
       di_dateBasis = js ''postedAt'',
       di_generatedAt = generatedAt, di_lineCount = lineCount, di_entryCount = entryCount,
       di_currencyCount = length totals, di_evidenceStatus = evidenceStatus lineCount balanced dimensionScoped,
       di_unbalancedCurrencies = unbalancedCurrencies totals,
       di_missingEffectiveDateColumn = True, di_missingSourceVersionColumn = True,
       di_warningCodes =
         (if lineCount = 0 then [NO_JOURNAL_LINES] else []) @
         (if dimensionScoped \<and> \<not> balanced then [DIMENSION_SCOPED_IMBALANCE] else []) @
         (if \<not> dimensionScoped \<and> \<not> balanced then [TRIAL_BALANCE_IMBALANCE] else [])\<rparr>)"

text \<open>The reconciliation: what the evidence rests on, the counts, and the warnings.\<close>

record AccountingJournalTrialBalanceReconciliationWarning =
  wa_code :: AccountingJournalTrialBalanceWarningCode
  wa_message :: jstr

definition diagnosticsWarningMessage :: "AccountingJournalTrialBalanceWarningCode \<Rightarrow> string" where
  "diagnosticsWarningMessage code =
     (if code = NO_JOURNAL_LINES then ''No persisted journal lines matched the requested Trial Balance scope.''
      else if code = DIMENSION_SCOPED_IMBALANCE
      then ''The scoped journal evidence is imbalanced within the requested dimension.''
      else ''The unscoped persisted journal evidence is imbalanced.'')"

definition reconciliationWarnings ::
  "AccountingJournalTrialBalanceDiagnostics \<Rightarrow> SourceEvidenceResult \<Rightarrow>
   AccountingJournalTrialBalanceReconciliationWarning list" where
  "reconciliationWarnings reportDiagnostics sourceEvidence =
     map (\<lambda>code. \<lparr>wa_code = code, wa_message = js (diagnosticsWarningMessage code)\<rparr>)
       (di_warningCodes reportDiagnostics) @
     (if di_dimensionScoped reportDiagnostics
      then [\<lparr>wa_code = DIMENSION_SCOPED_EVIDENCE, wa_message = js
        ''Filters narrow the journal evidence scope and may include only part of one or more entries.''\<rparr>]
      else []) @
     (if list_ex (\<lambda>source. \<not> sc_balanced source) (se_sourceCoverage sourceEvidence)
      then [\<lparr>wa_code = SOURCE_BREAKDOWN_IMBALANCE, wa_message = js
        ''At least one journal source bucket is not balanced within the returned evidence scope.''\<rparr>]
      else []) @
     (if 0 < se_missingSourceEntryCount sourceEvidence
      then [\<lparr>wa_code = MISSING_SOURCE_METADATA, wa_message =
        js_of_nat (se_missingSourceEntryCount sourceEvidence) @ js '' journal entries covering '' @
        js_of_nat (se_missingSourceLineCount sourceEvidence) @ js '' lines were missing source metadata.''\<rparr>]
      else [])"

record AccountingJournalTrialBalanceReconciliationEvidence =
  rc_evidenceSource :: jstr
  rc_aggregateBasis :: jstr
  rc_tenantScoped :: bool
  rc_dateBasis :: jstr
  rc_amountBasis :: jstr
  rc_directionBasis :: jstr
  rc_entryJoinBasis :: jstr
  rc_balanced :: bool
  rc_evidenceStatus :: AccountingJournalTrialBalanceEvidenceStatus
  rc_lineCount :: nat
  rc_entryCount :: nat
  rc_currencyCount :: nat
  rc_sourceCount :: nat
  rc_sourceCoverage :: "AccountingJournalTrialBalanceSourceCoverage list"
  rc_warnings :: "AccountingJournalTrialBalanceReconciliationWarning list"

definition reconciliationEvidence ::
  "AccountingJournalTrialBalanceDiagnostics \<Rightarrow> SourceEvidenceResult \<Rightarrow>
   AccountingJournalTrialBalanceReconciliationEvidence" where
  "reconciliationEvidence reportDiagnostics sourceEvidence =
     \<lparr>rc_evidenceSource = js ''PERSISTED_ACCOUNTING_JOURNAL'', rc_aggregateBasis = js ''DB_AGGREGATE'',
      rc_tenantScoped = True, rc_dateBasis = js ''postedAt'',
      rc_amountBasis = js ''AccountingJournalLine.amount'',
      rc_directionBasis = js ''AccountingJournalLine.direction'',
      rc_entryJoinBasis = js ''AccountingJournalLine.journalEntryId -> AccountingJournalEntry.id'',
      rc_balanced = di_balanced reportDiagnostics, rc_evidenceStatus = di_evidenceStatus reportDiagnostics,
      rc_lineCount = di_lineCount reportDiagnostics, rc_entryCount = di_entryCount reportDiagnostics,
      rc_currencyCount = di_currencyCount reportDiagnostics,
      rc_sourceCount = length (se_sourceCoverage sourceEvidence),
      rc_sourceCoverage = se_sourceCoverage sourceEvidence,
      rc_warnings = reconciliationWarnings reportDiagnostics sourceEvidence\<rparr>"

record AccountingJournalTrialBalanceReport =
  re_tenantId :: jstr
  re_filters :: AccountingJournalTrialBalanceFilters
  re_rows :: "AccountingJournalTrialBalanceRow list"
  re_totals :: "AccountingJournalTrialBalanceCurrencyTotal list"
  re_sourceBreakdown :: "AccountingJournalTrialBalanceSourceBreakdown list"
  re_diagnostics :: AccountingJournalTrialBalanceDiagnostics
  re_reconciliation :: AccountingJournalTrialBalanceReconciliationEvidence

definition lineCountFromGroups :: "'g AggregateAmountGroup_scheme list \<Rightarrow> nat" where
  "lineCountFromGroups groups = foldl (\<lambda>sum g. sum + aggregateLineCount g) 0 groups"

definition getTrialBalance ::
  "(jstr \<Rightarrow> jsdate) \<Rightarrow> (jstr \<Rightarrow> jstr \<Rightarrow> int) \<Rightarrow>
   (LineWhere \<Rightarrow> 's \<Rightarrow> journal_failure + AccountAggregateGroup list) \<Rightarrow>
   (LineWhere \<Rightarrow> 's \<Rightarrow> journal_failure + SourceAggregateGroup list) \<Rightarrow>
   (jstr \<Rightarrow> jstr list \<Rightarrow> 's \<Rightarrow> journal_failure + SourceEntryRow list) \<Rightarrow> int \<Rightarrow>
   AccountingJournalTrialBalanceFilters \<Rightarrow> 's \<Rightarrow>
   trial_balance_exception + AccountingJournalTrialBalanceReport" where
  "getTrialBalance other localeCompare groupByAccount groupByEntry findEntries now filters s =
     (case normalizeFilters other filters of Inl e \<Rightarrow> Inl e | Inr normalizedFilters \<Rightarrow>
      case buildWhere other normalizedFilters of Inl e \<Rightarrow> Inl e | Inr lineWhere \<Rightarrow>
      case groupByAccount lineWhere s of Inl f \<Rightarrow> Inl (TrialBalanceDbException f) | Inr accountGroups \<Rightarrow>
      case groupByEntry lineWhere s of Inl f \<Rightarrow> Inl (TrialBalanceDbException f) | Inr sourceGroups \<Rightarrow>
      case sourceEvidenceFromGroups localeCompare findEntries (tf_tenantId normalizedFilters) sourceGroups s of
        Inl f \<Rightarrow> Inl (TrialBalanceDbException f)
      | Inr sourceEvidence \<Rightarrow>
      let totals = totalsFromAccountGroups localeCompare accountGroups;
          reportDiagnostics = diagnostics normalizedFilters totals (lineCountFromGroups accountGroups)
            (length (uniqueEntryIds sourceGroups)) (toISOString now) in
      Inr \<lparr>re_tenantId = tf_tenantId normalizedFilters, re_filters = normalizedFilters,
           re_rows = rowsFromAccountGroups localeCompare accountGroups, re_totals = totals,
           re_sourceBreakdown = se_sourceBreakdown sourceEvidence, re_diagnostics = reportDiagnostics,
           re_reconciliation = reconciliationEvidence reportDiagnostics sourceEvidence\<rparr>)"

end
