(* ===== verification/TrialBalanced.thy ===== *)
theory TrialBalanced
  imports TrialBalance JournalLedger
begin

section \<open>The trial balance of the ledger balances\<close>

text \<open>
  The queries of the trial balance on the tables of the journal, and the composition of writer and
  report: as long as the writer keeps the invariant of the ledger, a report whose filters do not select
  single lines of an entry is balanced in every currency and for every source.
\<close>

subsection \<open>The queries on the tables\<close>

definition given_eq :: "jstr option \<Rightarrow> jstr \<Rightarrow> bool" where
  "given_eq condition value \<longleftrightarrow> (case condition of None \<Rightarrow> True | Some c \<Rightarrow> value = c)"

definition entry_matches :: "LineWhere \<Rightarrow> JournalEntryData \<Rightarrow> bool" where
  "entry_matches w d \<longleftrightarrow>
     jd_tenantId d = lw_tenantId w \<and> given_eq (lw_sourceType w) (jd_sourceType d) \<and>
     given_eq (lw_sourceAction w) (jd_sourceAction d) \<and> given_eq (lw_entryType w) (jd_entryType d) \<and>
     (case lw_postedFrom w of None \<Rightarrow> True | Some f \<Rightarrow> f \<le> the (jd_postedAt d)) \<and>
     (case lw_postedTo w of None \<Rightarrow> True | Some u \<Rightarrow> the (jd_postedAt d) \<le> u)"

definition opt_eq :: "jstr option \<Rightarrow> jstr option \<Rightarrow> bool" where
  "opt_eq condition value \<longleftrightarrow> condition = None \<or> value = condition"

definition line_matches :: "LineWhere \<Rightarrow> JournalLineDraft \<Rightarrow> bool" where
  "line_matches w l \<longleftrightarrow>
     ln_tenantId l = lw_tenantId w \<and> given_eq (lw_currency w) (ln_currency l) \<and>
     opt_eq (lw_caseId w) (ln_caseId l) \<and> opt_eq (lw_clientId w) (ln_clientId l) \<and>
     opt_eq (lw_caseClientId w) (ln_caseClientId l) \<and> given_eq (lw_accountCode w) (ln_accountCode l)"

definition matching_lines :: "LineWhere \<Rightarrow> JournalTables \<Rightarrow> (jstr \<times> JournalLineDraft) list" where
  "matching_lines w t =
     concat (map (\<lambda>r. map (Pair (jr_id r)) (filter (line_matches w) (jd_lines (jr_data r))))
       (filter (entry_matches w \<circ> jr_data) (jt_entries t)))"

definition cents_sum :: "(jstr \<times> JournalLineDraft) list \<Rightarrow> int" where
  "cents_sum ls = sum_list (map (cents \<circ> ln_amount \<circ> snd) ls)"

definition grouped :: "('a \<Rightarrow> 'k) \<Rightarrow> 'a list \<Rightarrow> ('k \<times> 'a list) list" where
  "grouped key xs = map (\<lambda>k. (k, filter (\<lambda>x. key x = k) xs)) (remdups (map key xs))"

definition tables_groupByAccount :: "LineWhere \<Rightarrow> JournalTables \<Rightarrow> journal_failure + AccountAggregateGroup list" where
  "tables_groupByAccount w t =
     Inr (map (\<lambda>((account, currency, direction), ls).
         \<lparr>gr_direction = direction, gr_currency = currency, gr_sum = Some (cents_sum ls),
          gr_count = length ls, gr_accountCode = account\<rparr>)
       (grouped (\<lambda>(i, l). (ln_accountCode l, ln_currency l, ln_direction l)) (matching_lines w t)))"

definition tables_groupByEntry :: "LineWhere \<Rightarrow> JournalTables \<Rightarrow> journal_failure + SourceAggregateGroup list" where
  "tables_groupByEntry w t =
     Inr (map (\<lambda>((entry, currency, direction), ls).
         \<lparr>gr_direction = direction, gr_currency = currency, gr_sum = Some (cents_sum ls),
          gr_count = length ls, gr_journalEntryId = entry\<rparr>)
       (grouped (\<lambda>(i, l). (i, ln_currency l, ln_direction l)) (matching_lines w t)))"

definition tables_findEntries ::
  "jstr \<Rightarrow> jstr list \<Rightarrow> JournalTables \<Rightarrow> journal_failure + SourceEntryRow list" where
  "tables_findEntries tenant ids t =
     Inr (map (\<lambda>r. \<lparr>sr_id = jr_id r, sr_sourceType = jd_sourceType (jr_data r),
                    sr_sourceAction = jd_sourceAction (jr_data r)\<rparr>)
       (filter (\<lambda>r. jd_tenantId (jr_data r) = tenant \<and> jr_id r \<in> set ids) (jt_entries t)))"

subsection \<open>Sums of groups\<close>

lemma map_of_map_set [simp]: "map_of (map_set m k v) k' = (if k' = k then Some v else map_of m k')"
  by (induction m k v rule: map_set.induct) auto

lemma map_set_keys:
  fixes v :: 'v
  shows "set (map fst (map_set m k v)) = insert k (set (map fst m))"
  "distinct (map fst m) \<Longrightarrow> distinct (map fst (map_set m k v))"
proof -
  show keys: "set (map fst (map_set m k v)) = insert k (set (map fst m))" for m and k and v :: 'v
    by (induction m k v rule: map_set.induct) auto
  show "distinct (map fst m) \<Longrightarrow> distinct (map fst (map_set m k v))"
  proof (induction m k v rule: map_set.induct)
    case (2 k' v' m k v)
    then show ?case by (auto simp add: keys simp del: set_map)
  qed simp
qed

lemma sum_groups:
  "finite K \<Longrightarrow> key ` set xs \<subseteq> K \<Longrightarrow>
   (\<Sum>k\<in>K. sum_list (map f (filter (\<lambda>x. key x = k) xs))) = (sum_list (map f xs) :: int)"
proof (induction xs)
  case (Cons x xs)
  have "(\<Sum>k\<in>K. sum_list (map f (filter (\<lambda>y. key y = k) (x # xs)))) =
      (\<Sum>k\<in>K. (if key x = k then f x else 0) + sum_list (map f (filter (\<lambda>y. key y = k) xs)))"
    by (rule sum.cong) auto
  also have "\<dots> = f x + sum_list (map f xs)" using Cons by (simp add: sum.distrib)
  finally show ?case by simp
qed simp

lemma sum_grouped:
  "sum_list (map (\<lambda>(k, ls). if P k then sum_list (map f ls) else 0) (grouped key xs)) =
   (sum_list (map f (filter (P \<circ> key) xs)) :: int)"
proof -
  let ?K = "{k \<in> set (map key xs). P k}"
  have "sum_list (map (\<lambda>(k, ls). if P k then sum_list (map f ls) else 0) (grouped key xs)) =
      (\<Sum>k\<in>set (map key xs). if P k then sum_list (map f (filter (\<lambda>x. key x = k) xs)) else 0)"
    unfolding grouped_def map_map
    by (subst sum_list_distinct_conv_sum_set) (simp_all add: comp_def cong: sum.cong)
  also have "\<dots> = (\<Sum>k\<in>?K. sum_list (map f (filter (\<lambda>x. key x = k) xs)))"
    by (simp add: sum.If_cases Collect_conj_eq Int_commute flip: sum.inter_filter)
  also have "\<dots> = (\<Sum>k\<in>?K. sum_list (map f (filter (\<lambda>x. key x = k) (filter (P \<circ> key) xs))))"
    by (intro sum.cong refl arg_cong [where f = "\<lambda>ys. sum_list (map f ys)"]) (auto intro!: filter_cong)
  also have "\<dots> = sum_list (map f (filter (P \<circ> key) xs))"
    by (rule sum_groups) auto
  finally show ?thesis .
qed

text \<open>The totals of a map after the groups were added.\<close>

definition side_sum :: "jstr \<Rightarrow> ('g AggregateAmountGroup_scheme \<Rightarrow> jstr) \<Rightarrow> jstr \<Rightarrow> 'g AggregateAmountGroup_scheme list \<Rightarrow> int" where
  "side_sum side key k gs =
     sum_list (map (\<lambda>g. if key g = k \<and> gr_direction g = side then aggregateAmount g else 0) gs)"

lemma add_groups:
  fixes key :: "'g AggregateAmountGroup_scheme \<Rightarrow> jstr"
  defines "run \<equiv> foldl (\<lambda>m g. addAggregate m (key g) (gr_direction g) (aggregateAmount g) (aggregateLineCount g))"
  shows "mt_debit (map_get (run m gs) k zero_total) = mt_debit (map_get m k zero_total) + side_sum DEBIT key k gs"
    "mt_credit (map_get (run m gs) k zero_total) = mt_credit (map_get m k zero_total) + side_sum CREDIT key k gs"
    "distinct (map fst m) \<Longrightarrow> distinct (map fst (run m gs))"
  unfolding run_def side_sum_def
  by (induction gs arbitrary: m)
     (simp_all add: addAggregate_def add_amount_def map_get_def map_set_keys split: option.split)

lemma balanced_groups:
  fixes key :: "'g AggregateAmountGroup_scheme \<Rightarrow> jstr"
  assumes "\<And>k. side_sum DEBIT key k gs = side_sum CREDIT key k gs"
  shows "list_all (\<lambda>p. mt_debit (snd p) = mt_credit (snd p))
    (foldl (\<lambda>m g. addAggregate m (key g) (gr_direction g) (aggregateAmount g) (aggregateLineCount g)) [] gs)"
proof -
  let ?m = "foldl (\<lambda>m g. addAggregate m (key g) (gr_direction g) (aggregateAmount g) (aggregateLineCount g)) [] gs"
  have "map_of ?m k = Some v" if "(k, v) \<in> set ?m" for k v
    using that add_groups(3) [of "[]" key gs] by simp
  then have "v = map_get ?m k zero_total" if "(k, v) \<in> set ?m" for k v using that by (simp add: map_get_def)
  then show ?thesis
    using add_groups(1,2) [of key "[]" gs] assms by (force simp: list_all_iff map_get_def zero_total_def)
qed

subsection \<open>Entries are counted as a whole\<close>

text \<open>The lines of a side, in the entries and currencies of a predicate.\<close>

definition selected :: "(jstr \<Rightarrow> jstr \<Rightarrow> bool) \<Rightarrow> jstr \<Rightarrow> (jstr \<times> JournalLineDraft) list \<Rightarrow> int" where
  "selected Q side ls =
     sum_list (map (cents \<circ> ln_amount \<circ> snd) (filter (\<lambda>(i, l). Q i (ln_currency l) \<and> ln_direction l = side) ls))"

lemma selected_append: "selected Q side (xs @ ys) = selected Q side xs + selected Q side ys"
  by (simp add: selected_def)

definition whole_entries :: "LineWhere \<Rightarrow> bool" where
  "whole_entries w \<longleftrightarrow>
     lw_caseId w = None \<and> lw_clientId w = None \<and> lw_caseClientId w = None \<and> lw_accountCode w = None"

lemma entry_selected:
  assumes "entry_balanced d" "whole_entries w" "jd_tenantId d = lw_tenantId w"
  shows "selected Q DEBIT (map (Pair i) (filter (line_matches w) (jd_lines d))) =
    selected Q CREDIT (map (Pair i) (filter (line_matches w) (jd_lines d)))"
proof -
  have "line_matches w l = given_eq (lw_currency w) (jd_currency d)" and "ln_currency l = jd_currency d"
    if "l \<in> set (jd_lines d)" for l
    using that assms by (auto simp: line_matches_def entry_balanced_def whole_entries_def list_all_iff opt_eq_def given_eq_def)
  then have lines: "filter (line_matches w) (jd_lines d) =
      (if given_eq (lw_currency w) (jd_currency d) then jd_lines d else [])"
    and cur: "\<And>l. l \<in> set (jd_lines d) \<Longrightarrow> ln_currency l = jd_currency d"
    by (simp_all add: filter_id_conv filter_empty_conv)
  have side: "selected Q side (map (Pair i) ls) =
      (if Q i (jd_currency d) then sum_list (map (\<lambda>l. if ln_direction l = side then cents (ln_amount l) else 0) ls) else 0)"
    if "set ls \<subseteq> set (jd_lines d)" for side ls
    using that by (induction ls) (auto simp: selected_def cur)
  have "debits (jd_lines d) = credits (jd_lines d)" using assms(1) by (simp add: entry_balanced_def)
  then show ?thesis using side [of "jd_lines d"] unfolding lines by (simp add: debits_def credits_def selected_def)
qed

lemma lines_selected:
  assumes "journal_ok t" "whole_entries w"
  shows "selected Q DEBIT (matching_lines w t) = selected Q CREDIT (matching_lines w t)"
proof -
  have "selected Q DEBIT (concat (map (\<lambda>r. map (Pair (jr_id r)) (filter (line_matches w) (jd_lines (jr_data r)))) rs)) =
      selected Q CREDIT (concat (map (\<lambda>r. map (Pair (jr_id r)) (filter (line_matches w) (jd_lines (jr_data r)))) rs))"
    if "\<forall>r \<in> set rs. entry_balanced (jr_data r) \<and> jd_tenantId (jr_data r) = lw_tenantId w" for rs
    using that
  proof (induction rs)
    case (Cons r rs)
    then show ?case by (simp add: selected_append entry_selected [OF _ assms(2)])
  qed (simp add: selected_def)
  from this [of "filter (entry_matches w \<circ> jr_data) (jt_entries t)"] show ?thesis
    using assms(1) by (simp add: matching_lines_def journal_ok_def list_all_iff entry_matches_def)
qed

text \<open>The groups of the two queries.\<close>

lemma account_side_sum:
  assumes "tables_groupByAccount w t = Inr gs"
  shows "side_sum side gr_currency c gs = selected (\<lambda>i cur. cur = c) side (matching_lines w t)"
proof -
  let ?key = "\<lambda>(i, l). (ln_accountCode l, ln_currency l, ln_direction l)"
  have "side_sum side gr_currency c gs =
      sum_list (map (\<lambda>(k, ls). if (case k of (account, currency, direction) \<Rightarrow> currency = c \<and> direction = side)
        then sum_list (map (cents \<circ> ln_amount \<circ> snd) ls) else 0) (grouped ?key (matching_lines w t)))"
    using assms by (auto simp: tables_groupByAccount_def side_sum_def aggregateAmount_def cents_sum_def comp_def
        intro!: arg_cong [where f = sum_list])
  also have "\<dots> = selected (\<lambda>i cur. cur = c) side (matching_lines w t)"
    unfolding sum_grouped selected_def
    by (intro arg_cong [where f = "\<lambda>ls. sum_list (map (cents \<circ> ln_amount \<circ> snd) ls)"] filter_cong) auto
  finally show ?thesis .
qed

lemma entry_side_sum:
  assumes "tables_groupByEntry w t = Inr gs"
  shows "sum_list (map (\<lambda>g. if Q (gr_journalEntryId g) (gr_currency g) \<and> gr_direction g = side
      then aggregateAmount g else 0) gs) = selected Q side (matching_lines w t)"
proof -
  let ?key = "\<lambda>(i, l). (i, ln_currency l, ln_direction l)"
  have "sum_list (map (\<lambda>g. if Q (gr_journalEntryId g) (gr_currency g) \<and> gr_direction g = side
        then aggregateAmount g else 0) gs) =
      sum_list (map (\<lambda>(k, ls). if (case k of (entry, currency, direction) \<Rightarrow> Q entry currency \<and> direction = side)
        then sum_list (map (cents \<circ> ln_amount \<circ> snd) ls) else 0) (grouped ?key (matching_lines w t)))"
    using assms by (auto simp: tables_groupByEntry_def aggregateAmount_def cents_sum_def comp_def
        intro!: arg_cong [where f = sum_list])
  also have "\<dots> = selected Q side (matching_lines w t)"
    unfolding sum_grouped selected_def
    by (intro arg_cong [where f = "\<lambda>ls. sum_list (map (cents \<circ> ln_amount \<circ> snd) ls)"] filter_cong) auto
  finally show ?thesis .
qed

subsection \<open>The evidence\<close>

lemma entry_map: "map_of (foldl (\<lambda>m e. map_set m (sr_id e) e) m es) i \<noteq> None \<longleftrightarrow>
    map_of m i \<noteq> None \<or> i \<in> sr_id ` set es"
  by (induction es arbitrary: m) auto

lemma entry_ids: "set (foldl (\<lambda>ids g. set_insert (gr_journalEntryId g) ids) ids gs) =
    set ids \<union> gr_journalEntryId ` set gs"
  by (induction gs arbitrary: ids) (auto simp: set_insert_def)

lemma evidence_found:
  assumes "\<forall>g \<in> set gs. map_of E (gr_journalEntryId g) \<noteq> None"
  shows "ev_breakdown (foldl (evidence_step E) st gs) =
      foldl (\<lambda>m g. addAggregate m
          (sourceBreakdownKey (sr_sourceType (the (map_of E (gr_journalEntryId g))))
             (sr_sourceAction (the (map_of E (gr_journalEntryId g)))) (gr_currency g))
          (gr_direction g) (aggregateAmount g) (aggregateLineCount g)) (ev_breakdown st) gs"
    "ev_missingIds (foldl (evidence_step E) st gs) = ev_missingIds st"
  using assms by (induction gs arbitrary: st) (auto simp: evidence_step_def Let_def)

lemma group_entries:
  assumes "tables_groupByEntry w t = Inr gs" "g \<in> set gs"
  shows "\<exists>r \<in> set (jt_entries t). jr_id r = gr_journalEntryId g \<and> jd_tenantId (jr_data r) = lw_tenantId w"
proof -
  obtain p where "p \<in> set (matching_lines w t)" "fst p = gr_journalEntryId g"
    using assms by (auto simp: tables_groupByEntry_def grouped_def)
  then show ?thesis by (auto simp: matching_lines_def entry_matches_def)
qed

lemma balanced_coverage:
  assumes "list_all sb_balanced rows" "\<forall>b \<in> snd ` set m. b"
  shows "map_get (foldl (\<lambda>m row.
     let key = sourceCoverageKey (sb_sourceType row) (sb_sourceAction row) in
     map_set m key (map_get m key True \<and> sb_balanced row)) m rows) k True"
  using assms
proof (induction rows arbitrary: m)
  case Nil
  then show ?case by (auto simp: map_get_def split: option.split dest!: map_of_SomeD)
next
  case (Cons row rows)
  let ?k = "sourceCoverageKey (sb_sourceType row) (sb_sourceAction row)"
  have all_true: "\<forall>b \<in> snd ` set (map_set m k' True). b" if "\<forall>b \<in> snd ` set m. b" for k' and m :: "bool ordered_map"
    using that by (induction m k' True rule: map_set.induct) auto
  have "map_get m ?k True"
    using Cons.prems(2) by (auto simp: map_get_def split: option.split dest!: map_of_SomeD)
  then have "map_set m ?k (map_get m ?k True \<and> sb_balanced row) = map_set m ?k True"
    using Cons.prems(1) by simp
  then show ?case
    using Cons.IH [OF _ all_true [OF Cons.prems(2), of ?k]] Cons.prems(1)
    by (simp add: Let_def)
qed

lemma source_evidence:
  assumes t: "journal_ok t" "whole_entries w" and gs: "tables_groupByEntry w t = Inr gs"
    and e: "sourceEvidenceFromGroups lc tables_findEntries (lw_tenantId w) gs t = Inr evidence"
  shows "list_all sb_balanced (se_sourceBreakdown evidence)" "list_all sc_balanced (se_sourceCoverage evidence)"
    "se_missingSourceEntryCount evidence = 0"
proof -
  define es where "es = map (\<lambda>r. \<lparr>sr_id = jr_id r, sr_sourceType = jd_sourceType (jr_data r),
      sr_sourceAction = jd_sourceAction (jr_data r)\<rparr>)
    (filter (\<lambda>r. jd_tenantId (jr_data r) = lw_tenantId w \<and> jr_id r \<in> set (uniqueEntryIds gs)) (jt_entries t))"
  define E where "E = foldl (\<lambda>m e. map_set m (sr_id e) e) [] es"
  let ?st = "\<lparr>ev_breakdown = [], ev_coverage = [], ev_missingIds = [], ev_missingLines = 0\<rparr>"
  let ?key = "\<lambda>g. sourceBreakdownKey (sr_sourceType (the (map_of E (gr_journalEntryId g))))
    (sr_sourceAction (the (map_of E (gr_journalEntryId g)))) (gr_currency g)"
  have found: "map_of E (gr_journalEntryId g) \<noteq> None" if g: "g \<in> set gs" for g
  proof -
    obtain r where r: "r \<in> set (jt_entries t)" "jr_id r = gr_journalEntryId g" "jd_tenantId (jr_data r) = lw_tenantId w"
      using group_entries [OF gs g] by blast
    moreover have "gr_journalEntryId g \<in> set (uniqueEntryIds gs)"
      using g by (simp add: uniqueEntryIds_def entry_ids)
    ultimately have "gr_journalEntryId g \<in> sr_id ` set es" by (force simp: es_def)
    then show ?thesis using entry_map [of "[]" es "gr_journalEntryId g"] by (simp add: E_def)
  qed
  then have all: "\<forall>g \<in> set gs. map_of E (gr_journalEntryId g) \<noteq> None" by blast
  note ev = evidence_found [OF all, of ?st]
  have side: "side_sum side ?key k gs = selected (\<lambda>i cur. sourceBreakdownKey (sr_sourceType (the (map_of E i)))
      (sr_sourceAction (the (map_of E i))) cur = k) side (matching_lines w t)" for side k
    unfolding side_sum_def using entry_side_sum [OF gs, of "\<lambda>i cur. sourceBreakdownKey
      (sr_sourceType (the (map_of E i))) (sr_sourceAction (the (map_of E i))) cur = k"] by simp
  have "list_all (\<lambda>p. mt_debit (snd p) = mt_credit (snd p)) (ev_breakdown (foldl (evidence_step E) ?st gs))"
    unfolding ev by (simp add: balanced_groups side lines_selected [OF t])
  moreover have "se_sourceBreakdown evidence = [] \<or> (\<exists>cmp. se_sourceBreakdown evidence = js_sort cmp
      (map (\<lambda>(key, t). sourceBreakdownFromTotal (part key 0) (part key 1) (part key 2) t)
        (ev_breakdown (foldl (evidence_step E) ?st gs))))"
    using e by (auto simp: sourceEvidenceFromGroups_def emptySourceEvidence_def tables_findEntries_def Let_def
        E_def es_def split: if_split_asm)
  ultimately show b: "list_all sb_balanced (se_sourceBreakdown evidence)"
    by (force simp: list_all_iff sourceBreakdownFromTotal_def)
  have "se_sourceCoverage evidence = [] \<or> (\<exists>coverage. se_sourceCoverage evidence =
      sourceCoverageFromMaps lc coverage (se_sourceBreakdown evidence))"
    using e by (auto simp: sourceEvidenceFromGroups_def emptySourceEvidence_def tables_findEntries_def Let_def
        split: if_split_asm)
  then show "list_all sc_balanced (se_sourceCoverage evidence)"
    using balanced_coverage [OF b, of "[]"] by (auto simp: list_all_iff sourceCoverageFromMaps_def Let_def)
  show "se_missingSourceEntryCount evidence = 0"
    using e ev(2) by (auto simp: sourceEvidenceFromGroups_def emptySourceEvidence_def tables_findEntries_def Let_def
        E_def es_def split: if_split_asm)
qed

lemma balanced_totals:
  assumes "journal_ok t" "whole_entries w" "tables_groupByAccount w t = Inr gs"
  shows "list_all ct_balanced (totalsFromAccountGroups lc gs)"
proof -
  have "list_all (\<lambda>p. mt_debit (snd p) = mt_credit (snd p)) (currency_totals gs)"
    unfolding currency_totals_def
    by (rule balanced_groups) (simp add: account_side_sum [OF assms(3)] lines_selected [OF assms(1,2)])
  then show ?thesis
    by (force simp: totalsFromAccountGroups_def currencyTotalFromTotal_def list_all_iff)
qed

lemma report_whole:
  assumes "normalizeFilters other filters = Inr f" "buildWhere other f = Inr w" "\<not> dimension_scoped filters"
  shows "whole_entries w" "lw_tenantId w = tf_tenantId f" "\<not> dimension_scoped f"
  using assms
  by (auto simp: normalizeFilters_def buildWhere_def whole_entries_def dimension_scoped_def if_given_def
      split: sum.split_asm)

end
