(* ===== verification/JournalProperties.thy ===== *)
theory JournalProperties
  imports JournalReversed TrialBalanced
begin

section \<open>Properties of the accounting journal\<close>

text \<open>
  The properties of the journal that span its components, each with an application to a sample: a
  collection of 100.50 TRY that is recorded, reversed and reported.
\<close>

subsection \<open>A sample\<close>

definition sample_collection :: CollectionJournalSource where
  "sample_collection =
     \<lparr>so_tenantId = js ''t1'', so_sourceId = js ''c1'', so_sourceVersion = js ''v1'',
      so_sourceAction = js ''recorded'', so_occurredAt = js ''2024-03-01'',
      so_effectiveDate = js ''2024-03-01'', so_actorId = None, so_currency = js ''TRY'',
      so_sourceHash = None, so_metadata = [],
      so_payload = \<lparr>ccp_kind = js ''RECORDED'', ccp_amount = js ''100.50'', ccp_caseId = js ''k1'',
        ccp_collectionId = js ''c1'', ccp_collectionStatus = js ''CONFIRMED'', ccp_debtorId = None,
        ccp_originalRecordedSourceVersion = None\<rparr>\<rparr>"

definition sample_built :: JournalEntryDraft where
  "sample_built = (case buildCollectionJournal sample_collection of Inr d \<Rightarrow> d)"

lemma sample_built: "buildAccountingJournal (CollectionSource sample_collection) = Inr sample_built"
  by (simp add: sample_built_def buildCollectionJournal_def Let_def finish_draft_def sample_collection_def)

lemma sample_amount: "money_ok (js ''100.50'') \<and> cents (js ''100.50'') = 10050"
  by (simp add: money_ok_def cents_def parseMoney_def money_parts_def js_eval js_digit_def Let_def padEnd_def
      digits_val_def)

lemma sample_complete: "source_complete (CollectionSource sample_collection)"
  using sample_amount by (simp add: sample_collection_def entry_complete_def)

definition sample_entry :: ValidatedJournalEntryDraft where
  "sample_entry = validated_draft sample_built"

lemma sample_valid: "validateJournalDraft sample_built = Inr sample_entry"
  using built_draft_complete [OF sample_built] sample_complete
  by (auto simp: sample_entry_def validateJournalDraft_Inr)

lemma sample_draft: "journal_draft sample_entry"
  unfolding journal_draft_def using sample_built sample_valid by blast

lemma sample_members:
  "je_tenantId sample_entry = js ''t1''" "je_sourceType sample_entry = js ''COLLECTION''"
  "je_sourceId sample_entry = js ''c1''" "je_sourceAction sample_entry = js ''recorded''"
  "je_entryType sample_entry = js ''COLLECTION_CASH_RECEIPT_RECORDED''"
  "je_sourceOccurredAt sample_entry = js ''2024-03-01''" "je_reversalOf sample_entry = None"
  "je_sourceHash sample_entry = None"
  "je_idempotencyKey sample_entry = js ''acct-journal:v1:t1:COLLECTION:c1:recorded:v1''"
  "je_lines sample_entry =
     [collectionLine sample_collection 1 ''CASH_CLEARING'' DEBIT,
      collectionLine sample_collection 2 ''CASE_COLLECTION_CLEARING'' CREDIT]"
  by (simp_all add: sample_entry_def sample_built_def buildCollectionJournal_def Let_def finish_draft_def
      sample_collection_def buildJournalIdempotencyKey_def journalIdempotencyMaterialFromSource_def
      IDEMPOTENCY_PREFIX_def COLON_def js_eval)

definition sample_row :: JournalRow where
  "sample_row = \<lparr>jr_id = js ''e0'', jr_data = entry_data (\<lambda>_. None) sample_entry\<rparr>"

definition sample_ledger :: JournalTables where
  "sample_ledger = \<lparr>jt_entries = [sample_row]\<rparr>"

lemma sample_journal_date: "js_Date other (js ''2024-03-01'') = Some (time_of_date (2024, 3, 1))"
proof -
  have "js ''2024-03-01'' = iso_text (2024, 3, 1)" by (simp add: iso_text_def pad_digits_2 pad_digits_4 js_eval)
  moreover have "valid_date (2024, 3, 1)" by (simp add: valid_date_def daysInMonth_def)
  ultimately show ?thesis using js_Date_toISOString(2) [of "(2024, 3, 1)" 0 other] by (simp add: ms_per_day_def)
qed

lemma sample_storable: "entry_storable (entry_data other sample_entry)"
proof -
  have "line_storable (collectionLine sample_collection n c d)"
    if "js c \<in> set ACCOUNT_CODES" "d = DEBIT \<or> d = CREDIT" "0 < n" "n < 100" for n c d
    using that sample_amount
    by (simp add: line_storable_def collectionLine_def Let_def) (simp add: sample_collection_def js_int_def)
  then have "list_all line_storable (je_lines sample_entry)"
    by (auto simp: sample_members ACCOUNT_CODES_def)
  then show ?thesis
    by (simp add: entry_storable_def entry_data_def sample_members ENTRY_TYPES_def SOURCE_TYPES_def sample_journal_date)
      (simp add: not_blank_def js_eval)
qed

abbreviation empty_ledger :: JournalTables where
  "empty_ledger \<equiv> \<lparr>jt_entries = []\<rparr>"

lemma empty_ledger [simp]: "ledger_of empty_ledger k = None" "find_row P empty_ledger = None"
  "reversed_ids empty_ledger = []"
  by (simp_all add: ledger_of_def find_row_def reversed_ids_def List.map_filter_def)

lemma sample_write:
  "writeJournal (\<lambda>_. None) journal_tables sample_entry empty_ledger =
     (Inr (Inr \<lparr>wo_status = CREATED, wo_journalEntryId = js ''e0'',
        wo_idempotencyKey = je_idempotencyKey sample_entry, wo_sourceVersion = je_sourceVersion sample_entry,
        wo_lineCount = 2\<rparr>), sample_ledger)"
proof -
  have "reversed_entry sample_entry = None" by (simp add: reversed_entry_def sample_members)
  moreover have "next_entry_id empty_ledger = js ''e0''"
    by (simp add: next_entry_id_def js_eval js_of_nat.simps)
  ultimately show ?thesis
    using write_stores [OF sample_draft sample_storable, of empty_ledger "\<lambda>_. None"]
    by (simp add: validateReversalOriginal_def sample_members original_stored_def entry_data_def
        sample_ledger_def sample_row_def del: js_of_nat.simps)
qed

lemma sample_ledger_ok: "journal_ok sample_ledger"
  using write_keeps [OF journal_ok_empty, of "\<lambda>t. t" sample_entry "\<lambda>_. None"] journal_ok_empty sample_draft
  by (simp add: sample_write)

subsection \<open>Drafts\<close>

text \<open>C11: The validators accept the draft the builder makes of a source exactly when the source is
  complete: its texts, dates and amount are given, a leg has the identifiers its account needs, a
  reversal names its original, and a manual adjustment balances. What the builder lets pass without
  them is refused before it reaches the journal, and no complete source is.\<close>

theorem built_draft_validates:
  assumes "buildAccountingJournal source = Inr draft"
  shows "(\<exists>valid. validateJournalDraft draft = Inr valid) \<longleftrightarrow> source_complete source"
  by (rule built_draft_complete [OF assms])

theorem built_draft_validates_witness:
  "buildAccountingJournal (CollectionSource sample_collection) = Inr sample_built \<and>
   (\<exists>valid. validateJournalDraft sample_built = Inr valid)"
  using built_draft_validates [OF sample_built] sample_built sample_complete by blast

text \<open>C12: The structural validation is the type check of a draft. It accepts a draft exactly when all
  texts that identify the entry are given, it has lines, every line has a positive integer as its
  number, the tenant and the currency of the entry, an account, a side and a positive amount of at most
  two decimals, the line numbers differ, and the debits are the credits.\<close>

theorem structure_accepts:
  "(\<exists>valid. validateJournalStructure draft = Inr valid) \<longleftrightarrow>
     [] \<notin> set [je_tenantId draft, je_sourceType draft, je_sourceId draft, je_sourceAction draft,
       je_sourceVersion draft, je_idempotencyKey draft, je_currency draft, je_sourceOccurredAt draft,
       je_effectiveDate draft] \<and>
     je_lines draft \<noteq> [] \<and>
     list_all (\<lambda>line. js_is_integer (ln_lineNo line) \<and> js_less (js_int 0) (ln_lineNo line) \<and>
       ln_tenantId line = je_tenantId draft \<and> ln_currency line = je_currency draft \<and>
       ln_accountCode line \<noteq> [] \<and> (ln_direction line = DEBIT \<or> ln_direction line = CREDIT) \<and>
       pm_errorCode (parseMoney (ln_amount line)) = None) (je_lines draft) \<and>
     distinct (map ln_lineNo (je_lines draft)) \<and>
     sum_list (map (pm_cents \<circ> parseMoney \<circ> ln_amount) (filter (\<lambda>line. ln_direction line = DEBIT) (je_lines draft))) =
     sum_list (map (pm_cents \<circ> parseMoney \<circ> ln_amount) (filter (\<lambda>line. ln_direction line = CREDIT) (je_lines draft)))"
proof -
  have side: "sum_list (map (\<lambda>l. if ln_direction l = side then cents (ln_amount l) else 0) ls) =
      sum_list (map (pm_cents \<circ> parseMoney \<circ> ln_amount) (filter (\<lambda>l. ln_direction l = side) ls))" for side ls
    by (induction ls) (simp_all add: cents_def)
  have lines: "line_ok draft = (\<lambda>line.
      js_is_integer (ln_lineNo line) \<and> js_less (js_int 0) (ln_lineNo line) \<and>
       ln_tenantId line = je_tenantId draft \<and> ln_currency line = je_currency draft \<and>
       ln_accountCode line \<noteq> [] \<and> (ln_direction line = DEBIT \<or> ln_direction line = CREDIT) \<and>
       pm_errorCode (parseMoney (ln_amount line)) = None)" if "texts_ok draft"
    using that by (auto simp: fun_eq_iff line_ok_def line_number_ok_def money_ok_def texts_ok_def)
  show ?thesis
  proof (cases "texts_ok draft")
    case True
    then show ?thesis
      by (simp only: structure_Inr structure_ok_def debits_def credits_def side lines [OF True] texts_ok_def)
        simp
  next
    case False
    then show ?thesis by (simp only: structure_Inr structure_ok_def texts_ok_def) blast
  qed
qed

lemma digits_val_bound: "list_all js_digit w \<Longrightarrow> digits_val w < 10 ^ length w"
proof (induction w rule: rev_induct)
  case (snoc u w)
  then have "digits_val w < 10 ^ length w" "u - 48 \<le> 9" by (auto simp: js_digit_def)
  then show ?case by simp
qed (simp add: digits_val_def)

text \<open>An accepted amount is bounded by its text: it is at least one cent, less than a power of ten
  with two digits more than the text has before the point, and the text has at most two digits after
  the point. So it is read without loss, whatever its size.\<close>

theorem money_bounds:
  assumes "pm_errorCode (parseMoney amount) = None"
  shows "1 \<le> pm_cents (parseMoney amount) \<and>
    pm_cents (parseMoney amount) < 10 ^ (length (takeWhile js_digit amount) + 2) \<and>
    length amount \<le> length (takeWhile js_digit amount) + 3"
proof -
  obtain w f where p: "money_parts amount = Some (w, f)" and f: "length f \<le> 2"
    and pos: "0 < pm_cents (parseMoney amount)"
    and c: "pm_cents (parseMoney amount) =
      int (digits_val w) * 100 + int (digits_val (padEnd (if f = [] then [48] else f) 2 48))"
    using assms by (auto simp: parseMoney_def Let_def split: option.split_asm if_split_asm)
  have w: "w = takeWhile js_digit amount" and digits: "list_all js_digit f"
    and rest: "length (dropWhile js_digit amount) \<le> Suc (length f)"
    using p by (auto simp: money_parts_def Let_def simp del: dropWhile_eq_Nil_conv split: if_split_asm)
  have len: "length amount \<le> length w + Suc (length f)"
    using rest arg_cong [where f = length, OF takeWhile_dropWhile_id [of js_digit amount]]
    unfolding w length_append by linarith
  let ?f = "padEnd (if f = [] then [48] else f) 2 48"
  have "digits_val w < 10 ^ length w"
    unfolding w by (rule digits_val_bound) (auto simp: list_all_iff dest: set_takeWhileD)
  moreover have "digits_val ?f < 10 ^ length ?f"
    using digits by (intro digits_val_bound) (auto simp: padEnd_def list_all_iff js_digit_def)
  moreover have "length ?f = 2" using f by (auto simp: padEnd_def)
  ultimately have "digits_val w * 100 + digits_val ?f < 10 ^ length w * 100" by simp
  then have "int (digits_val w * 100 + digits_val ?f) < int (10 ^ length w * 100)" by (simp only: of_nat_less_iff)
  then have "pm_cents (parseMoney amount) < 10 ^ (length w + 2)" by (simp add: c)
  then show ?thesis using pos len f by (simp add: w)
qed

theorem money_bounds_witness:
  "pm_cents (parseMoney (js ''100.50'')) < 10 ^ (length (takeWhile js_digit (js ''100.50'')) + 2)"
  using money_bounds [of "js ''100.50''"] sample_amount by (simp add: money_ok_def)

lemma separated:
  "u \<notin> set a \<Longrightarrow> u \<notin> set b \<Longrightarrow> a @ u # x = b @ u # y \<longleftrightarrow> a = b \<and> x = y"
proof (induction a arbitrary: b)
  case Nil
  then show ?case by (cases b) auto
next
  case (Cons v a)
  then show ?case by (cases b) auto
qed

text \<open>C13: The key of an entry identifies its source. When no part but the version has a colon, two
  sources have the same key exactly when tenant, type, identifier, action and version are the same.\<close>

theorem idempotency_key_injective:
  assumes "COLON \<notin> set (im_tenantId a) \<union> set (im_sourceType a) \<union> set (im_sourceId a) \<union> set (im_sourceAction a)"
    and "COLON \<notin> set (im_tenantId b) \<union> set (im_sourceType b) \<union> set (im_sourceId b) \<union> set (im_sourceAction b)"
  shows "buildJournalIdempotencyKey a = buildJournalIdempotencyKey b \<longleftrightarrow> a = b"
proof -
  have "buildJournalIdempotencyKey a = buildJournalIdempotencyKey b \<longleftrightarrow>
      im_tenantId a = im_tenantId b \<and> im_sourceType a = im_sourceType b \<and> im_sourceId a = im_sourceId b \<and>
      im_sourceAction a = im_sourceAction b \<and> im_sourceVersion a = im_sourceVersion b"
    using assms by (simp add: buildJournalIdempotencyKey_def separated)
  then show ?thesis by (cases a; cases b) auto
qed

definition sample_material :: JournalIdempotencyMaterial where
  "sample_material = \<lparr>im_tenantId = js ''t1'', im_sourceType = js ''COLLECTION'', im_sourceId = js ''c1'',
     im_sourceAction = js ''recorded'', im_sourceVersion = js ''v1:1''\<rparr>"

theorem idempotency_key_injective_witness:
  "buildJournalIdempotencyKey sample_material \<noteq>
   buildJournalIdempotencyKey (sample_material\<lparr>im_sourceVersion := js ''v1:2''\<rparr>)"
proof -
  let ?m = "sample_material\<lparr>im_sourceVersion := js ''v1:2''\<rparr>"
  have "im_sourceVersion sample_material \<noteq> im_sourceVersion ?m" by (simp add: sample_material_def js_eval)
  then have "sample_material \<noteq> ?m" using arg_cong [of sample_material ?m im_sourceVersion] by blast
  moreover have "COLON \<notin> set (im_tenantId sample_material) \<union> set (im_sourceType sample_material) \<union>
      set (im_sourceId sample_material) \<union> set (im_sourceAction sample_material)"
    by (simp add: sample_material_def js_eval COLON_def)
  ultimately show ?thesis using idempotency_key_injective [of sample_material ?m] by simp
qed

text \<open>The hash of a source takes an amount by its value. Accepted amounts have the same canonical
  text exactly when they are the same number of cents, so \<open>100.5\<close> and \<open>100.50\<close> give the same hash
  and no two different amounts do.\<close>

theorem amounts_hashed_by_value:
  assumes "pm_errorCode (parseMoney a) = None" "pm_errorCode (parseMoney b) = None"
  shows "normalizeSourceHashAmount (VStr a) = Inr (fixed2 (pm_cents (parseMoney a))) \<and>
    (normalizeSourceHashAmount (VStr a) = normalizeSourceHashAmount (VStr b) \<longleftrightarrow>
     pm_cents (parseMoney a) = pm_cents (parseMoney b))"
proof -
  have ok: "money_ok a" "money_ok b" using assms by (simp_all add: money_ok_def)
  have "cents a = cents b" if "fixed2 (cents a) = fixed2 (cents b)"
    using parse_fixed2 [OF money_ok_pos [OF ok(1)]] parse_fixed2 [OF money_ok_pos [OF ok(2)]] that by metis
  then have "fixed2 (cents a) = fixed2 (cents b) \<longleftrightarrow> cents a = cents b" by metis
  then show ?thesis
    by (simp only: normalize_money [OF ok(1)] normalize_money [OF ok(2)] sum.inject simp_thms flip: cents_def)
qed

theorem amounts_hashed_by_value_witness:
  "normalizeSourceHashAmount (VStr (js ''100.5'')) = normalizeSourceHashAmount (VStr (js ''100.50''))"
proof -
  have "money_ok (js ''100.5'') \<and> cents (js ''100.5'') = 10050"
    by (simp add: money_ok_def cents_def parseMoney_def money_parts_def js_eval js_digit_def Let_def padEnd_def
      digits_val_def)
  then have "pm_errorCode (parseMoney (js ''100.5'')) = None" "pm_errorCode (parseMoney (js ''100.50'')) = None"
    "pm_cents (parseMoney (js ''100.5'')) = pm_cents (parseMoney (js ''100.50''))"
    using sample_amount by (simp_all only: money_ok_def cents_def)
  then show ?thesis using amounts_hashed_by_value by blast
qed

end
