(* ===== verification/LedgerProperties.thy ===== *)
theory LedgerProperties
  imports JournalProperties
begin

section \<open>Properties of the ledger\<close>

text \<open>
  The composition of builder, validators, writer, reversal service and trial balance on the tables of
  the journal: what a write does to the ledger, what every ledger the writers reach satisfies, and what
  reversals and reports of such a ledger are.
\<close>

subsection \<open>Reachable ledgers\<close>

text \<open>
  The ledgers that writers reach. A write reads the ledger \<open>t\<close>; other writers may add entries before it
  inserts its own into \<open>env t\<close>, which they reached in the same way.
\<close>

inductive ledger_reachable :: "JournalTables \<Rightarrow> bool" where
  empty: "ledger_reachable \<lparr>jt_entries = []\<rparr>"
| step: "ledger_reachable t \<Longrightarrow> ledger_reachable (env t) \<Longrightarrow>
    set (jt_entries t) \<subseteq> set (jt_entries (env t)) \<Longrightarrow> journal_draft draft \<Longrightarrow>
    ledger_reachable (snd (writeJournal other (interfering env journal_tables) draft t))"

lemma reachable_ok: "ledger_reachable t \<Longrightarrow> journal_ok t"
  by (induction rule: ledger_reachable.induct) (auto intro: journal_ok_empty write_keeps)

lemma sample_reachable: "ledger_reachable sample_ledger"
  using ledger_reachable.step [OF ledger_reachable.empty, of "\<lambda>t. t" sample_entry "\<lambda>_. None"]
    ledger_reachable.empty sample_draft by (simp add: sample_write)

subsection \<open>Writes\<close>

text \<open>C15: The writer refines the ledger, a map from sources to entries. Whatever the tables hold, a
  write of a built and validated draft is one step of it: the source is posted under a fresh identifier
  when it has no entry, it is replayed when the entry has the same version and no other hash, and
  otherwise the write is refused and the ledger is unchanged.\<close>

theorem write_refines_ledger:
  assumes "journal_ok t" "journal_draft draft" "writeJournal other journal_tables draft t = (result, t')"
  shows "ledger_step (ledger_of t) (entry_data other draft) (outcome_of result) (ledger_of t')"
  by (rule write_step [OF assms])

theorem write_refines_ledger_witness:
  "ledger_step (ledger_of empty_ledger) (entry_data (\<lambda>_. None) sample_entry) (Posted (js ''e0''))
     (ledger_of sample_ledger)"
  using write_refines_ledger [OF journal_ok_empty sample_draft sample_write] by simp

text \<open>C16: Every ledger that writers reach, with any interleaving of their checks and inserts, keeps the
  rules of the journal: a source, a key and a reversed entry occur once, every entry has the same sum of
  debits and credits in one currency and one tenant, and a reversal names an entry of its tenant that is
  no reversal.\<close>

theorem reachable_ledger_sound:
  assumes "ledger_reachable t"
  shows "distinct (map (data_source \<circ> jr_data) (jt_entries t)) \<and>
    distinct (map (data_key \<circ> jr_data) (jt_entries t)) \<and> distinct (reversed_ids t) \<and>
    list_all (\<lambda>r. debits (jd_lines (jr_data r)) = credits (jd_lines (jr_data r)) \<and>
      list_all (\<lambda>l. ln_tenantId l = jd_tenantId (jr_data r) \<and> ln_currency l = jd_currency (jr_data r))
        (jd_lines (jr_data r)) \<and>
      reversal_ok t (jr_data r)) (jt_entries t)"
  using reachable_ok [OF assms] by (auto simp: journal_ok_def entry_balanced_def list_all_iff)

theorem reachable_ledger_sound_witness:
  "ledger_reachable sample_ledger \<and> distinct (map (data_source \<circ> jr_data) (jt_entries sample_ledger))"
  using reachable_ledger_sound [OF sample_reachable] sample_reachable by blast

text \<open>C17: Two writers of one source can both find no entry and both try to create it. The one whose
  insert comes second fails with a unique conflict, finds the entry of the first, and answers as if it
  had found it before: a replay when the two agree, a refusal when they do not. The ledger has the
  entry of the first only. The client answers queries after the conflict, as it does outside a
  transaction.\<close>

theorem raced_write_replays:
  assumes first: "writeJournal other journal_tables draft t = (Inr (Inr out), t1)" "wo_status out = CREATED"
    and alone: "writeJournal other journal_tables draft' t = (Inr (Inr out'), t2)" "wo_status out' = CREATED"
    and "source_key draft' = source_key draft"
  shows "\<exists>result. writeJournal other (interfering (\<lambda>_. t1) journal_tables) draft' t = (result, t1) \<and>
    outcome_of result =
      (if entries_agree (entry_data other draft') (entry_data other draft)
       then Replayed (wo_journalEntryId out) else Refused)"
proof -
  have i: "insert_entry (entry_data other draft) t = (Inr (wo_journalEntryId out, wo_lineCount out), t1)"
    using ledger.write_created(1) [OF first] by simp
  then have "map_option row_entry (find_row (\<lambda>r. data_source (jr_data r) = source_key draft) t1) =
      Some (existing_entry (wo_journalEntryId out) (entry_data other draft))"
    using ledger.created_found [of "entry_data other draft" t] by simp
  then obtain row where row: "find_row (\<lambda>r. data_source (jr_data r) = source_key draft') t1 = Some row"
    "row_entry row = existing_entry (wo_journalEntryId out) (entry_data other draft)"
    by (auto simp: assms(5))
  show ?thesis
    unfolding raced_write [OF alone row(1)] row(2)
    by (intro exI conjI, rule refl, rule replay_outcome)
qed

theorem raced_write_replays_witness:
  "\<exists>result. writeJournal (\<lambda>_. None) (interfering (\<lambda>_. sample_ledger) journal_tables) sample_entry empty_ledger =
     (result, sample_ledger) \<and> outcome_of result = Replayed (js ''e0'')"
  using raced_write_replays [OF sample_write _ sample_write _ refl]
  by (simp add: entries_agree_def)

subsection \<open>Reversals\<close>

abbreviation sample_reason :: jstr where
  "sample_reason \<equiv> js ''booked twice''"

lemma sample_input:
  "normalizeInput (VStr (js ''t1'')) (VStr (js ''u1'')) (VStr (js ''e0'')) (VStr sample_reason) VNull =
     Inr \<lparr>ni_tenantId = jd_tenantId (jr_data sample_row), ni_actorUserId = js ''u1'',
          ni_originalJournalEntryId = jr_id sample_row, ni_reason = sample_reason, ni_evidenceRef = None\<rparr>"
proof -
  have trim: "js_trim (js ''t1'') = js ''t1''" "js_trim (js ''u1'') = js ''u1''" "js_trim (js ''e0'') = js ''e0''"
    "js_trim sample_reason = sample_reason"
    unfolding js_trim_eq_iff by (simp_all add: js_eval js_whitespace_def)
  have len: "length sample_reason = 12" and ne: "js ''t1'' \<noteq> []" "js ''u1'' \<noteq> []" "js ''e0'' \<noteq> []"
    "sample_reason \<noteq> []" by (simp_all add: js_eval)
  have row: "jd_tenantId (jr_data sample_row) = js ''t1''" "jr_id sample_row = js ''e0''"
    by (simp_all add: sample_row_def entry_data_def sample_members)
  show ?thesis
    by (simp only: normalizeInput_def requireTrimmed.simps normalizeOptionalString.simps trim ne row if_False
        sum.case len REVERSAL_REASON_MIN_LENGTH_def) simp
qed

lemma sample_reversible: "reversible sample_ledger sample_row"
proof -
  have "reversal_key sample_row \<noteq> je_idempotencyKey sample_entry"
    by (simp add: reversal_key_def sample_row_def entry_data_def sample_members buildJournalIdempotencyKey_def
        IDEMPOTENCY_PREFIX_def COLON_def) (simp add: js_eval)
  moreover have "reversed_ids sample_ledger = []"
    by (simp add: reversed_ids_def List.map_filter_def sample_ledger_def sample_row_def entry_data_def
        reversed_entry_def sample_members)
  ultimately show ?thesis
    by (simp add: reversible_def sample_ledger_def data_key_def) (simp add: sample_row_def entry_data_def
        reversed_entry_def sample_members js_eval)
qed

abbreviation reverse_sample :: "int \<Rightarrow> JournalTables \<Rightarrow>
    (reversal_exception + AccountingJournalReversalInTransactionResult) \<times> JournalTables" where
  "reverse_sample now \<equiv>
     reverseAccountingJournalEntryInTransaction (\<lambda>_. None) (\<lambda>_. []) now tables_findEntry journal_tables
       (VStr (js ''t1'')) (VStr (js ''u1'')) (VStr (js ''e0'')) (VStr sample_reason) VNull"

lemma sample_day: "valid_date (2024, 3, 2)"
  by (simp add: valid_date_def daysInMonth_def)

lemma reversible_row:
  assumes "journal_ok t" "reversible t row"
  shows "entry_storable (jr_data row)" "entry_balanced (jr_data row)" "reversal_ok t (jr_data row)"
    "jd_entryType (jr_data row) \<noteq> js ''ACCOUNTING_JOURNAL_REVERSAL''" "jd_reversalOfEntryId (jr_data row) = None"
    "jr_id row \<noteq> []" "row \<in> set (jt_entries t)"
  using assms row_id(3) [of t row] unfolding journal_ok_def reversible_def list_all_iff by blast+

text \<open>C18: Every posted entry that is no reversal and has none can be cancelled. The request of an actor
  with a reason succeeds, and the ledger has one more entry, a reversal of the original, whose lines
  take back the net amount of the original in every account.\<close>

theorem reversal_cancels_original:
  assumes t: "ledger_reachable t" and row: "reversible t row"
    and now: "valid_date ymd" "0 \<le> ms" "ms < ms_per_day"
    and input: "normalizeInput tenantId actorUserId originalId reasonText evidence =
      Inr \<lparr>ni_tenantId = jd_tenantId (jr_data row), ni_actorUserId = actor,
           ni_originalJournalEntryId = jr_id row, ni_reason = reason, ni_evidenceRef = evidenceRef\<rparr>"
  shows "\<exists>result reversal.
    reverseAccountingJournalEntryInTransaction other sha (time_of_date ymd + ms) tables_findEntry journal_tables
      tenantId actorUserId originalId reasonText evidence t =
    (Inr result, t\<lparr>jt_entries := jt_entries t @ [reversal]\<rparr>) \<and>
    rr_status result = CREATED \<and> rr_reversalJournalEntryId result = jr_id reversal \<and>
    jd_reversalOfEntryId (jr_data reversal) = Some (jr_id row) \<and>
    (\<forall>account. account_net account (jd_lines (jr_data reversal)) =
       - account_net account (jd_lines (jr_data row)))"
proof -
  note ok = reversible_row [OF reachable_ok [OF t] row]
  obtain v where v: "reversal_draft_of sha (time_of_date ymd + ms) row actor reason evidenceRef v"
    and result: "\<And>out t'. writeJournal other journal_tables v t = (Inr (Inr out), t') \<Longrightarrow>
       reverseAccountingJournalEntryInTransaction other sha (time_of_date ymd + ms) tables_findEntry journal_tables
         tenantId actorUserId originalId reasonText evidence t =
       (Inr \<lparr>rr_status = wo_status out, rr_originalJournalEntryId = jr_id row,
             rr_reversalJournalEntryId = wo_journalEntryId out, rr_idempotencyKey = wo_idempotencyKey out,
             rr_sourceVersion = wo_sourceVersion out, rr_lineCount = wo_lineCount out,
             rr_originalCurrency = jd_currency (jr_data row)\<rparr>, t')"
    using reversal_request [OF ok(1-6) found_row(1) [OF reachable_ok [OF t] ok(7)] input] by blast
  have data: "jd_lines (entry_data other v) = reversal_lines sha (time_of_date ymd + ms) row actor reason evidenceRef"
    "jd_reversalOfEntryId (entry_data other v) = Some (jr_id row)"
    using v by (simp_all add: entry_data_def reversed_entry_def reversal_draft_of_def)
  show ?thesis
    unfolding result [OF reversal_written [OF reachable_ok [OF t] row now refl v]]
    by (intro exI conjI, rule refl) (simp_all add: data reversal_net [OF ok(1,2)])
qed

theorem reversal_cancels_original_witness:
  "\<exists>result reversal. reverse_sample (time_of_date (2024, 3, 2) + 1) sample_ledger =
     (Inr result, sample_ledger\<lparr>jt_entries := jt_entries sample_ledger @ [reversal]\<rparr>) \<and>
   rr_status result = CREATED"
  using reversal_cancels_original [OF sample_reachable sample_reversible sample_day _ _ sample_input,
    of 1 "\<lambda>_. None" "\<lambda>_. []"] by (auto simp: ms_per_day_def)

text \<open>A reversal is made once. When the same actor sends the request again at any later time, the
  answer is the first one, marked as a replay, and the ledger stays as it is.\<close>

theorem reversal_repeat_replays:
  assumes t: "ledger_reachable t" and row: "reversible t row"
    and now: "valid_date ymd" "0 \<le> ms" "ms < ms_per_day"
    and input: "normalizeInput tenantId actorUserId originalId reasonText evidence =
      Inr \<lparr>ni_tenantId = jd_tenantId (jr_data row), ni_actorUserId = actor,
           ni_originalJournalEntryId = jr_id row, ni_reason = reason, ni_evidenceRef = evidenceRef\<rparr>"
  shows "\<exists>result t'.
    reverseAccountingJournalEntryInTransaction other sha (time_of_date ymd + ms) tables_findEntry journal_tables
      tenantId actorUserId originalId reasonText evidence t = (Inr result, t') \<and>
    reverseAccountingJournalEntryInTransaction other sha later tables_findEntry journal_tables
      tenantId actorUserId originalId reasonText evidence t' = (Inr (result\<lparr>rr_status := REPLAYED\<rparr>), t')"
proof -
  note ok = reversible_row [OF reachable_ok [OF t] row] and found = found_row [OF reachable_ok [OF t]]
  obtain v where v: "reversal_draft_of sha (time_of_date ymd + ms) row actor reason evidenceRef v"
    and first: "\<And>out t'. writeJournal other journal_tables v t = (Inr (Inr out), t') \<Longrightarrow>
       reverseAccountingJournalEntryInTransaction other sha (time_of_date ymd + ms) tables_findEntry journal_tables
         tenantId actorUserId originalId reasonText evidence t =
       (Inr \<lparr>rr_status = wo_status out, rr_originalJournalEntryId = jr_id row,
             rr_reversalJournalEntryId = wo_journalEntryId out, rr_idempotencyKey = wo_idempotencyKey out,
             rr_sourceVersion = wo_sourceVersion out, rr_lineCount = wo_lineCount out,
             rr_originalCurrency = jd_currency (jr_data row)\<rparr>, t')"
    using reversal_request [OF ok(1-6) found(1) [OF ok(7)] input] by blast
  let ?t = "t\<lparr>jt_entries := jt_entries t @ [\<lparr>jr_id = next_entry_id t, jr_data = entry_data other v\<rparr>]\<rparr>"
  obtain v' where v': "reversal_draft_of sha later row actor reason evidenceRef v'"
    and second: "\<And>out t'. writeJournal other journal_tables v' ?t = (Inr (Inr out), t') \<Longrightarrow>
       reverseAccountingJournalEntryInTransaction other sha later tables_findEntry journal_tables
         tenantId actorUserId originalId reasonText evidence ?t =
       (Inr \<lparr>rr_status = wo_status out, rr_originalJournalEntryId = jr_id row,
             rr_reversalJournalEntryId = wo_journalEntryId out, rr_idempotencyKey = wo_idempotencyKey out,
             rr_sourceVersion = wo_sourceVersion out, rr_lineCount = wo_lineCount out,
             rr_originalCurrency = jd_currency (jr_data row)\<rparr>, t')"
    using reversal_request [OF ok(1-6) found(2) [OF ok(7)] input] by blast
  note w = reversal_written [OF reachable_ok [OF t] row now refl v]
  note w' = reversal_rewritten [OF w _ v v', simplified]
  show ?thesis
    using first [OF w] second [OF w'] by (intro exI conjI) (assumption, simp)
qed

theorem reversal_repeat_replays_witness:
  "\<exists>result t'. reverse_sample (time_of_date (2024, 3, 2) + 1) sample_ledger = (Inr result, t') \<and>
     reverse_sample (time_of_date (2024, 3, 2) + 2) t' = (Inr (result\<lparr>rr_status := REPLAYED\<rparr>), t')"
  using reversal_repeat_replays [OF sample_reachable sample_reversible sample_day _ _ sample_input,
    of 1 "\<lambda>_. None" "\<lambda>_. []"] by (auto simp: ms_per_day_def)

subsection \<open>Reports\<close>

text \<open>C19: The trial balance of a reachable ledger balances. Unless the filters select single lines of
  entries (by case, client, case client or account), a report says that it is balanced, it is balanced
  in every currency and for every source, and its only possible warning is that there are no lines.\<close>

theorem ledger_trial_balance:
  assumes t: "ledger_reachable t" and filters: "\<not> dimension_scoped filters"
    and report: "getTrialBalance other localeCompare tables_groupByAccount tables_groupByEntry tables_findEntries
      now filters t = Inr report"
  shows "di_balanced (re_diagnostics report) \<and>
    di_evidenceStatus (re_diagnostics report) \<in> {NO_LINES, BALANCED} \<and>
    list_all ct_balanced (re_totals report) \<and> list_all sb_balanced (re_sourceBreakdown report) \<and>
    list_all sc_balanced (rc_sourceCoverage (re_reconciliation report)) \<and>
    set (map wa_code (rc_warnings (re_reconciliation report))) \<subseteq> {NO_JOURNAL_LINES}"
proof -
  obtain f w gs es evidence where f: "normalizeFilters other filters = Inr f" and w: "buildWhere other f = Inr w"
    and groups: "tables_groupByAccount w t = Inr gs" "tables_groupByEntry w t = Inr es"
    and e: "sourceEvidenceFromGroups localeCompare tables_findEntries (tf_tenantId f) es t = Inr evidence"
    and re: "re_totals report = totalsFromAccountGroups localeCompare gs"
      "re_sourceBreakdown report = se_sourceBreakdown evidence"
      "re_diagnostics report = diagnostics f (totalsFromAccountGroups localeCompare gs) (lineCountFromGroups gs)
         (length (uniqueEntryIds es)) (toISOString now)"
      "re_reconciliation report = reconciliationEvidence (re_diagnostics report) evidence"
    using report by (auto simp: getTrialBalance_def Let_def split: sum.split_asm)
  note whole = report_whole [OF f w filters]
  note totals = balanced_totals [OF reachable_ok [OF t] whole(1) groups(1), of localeCompare]
  note sources = source_evidence [OF reachable_ok [OF t] whole(1) groups(2), of localeCompare evidence,
      unfolded whole(2), OF e]
  have "\<not> list_ex (\<lambda>source. \<not> sc_balanced source) (se_sourceCoverage evidence)"
    using sources(2) by (auto simp: list_all_iff list_ex_iff)
  then show ?thesis
    using totals sources whole(3)
    by (simp add: re diagnostics_def Let_def evidenceStatus_def reconciliationEvidence_def
        reconciliationWarnings_def)
qed

lemma evidence_exists:
  "\<exists>evidence. sourceEvidenceFromGroups localeCompare tables_findEntries tenant es t = Inr evidence"
  by (simp add: sourceEvidenceFromGroups_def tables_findEntries_def Let_def)

definition tenant_filter :: "jstr \<Rightarrow> AccountingJournalTrialBalanceFilters" where
  "tenant_filter tenant =
     \<lparr>tf_tenantId = tenant, tf_currency = None, tf_caseId = None, tf_clientId = None, tf_caseClientId = None,
      tf_accountCode = None, tf_sourceType = None, tf_sourceAction = None, tf_entryType = None,
      tf_postedFrom = None, tf_postedTo = None\<rparr>"

theorem ledger_trial_balance_witness:
  "\<exists>report. getTrialBalance (\<lambda>_. None) (\<lambda>_ _. 0) tables_groupByAccount tables_groupByEntry tables_findEntries 0
     (tenant_filter (js ''t1'')) sample_ledger = Inr report \<and> di_balanced (re_diagnostics report)"
proof -
  have "\<not> dimension_scoped (tenant_filter (js ''t1''))" by (simp add: dimension_scoped_def tenant_filter_def)
  moreover obtain evidence where
    "\<And>es. sourceEvidenceFromGroups (\<lambda>_ _. 0) tables_findEntries (js ''t1'') es sample_ledger = Inr (evidence es)"
    using evidence_exists [of "\<lambda>_ _. 0" "js ''t1''" _ sample_ledger] by metis
  then have "\<exists>report. getTrialBalance (\<lambda>_. None) (\<lambda>_ _. 0) tables_groupByAccount tables_groupByEntry
      tables_findEntries 0 (tenant_filter (js ''t1'')) sample_ledger = Inr report"
    by (simp add: getTrialBalance_def normalizeFilters_def buildWhere_def tenant_filter_def parseOptionalDate_def
        tables_groupByAccount_def tables_groupByEntry_def Let_def)
  ultimately show ?thesis using ledger_trial_balance [OF sample_reachable] by blast
qed

subsection \<open>An amount the column cannot hold\<close>

text \<open>
  The validators have no upper bound, the column of the amount has: a collection of ten million million
  is built and validated, and the tables refuse to store it.
\<close>

lemma unstorable_amount:
  "(\<exists>draft. buildAccountingJournal (CollectionSource
       (sample_collection\<lparr>so_payload := so_payload sample_collection\<lparr>ccp_amount := js ''10000000000000.00''\<rparr>\<rparr>)) =
       Inr draft \<and> validateJournalDraft draft = Inr (validated_draft draft) \<and>
     \<not> entry_storable (entry_data other (validated_draft draft)))"
proof -
  let ?s = "sample_collection\<lparr>so_payload := so_payload sample_collection\<lparr>ccp_amount := js ''10000000000000.00''\<rparr>\<rparr>"
  have amount: "money_ok (js ''10000000000000.00'') \<and> cents (js ''10000000000000.00'') = 10 ^ 15"
    by (simp add: money_ok_def cents_def parseMoney_def money_parts_def js_eval js_digit_def Let_def padEnd_def
        digits_val_def)
  obtain draft where b: "buildAccountingJournal (CollectionSource ?s) = Inr draft"
    and lines: "je_lines draft = [collectionLine ?s 1 ''CASH_CLEARING'' DEBIT,
      collectionLine ?s 2 ''CASE_COLLECTION_CLEARING'' CREDIT]"
    by (simp add: buildCollectionJournal_def Let_def finish_draft_def sample_collection_def)
  have "source_complete (CollectionSource ?s)"
    using amount by (simp add: sample_collection_def entry_complete_def)
  then have "validateJournalDraft draft = Inr (validated_draft draft)"
    using built_draft_complete [OF b] by (auto simp: validateJournalDraft_Inr)
  moreover have "\<not> line_storable (collectionLine ?s 1 ''CASH_CLEARING'' DEBIT)"
    using amount by (simp add: line_storable_def collectionLine_def Let_def)
  ultimately show ?thesis using b lines by (auto simp: entry_storable_def entry_data_def)
qed

end
