(* ===== verification/LegalServiceDate.thy ===== *)
theory LegalServiceDate
  imports JsDate
begin

section \<open>The date of service (legal-service-date-rule-core.ts and its two adapters)\<close>

text \<open>
  From the regime under which a document was served and the day of the observed fact, the date on
  which it counts as served. Two adapters prepare the facts: the mutable notification (tebligat) of
  legal-deadline.service.ts and the immutable occurrence of service-occurrence-deadline-rule.ts.
  Dates are instants; adding days works on the local calendar of the server, so the zone is a
  parameter. The messages of the exceptions that are not in English are not modelled: such an
  exception is a constructor.
\<close>

text \<open>The three results of a query for one row.\<close>

lemma query_cases:
  assumes "\<And>f. x = Inl f \<Longrightarrow> P" "x = Inr None \<Longrightarrow> P" "\<And>y. x = Inr (Some y) \<Longrightarrow> P"
  shows P
proof (cases x)
  case (Inr o1)
  then show ?thesis using assms(2,3) by (cases o1) simp_all
qed (rule assms(1))

subsection \<open>Adding days\<close>

text \<open>\<open>tz_local\<close> is the local time of an instant and \<open>tz_utc\<close> the instant of a local time.\<close>

record timezone =
  tz_local :: "int \<Rightarrow> int"
  tz_utc :: "int \<Rightarrow> int"

definition time_clip :: "int \<Rightarrow> jsdate" where
  "time_clip t = (if \<bar>t\<bar> \<le> 8640000000000000 then Some t else None)"

text \<open>\<open>result.setDate(result.getDate() + days)\<close>: the same local time of day, \<open>days\<close> later.\<close>

definition addDays :: "timezone \<Rightarrow> jsdate \<Rightarrow> int \<Rightarrow> jsdate" where
  "addDays z date days =
     (case date of None \<Rightarrow> None | Some t \<Rightarrow> time_clip (tz_utc z (tz_local z t + days * ms_per_day)))"

definition local_day :: "timezone \<Rightarrow> int \<Rightarrow> int" where
  "local_day z t = tz_local z t div ms_per_day"

text \<open>A zone without gaps: every local time is the local time of its instant.\<close>

locale regular_zone =
  fixes z :: timezone
  assumes local_utc: "tz_local z (tz_utc z x) = x"
begin

lemma local_day_addDays: "addDays z (Some t) n = Some u \<Longrightarrow> local_day z u = local_day z t + n"
  by (auto simp: addDays_def time_clip_def local_day_def local_utc ms_per_day_def split: if_split_asm)

lemma addDays_addDays:
  "addDays z (Some t) m = Some u \<Longrightarrow> addDays z (Some u) n = addDays z (Some t) (m + n)"
  by (auto simp: addDays_def time_clip_def local_utc algebra_simps split: if_split_asm)

end

definition offset_zone :: "int \<Rightarrow> timezone" where
  "offset_zone c = \<lparr>tz_local = (\<lambda>t. t + c), tz_utc = (\<lambda>t. t - c)\<rparr>"

interpretation offset: regular_zone "offset_zone c" for c
  by unfold_locales (simp add: offset_zone_def)

subsection \<open>Regimes and results\<close>

datatype ServiceOccurrenceRegimeCode =
    DIRECT_DELIVERY | TK_21_1 | TK_21_2 | TK_20 | PUBLICATION | IMMEDIATE_SERVICE
  | TK_20_TEMPORARY_ABSENCE | ELECTRONIC

datatype ServiceCompletionMode =
    DIRECT_RECIPIENT_DELIVERY | DELIVERED_TO_AUTHORIZED_PERSON | NOTICE_POSTED | ELECTRONIC_DELIVERY
  | PUBLICATION_MODE

datatype SubstituteRecipientBasis = ARTICLE_13 | ARTICLE_14 | ARTICLE_16 | ARTICLE_17 | ARTICLE_18

fun regime_name :: "ServiceOccurrenceRegimeCode \<Rightarrow> string" where
  "regime_name DIRECT_DELIVERY = ''DIRECT_DELIVERY''"
| "regime_name TK_21_1 = ''TK_21_1''"
| "regime_name TK_21_2 = ''TK_21_2''"
| "regime_name TK_20 = ''TK_20''"
| "regime_name PUBLICATION = ''PUBLICATION''"
| "regime_name IMMEDIATE_SERVICE = ''IMMEDIATE_SERVICE''"
| "regime_name TK_20_TEMPORARY_ABSENCE = ''TK_20_TEMPORARY_ABSENCE''"
| "regime_name ELECTRONIC = ''ELECTRONIC''"

fun mode_name :: "ServiceCompletionMode \<Rightarrow> string" where
  "mode_name DIRECT_RECIPIENT_DELIVERY = ''DIRECT_RECIPIENT_DELIVERY''"
| "mode_name DELIVERED_TO_AUTHORIZED_PERSON = ''DELIVERED_TO_AUTHORIZED_PERSON''"
| "mode_name NOTICE_POSTED = ''NOTICE_POSTED''"
| "mode_name ELECTRONIC_DELIVERY = ''ELECTRONIC_DELIVERY''"
| "mode_name PUBLICATION_MODE = ''PUBLICATION''"

record LegalServiceDateFacts =
  lf_serviceRegimeCode :: ServiceOccurrenceRegimeCode
  lf_serviceCompletionMode :: "ServiceCompletionMode option"
  lf_substituteRecipientBasis :: "SubstituteRecipientBasis option"
  lf_baseDate :: jsdate

record LegalServiceDateResult =
  ls_legalServiceDate :: jsdate
  ls_calculationRule :: jstr
  ls_deadlineReasonCode :: jstr

datatype service_date_error =
    UnsupportedServiceRegimeCodeError jstr
  | IncompatibleCompletionModeError jstr

definition unsupported_regime :: "ServiceOccurrenceRegimeCode \<Rightarrow> service_date_error" where
  "unsupported_regime regimeCode = UnsupportedServiceRegimeCodeError
     (js ''Unsupported or deprecated serviceRegimeCode: '' @ js (regime_name regimeCode))"

definition incompatible_mode :: "string \<Rightarrow> service_date_error" where
  "incompatible_mode reason = IncompatibleCompletionModeError
     (js ''Incompatible serviceRegimeCode/serviceCompletionMode combination: '' @ js reason)"

fun service_date_message :: "service_date_error \<Rightarrow> jstr" where
  "service_date_message (UnsupportedServiceRegimeCodeError m) = m"
| "service_date_message (IncompatibleCompletionModeError m) = m"

subsection \<open>The rule\<close>

definition PUBLICATION_DELAY_DAYS :: int where "PUBLICATION_DELAY_DAYS = 7"
definition ELECTRONIC_DELAY_DAYS :: int where "ELECTRONIC_DELAY_DAYS = 5"
definition TK20_NOTICE_POSTED_DELAY_DAYS :: int where "TK20_NOTICE_POSTED_DELAY_DAYS = 15"

definition requireNoCompletionMode ::
  "ServiceOccurrenceRegimeCode \<Rightarrow> ServiceCompletionMode option \<Rightarrow> service_date_error option" where
  "requireNoCompletionMode regimeCode completionMode =
     (case completionMode of
        Some mode \<Rightarrow> Some (incompatible_mode
          (regime_name regimeCode @ '' does not accept a serviceCompletionMode (got '' @ mode_name mode @ '')''))
      | None \<Rightarrow> None)"

definition service_date :: "jsdate \<Rightarrow> string \<Rightarrow> string \<Rightarrow> LegalServiceDateResult" where
  "service_date date rule reason =
     \<lparr>ls_legalServiceDate = date, ls_calculationRule = js rule, ls_deadlineReasonCode = js reason\<rparr>"

text \<open>A regime that takes no completion mode.\<close>

definition plain_regime ::
  "ServiceOccurrenceRegimeCode \<Rightarrow> ServiceCompletionMode option \<Rightarrow> LegalServiceDateResult \<Rightarrow>
   service_date_error + LegalServiceDateResult" where
  "plain_regime regimeCode mode result =
     (case requireNoCompletionMode regimeCode mode of Some e \<Rightarrow> Inl e | None \<Rightarrow> Inr result)"

definition resolveLegalServiceDate ::
  "timezone \<Rightarrow> LegalServiceDateFacts \<Rightarrow> service_date_error + LegalServiceDateResult" where
  "resolveLegalServiceDate z facts =
     (let regime = lf_serviceRegimeCode facts;
          mode = lf_serviceCompletionMode facts;
          baseDate = lf_baseDate facts in
      case regime of
        TK_21_1 \<Rightarrow> plain_regime regime mode (service_date baseDate ''TK_21_1_NO_DELAY'' ''TK_21_1'')
      | TK_21_2 \<Rightarrow> plain_regime regime mode (service_date baseDate ''TK_21_2_NO_DELAY'' ''TK_21_2'')
      | IMMEDIATE_SERVICE \<Rightarrow>
          (case mode of
             Some m \<Rightarrow>
               if m \<noteq> DIRECT_RECIPIENT_DELIVERY \<and> m \<noteq> DELIVERED_TO_AUTHORIZED_PERSON
               then Inl (incompatible_mode (''IMMEDIATE_SERVICE does not accept serviceCompletionMode='' @ mode_name m))
               else Inr (service_date baseDate ''IMMEDIATE_SERVICE_NO_DELAY'' ''DIRECT_DELIVERY'')
           | None \<Rightarrow> Inr (service_date baseDate ''IMMEDIATE_SERVICE_NO_DELAY'' ''DIRECT_DELIVERY''))
      | TK_20_TEMPORARY_ABSENCE \<Rightarrow>
          if mode = Some DELIVERED_TO_AUTHORIZED_PERSON
          then Inr (service_date baseDate ''TK_20_DELIVERED_TO_AUTHORIZED_PERSON_NO_DELAY'' ''TK_20'')
          else if mode = Some NOTICE_POSTED
          then Inr (service_date (addDays z baseDate TK20_NOTICE_POSTED_DELAY_DAYS)
                 ''TK_20_NOTICE_POSTED_PLUS_15_DAYS'' ''TK_20'')
          else Inl (incompatible_mode
                 (case mode of
                    None \<Rightarrow> ''TK_20_TEMPORARY_ABSENCE requires serviceCompletionMode '' @
                            ''(DELIVERED_TO_AUTHORIZED_PERSON or NOTICE_POSTED), none was provided''
                  | Some m \<Rightarrow> ''TK_20_TEMPORARY_ABSENCE does not accept serviceCompletionMode='' @ mode_name m))
      | PUBLICATION \<Rightarrow> plain_regime regime mode
          (service_date (addDays z baseDate PUBLICATION_DELAY_DAYS) ''PUBLICATION_PLUS_7_DAYS'' ''ILANEN_M31'')
      | ELECTRONIC \<Rightarrow> plain_regime regime mode
          (service_date (addDays z baseDate ELECTRONIC_DELAY_DAYS) ''ELECTRONIC_PLUS_5_DAYS'' ''UETS_M7A'')
      | DIRECT_DELIVERY \<Rightarrow> Inl (unsupported_regime regime)
      | TK_20 \<Rightarrow> Inl (unsupported_regime regime))"

subsection \<open>The adapter of a notification (tebligat)\<close>

datatype Tk21Type = Tk21_TK_21_1 | Tk21_TK_21_2 | Tk21_TK_20
datatype TebligatChannel = PTT | KEP | UETS | ILANEN | ELDEN

record Tebligat =
  tg_id :: jstr
  tg_tenantId :: jstr
  tg_caseId :: jstr
  tg_caseDebtorId :: "jstr option"
  tg_tk21Type :: "Tk21Type option"
  tg_channel :: TebligatChannel
  tg_muhtarlikDate :: "int option"
  tg_ilanDate :: "int option"
  tg_deliveredAt :: "int option"

definition regime_facts :: "ServiceOccurrenceRegimeCode \<Rightarrow> int \<Rightarrow> LegalServiceDateFacts" where
  "regime_facts regime date =
     \<lparr>lf_serviceRegimeCode = regime, lf_serviceCompletionMode = None,
      lf_substituteRecipientBasis = None, lf_baseDate = Some date\<rparr>"

definition buildLegalServiceDateFacts :: "Tebligat \<Rightarrow> LegalServiceDateFacts option" where
  "buildLegalServiceDateFacts tebligat =
     (if tg_tk21Type tebligat = Some Tk21_TK_20
      then map_option (regime_facts TK_20_TEMPORARY_ABSENCE)
             (case tg_ilanDate tebligat of Some d \<Rightarrow> Some d | None \<Rightarrow> tg_muhtarlikDate tebligat)
      else if tg_tk21Type tebligat = Some Tk21_TK_21_2
      then map_option (regime_facts TK_21_2) (tg_ilanDate tebligat)
      else if tg_tk21Type tebligat = Some Tk21_TK_21_1
      then map_option (regime_facts TK_21_1) (tg_muhtarlikDate tebligat)
      else if tg_channel tebligat = ILANEN
      then map_option (regime_facts PUBLICATION) (tg_ilanDate tebligat)
      else if tg_channel tebligat = UETS \<or> tg_channel tebligat = KEP
      then map_option (regime_facts ELECTRONIC) (tg_deliveredAt tebligat)
      else map_option (regime_facts IMMEDIATE_SERVICE) (tg_deliveredAt tebligat))"

definition determineLegalServiceDate :: "timezone \<Rightarrow> Tebligat \<Rightarrow> LegalServiceDateResult option" where
  "determineLegalServiceDate z tebligat =
     (case buildLegalServiceDateFacts tebligat of
        None \<Rightarrow> None
      | Some facts \<Rightarrow>
        (case resolveLegalServiceDate z facts of Inl _ \<Rightarrow> None | Inr result \<Rightarrow> Some result))"

subsection \<open>The adapter of an occurrence\<close>

record OccurrenceDeadlineFacts =
  of_serviceRegimeCode :: "ServiceOccurrenceRegimeCode option"
  of_serviceCompletionMode :: "ServiceCompletionMode option"
  of_substituteRecipientBasis :: "SubstituteRecipientBasis option"
  of_addressTypeAtOccurrence :: "jstr option"
  of_occurredOn :: int

definition incomplete_input :: "jstr \<Rightarrow> jstr" where
  "incomplete_input reason = js ''Deadline input incomplete: '' @ reason"

text \<open>The message of the \<open>DeadlineInputIncompleteError\<close>, or the result.\<close>

definition determineOccurrenceLegalServiceDate ::
  "timezone \<Rightarrow> OccurrenceDeadlineFacts \<Rightarrow> jstr + LegalServiceDateResult" where
  "determineOccurrenceLegalServiceDate z facts =
     (if of_addressTypeAtOccurrence facts = None \<or> of_addressTypeAtOccurrence facts = Some []
      then Inl (incomplete_input (js ''addressTypeAtOccurrence is missing''))
      else case of_serviceRegimeCode facts of
        None \<Rightarrow> Inl (incomplete_input
          (js ''serviceRegimeCode is null (no delivery/deposit mechanism occurred for this occurrence)''))
      | Some regime \<Rightarrow>
        (case resolveLegalServiceDate z
                \<lparr>lf_serviceRegimeCode = regime, lf_serviceCompletionMode = of_serviceCompletionMode facts,
                 lf_substituteRecipientBasis = of_substituteRecipientBasis facts,
                 lf_baseDate = Some (of_occurredOn facts)\<rparr> of
           Inl e \<Rightarrow> Inl (incomplete_input (service_date_message e))
         | Inr result \<Rightarrow> Inr result))"

subsection \<open>The delay of a regime\<close>

text \<open>The table behind the rule: the days from the fact to the service, if the facts determine them.\<close>

fun delay_days :: "ServiceOccurrenceRegimeCode \<Rightarrow> ServiceCompletionMode option \<Rightarrow> int option" where
  "delay_days TK_21_1 None = Some 0"
| "delay_days TK_21_2 None = Some 0"
| "delay_days IMMEDIATE_SERVICE None = Some 0"
| "delay_days IMMEDIATE_SERVICE (Some DIRECT_RECIPIENT_DELIVERY) = Some 0"
| "delay_days IMMEDIATE_SERVICE (Some DELIVERED_TO_AUTHORIZED_PERSON) = Some 0"
| "delay_days TK_20_TEMPORARY_ABSENCE (Some DELIVERED_TO_AUTHORIZED_PERSON) = Some 0"
| "delay_days TK_20_TEMPORARY_ABSENCE (Some NOTICE_POSTED) = Some 15"
| "delay_days PUBLICATION None = Some 7"
| "delay_days ELECTRONIC None = Some 5"
| "delay_days _ _ = None"

lemmas service_date_defs = resolveLegalServiceDate_def plain_regime_def requireNoCompletionMode_def
  service_date_def PUBLICATION_DELAY_DAYS_def ELECTRONIC_DELAY_DAYS_def TK20_NOTICE_POSTED_DELAY_DAYS_def

definition served_on :: "timezone \<Rightarrow> jsdate \<Rightarrow> int \<Rightarrow> jsdate" where
  "served_on z date n = (if n = 0 then date else addDays z date n)"

lemma resolve_delay:
  "resolveLegalServiceDate z facts = Inr r \<Longrightarrow>
   case delay_days (lf_serviceRegimeCode facts) (lf_serviceCompletionMode facts) of
     Some n \<Rightarrow> ls_legalServiceDate r = served_on z (lf_baseDate facts) n
   | None \<Rightarrow> False"
  by (cases "lf_serviceRegimeCode facts"; cases "lf_serviceCompletionMode facts")
     (auto simp: service_date_defs served_on_def Let_def split: if_split_asm ServiceCompletionMode.split_asm)

lemma delay_resolves:
  "delay_days (lf_serviceRegimeCode facts) (lf_serviceCompletionMode facts) = Some n \<Longrightarrow>
   \<exists>r. resolveLegalServiceDate z facts = Inr r"
  by (cases "(lf_serviceRegimeCode facts, lf_serviceCompletionMode facts)" rule: delay_days.cases)
     (auto simp: service_date_defs Let_def)

lemma delay_range: "delay_days regime mode = Some n \<Longrightarrow> 0 \<le> n \<and> n \<le> 15"
  by (cases "(regime, mode)" rule: delay_days.cases) auto

text \<open>The substitute recipient never changes the result.\<close>

lemma resolve_basis:
  "resolveLegalServiceDate z
     \<lparr>lf_serviceRegimeCode = regime, lf_serviceCompletionMode = mode, lf_substituteRecipientBasis = Some basis,
      lf_baseDate = date\<rparr> =
   resolveLegalServiceDate z
     \<lparr>lf_serviceRegimeCode = regime, lf_serviceCompletionMode = mode, lf_substituteRecipientBasis = None,
      lf_baseDate = date\<rparr>"
  by (simp add: resolveLegalServiceDate_def)

text \<open>A notification under article 20 has no completion mode, so it never resolves.\<close>

lemma tk20_notification: "tg_tk21Type tebligat = Some Tk21_TK_20 \<Longrightarrow> determineLegalServiceDate z tebligat = None"
  by (auto simp: determineLegalServiceDate_def buildLegalServiceDateFacts_def regime_facts_def
      service_date_defs Let_def split: option.split)

text \<open>A notification that resolves gives the date an occurrence of its regime would give.\<close>

lemma notification_facts:
  "buildLegalServiceDateFacts tebligat = Some facts \<Longrightarrow> \<exists>regime date. facts = regime_facts regime date"
  by (auto simp: buildLegalServiceDateFacts_def split: if_split_asm option.split_asm)

lemma notification_as_occurrence:
  assumes "determineLegalServiceDate z tebligat = Some r" "a \<noteq> []"
  shows "\<exists>regime date. buildLegalServiceDateFacts tebligat = Some (regime_facts regime date) \<and>
     determineOccurrenceLegalServiceDate z
       \<lparr>of_serviceRegimeCode = Some regime, of_serviceCompletionMode = None, of_substituteRecipientBasis = basis,
        of_addressTypeAtOccurrence = Some a, of_occurredOn = date\<rparr> = Inr r"
proof -
  obtain regime date where f: "buildLegalServiceDateFacts tebligat = Some (regime_facts regime date)"
    and r: "resolveLegalServiceDate z (regime_facts regime date) = Inr r"
    using assms(1) notification_facts [of tebligat]
    by (auto simp: determineLegalServiceDate_def split: option.split_asm sum.split_asm)
  show ?thesis
    using f r assms(2)
    by (cases basis) (auto simp: determineOccurrenceLegalServiceDate_def regime_facts_def resolve_basis)
qed

end
