(* ===== verification/DeadlineWriter.thy ===== *)
theory DeadlineWriter
  imports LegalServiceDate JsNumber
begin

section \<open>The writers of deadline snapshots\<close>

text \<open>
  Two services compute the due date of an objection and record it as a snapshot: the earlier
  \<open>calculateDeadline\<close> (legal-deadline.service.ts), which reads the notification, and
  \<open>calculateForOccurrence\<close> (service-occurrence-deadline-calculation.service.ts), which reads an
  occurrence under an advisory lock and retries transient failures. Both leave an equal ACTIVE snapshot
  as it is and otherwise supersede it and create a new one. The Prisma client is a parameter; its
  \<open>dc_transaction\<close> runs a callback in a transaction, and \<open>db_failure\<close> is an error it throws: the code
  of a known request error, and the message.
\<close>

subsection \<open>Data\<close>

record db_failure =
  df_code :: "jstr option"
  df_message :: jstr

datatype snapshot_status = ACTIVE | SUPERSEDED

text \<open>The columns of a snapshot; dates are of the runtime when they are passed, instants when stored.\<close>

record 'd SnapshotFields =
  sf_tenantId :: jstr
  sf_caseId :: jstr
  sf_caseDebtorId :: "jstr option"
  sf_sourceTebligatId :: jstr
  sf_sourceServiceOccurrenceId :: "jstr option"
  sf_deadlineType :: jstr
  sf_legalServiceDate :: 'd
  sf_dueDate :: 'd
  sf_calculationRule :: jstr
  sf_calculationVersion :: jstr
  sf_deadlineReasonCode :: jstr
  sf_supersedesSnapshotId :: "jstr option"
  sf_status :: snapshot_status

record LegalDeadlineSnapshot =
  dl_id :: jstr
  dl_data :: "int SnapshotFields"

record ServiceOccurrence =
  oc_id :: jstr
  oc_tenantId :: jstr
  oc_caseId :: jstr
  oc_caseDebtorId :: "jstr option"
  oc_sourceTebligatId :: jstr
  oc_status :: snapshot_status
  oc_serviceRegimeCode :: "ServiceOccurrenceRegimeCode option"
  oc_serviceCompletionMode :: "ServiceCompletionMode option"
  oc_substituteRecipientBasis :: "SubstituteRecipientBasis option"
  oc_addressTypeAtOccurrence :: "jstr option"
  oc_occurredOn :: int

text \<open>The errors of the services; \<open>RawFailure\<close> is an error of the client that was not mapped.\<close>

datatype deadline_error =
    OccurrenceNotFoundError
  | OccurrenceTenantMismatchError
  | OccurrenceSupersededError
  | DeadlineInputIncompleteError jstr
  | RuleVersionUnavailableError jstr
  | SnapshotIdempotencyConflictError
  | ConcurrentRecalculationConflictError
  | SnapshotWriteFailedError
  | DaysNotPositiveInteger
  | DaysTooLarge
  | TebligatNotFound
  | ServiceEvidenceIncomplete
  | RawFailure db_failure

record 's deadline_client =
  dc_findTebligat :: "jstr \<Rightarrow> jstr \<Rightarrow> 's \<Rightarrow> db_failure + Tebligat option"
  dc_findOccurrence :: "jstr \<Rightarrow> 's \<Rightarrow> db_failure + ServiceOccurrence option"
  dc_lock :: "jstr \<Rightarrow> 's \<Rightarrow> (db_failure + unit) \<times> 's"
  dc_findActive :: "jstr \<Rightarrow> jstr \<Rightarrow> 's \<Rightarrow> db_failure + LegalDeadlineSnapshot option"
  dc_supersede :: "jstr \<Rightarrow> 's \<Rightarrow> (db_failure + unit) \<times> 's"
  dc_create :: "jsdate SnapshotFields \<Rightarrow> 's \<Rightarrow> (db_failure + LegalDeadlineSnapshot) \<times> 's"
  dc_transaction :: "('s \<Rightarrow> (deadline_error + LegalDeadlineSnapshot) \<times> 's) \<Rightarrow> 's \<Rightarrow>
    (deadline_error + LegalDeadlineSnapshot) \<times> 's"

subsection \<open>Shared steps\<close>

definition MAX_OBJECTION_PERIOD_DAYS :: int where "MAX_OBJECTION_PERIOD_DAYS = 365"

text \<open>The period in days: a positive integer of at most a year.\<close>

fun assertValidObjectionPeriodDays :: "jsval \<Rightarrow> deadline_error + int" where
  "assertValidObjectionPeriodDays (VNum n) =
     (if \<not> js_is_integer n \<or> \<not> js_less (js_int 0) n then Inl DaysNotPositiveInteger
      else if js_less (js_int MAX_OBJECTION_PERIOD_DAYS) n then Inl DaysTooLarge
      else Inr (int_of_num n))"
| "assertValidObjectionPeriodDays _ = Inl DaysNotPositiveInteger"

text \<open>\<open>a.getTime() === b.getTime()\<close>, which is false for an invalid date.\<close>

definition same_time :: "int \<Rightarrow> jsdate \<Rightarrow> bool" where
  "same_time a b \<longleftrightarrow> b = Some a"

definition same_output :: "LegalDeadlineSnapshot \<Rightarrow> LegalServiceDateResult \<Rightarrow> jsdate \<Rightarrow> bool" where
  "same_output existing regime dueDate \<longleftrightarrow>
     same_time (sf_legalServiceDate (dl_data existing)) (ls_legalServiceDate regime) \<and>
     same_time (sf_dueDate (dl_data existing)) dueDate \<and>
     sf_deadlineReasonCode (dl_data existing) = ls_deadlineReasonCode regime"

text \<open>Supersede the active snapshot, if there is one, and create the new one.\<close>

definition replace_active ::
  "'s deadline_client \<Rightarrow> LegalDeadlineSnapshot option \<Rightarrow> jsdate SnapshotFields \<Rightarrow> 's \<Rightarrow>
   (deadline_error + LegalDeadlineSnapshot) \<times> 's" where
  "replace_active db existingActive data s =
     (case (case existingActive of None \<Rightarrow> (Inr (), s) | Some e \<Rightarrow> dc_supersede db (dl_id e) s) of
        (Inl f, s') \<Rightarrow> (Inl (RawFailure f), s')
      | (Inr _, s') \<Rightarrow>
        (case dc_create db data s' of
           (Inl f, s'') \<Rightarrow> (Inl (RawFailure f), s'')
         | (Inr created, s'') \<Rightarrow> (Inr created, s'')))"

subsection \<open>From the notification\<close>

definition LEGACY_CALCULATION_VERSION :: jstr where
  "LEGACY_CALCULATION_VERSION = js ''legal-deadline-v1''"

definition legacy_snapshot ::
  "Tebligat \<Rightarrow> jstr \<Rightarrow> LegalServiceDateResult \<Rightarrow> jsdate \<Rightarrow> LegalDeadlineSnapshot option \<Rightarrow>
   jsdate SnapshotFields" where
  "legacy_snapshot tebligat tenantId regime dueDate existingActive =
     \<lparr>sf_tenantId = tenantId, sf_caseId = tg_caseId tebligat, sf_caseDebtorId = tg_caseDebtorId tebligat,
      sf_sourceTebligatId = tg_id tebligat, sf_sourceServiceOccurrenceId = None,
      sf_deadlineType = js ''OBJECTION_PERIOD'', sf_legalServiceDate = ls_legalServiceDate regime,
      sf_dueDate = dueDate, sf_calculationRule = ls_calculationRule regime,
      sf_calculationVersion = LEGACY_CALCULATION_VERSION, sf_deadlineReasonCode = ls_deadlineReasonCode regime,
      sf_supersedesSnapshotId = map_option dl_id existingActive, sf_status = ACTIVE\<rparr>"

definition calculateDeadline ::
  "timezone \<Rightarrow> 's deadline_client \<Rightarrow> jstr \<Rightarrow> jstr \<Rightarrow> jsval \<Rightarrow> 's \<Rightarrow>
   (deadline_error + LegalDeadlineSnapshot) \<times> 's" where
  "calculateDeadline z db tenantId tebligatId objectionPeriodDays s =
     (case assertValidObjectionPeriodDays objectionPeriodDays of
        Inl e \<Rightarrow> (Inl e, s)
      | Inr days \<Rightarrow>
      case dc_findTebligat db tebligatId tenantId s of
        Inl f \<Rightarrow> (Inl (RawFailure f), s)
      | Inr None \<Rightarrow> (Inl TebligatNotFound, s)
      | Inr (Some tebligat) \<Rightarrow>
      case determineLegalServiceDate z tebligat of
        None \<Rightarrow> (Inl ServiceEvidenceIncomplete, s)
      | Some regime \<Rightarrow>
      let dueDate = addDays z (ls_legalServiceDate regime) days in
      dc_transaction db (\<lambda>tx.
        case dc_findActive db tenantId tebligatId tx of
          Inl f \<Rightarrow> (Inl (RawFailure f), tx)
        | Inr existingActive \<Rightarrow>
          (case existingActive of
             Some existing \<Rightarrow>
               if same_output existing regime dueDate \<and>
                  sf_calculationVersion (dl_data existing) = LEGACY_CALCULATION_VERSION
               then (Inr existing, tx)
               else replace_active db existingActive
                      (legacy_snapshot tebligat tenantId regime dueDate existingActive) tx
           | None \<Rightarrow> replace_active db None (legacy_snapshot tebligat tenantId regime dueDate None) tx)) s)"

subsection \<open>From an occurrence\<close>

definition CALCULATION_VERSION :: jstr where
  "CALCULATION_VERSION = js ''occurrence-deadline-v1''"

definition MAX_TRANSACTION_ATTEMPTS :: nat where "MAX_TRANSACTION_ATTEMPTS = 3"

definition serviceOccurrenceDeadlineCalculationLockKey :: "jstr \<Rightarrow> jstr \<Rightarrow> jstr" where
  "serviceOccurrenceDeadlineCalculationLockKey tenantId sourceTebligatId =
     js ''service-occurrence-deadline-calculation:'' @ tenantId @ js '':'' @ sourceTebligatId"

record CalculateForOccurrenceCommand =
  co_tenantId :: jstr
  co_serviceOccurrenceId :: jstr
  co_calculationVersion :: jstr
  co_objectionPeriodDays :: jsval

text \<open>\<open>/deadlock detected/i\<close>: without the flag for Unicode, only letters of ASCII are folded into it.\<close>

definition ascii_lower :: "nat \<Rightarrow> nat" where
  "ascii_lower u = (if 65 \<le> u \<and> u \<le> 90 then u + 32 else u)"

fun contains :: "jstr \<Rightarrow> jstr \<Rightarrow> bool" where
  "contains pat [] = (pat = [])"
| "contains pat (u # s) = (take (length pat) (u # s) = pat \<or> contains pat s)"

definition retryable_failure :: "db_failure \<Rightarrow> bool" where
  "retryable_failure f \<longleftrightarrow>
     df_code f = Some (js ''P2034'') \<or> contains (js ''deadlock detected'') (map ascii_lower (df_message f))"

fun isRetryableTransientError :: "deadline_error \<Rightarrow> bool" where
  "isRetryableTransientError (RawFailure f) = retryable_failure f"
| "isRetryableTransientError _ = False"

fun mapWriteError :: "deadline_error \<Rightarrow> deadline_error" where
  "mapWriteError (RawFailure f) =
     (if retryable_failure f then ConcurrentRecalculationConflictError else SnapshotWriteFailedError)"
| "mapWriteError e = e"

text \<open>The loop over the attempts, with the number that is left. The loop ends in its last attempt; behind
  it, the code maps an error that was never set.\<close>

fun transaction_attempts ::
  "'s deadline_client \<Rightarrow> ('s \<Rightarrow> (deadline_error + LegalDeadlineSnapshot) \<times> 's) \<Rightarrow> nat \<Rightarrow> 's \<Rightarrow>
   (deadline_error + LegalDeadlineSnapshot) \<times> 's" where
  "transaction_attempts db body 0 s = (Inl SnapshotWriteFailedError, s)"
| "transaction_attempts db body (Suc left) s =
     (case dc_transaction db body s of
        (Inr result, s') \<Rightarrow> (Inr result, s')
      | (Inl e, s') \<Rightarrow>
          if 0 < left \<and> isRetryableTransientError e then transaction_attempts db body left s'
          else (Inl (mapWriteError e), s'))"

definition withRetryableTransaction ::
  "'s deadline_client \<Rightarrow> ('s \<Rightarrow> (deadline_error + LegalDeadlineSnapshot) \<times> 's) \<Rightarrow> 's \<Rightarrow>
   (deadline_error + LegalDeadlineSnapshot) \<times> 's" where
  "withRetryableTransaction db body = transaction_attempts db body MAX_TRANSACTION_ATTEMPTS"

definition occurrence_facts :: "ServiceOccurrence \<Rightarrow> OccurrenceDeadlineFacts" where
  "occurrence_facts occurrence =
     \<lparr>of_serviceRegimeCode = oc_serviceRegimeCode occurrence,
      of_serviceCompletionMode = oc_serviceCompletionMode occurrence,
      of_substituteRecipientBasis = oc_substituteRecipientBasis occurrence,
      of_addressTypeAtOccurrence = oc_addressTypeAtOccurrence occurrence,
      of_occurredOn = oc_occurredOn occurrence\<rparr>"

definition occurrence_snapshot ::
  "ServiceOccurrence \<Rightarrow> jstr \<Rightarrow> LegalServiceDateResult \<Rightarrow> jsdate \<Rightarrow> LegalDeadlineSnapshot option \<Rightarrow>
   jsdate SnapshotFields" where
  "occurrence_snapshot occurrence tenantId regime dueDate existingActive =
     \<lparr>sf_tenantId = tenantId, sf_caseId = oc_caseId occurrence,
      sf_caseDebtorId = oc_caseDebtorId occurrence, sf_sourceTebligatId = oc_sourceTebligatId occurrence,
      sf_sourceServiceOccurrenceId = Some (oc_id occurrence), sf_deadlineType = js ''OBJECTION_PERIOD'',
      sf_legalServiceDate = ls_legalServiceDate regime, sf_dueDate = dueDate,
      sf_calculationRule = ls_calculationRule regime, sf_calculationVersion = CALCULATION_VERSION,
      sf_deadlineReasonCode = ls_deadlineReasonCode regime,
      sf_supersedesSnapshotId = map_option dl_id existingActive, sf_status = ACTIVE\<rparr>"

text \<open>The callback of the transaction, under the lock.\<close>

definition calculate_locked ::
  "timezone \<Rightarrow> 's deadline_client \<Rightarrow> CalculateForOccurrenceCommand \<Rightarrow> int \<Rightarrow> 's \<Rightarrow>
   (deadline_error + LegalDeadlineSnapshot) \<times> 's" where
  "calculate_locked z db command days tx =
     (case dc_findOccurrence db (co_serviceOccurrenceId command) tx of
        Inl f \<Rightarrow> (Inl (RawFailure f), tx)
      | Inr None \<Rightarrow> (Inl OccurrenceNotFoundError, tx)
      | Inr (Some occurrence) \<Rightarrow>
      if oc_tenantId occurrence \<noteq> co_tenantId command then (Inl OccurrenceTenantMismatchError, tx)
      else if oc_status occurrence = SUPERSEDED then (Inl OccurrenceSupersededError, tx)
      else case determineOccurrenceLegalServiceDate z (occurrence_facts occurrence) of
        Inl message \<Rightarrow> (Inl (DeadlineInputIncompleteError message), tx)
      | Inr regime \<Rightarrow>
      let dueDate = addDays z (ls_legalServiceDate regime) days in
      case dc_findActive db (co_tenantId command) (oc_sourceTebligatId occurrence) tx of
        Inl f \<Rightarrow> (Inl (RawFailure f), tx)
      | Inr existingActive \<Rightarrow>
        (let data = occurrence_snapshot occurrence (co_tenantId command) regime dueDate existingActive in
         case existingActive of
           Some existing \<Rightarrow>
             if sf_sourceServiceOccurrenceId (dl_data existing) = Some (co_serviceOccurrenceId command) \<and>
                sf_calculationVersion (dl_data existing) = CALCULATION_VERSION
             then if same_output existing regime dueDate then (Inr existing, tx)
                  else (Inl SnapshotIdempotencyConflictError, tx)
             else replace_active db existingActive data tx
         | None \<Rightarrow> replace_active db None data tx))"

definition calculateForOccurrence ::
  "timezone \<Rightarrow> 's deadline_client \<Rightarrow> CalculateForOccurrenceCommand \<Rightarrow> 's \<Rightarrow>
   (deadline_error + LegalDeadlineSnapshot) \<times> 's" where
  "calculateForOccurrence z db command s =
     (case assertValidObjectionPeriodDays (co_objectionPeriodDays command) of
        Inl e \<Rightarrow> (Inl e, s)
      | Inr days \<Rightarrow>
      if co_calculationVersion command \<noteq> CALCULATION_VERSION
      then (Inl (RuleVersionUnavailableError
             (js ''Requested calculationVersion is not supported: '' @ co_calculationVersion command)), s)
      else case dc_findOccurrence db (co_serviceOccurrenceId command) s of
        Inl f \<Rightarrow> (Inl (RawFailure f), s)
      | Inr None \<Rightarrow> (Inl OccurrenceNotFoundError, s)
      | Inr (Some preRead) \<Rightarrow>
      if oc_tenantId preRead \<noteq> co_tenantId command then (Inl OccurrenceTenantMismatchError, s)
      else let lockKey = serviceOccurrenceDeadlineCalculationLockKey (co_tenantId command)
                           (oc_sourceTebligatId preRead) in
        withRetryableTransaction db (\<lambda>tx.
          case dc_lock db lockKey tx of
            (Inl f, tx') \<Rightarrow> (Inl (RawFailure f), tx')
          | (Inr _, tx') \<Rightarrow> calculate_locked z db command days tx') s)"

end
