(* ===== verification/DeadlineStore.thy ===== *)
theory DeadlineStore
  imports DeadlineWriter
begin

section \<open>The store of deadline snapshots\<close>

text \<open>
  The tables behind the two writers, with the constraints of the schema: a partial unique index on the
  active snapshot of a notification, unique references to superseded snapshots, and foreign keys. A
  transaction whose callback fails is rolled back. The invariant: the snapshots of a notification form one
  chain, each superseding the one before it, and only the last is active. The writers keep it, so the
  index never refuses what they write; only a writer that read before another one wrote is refused.
\<close>

subsection \<open>Tables\<close>

record DeadlineTables =
  dt_tebligats :: "Tebligat list"
  dt_occurrences :: "ServiceOccurrence list"
  dt_snapshots :: "LegalDeadlineSnapshot list"

definition snapshot_key :: "'d SnapshotFields \<Rightarrow> jstr \<times> jstr" where
  "snapshot_key d = (sf_tenantId d, sf_sourceTebligatId d)"

abbreviation row_key :: "LegalDeadlineSnapshot \<Rightarrow> jstr \<times> jstr" where
  "row_key r \<equiv> snapshot_key (dl_data r)"

abbreviation is_active :: "LegalDeadlineSnapshot \<Rightarrow> bool" where
  "is_active r \<equiv> sf_status (dl_data r) = ACTIVE"

abbreviation superseded_by :: "LegalDeadlineSnapshot \<Rightarrow> jstr option" where
  "superseded_by r \<equiv> sf_supersedesSnapshotId (dl_data r)"

text \<open>The columns of the schema: dates are valid, the occurrence belongs to the notification.\<close>

definition stored_fields :: "jsdate SnapshotFields \<Rightarrow> int SnapshotFields option" where
  "stored_fields d =
     (case (sf_legalServiceDate d, sf_dueDate d) of
        (Some service, Some due) \<Rightarrow> Some
          \<lparr>sf_tenantId = sf_tenantId d, sf_caseId = sf_caseId d, sf_caseDebtorId = sf_caseDebtorId d,
           sf_sourceTebligatId = sf_sourceTebligatId d,
           sf_sourceServiceOccurrenceId = sf_sourceServiceOccurrenceId d,
           sf_deadlineType = sf_deadlineType d, sf_legalServiceDate = service, sf_dueDate = due,
           sf_calculationRule = sf_calculationRule d, sf_calculationVersion = sf_calculationVersion d,
           sf_deadlineReasonCode = sf_deadlineReasonCode d,
           sf_supersedesSnapshotId = sf_supersedesSnapshotId d, sf_status = sf_status d\<rparr>
      | _ \<Rightarrow> None)"

definition snapshot_unique :: "DeadlineTables \<Rightarrow> int SnapshotFields \<Rightarrow> bool" where
  "snapshot_unique t d \<longleftrightarrow>
     (sf_status d = ACTIVE \<longrightarrow> snapshot_key d \<notin> set (map row_key (filter is_active (dt_snapshots t)))) \<and>
     (case sf_supersedesSnapshotId d of
        None \<Rightarrow> True
      | Some i \<Rightarrow> Some i \<notin> set (map superseded_by (dt_snapshots t)))"

definition snapshot_references :: "DeadlineTables \<Rightarrow> int SnapshotFields \<Rightarrow> bool" where
  "snapshot_references t d \<longleftrightarrow>
     list_ex (\<lambda>g. (tg_tenantId g, tg_id g) = snapshot_key d) (dt_tebligats t) \<and>
     (case sf_sourceServiceOccurrenceId d of
        None \<Rightarrow> True
      | Some i \<Rightarrow> list_ex (\<lambda>oc. (oc_tenantId oc, oc_id oc, oc_sourceTebligatId oc) =
          (sf_tenantId d, i, sf_sourceTebligatId d)) (dt_occurrences t)) \<and>
     (case sf_supersedesSnapshotId d of
        None \<Rightarrow> True
      | Some i \<Rightarrow> i \<in> set (map dl_id (dt_snapshots t)))"

definition known_error :: "string \<Rightarrow> db_failure" where
  "known_error code = \<lparr>df_code = Some (js code), df_message = js code\<rparr>"

definition next_snapshot_id :: "DeadlineTables \<Rightarrow> jstr" where
  "next_snapshot_id t = js ''d'' @ js_of_nat (length (dt_snapshots t))"

definition set_superseded :: "jstr \<Rightarrow> LegalDeadlineSnapshot \<Rightarrow> LegalDeadlineSnapshot" where
  "set_superseded i r = (if dl_id r = i then r\<lparr>dl_data := dl_data r\<lparr>sf_status := SUPERSEDED\<rparr>\<rparr> else r)"

definition supersede_snapshot :: "jstr \<Rightarrow> DeadlineTables \<Rightarrow> (db_failure + unit) \<times> DeadlineTables" where
  "supersede_snapshot i t =
     (if i \<in> set (map dl_id (dt_snapshots t))
      then (Inr (), t\<lparr>dt_snapshots := map (set_superseded i) (dt_snapshots t)\<rparr>)
      else (Inl (known_error ''P2025''), t))"

definition insert_snapshot ::
  "jsdate SnapshotFields \<Rightarrow> DeadlineTables \<Rightarrow> (db_failure + LegalDeadlineSnapshot) \<times> DeadlineTables" where
  "insert_snapshot d t =
     (case stored_fields d of
        None \<Rightarrow> (Inl \<lparr>df_code = None, df_message = js ''Provided Date object is invalid''\<rparr>, t)
      | Some stored \<Rightarrow>
        if \<not> snapshot_unique t stored then (Inl (known_error ''P2002''), t)
        else if \<not> snapshot_references t stored then (Inl (known_error ''P2003''), t)
        else let row = \<lparr>dl_id = next_snapshot_id t, dl_data = stored\<rparr> in
          (Inr row, t\<lparr>dt_snapshots := dt_snapshots t @ [row]\<rparr>))"

definition rolled_back :: "('s \<Rightarrow> ('e + 'a) \<times> 's) \<Rightarrow> 's \<Rightarrow> ('e + 'a) \<times> 's" where
  "rolled_back body s = (case body s of (Inl e, s') \<Rightarrow> (Inl e, s) | (Inr x, s') \<Rightarrow> (Inr x, s'))"

definition find_active :: "jstr \<times> jstr \<Rightarrow> DeadlineTables \<Rightarrow> LegalDeadlineSnapshot option" where
  "find_active k t = List.find (\<lambda>r. row_key r = k \<and> is_active r) (dt_snapshots t)"

definition deadline_tables :: "DeadlineTables deadline_client" where
  "deadline_tables =
     \<lparr>dc_findTebligat = (\<lambda>i tenant t. Inr (List.find (\<lambda>g. tg_id g = i \<and> tg_tenantId g = tenant) (dt_tebligats t))),
      dc_findOccurrence = (\<lambda>i t. Inr (List.find (\<lambda>oc. oc_id oc = i) (dt_occurrences t))),
      dc_lock = (\<lambda>key t. (Inr (), t)),
      dc_findActive = (\<lambda>tenant tebligat t. Inr (find_active (tenant, tebligat) t)),
      dc_supersede = supersede_snapshot,
      dc_create = insert_snapshot,
      dc_transaction = rolled_back\<rparr>"

lemma deadline_tables_simps [simp]:
  "dc_findTebligat deadline_tables i tenant t =
     Inr (List.find (\<lambda>g. tg_id g = i \<and> tg_tenantId g = tenant) (dt_tebligats t))"
  "dc_findOccurrence deadline_tables i t = Inr (List.find (\<lambda>oc. oc_id oc = i) (dt_occurrences t))"
  "dc_lock deadline_tables key t = (Inr (), t)"
  "dc_findActive deadline_tables tenant tebligat t = Inr (find_active (tenant, tebligat) t)"
  "dc_supersede deadline_tables = supersede_snapshot"
  "dc_create deadline_tables = insert_snapshot"
  "dc_transaction deadline_tables = rolled_back"
  by (simp_all add: deadline_tables_def)

subsection \<open>The chain of a notification\<close>

definition history :: "jstr \<times> jstr \<Rightarrow> DeadlineTables \<Rightarrow> LegalDeadlineSnapshot list" where
  "history k t = filter (\<lambda>r. row_key r = k) (dt_snapshots t)"

text \<open>Each snapshot supersedes the one before it, and the last one is active.\<close>

fun chain :: "jstr option \<Rightarrow> LegalDeadlineSnapshot list \<Rightarrow> bool" where
  "chain prev [] = True"
| "chain prev [r] = (superseded_by r = prev \<and> is_active r)"
| "chain prev (r # q # rs) = (superseded_by r = prev \<and> \<not> is_active r \<and> chain (Some (dl_id r)) (q # rs))"

text \<open>The foreign key from an occurrence to its notification is kept by who records occurrences.\<close>

definition occurrences_ok :: "DeadlineTables \<Rightarrow> bool" where
  "occurrences_ok t \<longleftrightarrow>
     list_all (\<lambda>oc. list_ex (\<lambda>g. (tg_tenantId g, tg_id g) = (oc_tenantId oc, oc_sourceTebligatId oc))
       (dt_tebligats t)) (dt_occurrences t)"

definition deadlines_ok :: "DeadlineTables \<Rightarrow> bool" where
  "deadlines_ok t \<longleftrightarrow>
     map dl_id (dt_snapshots t) = map (\<lambda>n. js ''d'' @ js_of_nat n) [0..<length (dt_snapshots t)] \<and>
     (\<forall>k. chain None (history k t)) \<and> occurrences_ok t"

lemma chain_history: "deadlines_ok t \<Longrightarrow> chain None (history k t)"
  by (simp add: deadlines_ok_def del: split_paired_All)

lemma set_superseded_simps [simp]:
  "dl_id (set_superseded i r) = dl_id r" "row_key (set_superseded i r) = row_key r"
  "superseded_by (set_superseded i r) = superseded_by r"
  "is_active (set_superseded i r) \<longleftrightarrow> is_active r \<and> dl_id r \<noteq> i"
  by (simp_all add: set_superseded_def snapshot_key_def)

lemma set_superseded_other: "dl_id r \<noteq> i \<Longrightarrow> set_superseded i r = r"
  by (simp add: set_superseded_def)

lemma chain_active: "chain prev rs \<Longrightarrow> filter is_active rs = (if rs = [] then [] else [last rs])"
  by (induction prev rs rule: chain.induct) auto

lemma chain_links: "chain prev rs \<Longrightarrow> r \<in> set rs \<Longrightarrow>
    superseded_by r = prev \<or> superseded_by r \<in> Some ` dl_id ` set (butlast rs)"
  by (induction prev rs rule: chain.induct) auto

lemma chain_extend:
  "chain prev rs \<Longrightarrow> rs \<noteq> [] \<Longrightarrow> superseded_by r = Some (dl_id (last rs)) \<Longrightarrow> is_active r \<Longrightarrow>
   chain prev (map (set_superseded (dl_id (last rs))) rs @ [r])"
  by (induction prev rs rule: chain.induct) auto

lemma ids_distinct: "deadlines_ok t \<Longrightarrow> distinct (map dl_id (dt_snapshots t))"
  by (simp add: deadlines_ok_def distinct_map inj_on_def)

lemma id_inj: "deadlines_ok t \<Longrightarrow> r \<in> set (dt_snapshots t) \<Longrightarrow> q \<in> set (dt_snapshots t) \<Longrightarrow>
    dl_id r = dl_id q \<Longrightarrow> r = q"
  using ids_distinct [of t] by (auto simp: distinct_map inj_on_def)

lemma next_snapshot_id_fresh: "deadlines_ok t \<Longrightarrow> next_snapshot_id t \<notin> set (map dl_id (dt_snapshots t))"
  by (auto simp: deadlines_ok_def next_snapshot_id_def)

lemma find_active_history: "deadlines_ok t \<Longrightarrow>
    find_active k t = (if history k t = [] then None else Some (last (history k t)))"
proof -
  assume t: "deadlines_ok t"
  have "List.find (\<lambda>r. row_key r = k \<and> is_active r) rs = List.find is_active (filter (\<lambda>r. row_key r = k) rs)" for rs
    by (induction rs) auto
  moreover have "List.find P rs = (case filter P rs of [] \<Rightarrow> None | x # _ \<Rightarrow> Some x)" for P and rs :: "LegalDeadlineSnapshot list"
    by (induction rs) auto
  ultimately have "find_active k t = (case filter is_active (history k t) of [] \<Rightarrow> None | x # _ \<Rightarrow> Some x)"
    by (simp add: find_active_def history_def)
  with chain_active [OF chain_history [OF t]] show ?thesis by simp
qed

lemma in_history: "r \<in> set (history k t) \<longleftrightarrow> r \<in> set (dt_snapshots t) \<and> row_key r = k"
  by (auto simp: history_def)

lemma active_in: "deadlines_ok t \<Longrightarrow> find_active k t = Some e \<Longrightarrow>
    e \<in> set (dt_snapshots t) \<and> row_key e = k \<and> is_active e"
  unfolding find_active_def find_Some_iff by (auto simp: in_set_conv_nth)

lemma active_id: "deadlines_ok t \<Longrightarrow> find_active k t = Some e \<Longrightarrow> dl_id e \<in> set (map dl_id (dt_snapshots t))"
  by (metis active_in image_eqI set_map)

text \<open>Nobody superseded the active snapshot.\<close>

lemma active_not_superseded:
  assumes "deadlines_ok t" "find_active k t = Some e"
  shows "Some (dl_id e) \<notin> set (map superseded_by (dt_snapshots t))"
proof
  assume "Some (dl_id e) \<in> set (map superseded_by (dt_snapshots t))"
  then obtain r where r: "r \<in> set (dt_snapshots t)" "superseded_by r = Some (dl_id e)" by auto
  let ?h = "history (row_key r) t"
  have "r \<in> set ?h" using r(1) by (simp add: in_history)
  from chain_links [OF chain_history [OF assms(1)] this] obtain q where q: "q \<in> set (butlast ?h)" "dl_id e = dl_id q" using r(2) by auto
  have q_in: "q \<in> set (dt_snapshots t)" "row_key q = row_key r"
    using in_set_butlastD [OF q(1)] by (simp_all add: in_history)
  have "e = q" using id_inj [OF assms(1) _ q_in(1) q(2)] active_in [OF assms] by simp
  then have "row_key r = k" using q_in(2) active_in [OF assms] by simp
  then have "last ?h = q" "?h \<noteq> []"
    using assms find_active_history [OF assms(1), of k] \<open>e = q\<close> by (auto split: if_split_asm)
  moreover have "distinct ?h"
    using ids_distinct [OF assms(1)] by (simp add: history_def distinct_map)
  ultimately show False using q(1) by (metis append_butlast_last_id distinct_butlast not_distinct_conv_prefix)
qed

subsection \<open>Replacing the active snapshot\<close>

definition superseded_rows :: "LegalDeadlineSnapshot option \<Rightarrow> LegalDeadlineSnapshot list \<Rightarrow> LegalDeadlineSnapshot list" where
  "superseded_rows existing rows = (case existing of None \<Rightarrow> rows | Some e \<Rightarrow> map (set_superseded (dl_id e)) rows)"

definition replaced :: "DeadlineTables \<Rightarrow> LegalDeadlineSnapshot \<Rightarrow> DeadlineTables" where
  "replaced t row = t\<lparr>dt_snapshots :=
     superseded_rows (find_active (row_key row) t) (dt_snapshots t) @ [row]\<rparr>"

lemma superseded_rows_ids [simp]: "map dl_id (superseded_rows existing rows) = map dl_id rows"
  "map superseded_by (superseded_rows existing rows) = map superseded_by rows"
  "length (superseded_rows existing rows) = length rows"
  by (simp_all add: superseded_rows_def comp_def split: option.split)

lemma history_superseded:
  assumes "deadlines_ok t"
  shows "filter (\<lambda>r. row_key r = k') (superseded_rows (find_active k t) (dt_snapshots t)) =
    (if k' = k then superseded_rows (find_active k t) (history k t) else history k' t)"
proof (cases "find_active k t")
  case (Some e)
  have "filter (\<lambda>r. row_key r = k') (map (set_superseded (dl_id e)) rs) =
      map (set_superseded (dl_id e)) (filter (\<lambda>r. row_key r = k') rs)" for rs
    by (induction rs) auto
  moreover have "map (set_superseded (dl_id e)) (history k' t) = history k' t" if "k' \<noteq> k"
  proof (rule map_idI)
    fix r assume "r \<in> set (history k' t)"
    then have "dl_id r \<noteq> dl_id e" using id_inj [OF assms, of r e] active_in [OF assms Some] that
      by (auto simp: in_history)
    then show "set_superseded (dl_id e) r = r" by (rule set_superseded_other)
  qed
  ultimately show ?thesis by (simp add: Some superseded_rows_def history_def)
qed (simp add: superseded_rows_def history_def)

lemma history_replaced:
  assumes "deadlines_ok t"
  shows "history k (replaced t row) =
    (if k = row_key row then superseded_rows (find_active k t) (history k t) @ [row] else history k t)"
  using history_superseded [OF assms, of k "row_key row"]
  by (simp add: replaced_def history_def)

lemma replaced_ok:
  assumes t: "deadlines_ok t" and "dl_id row = next_snapshot_id t" "is_active row"
    and s: "superseded_by row = map_option dl_id (find_active (row_key row) t)"
  shows "deadlines_ok (replaced t row)" "find_active (row_key row) (replaced t row) = Some row"
proof -
  let ?k = "row_key row"
  have "chain None (superseded_rows (find_active ?k t) (history ?k t) @ [row])"
  proof (cases "history ?k t = []")
    case True
    then show ?thesis using assms by (simp add: find_active_history superseded_rows_def)
  next
    case False
    then have "find_active ?k t = Some (last (history ?k t))" using t by (simp add: find_active_history)
    then show ?thesis
      using chain_extend [OF chain_history [OF t], of ?k row] False s assms(3)
      by (simp add: superseded_rows_def)
  qed
  then have "chain None (history k (replaced t row))" for k
    using chain_history [OF t] by (simp add: history_replaced [OF t])
  moreover have "map dl_id (dt_snapshots (replaced t row)) =
      map (\<lambda>n. js ''d'' @ js_of_nat n) [0..<length (dt_snapshots (replaced t row))]"
    using t assms(2) by (simp add: replaced_def deadlines_ok_def next_snapshot_id_def)
  ultimately show ok: "deadlines_ok (replaced t row)"
    using t by (simp add: deadlines_ok_def replaced_def occurrences_ok_def)
  show "find_active ?k (replaced t row) = Some row"
    unfolding find_active_history [OF ok] history_replaced [OF t] by simp
qed

lemma replace_active_tables:
  assumes t: "deadlines_ok t" and d: "stored_fields d = Some st" "sf_status d = ACTIVE"
    and s: "sf_supersedesSnapshotId d = map_option dl_id (find_active (snapshot_key d) t)"
    and g: "list_ex (\<lambda>g. (tg_tenantId g, tg_id g) = snapshot_key d) (dt_tebligats t)"
    and oc: "case sf_sourceServiceOccurrenceId d of None \<Rightarrow> True | Some i \<Rightarrow>
      list_ex (\<lambda>oc. (oc_tenantId oc, oc_id oc, oc_sourceTebligatId oc) = (sf_tenantId d, i, sf_sourceTebligatId d))
        (dt_occurrences t)"
  shows "replace_active deadline_tables (find_active (snapshot_key d) t) d t =
    (Inr \<lparr>dl_id = next_snapshot_id t, dl_data = st\<rparr>,
     replaced t \<lparr>dl_id = next_snapshot_id t, dl_data = st\<rparr>)"
proof -
  let ?row = "\<lparr>dl_id = next_snapshot_id t, dl_data = st\<rparr>" and ?e = "find_active (snapshot_key d) t"
  let ?t = "t\<lparr>dt_snapshots := superseded_rows ?e (dt_snapshots t)\<rparr>"
  have st: "snapshot_key st = snapshot_key d" "sf_status st = ACTIVE"
    "sf_supersedesSnapshotId st = sf_supersedesSnapshotId d" "sf_tenantId st = sf_tenantId d"
    "sf_sourceServiceOccurrenceId st = sf_sourceServiceOccurrenceId d"
    "sf_sourceTebligatId st = sf_sourceTebligatId d"
    using d by (auto simp: stored_fields_def snapshot_key_def split: option.split_asm)
  have "is_active r \<longrightarrow> row_key r \<noteq> snapshot_key d" if "r \<in> set (superseded_rows ?e (dt_snapshots t))" for r
  proof (rule ccontr)
    assume r: "\<not> (is_active r \<longrightarrow> row_key r \<noteq> snapshot_key d)"
    with that have "r \<in> set (filter (\<lambda>r. row_key r = snapshot_key d) (superseded_rows ?e (dt_snapshots t)))"
      by simp
    then have "r \<in> set (superseded_rows ?e (history (snapshot_key d) t))"
      unfolding history_superseded [OF t] by simp
    then obtain q where q: "q \<in> set (history (snapshot_key d) t)" "is_active q"
      and rq: "\<forall>e. ?e = Some e \<longrightarrow> dl_id q \<noteq> dl_id e"
      using r by (auto simp: superseded_rows_def split: option.split_asm)
    have "q \<in> set (filter is_active (history (snapshot_key d) t))" using q by simp
    then have "?e = Some q"
      unfolding find_active_history [OF t] chain_active [OF chain_history [OF t]] by (auto split: if_split_asm)
    then show False using rq by simp
  qed
  then have "snapshot_key d \<notin> set (map row_key (filter is_active (superseded_rows ?e (dt_snapshots t))))"
    by force
  then have "snapshot_unique ?t st"
    using active_not_superseded [OF t, of "snapshot_key d"] s
    by (cases ?e) (simp_all add: snapshot_unique_def st del: set_map)
  moreover have "snapshot_references ?t st"
    using g oc s active_id [OF t, of "snapshot_key d"]
    by (cases ?e; cases "sf_sourceServiceOccurrenceId d") (simp_all add: snapshot_references_def st del: set_map)
  ultimately have i: "insert_snapshot d ?t = (Inr ?row, replaced t ?row)"
    using d(1) by (simp add: insert_snapshot_def Let_def replaced_def st next_snapshot_id_def)
  show ?thesis
  proof (cases ?e)
    case None
    then show ?thesis using i by (simp add: replace_active_def superseded_rows_def)
  next
    case (Some e)
    then have "supersede_snapshot (dl_id e) t = (Inr (), ?t)"
      using active_in [OF t Some] by (auto simp: supersede_snapshot_def superseded_rows_def)
    then show ?thesis using i by (simp add: replace_active_def Some)
  qed
qed

subsection \<open>The writers on the tables\<close>

lemma attempts_tables:
  "transaction_attempts deadline_tables body (Suc n) t =
     (case body t of (Inl e, t') \<Rightarrow> (Inl (mapWriteError e), t) | (Inr row, t') \<Rightarrow> (Inr row, t'))"
  by (induction n) (auto simp: rolled_back_def split: prod.split sum.split)

lemma retryable_tables:
  "withRetryableTransaction deadline_tables body t =
     (case body t of (Inl e, t') \<Rightarrow> (Inl (mapWriteError e), t) | (Inr row, t') \<Rightarrow> (Inr row, t'))"
  by (simp add: withRetryableTransaction_def MAX_TRANSACTION_ATTEMPTS_def numeral_3_eq_3 attempts_tables
      del: transaction_attempts.simps)

definition lookup_occurrence :: "jstr \<Rightarrow> DeadlineTables \<Rightarrow> ServiceOccurrence option" where
  "lookup_occurrence i t = List.find (\<lambda>oc. oc_id oc = i) (dt_occurrences t)"

lemma lookup_occurrence_id: "lookup_occurrence i t = Some oc \<Longrightarrow> oc_id oc = i \<and> oc \<in> set (dt_occurrences t)"
  unfolding lookup_occurrence_def find_Some_iff by (auto simp: in_set_conv_nth)

text \<open>A command that reaches the calculation: its occurrence, period and regime.\<close>

definition calculable ::
  "timezone \<Rightarrow> DeadlineTables \<Rightarrow> CalculateForOccurrenceCommand \<Rightarrow> ServiceOccurrence \<Rightarrow> int \<Rightarrow>
   LegalServiceDateResult \<Rightarrow> bool" where
  "calculable z t command oc days regime \<longleftrightarrow>
     assertValidObjectionPeriodDays (co_objectionPeriodDays command) = Inr days \<and>
     co_calculationVersion command = CALCULATION_VERSION \<and>
     lookup_occurrence (co_serviceOccurrenceId command) t = Some oc \<and>
     oc_tenantId oc = co_tenantId command \<and> oc_status oc = ACTIVE \<and>
     determineOccurrenceLegalServiceDate z (occurrence_facts oc) = Inr regime"

definition occurrence_key :: "ServiceOccurrence \<Rightarrow> jstr \<times> jstr" where
  "occurrence_key oc = (oc_tenantId oc, oc_sourceTebligatId oc)"

definition same_source :: "LegalDeadlineSnapshot \<Rightarrow> ServiceOccurrence \<Rightarrow> bool" where
  "same_source row oc \<longleftrightarrow>
     sf_sourceServiceOccurrenceId (dl_data row) = Some (oc_id oc) \<and>
     sf_calculationVersion (dl_data row) = CALCULATION_VERSION"

text \<open>What the callback does with the active snapshot it finds.\<close>

definition decide_snapshot ::
  "timezone \<Rightarrow> ServiceOccurrence \<Rightarrow> int \<Rightarrow> LegalServiceDateResult \<Rightarrow> DeadlineTables \<Rightarrow>
   (deadline_error + LegalDeadlineSnapshot) \<times> DeadlineTables" where
  "decide_snapshot z oc days regime t =
     (let due = addDays z (ls_legalServiceDate regime) days;
          active = find_active (occurrence_key oc) t;
          data = occurrence_snapshot oc (oc_tenantId oc) regime due active in
      case active of
        None \<Rightarrow> replace_active deadline_tables None data t
      | Some e \<Rightarrow>
          if same_source e oc
          then if same_output e regime due then (Inr e, t) else (Inl SnapshotIdempotencyConflictError, t)
          else replace_active deadline_tables active data t)"

lemma locked_calculable:
  "calculable z t command oc days regime \<Longrightarrow>
   calculate_locked z deadline_tables command days t = decide_snapshot z oc days regime t"
  using lookup_occurrence_id [of "co_serviceOccurrenceId command" t oc]
  unfolding calculable_def calculate_locked_def decide_snapshot_def
  by (simp add: lookup_occurrence_def occurrence_key_def same_source_def Let_def cong: option.case_cong if_cong)

lemma calculate_calculable:
  assumes "calculable z t command oc days regime"
  shows "calculateForOccurrence z deadline_tables command t =
     (case decide_snapshot z oc days regime t of
        (Inl e, t') \<Rightarrow> (Inl (mapWriteError e), t) | (Inr row, t') \<Rightarrow> (Inr row, t'))"
  using assms locked_calculable [OF assms]
  by (simp add: calculateForOccurrence_def Let_def retryable_tables calculable_def lookup_occurrence_def)

lemma calculate_not_calculable:
  assumes "\<nexists>oc days regime. calculable z t command oc days regime"
  shows "\<exists>e. calculateForOccurrence z deadline_tables command t = (Inl e, t)"
proof (cases "assertValidObjectionPeriodDays (co_objectionPeriodDays command)")
  case (Inr days)
  show ?thesis
  proof (cases "lookup_occurrence (co_serviceOccurrenceId command) t")
    case (Some oc)
    show ?thesis
    proof (cases "determineOccurrenceLegalServiceDate z (occurrence_facts oc)")
      case (Inl message)
      then show ?thesis using Inr Some
        by (auto simp: calculateForOccurrence_def retryable_tables calculate_locked_def Let_def
            lookup_occurrence_def)
    next
      case r: (Inr regime)
      then have "co_calculationVersion command \<noteq> CALCULATION_VERSION \<or> oc_tenantId oc \<noteq> co_tenantId command \<or>
          oc_status oc = SUPERSEDED"
        using assms Inr Some by (cases "oc_status oc") (auto simp: calculable_def)
      then show ?thesis using Inr Some
        by (auto simp: calculateForOccurrence_def retryable_tables calculate_locked_def Let_def
            lookup_occurrence_def)
    qed
  qed (use Inr in \<open>auto simp: calculateForOccurrence_def lookup_occurrence_def\<close>)
qed (simp add: calculateForOccurrence_def)

lemma stored_fields_None: "stored_fields d = None \<Longrightarrow>
    \<exists>e t'. replace_active deadline_tables active d t = (Inl (RawFailure e), t')"
  by (auto simp: replace_active_def insert_snapshot_def split: option.split sum.split prod.split)

text \<open>The outcomes of a calculation: refused, left as it is, or replaced.\<close>

lemma decide_cases:
  assumes t: "deadlines_ok t" and c: "calculable z t command oc days regime"
  obtains e t' where "decide_snapshot z oc days regime t = (Inl e, t')"
  | e where "find_active (occurrence_key oc) t = Some e" "same_source e oc"
      "same_output e regime (addDays z (ls_legalServiceDate regime) days)"
      "decide_snapshot z oc days regime t = (Inr e, t)"
  | row where "decide_snapshot z oc days regime t = (Inr row, replaced t row)"
      "dl_id row = next_snapshot_id t" "row_key row = occurrence_key oc"
      "is_active row" "superseded_by row = map_option dl_id (find_active (row_key row) t)" "same_source row oc"
      "same_output row regime (addDays z (ls_legalServiceDate regime) days)"
      "\<nexists>e. find_active (occurrence_key oc) t = Some e \<and> same_source e oc"
proof (cases "\<exists>e. find_active (occurrence_key oc) t = Some e \<and> same_source e oc")
  case True
  then obtain e where e: "find_active (occurrence_key oc) t = Some e" "same_source e oc" by blast
  then show thesis
    using that(1,2) by (cases "same_output e regime (addDays z (ls_legalServiceDate regime) days)")
      (simp_all add: decide_snapshot_def Let_def)
next
  case False
  let ?a = "find_active (occurrence_key oc) t"
  let ?d = "occurrence_snapshot oc (oc_tenantId oc) regime (addDays z (ls_legalServiceDate regime) days) ?a"
  have d: "decide_snapshot z oc days regime t = replace_active deadline_tables ?a ?d t"
    using False by (auto simp: decide_snapshot_def Let_def split: option.split)
  have k: "snapshot_key ?d = occurrence_key oc"
    by (simp add: snapshot_key_def occurrence_snapshot_def occurrence_key_def)
  show thesis
  proof (cases "stored_fields ?d")
    case None
    then show thesis using that(1) stored_fields_None [of ?d ?a t] unfolding d by blast
  next
    case (Some st)
    let ?row = "\<lparr>dl_id = next_snapshot_id t, dl_data = st\<rparr>"
    have oc: "oc \<in> set (dt_occurrences t)"
      using c lookup_occurrence_id by (auto simp: calculable_def)
    have "replace_active deadline_tables (find_active (snapshot_key ?d) t) ?d t = (Inr ?row, replaced t ?row)"
    proof (rule replace_active_tables [OF t Some])
      show "list_ex (\<lambda>g. (tg_tenantId g, tg_id g) = snapshot_key ?d) (dt_tebligats t)"
        using t oc unfolding k by (simp add: deadlines_ok_def occurrences_ok_def list_all_iff occurrence_key_def)
    qed (use oc k in \<open>auto simp: occurrence_snapshot_def list_ex_iff snapshot_key_def occurrence_key_def\<close>)
    then have r: "decide_snapshot z oc days regime t = (Inr ?row, replaced t ?row)" by (simp add: d k)
    have "snapshot_key st = occurrence_key oc" "sf_status st = ACTIVE"
      "sf_supersedesSnapshotId st = map_option dl_id ?a"
      "sf_sourceServiceOccurrenceId st = Some (oc_id oc)" "sf_calculationVersion st = CALCULATION_VERSION"
      "ls_legalServiceDate regime = Some (sf_legalServiceDate st)"
      "addDays z (ls_legalServiceDate regime) days = Some (sf_dueDate st)"
      "sf_deadlineReasonCode st = ls_deadlineReasonCode regime"
      using Some by (auto simp: stored_fields_def occurrence_snapshot_def snapshot_key_def occurrence_key_def
          split: option.split_asm)
    then show thesis
      using that(3) [OF r] False by (simp add: same_source_def same_output_def same_time_def)
  qed
qed

lemma calculation_cases:
  assumes t: "deadlines_ok t" and c: "calculateForOccurrence z deadline_tables command t = (Inr row, t')"
  obtains oc days regime where "calculable z t command oc days regime"
    "row_key row = occurrence_key oc" "is_active row" "same_source row oc"
    "same_output row regime (addDays z (ls_legalServiceDate regime) days)"
    "find_active (occurrence_key oc) t' = Some row" "deadlines_ok t'"
    "t' = t \<or> t' = replaced t row \<and> dl_id row = next_snapshot_id t"
proof -
  obtain oc days regime where r: "calculable z t command oc days regime"
    using c calculate_not_calculable by fastforce
  note d = calculate_calculable [OF r, unfolded c]
  show thesis
  proof (cases rule: decide_cases [OF t r])
    case (1 e t')
    then show thesis using d by simp
  next
    case (2 e)
    then have "t' = t" "row = e" using d by simp_all
    then show thesis using that [OF r] 2 t active_in [OF t 2(1)] by blast
  next
    case (3 q)
    then have "t' = replaced t q" "row = q" using d by simp_all
    then show thesis using that [OF r] 3 replaced_ok [OF t 3(2,4,5)] by simp
  qed
qed

subsection \<open>The earlier writer\<close>

lemma legacy_cases:
  assumes t: "deadlines_ok t"
    and c: "calculateDeadline z deadline_tables tenantId tebligatId objectionPeriodDays t = (result, t')"
  obtains e where "result = Inl e" "t' = t"
  | row where "result = Inr row" "t' = t" "find_active (tenantId, tebligatId) t = Some row"
  | row where "result = Inr row" "t' = replaced t row" "row_key row = (tenantId, tebligatId)"
      "dl_id row = next_snapshot_id t" "is_active row"
      "superseded_by row = map_option dl_id (find_active (row_key row) t)"
proof (cases result)
  case (Inl e)
  then have "t' = t"
    using c by (auto simp: calculateDeadline_def rolled_back_def Let_def
        split: sum.split_asm option.split_asm prod.split_asm if_split_asm)
  then show thesis using that(1) Inl by blast
next
  case (Inr row)
  note c = c [unfolded calculateDeadline_def Inr]
  obtain days where days: "assertValidObjectionPeriodDays objectionPeriodDays = Inr days"
    using c by (cases "assertValidObjectionPeriodDays objectionPeriodDays") simp_all
  obtain g where g: "List.find (\<lambda>g. tg_id g = tebligatId \<and> tg_tenantId g = tenantId) (dt_tebligats t) = Some g"
    using c by (cases "List.find (\<lambda>g. tg_id g = tebligatId \<and> tg_tenantId g = tenantId) (dt_tebligats t)")
      (simp_all add: days)
  obtain regime where regime: "determineLegalServiceDate z g = Some regime"
    using c by (cases "determineLegalServiceDate z g") (simp_all add: days g)
  have g_in: "g \<in> set (dt_tebligats t)" "tg_id g = tebligatId" "tg_tenantId g = tenantId"
    using g unfolding find_Some_iff by (auto simp: in_set_conv_nth)
  let ?a = "find_active (tenantId, tebligatId) t"
  let ?d = "legacy_snapshot g tenantId regime (addDays z (ls_legalServiceDate regime) days) ?a"
  have k: "snapshot_key ?d = (tenantId, tebligatId)" by (simp add: snapshot_key_def legacy_snapshot_def g_in)
  have "(\<exists>e. ?a = Some e \<and> row = e \<and> t' = t) \<or>
      rolled_back (replace_active deadline_tables ?a ?d) t = (Inr row, t')"
    using c by (cases ?a) (auto simp: days g regime rolled_back_def Let_def split: if_split_asm prod.split_asm)
  then consider "?a = Some row" "t' = t" | "rolled_back (replace_active deadline_tables ?a ?d) t = (Inr row, t')"
    by blast
  then show thesis
  proof cases
    case 1
    then show thesis using that(2) Inr by blast
  next
    case 2
    then have r: "replace_active deadline_tables ?a ?d t = (Inr row, t')"
      by (auto simp: rolled_back_def split: prod.split_asm sum.split_asm)
    obtain st where st: "stored_fields ?d = Some st"
      using r stored_fields_None [of ?d ?a t] by (cases "stored_fields ?d") auto
    have "replace_active deadline_tables (find_active (snapshot_key ?d) t) ?d t =
        (Inr \<lparr>dl_id = next_snapshot_id t, dl_data = st\<rparr>, replaced t \<lparr>dl_id = next_snapshot_id t, dl_data = st\<rparr>)"
    proof (rule replace_active_tables [OF t st])
      show "list_ex (\<lambda>g. (tg_tenantId g, tg_id g) = snapshot_key ?d) (dt_tebligats t)"
        using g_in unfolding k by (auto simp: list_ex_iff)
    qed (simp_all add: k, simp_all add: legacy_snapshot_def)
    then have row: "row = \<lparr>dl_id = next_snapshot_id t, dl_data = st\<rparr>" "t' = replaced t row"
      using r by (simp_all add: k)
    have "snapshot_key st = (tenantId, tebligatId)" "sf_status st = ACTIVE"
      "sf_supersedesSnapshotId st = map_option dl_id ?a"
      using st by (auto simp: stored_fields_def legacy_snapshot_def snapshot_key_def g_in split: option.split_asm)
    then show thesis using that(3) [OF Inr row(2)] by (simp add: row(1))
  qed
qed

end
