(* ===== verification/LegalPeriod.thy ===== *)
theory LegalPeriod
  imports LegalServiceDate JsNumber
begin

section \<open>The periods of a proceeding (legal-period-rule-matrix.ts, legal-period-calculation.service.ts)\<close>

text \<open>
  The central table of the periods that run from the service of a document, the classification of a
  case (proceeding-classification.service.ts), and the service that puts table, classification and date
  of service together. The queries of the database are parameters. A case or rule that is not
  classified is reported as unresolved; nothing is guessed.
\<close>

subsection \<open>The table\<close>

datatype ProceedingType =
    GENERAL_EXECUTION | CAMBIO | RENT | EVICTION | PLEDGE | MORTGAGE | BANKRUPTCY
  | JUDGMENT_ENFORCEMENT | PUBLIC_RECEIVABLE

datatype NextActionType =
    HACIZ_REQUEST_ELIGIBLE | SALE_REQUEST_ELIGIBLE | EVICTION_REQUEST_ELIGIBLE
  | BANKRUPTCY_REQUEST_ELIGIBLE | FORCED_DELIVERY_ELIGIBLE | FORCED_PERFORMANCE_ELIGIBLE
  | FINALIZATION_REQUEST_ELIGIBLE

fun proceeding_name :: "ProceedingType \<Rightarrow> string" where
  "proceeding_name GENERAL_EXECUTION = ''GENERAL_EXECUTION''"
| "proceeding_name CAMBIO = ''CAMBIO''"
| "proceeding_name RENT = ''RENT''"
| "proceeding_name EVICTION = ''EVICTION''"
| "proceeding_name PLEDGE = ''PLEDGE''"
| "proceeding_name MORTGAGE = ''MORTGAGE''"
| "proceeding_name BANKRUPTCY = ''BANKRUPTCY''"
| "proceeding_name JUDGMENT_ENFORCEMENT = ''JUDGMENT_ENFORCEMENT''"
| "proceeding_name PUBLIC_RECEIVABLE = ''PUBLIC_RECEIVABLE''"

record LegalPeriodRule =
  lr_proceedingType :: ProceedingType
  lr_subTypeCode :: "jstr option"
  lr_objectionDays :: "int option"
  lr_paymentDays :: "int option"
  lr_vacateDays :: "int option"
  lr_performanceDays :: "int option"
  lr_complaintDays :: "int option"
  lr_requiresCallerSuppliedPerformanceDays :: bool
  lr_nextActionType :: NextActionType

text \<open>An entry of the table: its key and \<open>rule\<close>, which adds the default of the flag.\<close>

definition rule_key :: "ProceedingType \<Rightarrow> jstr option \<Rightarrow> jstr" where
  "rule_key proceedingType subTypeCode =
     (case subTypeCode of
        None \<Rightarrow> js (proceeding_name proceedingType)
      | Some s \<Rightarrow> if s = [] then js (proceeding_name proceedingType)
                  else js (proceeding_name proceedingType) @ js '':'' @ s)"

definition matrix_entry ::
  "ProceedingType \<Rightarrow> string option \<Rightarrow> int option \<Rightarrow> int option \<Rightarrow> int option \<Rightarrow> int option \<Rightarrow> bool option \<Rightarrow>
   NextActionType \<Rightarrow> jstr \<times> LegalPeriodRule" where
  "matrix_entry proceedingType subTypeCode objectionDays paymentDays vacateDays performanceDays
     callerSupplied nextActionType =
     (rule_key proceedingType (map_option js subTypeCode),
      \<lparr>lr_proceedingType = proceedingType, lr_subTypeCode = map_option js subTypeCode,
       lr_objectionDays = objectionDays, lr_paymentDays = paymentDays, lr_vacateDays = vacateDays,
       lr_performanceDays = performanceDays, lr_complaintDays = None,
       lr_requiresCallerSuppliedPerformanceDays = (case callerSupplied of None \<Rightarrow> False | Some b \<Rightarrow> b),
       lr_nextActionType = nextActionType\<rparr>)"

definition RULE_MATRIX :: "(jstr \<times> LegalPeriodRule) list" where
  "RULE_MATRIX =
     [matrix_entry GENERAL_EXECUTION None (Some 7) (Some 7) None None None HACIZ_REQUEST_ELIGIBLE,
      matrix_entry CAMBIO None (Some 5) (Some 10) None None None HACIZ_REQUEST_ELIGIBLE,
      matrix_entry RENT (Some ''RESIDENTIAL_COMMERCIAL'') (Some 7) None (Some 30) None None EVICTION_REQUEST_ELIGIBLE,
      matrix_entry RENT (Some ''GENERAL'') (Some 7) None (Some 10) None None EVICTION_REQUEST_ELIGIBLE,
      matrix_entry RENT (Some ''CROP'') (Some 7) None (Some 60) None None EVICTION_REQUEST_ELIGIBLE,
      matrix_entry RENT (Some ''EVICTION_COMMITMENT'') (Some 7) None (Some 15) None None EVICTION_REQUEST_ELIGIBLE,
      matrix_entry BANKRUPTCY (Some ''ORDINARY'') (Some 7) (Some 7) None None None BANKRUPTCY_REQUEST_ELIGIBLE,
      matrix_entry BANKRUPTCY (Some ''CAMBIO'') (Some 5) (Some 5) None None None BANKRUPTCY_REQUEST_ELIGIBLE,
      matrix_entry JUDGMENT_ENFORCEMENT (Some ''MONEY_OR_SECURITY'') None None None (Some 7) None
        FORCED_PERFORMANCE_ELIGIBLE,
      matrix_entry JUDGMENT_ENFORCEMENT (Some ''MOVABLE_DELIVERY'') None None None (Some 7) None
        FORCED_DELIVERY_ELIGIBLE,
      matrix_entry JUDGMENT_ENFORCEMENT (Some ''IMMOVABLE_DELIVERY_OR_EVICTION'') None None (Some 7) None None
        EVICTION_REQUEST_ELIGIBLE,
      matrix_entry JUDGMENT_ENFORCEMENT (Some ''SPECIFIC_PERFORMANCE'') None None None None (Some True)
        FORCED_PERFORMANCE_ELIGIBLE,
      matrix_entry JUDGMENT_ENFORCEMENT (Some ''MORTGAGE_JUDGMENT'') None None None (Some 30) None
        SALE_REQUEST_ELIGIBLE]"

definition resolveLegalPeriodRule :: "ProceedingType \<Rightarrow> jstr option \<Rightarrow> LegalPeriodRule option" where
  "resolveLegalPeriodRule proceedingType subTypeCode = map_of RULE_MATRIX (rule_key proceedingType subTypeCode)"

subsection \<open>The classification of a case\<close>

record ClassificationSourceFields =
  cf_proceedingType :: "ProceedingType option"
  cf_rentalType :: "jstr option"
  cf_bankruptcyType :: "jstr option"
  cf_judgmentExecutionType :: "jstr option"

record ProceedingClassification =
  pc_proceedingType :: ProceedingType
  pc_subTypeCode :: "jstr option"

definition resolveSubTypeCode :: "ClassificationSourceFields \<Rightarrow> jstr option" where
  "resolveSubTypeCode caseRecord =
     (case cf_proceedingType caseRecord of
        Some RENT \<Rightarrow> cf_rentalType caseRecord
      | Some BANKRUPTCY \<Rightarrow> cf_bankruptcyType caseRecord
      | Some JUDGMENT_ENFORCEMENT \<Rightarrow> cf_judgmentExecutionType caseRecord
      | _ \<Rightarrow> None)"

text \<open>The exceptions: \<open>NotFoundException\<close> for the case, \<open>BadRequestException\<close> for the other three. \<open>'f\<close>
  is a failure of the database client.\<close>

datatype 'f period_exception =
    CaseNotFound
  | PerformanceDaysMissing
  | PerformanceDaysTooLarge
  | NoPeriodDefined
  | PeriodQueryFailed 'f

definition resolveProceedingClassification ::
  "(jstr \<Rightarrow> jstr \<Rightarrow> 'f + ClassificationSourceFields option) \<Rightarrow> jstr \<Rightarrow> jstr \<Rightarrow>
   'f period_exception + ProceedingClassification option" where
  "resolveProceedingClassification findCase tenantId caseId =
     (case findCase caseId tenantId of
        Inl f \<Rightarrow> Inl (PeriodQueryFailed f)
      | Inr None \<Rightarrow> Inl CaseNotFound
      | Inr (Some caseRecord) \<Rightarrow>
        (case cf_proceedingType caseRecord of
           None \<Rightarrow> Inr None
         | Some t \<Rightarrow> Inr (Some \<lparr>pc_proceedingType = t, pc_subTypeCode = resolveSubTypeCode caseRecord\<rparr>)))"

subsection \<open>The calculation\<close>

datatype UnresolvedReason =
  PROCEEDING_TYPE_UNRESOLVED | LEGAL_PERIOD_RULE_UNRESOLVED | LEGAL_SERVICE_DATE_UNRESOLVED

record ResolvedPeriod =
  rd_proceedingType :: ProceedingType
  rd_subTypeCode :: "jstr option"
  rd_legalServiceDate :: jsdate
  rd_periodStartDate :: jsdate
  rd_objectionDays :: "int option"
  rd_paymentDays :: "int option"
  rd_vacateDays :: "int option"
  rd_performanceDays :: "int option"
  rd_complaintDays :: "int option"
  rd_nextActionWaitingDays :: int
  rd_nextActionEligibleDate :: jsdate
  rd_nextActionType :: NextActionType

datatype CanonicalLegalPeriodResult = UNRESOLVED UnresolvedReason | RESOLVED ResolvedPeriod

definition MAX_CALLER_SUPPLIED_PERFORMANCE_DAYS :: int where
  "MAX_CALLER_SUPPLIED_PERFORMANCE_DAYS = 365"

fun assertValidCallerSuppliedPerformanceDays :: "jsval \<Rightarrow> 'f period_exception + int" where
  "assertValidCallerSuppliedPerformanceDays (VNum n) =
     (if \<not> js_is_integer n \<or> \<not> js_less (js_int 0) n then Inl PerformanceDaysMissing
      else if js_less (js_int MAX_CALLER_SUPPLIED_PERFORMANCE_DAYS) n then Inl PerformanceDaysTooLarge
      else Inr (int_of_num n))"
| "assertValidCallerSuppliedPerformanceDays _ = Inl PerformanceDaysMissing"

definition maxOf :: "int option list \<Rightarrow> 'f period_exception + int" where
  "maxOf vals =
     (case List.map_filter (\<lambda>v. v) vals of
        [] \<Rightarrow> Inl NoPeriodDefined
      | v # vs \<Rightarrow> Inr (fold max vs v))"

definition resolveLegalServiceDateForTebligat ::
  "timezone \<Rightarrow> (jstr \<Rightarrow> jstr \<Rightarrow> 'f + Tebligat option) \<Rightarrow> jstr \<Rightarrow> jstr \<Rightarrow> 'f + LegalServiceDateResult option" where
  "resolveLegalServiceDateForTebligat z findTebligat tenantId tebligatId =
     (case findTebligat tebligatId tenantId of
        Inl f \<Rightarrow> Inl f
      | Inr None \<Rightarrow> Inr None
      | Inr (Some tebligat) \<Rightarrow> Inr (determineLegalServiceDate z tebligat))"

definition computeCanonicalLegalPeriod ::
  "timezone \<Rightarrow> (jstr \<Rightarrow> jstr \<Rightarrow> 'f + ClassificationSourceFields option) \<Rightarrow>
   (jstr \<Rightarrow> jstr \<Rightarrow> 'f + Tebligat option) \<Rightarrow> jstr \<Rightarrow> jstr \<Rightarrow> jstr \<Rightarrow> jsval \<Rightarrow>
   'f period_exception + CanonicalLegalPeriodResult" where
  "computeCanonicalLegalPeriod z findCase findTebligat tenantId tebligatId caseId callerSupplied =
     (case resolveProceedingClassification findCase tenantId caseId of
        Inl e \<Rightarrow> Inl e
      | Inr None \<Rightarrow> Inr (UNRESOLVED PROCEEDING_TYPE_UNRESOLVED)
      | Inr (Some classification) \<Rightarrow>
      case resolveLegalPeriodRule (pc_proceedingType classification) (pc_subTypeCode classification) of
        None \<Rightarrow> Inr (UNRESOLVED LEGAL_PERIOD_RULE_UNRESOLVED)
      | Some rule \<Rightarrow>
      case resolveLegalServiceDateForTebligat z findTebligat tenantId tebligatId of
        Inl f \<Rightarrow> Inl (PeriodQueryFailed f)
      | Inr None \<Rightarrow> Inr (UNRESOLVED LEGAL_SERVICE_DATE_UNRESOLVED)
      | Inr (Some service) \<Rightarrow>
      case (if lr_requiresCallerSuppliedPerformanceDays rule
            then map_sum (\<lambda>e. e) Some (assertValidCallerSuppliedPerformanceDays callerSupplied)
            else Inr (lr_performanceDays rule)) of
        Inl e \<Rightarrow> Inl e
      | Inr performanceDays \<Rightarrow>
      let periodStartDate = addDays z (ls_legalServiceDate service) 1 in
      case maxOf [lr_objectionDays rule, lr_paymentDays rule, lr_vacateDays rule, performanceDays,
                  lr_complaintDays rule] of
        Inl e \<Rightarrow> Inl e
      | Inr waiting \<Rightarrow> Inr (RESOLVED
          \<lparr>rd_proceedingType = pc_proceedingType classification, rd_subTypeCode = pc_subTypeCode classification,
           rd_legalServiceDate = ls_legalServiceDate service, rd_periodStartDate = periodStartDate,
           rd_objectionDays = lr_objectionDays rule, rd_paymentDays = lr_paymentDays rule,
           rd_vacateDays = lr_vacateDays rule, rd_performanceDays = performanceDays,
           rd_complaintDays = lr_complaintDays rule, rd_nextActionWaitingDays = waiting,
           rd_nextActionEligibleDate = addDays z periodStartDate (waiting - 1),
           rd_nextActionType = lr_nextActionType rule\<rparr>))"

subsection \<open>What the table gives\<close>

lemma RULE_MATRIX_keys: "distinct (map fst RULE_MATRIX)"
  by (simp add: RULE_MATRIX_def matrix_entry_def rule_key_def js_eval)

text \<open>Every rule has a period, of at most 60 days, or takes the period from the caller.\<close>

definition rule_days :: "LegalPeriodRule \<Rightarrow> int option list" where
  "rule_days r = [lr_objectionDays r, lr_paymentDays r, lr_vacateDays r, lr_performanceDays r, lr_complaintDays r]"

definition rule_ok :: "LegalPeriodRule \<Rightarrow> bool" where
  "rule_ok r \<longleftrightarrow>
     list_all (\<lambda>d. case d of None \<Rightarrow> True | Some n \<Rightarrow> 5 \<le> n \<and> n \<le> 60) (rule_days r) \<and>
     (lr_requiresCallerSuppliedPerformanceDays r \<longleftrightarrow> List.map_filter (\<lambda>d. d) (rule_days r) = []) \<and>
     (lr_requiresCallerSuppliedPerformanceDays r \<longrightarrow>
        lr_proceedingType r = JUDGMENT_ENFORCEMENT \<and> lr_subTypeCode r = Some (js ''SPECIFIC_PERFORMANCE''))"

lemma rule_ok_days: "rule_ok r \<Longrightarrow> Some n \<in> set (rule_days r) \<Longrightarrow> 5 \<le> n \<and> n \<le> 60"
  unfolding rule_ok_def list_all_iff by (auto dest!: bspec)

lemma RULE_MATRIX_ok: "list_all (\<lambda>(key, r). rule_ok r \<and> key = rule_key (lr_proceedingType r) (lr_subTypeCode r)) RULE_MATRIX"
  by (simp add: RULE_MATRIX_def matrix_entry_def rule_ok_def rule_days_def List.map_filter_def)

lemma resolved_rule: "resolveLegalPeriodRule t sub = Some r \<Longrightarrow> rule_ok r"
  using RULE_MATRIX_ok by (auto simp: resolveLegalPeriodRule_def list_all_iff dest!: map_of_SomeD)

lemma resolved_rule_key:
  "resolveLegalPeriodRule t sub = Some r \<Longrightarrow> rule_key t sub = rule_key (lr_proceedingType r) (lr_subTypeCode r)"
  using RULE_MATRIX_ok by (auto simp: resolveLegalPeriodRule_def list_all_iff dest!: map_of_SomeD)

text \<open>No rule is made up for the proceedings that the table leaves out, whatever their sub type.\<close>

lemma rule_key_prefix:
  "\<exists>rest. rule_key t sub = js (proceeding_name t) @ rest \<and> (rest = [] \<or> hd rest = 58)"
  by (auto simp: rule_key_def js_eval split: option.split)

lemma proceeding_name_key:
  "js (proceeding_name t) @ r = js (proceeding_name t') @ r' \<Longrightarrow> r = [] \<or> hd r = 58 \<Longrightarrow>
   r' = [] \<or> hd r' = 58 \<Longrightarrow> t = t'"
  by (cases t; cases t') (auto simp: js_eval)

lemma resolved_rule_type: "resolveLegalPeriodRule t sub = Some r \<Longrightarrow> lr_proceedingType r = t"
  using resolved_rule_key [of t sub r] rule_key_prefix [of t sub]
    rule_key_prefix [of "lr_proceedingType r" "lr_subTypeCode r"] proceeding_name_key by metis

lemma unlisted_unresolved:
  "t \<in> {EVICTION, PLEDGE, MORTGAGE, PUBLIC_RECEIVABLE} \<Longrightarrow> resolveLegalPeriodRule t sub = None"
proof (rule ccontr)
  assume t: "t \<in> {EVICTION, PLEDGE, MORTGAGE, PUBLIC_RECEIVABLE}" and "resolveLegalPeriodRule t sub \<noteq> None"
  then obtain r where r: "resolveLegalPeriodRule t sub = Some r" by auto
  then have "(rule_key t sub, r) \<in> set RULE_MATRIX" by (simp add: resolveLegalPeriodRule_def map_of_SomeD)
  moreover have "lr_proceedingType r = t" using r by (rule resolved_rule_type)
  ultimately show False using t by (auto simp: RULE_MATRIX_def matrix_entry_def)
qed

lemma fold_max_int:
  "fold max vs v \<in> set (v # vs) \<and> (\<forall>x \<in> set (v # vs). x \<le> fold max vs (v :: int))"
proof (induction vs arbitrary: v)
  case (Cons w vs)
  have "max w v \<le> fold max vs (max w v)" using Cons [of "max w v"] by simp
  then show ?case using Cons [of "max w v"] by (auto simp: max_def split: if_splits)
qed simp

lemma in_map_filter: "n \<in> set (List.map_filter (\<lambda>v. v) vals) \<longleftrightarrow> Some n \<in> set vals"
  by (force simp: List.map_filter_def)

lemma maxOf_Inr:
  "maxOf vals = Inr m \<Longrightarrow> Some m \<in> set vals \<and> (\<forall>n. Some n \<in> set vals \<longrightarrow> n \<le> m)"
  using fold_max_int in_map_filter [of _ vals] by (fastforce simp: maxOf_def split: list.split_asm)

lemma maxOf_Inl: "maxOf vals = Inl e \<longleftrightarrow> e = NoPeriodDefined \<and> List.map_filter (\<lambda>v. v) vals = []"
  by (auto simp: maxOf_def split: list.split)

lemma caller_days:
  "assertValidCallerSuppliedPerformanceDays v = Inr n \<longleftrightarrow> v = VNum (js_int n) \<and> 1 \<le> n \<and> n \<le> 365"
proof (cases v)
  case (VNum x)
  show ?thesis
  proof (cases "js_is_integer x")
    case True
    then obtain i where "x = js_int i" using js_is_integerD by blast
    then show ?thesis by (auto simp: VNum MAX_CALLER_SUPPLIED_PERFORMANCE_DAYS_def)
  next
    case False
    then show ?thesis by (auto simp: VNum)
  qed
qed simp_all

lemma list_all_days:
  "(\<And>n. Some n \<in> set l \<Longrightarrow> P n) \<Longrightarrow> list_all (\<lambda>d. case d of None \<Rightarrow> True | Some n \<Rightarrow> P n) l"
  by (auto simp: list_all_iff split: option.split)

lemma compute_resolved:
  assumes "computeCanonicalLegalPeriod z findCase findTebligat tenantId tebligatId caseId callerSupplied =
    (Inr (RESOLVED p) :: 'f period_exception + CanonicalLegalPeriodResult)"
  obtains rule perf where "rule_ok rule"
    "perf = lr_performanceDays rule \<or> (\<exists>n. perf = Some n \<and> 1 \<le> n \<and> n \<le> 365)"
    "maxOf [lr_objectionDays rule, lr_paymentDays rule, lr_vacateDays rule, perf, lr_complaintDays rule] =
      (Inr (rd_nextActionWaitingDays p) :: 'f period_exception + int)"
    "rd_objectionDays p = lr_objectionDays rule" "rd_paymentDays p = lr_paymentDays rule"
    "rd_vacateDays p = lr_vacateDays rule" "rd_performanceDays p = perf"
    "rd_complaintDays p = lr_complaintDays rule"
    "rd_periodStartDate p = addDays z (rd_legalServiceDate p) 1"
    "rd_nextActionEligibleDate p = addDays z (rd_periodStartDate p) (rd_nextActionWaitingDays p - 1)"
proof -
  note c = assms [unfolded computeCanonicalLegalPeriod_def]
  show thesis
  proof (cases "resolveProceedingClassification findCase tenantId caseId" rule: query_cases)
    fix cls assume cls: "resolveProceedingClassification findCase tenantId caseId = Inr (Some cls)"
    obtain rule where rule: "resolveLegalPeriodRule (pc_proceedingType cls) (pc_subTypeCode cls) = Some rule"
      using c by (cases "resolveLegalPeriodRule (pc_proceedingType cls) (pc_subTypeCode cls)") (simp_all add: cls)
    show thesis
    proof (cases "resolveLegalServiceDateForTebligat z findTebligat tenantId tebligatId" rule: query_cases)
      fix service
      assume service: "resolveLegalServiceDateForTebligat z findTebligat tenantId tebligatId = Inr (Some service)"
      let ?perf = "if lr_requiresCallerSuppliedPerformanceDays rule
         then map_sum (\<lambda>e. e) Some (assertValidCallerSuppliedPerformanceDays callerSupplied)
         else Inr (lr_performanceDays rule) :: 'f period_exception + int option"
      obtain perf where perf: "?perf = Inr perf"
        using c by (cases ?perf) (simp_all add: cls rule service)
      obtain waiting where w: "maxOf [lr_objectionDays rule, lr_paymentDays rule, lr_vacateDays rule, perf,
          lr_complaintDays rule] = (Inr waiting :: 'f period_exception + int)"
        using c by (cases "maxOf [lr_objectionDays rule, lr_paymentDays rule, lr_vacateDays rule, perf,
          lr_complaintDays rule] :: 'f period_exception + int") (simp_all add: cls rule service perf Let_def)
      have p: "p = \<lparr>rd_proceedingType = pc_proceedingType cls, rd_subTypeCode = pc_subTypeCode cls,
           rd_legalServiceDate = ls_legalServiceDate service,
           rd_periodStartDate = addDays z (ls_legalServiceDate service) 1,
           rd_objectionDays = lr_objectionDays rule, rd_paymentDays = lr_paymentDays rule,
           rd_vacateDays = lr_vacateDays rule, rd_performanceDays = perf,
           rd_complaintDays = lr_complaintDays rule, rd_nextActionWaitingDays = waiting,
           rd_nextActionEligibleDate = addDays z (addDays z (ls_legalServiceDate service) 1) (waiting - 1),
           rd_nextActionType = lr_nextActionType rule\<rparr>"
        using c by (simp add: cls rule service perf w Let_def)
      have "perf = lr_performanceDays rule \<or> (\<exists>n. perf = Some n \<and> 1 \<le> n \<and> n \<le> 365)"
        using perf caller_days [where ?'a = 'f]
        by (cases "assertValidCallerSuppliedPerformanceDays callerSupplied :: 'f period_exception + int")
           (auto split: if_split_asm)
      from that [OF resolved_rule [OF rule] this] show thesis by (simp add: p w)
    qed (use c in \<open>simp_all add: cls rule\<close>)
  qed (use c in simp_all)
qed

lemmas compute_defs = computeCanonicalLegalPeriod_def resolveProceedingClassification_def
  resolveLegalServiceDateForTebligat_def

subsection \<open>Properties\<close>

definition sample_case :: ClassificationSourceFields where
  "sample_case = \<lparr>cf_proceedingType = Some CAMBIO, cf_rentalType = None, cf_bankruptcyType = None,
     cf_judgmentExecutionType = None\<rparr>"

definition sample_tebligat :: Tebligat where
  "sample_tebligat = \<lparr>tg_id = js ''g1'', tg_tenantId = js ''t1'', tg_caseId = js ''c1'', tg_caseDebtorId = None,
     tg_tk21Type = Some Tk21_TK_21_1, tg_channel = PTT, tg_muhtarlikDate = Some 1709366400000,
     tg_ilanDate = None, tg_deliveredAt = None\<rparr>"

text \<open>C26: The waiting time before the next action is the longest of the periods of the rule. In a zone
  without gaps the next action becomes possible on the local day that many days after the day of
  service; so no period of the rule, the objection or payment or any other, ends after that day, and one
  of them ends on it. The wait is at least one day and at most a year.\<close>

theorem next_action_waits_for_all_periods:
  assumes "regular_zone z"
    and "computeCanonicalLegalPeriod z findCase findTebligat tenantId tebligatId caseId callerSupplied =
      Inr (RESOLVED p)"
    and "rd_legalServiceDate p = Some served" "rd_nextActionEligibleDate p = Some eligible"
  shows "local_day z eligible = local_day z served + rd_nextActionWaitingDays p \<and>
    1 \<le> rd_nextActionWaitingDays p \<and> rd_nextActionWaitingDays p \<le> 365 \<and>
    (let periods = [rd_objectionDays p, rd_paymentDays p, rd_vacateDays p, rd_performanceDays p, rd_complaintDays p]
     in Some (rd_nextActionWaitingDays p) \<in> set periods \<and>
        list_all (\<lambda>d. case d of None \<Rightarrow> True | Some n \<Rightarrow> 1 \<le> n \<and> local_day z served + n \<le> local_day z eligible)
          periods)"
proof -
  obtain rule perf where rule: "rule_ok rule"
    and perf: "perf = lr_performanceDays rule \<or> (\<exists>n. perf = Some n \<and> 1 \<le> n \<and> n \<le> 365)"
    and wait: "maxOf [lr_objectionDays rule, lr_paymentDays rule, lr_vacateDays rule, perf, lr_complaintDays rule] =
      (Inr (rd_nextActionWaitingDays p) :: 'a period_exception + int)"
    and days: "rd_objectionDays p = lr_objectionDays rule" "rd_paymentDays p = lr_paymentDays rule"
      "rd_vacateDays p = lr_vacateDays rule" "rd_performanceDays p = perf" "rd_complaintDays p = lr_complaintDays rule"
    and dates: "rd_periodStartDate p = addDays z (rd_legalServiceDate p) 1"
      "rd_nextActionEligibleDate p = addDays z (rd_periodStartDate p) (rd_nextActionWaitingDays p - 1)"
    using compute_resolved [OF assms(2)] by metis
  obtain start where start: "rd_periodStartDate p = Some start"
    using dates(2) assms(4) by (cases "rd_periodStartDate p") (auto simp: addDays_def)
  have day: "local_day z eligible = local_day z served + rd_nextActionWaitingDays p"
    using regular_zone.local_day_addDays [OF assms(1), of served 1 start]
      regular_zone.local_day_addDays [OF assms(1), of start "rd_nextActionWaitingDays p - 1" eligible]
      dates start assms(3,4) by simp
  note m = maxOf_Inr [OF wait [folded days]]
  have range: "1 \<le> n \<and> n \<le> 365" if "Some n \<in> set [rd_objectionDays p, rd_paymentDays p, rd_vacateDays p,
      rd_performanceDays p, rd_complaintDays p]" for n
    using that rule_ok_days [OF rule, of n] perf by (auto simp: days rule_days_def)
  show ?thesis
    unfolding day Let_def
  proof (intro conjI list_all_days)
    fix n assume n: "Some n \<in> set [rd_objectionDays p, rd_paymentDays p, rd_vacateDays p, rd_performanceDays p,
      rd_complaintDays p]"
    show "1 \<le> n" using range [OF n] by simp
    have "n \<le> rd_nextActionWaitingDays p" using m n by blast
    then show "local_day z served + n \<le> local_day z served + rd_nextActionWaitingDays p" by simp
  qed (use m range in blast)+
qed

theorem next_action_waits_for_all_periods_witness:
  "\<exists>p. computeCanonicalLegalPeriod (offset_zone 10800000) (\<lambda>_ _. Inr (Some sample_case) :: unit + _)
      (\<lambda>_ _. Inr (Some sample_tebligat)) [] [] [] VUndef = Inr (RESOLVED p) \<and>
    rd_nextActionEligibleDate p = Some 1710230400000 \<and> rd_nextActionWaitingDays p = 10 \<and>
    local_day (offset_zone 10800000) 1710230400000 = local_day (offset_zone 10800000) 1709366400000 + 10"
proof -
  have r: "resolveLegalPeriodRule CAMBIO None =
      Some (snd (matrix_entry CAMBIO None (Some 5) (Some 10) None None None HACIZ_REQUEST_ELIGIBLE))"
    by (simp add: resolveLegalPeriodRule_def RULE_MATRIX_def matrix_entry_def rule_key_def js_eval)
  obtain p where p: "computeCanonicalLegalPeriod (offset_zone 10800000) (\<lambda>_ _. Inr (Some sample_case) :: unit + _)
      (\<lambda>_ _. Inr (Some sample_tebligat)) [] [] [] VUndef = Inr (RESOLVED p)"
    "rd_legalServiceDate p = Some 1709366400000" "rd_nextActionEligibleDate p = Some 1710230400000"
    "rd_nextActionWaitingDays p = 10"
    by (simp add: compute_defs sample_case_def sample_tebligat_def r resolveSubTypeCode_def matrix_entry_def
        determineLegalServiceDate_def buildLegalServiceDateFacts_def regime_facts_def service_date_defs Let_def
        maxOf_def List.map_filter_def addDays_def time_clip_def offset_zone_def ms_per_day_def)
  show ?thesis
    using next_action_waits_for_all_periods [OF offset.regular_zone_axioms p(1-3)] p by auto
qed

end
