(* ===== verification/DeadlineProperties.thy ===== *)
theory DeadlineProperties
  imports DeadlineStore LegalPeriod "HOL-Library.Sublist"
begin

section \<open>Properties of the deadline writers\<close>

text \<open>
  What the two writers guarantee on the tables: the shape of the history of a notification under any
  sequence of calculations, that history is only appended to, what a repeated calculation does, and what
  reaches the caller when the database fails.
\<close>

subsection \<open>Steps\<close>

text \<open>A step is a calculation of either writer, or a change of notifications and occurrences by others.\<close>

inductive deadline_step :: "DeadlineTables \<Rightarrow> DeadlineTables \<Rightarrow> bool" where
  recorded: "occurrences_ok t' \<Longrightarrow> dt_snapshots t' = dt_snapshots t \<Longrightarrow> deadline_step t t'"
| occurrence: "deadline_step t (snd (calculateForOccurrence z deadline_tables command t))"
| legacy: "deadline_step t
    (snd (calculateDeadline z deadline_tables tenantId tebligatId objectionPeriodDays t))"

definition deadlines_reachable :: "DeadlineTables \<Rightarrow> bool" where
  "deadlines_reachable t \<longleftrightarrow> (\<exists>t0. occurrences_ok t0 \<and> dt_snapshots t0 = [] \<and> deadline_step\<^sup>*\<^sup>* t0 t)"

lemma deadlines_ok_empty: "occurrences_ok t \<Longrightarrow> dt_snapshots t = [] \<Longrightarrow> deadlines_ok t"
  by (simp add: deadlines_ok_def history_def)

text \<open>The rows without their status, which is all that a later calculation may change.\<close>

definition computed :: "LegalDeadlineSnapshot \<Rightarrow> LegalDeadlineSnapshot" where
  "computed r = r\<lparr>dl_data := dl_data r\<lparr>sf_status := SUPERSEDED\<rparr>\<rparr>"

lemma computed_superseded_rows: "map computed (superseded_rows existing rows) = map computed rows"
  by (auto simp: superseded_rows_def set_superseded_def computed_def split: option.split)

lemma replaced_step:
  assumes "deadlines_ok t" "dl_id row = next_snapshot_id t" "is_active row"
    "superseded_by row = map_option dl_id (find_active (row_key row) t)"
  shows "deadlines_ok (replaced t row) \<and>
    prefix (map computed (dt_snapshots t)) (map computed (dt_snapshots (replaced t row)))"
  using replaced_ok [OF assms] by (simp add: replaced_def computed_superseded_rows)

lemma deadline_step_ok:
  "deadline_step t t' \<Longrightarrow> deadlines_ok t \<Longrightarrow>
   deadlines_ok t' \<and> prefix (map computed (dt_snapshots t)) (map computed (dt_snapshots t'))"
proof (induction rule: deadline_step.induct)
  case (recorded t' t)
  then show ?case by (simp add: deadlines_ok_def history_def)
next
  case (occurrence t z command)
  show ?case
  proof (cases "\<exists>oc days regime. calculable z t command oc days regime")
    case True
    then obtain oc days regime where c: "calculable z t command oc days regime" by blast
    show ?thesis
      by (cases rule: decide_cases [OF occurrence c])
         (use calculate_calculable [OF c] occurrence replaced_step in simp_all)
  qed (use calculate_not_calculable occurrence in fastforce)
next
  case (legacy t z tenantId tebligatId objectionPeriodDays)
  obtain result t' where r: "calculateDeadline z deadline_tables tenantId tebligatId objectionPeriodDays t = (result, t')"
    by force
  show ?case
    by (cases rule: legacy_cases [OF legacy r]) (use r legacy replaced_step in simp_all)
qed

lemma steps_ok:
  "deadline_step\<^sup>*\<^sup>* t t' \<Longrightarrow> deadlines_ok t \<Longrightarrow>
   deadlines_ok t' \<and> prefix (map computed (dt_snapshots t)) (map computed (dt_snapshots t'))"
  by (induction rule: rtranclp_induct) (auto dest: deadline_step_ok intro: prefix_order.trans)

lemma reachable_deadlines_ok: "deadlines_reachable t \<Longrightarrow> deadlines_ok t"
  using steps_ok deadlines_ok_empty by (auto simp: deadlines_reachable_def)

lemma chain_nth:
  "chain prev rs \<Longrightarrow> i < length rs \<Longrightarrow>
   superseded_by (rs ! i) = (if i = 0 then prev else Some (dl_id (rs ! (i - 1)))) \<and>
   (is_active (rs ! i) \<longleftrightarrow> Suc i = length rs)"
proof (induction prev rs arbitrary: i rule: chain.induct)
  case (3 prev r q rs)
  then show ?case by (cases i) (auto simp: nth_Cons')
qed simp_all

text \<open>A calculation finds the snapshot it left.\<close>

lemma recalculation:
  assumes t: "deadlines_ok t" and c: "calculateForOccurrence z deadline_tables command t = (Inr row, t')"
  obtains oc days regime where "calculable z t' command oc days regime"
    "same_output row regime (addDays z (ls_legalServiceDate regime) days)"
    "\<And>n. decide_snapshot z oc n regime t' =
       (if same_output row regime (addDays z (ls_legalServiceDate regime) n) then (Inr row, t')
        else (Inl SnapshotIdempotencyConflictError, t'))"
proof (cases rule: calculation_cases [OF t c])
  case (1 oc days regime)
  have "dt_occurrences t' = dt_occurrences t" using 1(8) by (auto simp: replaced_def)
  then have "calculable z t' command oc days regime"
    using 1(1) by (simp add: calculable_def lookup_occurrence_def)
  then show thesis using that 1 by (simp add: decide_snapshot_def Let_def)
qed

lemma not_retryable: "\<not> retryable_failure (known_error ''P2002'')"
  by (simp add: retryable_failure_def known_error_def js_eval ascii_lower_def)

subsection \<open>A database that fails\<close>

text \<open>
  The client of a database that refuses the next transactions with a write conflict, as many as the first
  component says; and the client of a calculation that read the active snapshot at an earlier state.
\<close>

definition lifted :: "('s \<Rightarrow> 'a \<times> 's) \<Rightarrow> nat \<times> 's \<Rightarrow> 'a \<times> (nat \<times> 's)" where
  "lifted f = (\<lambda>(k, s). case f s of (r, s') \<Rightarrow> (r, (k, s')))"

definition conflicting :: "'s deadline_client \<Rightarrow> (nat \<times> 's) deadline_client" where
  "conflicting db =
     \<lparr>dc_findTebligat = (\<lambda>i tenant (k, s). dc_findTebligat db i tenant s),
      dc_findOccurrence = (\<lambda>i (k, s). dc_findOccurrence db i s),
      dc_lock = (\<lambda>key. lifted (dc_lock db key)),
      dc_findActive = (\<lambda>tenant tebligat (k, s). dc_findActive db tenant tebligat s),
      dc_supersede = (\<lambda>i. lifted (dc_supersede db i)),
      dc_create = (\<lambda>d. lifted (dc_create db d)),
      dc_transaction = (\<lambda>body (k, s).
        case k of
          Suc j \<Rightarrow> (Inl (RawFailure (known_error ''P2034'')), (j, s))
        | 0 \<Rightarrow> lifted (dc_transaction db (\<lambda>s. case body (0, s) of (r, (_, s')) \<Rightarrow> (r, s'))) (0, s))\<rparr>"

definition stale :: "'s \<Rightarrow> 's deadline_client \<Rightarrow> 's deadline_client" where
  "stale s0 db = db\<lparr>dc_findActive := \<lambda>tenant tebligat s. dc_findActive db tenant tebligat s0\<rparr>"

lemma stale_simps [simp]:
  "dc_findOccurrence (stale s0 db) = dc_findOccurrence db" "dc_lock (stale s0 db) = dc_lock db"
  "dc_findActive (stale s0 db) tenant tebligat s = dc_findActive db tenant tebligat s0"
  "dc_supersede (stale s0 db) = dc_supersede db" "dc_create (stale s0 db) = dc_create db"
  "dc_transaction (stale s0 db) = dc_transaction db"
  by (simp_all add: stale_def)

lemma attempts_rolled_back:
  "dc_transaction db = rolled_back \<Longrightarrow>
   transaction_attempts db body (Suc n) s =
     (case body s of (Inl e, s') \<Rightarrow> (Inl (mapWriteError e), s) | (Inr row, s') \<Rightarrow> (Inr row, s'))"
  by (induction n) (auto simp: rolled_back_def split: prod.split sum.split)

lemma stale_calculation:
  assumes "calculable z t command oc days regime"
    and "\<nexists>e. find_active (occurrence_key oc) t0 = Some e \<and> same_source e oc"
  shows "calculateForOccurrence z (stale t0 deadline_tables) command t =
    (let active = find_active (occurrence_key oc) t0 in
     case replace_active deadline_tables active (occurrence_snapshot oc (oc_tenantId oc) regime
            (addDays z (ls_legalServiceDate regime) days) active) t of
       (Inl e, t') \<Rightarrow> (Inl (mapWriteError e), t) | (Inr row, t') \<Rightarrow> (Inr row, t'))"
proof -
  have r: "replace_active (stale t0 deadline_tables) = replace_active deadline_tables"
    by (intro ext) (unfold replace_active_def stale_simps, rule refl)
  have "calculate_locked z (stale t0 deadline_tables) command days t =
      replace_active deadline_tables (find_active (occurrence_key oc) t0) (occurrence_snapshot oc (oc_tenantId oc)
        regime (addDays z (ls_legalServiceDate regime) days) (find_active (occurrence_key oc) t0)) t"
    using assms lookup_occurrence_id [of "co_serviceOccurrenceId command" t oc]
    by (cases "find_active (occurrence_key oc) t0")
       (auto simp: calculable_def calculate_locked_def r lookup_occurrence_def occurrence_key_def same_source_def Let_def)
  then show ?thesis
    using assms(1)
    by (simp add: calculateForOccurrence_def Let_def calculable_def lookup_occurrence_def
        withRetryableTransaction_def MAX_TRANSACTION_ATTEMPTS_def numeral_3_eq_3
        attempts_rolled_back del: transaction_attempts.simps)
qed

lemma replace_refused:
  assumes "stored_fields d = Some st" "r \<in> set (dt_snapshots t)" "is_active r" "row_key r = snapshot_key d"
    and "sf_status d = ACTIVE" "\<And>e. active = Some e \<Longrightarrow> dl_id e \<in> set (map dl_id (dt_snapshots t)) \<and> dl_id r \<noteq> dl_id e"
  shows "\<exists>t'. replace_active deadline_tables active d t = (Inl (RawFailure (known_error ''P2002'')), t')"
proof -
  have st: "snapshot_key st = snapshot_key d" "sf_status st = ACTIVE"
    using assms(1,5) by (auto simp: stored_fields_def snapshot_key_def split: option.split_asm)
  have "\<not> snapshot_unique u st" if "r \<in> set (dt_snapshots u)" for u
    using that assms(3,4) by (force simp: snapshot_unique_def st)
  then have i: "insert_snapshot d u = (Inl (known_error ''P2002''), u)" if "r \<in> set (dt_snapshots u)" for u
    using that assms(1) by (simp add: insert_snapshot_def)
  show ?thesis
  proof (cases active)
    case (Some e)
    let ?t = "t\<lparr>dt_snapshots := map (set_superseded (dl_id e)) (dt_snapshots t)\<rparr>"
    have "set_superseded (dl_id e) r = r" using assms(6) [OF Some] by (simp add: set_superseded_other)
    then have "r \<in> set (dt_snapshots ?t)" using assms(2) by (auto simp: image_iff intro: bexI [of _ r])
    then show ?thesis
      using assms(6) [OF Some] i [of ?t] by (simp add: replace_active_def supersede_snapshot_def Some)
  qed (simp add: replace_active_def i assms(2))
qed

lemma lifted_simp [simp]: "lifted f (k, s) = (case f s of (r, s') \<Rightarrow> (r, (k, s')))"
  by (simp add: lifted_def)

lemma conflicting_simps [simp]:
  "dc_findOccurrence (conflicting db) i (k, s) = dc_findOccurrence db i s"
  "dc_lock (conflicting db) key = lifted (dc_lock db key)"
  "dc_findActive (conflicting db) tenant tebligat (k, s) = dc_findActive db tenant tebligat s"
  "dc_supersede (conflicting db) i = lifted (dc_supersede db i)"
  "dc_create (conflicting db) d = lifted (dc_create db d)"
  by (simp_all add: conflicting_def)

lemma replace_conflicting:
  "replace_active (conflicting db) active d (k, s) = lifted (replace_active db active d) (k, s)"
  by (auto simp: replace_active_def split: option.split prod.split sum.split)

lemma locked_conflicting:
  "calculate_locked z (conflicting db) command days (k, s) = lifted (calculate_locked z db command days) (k, s)"
  by (auto simp: calculate_locked_def replace_conflicting Let_def split: option.split prod.split sum.split)

lemma conflict_retryable: "retryable_failure (known_error ''P2034'')"
  by (simp add: retryable_failure_def known_error_def)

lemma transaction_conflicting:
  "dc_transaction (conflicting db) (lifted f) (k, s) =
     (case k of Suc j \<Rightarrow> (Inl (RawFailure (known_error ''P2034'')), (j, s))
      | 0 \<Rightarrow> lifted (dc_transaction db f) (0, s))"
proof -
  have "(\<lambda>s. case lifted f (0, s) of (r, (_, s')) \<Rightarrow> (r, s')) = f"
    by (intro ext) (simp split: prod.split)
  then show ?thesis by (cases k) (simp_all add: conflicting_def del: lifted_simp)
qed

lemma attempts_conflicting:
  "dc_transaction db f s = (Inr row, s') \<Longrightarrow>
   transaction_attempts (conflicting db) (lifted f) (Suc n) (k, s) =
     (if k \<le> n then (Inr row, (0, s')) else (Inl ConcurrentRecalculationConflictError, (k - Suc n, s)))"
proof (induction n arbitrary: k)
  case 0
  then show ?case by (cases k) (simp_all add: transaction_conflicting conflict_retryable)
next
  case (Suc n)
  show ?case
  proof (cases k)
    case (Suc j)
    then show ?thesis
      by (subst transaction_attempts.simps)
        (simp add: transaction_conflicting conflict_retryable Suc.IH [OF Suc.prems, of j]
          del: transaction_attempts.simps)
  qed (simp add: transaction_conflicting Suc.prems)
qed

subsection \<open>A sample\<close>

definition sample_occurrence :: ServiceOccurrence where
  "sample_occurrence = \<lparr>oc_id = js ''o1'', oc_tenantId = js ''t1'', oc_caseId = js ''c1'', oc_caseDebtorId = None,
     oc_sourceTebligatId = js ''g1'', oc_status = ACTIVE,
     oc_serviceRegimeCode = Some TK_20_TEMPORARY_ABSENCE, oc_serviceCompletionMode = Some NOTICE_POSTED,
     oc_substituteRecipientBasis = None, oc_addressTypeAtOccurrence = Some (js ''MERNIS''),
     oc_occurredOn = 1709366400000\<rparr>"

definition sample_deadlines :: DeadlineTables where
  "sample_deadlines = \<lparr>dt_tebligats = [sample_tebligat], dt_occurrences = [sample_occurrence], dt_snapshots = []\<rparr>"

definition sample_command :: "int \<Rightarrow> CalculateForOccurrenceCommand" where
  "sample_command days = \<lparr>co_tenantId = js ''t1'', co_serviceOccurrenceId = js ''o1'',
     co_calculationVersion = CALCULATION_VERSION, co_objectionPeriodDays = VNum (js_int days)\<rparr>"

abbreviation utc :: timezone where "utc \<equiv> offset_zone 0"

definition sample_snapshot :: LegalDeadlineSnapshot where
  "sample_snapshot = \<lparr>dl_id = js ''d0'', dl_data =
     \<lparr>sf_tenantId = js ''t1'', sf_caseId = js ''c1'', sf_caseDebtorId = None, sf_sourceTebligatId = js ''g1'',
      sf_sourceServiceOccurrenceId = Some (js ''o1''), sf_deadlineType = js ''OBJECTION_PERIOD'',
      sf_legalServiceDate = 1710662400000, sf_dueDate = 1711267200000,
      sf_calculationRule = js ''TK_20_NOTICE_POSTED_PLUS_15_DAYS'',
      sf_calculationVersion = CALCULATION_VERSION, sf_deadlineReasonCode = js ''TK_20'',
      sf_supersedesSnapshotId = None, sf_status = ACTIVE\<rparr>\<rparr>"

definition sample_calculated :: DeadlineTables where
  "sample_calculated = sample_deadlines\<lparr>dt_snapshots := [sample_snapshot]\<rparr>"

lemma sample_days: "1 \<le> n \<Longrightarrow> n \<le> 365 \<Longrightarrow>
    assertValidObjectionPeriodDays (VNum (js_int n)) = Inr n"
  by (simp add: MAX_OBJECTION_PERIOD_DAYS_def)

lemma sample_occurrences_ok: "occurrences_ok sample_deadlines"
  by (simp add: occurrences_ok_def sample_deadlines_def sample_occurrence_def sample_tebligat_def)

lemma sample_ok: "deadlines_ok sample_deadlines" "deadlines_reachable sample_deadlines"
  using deadlines_ok_empty [OF sample_occurrences_ok] sample_occurrences_ok
  by (auto simp: sample_deadlines_def deadlines_reachable_def)

lemma sample_calculable:
  assumes "1 \<le> n" "n \<le> 365" "dt_occurrences t = [sample_occurrence]"
  shows "calculable utc t (sample_command n) sample_occurrence n
    (service_date (Some 1710662400000) ''TK_20_NOTICE_POSTED_PLUS_15_DAYS'' ''TK_20'')"
  using sample_days [OF assms(1,2)] assms(3)
  by (simp add: calculable_def sample_command_def lookup_occurrence_def sample_occurrence_def
      determineOccurrenceLegalServiceDate_def occurrence_facts_def service_date_defs Let_def addDays_def
      time_clip_def offset_zone_def ms_per_day_def del: assertValidObjectionPeriodDays.simps)

lemma sample_calculation:
  "calculateForOccurrence utc deadline_tables (sample_command 7) sample_deadlines =
     (Inr sample_snapshot, sample_calculated)"
proof -
  have "dt_occurrences sample_deadlines = [sample_occurrence]" by (simp add: sample_deadlines_def)
  then have c: "calculable utc sample_deadlines (sample_command 7) sample_occurrence 7
      (service_date (Some 1710662400000) ''TK_20_NOTICE_POSTED_PLUS_15_DAYS'' ''TK_20'')"
    by (intro sample_calculable) simp_all
  have "js ''d0'' = js ''d'' @ js_of_nat 0" by (simp add: js_eval js_of_nat.simps)
  then show ?thesis
    unfolding calculate_calculable [OF c]
    by (simp add: decide_snapshot_def sample_deadlines_def find_active_def Let_def replace_active_def
        insert_snapshot_def stored_fields_def occurrence_snapshot_def snapshot_unique_def snapshot_references_def
        snapshot_key_def sample_tebligat_def sample_occurrence_def service_date_def addDays_def time_clip_def
        offset_zone_def ms_per_day_def next_snapshot_id_def sample_snapshot_def sample_calculated_def)
qed

lemma sample_steps: "deadline_step\<^sup>*\<^sup>* sample_deadlines sample_calculated"
  using deadline_step.occurrence [of sample_deadlines utc "sample_command 7"]
  unfolding sample_calculation by auto

lemma sample_calculated_reachable: "deadlines_reachable sample_calculated"
  using deadline_step.occurrence [of sample_deadlines utc "sample_command 7"] sample_occurrences_ok
  unfolding sample_calculation deadlines_reachable_def
  by (auto simp: sample_deadlines_def)

subsection \<open>The history of a notification\<close>

text \<open>C20: Under any sequence of calculations of both writers, interleaved with changes of notifications
  and occurrences by others, the snapshots of a notification form one chain in the order of their
  creation: the first supersedes nothing, every other supersedes the one before it, and the last one,
  and only it, is active. So a notification never has two active deadlines.\<close>

theorem deadline_history_is_a_chain:
  assumes "deadlines_reachable t" "i < length (history (tenantId, tebligatId) t)"
  shows "(let h = history (tenantId, tebligatId) t in
    superseded_by (h ! i) = (if i = 0 then None else Some (dl_id (h ! (i - 1)))) \<and>
    (is_active (h ! i) \<longleftrightarrow> Suc i = length h))"
  using chain_nth [OF chain_history [OF reachable_deadlines_ok [OF assms(1)]] assms(2)]
  by (simp add: Let_def)

theorem deadline_history_is_a_chain_witness:
  "history (js ''t1'', js ''g1'') sample_calculated = [sample_snapshot] \<and> is_active sample_snapshot"
proof -
  have h: "history (js ''t1'', js ''g1'') sample_calculated = [sample_snapshot]"
    by (simp add: history_def sample_calculated_def snapshot_key_def) (simp add: sample_snapshot_def)
  then show ?thesis
    using deadline_history_is_a_chain [OF sample_calculated_reachable, of 0 "js ''t1''" "js ''g1''"] by simp
qed

text \<open>The history is only appended to. Whatever the writers do, the snapshots that exist keep their
  place and everything that was computed for them; the only field that changes is the status.\<close>

theorem deadline_history_append_only:
  assumes "deadlines_reachable t" "deadline_step\<^sup>*\<^sup>* t t'"
  shows "prefix (map computed (dt_snapshots t)) (map computed (dt_snapshots t'))"
  using steps_ok [OF assms(2) reachable_deadlines_ok [OF assms(1)]] by simp

theorem deadline_history_append_only_witness:
  "prefix (map computed (dt_snapshots sample_deadlines)) (map computed (dt_snapshots sample_calculated))"
  by (rule deadline_history_append_only [OF sample_ok(2) sample_steps])

subsection \<open>Repeating a calculation\<close>

text \<open>C21: A calculation can be repeated: the second time the same command returns the snapshot of the first
  and writes nothing. The snapshot it returns is the active one of its notification.\<close>

theorem recalculation_is_idempotent:
  assumes "deadlines_reachable t" "calculateForOccurrence z deadline_tables command t = (Inr row, t')"
  shows "calculateForOccurrence z deadline_tables command t' = (Inr row, t') \<and>
    find_active (row_key row) t' = Some row"
proof -
  note t = reachable_deadlines_ok [OF assms(1)]
  have "find_active (row_key row) t' = Some row"
    by (cases rule: calculation_cases [OF t assms(2)]) simp
  then show ?thesis
    by (cases rule: recalculation [OF t assms(2)]) (simp add: calculate_calculable)
qed

theorem recalculation_is_idempotent_witness:
  "calculateForOccurrence utc deadline_tables (sample_command 7) sample_calculated =
     (Inr sample_snapshot, sample_calculated)"
  using recalculation_is_idempotent [OF sample_ok(2) sample_calculation] by blast

text \<open>C22: The number of days is not part of the identity of a calculation. Once an occurrence has its
  snapshot, a command for it that differs only in the days of the period is refused as a conflict and
  changes nothing; the due date cannot be corrected by calculating again.\<close>

theorem other_period_is_refused:
  assumes "deadlines_reachable t" "regular_zone z"
    and "calculateForOccurrence z deadline_tables command t = (Inr row, t')"
    and "co_objectionPeriodDays command = VNum (js_int n)" "m \<noteq> n" "1 \<le> m" "m \<le> 365"
  shows "calculateForOccurrence z deadline_tables (command\<lparr>co_objectionPeriodDays := VNum (js_int m)\<rparr>) t' =
    (Inl SnapshotIdempotencyConflictError, t')"
proof (cases rule: recalculation [OF reachable_deadlines_ok [OF assms(1)] assms(3)])
  case (1 oc days regime)
  have "days = n" using 1(1) assms(4) by (auto simp: calculable_def split: if_split_asm)
  obtain served where served: "ls_legalServiceDate regime = Some served"
    and due: "addDays z (Some served) n = Some (sf_dueDate (dl_data row))"
    using 1(2) \<open>days = n\<close> by (auto simp: same_output_def same_time_def)
  have "\<not> same_output row regime (addDays z (ls_legalServiceDate regime) m)"
    using regular_zone.local_day_addDays [OF assms(2) due]
      regular_zone.local_day_addDays [OF assms(2), of served m "sf_dueDate (dl_data row)"] assms(5)
    by (auto simp: same_output_def same_time_def served)
  moreover have "calculable z t' (command\<lparr>co_objectionPeriodDays := VNum (js_int m)\<rparr>) oc m regime"
    using 1(1) sample_days [OF assms(6,7)] by (simp add: calculable_def del: assertValidObjectionPeriodDays.simps)
  ultimately show ?thesis using 1(3) by (simp add: calculate_calculable)
qed

theorem other_period_is_refused_witness:
  "calculateForOccurrence utc deadline_tables
     ((sample_command 7)\<lparr>co_objectionPeriodDays := VNum (js_int 10)\<rparr>) sample_calculated =
     (Inl SnapshotIdempotencyConflictError, sample_calculated)"
  by (rule other_period_is_refused [OF sample_ok(2) offset.regular_zone_axioms sample_calculation, where n = 7])
     (simp_all add: sample_command_def)

subsection \<open>Failures of the database\<close>

text \<open>C23: A calculation that read the active snapshot of a notification before another calculation
  replaced it cannot replace it too: the database refuses its snapshot, the failure is reported as a
  failed write without the error of the database, and the tables are those of the other calculation.\<close>

theorem stale_calculation_fails_closed:
  assumes "deadlines_reachable t"
    and first: "calculateForOccurrence z deadline_tables command t = (Inr row, t1)" "t1 \<noteq> t"
    and second: "calculateForOccurrence z deadline_tables command' t = (Inr row', t2)" "t2 \<noteq> t"
    and same: "row_key row' = row_key row"
  shows "calculateForOccurrence z (stale t deadline_tables) command' t1 = (Inl SnapshotWriteFailedError, t1)"
proof -
  note t = reachable_deadlines_ok [OF assms(1)]
  have t1: "t1 = replaced t row" "is_active row" "dl_id row = next_snapshot_id t"
    by (cases rule: calculation_cases [OF t first(1)], use first(2) in blast)+
  obtain oc days regime where c: "calculable z t command' oc days regime"
    using second(1) calculate_not_calculable by fastforce
  let ?a = "find_active (occurrence_key oc) t"
  let ?d = "occurrence_snapshot oc (oc_tenantId oc) regime (addDays z (ls_legalServiceDate regime) days) ?a"
  have d: "decide_snapshot z oc days regime t = (Inr row', t2)"
    using calculate_calculable [OF c, unfolded second(1)] by (auto split: prod.split_asm sum.split_asm)
  have new: "\<nexists>e. ?a = Some e \<and> same_source e oc" and k: "row_key row' = occurrence_key oc"
    by (cases rule: decide_cases [OF t c], use d second(2) in simp_all)+
  have dk: "snapshot_key ?d = occurrence_key oc"
    by (simp add: snapshot_key_def occurrence_snapshot_def occurrence_key_def)
  have "replace_active deadline_tables ?a ?d t = (Inr row', t2)"
    using d new by (auto simp: decide_snapshot_def Let_def split: option.split_asm if_split_asm)
  then obtain st where st: "stored_fields ?d = Some st"
    using stored_fields_None [of ?d ?a t] by (cases "stored_fields ?d") auto
  have "calculable z t1 command' oc days regime"
    using c t1(1) by (simp add: calculable_def lookup_occurrence_def replaced_def)
  note s = stale_calculation [OF this new]
  have "\<exists>t'. replace_active deadline_tables ?a ?d t1 = (Inl (RawFailure (known_error ''P2002'')), t')"
  proof (rule replace_refused [OF st])
    show "row \<in> set (dt_snapshots t1)" by (simp add: t1(1) replaced_def)
    show "row_key row = snapshot_key ?d" using same k dk by simp
    show "dl_id e \<in> set (map dl_id (dt_snapshots t1)) \<and> dl_id row \<noteq> dl_id e" if "?a = Some e" for e
      using active_id [OF t that] next_snapshot_id_fresh [OF t] t1 by (auto simp: replaced_def)
  qed (simp_all add: t1(2), simp add: occurrence_snapshot_def)
  then show ?thesis using not_retryable by (auto simp: s Let_def)
qed

theorem stale_calculation_fails_closed_witness:
  "calculateForOccurrence utc (stale sample_deadlines deadline_tables) (sample_command 7) sample_calculated =
     (Inl SnapshotWriteFailedError, sample_calculated)"
proof (rule stale_calculation_fails_closed [OF sample_ok(2) sample_calculation _ sample_calculation])
  show "sample_calculated \<noteq> sample_deadlines"
  proof
    assume "sample_calculated = sample_deadlines"
    then have "dt_snapshots sample_calculated = dt_snapshots sample_deadlines" by simp
    then show False by (simp add: sample_calculated_def sample_deadlines_def)
  qed
  then show "sample_calculated \<noteq> sample_deadlines" .
qed (rule refl)

text \<open>C0: Transient conflicts are retried within the bound of three attempts. When the database refuses
  the next \<open>k\<close> transactions with a write conflict, a calculation that would succeed succeeds all the same,
  with the same snapshot and tables, as long as \<open>k\<close> is at most two; otherwise it gives up after three
  attempts with a conflict of its own and without a change.\<close>

theorem conflicts_are_retried:
  assumes "calculateForOccurrence z deadline_tables command t = (Inr row, t')"
  shows "calculateForOccurrence z (conflicting deadline_tables) command (k, t) =
    (if k \<le> 2 then (Inr row, (0, t')) else (Inl ConcurrentRecalculationConflictError, (k - 3, t)))"
proof -
  obtain oc days regime where c: "calculable z t command oc days regime"
    using assms calculate_not_calculable by fastforce
  let ?lock = "serviceOccurrenceDeadlineCalculationLockKey (co_tenantId command) (oc_sourceTebligatId oc)"
  let ?f = "\<lambda>t. calculate_locked z deadline_tables command days t"
  let ?body = "\<lambda>tx. case dc_lock (conflicting deadline_tables) ?lock tx of
      (Inl f, tx') \<Rightarrow> (Inl (RawFailure f), tx')
    | (Inr _, tx') \<Rightarrow> calculate_locked z (conflicting deadline_tables) command days tx'"
  have "?body = lifted ?f"
    by (intro ext) (auto simp: locked_conflicting split: prod.split)
  moreover have "dc_transaction deadline_tables ?f t = (Inr row, t')"
    using calculate_calculable [OF c] assms locked_calculable [OF c]
    by (auto simp: rolled_back_def split: prod.split_asm sum.split_asm)
  moreover have "calculateForOccurrence z (conflicting deadline_tables) command (k, t) =
      transaction_attempts (conflicting deadline_tables) ?body 3 (k, t)"
    using c by (simp add: calculateForOccurrence_def calculable_def lookup_occurrence_def Let_def
        withRetryableTransaction_def MAX_TRANSACTION_ATTEMPTS_def del: transaction_attempts.simps)
  ultimately show ?thesis
    using attempts_conflicting [of deadline_tables ?f t row t' 2 k] by (simp add: numeral_3_eq_3 numeral_2_eq_2)
qed

theorem conflicts_are_retried_witness:
  "calculateForOccurrence utc (conflicting deadline_tables) (sample_command 7) (2, sample_deadlines) =
     (Inr sample_snapshot, (0, sample_calculated)) \<and>
   calculateForOccurrence utc (conflicting deadline_tables) (sample_command 7) (3, sample_deadlines) =
     (Inl ConcurrentRecalculationConflictError, (0, sample_deadlines))"
  using conflicts_are_retried [OF sample_calculation, of 2] conflicts_are_retried [OF sample_calculation, of 3]
  by simp

lemma attempts_not_raw: "transaction_attempts db body n s = (Inl e, s') \<Longrightarrow> e \<noteq> RawFailure f"
proof (induction n arbitrary: s)
  case (Suc n)
  have "mapWriteError e \<noteq> RawFailure f" for e by (cases e) auto
  then show ?case
    using Suc.prems Suc.IH by (auto split: prod.split_asm sum.split_asm if_split_asm)
qed simp

text \<open>C24: Which errors of the database reach the caller: exactly those of the first query for the
  occurrence, which runs before the transaction. Whatever the client does later, its errors are mapped.\<close>

theorem raw_failures_of_a_calculation:
  "(\<exists>s'. calculateForOccurrence z db command s = (Inl (RawFailure f), s')) \<longleftrightarrow>
   (\<exists>days. assertValidObjectionPeriodDays (co_objectionPeriodDays command) = Inr days) \<and>
   co_calculationVersion command = CALCULATION_VERSION \<and>
   dc_findOccurrence db (co_serviceOccurrenceId command) s = Inl f"
proof (cases "assertValidObjectionPeriodDays (co_objectionPeriodDays command)")
  case (Inl e)
  have "e \<noteq> RawFailure f" using Inl by (cases "co_objectionPeriodDays command") (auto split: if_split_asm)
  then show ?thesis by (simp add: calculateForOccurrence_def Inl)
next
  case (Inr days)
  show ?thesis
    by (cases "dc_findOccurrence db (co_serviceOccurrenceId command) s" rule: query_cases)
      (auto simp: calculateForOccurrence_def Inr Let_def withRetryableTransaction_def dest: attempts_not_raw)
qed

end
