(* ===== verification/ManualAdjustment.thy ===== *)
theory ManualAdjustment
  imports JournalReversed
begin

section \<open>Manual adjustments (accounting-journal-manual-adjustment.service.ts and its DTO)\<close>

text \<open>
  An office administrator may post an entry that has no source in the program: the caller names it by a
  key of its own. The service checks and trims the request, the capacity of the actor and that every
  case and client on a line belongs to the tenant; builder, validators and writer do the rest, in a
  transaction that also records an audit event. The exceptions, the transaction and the capacity are
  those of theory JournalReversal. The account code and the side of a line are texts (the DTO admits
  nothing else), the other members are values of type unknown.
\<close>

subsection \<open>The request\<close>

record ManualAdjustmentLineInput =
  li_accountCode :: jstr
  li_direction :: jstr
  li_amount :: jsval
  li_caseId :: jsval
  li_clientId :: jsval
  li_caseClientId :: jsval

text \<open>\<open>None\<close> for lines that are no array.\<close>

record CreateManualAdjustmentJournalEntryInput =
  mi_idempotencyKey :: jsval
  mi_sourceName :: jsval
  mi_reason :: jsval
  mi_evidenceRef :: jsval
  mi_amount :: jsval
  mi_currency :: jsval
  mi_lines :: "ManualAdjustmentLineInput list option"

record NormalizedManualAdjustmentInput =
  nm_tenantId :: jstr
  nm_actorUserId :: jstr
  nm_idempotencyKey :: jstr
  nm_sourceName :: jstr
  nm_reason :: jstr
  nm_evidenceRef :: "jstr option"
  nm_amount :: jstr
  nm_currency :: jstr
  nm_lines :: "ManualAdjustmentJournalLinePayload list"

record AccountingJournalManualAdjustmentResult =
  mr_status :: JournalWriterStatus
  mr_journalEntryId :: jstr
  mr_idempotencyKey :: jstr
  mr_sourceVersion :: jstr
  mr_lineCount :: nat

definition REASON_MIN_LENGTH :: nat where "REASON_MIN_LENGTH = 10"

definition MANUAL_ADJUSTMENT_SOURCE_ACTION :: jstr where
  "MANUAL_ADJUSTMENT_SOURCE_ACTION = js ''manual-adjustment''"

definition MANUAL_ADJUSTMENT_SOURCE_VERSION :: jstr where
  "MANUAL_ADJUSTMENT_SOURCE_VERSION = js ''manual-adjustment:v1''"

definition MANUAL_ADJUSTMENT_AUTHORIZATION_MODE :: jstr where
  "MANUAL_ADJUSTMENT_AUTHORIZATION_MODE = js ''DIRECT_OFFICE_ADMIN_CAPABILITY''"

fun adjustment_requireTrimmed :: "jsval \<Rightarrow> string \<Rightarrow> reversal_exception + jstr" where
  "adjustment_requireTrimmed (VStr s) field =
     (if js_trim s = []
      then Inl (http BadRequest ''ACCOUNTING_JOURNAL_MANUAL_ADJUSTMENT_INVALID_INPUT'' (field @ '' is required.''))
      else Inr (js_trim s))"
| "adjustment_requireTrimmed _ field =
     Inl (http BadRequest ''ACCOUNTING_JOURNAL_MANUAL_ADJUSTMENT_INVALID_INPUT'' (field @ '' is required.''))"

definition normalizeLine :: "ManualAdjustmentLineInput \<Rightarrow> reversal_exception + ManualAdjustmentJournalLinePayload" where
  "normalizeLine line =
     (case adjustment_requireTrimmed (li_amount line) ''line.amount'' of
        Inl e \<Rightarrow> Inl e
      | Inr amount \<Rightarrow> Inr
          \<lparr>ml_accountCode = li_accountCode line, ml_direction = li_direction line, ml_amount = amount,
           ml_caseId = normalizeOptionalString (li_caseId line),
           ml_clientId = normalizeOptionalString (li_clientId line),
           ml_caseClientId = normalizeOptionalString (li_caseClientId line)\<rparr>)"

definition normalizeAdjustment ::
  "jsval \<Rightarrow> jsval \<Rightarrow> CreateManualAdjustmentJournalEntryInput \<Rightarrow>
   reversal_exception + NormalizedManualAdjustmentInput" where
  "normalizeAdjustment tenantId actorUserId input =
     (case adjustment_requireTrimmed tenantId ''tenantId'' of Inl e \<Rightarrow> Inl e | Inr tenant \<Rightarrow>
      (case adjustment_requireTrimmed actorUserId ''actorUserId'' of Inl e \<Rightarrow> Inl e | Inr actor \<Rightarrow>
      (case adjustment_requireTrimmed (mi_idempotencyKey input) ''idempotencyKey'' of Inl e \<Rightarrow> Inl e | Inr key \<Rightarrow>
      (case adjustment_requireTrimmed (mi_sourceName input) ''sourceName'' of Inl e \<Rightarrow> Inl e | Inr name \<Rightarrow>
      (case adjustment_requireTrimmed (mi_reason input) ''reason'' of Inl e \<Rightarrow> Inl e | Inr reason \<Rightarrow>
      (case adjustment_requireTrimmed (mi_amount input) ''amount'' of Inl e \<Rightarrow> Inl e | Inr amount \<Rightarrow>
      (case adjustment_requireTrimmed (mi_currency input) ''currency'' of Inl e \<Rightarrow> Inl e | Inr currency \<Rightarrow>
      if length reason < REASON_MIN_LENGTH
      then Inl (http BadRequest ''ACCOUNTING_JOURNAL_MANUAL_ADJUSTMENT_REASON_REQUIRED''
             ''Manual adjustment reason must be at least 10 characters.'')
      else case mi_lines input of
        None \<Rightarrow> Inl (http BadRequest ''ACCOUNTING_JOURNAL_MANUAL_ADJUSTMENT_LINES_REQUIRED''
                  ''Manual adjustment requires at least two balanced lines.'')
      | Some lines \<Rightarrow>
        if lines = []
        then Inl (http BadRequest ''ACCOUNTING_JOURNAL_MANUAL_ADJUSTMENT_LINES_REQUIRED''
               ''Manual adjustment requires at least two balanced lines.'')
        else case collect_results (map normalizeLine lines) of
          Inl e \<Rightarrow> Inl e
        | Inr normalized \<Rightarrow> Inr
            \<lparr>nm_tenantId = tenant, nm_actorUserId = actor, nm_idempotencyKey = key, nm_sourceName = name,
             nm_reason = reason, nm_evidenceRef = normalizeOptionalString (mi_evidenceRef input),
             nm_amount = amount, nm_currency = currency, nm_lines = normalized\<rparr>)))))))"

subsection \<open>References to cases and clients\<close>

definition distinctNonNull :: "jstr option list \<Rightarrow> jstr list" where
  "distinctNonNull ids = rev (remdups (rev (List.map_filter (\<lambda>v. v) ids)))"

definition findMissing :: "jstr list \<Rightarrow> jstr list \<Rightarrow> jstr option" where
  "findMissing ids found = List.find (\<lambda>i. i \<notin> set found) ids"

text \<open>The client: the journal, the user, the identifiers of a list that belong to a tenant, and the audit.\<close>

record 's adjustment_client =
  ac_journal :: "'s journal_client"
  ac_findUser :: "jstr \<Rightarrow> jstr \<Rightarrow> 's \<Rightarrow> journal_failure + CapacityUser option"
  ac_findCases :: "jstr list \<Rightarrow> jstr \<Rightarrow> 's \<Rightarrow> journal_failure + jstr list"
  ac_findClients :: "jstr list \<Rightarrow> jstr \<Rightarrow> 's \<Rightarrow> journal_failure + jstr list"
  ac_findCaseClients :: "jstr list \<Rightarrow> jstr \<Rightarrow> 's \<Rightarrow> journal_failure + jstr list"
  ac_audit :: "AuditEvent \<Rightarrow> 's \<Rightarrow> (journal_failure + unit) \<times> 's"

text \<open>A truthy missing identifier is reported; the three queries run side by side and change nothing.\<close>

definition assertLineReferencesInTenant ::
  "'s adjustment_client \<Rightarrow> jstr \<Rightarrow> ManualAdjustmentJournalLinePayload list \<Rightarrow> 's \<Rightarrow> reversal_exception option" where
  "assertLineReferencesInTenant db tenantId lines s =
     (let caseIds = distinctNonNull (map ml_caseId lines);
          clientIds = distinctNonNull (map ml_clientId lines);
          caseClientIds = distinctNonNull (map ml_caseClientId lines) in
      case (if caseIds = [] then Inr [] else ac_findCases db caseIds tenantId s) of
        Inl f \<Rightarrow> Some (DbException f)
      | Inr ownedCases \<Rightarrow>
      case (if clientIds = [] then Inr [] else ac_findClients db clientIds tenantId s) of
        Inl f \<Rightarrow> Some (DbException f)
      | Inr ownedClients \<Rightarrow>
      case (if caseClientIds = [] then Inr [] else ac_findCaseClients db caseClientIds tenantId s) of
        Inl f \<Rightarrow> Some (DbException f)
      | Inr ownedCaseClients \<Rightarrow>
      if truthy (findMissing caseIds ownedCases)
      then Some (http NotFound ''ACCOUNTING_JOURNAL_MANUAL_ADJUSTMENT_CASE_NOT_FOUND''
             ''Manual adjustment line references a case that does not exist in this tenant.'')
      else if truthy (findMissing clientIds ownedClients)
      then Some (http NotFound ''ACCOUNTING_JOURNAL_MANUAL_ADJUSTMENT_CLIENT_NOT_FOUND''
             ''Manual adjustment line references a client that does not exist in this tenant.'')
      else if truthy (findMissing caseClientIds ownedCaseClients)
      then Some (http BadRequest ''ACCOUNTING_JOURNAL_MANUAL_ADJUSTMENT_CASE_CLIENT_INVALID''
             ''Manual adjustment line references a caseClientId that is invalid or foreign to this tenant.'')
      else None)"

definition assertOfficeAdmin ::
  "'s adjustment_client \<Rightarrow> jstr \<Rightarrow> jstr \<Rightarrow> 's \<Rightarrow> reversal_exception option" where
  "assertOfficeAdmin db tenantId actorUserId s =
     (case ac_findUser db actorUserId tenantId s of
        Inl f \<Rightarrow> Some (DbException f)
      | Inr user \<Rightarrow>
        if \<not> isOfficeAdminCapacity (capacityFromUser user)
        then Some (http Forbidden ''ACCOUNTING_JOURNAL_MANUAL_ADJUSTMENT_FORBIDDEN''
               ''This manual accounting journal adjustment requires PARTNER or MANAGER office-admin capacity.'')
        else None)"

subsection \<open>The source\<close>

definition adjustment_payload :: "NormalizedManualAdjustmentInput \<Rightarrow> ManualAdjustmentJournalPayload" where
  "adjustment_payload normalized =
     \<lparr>mp_amount = nm_amount normalized, mp_reason = nm_reason normalized,
      mp_evidenceRef = nm_evidenceRef normalized, mp_lines = nm_lines normalized\<rparr>"

definition adjustment_line_value :: "ManualAdjustmentJournalLinePayload \<Rightarrow> jsval" where
  "adjustment_line_value l = obj_of
     [(''accountCode'', VStr (ml_accountCode l)), (''direction'', VStr (ml_direction l)),
      (''amount'', VStr (ml_amount l)), (''caseId'', or_null (ml_caseId l)),
      (''clientId'', or_null (ml_clientId l)), (''caseClientId'', or_null (ml_caseClientId l))]"

definition adjustment_payload_value :: "ManualAdjustmentJournalPayload \<Rightarrow> jsval" where
  "adjustment_payload_value p = obj_of
     [(''amount'', VStr (mp_amount p)), (''reason'', VStr (mp_reason p)),
      (''evidenceRef'', or_null (mp_evidenceRef p)),
      (''lines'', VArr (map adjustment_line_value (mp_lines p)))]"

definition adjustment_hash_value :: "NormalizedManualAdjustmentInput \<Rightarrow> jsval" where
  "adjustment_hash_value normalized = obj_of
     [(''tenantId'', VStr (nm_tenantId normalized)), (''sourceType'', VStr (js ''ACCOUNTING_JOURNAL_ENTRY'')),
      (''sourceId'', VStr (nm_idempotencyKey normalized)),
      (''sourceAction'', VStr MANUAL_ADJUSTMENT_SOURCE_ACTION),
      (''sourceVersion'', VStr MANUAL_ADJUSTMENT_SOURCE_VERSION),
      (''actorId'', VStr (nm_actorUserId normalized)), (''currency'', VStr (nm_currency normalized)),
      (''payload'', adjustment_payload_value (adjustment_payload normalized))]"

definition adjustment_source ::
  "int \<Rightarrow> jstr \<Rightarrow> NormalizedManualAdjustmentInput \<Rightarrow> ManualAdjustmentJournalSource" where
  "adjustment_source now sourceHash normalized =
     (let occurredAt = toISOString now in
      \<lparr>so_tenantId = nm_tenantId normalized, so_sourceId = nm_idempotencyKey normalized,
       so_sourceVersion = MANUAL_ADJUSTMENT_SOURCE_VERSION, so_sourceAction = MANUAL_ADJUSTMENT_SOURCE_ACTION,
       so_occurredAt = occurredAt, so_effectiveDate = take 10 occurredAt,
       so_actorId = Some (nm_actorUserId normalized), so_currency = nm_currency normalized,
       so_sourceHash = Some sourceHash,
       so_metadata = obj_spread []
         [(''authorizationMode'', VStr MANUAL_ADJUSTMENT_AUTHORIZATION_MODE),
          (''sourceName'', VStr (nm_sourceName normalized)), (''reason'', VStr (nm_reason normalized)),
          (''evidenceRef'', or_null (nm_evidenceRef normalized))],
       so_payload = adjustment_payload normalized\<rparr>)"

definition buildManualAdjustmentSource ::
  "(bytes \<Rightarrow> jstr) \<Rightarrow> int \<Rightarrow> NormalizedManualAdjustmentInput \<Rightarrow>
   source_hash_error + ManualAdjustmentJournalSource" where
  "buildManualAdjustmentSource sha now normalized =
     (case createCanonicalSourceHash sha no_options (adjustment_hash_value normalized) of
        Inl e \<Rightarrow> Inl e
      | Inr sourceHash \<Rightarrow> Inr (adjustment_source now sourceHash normalized))"

subsection \<open>The transaction\<close>

definition adjustment_validateBuiltDraft :: "JournalBuildResult \<Rightarrow> reversal_exception + ValidatedJournalEntryDraft" where
  "adjustment_validateBuiltDraft draftResult =
     (case draftResult of
        Inl errors \<Rightarrow> Inl (HttpException
          \<lparr>hx_status = Conflict, hx_code = js ''ACCOUNTING_JOURNAL_MANUAL_ADJUSTMENT_DRAFT_INVALID'',
           hx_message = js ''Manual accounting journal adjustment draft could not be built.'',
           hx_errors = BuildErrors errors\<rparr>)
      | Inr draft \<Rightarrow>
        (case validateJournalDraft draft of
           Inl errors \<Rightarrow> Inl (HttpException
             \<lparr>hx_status = Conflict, hx_code = js ''ACCOUNTING_JOURNAL_MANUAL_ADJUSTMENT_DRAFT_INVALID'',
              hx_message = js ''Manual accounting journal adjustment draft could not be validated.'',
              hx_errors = ValidationErrors errors\<rparr>)
         | Inr validated \<Rightarrow> Inr validated))"

definition adjustment_writerFailure :: "JournalWriterError list \<Rightarrow> reversal_exception" where
  "adjustment_writerFailure errors =
     (let code = (case errors of [] \<Rightarrow> js ''ACCOUNTING_JOURNAL_MANUAL_ADJUSTMENT_WRITE_FAILED''
                  | first # _ \<Rightarrow> js (writer_code_text (jw_code first)));
          message = (case errors of [] \<Rightarrow> js ''Manual accounting journal adjustment could not be written.''
                     | first # _ \<Rightarrow> jw_message first) in
      HttpException
        \<lparr>hx_status = (if code = js ''TENANT_MISMATCH'' then Forbidden else Conflict), hx_code = code,
         hx_message = message, hx_errors = WriterErrors errors\<rparr>)"

definition adjustment_audit :: "NormalizedManualAdjustmentInput \<Rightarrow> JournalWriterOutput \<Rightarrow> AuditEvent" where
  "adjustment_audit normalized out =
     \<lparr>av_tenantId = nm_tenantId normalized, av_userId = nm_actorUserId normalized,
      av_action = js ''ACCOUNTING_JOURNAL_MANUAL_ADJUSTMENT_RECORDED'',
      av_entityType = js ''AccountingJournalEntry'', av_entityId = wo_journalEntryId out,
      av_metadata = obj_spread []
        [(''authorizationMode'', VStr MANUAL_ADJUSTMENT_AUTHORIZATION_MODE),
         (''sourceName'', VStr (nm_sourceName normalized)),
         (''journalEntryId'', VStr (wo_journalEntryId out)), (''idempotencyKey'', VStr (wo_idempotencyKey out)),
         (''sourceVersion'', VStr (wo_sourceVersion out)), (''reason'', VStr (nm_reason normalized)),
         (''evidenceRef'', or_null (nm_evidenceRef normalized)), (''amount'', VStr (nm_amount normalized)),
         (''currency'', VStr (nm_currency normalized)),
         (''lineCount'', VNum (js_int (int (wo_lineCount out))))]\<rparr>"

definition adjustment_result :: "JournalWriterOutput \<Rightarrow> AccountingJournalManualAdjustmentResult" where
  "adjustment_result out =
     \<lparr>mr_status = wo_status out, mr_journalEntryId = wo_journalEntryId out,
      mr_idempotencyKey = wo_idempotencyKey out, mr_sourceVersion = wo_sourceVersion out,
      mr_lineCount = wo_lineCount out\<rparr>"

definition adjustment_in_transaction ::
  "(jstr \<Rightarrow> jsdate) \<Rightarrow> (bytes \<Rightarrow> jstr) \<Rightarrow> int \<Rightarrow> 's adjustment_client \<Rightarrow> NormalizedManualAdjustmentInput \<Rightarrow> 's \<Rightarrow>
   (reversal_exception + AccountingJournalManualAdjustmentResult) \<times> 's" where
  "adjustment_in_transaction other sha now db normalized tx =
     (case buildManualAdjustmentSource sha now normalized of
        Inl e \<Rightarrow> (Inl (HashException e), tx)
      | Inr source \<Rightarrow>
      case adjustment_validateBuiltDraft (buildAccountingJournal (JournalEntrySource (ManualAdjustmentSource source))) of
        Inl e \<Rightarrow> (Inl e, tx)
      | Inr draft \<Rightarrow>
      case writeJournal other (ac_journal db) draft tx of
        (Inl failure, tx') \<Rightarrow> (Inl (DbException failure), tx')
      | (Inr (Inl errors), tx') \<Rightarrow> (Inl (adjustment_writerFailure errors), tx')
      | (Inr (Inr out), tx') \<Rightarrow>
        if wo_status out = CREATED
        then case ac_audit db (adjustment_audit normalized out) tx' of
               (Inl failure, tx'') \<Rightarrow> (Inl (DbException failure), tx'')
             | (Inr _, tx'') \<Rightarrow> (Inr (adjustment_result out), tx'')
        else (Inr (adjustment_result out), tx'))"

definition createManualAdjustment ::
  "(jstr \<Rightarrow> jsdate) \<Rightarrow> (bytes \<Rightarrow> jstr) \<Rightarrow> int \<Rightarrow> 's adjustment_client \<Rightarrow> jsval \<Rightarrow> jsval \<Rightarrow>
   CreateManualAdjustmentJournalEntryInput \<Rightarrow> 's \<Rightarrow>
   (reversal_exception + AccountingJournalManualAdjustmentResult) \<times> 's" where
  "createManualAdjustment other sha now db tenantId actorUserId input s =
     (case normalizeAdjustment tenantId actorUserId input of
        Inl e \<Rightarrow> (Inl e, s)
      | Inr normalized \<Rightarrow>
      case assertOfficeAdmin db (nm_tenantId normalized) (nm_actorUserId normalized) s of
        Some e \<Rightarrow> (Inl e, s)
      | None \<Rightarrow>
      case assertLineReferencesInTenant db (nm_tenantId normalized) (nm_lines normalized) s of
        Some e \<Rightarrow> (Inl e, s)
      | None \<Rightarrow> transaction (adjustment_in_transaction other sha now db normalized) s)"

subsection \<open>The DTO\<close>

definition MANUAL_ADJUSTMENT_ACCOUNT_CODES :: "jstr list" where
  "MANUAL_ADJUSTMENT_ACCOUNT_CODES = map js
     [''CASH_CLEARING'', ''CLIENT_PAYABLE'', ''CLIENT_EXPENSE_REIMBURSEMENT_PAYABLE'',
      ''CLIENT_EXPENSE_RECEIVABLE'', ''ATTORNEY_FEE_REVENUE'', ''FIRM_EXPENSE_REIMBURSEMENT'',
      ''CLIENT_ADVANCE_BALANCE'']"

text \<open>\<open>/^\d+(\.\d{1,2})?$/\<close>: digits, and behind a point one or two.\<close>

definition MONEY_PATTERN :: "jstr \<Rightarrow> bool" where
  "MONEY_PATTERN s \<longleftrightarrow>
     (case money_parts s of None \<Rightarrow> False | Some (whole, fraction) \<Rightarrow> length fraction \<le> 2)"

end
