(* ===== verification/ManualAdjusted.thy ===== *)
theory ManualAdjusted
  imports ManualAdjustment
begin

section \<open>Manual adjustments on the tables\<close>

text \<open>
  The manual adjustment on the tables of the journal together with the log of audit events. A request
  changes them only by posting one balanced entry with its audit event, and only for an administrator
  whose lines name cases and clients of the tenant. An acceptable request is posted, repeated it is a
  replay, and other content under the same key is refused.
\<close>

subsection \<open>Journal and audit log\<close>

text \<open>Who works in a tenant, and what belongs to it.\<close>

record Directory =
  di_user :: "jstr \<Rightarrow> jstr \<Rightarrow> CapacityUser option"
  di_cases :: "jstr \<Rightarrow> jstr list"
  di_clients :: "jstr \<Rightarrow> jstr list"
  di_caseClients :: "jstr \<Rightarrow> jstr list"

definition beside_log :: "('s \<Rightarrow> 'a \<times> 's) \<Rightarrow> 's \<times> 'l \<Rightarrow> 'a \<times> ('s \<times> 'l)" where
  "beside_log f = (\<lambda>(s, l). case f s of (r, s') \<Rightarrow> (r, (s', l)))"

definition with_log :: "'s journal_client \<Rightarrow> ('s \<times> 'l) journal_client" where
  "with_log db =
     \<lparr>jc_findBySource = (\<lambda>k (s, l). jc_findBySource db k s),
      jc_findByIdempotencyKey = (\<lambda>tenant key (s, l). jc_findByIdempotencyKey db tenant key s),
      jc_findOriginal = (\<lambda>i (s, l). jc_findOriginal db i s),
      jc_findByReversalOf = (\<lambda>tenant i (s, l). jc_findByReversalOf db tenant i s),
      jc_create = (\<lambda>d. beside_log (jc_create db d))\<rparr>"

definition audited_tables :: "Directory \<Rightarrow> (JournalTables \<times> AuditEvent list) adjustment_client" where
  "audited_tables dir =
     \<lparr>ac_journal = with_log journal_tables,
      ac_findUser = (\<lambda>user tenant s. Inr (di_user dir user tenant)),
      ac_findCases = (\<lambda>ids tenant s. Inr (filter (\<lambda>i. i \<in> set ids) (di_cases dir tenant))),
      ac_findClients = (\<lambda>ids tenant s. Inr (filter (\<lambda>i. i \<in> set ids) (di_clients dir tenant))),
      ac_findCaseClients = (\<lambda>ids tenant s. Inr (filter (\<lambda>i. i \<in> set ids) (di_caseClients dir tenant))),
      ac_audit = (\<lambda>event (t, events). (Inr (), (t, events @ [event])))\<rparr>"

lemma with_log_simps [simp]:
  "jc_findBySource (with_log db) k (s, l) = jc_findBySource db k s"
  "jc_findByIdempotencyKey (with_log db) tenant key (s, l) = jc_findByIdempotencyKey db tenant key s"
  "jc_findOriginal (with_log db) i (s, l) = jc_findOriginal db i s"
  "jc_findByReversalOf (with_log db) tenant i (s, l) = jc_findByReversalOf db tenant i s"
  "jc_create (with_log db) d (s, l) = (case jc_create db d s of (r, s') \<Rightarrow> (r, (s', l)))"
  by (simp_all add: with_log_def beside_log_def)

lemma with_log_checks:
  "findBySource (with_log db) draft (s, l) = findBySource db draft s"
  "findByReversalOf (with_log db) draft (s, l) = findByReversalOf db draft s"
  "validateReversalOriginal (with_log db) draft (s, l) = validateReversalOriginal db draft s"
  by (auto simp: findBySource_def findByReversalOf_def validateReversalOriginal_def split: option.split)

lemma write_with_log:
  "writeJournal other (with_log db) draft (s, l) =
     (case writeJournal other db draft s of (r, s') \<Rightarrow> (r, (s', l)))"
proof -
  have conflict: "after_conflict (with_log db) draft e (s, l) =
      (case after_conflict db draft e s of (r, s') \<Rightarrow> (r, (s', l)))" for e s
    by (auto simp: after_conflict_def with_log_checks Let_def split: option.split sum.split)
  show ?thesis
    by (auto simp: writeJournal_def writeValidatedDraft_def create_entry_def with_log_checks conflict
        split: option.split sum.split prod.split)
qed

subsection \<open>References\<close>

lemma set_distinctNonNull [simp]: "set (distinctNonNull ids) = {i. Some i \<in> set ids}"
  by (force simp: distinctNonNull_def List.map_filter_def)

lemma findMissing_None: "findMissing ids found = None \<longleftrightarrow> set ids \<subseteq> set found"
  by (auto simp: findMissing_def find_None_iff)

lemma findMissing_Some: "findMissing ids found = Some i \<Longrightarrow> i \<in> set ids"
  by (auto simp: findMissing_def find_Some_iff)

definition refers :: "jstr list \<Rightarrow> jstr option \<Rightarrow> bool" where
  "refers ids ref \<longleftrightarrow> (case ref of None \<Rightarrow> True | Some i \<Rightarrow> i \<in> set ids)"

definition lines_refer :: "Directory \<Rightarrow> jstr \<Rightarrow> ManualAdjustmentJournalLinePayload list \<Rightarrow> bool" where
  "lines_refer dir tenant lines \<longleftrightarrow>
     list_all (\<lambda>l. refers (di_cases dir tenant) (ml_caseId l) \<and> refers (di_clients dir tenant) (ml_clientId l) \<and>
       refers (di_caseClients dir tenant) (ml_caseClientId l)) lines"

text \<open>Normalized references are not empty, so a missing one is always reported.\<close>

definition references_named :: "ManualAdjustmentJournalLinePayload list \<Rightarrow> bool" where
  "references_named lines \<longleftrightarrow>
     list_all (\<lambda>l. ml_caseId l \<noteq> Some [] \<and> ml_clientId l \<noteq> Some [] \<and> ml_caseClientId l \<noteq> Some []) lines"

lemma missing_reported:
  assumes "[] \<notin> {i. Some i \<in> set refs}"
  shows "truthy (findMissing (distinctNonNull refs) (filter (\<lambda>i. i \<in> set (distinctNonNull refs)) owned)) \<longleftrightarrow>
    \<not> list_all (refers owned) refs"
proof (cases "findMissing (distinctNonNull refs) (filter (\<lambda>i. i \<in> set (distinctNonNull refs)) owned)")
  case None
  then have "list_all (refers owned) refs"
    by (auto simp: findMissing_None list_all_iff refers_def split: option.split)
  then show ?thesis unfolding None by (simp add: truthy_def)
next
  case (Some i)
  then have "Some i \<in> set refs" "i \<notin> set owned"
    using findMissing_Some [OF Some] by (auto simp: findMissing_def find_Some_iff)
  then have "\<not> list_all (refers owned) refs" "i \<noteq> []"
    using assms by (auto simp: list_all_iff refers_def split: option.split)
  then show ?thesis unfolding Some by (simp add: truthy_def)
qed

lemma references_checked:
  assumes "references_named lines"
  shows "assertLineReferencesInTenant (audited_tables dir) tenant lines s = None \<longleftrightarrow> lines_refer dir tenant lines"
proof -
  have named: "[] \<notin> {i. Some i \<in> set (map ml_caseId lines)}" "[] \<notin> {i. Some i \<in> set (map ml_clientId lines)}"
    "[] \<notin> {i. Some i \<in> set (map ml_caseClientId lines)}"
    using assms by (auto simp: references_named_def list_all_iff)
  have empty: "(if distinctNonNull refs = [] then Inr [] else Inr (filter (\<lambda>i. i \<in> set (distinctNonNull refs)) owned)) =
      (Inr (filter (\<lambda>i. i \<in> set (distinctNonNull refs)) owned) :: journal_failure + jstr list)" for refs owned
    by (simp del: set_distinctNonNull)
  show ?thesis
    unfolding assertLineReferencesInTenant_def Let_def audited_tables_def adjustment_client.simps empty sum.case
      missing_reported [OF named(1)] missing_reported [OF named(2)] missing_reported [OF named(3)]
    by (auto simp: lines_refer_def list_all_iff)
qed

subsection \<open>Normalized requests\<close>

lemma normalizeOptionalString_ne: "normalizeOptionalString v \<noteq> Some []"
  by (cases v) (auto simp: Let_def)

lemma requireTrimmed_Inr: "adjustment_requireTrimmed v field = Inr s \<Longrightarrow> s \<noteq> [] \<and> js_trim s = s"
  by (cases v) (auto simp: js_trim_trim split: if_split_asm)

lemma collect_results_Inr: "collect_results rs = Inr xs \<Longrightarrow> rs = map Inr xs"
  by (induction rs arbitrary: xs rule: collect_results.induct) (auto simp: map_sum_def split: sum.split_asm)

lemma normalized_named:
  assumes "normalizeAdjustment tenantId actorUserId input = Inr n"
  shows "nm_tenantId n \<noteq> []" "nm_idempotencyKey n \<noteq> []" "js_trim (nm_idempotencyKey n) = nm_idempotencyKey n"
    "nm_currency n \<noteq> []" "js_trim (nm_reason n) \<noteq> []" "references_named (nm_lines n)"
proof -
  note a = assms [unfolded normalizeAdjustment_def]
  show "nm_tenantId n \<noteq> []" "nm_idempotencyKey n \<noteq> []" "js_trim (nm_idempotencyKey n) = nm_idempotencyKey n"
    "nm_currency n \<noteq> []" "js_trim (nm_reason n) \<noteq> []"
    using a by (auto simp: guard_simps dest!: requireTrimmed_Inr split: option.split_asm)
  obtain lines where "collect_results (map normalizeLine lines) = Inr (nm_lines n)"
    using a by (auto simp: guard_simps split: option.split_asm)
  then have rs: "map normalizeLine lines = map Inr (nm_lines n)" by (rule collect_results_Inr)
  have line: "ml_caseId m \<noteq> Some [] \<and> ml_clientId m \<noteq> Some [] \<and> ml_caseClientId m \<noteq> Some []"
    if "m \<in> set (nm_lines n)" for m
  proof -
    have "Inr m \<in> set (map normalizeLine lines)" using that unfolding rs by simp
    then obtain l where "normalizeLine l = Inr m" by auto
    then show ?thesis
      using normalizeOptionalString_ne by (auto simp: normalizeLine_def guard_simps)
  qed
  then show "references_named (nm_lines n)" by (simp add: references_named_def list_all_iff)
qed

subsection \<open>The draft\<close>

definition adjustment_key :: "NormalizedManualAdjustmentInput \<Rightarrow> jstr" where
  "adjustment_key n =
     buildJournalIdempotencyKey
       \<lparr>im_tenantId = nm_tenantId n, im_sourceType = js ''ACCOUNTING_JOURNAL_ENTRY'',
        im_sourceId = nm_idempotencyKey n, im_sourceAction = MANUAL_ADJUSTMENT_SOURCE_ACTION,
        im_sourceVersion = MANUAL_ADJUSTMENT_SOURCE_VERSION\<rparr>"

lemma source_members [simp]:
  "so_tenantId (adjustment_source now h n) = nm_tenantId n"
  "so_sourceId (adjustment_source now h n) = nm_idempotencyKey n"
  "so_sourceVersion (adjustment_source now h n) = MANUAL_ADJUSTMENT_SOURCE_VERSION"
  "so_sourceAction (adjustment_source now h n) = MANUAL_ADJUSTMENT_SOURCE_ACTION"
  "so_occurredAt (adjustment_source now h n) = toISOString now"
  "so_effectiveDate (adjustment_source now h n) = take 10 (toISOString now)"
  "so_currency (adjustment_source now h n) = nm_currency n"
  "so_sourceHash (adjustment_source now h n) = Some h"
  "so_payload (adjustment_source now h n) = adjustment_payload n"
  by (simp_all add: adjustment_source_def Let_def)

lemma payload_members [simp]:
  "mp_amount (adjustment_payload n) = nm_amount n" "mp_reason (adjustment_payload n) = nm_reason n"
  "mp_lines (adjustment_payload n) = nm_lines n"
  by (simp_all add: adjustment_payload_def)

text \<open>Whatever is drafted for a manual adjustment has the source, the tenant and the lines of the request.\<close>

definition adjustment_draft :: "int \<Rightarrow> jstr \<Rightarrow> NormalizedManualAdjustmentInput \<Rightarrow> ValidatedJournalEntryDraft \<Rightarrow> bool" where
  "adjustment_draft now h n v \<longleftrightarrow>
     journal_draft v \<and> je_lines v = adjustment_lines (adjustment_source now h n) \<and>
     je_tenantId v = nm_tenantId n \<and> je_sourceType v = js ''ACCOUNTING_JOURNAL_ENTRY'' \<and>
     je_sourceId v = nm_idempotencyKey n \<and> je_sourceAction v = MANUAL_ADJUSTMENT_SOURCE_ACTION \<and>
     je_sourceVersion v = MANUAL_ADJUSTMENT_SOURCE_VERSION \<and>
     je_entryType v = js ''ACCOUNTING_JOURNAL_MANUAL_ADJUSTMENT'' \<and> je_sourceOccurredAt v = toISOString now \<and>
     je_idempotencyKey v = adjustment_key n \<and> je_reversalOf v = None \<and> je_sourceHash v = Some h"

lemma drafted:
  assumes "adjustment_validateBuiltDraft (buildAccountingJournal
      (JournalEntrySource (ManualAdjustmentSource (adjustment_source now h n)))) = Inr v"
  shows "adjustment_draft now h n v"
proof -
  let ?s = "adjustment_source now h n"
  obtain d where b: "buildAccountingJournal (JournalEntrySource (ManualAdjustmentSource ?s)) = Inr d"
    and v: "validateJournalDraft d = Inr v"
    using assms by (auto simp: adjustment_validateBuiltDraft_def guard_simps split: sum.split_asm)
  have m: "buildManualAdjustmentJournal ?s = Inr d" using b by (simp add: buildAccountingJournalEntryJournal_def)
  note f = m [unfolded buildManualAdjustmentJournal_def Let_def build_guard, folded adjustment_lines_def,
      THEN conjunct2, THEN conjunct2]
  have "v = validated_draft d" using v by (simp add: validateJournalDraft_Inr)
  moreover have "je_sourceHash d = Some h" using f by (simp add: finish_draft_Inr)
  moreover have "journal_draft v" unfolding journal_draft_def using b v by blast
  ultimately show ?thesis
    using finished [OF f]
    by (simp add: adjustment_draft_def adjustment_key_def journalIdempotencyMaterialFromSource_def)
qed

subsection \<open>Acceptable requests\<close>

text \<open>Two lines or more on known accounts, amounts that the columns hold, and both sides equal to the
  amount of the request.\<close>

definition side_total :: "jstr \<Rightarrow> NormalizedManualAdjustmentInput \<Rightarrow> int" where
  "side_total direction n =
     sum_list (map (\<lambda>l. if ml_direction l = direction then cents (ml_amount l) else 0) (nm_lines n))"

definition acceptable :: "NormalizedManualAdjustmentInput \<Rightarrow> bool" where
  "acceptable n \<longleftrightarrow>
     money_ok (nm_amount n) \<and> 2 \<le> length (nm_lines n) \<and> length (nm_lines n) < 2 ^ 31 - 1 \<and>
     list_all (\<lambda>l. ml_accountCode l \<in> set ACCOUNT_CODES \<and> ml_direction l \<in> {DEBIT, CREDIT} \<and>
       money_ok (ml_amount l) \<and> cents (ml_amount l) < 10 ^ 15) (nm_lines n) \<and>
     side_total DEBIT n = cents (nm_amount n) \<and> side_total CREDIT n = cents (nm_amount n)"

lemma hashable_money:
  "money_ok a \<Longrightarrow> hashable path (VStr a)"
  by (rule hashable.string) (use normalize_money in blast)

lemma index_no_amount: "\<not> isAmountField (path @ [js_of_nat i]) no_options"
proof -
  have "js_digit (last (js_of_nat i))"
    using js_of_nat_digits [of i] last_in_set [OF js_of_nat_ne_Nil] by (auto simp: list_all_iff)
  then have "last (js_of_nat i) \<noteq> 116" by (auto simp: js_digit_def)
  then show ?thesis
    by (auto simp: isAmountField_def last_key_def no_options_def DEFAULT_AMOUNT_FIELD_NAMES_def Let_def
        js_eval dest: ends_with_last)
qed

lemma hashable_adjustment:
  assumes "money_ok (nm_amount n)" "list_all (\<lambda>l. money_ok (ml_amount l)) (nm_lines n)"
  shows "hashable [] (adjustment_hash_value n)"
proof -
  have empty: "\<not> isAmountField [] no_options" by (simp add: isAmountField_def last_key_def)
  have line: "hashable path (adjustment_line_value l)" if "money_ok (ml_amount l)" "\<not> isAmountField path no_options" for path l
    unfolding adjustment_line_value_def using that
    by (intro hashable_obj_of) (auto simp: path_amount intro: hashable_or_null hashable.string hashable_money)
  have lines: "hashable ([js ''payload''] @ [js ''lines'']) (VArr (map adjustment_line_value (nm_lines n)))"
  proof (rule hashable.array)
    show "\<not> isAmountField ([js ''payload''] @ [js ''lines'']) no_options" by (simp only: path_amount) simp
    fix i v assume "(i, v) \<in> set (indexed (map adjustment_line_value (nm_lines n)))"
    then have "v \<in> set (map adjustment_line_value (nm_lines n))" by (auto simp: in_set_indexed)
    then obtain l where l: "l \<in> set (nm_lines n)" "v = adjustment_line_value l" by auto
    then have "money_ok (ml_amount l)" using assms(2) by (simp add: list_all_iff)
    then show "hashable (([js ''payload''] @ [js ''lines'']) @ [js_of_nat i]) v"
      unfolding l(2) by (rule line) (rule index_no_amount)
  qed
  have "hashable [js ''payload''] (adjustment_payload_value (adjustment_payload n))"
    unfolding adjustment_payload_value_def
    by (rule hashable_obj_of) (use lines assms(1) in \<open>auto simp: path_amount [of "[]", simplified]
        path_amount [of "[js ''payload'']", simplified] adjustment_payload_def
        intro: hashable_or_null hashable.string hashable_money\<close>)
  then show ?thesis
    unfolding adjustment_hash_value_def
    by (intro hashable_obj_of) (use empty in \<open>auto simp: path_amount [of "[]", simplified]
        intro!: hashable_or_null hashable.string\<close>)
qed

lemma acceptable_source:
  assumes "acceptable n"
  obtains h where "createCanonicalSourceHash sha no_options (adjustment_hash_value n) = Inr h"
    "\<And>now. buildManualAdjustmentSource sha now n = Inr (adjustment_source now h n)"
proof -
  have "money_ok (nm_amount n)" "list_all (\<lambda>l. money_ok (ml_amount l)) (nm_lines n)"
    using assms by (auto simp: acceptable_def list_all_iff)
  from hashable_hash [OF hashable_adjustment [OF this], of sha] obtain h
    where "createCanonicalSourceHash sha no_options (adjustment_hash_value n) = Inr h" by blast
  then show thesis by (intro that [of h]) (simp_all add: buildManualAdjustmentSource_def)
qed

lemma acceptable_draft:
  assumes n: "normalizeAdjustment tenantId actorUserId input = Inr n" "acceptable n"
  obtains v where "adjustment_validateBuiltDraft (buildAccountingJournal
      (JournalEntrySource (ManualAdjustmentSource (adjustment_source now h n)))) = Inr v"
    "adjustment_draft now h n v"
proof -
  let ?s = "adjustment_source now h n"
  note named = normalized_named [OF n(1)]
  have "source_named ?s"
    using named by (simp add: source_named_def MANUAL_ADJUSTMENT_SOURCE_ACTION_def MANUAL_ADJUSTMENT_SOURCE_VERSION_def)
  then obtain d where d: "buildManualAdjustmentJournal ?s = Inr d"
    using n(2) named(5) by (simp add: buildManualAdjustmentJournal_def Let_def acceptable_def finish_draft_Inr)
  have codes: "[] \<notin> set ACCOUNT_CODES" by (simp add: ACCOUNT_CODES_def)
  have "source_complete (JournalEntrySource (ManualAdjustmentSource ?s))"
    using n(2) named(4) codes
    by (auto simp: acceptable_def Let_def entry_complete_def toISOString_ne_Nil MANUAL_ADJUSTMENT_SOURCE_ACTION_def
        side_total_def list_all_iff)
  then obtain v where v: "validateJournalDraft d = Inr v"
    using manual_adjustment_validates [OF d] by blast
  have "adjustment_validateBuiltDraft (buildAccountingJournal (JournalEntrySource (ManualAdjustmentSource ?s))) = Inr v"
    by (simp add: buildAccountingJournalEntryJournal_def d adjustment_validateBuiltDraft_def v)
  from this drafted [OF this] show thesis by (rule that)
qed

subsection \<open>The transaction on the tables\<close>

lemma adjustment_on_tables:
  assumes "buildManualAdjustmentSource sha now n = Inr source"
    and "adjustment_validateBuiltDraft (buildAccountingJournal (JournalEntrySource (ManualAdjustmentSource source))) = Inr v"
  shows "transaction (adjustment_in_transaction other sha now (audited_tables dir) n) (t, events) =
    (case writeJournal other journal_tables v t of
       (Inl f, t') \<Rightarrow> (Inl (DbException f), (t, events))
     | (Inr (Inl errors), t') \<Rightarrow> (Inl (adjustment_writerFailure errors), (t, events))
     | (Inr (Inr out), t') \<Rightarrow>
         (Inr (adjustment_result out),
          (t', if wo_status out = CREATED then events @ [adjustment_audit n out] else events)))"
  unfolding transaction_def adjustment_in_transaction_def assms sum.case audited_tables_def
    adjustment_client.simps write_with_log
  by (auto split: prod.split sum.split)

lemma adjustment_transaction_cases:
  assumes "transaction (adjustment_in_transaction other sha now (audited_tables dir) n) (t, events) = (result, (t', events'))"
    and "(t', events') \<noteq> (t, events)"
  obtains h v out where "adjustment_draft now h n v" "writeJournal other journal_tables v t = (Inr (Inr out), t')"
    "result = Inr (adjustment_result out)" "events' = (if wo_status out = CREATED then events @ [adjustment_audit n out] else events)"
proof (cases "createCanonicalSourceHash sha no_options (adjustment_hash_value n)")
  case (Inl e)
  then show thesis using assms
    by (simp add: transaction_def adjustment_in_transaction_def buildManualAdjustmentSource_def)
next
  case (Inr h)
  then have b: "buildManualAdjustmentSource sha now n = Inr (adjustment_source now h n)"
    by (simp add: buildManualAdjustmentSource_def)
  show thesis
  proof (cases "adjustment_validateBuiltDraft (buildAccountingJournal
      (JournalEntrySource (ManualAdjustmentSource (adjustment_source now h n))))")
    case (Inl e)
    then show thesis using assms by (simp add: transaction_def adjustment_in_transaction_def b)
  next
    case d: (Inr v)
    show thesis
      using assms that [OF drafted [OF d]] unfolding adjustment_on_tables [OF b d]
      by (auto split: prod.split_asm sum.split_asm)
  qed
qed

lemma replay_keeps:
  "writeJournal other journal_tables draft t = (Inr (Inr out), t') \<Longrightarrow> wo_status out \<noteq> CREATED \<Longrightarrow> t' = t"
  by (auto simp: writeJournal_def writeValidatedDraft_def create_entry_def after_conflict_def Let_def
      dest!: insert_entry_Inl split: sum.split_asm option.split_asm prod.split_asm if_split_asm)


definition adjustment_key_free :: "JournalTables \<Rightarrow> NormalizedManualAdjustmentInput \<Rightarrow> bool" where
  "adjustment_key_free t n \<longleftrightarrow>
     list_all (\<lambda>r. data_source (jr_data r) \<noteq> (nm_tenantId n, js ''ACCOUNTING_JOURNAL_ENTRY'', nm_idempotencyKey n,
         MANUAL_ADJUSTMENT_SOURCE_ACTION) \<and>
       data_key (jr_data r) \<noteq> (nm_tenantId n, adjustment_key n)) (jt_entries t)"

lemma line_count: "length (adjustment_lines s) = length (mp_lines (so_payload s))"
  by (simp add: adjustment_lines_def)

lemma trimmed_not_blank: "js_trim s \<noteq> [] \<Longrightarrow> not_blank s"
proof (rule ccontr)
  assume "js_trim s \<noteq> []" "\<not> not_blank s"
  moreover from this(2) have "dropWhile js_whitespace s = []"
    by (auto simp: not_blank_def list_ex_iff js_whitespace_def)
  ultimately show False by (simp add: js_trim_def)
qed

lemma adjustment_storable:
  assumes n: "normalizeAdjustment tenantId actorUserId input = Inr n" "acceptable n"
    and now: "valid_date ymd" "0 \<le> ms" "ms < ms_per_day" "now = time_of_date ymd + ms"
    and v: "adjustment_draft now h n v"
  shows "entry_storable (entry_data other v)"
proof -
  note f = v [unfolded adjustment_draft_def]
  have line: "line_storable (manualAdjustmentLine s (int i + 1) l)"
    if "(i, l) \<in> set (indexed (nm_lines n))" for i l s
  proof -
    have "i < length (nm_lines n)" "l \<in> set (nm_lines n)" using that by (auto simp: in_set_indexed)
    then show ?thesis
      using n(2) line_number_ok_int [of "int i + 1"]
      by (auto simp: acceptable_def line_storable_def list_all_iff)
  qed
  have "not_blank (nm_idempotencyKey n)" using normalized_named [OF n(1)] by (intro trimmed_not_blank) simp_all
  then show ?thesis
    using line js_Date_toISOString(1) [OF now(1-3)]
    by (simp add: entry_storable_def entry_data_def f now(4) ENTRY_TYPES_def SOURCE_TYPES_def list_all_iff
        adjustment_lines_def MANUAL_ADJUSTMENT_SOURCE_ACTION_def adjustment_key_def
        buildJournalIdempotencyKey_def IDEMPOTENCY_PREFIX_def split: prod.split)
       (auto simp: not_blank_def js_eval)
qed

lemma adjustment_written:
  assumes n: "normalizeAdjustment tenantId actorUserId input = Inr n" "acceptable n"
    and free: "adjustment_key_free t n"
    and now: "valid_date ymd" "0 \<le> ms" "ms < ms_per_day" "now = time_of_date ymd + ms"
    and v: "adjustment_draft now h n v"
  shows "writeJournal other journal_tables v t =
    (Inr (Inr \<lparr>wo_status = CREATED, wo_journalEntryId = next_entry_id t,
       wo_idempotencyKey = adjustment_key n, wo_sourceVersion = MANUAL_ADJUSTMENT_SOURCE_VERSION,
       wo_lineCount = length (nm_lines n)\<rparr>),
     t\<lparr>jt_entries := jt_entries t @ [\<lparr>jr_id = next_entry_id t, jr_data = entry_data other v\<rparr>]\<rparr>)"
proof -
  note f = v [unfolded adjustment_draft_def]
  have draft: "journal_draft v" using f by blast
  have "reversed_entry v = None" using f by (simp add: reversed_entry_def)
  moreover have "ledger_of t (source_key v) = None"
    using free by (auto simp: ledger_of_find find_row_None adjustment_key_free_def list_all_iff source_key_def f)
  moreover have "find_row (\<lambda>r. data_key (jr_data r) = (je_tenantId v, je_idempotencyKey v)) t = None"
    using free by (auto simp: find_row_None adjustment_key_free_def list_all_iff f)
  moreover have "validateReversalOriginal journal_tables v t = Inr None"
    by (simp add: validateReversalOriginal_def f MANUAL_ADJUSTMENT_SOURCE_ACTION_def)
  moreover have "original_stored t (entry_data other v)"
    using f by (simp add: original_stored_def entry_data_def reversed_entry_def)
  ultimately show ?thesis
    using write_stores [OF draft adjustment_storable [OF n now v]] by (simp add: f line_count)
qed

subsection \<open>A request by an administrator\<close>

definition admitted :: "Directory \<Rightarrow> NormalizedManualAdjustmentInput \<Rightarrow> bool" where
  "admitted dir n \<longleftrightarrow>
     isOfficeAdminCapacity (capacityFromUser (di_user dir (nm_actorUserId n) (nm_tenantId n))) \<and>
     lines_refer dir (nm_tenantId n) (nm_lines n)"

lemma created_by_admin:
  assumes "normalizeAdjustment tenantId actorUserId input = Inr n"
  shows "createManualAdjustment other sha now (audited_tables dir) tenantId actorUserId input s =
    (if admitted dir n then transaction (adjustment_in_transaction other sha now (audited_tables dir) n) s
     else (Inl (if isOfficeAdminCapacity (capacityFromUser (di_user dir (nm_actorUserId n) (nm_tenantId n)))
                then the (assertLineReferencesInTenant (audited_tables dir) (nm_tenantId n) (nm_lines n) s)
                else http Forbidden ''ACCOUNTING_JOURNAL_MANUAL_ADJUSTMENT_FORBIDDEN''
                  ''This manual accounting journal adjustment requires PARTNER or MANAGER office-admin capacity.''), s))"
proof -
  have admin: "assertOfficeAdmin (audited_tables dir) tenant actor s =
      (if isOfficeAdminCapacity (capacityFromUser (di_user dir actor tenant)) then None
       else Some (http Forbidden ''ACCOUNTING_JOURNAL_MANUAL_ADJUSTMENT_FORBIDDEN''
         ''This manual accounting journal adjustment requires PARTNER or MANAGER office-admin capacity.''))"
    for actor tenant by (simp add: assertOfficeAdmin_def audited_tables_def)
  have refs: "assertLineReferencesInTenant (audited_tables dir) (nm_tenantId n) (nm_lines n) s = None \<longleftrightarrow>
      lines_refer dir (nm_tenantId n) (nm_lines n)"
    using references_checked normalized_named(6) [OF assms] .
  show ?thesis
    using refs by (auto simp: createManualAdjustment_def assms admin admitted_def split: option.split)
qed

lemma adjustment_posts:
  assumes n: "normalizeAdjustment tenantId actorUserId input = Inr n" "acceptable n" "admitted dir n"
    and free: "adjustment_key_free t n"
    and now: "valid_date ymd" "0 \<le> ms" "ms < ms_per_day"
    and h: "createCanonicalSourceHash sha no_options (adjustment_hash_value n) = Inr h"
  obtains v out t' where "adjustment_draft (time_of_date ymd + ms) h n v"
    "writeJournal other journal_tables v t = (Inr (Inr out), t')" "wo_status out = CREATED"
    "createManualAdjustment other sha (time_of_date ymd + ms) (audited_tables dir) tenantId actorUserId input (t, events) =
      (Inr (adjustment_result out), (t', events @ [adjustment_audit n out]))"
proof -
  let ?now = "time_of_date ymd + ms"
  have source: "buildManualAdjustmentSource sha ?now n = Inr (adjustment_source ?now h n)"
    by (simp add: buildManualAdjustmentSource_def h)
  obtain v where v: "adjustment_validateBuiltDraft (buildAccountingJournal
      (JournalEntrySource (ManualAdjustmentSource (adjustment_source ?now h n)))) = Inr v"
    "adjustment_draft ?now h n v"
    by (rule acceptable_draft [OF n(1,2)])
  note w = adjustment_written [OF n(1,2) free now refl v(2), of other]
  show thesis
    by (rule that [OF v(2) w]) (simp_all add: created_by_admin [OF n(1)] n(3) adjustment_on_tables [OF source v(1)] w)
qed

lemma replay_hash:
  assumes "adjustment_draft now h n v" "adjustment_draft now0 h0 n0 v0"
    and "nm_tenantId n0 = nm_tenantId n" "nm_idempotencyKey n0 = nm_idempotencyKey n"
  shows "source_key v = source_key v0"
    "replayOrRejectExisting v (existing_entry i (entry_data other v0)) =
      (if h0 \<noteq> [] \<and> h \<noteq> [] \<and> h0 \<noteq> h
       then Inl [writerError SOURCE_HASH_MISMATCH ''Accounting journal source hash mismatch on replay.'' v
             [(''existingSourceHash'', VStr h0), (''sourceHash'', VStr h)]]
       else Inr \<lparr>wo_status = REPLAYED, wo_journalEntryId = i, wo_idempotencyKey = adjustment_key n,
         wo_sourceVersion = MANUAL_ADJUSTMENT_SOURCE_VERSION, wo_lineCount = length (je_lines v0)\<rparr>)"
proof -
  note f = assms(1) [unfolded adjustment_draft_def] and f0 = assms(2) [unfolded adjustment_draft_def]
  have "adjustment_key n0 = adjustment_key n" using assms(3,4) by (simp add: adjustment_key_def)
  then show "source_key v = source_key v0"
    "replayOrRejectExisting v (existing_entry i (entry_data other v0)) =
      (if h0 \<noteq> [] \<and> h \<noteq> [] \<and> h0 \<noteq> h
       then Inl [writerError SOURCE_HASH_MISMATCH ''Accounting journal source hash mismatch on replay.'' v
             [(''existingSourceHash'', VStr h0), (''sourceHash'', VStr h)]]
       else Inr \<lparr>wo_status = REPLAYED, wo_journalEntryId = i, wo_idempotencyKey = adjustment_key n,
         wo_sourceVersion = MANUAL_ADJUSTMENT_SOURCE_VERSION, wo_lineCount = length (je_lines v0)\<rparr>)"
    using f f0 assms(3,4)
    by (auto simp: source_key_def replayOrRejectExisting_def existing_entry_def entry_data_def truthy_def)
qed

lemma adjustment_again:
  assumes n: "normalizeAdjustment tenantId actorUserId input = Inr n" "acceptable n" "admitted dir n"
    and h: "createCanonicalSourceHash sha no_options (adjustment_hash_value n) = Inr h"
    and w: "writeJournal other journal_tables v0 t0 = (Inr (Inr out), t)" "wo_status out = CREATED"
    and v0: "adjustment_draft now0 h0 n0 v0"
    and same: "nm_tenantId n0 = nm_tenantId n" "nm_idempotencyKey n0 = nm_idempotencyKey n"
  obtains v :: ValidatedJournalEntryDraft where "createManualAdjustment other sha now (audited_tables dir) tenantId actorUserId input (t, events) =
    (if h0 \<noteq> [] \<and> h \<noteq> [] \<and> h0 \<noteq> h
     then (Inl (adjustment_writerFailure [writerError SOURCE_HASH_MISMATCH
             ''Accounting journal source hash mismatch on replay.'' v
             [(''existingSourceHash'', VStr h0), (''sourceHash'', VStr h)]]), (t, events))
     else (Inr (adjustment_result (out\<lparr>wo_status := REPLAYED\<rparr>)), (t, events)))"
proof -
  have source: "buildManualAdjustmentSource sha now n = Inr (adjustment_source now h n)"
    by (simp add: buildManualAdjustmentSource_def h)
  obtain v where v: "adjustment_validateBuiltDraft (buildAccountingJournal
      (JournalEntrySource (ManualAdjustmentSource (adjustment_source now h n)))) = Inr v"
    "adjustment_draft now h n v"
    by (rule acceptable_draft [OF n(1,2)])
  note hash = replay_hash [OF v(2) v0 same]
  note again = ledger.written_once [OF w hash(1), unfolded hash(2)]
  have "out = \<lparr>wo_status = CREATED, wo_journalEntryId = wo_journalEntryId out,
      wo_idempotencyKey = adjustment_key n, wo_sourceVersion = MANUAL_ADJUSTMENT_SOURCE_VERSION,
      wo_lineCount = length (je_lines v0)\<rparr>"
    using ledger.write_created(3) [OF w] v0 same by (simp add: adjustment_draft_def adjustment_key_def)
  then have "out\<lparr>wo_status := REPLAYED\<rparr> = \<lparr>wo_status = REPLAYED, wo_journalEntryId = wo_journalEntryId out,
      wo_idempotencyKey = adjustment_key n, wo_sourceVersion = MANUAL_ADJUSTMENT_SOURCE_VERSION,
      wo_lineCount = length (je_lines v0)\<rparr>"
    by (cases out) simp
  then show thesis
    by (intro that [of v])
       (simp add: created_by_admin [OF n(1)] n(3) adjustment_on_tables [OF source v(1)] again)
qed

end
