(* ===== verification/AdjustmentProperties.thy ===== *)
theory AdjustmentProperties
  imports ManualAdjusted
begin

section \<open>Properties of manual adjustments\<close>

text \<open>
  What a request for a manual adjustment may do to the journal and the audit log, that an acceptable one
  is posted once, and that its key cannot be used for other content. The samples: a partner books a
  hundred from the clearing account to the client's payable.
\<close>

subsection \<open>A sample\<close>

definition sample_adjustment_line :: "jstr \<Rightarrow> string \<Rightarrow> ManualAdjustmentLineInput" where
  "sample_adjustment_line direction account =
     \<lparr>li_accountCode = js account, li_direction = direction, li_amount = VStr (js ''100.00''),
      li_caseId = VNull, li_clientId = VNull, li_caseClientId = VNull\<rparr>"

definition sample_request :: "string \<Rightarrow> CreateManualAdjustmentJournalEntryInput" where
  "sample_request reason =
     \<lparr>mi_idempotencyKey = VStr (js ''m1''), mi_sourceName = VStr (js ''desk''), mi_reason = VStr (js reason),
      mi_evidenceRef = VNull, mi_amount = VStr (js ''100.00''), mi_currency = VStr (js ''TRY''),
      mi_lines = Some [sample_adjustment_line DEBIT ''CASH_CLEARING'', sample_adjustment_line CREDIT ''CLIENT_PAYABLE'']\<rparr>"

definition sample_normalized :: "string \<Rightarrow> NormalizedManualAdjustmentInput" where
  "sample_normalized reason =
     \<lparr>nm_tenantId = js ''t1'', nm_actorUserId = js ''u1'', nm_idempotencyKey = js ''m1'', nm_sourceName = js ''desk'',
      nm_reason = js reason, nm_evidenceRef = None, nm_amount = js ''100.00'', nm_currency = js ''TRY'',
      nm_lines =
        [\<lparr>ml_accountCode = js ''CASH_CLEARING'', ml_direction = DEBIT, ml_amount = js ''100.00'',
          ml_caseId = None, ml_clientId = None, ml_caseClientId = None\<rparr>,
         \<lparr>ml_accountCode = js ''CLIENT_PAYABLE'', ml_direction = CREDIT, ml_amount = js ''100.00'',
          ml_caseId = None, ml_clientId = None, ml_caseClientId = None\<rparr>]\<rparr>"

definition sample_directory :: Directory where
  "sample_directory =
     \<lparr>di_user = (\<lambda>user tenant. Some \<lparr>cu_lawyer = Some (Some (js ''PARTNER'')), cu_staffMember = None\<rparr>),
      di_cases = (\<lambda>_. []), di_clients = (\<lambda>_. []), di_caseClients = (\<lambda>_. [])\<rparr>"

lemma sample_trimmed:
  "js_trim (js ''t1'') = js ''t1''" "js_trim (js ''u1'') = js ''u1''" "js_trim (js ''m1'') = js ''m1''"
  "js_trim (js ''desk'') = js ''desk''" "js_trim (js ''TRY'') = js ''TRY''" "js_trim (js ''100.00'') = js ''100.00''"
  unfolding js_trim_eq_iff by (simp_all add: js_eval js_whitespace_def)

lemma sample_normalizes:
  assumes "js_trim (js reason) = js reason" "10 \<le> length reason"
  shows "normalizeAdjustment (VStr (js ''t1'')) (VStr (js ''u1'')) (sample_request reason) = Inr (sample_normalized reason)"
proof -
  have "js reason \<noteq> []" "\<not> length (js reason) < 10" using assms(2) by (auto simp: js_def)
  moreover have "js ''t1'' \<noteq> []" "js ''u1'' \<noteq> []" "js ''m1'' \<noteq> []" "js ''desk'' \<noteq> []" "js ''TRY'' \<noteq> []"
    "js ''100.00'' \<noteq> []" by (simp_all add: js_eval)
  ultimately show ?thesis
    by (simp add: normalizeAdjustment_def sample_request_def sample_normalized_def sample_adjustment_line_def
        normalizeLine_def sample_trimmed assms(1) REASON_MIN_LENGTH_def)
qed

lemma sample_acceptable:
  "acceptable (sample_normalized reason)" "admitted sample_directory (sample_normalized reason)"
  "adjustment_key_free \<lparr>jt_entries = []\<rparr> (sample_normalized reason)"
proof -
  have "money_ok (js ''100.00'') \<and> cents (js ''100.00'') = 10000"
    by (simp add: money_ok_def cents_def parseMoney_def money_parts_def js_eval js_digit_def Let_def padEnd_def
        digits_val_def)
  then show "acceptable (sample_normalized reason)"
    by (simp add: acceptable_def sample_normalized_def side_total_def ACCOUNT_CODES_def)
  show "admitted sample_directory (sample_normalized reason)"
    by (simp add: admitted_def sample_directory_def sample_normalized_def capacityFromUser_def
        isOfficeAdminCapacity_def lines_refer_def refers_def)
  show "adjustment_key_free \<lparr>jt_entries = []\<rparr> (sample_normalized reason)"
    by (simp add: adjustment_key_free_def)
qed

abbreviation "sample_reason_a \<equiv> ''opening balance''"
abbreviation "sample_reason_b \<equiv> ''closing balance''"

lemma sample_reasons:
  "js_trim (js sample_reason_a) = js sample_reason_a" "js_trim (js sample_reason_b) = js sample_reason_b"
  unfolding js_trim_eq_iff by (simp_all add: js_eval js_whitespace_def)

lemma adjustment_date: "valid_date (2024, 3, 1)"
  by (simp add: valid_date_def daysInMonth_def)

abbreviation post_sample_by ::
  "(bytes \<Rightarrow> jstr) \<Rightarrow> int \<Rightarrow> string \<Rightarrow> JournalTables \<times> AuditEvent list \<Rightarrow>
   (reversal_exception + AccountingJournalManualAdjustmentResult) \<times> (JournalTables \<times> AuditEvent list)" where
  "post_sample_by sha now reason \<equiv>
     createManualAdjustment (\<lambda>_. None) sha now (audited_tables sample_directory) (VStr (js ''t1''))
       (VStr (js ''u1'')) (sample_request reason)"

lemma sample_posts:
  obtains out t' where "post_sample_by sha (time_of_date (2024, 3, 1) + 1) sample_reason_a (\<lparr>jt_entries = []\<rparr>, []) =
    (Inr (adjustment_result out), (t', [adjustment_audit (sample_normalized sample_reason_a) out]))"
proof -
  obtain h where h: "createCanonicalSourceHash sha no_options (adjustment_hash_value (sample_normalized sample_reason_a)) = Inr h"
    using acceptable_source [OF sample_acceptable(1)] by blast
  have day: "0 \<le> (1::int)" "1 < ms_per_day" by (simp_all add: ms_per_day_def)
  have length: "10 \<le> length sample_reason_a" by simp
  show thesis
    by (rule adjustment_posts [OF sample_normalizes [OF sample_reasons(1) length] sample_acceptable adjustment_date day h,
        where other = "\<lambda>_. None" and events = "[]"]) (use that in simp)
qed

subsection \<open>The properties\<close>

text \<open>C27: A request for a manual adjustment changes the journal only for an office administrator of the
  tenant whose lines name cases, clients and case clients of the tenant, and only in one way: one
  balanced entry of the tenant with exactly the lines of the request is appended, together with one
  audit event that names the entry and the actor. Whatever fails leaves journal and audit as they were.\<close>

theorem manual_adjustment_effects:
  assumes run: "createManualAdjustment other sha now (audited_tables dir) tenantId actorUserId input (t, events) =
      (result, (t', events'))"
    and changed: "(t', events') \<noteq> (t, events)"
  shows "\<exists>n row event res. normalizeAdjustment tenantId actorUserId input = Inr n \<and>
    isOfficeAdminCapacity (capacityFromUser (di_user dir (nm_actorUserId n) (nm_tenantId n))) \<and>
    lines_refer dir (nm_tenantId n) (nm_lines n) \<and>
    result = Inr res \<and> mr_status res = CREATED \<and> mr_journalEntryId res = jr_id row \<and>
    t' = t\<lparr>jt_entries := jt_entries t @ [row]\<rparr> \<and> events' = events @ [event] \<and>
    entry_balanced (jr_data row) \<and> jd_tenantId (jr_data row) = nm_tenantId n \<and>
    map (\<lambda>l. (ln_accountCode l, ln_direction l, ln_amount l)) (jd_lines (jr_data row)) =
      map (\<lambda>l. (ml_accountCode l, ml_direction l, ml_amount l)) (nm_lines n) \<and>
    av_entityId event = jr_id row \<and> av_userId event = nm_actorUserId n \<and> av_tenantId event = nm_tenantId n"
proof (cases "normalizeAdjustment tenantId actorUserId input")
  case (Inl e)
  then show ?thesis using run changed by (simp add: createManualAdjustment_def)
next
  case (Inr n)
  have adm: "admitted dir n" using run changed by (auto simp: created_by_admin [OF Inr] split: if_split_asm)
  then have "transaction (adjustment_in_transaction other sha now (audited_tables dir) n) (t, events) =
      (result, (t', events'))" using run by (simp add: created_by_admin [OF Inr])
  from adjustment_transaction_cases [OF this changed] obtain h v out where
    v: "adjustment_draft now h n v" and w: "writeJournal other journal_tables v t = (Inr (Inr out), t')"
    and result: "result = Inr (adjustment_result out)"
    and events: "events' = (if wo_status out = CREATED then events @ [adjustment_audit n out] else events)" .
  note f = v [unfolded adjustment_draft_def]
  have created: "wo_status out = CREATED" using replay_keeps [OF w] changed events by (cases "wo_status out = CREATED") auto
  let ?row = "\<lparr>jr_id = wo_journalEntryId out, jr_data = entry_data other v\<rparr>"
  have "t' = t\<lparr>jt_entries := jt_entries t @ [?row]\<rparr>"
    using ledger.write_created(1) [OF w created] by (simp add: insert_entry_Inr)
  moreover have "entry_balanced (entry_data other v)"
    using f validated_balanced by (auto simp: journal_draft_def)
  moreover have "map (\<lambda>l. (ln_accountCode l, ln_direction l, ln_amount l)) (adjustment_lines (adjustment_source now h n)) =
      map (\<lambda>l. (ml_accountCode l, ml_direction l, ml_amount l)) (nm_lines n)"
    using adjustment_lines_map [of "\<lambda>l. (ln_accountCode l, ln_direction l, ln_amount l)" "adjustment_source now h n"
        "\<lambda>l. (ml_accountCode l, ml_direction l, ml_amount l)"] by simp
  ultimately show ?thesis
    using Inr adm [unfolded admitted_def] created
    by (intro exI [of _ n] exI [of _ ?row] exI [of _ "adjustment_audit n out"] exI [of _ "adjustment_result out"])
       (simp add: result events f adjustment_result_def adjustment_audit_def entry_data_def)
qed

theorem manual_adjustment_effects_witness:
  "\<exists>row event. snd (post_sample_by (\<lambda>_. []) (time_of_date (2024, 3, 1) + 1) sample_reason_a (\<lparr>jt_entries = []\<rparr>, [])) =
     (\<lparr>jt_entries = [row]\<rparr>, [event]) \<and>
   entry_balanced (jr_data row) \<and> jd_tenantId (jr_data row) = js ''t1'' \<and> av_entityId event = jr_id row"
proof -
  obtain out t' where run: "post_sample_by (\<lambda>_. []) (time_of_date (2024, 3, 1) + 1) sample_reason_a (\<lparr>jt_entries = []\<rparr>, []) =
      (Inr (adjustment_result out), (t', [adjustment_audit (sample_normalized sample_reason_a) out]))"
    by (rule sample_posts)
  show ?thesis
    using manual_adjustment_effects [OF run] sample_normalizes [OF sample_reasons(1)]
    unfolding run by (auto simp: sample_normalized_def)
qed

text \<open>C28: An acceptable request is posted exactly once. When an administrator of the tenant names a free
  key, balanced lines on known accounts and amounts the columns hold, the entry is created; whenever the
  same request is sent again, the answer is the first one marked as a replay, and neither the journal nor
  the audit changes.\<close>

theorem manual_adjustment_posts_once:
  assumes n: "normalizeAdjustment tenantId actorUserId input = Inr n" "acceptable n" "admitted dir n"
    and free: "adjustment_key_free t n" and now: "valid_date ymd" "0 \<le> ms" "ms < ms_per_day"
  shows "\<exists>result s.
    createManualAdjustment other sha (time_of_date ymd + ms) (audited_tables dir) tenantId actorUserId input (t, events) =
      (Inr result, s) \<and>
    mr_status result = CREATED \<and> mr_lineCount result = length (nm_lines n) \<and>
    length (jt_entries (fst s)) = Suc (length (jt_entries t)) \<and>
    createManualAdjustment other sha later (audited_tables dir) tenantId actorUserId input s =
      (Inr (result\<lparr>mr_status := REPLAYED\<rparr>), s)"
proof -
  obtain h where h: "createCanonicalSourceHash sha no_options (adjustment_hash_value n) = Inr h"
    using acceptable_source [OF n(2)] by blast
  obtain v out t' where v: "adjustment_draft (time_of_date ymd + ms) h n v"
    and w: "writeJournal other journal_tables v t = (Inr (Inr out), t')" "wo_status out = CREATED"
    and first: "createManualAdjustment other sha (time_of_date ymd + ms) (audited_tables dir) tenantId actorUserId
        input (t, events) = (Inr (adjustment_result out), (t', events @ [adjustment_audit n out]))"
    by (rule adjustment_posts [OF n free now h])
  obtain x :: ValidatedJournalEntryDraft where
    second: "createManualAdjustment other sha later (audited_tables dir) tenantId actorUserId input
        (t', events @ [adjustment_audit n out]) =
      (Inr (adjustment_result (out\<lparr>wo_status := REPLAYED\<rparr>)), (t', events @ [adjustment_audit n out]))"
    by (rule adjustment_again [OF n h w v refl refl]) simp
  have "wo_lineCount out = length (nm_lines n)" "length (jt_entries t') = Suc (length (jt_entries t))"
    using adjustment_written [OF n(1,2) free now refl v, of other] w(1) by auto
  then show ?thesis
    using first second w(2)
    by (intro exI [of _ "adjustment_result out"] exI [of _ "(t', events @ [adjustment_audit n out])"])
       (simp add: adjustment_result_def)
qed

theorem manual_adjustment_posts_once_witness:
  "\<exists>result s. post_sample_by (\<lambda>_. []) (time_of_date (2024, 3, 1) + 1) sample_reason_a (\<lparr>jt_entries = []\<rparr>, []) = (Inr result, s) \<and>
     mr_status result = CREATED \<and>
     post_sample_by (\<lambda>_. []) 7 sample_reason_a s = (Inr (result\<lparr>mr_status := REPLAYED\<rparr>), s)"
  using manual_adjustment_posts_once [OF sample_normalizes [OF sample_reasons(1)] sample_acceptable adjustment_date,
    of 1 "\<lambda>_. None" "\<lambda>_. []" "[]" 7] by (auto simp: ms_per_day_def)



end
