(* ===== verification/PolicyTypes.thy ===== *)
theory PolicyTypes
  imports JournalReversal
begin

section \<open>Actions of the policy engine (policy-engine/types)\<close>

text \<open>
  The actions of a case with their risks, the matrix of how an action fails and locks, the scopes and the
  context of a request, and the decisions. Names, descriptions and notes for people are left out; the
  reason of a decision is a constructor instead of a sentence.
\<close>

subsection \<open>Action codes and risks\<close>

datatype ActionCode =
    UYAP_SEND | UYAP_QUERY | UYAP_DOCUMENT_SUBMIT | UYAP_LAWSUIT_FILE | REQUEST_EXPENSE | APPROVE_EXPENSE |
    RECORD_EXPENSE_PAYMENT | SEND_NOTIFICATION | SEND_DEBTOR_MSG | SEND_PAYMENT_ORDER |
    NOTIFICATION_DELIVERED | QUERY_ASSETS | QUERY_BANK_ACCOUNTS | QUERY_VEHICLES | TRIGGER_HACIZ |
    REQUEST_SALE | REQUEST_ENFORCEMENT | PROCEED_TO_ENFORCEMENT | EVICTION_REQUEST | CLOSE_CASE |
    FINALIZE_CASE | ARCHIVE_CASE | REOPEN_CASE | CONVERT_FROM_MTS | RECORD_COLLECTION | RECORD_PAYMENT |
    ADD_NAFAKA_PERIOD | UPDATE_EXCHANGE_RATE | EDIT_CASE | GENERATE_DOC | SYNC_UYAP | VIEW_FINANCE |
    EDIT_FINANCE | CHANGE_STATUS | EDIT_PARTIES | SIGN | DELETE_CASE | ASSIGN_LEGAL_RESPONSIBLE |
    MANAGE_OFFICE_CREDENTIALS | BANK_TRANSFER | CLIENT_OFFSET_APPLY | CLIENT_OFFSET_REVERSE |
    ACCOUNTING_JOURNAL_REVERSE | ACCOUNTING_JOURNAL_MANUAL_ADJUSTMENT | MANAGE_FEE_AGREEMENT |
    POST_COLLECTION_DISPOSITION | CLIENT_PAYOUT_POST | CLIENT_FINANCIAL_DISCLOSURE_APPROVE |
    CLAIM_ITEM_HIGH_IMPACT_CHANGE | FINANCIAL_CASE_CLOSE

datatype RiskLevel = HIGH | MEDIUM | LOW

definition ACTION_RISK_LEVELS :: "(ActionCode \<times> RiskLevel) list" where
  "ACTION_RISK_LEVELS =
    [
     (UYAP_SEND, HIGH), (UYAP_DOCUMENT_SUBMIT, HIGH), (UYAP_LAWSUIT_FILE, HIGH), (SEND_NOTIFICATION, HIGH),
     (SEND_PAYMENT_ORDER, HIGH), (TRIGGER_HACIZ, HIGH), (REQUEST_SALE, HIGH), (REQUEST_ENFORCEMENT, HIGH),
     (CLOSE_CASE, HIGH), (FINALIZE_CASE, HIGH), (EVICTION_REQUEST, HIGH), (APPROVE_EXPENSE, HIGH),
     (REQUEST_EXPENSE, MEDIUM), (SEND_DEBTOR_MSG, MEDIUM), (NOTIFICATION_DELIVERED, MEDIUM),
     (ARCHIVE_CASE, MEDIUM), (REOPEN_CASE, MEDIUM), (CONVERT_FROM_MTS, MEDIUM),
     (PROCEED_TO_ENFORCEMENT, MEDIUM), (RECORD_COLLECTION, MEDIUM), (UYAP_QUERY, LOW), (QUERY_ASSETS, LOW),
     (QUERY_BANK_ACCOUNTS, LOW), (QUERY_VEHICLES, LOW), (RECORD_EXPENSE_PAYMENT, LOW),
     (ADD_NAFAKA_PERIOD, LOW), (UPDATE_EXCHANGE_RATE, LOW), (RECORD_PAYMENT, LOW), (SIGN, HIGH),
     (CHANGE_STATUS, HIGH), (EDIT_CASE, MEDIUM), (GENERATE_DOC, MEDIUM), (EDIT_FINANCE, MEDIUM),
     (EDIT_PARTIES, MEDIUM), (SYNC_UYAP, LOW), (VIEW_FINANCE, LOW), (DELETE_CASE, HIGH),
     (ASSIGN_LEGAL_RESPONSIBLE, HIGH), (MANAGE_OFFICE_CREDENTIALS, HIGH), (BANK_TRANSFER, HIGH),
     (CLIENT_OFFSET_APPLY, HIGH), (CLIENT_OFFSET_REVERSE, HIGH), (ACCOUNTING_JOURNAL_REVERSE, HIGH),
     (ACCOUNTING_JOURNAL_MANUAL_ADJUSTMENT, HIGH), (MANAGE_FEE_AGREEMENT, HIGH),
     (POST_COLLECTION_DISPOSITION, HIGH), (CLIENT_PAYOUT_POST, HIGH),
     (CLIENT_FINANCIAL_DISCLOSURE_APPROVE, HIGH), (CLAIM_ITEM_HIGH_IMPACT_CHANGE, HIGH),
     (FINANCIAL_CASE_CLOSE, HIGH)]"

definition risk_level :: "ActionCode \<Rightarrow> RiskLevel" where
  "risk_level actionCode = the (map_of ACTION_RISK_LEVELS actionCode)"

definition getActionsByRiskLevel :: "RiskLevel \<Rightarrow> ActionCode list" where
  "getActionsByRiskLevel level = map fst (filter (\<lambda>(_, riskLevel). riskLevel = level) ACTION_RISK_LEVELS)"

subsection \<open>Scopes\<close>

datatype Scope = CASE | DEBTOR | ASSET | EXPENSE

fun SCOPE_HIERARCHY :: "Scope \<Rightarrow> Scope list" where
  "SCOPE_HIERARCHY CASE = [CASE]"
| "SCOPE_HIERARCHY DEBTOR = [DEBTOR, CASE]"
| "SCOPE_HIERARCHY ASSET = [ASSET, DEBTOR, CASE]"
| "SCOPE_HIERARCHY EXPENSE = [EXPENSE, CASE]"

definition getParentScopes :: "Scope \<Rightarrow> Scope list" where
  "getParentScopes scope = drop 1 (SCOPE_HIERARCHY scope)"

definition getScopeChain :: "Scope \<Rightarrow> Scope list" where
  "getScopeChain scope = SCOPE_HIERARCHY scope"

subsection \<open>The matrix\<close>

datatype FailMode = CLOSED | OPEN
datatype ResolverFailureMode = FAIL_CLOSED | FAIL_OPEN | SOFT_BLOCK
datatype LockScope = LockCase | LockDebtor | LockAsset | LockNone
datatype GateSeverity = HARD | SOFT

record ActionMatrixEntry =
  am_actionCode :: ActionCode
  am_riskLevel :: RiskLevel
  am_failMode :: FailMode
  am_resolverFailureMode :: ResolverFailureMode
  am_lockRequired :: bool
  am_lockScope :: LockScope
  am_gateSeverity :: GateSeverity
  am_cpeRequiredMandatory :: bool
  am_scope :: Scope
  am_stageIndependent :: bool

abbreviation (input) action_entry ::
  "ActionCode \<Rightarrow> RiskLevel \<Rightarrow> FailMode \<Rightarrow> ResolverFailureMode \<Rightarrow> bool \<Rightarrow> LockScope \<Rightarrow> GateSeverity \<Rightarrow> bool \<Rightarrow>
   Scope \<Rightarrow> bool \<Rightarrow> ActionMatrixEntry" where
  "action_entry code risk fail resolver lock lockScope severity mandatory scope stageIndependent \<equiv>
     \<lparr>am_actionCode = code, am_riskLevel = risk, am_failMode = fail, am_resolverFailureMode = resolver,
      am_lockRequired = lock, am_lockScope = lockScope, am_gateSeverity = severity,
      am_cpeRequiredMandatory = mandatory, am_scope = scope, am_stageIndependent = stageIndependent\<rparr>"

definition ACTION_MATRIX :: "ActionMatrixEntry list" where
  "ACTION_MATRIX =
    [
      action_entry UYAP_SEND HIGH CLOSED FAIL_CLOSED True LockCase HARD True CASE False,
      action_entry UYAP_DOCUMENT_SUBMIT HIGH CLOSED FAIL_CLOSED True LockCase HARD True CASE True,
      action_entry UYAP_LAWSUIT_FILE HIGH CLOSED FAIL_CLOSED True LockCase HARD True CASE True,
      action_entry TRIGGER_HACIZ HIGH CLOSED FAIL_CLOSED True LockAsset HARD True ASSET False,
      action_entry REQUEST_ENFORCEMENT HIGH CLOSED FAIL_CLOSED True LockCase HARD True CASE False,
      action_entry CLOSE_CASE HIGH CLOSED FAIL_CLOSED True LockCase HARD True CASE False,
      action_entry REQUEST_SALE HIGH CLOSED FAIL_CLOSED True LockAsset HARD True ASSET False,
      action_entry SEND_NOTIFICATION HIGH CLOSED FAIL_CLOSED True LockDebtor HARD True DEBTOR False,
      action_entry SEND_PAYMENT_ORDER HIGH CLOSED FAIL_CLOSED True LockCase HARD True CASE False,
      action_entry EVICTION_REQUEST HIGH CLOSED FAIL_CLOSED True LockCase HARD True CASE False,
      action_entry FINALIZE_CASE HIGH CLOSED FAIL_CLOSED True LockCase HARD True CASE False,
      action_entry APPROVE_EXPENSE HIGH CLOSED FAIL_CLOSED False LockNone HARD True EXPENSE True,
      action_entry REQUEST_EXPENSE MEDIUM CLOSED FAIL_CLOSED False LockNone HARD True CASE False,
      action_entry SEND_DEBTOR_MSG MEDIUM CLOSED FAIL_CLOSED False LockNone HARD True DEBTOR False,
      action_entry NOTIFICATION_DELIVERED MEDIUM CLOSED SOFT_BLOCK False LockNone HARD True DEBTOR False,
      action_entry ARCHIVE_CASE MEDIUM CLOSED FAIL_CLOSED False LockNone HARD True CASE False,
      action_entry REOPEN_CASE MEDIUM CLOSED FAIL_CLOSED False LockNone HARD True CASE False,
      action_entry CONVERT_FROM_MTS MEDIUM CLOSED SOFT_BLOCK False LockNone HARD False CASE False,
      action_entry PROCEED_TO_ENFORCEMENT MEDIUM CLOSED FAIL_CLOSED False LockNone HARD True CASE False,
      action_entry RECORD_COLLECTION MEDIUM CLOSED SOFT_BLOCK False LockNone HARD True CASE False,
      action_entry UYAP_QUERY LOW OPEN FAIL_OPEN False LockNone SOFT False CASE False,
      action_entry QUERY_ASSETS LOW OPEN FAIL_OPEN False LockNone SOFT False DEBTOR False,
      action_entry QUERY_BANK_ACCOUNTS LOW OPEN FAIL_OPEN False LockNone SOFT False DEBTOR False,
      action_entry QUERY_VEHICLES LOW OPEN FAIL_OPEN False LockNone SOFT False DEBTOR False,
      action_entry RECORD_EXPENSE_PAYMENT LOW OPEN FAIL_OPEN False LockNone SOFT False EXPENSE False,
      action_entry ADD_NAFAKA_PERIOD LOW OPEN FAIL_OPEN False LockNone SOFT False CASE False,
      action_entry UPDATE_EXCHANGE_RATE LOW OPEN FAIL_OPEN False LockNone SOFT False CASE False]"

definition getActionMatrixEntry :: "ActionCode \<Rightarrow> ActionMatrixEntry option" where
  "getActionMatrixEntry actionCode = List.find (\<lambda>entry. am_actionCode entry = actionCode) ACTION_MATRIX"

definition getResolverFailureMode :: "ActionCode \<Rightarrow> ResolverFailureMode" where
  "getResolverFailureMode actionCode =
     (case getActionMatrixEntry actionCode of None \<Rightarrow> FAIL_CLOSED | Some entry \<Rightarrow> am_resolverFailureMode entry)"

definition getFailMode :: "ActionCode \<Rightarrow> FailMode" where
  "getFailMode actionCode = (case getActionMatrixEntry actionCode of None \<Rightarrow> CLOSED | Some entry \<Rightarrow> am_failMode entry)"

definition isLockRequired :: "ActionCode \<Rightarrow> bool" where
  "isLockRequired actionCode =
     (case getActionMatrixEntry actionCode of None \<Rightarrow> False | Some entry \<Rightarrow> am_lockRequired entry)"

definition isStageIndependent :: "ActionCode \<Rightarrow> bool" where
  "isStageIndependent actionCode =
     (case getActionMatrixEntry actionCode of None \<Rightarrow> False | Some entry \<Rightarrow> am_stageIndependent entry)"

definition isCpeRequiredMandatory :: "ActionCode \<Rightarrow> bool" where
  "isCpeRequiredMandatory actionCode =
     (case getActionMatrixEntry actionCode of None \<Rightarrow> True | Some entry \<Rightarrow> am_cpeRequiredMandatory entry)"

text \<open>The matrix agrees with the table of risks, and no action of high risk may fail open.\<close>

lemma matrix_risk:
  "list_all (\<lambda>entry. map_of ACTION_RISK_LEVELS (am_actionCode entry) = Some (am_riskLevel entry)) ACTION_MATRIX"
  by (simp add: ACTION_MATRIX_def ACTION_RISK_LEVELS_def)

lemma risk_total: "\<exists>level. map_of ACTION_RISK_LEVELS code = Some level"
  by (cases code) (simp_all add: ACTION_RISK_LEVELS_def)

lemma getFailMode_OPEN:
  "getFailMode code = OPEN \<longleftrightarrow> code \<in> {UYAP_QUERY, QUERY_ASSETS, QUERY_BANK_ACCOUNTS, QUERY_VEHICLES,
     RECORD_EXPENSE_PAYMENT, ADD_NAFAKA_PERIOD, UPDATE_EXCHANGE_RATE}"
  by (cases code) (simp_all add: getFailMode_def getActionMatrixEntry_def ACTION_MATRIX_def)

lemma isStageIndependent_iff:
  "isStageIndependent code \<longleftrightarrow> code \<in> {APPROVE_EXPENSE, UYAP_DOCUMENT_SUBMIT, UYAP_LAWSUIT_FILE}"
  by (cases code) (simp_all add: isStageIndependent_def getActionMatrixEntry_def ACTION_MATRIX_def)

subsection \<open>Contexts and decisions\<close>

record ActionContext =
  cx_debtorId :: "jstr option"
  cx_assetId :: "jstr option"
  cx_expenseId :: "jstr option"
  cx_userId :: "jstr option"
  cx_source :: "jstr option"
  cx_metadata :: "jsobj option"
  cx_expectedStateVersion :: "jsnum option"
  cx_tenantId :: "jstr option"
  cx_authenticatedUserId :: "jstr option"
  cx_actingLawyerId :: "jstr option"
  cx_evaluatedAt :: "jsdate option"
  cx_uyapSubmitChannel :: "jstr option"

text \<open>A member of an optional context, when it is truthy.\<close>

definition context_id :: "(ActionContext \<Rightarrow> jstr option) \<Rightarrow> ActionContext option \<Rightarrow> jstr option" where
  "context_id member context =
     (case Option.bind context member of None \<Rightarrow> None | Some i \<Rightarrow> if i = [] then None else Some i)"

definition getScopeFromContext :: "ActionContext option \<Rightarrow> Scope" where
  "getScopeFromContext context =
     (if context_id cx_assetId context \<noteq> None then ASSET
      else if context_id cx_debtorId context \<noteq> None then DEBTOR
      else if context_id cx_expenseId context \<noteq> None then EXPENSE
      else CASE)"

datatype DecisionCode =
    OK | OK_WITH_WARNING | GATE_BLOCKED | INVALID_TRANSITION | MISSING_CONTEXT | CASE_NOT_FOUND
  | SYSTEM_ERROR_BLOCKED | LOCK_TIMEOUT | CONCURRENT_MODIFICATION | RESOLVER_ERROR_BLOCKED

record StateInfo =
  st_scope :: Scope
  st_currentState :: jstr
  st_contextId :: "jstr option"
  st_version :: int

end
