(* ===== verification/StateMachine.thy ===== *)
theory StateMachine
  imports PolicyTypes
begin

section \<open>The stages of a case (policy-engine/state-machine)\<close>

text \<open>
  A case goes through stages. A flow, compiled for a kind of proceeding, gives the stages with the actions
  they allow and the transitions the actions cause; the service checks a transition and applies it to the
  row of the case. The client of the database is a parameter. Texts for people are constructors.
\<close>

subsection \<open>Compiled flows\<close>

datatype IcraType = ILAMSIZ_GENEL | ILAMSIZ_KAMBIYO | ILAMLI | NAFAKA | KIRA | REHIN | IFLAS

record StageDefinition =
  sd_code :: jstr
  sd_isTerminal :: bool
  sd_allowedActions :: "ActionCode list"

record CompiledStateFlow =
  sf_icraType :: IcraType
  sf_stages :: "(jstr \<times> StageDefinition) list"
  sf_transitions :: "(jstr \<times> (ActionCode \<times> jstr) list) list"

abbreviation (input) stage_of :: "string \<Rightarrow> bool \<Rightarrow> ActionCode list \<Rightarrow> jstr \<times> StageDefinition" where
  "stage_of code isTerminal actions \<equiv>
     (js code, \<lparr>sd_code = js code, sd_isTerminal = isTerminal, sd_allowedActions = actions\<rparr>)"

definition ILAMSIZ_GENEL_STAGES :: "(jstr \<times> StageDefinition) list" where
  "ILAMSIZ_GENEL_STAGES =
     [stage_of ''INITIAL'' False [REQUEST_EXPENSE, APPROVE_EXPENSE, UYAP_SEND],
      stage_of ''UYAP_SENT'' False [UYAP_QUERY, REQUEST_EXPENSE, APPROVE_EXPENSE],
      stage_of ''PAYMENT_ORDER_SENT'' False [UYAP_QUERY, SEND_DEBTOR_MSG, REQUEST_EXPENSE, APPROVE_EXPENSE],
      stage_of ''NOTIFICATION_DELIVERED'' False [QUERY_ASSETS, QUERY_BANK_ACCOUNTS, QUERY_VEHICLES, REQUEST_ENFORCEMENT, REQUEST_EXPENSE, APPROVE_EXPENSE],
      stage_of ''WAITING_OBJECTION_PERIOD'' False [UYAP_QUERY, QUERY_ASSETS],
      stage_of ''ENFORCEMENT_REQUESTED'' False [TRIGGER_HACIZ, UYAP_QUERY, REQUEST_EXPENSE, APPROVE_EXPENSE],
      stage_of ''HACIZ_APPLIED'' False [REQUEST_SALE, UYAP_QUERY, REQUEST_EXPENSE, APPROVE_EXPENSE],
      stage_of ''SALE_REQUESTED'' False [UYAP_QUERY, REQUEST_EXPENSE, APPROVE_EXPENSE],
      stage_of ''COLLECTION_PENDING'' False [RECORD_COLLECTION, UYAP_QUERY],
      stage_of ''CLOSED_PAID'' True [REOPEN_CASE],
      stage_of ''CLOSED_SETTLED'' True [REOPEN_CASE],
      stage_of ''CLOSED_WITHDRAWN'' True [REOPEN_CASE],
      stage_of ''ARCHIVED'' True [REOPEN_CASE]]"

definition ILAMSIZ_GENEL_TRANSITIONS :: "(jstr \<times> (ActionCode \<times> jstr) list) list" where
  "ILAMSIZ_GENEL_TRANSITIONS =
     [(js ''INITIAL'', [(UYAP_SEND, js ''UYAP_SENT'')]),
      (js ''UYAP_SENT'', [(SEND_PAYMENT_ORDER, js ''PAYMENT_ORDER_SENT'')]),
      (js ''PAYMENT_ORDER_SENT'', [(SEND_NOTIFICATION, js ''NOTIFICATION_DELIVERED'')]),
      (js ''NOTIFICATION_DELIVERED'', [(REQUEST_ENFORCEMENT, js ''ENFORCEMENT_REQUESTED''), (PROCEED_TO_ENFORCEMENT, js ''ENFORCEMENT_REQUESTED'')]),
      (js ''WAITING_OBJECTION_PERIOD'', [(REQUEST_ENFORCEMENT, js ''ENFORCEMENT_REQUESTED'')]),
      (js ''ENFORCEMENT_REQUESTED'', [(TRIGGER_HACIZ, js ''HACIZ_APPLIED'')]),
      (js ''HACIZ_APPLIED'', [(REQUEST_SALE, js ''SALE_REQUESTED''), (RECORD_COLLECTION, js ''COLLECTION_PENDING'')]),
      (js ''SALE_REQUESTED'', [(RECORD_COLLECTION, js ''COLLECTION_PENDING'')]),
      (js ''COLLECTION_PENDING'', [(FINALIZE_CASE, js ''CLOSED_PAID'')]),
      (js ''CLOSED_PAID'', [(REOPEN_CASE, js ''INITIAL'')]),
      (js ''CLOSED_SETTLED'', [(REOPEN_CASE, js ''INITIAL'')]),
      (js ''CLOSED_WITHDRAWN'', [(REOPEN_CASE, js ''INITIAL'')]),
      (js ''ARCHIVED'', [(REOPEN_CASE, js ''INITIAL'')])]"

definition ILAMSIZ_KAMBIYO_STAGES :: "(jstr \<times> StageDefinition) list" where
  "ILAMSIZ_KAMBIYO_STAGES =
     [stage_of ''INITIAL'' False [REQUEST_EXPENSE, APPROVE_EXPENSE, UYAP_SEND],
      stage_of ''UYAP_SENT'' False [UYAP_QUERY, REQUEST_EXPENSE, APPROVE_EXPENSE],
      stage_of ''PAYMENT_ORDER_SENT'' False [UYAP_QUERY, SEND_DEBTOR_MSG],
      stage_of ''NOTIFICATION_DELIVERED'' False [QUERY_ASSETS, REQUEST_ENFORCEMENT],
      stage_of ''ENFORCEMENT_REQUESTED'' False [TRIGGER_HACIZ],
      stage_of ''HACIZ_APPLIED'' False [REQUEST_SALE, RECORD_COLLECTION],
      stage_of ''CLOSED_PAID'' True [REOPEN_CASE]]"

definition ILAMSIZ_KAMBIYO_TRANSITIONS :: "(jstr \<times> (ActionCode \<times> jstr) list) list" where
  "ILAMSIZ_KAMBIYO_TRANSITIONS =
     [(js ''INITIAL'', [(UYAP_SEND, js ''UYAP_SENT'')]),
      (js ''UYAP_SENT'', [(SEND_PAYMENT_ORDER, js ''PAYMENT_ORDER_SENT'')]),
      (js ''PAYMENT_ORDER_SENT'', [(SEND_NOTIFICATION, js ''NOTIFICATION_DELIVERED'')]),
      (js ''NOTIFICATION_DELIVERED'', [(REQUEST_ENFORCEMENT, js ''ENFORCEMENT_REQUESTED'')]),
      (js ''ENFORCEMENT_REQUESTED'', [(TRIGGER_HACIZ, js ''HACIZ_APPLIED'')]),
      (js ''HACIZ_APPLIED'', [(REQUEST_SALE, js ''SALE_REQUESTED''), (FINALIZE_CASE, js ''CLOSED_PAID'')]),
      (js ''CLOSED_PAID'', [(REOPEN_CASE, js ''INITIAL'')])]"

definition COMPILED_STATE_FLOWS :: "(IcraType \<times> CompiledStateFlow) list" where
  "COMPILED_STATE_FLOWS =
     [(ILAMSIZ_GENEL, \<lparr>sf_icraType = ILAMSIZ_GENEL, sf_stages = ILAMSIZ_GENEL_STAGES,
         sf_transitions = ILAMSIZ_GENEL_TRANSITIONS\<rparr>),
      (ILAMSIZ_KAMBIYO, \<lparr>sf_icraType = ILAMSIZ_KAMBIYO, sf_stages = ILAMSIZ_KAMBIYO_STAGES,
         sf_transitions = ILAMSIZ_KAMBIYO_TRANSITIONS\<rparr>)]"

definition DEFAULT_STATE_FLOW :: CompiledStateFlow where
  "DEFAULT_STATE_FLOW = the (map_of COMPILED_STATE_FLOWS ILAMSIZ_GENEL)"

definition getStateFlow :: "IcraType \<Rightarrow> CompiledStateFlow" where
  "getStateFlow icraType =
     (case map_of COMPILED_STATE_FLOWS icraType of None \<Rightarrow> DEFAULT_STATE_FLOW | Some flow \<Rightarrow> flow)"

definition getValidStages :: "IcraType \<Rightarrow> jstr list" where
  "getValidStages icraType = map fst (sf_stages (getStateFlow icraType))"

definition isTerminalStage :: "IcraType \<Rightarrow> jstr \<Rightarrow> bool" where
  "isTerminalStage icraType stageCode =
     (case map_of (sf_stages (getStateFlow icraType)) stageCode of None \<Rightarrow> False | Some stage \<Rightarrow> sd_isTerminal stage)"

subsection \<open>Transitions\<close>

datatype TransitionReason =
    UnknownStage jstr
  | CaseIsClosed
  | NoTransitionsFrom jstr
  | NoStateChange
  | NotInStage ActionCode
  | TransitionOk

record TransitionResult =
  tr_allowed :: bool
  tr_reason :: TransitionReason
  tr_targetState :: "jstr option"

abbreviation (input) refused_transition :: "TransitionReason \<Rightarrow> TransitionResult" where
  "refused_transition reason \<equiv> \<lparr>tr_allowed = False, tr_reason = reason, tr_targetState = None\<rparr>"

definition flow_for :: "IcraType option \<Rightarrow> CompiledStateFlow" where
  "flow_for icraType = (case icraType of None \<Rightarrow> DEFAULT_STATE_FLOW | Some kind \<Rightarrow> getStateFlow kind)"

definition canTransition :: "StateInfo \<Rightarrow> ActionCode \<Rightarrow> IcraType option \<Rightarrow> TransitionResult" where
  "canTransition currentState actionCode icraType =
     (let flow = flow_for icraType; stageCode = st_currentState currentState in
      case map_of (sf_stages flow) stageCode of
        None \<Rightarrow> refused_transition (UnknownStage stageCode)
      | Some stage \<Rightarrow>
        if sd_isTerminal stage \<and> actionCode \<noteq> REOPEN_CASE then refused_transition CaseIsClosed
        else case map_of (sf_transitions flow) stageCode of
          None \<Rightarrow> refused_transition (NoTransitionsFrom stageCode)
        | Some stageTransitions \<Rightarrow>
          let targetState = map_of stageTransitions actionCode in
          if \<not> truthy targetState
          then (if actionCode \<in> set (sd_allowedActions stage)
                then \<lparr>tr_allowed = True, tr_reason = NoStateChange, tr_targetState = Some stageCode\<rparr>
                else refused_transition (NotInStage actionCode))
          else \<lparr>tr_allowed = True, tr_reason = TransitionOk, tr_targetState = targetState\<rparr>)"

definition getAllowedActions :: "jstr \<Rightarrow> IcraType option \<Rightarrow> ActionCode list" where
  "getAllowedActions stageCode icraType =
     (case map_of (sf_stages (flow_for icraType)) stageCode of None \<Rightarrow> [] | Some stage \<Rightarrow> sd_allowedActions stage)"

definition isTerminal :: "jstr \<Rightarrow> IcraType option \<Rightarrow> bool" where
  "isTerminal stageCode icraType =
     isTerminalStage (case icraType of None \<Rightarrow> ILAMSIZ_GENEL | Some kind \<Rightarrow> kind) stageCode"

definition getAllStages :: "IcraType option \<Rightarrow> StageDefinition list" where
  "getAllStages icraType = map snd (sf_stages (flow_for icraType))"

definition getPossibleTransitions :: "jstr \<Rightarrow> IcraType option \<Rightarrow> (ActionCode \<times> jstr) list" where
  "getPossibleTransitions stageCode icraType =
     (case map_of (sf_transitions (flow_for icraType)) stageCode of None \<Rightarrow> [] | Some transitions \<Rightarrow> transitions)"

definition mapCaseTypeToIcraType :: "jstr option \<Rightarrow> jstr option \<Rightarrow> IcraType" where
  "mapCaseTypeToIcraType caseType subType =
     (if caseType = Some (js ''ILAMSIZ'')
      then (if subType = Some (js ''KAMBIYO'') then ILAMSIZ_KAMBIYO else ILAMSIZ_GENEL)
      else if caseType = Some (js ''ILAMLI'') then ILAMLI
      else if caseType = Some (js ''NAFAKA'') then NAFAKA
      else if caseType = Some (js ''KIRA'') then KIRA
      else if caseType = Some (js ''REHIN'') then REHIN
      else if caseType = Some (js ''IFLAS'') then IFLAS
      else ILAMSIZ_GENEL)"

subsection \<open>The row of a case\<close>

record CaseRow =
  cr_id :: jstr
  cr_tenantId :: jstr
  cr_caseStatus :: jstr
  cr_workflowStage :: jstr
  cr_type :: jstr
  cr_subType :: "jstr option"
  cr_isArchived :: bool
  cr_updatedAt :: int

text \<open>The client: a case by its identifier, the update of stage and time, which returns the time that was
  stored, and the end of the open entries of the history of stages.\<close>

record 's stage_client =
  sc_findCase :: "jstr \<Rightarrow> 's \<Rightarrow> journal_failure + CaseRow option"
  sc_updateStage :: "jstr \<Rightarrow> jstr \<Rightarrow> int \<Rightarrow> 's \<Rightarrow> (journal_failure + int) \<times> 's"
  sc_closeHistory :: "jstr \<Rightarrow> int \<Rightarrow> 's \<Rightarrow> (journal_failure + unit) \<times> 's"

datatype TransitionFailure =
    CaseNotFoundError jstr
  | ReasonText TransitionReason
  | VersionChanged
  | FailureText jstr

definition getCurrentState ::
  "'s stage_client \<Rightarrow> jstr \<Rightarrow> ActionContext option \<Rightarrow> 's \<Rightarrow> TransitionFailure + StateInfo" where
  "getCurrentState db caseId context s =
     (case sc_findCase db caseId s of
        Inl e \<Rightarrow> Inl (FailureText (jf_message e))
      | Inr None \<Rightarrow> Inl (CaseNotFoundError caseId)
      | Inr (Some caseData) \<Rightarrow> Inr
          \<lparr>st_scope = getScopeFromContext context, st_currentState = cr_workflowStage caseData,
           st_contextId = (case context_id cx_debtorId context of Some i \<Rightarrow> Some i
             | None \<Rightarrow> (case context_id cx_assetId context of Some i \<Rightarrow> Some i
                | None \<Rightarrow> Option.bind context cx_expenseId)),
           st_version = cr_updatedAt caseData\<rparr>)"

text \<open>Errors of the history are logged and swallowed.\<close>

definition recordStageHistory :: "'s stage_client \<Rightarrow> jstr \<Rightarrow> int \<Rightarrow> 's \<Rightarrow> 's" where
  "recordStageHistory db caseId now s = snd (sc_closeHistory db caseId now s)"

subsection \<open>Application of a transition\<close>

datatype TransitionCode = TC_OK | TC_VERSION_MISMATCH | TC_INVALID_TRANSITION | TC_ERROR

record ApplyTransitionResult =
  ar_success :: bool
  ar_code :: TransitionCode
  ar_newVersion :: "int option"
  ar_previousState :: "jstr option"
  ar_newState :: "jstr option"
  ar_errorMessage :: "TransitionFailure option"

definition failed_transition :: "TransitionCode \<Rightarrow> jstr option \<Rightarrow> TransitionFailure \<Rightarrow> ApplyTransitionResult" where
  "failed_transition code previous message =
     \<lparr>ar_success = False, ar_code = code, ar_newVersion = None, ar_previousState = previous,
      ar_newState = None, ar_errorMessage = Some message\<rparr>"

definition moved_transition :: "int \<Rightarrow> jstr \<Rightarrow> jstr \<Rightarrow> ApplyTransitionResult" where
  "moved_transition version previous target =
     \<lparr>ar_success = True, ar_code = TC_OK, ar_newVersion = Some version, ar_previousState = Some previous,
      ar_newState = Some target, ar_errorMessage = None\<rparr>"

definition applyTransition ::
  "'s stage_client \<Rightarrow> int \<Rightarrow> jstr \<Rightarrow> ActionCode \<Rightarrow> ActionContext option \<Rightarrow> jsnum option \<Rightarrow> 's \<Rightarrow>
   ApplyTransitionResult \<times> 's" where
  "applyTransition db now caseId actionCode context expectedVersion s =
     (case getCurrentState db caseId context s of
        Inl e \<Rightarrow> (failed_transition TC_ERROR None e, s)
      | Inr currentState \<Rightarrow>
      case sc_findCase db caseId s of
        Inl e \<Rightarrow> (failed_transition TC_ERROR None (FailureText (jf_message e)), s)
      | Inr caseData \<Rightarrow>
      let icraType = mapCaseTypeToIcraType (map_option cr_type caseData) (Option.bind caseData cr_subType);
          transitionResult = canTransition currentState actionCode (Some icraType);
          previous = st_currentState currentState in
      if \<not> tr_allowed transitionResult
      then (failed_transition TC_INVALID_TRANSITION (Some previous) (ReasonText (tr_reason transitionResult)), s)
      else if tr_targetState transitionResult = Some previous
      then (moved_transition (st_version currentState) previous previous, s)
      else if (case expectedVersion of None \<Rightarrow> False | Some expected \<Rightarrow> expected \<noteq> js_int (st_version currentState))
      then (failed_transition TC_VERSION_MISMATCH (Some previous) VersionChanged, s)
      else case sc_updateStage db caseId (the (tr_targetState transitionResult)) now s of
        (Inl e, s') \<Rightarrow> (failed_transition TC_ERROR None (FailureText (jf_message e)), s')
      | (Inr updatedAt, s') \<Rightarrow>
          (moved_transition updatedAt previous (the (tr_targetState transitionResult)),
           recordStageHistory db caseId now s'))"

end
