(* ===== verification/PolicyFacts.thy ===== *)
theory PolicyFacts
  imports StateMachine
begin

section \<open>Facts of a case (policy-engine/fact-store)\<close>

text \<open>
  A decision is taken on facts: a map from keys to values. Some are stored (two tables with free keys, one
  for flags), some are read from the row of the case, and some are computed by providers, which the
  registry runs in the order of their dependencies. The store keeps loaded facts for thirty seconds.
\<close>

subsection \<open>Values and keys\<close>

datatype FactValue =
    FactStr jstr
  | FactNum jsnum
  | FactBool bool
  | FactDate jsdate
  | FactNull
  | FactObj jsval

type_synonym FactMap = "jstr \<rightharpoonup> FactValue"

definition scope_prefix :: "Scope \<Rightarrow> jstr" where
  "scope_prefix scope =
     (case scope of CASE \<Rightarrow> js ''case'' | DEBTOR \<Rightarrow> js ''debtor'' | ASSET \<Rightarrow> js ''asset'' | EXPENSE \<Rightarrow> js ''expense'')"

definition DOT :: jstr where "DOT = js ''.''"

definition buildFactKey :: "Scope \<Rightarrow> jstr \<Rightarrow> jstr option \<Rightarrow> jstr" where
  "buildFactKey scope key contextId =
     (if truthy contextId then scope_prefix scope @ DOT @ the contextId @ DOT @ key
      else scope_prefix scope @ DOT @ key)"

definition starts_with :: "jstr \<Rightarrow> jstr \<Rightarrow> bool" where
  "starts_with key start \<longleftrightarrow> take (length start) key = start"

definition CLOSING_CASE_STATUSES :: "jstr list" where
  "CLOSING_CASE_STATUSES = map js
     [''HITAM'', ''INFAZ'', ''MUVEKKILE_IADE'', ''ACIZ'', ''BATAK'', ''MAHSUP'', ''TEMLIK'', ''AZIL'', ''FERAGAT'', ''SULH'']"

subsection \<open>Owned keys\<close>

definition COMPUTED_OWNED_FACT_KEYS :: "jstr list" where
  "COMPUTED_OWNED_FACT_KEYS = map js
     [''case.has_power_of_attorney'', ''actor.is_canonical_lawyer'', ''actor.has_matching_power_of_attorney'',
      ''poa.is_effective_at_evaluation_time'', ''poa.covers_requested_operation'', ''authority.is_unambiguous'',
      ''authority.failure_code'', ''actor.is_assigned_to_case'', ''case.has_unpaid_blocking_expense'',
      ''system.uyap_available'', ''system.uyap_availability_explicit'']"

definition DEPRECATED_LEGACY_FACT_KEYS :: "jstr list" where
  "DEPRECATED_LEGACY_FACT_KEYS = [js ''case.expense_gate_blocked'']"

definition NON_WRITABLE :: "jstr set" where
  "NON_WRITABLE = set (COMPUTED_OWNED_FACT_KEYS @ DEPRECATED_LEGACY_FACT_KEYS)"

definition isManuallyWritableFactKey :: "jstr \<Rightarrow> bool" where
  "isManuallyWritableFactKey factKey \<longleftrightarrow> factKey \<notin> NON_WRITABLE"

text \<open>The error names the first key that may not be written.\<close>

definition assertManuallyWritableFactKeys :: "jstr list \<Rightarrow> jstr option" where
  "assertManuallyWritableFactKeys factKeys = List.find (\<lambda>key. \<not> isManuallyWritableFactKey key) factKeys"

subsection \<open>The store\<close>

text \<open>The columns of a case that become facts.\<close>

record CaseFactRow =
  fr_caseStatus :: jstr
  fr_workflowStage :: jstr
  fr_isAutoMode :: bool
  fr_isAutomationEnabled :: bool
  fr_allowUyapActions :: bool
  fr_hasArticle4Request :: bool
  fr_isMtsCase :: bool
  fr_type :: jstr
  fr_subType :: "jstr option"
  fr_subCategory :: "jstr option"
  fr_currency :: jstr
  fr_principalAmount :: jsnum
  fr_createdAt :: int
  fr_nextActionAt :: "int option"
  fr_isArchived :: bool

definition or_fact_null :: "jstr option \<Rightarrow> FactValue" where
  "or_fact_null v = (case v of None \<Rightarrow> FactNull | Some s \<Rightarrow> FactStr s)"

definition case_facts :: "CaseFactRow \<Rightarrow> (jstr \<times> FactValue) list" where
  "case_facts row =
     [(js ''case.status'', FactStr (fr_caseStatus row)),
      (js ''case.workflow_stage'', FactStr (fr_workflowStage row)),
      (js ''case.is_auto_mode'', FactBool (fr_isAutoMode row)),
      (js ''case.is_automation_enabled'', FactBool (fr_isAutomationEnabled row)),
      (js ''case.allow_uyap_actions'', FactBool (fr_allowUyapActions row)),
      (js ''case.has_article_4_request'', FactBool (fr_hasArticle4Request row)),
      (js ''case.is_mts_case'', FactBool (fr_isMtsCase row)),
      (js ''case.type'', FactStr (fr_type row)),
      (js ''case.sub_type'', or_fact_null (fr_subType row)),
      (js ''case.sub_category'', or_fact_null (fr_subCategory row)),
      (js ''case.currency'', FactStr (fr_currency row)),
      (js ''case.principal_amount'', FactNum (fr_principalAmount row)),
      (js ''case.created_at'', FactDate (Some (fr_createdAt row))),
      (js ''case.next_action_at'', (case fr_nextActionAt row of None \<Rightarrow> FactNull | Some t \<Rightarrow> FactDate (Some t))),
      (js ''case.is_closed'', FactBool (fr_caseStatus row \<in> set CLOSING_CASE_STATUSES)),
      (js ''case.is_archived'', FactBool (fr_isArchived row))]"

definition addCaseLevelFacts :: "CaseFactRow option \<Rightarrow> FactMap \<Rightarrow> FactMap" where
  "addCaseLevelFacts caseData factMap =
     (case caseData of None \<Rightarrow> factMap | Some row \<Rightarrow> factMap ++ map_of (case_facts row))"

record FactWriteMetadata =
  fw_executionId :: "jstr option"
  fw_source :: "jstr option"
  fw_actionCode :: "ActionCode option"

record FactAudit =
  fa_caseId :: jstr
  fa_key :: jstr
  fa_newValue :: FactValue
  fa_isFlag :: bool
  fa_meta :: FactWriteMetadata

record 's fact_client =
  fc_findFacts :: "jstr \<Rightarrow> 's \<Rightarrow> journal_failure + FactMap"
  fc_findFlags :: "jstr \<Rightarrow> 's \<Rightarrow> journal_failure + (jstr \<rightharpoonup> bool)"
  fc_findCase :: "jstr \<Rightarrow> 's \<Rightarrow> journal_failure + CaseFactRow option"
  fc_upsertFact :: "jstr \<Rightarrow> jstr \<Rightarrow> FactValue \<Rightarrow> 's \<Rightarrow> (journal_failure + unit) \<times> 's"
  fc_upsertFlag :: "jstr \<Rightarrow> jstr \<Rightarrow> bool \<Rightarrow> 's \<Rightarrow> (journal_failure + unit) \<times> 's"
  fc_audit :: "FactAudit \<Rightarrow> 's \<Rightarrow> (journal_failure + unit) \<times> 's"

text \<open>The flags are set behind the facts, and the columns of the case behind both.\<close>

definition loadFactsFromDb :: "'s fact_client \<Rightarrow> jstr \<Rightarrow> 's \<Rightarrow> journal_failure + FactMap" where
  "loadFactsFromDb db caseId s =
     (case fc_findFacts db caseId s of Inl e \<Rightarrow> Inl e | Inr caseFacts \<Rightarrow>
      case fc_findFlags db caseId s of Inl e \<Rightarrow> Inl e | Inr caseFlags \<Rightarrow>
      case fc_findCase db caseId s of Inl e \<Rightarrow> Inl e | Inr caseData \<Rightarrow>
        Inr (addCaseLevelFacts caseData (caseFacts ++ (\<lambda>k. map_option FactBool (caseFlags k)))))"

definition filterFactsByContext :: "FactMap \<Rightarrow> ActionContext option \<Rightarrow> FactMap" where
  "filterFactsByContext facts context =
     (case context of None \<Rightarrow> facts
      | Some _ \<Rightarrow>
        (\<lambda>key. if starts_with key (js ''case.'')
           \<or> (case context_id cx_debtorId context of None \<Rightarrow> False
              | Some i \<Rightarrow> starts_with key (js ''debtor.'' @ i @ DOT))
           \<or> (case context_id cx_assetId context of None \<Rightarrow> False
              | Some i \<Rightarrow> starts_with key (js ''asset.'' @ i @ DOT))
           \<or> (case context_id cx_expenseId context of None \<Rightarrow> False
              | Some i \<Rightarrow> starts_with key (js ''expense.'' @ i @ DOT))
         then facts key else None))"

type_synonym FactCache = "jstr \<rightharpoonup> FactMap \<times> int"

definition cacheTtlMs :: int where "cacheTtlMs = 30000"

definition getFromCache :: "int \<Rightarrow> jstr \<Rightarrow> FactCache \<Rightarrow> FactMap option \<times> FactCache" where
  "getFromCache now caseId cache =
     (case cache caseId of None \<Rightarrow> (None, cache)
      | Some (facts, expiresAt) \<Rightarrow> if expiresAt < now then (None, cache(caseId := None)) else (Some facts, cache))"

definition setCache :: "int \<Rightarrow> jstr \<Rightarrow> FactMap \<Rightarrow> FactCache \<Rightarrow> FactCache" where
  "setCache now caseId facts cache = cache(caseId \<mapsto> (facts, now + cacheTtlMs))"

definition invalidateCache :: "jstr \<Rightarrow> FactCache \<Rightarrow> FactCache" where
  "invalidateCache caseId cache = cache(caseId := None)"

definition getFacts ::
  "'s fact_client \<Rightarrow> int \<Rightarrow> jstr \<Rightarrow> ActionContext option \<Rightarrow> FactCache \<times> 's \<Rightarrow>
   (journal_failure + FactMap) \<times> (FactCache \<times> 's)" where
  "getFacts db now caseId context = (\<lambda>(cache, s).
     case getFromCache now caseId cache of
       (Some cached, cache') \<Rightarrow> (Inr (filterFactsByContext cached context), (cache', s))
     | (None, cache') \<Rightarrow>
         (case loadFactsFromDb db caseId s of
            Inl e \<Rightarrow> (Inl e, (cache', s))
          | Inr facts \<Rightarrow> (Inr (filterFactsByContext facts context), (setCache now caseId facts cache', s))))"

datatype fact_write_error = ManualComputedFactWriteError jstr | FactDbError journal_failure

definition writeFactToDb ::
  "'s fact_client \<Rightarrow> jstr \<Rightarrow> jstr \<Rightarrow> FactValue \<Rightarrow> FactWriteMetadata option \<Rightarrow> 's \<Rightarrow> (journal_failure + unit) \<times> 's" where
  "writeFactToDb db caseId factKey factValue metadata s =
     (let isFlag = (case factValue of FactBool _ \<Rightarrow> True | _ \<Rightarrow> False) in
      case (case factValue of FactBool b \<Rightarrow> fc_upsertFlag db caseId factKey b s
            | _ \<Rightarrow> fc_upsertFact db caseId factKey factValue s) of
        (Inl e, s') \<Rightarrow> (Inl e, s')
      | (Inr _, s') \<Rightarrow>
          (case metadata of None \<Rightarrow> (Inr (), s')
           | Some md \<Rightarrow> fc_audit db
               \<lparr>fa_caseId = caseId, fa_key = factKey, fa_newValue = factValue, fa_isFlag = isFlag, fa_meta = md\<rparr> s'))"

text \<open>The same statements on the client of a transaction.\<close>

definition writeFactToDbTx ::
  "'s fact_client \<Rightarrow> jstr \<Rightarrow> jstr \<Rightarrow> FactValue \<Rightarrow> FactWriteMetadata option \<Rightarrow> 's \<Rightarrow> (journal_failure + unit) \<times> 's" where
  "writeFactToDbTx tx = writeFactToDb tx"

fun write_all ::
  "'s fact_client \<Rightarrow> jstr \<Rightarrow> (jstr \<times> FactValue) list \<Rightarrow> FactWriteMetadata option \<Rightarrow> 's \<Rightarrow> (journal_failure + unit) \<times> 's" where
  "write_all db caseId [] metadata s = (Inr (), s)"
| "write_all db caseId ((key, v) # facts) metadata s =
     (case writeFactToDbTx db caseId key v metadata s of
        (Inl e, s') \<Rightarrow> (Inl e, s')
      | (Inr _, s') \<Rightarrow> write_all db caseId facts metadata s')"

definition writeFact ::
  "'s fact_client \<Rightarrow> jstr \<Rightarrow> jstr \<Rightarrow> FactValue \<Rightarrow> FactWriteMetadata option \<Rightarrow> FactCache \<times> 's \<Rightarrow>
   (fact_write_error + unit) \<times> (FactCache \<times> 's)" where
  "writeFact db caseId factKey factValue metadata = (\<lambda>(cache, s).
     if \<not> isManuallyWritableFactKey factKey then (Inl (ManualComputedFactWriteError factKey), (cache, s))
     else case writeFactToDb db caseId factKey factValue metadata s of
       (Inl e, s') \<Rightarrow> (Inl (FactDbError e), (cache, s'))
     | (Inr _, s') \<Rightarrow> (Inr (), (invalidateCache caseId cache, s')))"

text \<open>All or nothing: a failure rolls the transaction back.\<close>

definition writeFacts ::
  "'s fact_client \<Rightarrow> jstr \<Rightarrow> (jstr \<times> FactValue) list \<Rightarrow> FactWriteMetadata option \<Rightarrow> FactCache \<times> 's \<Rightarrow>
   (fact_write_error + unit) \<times> (FactCache \<times> 's)" where
  "writeFacts db caseId facts metadata = (\<lambda>(cache, s).
     case assertManuallyWritableFactKeys (map fst facts) of
       Some key \<Rightarrow> (Inl (ManualComputedFactWriteError key), (cache, s))
     | None \<Rightarrow>
         (case write_all db caseId facts metadata s of
            (Inl e, _) \<Rightarrow> (Inl (FactDbError e), (cache, s))
          | (Inr _, s') \<Rightarrow> (Inr (), (invalidateCache caseId cache, s'))))"

subsection \<open>Lookup along the scopes\<close>

definition getScopeChainForContext :: "ActionContext option \<Rightarrow> Scope list" where
  "getScopeChainForContext context =
     (if context_id cx_assetId context \<noteq> None then [ASSET, DEBTOR, CASE]
      else if context_id cx_debtorId context \<noteq> None then [DEBTOR, CASE]
      else if context_id cx_expenseId context \<noteq> None then [EXPENSE, CASE]
      else [CASE])"

definition buildScopedKey :: "Scope \<Rightarrow> jstr \<Rightarrow> ActionContext option \<Rightarrow> jstr" where
  "buildScopedKey scope factKey context =
     buildFactKey scope factKey
       (case scope of ASSET \<Rightarrow> context_id cx_assetId context
        | DEBTOR \<Rightarrow> context_id cx_debtorId context
        | EXPENSE \<Rightarrow> context_id cx_expenseId context
        | CASE \<Rightarrow> None)"

record ResolvedFact =
  rf_value :: "FactValue option"
  rf_resolvedScope :: Scope
  rf_resolvedKey :: jstr

fun resolve_along :: "FactMap \<Rightarrow> jstr \<Rightarrow> ActionContext option \<Rightarrow> Scope list \<Rightarrow> ResolvedFact" where
  "resolve_along facts factKey context [] =
     \<lparr>rf_value = None, rf_resolvedScope = CASE, rf_resolvedKey = js ''case.'' @ factKey\<rparr>"
| "resolve_along facts factKey context (scope # scopes) =
     (let fullKey = buildScopedKey scope factKey context in
      case facts fullKey of
        Some v \<Rightarrow> \<lparr>rf_value = Some v, rf_resolvedScope = scope, rf_resolvedKey = fullKey\<rparr>
      | None \<Rightarrow> resolve_along facts factKey context scopes)"

definition getFactWithScopeChain ::
  "'s fact_client \<Rightarrow> int \<Rightarrow> jstr \<Rightarrow> jstr \<Rightarrow> ActionContext option \<Rightarrow> FactCache \<times> 's \<Rightarrow>
   (journal_failure + ResolvedFact) \<times> (FactCache \<times> 's)" where
  "getFactWithScopeChain db now caseId factKey context s =
     (case getFacts db now caseId None s of
        (Inl e, s') \<Rightarrow> (Inl e, s')
      | (Inr facts, s') \<Rightarrow> (Inr (resolve_along facts factKey context (getScopeChainForContext context)), s'))"

fun getFactsWithScopeChain ::
  "'s fact_client \<Rightarrow> int \<Rightarrow> jstr \<Rightarrow> jstr list \<Rightarrow> ActionContext option \<Rightarrow> FactCache \<times> 's \<Rightarrow>
   (journal_failure + (jstr \<rightharpoonup> ResolvedFact)) \<times> (FactCache \<times> 's)" where
  "getFactsWithScopeChain db now caseId [] context s = (Inr Map.empty, s)"
| "getFactsWithScopeChain db now caseId (key # keys) context s =
     (case getFactWithScopeChain db now caseId key context s of
        (Inl e, s') \<Rightarrow> (Inl e, s')
      | (Inr found, s') \<Rightarrow>
          (case getFactsWithScopeChain db now caseId keys context s' of
             (Inl e, s'') \<Rightarrow> (Inl e, s'')
           | (Inr rest, s'') \<Rightarrow> (Inr ([key \<mapsto> found] ++ rest), s'')))"

definition getFact ::
  "'s fact_client \<Rightarrow> int \<Rightarrow> jstr \<Rightarrow> jstr \<Rightarrow> FactCache \<times> 's \<Rightarrow> (journal_failure + FactValue) \<times> (FactCache \<times> 's)" where
  "getFact db now caseId factKey s =
     (case getFacts db now caseId None s of
        (Inl e, s') \<Rightarrow> (Inl e, s')
      | (Inr facts, s') \<Rightarrow> (Inr (case facts factKey of None \<Rightarrow> FactNull | Some v \<Rightarrow> v), s'))"

definition clearAllCache :: "FactCache \<Rightarrow> FactCache" where
  "clearAllCache cache = Map.empty"

end
