(* ===== verification/FactRegistry.thy ===== *)
theory FactRegistry
  imports PolicyFacts
begin

section \<open>Computed facts (computed-fact-registry.ts, uyap-availability.service.ts)\<close>

text \<open>
  Providers compute facts from other facts. The registry keeps them by the key they own, orders them so
  that a provider runs behind the providers it depends on, and refuses a cycle. A provider may change the
  map it is given; when it fails, its error is logged and the next one runs.
\<close>

subsection \<open>Providers\<close>

record FactProvider =
  pv_factKey :: jstr
  pv_dependsOn :: "jstr list"
  pv_compute :: "jstr \<Rightarrow> ActionContext option \<Rightarrow> FactMap \<Rightarrow> (journal_failure + FactValue) \<times> FactMap"

record FactRegistry =
  rg_providers :: "(jstr \<times> FactProvider) list"
  rg_computeOrder :: "jstr list"

definition registry_keys :: "FactRegistry \<Rightarrow> jstr list" where
  "registry_keys registry = map fst (rg_providers registry)"

subsection \<open>The order\<close>

text \<open>The keys that are not being visited; their number bounds the search.\<close>

definition open_keys :: "(jstr \<times> FactProvider) list \<Rightarrow> jstr list \<Rightarrow> nat" where
  "open_keys providers path = card (fst ` set providers - set path)"

lemma open_keys_less:
  assumes "map_of providers k = Some p" "k \<notin> set path"
  shows "open_keys providers (k # path) < open_keys providers path"
proof -
  have "k \<in> fst ` set providers" using assms(1) by (force dest: map_of_SomeD)
  then have "fst ` set providers - set (k # path) \<subset> fst ` set providers - set path" using assms(2) by auto
  then show ?thesis unfolding open_keys_def by (rule psubset_card_mono [rotated]) simp
qed

text \<open>
  The depth-first search of \<open>recomputeOrder\<close>: \<open>path\<close> are the keys being visited, \<open>order\<close> the visited
  ones. The result is the key at which a cycle closes, or the new order.
\<close>

function (sequential) visit_key :: "(jstr \<times> FactProvider) list \<Rightarrow> jstr list \<Rightarrow> jstr \<Rightarrow> jstr list \<Rightarrow> jstr + jstr list"
  and visit_keys :: "(jstr \<times> FactProvider) list \<Rightarrow> jstr list \<Rightarrow> jstr list \<Rightarrow> jstr list \<Rightarrow> jstr + jstr list" where
  "visit_key providers path factKey order =
     (if factKey \<in> set order then Inr order
      else if factKey \<in> set path then Inl factKey
      else case map_of providers factKey of
        None \<Rightarrow> Inr (order @ [factKey])
      | Some provider \<Rightarrow>
          (case visit_keys providers (factKey # path)
                  (filter (\<lambda>d. d \<in> fst ` set providers) (pv_dependsOn provider)) order of
             Inl cycle \<Rightarrow> Inl cycle
           | Inr order' \<Rightarrow> Inr (order' @ [factKey])))"
| "visit_keys providers path [] order = Inr order"
| "visit_keys providers path (d # ds) order =
     (case visit_key providers path d order of
        Inl cycle \<Rightarrow> Inl cycle
      | Inr order' \<Rightarrow> visit_keys providers path ds order')"
  by pat_completeness auto

termination
  by (relation "measures
        [\<lambda>a. (case a of Inl (providers, path, k, order) \<Rightarrow> open_keys providers path
               | Inr (providers, path, ks, order) \<Rightarrow> open_keys providers path),
         \<lambda>a. (case a of Inl _ \<Rightarrow> 0 | Inr (providers, path, ks, order) \<Rightarrow> Suc (length ks))]")
     (auto simp: open_keys_less)

definition recomputeOrder :: "(jstr \<times> FactProvider) list \<Rightarrow> jstr + jstr list" where
  "recomputeOrder providers = visit_keys providers [] (map fst providers) []"

text \<open>\<open>Map.set\<close> on an existing key keeps its place.\<close>

definition set_provider :: "FactProvider \<Rightarrow> (jstr \<times> FactProvider) list \<Rightarrow> (jstr \<times> FactProvider) list" where
  "set_provider provider providers =
     (if pv_factKey provider \<in> fst ` set providers
      then map (\<lambda>(k, p). if k = pv_factKey provider then (k, provider) else (k, p)) providers
      else providers @ [(pv_factKey provider, provider)])"

text \<open>A cycle is thrown behind the registration: the provider stays, with the order of before.\<close>

definition registerProvider :: "FactProvider \<Rightarrow> FactRegistry \<Rightarrow> (jstr + unit) \<times> FactRegistry" where
  "registerProvider provider registry =
     (let providers = set_provider provider (rg_providers registry) in
      case recomputeOrder providers of
        Inl cycle \<Rightarrow> (Inl cycle, registry\<lparr>rg_providers := providers\<rparr>)
      | Inr order \<Rightarrow> (Inr (), \<lparr>rg_providers = providers, rg_computeOrder = order\<rparr>))"

fun registerProviders :: "FactProvider list \<Rightarrow> FactRegistry \<Rightarrow> (jstr + unit) \<times> FactRegistry" where
  "registerProviders [] registry = (Inr (), registry)"
| "registerProviders (provider # providers) registry =
     (case registerProvider provider registry of
        (Inl cycle, registry') \<Rightarrow> (Inl cycle, registry')
      | (Inr _, registry') \<Rightarrow> registerProviders providers registry')"

definition empty_registry :: FactRegistry where
  "empty_registry = \<lparr>rg_providers = [], rg_computeOrder = []\<rparr>"

subsection \<open>Computation\<close>

fun compute_in_order ::
  "(jstr \<times> FactProvider) list \<Rightarrow> jstr \<Rightarrow> ActionContext option \<Rightarrow> jstr list \<Rightarrow> FactMap \<Rightarrow> FactMap" where
  "compute_in_order providers caseId context [] facts = facts"
| "compute_in_order providers caseId context (factKey # keys) facts =
     compute_in_order providers caseId context keys
       (case map_of providers factKey of
          None \<Rightarrow> facts
        | Some provider \<Rightarrow>
            (case pv_compute provider caseId context facts of
               (Inl _, facts') \<Rightarrow> facts'
             | (Inr v, facts') \<Rightarrow> facts'(factKey \<mapsto> v)))"

definition computeAll :: "FactRegistry \<Rightarrow> jstr \<Rightarrow> ActionContext option \<Rightarrow> FactMap \<Rightarrow> FactMap" where
  "computeAll registry caseId context baseFacts =
     compute_in_order (rg_providers registry) caseId context (rg_computeOrder registry) baseFacts"

text \<open>A provider alone; an error goes to the caller here.\<close>

definition compute_fact ::
  "FactRegistry \<Rightarrow> jstr \<Rightarrow> jstr \<Rightarrow> ActionContext option \<Rightarrow> FactMap \<Rightarrow> journal_failure + FactValue option" where
  "compute_fact registry factKey caseId context facts =
     (case map_of (rg_providers registry) factKey of
        None \<Rightarrow> Inr None
      | Some provider \<Rightarrow>
          (case fst (pv_compute provider caseId context facts) of Inl e \<Rightarrow> Inl e | Inr v \<Rightarrow> Inr (Some v)))"

definition hasProvider :: "FactRegistry \<Rightarrow> jstr \<Rightarrow> bool" where
  "hasProvider registry factKey \<longleftrightarrow> factKey \<in> set (registry_keys registry)"

subsection \<open>Built-in providers\<close>

text \<open>\<open>newDate\<close> is the constructor \<open>Date\<close> on a value that is no date.\<close>

definition DaysSinceNotificationProvider :: "(FactValue \<Rightarrow> jsdate) \<Rightarrow> int \<Rightarrow> FactProvider" where
  "DaysSinceNotificationProvider newDate now =
     \<lparr>pv_factKey = js ''debtor.*.days_since_notification'', pv_dependsOn = [js ''debtor.*.notification_date''],
      pv_compute = (\<lambda>caseId context facts.
        case context_id cx_debtorId context of
          None \<Rightarrow> (Inr (FactNum (js_int (-1))), facts)
        | Some debtorId \<Rightarrow>
            (case facts (js ''debtor.'' @ debtorId @ js ''.notification_date'') of
               None \<Rightarrow> (Inr (FactNum (js_int (-1))), facts)
             | Some v \<Rightarrow>
                 if v \<in> {FactNull, FactStr [], FactBool False, FactNum NaN, FactNum (Fin 0)}
                 then (Inr (FactNum (js_int (-1))), facts)
                 else (case (case v of FactDate d \<Rightarrow> d | _ \<Rightarrow> newDate v) of
                   None \<Rightarrow> (Inr (FactNum NaN), facts)
                 | Some t \<Rightarrow> (Inr (FactNum (js_int ((now - t) div ms_per_day))), facts))))\<rparr>"

definition HasValidAddressProvider :: FactProvider where
  "HasValidAddressProvider =
     \<lparr>pv_factKey = js ''debtor.*.has_valid_address'', pv_dependsOn = [],
      pv_compute = (\<lambda>caseId context facts.
        case context_id cx_debtorId context of
          None \<Rightarrow> (Inr (FactBool False), facts)
        | Some debtorId \<Rightarrow>
            (case facts (js ''debtor.'' @ debtorId @ js ''.address_count'') of
               Some (FactNum n) \<Rightarrow> (Inr (FactBool (js_less (js_int 0) n)), facts)
             | _ \<Rightarrow> (Inr (FactBool False), facts)))\<rparr>"

definition CaseObjectionPeriodDaysProvider :: FactProvider where
  "CaseObjectionPeriodDaysProvider =
     \<lparr>pv_factKey = js ''case.objection_period_days'', pv_dependsOn = [],
      pv_compute = (\<lambda>caseId context facts.
        let isKambiyo = (facts (js ''case.type'') = Some (FactStr (js ''ILAMSIZ'')) \<and>
              facts (js ''case.sub_type'') = Some (FactStr (js ''KAMBIYO''))) in
        (Inr (FactNum (js_int (if isKambiyo then 5 else 7))), facts))\<rparr>"

text \<open>
  The switch of the environment. Only the letters A to Z matter for \<open>toLowerCase\<close> here: no other
  character becomes a single letter of one of the three words.
\<close>

definition OUTAGE_VALUES :: "jstr list" where
  "OUTAGE_VALUES = map js [''false'', ''0'', ''disabled'']"

definition lower_case :: "jstr \<Rightarrow> jstr" where
  "lower_case s = map (\<lambda>u. if 65 \<le> u \<and> u \<le> 90 then u + 32 else u) s"

definition isUyapAvailable :: "jstr option \<Rightarrow> bool" where
  "isUyapAvailable raw \<longleftrightarrow>
     (case raw of None \<Rightarrow> True | Some v \<Rightarrow> lower_case (js_trim v) \<notin> set OUTAGE_VALUES)"

definition isAvailabilityExplicitlyConfigured :: "jstr option \<Rightarrow> bool" where
  "isAvailabilityExplicitlyConfigured raw \<longleftrightarrow> (case raw of None \<Rightarrow> False | Some v \<Rightarrow> js_trim v \<noteq> [])"

definition SystemUyapAvailableProvider :: "jstr option \<Rightarrow> FactProvider" where
  "SystemUyapAvailableProvider env =
     \<lparr>pv_factKey = js ''system.uyap_available'', pv_dependsOn = [],
      pv_compute = (\<lambda>caseId context facts.
        (Inr (FactBool (isUyapAvailable env)),
         facts(js ''system.uyap_availability_explicit'' \<mapsto> FactBool (isAvailabilityExplicitlyConfigured env))))\<rparr>"

definition builtin_providers :: "(FactValue \<Rightarrow> jsdate) \<Rightarrow> int \<Rightarrow> jstr option \<Rightarrow> FactProvider list" where
  "builtin_providers newDate now env =
     [DaysSinceNotificationProvider newDate now, HasValidAddressProvider, CaseObjectionPeriodDaysProvider,
      SystemUyapAvailableProvider env]"

definition registerBuiltInProviders :: "(FactValue \<Rightarrow> jsdate) \<Rightarrow> int \<Rightarrow> jstr option \<Rightarrow> FactRegistry" where
  "registerBuiltInProviders newDate now env = snd (registerProviders (builtin_providers newDate now env) empty_registry)"

end
