(* ===== verification/GateChecker.thy ===== *)
theory GateChecker
  imports FactRegistry
begin

section \<open>Gates (policy-engine/gate-checker)\<close>

text \<open>
  A gate is a condition on the facts of a case. A hard gate that is triggered, or whose condition throws,
  blocks the action; a soft one warns. The gates are compiled, with the actions they guard and a priority;
  names and sentences are left out, the reason of a result is the code of the gate.
\<close>

record CompiledGate =
  cg_gateCode :: jstr
  cg_actionCodes :: "ActionCode list option"
  cg_condition :: "FactMap \<Rightarrow> ActionContext option \<Rightarrow> journal_failure + bool"
  cg_severity :: GateSeverity
  cg_priority :: int

text \<open>\<open>None\<close> stands for the star: every action. The compiled conditions throw nothing.\<close>

abbreviation (input) gate_of ::
  "string \<Rightarrow> ActionCode list option \<Rightarrow> GateSeverity \<Rightarrow> int \<Rightarrow> (FactMap \<Rightarrow> ActionContext option \<Rightarrow> bool) \<Rightarrow> CompiledGate" where
  "gate_of code actions severity priority condition \<equiv>
     \<lparr>cg_gateCode = js code, cg_actionCodes = actions, cg_condition = (\<lambda>facts context. Inr (condition facts context)),
      cg_severity = severity, cg_priority = priority\<rparr>"

definition is_true :: "FactMap \<Rightarrow> string \<Rightarrow> bool" where
  "is_true facts key \<longleftrightarrow> facts (js key) = Some (FactBool True)"

definition is_false :: "FactMap \<Rightarrow> string \<Rightarrow> bool" where
  "is_false facts key \<longleftrightarrow> facts (js key) = Some (FactBool False)"

definition debtor_key :: "jstr \<Rightarrow> string \<Rightarrow> jstr" where
  "debtor_key debtorId name = js ''debtor.'' @ debtorId @ DOT @ js name"

definition asset_key :: "jstr \<Rightarrow> string \<Rightarrow> jstr" where
  "asset_key assetId name = js ''asset.'' @ assetId @ DOT @ js name"

definition fact_number :: "FactValue option \<Rightarrow> jsnum option" where
  "fact_number v = (case v of Some (FactNum n) \<Rightarrow> Some n | _ \<Rightarrow> None)"

definition UYAP_SEND_GATE_FAMILY :: "ActionCode list" where
  "UYAP_SEND_GATE_FAMILY = [UYAP_SEND, UYAP_DOCUMENT_SUBMIT, UYAP_LAWSUIT_FILE]"

definition no_valid_address :: "FactMap \<Rightarrow> ActionContext option \<Rightarrow> bool" where
  "no_valid_address facts context \<longleftrightarrow>
     (case context_id cx_debtorId context of
        Some debtorId \<Rightarrow> facts (debtor_key debtorId ''has_valid_address'') \<noteq> Some (FactBool True)
      | None \<Rightarrow> \<not> is_true facts ''case.has_any_valid_address'')"

definition notification_not_delivered :: "FactMap \<Rightarrow> ActionContext option \<Rightarrow> bool" where
  "notification_not_delivered facts context \<longleftrightarrow>
     (case context_id cx_debtorId context of
        Some debtorId \<Rightarrow> facts (debtor_key debtorId ''notification_delivered'') \<noteq> Some (FactBool True)
      | None \<Rightarrow> \<not> is_true facts ''case.any_notification_delivered'')"

definition objection_period :: "FactMap \<Rightarrow> jsnum" where
  "objection_period facts =
     (case fact_number (facts (js ''case.objection_period_days'')) of Some period \<Rightarrow> period | None \<Rightarrow> js_int 7)"

definition objection_period_not_passed :: "FactMap \<Rightarrow> ActionContext option \<Rightarrow> bool" where
  "objection_period_not_passed facts context \<longleftrightarrow>
     (case fact_number (case context_id cx_debtorId context of
           Some debtorId \<Rightarrow> facts (debtor_key debtorId ''days_since_notification'')
         | None \<Rightarrow> facts (js ''case.min_days_since_notification'')) of
        None \<Rightarrow> True
      | Some daysSince \<Rightarrow> js_less daysSince (objection_period facts))"

definition no_haciz_applied :: "FactMap \<Rightarrow> ActionContext option \<Rightarrow> bool" where
  "no_haciz_applied facts context \<longleftrightarrow>
     (case context_id cx_assetId context of
        Some assetId \<Rightarrow> facts (asset_key assetId ''haciz_applied'') \<noteq> Some (FactBool True)
      | None \<Rightarrow> \<not> is_true facts ''case.any_haciz_applied'')"

definition send_unproven :: "FactMap \<Rightarrow> bool" where
  "send_unproven facts \<longleftrightarrow>
     \<not> is_false facts ''case.is_closed'' \<or> \<not> is_false facts ''case.is_archived'' \<or>
     \<not> is_true facts ''case.allow_uyap_actions'' \<or> \<not> is_false facts ''case.has_unpaid_blocking_expense'' \<or>
     \<not> is_true facts ''system.uyap_available'' \<or> \<not> is_true facts ''system.uyap_availability_explicit''"

definition attorney_missing :: "FactMap \<Rightarrow> bool" where
  "attorney_missing facts \<longleftrightarrow>
     \<not> is_true facts ''actor.is_canonical_lawyer'' \<or> \<not> is_true facts ''actor.has_matching_power_of_attorney'' \<or>
     \<not> is_true facts ''poa.is_effective_at_evaluation_time'' \<or>
     \<not> is_true facts ''poa.covers_requested_operation'' \<or> \<not> is_true facts ''authority.is_unambiguous''"

definition high_risk_debtor :: "FactMap \<Rightarrow> ActionContext option \<Rightarrow> bool" where
  "high_risk_debtor facts context \<longleftrightarrow>
     (case context_id cx_debtorId context of
        Some debtorId \<Rightarrow> facts (debtor_key debtorId ''risk_level'') = Some (FactStr (js ''HIGH''))
      | None \<Rightarrow> False)"

definition more_than :: "FactMap \<Rightarrow> string \<Rightarrow> int \<Rightarrow> bool" where
  "more_than facts key bound \<longleftrightarrow>
     (case fact_number (facts (js key)) of None \<Rightarrow> False | Some n \<Rightarrow> js_less (js_int bound) n)"

definition COMPILED_GATES :: "CompiledGate list" where
  "COMPILED_GATES =
    [gate_of ''CASE_CLOSED'' None HARD 1 (\<lambda>facts context. is_true facts ''case.is_closed''),
     gate_of ''CASE_ARCHIVED'' None HARD 2 (\<lambda>facts context. is_true facts ''case.is_archived''),
     gate_of ''EXPENSE_BLOCKING'' (Some (UYAP_SEND_GATE_FAMILY @
         [SEND_NOTIFICATION, SEND_PAYMENT_ORDER, TRIGGER_HACIZ, REQUEST_SALE])) HARD 10
       (\<lambda>facts context. is_true facts ''case.has_unpaid_blocking_expense''),
     gate_of ''UYAP_DISABLED'' (Some (UYAP_SEND_GATE_FAMILY @ [UYAP_QUERY, SEND_NOTIFICATION, SEND_PAYMENT_ORDER])) HARD 11
       (\<lambda>facts context. is_false facts ''case.allow_uyap_actions''),
     gate_of ''UYAP_TEMPORARILY_UNAVAILABLE_SEND'' (Some UYAP_SEND_GATE_FAMILY) HARD 12
       (\<lambda>facts context. is_false facts ''system.uyap_available''),
     gate_of ''UYAP_SEND_PRECONDITIONS_UNPROVEN'' (Some UYAP_SEND_GATE_FAMILY) HARD 13
       (\<lambda>facts context. send_unproven facts),
     gate_of ''ARTICLE_4_REQUIRED'' (Some [SEND_PAYMENT_ORDER]) HARD 20
       (\<lambda>facts context. \<not> is_true facts ''case.has_article_4_request''),
     gate_of ''NO_VALID_ADDRESS'' (Some [SEND_NOTIFICATION]) HARD 21 no_valid_address,
     gate_of ''NOTIFICATION_NOT_DELIVERED'' (Some [TRIGGER_HACIZ, REQUEST_ENFORCEMENT]) HARD 22
       notification_not_delivered,
     gate_of ''OBJECTION_PERIOD_NOT_PASSED'' (Some [TRIGGER_HACIZ, REQUEST_ENFORCEMENT]) HARD 23
       objection_period_not_passed,
     gate_of ''NO_HACIZ_APPLIED'' (Some [REQUEST_SALE]) HARD 24 no_haciz_applied,
     gate_of ''POWER_OF_ATTORNEY_MISSING'' (Some UYAP_SEND_GATE_FAMILY) HARD 25
       (\<lambda>facts context. attorney_missing facts),
     gate_of ''ACTING_LAWYER_NOT_ASSIGNED_TO_CASE'' (Some [UYAP_DOCUMENT_SUBMIT, UYAP_LAWSUIT_FILE]) HARD 26
       (\<lambda>facts context. \<not> is_true facts ''actor.is_assigned_to_case''),
     gate_of ''ACTING_LAWYER_NOT_ASSIGNED_TO_CASE'' (Some [UYAP_SEND]) HARD 26
       (\<lambda>facts context. Option.bind context cx_uyapSubmitChannel = Some (js ''XML_SUBMIT'') \<and>
          \<not> is_true facts ''actor.is_assigned_to_case''),
     gate_of ''AUTOMATION_DISABLED'' (Some [REQUEST_ENFORCEMENT, PROCEED_TO_ENFORCEMENT, TRIGGER_HACIZ]) SOFT 100
       (\<lambda>facts context. is_false facts ''case.is_automation_enabled''),
     gate_of ''HIGH_RISK_DEBTOR'' (Some [TRIGGER_HACIZ, REQUEST_SALE, SEND_DEBTOR_MSG]) SOFT 101 high_risk_debtor,
     gate_of ''LARGE_AMOUNT'' (Some [TRIGGER_HACIZ, REQUEST_SALE, FINALIZE_CASE]) SOFT 102
       (\<lambda>facts context. more_than facts ''case.total_debt_amount'' 1000000),
     gate_of ''PENDING_EXPENSE_REQUEST'' (Some [REQUEST_EXPENSE]) SOFT 103
       (\<lambda>facts context. is_true facts ''case.has_pending_expense_request''),
     gate_of ''MULTIPLE_DEBTORS'' (Some [SEND_NOTIFICATION, TRIGGER_HACIZ]) SOFT 104
       (\<lambda>facts context. more_than facts ''case.debtor_count'' 1),
     gate_of ''UYAP_TEMPORARILY_UNAVAILABLE'' (Some [UYAP_QUERY]) SOFT 105
       (\<lambda>facts context. is_false facts ''system.uyap_available'')]"

definition guards :: "ActionCode \<Rightarrow> CompiledGate \<Rightarrow> bool" where
  "guards actionCode gate \<longleftrightarrow>
     (case cg_actionCodes gate of
        None \<Rightarrow> (if actionCode = REOPEN_CASE
                 then cg_gateCode gate \<notin> {js ''CASE_CLOSED'', js ''CASE_ARCHIVED''} else True)
      | Some codes \<Rightarrow> actionCode \<in> set codes)"

definition getGatesForAction :: "ActionCode \<Rightarrow> CompiledGate list" where
  "getGatesForAction actionCode =
     js_sort (\<lambda>a b. cg_priority a - cg_priority b) (filter (guards actionCode) COMPILED_GATES)"

definition getHardGatesForAction :: "ActionCode \<Rightarrow> CompiledGate list" where
  "getHardGatesForAction actionCode = filter (\<lambda>g. cg_severity g = HARD) (getGatesForAction actionCode)"

definition getSoftGatesForAction :: "ActionCode \<Rightarrow> CompiledGate list" where
  "getSoftGatesForAction actionCode = filter (\<lambda>g. cg_severity g = SOFT) (getGatesForAction actionCode)"

subsection \<open>The check\<close>

datatype GateReason = GatesOk | GateTriggered jstr | GateFailed jstr

record GateResult =
  gt_blocked :: bool
  gt_gateCode :: "jstr option"
  gt_reason :: GateReason
  gt_factsUsed :: "jstr list"
  gt_softWarnings :: "jstr list"

definition common_fact_keys :: "jstr list" where
  "common_fact_keys = map js
     [''case.is_closed'', ''case.is_archived'', ''case.has_unpaid_blocking_expense'', ''case.allow_uyap_actions'',
      ''case.has_article_4_request'', ''case.has_power_of_attorney'', ''case.is_automation_enabled'',
      ''case.total_debt_amount'', ''case.debtor_count'', ''case.has_pending_expense_request'',
      ''system.uyap_available'', ''system.uyap_availability_explicit'']"

definition collectUsedFacts :: "FactMap \<Rightarrow> ActionContext option \<Rightarrow> jstr list" where
  "collectUsedFacts facts context =
     filter (\<lambda>key. facts key \<noteq> None)
       (common_fact_keys @
        (case context_id cx_debtorId context of
           None \<Rightarrow> []
         | Some i \<Rightarrow> [debtor_key i ''has_valid_address'', debtor_key i ''notification_delivered'',
             debtor_key i ''days_since_notification'', debtor_key i ''risk_level'']) @
        (case context_id cx_assetId context of None \<Rightarrow> [] | Some i \<Rightarrow> [asset_key i ''haciz_applied'']))"

definition distinct_keys :: "jstr list \<Rightarrow> jstr list" where
  "distinct_keys keys = rev (remdups (rev keys))"

text \<open>The loop of \<open>checkGates\<close> with the facts and warnings it has collected.\<close>

fun check_gates ::
  "FactMap \<Rightarrow> ActionContext option \<Rightarrow> CompiledGate list \<Rightarrow> jstr list \<Rightarrow> jstr list \<Rightarrow> GateResult" where
  "check_gates facts context [] factsUsed warnings =
     \<lparr>gt_blocked = False, gt_gateCode = None, gt_reason = GatesOk, gt_factsUsed = distinct_keys factsUsed,
      gt_softWarnings = warnings\<rparr>"
| "check_gates facts context (gate # gates) factsUsed warnings =
     (case cg_condition gate facts context of
        Inr True \<Rightarrow>
          (let used = factsUsed @ collectUsedFacts facts context in
           if cg_severity gate = HARD
           then \<lparr>gt_blocked = True, gt_gateCode = Some (cg_gateCode gate), gt_reason = GateTriggered (cg_gateCode gate),
                 gt_factsUsed = distinct_keys used, gt_softWarnings = []\<rparr>
           else check_gates facts context gates used (warnings @ [cg_gateCode gate]))
      | Inr False \<Rightarrow> check_gates facts context gates factsUsed warnings
      | Inl error \<Rightarrow>
          (if cg_severity gate = HARD
           then \<lparr>gt_blocked = True, gt_gateCode = Some (cg_gateCode gate), gt_reason = GateFailed (cg_gateCode gate),
                 gt_factsUsed = factsUsed, gt_softWarnings = []\<rparr>
           else check_gates facts context gates factsUsed warnings))"

definition checkGates :: "ActionCode \<Rightarrow> FactMap \<Rightarrow> ActionContext option \<Rightarrow> GateResult" where
  "checkGates actionCode facts context = check_gates facts context (getGatesForAction actionCode) [] []"

definition checkHardGates :: "ActionCode \<Rightarrow> FactMap \<Rightarrow> ActionContext option \<Rightarrow> GateResult" where
  "checkHardGates actionCode facts context = check_gates facts context (getHardGatesForAction actionCode) [] []"

definition checkSoftGates :: "ActionCode \<Rightarrow> FactMap \<Rightarrow> ActionContext option \<Rightarrow> jstr list" where
  "checkSoftGates actionCode facts context =
     map cg_gateCode (filter (\<lambda>gate. cg_condition gate facts context = Inr True) (getSoftGatesForAction actionCode))"

definition isGateTriggered :: "jstr \<Rightarrow> FactMap \<Rightarrow> ActionContext option \<Rightarrow> bool" where
  "isGateTriggered gateCode facts context \<longleftrightarrow>
     (case List.find (\<lambda>g. cg_gateCode g = gateCode) COMPILED_GATES of
        None \<Rightarrow> False
      | Some gate \<Rightarrow>
          (case cg_condition gate facts context of Inr triggered \<Rightarrow> triggered | Inl _ \<Rightarrow> cg_severity gate = HARD))"

end
