(* ===== verification/RuleEngine.thy ===== *)
theory RuleEngine
  imports GateChecker
begin

section \<open>Rules (policy-engine/rule-engine)\<close>

text \<open>
  Rules recommend the next actions of a case from its facts, its stage and some metrics. They are compiled
  like the gates; names and sentences are left out.
\<close>

record ComputedMetrics =
  me_totalDebtAmount :: "jsnum option"
  me_collectedAmount :: "jsnum option"
  me_remainingDebt :: "jsnum option"
  me_collectionRate :: "jsnum option"
  me_caseAgeDays :: "jsnum option"
  me_daysSinceLastAction :: "jsnum option"
  me_debtorCount :: "jsnum option"

record CompiledRule =
  ru_ruleId :: jstr
  ru_when :: "FactMap \<Rightarrow> StateInfo \<Rightarrow> ComputedMetrics \<Rightarrow> bool"
  ru_actionCode :: ActionCode
  ru_priority :: int
  ru_scope :: Scope
  ru_validStages :: "jstr list option"
  ru_isActive :: bool

abbreviation (input) rule_of ::
  "string \<Rightarrow> string list option \<Rightarrow> ActionCode \<Rightarrow> int \<Rightarrow> Scope \<Rightarrow>
   (FactMap \<Rightarrow> StateInfo \<Rightarrow> ComputedMetrics \<Rightarrow> bool) \<Rightarrow> CompiledRule" where
  "rule_of ruleId stages actionCode priority scope condition \<equiv>
     \<lparr>ru_ruleId = js ruleId, ru_when = condition, ru_actionCode = actionCode, ru_priority = priority,
      ru_scope = scope, ru_validStages = map_option (map js) stages, ru_isActive = True\<rparr>"

definition in_stage :: "StateInfo \<Rightarrow> string \<Rightarrow> bool" where
  "in_stage state stage \<longleftrightarrow> st_currentState state = js stage"

text \<open>Absent, or a number above the bound.\<close>

definition absent_or_more :: "FactMap \<Rightarrow> string \<Rightarrow> int \<Rightarrow> bool" where
  "absent_or_more facts key bound \<longleftrightarrow> facts (js key) = None \<or> more_than facts key bound"

definition js_at_least :: "jsnum \<Rightarrow> jsnum \<Rightarrow> bool" where
  "js_at_least a b \<longleftrightarrow> a \<noteq> NaN \<and> b \<noteq> NaN \<and> \<not> js_less a b"

definition attorney_proven :: "FactMap \<Rightarrow> bool" where
  "attorney_proven facts \<longleftrightarrow>
     is_true facts ''actor.is_canonical_lawyer'' \<and> is_true facts ''actor.has_matching_power_of_attorney'' \<and>
     is_true facts ''poa.is_effective_at_evaluation_time'' \<and> is_true facts ''poa.covers_requested_operation'' \<and>
     is_true facts ''authority.is_unambiguous''"

definition enforcement_due :: "FactMap \<Rightarrow> bool" where
  "enforcement_due facts \<longleftrightarrow>
     (case fact_number (facts (js ''case.min_days_since_notification'')) of
        None \<Rightarrow> False
      | Some daysSince \<Rightarrow> js_at_least daysSince (objection_period facts))"

definition COMPILED_RULES :: "CompiledRule list" where
  "COMPILED_RULES =
    [rule_of ''RULE_UYAP_SEND_INITIAL'' (Some [''INITIAL'']) UYAP_SEND 10 CASE
       (\<lambda>facts state metrics. in_stage state ''INITIAL'' \<and> attorney_proven facts \<and> is_true facts ''expense.opening.paid''),
     rule_of ''RULE_PAYMENT_ORDER_AFTER_UYAP'' (Some [''UYAP_SENT'']) SEND_PAYMENT_ORDER 15 CASE
       (\<lambda>facts state metrics. in_stage state ''UYAP_SENT'' \<and> is_true facts ''case.has_article_4_request''),
     rule_of ''RULE_NOTIFICATION_READY'' (Some [''PAYMENT_ORDER_SENT'']) SEND_NOTIFICATION 20 DEBTOR
       (\<lambda>facts state metrics. in_stage state ''PAYMENT_ORDER_SENT'' \<and> is_true facts ''case.has_any_valid_address''),
     rule_of ''RULE_ENFORCEMENT_AFTER_NOTIFICATION'' (Some [''NOTIFICATION_DELIVERED'', ''WAITING_OBJECTION_PERIOD''])
       REQUEST_ENFORCEMENT 25 CASE
       (\<lambda>facts state metrics. in_stage state ''NOTIFICATION_DELIVERED'' \<and> enforcement_due facts \<and>
          \<not> is_true facts ''case.has_objection''),
     rule_of ''RULE_HACIZ_TRIGGER'' (Some [''ENFORCEMENT_REQUESTED'']) TRIGGER_HACIZ 30 ASSET
       (\<lambda>facts state metrics. in_stage state ''ENFORCEMENT_REQUESTED'' \<and> is_true facts ''case.haciz_approved''),
     rule_of ''RULE_QUERY_ASSETS_AFTER_NOTIFICATION''
       (Some [''NOTIFICATION_DELIVERED'', ''ENFORCEMENT_REQUESTED'', ''HACIZ_APPLIED'']) QUERY_ASSETS 40 DEBTOR
       (\<lambda>facts state metrics. in_stage state ''NOTIFICATION_DELIVERED'' \<and>
          absent_or_more facts ''case.days_since_last_asset_query'' 30),
     rule_of ''RULE_QUERY_BANK_ACCOUNTS''
       (Some [''NOTIFICATION_DELIVERED'', ''ENFORCEMENT_REQUESTED'', ''HACIZ_APPLIED'']) QUERY_BANK_ACCOUNTS 45 DEBTOR
       (\<lambda>facts state metrics. (in_stage state ''NOTIFICATION_DELIVERED'' \<or> in_stage state ''ENFORCEMENT_REQUESTED'' \<or>
           in_stage state ''HACIZ_APPLIED'') \<and>
          absent_or_more facts ''case.days_since_last_bank_query'' 15),
     rule_of ''RULE_REQUEST_SALE'' (Some [''HACIZ_APPLIED'']) REQUEST_SALE 35 ASSET
       (\<lambda>facts state metrics. in_stage state ''HACIZ_APPLIED'' \<and> is_true facts ''case.has_seized_assets'' \<and>
          \<not> is_true facts ''case.sale_requested''),
     rule_of ''RULE_REQUEST_EXPENSE_OPENING'' (Some [''INITIAL'']) REQUEST_EXPENSE 5 EXPENSE
       (\<lambda>facts state metrics. in_stage state ''INITIAL'' \<and> \<not> is_true facts ''expense.opening.requested'' \<and>
          \<not> is_true facts ''expense.opening.paid''),
     rule_of ''RULE_REQUEST_EXPENSE_HACIZ'' (Some [''ENFORCEMENT_REQUESTED'']) REQUEST_EXPENSE 22 EXPENSE
       (\<lambda>facts state metrics. in_stage state ''ENFORCEMENT_REQUESTED'' \<and> \<not> is_true facts ''expense.haciz.requested'' \<and>
          \<not> is_true facts ''expense.haciz.paid''),
     rule_of ''RULE_RECORD_COLLECTION'' None RECORD_COLLECTION 8 CASE
       (\<lambda>facts state metrics. is_true facts ''case.has_pending_collection''),
     rule_of ''RULE_FINALIZE_FULL_COLLECTION'' None FINALIZE_CASE 3 CASE
       (\<lambda>facts state metrics. (case me_collectionRate metrics of None \<Rightarrow> False | Some rate \<Rightarrow> js_at_least rate (js_int 100)) \<and>
          \<not> in_stage state ''CLOSED_PAID''),
     rule_of ''RULE_SEND_REMINDER'' None SEND_DEBTOR_MSG 50 DEBTOR
       (\<lambda>facts state metrics. (case me_daysSinceLastAction metrics of None \<Rightarrow> False | Some days \<Rightarrow> js_less (js_int 30) days) \<and>
          \<not> (in_stage state ''CLOSED_PAID'' \<or> in_stage state ''CLOSED_SETTLED'' \<or> in_stage state ''CLOSED_WITHDRAWN'' \<or>
             in_stage state ''ARCHIVED''))]"

definition getActiveRules :: "CompiledRule list" where
  "getActiveRules = filter ru_isActive COMPILED_RULES"

definition getRulesForStage :: "jstr \<Rightarrow> CompiledRule list" where
  "getRulesForStage stage =
     filter (\<lambda>r. ru_isActive r \<and> (case ru_validStages r of None \<Rightarrow> True | Some stages \<Rightarrow> stage \<in> set stages)) COMPILED_RULES"

definition getRulesForScope :: "Scope \<Rightarrow> CompiledRule list" where
  "getRulesForScope scope = filter (\<lambda>r. ru_isActive r \<and> ru_scope r = scope) COMPILED_RULES"

subsection \<open>Recommendations\<close>

record GatePreCheck =
  gp_blocked :: bool
  gp_gateCode :: "jstr option"
  gp_reason :: GateReason

record RecommendedAction =
  ra_actionCode :: ActionCode
  ra_priority :: int
  ra_scope :: Scope
  ra_context :: "ActionContext option"
  ra_ruleId :: jstr
  ra_gatePreCheck :: "GatePreCheck option"

definition pre_check :: "ActionCode \<Rightarrow> FactMap \<Rightarrow> ActionContext option \<Rightarrow> GatePreCheck" where
  "pre_check actionCode facts context =
     (let gateResult = checkHardGates actionCode facts context in
      \<lparr>gp_blocked = gt_blocked gateResult, gp_gateCode = gt_gateCode gateResult, gp_reason = gt_reason gateResult\<rparr>)"

definition recommendation :: "FactMap \<Rightarrow> ActionContext option \<Rightarrow> bool \<Rightarrow> CompiledRule \<Rightarrow> RecommendedAction" where
  "recommendation facts context includeGatePreCheck rule =
     \<lparr>ra_actionCode = ru_actionCode rule, ra_priority = ru_priority rule, ra_scope = ru_scope rule,
      ra_context = context, ra_ruleId = ru_ruleId rule,
      ra_gatePreCheck = (if includeGatePreCheck then Some (pre_check (ru_actionCode rule) facts context) else None)\<rparr>"

definition evaluateRules ::
  "FactMap \<Rightarrow> StateInfo \<Rightarrow> ComputedMetrics \<Rightarrow> Scope option \<Rightarrow> ActionContext option \<Rightarrow> bool \<Rightarrow> RecommendedAction list" where
  "evaluateRules facts state metrics scope context includeGatePreCheck =
     js_sort (\<lambda>a b. ra_priority a - ra_priority b)
       (map (recommendation facts context includeGatePreCheck)
         (filter (\<lambda>rule. (case scope of None \<Rightarrow> True | Some wanted \<Rightarrow> ru_scope rule = wanted) \<and> ru_when rule facts state metrics)
           (getRulesForStage (st_currentState state))))"

definition hasRecommendation ::
  "ActionCode \<Rightarrow> FactMap \<Rightarrow> StateInfo \<Rightarrow> ComputedMetrics \<Rightarrow> ActionContext option \<Rightarrow> bool" where
  "hasRecommendation actionCode facts state metrics context \<longleftrightarrow>
     list_ex (\<lambda>r. ra_actionCode r = actionCode) (evaluateRules facts state metrics None context False)"

definition getTopRecommendation ::
  "FactMap \<Rightarrow> StateInfo \<Rightarrow> ComputedMetrics \<Rightarrow> Scope option \<Rightarrow> ActionContext option \<Rightarrow> RecommendedAction option" where
  "getTopRecommendation facts state metrics scope context =
     (let recommendations = evaluateRules facts state metrics scope context True in
      case List.find (\<lambda>r. case ra_gatePreCheck r of None \<Rightarrow> True | Some check \<Rightarrow> \<not> gp_blocked check) recommendations of
        Some unblocked \<Rightarrow> Some unblocked
      | None \<Rightarrow> (case recommendations of [] \<Rightarrow> None | first # _ \<Rightarrow> Some first))"

definition getRule :: "jstr \<Rightarrow> CompiledRule option" where
  "getRule ruleId = List.find (\<lambda>r. ru_ruleId r = ruleId) COMPILED_RULES"

end
