(* ===== verification/PolicyEngine.thy ===== *)
theory PolicyEngine
  imports RuleEngine
begin

section \<open>The policy engine (case-policy-engine.service.ts, execution-recorder.service.ts)\<close>

text \<open>
  The engine decides whether an action may be performed on a case, recommends actions, and is told when an
  action was executed. All three begin with the tenant of the case. A decision goes through the facts, the
  gates and the state machine and is logged; an error anywhere on the way is a decision too, closed or open
  by the risk of the action. An execution is recorded under an identifier of the caller. The database, the
  store of the facts and the log are a parameter.
\<close>

subsection \<open>Execution records\<close>

datatype ExecutionStatus = ExecutionPending | ExecutionSuccess | ExecutionFailed | ExecutionNoop

text \<open>A row as it is written, and with the time the database adds. The time of the end and the texts of errors
  are left out.\<close>

record ExecutionData =
  er_tenantId :: jstr
  er_executionId :: jstr
  er_caseId :: jstr
  er_actionCode :: ActionCode
  er_context :: "(jstr option \<times> jstr option \<times> jstr option) option"
  er_status :: ExecutionStatus
  er_errorCode :: "jstr option"

record ExecutionRecord = ExecutionData +
  er_startedAt :: int

text \<open>The client: an execution of a tenant by its identifier, a new row, the update of one row, the pending rows
  of a tenant that started before a time, and the update of all of these.\<close>

record 's execution_client =
  xc_find :: "jstr \<Rightarrow> jstr \<Rightarrow> 's \<Rightarrow> journal_failure + ExecutionRecord option"
  xc_create :: "ExecutionData \<Rightarrow> 's \<Rightarrow> (journal_failure + ExecutionRecord) \<times> 's"
  xc_update :: "jstr \<Rightarrow> jstr \<Rightarrow> ExecutionStatus \<Rightarrow> jstr option \<Rightarrow> 's \<Rightarrow> (journal_failure + unit) \<times> 's"
  xc_findStale :: "jstr \<Rightarrow> int \<Rightarrow> 's \<Rightarrow> journal_failure + ExecutionRecord list"
  xc_failStale :: "jstr \<Rightarrow> int \<Rightarrow> jstr \<Rightarrow> 's \<Rightarrow> (journal_failure + nat) \<times> 's"

datatype engine_exception =
    TenantRequired
  | CaseNotFound jstr
  | ExecutionTenantRequired
  | ExecutionIdRequired
  | EngineDbError journal_failure

definition new_execution :: "jstr \<Rightarrow> jstr \<Rightarrow> jstr \<Rightarrow> ActionCode \<Rightarrow> ActionContext option \<Rightarrow> ExecutionData" where
  "new_execution tenantId executionId caseId actionCode context =
     \<lparr>er_tenantId = tenantId, er_executionId = executionId, er_caseId = caseId, er_actionCode = actionCode,
      er_context = map_option (\<lambda>c. (cx_debtorId c, cx_assetId c, cx_expenseId c)) context,
      er_status = ExecutionPending, er_errorCode = None\<rparr>"

definition startExecution ::
  "'s execution_client \<Rightarrow> jstr \<Rightarrow> jstr \<Rightarrow> jstr \<Rightarrow> ActionCode \<Rightarrow> ActionContext option \<Rightarrow> 's \<Rightarrow>
   (engine_exception + bool \<times> ExecutionRecord) \<times> 's" where
  "startExecution db tenantId executionId caseId actionCode context s =
     (if tenantId = [] then (Inl ExecutionTenantRequired, s)
      else if executionId = [] then (Inl ExecutionIdRequired, s)
      else case xc_find db tenantId executionId s of
        Inl e \<Rightarrow> (Inl (EngineDbError e), s)
      | Inr (Some existing) \<Rightarrow> (Inr (False, existing), s)
      | Inr None \<Rightarrow>
        (let new = new_execution tenantId executionId caseId actionCode context in
         case xc_create db new s of
           (Inr created, s') \<Rightarrow> (Inr (True, created), s')
         | (Inl error, s') \<Rightarrow>
             if jf_code error \<noteq> Some (js ''P2002'') then (Inl (EngineDbError error), s')
             else case xc_find db tenantId executionId s' of
               Inl e \<Rightarrow> (Inl (EngineDbError e), s')
             | Inr None \<Rightarrow> (Inl (EngineDbError error), s')
             | Inr (Some winner) \<Rightarrow> (Inr (False, winner), s')))"

definition completeExecution ::
  "'s execution_client \<Rightarrow> jstr \<Rightarrow> jstr \<Rightarrow> bool \<Rightarrow> jstr option \<Rightarrow> 's \<Rightarrow> (engine_exception + unit) \<times> 's" where
  "completeExecution db tenantId executionId success errorCode s =
     (if tenantId = [] then (Inl ExecutionTenantRequired, s)
      else case xc_update db tenantId executionId (if success then ExecutionSuccess else ExecutionFailed) errorCode s of
        (Inl e, s') \<Rightarrow> (Inl (EngineDbError e), s')
      | (Inr _, s') \<Rightarrow> (Inr (), s'))"

definition markAsNoop :: "'s execution_client \<Rightarrow> jstr \<Rightarrow> jstr \<Rightarrow> 's \<Rightarrow> (engine_exception + unit) \<times> 's" where
  "markAsNoop db tenantId executionId s =
     (if tenantId = [] then (Inl ExecutionTenantRequired, s)
      else case xc_update db tenantId executionId ExecutionNoop None s of
        (Inl e, s') \<Rightarrow> (Inl (EngineDbError e), s')
      | (Inr _, s') \<Rightarrow> (Inr (), s'))"

definition getExecution :: "'s execution_client \<Rightarrow> jstr \<Rightarrow> jstr \<Rightarrow> 's \<Rightarrow> engine_exception + ExecutionRecord option" where
  "getExecution db tenantId executionId s =
     (if tenantId = [] then Inl ExecutionTenantRequired
      else case xc_find db tenantId executionId s of Inl e \<Rightarrow> Inl (EngineDbError e) | Inr found \<Rightarrow> Inr found)"

definition stale_cutoff :: "int \<Rightarrow> int \<Rightarrow> int" where
  "stale_cutoff now olderThanMinutes = now - olderThanMinutes * 60 * 1000"

definition getPendingExecutions ::
  "'s execution_client \<Rightarrow> int \<Rightarrow> jstr \<Rightarrow> int \<Rightarrow> 's \<Rightarrow> engine_exception + ExecutionRecord list" where
  "getPendingExecutions db now tenantId olderThanMinutes s =
     (if tenantId = [] then Inl ExecutionTenantRequired
      else case xc_findStale db tenantId (stale_cutoff now olderThanMinutes) s of
        Inl e \<Rightarrow> Inl (EngineDbError e) | Inr found \<Rightarrow> Inr found)"

definition cleanupStaleExecutions ::
  "'s execution_client \<Rightarrow> int \<Rightarrow> jstr \<Rightarrow> int \<Rightarrow> 's \<Rightarrow> (engine_exception + nat) \<times> 's" where
  "cleanupStaleExecutions db now tenantId olderThanMinutes s =
     (if tenantId = [] then (Inl ExecutionTenantRequired, s)
      else case xc_failStale db tenantId (stale_cutoff now olderThanMinutes) (js ''TIMEOUT'') s of
        (Inl e, s') \<Rightarrow> (Inl (EngineDbError e), s')
      | (Inr n, s') \<Rightarrow> (Inr n, s'))"

subsection \<open>Decisions\<close>

datatype DecisionReason =
    ReasonCaseNotFound
  | ReasonGate GateReason
  | ReasonTransition TransitionReason
  | ReasonOk
  | ReasonStageIndependent
  | ReasonSystemError
  | ReasonSystemWarning

record PolicyDecision =
  pd_allowed :: bool
  pd_reason :: DecisionReason
  pd_code :: DecisionCode
  pd_blockedBy :: "(jstr \<times> GateSeverity) option"
  pd_state :: "StateInfo option"
  pd_factsUsed :: "jstr list option"
  pd_warnings :: "jstr list"
  pd_decisionId :: "jstr option"
  pd_traceId :: "jstr option"

definition buildDecision :: "bool \<Rightarrow> DecisionReason \<Rightarrow> DecisionCode \<Rightarrow> PolicyDecision" where
  "buildDecision allowed reason code =
     \<lparr>pd_allowed = allowed, pd_reason = reason, pd_code = code, pd_blockedBy = None, pd_state = None,
      pd_factsUsed = None, pd_warnings = [], pd_decisionId = None, pd_traceId = None\<rparr>"

record 's engine_client =
  en_stage :: "'s stage_client"
  en_execution :: "'s execution_client"
  en_ownedCase :: "jstr \<Rightarrow> jstr \<Rightarrow> 's \<Rightarrow> journal_failure + bool"
  en_getFacts :: "jstr \<Rightarrow> ActionContext option \<Rightarrow> 's \<Rightarrow> (journal_failure + FactMap) \<times> 's"
  en_computeAll :: "jstr \<Rightarrow> ActionContext option \<Rightarrow> FactMap \<Rightarrow> FactMap"
  en_writeFacts :: "jstr \<Rightarrow> (jstr \<times> FactValue) list \<Rightarrow> FactWriteMetadata option \<Rightarrow> 's \<Rightarrow> (fact_write_error + unit) \<times> 's"
  en_log :: "jstr \<Rightarrow> ActionCode \<Rightarrow> ActionContext option \<Rightarrow> PolicyDecision \<Rightarrow> FactMap \<Rightarrow> StateInfo option \<Rightarrow> jstr \<Rightarrow> 's \<Rightarrow>
     (journal_failure + jstr) \<times> 's"

definition assertCaseBelongsToTenant :: "'s engine_client \<Rightarrow> jstr \<Rightarrow> jstr \<Rightarrow> 's \<Rightarrow> engine_exception option" where
  "assertCaseBelongsToTenant db tenantId caseId s =
     (if tenantId = [] then Some TenantRequired
      else case en_ownedCase db tenantId caseId s of
        Inl e \<Rightarrow> Some (EngineDbError e)
      | Inr owned \<Rightarrow> if \<not> owned then Some (CaseNotFound caseId) else None)"

definition handleError :: "ActionCode \<Rightarrow> PolicyDecision" where
  "handleError actionCode =
     (if getFailMode actionCode = CLOSED \<or> risk_level actionCode = HIGH
      then buildDecision False ReasonSystemError SYSTEM_ERROR_BLOCKED
      else (buildDecision True ReasonSystemWarning OK_WITH_WARNING)\<lparr>pd_warnings := [js ''SYSTEM_ERROR'']\<rparr>)"

definition logged ::
  "'s engine_client \<Rightarrow> jstr \<Rightarrow> ActionCode \<Rightarrow> ActionContext option \<Rightarrow> FactMap \<Rightarrow> StateInfo option \<Rightarrow> jstr \<Rightarrow>
   PolicyDecision \<Rightarrow> 's \<Rightarrow> (journal_failure + PolicyDecision) \<times> 's" where
  "logged db caseId actionCode context facts state traceId decision s =
     (case en_log db caseId actionCode context decision facts state traceId s of
        (Inl e, s') \<Rightarrow> (Inl e, s')
      | (Inr decisionId, s') \<Rightarrow> (Inr (decision\<lparr>pd_decisionId := Some decisionId, pd_traceId := Some traceId\<rparr>), s'))"

text \<open>The verdict on facts, state and the fresh row of the case.\<close>

definition verdict :: "ActionCode \<Rightarrow> ActionContext option \<Rightarrow> CaseRow \<Rightarrow> FactMap \<Rightarrow> StateInfo \<Rightarrow> PolicyDecision" where
  "verdict actionCode context row facts state =
     (let gateResult = checkGates actionCode facts context;
          icraType = mapCaseTypeToIcraType (Some (cr_type row)) (cr_subType row);
          transitionResult = canTransition state actionCode (Some icraType);
          closedByFreshRow = (cr_caseStatus row \<in> set CLOSING_CASE_STATUSES);
          archivedByFreshRow = cr_isArchived row;
          allow = (\<lambda>reason. (buildDecision True reason OK)\<lparr>pd_state := Some state,
            pd_factsUsed := Some (gt_factsUsed gateResult), pd_warnings := gt_softWarnings gateResult\<rparr>);
          stop = (buildDecision False (ReasonTransition (tr_reason transitionResult)) INVALID_TRANSITION)\<lparr>pd_state := Some state\<rparr> in
      if gt_blocked gateResult
      then (buildDecision False (ReasonGate (gt_reason gateResult)) GATE_BLOCKED)\<lparr>
             pd_blockedBy := Some (the (gt_gateCode gateResult), HARD), pd_state := Some state,
             pd_factsUsed := Some (gt_factsUsed gateResult)\<rparr>
      else if tr_allowed transitionResult then allow ReasonOk
      else if isStageIndependent actionCode
      then (if closedByFreshRow \<or> archivedByFreshRow
            then let gateCode = js (if closedByFreshRow then ''CASE_CLOSED'' else ''CASE_ARCHIVED'') in
              (buildDecision False (ReasonGate (GateTriggered gateCode)) GATE_BLOCKED)\<lparr>
                pd_blockedBy := Some (gateCode, HARD), pd_state := Some state\<rparr>
            else if \<not> isTerminal (st_currentState state) (Some icraType) then allow ReasonStageIndependent
            else stop)
      else stop)"

text \<open>The body of the \<open>try\<close>: a decision, or the facts and the state known when something was thrown.\<close>

definition try_decision ::
  "'s engine_client \<Rightarrow> jstr \<Rightarrow> ActionCode \<Rightarrow> ActionContext option \<Rightarrow> jstr \<Rightarrow> 's \<Rightarrow>
   ((FactMap \<times> StateInfo option) + PolicyDecision) \<times> 's" where
  "try_decision db caseId actionCode context traceId s =
     (case sc_findCase (en_stage db) caseId s of
        Inl e \<Rightarrow> (Inl (Map.empty, None), s)
      | Inr None \<Rightarrow> (Inr (buildDecision False ReasonCaseNotFound CASE_NOT_FOUND), s)
      | Inr (Some row) \<Rightarrow>
        (case en_getFacts db caseId context s of
           (Inl e, s') \<Rightarrow> (Inl (Map.empty, None), s')
         | (Inr baseFacts, s') \<Rightarrow>
           (let facts = en_computeAll db caseId context baseFacts in
            case getCurrentState (en_stage db) caseId context s' of
              Inl e \<Rightarrow> (Inl (facts, None), s')
            | Inr state \<Rightarrow>
              (case logged db caseId actionCode context facts (Some state) traceId
                      (verdict actionCode context row facts state) s' of
                 (Inl e, s'') \<Rightarrow> (Inl (facts, Some state), s'')
               | (Inr decision, s'') \<Rightarrow> (Inr decision, s'')))))"

definition evaluateDecision ::
  "'s engine_client \<Rightarrow> jstr \<Rightarrow> ActionCode \<Rightarrow> ActionContext option \<Rightarrow> jstr \<Rightarrow> 's \<Rightarrow> PolicyDecision \<times> 's" where
  "evaluateDecision db caseId actionCode context traceId s =
     (case try_decision db caseId actionCode context traceId s of
        (Inr decision, s') \<Rightarrow> (decision, s')
      | (Inl (facts, state), s') \<Rightarrow>
          (let decision = handleError actionCode in
           case logged db caseId actionCode context facts state traceId decision s' of
             (Inl _, s'') \<Rightarrow> (decision, s'')
           | (Inr decision', s'') \<Rightarrow> (decision', s'')))"

text \<open>The key of a lock which is not taken yet.\<close>

definition buildLockKey :: "jstr \<Rightarrow> ActionContext option \<Rightarrow> jstr" where
  "buildLockKey caseId context =
     js ''cpe:decision:'' @ caseId @
     (case context_id cx_debtorId context of None \<Rightarrow> [] | Some i \<Rightarrow> js '':'' @ i) @
     (case context_id cx_assetId context of None \<Rightarrow> [] | Some i \<Rightarrow> js '':'' @ i)"

definition canPerformAction ::
  "'s engine_client \<Rightarrow> jstr \<Rightarrow> jstr \<Rightarrow> jstr \<Rightarrow> ActionCode \<Rightarrow> ActionContext option \<Rightarrow> 's \<Rightarrow>
   (engine_exception + PolicyDecision) \<times> 's" where
  "canPerformAction db traceId tenantId caseId actionCode context s =
     (case assertCaseBelongsToTenant db tenantId caseId s of
        Some e \<Rightarrow> (Inl e, s)
      | None \<Rightarrow> (case evaluateDecision db caseId actionCode context traceId s of (decision, s') \<Rightarrow> (Inr decision, s')))"

subsection \<open>Recommendations\<close>

text \<open>The two operations on floating-point numbers, a difference and a percentage, are parameters.\<close>

definition days_since :: "int \<Rightarrow> FactValue option \<Rightarrow> jsnum option" where
  "days_since now v =
     (case v of
        Some (FactDate (Some t)) \<Rightarrow> Some (js_int ((now - t) div ms_per_day))
      | Some (FactDate None) \<Rightarrow> Some NaN
      | _ \<Rightarrow> None)"

definition computeMetrics ::
  "(jsnum \<Rightarrow> jsnum \<Rightarrow> jsnum) \<Rightarrow> (jsnum \<Rightarrow> jsnum \<Rightarrow> jsnum) \<Rightarrow> int \<Rightarrow> FactMap \<Rightarrow> ComputedMetrics" where
  "computeMetrics minus_of percent_of now facts =
     (let totalDebt = fact_number (facts (js ''case.total_debt_amount''));
          collected = fact_number (facts (js ''case.collected_amount''));
          rated = (\<lambda>f. case (collected, totalDebt) of
            (Some c, Some d) \<Rightarrow> if js_less (js_int 0) d then Some (f c d) else None | _ \<Rightarrow> None) in
      \<lparr>me_totalDebtAmount = totalDebt, me_collectedAmount = collected,
       me_remainingDebt = rated (\<lambda>c d. minus_of d c), me_collectionRate = rated percent_of,
       me_caseAgeDays = days_since now (facts (js ''case.created_at'')),
       me_daysSinceLastAction = days_since now (facts (js ''case.last_action_at'')),
       me_debtorCount = fact_number (facts (js ''case.debtor_count''))\<rparr>)"

definition getNextActions ::
  "(jsnum \<Rightarrow> jsnum \<Rightarrow> jsnum) \<Rightarrow> (jsnum \<Rightarrow> jsnum \<Rightarrow> jsnum) \<Rightarrow> int \<Rightarrow> 's engine_client \<Rightarrow> jstr \<Rightarrow> jstr \<Rightarrow> Scope option \<Rightarrow>
   ActionContext option \<Rightarrow> 's \<Rightarrow> (engine_exception + RecommendedAction list) \<times> 's" where
  "getNextActions minus_of percent_of now db tenantId caseId scope context s =
     (case assertCaseBelongsToTenant db tenantId caseId s of
        Some e \<Rightarrow> (Inl e, s)
      | None \<Rightarrow>
        (case en_getFacts db caseId context s of
           (Inl e, s') \<Rightarrow> (Inr [], s')
         | (Inr baseFacts, s') \<Rightarrow>
           (let facts = en_computeAll db caseId context baseFacts in
            case getCurrentState (en_stage db) caseId context s' of
              Inl e \<Rightarrow> (Inr [], s')
            | Inr state \<Rightarrow>
                (Inr (evaluateRules facts state (computeMetrics minus_of percent_of now facts) scope context True), s'))))"

subsection \<open>Executed actions\<close>

record ActionResult =
  rs_success :: bool
  rs_errorCode :: "jstr option"
  rs_newFacts :: "(jstr \<times> FactValue) list option"
  rs_expectedStateVersion :: "jsnum option"

record ExecutionResponse =
  xr_success :: bool
  xr_code :: "jstr option"
  xr_stateVersion :: "int option"
  xr_shouldRetry :: bool

definition response :: "bool \<Rightarrow> jstr option \<Rightarrow> ExecutionResponse" where
  "response success code = \<lparr>xr_success = success, xr_code = code, xr_stateVersion = None, xr_shouldRetry = False\<rparr>"

definition duplicate_response :: "ExecutionRecord \<Rightarrow> ExecutionResponse" where
  "duplicate_response execution =
     response (er_status execution = ExecutionSuccess)
       (if er_status execution = ExecutionNoop then Some (js ''DUPLICATE'') else er_errorCode execution)"

definition transition_code_text :: "TransitionCode \<Rightarrow> jstr" where
  "transition_code_text code =
     (case code of TC_OK \<Rightarrow> js ''OK'' | TC_VERSION_MISMATCH \<Rightarrow> js ''VERSION_MISMATCH''
      | TC_INVALID_TRANSITION \<Rightarrow> js ''INVALID_TRANSITION'' | TC_ERROR \<Rightarrow> js ''ERROR'')"

text \<open>The body of the second \<open>try\<close>; \<open>None\<close> stands for something thrown.\<close>

definition apply_executed ::
  "'s engine_client \<Rightarrow> int \<Rightarrow> jstr \<Rightarrow> jstr \<Rightarrow> ActionCode \<Rightarrow> ActionContext option \<Rightarrow> ActionResult \<Rightarrow> jstr \<Rightarrow> 's \<Rightarrow>
   ExecutionResponse option \<times> 's" where
  "apply_executed db now tenantId caseId actionCode context result executionId s =
     (let complete = completeExecution (en_execution db) tenantId executionId;
          respond = (\<lambda>answer done. case done of (Inl e, s') \<Rightarrow> (None, s') | (Inr _, s') \<Rightarrow> (Some answer, s')) in
      case applyTransition (en_stage db) now caseId actionCode context (rs_expectedStateVersion result) s of
        (transitionResult, s') \<Rightarrow>
          if \<not> ar_success transitionResult
          then (if ar_code transitionResult = TC_VERSION_MISMATCH
                then respond ((response False (Some (js ''CONCURRENT_MODIFICATION'')))\<lparr>xr_shouldRetry := True\<rparr>)
                       (complete False (Some (js ''CONCURRENT_MODIFICATION'')) s')
                else respond (response False (Some (transition_code_text (ar_code transitionResult))))
                       (complete False (Some (transition_code_text (ar_code transitionResult))) s'))
          else case (case rs_newFacts result of
                       None \<Rightarrow> (Inr (), s')
                     | Some newFacts \<Rightarrow> en_writeFacts db caseId newFacts
                         (Some \<lparr>fw_executionId = Some executionId, fw_source = Some (js ''CPE''), fw_actionCode = Some actionCode\<rparr>) s') of
            (Inl e, s'') \<Rightarrow> (None, s'')
          | (Inr _, s'') \<Rightarrow>
              respond ((response True None)\<lparr>xr_stateVersion := ar_newVersion transitionResult\<rparr>)
                (complete (rs_success result) (rs_errorCode result) s''))"

definition onActionExecuted ::
  "'s engine_client \<Rightarrow> int \<Rightarrow> jstr \<Rightarrow> jstr \<Rightarrow> ActionCode \<Rightarrow> ActionContext option \<Rightarrow> ActionResult \<Rightarrow> jstr \<Rightarrow> 's \<Rightarrow>
   (engine_exception + ExecutionResponse) \<times> 's" where
  "onActionExecuted db now tenantId caseId actionCode context result executionId s =
     (case assertCaseBelongsToTenant db tenantId caseId s of
        Some e \<Rightarrow> (Inl e, s)
      | None \<Rightarrow>
        (case startExecution (en_execution db) tenantId executionId caseId actionCode context s of
           (Inl e, s1) \<Rightarrow> (Inl e, s1)
         | (Inr (isNew, execution), s1) \<Rightarrow>
             if \<not> isNew then (Inr (duplicate_response execution), s1)
             else if \<not> rs_success result
             then (case completeExecution (en_execution db) tenantId executionId False (rs_errorCode result) s1 of
                     (Inl e, s2) \<Rightarrow> (Inl e, s2)
                   | (Inr _, s2) \<Rightarrow> (Inr (response False (rs_errorCode result)), s2))
             else case apply_executed db now tenantId caseId actionCode context result executionId s1 of
               (Some answer, s2) \<Rightarrow> (Inr answer, s2)
             | (None, s2) \<Rightarrow>
                 (case completeExecution (en_execution db) tenantId executionId False (Some (js ''INTERNAL_ERROR'')) s2 of
                    (Inl e, s3) \<Rightarrow> (Inl e, s3)
                  | (Inr _, s3) \<Rightarrow> (Inr (response False (Some (js ''INTERNAL_ERROR''))), s3))))"

end
