(* ===== verification/StageProperties.thy ===== *)
theory StageProperties
  imports StateMachine
begin

section \<open>Properties of the stages\<close>

text \<open>
  What the compiled flows promise and where they end, and what becomes of them on the stored cases, whose
  column admits other stages than the flows know.
\<close>

subsection \<open>The flows\<close>

lemmas flow_defs = flow_for_def getStateFlow_def DEFAULT_STATE_FLOW_def COMPILED_STATE_FLOWS_def

lemma getStateFlow_cases:
  "getStateFlow kind = (if kind = ILAMSIZ_KAMBIYO
     then \<lparr>sf_icraType = ILAMSIZ_KAMBIYO, sf_stages = ILAMSIZ_KAMBIYO_STAGES, sf_transitions = ILAMSIZ_KAMBIYO_TRANSITIONS\<rparr>
     else \<lparr>sf_icraType = ILAMSIZ_GENEL, sf_stages = ILAMSIZ_GENEL_STAGES, sf_transitions = ILAMSIZ_GENEL_TRANSITIONS\<rparr>)"
  by (cases kind) (simp_all add: getStateFlow_def DEFAULT_STATE_FLOW_def COMPILED_STATE_FLOWS_def)

definition stages_of :: "IcraType \<Rightarrow> jstr set" where
  "stages_of kind = set (getValidStages kind)"

lemma map_of_member: "map_of xs k = Some v \<Longrightarrow> (k, v) \<in> set xs"
  by (rule map_of_SomeD)

lemma allowed_target:
  assumes "canTransition state actionCode (Some kind) = result" "tr_allowed result"
  obtains target where "tr_targetState result = Some target" "target \<noteq> []"
    "st_currentState state \<in> stages_of kind"
    "target = st_currentState state \<and> actionCode \<in> set (getAllowedActions target (Some kind)) \<or>
     map_of (getPossibleTransitions (st_currentState state) (Some kind)) actionCode = Some target"
proof -
  obtain stage where stage: "map_of (sf_stages (getStateFlow kind)) (st_currentState state) = Some stage"
    using assms by (auto simp: canTransition_def Let_def flow_for_def split: option.split_asm)
  obtain ts where ts: "map_of (sf_transitions (getStateFlow kind)) (st_currentState state) = Some ts"
    using assms stage by (auto simp: canTransition_def Let_def flow_for_def split: option.split_asm if_split_asm)
  have here: "st_currentState state \<in> stages_of kind"
    using map_of_SomeD [OF stage] by (force simp: stages_of_def getValidStages_def)
  have ne: "st_currentState state \<noteq> []"
  proof -
    have "[] \<notin> stages_of kind"
      by (simp add: stages_of_def getValidStages_def getStateFlow_cases ILAMSIZ_GENEL_STAGES_def ILAMSIZ_KAMBIYO_STAGES_def)
    then show ?thesis using here by auto
  qed
  show thesis
  proof (cases "truthy (map_of ts actionCode)")
    case True
    then obtain target where "map_of ts actionCode = Some target" "target \<noteq> []"
      by (auto simp: truthy_def split: option.split_asm)
    then show ?thesis
      using assms stage ts here True
      by (intro that [of target])
         (auto simp: canTransition_def Let_def flow_for_def getPossibleTransitions_def split: if_split_asm)
  next
    case False
    then show ?thesis
      using assms stage ts here ne
      by (intro that [of "st_currentState state"])
         (auto simp: canTransition_def Let_def flow_for_def getAllowedActions_def split: if_split_asm)
  qed
qed

text \<open>The transitions of a flow as pairs of a stage and its target.\<close>

definition flow_edges :: "CompiledStateFlow \<Rightarrow> (jstr \<times> ActionCode \<times> jstr) list" where
  "flow_edges flow = concat (map (\<lambda>(source, ts). map (\<lambda>(actionCode, target). (source, actionCode, target)) ts) (sf_transitions flow))"

lemma possible_edge:
  assumes "map_of (getPossibleTransitions source (Some kind)) actionCode = Some target"
  shows "(source, actionCode, target) \<in> set (flow_edges (getStateFlow kind))"
proof -
  obtain ts where ts: "map_of (sf_transitions (getStateFlow kind)) source = Some ts" "map_of ts actionCode = Some target"
    using assms by (auto simp: getPossibleTransitions_def flow_for_def split: option.split_asm)
  show ?thesis
    using map_of_SomeD [OF ts(1)] map_of_SomeD [OF ts(2)]
    by (auto simp: flow_edges_def intro!: bexI [of _ "(source, ts)"])
qed

lemma general_edges:
  "list_all (\<lambda>(source, actionCode, target). target \<in> set (getValidStages ILAMSIZ_GENEL)) (flow_edges (getStateFlow ILAMSIZ_GENEL))"
  by code_simp

lemma bill_edges:
  "list_all (\<lambda>(source, actionCode, target). target \<in> set (getValidStages ILAMSIZ_KAMBIYO) \<or>
     source = js ''HACIZ_APPLIED'' \<and> actionCode = REQUEST_SALE \<and> target = js ''SALE_REQUESTED'')
     (flow_edges (getStateFlow ILAMSIZ_KAMBIYO))"
  by code_simp

lemma edges_stay:
  assumes "(source, actionCode, target) \<in> set (flow_edges (getStateFlow kind))"
  shows "target \<in> stages_of kind \<or>
     kind = ILAMSIZ_KAMBIYO \<and> source = js ''HACIZ_APPLIED'' \<and> actionCode = REQUEST_SALE \<and> target = js ''SALE_REQUESTED''"
proof (cases "kind = ILAMSIZ_KAMBIYO")
  case True
  then show ?thesis using assms bill_edges by (auto simp: list_all_iff stages_of_def)
next
  case False
  then have "getStateFlow kind = getStateFlow ILAMSIZ_GENEL" by (simp add: getStateFlow_cases)
  then show ?thesis using assms general_edges by (auto simp: list_all_iff stages_of_def getValidStages_def)
qed

subsection \<open>Properties of the flows\<close>

text \<open>C36: An allowed action keeps a case within the stages of its flow, with one exception: the sale in a
  proceeding on bills of exchange leads to a stage that its flow does not have, and from there no action at
  all is allowed, not even to reopen the case.\<close>

theorem stages_are_closed_but_for_the_sale:
  assumes "tr_allowed (canTransition state actionCode (Some kind))"
    and "tr_targetState (canTransition state actionCode (Some kind)) = Some target"
  shows "target \<in> stages_of kind \<or>
    (kind = ILAMSIZ_KAMBIYO \<and> st_currentState state = js ''HACIZ_APPLIED'' \<and> actionCode = REQUEST_SALE \<and>
     (\<forall>next. tr_reason (canTransition (state\<lparr>st_currentState := target\<rparr>) next (Some kind)) = UnknownStage target \<and>
        \<not> tr_allowed (canTransition (state\<lparr>st_currentState := target\<rparr>) next (Some kind))))"
proof -
  have stuck: "canTransition (state\<lparr>st_currentState := js ''SALE_REQUESTED''\<rparr>) n (Some ILAMSIZ_KAMBIYO) =
      refused_transition (UnknownStage (js ''SALE_REQUESTED''))" for n
    by (simp add: canTransition_def flow_for_def getStateFlow_cases ILAMSIZ_KAMBIYO_STAGES_def)
  obtain t where t: "tr_targetState (canTransition state actionCode (Some kind)) = Some t"
    "st_currentState state \<in> stages_of kind"
    "t = st_currentState state \<and> actionCode \<in> set (getAllowedActions t (Some kind)) \<or>
     map_of (getPossibleTransitions (st_currentState state) (Some kind)) actionCode = Some t"
    by (rule allowed_target [OF refl assms(1)])
  have target: "target = t" using assms(2) t(1) by simp
  show ?thesis
    using t(2,3)
  proof (elim disjE conjE)
    assume "map_of (getPossibleTransitions (st_currentState state) (Some kind)) actionCode = Some t"
    from edges_stay [OF possible_edge [OF this]] show ?thesis
      using stuck unfolding target by auto
  qed (simp add: target)
qed

theorem stages_are_closed_but_for_the_sale_witness:
  "js ''SALE_REQUESTED'' \<notin> stages_of ILAMSIZ_KAMBIYO \<and>
   \<not> tr_allowed (canTransition \<lparr>st_scope = CASE, st_currentState = js ''SALE_REQUESTED'', st_contextId = None, st_version = 0\<rparr>
      REOPEN_CASE (Some ILAMSIZ_KAMBIYO))"
proof -
  let ?s = "\<lparr>st_scope = CASE, st_currentState = js ''HACIZ_APPLIED'', st_contextId = None, st_version = 0\<rparr>"
  have "canTransition ?s REQUEST_SALE (Some ILAMSIZ_KAMBIYO) =
      \<lparr>tr_allowed = True, tr_reason = TransitionOk, tr_targetState = Some (js ''SALE_REQUESTED'')\<rparr>"
    by (simp add: canTransition_def flow_for_def getStateFlow_cases ILAMSIZ_KAMBIYO_STAGES_def
        ILAMSIZ_KAMBIYO_TRANSITIONS_def truthy_def)
  moreover have "js ''SALE_REQUESTED'' \<notin> stages_of ILAMSIZ_KAMBIYO"
    by (simp add: stages_of_def getValidStages_def getStateFlow_cases ILAMSIZ_KAMBIYO_STAGES_def)
  ultimately show ?thesis
    using stages_are_closed_but_for_the_sale [of ?s REQUEST_SALE ILAMSIZ_KAMBIYO "js ''SALE_REQUESTED''"] by simp
qed

lemma terminal_codes:
  "isTerminalStage kind code \<longleftrightarrow>
     code = js ''CLOSED_PAID'' \<or> kind \<noteq> ILAMSIZ_KAMBIYO \<and> code \<in> {js ''CLOSED_SETTLED'', js ''CLOSED_WITHDRAWN'', js ''ARCHIVED''}"
  by (auto simp: isTerminalStage_def getStateFlow_cases ILAMSIZ_GENEL_STAGES_def ILAMSIZ_KAMBIYO_STAGES_def
      split: if_split_asm)

text \<open>A closed stage is left only by opening the case again, and then for the first stage. On a terminal
  stage of any flow an action is allowed exactly when it is \<open>REOPEN_CASE\<close>, and its target is \<open>INITIAL\<close>.\<close>

theorem terminal_stages_only_reopen:
  assumes "isTerminalStage kind (st_currentState state)"
  shows "canTransition state actionCode (Some kind) =
    (if actionCode = REOPEN_CASE
     then \<lparr>tr_allowed = True, tr_reason = TransitionOk, tr_targetState = Some (js ''INITIAL'')\<rparr>
     else \<lparr>tr_allowed = False, tr_reason = CaseIsClosed, tr_targetState = None\<rparr>)"
proof (cases "kind = ILAMSIZ_KAMBIYO")
  case True
  then have "st_currentState state = js ''CLOSED_PAID''" using assms by (simp add: terminal_codes)
  then show ?thesis
    using True by (simp add: canTransition_def flow_for_def getStateFlow_cases ILAMSIZ_KAMBIYO_STAGES_def
        ILAMSIZ_KAMBIYO_TRANSITIONS_def truthy_def)
next
  case False
  then have "st_currentState state \<in> {js ''CLOSED_PAID'', js ''CLOSED_SETTLED'', js ''CLOSED_WITHDRAWN'', js ''ARCHIVED''}"
    using assms by (simp add: terminal_codes)
  then show ?thesis
    using False by (elim insertE emptyE) (simp_all add: canTransition_def flow_for_def getStateFlow_cases
        ILAMSIZ_GENEL_STAGES_def ILAMSIZ_GENEL_TRANSITIONS_def truthy_def)
qed

theorem terminal_stages_only_reopen_witness:
  "canTransition \<lparr>st_scope = CASE, st_currentState = js ''ARCHIVED'', st_contextId = None, st_version = 0\<rparr> UYAP_SEND (Some ILAMLI) =
     \<lparr>tr_allowed = False, tr_reason = CaseIsClosed, tr_targetState = None\<rparr>"
  using terminal_stages_only_reopen [of ILAMLI "\<lparr>st_scope = CASE, st_currentState = js ''ARCHIVED'', st_contextId = None, st_version = 0\<rparr>" UYAP_SEND]
  by (simp add: terminal_codes)

end
