(* ===== verification/GateProperties.thy ===== *)
theory GateProperties
  imports RuleEngine
begin

section \<open>Properties of gates, rules and permissions\<close>

text \<open>
  When a gate passes, what a closed case still admits, which facts prove an official submission, and how
  the permission of a user is decided.
\<close>

subsection \<open>Gates that decide\<close>

text \<open>The loop blocks exactly when a hard gate is triggered or throws.\<close>

definition stops :: "FactMap \<Rightarrow> ActionContext option \<Rightarrow> CompiledGate \<Rightarrow> bool" where
  "stops facts context gate \<longleftrightarrow> cg_severity gate = HARD \<and> cg_condition gate facts context \<noteq> Inr False"

lemma check_gates_blocked:
  "gt_blocked (check_gates facts context gates used warnings) \<longleftrightarrow> list_ex (stops facts context) gates"
proof (induction gates arbitrary: used warnings)
  case (Cons gate gates)
  then show ?case
    by (cases "cg_condition gate facts context"; cases "cg_severity gate")
       (auto simp: stops_def Let_def split: bool.split)
qed simp

lemma list_ex_js_sort [simp]: "list_ex P (js_sort cmp xs) \<longleftrightarrow> list_ex P xs"
  by (simp add: list_ex_iff)

lemma checkGates_blocked:
  "gt_blocked (checkGates actionCode facts context) \<longleftrightarrow>
     list_ex (\<lambda>gate. guards actionCode gate \<and> stops facts context gate) COMPILED_GATES"
  by (auto simp: checkGates_def check_gates_blocked getGatesForAction_def list_ex_iff)

lemma checkHardGates_blocked:
  "gt_blocked (checkHardGates actionCode facts context) = gt_blocked (checkGates actionCode facts context)"
  unfolding checkHardGates_def checkGates_def check_gates_blocked getHardGatesForAction_def
  by (auto simp: list_ex_iff stops_def)

lemma compiled_gates_total: "gate \<in> set COMPILED_GATES \<Longrightarrow> \<exists>b. cg_condition gate facts context = Inr b"
  by (auto simp: COMPILED_GATES_def)

text \<open>The gates an action meets, written out.\<close>

lemma blocked_cases:
  "gt_blocked (checkGates actionCode facts context) \<longleftrightarrow>
     (actionCode \<noteq> REOPEN_CASE \<and> (is_true facts ''case.is_closed'' \<or> is_true facts ''case.is_archived'')) \<or>
     (actionCode \<in> set UYAP_SEND_GATE_FAMILY \<union> {SEND_NOTIFICATION, SEND_PAYMENT_ORDER, TRIGGER_HACIZ, REQUEST_SALE} \<and>
        is_true facts ''case.has_unpaid_blocking_expense'') \<or>
     (actionCode \<in> set UYAP_SEND_GATE_FAMILY \<union> {UYAP_QUERY, SEND_NOTIFICATION, SEND_PAYMENT_ORDER} \<and>
        is_false facts ''case.allow_uyap_actions'') \<or>
     (actionCode \<in> set UYAP_SEND_GATE_FAMILY \<and>
        (is_false facts ''system.uyap_available'' \<or> send_unproven facts \<or> attorney_missing facts)) \<or>
     (actionCode = SEND_PAYMENT_ORDER \<and> \<not> is_true facts ''case.has_article_4_request'') \<or>
     (actionCode = SEND_NOTIFICATION \<and> no_valid_address facts context) \<or>
     (actionCode \<in> {TRIGGER_HACIZ, REQUEST_ENFORCEMENT} \<and>
        (notification_not_delivered facts context \<or> objection_period_not_passed facts context)) \<or>
     (actionCode = REQUEST_SALE \<and> no_haciz_applied facts context) \<or>
     ((actionCode \<in> {UYAP_DOCUMENT_SUBMIT, UYAP_LAWSUIT_FILE} \<or>
         actionCode = UYAP_SEND \<and> Option.bind context cx_uyapSubmitChannel = Some (js ''XML_SUBMIT'')) \<and>
        \<not> is_true facts ''actor.is_assigned_to_case'')"
  unfolding checkGates_blocked COMPILED_GATES_def
  by (cases actionCode) (simp_all add: guards_def stops_def UYAP_SEND_GATE_FAMILY_def disj_commute disj_left_commute)

subsection \<open>Properties of the gates\<close>

text \<open>A closed or archived case admits nothing but to be opened again: whatever the action, the gates
  block it exactly when it is not \<open>REOPEN_CASE\<close>.\<close>

theorem closed_case_only_reopens:
  assumes "is_true facts ''case.is_closed'' \<or> is_true facts ''case.is_archived''"
  shows "gt_blocked (checkGates actionCode facts context) \<longleftrightarrow> actionCode \<noteq> REOPEN_CASE"
  using assms unfolding blocked_cases by (auto simp: UYAP_SEND_GATE_FAMILY_def)

theorem closed_case_only_reopens_witness:
  "gt_blocked (checkGates UYAP_QUERY [js ''case.is_closed'' \<mapsto> FactBool True] None) \<and>
   \<not> gt_blocked (checkGates REOPEN_CASE [js ''case.is_closed'' \<mapsto> FactBool True] None)"
  using closed_case_only_reopens [of "[js ''case.is_closed'' \<mapsto> FactBool True]"] by (simp add: is_true_def)

definition submission_proven :: "FactMap \<Rightarrow> bool" where
  "submission_proven facts \<longleftrightarrow>
     is_false facts ''case.is_closed'' \<and> is_false facts ''case.is_archived'' \<and>
     is_true facts ''case.allow_uyap_actions'' \<and> is_false facts ''case.has_unpaid_blocking_expense'' \<and>
     is_true facts ''system.uyap_available'' \<and> is_true facts ''system.uyap_availability_explicit'' \<and>
     attorney_proven facts"

lemma true_not_false: "is_true facts key \<Longrightarrow> \<not> is_false facts key"
  by (simp add: is_true_def is_false_def)

text \<open>C32: An official submission needs positive proof. The three actions that send to the state pass the
  gates exactly when every precondition is a fact with the right value; a fact that is missing, or of
  another type, blocks. They differ only in the assignment of the lawyer to the case, which documents and
  lawsuits always need and the sending of the file only over XML.\<close>

theorem submission_needs_proof:
  assumes "actionCode \<in> set UYAP_SEND_GATE_FAMILY"
  shows "\<not> gt_blocked (checkGates actionCode facts context) \<longleftrightarrow>
    submission_proven facts \<and>
    (actionCode = UYAP_SEND \<and> Option.bind context cx_uyapSubmitChannel \<noteq> Some (js ''XML_SUBMIT'') \<or>
     is_true facts ''actor.is_assigned_to_case'')"
  using assms true_not_false [of facts "''case.has_unpaid_blocking_expense''"]
    true_not_false [of facts "''case.is_closed''"] true_not_false [of facts "''case.is_archived''"]
    true_not_false [of facts "''case.allow_uyap_actions''"] true_not_false [of facts "''system.uyap_available''"]
  unfolding blocked_cases submission_proven_def send_unproven_def attorney_missing_def attorney_proven_def
    UYAP_SEND_GATE_FAMILY_def
  by simp blast

definition sample_submission_facts :: FactMap where
  "sample_submission_facts =
     [js ''case.is_closed'' \<mapsto> FactBool False, js ''case.is_archived'' \<mapsto> FactBool False,
      js ''case.allow_uyap_actions'' \<mapsto> FactBool True, js ''case.has_unpaid_blocking_expense'' \<mapsto> FactBool False,
      js ''system.uyap_available'' \<mapsto> FactBool True, js ''system.uyap_availability_explicit'' \<mapsto> FactBool True,
      js ''actor.is_canonical_lawyer'' \<mapsto> FactBool True, js ''actor.has_matching_power_of_attorney'' \<mapsto> FactBool True,
      js ''poa.is_effective_at_evaluation_time'' \<mapsto> FactBool True,
      js ''poa.covers_requested_operation'' \<mapsto> FactBool True, js ''authority.is_unambiguous'' \<mapsto> FactBool True]"

theorem submission_needs_proof_witness:
  "\<not> gt_blocked (checkGates UYAP_SEND sample_submission_facts None) \<and>
   gt_blocked (checkGates UYAP_LAWSUIT_FILE sample_submission_facts None)"
  using submission_needs_proof [of UYAP_SEND sample_submission_facts None]
    submission_needs_proof [of UYAP_LAWSUIT_FILE sample_submission_facts None]
  by (simp add: UYAP_SEND_GATE_FAMILY_def submission_proven_def attorney_proven_def sample_submission_facts_def
      is_true_def is_false_def)

end
