(* ===== verification/FactProperties.thy ===== *)
theory FactProperties
  imports GateProperties
begin

section \<open>Properties of the facts\<close>

text \<open>
  The order of the providers, what the built-in ones can change, and what is read back of a written fact.
\<close>

subsection \<open>The order of the providers\<close>

text \<open>Behind its position in a list.\<close>

definition earlier :: "'a list \<Rightarrow> 'a \<Rightarrow> 'a \<Rightarrow> bool" where
  "earlier xs a b \<longleftrightarrow> (\<exists>us vs. xs = us @ b # vs \<and> a \<in> set us)"

lemma earlier_append: "earlier xs a b \<Longrightarrow> earlier (xs @ ys) a b"
  unfolding earlier_def by (metis append.assoc append_Cons)

lemma earlier_snoc: "a \<in> set xs \<Longrightarrow> earlier (xs @ [b]) a b"
  unfolding earlier_def by blast

definition needs :: "(jstr \<times> FactProvider) list \<Rightarrow> jstr \<Rightarrow> jstr \<Rightarrow> bool" where
  "needs providers k d \<longleftrightarrow>
     (case map_of providers k of None \<Rightarrow> False
      | Some p \<Rightarrow> d \<in> set (pv_dependsOn p) \<and> d \<in> fst ` set providers)"

definition ordered :: "(jstr \<times> FactProvider) list \<Rightarrow> jstr list \<Rightarrow> bool" where
  "ordered providers order \<longleftrightarrow>
     distinct order \<and> set order \<subseteq> fst ` set providers \<and>
     (\<forall>k \<in> set order. \<forall>d. needs providers k d \<longrightarrow> earlier order d k)"

lemma ordered_snoc:
  assumes "ordered providers order" "k \<in> fst ` set providers" "k \<notin> set order"
    "\<And>d. needs providers k d \<Longrightarrow> d \<in> set order"
  shows "ordered providers (order @ [k])"
  using assms by (auto simp: ordered_def intro: earlier_append earlier_snoc)

declare visit_key.simps [simp del]

text \<open>A visit extends the order by keys off the path, and ends with its key in it.\<close>

lemma visit_extends:
  "visit_key providers path k order = Inr order' \<Longrightarrow> k \<in> fst ` set providers \<Longrightarrow>
     ordered providers order \<Longrightarrow> set order \<inter> set path = {} \<Longrightarrow>
     ordered providers order' \<and> set order \<subseteq> set order' \<and> k \<in> set order' \<and> set order' \<inter> set path = {}"
  "visit_keys providers path ks order = Inr order' \<Longrightarrow> set ks \<subseteq> fst ` set providers \<Longrightarrow>
     ordered providers order \<Longrightarrow> set order \<inter> set path = {} \<Longrightarrow>
     ordered providers order' \<and> set order \<subseteq> set order' \<and> set ks \<subseteq> set order' \<and> set order' \<inter> set path = {}"
proof (induction providers path k order and providers path ks order arbitrary: order' and order'
    rule: visit_key_visit_keys.induct)
  case (1 providers path k order)
  show ?case
  proof (cases "k \<in> set order")
    case True
    then have "order' = order" using "1.prems"(1) by (simp add: visit_key.simps)
    then show ?thesis using "1.prems"(3,4) True by simp
  next
    case new: False
    then have path: "k \<notin> set path" using "1.prems"(1) by (auto simp: visit_key.simps [of providers path k] split: if_split_asm)
    obtain p where p: "map_of providers k = Some p"
      using "1.prems"(2) by (metis map_of_eq_None_iff option.exhaust)
    let ?ds = "filter (\<lambda>d. d \<in> fst ` set providers) (pv_dependsOn p)"
    obtain ks where ks: "visit_keys providers (k # path) ?ds order = Inr ks" and o': "order' = ks @ [k]"
      using "1.prems"(1) new path p by (auto simp: visit_key.simps [of providers path k] split: sum.split_asm)
    have "ordered providers ks \<and> set order \<subseteq> set ks \<and> set ?ds \<subseteq> set ks \<and> set ks \<inter> set (k # path) = {}"
      by (rule "1.IH" [OF new path p ks]) (use "1.prems" new in auto)
    moreover from this have "ordered providers (ks @ [k])"
      using "1.prems"(2) p by (intro ordered_snoc) (auto simp: needs_def)
    ultimately show ?thesis unfolding o' using path by auto
  qed
next
  case (3 providers path d ds order)
  then obtain o1 where o1: "visit_key providers path d order = Inr o1" "visit_keys providers path ds o1 = Inr order'"
    by (auto split: sum.split_asm)
  then show ?case using "3.IH"(1) [OF o1(1)] "3.IH"(2) [OF o1(1) o1(2)] "3.prems" by auto
qed auto

text \<open>The graph of the dependencies.\<close>

definition dependency :: "(jstr \<times> FactProvider) list \<Rightarrow> (jstr \<times> jstr) set" where
  "dependency providers = {(d, k). needs providers k d}"

text \<open>A path is a chain of dependencies; the search reports a cycle only when one closes on it.\<close>

fun dependency_path :: "(jstr \<times> FactProvider) list \<Rightarrow> jstr list \<Rightarrow> bool" where
  "dependency_path providers (k # l # path) \<longleftrightarrow> needs providers l k \<and> dependency_path providers (l # path)"
| "dependency_path providers _ \<longleftrightarrow> True"

lemma chain_reaches:
  "dependency_path providers (k # path) \<Longrightarrow> c \<in> set path \<Longrightarrow> (k, c) \<in> (dependency providers)\<^sup>+"
proof (induction path arbitrary: k)
  case (Cons l path)
  then have kl: "(k, l) \<in> dependency providers" by (simp add: dependency_def)
  show ?case
  proof (cases "c = l")
    case False
    then have "(l, c) \<in> (dependency providers)\<^sup>+" using Cons by simp
    with kl show ?thesis by (rule trancl_into_trancl2)
  qed (use kl in blast)
qed simp

lemma visit_cycle:
  "visit_key providers path k order = Inl c \<Longrightarrow> dependency_path providers (k # path) \<Longrightarrow> (c, c) \<in> (dependency providers)\<^sup>+"
  "visit_keys providers path ks order = Inl c \<Longrightarrow> (\<And>k. k \<in> set ks \<Longrightarrow> dependency_path providers (k # path)) \<Longrightarrow>
     (c, c) \<in> (dependency providers)\<^sup>+"
proof (induction providers path k order and providers path ks order
    rule: visit_key_visit_keys.induct)
  case (1 providers path k order)
  then have new: "k \<notin> set order" by (auto simp: visit_key.simps [of providers path k] split: if_split_asm)
  show ?case
  proof (cases "k \<in> set path")
    case True
    then have "c = k" using "1.prems"(1) new by (simp add: visit_key.simps [of providers path k])
    then show ?thesis using chain_reaches [OF "1.prems"(2) True] by simp
  next
    case path: False
    then obtain p where p: "map_of providers k = Some p"
      using "1.prems"(1) new path by (auto simp: visit_key.simps [of providers path k] split: option.split_asm)
    let ?ds = "filter (\<lambda>d. d \<in> fst ` set providers) (pv_dependsOn p)"
    have ks: "visit_keys providers (k # path) ?ds order = Inl c"
      using "1.prems"(1) new path p by (auto simp: visit_key.simps [of providers path k] split: sum.split_asm)
    show ?thesis
      by (rule "1.IH" [OF new path p ks]) (use "1.prems"(2) p in \<open>auto simp: needs_def\<close>)
  qed
next
  case (3 providers path d ds order)
  show ?case
  proof (cases "visit_key providers path d order")
    case (Inl c')
    then show ?thesis using 3 by simp
  next
    case (Inr o1)
    then show ?thesis using 3 by simp
  qed
qed simp

text \<open>C33: The registry orders its providers by their dependencies. When there is no cycle among them, the
  order contains every provider once, and each one behind all registered providers it depends on.\<close>

theorem providers_run_behind_their_dependencies:
  assumes "acyclic (dependency providers)"
  shows "\<exists>order. recomputeOrder providers = Inr order \<and> distinct order \<and> set order = fst ` set providers \<and>
    (\<forall>k d. needs providers k d \<longrightarrow> earlier order d k)"
proof (cases "recomputeOrder providers")
  case (Inl c)
  then have "(c, c) \<in> (dependency providers)\<^sup>+"
    unfolding recomputeOrder_def by (rule visit_cycle) simp
  then show ?thesis using assms by (simp add: acyclic_def)
next
  case (Inr order)
  have "ordered providers order \<and> set [] \<subseteq> set order \<and> set (map fst providers) \<subseteq> set order \<and> set order \<inter> set [] = {}"
    using Inr unfolding recomputeOrder_def by (rule visit_extends) (simp_all add: ordered_def)
  moreover have "k \<in> fst ` set providers" if "needs providers k d" for k d
    using that by (force simp: needs_def split: option.split_asm dest: map_of_SomeD)
  ultimately show ?thesis using Inr unfolding ordered_def by (metis set_map subset_antisym subsetD)
qed

lemma builtin_registry:
  "rg_providers (registerBuiltInProviders newDate now env) = map (\<lambda>p. (pv_factKey p, p)) (builtin_providers newDate now env)"
  "rg_computeOrder (registerBuiltInProviders newDate now env) = map pv_factKey (builtin_providers newDate now env)"
  by (simp_all add: registerBuiltInProviders_def builtin_providers_def empty_registry_def registerProvider_def Let_def
      set_provider_def recomputeOrder_def visit_key.simps DaysSinceNotificationProvider_def HasValidAddressProvider_def
      CaseObjectionPeriodDaysProvider_def SystemUyapAvailableProvider_def)

theorem providers_run_behind_their_dependencies_witness:
  "\<exists>order. recomputeOrder [(js ''a'', HasValidAddressProvider\<lparr>pv_factKey := js ''a'', pv_dependsOn := [js ''b'']\<rparr>),
       (js ''b'', HasValidAddressProvider\<lparr>pv_factKey := js ''b''\<rparr>)] = Inr order \<and> earlier order (js ''b'') (js ''a'')"
proof -
  let ?ps = "[(js ''a'', HasValidAddressProvider\<lparr>pv_factKey := js ''a'', pv_dependsOn := [js ''b'']\<rparr>),
       (js ''b'', HasValidAddressProvider\<lparr>pv_factKey := js ''b''\<rparr>)]"
  have needs: "needs ?ps k d \<longleftrightarrow> k = js ''a'' \<and> d = js ''b''" for k d
    by (auto simp: needs_def HasValidAddressProvider_def split: if_split_asm)
  then have "dependency ?ps = {(js ''b'', js ''a'')}" by (auto simp: dependency_def)
  moreover have "acyclic {(js ''b'', js ''a'')}" by (simp add: acyclic_insert) (simp add: acyclic_def)
  ultimately show ?thesis
    using providers_run_behind_their_dependencies [of ?ps] needs by auto
qed

subsection \<open>What the built-in providers compute\<close>

definition builtin_keys :: "jstr set" where
  "builtin_keys =
     {js ''debtor.*.days_since_notification'', js ''debtor.*.has_valid_address'', js ''case.objection_period_days'',
      js ''system.uyap_available'', js ''system.uyap_availability_explicit''}"

lemma computed_elsewhere:
  assumes "key \<notin> builtin_keys"
  shows "computeAll (registerBuiltInProviders newDate now env) caseId context facts key = facts key"
proof -
  have "snd (pv_compute (DaysSinceNotificationProvider newDate now) caseId context fs) = fs"
    "snd (pv_compute HasValidAddressProvider caseId context fs) = fs" for fs
    by (auto simp: DaysSinceNotificationProvider_def HasValidAddressProvider_def Let_def
        split: option.split FactValue.split)
  then have frame: "fs' = fs" if "pv_compute (DaysSinceNotificationProvider newDate now) caseId context fs = (r, fs') \<or>
      pv_compute HasValidAddressProvider caseId context fs = (r, fs')" for fs fs' r
    using that by (metis snd_conv)
  show ?thesis
    using assms
    by (auto simp: computeAll_def builtin_registry builtin_providers_def builtin_keys_def DaysSinceNotificationProvider_def
        HasValidAddressProvider_def CaseObjectionPeriodDaysProvider_def SystemUyapAvailableProvider_def Let_def
        split: option.split FactValue.split sum.split prod.split dest!: frame)
qed

lemma debtor_key_elsewhere:
  assumes "debtorId \<noteq> js ''*''" "name \<in> {''days_since_notification'', ''has_valid_address''}"
  shows "debtor_key debtorId name \<notin> builtin_keys"
proof
  assume member: "debtor_key debtorId name \<in> builtin_keys"
  have star: "js ''debtor.*.days_since_notification'' = debtor_key (js ''*'') ''days_since_notification''"
    "js ''debtor.*.has_valid_address'' = debtor_key (js ''*'') ''has_valid_address''"
    by (simp_all add: debtor_key_def DOT_def js_eval)
  have start: "take 6 (debtor_key debtorId name) = js ''debtor''" by (simp add: debtor_key_def js_eval)
  have others: "take 6 (js ''case.objection_period_days'') \<noteq> js ''debtor''" "take 6 (js ''system.uyap_available'') \<noteq> js ''debtor''"
    "take 6 (js ''system.uyap_availability_explicit'') \<noteq> js ''debtor''" by (simp_all add: js_eval)
  from member obtain m where m: "m \<in> {''days_since_notification'', ''has_valid_address''}"
    "debtor_key debtorId name = debtor_key (js ''*'') m"
    unfolding builtin_keys_def star using start others by (metis insertE insertI1 insertI2 emptyE)
  have ends: "last (debtor_key d ''days_since_notification'') = 110" "last (debtor_key d ''has_valid_address'') = 115" for d
    by (simp_all add: debtor_key_def DOT_def js_eval)
  have "m = name"
  proof (rule ccontr)
    assume "m \<noteq> name"
    then have "last (debtor_key debtorId name) \<noteq> last (debtor_key (js ''*'') m)"
      using assms(2) m(1) by (elim insertE emptyE) (simp_all add: ends)
    then show False using m(2) by simp
  qed
  then show False using m(2) assms(1) by (simp add: debtor_key_def)
qed

text \<open>C39: The facts of a debtor are not computed. Two built-in providers promise the days since the
  notification and the valid address of a debtor, but they own keys with a star for the debtor, which no
  gate reads: for every other debtor the two facts stay as they were stored. So unless somebody stored them
  by hand, the seizure from a named debtor and the notification of a named debtor are always blocked.\<close>

theorem debtor_facts_are_never_computed:
  assumes "cx_debtorId context = Some debtorId" "debtorId \<noteq> []" "debtorId \<noteq> js ''*''"
    and "facts' = computeAll (registerBuiltInProviders newDate now env) caseId (Some context) facts"
  shows "facts' (debtor_key debtorId ''days_since_notification'') = facts (debtor_key debtorId ''days_since_notification'') \<and>
    facts' (debtor_key debtorId ''has_valid_address'') = facts (debtor_key debtorId ''has_valid_address'') \<and>
    (facts (debtor_key debtorId ''days_since_notification'') = None \<longrightarrow>
      gt_blocked (checkGates TRIGGER_HACIZ facts' (Some context))) \<and>
    (facts (debtor_key debtorId ''has_valid_address'') = None \<longrightarrow>
      gt_blocked (checkGates SEND_NOTIFICATION facts' (Some context)))"
proof -
  have kept: "facts' (debtor_key debtorId ''days_since_notification'') = facts (debtor_key debtorId ''days_since_notification'')"
    "facts' (debtor_key debtorId ''has_valid_address'') = facts (debtor_key debtorId ''has_valid_address'')"
    unfolding assms(4) by (rule computed_elsewhere, rule debtor_key_elsewhere [OF assms(3)], simp)+
  have debtor: "context_id cx_debtorId (Some context) = Some debtorId" using assms(1,2) by (simp add: context_id_def)
  have seizure: "facts (debtor_key debtorId ''days_since_notification'') = None \<longrightarrow> gt_blocked (checkGates TRIGGER_HACIZ facts' (Some context))"
    using kept(1) debtor unfolding blocked_cases by (simp add: objection_period_not_passed_def fact_number_def)
  have notice: "facts (debtor_key debtorId ''has_valid_address'') = None \<longrightarrow> gt_blocked (checkGates SEND_NOTIFICATION facts' (Some context))"
    using kept(2) debtor unfolding blocked_cases by (simp add: no_valid_address_def)
  show ?thesis by (intro conjI kept seizure notice)
qed

definition debtor_context :: "string \<Rightarrow> ActionContext" where
  "debtor_context debtorId =
     \<lparr>cx_debtorId = Some (js debtorId), cx_assetId = None, cx_expenseId = None, cx_userId = None, cx_source = None,
      cx_metadata = None, cx_expectedStateVersion = None, cx_tenantId = None, cx_authenticatedUserId = None,
      cx_actingLawyerId = None, cx_evaluatedAt = None, cx_uyapSubmitChannel = None\<rparr>"

theorem debtor_facts_are_never_computed_witness:
  "gt_blocked (checkGates TRIGGER_HACIZ
     (computeAll (registerBuiltInProviders (\<lambda>_. None) 0 None) (js ''k1'') (Some (debtor_context ''d1''))
       [js ''debtor.d1.notification_date'' \<mapsto> FactDate (Some 0), js ''debtor.d1.notification_delivered'' \<mapsto> FactBool True])
     (Some (debtor_context ''d1'')))"
proof -
  let ?facts = "[js ''debtor.d1.notification_date'' \<mapsto> FactDate (Some 0), js ''debtor.d1.notification_delivered'' \<mapsto> FactBool True]"
  have debtor: "cx_debtorId (debtor_context ''d1'') = Some (js ''d1'')" "js ''d1'' \<noteq> []" "js ''d1'' \<noteq> js ''*''"
    by (simp_all add: debtor_context_def js_eval)
  have "?facts (debtor_key (js ''d1'') ''days_since_notification'') = None" by (simp add: debtor_key_def DOT_def js_eval)
  then show ?thesis using debtor_facts_are_never_computed [OF debtor refl] by blast
qed

subsection \<open>Stored facts\<close>

text \<open>The two tables, the rows of the cases and the audit. A fact is kept as JSON: no date, no null, and a
  number only when it is finite; an object is kept when all it holds is JSON, with its members in the order
  they were written in, which JSONB does not promise. The audit row, whose \<open>oldValue\<close> is a null on a JSON
  column, is one these tables always take: the properties below are about writes that succeed.\<close>

record FactTables =
  tb_facts :: "jstr \<Rightarrow> FactMap"
  tb_flags :: "jstr \<Rightarrow> jstr \<rightharpoonup> bool"
  tb_cases :: "jstr \<rightharpoonup> CaseFactRow"
  tb_audits :: "FactAudit list"

fun json_storable :: "jsval \<Rightarrow> bool" where
  "json_storable (VNum n) = (case n of Fin _ \<Rightarrow> True | _ \<Rightarrow> False)"
| "json_storable (VArr vs) = list_all json_storable vs"
| "json_storable (VObj ms) = list_all json_storable (map snd ms)"
| "json_storable VUndef = False"
| "json_storable (VBig i) = False"
| "json_storable v = True"

definition json_fact :: "FactValue \<Rightarrow> bool" where
  "json_fact v \<longleftrightarrow>
     (case v of
        FactStr _ \<Rightarrow> True
      | FactBool _ \<Rightarrow> True
      | FactNum n \<Rightarrow> json_storable (VNum n)
      | FactObj w \<Rightarrow> json_storable w
      | _ \<Rightarrow> False)"

definition fact_tables :: "FactTables fact_client" where
  "fact_tables =
     \<lparr>fc_findFacts = (\<lambda>caseId t. Inr (tb_facts t caseId)),
      fc_findFlags = (\<lambda>caseId t. Inr (tb_flags t caseId)),
      fc_findCase = (\<lambda>caseId t. Inr (tb_cases t caseId)),
      fc_upsertFact = (\<lambda>caseId key v t.
        if json_fact v then (Inr (), t\<lparr>tb_facts := (tb_facts t)(caseId := (tb_facts t caseId)(key \<mapsto> v))\<rparr>)
        else (Inl \<lparr>jf_code = None, jf_message = js ''invalid value''\<rparr>, t)),
      fc_upsertFlag = (\<lambda>caseId key b t.
        (Inr (), t\<lparr>tb_flags := (tb_flags t)(caseId := (tb_flags t caseId)(key \<mapsto> b))\<rparr>)),
      fc_audit = (\<lambda>audit t. (Inr (), t\<lparr>tb_audits := tb_audits t @ [audit]\<rparr>))\<rparr>"

definition column_keys :: "jstr set" where
  "column_keys = fst ` set (case_facts undefined)"

lemma column_keys_row: "fst ` set (case_facts row) = column_keys"
  by (simp add: column_keys_def case_facts_def)

lemma not_a_column: "key \<notin> column_keys \<Longrightarrow> map_of (case_facts row) key = None"
  by (simp only: map_of_eq_None_iff column_keys_row not_False_eq_True)

lemma column_key_iff: "key \<in> column_keys \<longleftrightarrow>
   key \<in> set (map js [''case.status'', ''case.workflow_stage'', ''case.is_auto_mode'', ''case.is_automation_enabled'',
     ''case.allow_uyap_actions'', ''case.has_article_4_request'', ''case.is_mts_case'', ''case.type'', ''case.sub_type'',
     ''case.sub_category'', ''case.currency'', ''case.principal_amount'', ''case.created_at'', ''case.next_action_at'',
     ''case.is_closed'', ''case.is_archived''])"
  by (simp add: column_keys_def case_facts_def)

lemma fact_written:
  assumes "writeFact fact_tables caseId key v md (cache, t) = (Inr (), (cache', t'))"
  shows "cache' = cache(caseId := None)" "tb_cases t' = tb_cases t"
    "tb_facts t' caseId = (case v of FactBool _ \<Rightarrow> tb_facts t caseId | _ \<Rightarrow> (tb_facts t caseId)(key \<mapsto> v))"
    "tb_flags t' caseId = (case v of FactBool b \<Rightarrow> (tb_flags t caseId)(key \<mapsto> b) | _ \<Rightarrow> tb_flags t caseId)"
  using assms
  by (auto simp: writeFact_def writeFactToDb_def fact_tables_def invalidateCache_def Let_def
      split: if_split_asm FactValue.split_asm option.split_asm)

lemma loaded:
  "loadFactsFromDb fact_tables caseId t =
     Inr (addCaseLevelFacts (tb_cases t caseId) (tb_facts t caseId ++ (\<lambda>k. map_option FactBool (tb_flags t caseId k))))"
  by (simp add: loadFactsFromDb_def fact_tables_def)

lemma reads: "\<exists>facts s'. getFacts fact_tables now caseId context s = (Inr facts, s')"
  by (cases s) (auto simp: getFacts_def loaded split: prod.split option.split)

text \<open>C38: A written fact is read back, unless a flag of the same key hides it. After a fact was written under
  a key that is no column of the case, the next read gives the new value, and so does every later one,
  from the cache or from the tables, if the value is a boolean or no flag was ever written under the key.
  If there is one, the reads give the old flag: flags are loaded over facts, and writing a fact does not
  remove the flag.\<close>

theorem written_fact_is_read:
  assumes "writeFact fact_tables caseId key v md (cache, t) = (Inr (), s)"
    and "key \<notin> column_keys"
    and "getFacts fact_tables now caseId None s = (Inr facts, s')"
    and "getFacts fact_tables later caseId None s' = (Inr facts', s'')"
  shows "facts key = Some (case (v, tb_flags t caseId key) of
      (FactBool b, _) \<Rightarrow> v | (_, None) \<Rightarrow> v | (_, Some flag) \<Rightarrow> FactBool flag) \<and>
    facts' key = facts key"
proof -
  obtain cache' t' where s: "s = (cache', t')" by force
  note w = fact_written [OF assms(1) [unfolded s]]
  have miss: "cache' caseId = None" using w(1) by simp
  note load = loaded [of caseId t']
  have s': "s' = (cache'(caseId \<mapsto> (facts, now + cacheTtlMs)), t')" "loadFactsFromDb fact_tables caseId t' = Inr facts"
    using assms(3) miss unfolding s
    by (auto simp: getFacts_def getFromCache_def setCache_def filterFactsByContext_def loaded)
  have first: "facts key = Some (case (v, tb_flags t caseId key) of
      (FactBool b, _) \<Rightarrow> v | (_, None) \<Rightarrow> v | (_, Some flag) \<Rightarrow> FactBool flag)"
    using s'(2) assms(2) w(3,4) unfolding load
    by (auto simp: addCaseLevelFacts_def map_add_def not_a_column split: option.split FactValue.split)
  have "facts' key = facts key"
    using assms(4) s'(2) unfolding s'(1)
    by (auto simp: getFacts_def getFromCache_def setCache_def filterFactsByContext_def loaded split: if_split_asm)
  with first show ?thesis by (rule conjI)
qed

definition sample_fact_tables :: FactTables where
  "sample_fact_tables =
     \<lparr>tb_facts = (\<lambda>_. Map.empty), tb_flags = (\<lambda>_. [js ''note'' \<mapsto> True]), tb_cases = Map.empty, tb_audits = []\<rparr>"

theorem written_fact_is_read_witness:
  "\<exists>s facts s'. writeFact fact_tables (js ''k1'') (js ''note'') (FactStr (js ''new'')) None (Map.empty, sample_fact_tables) = (Inr (), s) \<and>
     getFacts fact_tables 5 (js ''k1'') None s = (Inr facts, s') \<and> facts (js ''note'') = Some (FactBool True)"
proof -
  let ?t = "sample_fact_tables\<lparr>tb_facts := (tb_facts sample_fact_tables)(js ''k1'' := [js ''note'' \<mapsto> FactStr (js ''new'')])\<rparr>"
  have "js ''note'' \<notin> NON_WRITABLE"
    by (simp add: NON_WRITABLE_def COMPUTED_OWNED_FACT_KEYS_def DEPRECATED_LEGACY_FACT_KEYS_def)
  then have w: "writeFact fact_tables (js ''k1'') (js ''note'') (FactStr (js ''new'')) None (Map.empty, sample_fact_tables) =
      (Inr (), (Map.empty, ?t))"
    by (simp add: writeFact_def writeFactToDb_def fact_tables_def isManuallyWritableFactKey_def json_fact_def
        invalidateCache_def sample_fact_tables_def)
  obtain facts s' where r: "getFacts fact_tables 5 (js ''k1'') None (Map.empty, ?t) = (Inr facts, s')"
    using reads by blast
  obtain facts' s'' where r': "getFacts fact_tables 6 (js ''k1'') None s' = (Inr facts', s'')" using reads by blast
  have "js ''note'' \<notin> column_keys" by (simp add: column_key_iff)
  from written_fact_is_read [OF w this r r'] show ?thesis
    using w r by (auto simp: sample_fact_tables_def)
qed

end
