(* ===== verification/EffectivePermission.thy ===== *)
theory EffectivePermission
  imports PolicyTypes
begin

section \<open>Permissions of users (effective-permission-mapping.ts, effective-permission-resolver.service.ts)\<close>

text \<open>
  What a user may do with an action: the tenant comes first, then what the law and the signature hardware
  demand, then the authority of the office. The decision is computed and reported, nothing is enforced.
  A capacity is the text of the rank of a lawyer or of the type of a member of the staff; it is read by
  \<open>capacityFromUser\<close> of theory JournalReversal.
\<close>

datatype GuidedOpenDecision =
    ALLOW | CONFIRM_REQUIRED | ROUTE_REQUIRED | APPROVAL_REQUIRED | HARDWARE_REQUIRED | DENY_TENANT_BOUNDARY

datatype DecisionSource =
    SOURCE_OPEN | CASE_GRANT | OFFICE_DEFAULT | FULL_AUTHORITY | SOURCE_CONFIRM | VALIDITY_ROUTE
  | SOURCE_APPROVAL | HARDWARE | TENANT_BOUNDARY

datatype ActionClass = L0 | L1 | L2 | L3 | L4

definition CASE_PERMISSION_TO_ACTION :: "(jstr \<times> ActionCode) list" where
  "CASE_PERMISSION_TO_ACTION =
     [(js ''canEditCase'', EDIT_CASE), (js ''canGenerateDocs'', GENERATE_DOC), (js ''canSyncUYAP'', SYNC_UYAP),
      (js ''canViewFinance'', VIEW_FINANCE), (js ''canEditFinance'', EDIT_FINANCE),
      (js ''canChangeStatus'', CHANGE_STATUS), (js ''canEditParties'', EDIT_PARTIES),
      (js ''hasSignatureAuthority'', SIGN)]"

definition ACTION_TO_CASE_PERMISSION :: "(ActionCode \<times> jstr) list" where
  "ACTION_TO_CASE_PERMISSION =
     [(EDIT_CASE, js ''canEditCase''), (GENERATE_DOC, js ''canGenerateDocs''), (SYNC_UYAP, js ''canSyncUYAP''),
      (VIEW_FINANCE, js ''canViewFinance''), (EDIT_FINANCE, js ''canEditFinance''),
      (CHANGE_STATUS, js ''canChangeStatus''), (EDIT_PARTIES, js ''canEditParties'')]"

subsection \<open>Classes of actions\<close>

definition VALIDITY_ROUTE_ACTIONS :: "ActionCode set" where
  "VALIDITY_ROUTE_ACTIONS = {SIGN}"

definition HARDWARE_ACTIONS :: "ActionCode set" where
  "HARDWARE_ACTIONS = {UYAP_SEND, UYAP_DOCUMENT_SUBMIT, UYAP_LAWSUIT_FILE, TRIGGER_HACIZ}"

definition GUARDED_EDGE_APPROVAL :: "ActionCode set" where
  "GUARDED_EDGE_APPROVAL = {APPROVE_EXPENSE, BANK_TRANSFER}"

definition GUARDED_EDGE_CONFIRM :: "ActionCode set" where
  "GUARDED_EDGE_CONFIRM =
     {CLOSE_CASE, FINALIZE_CASE, ARCHIVE_CASE, REQUEST_SALE, REQUEST_ENFORCEMENT, PROCEED_TO_ENFORCEMENT,
      EVICTION_REQUEST, SEND_NOTIFICATION, SEND_PAYMENT_ORDER, SEND_DEBTOR_MSG, DELETE_CASE,
      ASSIGN_LEGAL_RESPONSIBLE, MANAGE_OFFICE_CREDENTIALS}"

definition L2_SENSITIVE_ACTIONS :: "ActionCode set" where
  "L2_SENSITIVE_ACTIONS =
     {CHANGE_STATUS, EDIT_PARTIES, EDIT_FINANCE, REQUEST_EXPENSE, RECORD_COLLECTION, RECORD_PAYMENT,
      RECORD_EXPENSE_PAYMENT, REOPEN_CASE, CONVERT_FROM_MTS, NOTIFICATION_DELIVERED}"

lemmas action_sets = VALIDITY_ROUTE_ACTIONS_def HARDWARE_ACTIONS_def GUARDED_EDGE_APPROVAL_def
  GUARDED_EDGE_CONFIRM_def L2_SENSITIVE_ACTIONS_def

definition classifyAction :: "ActionCode \<Rightarrow> ActionClass" where
  "classifyAction actionCode =
     (if actionCode \<in> VALIDITY_ROUTE_ACTIONS \<or> actionCode \<in> HARDWARE_ACTIONS then L4
      else if actionCode \<in> GUARDED_EDGE_APPROVAL \<or> actionCode \<in> GUARDED_EDGE_CONFIRM then L3
      else if actionCode \<in> L2_SENSITIVE_ACTIONS then L2
      else L1)"

definition isQualifiedForValidity :: "jstr \<Rightarrow> bool" where
  "isQualifiedForValidity capacity \<longleftrightarrow>
     capacity = js ''PARTNER'' \<or> capacity = js ''MANAGER'' \<or> capacity = js ''AUTHORIZED'' \<or> capacity = js ''LAWYER''"

subsection \<open>The decision\<close>

record DecideParams =
  dp_actionCode :: ActionCode
  dp_actionClass :: ActionClass
  dp_capacity :: jstr
  dp_tenantOk :: bool
  dp_hasCaseMembership :: bool
  dp_caseGrantPresent :: bool
  dp_isOfficeAdmin :: bool
  dp_fullAuthority :: bool

definition decide_permission :: "DecideParams \<Rightarrow> GuidedOpenDecision \<times> DecisionSource" where
  "decide_permission p =
     (if \<not> dp_tenantOk p then (DENY_TENANT_BOUNDARY, TENANT_BOUNDARY)
      else if dp_actionCode p \<in> VALIDITY_ROUTE_ACTIONS
      then (if \<not> isQualifiedForValidity (dp_capacity p) then (ROUTE_REQUIRED, VALIDITY_ROUTE)
            else (ALLOW, if dp_caseGrantPresent p then CASE_GRANT else OFFICE_DEFAULT))
      else if dp_actionCode p \<in> HARDWARE_ACTIONS then (HARDWARE_REQUIRED, HARDWARE)
      else if dp_fullAuthority p then (ALLOW, FULL_AUTHORITY)
      else if dp_actionCode p \<in> GUARDED_EDGE_APPROVAL then (APPROVAL_REQUIRED, SOURCE_APPROVAL)
      else if dp_actionCode p \<in> GUARDED_EDGE_CONFIRM then (CONFIRM_REQUIRED, SOURCE_CONFIRM)
      else if dp_actionClass p = L2
      then (if dp_hasCaseMembership p \<or> dp_isOfficeAdmin p
            then (ALLOW, if dp_caseGrantPresent p then CASE_GRANT else OFFICE_DEFAULT)
            else (CONFIRM_REQUIRED, SOURCE_CONFIRM))
      else (ALLOW, if dp_caseGrantPresent p then CASE_GRANT else SOURCE_OPEN))"

subsection \<open>The resolver\<close>

record EffectivePermissionInput =
  ei_actorUserId :: jstr
  ei_tenantId :: jstr
  ei_caseId :: "jstr option"
  ei_actionCode :: ActionCode

text \<open>The constant members \<open>mode\<close> and \<open>enforced\<close> and the composed text of the reason are left out.\<close>

record EffectivePermissionDecision =
  ed_decision :: GuidedOpenDecision
  ed_decisionSource :: DecisionSource
  ed_actionClass :: ActionClass
  ed_capacity :: jstr
  ed_hasCaseMembership :: bool
  ed_caseGrantPresent :: bool
  ed_fullAuthority :: bool
  ed_wouldRequireConfirm :: bool
  ed_wouldRequireRoute :: bool
  ed_wouldRequireApproval :: bool
  ed_wouldRequireHardware :: bool
  ed_wouldDenyTenantBoundary :: bool

text \<open>A user with what the query includes: the lawyer or the member of the staff with its identifier.\<close>

record ResolverUser =
  ru_tenantId :: "jstr option"
  ru_lawyer :: "(jstr \<times> jstr option) option"
  ru_staffMember :: "(jstr \<times> jstr option) option"

record CaseLawyerGrant =
  cl_casePermissions :: jsval
  cl_hasSignatureAuthority :: bool

record CaseStaffGrant =
  cs_canEdit :: bool
  cs_canApprove :: bool
  cs_canView :: bool

record 's permission_client =
  pc_findUser :: "jstr \<Rightarrow> 's \<Rightarrow> journal_failure + ResolverUser option"
  pc_findCaseLawyer :: "jstr \<Rightarrow> jstr \<Rightarrow> 's \<Rightarrow> journal_failure + CaseLawyerGrant option"
  pc_findCaseStaff :: "jstr \<Rightarrow> jstr \<Rightarrow> 's \<Rightarrow> journal_failure + CaseStaffGrant option"

record ActorCapacity =
  ak_capacity :: jstr
  ak_tenantId :: "jstr option"
  ak_lawyerId :: "jstr option"
  ak_staffMemberId :: "jstr option"

definition resolver_capacity :: "ResolverUser \<Rightarrow> jstr" where
  "resolver_capacity user =
     capacityFromUser (Some \<lparr>cu_lawyer = map_option snd (ru_lawyer user),
       cu_staffMember = map_option snd (ru_staffMember user)\<rparr>)"

definition readCapacity :: "'s permission_client \<Rightarrow> jstr \<Rightarrow> 's \<Rightarrow> journal_failure + ActorCapacity" where
  "readCapacity db actorUserId s =
     (case pc_findUser db actorUserId s of
        Inl e \<Rightarrow> Inl e
      | Inr None \<Rightarrow> Inr \<lparr>ak_capacity = js ''UNKNOWN'', ak_tenantId = None, ak_lawyerId = None, ak_staffMemberId = None\<rparr>
      | Inr (Some user) \<Rightarrow>
          (case ru_lawyer user of
             Some (lawyerId, _) \<Rightarrow> Inr \<lparr>ak_capacity = resolver_capacity user, ak_tenantId = ru_tenantId user,
               ak_lawyerId = Some lawyerId, ak_staffMemberId = None\<rparr>
           | None \<Rightarrow>
             (case ru_staffMember user of
                Some (staffId, _) \<Rightarrow> Inr \<lparr>ak_capacity = resolver_capacity user, ak_tenantId = ru_tenantId user,
                  ak_lawyerId = None, ak_staffMemberId = Some staffId\<rparr>
              | None \<Rightarrow> Inr \<lparr>ak_capacity = resolver_capacity user, ak_tenantId = ru_tenantId user,
                  ak_lawyerId = None, ak_staffMemberId = None\<rparr>)))"

definition lawyerGrantPresent :: "CaseLawyerGrant \<Rightarrow> ActionCode \<Rightarrow> bool" where
  "lawyerGrantPresent cl actionCode \<longleftrightarrow>
     (if actionCode = SIGN then cl_hasSignatureAuthority cl
      else case map_of ACTION_TO_CASE_PERMISSION actionCode of
        None \<Rightarrow> False
      | Some key \<Rightarrow>
          (case cl_casePermissions cl of
             VObj perms \<Rightarrow> map_of perms key = Some (VBool True)
           | _ \<Rightarrow> False))"

record CaseGrant =
  gr_hasCaseMembership :: bool
  gr_caseGrantPresent :: bool

definition no_grant :: CaseGrant where
  "no_grant = \<lparr>gr_hasCaseMembership = False, gr_caseGrantPresent = False\<rparr>"

definition readCaseGrant ::
  "'s permission_client \<Rightarrow> jstr option \<Rightarrow> jstr option \<Rightarrow> jstr option \<Rightarrow> ActionCode \<Rightarrow> 's \<Rightarrow> journal_failure + CaseGrant" where
  "readCaseGrant db caseId lawyerId staffMemberId actionCode s =
     (if \<not> truthy caseId then Inr no_grant
      else if truthy lawyerId
      then (case pc_findCaseLawyer db (the caseId) (the lawyerId) s of
              Inl e \<Rightarrow> Inl e
            | Inr None \<Rightarrow> Inr no_grant
            | Inr (Some cl) \<Rightarrow> Inr \<lparr>gr_hasCaseMembership = True, gr_caseGrantPresent = lawyerGrantPresent cl actionCode\<rparr>)
      else if truthy staffMemberId
      then (case pc_findCaseStaff db (the caseId) (the staffMemberId) s of
              Inl e \<Rightarrow> Inl e
            | Inr None \<Rightarrow> Inr no_grant
            | Inr (Some cs) \<Rightarrow> Inr \<lparr>gr_hasCaseMembership = True,
                gr_caseGrantPresent = (cs_canEdit cs \<or> cs_canApprove cs \<or> cs_canView cs)\<rparr>)
      else Inr no_grant)"

definition resolvePermission ::
  "'s permission_client \<Rightarrow> EffectivePermissionInput \<Rightarrow> 's \<Rightarrow> journal_failure + EffectivePermissionDecision" where
  "resolvePermission db input s =
     (case readCapacity db (ei_actorUserId input) s of
        Inl e \<Rightarrow> Inl e
      | Inr cap \<Rightarrow>
      case readCaseGrant db (ei_caseId input) (ak_lawyerId cap) (ak_staffMemberId cap) (ei_actionCode input) s of
        Inl e \<Rightarrow> Inl e
      | Inr grant \<Rightarrow>
        (let tenantOk = (ak_tenantId cap \<noteq> None \<and> ak_tenantId cap = Some (ei_tenantId input));
             actionClass = classifyAction (ei_actionCode input);
             (decision, decisionSource) = decide_permission
               \<lparr>dp_actionCode = ei_actionCode input, dp_actionClass = actionClass, dp_capacity = ak_capacity cap,
                dp_tenantOk = tenantOk, dp_hasCaseMembership = gr_hasCaseMembership grant,
                dp_caseGrantPresent = gr_caseGrantPresent grant,
                dp_isOfficeAdmin = isOfficeAdminCapacity (ak_capacity cap), dp_fullAuthority = False\<rparr> in
         Inr \<lparr>ed_decision = decision, ed_decisionSource = decisionSource, ed_actionClass = actionClass,
              ed_capacity = ak_capacity cap, ed_hasCaseMembership = gr_hasCaseMembership grant,
              ed_caseGrantPresent = gr_caseGrantPresent grant, ed_fullAuthority = False,
              ed_wouldRequireConfirm = (decision = CONFIRM_REQUIRED),
              ed_wouldRequireRoute = (decision = ROUTE_REQUIRED),
              ed_wouldRequireApproval = (decision = APPROVAL_REQUIRED),
              ed_wouldRequireHardware = (decision = HARDWARE_REQUIRED),
              ed_wouldDenyTenantBoundary = (decision = DENY_TENANT_BOUNDARY)\<rparr>))"

subsection \<open>Facts about the decision\<close>

text \<open>The two tables are inverse to each other, up to the signature, which is no member of the permissions.\<close>

lemma permission_tables_inverse:
  "map_of ACTION_TO_CASE_PERMISSION code = Some key \<longleftrightarrow>
     map_of CASE_PERMISSION_TO_ACTION key = Some code \<and> code \<noteq> SIGN"
  by (auto simp: ACTION_TO_CASE_PERMISSION_def CASE_PERMISSION_TO_ACTION_def split: if_split_asm)

lemma classes_disjoint:
  "VALIDITY_ROUTE_ACTIONS \<inter> HARDWARE_ACTIONS = {}" "HARDWARE_ACTIONS \<inter> GUARDED_EDGE_APPROVAL = {}"
  "HARDWARE_ACTIONS \<inter> GUARDED_EDGE_CONFIRM = {}" "GUARDED_EDGE_APPROVAL \<inter> GUARDED_EDGE_CONFIRM = {}"
  "L2_SENSITIVE_ACTIONS \<inter> (GUARDED_EDGE_APPROVAL \<union> GUARDED_EDGE_CONFIRM \<union> HARDWARE_ACTIONS) = {}"
  by (auto simp: action_sets)

end
