(* ===== verification/PolicyTables.thy ===== *)
theory PolicyTables
  imports PolicyEngine StageProperties FactProperties EffectivePermission
begin

section \<open>The tables of the policy engine\<close>

text \<open>
  Cases, executions, facts and decisions as tables, and the clients of the engine on them. The column of
  the stage admits a list of values; in the schema these are the values of \<open>WorkflowStage\<close>.
\<close>

definition WORKFLOW_STAGES :: "jstr list" where
  "WORKFLOW_STAGES = map js
     [''INITIAL'', ''PAYMENT_ORDER'', ''WAITING_RESPONSE'', ''OBJECTION'', ''ENFORCEMENT'', ''SEIZURE'', ''SALE_REQUEST'',
      ''AUCTION'', ''COLLECTION'', ''PARTIAL_PAYMENT'', ''FULL_PAYMENT'', ''CLOSED'', ''SUSPENDED'']"

record PolicyTables =
  pt_cases :: "CaseRow list"
  pt_executions :: "ExecutionRecord list"
  pt_facts :: FactTables
  pt_cache :: FactCache
  pt_decisions :: "PolicyDecision list"

definition find_case :: "jstr \<Rightarrow> PolicyTables \<Rightarrow> CaseRow option" where
  "find_case caseId t = List.find (\<lambda>r. cr_id r = caseId) (pt_cases t)"

definition stage_tables :: "jstr list \<Rightarrow> PolicyTables stage_client" where
  "stage_tables stages =
     \<lparr>sc_findCase = (\<lambda>caseId t. Inr (find_case caseId t)),
      sc_updateStage = (\<lambda>caseId stage now t.
        if stage \<notin> set stages then (Inl \<lparr>jf_code = None, jf_message = js ''invalid stage''\<rparr>, t)
        else if find_case caseId t = None then (Inl \<lparr>jf_code = Some (js ''P2025''), jf_message = js ''no case''\<rparr>, t)
        else (Inr now, t\<lparr>pt_cases := map (\<lambda>r. if cr_id r = caseId
               then r\<lparr>cr_workflowStage := stage, cr_updatedAt := now\<rparr> else r) (pt_cases t)\<rparr>)),
      sc_closeHistory = (\<lambda>caseId now t. (Inr (), t))\<rparr>"

definition find_execution :: "jstr \<Rightarrow> jstr \<Rightarrow> PolicyTables \<Rightarrow> ExecutionRecord option" where
  "find_execution tenantId executionId t =
     List.find (\<lambda>e. er_tenantId e = tenantId \<and> er_executionId e = executionId) (pt_executions t)"

definition is_stale :: "jstr \<Rightarrow> int \<Rightarrow> ExecutionRecord \<Rightarrow> bool" where
  "is_stale tenantId cutoff e \<longleftrightarrow> er_tenantId e = tenantId \<and> er_status e = ExecutionPending \<and> er_startedAt e < cutoff"

definition execution_tables :: "int \<Rightarrow> PolicyTables execution_client" where
  "execution_tables now =
     \<lparr>xc_find = (\<lambda>tenantId executionId t. Inr (find_execution tenantId executionId t)),
      xc_create = (\<lambda>e t.
        if find_execution (er_tenantId e) (er_executionId e) t \<noteq> None
        then (Inl \<lparr>jf_code = Some (js ''P2002''), jf_message = js ''duplicate''\<rparr>, t)
        else (let row = ExecutionData.extend e \<lparr>er_startedAt = now\<rparr> in
          (Inr row, t\<lparr>pt_executions := pt_executions t @ [row]\<rparr>))),
      xc_update = (\<lambda>tenantId executionId status code t.
        if find_execution tenantId executionId t = None
        then (Inl \<lparr>jf_code = Some (js ''P2025''), jf_message = js ''no execution''\<rparr>, t)
        else (Inr (), t\<lparr>pt_executions := map (\<lambda>e. if er_tenantId e = tenantId \<and> er_executionId e = executionId
               then e\<lparr>er_status := status, er_errorCode := (case code of None \<Rightarrow> er_errorCode e | Some c \<Rightarrow> Some c)\<rparr>
               else e) (pt_executions t)\<rparr>)),
      xc_findStale = (\<lambda>tenantId cutoff t. Inr (filter (is_stale tenantId cutoff) (pt_executions t))),
      xc_failStale = (\<lambda>tenantId cutoff code t.
        (Inr (length (filter (is_stale tenantId cutoff) (pt_executions t))),
         t\<lparr>pt_executions := map (\<lambda>e. if is_stale tenantId cutoff e
           then e\<lparr>er_status := ExecutionFailed, er_errorCode := Some code\<rparr> else e) (pt_executions t)\<rparr>))\<rparr>"

text \<open>An operation on facts and cache, on these tables.\<close>

definition on_facts :: "(FactCache \<times> FactTables \<Rightarrow> 'a \<times> (FactCache \<times> FactTables)) \<Rightarrow> PolicyTables \<Rightarrow> 'a \<times> PolicyTables" where
  "on_facts f t = (case f (pt_cache t, pt_facts t) of (r, (cache, facts)) \<Rightarrow> (r, t\<lparr>pt_cache := cache, pt_facts := facts\<rparr>))"

definition engine_tables :: "jstr list \<Rightarrow> FactRegistry \<Rightarrow> int \<Rightarrow> PolicyTables engine_client" where
  "engine_tables stages registry now =
     \<lparr>en_stage = stage_tables stages,
      en_execution = execution_tables now,
      en_ownedCase = (\<lambda>tenantId caseId t. Inr (list_ex (\<lambda>r. cr_id r = caseId \<and> cr_tenantId r = tenantId) (pt_cases t))),
      en_getFacts = (\<lambda>caseId context. on_facts (getFacts fact_tables now caseId context)),
      en_computeAll = computeAll registry,
      en_writeFacts = (\<lambda>caseId facts md. on_facts (writeFacts fact_tables caseId facts md)),
      en_log = (\<lambda>caseId actionCode context decision facts state traceId t.
        (Inr (js ''d'' @ js_of_nat (length (pt_decisions t))), t\<lparr>pt_decisions := pt_decisions t @ [decision]\<rparr>))\<rparr>"

subsection \<open>Stages of stored cases\<close>

lemma common_stage_codes:
  "filter (\<lambda>s. s \<in> set WORKFLOW_STAGES) (getValidStages ILAMSIZ_GENEL) = [js ''INITIAL'']"
  "filter (\<lambda>s. s \<in> set WORKFLOW_STAGES) (getValidStages ILAMSIZ_KAMBIYO) = [js ''INITIAL'']"
  by code_simp+

lemma common_stage: "set WORKFLOW_STAGES \<inter> stages_of kind = {js ''INITIAL''}"
proof -
  have "getValidStages kind = getValidStages ILAMSIZ_GENEL" if "kind \<noteq> ILAMSIZ_KAMBIYO"
    using that by (simp add: getValidStages_def getStateFlow_cases)
  then have "filter (\<lambda>s. s \<in> set WORKFLOW_STAGES) (getValidStages kind) = [js ''INITIAL'']"
    by (cases "kind = ILAMSIZ_KAMBIYO") (simp_all add: common_stage_codes)
  then have "set (filter (\<lambda>s. s \<in> set WORKFLOW_STAGES) (getValidStages kind)) = {js ''INITIAL''}" by simp
  then show ?thesis by (auto simp: stages_of_def)
qed

lemma initial_transition:
  assumes "st_currentState state = js ''INITIAL''"
  shows "canTransition state actionCode (Some kind) =
    (if actionCode = UYAP_SEND then \<lparr>tr_allowed = True, tr_reason = TransitionOk, tr_targetState = Some (js ''UYAP_SENT'')\<rparr>
     else if actionCode \<in> {REQUEST_EXPENSE, APPROVE_EXPENSE}
     then \<lparr>tr_allowed = True, tr_reason = NoStateChange, tr_targetState = Some (js ''INITIAL'')\<rparr>
     else refused_transition (NotInStage actionCode))"
  using assms by (cases "kind = ILAMSIZ_KAMBIYO")
    (simp_all add: canTransition_def flow_for_def getStateFlow_cases ILAMSIZ_GENEL_STAGES_def ILAMSIZ_KAMBIYO_STAGES_def
      ILAMSIZ_GENEL_TRANSITIONS_def ILAMSIZ_KAMBIYO_TRANSITIONS_def truthy_def)

lemma stored_transition:
  assumes "st_currentState state \<in> set WORKFLOW_STAGES"
  shows "tr_allowed (canTransition state actionCode (Some kind)) \<longleftrightarrow>
    st_currentState state = js ''INITIAL'' \<and> actionCode \<in> {UYAP_SEND, REQUEST_EXPENSE, APPROVE_EXPENSE}"
proof (cases "st_currentState state = js ''INITIAL''")
  case True
  then show ?thesis by (simp add: initial_transition)
next
  case False
  then have "st_currentState state \<notin> stages_of kind" using assms common_stage [of kind] by blast
  then show ?thesis using False by (meson allowed_target)
qed

end
