(* ===== verification/PolicyProperties.thy ===== *)
theory PolicyProperties
  imports PolicyTables
begin

section \<open>Properties of the policy engine\<close>

text \<open>
  What an allowed action has passed, when a refusal is turned round, what becomes of the stages of stored
  cases, and how executions are recorded. The engine is taken with any client where that is possible.
\<close>

subsection \<open>The verdict\<close>

lemma buildDecision_simps [simp]:
  "pd_allowed (buildDecision allowed reason code) = allowed"
  "pd_reason (buildDecision allowed reason code) = reason"
  "pd_code (buildDecision allowed reason code) = code"
  "pd_decisionId (buildDecision allowed reason code) = None"
  by (simp_all add: buildDecision_def)

definition case_kind :: "CaseRow \<Rightarrow> IcraType" where
  "case_kind row = mapCaseTypeToIcraType (Some (cr_type row)) (cr_subType row)"

text \<open>What the gates, the stage and the row of the case ask of an action.\<close>

definition passes_stage :: "ActionCode \<Rightarrow> CaseRow \<Rightarrow> StateInfo \<Rightarrow> bool" where
  "passes_stage actionCode row state \<longleftrightarrow>
     tr_allowed (canTransition state actionCode (Some (case_kind row))) \<or>
     isStageIndependent actionCode \<and> cr_caseStatus row \<notin> set CLOSING_CASE_STATUSES \<and> \<not> cr_isArchived row \<and>
       \<not> isTerminal (st_currentState state) (Some (case_kind row))"

lemma verdict_allowed:
  "pd_allowed (verdict actionCode context row facts state) \<longleftrightarrow>
     \<not> gt_blocked (checkGates actionCode facts context) \<and> passes_stage actionCode row state"
  by (simp add: verdict_def Let_def passes_stage_def case_kind_def)

lemma handleError_allowed: "pd_allowed (handleError actionCode) \<longleftrightarrow> getFailMode actionCode = OPEN"
proof (cases "getFailMode actionCode")
  case OPEN
  then have "risk_level actionCode = LOW"
    unfolding getFailMode_OPEN by (auto simp: risk_level_def ACTION_RISK_LEVELS_def)
  with OPEN show ?thesis by (simp add: handleError_def)
qed (simp add: handleError_def)

lemma logged_allowed:
  "logged db caseId actionCode context facts state traceId decision s = (Inr decision', s') \<Longrightarrow>
     pd_allowed decision' = pd_allowed decision \<and> pd_decisionId decision' \<noteq> None"
  by (auto simp: logged_def split: prod.split_asm sum.split_asm)


lemma evaluated_allowed:
  assumes "evaluateDecision db caseId actionCode context traceId s = (decision, s')" "pd_allowed decision"
    "getFailMode actionCode = CLOSED"
  obtains row s1 facts state where
    "sc_findCase (en_stage db) caseId s = Inr (Some row)"
    "\<exists>base. en_getFacts db caseId context s = (Inr base, s1) \<and> facts = en_computeAll db caseId context base"
    "getCurrentState (en_stage db) caseId context s1 = Inr state"
    "pd_allowed (verdict actionCode context row facts state)" "pd_decisionId decision \<noteq> None"
proof -
  have closed: "\<not> pd_allowed (handleError actionCode)" using assms(3) by (simp add: handleError_allowed)
  obtain r s1 where r: "try_decision db caseId actionCode context traceId s = (r, s1)" by force
  show thesis
  proof (cases r)
    case (Inl failure)
    have "pd_allowed decision = pd_allowed (handleError actionCode)"
      using assms(1) r Inl by (auto simp: evaluateDecision_def Let_def dest: logged_allowed
          split: prod.split_asm sum.split_asm)
    with assms(2) closed show ?thesis by simp
  next
    case (Inr d)
    then have d: "d = decision" using assms(1) r by (simp add: evaluateDecision_def)
    show ?thesis
      using r assms(2) that unfolding Inr d try_decision_def Let_def
      by (auto split: sum.split_asm prod.split_asm option.split_asm dest: logged_allowed)
  qed
qed

text \<open>C30: No risky action slips through. Whatever the database, the facts and the log do, an action that fails
  closed is allowed only when the case belongs to the tenant, its row and its facts were read, every hard gate
  of the action was evaluated on the facts and not triggered, the flow of the case allows the action at its
  stage or else the action is independent of stages and the case neither closed, nor archived, nor at a
  terminal stage, and the decision was logged.\<close>

theorem allowed_action_was_checked:
  assumes "canPerformAction db traceId tenantId caseId actionCode context s = (Inr decision, s')"
    and "pd_allowed decision" "getFailMode actionCode = CLOSED"
  shows "tenantId \<noteq> [] \<and> en_ownedCase db tenantId caseId s = Inr True \<and> pd_decisionId decision \<noteq> None \<and>
    (\<exists>row base facts state s1.
       sc_findCase (en_stage db) caseId s = Inr (Some row) \<and>
       en_getFacts db caseId context s = (Inr base, s1) \<and> facts = en_computeAll db caseId context base \<and>
       getCurrentState (en_stage db) caseId context s1 = Inr state \<and>
       (\<forall>gate \<in> set (getHardGatesForAction actionCode). cg_condition gate facts context = Inr False) \<and>
       passes_stage actionCode row state)"
proof -
  have owned: "tenantId \<noteq> []" "en_ownedCase db tenantId caseId s = Inr True"
    using assms(1) by (auto simp: canPerformAction_def assertCaseBelongsToTenant_def
        split: if_split_asm sum.split_asm option.split_asm)
  have e: "evaluateDecision db caseId actionCode context traceId s = (decision, s')"
    using assms(1) by (auto simp: canPerformAction_def split: option.split_asm prod.split_asm)
  from evaluated_allowed [OF e assms(2,3)] obtain row s1 facts state where
    checked: "sc_findCase (en_stage db) caseId s = Inr (Some row)"
    "\<exists>base. en_getFacts db caseId context s = (Inr base, s1) \<and> facts = en_computeAll db caseId context base"
    "getCurrentState (en_stage db) caseId context s1 = Inr state"
    "pd_allowed (verdict actionCode context row facts state)" "pd_decisionId decision \<noteq> None" by metis
  have stage: "passes_stage actionCode row state" and "\<not> gt_blocked (checkGates actionCode facts context)"
    using checked(4) by (simp_all add: verdict_allowed)
  then have "\<forall>gate \<in> set (getHardGatesForAction actionCode). cg_condition gate facts context = Inr False"
    by (auto simp: checkGates_def check_gates_blocked getHardGatesForAction_def list_ex_iff stops_def)
  with owned checked stage show ?thesis by blast
qed

definition sample_policy_case :: "string \<Rightarrow> CaseRow" where
  "sample_policy_case status =
     \<lparr>cr_id = js ''k1'', cr_tenantId = js ''t1'', cr_caseStatus = js status, cr_workflowStage = js ''INITIAL'',
      cr_type = js ''ILAMSIZ'', cr_subType = None, cr_isArchived = False, cr_updatedAt = 100\<rparr>"

definition sample_fact_row :: "string \<Rightarrow> CaseFactRow" where
  "sample_fact_row status =
     \<lparr>fr_caseStatus = js status, fr_workflowStage = js ''INITIAL'', fr_isAutoMode = False, fr_isAutomationEnabled = True,
      fr_allowUyapActions = True, fr_hasArticle4Request = False, fr_isMtsCase = False, fr_type = js ''ILAMSIZ'',
      fr_subType = None, fr_subCategory = None, fr_currency = js ''TRY'', fr_principalAmount = js_int 1000,
      fr_createdAt = 0, fr_nextActionAt = None, fr_isArchived = False\<rparr>"

definition sample_policy_tables :: "string \<Rightarrow> PolicyTables" where
  "sample_policy_tables status =
     \<lparr>pt_cases = [sample_policy_case status], pt_executions = [],
      pt_facts = \<lparr>tb_facts = (\<lambda>_. Map.empty), tb_flags = (\<lambda>_. Map.empty),
        tb_cases = [js ''k1'' \<mapsto> sample_fact_row status], tb_audits = []\<rparr>,
      pt_cache = Map.empty, pt_decisions = []\<rparr>"

abbreviation sample_engine :: "PolicyTables engine_client" where
  "sample_engine \<equiv> engine_tables WORKFLOW_STAGES empty_registry 1000"

lemma engine_tables_clients:
  "en_stage (engine_tables stages registry now) = stage_tables stages"
  "en_execution (engine_tables stages registry now) = execution_tables now"
  by (simp_all add: engine_tables_def)

lemma sample_row: "find_case (js ''k1'') (sample_policy_tables status) = Some (sample_policy_case status)"
  by (simp add: find_case_def sample_policy_tables_def sample_policy_case_def)

lemma sample_owned: "assertCaseBelongsToTenant sample_engine (js ''t1'') (js ''k1'') (sample_policy_tables status) = None"
  by (simp add: assertCaseBelongsToTenant_def engine_tables_def sample_policy_tables_def sample_policy_case_def)

definition sample_fact_map :: "string \<Rightarrow> FactMap" where
  "sample_fact_map status = map_of (case_facts (sample_fact_row status))"

definition sample_state :: StateInfo where
  "sample_state = \<lparr>st_scope = CASE, st_currentState = js ''INITIAL'', st_contextId = None, st_version = 100\<rparr>"

lemma sample_getFacts:
  "en_getFacts sample_engine (js ''k1'') None (sample_policy_tables status) =
     (Inr (sample_fact_map status), (sample_policy_tables status)\<lparr>pt_cache := [js ''k1'' \<mapsto> (sample_fact_map status, 31000)]\<rparr>)"
  by (simp add: engine_tables_def on_facts_def getFacts_def getFromCache_def loaded setCache_def cacheTtlMs_def
      filterFactsByContext_def addCaseLevelFacts_def sample_policy_tables_def sample_fact_map_def)

lemma sample_computed: "en_computeAll sample_engine caseId context facts = facts"
  by (simp add: engine_tables_def computeAll_def empty_registry_def)

lemma sample_current:
  "getCurrentState (en_stage sample_engine) (js ''k1'') None ((sample_policy_tables status)\<lparr>pt_cache := cache\<rparr>) = Inr sample_state"
  by (simp add: getCurrentState_def engine_tables_def stage_tables_def find_case_def sample_policy_tables_def sample_policy_case_def
      getScopeFromContext_def context_id_def sample_state_def)

lemma sample_found: "sc_findCase (en_stage sample_engine) (js ''k1'') (sample_policy_tables status) = Inr (Some (sample_policy_case status))"
  by (simp add: engine_tables_def stage_tables_def sample_row)

lemma sample_open_gates: "\<not> gt_blocked (checkGates APPROVE_EXPENSE (sample_fact_map ''DERDEST'') None)"
  unfolding blocked_cases
  by (simp add: is_true_def is_false_def sample_fact_map_def case_facts_def sample_fact_row_def UYAP_SEND_GATE_FAMILY_def
      CLOSING_CASE_STATUSES_def)

lemma sample_approval:
  "\<exists>decision s'. canPerformAction sample_engine (js ''trace'') (js ''t1'') (js ''k1'') APPROVE_EXPENSE None
     (sample_policy_tables ''DERDEST'') = (Inr decision, s') \<and> pd_allowed decision"
proof -
  have "passes_stage APPROVE_EXPENSE (sample_policy_case ''DERDEST'') sample_state"
    by (simp add: passes_stage_def initial_transition sample_state_def)
  then have "pd_allowed (verdict APPROVE_EXPENSE None (sample_policy_case ''DERDEST'') (sample_fact_map ''DERDEST'') sample_state)"
    using sample_open_gates by (simp add: verdict_allowed)
  then show ?thesis
    by (simp add: canPerformAction_def sample_owned evaluateDecision_def try_decision_def sample_found sample_getFacts
        sample_computed sample_current logged_def Let_def) (simp add: engine_tables_def)
qed

theorem allowed_action_was_checked_witness:
  "\<exists>decision s'. canPerformAction sample_engine (js ''trace'') (js ''t1'') (js ''k1'') APPROVE_EXPENSE None
     (sample_policy_tables ''DERDEST'') = (Inr decision, s') \<and> pd_allowed decision \<and> pd_decisionId decision \<noteq> None"
proof -
  have closed: "getFailMode APPROVE_EXPENSE = CLOSED" by (simp add: getFailMode_def getActionMatrixEntry_def ACTION_MATRIX_def)
  from sample_approval obtain decision s' where d: "canPerformAction sample_engine (js ''trace'') (js ''t1'') (js ''k1'') APPROVE_EXPENSE None
     (sample_policy_tables ''DERDEST'') = (Inr decision, s')" "pd_allowed decision" by blast
  then show ?thesis using allowed_action_was_checked [OF d closed] by blast
qed

subsection \<open>Decisions that are not logged\<close>

text \<open>C37: When the log cannot be written, the verdict does not count. A case of the tenant is found, and the log
  of decisions refuses: then the engine answers by the risk of the action alone. It forbids every action but
  seven of low risk, and allows those, even if a gate has just blocked them.\<close>

theorem unlogged_decision_ignores_the_verdict:
  assumes "tenantId \<noteq> []" "en_ownedCase db tenantId caseId s = Inr True"
    and "sc_findCase (en_stage db) caseId s = Inr (Some row)"
    and "\<forall>decision facts state s. \<exists>e s'. en_log db caseId actionCode context decision facts state traceId s = (Inl e, s')"
  shows "\<exists>decision s'. canPerformAction db traceId tenantId caseId actionCode context s = (Inr decision, s') \<and>
    pd_decisionId decision = None \<and>
    (pd_allowed decision \<longleftrightarrow> actionCode \<in> {UYAP_QUERY, QUERY_ASSETS, QUERY_BANK_ACCOUNTS, QUERY_VEHICLES,
       RECORD_EXPENSE_PAYMENT, ADD_NAFAKA_PERIOD, UPDATE_EXCHANGE_RATE})"
proof -
  have unlogged: "\<exists>e s'. logged db caseId actionCode context facts state traceId decision s = (Inl e, s')" for facts state decision s
  proof -
    obtain e s' where "en_log db caseId actionCode context decision facts state traceId s = (Inl e, s')" using assms(4) by blast
    then show ?thesis by (simp add: logged_def)
  qed
  have "\<exists>failure s'. try_decision db caseId actionCode context traceId s = (Inl failure, s')"
  proof (cases "en_getFacts db caseId context s")
    case (Pair r s1)
    show ?thesis
    proof (cases r)
      case (Inr base)
      let ?facts = "en_computeAll db caseId context base"
      show ?thesis
      proof (cases "getCurrentState (en_stage db) caseId context s1")
        case (Inr state)
        obtain e s' where "logged db caseId actionCode context ?facts (Some state) traceId
            (verdict actionCode context row ?facts state) s1 = (Inl e, s')" using unlogged by blast
        then show ?thesis using Pair \<open>r = Inr base\<close> Inr by (simp add: try_decision_def assms(3))
      qed (use Pair Inr in \<open>simp add: try_decision_def assms(3)\<close>)
    qed (use Pair in \<open>simp add: try_decision_def assms(3)\<close>)
  qed
  then obtain facts state s1 where t: "try_decision db caseId actionCode context traceId s = (Inl (facts, state), s1)" by auto
  obtain e s2 where l: "logged db caseId actionCode context facts state traceId (handleError actionCode) s1 = (Inl e, s2)"
    using unlogged by blast
  have "pd_decisionId (handleError actionCode) = None" by (simp add: handleError_def)
  then show ?thesis
    using assms(1,2) t l getFailMode_OPEN [of actionCode]
    by (simp add: canPerformAction_def assertCaseBelongsToTenant_def evaluateDecision_def handleError_allowed)
qed

definition unlogged_engine :: "PolicyTables engine_client" where
  "unlogged_engine = sample_engine\<lparr>en_log := (\<lambda>caseId actionCode context decision facts state traceId t.
     (Inl \<lparr>jf_code = None, jf_message = js ''no log''\<rparr>, t))\<rparr>"

theorem unlogged_decision_ignores_the_verdict_witness:
  "gt_blocked (checkGates UYAP_QUERY (sample_fact_map ''HITAM'') None) \<and>
   (\<exists>decision s'. canPerformAction unlogged_engine (js ''trace'') (js ''t1'') (js ''k1'') UYAP_QUERY None
      (sample_policy_tables ''HITAM'') = (Inr decision, s') \<and> pd_allowed decision)"
proof
  have "is_true (sample_fact_map ''HITAM'') ''case.is_closed''"
    by (simp add: is_true_def sample_fact_map_def case_facts_def sample_fact_row_def CLOSING_CASE_STATUSES_def)
  then show "gt_blocked (checkGates UYAP_QUERY (sample_fact_map ''HITAM'') None)" unfolding blocked_cases by simp
next
  have "en_ownedCase unlogged_engine (js ''t1'') (js ''k1'') (sample_policy_tables ''HITAM'') = Inr True"
    by (simp add: unlogged_engine_def engine_tables_def sample_policy_tables_def sample_policy_case_def)
  moreover have "sc_findCase (en_stage unlogged_engine) (js ''k1'') (sample_policy_tables ''HITAM'') = Inr (Some (sample_policy_case ''HITAM''))"
    by (simp add: unlogged_engine_def engine_tables_def stage_tables_def sample_row)
  moreover have "js ''t1'' \<noteq> []" by (simp add: js_eval)
  ultimately show "\<exists>decision s'. canPerformAction unlogged_engine (js ''trace'') (js ''t1'') (js ''k1'') UYAP_QUERY None
      (sample_policy_tables ''HITAM'') = (Inr decision, s') \<and> pd_allowed decision"
    using unlogged_decision_ignores_the_verdict [of "js ''t1''" unlogged_engine "js ''k1''" "sample_policy_tables ''HITAM''"
        "sample_policy_case ''HITAM''" UYAP_QUERY None "js ''trace''"]
    by (auto simp: unlogged_engine_def)
qed

subsection \<open>Stages of stored cases\<close>

lemma stage_target_not_stored:
  assumes "st_currentState state \<in> set WORKFLOW_STAGES"
    and "tr_allowed (canTransition state actionCode (Some kind))"
    and "tr_targetState (canTransition state actionCode (Some kind)) \<noteq> Some (st_currentState state)"
  shows "tr_targetState (canTransition state actionCode (Some kind)) = Some (js ''UYAP_SENT'')" "actionCode = UYAP_SEND"
proof -
  have "st_currentState state = js ''INITIAL''" "actionCode \<in> {UYAP_SEND, REQUEST_EXPENSE, APPROVE_EXPENSE}"
    using assms(1,2) stored_transition by blast+
  then show "tr_targetState (canTransition state actionCode (Some kind)) = Some (js ''UYAP_SENT'')" "actionCode = UYAP_SEND"
    using assms(3) by (auto simp: initial_transition)
qed

text \<open>C35: A stored case never moves. The column of the stage admits the values of its enumeration, and the flows
  share with it the first stage only: so on the tables no transition of any action changes anything. At the
  first stage the two requests on expenses succeed without a change, the sending of the file fails because
  its target cannot be stored, and at every other stored stage each action is refused.\<close>

theorem stored_cases_stay_in_their_stage:
  assumes "find_case caseId t = Some row" "cr_workflowStage row \<in> set WORKFLOW_STAGES"
    and "applyTransition (stage_tables WORKFLOW_STAGES) now caseId actionCode context expectedVersion t = (result, t')"
  shows "t' = t \<and>
    (ar_success result \<longleftrightarrow> cr_workflowStage row = js ''INITIAL'' \<and> actionCode \<in> {REQUEST_EXPENSE, APPROVE_EXPENSE})"
proof -
  define state where "state = \<lparr>st_scope = getScopeFromContext context, st_currentState = cr_workflowStage row,
           st_contextId = (case context_id cx_debtorId context of Some i \<Rightarrow> Some i
             | None \<Rightarrow> (case context_id cx_assetId context of Some i \<Rightarrow> Some i
                | None \<Rightarrow> Option.bind context cx_expenseId)),
           st_version = cr_updatedAt row\<rparr>"
  have current: "getCurrentState (stage_tables WORKFLOW_STAGES) caseId context t = Inr state"
    by (simp add: getCurrentState_def stage_tables_def assms(1) state_def)
  have stage: "st_currentState state = cr_workflowStage row" by (simp add: state_def)
  let ?r = "canTransition state actionCode (Some (case_kind row))"
  have unsent: "js ''UYAP_SENT'' \<notin> set WORKFLOW_STAGES" by (simp add: WORKFLOW_STAGES_def)
  have kind: "mapCaseTypeToIcraType (Some (cr_type row)) (cr_subType row) = case_kind row"
    by (simp add: case_kind_def)
  have found: "sc_findCase (stage_tables WORKFLOW_STAGES) caseId t = Inr (Some row)"
    by (simp add: stage_tables_def assms(1))
  consider (refused) "\<not> tr_allowed ?r" | (kept) "tr_allowed ?r" "tr_targetState ?r = Some (cr_workflowStage row)"
    | (moving) "tr_allowed ?r" "tr_targetState ?r \<noteq> Some (cr_workflowStage row)" by blast
  then show ?thesis
  proof cases
    case refused
    then have "\<not> (cr_workflowStage row = js ''INITIAL'' \<and> actionCode \<in> {REQUEST_EXPENSE, APPROVE_EXPENSE})"
      using stored_transition [of state actionCode "case_kind row"] assms(2) by (auto simp: stage)
    then show ?thesis using assms(3) refused
      by (auto simp: applyTransition_def current found kind Let_def failed_transition_def)
  next
    case kept
    have "cr_workflowStage row = js ''INITIAL''" "actionCode \<in> {UYAP_SEND, REQUEST_EXPENSE, APPROVE_EXPENSE}"
      using kept(1) stored_transition [of state actionCode "case_kind row"] assms(2) by (auto simp: stage)
    moreover from this have "actionCode \<noteq> UYAP_SEND" using kept(2) by (auto simp: initial_transition stage)
    ultimately show ?thesis using assms(3) kept
      by (auto simp: applyTransition_def current found kind Let_def moved_transition_def stage)
  next
    case moving
    then have sent: "tr_targetState ?r = Some (js ''UYAP_SENT'')" "actionCode = UYAP_SEND"
      using stage_target_not_stored [of state actionCode "case_kind row"] assms(2) by (auto simp: stage)
    have "sc_updateStage (stage_tables WORKFLOW_STAGES) caseId (js ''UYAP_SENT'') now t =
        (Inl \<lparr>jf_code = None, jf_message = js ''invalid stage''\<rparr>, t)"
      by (simp add: stage_tables_def unsent)
    then show ?thesis using assms(3) moving sent
      by (auto simp: applyTransition_def current found kind Let_def failed_transition_def stage split: if_split_asm)
  qed
qed

theorem stored_cases_stay_in_their_stage_witness:
  "\<exists>result. applyTransition (stage_tables WORKFLOW_STAGES) 500 (js ''k1'') UYAP_SEND None None (sample_policy_tables ''DERDEST'') =
     (result, sample_policy_tables ''DERDEST'') \<and> \<not> ar_success result"
proof -
  obtain result t' where r: "applyTransition (stage_tables WORKFLOW_STAGES) 500 (js ''k1'') UYAP_SEND None None
      (sample_policy_tables ''DERDEST'') = (result, t')" by force
  have "cr_workflowStage (sample_policy_case ''DERDEST'') \<in> set WORKFLOW_STAGES" by (simp add: sample_policy_case_def WORKFLOW_STAGES_def)
  from stored_cases_stay_in_their_stage [OF sample_row this r] show ?thesis using r by simp
qed

subsection \<open>Executions\<close>

definition same_cases :: "PolicyTables \<Rightarrow> PolicyTables \<Rightarrow> bool" where
  "same_cases t t' \<longleftrightarrow> map (\<lambda>r. (cr_id r, cr_tenantId r)) (pt_cases t') = map (\<lambda>r. (cr_id r, cr_tenantId r)) (pt_cases t)"

lemma same_cases_refl [simp]: "same_cases t t"
  by (simp add: same_cases_def)

lemma same_cases_trans: "same_cases t t' \<Longrightarrow> same_cases t' t'' \<Longrightarrow> same_cases t t''"
  by (simp add: same_cases_def)

lemma same_cases_other [simp]:
  "same_cases t (t\<lparr>pt_executions := es\<rparr>)" "same_cases t (t\<lparr>pt_facts := fs\<rparr>)" "same_cases t (t\<lparr>pt_cache := c, pt_facts := fs\<rparr>)"
  by (simp_all add: same_cases_def)

lemma owned_same:
  assumes "same_cases t t'"
  shows "assertCaseBelongsToTenant (engine_tables stages registry now) tenantId caseId t' =
    assertCaseBelongsToTenant (engine_tables stages registry now) tenantId caseId t"
proof -
  have "list_ex (\<lambda>r. cr_id r = caseId \<and> cr_tenantId r = tenantId) (pt_cases u) \<longleftrightarrow>
      (caseId, tenantId) \<in> set (map (\<lambda>r. (cr_id r, cr_tenantId r)) (pt_cases u))" for u :: PolicyTables
    by (auto simp: list_ex_iff)
  then have "list_ex (\<lambda>r. cr_id r = caseId \<and> cr_tenantId r = tenantId) (pt_cases t') =
      list_ex (\<lambda>r. cr_id r = caseId \<and> cr_tenantId r = tenantId) (pt_cases t)"
    using assms by (simp only: same_cases_def)
  then show ?thesis by (simp only: assertCaseBelongsToTenant_def engine_tables_def engine_client.simps)
qed

lemma applied_elsewhere:
  assumes "applyTransition (stage_tables stages) now caseId actionCode context expectedVersion t = (result, t')"
  shows "pt_executions t' = pt_executions t" "same_cases t t'"
proof -
  have moved: "map (\<lambda>r. (cr_id r, cr_tenantId r)) (map (\<lambda>r. if cr_id r = caseId
      then r\<lparr>cr_workflowStage := stage, cr_updatedAt := now\<rparr> else r) rows) = map (\<lambda>r. (cr_id r, cr_tenantId r)) rows" for stage rows
    by (induction rows) auto
  show "pt_executions t' = pt_executions t" "same_cases t t'"
    using assms
    by (auto simp: applyTransition_def stage_tables_def recordStageHistory_def Let_def same_cases_def moved
        simp del: map_map split: sum.split_asm option.split_asm if_split_asm)
qed

lemma facts_elsewhere:
  "on_facts f t = (r, t') \<Longrightarrow> pt_executions t' = pt_executions t \<and> same_cases t t'"
  by (auto simp: on_facts_def split: prod.split_asm)

text \<open>The record of an execution is completed in its place.\<close>

definition completed :: "bool \<Rightarrow> jstr option \<Rightarrow> ExecutionRecord \<Rightarrow> ExecutionRecord" where
  "completed success code e = e\<lparr>er_status := (if success then ExecutionSuccess else ExecutionFailed),
     er_errorCode := (case code of None \<Rightarrow> er_errorCode e | Some c \<Rightarrow> Some c)\<rparr>"

lemma completed_execution:
  assumes "find_execution tenantId executionId t = Some e" "tenantId \<noteq> []"
  shows "\<exists>es. completeExecution (execution_tables clock) tenantId executionId success code t = (Inr (), t\<lparr>pt_executions := es\<rparr>) \<and>
    find_execution tenantId executionId (t\<lparr>pt_executions := es\<rparr>) = Some (completed success code e)"
proof -
  let ?p = "\<lambda>e. er_tenantId e = tenantId \<and> er_executionId e = executionId"
  have "List.find ?p xs = Some e \<Longrightarrow> List.find ?p (map (\<lambda>e. if ?p e then completed success code e else e) xs) =
      Some (completed success code e)" for xs
    by (induction xs) (auto simp: completed_def)
  then have found: "find_execution tenantId executionId (t\<lparr>pt_executions :=
      map (\<lambda>e. if ?p e then completed success code e else e) (pt_executions t)\<rparr>) = Some (completed success code e)"
    using assms(1) by (simp add: find_execution_def)
  have "completeExecution (execution_tables clock) tenantId executionId success code t = (Inr (), t\<lparr>pt_executions :=
      map (\<lambda>e. if ?p e then completed success code e else e) (pt_executions t)\<rparr>)"
    using assms by (simp add: completeExecution_def execution_tables_def completed_def)
  with found show ?thesis by blast
qed

lemma find_snoc: "List.find P xs = None \<Longrightarrow> P x \<Longrightarrow> List.find P (xs @ [x]) = Some x"
  by (induction xs) (auto split: if_split_asm)

lemma started_execution:
  assumes "startExecution (execution_tables clock) tenantId executionId caseId actionCode context t = (Inr (isNew, e), t1)"
  shows "tenantId \<noteq> []" "find_execution tenantId executionId t1 = Some e" "same_cases t t1"
    "\<not> isNew \<Longrightarrow> t1 = t" "isNew \<Longrightarrow> er_errorCode e = None"
  using assms
  by (auto simp: startExecution_def execution_tables_def find_execution_def new_execution_def ExecutionData.extend_def Let_def same_cases_def
      intro!: find_snoc split: if_split_asm option.split_asm)

lemma started_again:
  assumes "find_execution tenantId executionId t = Some e" "tenantId \<noteq> []" "executionId \<noteq> []"
  shows "startExecution (execution_tables clock) tenantId executionId caseId actionCode context t = (Inr (False, e), t)"
  using assms by (simp add: startExecution_def execution_tables_def)


lemma completed_duplicate:
  "duplicate_response (completed success code e) = response success (case code of None \<Rightarrow> er_errorCode e | Some c \<Rightarrow> Some c)"
  by (simp add: duplicate_response_def completed_def)

text \<open>What a first execution leaves behind: its record, completed as its answer says.\<close>

definition recorded :: "jstr \<Rightarrow> jstr \<Rightarrow> ExecutionResponse \<Rightarrow> PolicyTables \<Rightarrow> bool" where
  "recorded tenantId executionId answer t \<longleftrightarrow>
     (\<exists>e. find_execution tenantId executionId t = Some e \<and>
        xr_success (duplicate_response e) = xr_success answer \<and>
        (\<not> xr_success answer \<longrightarrow> xr_code (duplicate_response e) = xr_code answer))"

lemma completed_recorded:
  assumes "find_execution tenantId executionId t = Some e" "tenantId \<noteq> []" "er_errorCode e = None"
    and "completeExecution (execution_tables clock) tenantId executionId success code t = (r, t')"
    and "xr_success answer = success" "\<not> success \<Longrightarrow> xr_code answer = code"
  shows "r = Inr ()" "recorded tenantId executionId answer t'" "same_cases t t'"
proof -
  obtain es where es: "completeExecution (execution_tables clock) tenantId executionId success code t = (Inr (), t\<lparr>pt_executions := es\<rparr>)"
    "find_execution tenantId executionId (t\<lparr>pt_executions := es\<rparr>) = Some (completed success code e)"
    using completed_execution [OF assms(1,2)] by blast
  then show "r = Inr ()" "recorded tenantId executionId answer t'" "same_cases t t'"
    using assms(3-6) by (auto simp: recorded_def completed_duplicate response_def split: option.split)
qed

lemma failed_recorded:
  assumes "find_execution tenantId executionId t = Some e" "tenantId \<noteq> []" "er_errorCode e = None"
  obtains t' where "completeExecution (execution_tables clock) tenantId executionId False code t = (Inr (), t')"
    "recorded tenantId executionId (response False code) t'" "same_cases t t'"
proof -
  obtain r t' where c: "completeExecution (execution_tables clock) tenantId executionId False code t = (r, t')" by force
  from completed_recorded [OF assms c, of "response False code"] c show thesis by (intro that) (simp_all add: response_def)
qed

lemma applied_recorded:
  assumes "find_execution tenantId executionId t = Some e" "tenantId \<noteq> []" "er_errorCode e = None" "rs_success result"
    and "apply_executed (engine_tables stages registry now) later tenantId caseId actionCode context result executionId t = (answer, t')"
  shows "case answer of
      None \<Rightarrow> find_execution tenantId executionId t' = Some e \<and> same_cases t t'
    | Some a \<Rightarrow> recorded tenantId executionId a t' \<and> same_cases t t'"
proof -
  let ?db = "engine_tables stages registry now"
  note clients = engine_tables_clients [of stages registry now]
  obtain tr t1 where a: "applyTransition (stage_tables stages) later caseId actionCode context (rs_expectedStateVersion result) t = (tr, t1)"
    by force
  have t1: "find_execution tenantId executionId t1 = Some e" "same_cases t t1"
    using applied_elsewhere [OF a] assms(1) by (simp_all add: find_execution_def)
  note finish = completed_recorded [OF _ assms(2,3)]
  show ?thesis
  proof (cases "ar_success tr")
    case False
    let ?version = "ar_code tr = TC_VERSION_MISMATCH"
    let ?code = "Some (if ?version then js ''CONCURRENT_MODIFICATION'' else transition_code_text (ar_code tr))"
    let ?answer = "(response False ?code)\<lparr>xr_shouldRetry := ?version\<rparr>"
    obtain r t2 where c: "completeExecution (execution_tables now) tenantId executionId False ?code t1 = (r, t2)" by force
    have "r = Inr ()" "recorded tenantId executionId ?answer t2" "same_cases t1 t2"
      using finish [OF t1(1) c, of ?answer] by (simp_all add: response_def)
    moreover have "(answer, t') = (Some ?answer, t2)" if "r = Inr ()"
      using assms(5) a c False that
      by (auto simp: apply_executed_def clients Let_def response_def split: if_split_asm)
    ultimately show ?thesis using same_cases_trans [OF t1(2)] by auto
  next
    case True
    obtain w t2 where w: "(case rs_newFacts result of None \<Rightarrow> (Inr (), t1)
       | Some newFacts \<Rightarrow> en_writeFacts ?db caseId newFacts
           (Some \<lparr>fw_executionId = Some executionId, fw_source = Some (js ''CPE''), fw_actionCode = Some actionCode\<rparr>) t1) = (w, t2)"
      by force
    have "pt_executions t2 = pt_executions t1 \<and> same_cases t1 t2"
    proof (cases "rs_newFacts result")
      case (Some newFacts)
      then have "on_facts (writeFacts fact_tables caseId newFacts
          (Some \<lparr>fw_executionId = Some executionId, fw_source = Some (js ''CPE''), fw_actionCode = Some actionCode\<rparr>)) t1 = (w, t2)"
        using w by (simp add: engine_tables_def)
      then show ?thesis by (rule facts_elsewhere)
    qed (use w in simp)
    then have t2: "find_execution tenantId executionId t2 = Some e" "same_cases t t2"
      using t1 same_cases_trans [OF t1(2)] by (simp_all add: find_execution_def)
    show ?thesis
    proof (cases w)
      case (Inl err)
      then have "(answer, t') = (None, t2)" using assms(5) a True w by (simp add: apply_executed_def clients Let_def)
      then show ?thesis using t2 by simp
    next
      case (Inr u)
      let ?answer = "(response True None)\<lparr>xr_stateVersion := ar_newVersion tr\<rparr>"
      obtain r t3 where c: "completeExecution (execution_tables now) tenantId executionId True (rs_errorCode result) t2 = (r, t3)"
        by force
      have "r = Inr ()" "recorded tenantId executionId ?answer t3" "same_cases t2 t3"
        using finish [OF t2(1) c, of ?answer] by (simp_all add: response_def)
      moreover from this have "(answer, t') = (Some ?answer, t3)"
        using assms(4,5) a c w Inr True by (simp add: apply_executed_def clients Let_def)
      ultimately show ?thesis using same_cases_trans [OF t2(2)] by auto
    qed
  qed
qed

lemma executed_recorded:
  assumes "onActionExecuted (engine_tables stages registry now) later tenantId caseId actionCode context result executionId t = (Inr answer, t')"
  shows "recorded tenantId executionId answer t'" "same_cases t t'" "tenantId \<noteq> []" "executionId \<noteq> []"
    "assertCaseBelongsToTenant (engine_tables stages registry now) tenantId caseId t = None"
proof -
  let ?db = "engine_tables stages registry now"
  note clients = engine_tables_clients(2) [of stages registry now]
  show owned: "assertCaseBelongsToTenant ?db tenantId caseId t = None"
    using assms by (simp add: onActionExecuted_def split: option.split_asm)
  obtain isNew e t1 where st: "startExecution (execution_tables now) tenantId executionId caseId actionCode context t = (Inr (isNew, e), t1)"
    using assms by (auto simp: onActionExecuted_def clients owned split: sum.split_asm prod.split_asm)
  note started = started_execution [OF st]
  show "tenantId \<noteq> []" by (rule started(1))
  show "executionId \<noteq> []" using st by (auto simp: startExecution_def split: if_split_asm)
  have "recorded tenantId executionId answer t' \<and> same_cases t t'"
  proof (cases isNew)
    case False
    then have "answer = duplicate_response e" "t' = t1" using assms st by (simp_all add: onActionExecuted_def clients owned)
    then show ?thesis using started(2,3) by (auto simp: recorded_def)
  next
    case new: True
    have fresh: "er_errorCode e = None" using started(5) new by simp
    show ?thesis
    proof (cases "rs_success result")
      case False
      obtain t2 where "completeExecution (execution_tables now) tenantId executionId False (rs_errorCode result) t1 = (Inr (), t2)"
        "recorded tenantId executionId (response False (rs_errorCode result)) t2" "same_cases t1 t2"
        by (rule failed_recorded [OF started(2,1) fresh])
      moreover from this have "answer = response False (rs_errorCode result)" "t' = t2"
        using assms st new False by (simp_all add: onActionExecuted_def clients owned)
      ultimately show ?thesis using same_cases_trans [OF started(3)] by simp
    next
      case True
      obtain a t2 where ap: "apply_executed ?db later tenantId caseId actionCode context result executionId t1 = (a, t2)" by force
      note applied = applied_recorded [OF started(2,1) fresh True ap]
      show ?thesis
      proof (cases a)
        case (Some x)
        then have "answer = x" "t' = t2" using assms st new True ap by (simp_all add: onActionExecuted_def clients owned)
        then show ?thesis using applied Some same_cases_trans [OF started(3)] by auto
      next
        case None
        then have kept: "find_execution tenantId executionId t2 = Some e" "same_cases t t2"
          using applied same_cases_trans [OF started(3)] by auto
        obtain t3 where "completeExecution (execution_tables now) tenantId executionId False (Some (js ''INTERNAL_ERROR'')) t2 = (Inr (), t3)"
          "recorded tenantId executionId (response False (Some (js ''INTERNAL_ERROR''))) t3" "same_cases t2 t3"
          by (rule failed_recorded [OF kept(1) started(1) fresh])
        moreover from this have "answer = response False (Some (js ''INTERNAL_ERROR''))" "t' = t3"
          using assms st new True ap None by (simp_all add: onActionExecuted_def clients owned)
        ultimately show ?thesis using same_cases_trans [OF kept(2)] by simp
      qed
    qed
  qed
  then show "recorded tenantId executionId answer t'" "same_cases t t'" by blast+
qed


text \<open>C31: An execution counts once. On the tables, whatever was answered to the first report of an execution, a
  second report under the same identifier changes nothing, neither stage nor facts nor records, even if it
  tells of another action with another result; it gets the same verdict, and for a failure the same code.\<close>

theorem executions_count_once:
  assumes "onActionExecuted (engine_tables stages registry now) first tenantId caseId actionCode context result executionId t =
      (Inr answer, t')"
  shows "\<exists>repeated. onActionExecuted (engine_tables stages registry now) second tenantId caseId actionCode' context' result'
        executionId t' = (Inr repeated, t') \<and>
      xr_success repeated = xr_success answer \<and> (\<not> xr_success answer \<longrightarrow> xr_code repeated = xr_code answer)"
proof -
  note finish = executed_recorded [OF assms]
  obtain e where e: "find_execution tenantId executionId t' = Some e"
    "xr_success (duplicate_response e) = xr_success answer"
    "\<not> xr_success answer \<longrightarrow> xr_code (duplicate_response e) = xr_code answer"
    using finish(1) by (auto simp: recorded_def)
  have "assertCaseBelongsToTenant (engine_tables stages registry now) tenantId caseId t' = None"
    using owned_same [OF finish(2)] finish(5) by simp
  then show ?thesis
    using e started_again [OF e(1) finish(3,4)] by (simp add: onActionExecuted_def engine_tables_clients)
qed

definition sample_result :: ActionResult where
  "sample_result = \<lparr>rs_success = True, rs_errorCode = None, rs_newFacts = None, rs_expectedStateVersion = None\<rparr>"

lemma sample_execution:
  "\<exists>answer t'. onActionExecuted sample_engine 500 (js ''t1'') (js ''k1'') APPROVE_EXPENSE None sample_result (js ''x1'')
     (sample_policy_tables ''DERDEST'') = (Inr answer, t') \<and> xr_success answer"
proof -
  let ?e = "ExecutionData.extend (new_execution (js ''t1'') (js ''x1'') (js ''k1'') APPROVE_EXPENSE None) \<lparr>er_startedAt = 1000\<rparr>"
  let ?t = "(sample_policy_tables ''DERDEST'')\<lparr>pt_executions := [?e]\<rparr>"
  have st: "startExecution (execution_tables 1000) (js ''t1'') (js ''x1'') (js ''k1'') APPROVE_EXPENSE None (sample_policy_tables ''DERDEST'') =
      (Inr (True, ?e), ?t)"
    by (simp add: startExecution_def execution_tables_def find_execution_def sample_policy_tables_def js_eval new_execution_def ExecutionData.extend_def Let_def)
  have row: "find_case (js ''k1'') ?t = Some (sample_policy_case ''DERDEST'')" using sample_row by (simp add: find_case_def)
  have ap: "applyTransition (stage_tables WORKFLOW_STAGES) 500 (js ''k1'') APPROVE_EXPENSE None None ?t =
      (moved_transition 100 (js ''INITIAL'') (js ''INITIAL''), ?t)"
    by (simp add: applyTransition_def getCurrentState_def stage_tables_def row initial_transition Let_def)
       (simp add: sample_policy_case_def initial_transition)
  have "find_execution (js ''t1'') (js ''x1'') ?t = Some ?e" by (simp add: find_execution_def new_execution_def ExecutionData.extend_def)
  then obtain es where c: "completeExecution (execution_tables 1000) (js ''t1'') (js ''x1'') True None ?t = (Inr (), ?t\<lparr>pt_executions := es\<rparr>)"
    using completed_execution [of "js ''t1''" "js ''x1''" ?t ?e 1000 True None] by (auto simp: js_eval)
  show ?thesis
    using st ap c sample_owned [of "''DERDEST''"]
    by (simp add: onActionExecuted_def sample_result_def apply_executed_def Let_def response_def moved_transition_def
        engine_tables_clients)
qed


theorem executions_count_once_witness:
  "\<exists>answer t'. onActionExecuted sample_engine 500 (js ''t1'') (js ''k1'') APPROVE_EXPENSE None sample_result (js ''x1'')
      (sample_policy_tables ''DERDEST'') = (Inr answer, t') \<and>
    (\<exists>repeated. onActionExecuted sample_engine 900 (js ''t1'') (js ''k1'') CLOSE_CASE None (sample_result\<lparr>rs_success := False\<rparr>)
      (js ''x1'') t' = (Inr repeated, t') \<and> xr_success repeated)"
proof -
  obtain answer t' where first: "onActionExecuted sample_engine 500 (js ''t1'') (js ''k1'') APPROVE_EXPENSE None sample_result
      (js ''x1'') (sample_policy_tables ''DERDEST'') = (Inr answer, t')" "xr_success answer" using sample_execution by blast
  then show ?thesis using executions_count_once [OF first(1)] by blast
qed

subsection \<open>Permissions\<close>

lemma decided_allow:
  "fst (decide_permission p) = ALLOW \<longleftrightarrow> dp_tenantOk p \<and>
     (if dp_actionCode p = SIGN then isQualifiedForValidity (dp_capacity p)
      else dp_actionCode p \<notin> HARDWARE_ACTIONS \<and>
        (dp_fullAuthority p \<or> dp_actionCode p \<notin> GUARDED_EDGE_APPROVAL \<union> GUARDED_EDGE_CONFIRM \<and>
           (dp_actionClass p = L2 \<longrightarrow> dp_hasCaseMembership p \<or> dp_isOfficeAdmin p)))"
  by (simp add: decide_permission_def VALIDITY_ROUTE_ACTIONS_def)

lemma decided_tenant: "fst (decide_permission p) = DENY_TENANT_BOUNDARY \<longleftrightarrow> \<not> dp_tenantOk p"
  by (simp add: decide_permission_def)

lemma readCapacity_tenant:
  assumes "readCapacity db actorUserId s = Inr cap"
  shows "ak_tenantId cap = (case pc_findUser db actorUserId s of Inr (Some user) \<Rightarrow> ru_tenantId user | _ \<Rightarrow> None)"
  using assms by (auto simp: readCapacity_def split: sum.split_asm option.split_asm)

text \<open>The rows a decision rests on: the rank of the user's lawyer, else the type of the member of the staff; and
  the row that lists the lawyer, or else the member of the staff, on the case of the request.\<close>

definition user_rank :: "ResolverUser \<Rightarrow> jstr" where
  "user_rank user =
     (case ru_lawyer user of
        Some (_, Some rank) \<Rightarrow> rank
      | _ \<Rightarrow> (case ru_staffMember user of Some (_, Some kind) \<Rightarrow> kind | _ \<Rightarrow> js ''UNKNOWN''))"

definition row_found :: "journal_failure + 'a option \<Rightarrow> bool" where
  "row_found r = (case r of Inr (Some _) \<Rightarrow> True | _ \<Rightarrow> False)"

definition listed_on_case :: "'s permission_client \<Rightarrow> jstr option \<Rightarrow> ResolverUser \<Rightarrow> 's \<Rightarrow> bool" where
  "listed_on_case db caseId user s =
     (case caseId of
        None \<Rightarrow> False
      | Some c \<Rightarrow> c \<noteq> [] \<and>
          (case ru_lawyer user of
             Some (lawyerId, _) \<Rightarrow> lawyerId \<noteq> [] \<and> row_found (pc_findCaseLawyer db c lawyerId s)
           | None \<Rightarrow>
               (case ru_staffMember user of
                  Some (staffId, _) \<Rightarrow> staffId \<noteq> [] \<and> row_found (pc_findCaseStaff db c staffId s)
                | None \<Rightarrow> False)))"

lemma readCapacity_user:
  assumes "readCapacity db userId s = Inr cap" "pc_findUser db userId s = Inr (Some user)"
  shows "ak_capacity cap = user_rank user"
    and "ak_lawyerId cap = map_option fst (ru_lawyer user)"
    and "ak_staffMemberId cap = (if ru_lawyer user = None then map_option fst (ru_staffMember user) else None)"
proof -
  have "resolver_capacity user = user_rank user"
    by (cases "ru_lawyer user"; cases "ru_staffMember user")
      (auto simp: resolver_capacity_def capacityFromUser_def user_rank_def split: option.splits)
  then show "ak_capacity cap = user_rank user"
    "ak_lawyerId cap = map_option fst (ru_lawyer user)"
    "ak_staffMemberId cap = (if ru_lawyer user = None then map_option fst (ru_staffMember user) else None)"
    using assms by (auto simp: readCapacity_def split: option.splits)
qed

lemma readCaseGrant_user:
  assumes "readCaseGrant db caseId (map_option fst (ru_lawyer user))
    (if ru_lawyer user = None then map_option fst (ru_staffMember user) else None) code s = Inr grant"
  shows "gr_hasCaseMembership grant = listed_on_case db caseId user s"
proof (cases "ru_lawyer user")
  case None
  then show ?thesis
    using assms
    by (cases "ru_staffMember user"; cases caseId)
      (auto simp: readCaseGrant_def no_grant_def listed_on_case_def row_found_def
        split: sum.split_asm option.split_asm if_split_asm)
next
  case (Some l)
  then show ?thesis
    using assms
    by (cases caseId)
      (auto simp: readCaseGrant_def no_grant_def listed_on_case_def row_found_def
        split: sum.split_asm option.split_asm if_split_asm)
qed

text \<open>C34: When a permission is an allowance, in terms of the stored rows. A request is denied exactly when no user of
  the tenant makes it. The capacity of a user is the rank of the lawyer, else the type of the member of the
  staff, else unknown; a user takes part in a case exactly when the row of the lawyer, or of the member of the
  staff where the user is no lawyer, is found for it. For a user of the tenant the resolver allows the action
  exactly when it is a signature and the rank is one the law accepts, or it needs no hardware, no approval
  and no confirmation and, when it is sensitive, the user takes part in the case or is an administrator of the
  office.\<close>

theorem allowed_permissions:
  assumes "resolvePermission db input s = Inr d"
  shows "(ed_wouldDenyTenantBoundary d \<longleftrightarrow>
      \<not> (\<exists>user. pc_findUser db (ei_actorUserId input) s = Inr (Some user) \<and> ru_tenantId user = Some (ei_tenantId input))) \<and>
    (\<forall>user. pc_findUser db (ei_actorUserId input) s = Inr (Some user) \<longrightarrow>
      ed_capacity d = user_rank user \<and>
      (ed_hasCaseMembership d \<longleftrightarrow> listed_on_case db (ei_caseId input) user s) \<and>
      (ed_decision d = ALLOW \<longleftrightarrow> ru_tenantId user = Some (ei_tenantId input) \<and>
        (if ei_actionCode input = SIGN
         then user_rank user \<in> {js ''PARTNER'', js ''MANAGER'', js ''AUTHORIZED'', js ''LAWYER''}
         else ei_actionCode input \<notin> HARDWARE_ACTIONS \<union> GUARDED_EDGE_APPROVAL \<union> GUARDED_EDGE_CONFIRM \<and>
           (ei_actionCode input \<in> L2_SENSITIVE_ACTIONS \<longrightarrow>
              listed_on_case db (ei_caseId input) user s \<or> user_rank user \<in> {js ''PARTNER'', js ''MANAGER''}))))"
proof -
  obtain cap where cap: "readCapacity db (ei_actorUserId input) s = Inr cap"
    using assms by (auto simp: resolvePermission_def split: sum.split_asm)
  obtain grant where grant: "readCaseGrant db (ei_caseId input) (ak_lawyerId cap) (ak_staffMemberId cap) (ei_actionCode input) s = Inr grant"
    using assms cap by (auto simp: resolvePermission_def split: sum.split_asm)
  let ?p = "\<lparr>dp_actionCode = ei_actionCode input, dp_actionClass = classifyAction (ei_actionCode input), dp_capacity = ak_capacity cap,
                dp_tenantOk = (ak_tenantId cap \<noteq> None \<and> ak_tenantId cap = Some (ei_tenantId input)),
                dp_hasCaseMembership = gr_hasCaseMembership grant, dp_caseGrantPresent = gr_caseGrantPresent grant,
                dp_isOfficeAdmin = isOfficeAdminCapacity (ak_capacity cap), dp_fullAuthority = False\<rparr>"
  have d: "ed_decision d = fst (decide_permission ?p)" "ed_capacity d = ak_capacity cap"
    "ed_hasCaseMembership d = gr_hasCaseMembership grant" "ed_wouldDenyTenantBoundary d = (ed_decision d = DENY_TENANT_BOUNDARY)"
    using assms cap grant by (auto simp: resolvePermission_def Let_def split: prod.split_asm)
  have tenant: "ed_wouldDenyTenantBoundary d \<longleftrightarrow>
      \<not> (\<exists>user. pc_findUser db (ei_actorUserId input) s = Inr (Some user) \<and> ru_tenantId user = Some (ei_tenantId input))"
    using readCapacity_tenant [OF cap] by (auto simp: d(4) d(1) decided_tenant split: sum.split_asm option.split_asm)
  have sensitive: "classifyAction (ei_actionCode input) = L2 \<longleftrightarrow> ei_actionCode input \<in> L2_SENSITIVE_ACTIONS"
    using classes_disjoint(5) by (auto simp: classifyAction_def VALIDITY_ROUTE_ACTIONS_def L2_SENSITIVE_ACTIONS_def)
  have "ed_decision d = ALLOW \<longleftrightarrow> \<not> ed_wouldDenyTenantBoundary d \<and>
      (if ei_actionCode input = SIGN then isQualifiedForValidity (ed_capacity d)
       else ei_actionCode input \<notin> HARDWARE_ACTIONS \<union> GUARDED_EDGE_APPROVAL \<union> GUARDED_EDGE_CONFIRM \<and>
         (ei_actionCode input \<in> L2_SENSITIVE_ACTIONS \<longrightarrow>
            ed_hasCaseMembership d \<or> isOfficeAdminCapacity (ed_capacity d)))"
    unfolding d(4) by (simp add: d(1-3) decided_allow decided_tenant sensitive)
  moreover have "ed_capacity d = user_rank user" "ed_hasCaseMembership d = listed_on_case db (ei_caseId input) user s"
    if "pc_findUser db (ei_actorUserId input) s = Inr (Some user)" for user
    using readCapacity_user [OF cap that] readCaseGrant_user [of db "ei_caseId input" user] grant by (simp_all add: d(2,3))
  ultimately show ?thesis
    unfolding tenant isQualifiedForValidity_def isOfficeAdminCapacity_def by auto
qed

definition sample_users :: "unit permission_client" where
  "sample_users =
     \<lparr>pc_findUser = (\<lambda>userId s. Inr (if userId = js ''u1'' then Some \<lparr>ru_tenantId = Some (js ''t1''),
        ru_lawyer = Some (js ''l1'', Some (js ''LAWYER'')), ru_staffMember = None\<rparr>
        else if userId = js ''u2'' then Some \<lparr>ru_tenantId = Some (js ''t1''),
        ru_lawyer = Some (js ''l2'', Some (js ''INTERN'')), ru_staffMember = None\<rparr> else None)),
      pc_findCaseLawyer = (\<lambda>caseId lawyerId s. Inr (if caseId = js ''c1'' \<and> lawyerId = js ''l1''
        then Some \<lparr>cl_casePermissions = VNull, cl_hasSignatureAuthority = False\<rparr> else None)),
      pc_findCaseStaff = (\<lambda>caseId staffId s. Inr None)\<rparr>"

definition sample_permission :: "string \<Rightarrow> string \<Rightarrow> ActionCode \<Rightarrow> EffectivePermissionInput" where
  "sample_permission user caseId code =
     \<lparr>ei_actorUserId = js user, ei_tenantId = js ''t1'', ei_caseId = Some (js caseId), ei_actionCode = code\<rparr>"

text \<open>The lawyer of the case may change its status, not that of another case; the lawyer may sign, the intern not.\<close>

theorem allowed_permissions_witness:
  "\<exists>d1 d2 d3 d4.
     resolvePermission sample_users (sample_permission ''u1'' ''c1'' CHANGE_STATUS) () = Inr d1 \<and> ed_decision d1 = ALLOW \<and>
     resolvePermission sample_users (sample_permission ''u1'' ''c2'' CHANGE_STATUS) () = Inr d2 \<and> ed_decision d2 \<noteq> ALLOW \<and>
     resolvePermission sample_users (sample_permission ''u1'' ''c2'' SIGN) () = Inr d3 \<and> ed_decision d3 = ALLOW \<and>
     resolvePermission sample_users (sample_permission ''u2'' ''c1'' SIGN) () = Inr d4 \<and> ed_decision d4 \<noteq> ALLOW"
proof -
  have "\<exists>d. resolvePermission sample_users (sample_permission user caseId code) () = Inr d" for user caseId code
    by (simp add: resolvePermission_def readCapacity_def sample_users_def sample_permission_def readCaseGrant_def Let_def
        case_prod_beta)
  then obtain d1 d2 d3 d4 where
    d: "resolvePermission sample_users (sample_permission ''u1'' ''c1'' CHANGE_STATUS) () = Inr d1"
      "resolvePermission sample_users (sample_permission ''u1'' ''c2'' CHANGE_STATUS) () = Inr d2"
      "resolvePermission sample_users (sample_permission ''u1'' ''c2'' SIGN) () = Inr d3"
      "resolvePermission sample_users (sample_permission ''u2'' ''c1'' SIGN) () = Inr d4"
    by metis
  note eval = sample_users_def sample_permission_def user_rank_def listed_on_case_def row_found_def action_sets js_eval
  have "ed_decision d1 = ALLOW" using allowed_permissions [OF d(1)] by (simp add: eval)
  moreover have "ed_decision d2 \<noteq> ALLOW" using allowed_permissions [OF d(2)] by (simp add: eval)
  moreover have "ed_decision d3 = ALLOW" using allowed_permissions [OF d(3)] by (simp add: eval)
  moreover have "ed_decision d4 \<noteq> ALLOW" using allowed_permissions [OF d(4)] by (simp add: eval)
  ultimately show ?thesis using d by blast
qed

end
