(* ===== verification/RuleProperties.thy ===== *)
theory RuleProperties
  imports GateProperties
begin

section \<open>Properties of the recommendations\<close>

text \<open>
  Recommendations and gates are sorted by a number, so their order is the one the comparison promises; the
  top recommendation is the first that the gates let through.
\<close>

interpretation gate_order: consistent_comparator "\<lambda>a b. cg_priority a - cg_priority b" UNIV
  by unfold_locales auto

interpretation recommendation_order: consistent_comparator "\<lambda>a b. ra_priority a - ra_priority b" UNIV
  by unfold_locales auto

lemma gates_by_priority: "sorted_wrt (\<lambda>a b. cg_priority a \<le> cg_priority b) (getGatesForAction actionCode)"
  using gate_order.sorted_js_sort [of "filter (guards actionCode) COMPILED_GATES"] by (simp add: getGatesForAction_def)

lemma recommendations_by_priority:
  "sorted_wrt (\<lambda>a b. ra_priority a \<le> ra_priority b) (evaluateRules facts state metrics scope context checked)"
  using recommendation_order.sorted_js_sort by (simp add: evaluateRules_def)

definition applicable :: "FactMap \<Rightarrow> StateInfo \<Rightarrow> ComputedMetrics \<Rightarrow> Scope option \<Rightarrow> CompiledRule \<Rightarrow> bool" where
  "applicable facts state metrics scope rule \<longleftrightarrow>
     (case ru_validStages rule of None \<Rightarrow> True | Some stages \<Rightarrow> st_currentState state \<in> set stages) \<and>
     (case scope of None \<Rightarrow> True | Some wanted \<Rightarrow> ru_scope rule = wanted) \<and> ru_when rule facts state metrics"

lemma rules_active: "rule \<in> set COMPILED_RULES \<Longrightarrow> ru_isActive rule"
  by (auto simp: COMPILED_RULES_def)

lemma recommended:
  "set (evaluateRules facts state metrics scope context checked) =
     recommendation facts context checked ` {rule \<in> set COMPILED_RULES. applicable facts state metrics scope rule}"
  using rules_active by (auto simp: evaluateRules_def getRulesForStage_def applicable_def)

text \<open>A recommendation whose gates, checked in advance, let it through.\<close>

definition unblocked :: "RecommendedAction \<Rightarrow> bool" where
  "unblocked r \<longleftrightarrow> (case ra_gatePreCheck r of None \<Rightarrow> True | Some check \<Rightarrow> \<not> gp_blocked check)"

lemma unblocked_recommendation:
  "unblocked (recommendation facts context True rule) \<longleftrightarrow> \<not> gt_blocked (checkGates (ru_actionCode rule) facts context)"
  by (simp add: unblocked_def recommendation_def pre_check_def checkHardGates_blocked Let_def)

lemma sorted_find:
  assumes "sorted_wrt (\<lambda>a b. f a \<le> (f b :: int)) xs" "List.find P xs = Some x"
  shows "x \<in> set xs \<and> P x \<and> (\<forall>y \<in> set xs. P y \<longrightarrow> f x \<le> f y)"
  using assms by (induction xs) (auto split: if_split_asm)

text \<open>C40: The top recommendation is the best one. It comes from a rule that applies to the stage, the scope and the
  facts of the case. If some applicable rule passes the gates, the top one does, and none that passes has a
  smaller priority number; otherwise it has the smallest number of all. There is one whenever a rule applies.\<close>

theorem top_recommendation_is_best:
  "case getTopRecommendation facts state metrics scope context of
      None \<Rightarrow> \<not> (\<exists>r \<in> set COMPILED_RULES. applicable facts state metrics scope r)
    | Some best \<Rightarrow> \<exists>rule \<in> set COMPILED_RULES. applicable facts state metrics scope rule \<and>
        best = recommendation facts context True rule \<and>
        (let rules = {r \<in> set COMPILED_RULES. applicable facts state metrics scope r};
             passes = {r \<in> rules. \<not> gt_blocked (checkGates (ru_actionCode r) facts context)} in
         if passes = {} then \<forall>r \<in> rules. ru_priority rule \<le> ru_priority r
         else rule \<in> passes \<and> (\<forall>r \<in> passes. ru_priority rule \<le> ru_priority r))"
proof -
  define rules where "rules = {r \<in> set COMPILED_RULES. applicable facts state metrics scope r}"
  define passes where "passes = {r \<in> rules. \<not> gt_blocked (checkGates (ru_actionCode r) facts context)}"
  let ?rs = "evaluateRules facts state metrics scope context True"
  let ?rec = "recommendation facts context True"
  have set_rs: "set ?rs = ?rec ` rules" by (simp add: recommended rules_def)
  have priority: "ra_priority (?rec r) = ru_priority r" for r by (simp add: recommendation_def)
  have chosen: "getTopRecommendation facts state metrics scope context =
      (case List.find unblocked ?rs of Some u \<Rightarrow> Some u | None \<Rightarrow> (case ?rs of [] \<Rightarrow> None | first # _ \<Rightarrow> Some first))"
    by (simp add: getTopRecommendation_def Let_def unblocked_def [abs_def])
  have chosen_best: "case getTopRecommendation facts state metrics scope context of
      None \<Rightarrow> rules = {}
    | Some best \<Rightarrow> \<exists>rule \<in> rules. best = ?rec rule \<and>
        (if passes = {} then \<forall>r \<in> rules. ru_priority rule \<le> ru_priority r
         else rule \<in> passes \<and> (\<forall>r \<in> passes. ru_priority rule \<le> ru_priority r))"
  proof (cases "List.find unblocked ?rs")
    case (Some u)
    from sorted_find [OF recommendations_by_priority Some]
    have u: "u \<in> ?rec ` rules" "unblocked u" "\<And>y. y \<in> ?rec ` rules \<Longrightarrow> unblocked y \<Longrightarrow> ra_priority u \<le> ra_priority y"
      unfolding set_rs by blast+
    then obtain rule where rule: "rule \<in> rules" "u = ?rec rule" by blast
    have pass: "rule \<in> passes" using rule u(2) by (simp add: unblocked_recommendation passes_def)
    have "ru_priority rule \<le> ru_priority r" if "r \<in> passes" for r
      using u(3) [of "?rec r"] that unfolding passes_def by (simp add: unblocked_recommendation rule(2) priority)
    with pass show ?thesis using rule by (auto simp: chosen Some)
  next
    case None
    then have blocked: "passes = {}"
      by (auto simp: find_None_iff set_rs unblocked_recommendation passes_def)
    show ?thesis
    proof (cases ?rs)
      case Nil
      then show ?thesis using set_rs by (simp add: chosen None)
    next
      case (Cons first rest)
      then obtain rule where rule: "rule \<in> rules" "first = ?rec rule" using set_rs by (metis image_iff list.set_intros(1))
      have "\<forall>y \<in> ?rec ` rules. ra_priority first \<le> ra_priority y"
        using recommendations_by_priority [of facts state metrics scope "context" True] unfolding set_rs [symmetric] Cons by simp
      then have "\<forall>r \<in> rules. ru_priority rule \<le> ru_priority r" by (simp add: rule(2) priority)
      moreover have "getTopRecommendation facts state metrics scope context = Some first"
        unfolding chosen None by (simp add: Cons)
      ultimately show ?thesis using rule blocked by auto
    qed
  qed
  have member: "r \<in> rules \<longleftrightarrow> r \<in> set COMPILED_RULES \<and> applicable facts state metrics scope r" for r
    by (simp add: rules_def)
  show ?thesis
  proof (cases "getTopRecommendation facts state metrics scope context")
    case None
    then show ?thesis using chosen_best member by auto
  next
    case (Some best)
    then obtain rule where "rule \<in> rules" "best = ?rec rule"
      "if passes = {} then \<forall>r \<in> rules. ru_priority rule \<le> ru_priority r
       else rule \<in> passes \<and> (\<forall>r \<in> passes. ru_priority rule \<le> ru_priority r)" using chosen_best by auto
    with member show ?thesis
      unfolding Some Let_def rules_def [symmetric] passes_def [symmetric] option.case by blast
  qed
qed

definition no_metrics :: ComputedMetrics where
  "no_metrics = \<lparr>me_totalDebtAmount = None, me_collectedAmount = None, me_remainingDebt = None,
     me_collectionRate = None, me_caseAgeDays = None, me_daysSinceLastAction = None, me_debtorCount = None\<rparr>"

definition new_case_state :: StateInfo where
  "new_case_state = \<lparr>st_scope = CASE, st_currentState = js ''INITIAL'', st_contextId = None, st_version = 0\<rparr>"

lemma new_case_rules:
  "rule \<in> set COMPILED_RULES \<Longrightarrow> applicable Map.empty new_case_state no_metrics None rule \<Longrightarrow>
     ru_actionCode rule = REQUEST_EXPENSE"
  "\<exists>rule \<in> set COMPILED_RULES. applicable Map.empty new_case_state no_metrics None rule"
  by (auto simp: COMPILED_RULES_def applicable_def new_case_state_def no_metrics_def in_stage_def is_true_def
      attorney_proven_def)

theorem top_recommendation_is_best_witness:
  "\<exists>best. getTopRecommendation Map.empty new_case_state no_metrics None None = Some best \<and> ra_actionCode best = REQUEST_EXPENSE"
  using top_recommendation_is_best [of Map.empty new_case_state no_metrics None None] new_case_rules
  by (auto simp: recommendation_def Let_def split: option.split_asm)

text \<open>While a case waits for the period of objection, no rule recommends enforcement, though one lists the stage.\<close>

lemma no_enforcement_while_waiting:
  assumes "st_currentState state = js ''WAITING_OBJECTION_PERIOD''"
  shows "\<not> hasRecommendation REQUEST_ENFORCEMENT facts state metrics context"
    and "\<exists>rule \<in> set COMPILED_RULES. ru_actionCode rule = REQUEST_ENFORCEMENT \<and>
      (\<exists>stages. ru_validStages rule = Some stages \<and> js ''WAITING_OBJECTION_PERIOD'' \<in> set stages)"
proof -
  have "\<not> applicable facts state metrics None rule"
    if "rule \<in> set COMPILED_RULES" "ru_actionCode rule = REQUEST_ENFORCEMENT" for rule
    using that assms by (auto simp: COMPILED_RULES_def applicable_def in_stage_def)
  then show "\<not> hasRecommendation REQUEST_ENFORCEMENT facts state metrics context"
    by (auto simp: hasRecommendation_def list_ex_iff recommended recommendation_def)
  show "\<exists>rule \<in> set COMPILED_RULES. ru_actionCode rule = REQUEST_ENFORCEMENT \<and>
      (\<exists>stages. ru_validStages rule = Some stages \<and> js ''WAITING_OBJECTION_PERIOD'' \<in> set stages)"
    by (simp add: COMPILED_RULES_def)
qed

end
