(* ===== verification/Spec2Isabelle.thy ===== *)
theory Spec2Isabelle
  imports LegalStore ProducedSnapshot LedgerProperties DeadlineProperties AdjustmentProperties
    PolicyProperties RuleProperties
begin

text \<open>
  Verification of four parts of the program: the legal application plan of the interest engine and the
  accounting journal, which decide about money, the legal deadlines, and the policy engine, which decides
  what may be done with a case (all paths below \<open>src/project/apps/api/src/modules/\<close>).

  \<^bold>\<open>Legal application plan\<close> (\<open>interest-engine/legal-application-plan/\<close>). A confirmed receipt is
  applied to the buckets of a case in the order the law gives. The official producer forms a canonical
  snapshot of the buckets from a read model (\<open>SnapshotProducer\<close>, official-receivable-snapshot-producer.ts).
  The writer (\<open>LegalWriter\<close>, legal-application-writer.ts) validates the envelope (\<open>SnapshotValidator\<close>,
  canonical-snapshot-validator.ts), runs the waterfall (\<open>ApplyAllocation\<close>, apply-allocation-core.ts, in
  the order of \<open>AllocationOrder\<close>, allocation-order.ts), assembles the plan (\<open>PlanBuilder\<close>,
  legal-application-plan-builder.ts), fingerprints it (\<open>PlanFingerprint\<close>, plan-fingerprint.ts) and stores
  one batch under a lock. Identities are hashes of encoded fields (\<open>CanonicalIdentity\<close>,
  canonical-snapshot-identity.ts; \<open>BucketIdentity\<close>, bucket-instance-identity.ts), texts are read by strict
  parsers (\<open>Primitives\<close>, primitives.ts; \<open>StrictJson\<close>, strict-json-parser.ts) and written canonically
  (\<open>SnapshotSerializer\<close>, canonical-snapshot-serializer.ts). \<open>Contracts\<close> holds the data (contracts.ts).

  \<^bold>\<open>Accounting journal\<close> (\<open>accounting-journal/\<close>). An event of a business component is a source; the
  builder (\<open>JournalBuilder\<close>, accounting-journal.builder.ts) makes a draft of a double entry from it, the
  validators (\<open>JournalValidator\<close>, accounting-journal.validators.ts) check its structure and the rules of its
  source type, the writer (\<open>JournalWriter\<close>, accounting-journal.writer.ts) stores it once per source, the
  reversal service (\<open>JournalReversal\<close>, accounting-journal-reversal.service.ts, with the capacity check of
  policy-engine/effective-permission-mapping.ts) posts the opposite of a stored entry, with a hash of its
  source (\<open>SourceHash\<close>, accounting-journal-source-hash.ts), and the trial balance (\<open>TrialBalance\<close>,
  accounting-journal-trial-balance.service.ts) sums the lines. An administrator posts an entry by hand
  (\<open>ManualAdjustment\<close>, accounting-journal-manual-adjustment.service.ts). \<open>JournalTypes\<close> holds the data
  (accounting-journal.types.ts).

  \<^bold>\<open>Legal deadlines\<close> (\<open>legal-deadline/\<close>). From the facts of a service of documents the rules of the
  law give the day it counts (\<open>LegalServiceDate\<close>, legal-service-date-rule-core.ts), from the kind of the
  proceeding the periods that begin with it (\<open>LegalPeriod\<close>, legal-period-rule-matrix.ts and
  legal-period-calculation.service.ts); two writers keep the deadline of a notification as a chain of
  snapshots (\<open>DeadlineWriter\<close>, service-occurrence-deadline-calculation.service.ts and
  legal-deadline.service.ts).

  \<^bold>\<open>Policy engine\<close> (\<open>policy-engine/\<close>). The actions and the matrix that says how each one fails
  (\<open>PolicyTypes\<close>, types/), the permission of a user (\<open>EffectivePermission\<close>,
  effective-permission-mapping.ts and the resolver), the stages of a case (\<open>StateMachine\<close>, state-machine/),
  the facts and the providers that compute them (\<open>PolicyFacts\<close>, \<open>FactRegistry\<close>, fact-store/), the gates
  and rules on them (\<open>GateChecker\<close>, \<open>RuleEngine\<close>), and the engine that decides, recommends and records
  what was done (\<open>PolicyEngine\<close>, case-policy-engine.service.ts and execution-recorder.service.ts).

  \<^bold>\<open>The model.\<close> A text is a list of UTF-16 code units (\<open>jstr\<close> of \<open>JsText\<close>), a number a finite double as
  the rational it denotes, or a special value (\<open>JsNumber\<close>), a value of type unknown a \<open>jsval\<close>, a date the
  milliseconds of a valid date (\<open>JsDate\<close>); amounts in minor units are integers, as they are \<open>bigint\<close>
  in the code. An interface is a record, a union a datatype, a function a HOL function of the same name,
  a thrown or returned error a value of a sum type. A list of errors a function pushes to is a list that
  is appended. The state of the database is the state that an operation takes and returns.
  What is not under src/ is a parameter: SHA-256 (\<open>sha\<close>), NFC (\<open>nfc\<close>), the database client, the clock
  (\<open>now\<close>), \<open>Date\<close> on texts that are not in the ISO form (\<open>other\<close>), \<open>localeCompare\<close>. The contract a
  component relies on is a locale: \<open>batch_store\<close> (\<open>LegalStore\<close>) and \<open>journal_store\<close> (\<open>JournalStore\<close>)
  for the database, interpreted on the tables of the schema with their unique indexes and checks (the batches
  also with their column types, foreign keys and triggers, of the two migrations on legal applications); the
  deadlines, the adjustments and the policy engine are proved for any client where that is possible, and
  otherwise on tables (\<open>DeadlineStore\<close>, \<open>ManualAdjusted\<close>, \<open>PolicyTables\<close>);
  \<open>consistent_comparator\<close> and \<open>prefix_code\<close> (\<open>Prelude\<close>) for comparison functions and encodings,
  interpreted on those of the code.

  \<^bold>\<open>What is proved.\<close>
  \<^item> \<open>ApplyAllocation\<close>: the waterfall is the specified one, respects the legal order, conserves the
    receipt, and does not depend on the order of the buckets.
  \<^item> \<open>StrictJson\<close>, \<open>SnapshotSerializer\<close>: parsing inverts serializing, repeated members are rejected, and
    the result of the parser does not depend on its fuel. The fuel is twice the length of the text
    plus one: more of it never changes the result.
  \<^item> \<open>CanonicalIdentity\<close>, \<open>BucketIdentity\<close>, \<open>PlanFingerprint\<close>: what is hashed determines the facts.
  \<^item> \<open>PlanBuilder\<close>, \<open>ValidatedEvidence\<close>, \<open>StoredEvidence\<close>, \<open>LegalStore\<close>, \<open>ProducedSnapshot\<close> and this
    theory: an accepted snapshot allocates; a plan conserves the receipt; what was validated fits the columns
    and passes every check, index, foreign key and trigger of the schema; any sequence of writes leaves
    batches that are the waterfall of their stored payload, for a confirmed collection, once per collection;
    what the producer forms can be written.
  \<^item> \<open>JournalSound\<close>, \<open>JournalBuilt\<close>: the structural validation in closed form; which sources give drafts
    that are accepted, for every source type.
  \<^item> \<open>JournalStore\<close>, \<open>JournalLedger\<close>: the invariant of the ledger under interleaved writers, and the
    refinement of the ledger as a map from sources to entries.
  \<^item> \<open>JournalReversed\<close>, \<open>TrialBalanced\<close>: a reversal cancels its original and is made once; the trial
    balance of a ledger balances.
  \<^item> \<open>JournalProperties\<close>, \<open>LedgerProperties\<close>: the properties of the journal with samples.
  \<^item> \<open>ManualAdjusted\<close>, \<open>AdjustmentProperties\<close>: what a manual adjustment changes, and that it is made once.
  \<^item> \<open>DeadlineStore\<close>, \<open>DeadlineProperties\<close>: the snapshots of a notification form one chain under any
    interleaving of the writers; retries, conflicts and errors of a calculation.
  \<^item> \<open>GateProperties\<close>, \<open>StageProperties\<close>, \<open>FactProperties\<close>, \<open>RuleProperties\<close>, \<open>PolicyProperties\<close>: which
    facts block which action, where the stages lead, the order of the providers and what is read back of a
    fact, the best recommendation; an action that fails closed is allowed only after every check, an
    execution counts once; the permission of a user follows from the stored rows; and what the engine does
    not achieve: stored cases never change their stage, an unlogged refusal does not refuse.

  \<^bold>\<open>Not modelled.\<close> The other entry points of the journal (offset adapter, financial statement, shadow
  comparison, cutover readiness), the source hash of \<open>Date\<close> objects, controllers and logging, with the
  masking of personal data in the log of decisions; the interest calculation and the balances of a case,
  which compute with floating-point numbers and a decimal library outside src/ (the metrics of the policy
  engine take these operations as parameters); in the trial balance the rounding of sums of more than
  eighteen digits before the point; in the tables of the batches the ranges of dates and instants; the services for cases, clients and documents, which are
  mostly queries; and the front end. Transactions are atomic
  in the model, except where interference between the reads of a writer and its insert is stated
  (\<open>interfering\<close> of \<open>JournalStore\<close>).
\<close>

section \<open>From the producer to the stored batch\<close>

text \<open>The command of the writer for a produced envelope, with the keys of the request.\<close>

definition apply_command ::
  "ProduceOfficialSnapshotCommandV1 \<Rightarrow> CanonicalSnapshotEnvelopeV1 \<Rightarrow> jstr \<Rightarrow> jstr \<Rightarrow>
   BuildLegalApplicationPlanCommand" where
  "apply_command command env key commandHash =
     \<lparr>cm_tenantId = pc_tenantId command, cm_caseId = pc_caseId command,
      cm_collectionId = pc_targetCollectionId command,
      cm_receiptAmountMinor = int (digits_val (pc_receiptAmountMinor command)),
      cm_currency = pc_currency command, cm_minorUnit = pc_minorUnit command,
      cm_applicationEffectiveDate = pc_applicationEffectiveDate command,
      cm_expectedSnapshotRef = en_snapshotRef env, cm_expectedSnapshotHash = en_snapshotHash env,
      cm_expectedSourceVersionSetHash = sn_sourceVersionSetHash (en_snapshot env),
      cm_expectedHistoryBoundaryRef = sn_historyBoundaryRef (en_snapshot env),
      cm_idempotencyKey = key, cm_commandHash = commandHash\<rparr>"

definition apply_input ::
  "ProduceOfficialSnapshotCommandV1 \<Rightarrow> CanonicalSnapshotEnvelopeV1 \<Rightarrow> jstr \<Rightarrow> jstr \<Rightarrow> jsdate \<Rightarrow>
   WriteLegalApplicationPlanInput" where
  "apply_input command env key commandHash createdAt =
     \<lparr>wi_command = apply_command command env key commandHash, wi_snapshotEnvelope = env,
      wi_createdAt = createdAt\<rparr>"

lemma decimal_text: "parseMinorAmountText s z \<noteq> None \<Longrightarrow> js_of_nat (digits_val s) = s"
  using js_of_nat_digits_val [of s] by (simp add: parseMinorAmountText_def split: if_split_asm)

text \<open>The validator accepts the request of the writer, with the same result as the producer's own call.\<close>

lemma produced_validates:
  assumes "sha_hex sha" "wf_input command read"
    and prod: "produceOfficialReceivableSnapshotFromReadModel nfc sha command read = Inr env"
    and keys: "key_text nfc key" "key_text nfc commandHash"
      "codePointCount key \<le> MAX_CONTEXT_IDENTIFIER_CODE_POINTS"
  shows "\<exists>v. validateCanonicalSnapshot nfc sha
      (validator_input (apply_input command env key commandHash createdAt)) = Inr v \<and> env = envelope_of v"
proof -
  obtain sources hash built v where r: "validateCommand nfc command = None"
    "buildSourceVersionSet nfc sha read = Some (sources, hash)"
    "validateCanonicalSnapshot nfc sha (producer_input sha command read sources hash built) = Inr v"
    "env = envelope_of v"
    using prod unfolding produced_Inr by blast
  obtain built' where sn: "en_snapshot env = snapshot_of command read sources hash built'"
    by (rule produced_parts [OF assms(1,2) prod]) (use r(2) in simp)
  obtain m c e payload raw cmd ev facts vers srcs bks where
    o: "openEnvelope (producer_input sha command read sources hash built) = Inr (m, c, e, payload, raw)" and
    a: "accepts nfc sha m c e payload raw cmd ev facts vers srcs bks" and
    v: "v = validated payload ev facts vers srcs bks"
    using r(3) unfolding validateCanonicalSnapshot_Inr by blast
  note o' = o [unfolded openEnvelope_Inr producer_input_def Let_def producer_validator_input_def]
  have ev: "fld e ''snapshotRef'' = VStr (ev_snapshotRef ev)" "fld e ''snapshotHash'' = VStr (ev_snapshotHash ev)"
    using a by (auto simp: accepts_def parseEnvelopeEvidence_Some)
  let ?c = "command_value (apply_command command env key commandHash)"
  let ?e = "envelope_value env"
  let ?m = "[(js ''direction'', VStr APPLY), (js ''command'', VObj ?c), (js ''snapshotEnvelope'', VObj ?e)]"
  have env: "en_snapshotRef env = ev_snapshotRef ev" "en_snapshotHash env = ev_snapshotHash ev"
    "en_canonicalPayload env = payload"
    by (simp_all add: r(4) v envelope_of_def validated_def)
  have c: "c = [(js ''tenantId'', VStr (pc_tenantId command)), (js ''caseId'', VStr (pc_caseId command)),
     (js ''collectionId'', VStr (pc_targetCollectionId command)),
     (js ''receiptAmountMinor'', VStr (pc_receiptAmountMinor command)),
     (js ''currency'', VStr (pc_currency command)), (js ''minorUnit'', VNum (pc_minorUnit command)),
     (js ''applicationEffectiveDate'', VStr (pc_applicationEffectiveDate command)),
     (js ''expectedSnapshotRef'', VStr (ev_snapshotRef ev)),
     (js ''expectedSnapshotHash'', VStr (ev_snapshotHash ev)),
     (js ''expectedSourceVersionSetHash'', VStr hash),
     (js ''expectedHistoryBoundaryRef'', VStr (rm_historyBoundaryRef read)),
     (js ''idempotencyKey'', VStr PRODUCER_KEY), (js ''commandHash'', VStr PRODUCER_KEY)]"
    using o' ev by (auto simp: obj_get_def simp del: serializeCanonicalJson.simps)
  have same: "fld ?c f = fld c f" if "f \<noteq> ''idempotencyKey''" "f \<noteq> ''commandHash''" for f
    using that decimal_text [OF validateCommand_None(3) [OF r(1)]]
    by (simp add: c command_value_def apply_command_def env sn obj_get_def)
       (simp add: snapshot_of_def)
  have "fld ?c ''idempotencyKey'' = VStr key" "fld ?c ''commandHash'' = VStr commandHash"
    by (simp_all add: command_value_def apply_command_def obj_get_def js_eval)
  from accepts_other_keys [OF a same this keys(1,2,3) refl]
  have "accepts nfc sha m ?c e payload raw (cmd\<lparr>cm_idempotencyKey := key, cm_commandHash := commandHash\<rparr>) ev
      facts vers srcs bks" .
  moreover have e': "fld ?e ''snapshotRef'' = fld e ''snapshotRef''" "fld ?e ''snapshotHash'' = fld e ''snapshotHash''"
    "fld ?e ''canonicalPayload'' = VStr payload"
    unfolding ev by (simp_all add: envelope_value_def env obj_get_def js_eval)
  ultimately have "accepts nfc sha ?m ?c ?e payload raw
      (cmd\<lparr>cm_idempotencyKey := key, cm_commandHash := commandHash\<rparr>) ev facts vers srcs bks"
    by (simp add: accepts_def parseEnvelopeEvidence_Some) (simp add: obj_get_def js_eval)
  moreover have "openEnvelope (validator_input (apply_input command env key commandHash createdAt)) =
      Inr (?m, ?c, ?e, payload, raw)"
    using o e'(3) unfolding openEnvelope_Inr
    by (simp add: validator_input_def apply_input_def) (simp add: obj_get_def js_eval)
  ultimately have "validateCanonicalSnapshot nfc sha
      (validator_input (apply_input command env key commandHash createdAt)) = Inr v"
    unfolding validateCanonicalSnapshot_Inr v by blast
  with r(4) show ?thesis by blast
qed

text \<open>C10: the producer and the writer fit together: what the producer forms for a confirmed collection that
  has no batch yet can be written with any idempotency key and command hash, in one batch that carries the
  envelope's reference, hash and payload and the versions of the read model.\<close>

theorem produced_snapshot_is_written:
  assumes "sha_hex sha" "wf_input command read"
    and "produceOfficialReceivableSnapshotFromReadModel nfc sha command read = Inr env"
    and "key_text nfc key" "key_text nfc commandHash" "codePointCount key \<le> MAX_CONTEXT_IDENTIFIER_CODE_POINTS"
    and "input = apply_input command env key commandHash (Some now)"
    and "collection_ready (wi_command input) t" "not_yet_applied (wi_command input) t"
  shows "\<exists>plan. writeApply nfc sha other table_client input t =
      (Inr \<lparr>wr_batchId = fresh_id t, wr_replayed = False, wr_plan = plan\<rparr>,
       t\<lparr>tb_batches := tb_batches t @ [\<lparr>br_id = fresh_id t, br_data = batch_data other input plan\<rparr>]\<rparr>) \<and>
    lp_snapshotRef plan = en_snapshotRef env \<and> lp_snapshotHash plan = en_snapshotHash env \<and>
    bd_snapshotCanonicalPayload (batch_data other input plan) = en_canonicalPayload env \<and>
    bd_calculationRuleVersion (batch_data other input plan) = rm_calculationRuleVersion read \<and>
    bd_policyVersion (batch_data other input plan) = rm_policyVersion read"
proof -
  obtain v where v: "validateCanonicalSnapshot nfc sha (validator_input input) = Inr v" "env = envelope_of v"
    using produced_validates [OF assms(1-6)] assms(7) by blast
  let ?plan = "expected_plan nfc sha (assembly_input (wi_command input) v)"
  have "validateCommand nfc command = None" using assms(3) unfolding produced_Inr by blast
  then have "digits_val (pc_receiptAmountMinor command) \<noteq> 0"
    by (auto dest!: validateCommand_None(3) simp: parseMinorAmountText_def Let_def split: if_split_asm)
  then have plan: "preparePlan nfc sha input = Inr ?plan"
    unfolding preparePlan_spec [OF assms(1)] v(1) by (simp add: assms(7) apply_input_def apply_command_def)
  have "en_snapshot (wi_snapshotEnvelope input) = vs_snapshot v"
    by (simp add: assms(7) apply_input_def v(2) envelope_of_def)
  note written = write_creates [OF assms(1) plan validated_storable [OF v(1) assms(1) plan this] assms(8,9)]
  obtain sources hash built where sn: "en_snapshot env = snapshot_of command read sources hash built"
    by (rule produced_parts [OF assms(1-3)])
  have "lp_snapshotRef ?plan = en_snapshotRef env" "lp_snapshotHash ?plan = en_snapshotHash env"
    by (simp_all add: expected_plan_def Let_def assembly_input_def v(2) envelope_of_def)
  moreover have "wi_snapshotEnvelope input = env" by (simp add: assms(7) apply_input_def)
  then have "bd_snapshotCanonicalPayload (batch_data other input ?plan) = en_canonicalPayload env"
    "bd_calculationRuleVersion (batch_data other input ?plan) = rm_calculationRuleVersion read"
    "bd_policyVersion (batch_data other input ?plan) = rm_policyVersion read"
    by (simp_all add: batch_data_def Let_def sn) (simp_all add: snapshot_of_def)
  ultimately show ?thesis using written by blast
qed

lemma produced_snapshot_is_written_witness:
  "\<exists>plan t'. writeApply (\<lambda>s. s) sample_sha (\<lambda>s. None) table_client
      (apply_input sample_produce_command (envelope_of sample_accepted) (js ''k'') (js ''ch'') (Some 0))
      sample_tables =
    (Inr \<lparr>wr_batchId = fresh_id sample_tables, wr_replayed = False, wr_plan = plan\<rparr>, t') \<and>
    length (tb_batches t') = 1"
proof -
  let ?i = "apply_input sample_produce_command (envelope_of sample_accepted) (js ''k'') (js ''ch'') (Some 0)"
  have keys: "key_text (\<lambda>s. s) (js ''k'')" "key_text (\<lambda>s. s) (js ''ch'')"
    "codePointCount (js ''k'') \<le> MAX_CONTEXT_IDENTIFIER_CODE_POINTS"
    using code_points_length [of "js ''k''"]
    by (simp_all add: key_text_def printable_clean codePointCount_def MAX_CONTEXT_IDENTIFIER_CODE_POINTS_def)
  have t: "collection_ready (wi_command ?i) sample_tables" "not_yet_applied (wi_command ?i) sample_tables"
    by (simp_all add: collection_ready_def not_yet_applied_def sample_tables_def apply_input_def apply_command_def
        sample_produce_command_def CONFIRMED_def)
  from produced_snapshot_is_written [OF sample_sha_hex sample_wf_input sample_produces keys refl t,
      of "\<lambda>s. None"]
  show ?thesis by (auto simp: sample_tables_def)
qed

end
